(* ===== verification/Prelude.thy ===== *)
theory Prelude
  imports Complex_Main "HOL-Library.Word" "HOL-Library.Multiset"
begin

text \<open>
  Shared vocabulary of the development: bytes and byte strings, Python text as a list of
  code points, the exceptions the modelled code raises, Python slicing, the big- and
  little-endian integer codecs of the \<open>struct\<close> module, the text codecs
  (\<open>ascii\<close>, \<open>latin-1\<close>, \<open>utf-8\<close> with \<open>errors="ignore"\<close> or
  \<open>"replace"\<close>), decimal and hexadecimal formatting, and insertion-ordered
  dictionaries of Python values.  The lemma collections are \<open>slices\<close> (length and
  append laws of slices), \<open>codec\<close> (integer codecs) and \<open>dicts\<close>.
\<close>

unbundle bit_operations_syntax

text \<open>Offsets stay sums such as \<open>cursor + 2\<close>; they are not turned into successors.\<close>

declare add_2_eq_Suc [simp del] add_2_eq_Suc' [simp del]

named_theorems slices
named_theorems codec
named_theorems dicts

section \<open>Bytes, text and exceptions\<close>

type_synonym byte = "8 word"
type_synonym bytes = "8 word list"

text \<open>A Python \<open>str\<close>: the list of its code points.\<close>

type_synonym ustr = "nat list"

definition lit :: "string \<Rightarrow> ustr" where
  "lit s = map of_char s"

text \<open>The exceptions that leave or are caught by the modelled code.\<close>

datatype py_error = StructError | IndexError | ValueError | KeyError | AttributeError | TypeError

section \<open>Slices\<close>

text \<open>\<open>xs[a:b]\<close> for non-negative bounds; out-of-range bounds are clipped.\<close>

definition slice :: "nat \<Rightarrow> nat \<Rightarrow> 'a list \<Rightarrow> 'a list" where
  "slice a b xs = take (b - a) (drop a xs)"

lemma length_slice [slices, simp]: "length (slice a b xs) = min (b - a) (length xs - a)"
  by (simp add: slice_def min.commute)

lemma slice_append_right [slices]:
  "length xs \<le> a \<Longrightarrow> slice a b (xs @ ys) = slice (a - length xs) (b - length xs) ys"
  by (simp add: slice_def)

lemma slice_append_left [slices]: "b \<le> length xs \<Longrightarrow> slice a b (xs @ ys) = slice a b xs"
  by (simp add: slice_def)

lemma slice_all [slices]: "length xs \<le> b \<Longrightarrow> slice 0 b xs = xs"
  by (simp add: slice_def)

lemma slice_prefix [slices]: "slice 0 (length xs) (xs @ ys) = xs"
  by (simp add: slice_def)

lemma slice_Cons [simp]: "slice (Suc a) (Suc b) (x # xs) = slice a b xs"
  by (simp add: slice_def)

lemma slice_middle [slices]:
  "a = length xs \<Longrightarrow> b = a + length ys \<Longrightarrow> slice a b (xs @ ys @ zs) = ys"
  by (simp add: slice_def)

lemma slice_take [slices]: "b \<le> n \<Longrightarrow> slice a b (take n xs) = slice a b xs"
  by (simp add: slice_def drop_take take_take min_def)

lemma set_slice_subset: "set (slice a b xs) \<subseteq> set xs"
  unfolding slice_def by (meson order_trans set_drop_subset set_take_subset)

section \<open>Integers in byte strings\<close>

definition be_nat :: "bytes \<Rightarrow> nat" where
  "be_nat bs = foldl (\<lambda>n b. n * 256 + unat b) 0 bs"

fun le_nat :: "bytes \<Rightarrow> nat" where
  "le_nat [] = 0"
| "le_nat (b # bs) = unat b + 256 * le_nat bs"

fun le_bytes :: "nat \<Rightarrow> nat \<Rightarrow> bytes" where
  "le_bytes 0 n = []"
| "le_bytes (Suc k) n = word_of_nat (n mod 256) # le_bytes k (n div 256)"

definition be_bytes :: "nat \<Rightarrow> nat \<Rightarrow> bytes" where
  "be_bytes k n = rev (le_bytes k n)"

lemma unat_byte_lt [simp]: "unat (b :: byte) < 256"
  using unsigned_less [of b] by simp

lemma be_nat_rev [codec]: "be_nat (rev bs) = le_nat bs"
  by (induction bs) (simp_all add: be_nat_def)

lemma be_nat_le_nat: "be_nat bs = le_nat (rev bs)"
  by (metis be_nat_rev rev_rev_ident)

lemma le_nat_bound: "le_nat bs < 256 ^ length bs"
proof (induction bs)
  case (Cons b bs)
  have "unat b + 256 * le_nat bs < 256 * Suc (le_nat bs)"
    using unat_byte_lt [of b] by simp
  also have "\<dots> \<le> 256 * 256 ^ length bs"
    using Cons.IH by (intro mult_le_mono) auto
  finally show ?case by simp
qed simp

lemma be_nat_bound: "be_nat bs < 256 ^ length bs"
  using le_nat_bound [of "rev bs"] by (simp add: be_nat_le_nat)

lemma length_le_bytes [simp]: "length (le_bytes k n) = k"
  by (induction k arbitrary: n) auto

lemma le_bytes_numeral [simp]:
  "le_bytes (numeral k) n = word_of_nat (n mod 256) # le_bytes (pred_numeral k) (n div 256)"
  by (simp only: numeral_eq_Suc [of k] le_bytes.simps)

lemma length_be_bytes [simp]: "length (be_bytes k n) = k"
  by (simp add: be_bytes_def)

lemma unat_of_byte [simp]: "unat (word_of_nat (n mod 256) :: byte) = n mod 256"
  by (simp add: unat_of_nat)

lemma le_nat_le_bytes [codec]: "le_nat (le_bytes k n) = n mod 256 ^ k"
proof (induction k arbitrary: n)
  case (Suc k)
  have "n mod 256 + 256 * (n div 256 mod 256 ^ k) = n mod (256 * 256 ^ k)"
    by (simp add: mod_mult2_eq)
  with Suc show ?case by simp
qed simp

lemma be_nat_be_bytes [codec]: "be_nat (be_bytes k n) = n mod 256 ^ k"
  by (simp add: be_bytes_def be_nat_rev le_nat_le_bytes)

lemma be_nat_be_bytes_id [codec]: "n < 256 ^ k \<Longrightarrow> be_nat (be_bytes k n) = n"
  by (simp add: be_nat_be_bytes)

lemma be_nat_Nil [simp]: "be_nat [] = 0"
  by (simp add: be_nat_def)

lemma be_nat_two: "be_nat [a, b] = unat a * 256 + unat b"
  by (simp add: be_nat_def)

text \<open>\<open>struct.unpack("!H", bs)[0]\<close>: the buffer must have exactly two bytes.\<close>

definition unpack_H :: "bytes \<Rightarrow> py_error + nat" where
  "unpack_H bs = (if length bs = 2 then Inr (be_nat bs) else Inl StructError)"

text \<open>Masks and shifts of a byte as arithmetic.\<close>

lemma byte_take_bit: "unat (take_bit n b :: byte) = unat b mod 2 ^ n"
proof -
  have "unat (take_bit n b) = take_bit n (unat b)" by (rule unsigned_take_bit_eq)
  then show ?thesis by (simp only: take_bit_eq_mod)
qed

lemma byte_drop_bit: "unat (drop_bit n b :: byte) = unat b div 2 ^ n"
proof -
  have "unat (drop_bit n b) = drop_bit n (take_bit LENGTH(8) (unat b))"
    by (rule unsigned_drop_bit_eq)
  moreover have "take_bit LENGTH(8) (unat b) = unat b"
    by (rule take_bit_nat_eq_self) simp
  ultimately show ?thesis by (simp only: drop_bit_eq_div)
qed

lemma byte_and_take_bit:
  "(b AND 0x7F :: byte) = take_bit 7 b" "(b AND 0x3F :: byte) = take_bit 6 b"
  "(b AND 0x1F :: byte) = take_bit 5 b" "(b AND 0x0F :: byte) = take_bit 4 b"
  "(b AND 0x07 :: byte) = take_bit 3 b" "(b AND 0x03 :: byte) = take_bit 2 b"
  by (simp_all add: take_bit_eq_mask mask_eq_exp_minus_1)

lemma byte_and_mask:
  "unat (b AND 0x7F :: byte) = unat b mod 128" "unat (b AND 0x3F :: byte) = unat b mod 64"
  "unat (b AND 0x1F :: byte) = unat b mod 32" "unat (b AND 0x0F :: byte) = unat b mod 16"
  "unat (b AND 0x07 :: byte) = unat b mod 8" "unat (b AND 0x03 :: byte) = unat b mod 4"
  unfolding byte_and_take_bit by (simp_all only: byte_take_bit) simp_all

lemma byte_and_80: "(b AND 0x80 :: byte) = 0 \<longleftrightarrow> unat b < 128"
proof -
  have "(b AND 0x80 :: byte) = 0 \<longleftrightarrow> \<not> bit b 7"
    using and_exp_eq_0_iff_not_bit [of b 7] by simp
  also have "\<dots> \<longleftrightarrow> even (unat b div 128)"
  proof -
    have "bit (unat b) 7 \<longleftrightarrow> bit b 7" by (simp add: bit_unsigned_iff)
    then show ?thesis using bit_iff_odd [of "unat b" 7] by auto
  qed
  also have "\<dots> \<longleftrightarrow> unat b < 128"
  proof (cases "unat b < 128")
    case False
    then have "unat b div 128 = 1"
      using unat_byte_lt [of b] by (intro div_nat_eqI) auto
    with False show ?thesis by simp
  qed simp
  finally show ?thesis .
qed

lemma unat_word_of_nat_byte: "n < 256 \<Longrightarrow> unat (word_of_nat n :: byte) = n"
  by (simp add: unat_of_nat)

section \<open>Text codecs\<close>

definition repl_char :: nat where
  "repl_char = 0xFFFD"

definition ascii_ignore :: "bytes \<Rightarrow> ustr" where
  "ascii_ignore bs = map unat (filter (\<lambda>b. b < 0x80) bs)"

definition ascii_replace :: "bytes \<Rightarrow> ustr" where
  "ascii_replace bs = map (\<lambda>b. if b < 0x80 then unat b else repl_char) bs"

definition latin1 :: "bytes \<Rightarrow> ustr" where
  "latin1 bs = map unat bs"

definition cont_byte :: "byte \<Rightarrow> bool" where
  "cont_byte b \<longleftrightarrow> 0x80 \<le> b \<and> b \<le> 0xBF"

text \<open>
  The CPython UTF-8 decoder: an ill-formed maximal subpart is replaced by \<open>r\<close>
  (\<open>[0xFFFD]\<close> for \<open>errors="replace"\<close>, \<open>[]\<close> for \<open>"ignore"\<close>) and
  decoding resumes after it.  \<open>utf8_second b0 b1\<close> is the range of the second byte.
\<close>

definition utf8_second :: "byte \<Rightarrow> byte \<Rightarrow> bool" where
  "utf8_second b0 b1 \<longleftrightarrow> cont_byte b1 \<and>
     (b0 = 0xE0 \<longrightarrow> 0xA0 \<le> b1) \<and> (b0 = 0xED \<longrightarrow> b1 \<le> 0x9F) \<and>
     (b0 = 0xF0 \<longrightarrow> 0x90 \<le> b1) \<and> (b0 = 0xF4 \<longrightarrow> b1 \<le> 0x8F)"

function utf8_decode :: "ustr \<Rightarrow> bytes \<Rightarrow> ustr" where
  "utf8_decode r [] = []"
| "utf8_decode r (b0 # bs) =
    (if b0 < 0x80 then unat b0 # utf8_decode r bs
     else if 0xC2 \<le> b0 \<and> b0 \<le> 0xDF then
       (case bs of
          b1 # bs1 \<Rightarrow>
            if cont_byte b1
            then ((unat b0 - 0xC0) * 64 + (unat b1 - 0x80)) # utf8_decode r bs1
            else r @ utf8_decode r bs
        | [] \<Rightarrow> r)
     else if 0xE0 \<le> b0 \<and> b0 \<le> 0xEF then
       (case bs of
          b1 # bs1 \<Rightarrow>
            if \<not> utf8_second b0 b1 then r @ utf8_decode r bs
            else (case bs1 of
                b2 # bs2 \<Rightarrow>
                  if cont_byte b2
                  then ((unat b0 - 0xE0) * 4096 + (unat b1 - 0x80) * 64 + (unat b2 - 0x80))
                       # utf8_decode r bs2
                  else r @ utf8_decode r bs1
              | [] \<Rightarrow> r)
        | [] \<Rightarrow> r)
     else if 0xF0 \<le> b0 \<and> b0 \<le> 0xF4 then
       (case bs of
          b1 # bs1 \<Rightarrow>
            if \<not> utf8_second b0 b1 then r @ utf8_decode r bs
            else (case bs1 of
                b2 # bs2 \<Rightarrow>
                  if \<not> cont_byte b2 then r @ utf8_decode r bs1
                  else (case bs2 of
                      b3 # bs3 \<Rightarrow>
                        if cont_byte b3
                        then ((unat b0 - 0xF0) * 262144 + (unat b1 - 0x80) * 4096 +
                              (unat b2 - 0x80) * 64 + (unat b3 - 0x80)) # utf8_decode r bs3
                        else r @ utf8_decode r bs2
                    | [] \<Rightarrow> r)
              | [] \<Rightarrow> r)
        | [] \<Rightarrow> r)
     else r @ utf8_decode r bs)"
  by pat_completeness auto
termination
  by (relation "measure (\<lambda>(r, bs). length bs)") auto

declare utf8_decode.simps(2) [simp del]

definition utf8_replace :: "bytes \<Rightarrow> ustr" where
  "utf8_replace bs = utf8_decode [repl_char] bs"

definition utf8_ignore :: "bytes \<Rightarrow> ustr" where
  "utf8_ignore bs = utf8_decode [] bs"

lemma utf8_decode_ascii: "\<forall>b \<in> set bs. b < 0x80 \<Longrightarrow> utf8_decode r bs = map unat bs"
  by (induction bs) (auto simp: utf8_decode.simps(2))

lemma ascii_ignore_ascii: "\<forall>b \<in> set bs. b < 0x80 \<Longrightarrow> ascii_ignore bs = map unat bs"
  by (simp add: ascii_ignore_def filter_id_conv [THEN iffD2])

section \<open>Text operations\<close>

text \<open>The code points for which \<open>str.isspace\<close> holds.\<close>

definition is_space :: "nat \<Rightarrow> bool" where
  "is_space c \<longleftrightarrow> (9 \<le> c \<and> c \<le> 13) \<or> (28 \<le> c \<and> c \<le> 32) \<or> c = 0x85 \<or> c = 0xA0 \<or>
     c = 0x1680 \<or> (0x2000 \<le> c \<and> c \<le> 0x200A) \<or> c = 0x2028 \<or> c = 0x2029 \<or>
     c = 0x202F \<or> c = 0x205F \<or> c = 0x3000"

definition rstrip_by :: "(nat \<Rightarrow> bool) \<Rightarrow> ustr \<Rightarrow> ustr" where
  "rstrip_by p t = rev (dropWhile p (rev t))"

definition strip_by :: "(nat \<Rightarrow> bool) \<Rightarrow> ustr \<Rightarrow> ustr" where
  "strip_by p t = rstrip_by p (dropWhile p t)"

definition strip :: "ustr \<Rightarrow> ustr" where
  "strip t = strip_by is_space t"

definition rstrip_nul :: "ustr \<Rightarrow> ustr" where
  "rstrip_nul t = rstrip_by (\<lambda>c. c = 0) t"

fun starts_with :: "'a list \<Rightarrow> 'a list \<Rightarrow> bool" where
  "starts_with [] t = True"
| "starts_with (p # ps) [] = False"
| "starts_with (p # ps) (t # ts) = (p = t \<and> starts_with ps ts)"

fun contains_sub :: "'a list \<Rightarrow> 'a list \<Rightarrow> bool" where
  "contains_sub p [] = (p = [])"
| "contains_sub p (t # ts) = (starts_with p (t # ts) \<or> contains_sub p ts)"

text \<open>\<open>str.lower\<close> and \<open>str.upper\<close> on code points below 128; others are kept,
  which is what they do to U+FFFD, the only other code point of text decoded from ASCII.\<close>

definition lower_char :: "nat \<Rightarrow> nat" where
  "lower_char c = (if 65 \<le> c \<and> c \<le> 90 then c + 32 else c)"

definition lower :: "ustr \<Rightarrow> ustr" where
  "lower t = map lower_char t"

definition upper_char :: "nat \<Rightarrow> nat" where
  "upper_char c = (if 97 \<le> c \<and> c \<le> 122 then c - 32 else c)"

definition upper :: "ustr \<Rightarrow> ustr" where
  "upper t = map upper_char t"

lemma starts_with_append [simp]: "starts_with p (p @ t)"
  by (induction p) auto

lemma starts_with_iff: "starts_with p t \<longleftrightarrow> (\<exists>s. t = p @ s)"
  by (induction p t rule: starts_with.induct) auto

definition lower_s :: "string \<Rightarrow> string" where
  "lower_s s = map char_of (lower (lit s))"

text \<open>The name of a DNS service, and a name without its final dots.\<close>

definition service_name :: "ustr \<Rightarrow> bool" where
  "service_name t \<longleftrightarrow> contains_sub (lit ''._tcp.'') t \<or> contains_sub (lit ''._udp.'') t"

definition rstrip_dots :: "ustr \<Rightarrow> ustr" where
  "rstrip_dots t = rstrip_by (\<lambda>c. c = 46) t"

lemma contains_sub_iff: "contains_sub p t \<longleftrightarrow> (\<exists>a b. t = a @ p @ b)"
proof (induction p t rule: contains_sub.induct)
  case (2 p t ts)
  show ?case (is "?l = ?r")
  proof
    assume ?l
    then show ?r
      using 2 by (metis append_Cons append_Nil contains_sub.simps(2) starts_with_iff)
  next
    assume ?r
    then obtain a b where ab: "t # ts = a @ p @ b" by blast
    show ?l
    proof (cases a)
      case Nil
      with ab have "starts_with p (t # ts)" by simp
      then show ?thesis by simp
    next
      case (Cons x a')
      with ab 2 show ?thesis by auto
    qed
  qed
qed auto

section \<open>Decimal and hexadecimal formatting\<close>

fun digits_rev :: "nat \<Rightarrow> nat \<Rightarrow> nat list" where
  "digits_rev base n =
     (if base < 2 \<or> n < base then [n] else (n mod base) # digits_rev base (n div base))"

declare digits_rev.simps [simp del]

definition digit_char :: "nat \<Rightarrow> nat" where
  "digit_char d = (if d < 10 then 48 + d else 87 + d)"

text \<open>\<open>str(n)\<close> of a non-negative int, and \<open>f"{n:x}"\<close>.\<close>

definition str_nat :: "nat \<Rightarrow> ustr" where
  "str_nat n = map digit_char (rev (digits_rev 10 n))"

definition str_int :: "int \<Rightarrow> ustr" where
  "str_int i = (if i < 0 then lit ''-'' @ str_nat (nat (- i)) else str_nat (nat i))"

definition hex_nat :: "nat \<Rightarrow> ustr" where
  "hex_nat n = map digit_char (rev (digits_rev 16 n))"

text \<open>\<open>str.rjust(w, "0")\<close>: zero padding on the left up to the width.\<close>

definition zfill :: "nat \<Rightarrow> ustr \<Rightarrow> ustr" where
  "zfill w t = replicate (w - length t) 48 @ t"

text \<open>\<open>f"{n:#0wx}"\<close>: the width counts the \<open>0x\<close> prefix.\<close>

definition hex_prefixed :: "nat \<Rightarrow> nat \<Rightarrow> ustr" where
  "hex_prefixed w n = [48, 120] @ zfill (w - 2) (hex_nat n)"

text \<open>\<open>bytes.hex()\<close>.\<close>

definition hex_byte :: "byte \<Rightarrow> ustr" where
  "hex_byte b = [digit_char (unat b div 16), digit_char (unat b mod 16)]"

definition hex_bytes :: "bytes \<Rightarrow> ustr" where
  "hex_bytes bs = concat (map hex_byte bs)"

lemma length_hex_bytes [simp]: "length (hex_bytes bs) = 2 * length bs"
  by (induction bs) (simp_all add: hex_bytes_def hex_byte_def)

lemma length_zfill [simp]: "length (zfill w t) = max w (length t)"
  by (simp add: zfill_def)

lemma digits_rev_bound: "2 \<le> base \<Longrightarrow> d \<in> set (digits_rev base n) \<Longrightarrow> d < base"
proof (induction base n rule: digits_rev.induct)
  case (1 base n)
  then show ?case
    by (auto simp: digits_rev.simps [of base n] split: if_splits)
qed

lemma digits_rev_nonempty [simp]: "digits_rev base n \<noteq> []"
  by (subst digits_rev.simps) simp

lemma undigits: "2 \<le> base \<Longrightarrow> foldr (\<lambda>d a. d + base * a) (digits_rev base n) 0 = n"
proof (induction base n rule: digits_rev.induct)
  case (1 base n)
  then show ?case
    by (cases "n < base") (simp_all add: digits_rev.simps [of base n])
qed

lemma str_nat_nonempty [simp]: "str_nat n \<noteq> []"
  by (simp add: str_nat_def)

lemma str_nat_decimal: "c \<in> set (str_nat n) \<Longrightarrow> 48 \<le> c \<and> c \<le> 57"
  using digits_rev_bound [of 10 _ n] by (fastforce simp: str_nat_def digit_char_def)

lemma str_nat_inject [simp]: "str_nat m = str_nat n \<longleftrightarrow> m = n"
proof
  assume eq: "str_nat m = str_nat n"
  have inj: "inj_on digit_char {d. d < 10}"
    by (auto simp: inj_on_def digit_char_def)
  have sub: "set (digits_rev 10 k) \<subseteq> {d. d < 10}" for k
    using digits_rev_bound [of 10 _ k] by auto
  have "map digit_char (digits_rev 10 m) = map digit_char (digits_rev 10 n)"
    using eq by (simp add: str_nat_def rev_map [symmetric])
  moreover have "inj_on digit_char (set (digits_rev 10 m) \<union> set (digits_rev 10 n))"
    by (rule inj_on_subset [OF inj]) (simp add: sub)
  ultimately have "digits_rev 10 m = digits_rev 10 n"
    by (rule map_inj_on)
  moreover have "(2::nat) \<le> 10" by simp
  ultimately show "m = n" using undigits [of 10] by metis
qed simp

lemma digits_rev_small: "n < base \<Longrightarrow> digits_rev base n = [n]"
  by (simp add: digits_rev.simps [of base n])

lemma digits_rev_two: "2 \<le> base \<Longrightarrow> n < base * base \<Longrightarrow> length (digits_rev base n) \<le> 2"
proof -
  assume b: "2 \<le> base" "n < base * base"
  then have "n div base < base" by (simp add: less_mult_imp_div_less)
  then have "length (digits_rev base (n div base)) = 1" by (simp add: digits_rev_small)
  then show ?thesis by (simp add: digits_rev.simps [of base n])
qed

lemma length_str_nat_99: "length (str_nat (min n 99)) \<le> 2"
  using digits_rev_two [of 10 "min n 99"] by (simp add: str_nat_def)

text \<open>\<open>sep.join(parts)\<close>.\<close>

fun join :: "'a list \<Rightarrow> 'a list list \<Rightarrow> 'a list" where
  "join sep [] = []"
| "join sep [x] = x"
| "join sep (x # y # ys) = x @ sep @ join sep (y # ys)"

text \<open>\<open>t.split(sep)\<close> for a separator of one element: never empty.\<close>

fun split_on :: "'a \<Rightarrow> 'a list \<Rightarrow> 'a list list" where
  "split_on c [] = [[]]"
| "split_on c (x # xs) =
     (if x = c then [] # split_on c xs
      else (case split_on c xs of [] \<Rightarrow> [[x]] | p # ps \<Rightarrow> (x # p) # ps))"

lemma split_on_nonempty [simp]: "split_on c xs \<noteq> []"
  by (induction xs) (auto split: list.splits)

lemma join_split_on: "join [c] (split_on c xs) = xs"
proof (induction xs)
  case (Cons x xs)
  show ?case
  proof (cases "split_on c xs")
    case Nil
    then show ?thesis by simp
  next
    case (Cons p ps)
    with Cons.IH show ?thesis by (cases ps) auto
  qed
qed simp

lemma split_on_no_sep: "c \<notin> set x \<Longrightarrow> split_on c x = [x]"
  by (induction x) auto

lemma split_on_append: "c \<notin> set x \<Longrightarrow> split_on c (x @ c # ys) = x # split_on c ys"
  by (induction x) auto

lemma split_on_join:
  "xs \<noteq> [] \<Longrightarrow> \<forall>x \<in> set xs. c \<notin> set x \<Longrightarrow> split_on c (join [c] xs) = xs"
proof (induction "[c]" xs rule: join.induct)
  case (3 x y ys)
  then show ?case by (simp add: split_on_append)
qed (simp_all add: split_on_no_sep)

lemma join_inject:
  assumes "\<forall>x \<in> set xs. x \<noteq> [] \<and> c \<notin> set x" and "\<forall>x \<in> set ys. x \<noteq> [] \<and> c \<notin> set x"
  shows "join [c] xs = join [c] ys \<longleftrightarrow> xs = ys"
proof
  have ne: "join [c] zs \<noteq> []" if "zs \<noteq> []" "\<forall>z \<in> set zs. z \<noteq> []" for zs :: "'a list list"
    using that by (cases "([c], zs)" rule: join.cases) auto
  assume eq: "join [c] xs = join [c] ys"
  show "xs = ys"
  proof (cases "xs = [] \<or> ys = []")
    case True
    show ?thesis
    proof (cases "xs = []")
      case True
      then have "join [c] ys = []" using eq by simp
      then have "ys = []" using ne [of ys] assms(2) by blast
      with True show ?thesis by simp
    next
      case False
      then have "join [c] xs = []" using eq \<open>xs = [] \<or> ys = []\<close> by simp
      with False show ?thesis using ne [of xs] assms(1) by blast
    qed
  next
    case False
    then have "split_on c (join [c] xs) = xs" "split_on c (join [c] ys) = ys"
      using assms by (simp_all add: split_on_join)
    with eq show ?thesis by metis
  qed
qed simp

section \<open>Python values and dictionaries\<close>

datatype pyval =
    PNone
  | PInt int
  | PStr ustr
  | PBool bool
  | PFloat rat
  | PList "pyval list"
  | PDict "(string \<times> pyval) list"

type_synonym dict = "(string \<times> pyval) list"

abbreviation pstr :: "string \<Rightarrow> pyval" where
  "pstr s \<equiv> PStr (lit s)"

abbreviation pnat :: "nat \<Rightarrow> pyval" where
  "pnat n \<equiv> PInt (int n)"

text \<open>\<open>bool(v)\<close>, and an optional text as a value.\<close>

definition py_truthy :: "pyval \<Rightarrow> bool" where
  "py_truthy v = (case v of PNone \<Rightarrow> False | PInt i \<Rightarrow> i \<noteq> 0 | PStr t \<Rightarrow> t \<noteq> [] | PBool b \<Rightarrow> b | PFloat r \<Rightarrow> r \<noteq> 0
     | PList xs \<Rightarrow> xs \<noteq> [] | PDict d \<Rightarrow> d \<noteq> [])"

definition opt_str :: "ustr option \<Rightarrow> pyval" where
  "opt_str s = (case s of None \<Rightarrow> PNone | Some t \<Rightarrow> PStr t)"

text \<open>\<open>d.get(k)\<close> and \<open>d[k] = v\<close>: an existing key keeps its place.\<close>

definition dict_get :: "('k \<times> 'v) list \<Rightarrow> 'k \<Rightarrow> 'v option" where
  "dict_get d k = map_of d k"

fun dict_set :: "('k \<times> 'v) list \<Rightarrow> 'k \<Rightarrow> 'v \<Rightarrow> ('k \<times> 'v) list" where
  "dict_set [] k v = [(k, v)]"
| "dict_set ((k', v') # d) k v =
     (if k' = k then (k, v) # d else (k', v') # dict_set d k v)"

text \<open>\<open>d.pop(k, None)\<close> as far as the dictionary goes.\<close>

definition dict_pop :: "('k \<times> 'v) list \<Rightarrow> 'k \<Rightarrow> ('k \<times> 'v) list" where
  "dict_pop d k = filter (\<lambda>e. fst e \<noteq> k) d"

definition dict_keys :: "('k \<times> 'v) list \<Rightarrow> 'k list" where
  "dict_keys d = map fst d"

lemma dict_get_set [dicts, simp]:
  "dict_get (dict_set d k v) k' = (if k' = k then Some v else dict_get d k')"
  by (induction d k v rule: dict_set.induct) (auto simp: dict_get_def)

lemma dict_get_Nil [dicts, simp]: "dict_get [] k = None"
  by (simp add: dict_get_def)

lemma dict_get_Cons [dicts, simp]:
  "dict_get ((k', v) # d) k = (if k = k' then Some v else dict_get d k)"
  by (simp add: dict_get_def)

lemma dict_keys_set [dicts]:
  "dict_keys (dict_set d k v) = (if k \<in> set (dict_keys d) then dict_keys d else dict_keys d @ [k])"
  by (induction d k v rule: dict_set.induct) (auto simp: dict_keys_def)

lemma distinct_dict_set [dicts]:
  "distinct (dict_keys d) \<Longrightarrow> distinct (dict_keys (dict_set d k v))"
  by (simp add: dict_keys_set)

lemma dict_get_None_iff [dicts]: "dict_get d k = None \<longleftrightarrow> k \<notin> set (dict_keys d)"
  by (simp add: dict_get_def dict_keys_def map_of_eq_None_iff)

lemma dict_get_mem: "dict_get d k = Some v \<Longrightarrow> (k, v) \<in> set d"
  by (simp add: dict_get_def map_of_SomeD)

lemma dict_get_pop [dicts, simp]:
  "dict_get (dict_pop d k) k' = (if k' = k then None else dict_get d k')"
  by (induction d) (auto simp: dict_get_def dict_pop_def)

lemma dict_keys_pop [dicts]: "dict_keys (dict_pop d k) = filter (\<lambda>x. x \<noteq> k) (dict_keys d)"
  by (induction d) (auto simp: dict_keys_def dict_pop_def)

lemma distinct_dict_pop [dicts]: "distinct (dict_keys d) \<Longrightarrow> distinct (dict_keys (dict_pop d k))"
  by (simp add: dict_keys_pop)

lemma dict_pop_absent [dicts]: "dict_get d k = None \<Longrightarrow> dict_pop d k = d"
  by (induction d) (auto simp: dict_pop_def dict_get_def split: if_splits)

lemma dict_pop_set [dicts]: "dict_pop (dict_set d k v) k = dict_pop d k"
  by (induction d k v rule: dict_set.induct) (auto simp: dict_pop_def)

text \<open>A lookup in a constant table with a default, \<open>{...}.get(k, d)\<close>.\<close>

definition get_or :: "('k \<times> 'v) list \<Rightarrow> 'k \<Rightarrow> 'v \<Rightarrow> 'v" where
  "get_or d k v = (case dict_get d k of None \<Rightarrow> v | Some x \<Rightarrow> x)"

lemma get_or_in: "get_or d k v \<in> insert v (snd ` set d)"
  by (auto simp: get_or_def dict_get_def split: option.splits dest: map_of_SomeD)
    (metis image_eqI map_of_SomeD snd_conv)

lemma dict_set_fresh [dicts]: "dict_get d k = None \<Longrightarrow> dict_set d k v = d @ [(k, v)]"
  by (induction d k v rule: dict_set.induct) (auto split: if_splits)

lemma dict_get_append [dicts]:
  "dict_get (d @ d') k = (case dict_get d k of None \<Rightarrow> dict_get d' k | Some v \<Rightarrow> Some v)"
  by (induction d) auto

lemma dict_keys_append [dicts]: "dict_keys (d @ d') = dict_keys d @ dict_keys d'"
  by (simp add: dict_keys_def)

lemma length_dict_keys [simp]: "length (dict_keys d) = length d"
  by (simp add: dict_keys_def)

lemma dict_keys_simps [simp]: "dict_keys [] = []" "dict_keys ((k, v) # d) = k # dict_keys d"
  by (simp_all add: dict_keys_def)

lemma dict_get_SomeD: "dict_get d k = Some v \<Longrightarrow> k \<in> set (dict_keys d)"
  by (metis dict_get_None_iff option.distinct(1))

lemma dict_keys_getE: "k \<in> set (dict_keys d) \<Longrightarrow> (\<And>v. dict_get d k = Some v \<Longrightarrow> P) \<Longrightarrow> P"
  by (metis dict_get_None_iff option.exhaust)

lemma dict_set_same: "dict_get d k = Some v \<Longrightarrow> dict_set d k v = d"
  by (induction d k v rule: dict_set.induct) (auto split: if_splits)

lemma set_dict_set: "set (dict_set d k v) \<subseteq> insert (k, v) (set d)"
  by (induction d k v rule: dict_set.induct) auto

end
