(* ===== verification/StreamDecoder.thy ===== *)
theory StreamDecoder
  imports Prelude
begin

text \<open>
  The interface between a receiver that gets a byte stream in arbitrary pieces and the wire
  format that cuts it into messages.  \<open>drain\<close> is the receiver's loop over any format;
  the locale \<open>stream_decoder\<close> states what a format promises (every message consumes
  input; more input never changes a message already complete), and what the receiver gets
  from it: the messages do not depend on how the stream was cut.  \<open>stream_codec\<close>
  adds an encoder.
\<close>

function drain :: "('b list \<Rightarrow> ('f \<times> nat) option) \<Rightarrow> 'b list \<Rightarrow> 'f list \<times> 'b list" where
  "drain nxt buf =
     (case nxt buf of
        None \<Rightarrow> ([], buf)
      | Some (f, n) \<Rightarrow>
          if 0 < n \<and> n \<le> length buf
          then (case drain nxt (drop n buf) of (fs, r) \<Rightarrow> (f # fs, r))
          else ([], buf))"
  by pat_completeness auto
termination
  by (relation "measure (\<lambda>(nxt, buf). length buf)") auto

declare drain.simps [simp del]

text \<open>The receiver fed with a list of pieces, its buffer kept in between.\<close>

fun drain_all :: "('b list \<Rightarrow> ('f \<times> nat) option) \<Rightarrow> 'b list \<Rightarrow> 'b list list \<Rightarrow> 'f list \<times> 'b list" where
  "drain_all nxt buf [] = ([], buf)"
| "drain_all nxt buf (c # cs) =
     (case drain nxt (buf @ c) of (fs, r) \<Rightarrow>
        (case drain_all nxt r cs of (gs, r') \<Rightarrow> (fs @ gs, r')))"

locale stream_decoder =
  fixes nxt :: "'b list \<Rightarrow> ('f \<times> nat) option"
  assumes consumes: "nxt buf = Some (f, n) \<Longrightarrow> 0 < n \<and> n \<le> length buf"
    and stable: "nxt buf = Some (f, n) \<Longrightarrow> nxt (buf @ more) = Some (f, n)"
begin

lemma drain_None: "nxt buf = None \<Longrightarrow> drain nxt buf = ([], buf)"
  by (simp add: drain.simps)

lemma drain_Some:
  "nxt buf = Some (f, n) \<Longrightarrow>
   drain nxt buf = (f # fst (drain nxt (drop n buf)), snd (drain nxt (drop n buf)))"
  using consumes [of buf f n] by (subst drain.simps) (simp split: prod.splits)

lemma drain_stuck: "nxt (snd (drain nxt buf)) = None"
proof (induction "length buf" arbitrary: buf rule: less_induct)
  case less
  show ?case
  proof (cases "nxt buf")
    case None
    then show ?thesis by (simp add: drain_None)
  next
    case (Some fn)
    obtain f n where fn: "nxt buf = Some (f, n)" using Some by (cases fn) auto
    with consumes have "length (drop n buf) < length buf" by fastforce
    with fn show ?thesis by (simp add: drain_Some less)
  qed
qed

lemma drain_append:
  "drain nxt (buf @ more) =
     (fst (drain nxt buf) @ fst (drain nxt (snd (drain nxt buf) @ more)),
      snd (drain nxt (snd (drain nxt buf) @ more)))"
proof (induction "length buf" arbitrary: buf rule: less_induct)
  case less
  show ?case
  proof (cases "nxt buf")
    case None
    then show ?thesis by (simp add: drain_None)
  next
    case (Some fn)
    obtain f n where fn: "nxt buf = Some (f, n)" using Some by (cases fn) auto
    have n: "0 < n" "n \<le> length buf" using consumes [OF fn] by auto
    then have "length (drop n buf) < length buf" by simp
    from less [OF this] show ?thesis
      using n by (simp add: drain_Some [OF fn] drain_Some [OF stable [OF fn]])
  qed
qed

text \<open>However the stream is cut, the receiver ends with the same messages and buffer.\<close>

lemma drain_all_concat:
  "nxt buf = None \<Longrightarrow> drain_all nxt buf cs = drain nxt (buf @ concat cs)"
proof (induction cs arbitrary: buf)
  case Nil
  then show ?case by (simp add: drain_None)
next
  case (Cons c cs)
  have "drain_all nxt (snd (drain nxt (buf @ c))) cs
        = drain nxt (snd (drain nxt (buf @ c)) @ concat cs)"
    by (rule Cons.IH [OF drain_stuck])
  then show ?case
    using drain_append [of "buf @ c" "concat cs"] by (simp add: case_prod_beta)
qed

lemma chunking_irrelevant:
  "nxt buf = None \<Longrightarrow> concat cs = concat ds \<Longrightarrow> drain_all nxt buf cs = drain_all nxt buf ds"
  by (simp add: drain_all_concat)

end

locale stream_codec = stream_decoder nxt for nxt :: "'b list \<Rightarrow> ('f \<times> nat) option" +
  fixes enc :: "'f \<Rightarrow> 'b list" and valid :: "'f \<Rightarrow> bool"
  assumes enc_nxt: "valid f \<Longrightarrow> nxt (enc f) = Some (f, length (enc f))"
    and nxt_Nil: "nxt [] = None"
begin

lemma drain_enc:
  "\<forall>f \<in> set fs. valid f \<Longrightarrow>
   drain nxt (concat (map enc fs) @ rest) = (fs @ fst (drain nxt rest), snd (drain nxt rest))"
proof (induction fs)
  case (Cons f fs)
  have "nxt (enc f @ concat (map enc fs) @ rest) = Some (f, length (enc f))"
    using Cons.prems by (intro stable enc_nxt) simp
  from drain_Some [OF this] Cons show ?case by simp
qed simp

lemma drain_all_enc:
  assumes "\<forall>f \<in> set fs. valid f" and "concat cs = concat (map enc fs)"
  shows "drain_all nxt [] cs = (fs, [])"
proof -
  have "drain_all nxt [] cs = drain nxt (concat (map enc fs) @ [])"
    using assms(2) by (simp add: drain_all_concat nxt_Nil)
  also have "\<dots> = (fs, [])"
    by (simp only: drain_enc [OF assms(1)]) (simp add: drain_None nxt_Nil)
  finally show ?thesis .
qed

end

end
