(* ===== verification/SensorWire.thy ===== *)
theory SensorWire
  imports StreamDecoder
begin

text \<open>
  The remote sensor link: \<open>capture/remote/protocol.py\<close> (the binary frame),
  \<open>capture/remote/server.py\<close> (the session that reassembles frames from websocket
  messages, and the manager of sessions) and \<open>capture/remote/config.py\<close> (the saved
  interface selections).  Clock readings (\<open>time.time()\<close>) are arguments.
\<close>

section \<open>The frame: protocol.py\<close>

record frame =
  fr_length :: nat
  timestamp_ns :: int
  interface_index :: nat
  fr_packet :: bytes

definition FRAME_HEADER_SIZE :: nat where
  "FRAME_HEADER_SIZE = 16"

text \<open>The \<open>q\<close> item of the header: a signed 64-bit integer in network order.\<close>

definition pack_q :: "int \<Rightarrow> bytes" where
  "pack_q t = be_bytes 8 (nat (t mod 2 ^ 64))"

definition unpack_q :: "bytes \<Rightarrow> int" where
  "unpack_q bs = (let n = int (be_nat bs) in if n < 2 ^ 63 then n else n - 2 ^ 64)"

text \<open>\<open>struct.pack("!IqI", ...)\<close> raises \<open>struct.error\<close> outside the ranges.\<close>

definition serialize_frame :: "bytes \<Rightarrow> int \<Rightarrow> nat \<Rightarrow> py_error + bytes" where
  "serialize_frame packet ts i =
     (if length packet < 2 ^ 32 \<and> - (2 ^ 63) \<le> ts \<and> ts < 2 ^ 63 \<and> i < 2 ^ 32
      then Inr ((be_bytes 4 (length packet) @ pack_q ts @ be_bytes 4 i) @ packet)
      else Inl StructError)"

definition deserialize_frame :: "bytes \<Rightarrow> py_error + frame" where
  "deserialize_frame data =
     (if length data < FRAME_HEADER_SIZE then Inl ValueError
      else
        let n = be_nat (slice 0 4 data);
            ts_ns = unpack_q (slice 4 12 data);
            iface_idx = be_nat (slice 12 16 data);
            payload = drop FRAME_HEADER_SIZE data
        in if length payload < n then Inl ValueError
           else Inr \<lparr>fr_length = n, timestamp_ns = ts_ns, interface_index = iface_idx,
                     fr_packet = take n payload\<rparr>)"

section \<open>The session: server.py\<close>

record session =
  s_name :: string
  remote_ip :: string
  connected_at :: rat
  last_heartbeat :: "rat option"
  buffer :: bytes
  packet_count :: int
  byte_count :: int
  remote_interfaces :: "dict list"
  selected_interfaces :: "string list"
  s_state :: string
  interface_stats :: "(string \<times> (string \<times> int) list) list"
  interface_errors :: "(string \<times> string) list"

definition new_session :: "string \<Rightarrow> string \<Rightarrow> rat \<Rightarrow> session" where
  "new_session name ip now =
     \<lparr>s_name = name, remote_ip = ip, connected_at = now, last_heartbeat = None, buffer = [],
      packet_count = 0, byte_count = 0, remote_interfaces = [], selected_interfaces = [],
      s_state = ''idle'', interface_stats = [], interface_errors = []\<rparr>"

function feed_loop :: "session \<Rightarrow> frame list \<Rightarrow> py_error + (session \<times> frame list)" where
  "feed_loop s frames =
     (if length (buffer s) \<ge> FRAME_HEADER_SIZE then
        let pkt_len = be_nat (slice 0 4 (buffer s));
            total = FRAME_HEADER_SIZE + pkt_len
        in if length (buffer s) < total then Inr (s, frames)
           else (case deserialize_frame (take total (buffer s)) of
                   Inl e \<Rightarrow> Inl e
                 | Inr frame \<Rightarrow>
                     feed_loop
                       (s\<lparr>buffer := drop total (buffer s), packet_count := packet_count s + 1,
                          byte_count := byte_count s + int pkt_len\<rparr>)
                       (frames @ [frame]))
      else Inr (s, frames))"
  by pat_completeness auto
termination
  by (relation "measure (\<lambda>(s, fs). length (buffer s))") (auto simp: FRAME_HEADER_SIZE_def)

declare feed_loop.simps [simp del]

definition feed :: "session \<Rightarrow> bytes \<Rightarrow> py_error + (session \<times> frame list)" where
  "feed s data = feed_loop (s\<lparr>buffer := buffer s @ data\<rparr>) []"

text \<open>The websocket loop: each binary message is fed in turn, frames are collected.\<close>

fun feed_all :: "session \<Rightarrow> bytes list \<Rightarrow> py_error + (session \<times> frame list)" where
  "feed_all s [] = Inr (s, [])"
| "feed_all s (d # ds) =
     (case feed s d of
        Inl e \<Rightarrow> Inl e
      | Inr (s', fs) \<Rightarrow>
          (case feed_all s' ds of
             Inl e \<Rightarrow> Inl e
           | Inr (s'', gs) \<Rightarrow> Inr (s'', fs @ gs)))"

definition set_discovered_interfaces :: "session \<Rightarrow> dict list \<Rightarrow> session" where
  "set_discovered_interfaces s ifs = s\<lparr>remote_interfaces := ifs\<rparr>"

definition set_state :: "session \<Rightarrow> string \<Rightarrow> string list option \<Rightarrow> session" where
  "set_state s st ifs =
     (let s1 = s\<lparr>s_state := st\<rparr>;
          s2 = (case ifs of None \<Rightarrow> s1 | Some l \<Rightarrow> s1\<lparr>selected_interfaces := l\<rparr>)
      in if st = ''capturing'' then s2\<lparr>interface_errors := []\<rparr> else s2)"

definition stat_total :: "string \<Rightarrow> (string \<times> (string \<times> int) list) list \<Rightarrow> int" where
  "stat_total key stats = sum_list (map (\<lambda>(i, d). get_or d key 0) stats)"

definition update_heartbeat ::
    "session \<Rightarrow> rat \<Rightarrow> (string \<times> (string \<times> int) list) list \<Rightarrow> session" where
  "update_heartbeat s now stats =
     s\<lparr>last_heartbeat := Some now, interface_stats := stats,
       packet_count := stat_total ''packets'' stats, byte_count := stat_total ''bytes'' stats\<rparr>"

definition set_interface_error :: "session \<Rightarrow> string \<Rightarrow> string \<Rightarrow> session" where
  "set_interface_error s ifc err = s\<lparr>interface_errors := dict_set (interface_errors s) ifc err\<rparr>"

record session_stats =
  st_name :: string
  st_remote_ip :: string
  st_connected_at :: rat
  st_uptime :: rat
  st_packets :: int
  st_bytes :: int
  st_remote_interfaces :: "dict list"
  st_selected_interfaces :: "string list"
  st_state :: string
  st_interface_stats :: "(string \<times> (string \<times> int) list) list"
  st_interface_errors :: "(string \<times> string) list"
  st_last_heartbeat :: "rat option"

definition stats :: "rat \<Rightarrow> session \<Rightarrow> session_stats" where
  "stats now s =
     \<lparr>st_name = s_name s, st_remote_ip = remote_ip s, st_connected_at = connected_at s,
      st_uptime = now - connected_at s, st_packets = packet_count s, st_bytes = byte_count s,
      st_remote_interfaces = remote_interfaces s, st_selected_interfaces = selected_interfaces s,
      st_state = s_state s, st_interface_stats = interface_stats s,
      st_interface_errors = interface_errors s, st_last_heartbeat = last_heartbeat s\<rparr>"

section \<open>The manager\<close>

type_synonym sensors = "(string \<times> session) list"

definition register :: "rat \<Rightarrow> sensors \<Rightarrow> string \<Rightarrow> string \<Rightarrow> py_error + (sensors \<times> session)" where
  "register now m name ip =
     (if dict_get m name \<noteq> None then Inl ValueError
      else let s = new_session name ip now in Inr (dict_set m name s, s))"

definition unregister :: "sensors \<Rightarrow> string \<Rightarrow> sensors" where
  "unregister m name = dict_pop m name"

definition list_sensors :: "rat \<Rightarrow> sensors \<Rightarrow> session_stats list" where
  "list_sensors now m = map (\<lambda>e. stats now (snd e)) m"

definition get_stale_sensors :: "rat \<Rightarrow> rat \<Rightarrow> sensors \<Rightarrow> session list" where
  "get_stale_sensors now timeout m =
     filter (\<lambda>s. s_state s = ''capturing'' \<and>
                 (case last_heartbeat s of None \<Rightarrow> False | Some h \<Rightarrow> now - h > timeout))
            (map snd m)"

record cert =
  cert_name :: string
  cert_revoked :: bool

text \<open>\<open>certs\<close> is what \<open>ca.list_certs\<close> returned or the exception it raised.\<close>

definition is_revoked :: "string \<Rightarrow> py_error + cert list \<Rightarrow> bool" where
  "is_revoked name certs =
     (case certs of
        Inl e \<Rightarrow> True
      | Inr cs \<Rightarrow> \<not> list_ex (\<lambda>c. cert_name c = name \<and> \<not> cert_revoked c) cs)"

section \<open>Saved interface selections: config.py\<close>

text \<open>The JSON file as its parsed content; \<open>None\<close> when the file does not exist.\<close>

type_synonym config_file = "(string \<times> (string \<times> string list) list) list option"

definition config_load :: "config_file \<Rightarrow> (string \<times> (string \<times> string list) list) list" where
  "config_load f = (case f of None \<Rightarrow> [] | Some d \<Rightarrow> d)"

definition save_interfaces :: "config_file \<Rightarrow> string \<Rightarrow> string list \<Rightarrow> config_file" where
  "save_interfaces f name ifs = Some (dict_set (config_load f) name [(''interfaces'', ifs)])"

definition load_interfaces :: "config_file \<Rightarrow> string \<Rightarrow> string list option" where
  "load_interfaces f name =
     (case dict_get (config_load f) name of
        None \<Rightarrow> None
      | Some entry \<Rightarrow> if entry = [] then None else dict_get entry ''interfaces'')"

definition config_delete :: "config_file \<Rightarrow> string \<Rightarrow> config_file" where
  "config_delete f name = Some (dict_pop (config_load f) name)"

section \<open>The wire format as a stream codec\<close>

text \<open>The next complete frame of a buffer, and how many bytes it takes.\<close>

definition next_frame :: "bytes \<Rightarrow> (frame \<times> nat) option" where
  "next_frame buf =
     (if length buf < FRAME_HEADER_SIZE then None
      else let total = FRAME_HEADER_SIZE + be_nat (slice 0 4 buf)
           in if length buf < total then None
              else Some (\<lparr>fr_length = be_nat (slice 0 4 buf),
                          timestamp_ns = unpack_q (slice 4 12 buf),
                          interface_index = be_nat (slice 12 16 buf),
                          fr_packet = slice 16 total buf\<rparr>, total))"

definition frame_bytes :: "frame \<Rightarrow> bytes" where
  "frame_bytes f =
     be_bytes 4 (fr_length f) @ pack_q (timestamp_ns f) @ be_bytes 4 (interface_index f) @ fr_packet f"

definition valid_frame :: "frame \<Rightarrow> bool" where
  "valid_frame f \<longleftrightarrow>
     fr_length f = length (fr_packet f) \<and> fr_length f < 2 ^ 32 \<and>
     - (2 ^ 63) \<le> timestamp_ns f \<and> timestamp_ns f < 2 ^ 63 \<and> interface_index f < 2 ^ 32"

lemma unpack_pack_q [codec]: "- (2 ^ 63) \<le> t \<Longrightarrow> t < 2 ^ 63 \<Longrightarrow> unpack_q (pack_q t) = t"
proof -
  assume t: "- (2 ^ 63) \<le> t" "t < 2 ^ 63"
  have m: "int (nat (t mod 2 ^ 64) mod 256 ^ 8) = t mod 2 ^ 64"
    by (simp add: zmod_int)
  show ?thesis
  proof (cases "0 \<le> t")
    case True
    with t have "t mod 2 ^ 64 = t" by (intro mod_pos_pos_trivial) auto
    with t m show ?thesis by (simp add: unpack_q_def pack_q_def codec Let_def)
  next
    case False
    with t have "t mod 2 ^ 64 = t + 2 ^ 64"
      using mod_add_self2 [of t "2 ^ 64"] mod_pos_pos_trivial [of "t + 2 ^ 64" "2 ^ 64"] by simp
    with t m show ?thesis by (simp add: unpack_q_def pack_q_def codec Let_def)
  qed
qed

lemma length_pack_q [simp]: "length (pack_q t) = 8"
  by (simp add: pack_q_def)

lemma next_frame_bounds: "next_frame buf = Some (f, n) \<Longrightarrow> 0 < n \<and> n \<le> length buf"
  by (auto simp: next_frame_def Let_def FRAME_HEADER_SIZE_def split: if_splits)

lemma next_frame_stable: "next_frame buf = Some (f, n) \<Longrightarrow> next_frame (buf @ xs) = Some (f, n)"
  by (auto simp: next_frame_def Let_def FRAME_HEADER_SIZE_def slice_append_left split: if_splits)

lemma header_slices:
  assumes "length a = 4" "length b = 8" "length c = 4"
  shows "slice 0 4 (a @ b @ c @ p) = a" and "slice 4 12 (a @ b @ c @ p) = b"
    and "slice 12 16 (a @ b @ c @ p) = c" and "drop 16 (a @ b @ c @ p) = p"
  using assms by (simp_all add: slice_def)

lemma next_frame_bytes:
  assumes "valid_frame f"
  shows "next_frame (frame_bytes f) = Some (f, length (frame_bytes f))"
proof -
  let ?a = "be_bytes 4 (fr_length f)" and ?b = "pack_q (timestamp_ns f)"
  let ?c = "be_bytes 4 (interface_index f)"
  note hs = header_slices [of ?a ?b ?c "fr_packet f"]
  have "slice 16 (16 + fr_length f) (frame_bytes f) = fr_packet f"
    using assms hs(4) by (simp add: slice_def frame_bytes_def valid_frame_def)
  with assms hs(1-3) show ?thesis
    by (simp add: next_frame_def frame_bytes_def valid_frame_def FRAME_HEADER_SIZE_def codec)
qed

interpretation wire: stream_codec next_frame frame_bytes valid_frame
proof
  show "next_frame buf = Some (f, n) \<Longrightarrow> 0 < n \<and> n \<le> length buf" for buf f n
    by (rule next_frame_bounds)
  show "next_frame buf = Some (f, n) \<Longrightarrow> next_frame (buf @ xs) = Some (f, n)" for buf f n xs
    by (rule next_frame_stable)
  show "valid_frame f \<Longrightarrow> next_frame (frame_bytes f) = Some (f, length (frame_bytes f))" for f
    by (rule next_frame_bytes)
  show "next_frame [] = None"
    by (simp add: next_frame_def FRAME_HEADER_SIZE_def)
qed

section \<open>The session refines the stream decoder\<close>

definition absorb :: "session \<Rightarrow> frame list \<Rightarrow> bytes \<Rightarrow> session" where
  "absorb s fs rest =
     s\<lparr>buffer := rest, packet_count := packet_count s + int (length fs),
       byte_count := byte_count s + (\<Sum>f\<leftarrow>fs. int (fr_length f))\<rparr>"

lemma deserialize_take:
  assumes "next_frame buf = Some (f, n)"
  shows "deserialize_frame (take n buf) = Inr f" and "n = FRAME_HEADER_SIZE + fr_length f"
  using assms
  by (auto simp: next_frame_def deserialize_frame_def Let_def FRAME_HEADER_SIZE_def slice_take
        split: if_splits) (simp add: slice_def drop_take)

lemma feed_loop_None: "next_frame (buffer s) = None \<Longrightarrow> feed_loop s fs = Inr (s, fs)"
  by (auto simp: feed_loop.simps [of s fs] next_frame_def Let_def FRAME_HEADER_SIZE_def split: if_splits)

lemma feed_loop_Some:
  assumes nf: "next_frame (buffer s) = Some (f, n)"
  shows "feed_loop s fs =
    feed_loop (s\<lparr>buffer := drop n (buffer s), packet_count := packet_count s + 1,
                 byte_count := byte_count s + int (fr_length f)\<rparr>) (fs @ [f])"
proof -
  have d: "deserialize_frame (take n (buffer s)) = Inr f" and n: "n = FRAME_HEADER_SIZE + fr_length f"
    using deserialize_take [OF nf] by auto
  have "be_nat (slice 0 4 (buffer s)) = fr_length f" "n \<le> length (buffer s)"
    using nf by (auto simp: next_frame_def Let_def split: if_splits)
  with d n show ?thesis
    by (subst feed_loop.simps) (simp add: Let_def)
qed

lemma feed_loop_refines:
  "feed_loop s fs = Inr (absorb s (fst (drain next_frame (buffer s))) (snd (drain next_frame (buffer s))),
                         fs @ fst (drain next_frame (buffer s)))"
proof (induction "length (buffer s)" arbitrary: s fs rule: less_induct)
  case less
  show ?case
  proof (cases "next_frame (buffer s)")
    case None
    then show ?thesis by (simp add: feed_loop_None wire.drain_None absorb_def)
  next
    case (Some fn)
    obtain f n where fn: "next_frame (buffer s) = Some (f, n)" using Some by (cases fn) auto
    let ?s = "s\<lparr>buffer := drop n (buffer s), packet_count := packet_count s + 1,
                 byte_count := byte_count s + int (fr_length f)\<rparr>"
    have "length (buffer ?s) < length (buffer s)"
      using wire.consumes [OF fn] by (simp; linarith)
    from less [OF this, of "fs @ [f]"] show ?thesis
      by (simp add: feed_loop_Some [OF fn] wire.drain_Some [OF fn] absorb_def)
  qed
qed

lemma feed_refines:
  "feed s data = Inr (absorb s (fst (drain next_frame (buffer s @ data)))
                              (snd (drain next_frame (buffer s @ data))),
                      fst (drain next_frame (buffer s @ data)))"
  by (simp add: feed_def feed_loop_refines) (simp add: absorb_def)

lemma absorb_absorb [simp]: "absorb (absorb s fs r) gs r' = absorb s (fs @ gs) r'"
  by (simp add: absorb_def)

lemma buffer_absorb [simp]: "buffer (absorb s fs r) = r"
  by (simp add: absorb_def)

lemma feed_all_refines:
  "next_frame (buffer s) = None \<Longrightarrow>
   feed_all s ds = Inr (absorb s (fst (drain_all next_frame (buffer s) ds))
                                 (snd (drain_all next_frame (buffer s) ds)),
                        fst (drain_all next_frame (buffer s) ds))"
proof (induction ds arbitrary: s)
  case Nil
  then show ?case by (simp add: absorb_def)
next
  case (Cons d ds)
  then show ?case
    using wire.drain_stuck [of "buffer s @ d"] by (simp add: feed_refines case_prod_beta)
qed

section \<open>Properties\<close>

text \<open>C1: Frame round trip.  For a packet below 4 GiB, a timestamp in the signed 64-bit
  range and an interface index below 2^32, \<open>serialize_frame\<close> succeeds and
  \<open>deserialize_frame\<close> gives back exactly the packet, timestamp and index, whatever
  bytes follow it.  Outside those ranges serialisation raises \<open>struct.error\<close>.\<close>

theorem frame_roundtrip:
  "(case serialize_frame p ts i of
      Inl e \<Rightarrow> e = StructError \<and>
        \<not> (length p < 2 ^ 32 \<and> - (2 ^ 63) \<le> ts \<and> ts < 2 ^ 63 \<and> i < 2 ^ 32)
    | Inr bs \<Rightarrow> deserialize_frame (bs @ extra) =
        Inr \<lparr>fr_length = length p, timestamp_ns = ts, interface_index = i, fr_packet = p\<rparr>)"
proof (cases "length p < 2 ^ 32 \<and> - (2 ^ 63) \<le> ts \<and> ts < 2 ^ 63 \<and> i < 2 ^ 32")
  case True
  let ?f = "\<lparr>fr_length = length p, timestamp_ns = ts, interface_index = i, fr_packet = p\<rparr>"
  have "valid_frame ?f" using True by (simp add: valid_frame_def)
  have hs: "slice 0 4 (frame_bytes ?f @ extra) = be_bytes 4 (length p)"
    "slice 4 12 (frame_bytes ?f @ extra) = pack_q ts"
    "slice 12 16 (frame_bytes ?f @ extra) = be_bytes 4 i"
    "drop 16 (frame_bytes ?f @ extra) = p @ extra"
    using header_slices [of "be_bytes 4 (length p)" "pack_q ts" "be_bytes 4 i" "p @ extra"]
    by (simp_all add: frame_bytes_def)
  have "serialize_frame p ts i = Inr (frame_bytes ?f)"
    using True by (simp add: serialize_frame_def frame_bytes_def)
  moreover have "deserialize_frame (frame_bytes ?f @ extra) = Inr ?f"
    using True hs by (simp add: deserialize_frame_def FRAME_HEADER_SIZE_def codec)
      (simp add: frame_bytes_def)
  ultimately show ?thesis by simp
qed (auto simp: serialize_frame_def)

text \<open>C2: Reassembly.  However the websocket cuts the stream of a list of serialised frames
  into messages, feeding the messages to a fresh session returns exactly those frames in
  order, leaves an empty buffer, counts one packet per frame and counts their bytes.\<close>

theorem feed_reassembles:
  assumes "\<forall>f \<in> set fs. valid_frame f" and "concat msgs = concat (map frame_bytes fs)"
  shows "feed_all (new_session name ip now) msgs =
    Inr ((new_session name ip now)\<lparr>packet_count := int (length fs),
           byte_count := (\<Sum>f\<leftarrow>fs. int (fr_length f))\<rparr>, fs)"
proof -
  have b: "buffer (new_session name ip now) = []" by (simp add: new_session_def)
  have "next_frame (buffer (new_session name ip now)) = None"
    unfolding b by (rule wire.nxt_Nil)
  from feed_all_refines [OF this, of msgs] show ?thesis
    unfolding b wire.drain_all_enc [OF assms] by (simp add: absorb_def) (simp add: new_session_def)
qed

theorem feed_reassembles_witness:
  "feed_all (new_session ''s1'' ''10.0.0.9'' 0)
     [[0, 0, 0], [1, 0, 0, 0, 0, 0, 0, 0, 7, 0, 0, 0], [2, 0xAB]] =
   Inr ((new_session ''s1'' ''10.0.0.9'' 0)\<lparr>packet_count := 1, byte_count := 1\<rparr>,
        [\<lparr>fr_length = 1, timestamp_ns = 7, interface_index = 2, fr_packet = [0xAB]\<rparr>])"
proof -
  let ?f = "\<lparr>fr_length = 1, timestamp_ns = 7, interface_index = 2, fr_packet = [0xAB]\<rparr>"
  have "concat [[0, 0, 0], [1, 0, 0, 0, 0, 0, 0, 0, 7, 0, 0, 0], [2, 0xAB]]
        = concat (map frame_bytes [?f])"
    by (simp add: frame_bytes_def pack_q_def be_bytes_def)
  moreover have "\<forall>f \<in> set [?f]. valid_frame f" by (simp add: valid_frame_def)
  ultimately show ?thesis
    using feed_reassembles [of "[?f]" _ "''s1''" "''10.0.0.9''" 0] by (simp del: feed_all.simps)
qed

text \<open>Feeding never raises, and it never leaves a complete frame behind: after any
  message, on any buffer, the bytes kept are fewer than a header or fewer than the frame
  their length field announces.\<close>

theorem feed_total:
  "\<exists>s' fs. feed s data = Inr (s', fs) \<and> packet_count s' = packet_count s + int (length fs) \<and>
     (length (buffer s') < FRAME_HEADER_SIZE \<or>
      length (buffer s') < FRAME_HEADER_SIZE + be_nat (slice 0 4 (buffer s')))"
proof -
  let ?r = "snd (drain next_frame (buffer s @ data))"
  have "next_frame ?r = None" by (rule wire.drain_stuck)
  then have "length ?r < FRAME_HEADER_SIZE \<or> length ?r < FRAME_HEADER_SIZE + be_nat (slice 0 4 ?r)"
    by (auto simp: next_frame_def Let_def split: if_splits)
  then show ?thesis by (simp add: feed_refines) (simp add: absorb_def)
qed

text \<open>The manager holds each sensor name once: registering a connected name raises
  \<open>ValueError\<close>; registering a free name adds an idle session under it and touches no
  other; unregistering removes exactly that name and frees it for the next registration.\<close>

theorem manager_register_unregister:
  "(case register now m name ip of
      Inl e \<Rightarrow> e = ValueError \<and> dict_get m name \<noteq> None
    | Inr (m', s) \<Rightarrow>
        dict_get m name = None \<and> s_state s = ''idle'' \<and> dict_get m' name = Some s \<and>
        (\<forall>n. n = name \<or> dict_get m' n = dict_get m n) \<and>
        unregister m' name = m \<and> dict_get (unregister m' name) name = None)"
  by (simp add: register_def unregister_def Let_def dict_pop_set dict_pop_absent new_session_def)

text \<open>Chunking independence on any input: two ways of cutting the same bytes (complete
  frames or not, well formed or not) bring a session that holds no complete frame to the same
  state and return the same frames.\<close>

theorem feed_chunking_irrelevant:
  assumes "next_frame (buffer s) = None" and "concat cs = concat ds"
  shows "feed_all s cs = feed_all s ds"
  using feed_all_refines [OF assms(1)] wire.chunking_irrelevant [OF assms] by simp

theorem feed_chunking_irrelevant_witness:
  "feed_all (new_session ''s1'' ''10.0.0.9'' 0) [[0, 0], [0, 9, 1]] =
   feed_all (new_session ''s1'' ''10.0.0.9'' 0) [[0, 0, 0, 9, 1]]"
proof (rule feed_chunking_irrelevant)
  show "next_frame (buffer (new_session ''s1'' ''10.0.0.9'' 0)) = None"
    by (simp add: new_session_def next_frame_def FRAME_HEADER_SIZE_def)
qed simp

section \<open>The counters and the heartbeat\<close>

text \<open>A heartbeat replaces the totals that \<open>feed\<close> accumulated by the sums it carries,
  although its comment says "Accumulate totals".\<close>

lemma heartbeat_overwrites_counters:
  "packet_count (update_heartbeat (absorb s fs r) now st) = stat_total ''packets'' st \<and>
   byte_count (update_heartbeat (absorb s fs r) now st) = stat_total ''bytes'' st"
  by (simp add: update_heartbeat_def)

end
