(* ===== verification/Packets.thy ===== *)
theory Packets
  imports Prelude
begin

text \<open>
  What a protocol parser takes and gives.  \<open>packet\<close> is what the parsers read of the
  third-party packet object (scapy): each layer as an option, with the fields the code uses.
  \<open>captured_packet\<close> is \<open>capture/packets.py\<close>: the normalised record every parser
  returns; \<open>captured_at\<close> (the construction time) is left out.  \<open>l4_payload\<close> is
  \<open>bytes(layer.payload)\<close>, which may raise.
\<close>

record l4 =
  sport :: nat
  dport :: nat
  l4_payload :: "py_error + bytes"

record packet =
  pkt_src :: string
  pkt_dst :: string
  pkt_bytes :: bytes
  ether_layer :: "(nat \<times> bytes) option"
  ip_layer :: "(string \<times> string) option"
  ipv6_layer :: "(string \<times> string) option"
  tcp_layer :: "l4 option"
  udp_layer :: "l4 option"
  raw_layer :: "bytes option"

record captured_packet =
  protocol :: string
  hw_addr :: string
  ip_addr :: string
  target_ip :: "string option"
  target_hw :: "string option"
  cp_fields :: dict
  cp_raw :: "bytes option"
  cp_interface :: "string option"
  cp_network :: "string option"

text \<open>The constructor with its keyword defaults.\<close>

definition captured :: "string \<Rightarrow> string \<Rightarrow> string \<Rightarrow> string option \<Rightarrow> dict \<Rightarrow> captured_packet" where
  "captured proto hw ip tip fs =
     \<lparr>protocol = proto, hw_addr = hw, ip_addr = ip, target_ip = tip, target_hw = None,
      cp_fields = fs, cp_raw = None, cp_interface = None, cp_network = None\<rparr>"

text \<open>\<open>CapturedPacket.get\<close>.\<close>

definition cp_get :: "captured_packet \<Rightarrow> string \<Rightarrow> pyval \<Rightarrow> pyval" where
  "cp_get c k d = get_or (cp_fields c) k d"

type_synonym parse_result = "py_error + captured_packet option"

text \<open>A packet object without layers, to build concrete inputs from.\<close>

definition bare_packet :: packet where
  "bare_packet = \<lparr>pkt_src = ''aa:bb:cc:dd:ee:ff'', pkt_dst = ''11:22:33:44:55:66'', pkt_bytes = [],
     ether_layer = None, ip_layer = None, ipv6_layer = None, tcp_layer = None, udp_layer = None,
     raw_layer = None\<rparr>"

end
