(* ===== verification/Tls.thy ===== *)
theory Tls
  imports Packets
begin

text \<open>
  \<open>capture/tls_parser.py\<close>: the ClientHello dissector over raw bytes;
  \<open>patterns/tls.py\<close>: the JA3 and JA4 fingerprints computed from it; and
  \<open>capture/protocols/tls.py\<close>: the parser that combines them.  The MD5 and SHA-256 hex
  digests are parameters.
\<close>

section \<open>The ClientHello dissector: tls_parser.py\<close>

record tls_handshake =
  tls_version :: nat
  ciphers :: "nat list"
  extensions :: "nat list"
  elliptic_curves :: "nat list"
  ec_point_formats :: "nat list"
  sni :: "ustr option"
  alpn :: "ustr option"

definition read_uint16 :: "bytes \<Rightarrow> nat \<Rightarrow> py_error + nat" where
  "read_uint16 buf offset = unpack_H (slice offset (offset + 2) buf)"

function cipher_loop :: "bytes \<Rightarrow> nat \<Rightarrow> nat \<Rightarrow> nat list \<Rightarrow> py_error + nat list" where
  "cipher_loop raw cursor boundary suites =
     (if cursor + 2 \<le> boundary then
        (case read_uint16 raw cursor of
           Inl e \<Rightarrow> Inl e
         | Inr v \<Rightarrow> cipher_loop raw (cursor + 2) boundary (suites @ [v]))
      else Inr suites)"
  by pat_completeness auto
termination
  by (relation "measure (\<lambda>(raw, cursor, boundary, suites). boundary - cursor)") auto

definition decode_cipher_list :: "bytes \<Rightarrow> nat \<Rightarrow> nat \<Rightarrow> py_error + nat list" where
  "decode_cipher_list raw start suite_block_len =
     cipher_loop raw start (start + suite_block_len) []"

definition extract_sni :: "bytes \<Rightarrow> ustr option" where
  "extract_sni ext_body =
     (if length ext_body < 5 then None
      else if ext_body ! 2 \<noteq> 0 then None
      else (case read_uint16 ext_body 3 of
              Inl e \<Rightarrow> None
            | Inr host_len \<Rightarrow> Some (ascii_ignore (slice 5 (5 + host_len) ext_body))))"

function groups_loop :: "bytes \<Rightarrow> nat \<Rightarrow> nat \<Rightarrow> nat list \<Rightarrow> nat list" where
  "groups_loop ext_body ttl idx groups =
     (if idx + 2 \<le> 2 + ttl \<and> idx + 2 \<le> length ext_body then
        (case read_uint16 ext_body idx of
           Inl e \<Rightarrow> groups
         | Inr v \<Rightarrow> groups_loop ext_body ttl (idx + 2) (groups @ [v]))
      else groups)"
  by pat_completeness auto
termination
  by (relation "measure (\<lambda>(b, ttl, idx, g). length b - idx)") auto

definition extract_supported_groups :: "bytes \<Rightarrow> nat list" where
  "extract_supported_groups ext_body =
     (if length ext_body < 2 then []
      else (case read_uint16 ext_body 0 of
              Inl e \<Rightarrow> []
            | Inr ttl \<Rightarrow> groups_loop ext_body ttl 2 []))"

definition extract_ec_formats :: "bytes \<Rightarrow> nat list" where
  "extract_ec_formats ext_body =
     (if length ext_body < 1 then []
      else map (\<lambda>idx. unat (ext_body ! idx))
             (filter (\<lambda>idx. idx < length ext_body) [1 ..< 1 + unat (ext_body ! 0)]))"

definition extract_alpn :: "bytes \<Rightarrow> ustr option" where
  "extract_alpn ext_body =
     (if length ext_body < 3 then None
      else Some (ascii_ignore (slice 3 (3 + unat (ext_body ! 2)) ext_body)))"

record ext_acc =
  ext_ids :: "nat list"
  groups :: "nat list"
  ec_fmts :: "nat list"
  sni_hostname :: "ustr option"
  alpn_proto :: "ustr option"

definition ext_acc0 :: ext_acc where
  "ext_acc0 = \<lparr>ext_ids = [], groups = [], ec_fmts = [], sni_hostname = None, alpn_proto = None\<rparr>"

text \<open>One round of the extension loop: the identifier is recorded, known bodies are read.\<close>

definition ext_step :: "ext_acc \<Rightarrow> nat \<Rightarrow> bytes \<Rightarrow> ext_acc" where
  "ext_step a eid body =
     (let a1 = a\<lparr>ext_ids := ext_ids a @ [eid]\<rparr>
      in if eid = 0x0000 then a1\<lparr>sni_hostname := extract_sni body\<rparr>
         else if eid = 0x000A then a1\<lparr>groups := extract_supported_groups body\<rparr>
         else if eid = 0x000B then a1\<lparr>ec_fmts := extract_ec_formats body\<rparr>
         else if eid = 0x0010 then a1\<lparr>alpn_proto := extract_alpn body\<rparr>
         else a1)"

function ext_loop :: "bytes \<Rightarrow> nat \<Rightarrow> nat \<Rightarrow> ext_acc \<Rightarrow> py_error + ext_acc" where
  "ext_loop raw cursor block_end a =
     (if cursor + 4 \<le> block_end then
        (case read_uint16 raw cursor of
           Inl e \<Rightarrow> Inl e
         | Inr eid \<Rightarrow>
             (case read_uint16 raw (cursor + 2) of
                Inl e \<Rightarrow> Inl e
              | Inr elen \<Rightarrow>
                  ext_loop raw (cursor + (4 + elen)) block_end
                    (ext_step a eid (slice (cursor + 4) (cursor + 4 + elen) raw))))
      else Inr a)"
  by pat_completeness auto
termination
  by (relation "measure (\<lambda>(raw, cursor, block_end, a). block_end - cursor)") auto

declare cipher_loop.simps [simp del] groups_loop.simps [simp del] ext_loop.simps [simp del]

definition walk_extensions :: "bytes \<Rightarrow> nat \<Rightarrow> py_error + ext_acc" where
  "walk_extensions raw cursor =
     (if cursor + 2 > length raw then Inr ext_acc0
      else (case read_uint16 raw cursor of
              Inl e \<Rightarrow> Inl e
            | Inr block_len \<Rightarrow> ext_loop raw (cursor + 2) (cursor + 2 + block_len) ext_acc0))"

definition extract_client_hello :: "bytes \<Rightarrow> py_error + tls_handshake option" where
  "extract_client_hello buf =
     (if length buf < 6 then Inr None
      else if buf ! 0 \<noteq> 0x16 then Inr None
      else if length buf < 9 then Inr None
      else if buf ! 5 \<noteq> 0x01 then Inr None
      else if length buf < 9 + 2 then Inr None
      else case read_uint16 buf 9 of
        Inl e \<Rightarrow> Inl e
      | Inr version \<Rightarrow>
          let c1 = 11 + 32 in
          if c1 \<ge> length buf then Inr None
          else let c2 = c1 + (1 + unat (buf ! c1)) in
          if c2 + 2 > length buf then Inr None
          else case read_uint16 buf c2 of
            Inl e \<Rightarrow> Inl e
          | Inr suite_block_len \<Rightarrow>
              (case decode_cipher_list buf (c2 + 2) suite_block_len of
                 Inl e \<Rightarrow> Inl e
               | Inr cipher_list \<Rightarrow>
                   let c3 = c2 + 2 + suite_block_len in
                   if c3 \<ge> length buf then Inr None
                   else (case walk_extensions buf (c3 + (1 + unat (buf ! c3))) of
                           Inl e \<Rightarrow> Inl e
                         | Inr a \<Rightarrow>
                             Inr (Some \<lparr>tls_version = version, ciphers = cipher_list,
                               extensions = ext_ids a, elliptic_curves = groups a,
                               ec_point_formats = ec_fmts a, sni = sni_hostname a,
                               alpn = alpn_proto a\<rparr>))))"

section \<open>JA3 and JA4: patterns/tls.py\<close>

definition GREASE_VALUES :: "nat list" where
  "GREASE_VALUES =
     [0x0A0A, 0x1A1A, 0x2A2A, 0x3A3A, 0x4A4A, 0x5A5A, 0x6A6A, 0x7A7A,
      0x8A8A, 0x9A9A, 0xAAAA, 0xBABA, 0xCACA, 0xDADA, 0xEAEA, 0xFAFA]"

definition filter_grease :: "nat list \<Rightarrow> nat list" where
  "filter_grease vs = filter (\<lambda>v. v \<notin> set GREASE_VALUES) vs"

record ja3_entry =
  app :: string
  os_family :: "string option"
  confidence :: nat

definition KNOWN_JA3 :: "(string \<times> ja3_entry) list" where
  "KNOWN_JA3 =
     [(''e7d705a3286e19ea42f587b344ee6865'',
        \<lparr>app = ''Chrome'', os_family = Some ''Windows'', confidence = 70\<rparr>),
      (''769baa87ef9078cf6b3a85d12e0d3f40'',
        \<lparr>app = ''Firefox'', os_family = None, confidence = 65\<rparr>),
      (''b32309a26951912be7dba376398abc3b'',
        \<lparr>app = ''Safari'', os_family = Some ''macOS'', confidence = 70\<rparr>),
      (''3b5074b1b5d032e5620f69f9f700ff0e'',
        \<lparr>app = ''curl'', os_family = None, confidence = 60\<rparr>),
      (''cd08e31494f9531f560d64c695473da9'',
        \<lparr>app = ''Python requests'', os_family = None, confidence = 60\<rparr>)]"

definition lookup_ja3 :: "string \<Rightarrow> ja3_entry option" where
  "lookup_ja3 h = dict_get KNOWN_JA3 h"

definition JA4_VERSION_MAP :: "(nat \<times> ustr) list" where
  "JA4_VERSION_MAP =
     [(0x0301, lit ''10''), (0x0302, lit ''11''), (0x0303, lit ''12''), (0x0304, lit ''13'')]"

definition JA4_ALPN_MAP :: "(ustr \<times> ustr) list" where
  "JA4_ALPN_MAP =
     [(lit ''h2'', lit ''h2''), (lit ''http/1.1'', lit ''h1''), (lit ''h3'', lit ''h3'')]"

definition dash_join :: "nat list \<Rightarrow> ustr" where
  "dash_join vs = join (lit ''-'') (map str_nat vs)"

definition ja3_string :: "nat \<Rightarrow> nat list \<Rightarrow> nat list \<Rightarrow> nat list \<Rightarrow> nat list \<Rightarrow> ustr" where
  "ja3_string version cs es curves fmts =
     join (lit '','')
       [str_nat version, dash_join (filter_grease cs), dash_join (filter_grease es),
        dash_join (filter_grease curves), dash_join fmts]"

definition compute_ja3 ::
    "(ustr \<Rightarrow> ustr) \<Rightarrow> nat \<Rightarrow> nat list \<Rightarrow> nat list \<Rightarrow> nat list \<Rightarrow> nat list \<Rightarrow> ustr \<times> ustr" where
  "compute_ja3 md5hex version cs es curves fmts =
     (let full = ja3_string version cs es curves fmts in (md5hex full, full))"

definition comma_join :: "nat list \<Rightarrow> ustr" where
  "comma_join vs = join (lit '','') (map str_nat vs)"

definition alpn_first :: "ustr option \<Rightarrow> ustr" where
  "alpn_first alpn_opt =
     (case alpn_opt of
        None \<Rightarrow> lit ''00''
      | Some a \<Rightarrow>
          (case dict_get JA4_ALPN_MAP a of
             Some v \<Rightarrow> v
           | None \<Rightarrow> if length a \<ge> 2 then take 2 a else a @ replicate (2 - length a) 48))"

definition two_digits :: "nat \<Rightarrow> ustr" where
  "two_digits n = zfill 2 (str_nat (min n 99))"

definition compute_ja4 ::
    "(ustr \<Rightarrow> ustr) \<Rightarrow> nat \<Rightarrow> nat list \<Rightarrow> nat list \<Rightarrow> ustr option \<Rightarrow> ustr option \<Rightarrow> ustr" where
  "compute_ja4 sha256hex version cs es sni_opt alpn_opt =
     (let fcs = filter_grease cs;
          fes = filter_grease es;
          version_s = get_or JA4_VERSION_MAP version (lit ''00'');
          sni_flag = (case sni_opt of
                        None \<Rightarrow> lit ''i''
                      | Some s \<Rightarrow> if s = [] then lit ''i'' else lit ''d'');
          section_a = lit ''t'' @ version_s @ sni_flag @ two_digits (length fcs) @
                      two_digits (length fes) @ alpn_first alpn_opt;
          cipher_hash = take 12 (sha256hex (comma_join (sort fcs)));
          ext_hash = take 12 (sha256hex (comma_join (sort fes)))
      in section_a @ lit ''_'' @ cipher_hash @ lit ''_'' @ ext_hash)"

section \<open>The parser: protocols/tls.py\<close>

definition TLS_PORTS :: "nat list" where
  "TLS_PORTS = [443, 465, 636, 853, 993, 995, 5061, 8443, 8883, 9443]"

definition parse_tls_client_hello ::
    "(ustr \<Rightarrow> ustr) \<Rightarrow> (ustr \<Rightarrow> ustr) \<Rightarrow> packet \<Rightarrow> parse_result" where
  "parse_tls_client_hello md5hex sha256hex pkt =
     (case (tcp_layer pkt, ip_layer pkt) of
        (Some tcp, Some (src, dst)) \<Rightarrow>
          (case l4_payload tcp of
             Inl e \<Rightarrow> Inl e
           | Inr payload \<Rightarrow>
               if dport tcp \<notin> set TLS_PORTS \<and> slice 0 1 payload \<noteq> [0x16] then Inr None
               else if length payload < 6 then Inr None
               else (case extract_client_hello payload of
                       Inl e \<Rightarrow> Inl e
                     | Inr None \<Rightarrow> Inr None
                     | Inr (Some h) \<Rightarrow>
                         let (ja3_hash, ja3_full) =
                               compute_ja3 md5hex (tls_version h) (ciphers h) (extensions h)
                                 (elliptic_curves h) (ec_point_formats h);
                             ja4 = compute_ja4 sha256hex (tls_version h) (ciphers h)
                                     (extensions h) (sni h) (alpn h)
                         in Inr (Some
                              ((captured ''tls'' (pkt_src pkt) src (Some dst)
                                 [(''ja3_hash'', PStr ja3_hash), (''ja3_full'', PStr ja3_full),
                                  (''ja4'', PStr ja4), (''sni'', opt_str (sni h)),
                                  (''tls_version'', pnat (tls_version h))])
                               \<lparr>target_hw := Some (pkt_dst pkt), cp_raw := Some (pkt_bytes pkt)\<rparr>))))
      | _ \<Rightarrow> Inr None)"

section \<open>Reading at a known position\<close>

lemma read_uint16_ok [codec]:
  "offset + 2 \<le> length buf \<Longrightarrow> read_uint16 buf offset = Inr (be_nat (slice offset (offset + 2) buf))"
  by (simp add: read_uint16_def unpack_H_def)

lemma read_uint16_short [codec]: "length buf < offset + 2 \<Longrightarrow> read_uint16 buf offset = Inl StructError"
  by (simp add: read_uint16_def unpack_H_def)

lemma read_uint16_at [codec]:
  "offset = length xs \<Longrightarrow> n < 65536 \<Longrightarrow> read_uint16 (xs @ be_bytes 2 n @ ys) offset = Inr n"
  by (simp add: read_uint16_def unpack_H_def slice_middle codec)

text \<open>The cipher loop returns every 16-bit value of its span, and raises exactly when the
  span does not lie inside the buffer.\<close>

lemma cipher_loop_spec:
  "cipher_loop raw cursor (cursor + len) suites =
     (if len < 2 \<or> cursor + 2 * (len div 2) \<le> length raw
      then Inr (suites @ map (\<lambda>k. be_nat (slice (cursor + 2 * k) (cursor + 2 * k + 2) raw))
                           [0 ..< len div 2])
      else Inl StructError)"
proof (induction len arbitrary: cursor suites rule: less_induct)
  case (less len)
  show ?case
  proof (cases "len < 2")
    case True
    then show ?thesis by (simp add: cipher_loop.simps [of raw cursor])
  next
    case ge: False
    then obtain m where m: "len = m + 2" by (metis le_add_diff_inverse2 not_less)
    have bd: "cursor + len = cursor + 2 + m" using m by simp
    have IH: "cipher_loop raw (cursor + 2) (cursor + len) ss =
      (if m < 2 \<or> cursor + 2 + 2 * (m div 2) \<le> length raw
       then Inr (ss @ map (\<lambda>k. be_nat (slice (cursor + 2 + 2 * k) (cursor + 2 + 2 * k + 2) raw))
                            [0 ..< m div 2])
       else Inl StructError)" for ss
      unfolding bd using less [of m "cursor + 2" ss] m by simp
    have up: "[0 ..< len div 2] = 0 # map Suc [0 ..< m div 2]"
      by (simp add: m upt_conv_Cons map_Suc_upt)
    show ?thesis
    proof (cases "cursor + 2 \<le> length raw")
      case True
      have "cipher_loop raw cursor (cursor + len) suites =
        cipher_loop raw (cursor + 2) (cursor + len) (suites @ [be_nat (slice cursor (cursor + 2) raw)])"
        using True ge by (simp add: cipher_loop.simps [of raw cursor] read_uint16_ok)
      then show ?thesis
        unfolding up IH using True m by (auto simp: comp_def add.assoc)
    next
      case False
      then show ?thesis
        by (simp add: cipher_loop.simps [of raw cursor] m read_uint16_short)
    qed
  qed
qed

section \<open>Well-formed ClientHello messages\<close>

record hello =
  h_version :: nat
  h_random :: bytes
  h_session_id :: bytes
  h_ciphers :: "nat list"
  h_compression :: bytes
  h_extensions :: "(nat \<times> bytes) list"

definition ext_bytes :: "nat \<times> bytes \<Rightarrow> bytes" where
  "ext_bytes e = be_bytes 2 (fst e) @ be_bytes 2 (length (snd e)) @ snd e"

definition cipher_bytes :: "nat list \<Rightarrow> bytes" where
  "cipher_bytes cs = concat (map (be_bytes 2) cs)"

definition exts_bytes :: "(nat \<times> bytes) list \<Rightarrow> bytes" where
  "exts_bytes es = concat (map ext_bytes es)"

text \<open>The bytes on the wire: record header (\<open>rh\<close> are its version and length),
  handshake header (\<open>hl\<close> is its length) and the hello.\<close>

definition hello_front :: "bytes \<Rightarrow> bytes \<Rightarrow> hello \<Rightarrow> bytes" where
  "hello_front rh hl h =
     [0x16] @ rh @ [0x01] @ hl @ be_bytes 2 (h_version h) @ h_random h @
     [word_of_nat (length (h_session_id h))] @ h_session_id h"

definition hello_back :: "hello \<Rightarrow> bytes" where
  "hello_back h = [word_of_nat (length (h_compression h))] @ h_compression h @
     be_bytes 2 (length (exts_bytes (h_extensions h))) @ exts_bytes (h_extensions h)"

definition hello_bytes :: "bytes \<Rightarrow> bytes \<Rightarrow> hello \<Rightarrow> bytes" where
  "hello_bytes rh hl h =
     hello_front rh hl h @ be_bytes 2 (2 * length (h_ciphers h)) @ cipher_bytes (h_ciphers h) @
     hello_back h"

definition valid_hello :: "bytes \<Rightarrow> bytes \<Rightarrow> hello \<Rightarrow> bool" where
  "valid_hello rh hl h \<longleftrightarrow>
     length rh = 4 \<and> length hl = 3 \<and> h_version h < 65536 \<and> length (h_random h) = 32 \<and>
     length (h_session_id h) < 256 \<and> 2 * length (h_ciphers h) < 65536 \<and>
     (\<forall>c \<in> set (h_ciphers h). c < 65536) \<and> length (h_compression h) < 256 \<and>
     length (exts_bytes (h_extensions h)) < 65536 \<and>
     (\<forall>e \<in> set (h_extensions h). fst e < 65536 \<and> length (snd e) < 65536)"

definition hello_fields :: "hello \<Rightarrow> tls_handshake" where
  "hello_fields h =
     (let a = foldl (\<lambda>a e. ext_step a (fst e) (snd e)) ext_acc0 (h_extensions h)
      in \<lparr>tls_version = h_version h, ciphers = h_ciphers h, extensions = ext_ids a,
          elliptic_curves = groups a, ec_point_formats = ec_fmts a, sni = sni_hostname a,
          alpn = alpn_proto a\<rparr>)"

lemma length_cipher_bytes [simp]: "length (cipher_bytes cs) = 2 * length cs"
  by (induction cs) (simp_all add: cipher_bytes_def)

lemma cipher_bytes_slice:
  "k < length cs \<Longrightarrow> slice (2 * k) (2 * k + 2) (cipher_bytes cs @ ys) = be_bytes 2 (cs ! k)"
proof (induction cs arbitrary: k)
  case (Cons c cs)
  show ?case
  proof (cases k)
    case 0
    then show ?thesis by (simp add: cipher_bytes_def slice_def)
  next
    case (Suc j)
    have "slice (2 * k) (2 * k + 2) (cipher_bytes (c # cs) @ ys) =
          slice (2 * j) (2 * j + 2) (cipher_bytes cs @ ys)"
      using Suc by (simp add: cipher_bytes_def slice_def)
    with Cons Suc show ?thesis by simp
  qed
qed simp

lemma decode_cipher_bytes:
  assumes "\<forall>c \<in> set cs. c < 65536" and "start = length xs"
  shows "decode_cipher_list (xs @ cipher_bytes cs @ ys) start (2 * length cs) = Inr cs"
proof -
  have "map (\<lambda>k. be_nat (slice (start + 2 * k) (start + 2 * k + 2) (xs @ cipher_bytes cs @ ys)))
          [0 ..< length cs] = map ((!) cs) [0 ..< length cs]"
    using assms by (intro map_cong refl)
      (simp add: slice_append_right cipher_bytes_slice codec add.assoc)
  then show ?thesis
    using assms(2) by (simp add: decode_cipher_list_def cipher_loop_spec map_nth)
qed

lemma ext_loop_bytes:
  assumes "\<forall>e \<in> set es. fst e < 65536 \<and> length (snd e) < 65536"
  shows "ext_loop (xs @ exts_bytes es @ ys) (length xs) (length xs + length (exts_bytes es)) a =
         Inr (foldl (\<lambda>a e. ext_step a (fst e) (snd e)) a es)"
  using assms
proof (induction es arbitrary: xs a)
  case Nil
  then show ?case by (simp add: ext_loop.simps exts_bytes_def)
next
  case (Cons e es)
  obtain eid body where e: "e = (eid, body)" by (cases e)
  let ?raw = "xs @ exts_bytes (e # es) @ ys"
  have raw: "?raw = xs @ be_bytes 2 eid @ be_bytes 2 (length body) @ body @ exts_bytes es @ ys"
    by (simp add: exts_bytes_def ext_bytes_def e)
  have r1: "read_uint16 ?raw (length xs) = Inr eid"
    unfolding raw using Cons.prems e by (intro read_uint16_at) auto
  have r2: "read_uint16 ?raw (length xs + 2) = Inr (length body)"
    using read_uint16_at [of "length xs + 2" "xs @ be_bytes 2 eid" "length body" "body @ exts_bytes es @ ys"]
      Cons.prems e unfolding raw by simp
  have b: "slice (length xs + 4) (length xs + 4 + length body) ?raw = body"
    using slice_middle [of "length xs + 4" "xs @ be_bytes 2 eid @ be_bytes 2 (length body)"
        "length xs + 4 + length body" body "exts_bytes es @ ys"] by (simp add: raw)
  have len: "length (exts_bytes (e # es)) = 4 + length body + length (exts_bytes es)"
    by (simp add: exts_bytes_def ext_bytes_def e)
  have IH: "ext_loop ?raw (length xs + (4 + length body))
       (length xs + length (exts_bytes (e # es))) (ext_step a eid body) =
     Inr (foldl (\<lambda>a e. ext_step a (fst e) (snd e)) (ext_step a eid body) es)"
    using Cons.IH [of "xs @ be_bytes 2 eid @ be_bytes 2 (length body) @ body" "ext_step a eid body"]
      Cons.prems by (simp add: raw len add.assoc)
  show ?case
    using r1 r2 b IH len by (subst ext_loop.simps) (simp add: e)
qed

lemma length_hello_front: "valid_hello rh hl h \<Longrightarrow> length (hello_front rh hl h) = 44 + length (h_session_id h)"
  by (simp add: hello_front_def valid_hello_def)

lemma hello_front_reads:
  assumes "valid_hello rh hl h"
  shows "(hello_front rh hl h @ ys) ! 0 = 0x16" and "(hello_front rh hl h @ ys) ! 5 = 0x01"
    and "read_uint16 (hello_front rh hl h @ ys) 9 = Inr (h_version h)"
    and "unat ((hello_front rh hl h @ ys) ! 43) = length (h_session_id h)"
proof -
  note v = assms [unfolded valid_hello_def]
  have f: "hello_front rh hl h @ ys =
     ([0x16] @ rh @ [0x01] @ hl) @ be_bytes 2 (h_version h) @ (h_random h @
     [word_of_nat (length (h_session_id h))] @ h_session_id h @ ys)"
    by (simp add: hello_front_def)
  have f43: "hello_front rh hl h @ ys =
     ([0x16] @ rh @ [0x01] @ hl @ be_bytes 2 (h_version h) @ h_random h) @
     word_of_nat (length (h_session_id h)) # (h_session_id h @ ys)"
    by (simp add: hello_front_def)
  show "(hello_front rh hl h @ ys) ! 0 = 0x16" by (simp add: hello_front_def)
  show "(hello_front rh hl h @ ys) ! 5 = 0x01"
    using v by (simp add: hello_front_def nth_append)
  show "read_uint16 (hello_front rh hl h @ ys) 9 = Inr (h_version h)"
    unfolding f using v by (intro read_uint16_at) auto
  show "unat ((hello_front rh hl h @ ys) ! 43) = length (h_session_id h)"
    unfolding f43 using v by (simp add: nth_append unat_of_nat)
qed

lemma walk_extensions_at:
  assumes "valid_hello rh hl h"
  shows "walk_extensions (xs @ be_bytes 2 (length (exts_bytes (h_extensions h))) @
           exts_bytes (h_extensions h) @ rest) (length xs) =
         Inr (foldl (\<lambda>a e. ext_step a (fst e) (snd e)) ext_acc0 (h_extensions h))"
proof -
  let ?n = "length (exts_bytes (h_extensions h))"
  let ?raw = "xs @ be_bytes 2 ?n @ exts_bytes (h_extensions h) @ rest"
  have n: "?n < 65536" using assms by (simp add: valid_hello_def)
  have "read_uint16 ?raw (length xs) = Inr ?n"
    by (intro read_uint16_at n refl)
  moreover have "ext_loop ?raw (length xs + 2) (length xs + 2 + ?n) ext_acc0 =
      Inr (foldl (\<lambda>a e. ext_step a (fst e) (snd e)) ext_acc0 (h_extensions h))"
    using ext_loop_bytes [of "h_extensions h" "xs @ be_bytes 2 ?n" rest ext_acc0] assms
    by (simp add: valid_hello_def)
  ultimately show ?thesis by (simp add: walk_extensions_def)
qed

section \<open>Properties\<close>

text \<open>C3: Functional correctness of the ClientHello dissector.  On the bytes of any
  well-formed ClientHello, followed by any further bytes of the segment, it returns the
  version, the cipher suites and the extension identifiers in order, and the groups, point
  formats, server name and ALPN read from the extensions by their bodies.\<close>

theorem client_hello_parsed:
  assumes "valid_hello rh hl h"
  shows "extract_client_hello (hello_bytes rh hl h @ rest) = Inr (Some (hello_fields h))"
proof -
  note v = assms [unfolded valid_hello_def]
  let ?F = "hello_front rh hl h" and ?n = "length (h_ciphers h)"
  let ?C = "be_bytes 2 (2 * ?n)" and ?c2 = "44 + length (h_session_id h)"
  let ?c3 = "?c2 + 2 + 2 * ?n" and ?m = "length (h_compression h)"
  let ?E = "be_bytes 2 (length (exts_bytes (h_extensions h))) @ exts_bytes (h_extensions h) @ rest"
  let ?buf = "hello_bytes rh hl h @ rest"
  have lF: "length ?F = ?c2" by (rule length_hello_front [OF assms])
  have b1: "?buf = ?F @ (?C @ cipher_bytes (h_ciphers h) @ hello_back h @ rest)"
    and b2: "?buf = (?F @ ?C) @ cipher_bytes (h_ciphers h) @ (hello_back h @ rest)"
    and b3: "?buf = (?F @ ?C @ cipher_bytes (h_ciphers h)) @
                    word_of_nat ?m # (h_compression h @ ?E)"
    and b4: "?buf = (?F @ ?C @ cipher_bytes (h_ciphers h) @ [word_of_nat ?m] @ h_compression h) @ ?E"
    by (simp_all add: hello_bytes_def hello_back_def)
  have rC: "read_uint16 ?buf ?c2 = Inr (2 * ?n)"
    unfolding b1 using v lF by (intro read_uint16_at) auto
  have dC: "decode_cipher_list ?buf (?c2 + 2) (2 * ?n) = Inr (h_ciphers h)"
    unfolding b2 using v lF by (intro decode_cipher_bytes) auto
  have cm: "unat (?buf ! ?c3) = ?m"
    unfolding b3 using v lF by (simp add: nth_append unat_of_nat)
  have wE: "walk_extensions ?buf (?c3 + (1 + ?m)) =
      Inr (foldl (\<lambda>a e. ext_step a (fst e) (snd e)) ext_acc0 (h_extensions h))"
    using walk_extensions_at [OF assms,
        of "?F @ ?C @ cipher_bytes (h_ciphers h) @ [word_of_nat ?m] @ h_compression h" rest] lF
    unfolding b4 by (simp add: add.assoc)
  have len: "?c3 < length ?buf"
    unfolding b3 using lF by simp
  have reads: "?buf ! 0 = 0x16" "?buf ! 5 = 0x01" "read_uint16 ?buf 9 = Inr (h_version h)"
    "unat (?buf ! 43) = length (h_session_id h)"
    unfolding b1 by (rule hello_front_reads [OF assms])+
  show ?thesis
    unfolding extract_client_hello_def
    using reads rC dC cm wE len by (simp add: hello_fields_def Let_def add.assoc)
qed

theorem client_hello_parsed_witness:
  "extract_client_hello
     ([0x16, 3, 1, 0, 0, 0x01, 0, 0, 0, 3, 3] @ replicate 32 7 @ [0, 0, 4, 0x13, 1, 0x0A, 0x0A, 1, 0,
       0, 18, 0, 0, 0, 9, 0, 7, 0, 0, 4, 97, 46, 105, 111, 0, 16, 0, 1, 5]) =
   Inr (Some \<lparr>tls_version = 771, ciphers = [0x1301, 0x0A0A], extensions = [0, 16],
     elliptic_curves = [], ec_point_formats = [], sni = Some (lit ''a.io''), alpn = None\<rparr>)"
proof -
  let ?h = "\<lparr>h_version = 771, h_random = replicate 32 7, h_session_id = [],
     h_ciphers = [0x1301, 0x0A0A], h_compression = [0],
     h_extensions = [(0, [0, 7, 0, 0, 4, 97, 46, 105, 111]), (16, [5])]\<rparr>"
  have v: "valid_hello [3, 1, 0, 0] [0, 0, 0] ?h"
    by (simp add: valid_hello_def exts_bytes_def ext_bytes_def)
  have b: "hello_bytes [3, 1, 0, 0] [0, 0, 0] ?h @ [] =
     [0x16, 3, 1, 0, 0, 0x01, 0, 0, 0, 3, 3] @ replicate 32 7 @ [0, 0, 4, 0x13, 1, 0x0A, 0x0A, 1, 0,
       0, 18, 0, 0, 0, 9, 0, 7, 0, 0, 4, 97, 46, 105, 111, 0, 16, 0, 1, 5]"
    by (simp add: hello_bytes_def hello_front_def hello_back_def cipher_bytes_def exts_bytes_def
        ext_bytes_def be_bytes_def)
  show ?thesis
    using client_hello_parsed [OF v, of "[]"] unfolding b
    by (simp add: hello_fields_def ext_step_def ext_acc0_def extract_sni_def extract_alpn_def
        read_uint16_def unpack_H_def slice_def be_nat_def ascii_ignore_def lit_def Let_def)
qed

text \<open>A ClientHello whose segment ends inside its cipher list makes the dissector raise
  \<open>struct.error\<close>, on every such cut of every well-formed message; it does not return
  None, which its documentation promises for payloads that are not a valid ClientHello.\<close>

theorem truncated_hello_raises:
  assumes "valid_hello rh hl h"
    and "46 + length (h_session_id h) \<le> n"
    and "n < 46 + length (h_session_id h) + 2 * length (h_ciphers h)"
  shows "extract_client_hello (take n (hello_bytes rh hl h)) = Inl StructError"
proof -
  note v = assms(1) [unfolded valid_hello_def]
  let ?F = "hello_front rh hl h" and ?n = "length (h_ciphers h)"
  let ?C = "be_bytes 2 (2 * ?n)" and ?c2 = "44 + length (h_session_id h)"
  let ?X = "take (n - (?c2 + 2)) (cipher_bytes (h_ciphers h) @ hello_back h)"
  let ?buf = "take n (hello_bytes rh hl h)"
  have lF: "length ?F = ?c2" by (rule length_hello_front [OF assms(1)])
  have b1: "?buf = ?F @ (?C @ ?X)"
    using assms(2) lF by (simp add: hello_bytes_def)
  have len: "length ?buf = n"
    using assms(3) lF by (simp add: hello_bytes_def hello_back_def)
  have rC: "read_uint16 ?buf ?c2 = Inr (2 * ?n)"
    unfolding b1 using v lF by (intro read_uint16_at) auto
  have dC: "decode_cipher_list ?buf (?c2 + 2) (2 * ?n) = Inl StructError"
    unfolding decode_cipher_list_def cipher_loop_spec using assms(2,3) len by auto
  have reads: "?buf ! 0 = 0x16" "?buf ! 5 = 0x01" "read_uint16 ?buf 9 = Inr (h_version h)"
    "unat (?buf ! 43) = length (h_session_id h)"
    unfolding b1 by (rule hello_front_reads [OF assms(1)])+
  show ?thesis
    unfolding extract_client_hello_def
    using reads rC dC len assms(2) by (simp add: Let_def add.assoc)
qed

theorem truncated_hello_raises_witness:
  "extract_client_hello ([0x16, 3, 1, 0, 0, 0x01, 0, 0, 0, 3, 3] @ replicate 32 7 @ [0, 0, 4, 0x13]) =
   Inl StructError"
proof -
  let ?h = "\<lparr>h_version = 771, h_random = replicate 32 7, h_session_id = [],
     h_ciphers = [0x1301, 0x0A0A], h_compression = [0], h_extensions = []\<rparr>"
  have v: "valid_hello [3, 1, 0, 0] [0, 0, 0] ?h"
    by (simp add: valid_hello_def exts_bytes_def)
  have b: "take 47 (hello_bytes [3, 1, 0, 0] [0, 0, 0] ?h) =
     [0x16, 3, 1, 0, 0, 0x01, 0, 0, 0, 3, 3] @ replicate 32 7 @ [0, 0, 4, 0x13]"
    by (simp add: hello_bytes_def hello_front_def hello_back_def cipher_bytes_def be_bytes_def)
  show ?thesis
    using truncated_hello_raises [OF v, of 47] unfolding b by simp
qed

text \<open>JA3 strings identify exactly the parameters they are computed from: two
  ClientHellos have the same JA3 string if and only if they agree on the version, on the
  cipher, extension and curve lists after GREASE values are removed, and on the point
  formats.\<close>

theorem ja3_string_identifies:
  "ja3_string v cs es gs fs = ja3_string v' cs' es' gs' fs' \<longleftrightarrow>
     v = v' \<and> filter_grease cs = filter_grease cs' \<and> filter_grease es = filter_grease es' \<and>
     filter_grease gs = filter_grease gs' \<and> fs = fs'"
proof -
  have lits: "lit '','' = [44]" "lit ''-'' = [45]" by (simp_all add: lit_def)
  have no: "c \<notin> set (str_nat n)" if "c = 44 \<or> c = 45" for c n
    using that str_nat_decimal [of c n] by auto
  have dash: "dash_join xs = dash_join ys \<longleftrightarrow> xs = ys" for xs ys
    unfolding dash_join_def lits using no
    by (subst join_inject) (auto intro: map_injective simp: inj_def)
  have set_dash: "44 \<notin> set (dash_join xs)" for xs
  proof (induction xs rule: induct_list012)
    case (3 x y zs)
    then show ?case using no by (simp add: dash_join_def lits)
  qed (use no in \<open>simp_all add: dash_join_def\<close>)
  let ?p = "\<lambda>v cs es gs fs. [str_nat v, dash_join (filter_grease cs), dash_join (filter_grease es),
    dash_join (filter_grease gs), dash_join fs]"
  have sp: "split_on 44 (ja3_string v cs es gs fs) = ?p v cs es gs fs" for v cs es gs fs
    unfolding ja3_string_def lits using no set_dash by (intro split_on_join) auto
  show ?thesis
  proof
    assume "ja3_string v cs es gs fs = ja3_string v' cs' es' gs' fs'"
    then have "?p v cs es gs fs = ?p v' cs' es' gs' fs'"
      using sp [of v cs es gs fs] sp [of v' cs' es' gs' fs'] by metis
    then show "v = v' \<and> filter_grease cs = filter_grease cs' \<and> filter_grease es = filter_grease es' \<and>
       filter_grease gs = filter_grease gs' \<and> fs = fs'"
      by (simp add: dash)
  qed (simp add: ja3_string_def)
qed

text \<open>JA4 does not depend on the order of cipher suites and extensions nor on GREASE
  values: two ClientHellos whose GREASE-free cipher and extension lists are permutations of
  each other, with the same version, server name and ALPN, get the same JA4.\<close>

theorem ja4_order_independent:
  assumes "mset (filter_grease cs) = mset (filter_grease cs')"
    and "mset (filter_grease es) = mset (filter_grease es')"
  shows "compute_ja4 h v cs es s a = compute_ja4 h v cs' es' s a"
proof -
  have "sort (filter_grease cs) = sort (filter_grease cs')"
    using assms(1) by (intro properties_for_sort) auto
  moreover have "sort (filter_grease es) = sort (filter_grease es')"
    using assms(2) by (intro properties_for_sort) auto
  moreover have "length (filter_grease cs) = length (filter_grease cs')"
    using assms(1) by (rule mset_eq_length)
  moreover have "length (filter_grease es) = length (filter_grease es')"
    using assms(2) by (rule mset_eq_length)
  ultimately show ?thesis by (simp add: compute_ja4_def Let_def)
qed

theorem ja4_order_independent_witness:
  "compute_ja4 id 771 [4865, 0x1A1A, 4866] [0, 16] None None =
   compute_ja4 id 771 [4866, 4865] [16, 0xFAFA, 0] None None"
  by (rule ja4_order_independent) (simp_all add: filter_grease_def GREASE_VALUES_def)

text \<open>Shape of a JA4 string: with a digest function that returns 64 characters, every
  JA4 has 36 characters, a section of ten starting with t, an underscore, twelve digest
  characters, an underscore and twelve more.\<close>

theorem ja4_shape:
  assumes "\<And>x. length (h x) = 64"
  shows "length (compute_ja4 h v cs es s a) = 36 \<and> compute_ja4 h v cs es s a ! 0 = 116 \<and>
    compute_ja4 h v cs es s a ! 10 = 95 \<and> compute_ja4 h v cs es s a ! 23 = 95"
proof -
  have ver: "length (get_or JA4_VERSION_MAP v (lit ''00'')) = 2"
    using get_or_in [of JA4_VERSION_MAP v "lit ''00''"]
    by (auto simp: JA4_VERSION_MAP_def lit_def)
  have al: "length (alpn_first a) = 2"
    by (auto simp: alpn_first_def JA4_ALPN_MAP_def lit_def split: option.splits)
  have two: "length (two_digits n) = 2" for n
    using length_str_nat_99 [of n] by (simp add: two_digits_def max_def)
  obtain sa where sa: "length sa = 9" and
    eq: "compute_ja4 h v cs es s a = 116 # (sa @ 95 # take 12 (h (comma_join (sort (filter_grease cs)))) @
           95 # take 12 (h (comma_join (sort (filter_grease es)))))"
    using ver al two
    by (fastforce simp: compute_ja4_def Let_def lit_def split: option.splits
        intro: that [of "get_or JA4_VERSION_MAP v (lit ''00'') @
          (case s of None \<Rightarrow> lit ''i'' | Some s \<Rightarrow> if s = [] then lit ''i'' else lit ''d'') @
          two_digits (length (filter_grease cs)) @ two_digits (length (filter_grease es)) @ alpn_first a"])
  show ?thesis unfolding eq using sa assms by (simp add: nth_append nth_Cons')
qed

theorem ja4_shape_witness:
  "length (compute_ja4 (\<lambda>_. replicate 64 48) 771 [4865] [0, 16] (Some (lit ''a.io'')) None) = 36"
  using ja4_shape [of "\<lambda>_. replicate 64 48" 771 "[4865]" "[0, 16]" "Some (lit ''a.io'')" None] by simp

definition sni_body :: "bytes \<Rightarrow> bytes" where
  "sni_body name = be_bytes 2 (length name + 3) @ [0] @ be_bytes 2 (length name) @ name"

text \<open>The server name a client sends is what the dissector reports: for any ASCII host
  name shorter than 2^16 bytes the body of a server-name extension carrying it yields that
  name, and the dissector reports the body of the last such extension of the message.\<close>

theorem sni_reported:
  assumes "\<forall>b \<in> set name. b < 0x80" and "length name < 65536"
    and "h_extensions h = es @ (0, sni_body name) # es'" and "\<forall>e \<in> set es'. fst e \<noteq> 0"
    and "valid_hello rh hl h"
  shows "\<exists>f. extract_client_hello (hello_bytes rh hl h @ rest) = Inr (Some f) \<and>
             sni f = Some (map unat name)"
proof -
  have keep: "sni_hostname (foldl (\<lambda>a e. ext_step a (fst e) (snd e)) a es') = sni_hostname a" for a
    using assms(4) by (induction es' arbitrary: a) (auto simp: ext_step_def Let_def)
  have l2: "length (be_bytes 2 (length name + 3)) = 2" by simp
  have "sni_body name ! 2 = 0"
    unfolding sni_body_def by (simp add: nth_append)
  moreover have "read_uint16 (sni_body name) 3 = Inr (length name)"
    using read_uint16_at [of 3 "be_bytes 2 (length name + 3) @ [0]" "length name" name] assms(2)
    by (simp add: sni_body_def)
  moreover have "slice 5 (5 + length name) (sni_body name) = name"
    by (simp add: sni_body_def slice_def)
  ultimately have "extract_sni (sni_body name) = Some (map unat name)"
    using assms(1) by (simp add: extract_sni_def ascii_ignore_ascii) (simp add: sni_body_def)
  then have "sni (hello_fields h) = Some (map unat name)"
    using assms(3) keep by (simp add: hello_fields_def Let_def ext_step_def)
  then show ?thesis using client_hello_parsed [OF assms(5), of rest] by blast
qed

theorem sni_reported_witness:
  "\<exists>f. extract_client_hello (hello_bytes [3, 1, 0, 0] [0, 0, 0]
      \<lparr>h_version = 771, h_random = replicate 32 7, h_session_id = [9], h_ciphers = [0x1301],
       h_compression = [0], h_extensions = [(0x0A0A, [])] @ (0, sni_body [97, 46, 105, 111]) # [(16, [])]\<rparr>
      @ [1, 2]) = Inr (Some f) \<and> sni f = Some [97, 46, 105, 111]"
proof -
  let ?h = "\<lparr>h_version = 771, h_random = replicate 32 7, h_session_id = [9], h_ciphers = [0x1301],
       h_compression = [0], h_extensions = [(0x0A0A, [])] @ (0, sni_body [97, 46, 105, 111]) # [(16, [])]\<rparr>"
  have "valid_hello [3, 1, 0, 0] [0, 0, 0] ?h"
    by (simp add: valid_hello_def exts_bytes_def ext_bytes_def sni_body_def)
  then show ?thesis
    using sni_reported [of "[97, 46, 105, 111]" ?h "[(0x0A0A, [])]" "[(16, [])]" "[3, 1, 0, 0]" "[0, 0, 0]" "[1, 2]"]
    by simp
qed

end
