(* ===== verification/IotScada.thy ===== *)
theory IotScada
  imports Packets
begin

text \<open>
  \<open>capture/protocols/iot_scada.py\<close>: the industrial and IoT protocol parsers, in the
  order of the file (UMAS, Modbus, BACnet, CoAP, MQTT, EtherNet/IP, DNP3, S7comm, OPC UA, GOOSE,
  PROFINET), each from the view of a packet to an optional \<open>captured_packet\<close>; their
  option, block and tag-length-value loops are functions of their own.  A failing
  \<open>bytes(...)\<close> inside the parsers' \<open>try\<close> gives None, as in the code.
\<close>

definition bnat :: "bytes \<Rightarrow> nat \<Rightarrow> nat" where
  "bnat bs i = unat (bs ! i)"

definition be_at :: "bytes \<Rightarrow> nat \<Rightarrow> nat \<Rightarrow> nat" where
  "be_at bs a b = be_nat (slice a b bs)"

definition le_at :: "bytes \<Rightarrow> nat \<Rightarrow> nat \<Rightarrow> nat" where
  "le_at bs a b = le_nat (slice a b bs)"

text \<open>A table of constant names with a formatted default.\<close>

definition name_of :: "(nat \<times> string) list \<Rightarrow> nat \<Rightarrow> ustr \<Rightarrow> pyval" where
  "name_of tbl k dflt = PStr (get_or (map (\<lambda>(k, s). (k, lit s)) tbl) k dflt)"

section \<open>UMAS\<close>

definition umas_functions :: "(nat \<times> string) list" where
  "umas_functions =
    [(0x01, ''init_comm''), (0x02, ''read_id''), (0x03, ''read_project_info''),
     (0x04, ''read_plc_info''), (0x06, ''read_memory''), (0x0A, ''start_plc''),
     (0x10, ''read_coils''), (0x20, ''write_coils''), (0x22, ''read_io_object''),
     (0x23, ''write_io_object''), (0x30, ''monitor''), (0x31, ''read_data''),
     (0x32, ''take_plc_reservation''), (0x33, ''release_plc_reservation''),
     (0x36, ''read_plc_status''), (0x39, ''read_application_name''),
     (0x40, ''begin_download''), (0x41, ''download_block''), (0x42, ''end_download''),
     (0x50, ''begin_upload''), (0x51, ''upload_block''), (0x52, ''end_upload''),
     (0x58, ''keep_alive'')]"

text \<open>The scan for printable runs of at least three characters.\<close>

fun ascii_runs :: "bytes \<Rightarrow> ustr list \<Rightarrow> ustr \<Rightarrow> ustr list" where
  "ascii_runs [] parts current = (if length current \<ge> 3 then parts @ [current] else parts)"
| "ascii_runs (b # bs) parts current =
     (if 0x20 \<le> b \<and> b < 0x7F then ascii_runs bs parts (current @ [unat b])
      else ascii_runs bs (if length current \<ge> 3 then parts @ [current] else parts) [])"

definition umas_fields :: "bytes \<Rightarrow> bool \<Rightarrow> dict" where
  "umas_fields payload is_server =
     (let subcode = (if length payload > 8 then bnat payload 8 else 0);
          fs = [(''umas_subcode'', pnat subcode),
                (''umas_function'', name_of umas_functions subcode (lit ''func_'' @ hex_prefixed 4 subcode)),
                (''unit_id'', pnat (bnat payload 6)),
                (''is_server'', PBool is_server)];
          parts = ascii_runs (drop 9 payload) [] []
      in if subcode \<in> {0x03, 0x04, 0x39} \<and> length payload > 12 \<and> parts \<noteq> []
         then dict_set (dict_set fs ''extracted_strings'' (PList (map PStr (take 5 parts))))
                ''project_name'' (PStr (hd parts))
         else fs)"

definition parse_umas :: "packet \<Rightarrow> captured_packet option" where
  "parse_umas pkt =
     (case (ip_layer pkt, tcp_layer pkt) of
        (Some (src, dst), Some tcp) \<Rightarrow>
          if sport tcp \<noteq> 502 \<and> dport tcp \<noteq> 502 then None
          else (case l4_payload tcp of
            Inl e \<Rightarrow> None
          | Inr payload \<Rightarrow>
              if length payload < 8 then None
              else if be_at payload 2 4 \<noteq> 0x0000 then None
              else if bnat payload 7 \<noteq> 0x5A then None
              else
                let is_server = (sport tcp = 502)
                in Some (captured ''umas'' (pkt_src pkt)
                     (if \<not> is_server then src else dst) (Some (if \<not> is_server then dst else src))
                     (umas_fields payload is_server)))
      | _ \<Rightarrow> None)"

section \<open>Modbus TCP\<close>

text \<open>The transport a parser reads when it accepts TCP or UDP.\<close>

definition tcp_or_udp :: "packet \<Rightarrow> l4 option" where
  "tcp_or_udp pkt = (case tcp_layer pkt of Some t \<Rightarrow> Some t | None \<Rightarrow> udp_layer pkt)"

definition with_raw :: "packet \<Rightarrow> captured_packet \<Rightarrow> captured_packet" where
  "with_raw pkt c = c\<lparr>cp_raw := Some (pkt_bytes pkt)\<rparr>"

definition parse_modbus :: "packet \<Rightarrow> captured_packet option" where
  "parse_modbus pkt =
     (case (ip_layer pkt, tcp_or_udp pkt) of
        (Some (src, dst), Some t) \<Rightarrow>
          if sport t \<noteq> 502 \<and> dport t \<noteq> 502 then None
          else (case l4_payload t of
            Inl e \<Rightarrow> None
          | Inr payload \<Rightarrow>
              if length payload < 8 then None
              else if be_at payload 2 4 \<noteq> 0x0000 then None
              else Some (with_raw pkt (captured ''modbus'' (pkt_src pkt) src (Some dst)
                     [(''unit_id'', pnat (bnat payload 6)),
                      (''function_code'', pnat (bnat payload 7))])))
      | _ \<Rightarrow> None)"

section \<open>BACnet/IP\<close>

text \<open>\<open>fields.setdefault(k, None)\<close> for the three keys the shallow parser leaves open.\<close>

definition dict_setdefault :: "dict \<Rightarrow> string \<Rightarrow> pyval \<Rightarrow> dict" where
  "dict_setdefault d k v = (if dict_get d k = None then dict_set d k v else d)"

definition extract_bacnet_fields :: "bytes \<Rightarrow> dict \<Rightarrow> dict" where
  "extract_bacnet_fields data fs =
     dict_setdefault (dict_setdefault (dict_setdefault fs ''vendor_id'' PNone)
       ''object_name'' PNone) ''model_name'' PNone"

definition parse_bacnet :: "packet \<Rightarrow> captured_packet option" where
  "parse_bacnet pkt =
     (case (udp_layer pkt, ip_layer pkt) of
        (Some udp, Some (src, dst)) \<Rightarrow>
          if dport udp \<noteq> 47808 \<and> sport udp \<noteq> 47808 then None
          else (case l4_payload udp of
            Inl e \<Rightarrow> None
          | Inr payload \<Rightarrow>
              if length payload < 4 then None
              else if bnat payload 0 \<noteq> 0x81 then None
              else Some (with_raw pkt (captured ''bacnet'' (pkt_src pkt) src (Some dst)
                     (extract_bacnet_fields (drop 4 payload)
                        [(''bvlc_function'', pnat (bnat payload 1))]))))
      | _ \<Rightarrow> None)"

section \<open>CoAP\<close>

text \<open>The extended forms of an option's delta and length nibbles; None is the loop's
  \<open>break\<close>.\<close>

definition coap_ext :: "bytes \<Rightarrow> nat \<Rightarrow> nat \<Rightarrow> (nat \<times> nat) option" where
  "coap_ext payload v offset =
     (if v = 13 then
        (if offset \<ge> length payload then None else Some (bnat payload offset + 13, offset + 1))
      else if v = 14 then
        (if offset + 1 \<ge> length payload then None
         else Some (be_at payload offset (offset + 2) + 269, offset + 2))
      else if v = 15 then None
      else Some (v, offset))"

definition coap_option :: "nat \<Rightarrow> bytes \<Rightarrow> ustr list \<times> dict \<Rightarrow> ustr list \<times> dict" where
  "coap_option opt_number opt_value acc =
     (case acc of (uri_parts, fs) \<Rightarrow>
        if opt_number = 11 then (uri_parts @ [utf8_replace opt_value], fs)
        else if opt_number = 12 then
          (uri_parts,
           if length opt_value = 1 then dict_set fs ''content_format'' (pnat (bnat opt_value 0))
           else if length opt_value = 2 then dict_set fs ''content_format'' (pnat (be_nat opt_value))
           else fs)
        else (uri_parts, fs))"

lemma coap_ext_mono: "coap_ext p v off = Some (x, off') \<Longrightarrow> off \<le> off'"
  by (auto simp: coap_ext_def split: if_splits)

function coap_loop :: "bytes \<Rightarrow> nat \<Rightarrow> nat \<Rightarrow> ustr list \<times> dict \<Rightarrow> ustr list \<times> dict" where
  "coap_loop payload offset opt_number acc =
     (if offset < length payload then
        let byte = payload ! offset in
        if byte = 0xFF then acc
        else (case coap_ext payload (unat (drop_bit 4 byte AND 0x0F)) (offset + 1) of
            None \<Rightarrow> acc
          | Some (delta, off1) \<Rightarrow>
              (case coap_ext payload (unat (byte AND 0x0F)) off1 of
                 None \<Rightarrow> acc
               | Some (len, off2) \<Rightarrow>
                   coap_loop payload (off2 + len) (opt_number + delta)
                     (coap_option (opt_number + delta) (slice off2 (off2 + len) payload) acc)))
      else acc)"
  by pat_completeness auto
termination
  by (relation "measure (\<lambda>(p, off, n, acc). length p - off)")
    (auto dest!: coap_ext_mono simp: Let_def)

declare coap_loop.simps [simp del]

definition parse_coap_options :: "bytes \<Rightarrow> nat \<Rightarrow> dict \<Rightarrow> dict" where
  "parse_coap_options payload offset fs =
     (case coap_loop payload offset 0 ([], fs) of
        (uri_parts, fs') \<Rightarrow>
          if uri_parts \<noteq> []
          then dict_set fs' ''uri_path'' (PStr (lit ''/'' @ join (lit ''/'') uri_parts))
          else fs')"

definition parse_coap :: "packet \<Rightarrow> captured_packet option" where
  "parse_coap pkt =
     (case (udp_layer pkt, ip_layer pkt) of
        (Some udp, Some (src, dst)) \<Rightarrow>
          if dport udp \<noteq> 5683 \<and> sport udp \<noteq> 5683 then None
          else (case l4_payload udp of
            Inl e \<Rightarrow> None
          | Inr payload \<Rightarrow>
              if length payload < 4 then None
              else if drop_bit 6 (payload ! 0) AND 0x03 \<noteq> 1 then None
              else
                let msg_type = unat (drop_bit 4 (payload ! 0) AND 0x03);
                    token_len = unat (payload ! 0 AND 0x0F);
                    code_class = unat (drop_bit 5 (payload ! 1) AND 0x07);
                    code_detail = unat (payload ! 1 AND 0x1F);
                    fs = [(''message_type'', pnat msg_type),
                          (''code'', PStr (str_nat code_class @ lit ''.'' @ zfill 2 (str_nat code_detail))),
                          (''uri_path'', PNone), (''content_format'', PNone)]
                in Some (with_raw pkt (captured ''coap'' (pkt_src pkt) src (Some dst)
                     (parse_coap_options payload (4 + token_len) fs))))
      | _ \<Rightarrow> None)"

section \<open>MQTT\<close>

function mqtt_length_loop :: "bytes \<Rightarrow> nat \<Rightarrow> nat \<Rightarrow> nat \<Rightarrow> nat \<Rightarrow> nat option \<times> nat" where
  "mqtt_length_loop data offset multiplier val consumed =
     (if offset < length data then
        let b = data ! offset;
            val' = val + unat (b AND 0x7F) * multiplier
        in if b AND 0x80 = 0 then (Some val', consumed + 1)
           else if consumed + 1 > 4 then (None, consumed + 1)
           else mqtt_length_loop data (offset + 1) (multiplier * 128) val' (consumed + 1)
      else (None, consumed))"
  by pat_completeness auto
termination
  by (relation "measure (\<lambda>(d, off, m, v, c). length d - off)") auto

declare mqtt_length_loop.simps [simp del]

definition mqtt_decode_remaining_length :: "bytes \<Rightarrow> nat \<Rightarrow> nat option \<times> nat" where
  "mqtt_decode_remaining_length data offset = mqtt_length_loop data offset 1 0 0"

definition parse_mqtt_connect :: "bytes \<Rightarrow> dict \<Rightarrow> dict" where
  "parse_mqtt_connect body fs =
     (if length body < 10 then fs
      else let off1 = 2 + be_at body 0 2 in
      if off1 + 4 > length body then fs
      else let off2 = off1 + 4 in
      if off2 + 2 > length body then fs
      else let n = be_at body off2 (off2 + 2); off3 = off2 + 2 in
      if off3 + n > length body then fs
      else dict_set fs ''client_id'' (PStr (utf8_replace (slice off3 (off3 + n) body))))"

definition parse_mqtt_publish :: "bytes \<Rightarrow> dict \<Rightarrow> dict" where
  "parse_mqtt_publish body fs =
     (if length body < 2 then fs
      else let n = be_at body 0 2 in
      if 2 + n > length body then fs
      else dict_set fs ''topic'' (PStr (utf8_replace (slice 2 (2 + n) body))))"

definition MQTT_PORTS :: "nat list" where
  "MQTT_PORTS = [1883, 8883]"

definition parse_mqtt :: "packet \<Rightarrow> captured_packet option" where
  "parse_mqtt pkt =
     (case (tcp_layer pkt, ip_layer pkt) of
        (Some tcp, Some (src, dst)) \<Rightarrow>
          if dport tcp \<notin> set MQTT_PORTS \<and> sport tcp \<notin> set MQTT_PORTS then None
          else (case l4_payload tcp of
            Inl e \<Rightarrow> None
          | Inr payload \<Rightarrow>
              if length payload < 2 then None
              else let pkt_type = unat (drop_bit 4 (payload ! 0) AND 0x0F) in
              if pkt_type \<noteq> 1 \<and> pkt_type \<noteq> 3 then None
              else (case mqtt_decode_remaining_length payload 1 of
                  (None, c) \<Rightarrow> None
                | (Some n, c) \<Rightarrow>
                    let body = drop (1 + c) payload;
                        fs = [(''message_type'', if pkt_type = 1 then pstr ''CONNECT'' else pstr ''PUBLISH''),
                              (''client_id'', PNone), (''topic'', PNone)]
                    in Some (with_raw pkt (captured ''mqtt'' (pkt_src pkt) src (Some dst)
                         (if pkt_type = 1 then parse_mqtt_connect body fs
                          else parse_mqtt_publish body fs)))))
      | _ \<Rightarrow> None)"

section \<open>EtherNet/IP\<close>

definition ENIP_COMMANDS :: "(nat \<times> string) list" where
  "ENIP_COMMANDS =
     [(0x0004, ''ListServices''), (0x0063, ''ListIdentity''), (0x0065, ''RegisterSession''),
      (0x0066, ''UnRegisterSession''), (0x006F, ''SendRRData''), (0x0070, ''SendUnitData'')]"

definition parse_enip_list_identity :: "bytes \<Rightarrow> dict \<Rightarrow> dict" where
  "parse_enip_list_identity data fs =
     (if length data < 2 then fs
      else if le_at data 0 2 < 1 then fs
      else if 2 + 4 > length data then fs
      else
        let item_length = le_at data 4 6;
            item_data = slice 6 (6 + item_length) data;
            id_offset = 18
        in if id_offset + 14 > length item_data then fs
           else
             let fs1 = dict_set (dict_set fs ''vendor_id'' (pnat (le_at item_data id_offset (id_offset + 2))))
                         ''device_type'' (pnat (le_at item_data (id_offset + 2) (id_offset + 4)));
                 name_len_offset = id_offset + 14
             in if name_len_offset \<ge> length item_data then fs1
                else
                  let name_len = bnat item_data name_len_offset;
                      name_start = name_len_offset + 1
                  in if name_start + name_len > length item_data then fs1
                     else dict_set fs1 ''product_name''
                            (PStr (utf8_replace (slice name_start (name_start + name_len) item_data))))"

definition parse_enip :: "packet \<Rightarrow> captured_packet option" where
  "parse_enip pkt =
     (case (ip_layer pkt, tcp_or_udp pkt) of
        (Some (src, dst), Some t) \<Rightarrow>
          if sport t \<noteq> 44818 \<and> dport t \<noteq> 44818 then None
          else (case l4_payload t of
            Inl e \<Rightarrow> None
          | Inr payload \<Rightarrow>
              if length payload < 24 then None
              else let command = le_at payload 0 2 in
              (case dict_get ENIP_COMMANDS command of
                 None \<Rightarrow> None
               | Some command_name \<Rightarrow>
                   let fs = [(''command'', pstr command_name), (''product_name'', PNone),
                             (''vendor_id'', PNone), (''device_type'', PNone)]
                   in Some (with_raw pkt (captured ''enip'' (pkt_src pkt) src (Some dst)
                        (if command = 0x0063 \<and> length payload > 24
                         then parse_enip_list_identity (drop 24 payload) fs else fs)))))
      | _ \<Rightarrow> None)"

section \<open>DNP3\<close>

definition dnp3_func_names :: "(nat \<times> string) list" where
  "dnp3_func_names =
     [(0, ''confirm''), (1, ''read''), (2, ''write''), (3, ''select''), (4, ''operate''),
      (7, ''immediate_freeze''), (9, ''cold_restart''), (13, ''warm_restart''),
      (14, ''open_file''), (15, ''close_file''), (129, ''response''),
      (130, ''unsolicited_response'')]"

definition parse_dnp3 :: "packet \<Rightarrow> captured_packet option" where
  "parse_dnp3 pkt =
     (case (tcp_layer pkt, ip_layer pkt) of
        (Some tcp, Some (src, dst)) \<Rightarrow>
          if dport tcp \<noteq> 20000 \<and> sport tcp \<noteq> 20000 then None
          else (case raw_layer pkt of
            None \<Rightarrow> None
          | Some payload \<Rightarrow>
              if length payload < 10 then None
              else if slice 0 2 payload \<noteq> [0x05, 0x64] then None
              else
                let control = payload ! 3;
                    func_code = unat (control AND 0x0F);
                    is_server = (sport tcp = 20000)
                in Some (captured ''dnp3'' (pkt_src pkt)
                     (if \<not> is_server then src else dst) (Some (if \<not> is_server then dst else src))
                     [(''dl_length'', pnat (bnat payload 2)), (''control'', pnat (unat control)),
                      (''direction'', if control AND 0x80 \<noteq> 0 then pstr ''master_to_outstation''
                                      else pstr ''outstation_to_master''),
                      (''primary'', PBool (control AND 0x40 \<noteq> 0)),
                      (''func_code'', pnat func_code),
                      (''func_name'', name_of dnp3_func_names func_code (lit ''fc_'' @ str_nat func_code)),
                      (''dst_addr'', pnat (le_at payload 4 6)), (''src_addr'', pnat (le_at payload 6 8)),
                      (''is_server'', PBool is_server)]))
      | _ \<Rightarrow> None)"

section \<open>S7comm\<close>

definition cotp_type_names :: "(nat \<times> string) list" where
  "cotp_type_names =
     [(0x0E, ''connect_request''), (0x0D, ''connect_confirm''), (0x08, ''disconnect_request''),
      (0x0C, ''disconnect_confirm''), (0x0F, ''data_transfer''), (0x05, ''expedited_data''),
      (0x07, ''ack'')]"

definition s7_pdu_names :: "(nat \<times> string) list" where
  "s7_pdu_names = [(0x01, ''job_request''), (0x02, ''ack''), (0x03, ''ack_data''), (0x07, ''userdata'')]"

definition s7_func_names :: "(nat \<times> string) list" where
  "s7_func_names =
     [(0x00, ''cpu_services''), (0x04, ''read_variable''), (0x05, ''write_variable''),
      (0xF0, ''setup_communication''), (0x28, ''plc_control''), (0x29, ''plc_stop'')]"

text \<open>The S7 header behind the COTP header: read only for data transfers with the magic byte.\<close>

definition s7_fields :: "bytes \<Rightarrow> nat \<Rightarrow> nat \<Rightarrow> dict \<Rightarrow> dict" where
  "s7_fields payload cotp_pdu_type cotp_length fs =
     (let s7_offset = 4 + 1 + cotp_length + 1;
          s7_header = drop s7_offset payload
      in if cotp_pdu_type = 0x0F \<and> length payload > s7_offset + 2 \<and> bnat s7_header 0 = 0x32 then
           let fs1 = dict_set fs ''s7_protocol'' (PBool True);
               fs2 = dict_set fs1 ''s7_pdu_type'' (pnat (bnat s7_header 1));
               fs3 = dict_set fs2 ''s7_pdu_name''
                       (name_of s7_pdu_names (bnat s7_header 1) (lit ''unknown''))
           in if length s7_header > 12 then
                let f = bnat s7_header 12
                in dict_set (dict_set fs3 ''s7_function'' (pnat f)) ''s7_function_name''
                     (name_of s7_func_names f (lit ''fc_'' @ hex_prefixed 0 f))
              else fs3
         else fs)"

definition parse_s7comm :: "packet \<Rightarrow> captured_packet option" where
  "parse_s7comm pkt =
     (case (tcp_layer pkt, ip_layer pkt) of
        (Some tcp, Some (src, dst)) \<Rightarrow>
          if dport tcp \<noteq> 102 \<and> sport tcp \<noteq> 102 then None
          else (case raw_layer pkt of
            None \<Rightarrow> None
          | Some payload \<Rightarrow>
              if length payload < 7 then None
              else if bnat payload 0 \<noteq> 3 \<or> bnat payload 1 \<noteq> 0 then None
              else
                let cotp_pdu_type = unat (drop_bit 4 (payload ! 5));
                    is_server = (sport tcp = 102);
                    fs = [(''tpkt_length'', pnat (be_at payload 2 4)),
                          (''cotp_pdu_type'', pnat cotp_pdu_type),
                          (''cotp_type_name'',
                             name_of cotp_type_names cotp_pdu_type (lit ''type_'' @ hex_prefixed 0 cotp_pdu_type)),
                          (''is_server'', PBool is_server)]
                in Some (captured ''s7comm'' (pkt_src pkt)
                     (if \<not> is_server then src else dst) (Some (if \<not> is_server then dst else src))
                     (s7_fields payload cotp_pdu_type (bnat payload 4) fs)))
      | _ \<Rightarrow> None)"

section \<open>OPC UA\<close>

definition opcua_types :: "(ustr \<times> string) list" where
  "opcua_types =
     [(lit ''HEL'', ''hello''), (lit ''ACK'', ''acknowledge''), (lit ''OPN'', ''open_secure_channel''),
      (lit ''CLO'', ''close_secure_channel''), (lit ''MSG'', ''message''), (lit ''ERR'', ''error'')]"

definition OPCUA_PORTS :: "nat list" where
  "OPCUA_PORTS = [4840, 4843]"

text \<open>\<open>decode('ascii')\<close> in strict mode: None is the \<open>UnicodeDecodeError\<close>.\<close>

definition ascii_strict :: "bytes \<Rightarrow> ustr option" where
  "ascii_strict bs = (if \<forall>b \<in> set bs. b < 0x80 then Some (map unat bs) else None)"

definition opcua_endpoint :: "bytes \<Rightarrow> dict \<Rightarrow> dict" where
  "opcua_endpoint payload fs =
     (if length payload > 32 then
        let url_len = le_at payload 28 32
        in if 0 < url_len \<and> url_len < 256 \<and> length payload \<ge> 32 + url_len
           then dict_set fs ''endpoint_url'' (PStr (utf8_replace (slice 32 (32 + url_len) payload)))
           else fs
      else fs)"

definition parse_opcua :: "packet \<Rightarrow> captured_packet option" where
  "parse_opcua pkt =
     (case (tcp_layer pkt, ip_layer pkt) of
        (Some tcp, Some (src, dst)) \<Rightarrow>
          if dport tcp \<notin> set OPCUA_PORTS \<and> sport tcp \<notin> set OPCUA_PORTS then None
          else (case raw_layer pkt of
            None \<Rightarrow> None
          | Some payload \<Rightarrow>
              if length payload < 8 then None
              else (case ascii_strict (slice 0 3 payload) of
                  None \<Rightarrow> None
                | Some msg_type \<Rightarrow>
                    (case dict_get opcua_types msg_type of
                       None \<Rightarrow> None
                     | Some type_name \<Rightarrow>
                         let chunk = bnat payload 3;
                             is_server = (sport tcp \<in> set OPCUA_PORTS);
                             fs = [(''msg_type'', PStr msg_type),
                                   (''chunk_type'', if chunk \<in> {70, 67, 65} then PStr [chunk] else pstr ''?''),
                                   (''msg_length'', pnat (le_at payload 4 8)),
                                   (''is_server'', PBool is_server),
                                   (''type_name'', pstr type_name)]
                         in Some (captured ''opcua'' (pkt_src pkt)
                              (if \<not> is_server then src else dst)
                              (Some (if \<not> is_server then dst else src))
                              (if msg_type = lit ''HEL'' then opcua_endpoint payload fs else fs)))))
      | _ \<Rightarrow> None)"

section \<open>GOOSE\<close>

text \<open>A BER length at an offset: the length and the offset behind it.\<close>

definition ber_length :: "bytes \<Rightarrow> nat \<Rightarrow> nat \<times> nat" where
  "ber_length data offset =
     (if offset \<ge> length data then (0, offset)
      else
        let first = data ! offset; off1 = offset + 1
        in if first < 0x80 then (unat first, off1)
           else
             let num_bytes = unat (first AND 0x7F)
             in if num_bytes = 0 \<or> off1 + num_bytes > length data then (0, off1)
                else (be_at data off1 (off1 + num_bytes), off1 + num_bytes))"

definition goose_field :: "nat \<Rightarrow> bytes \<Rightarrow> dict \<Rightarrow> dict" where
  "goose_field tag v fs =
     (if tag = 0x80 then dict_set fs ''gocb_ref'' (PStr (utf8_replace v))
      else if tag = 0x81 then fs
      else if tag = 0x82 then dict_set fs ''dat_set'' (PStr (utf8_replace v))
      else if tag = 0x83 then dict_set fs ''go_id'' (PStr (utf8_replace v))
      else if tag = 0x86 then dict_set fs ''st_num'' (pnat (be_nat v))
      else if tag = 0x87 then dict_set fs ''sq_num'' (pnat (be_nat v))
      else fs)"

lemma ber_length_mono: "ber_length data offset = (n, off') \<Longrightarrow> offset \<le> off'"
  by (auto simp: ber_length_def Let_def split: if_splits)

function goose_loop :: "bytes \<Rightarrow> nat \<Rightarrow> dict \<Rightarrow> dict" where
  "goose_loop payload offset fs =
     (if offset < length payload - 2 then
        (case ber_length payload (offset + 1) of
           (field_len, off1) \<Rightarrow>
             if field_len = 0 \<or> off1 + field_len > length payload then fs
             else goose_loop payload (off1 + field_len)
                    (goose_field (bnat payload offset) (slice off1 (off1 + field_len) payload) fs))
      else fs)"
  by pat_completeness auto
termination
  by (relation "measure (\<lambda>(p, off, fs). length p - off)") (auto dest!: ber_length_mono [OF sym])

declare goose_loop.simps [simp del]

definition parse_goose :: "packet \<Rightarrow> captured_packet option" where
  "parse_goose pkt =
     (case ether_layer pkt of
        None \<Rightarrow> None
      | Some (etype, payload) \<Rightarrow>
          if etype \<noteq> 0x88B8 then None
          else if length payload < 8 then None
          else
            let fs = [(''ethertype'', pstr ''0x88B8''), (''appid'', pnat (be_at payload 0 2)),
                      (''goose_length'', pnat (be_at payload 2 4))]
            in Some (captured ''goose'' (pkt_src pkt) ''0.0.0.0'' None
                 (if 8 < length payload \<and> bnat payload 8 = 0x61
                  then goose_loop payload (snd (ber_length payload 9)) fs
                  else fs)))"

section \<open>PROFINET\<close>

definition frame_type :: "nat \<Rightarrow> pyval" where
  "frame_type frame_id =
     (if 0x0100 \<le> frame_id \<and> frame_id \<le> 0x7FFF then pstr ''rt_class1''
      else if 0x8000 \<le> frame_id \<and> frame_id \<le> 0xBFFF then pstr ''rt_class2''
      else if 0xC000 \<le> frame_id \<and> frame_id \<le> 0xFBFF then pstr ''rt_class3''
      else if frame_id = 0xFEFE then pstr ''dcp_identify_request''
      else if frame_id = 0xFEFF then pstr ''dcp_identify_response''
      else if frame_id = 0xFEFD then pstr ''dcp_get_set''
      else if 0xFC00 \<le> frame_id \<and> frame_id \<le> 0xFCFF then pstr ''alarm''
      else PStr (lit ''frame_'' @ hex_prefixed 6 frame_id))"

definition device_roles :: "16 word \<Rightarrow> string list" where
  "device_roles role =
     (if role AND 0x01 \<noteq> 0 then [''io_device''] else []) @
     (if role AND 0x02 \<noteq> 0 then [''io_controller''] else []) @
     (if role AND 0x04 \<noteq> 0 then [''io_multidevice''] else []) @
     (if role AND 0x08 \<noteq> 0 then [''io_supervisor''] else [])"

definition dcp_block :: "nat \<Rightarrow> nat \<Rightarrow> bytes \<Rightarrow> dict \<Rightarrow> dict" where
  "dcp_block opt sub block_data fs =
     (if opt = 0x02 then
        (if sub = 0x01 then dict_set fs ''vendor_name'' (PStr (rstrip_nul (utf8_replace (drop 2 block_data))))
         else if sub = 0x02 then dict_set fs ''station_name'' (PStr (rstrip_nul (utf8_replace (drop 2 block_data))))
         else if sub = 0x03 then
           (if length block_data \<ge> 6
            then dict_set (dict_set fs ''vendor_id'' (pnat (be_at block_data 2 4)))
                   ''device_id'' (pnat (be_at block_data 4 6))
            else fs)
         else if sub = 0x05 then
           (if length block_data \<ge> 4 then
              let roles = device_roles (word_of_nat (be_at block_data 2 4))
              in dict_set fs ''device_role''
                   (PList (map pstr (if roles = [] then [''unknown''] else roles)))
            else fs)
         else fs)
      else fs)"

function dcp_loop :: "bytes \<Rightarrow> nat \<Rightarrow> dict \<Rightarrow> dict" where
  "dcp_loop payload offset fs =
     (if offset + 4 < length payload then
        let block_len = be_at payload (offset + 2) (offset + 4);
            off1 = offset + 4
        in if block_len = 0 \<or> off1 + block_len > length payload then fs
           else dcp_loop payload (off1 + block_len + (if odd block_len then 1 else 0))
                  (dcp_block (bnat payload offset) (bnat payload (offset + 1))
                     (slice off1 (off1 + block_len) payload) fs)
      else fs)"
  by pat_completeness auto
termination
  by (relation "measure (\<lambda>(p, off, fs). length p - off)") auto

declare dcp_loop.simps [simp del]

definition parse_profinet :: "packet \<Rightarrow> captured_packet option" where
  "parse_profinet pkt =
     (case ether_layer pkt of
        None \<Rightarrow> None
      | Some (etype, payload) \<Rightarrow>
          if etype \<noteq> 0x8892 then None
          else if length payload < 4 then None
          else
            let frame_id = be_at payload 0 2;
                fs = [(''ethertype'', pstr ''0x8892''), (''frame_id'', pnat frame_id),
                      (''frame_type'', frame_type frame_id)]
            in Some (captured ''profinet'' (pkt_src pkt) ''0.0.0.0'' None
                 (if frame_id = 0xFEFF \<and> length payload > 12 then dcp_loop payload 12 fs else fs)))"

end
