(* ===== verification/IotScadaProps.thy ===== *)
theory IotScadaProps
  imports IotScada
begin

text \<open>
  What the industrial and IoT parsers compute: reference encoders of the wire formats (MQTT
  remaining length and CONNECT, CoAP options, BER-coded GOOSE fields, PROFINET DCP blocks) and
  the decoding of everything they produce; bounds of the MQTT length; the overlap of UMAS and
  Modbus; the addresses recorded for packets that a server sends.
\<close>

section \<open>MQTT remaining length\<close>

fun mqtt_encode :: "nat \<Rightarrow> bytes" where
  "mqtt_encode n =
     (if n < 128 then [word_of_nat n]
      else word_of_nat (128 + n mod 128) # mqtt_encode (n div 128))"

declare mqtt_encode.simps [simp del]

lemma mqtt_length_loop_encode:
  "n < 128 ^ (5 - c) \<Longrightarrow> c < 5 \<Longrightarrow>
   mqtt_length_loop (xs @ mqtt_encode n @ ys) (length xs) m v c =
     (Some (v + n * m), c + length (mqtt_encode n))"
proof (induction n arbitrary: xs m v c rule: less_induct)
  case (less n)
  show ?case
  proof (cases "n < 128")
    case True
    then have "mqtt_encode n = [word_of_nat n]" by (simp add: mqtt_encode.simps [of n])
    with True show ?thesis
      by (subst mqtt_length_loop.simps)
        (simp add: nth_append byte_and_mask byte_and_80 unat_word_of_nat_byte)
  next
    case False
    let ?b = "word_of_nat (128 + n mod 128) :: byte"
    have enc: "mqtt_encode n = ?b # mqtt_encode (n div 128)"
      using False by (subst mqtt_encode.simps) simp
    have ub: "unat ?b = 128 + n mod 128" by (rule unat_word_of_nat_byte) simp
    have c4: "c < 4" using less.prems False by (cases "c = 4") auto
    then have "n div 128 < 128 ^ (5 - Suc c)"
    proof -
      have "5 - c = Suc (5 - Suc c)" using c4 by simp
      then have "n < 128 ^ (5 - Suc c) * 128" using less.prems(1) by simp
      then show ?thesis by (rule less_mult_imp_div_less)
    qed
    with less.IH [of "n div 128" "Suc c" "xs @ [?b]" "m * 128" "v + n mod 128 * m"] c4 False
    have IH: "mqtt_length_loop (xs @ mqtt_encode n @ ys) (length xs + 1) (m * 128) (v + n mod 128 * m) (c + 1)
       = (Some (v + n mod 128 * m + n div 128 * (m * 128)), c + length (mqtt_encode n))"
      by (simp add: enc)
    have "n mod 128 * m + n div 128 * (m * 128) = n * m"
      by (metis add.commute distrib_right div_mod_decomp mult.assoc mult.commute)
    then show ?thesis
      using IH c4 ub by (subst mqtt_length_loop.simps)
        (simp add: enc nth_append byte_and_mask byte_and_80 Let_def add.assoc)
  qed
qed


lemma mqtt_loop_bounds:
  "mqtt_length_loop data off m v c = (Some r, k) \<Longrightarrow> c < 5 \<Longrightarrow>
   c < k \<and> k \<le> 5 \<and> off + (k - c) \<le> length data \<and> r + m \<le> v + m * 128 ^ (k - c)"
proof (induction data off m v c rule: mqtt_length_loop.induct)
  case (1 data off m v c)
  let ?b = "data ! off"
  have ret: "off < length data"
    using "1.prems" by (auto simp: mqtt_length_loop.simps [of data off] split: if_splits)
  have lo: "v + unat (?b AND 0x7F) * m + m \<le> v + m * 128"
  proof -
    have "Suc (unat ?b mod 128) * m \<le> 128 * m" by (intro mult_le_mono1) simp
    then show ?thesis by (simp add: byte_and_mask mult.commute)
  qed
  show ?case
  proof (cases "?b AND 0x80 = 0")
    case True
    then have "r = v + unat (?b AND 0x7F) * m" "k = c + 1"
      using "1.prems" ret by (auto simp: mqtt_length_loop.simps [of data off] Let_def)
    with ret lo "1.prems"(2) show ?thesis by simp
  next
    case False
    have c4: "c + 1 \<le> 4" and rec: "mqtt_length_loop data (off + 1) (m * 128)
        (v + unat (?b AND 0x7F) * m) (c + 1) = (Some r, k)"
      using "1.prems" ret False
      by (auto simp: mqtt_length_loop.simps [of data off] Let_def split: if_splits)
    have c': "\<not> 4 < c + 1" "c + 1 < 5" using c4 by auto
    have IH: "c + 1 < k \<and> k \<le> 5 \<and> off + 1 + (k - (c + 1)) \<le> length data \<and>
        r + m * 128 \<le> v + unat (?b AND 0x7F) * m + m * 128 * 128 ^ (k - (c + 1))"
      by (rule "1.IH" [OF ret refl refl False c'(1) rec c'(2)])
    then have k: "k - c = Suc (k - (c + 1))" by linarith
    have "unat (?b AND 0x7F) * m + m \<le> m * 128" using lo by simp
    moreover have "m * 128 ^ (k - c) = m * 128 * 128 ^ (k - (c + 1))" by (simp add: k)
    ultimately have "r + m \<le> v + m * 128 ^ (k - c)" using IH by linarith
    moreover have "off + (k - c) \<le> length data" using IH by linarith
    ultimately show ?thesis using IH by linarith
  qed
qed

section \<open>CoAP options\<close>

definition coap_nib :: "nat \<Rightarrow> nat" where
  "coap_nib v = (if v < 13 then v else if v < 269 then 13 else 14)"

definition coap_extra :: "nat \<Rightarrow> bytes" where
  "coap_extra v = (if v < 13 then [] else if v < 269 then [word_of_nat (v - 13)] else be_bytes 2 (v - 269))"

definition coap_encode :: "nat \<times> bytes \<Rightarrow> bytes" where
  "coap_encode e =
     word_of_nat (16 * coap_nib (fst e) + coap_nib (length (snd e))) #
       coap_extra (fst e) @ coap_extra (length (snd e)) @ snd e"

lemma coap_nib_le: "coap_nib v \<le> 14" by (simp add: coap_nib_def)

lemma coap_ext_extra:
  assumes "v < 65805" and "offset = length xs"
  shows "coap_ext (xs @ coap_extra v @ ys) (coap_nib v) offset =
         Some (v, offset + length (coap_extra v))"
  using assms
  by (auto simp: coap_ext_def coap_nib_def coap_extra_def bnat_def be_at_def nth_append
      unat_word_of_nat_byte slice_middle codec simp del: of_nat_diff)

fun coap_options :: "nat \<Rightarrow> (nat \<times> bytes) list \<Rightarrow> ustr list \<times> dict \<Rightarrow> ustr list \<times> dict" where
  "coap_options n [] acc = acc"
| "coap_options n (e # es) acc = coap_options (n + fst e) es (coap_option (n + fst e) (snd e) acc)"

lemma coap_loop_decodes:
  assumes "\<forall>e \<in> set es. fst e < 65805 \<and> length (snd e) < 65805"
    and "ys = [] \<or> hd ys = 0xFF"
  shows "coap_loop (xs @ concat (map coap_encode es) @ ys) (length xs) n acc = coap_options n es acc"
  using assms(1)
proof (induction es arbitrary: xs n acc)
  case Nil
  then show ?case
    using assms(2) by (cases ys) (simp_all add: coap_loop.simps nth_append)
next
  case (Cons e es)
  obtain d v where e: "e = (d, v)" by (cases e)
  define b :: byte where "b = word_of_nat (16 * coap_nib d + coap_nib (length v))"
  let ?rest = "concat (map coap_encode es) @ ys"
  let ?p = "xs @ concat (map coap_encode (e # es)) @ ys"
  have p: "?p = xs @ b # coap_extra d @ coap_extra (length v) @ v @ ?rest"
    by (simp add: coap_encode_def e b_def)
  have ub: "unat b = 16 * coap_nib d + coap_nib (length v)"
    using coap_nib_le [of d] coap_nib_le [of "length v"] unfolding b_def by (intro unat_word_of_nat_byte) simp
  have nibs: "unat (drop_bit 4 b AND 0x0F) = coap_nib d" "unat (b AND 0x0F) = coap_nib (length v)"
    using coap_nib_le [of d] coap_nib_le [of "length v"]
    by (simp_all add: byte_and_mask byte_drop_bit ub)
  have nFF: "b \<noteq> 0xFF"
  proof
    assume "b = 0xFF"
    then have "unat b = 255" by simp
    then show False using ub coap_nib_le [of d] coap_nib_le [of "length v"] by simp
  qed
  have e1: "coap_ext ?p (coap_nib d) (length xs + 1) = Some (d, length xs + 1 + length (coap_extra d))"
    using coap_ext_extra [of d "length xs + 1" "xs @ [b]"] Cons.prems e unfolding p by simp
  have e2: "coap_ext ?p (coap_nib (length v)) (length xs + 1 + length (coap_extra d)) =
      Some (length v, length xs + 1 + length (coap_extra d) + length (coap_extra (length v)))"
    using coap_ext_extra [of "length v" "length xs + 1 + length (coap_extra d)" "xs @ [b] @ coap_extra d"]
      Cons.prems e unfolding p by simp
  let ?o = "length xs + 1 + length (coap_extra d) + length (coap_extra (length v))"
  have val: "slice ?o (?o + length v) ?p = v"
    using slice_middle [of ?o "xs @ [b] @ coap_extra d @ coap_extra (length v)" "?o + length v" v ?rest]
    unfolding p by simp
  have IH: "coap_loop ?p (?o + length v) (n + d) (coap_option (n + d) v acc) =
      coap_options (n + d) es (coap_option (n + d) v acc)"
    using Cons.IH [of "xs @ [b] @ coap_extra d @ coap_extra (length v) @ v"] Cons.prems
    unfolding p by (simp add: add.assoc)
  have at: "?p ! length xs = b" "length xs < length ?p" unfolding p by simp_all
  show ?case
    using at nFF nibs e1 e2 val IH e by (subst coap_loop.simps) (simp add: Let_def)
qed

section \<open>GOOSE fields\<close>

definition ber_encode :: "nat \<Rightarrow> bytes" where
  "ber_encode n = (if n < 128 then [word_of_nat n] else if n < 256 then [0x81, word_of_nat n]
                   else 0x82 # be_bytes 2 n)"

definition tlv_encode :: "byte \<times> bytes \<Rightarrow> bytes" where
  "tlv_encode e = fst e # ber_encode (length (snd e)) @ snd e"

lemma ber_length_encode:
  assumes "n < 65536" and "offset = length xs"
  shows "ber_length (xs @ ber_encode n @ ys) offset = (n, offset + length (ber_encode n))"
proof -
  consider "n < 128" | "128 \<le> n" "n < 256" | "256 \<le> n" by linarith
  then show ?thesis
  proof cases
    case 1
    then have "(word_of_nat n :: byte) < 0x80" by (simp add: word_less_nat_alt unat_word_of_nat_byte)
    with 1 assms show ?thesis
      by (simp add: ber_length_def ber_encode_def nth_append unat_word_of_nat_byte)
  next
    case 2
    have "slice (offset + 1) (offset + 1 + 1) (xs @ [0x81, word_of_nat n] @ ys) = [word_of_nat n]"
      using assms(2) slice_middle [of "offset + 1" "xs @ [0x81]" "offset + 1 + 1" "[word_of_nat n]" ys] by simp
    with 2 assms show ?thesis
      by (simp add: ber_length_def ber_encode_def nth_append be_at_def be_nat_def unat_word_of_nat_byte Let_def)
  next
    case 3
    have "slice (offset + 1) (offset + 1 + 2) (xs @ (0x82 # be_bytes 2 n) @ ys) = be_bytes 2 n"
      using assms(2) slice_middle [of "offset + 1" "xs @ [0x82]" "offset + 1 + 2" "be_bytes 2 n" ys] by simp
    with 3 assms show ?thesis
      by (simp add: ber_length_def ber_encode_def nth_append be_at_def codec Let_def)
  qed
qed

definition goose_fields :: "(byte \<times> bytes) list \<Rightarrow> dict \<Rightarrow> dict" where
  "goose_fields es fs = foldl (\<lambda>fs e. goose_field (unat (fst e)) (snd e) fs) fs es"

lemma goose_loop_decodes:
  assumes "\<forall>e \<in> set es. snd e \<noteq> [] \<and> length (snd e) < 65536" and "length ys \<le> 2"
  shows "goose_loop (xs @ concat (map tlv_encode es) @ ys) (length xs) fs = goose_fields es fs"
  using assms(1)
proof (induction es arbitrary: xs fs)
  case Nil
  have "\<not> length xs < length xs + length ys - 2" using assms(2) by linarith
  then show ?case by (simp add: goose_loop.simps goose_fields_def)
next
  case (Cons e es)
  obtain t v where e: "e = (t, v)" by (cases e)
  let ?rest = "concat (map tlv_encode es) @ ys" and ?L = "ber_encode (length v)"
  let ?p = "xs @ concat (map tlv_encode (e # es)) @ ys"
  have p: "?p = xs @ t # ?L @ v @ ?rest" by (simp add: tlv_encode_def e)
  have v: "v \<noteq> []" "length v < 65536" using Cons.prems e by auto
  have L: "0 < length ?L" by (simp add: ber_encode_def)
  have ber: "ber_length ?p (length xs + 1) = (length v, length xs + 1 + length ?L)"
    using ber_length_encode [of "length v" "length xs + 1" "xs @ [t]" "v @ ?rest"] v unfolding p by simp
  have val: "slice (length xs + 1 + length ?L) (length xs + 1 + length ?L + length v) ?p = v"
    using slice_middle [of "length xs + 1 + length ?L" "xs @ t # ?L" _ v ?rest] unfolding p by simp
  have IH: "goose_loop ?p (length xs + 1 + length ?L + length v) (goose_field (unat t) v fs) =
      goose_fields es (goose_field (unat t) v fs)"
    using Cons.IH [of "xs @ t # ?L @ v"] Cons.prems unfolding p by (simp add: add.assoc)
  have "0 < length v" using v(1) by simp
  then have at: "bnat ?p (length xs) = unat t" "length xs < length ?p - 2"
    "length xs + 1 + length ?L + length v \<le> length ?p"
    using L unfolding p by (simp_all add: bnat_def del: length_greater_0_conv)
  show ?case
    using at v(1) ber val IH by (subst goose_loop.simps) (simp add: goose_fields_def e)
qed

section \<open>PROFINET DCP blocks\<close>

definition dcp_encode :: "(byte \<times> byte) \<times> bytes \<Rightarrow> bytes" where
  "dcp_encode e = fst (fst e) # snd (fst e) # be_bytes 2 (length (snd e)) @ snd e @
     (if odd (length (snd e)) then [0] else [])"

definition dcp_fields :: "((byte \<times> byte) \<times> bytes) list \<Rightarrow> dict \<Rightarrow> dict" where
  "dcp_fields es fs = foldl (\<lambda>fs e. dcp_block (unat (fst (fst e))) (unat (snd (fst e))) (snd e) fs) fs es"

lemma dcp_loop_decodes:
  assumes "\<forall>e \<in> set es. snd e \<noteq> [] \<and> length (snd e) < 65536" and "length ys \<le> 4"
  shows "dcp_loop (xs @ concat (map dcp_encode es) @ ys) (length xs) fs = dcp_fields es fs"
  using assms(1)
proof (induction es arbitrary: xs fs)
  case Nil
  then show ?case using assms(2) by (simp add: dcp_loop.simps dcp_fields_def)
next
  case (Cons e es)
  obtain opt sub v where e: "e = ((opt, sub), v)" by (metis surj_pair)
  let ?rest = "concat (map dcp_encode es) @ ys" and ?pad = "if odd (length v) then [0] else [] :: bytes"
  let ?p = "xs @ concat (map dcp_encode (e # es)) @ ys"
  have p: "?p = xs @ opt # sub # be_bytes 2 (length v) @ v @ ?pad @ ?rest"
    by (simp add: dcp_encode_def e)
  have v: "v \<noteq> []" "length v < 65536" using Cons.prems e by auto
  have n: "be_at ?p (length xs + 2) (length xs + 4) = length v"
    using slice_middle [of "length xs + 2" "xs @ [opt, sub]" "length xs + 4" "be_bytes 2 (length v)" "v @ ?pad @ ?rest"] v(2)
    unfolding p be_at_def by (simp add: codec)
  have val: "slice (length xs + 4) (length xs + 4 + length v) ?p = v"
    using slice_middle [of "length xs + 4" "xs @ opt # sub # be_bytes 2 (length v)" _ v "?pad @ ?rest"]
    unfolding p by simp
  have IH: "dcp_loop ?p (length xs + 4 + length v + (if odd (length v) then 1 else 0))
        (dcp_block (unat opt) (unat sub) v fs) = dcp_fields es (dcp_block (unat opt) (unat sub) v fs)"
    using Cons.IH [of "xs @ opt # sub # be_bytes 2 (length v) @ v @ ?pad"] Cons.prems
    unfolding p by (cases "odd (length v)") (simp_all add: ac_simps)
  have at: "bnat ?p (length xs) = unat opt" "bnat ?p (length xs + 1) = unat sub"
    "length xs + 4 < length ?p" "length xs + 4 + length v \<le> length ?p"
    using v(1) unfolding p by (simp_all add: bnat_def nth_append)
  show ?case
    using at v(1) n val IH by (subst dcp_loop.simps) (simp add: dcp_fields_def e Let_def)
qed

section \<open>Properties\<close>

text \<open>MQTT remaining-length round trip: every value below 128^5 in the standard's
  seven-bit encoding is decoded back, wherever it stands in the packet and whatever follows,
  together with the number of bytes it takes.\<close>

theorem mqtt_length_roundtrip:
  assumes "n < 128 ^ 5"
  shows "mqtt_decode_remaining_length (xs @ mqtt_encode n @ ys) (length xs) =
         (Some n, length (mqtt_encode n))"
  using mqtt_length_loop_encode [of n 0 xs ys 1 0] assms
  by (simp add: mqtt_decode_remaining_length_def)

theorem mqtt_length_roundtrip_witness:
  "mqtt_decode_remaining_length ([0x10] @ mqtt_encode 321 @ [7]) (length [0x10 :: byte]) =
   (Some 321, length (mqtt_encode 321))"
  by (rule mqtt_length_roundtrip) simp

text \<open>Bounds of the MQTT length decoder: a successful decode reads at least one and at
  most five bytes, all inside the packet, and its value needs no more than seven bits for each
  byte read.\<close>

theorem mqtt_length_bounds:
  assumes "mqtt_decode_remaining_length data offset = (Some n, k)"
  shows "1 \<le> k \<and> k \<le> 5 \<and> offset + k \<le> length data \<and> n < 128 ^ k"
  using mqtt_loop_bounds [of data offset 1 0 0 n k] assms
  by (simp add: mqtt_decode_remaining_length_def)

theorem mqtt_length_bounds_witness:
  "mqtt_decode_remaining_length [0x10, 0xFF, 0xFF, 0xFF, 0xFF, 0x7F] 1 = (Some 34359738367, 5) \<and>
   (34359738367 :: nat) < 128 ^ 5"
proof -
  have h: "mqtt_decode_remaining_length [0x10, 0xFF, 0xFF, 0xFF, 0xFF, 0x7F] 1 = (Some 34359738367, 5)"
    by (simp add: mqtt_decode_remaining_length_def mqtt_length_loop.simps)
  with mqtt_length_bounds [OF h] show ?thesis by simp
qed

text \<open>C5: CoAP options: after the four header bytes and the token, any list of options in the
  encoding of RFC 7252 (deltas and lengths in all three forms), closed by the payload marker or
  the end of the datagram, is walked completely: the fields are exactly those of the decoded
  option list, and the Uri-Path segments are joined by slashes.\<close>

theorem coap_options_decoded:
  assumes "\<forall>e \<in> set es. fst e < 65805 \<and> length (snd e) < 65805"
    and "rest = [] \<or> hd rest = 0xFF"
  shows "parse_coap_options (front @ concat (map coap_encode es) @ rest) (length front) fs =
    (case coap_options 0 es ([], fs) of
       (parts, fs') \<Rightarrow> if parts \<noteq> []
         then dict_set fs' ''uri_path'' (PStr (lit ''/'' @ join (lit ''/'') parts)) else fs')"
  by (simp add: parse_coap_options_def coap_loop_decodes [OF assms])

theorem coap_options_decoded_witness:
  "parse_coap_options ([0x40, 1, 0, 7] @ concat (map coap_encode [(11, [115]), (0, [116, 117]), (1, [50])]) @ [0xFF, 9])
     (length [0x40 :: byte, 1, 0, 7]) [(''uri_path'', PNone), (''content_format'', PNone)] =
   [(''uri_path'', PStr (lit ''/s/tu'')), (''content_format'', pnat 50)]"
  using coap_options_decoded [of "[(11, [115]), (0, [116, 117]), (1, [50])]" "[0xFF, 9]" "[0x40, 1, 0, 7]"
      "[(''uri_path'', PNone), (''content_format'', PNone)]"]
  by (simp add: coap_option_def utf8_replace_def utf8_decode.simps bnat_def lit_def)

text \<open>GOOSE: the frame of any application identifier and length whose PDU consists of BER
  tag-length-value fields (short, one-byte and two-byte length forms) is parsed to exactly the
  fields those elements carry, in order, at the sender's hardware address.\<close>

theorem goose_frame_parsed:
  assumes "\<forall>e \<in> set es. snd e \<noteq> [] \<and> length (snd e) < 65536"
    and "appid < 65536" and "len < 65536" and "pdu < 65536" and "length reserved = 4"
    and "ether_layer pkt = Some (0x88B8, be_bytes 2 appid @ be_bytes 2 len @ reserved @ 0x61 #
           ber_encode pdu @ concat (map tlv_encode es))"
  shows "parse_goose pkt = Some (captured ''goose'' (pkt_src pkt) ''0.0.0.0'' None
     (goose_fields es [(''ethertype'', pstr ''0x88B8''), (''appid'', pnat appid), (''goose_length'', pnat len)]))"
proof -
  let ?A = "be_bytes 2 appid" and ?B = "be_bytes 2 len" and ?P = "ber_encode pdu"
  let ?T = "concat (map tlv_encode es)"
  let ?p = "?A @ ?B @ reserved @ 0x61 # ?P @ ?T"
  have a: "be_at ?p 0 2 = appid" "be_at ?p 2 4 = len"
    using slice_middle [of 0 "[]" 2 ?A "?B @ reserved @ 0x61 # ?P @ ?T"]
      slice_middle [of 2 ?A 4 ?B "reserved @ 0x61 # ?P @ ?T"] assms(2,3)
    by (simp_all add: be_at_def codec)
  have b: "bnat ?p 8 = 0x61" using assms(5) by (simp add: bnat_def nth_append)
  have l: "ber_length ?p 9 = (pdu, 9 + length ?P)"
    using ber_length_encode [of pdu 9 "?A @ ?B @ reserved @ [0x61]" ?T] assms(4,5) by simp
  have g: "goose_loop ?p (9 + length ?P) fs = goose_fields es fs" for fs
    using goose_loop_decodes [OF assms(1), of "[]" "?A @ ?B @ reserved @ 0x61 # ?P" fs] assms(5)
    by simp
  show ?thesis
    unfolding parse_goose_def using assms(5,6) a b l g by (simp add: Let_def)
qed

theorem goose_frame_parsed_witness:
  "parse_goose (bare_packet\<lparr>ether_layer := Some (0x88B8, be_bytes 2 3 @ be_bytes 2 40 @ [0, 0, 0, 0] @
      0x61 # ber_encode 12 @ concat (map tlv_encode [(0x83, [103, 49]), (0x86, [1, 2])]))\<rparr>) =
   Some (captured ''goose'' ''aa:bb:cc:dd:ee:ff'' ''0.0.0.0'' None
     [(''ethertype'', pstr ''0x88B8''), (''appid'', pnat 3), (''goose_length'', pnat 40),
      (''go_id'', PStr [103, 49]), (''st_num'', pnat 258)])"
  using goose_frame_parsed [of "[(0x83, [103, 49]), (0x86, [1, 2])]" 3 40 12 "[0, 0, 0, 0]"
      "bare_packet\<lparr>ether_layer := Some (0x88B8, be_bytes 2 3 @ be_bytes 2 40 @ [0, 0, 0, 0] @
      0x61 # ber_encode 12 @ concat (map tlv_encode [(0x83, [103, 49]), (0x86, [1, 2])]))\<rparr>"]
  by (simp add: bare_packet_def goose_fields_def goose_field_def utf8_replace_def utf8_decode.simps be_nat_def)

text \<open>PROFINET: an identify response with any ten DCP header bytes followed by padded
  blocks (option, suboption, length, data) is parsed to exactly the fields of those blocks, in
  order.\<close>

theorem profinet_identify_parsed:
  assumes "\<forall>e \<in> set es. snd e \<noteq> [] \<and> length (snd e) < 65536" and "es \<noteq> []"
    and "length hdr = 10"
    and "ether_layer pkt = Some (0x8892, [0xFE, 0xFF] @ hdr @ concat (map dcp_encode es))"
  shows "parse_profinet pkt = Some (captured ''profinet'' (pkt_src pkt) ''0.0.0.0'' None
     (dcp_fields es [(''ethertype'', pstr ''0x8892''), (''frame_id'', pnat 0xFEFF),
        (''frame_type'', pstr ''dcp_identify_response'')]))"
proof -
  let ?p = "[0xFE, 0xFF] @ hdr @ concat (map dcp_encode es)"
  have id: "be_at ?p 0 2 = 0xFEFF" by (simp add: be_at_def slice_def be_nat_def)
  have "concat (map dcp_encode es) \<noteq> []" using assms(2) by (cases es) (auto simp: dcp_encode_def)
  then have len: "12 < length ?p" using assms(3) by (simp del: concat_eq_Nil_conv)
  have "dcp_loop ?p 12 fs = dcp_fields es fs" for fs
    using dcp_loop_decodes [OF assms(1), of "[]" "[0xFE, 0xFF] @ hdr" fs] assms(3) by simp
  then show ?thesis
    unfolding parse_profinet_def assms(4) using id len
    by (simp add: Let_def frame_type_def del: append_Cons append.simps)
qed

theorem profinet_identify_parsed_witness:
  "parse_profinet (bare_packet\<lparr>ether_layer :=
      Some (0x8892, [0xFE, 0xFF] @ replicate 10 0 @ concat (map dcp_encode [((2, 2), [0, 0, 112, 108, 99])]))\<rparr>) =
   Some (captured ''profinet'' ''aa:bb:cc:dd:ee:ff'' ''0.0.0.0'' None
     [(''ethertype'', pstr ''0x8892''), (''frame_id'', pnat 0xFEFF),
      (''frame_type'', pstr ''dcp_identify_response''), (''station_name'', PStr (lit ''plc''))])"
  using profinet_identify_parsed [of "[((2, 2), [0, 0, 112, 108, 99])]" "replicate 10 0"
     "bare_packet\<lparr>ether_layer := Some (0x8892, [0xFE, 0xFF] @ replicate 10 0 @
        concat (map dcp_encode [((2, 2), [0, 0, 112, 108, 99])]))\<rparr>"]
  by (simp add: bare_packet_def dcp_fields_def dcp_block_def utf8_replace_def utf8_decode.simps
      rstrip_nul_def rstrip_by_def lit_def)

text \<open>UMAS is a special case of Modbus: every packet the UMAS parser accepts is also
  accepted by the Modbus parser, with the same unit and function code 0x5A, so only the order of
  the parser chain keeps UMAS traffic from being reported as Modbus.\<close>

theorem umas_accepted_by_modbus:
  assumes "parse_umas pkt = Some c"
  shows "\<exists>m. parse_modbus pkt = Some m \<and> protocol m = ''modbus'' \<and>
     dict_get (cp_fields m) ''function_code'' = Some (PInt 0x5A) \<and>
     dict_get (cp_fields m) ''unit_id'' = dict_get (cp_fields c) ''unit_id''"
  using assms
  by (auto simp: parse_umas_def parse_modbus_def tcp_or_udp_def with_raw_def captured_def
      umas_fields_def Let_def split: option.splits sum.splits if_splits prod.splits)

definition umas_packet :: packet where
  "umas_packet = bare_packet\<lparr>ip_layer := Some (''10.0.0.5'', ''10.0.0.9''),
     tcp_layer := Some \<lparr>sport = 502, dport = 40000,
       l4_payload = Inr [0, 1, 0, 0, 0, 4, 1, 0x5A, 2]\<rparr>\<rparr>"

theorem umas_accepted_by_modbus_witness:
  "\<exists>c m. parse_umas umas_packet = Some c \<and> parse_modbus umas_packet = Some m \<and> protocol m = ''modbus''"
proof -
  have "\<exists>c. parse_umas umas_packet = Some c"
    by (simp add: parse_umas_def umas_packet_def bare_packet_def be_at_def bnat_def slice_def be_nat_def)
  then show ?thesis using umas_accepted_by_modbus by blast
qed

text \<open>C18: Addresses of server packets.  For UMAS, DNP3, S7comm and OPC UA a packet sent from
  the protocol's own port is recorded with the sender's hardware address but the receiver's IP
  address; every other packet is recorded with the hardware and IP address of its sender.\<close>

definition recorded_addresses :: "packet \<Rightarrow> nat list \<Rightarrow> captured_packet \<Rightarrow> bool" where
  "recorded_addresses pkt ports c \<longleftrightarrow>
     (\<exists>tcp src dst. tcp_layer pkt = Some tcp \<and> ip_layer pkt = Some (src, dst) \<and>
        hw_addr c = pkt_src pkt \<and>
        (if sport tcp \<in> set ports then ip_addr c = dst \<and> target_ip c = Some src
         else ip_addr c = src \<and> target_ip c = Some dst))"

theorem server_packets_swap_addresses:
  "pred_option (recorded_addresses pkt [502]) (parse_umas pkt) \<and>
   pred_option (recorded_addresses pkt [20000]) (parse_dnp3 pkt) \<and>
   pred_option (recorded_addresses pkt [102]) (parse_s7comm pkt) \<and>
   pred_option (recorded_addresses pkt OPCUA_PORTS) (parse_opcua pkt)"
proof (intro conjI)
  show "pred_option (recorded_addresses pkt [502]) (parse_umas pkt)"
    by (auto simp: parse_umas_def recorded_addresses_def captured_def Let_def
        split: option.splits sum.splits)
  show "pred_option (recorded_addresses pkt [20000]) (parse_dnp3 pkt)"
    by (auto simp: parse_dnp3_def recorded_addresses_def captured_def Let_def split: option.splits)
  show "pred_option (recorded_addresses pkt [102]) (parse_s7comm pkt)"
    by (auto simp: parse_s7comm_def recorded_addresses_def captured_def Let_def split: option.splits)
  show "pred_option (recorded_addresses pkt OPCUA_PORTS) (parse_opcua pkt)"
    by (auto simp: parse_opcua_def recorded_addresses_def captured_def Let_def split: option.splits)
qed

end
