(* ===== verification/Caches.thy ===== *)
theory Caches
  imports Prelude
begin

text \<open>
  The two bounded tables of the capture path: \<open>capture/dedup.py\<close> (\<open>TTLDedup\<close>,
  least-recently-used eviction and a time to live) and \<open>capture/banner/connections.py\<close>
  (\<open>ConnectionTable\<close>, first-in first-out eviction).  An \<open>OrderedDict\<close> is an
  association list, oldest entry first.  The monotonic clock is an argument of every call and
  its values are rationals: the rounding of the float subtraction \<open>now - ts\<close> is left
  out.  Both tables promise the same of recent keys, stated once in the locale
  \<open>recency\<close>.
\<close>

section \<open>Ordered dictionaries\<close>

text \<open>\<open>popitem(last=False)\<close> raises KeyError on an empty dictionary.\<close>

definition popitem_first :: "('k \<times> 'v) list \<Rightarrow> py_error + ('k \<times> 'v) list" where
  "popitem_first d = (case d of [] \<Rightarrow> Inl KeyError | _ # d' \<Rightarrow> Inr d')"

definition move_to_end :: "('k \<times> 'v) list \<Rightarrow> 'k \<Rightarrow> ('k \<times> 'v) list" where
  "move_to_end d k = dict_pop d k @ (case dict_get d k of Some v \<Rightarrow> [(k, v)] | None \<Rightarrow> [])"

text \<open>Eviction before an insertion: \<open>if len(d) >= cap: d.popitem(last=False)\<close>.\<close>

definition make_room :: "nat \<Rightarrow> ('k \<times> 'v) list \<Rightarrow> py_error + ('k \<times> 'v) list" where
  "make_room cap d = (if cap \<le> length d then popitem_first d else Inr d)"

lemma move_to_end_keys:
  "dict_get d k = Some v \<Longrightarrow> dict_keys (move_to_end d k) = filter (\<lambda>x. x \<noteq> k) (dict_keys d) @ [k]"
  by (simp add: move_to_end_def dict_keys_append dict_keys_pop)

lemma move_to_end_get [simp]: "dict_get (move_to_end d k) k' = dict_get d k'"
  by (auto simp: move_to_end_def dict_get_append split: option.split)

lemma move_to_end_fresh: "dict_get d k = None \<Longrightarrow> move_to_end (d @ [(k, v)]) k = d @ [(k, v)]"
  by (simp add: move_to_end_def dict_get_append dict_pop_def)
    (metis (mono_tags, lifting) dict_pop_absent dict_pop_def)

lemma length_move_to_end:
  assumes "dict_get d k = Some v" "distinct (dict_keys d)"
  shows "length (move_to_end d k) = length d"
proof -
  have k: "k \<in> set (dict_keys d)" using assms(1) by (rule dict_get_SomeD)
  have "filter (\<lambda>x. x \<noteq> k) (dict_keys d) = remove1 k (dict_keys d)"
    using assms(2) by (simp add: distinct_remove1_removeAll removeAll_filter_not_eq) metis
  then have "length (dict_keys (move_to_end d k)) = length (dict_keys d)"
    using k assms(1) length_pos_if_in_set [OF k] by (simp add: move_to_end_keys length_remove1)
  then show ?thesis by simp
qed

lemma make_room_ok: "0 < cap \<Longrightarrow> \<exists>d'. make_room cap d = Inr d'"
  by (cases d) (auto simp: make_room_def popitem_first_def)

lemma make_room_cases:
  assumes "make_room cap d = Inr d'"
  obtains "d' = d" "length d < cap" | e where "d = e # d'" "cap \<le> length d"
  using assms by (auto simp: make_room_def popitem_first_def split: if_splits list.splits)

section \<open>The contract of a recency table\<close>

text \<open>\<open>age x ks\<close>: how many keys are younger than \<open>x\<close>.\<close>

definition age :: "'k \<Rightarrow> 'k list \<Rightarrow> nat" where
  "age x ks = length (takeWhile (\<lambda>y. y \<noteq> x) (rev ks))"

lemma age_snoc: "age x (ks @ [y]) = (if x = y then 0 else Suc (age x ks))"
  by (simp add: age_def)

lemma age_le_length: "age x ks \<le> length ks"
  unfolding age_def by (metis length_rev length_takeWhile_le)

lemma age_Cons: "x \<in> set ks \<Longrightarrow> age x (y # ks) = age x ks"
  by (auto simp: age_def takeWhile_append)

lemma age_head: "x \<notin> set ks \<Longrightarrow> age x (x # ks) = length ks"
  by (auto simp: age_def takeWhile_append)

lemma age_filter: "x \<noteq> k \<Longrightarrow> age x (filter (\<lambda>y. y \<noteq> k) ks) \<le> age x ks"
proof (induction ks rule: rev_induct)
  case (snoc y ks)
  then show ?case by (auto simp: age_snoc)
qed simp

text \<open>\<open>touches p x v\<close>: step \<open>p\<close> may replace the value \<open>v\<close> stored
  for \<open>x\<close>.\<close>

locale recency =
  fixes ks :: "'s \<Rightarrow> 'k list" and get :: "'s \<Rightarrow> 'k \<Rightarrow> 'v option" and cap :: nat
    and ok :: "'s \<Rightarrow> bool" and step :: "'s \<Rightarrow> 'o \<Rightarrow> 's \<Rightarrow> bool"
    and touches :: "'o \<Rightarrow> 'k \<Rightarrow> 'v \<Rightarrow> bool"
  assumes ok_step: "ok s \<Longrightarrow> step s p s' \<Longrightarrow> ok s'"
    and get_key: "get s x = Some v \<Longrightarrow> x \<in> set (ks s)"
    and kept: "ok s \<Longrightarrow> step s p s' \<Longrightarrow> x \<in> set (ks s) \<Longrightarrow> age x (ks s) + 1 < cap \<Longrightarrow>
      x \<in> set (ks s') \<and> age x (ks s') \<le> age x (ks s) + 1"
    and stable: "ok s \<Longrightarrow> step s p s' \<Longrightarrow> get s x = Some v \<Longrightarrow> x \<in> set (ks s') \<Longrightarrow>
      \<not> touches p x v \<Longrightarrow> get s' x = Some v"
begin

inductive run :: "'s \<Rightarrow> 'o list \<Rightarrow> 's \<Rightarrow> bool" where
  run_Nil: "run s [] s"
| run_Cons: "step s p s1 \<Longrightarrow> run s1 ps s' \<Longrightarrow> run s (p # ps) s'"

inductive_cases run_ConsE: "run s (p # ps) s'"

lemma run_ok: "run s ps s' \<Longrightarrow> ok s \<Longrightarrow> ok s'"
  by (induction rule: run.induct) (auto intro: ok_step)

text \<open>A value with fewer than \<open>cap\<close> younger keys and steps to come is still there,
  unless a step replaced it.\<close>

lemma run_get:
  "run s ps s' \<Longrightarrow> ok s \<Longrightarrow> get s x = Some v \<Longrightarrow> age x (ks s) + length ps < cap \<Longrightarrow>
   \<forall>p \<in> set ps. \<not> touches p x v \<Longrightarrow> get s' x = Some v"
proof (induction rule: run.induct)
  case (run_Cons s p s1 ps s')
  from kept [OF run_Cons.prems(1) run_Cons.hyps(1) get_key [OF run_Cons.prems(2)]] run_Cons.prems(3)
  have x: "x \<in> set (ks s1)" "age x (ks s1) \<le> age x (ks s) + 1" by auto
  have "get s1 x = Some v"
    using stable [OF run_Cons.prems(1) run_Cons.hyps(1) run_Cons.prems(2) x(1)] run_Cons.prems(4) by simp
  with run_Cons.IH [OF ok_step [OF run_Cons.prems(1) run_Cons.hyps(1)]] run_Cons.prems(3,4) x(2)
  show ?case by auto
qed simp

end

text \<open>One insertion behind the eviction, the step both tables share.\<close>

lemma insert_kept:
  assumes "make_room cap d = Inr d'" "dict_get d k = None" "distinct (dict_keys d)"
    "length d \<le> cap" "x \<in> set (dict_keys d)" "age x (dict_keys d) + 1 < cap"
  shows "x \<in> set (dict_keys d')" "age x (dict_keys d' @ [k]) \<le> age x (dict_keys d) + 1"
proof -
  have k: "x \<noteq> k" using assms(2,5) by (metis dict_get_None_iff)
  have "x \<in> set (dict_keys d') \<and> age x (dict_keys d') \<le> age x (dict_keys d)"
    using assms(1)
  proof (cases rule: make_room_cases)
    case 1
    then show ?thesis using assms(5) by simp
  next
    case (2 e)
    obtain y v where e: "e = (y, v)" by (cases e)
    have "x \<noteq> y"
    proof
      assume y: "x = y"
      then have "x \<notin> set (dict_keys d')" using assms(3) 2(1) e by simp
      then have "age x (dict_keys d) = length d'" using 2(1) e y by (simp add: age_head)
      then show False using 2 assms(6) by simp
    qed
    then show ?thesis using assms(5) 2(1) e by (simp add: age_Cons)
  qed
  then show "x \<in> set (dict_keys d')" "age x (dict_keys d' @ [k]) \<le> age x (dict_keys d) + 1"
    using k by (simp_all add: age_snoc)
qed

section \<open>TTLDedup\<close>

record 'k ttl_dedup =
  dd_max :: nat
  dd_ttl :: rat
  dd_store :: "('k \<times> rat) list"

definition ttl_dedup_new :: "nat \<Rightarrow> rat \<Rightarrow> 'k ttl_dedup" where
  "ttl_dedup_new m ttl = \<lparr>dd_max = m, dd_ttl = ttl, dd_store = []\<rparr>"

text \<open>The end of \<open>seen\<close>: a key not in the store is new.\<close>

definition seen_new :: "'k ttl_dedup \<Rightarrow> rat \<Rightarrow> 'k \<Rightarrow> ('k \<times> rat) list \<Rightarrow> py_error + ('k ttl_dedup \<times> bool)" where
  "seen_new d now key st =
     (case make_room (dd_max d) st of
        Inl e \<Rightarrow> Inl e
      | Inr st' \<Rightarrow> Inr (d\<lparr>dd_store := dict_set st' key now\<rparr>, False))"

definition seen :: "'k ttl_dedup \<Rightarrow> rat \<Rightarrow> 'k \<Rightarrow> py_error + ('k ttl_dedup \<times> bool)" where
  "seen d now key =
     (case dict_get (dd_store d) key of
        Some ts \<Rightarrow>
          if now - ts < dd_ttl d then Inr (d\<lparr>dd_store := move_to_end (dd_store d) key\<rparr>, True)
          else seen_new d now key (dict_pop (dd_store d) key)
      | None \<Rightarrow> seen_new d now key (dd_store d))"

text \<open>\<open>__len__\<close>.\<close>

definition ttl_dedup_len :: "'k ttl_dedup \<Rightarrow> nat" where
  "ttl_dedup_len d = length (dd_store d)"

text \<open>A sequence of calls, each at its clock reading, with their answers.\<close>

fun seen_all :: "'k ttl_dedup \<Rightarrow> (rat \<times> 'k) list \<Rightarrow> py_error + ('k ttl_dedup \<times> bool list)" where
  "seen_all d [] = Inr (d, [])"
| "seen_all d ((now, key) # cs) =
     (case seen d now key of
        Inl e \<Rightarrow> Inl e
      | Inr (d', b) \<Rightarrow> (case seen_all d' cs of Inl e \<Rightarrow> Inl e | Inr (d'', bs) \<Rightarrow> Inr (d'', b # bs)))"

definition dedup_ok :: "nat \<Rightarrow> rat \<Rightarrow> 'k ttl_dedup \<Rightarrow> bool" where
  "dedup_ok m ttl d \<longleftrightarrow> 0 < m \<and> dd_max d = m \<and> dd_ttl d = ttl \<and> distinct (dict_keys (dd_store d)) \<and>
     length (dd_store d) \<le> m"


lemma dedup_ok_new: "0 < m \<Longrightarrow> dedup_ok m ttl (ttl_dedup_new m ttl)"
  by (simp add: dedup_ok_def ttl_dedup_new_def)

text \<open>The two ways a call answers.\<close>

lemma seen_cases:
  assumes "seen d now key = Inr (d', b)"
  obtains (dup) ts where "b" "dict_get (dd_store d) key = Some ts" "now - ts < dd_ttl d"
      "d' = d\<lparr>dd_store := move_to_end (dd_store d) key\<rparr>"
  | (new) st where "\<not> b" "make_room (dd_max d) (dict_pop (dd_store d) key) = Inr st"
      "d' = d\<lparr>dd_store := dict_set st key now\<rparr>"
      "\<forall>ts. dict_get (dd_store d) key = Some ts \<longrightarrow> \<not> now - ts < dd_ttl d"
  using assms
  by (auto simp: seen_def seen_new_def dict_pop_absent split: option.splits if_splits sum.splits)

lemma make_room_get:
  "make_room cap d = Inr d' \<Longrightarrow> dict_get d' k = Some v \<Longrightarrow> distinct (dict_keys d) \<Longrightarrow> dict_get d k = Some v"
  by (erule make_room_cases) (auto dest: dict_get_SomeD)

lemma make_room_keys:
  "make_room cap d = Inr d' \<Longrightarrow> set (dict_keys d') \<subseteq> set (dict_keys d)"
  by (erule make_room_cases) (auto simp: dict_keys_def)

lemma make_room_distinct:
  "make_room cap d = Inr d' \<Longrightarrow> distinct (dict_keys d) \<Longrightarrow> distinct (dict_keys d')"
  by (erule make_room_cases) (auto simp: dict_keys_def)

lemma make_room_length:
  "make_room cap d = Inr d' \<Longrightarrow> length d \<le> cap \<Longrightarrow> 0 < cap \<Longrightarrow> length d' < cap"
  by (erule make_room_cases) auto

lemma make_room_fresh:
  "make_room cap d = Inr d' \<Longrightarrow> dict_get d k = None \<Longrightarrow> dict_set d' k v = d' @ [(k, v)]"
  using make_room_keys [of cap d d'] by (intro dict_set_fresh) (auto simp: dict_get_None_iff)

lemma length_dict_pop: "length (dict_pop d k) \<le> length d"
  by (simp add: dict_pop_def)

lemma seen_ok:
  assumes "dedup_ok m ttl d" "seen d now key = Inr (d', b)"
  shows "dedup_ok m ttl d'"
  using assms(2)
proof (cases rule: seen_cases)
  case (dup ts)
  then show ?thesis
    using assms(1) length_move_to_end [of "dd_store d" key ts]
    by (simp add: dedup_ok_def move_to_end_keys)
next
  case (new st)
  have pop: "dict_get (dict_pop (dd_store d) key) key = None" by simp
  have "length (dict_pop (dd_store d) key) \<le> m"
    using assms(1) length_dict_pop [of "dd_store d" key] by (simp add: dedup_ok_def)
  with new(2) assms(1) have "length st < m"
    by (intro make_room_length [of m "dict_pop (dd_store d) key"]) (simp_all add: dedup_ok_def)
  moreover have "distinct (dict_keys st)"
    using new(2) assms(1) make_room_distinct distinct_dict_pop by (fastforce simp: dedup_ok_def)
  moreover have "key \<notin> set (dict_keys st)"
    using make_room_keys [OF new(2)] by (auto simp: dict_keys_pop)
  ultimately show ?thesis
    using assms(1) new(3) make_room_fresh [OF new(2) pop] by (simp add: dedup_ok_def dict_keys_append)
qed

lemma seen_total: "dedup_ok m ttl d \<Longrightarrow> \<exists>d' b. seen d now key = Inr (d', b)"
  using make_room_ok [of m "dd_store d"] make_room_ok [of m "dict_pop (dd_store d) key"]
  by (auto simp: seen_def seen_new_def dedup_ok_def split: option.splits)

lemma seen_stored: "seen d now key = Inr (d', b) \<Longrightarrow> key \<in> set (dict_keys (dd_store d'))"
  by (erule seen_cases) (auto simp: move_to_end_keys dict_keys_set)

text \<open>A key that stays keeps its time stamp, the key asked for as long as it is fresh.\<close>

lemma seen_get_kept:
  assumes "dedup_ok m ttl d" "seen d now key = Inr (d', b)" "dict_get (dd_store d) x = Some v"
    "x \<in> set (dict_keys (dd_store d'))" "x = key \<longrightarrow> now - v < ttl"
  shows "dict_get (dd_store d') x = Some v"
  using assms(2)
proof (cases rule: seen_cases)
  case (dup ts)
  then show ?thesis using assms(3) by simp
next
  case (new st)
  have k: "x \<noteq> key" using new(4) assms(1,3,5) by (auto simp: dedup_ok_def)
  then have "x \<in> set (dict_keys st)" using assms(4) new(3) by (auto simp: dict_keys_set split: if_splits)
  then obtain v' where v': "dict_get st x = Some v'" by (rule dict_keys_getE)
  then have "dict_get (dict_pop (dd_store d) key) x = Some v'"
    using make_room_get [OF new(2)] assms(1) by (simp add: dedup_ok_def distinct_dict_pop)
  then show ?thesis using k v' new(3) assms(3) by simp
qed

lemma seen_kept:
  assumes "dedup_ok m ttl d" "seen d now key = Inr (d', b)" "x \<in> set (dict_keys (dd_store d))"
    "age x (dict_keys (dd_store d)) + 1 < m"
  shows "x \<in> set (dict_keys (dd_store d')) \<and>
    age x (dict_keys (dd_store d')) \<le> age x (dict_keys (dd_store d)) + 1"
proof (cases "x = key")
  case True
  have "age key (dict_keys (dd_store d')) = 0"
    using assms(2) by (cases rule: seen_cases)
      (auto simp: move_to_end_keys age_snoc make_room_fresh dict_keys_append)
  then show ?thesis using True seen_stored [OF assms(2)] by simp
next
  case False
  show ?thesis using assms(2)
  proof (cases rule: seen_cases)
    case (dup ts)
    then show ?thesis using False assms(3) age_filter [OF False, of "dict_keys (dd_store d)"]
      by (simp add: move_to_end_keys age_snoc)
  next
    case (new st)
    let ?p = "dict_pop (dd_store d) key"
    have pop: "dict_get ?p key = None" by simp
    have a: "age x (dict_keys ?p) \<le> age x (dict_keys (dd_store d))"
      using age_filter [OF False] by (simp add: dict_keys_pop)
    have p: "x \<in> set (dict_keys ?p)" "age x (dict_keys ?p) + 1 < m" "distinct (dict_keys ?p)"
      "length ?p \<le> m"
      using a False assms(1,3,4) length_dict_pop [of "dd_store d" key]
      by (auto simp: dict_keys_pop dedup_ok_def)
    have room: "make_room m ?p = Inr st" using new(2) assms(1) by (simp add: dedup_ok_def)
    from insert_kept [OF room pop p(3,4,1,2)] a show ?thesis
      using new(3) make_room_fresh [OF new(2) pop] by (simp add: dict_keys_append)
  qed
qed

interpretation dedup: recency "\<lambda>d. dict_keys (dd_store d)" "\<lambda>d. dict_get (dd_store d)" m "dedup_ok m ttl"
  "\<lambda>d c d'. \<exists>b. seen d (fst c) (snd c) = Inr (d', b)" "\<lambda>c x v. snd c = x \<and> \<not> fst c - v < ttl" for m ttl
  by unfold_locales (auto intro: seen_ok dict_get_SomeD seen_get_kept dest: seen_kept)

lemma seen_all_run:
  "seen_all d cs = Inr (d', bs) \<Longrightarrow> dedup.run d cs d'"
proof (induction d cs arbitrary: bs rule: seen_all.induct)
  case (2 d now key cs)
  then obtain d1 b bs1 where 1: "seen d now key = Inr (d1, b)" "seen_all d1 cs = Inr (d', bs1)"
    by (auto split: sum.splits)
  then have "dedup.run d1 cs d'" using "2.IH" by blast
  then show ?case using 1(1) by (intro dedup.run_Cons [of d "(now, key)" d1]) auto
qed (simp add: dedup.run_Nil)

lemma seen_all_append:
  "seen_all d (cs @ ds) =
     (case seen_all d cs of Inl e \<Rightarrow> Inl e
      | Inr (d', bs) \<Rightarrow> (case seen_all d' ds of Inl e \<Rightarrow> Inl e | Inr (d'', bs') \<Rightarrow> Inr (d'', bs @ bs')))"
  by (induction d cs rule: seen_all.induct) (auto split: sum.split)

lemma seen_all_length: "seen_all d cs = Inr (d', bs) \<Longrightarrow> length bs = length cs"
  by (induction d cs arbitrary: bs rule: seen_all.induct) (auto split: sum.splits)

lemma seen_all_total:
  "dedup_ok m ttl d \<Longrightarrow> \<exists>d' bs. seen_all d cs = Inr (d', bs)"
proof (induction d cs rule: seen_all.induct)
  case (2 d now key cs)
  obtain d1 b where 1: "seen d now key = Inr (d1, b)" using seen_total [OF 2(2)] by blast
  with 2(1) [OF this refl seen_ok [OF 2(2) this]] show ?case by fastforce
qed simp

section \<open>Properties of the deduplication\<close>

text \<open>Every sequence of calls on a filter of positive capacity is answered without an
  exception, one answer per call, and leaves at most the configured number of keys, each once.\<close>

theorem dedup_bounded:
  assumes "0 < m"
  shows "\<exists>d bs. seen_all (ttl_dedup_new m ttl) cs = Inr (d, bs) \<and> length bs = length cs \<and>
     ttl_dedup_len d \<le> m \<and> distinct (dict_keys (dd_store d))"
proof -
  obtain d bs where d: "seen_all (ttl_dedup_new m ttl) cs = Inr (d, bs)"
    using seen_all_total [OF dedup_ok_new [OF assms]] by blast
  with dedup.run_ok [OF seen_all_run [OF d] dedup_ok_new [OF assms]] show ?thesis
    by (auto simp: dedup_ok_def ttl_dedup_len_def seen_all_length)
qed

theorem dedup_bounded_witness:
  "\<exists>d bs. seen_all (ttl_dedup_new 1 300) [(0, ''a''), (1, ''b''), (2, ''a'')] = Inr (d, bs) \<and>
     length bs = 3 \<and> ttl_dedup_len d \<le> 1 \<and> distinct (dict_keys (dd_store d))"
  using dedup_bounded [of 1 300 "[(0, ''a''), (1, ''b''), (2, ''a'')]"]
  by (simp add: numeral_3_eq_3 del: seen_all.simps)

definition accepted_before :: "rat \<Rightarrow> (rat \<times> 'k) list \<Rightarrow> bool list \<Rightarrow> nat \<Rightarrow> bool" where
  "accepted_before ttl cs bs i \<longleftrightarrow>
     (\<exists>j < i. snd (cs ! j) = snd (cs ! i) \<and> \<not> bs ! j \<and> fst (cs ! i) - fst (cs ! j) < ttl)"

lemma seen_all_sound:
  assumes "0 < m" "seen_all (ttl_dedup_new m ttl) cs = Inr (d, bs)"
  shows "(\<forall>k ts. dict_get (dd_store d) k = Some ts \<longrightarrow> (\<exists>j < length cs. cs ! j = (ts, k) \<and> \<not> bs ! j)) \<and>
    (\<forall>i < length cs. bs ! i \<longrightarrow> accepted_before ttl cs bs i)"
  using assms(2)
proof (induction cs arbitrary: d bs rule: rev_induct)
  case (snoc c cs)
  obtain now key where c: "c = (now, key)" by (cases c)
  obtain d1 bs1 b where 1: "seen_all (ttl_dedup_new m ttl) cs = Inr (d1, bs1)"
      "seen d1 now key = Inr (d, b)" "bs = bs1 @ [b]"
    using snoc.prems by (auto simp: seen_all_append c split: sum.splits)
  have n: "length bs1 = length cs" using seen_all_length [OF 1(1)] .
  have ok: "dedup_ok m ttl d1" using dedup.run_ok [OF seen_all_run [OF 1(1)] dedup_ok_new [OF assms(1)]] .
  have old: "\<exists>j < length cs. (cs @ [c]) ! j = (ts, k) \<and> \<not> bs ! j"
    if "dict_get (dd_store d1) k = Some ts" for k ts
    using snoc.IH [OF 1(1)] that n by (fastforce simp: 1(3) nth_append)
  have prev: "\<forall>i < length cs. bs ! i \<longrightarrow> accepted_before ttl (cs @ [c]) bs i"
    using snoc.IH [OF 1(1)] n by (fastforce simp: 1(3) nth_append accepted_before_def)
  show ?case using 1(2)
  proof (cases rule: seen_cases)
    case (dup ts)
    obtain j where j: "j < length cs" "(cs @ [c]) ! j = (ts, key)" "\<not> bs ! j"
      using old [OF dup(2)] by blast
    have "dd_ttl d1 = ttl" using ok by (simp add: dedup_ok_def)
    with j dup(3) have at: "accepted_before ttl (cs @ [c]) bs (length cs)"
      unfolding accepted_before_def by (intro exI [of _ j]) (simp add: c)
    have "\<forall>k ts. dict_get (dd_store d) k = Some ts \<longrightarrow> (\<exists>j < length cs. (cs @ [c]) ! j = (ts, k) \<and> \<not> bs ! j)"
      using old dup(4) by simp
    then show ?thesis using prev at by (fastforce simp: less_Suc_eq)
  next
    case (new st)
    have "dict_get (dd_store d1) k = Some ts" if "dict_get st k = Some ts" "k \<noteq> key" for k ts
      using make_room_get [OF new(2) that(1)] ok that(2) by (simp add: dedup_ok_def distinct_dict_pop)
    then have "\<exists>j < length (cs @ [c]). (cs @ [c]) ! j = (ts, k) \<and> \<not> bs ! j"
      if "dict_get (dd_store d) k = Some ts" for k ts
    proof (cases "k = key")
      case True
      then have "ts = now" using that new(3) by simp
      with True new(1) n 1(3) c show ?thesis by (intro exI [of _ "length cs"]) (simp add: nth_append)
    next
      case False
      with that new(3) old [of k ts] \<open>\<And>k ts. dict_get st k = Some ts \<Longrightarrow> k \<noteq> key \<Longrightarrow> dict_get (dd_store d1) k = Some ts\<close>
      show ?thesis by (auto simp: less_Suc_eq)
    qed
    moreover have "\<not> bs ! length cs" using new(1) n 1(3) by (simp add: nth_append)
    ultimately show ?thesis using prev by (simp add: less_Suc_eq)
  qed
qed (simp add: ttl_dedup_new_def)

text \<open>Nothing is lost to the filter: a key is only reported as a duplicate when the same key
  was let through by an earlier call less than the time to live before.\<close>

theorem suppressed_only_after_accepted:
  assumes "0 < m" and "seen_all (ttl_dedup_new m ttl) cs = Inr (d, bs)" and "i < length cs" and "bs ! i"
  shows "accepted_before ttl cs bs i"
  using seen_all_sound [OF assms(1,2)] assms(3,4) by blast

theorem suppressed_only_after_accepted_witness:
  "accepted_before 300 [(0, ''a''), (7, ''b''), (299, ''a'')] [False, False, True] 2"
  by (rule suppressed_only_after_accepted [of 2 300 _ "\<lparr>dd_max = 2, dd_ttl = 300, dd_store = [(''b'', 7), (''a'', 0)]\<rparr>"])
    (simp_all add: ttl_dedup_new_def seen_def seen_new_def make_room_def move_to_end_def dict_pop_def)

text \<open>And duplicates are caught: a key let through at time \<open>t0\<close> is reported as a duplicate
  at any later time before \<open>t0 + ttl\<close>, as long as fewer calls than the capacity lie between
  and the clock does not run backwards; calls for the key itself in between do not prolong or end
  its window.\<close>

theorem duplicate_caught:
  assumes "0 < m" and "seen_all (ttl_dedup_new m ttl) (cs @ (t0, k) # ds @ [(t, k)]) = Inr (d, bs)"
    and "\<not> bs ! length cs" and "t - t0 < ttl" and "length ds < m" and "\<forall>c \<in> set ds. fst c \<le> t"
  shows "last bs"
proof -
  obtain d0 bs0 d1 b d2 bs2 b' where runs: "seen_all (ttl_dedup_new m ttl) cs = Inr (d0, bs0)"
      "seen d0 t0 k = Inr (d1, b)" "seen_all d1 ds = Inr (d2, bs2)" "seen d2 t k = Inr (d, b')"
      "bs = bs0 @ b # bs2 @ [b']"
    using assms(2) by (auto simp: seen_all_append split: sum.splits)
  have ok: "dedup_ok m ttl d0" using dedup.run_ok [OF seen_all_run [OF runs(1)] dedup_ok_new [OF assms(1)]] .
  have "\<not> b" using assms(3) seen_all_length [OF runs(1)] by (simp add: runs(5) nth_append)
  with runs(2) obtain st where st: "make_room (dd_max d0) (dict_pop (dd_store d0) k) = Inr st"
      "d1 = d0\<lparr>dd_store := dict_set st k t0\<rparr>"
    by (cases rule: seen_cases) auto
  have "dd_store d1 = st @ [(k, t0)]" using st make_room_fresh [OF st(1)] by simp
  moreover have "dict_get st k = None"
    using make_room_keys [OF st(1)] by (auto simp: dict_get_None_iff dict_keys_pop)
  ultimately have "dict_get (dd_store d1) k = Some t0" "age k (dict_keys (dd_store d1)) = 0"
    by (simp_all add: dict_keys_append dict_get_append age_snoc)
  then have "dict_get (dd_store d2) k = Some t0"
    using dedup.run_get [OF seen_all_run [OF runs(3)] seen_ok [OF ok runs(2)]] assms(4-6)
    by fastforce
  moreover have "dd_ttl d2 = ttl"
    using dedup.run_ok [OF seen_all_run [OF runs(3)] seen_ok [OF ok runs(2)]] by (simp add: dedup_ok_def)
  ultimately show ?thesis using runs(4,5) assms(4) by (auto simp: seen_def)
qed

theorem duplicate_caught_witness:
  "\<exists>bs. seen_all (ttl_dedup_new 2 300) [(0, ''a''), (7, ''b''), (299, ''a'')] =
     Inr (\<lparr>dd_max = 2, dd_ttl = 300, dd_store = [(''b'', 7), (''a'', 0)]\<rparr>, bs) \<and> last bs"
proof -
  have h: "seen_all (ttl_dedup_new 2 300) ([] @ (0, ''a'') # [(7, ''b'')] @ [(299, ''a'')]) =
     Inr (\<lparr>dd_max = 2, dd_ttl = 300, dd_store = [(''b'', 7), (''a'', 0)]\<rparr>, [False, False, True])"
    by (simp add: ttl_dedup_new_def seen_def seen_new_def make_room_def move_to_end_def dict_pop_def)
  with duplicate_caught [OF _ h] show ?thesis by simp
qed

section \<open>ConnectionTable\<close>

declare split_paired_All [simp del] split_paired_Ex [simp del]

datatype conn_state = SYN_SEEN | ESTABLISHED | BANNER_CAPTURED | CLOSED

record conn_entry =
  ce_state :: conn_state
  server_port :: nat
  first_seen :: rat
  last_seen :: rat
  client_bytes :: int

type_synonym conn_key = "string \<times> nat \<times> string \<times> nat"

record conn_table =
  ct_entries :: "(conn_key \<times> conn_entry) list"
  ct_max :: nat
  ct_ttl :: rat

definition conn_table_new :: "nat \<Rightarrow> rat \<Rightarrow> conn_table" where
  "conn_table_new m ttl = \<lparr>ct_entries = [], ct_max = m, ct_ttl = ttl\<rparr>"

definition dst_port :: "conn_key \<Rightarrow> nat" where
  "dst_port k = snd (snd (snd k))"

text \<open>\<open>ConnEntry.touch\<close>.\<close>

definition touch :: "rat \<Rightarrow> conn_entry \<Rightarrow> conn_entry" where
  "touch now e = e\<lparr>last_seen := now\<rparr>"

text \<open>\<open>register_syn\<close>; the two clock readings of the entry's defaults are one argument.\<close>

definition register_syn :: "rat \<Rightarrow> conn_key \<Rightarrow> conn_table \<Rightarrow> py_error + (conn_table \<times> conn_entry)" where
  "register_syn now key t =
     (case dict_get (ct_entries t) key of
        Some e \<Rightarrow> Inr (t, e)
      | None \<Rightarrow>
          (case make_room (ct_max t) (ct_entries t) of
             Inl err \<Rightarrow> Inl err
           | Inr es \<Rightarrow>
               let e = \<lparr>ce_state = SYN_SEEN, server_port = dst_port key, first_seen = now,
                        last_seen = now, client_bytes = 0\<rparr>
               in Inr (t\<lparr>ct_entries := move_to_end (dict_set es key e) key\<rparr>, e)))"

definition conn_lookup :: "conn_key \<Rightarrow> conn_table \<Rightarrow> conn_entry option" where
  "conn_lookup key t = dict_get (ct_entries t) key"

text \<open>The entry found by \<open>lookup\<close> is changed in place.\<close>

definition update_entry :: "conn_key \<Rightarrow> (conn_entry \<Rightarrow> conn_entry) \<Rightarrow> conn_table \<Rightarrow> conn_table" where
  "update_entry key f t =
     (case conn_lookup key t of
        None \<Rightarrow> t
      | Some e \<Rightarrow> t\<lparr>ct_entries := dict_set (ct_entries t) key (f e)\<rparr>)"

definition mark_captured :: "rat \<Rightarrow> conn_key \<Rightarrow> conn_table \<Rightarrow> conn_table" where
  "mark_captured now key t = update_entry key (\<lambda>e. touch now (e\<lparr>ce_state := BANNER_CAPTURED\<rparr>)) t"

definition mark_closed :: "rat \<Rightarrow> conn_key \<Rightarrow> conn_table \<Rightarrow> conn_table" where
  "mark_closed now key t = update_entry key (\<lambda>e. touch now (e\<lparr>ce_state := CLOSED\<rparr>)) t"

definition is_captured :: "conn_key \<Rightarrow> conn_table \<Rightarrow> bool" where
  "is_captured key t =
     (case conn_lookup key t of None \<Rightarrow> False | Some e \<Rightarrow> ce_state e = BANNER_CAPTURED)"

definition record_client_data :: "rat \<Rightarrow> conn_key \<Rightarrow> int \<Rightarrow> conn_table \<Rightarrow> conn_table" where
  "record_client_data now key n t =
     update_entry key (\<lambda>e. touch now (e\<lparr>client_bytes := client_bytes e + n\<rparr>)) t"

definition stale_entry :: "rat \<Rightarrow> conn_table \<Rightarrow> conn_entry \<Rightarrow> bool" where
  "stale_entry now t e \<longleftrightarrow> now - last_seen e > ct_ttl t \<or> ce_state e = CLOSED"

definition sweep :: "rat \<Rightarrow> conn_table \<Rightarrow> conn_table \<times> nat" where
  "sweep now t =
     (let gone = map fst (filter (\<lambda>(k, e). stale_entry now t e) (ct_entries t))
      in (t\<lparr>ct_entries := foldl dict_pop (ct_entries t) gone\<rparr>, length gone))"

definition conn_len :: "conn_table \<Rightarrow> nat" where
  "conn_len t = length (ct_entries t)"

text \<open>The operations as data, each with its clock reading.\<close>

datatype conn_op =
    Register conn_key
  | Captured conn_key
  | Closed conn_key
  | Client_Data conn_key int
  | Sweep

fun conn_run :: "rat \<Rightarrow> conn_op \<Rightarrow> conn_table \<Rightarrow> py_error + conn_table" where
  "conn_run now (Register k) t = (case register_syn now k t of Inl e \<Rightarrow> Inl e | Inr (t', _) \<Rightarrow> Inr t')"
| "conn_run now (Captured k) t = Inr (mark_captured now k t)"
| "conn_run now (Closed k) t = Inr (mark_closed now k t)"
| "conn_run now (Client_Data k n) t = Inr (record_client_data now k n t)"
| "conn_run now Sweep t = Inr (fst (sweep now t))"

text \<open>The tables reachable from an empty one while the clock does not run backwards; the
  second index is the last clock reading.\<close>

inductive conn_reachable :: "nat \<Rightarrow> rat \<Rightarrow> conn_table \<Rightarrow> rat \<Rightarrow> bool" for m ttl where
  start: "conn_reachable m ttl (conn_table_new m ttl) now"
| step: "conn_reachable m ttl t now \<Longrightarrow> now \<le> now' \<Longrightarrow> conn_run now' p t = Inr t' \<Longrightarrow>
    conn_reachable m ttl t' now'"

section \<open>Lemmas on the connection table\<close>

definition conn_shape :: "nat \<Rightarrow> conn_table \<Rightarrow> bool" where
  "conn_shape m t \<longleftrightarrow> ct_max t = m \<and> distinct (dict_keys (ct_entries t)) \<and> length (ct_entries t) \<le> m"

definition good_entry :: "rat \<Rightarrow> conn_key \<Rightarrow> conn_entry \<Rightarrow> bool" where
  "good_entry now k e \<longleftrightarrow> server_port e = dst_port k \<and> first_seen e \<le> last_seen e \<and>
     last_seen e \<le> now \<and> ce_state e \<noteq> ESTABLISHED"

lemma register_cases:
  assumes "register_syn now key t = Inr (t', e)"
  obtains (known) "conn_lookup key t = Some e" "t' = t"
  | (new) es where "conn_lookup key t = None" "make_room (ct_max t) (ct_entries t) = Inr es"
      "t' = t\<lparr>ct_entries := es @ [(key, e)]\<rparr>" "dict_get es key = None"
      "e = \<lparr>ce_state = SYN_SEEN, server_port = dst_port key, first_seen = now, last_seen = now, client_bytes = 0\<rparr>"
proof (cases "dict_get (ct_entries t) key")
  case None
  then obtain es where es: "make_room (ct_max t) (ct_entries t) = Inr es"
    using assms by (auto simp: register_syn_def split: sum.splits)
  have absent: "dict_get es key = None"
    using make_room_keys [OF es] None by (auto simp: dict_get_None_iff)
  show ?thesis
    using assms None es absent
    by (intro new [of es]) (auto simp: register_syn_def conn_lookup_def Let_def dict_set_fresh move_to_end_fresh)
next
  case (Some e')
  then show ?thesis using assms by (intro known) (auto simp: register_syn_def conn_lookup_def)
qed

lemma make_room_below: "make_room cap d = Inr d' \<Longrightarrow> length d \<le> cap \<Longrightarrow> length d' < cap"
  by (erule make_room_cases) auto

lemma register_shape:
  assumes "conn_shape m t" "register_syn now key t = Inr (t', e)"
  shows "conn_shape m t'"
  using assms(2)
proof (cases rule: register_cases)
  case known
  then show ?thesis using assms(1) by simp
next
  case (new es)
  then show ?thesis
    using assms(1) make_room_below [OF new(2)] make_room_distinct [OF new(2)]
    by (auto simp: conn_shape_def dict_keys_append dict_get_None_iff)
qed

lemma register_kept:
  assumes "conn_shape m t" "register_syn now key t = Inr (t', e)" "x \<in> set (dict_keys (ct_entries t))"
    "age x (dict_keys (ct_entries t)) + 1 < m"
  shows "x \<in> set (dict_keys (ct_entries t')) \<and>
    age x (dict_keys (ct_entries t')) \<le> age x (dict_keys (ct_entries t)) + 1"
  using assms(2)
proof (cases rule: register_cases)
  case known
  then show ?thesis using assms(3) by simp
next
  case (new es)
  have room: "make_room m (ct_entries t) = Inr es" "dict_get (ct_entries t) key = None"
    using new(1,2) assms(1) by (auto simp: conn_shape_def conn_lookup_def)
  have shape: "distinct (dict_keys (ct_entries t))" "length (ct_entries t) \<le> m"
    using assms(1) by (auto simp: conn_shape_def)
  show ?thesis using insert_kept [OF room shape assms(3,4)] new(3) by (simp add: dict_keys_append)
qed

lemma register_get:
  assumes "conn_shape m t" "register_syn now key t = Inr (t', e)" "conn_lookup x t = Some v"
    "x \<in> set (dict_keys (ct_entries t'))"
  shows "conn_lookup x t' = Some v"
  using assms(2)
proof (cases rule: register_cases)
  case known
  then show ?thesis using assms(3) by simp
next
  case (new es)
  have "x \<noteq> key" using new(1) assms(3) by auto
  then have "x \<in> set (dict_keys es)" using assms(4) new(3) by (simp add: dict_keys_append)
  then obtain v' where v': "dict_get es x = Some v'" by (rule dict_keys_getE)
  then have "conn_lookup x t = Some v'"
    using make_room_get [OF new(2)] assms(1) by (simp add: conn_shape_def conn_lookup_def)
  with v' new(3) assms(3) show ?thesis by (simp add: conn_lookup_def dict_get_append)
qed

interpretation conn: recency "\<lambda>t. dict_keys (ct_entries t)" "\<lambda>t k. conn_lookup k t" m "conn_shape m"
  "\<lambda>t c t'. \<exists>e. register_syn (fst c) (snd c) t = Inr (t', e)" "\<lambda>_ _ _. False" for m
proof (unfold_locales, goal_cases)
  case 1
  then show ?case by (blast intro: register_shape)
next
  case 2
  then show ?case by (simp add: conn_lookup_def dict_get_SomeD)
next
  case 3
  then show ?case by (blast dest: register_kept)
next
  case 4
  then show ?case by (blast intro: register_get)
qed

lemma update_entry_shape: "conn_shape m t \<Longrightarrow> conn_shape m (update_entry key f t)"
  by (auto simp: update_entry_def conn_shape_def conn_lookup_def dict_keys_set dict_get_SomeD
      simp flip: length_dict_keys split: option.split)

lemma update_entry_keys: "dict_keys (ct_entries (update_entry key f t)) = dict_keys (ct_entries t)"
  by (auto simp: update_entry_def conn_lookup_def dict_keys_set dict_get_SomeD split: option.split)

lemma update_entry_lookup:
  "conn_lookup k (update_entry key f t) =
     (if k = key then map_option f (conn_lookup k t) else conn_lookup k t)"
  by (auto simp: update_entry_def conn_lookup_def split: option.split)

lemma foldl_dict_pop: "foldl dict_pop d ks = filter (\<lambda>e. fst e \<notin> set ks) d"
proof (induction ks arbitrary: d)
  case (Cons k ks)
  then show ?case by (simp add: dict_pop_def conj_commute cong: conj_cong)
qed simp

lemma sweep_entries:
  assumes "distinct (dict_keys (ct_entries t))"
  shows "ct_entries (fst (sweep now t)) = filter (\<lambda>(k, e). \<not> stale_entry now t e) (ct_entries t)"
proof -
  have "fst x \<in> fst ` {y \<in> set (ct_entries t). case y of (k, e) \<Rightarrow> stale_entry now t e} \<longleftrightarrow>
      (case x of (k, e) \<Rightarrow> stale_entry now t e)" if "x \<in> set (ct_entries t)" for x
    using that assms by (force simp: dict_keys_def dest: eq_key_imp_eq_value)
  then show ?thesis
    by (simp add: sweep_def Let_def foldl_dict_pop case_prod_unfold cong: filter_cong)
qed

lemma dict_get_filter:
  "distinct (dict_keys d) \<Longrightarrow> dict_get (filter (\<lambda>(k, e). P e) d) k =
     (case dict_get d k of None \<Rightarrow> None | Some e \<Rightarrow> if P e then Some e else None)"
proof (induction d)
  case (Cons x d)
  obtain k' e where x: "x = (k', e)" by (cases x)
  have "dict_get d k' = None" using Cons.prems x by (simp add: dict_get_None_iff)
  then show ?case using Cons x by auto
qed simp

lemma dict_keys_filter_distinct:
  "distinct (dict_keys d) \<Longrightarrow> distinct (dict_keys (filter P d))"
  by (induction d) (auto simp: dict_keys_def)

lemma sweep_shape: "conn_shape m t \<Longrightarrow> conn_shape m (fst (sweep now t))"
  by (auto simp: conn_shape_def sweep_entries dict_keys_filter_distinct intro: order.trans [OF length_filter_le])
    (simp_all add: sweep_def Let_def)

lemma good_entry_later: "good_entry now k e \<Longrightarrow> now \<le> now' \<Longrightarrow> good_entry now' k e"
  by (auto simp: good_entry_def)

definition conn_inv :: "nat \<Rightarrow> rat \<Rightarrow> conn_table \<Rightarrow> rat \<Rightarrow> bool" where
  "conn_inv m ttl t now \<longleftrightarrow> conn_shape m t \<and> ct_ttl t = ttl \<and>
     (\<forall>k e. conn_lookup k t = Some e \<longrightarrow> good_entry now k e)"

lemma conn_invI:
  "conn_shape m t \<Longrightarrow> ct_ttl t = ttl \<Longrightarrow>
   (\<And>k e. conn_lookup k t = Some e \<Longrightarrow> good_entry now k e) \<Longrightarrow> conn_inv m ttl t now"
  by (simp add: conn_inv_def)

lemma conn_invD:
  "conn_inv m ttl t now \<Longrightarrow> conn_lookup k t = Some e \<Longrightarrow> now \<le> now' \<Longrightarrow> good_entry now' k e"
  unfolding conn_inv_def by (blast intro: good_entry_later)

lemma update_entry_inv:
  assumes "conn_inv m ttl t now" "now \<le> now'"
    "\<And>e. good_entry now key e \<Longrightarrow> good_entry now' key (f e)"
  shows "conn_inv m ttl (update_entry key f t) now'"
proof (rule conn_invI)
  show "conn_shape m (update_entry key f t)" "ct_ttl (update_entry key f t) = ttl"
    using assms(1) update_entry_shape by (auto simp: conn_inv_def update_entry_def split: option.split)
  fix k e
  assume "conn_lookup k (update_entry key f t) = Some e"
  then show "good_entry now' k e"
    using assms(3) conn_invD [OF assms(1) _ assms(2)] conn_invD [OF assms(1) _ order.refl]
    by (cases "k = key") (fastforce simp: update_entry_lookup)+
qed

lemma conn_run_inv:
  assumes "conn_inv m ttl t now" "now \<le> now'" "conn_run now' p t = Inr t'"
  shows "conn_inv m ttl t' now'"
proof (cases p)
  case (Register key)
  with assms(3) obtain e where r: "register_syn now' key t = Inr (t', e)"
    by (auto split: sum.splits)
  have "conn_shape m t'" using assms(1) register_shape [OF _ r] by (simp add: conn_inv_def)
  moreover from r have "ct_ttl t' = ttl"
    using assms(1) by (cases rule: register_cases) (auto simp: conn_inv_def)
  moreover have "good_entry now' k v" if k: "conn_lookup k t' = Some v" for k v
    using r
  proof (cases rule: register_cases)
    case known
    then show ?thesis using k conn_invD [OF assms(1) _ assms(2)] by simp
  next
    case (new es)
    show ?thesis
    proof (cases "dict_get es k")
      case None
      with k new(3) have "k = key" "v = e" by (auto simp: conn_lookup_def dict_get_append split: if_splits)
      then show ?thesis using new(5) by (simp add: good_entry_def)
    next
      case (Some w)
      with k new(3) have "dict_get es k = Some v" by (simp add: conn_lookup_def dict_get_append)
      then have "conn_lookup k t = Some v"
        using make_room_get [OF new(2)] assms(1) by (simp add: conn_inv_def conn_shape_def conn_lookup_def)
      then show ?thesis using conn_invD [OF assms(1) _ assms(2)] by simp
    qed
  qed
  ultimately show ?thesis by (rule conn_invI)
next
  case Sweep
  have d: "distinct (dict_keys (ct_entries t))" using assms(1) by (simp add: conn_inv_def conn_shape_def)
  have t': "t' = fst (sweep now' t)" using assms(3) Sweep by simp
  have old: "conn_lookup k t = Some e" if "conn_lookup k t' = Some e" for k e
    using that dict_get_filter [OF d] by (simp add: t' conn_lookup_def sweep_entries [OF d] split: option.splits if_splits)
  have "ct_ttl t' = ttl" using assms(1) by (simp add: t' sweep_def Let_def conn_inv_def)
  then show ?thesis
    using assms(1) sweep_shape [of m t now'] t' conn_invD [OF assms(1) old assms(2)]
    by (intro conn_invI) (simp_all add: conn_inv_def)
qed (use assms in \<open>auto simp: mark_captured_def mark_closed_def record_client_data_def
      intro!: update_entry_inv [OF assms(1)], auto simp: good_entry_def touch_def\<close>)

lemma conn_reachable_inv: "conn_reachable m ttl t now \<Longrightarrow> conn_inv m ttl t now"
proof (induction rule: conn_reachable.induct)
  case (start now)
  then show ?case by (simp add: conn_inv_def conn_shape_def conn_table_new_def conn_lookup_def)
qed (rule conn_run_inv)

section \<open>Properties of the connection table\<close>

text \<open>C9: Every table reachable by registrations, marks, data records and sweeps holds at most
  the configured number of connections, each once and under its own server port, last seen no
  earlier than first seen; and no connection is ever in the state ESTABLISHED.\<close>

theorem conn_table_invariant:
  assumes "conn_reachable m ttl t now" and "conn_lookup k t = Some e"
  shows "conn_len t \<le> m \<and> distinct (dict_keys (ct_entries t)) \<and> server_port e = dst_port k \<and>
     first_seen e \<le> last_seen e \<and> last_seen e \<le> now \<and> ce_state e \<noteq> ESTABLISHED"
  using conn_reachable_inv [OF assms(1)] assms(2)
  by (simp add: conn_inv_def conn_shape_def conn_len_def good_entry_def)

text \<open>The connections of the witnesses.\<close>

definition ssh_conn :: conn_key where
  "ssh_conn = (''10.0.0.9'', 40000, ''10.0.0.5'', 22)"

definition ftp_conn :: conn_key where
  "ftp_conn = (''10.0.0.9'', 40001, ''10.0.0.5'', 21)"

definition ssh_table :: conn_table where
  "ssh_table = \<lparr>ct_entries = [(ssh_conn, \<lparr>ce_state = BANNER_CAPTURED, server_port = 22, first_seen = 1,
     last_seen = 3, client_bytes = 0\<rparr>)], ct_max = 2, ct_ttl = 30\<rparr>"

lemma ssh_table_reachable: "conn_reachable 2 30 ssh_table 3"
proof (rule conn_reachable.step [OF conn_reachable.step [OF conn_reachable.start [where now = 0]]])
  show "conn_run 1 (Register ssh_conn) (conn_table_new 2 30) =
      Inr (fst (sum.projr (register_syn 1 ssh_conn (conn_table_new 2 30))))"
    by (simp add: register_syn_def conn_table_new_def make_room_def Let_def)
  show "conn_run 3 (Captured ssh_conn) (fst (sum.projr (register_syn 1 ssh_conn (conn_table_new 2 30)))) =
      Inr ssh_table"
    by (simp add: register_syn_def conn_table_new_def make_room_def Let_def mark_captured_def
        update_entry_def conn_lookup_def move_to_end_def dict_pop_def touch_def ssh_table_def dst_port_def
        ssh_conn_def)
qed simp_all

theorem conn_table_invariant_witness:
  "conn_len ssh_table \<le> 2 \<and> server_port (snd (hd (ct_entries ssh_table))) = dst_port ssh_conn"
proof -
  have "conn_lookup ssh_conn ssh_table = Some (snd (hd (ct_entries ssh_table)))"
    by (simp add: ssh_table_def conn_lookup_def)
  from conn_table_invariant [OF ssh_table_reachable this] show ?thesis by simp
qed

text \<open>A sweep removes exactly the connections that are closed or have been idle for longer
  than the time to live, leaves every other one as it was and in its place, and returns how many
  it removed.\<close>

theorem sweep_exact:
  assumes "conn_reachable m ttl t now" and "sweep now' t = (t', n)"
  shows "ct_entries t' = filter (\<lambda>(k, e). \<not> (ttl < now' - last_seen e \<or> ce_state e = CLOSED)) (ct_entries t) \<and>
     conn_len t' + n = conn_len t"
proof -
  have d: "distinct (dict_keys (ct_entries t))" "ct_ttl t = ttl"
    using conn_reachable_inv [OF assms(1)] by (auto simp: conn_inv_def conn_shape_def)
  have n: "n = length (filter (\<lambda>(k, e). stale_entry now' t e) (ct_entries t))"
    and t': "t' = fst (sweep now' t)"
    using assms(2) by (auto simp: sweep_def Let_def)
  have "conn_len t' + n = conn_len t"
    using sum_length_filter_compl [of "\<lambda>(k, e). stale_entry now' t e" "ct_entries t"]
    by (simp add: n t' conn_len_def sweep_entries [OF d(1)] case_prod_unfold)
  then show ?thesis
    by (simp add: t' sweep_entries [OF d(1)] stale_entry_def d(2))
qed

theorem sweep_exact_witness:
  "ct_entries (fst (sweep 40 ssh_table)) = [] \<and> ct_entries (fst (sweep 33 ssh_table)) = ct_entries ssh_table"
proof -
  note at = sweep_exact [OF ssh_table_reachable prod.collapse [symmetric], THEN conjunct1]
  show ?thesis by (simp add: at) (simp add: ssh_table_def)
qed

fun register_all :: "conn_table \<Rightarrow> (rat \<times> conn_key) list \<Rightarrow> py_error + conn_table" where
  "register_all t [] = Inr t"
| "register_all t ((now, k) # cs) =
     (case register_syn now k t of Inl e \<Rightarrow> Inl e | Inr (t', _) \<Rightarrow> register_all t' cs)"

lemma register_all_run: "register_all t cs = Inr t' \<Longrightarrow> conn.run t cs t'"
proof (induction t cs rule: register_all.induct)
  case (2 t now k cs)
  then obtain t1 e where 1: "register_syn now k t = Inr (t1, e)" "register_all t1 cs = Inr t'"
    by (auto split: sum.splits)
  then have "conn.run t1 cs t'" using "2.IH" by blast
  moreover have "\<exists>e. register_syn (fst (now, k)) (snd (now, k)) t = Inr (t1, e)" using 1(1) by simp
  ultimately show ?case by (rule conn.run_Cons [rotated])
qed (simp add: conn.run_Nil)

text \<open>A connection whose banner was captured is remembered: registering fewer further
  connections than the capacity neither evicts it nor resets its state, even when its own SYN is
  seen again.\<close>

theorem captured_is_remembered:
  assumes "conn_reachable m ttl t0 now" and "conn_lookup k t0 = None"
    and "register_syn t1 k t0 = Inr (t, e)"
    and "register_all (mark_captured t2 k t) cs = Inr t'" and "length cs < m"
  shows "is_captured k t'"
proof -
  from assms(3) obtain es where es: "ct_entries t = es @ [(k, e)]"
    using assms(2) by (cases rule: register_cases) auto
  have shape: "conn_shape m t"
    using register_shape [OF _ assms(3)] conn_reachable_inv [OF assms(1)] by (auto simp: conn_inv_def)
  let ?c = "mark_captured t2 k t"
  have "conn_lookup k t = Some e"
    using es shape by (auto simp: conn_lookup_def dict_get_append conn_shape_def dict_keys_append
        split: option.split dest: dict_get_SomeD)
  then have look: "conn_lookup k ?c = Some (touch t2 (e\<lparr>ce_state := BANNER_CAPTURED\<rparr>))"
    by (simp add: mark_captured_def update_entry_lookup)
  have "age k (dict_keys (ct_entries ?c)) = 0"
    by (simp add: mark_captured_def update_entry_keys es dict_keys_append age_snoc)
  moreover have "conn_shape m ?c" using shape by (simp add: mark_captured_def update_entry_shape)
  ultimately have "conn_lookup k t' = Some (touch t2 (e\<lparr>ce_state := BANNER_CAPTURED\<rparr>))"
    using conn.run_get [OF register_all_run [OF assms(4)] _ look] assms(5) by simp
  then show ?thesis by (simp add: is_captured_def touch_def)
qed

theorem captured_is_remembered_witness:
  "\<exists>t. register_all ssh_table [(5, ftp_conn)] = Inr t \<and> is_captured ssh_conn t"
proof -
  obtain t where t: "register_all ssh_table [(5, ftp_conn)] = Inr t"
    by (simp add: register_syn_def ssh_table_def ssh_conn_def ftp_conn_def make_room_def Let_def)
  have r: "register_syn 1 ssh_conn (conn_table_new 2 30) =
      Inr (fst (sum.projr (register_syn 1 ssh_conn (conn_table_new 2 30))),
           snd (sum.projr (register_syn 1 ssh_conn (conn_table_new 2 30))))"
    by (simp add: register_syn_def conn_table_new_def make_room_def Let_def)
  have "mark_captured 3 ssh_conn (fst (sum.projr (register_syn 1 ssh_conn (conn_table_new 2 30)))) = ssh_table"
    by (simp add: register_syn_def conn_table_new_def make_room_def Let_def mark_captured_def
        update_entry_def conn_lookup_def move_to_end_def dict_pop_def touch_def ssh_table_def dst_port_def
        ssh_conn_def)
  with t have "register_all (mark_captured 3 ssh_conn
      (fst (sum.projr (register_syn 1 ssh_conn (conn_table_new 2 30))))) [(5, ftp_conn)] = Inr t" by simp
  from captured_is_remembered [OF conn_reachable.start [of 2 30 0] _ r this]
  have "is_captured ssh_conn t" by (simp add: conn_table_new_def conn_lookup_def)
  with t show ?thesis by blast
qed

end
