(* ===== verification/Regex.thy ===== *)
theory Regex
  imports Prelude
begin

text \<open>
  The regular expressions of Python's \<open>re\<close> that the code uses, with the matcher's
  backtracking order: a matcher returns every way to match from a position, the one Python
  tries first at the head.  Greedy and lazy repetition, alternation, numbered groups, the
  anchors and word boundaries are covered; an optional repetition must consume a character, as in \<open>re\<close>, so
  the fuel of \<open>rep\<close> (the required repetitions and the characters left) is never short.
\<close>

datatype re =
    Cls "nat \<Rightarrow> bool"
  | Eps
  | Seq re re
  | Alt re re
  | Rep nat "nat option" bool re
  | Grp nat re
  | Bol
  | Eol
  | Wb "nat \<Rightarrow> bool"

text \<open>A position and the groups captured so far.\<close>

type_synonym mstate = "nat \<times> (nat \<times> (nat \<times> nat)) list"

definition dec_bound :: "nat option \<Rightarrow> nat option" where
  "dec_bound hi = map_option (\<lambda>n. n - 1) hi"

fun rep :: "bool \<Rightarrow> (mstate \<Rightarrow> mstate list) \<Rightarrow> nat \<Rightarrow> nat option \<Rightarrow> nat \<Rightarrow> mstate \<Rightarrow> mstate list" where
  "rep greedy f lo hi 0 x = (if lo = 0 then [x] else [])"
| "rep greedy f lo hi (Suc n) x =
     (if lo > 0 then concat (map (rep greedy f (lo - 1) (dec_bound hi) n) (f x))
      else if hi = Some 0 then [x]
      else
        let more = concat (map (\<lambda>y. if fst x < fst y then rep greedy f 0 (dec_bound hi) n y else []) (f x))
        in if greedy then more @ [x] else x # more)"

text \<open>An edge between a word character and something else, for a given class of word characters.\<close>

definition word_edge :: "(nat \<Rightarrow> bool) \<Rightarrow> ustr \<Rightarrow> nat \<Rightarrow> bool" where
  "word_edge P s i \<longleftrightarrow> (i > 0 \<and> P (s ! (i - 1))) \<noteq> (i < length s \<and> P (s ! i))"

primrec rx :: "re \<Rightarrow> ustr \<Rightarrow> mstate \<Rightarrow> mstate list" where
  "rx (Cls P) s x = (if fst x < length s \<and> P (s ! fst x) then [(fst x + 1, snd x)] else [])"
| "rx Eps s x = [x]"
| "rx (Seq r1 r2) s x = concat (map (rx r2 s) (rx r1 s x))"
| "rx (Alt r1 r2) s x = rx r1 s x @ rx r2 s x"
| "rx (Rep lo hi greedy r) s x = rep greedy (rx r s) lo hi (lo + (length s - fst x)) x"
| "rx (Grp n r) s x = map (\<lambda>(j, c). (j, dict_set c n (fst x, j))) (rx r s x)"
| "rx Bol s x = (if fst x = 0 then [x] else [])"
| "rx Eol s x = (if fst x = length s \<or> (fst x + 1 = length s \<and> s ! fst x = 10) then [x] else [])"
| "rx (Wb P) s x = (if word_edge P s (fst x) then [x] else [])"

definition re_match_at :: "re \<Rightarrow> ustr \<Rightarrow> nat \<Rightarrow> mstate option" where
  "re_match_at r s i = (case rx r s (i, []) of [] \<Rightarrow> None | x # _ \<Rightarrow> Some x)"

text \<open>\<open>re.match\<close>: at the start; \<open>re.search\<close>: at the first position that matches,
  with that position.\<close>

definition re_match :: "re \<Rightarrow> ustr \<Rightarrow> mstate option" where
  "re_match r s = re_match_at r s 0"

fun search_from :: "re \<Rightarrow> ustr \<Rightarrow> nat list \<Rightarrow> (nat \<times> mstate) option" where
  "search_from r s [] = None"
| "search_from r s (i # is) =
     (case re_match_at r s i of Some x \<Rightarrow> Some (i, x) | None \<Rightarrow> search_from r s is)"

definition re_search :: "re \<Rightarrow> ustr \<Rightarrow> (nat \<times> mstate) option" where
  "re_search r s = search_from r s [0..<length s + 1]"

text \<open>\<open>m.group(n)\<close>; None for a group that took no part in the match.\<close>

definition group_of :: "ustr \<Rightarrow> mstate \<Rightarrow> nat \<Rightarrow> ustr option" where
  "group_of s x n = map_option (\<lambda>(i, j). slice i j s) (dict_get (snd x) n)"

text \<open>\<open>re.sub(r, "", s)\<close> for an expression that never matches the empty string: every
  leftmost match is removed, left to right.\<close>

fun sub_from :: "nat \<Rightarrow> re \<Rightarrow> ustr \<Rightarrow> nat \<Rightarrow> ustr" where
  "sub_from 0 r s i = []"
| "sub_from (Suc n) r s i =
     (if i \<ge> length s then []
      else (case re_match_at r s i of
              Some (j, _) \<Rightarrow> (if i < j then sub_from n r s j else s ! i # sub_from n r s (i + 1))
            | None \<Rightarrow> s ! i # sub_from n r s (i + 1)))"

text \<open>\<open>re.finditer\<close> for such an expression: the leftmost matches that do not overlap.\<close>

fun find_from :: "nat \<Rightarrow> re \<Rightarrow> ustr \<Rightarrow> nat \<Rightarrow> mstate list" where
  "find_from 0 r s i = []"
| "find_from (Suc n) r s i =
     (if i \<ge> length s then []
      else (case re_match_at r s i of
              Some (j, c) \<Rightarrow> (if i < j then (j, c) # find_from n r s j else find_from n r s (i + 1))
            | None \<Rightarrow> find_from n r s (i + 1)))"

definition find_all :: "re \<Rightarrow> ustr \<Rightarrow> mstate list" where
  "find_all r s = find_from (length s) r s 0"

definition re_remove :: "re \<Rightarrow> ustr \<Rightarrow> ustr" where
  "re_remove r s = sub_from (length s) r s 0"

section \<open>Character classes and shorthands\<close>

definition chr_is :: "nat \<Rightarrow> nat \<Rightarrow> bool" where
  "chr_is k c \<longleftrightarrow> c = k"

definition in_range :: "nat \<Rightarrow> nat \<Rightarrow> nat \<Rightarrow> bool" where
  "in_range a b c \<longleftrightarrow> a \<le> c \<and> c \<le> b"

definition is_digit :: "nat \<Rightarrow> bool" where
  "is_digit c \<longleftrightarrow> 48 \<le> c \<and> c \<le> 57"

definition is_letter :: "nat \<Rightarrow> bool" where
  "is_letter c \<longleftrightarrow> (65 \<le> c \<and> c \<le> 90) \<or> (97 \<le> c \<and> c \<le> 122)"

text \<open>\<open>[A-Za-z]\<close> under IGNORECASE also matches four letters outside ASCII.\<close>

definition is_letter_ci :: "nat \<Rightarrow> bool" where
  "is_letter_ci c \<longleftrightarrow> is_letter c \<or> c \<in> {0x130, 0x131, 0x17F, 0x212A}"

definition is_hex :: "nat \<Rightarrow> bool" where
  "is_hex c \<longleftrightarrow> is_digit c \<or> (65 \<le> c \<and> c \<le> 70) \<or> (97 \<le> c \<and> c \<le> 102)"

fun re_str :: "ustr \<Rightarrow> re" where
  "re_str [] = Eps"
| "re_str (c # cs) = Seq (Cls (chr_is c)) (re_str cs)"

abbreviation re_opt :: "re \<Rightarrow> re" where
  "re_opt r \<equiv> Rep 0 (Some 1) True r"

abbreviation re_star :: "re \<Rightarrow> re" where
  "re_star r \<equiv> Rep 0 None True r"

abbreviation re_plus :: "re \<Rightarrow> re" where
  "re_plus r \<equiv> Rep 1 None True r"

abbreviation re_plus_lazy :: "re \<Rightarrow> re" where
  "re_plus_lazy r \<equiv> Rep 1 None False r"

fun re_seq :: "re list \<Rightarrow> re" where
  "re_seq [] = Eps"
| "re_seq [r] = r"
| "re_seq (r # rs) = Seq r (re_seq rs)"

section \<open>Lemmas\<close>

text \<open>Evaluation on literal fuel.\<close>

lemma rep_numeral [simp]:
  "rep greedy f lo hi (numeral k) x =
     (if lo > 0 then concat (map (rep greedy f (lo - 1) (dec_bound hi) (pred_numeral k)) (f x))
      else if hi = Some 0 then [x]
      else
        let more = concat (map (\<lambda>y. if fst x < fst y then rep greedy f 0 (dec_bound hi) (pred_numeral k) y else []) (f x))
        in if greedy then more @ [x] else x # more)"
  by (simp only: numeral_eq_Suc [of k] rep.simps)

lemma sub_from_numeral [simp]:
  "sub_from (numeral k) r s i =
     (if i \<ge> length s then []
      else (case re_match_at r s i of
              Some (j, _) \<Rightarrow> (if i < j then sub_from (pred_numeral k) r s j else s ! i # sub_from (pred_numeral k) r s (i + 1))
            | None \<Rightarrow> s ! i # sub_from (pred_numeral k) r s (i + 1)))"
  by (simp only: numeral_eq_Suc [of k] sub_from.simps)

text \<open>Matches stay inside the subject and never go back.\<close>

lemma rep_SucE:
  assumes "y \<in> set (rep g f lo hi (Suc n) x)"
  shows "y = x \<or> (\<exists>z lo' hi'. z \<in> set (f x) \<and> y \<in> set (rep g f lo' hi' n z))"
proof (cases "lo > 0")
  case True
  then show ?thesis using assms by auto
next
  case False
  then show ?thesis using assms by (cases g) (auto simp: Let_def split: if_splits)
qed

lemma rep_range:
  assumes f: "\<And>y z. fst y \<le> L \<Longrightarrow> z \<in> set (f y) \<Longrightarrow> fst y \<le> fst z \<and> fst z \<le> L"
  shows "fst x \<le> L \<Longrightarrow> y \<in> set (rep g f lo hi n x) \<Longrightarrow> fst x \<le> fst y \<and> fst y \<le> L"
proof (induction n arbitrary: lo hi x)
  case (Suc n)
  from rep_SucE [OF Suc.prems(2)] show ?case
  proof (elim disjE exE conjE)
    fix z lo' hi'
    assume z: "z \<in> set (f x)" "y \<in> set (rep g f lo' hi' n z)"
    from f [OF Suc.prems(1) z(1)] Suc.IH [OF _ z(2)] show ?thesis by linarith
  qed (use Suc.prems(1) in simp)
qed (auto split: if_splits)

lemma rx_range:
  "fst x \<le> length s \<Longrightarrow> y \<in> set (rx r s x) \<Longrightarrow> fst x \<le> fst y \<and> fst y \<le> length s"
proof (induction r arbitrary: x y)
  case (Seq r1 r2)
  from Seq.prems(2) obtain z where z: "z \<in> set (rx r1 s x)" "y \<in> set (rx r2 s z)" by auto
  have 1: "fst x \<le> fst z" "fst z \<le> length s" using Seq.IH(1) [OF Seq.prems(1) z(1)] by auto
  with Seq.IH(2) [OF 1(2) z(2)] show ?case by linarith
next
  case (Rep lo hi g r)
  have "y \<in> set (rep g (rx r s) lo hi (lo + (length s - fst x)) x)" using Rep.prems(2) by simp
  with rep_range [OF Rep.IH Rep.prems(1)] show ?case by blast
next
  case (Alt r1 r2)
  from Alt.prems(2) have "y \<in> set (rx r1 s x) \<or> y \<in> set (rx r2 s x)" by simp
  with Alt.IH Alt.prems(1) show ?case by blast
next
  case (Grp n r)
  from Grp.prems(2) obtain j c where "(j, c) \<in> set (rx r s x)" "fst y = j" by auto
  with Grp.IH [OF Grp.prems(1)] show ?case by force
qed (auto split: if_splits)

lemma re_match_at_range:
  "re_match_at r s i = Some (j, c) \<Longrightarrow> i \<le> length s \<Longrightarrow> i \<le> j \<and> j \<le> length s"
  using rx_range [of "(i, [])" s "(j, c)" r] by (auto simp: re_match_at_def split: list.splits)

lemma length_sub_from: "length (sub_from n r s i) \<le> n"
  by (induction n arbitrary: i) (auto split: option.splits intro: le_SucI)

lemma length_re_remove: "length (re_remove r s) \<le> length s"
  by (simp add: re_remove_def length_sub_from)

section \<open>What an expression matches\<close>

text \<open>The specification: \<open>lang r s i j\<close> says that \<open>r\<close> matches the text
  between \<open>i\<close> and \<open>j\<close>, without any order of trial.\<close>

primrec lang :: "re \<Rightarrow> ustr \<Rightarrow> nat \<Rightarrow> nat \<Rightarrow> bool" where
  "lang (Cls P) s i j = (i < length s \<and> P (s ! i) \<and> j = i + 1)"
| "lang Eps s i j = (i = j)"
| "lang (Seq r1 r2) s i j = (\<exists>k. lang r1 s i k \<and> lang r2 s k j)"
| "lang (Alt r1 r2) s i j = (lang r1 s i j \<or> lang r2 s i j)"
| "lang (Rep lo hi greedy r) s i j =
     (\<exists>n \<ge> lo. (\<forall>h. hi = Some h \<longrightarrow> n \<le> h) \<and> (lang r s ^^ n) i j)"
| "lang (Grp n r) s i j = lang r s i j"
| "lang Bol s i j = (i = 0 \<and> j = i)"
| "lang Eol s i j = (j = i \<and> (i = length s \<or> (i + 1 = length s \<and> s ! i = 10)))"
| "lang (Wb P) s i j = (j = i \<and> word_edge P s i)"

text \<open>Bounds of repetitions in the right order.\<close>

primrec wf_re :: "re \<Rightarrow> bool" where
  "wf_re (Cls P) = True"
| "wf_re Eps = True"
| "wf_re (Seq r1 r2) = (wf_re r1 \<and> wf_re r2)"
| "wf_re (Alt r1 r2) = (wf_re r1 \<and> wf_re r2)"
| "wf_re (Rep lo hi greedy r) = (wf_re r \<and> (case hi of None \<Rightarrow> True | Some h \<Rightarrow> lo \<le> h))"
| "wf_re (Grp n r) = wf_re r"
| "wf_re Bol = True"
| "wf_re Eol = True"
| "wf_re (Wb P) = True"

definition at_most :: "nat option \<Rightarrow> nat \<Rightarrow> bool" where
  "at_most hi n \<longleftrightarrow> (\<forall>h. hi = Some h \<longrightarrow> n \<le> h)"

lemma at_most_dec: "hi \<noteq> Some 0 \<Longrightarrow> at_most (dec_bound hi) n \<longleftrightarrow> at_most hi (Suc n)"
  by (cases hi) (auto simp: at_most_def dec_bound_def)

lemma relpowp_Suc_iff: "(R ^^ Suc n) i j \<longleftrightarrow> (\<exists>k. R i k \<and> (R ^^ n) k j)"
  by (blast elim: relpowp_Suc_E2 intro: relpowp_Suc_I2)

lemma relpowp_up:
  assumes "\<And>i j. R i j \<Longrightarrow> i \<le> (j::nat)"
  shows "(R ^^ n) i j \<Longrightarrow> i \<le> j"
proof (induction n arbitrary: i)
  case (Suc n)
  from Suc.prems obtain k where "R i k" "(R ^^ n) k j" by (rule relpowp_Suc_E2)
  with Suc.IH [of k] assms [of i k] show ?case by linarith
qed simp

text \<open>A run of steps that gets somewhere has a first step that does.\<close>

lemma relpowp_progress:
  assumes "\<And>i j. R i j \<Longrightarrow> i \<le> (j::nat)"
  shows "(R ^^ n) i j \<Longrightarrow> i < j \<Longrightarrow> \<exists>k m. R i k \<and> i < k \<and> m < n \<and> (R ^^ m) k j"
proof (induction n)
  case (Suc n)
  from Suc.prems(1) obtain k where k: "R i k" "(R ^^ n) k j" by (rule relpowp_Suc_E2)
  show ?case
  proof (cases "i < k")
    case True
    with k show ?thesis by blast
  next
    case False
    then have "k = i" using assms [OF k(1)] by simp
    then obtain a m where "R i a" "i < a" "m < n" "(R ^^ m) a j"
      using Suc.IH Suc.prems(2) k(2) by blast
    then show ?thesis by (intro exI [of _ a] exI [of _ m]) simp
  qed
qed simp

lemma set_rep_Suc:
  "hi \<noteq> Some 0 \<Longrightarrow> set (rep g f 0 hi (Suc n) x) =
     insert x (\<Union>y \<in> {y \<in> set (f x). fst x < fst y}. set (rep g f 0 (dec_bound hi) n y))"
  by (cases g) (auto simp: Let_def)

lemma rep_lang:
  assumes f: "\<And>i j c. i \<le> L \<Longrightarrow> (\<exists>c'. (j, c') \<in> set (f (i, c))) \<longleftrightarrow> R i j"
    and R: "\<And>i j. R i j \<Longrightarrow> i \<le> j \<and> j \<le> L"
  shows "i \<le> L \<Longrightarrow> lo + (L - i) \<le> m \<Longrightarrow> (\<forall>h. hi = Some h \<longrightarrow> lo \<le> h) \<Longrightarrow>
    (\<exists>c'. (j, c') \<in> set (rep g f lo hi m (i, c))) \<longleftrightarrow> (\<exists>n \<ge> lo. at_most hi n \<and> (R ^^ n) i j)"
proof (induction m arbitrary: lo hi i c)
  case 0
  have up: "(R ^^ n) i j \<Longrightarrow> i \<le> j" for n by (rule relpowp_up [where R = R]) (use R in blast)
  have down: "j \<le> L" if "(R ^^ n) i j" for n
  proof (cases n)
    case (Suc n')
    with that have "(R ^^ Suc n') i j" by simp
    then obtain k where "R k j" by (rule relpowp_Suc_E)
    with R show ?thesis by blast
  qed (use that 0 in simp)
  have i: "i = L" "lo = 0" using 0 by auto
  show ?case
  proof
    assume "\<exists>c'. (j, c') \<in> set (rep g f lo hi 0 (i, c))"
    then show "\<exists>n \<ge> lo. at_most hi n \<and> (R ^^ n) i j"
      using i by (intro exI [of _ 0]) (auto simp: at_most_def)
  next
    assume "\<exists>n \<ge> lo. at_most hi n \<and> (R ^^ n) i j"
    then have "j = i" using up down i by (meson le_antisym)
    then show "\<exists>c'. (j, c') \<in> set (rep g f lo hi 0 (i, c))" using i by simp
  qed
next
  case (Suc m)
  have mono: "R a b \<Longrightarrow> a \<le> b" for a b using R by blast
  have step: "(\<exists>c'. (j, c') \<in> set (rep g f lo' (dec_bound hi) m (k, c1))) \<longleftrightarrow>
      (\<exists>n \<ge> lo'. at_most hi (Suc n) \<and> (R ^^ n) k j)"
    if "R i k" "lo' + (L - k) \<le> m" "hi \<noteq> Some 0" "\<forall>h. hi = Some h \<longrightarrow> Suc lo' \<le> h" for k c1 lo'
  proof -
    have "\<forall>h. dec_bound hi = Some h \<longrightarrow> lo' \<le> h" using that(4) by (auto simp: dec_bound_def)
    from Suc.IH [OF _ that(2) this, of c1] R [OF that(1)] show ?thesis
      by (simp add: at_most_dec [OF that(3)])
  qed
  show ?case
  proof (cases "lo > 0")
    case True
    then have hi: "hi \<noteq> Some 0" "\<forall>h. hi = Some h \<longrightarrow> Suc (lo - 1) \<le> h" using Suc.prems(3) by auto
    have st: "(\<exists>c'. (j, c') \<in> set (rep g f (lo - 1) (dec_bound hi) m (k, c1))) \<longleftrightarrow>
        (\<exists>n \<ge> lo - 1. at_most hi (Suc n) \<and> (R ^^ n) k j)" if "R i k" for k c1
      by (rule step [OF that _ hi]) (use True Suc.prems(2) R [OF that] in linarith)
    have "(\<exists>c'. (j, c') \<in> set (rep g f lo hi (Suc m) (i, c))) \<longleftrightarrow>
        (\<exists>k c1. (k, c1) \<in> set (f (i, c)) \<and>
           (\<exists>c'. (j, c') \<in> set (rep g f (lo - 1) (dec_bound hi) m (k, c1))))"
      using True by auto
    also have "\<dots> \<longleftrightarrow> (\<exists>k. R i k \<and> (\<exists>n \<ge> lo - 1. at_most hi (Suc n) \<and> (R ^^ n) k j))"
      using st f [OF Suc.prems(1)] by blast
    also have "\<dots> \<longleftrightarrow> (\<exists>n \<ge> lo. at_most hi n \<and> (R ^^ n) i j)"
    proof
      assume "\<exists>k. R i k \<and> (\<exists>n \<ge> lo - 1. at_most hi (Suc n) \<and> (R ^^ n) k j)"
      then obtain k n where n: "R i k" "lo - 1 \<le> n" "at_most hi (Suc n)" "(R ^^ n) k j" by blast
      have "(R ^^ Suc n) i j" using n(1,4) by (rule relpowp_Suc_I2)
      with n(2,3) show "\<exists>n \<ge> lo. at_most hi n \<and> (R ^^ n) i j"
        by (intro exI [of _ "Suc n"] conjI) auto
    next
      assume "\<exists>n \<ge> lo. at_most hi n \<and> (R ^^ n) i j"
      then obtain n where n: "lo \<le> n" "at_most hi n" "(R ^^ n) i j" by blast
      with True obtain n' where "n = Suc n'" by (cases n) auto
      with n show "\<exists>k. R i k \<and> (\<exists>n \<ge> lo - 1. at_most hi (Suc n) \<and> (R ^^ n) k j)"
        by (metis One_nat_def Suc_le_mono Suc_pred True relpowp_Suc_D2)
    qed
    finally show ?thesis .
  next
    case False
    then have lo: "lo = 0" by simp
    show ?thesis
    proof (cases "j = i \<or> hi = Some 0")
      case True
      then show ?thesis
        using lo by (cases g) (auto simp: Let_def at_most_def intro: exI [of _ 0])
    next
      case False
      then have hi: "hi \<noteq> Some 0" "\<forall>h. hi = Some h \<longrightarrow> Suc 0 \<le> h" by auto
      have st: "(\<exists>c'. (j, c') \<in> set (rep g f 0 (dec_bound hi) m (k, c1))) \<longleftrightarrow>
          (\<exists>n. at_most hi (Suc n) \<and> (R ^^ n) k j)" if "R i k" "i < k" for k c1
        using step [OF that(1) _ hi, of c1] Suc.prems(2) R [OF that(1)] that(2) by auto
      have "(\<exists>c'. (j, c') \<in> set (rep g f lo hi (Suc m) (i, c))) \<longleftrightarrow>
          (\<exists>k c1. (k, c1) \<in> set (f (i, c)) \<and> i < k \<and>
             (\<exists>c'. (j, c') \<in> set (rep g f 0 (dec_bound hi) m (k, c1))))"
        using lo False by (simp add: set_rep_Suc [OF hi(1)] del: rep.simps) force
      also have "\<dots> \<longleftrightarrow> (\<exists>k. R i k \<and> i < k \<and> (\<exists>n. at_most hi (Suc n) \<and> (R ^^ n) k j))"
        using st f [OF Suc.prems(1)] by blast
      also have "\<dots> \<longleftrightarrow> (\<exists>n \<ge> lo. at_most hi n \<and> (R ^^ n) i j)"
      proof
        assume "\<exists>k. R i k \<and> i < k \<and> (\<exists>n. at_most hi (Suc n) \<and> (R ^^ n) k j)"
        then obtain k n where n: "R i k" "at_most hi (Suc n)" "(R ^^ n) k j" by blast
        have "(R ^^ Suc n) i j" using n(1,3) by (rule relpowp_Suc_I2)
        with n(2) show "\<exists>n \<ge> lo. at_most hi n \<and> (R ^^ n) i j"
          using lo by (intro exI [of _ "Suc n"] conjI) auto
      next
        assume "\<exists>n \<ge> lo. at_most hi n \<and> (R ^^ n) i j"
        then obtain n where n: "at_most hi n" "(R ^^ n) i j" by blast
        then have "i < j" using relpowp_up [OF mono n(2)] False by simp
        from relpowp_progress [OF mono n(2) this]
        obtain k m' where "R i k" "i < k" "m' < n" "(R ^^ m') k j" by blast
        moreover have "at_most hi (Suc m')" using n(1) \<open>m' < n\<close> by (auto simp: at_most_def)
        ultimately show "\<exists>k. R i k \<and> i < k \<and> (\<exists>n. at_most hi (Suc n) \<and> (R ^^ n) k j)" by blast
      qed
      finally show ?thesis .
    qed
  qed
qed

lemma lang_range: "lang r s i j \<Longrightarrow> i \<le> length s \<Longrightarrow> i \<le> j \<and> j \<le> length s"
proof (induction r arbitrary: i j)
  case (Seq r1 r2)
  then show ?case by (metis lang.simps(3) order.trans)
next
  case (Rep lo hi g r)
  from Rep.prems(1) obtain n where n: "(lang r s ^^ n) i j" by auto
  have "(lang r s ^^ n) i j \<Longrightarrow> i \<le> length s \<Longrightarrow> i \<le> j \<and> j \<le> length s" for i
  proof (induction n arbitrary: i)
    case (Suc n)
    from Suc.prems(1) obtain k where k: "lang r s i k" "(lang r s ^^ n) k j" by (rule relpowp_Suc_E2)
    from Rep.IH [OF k(1) Suc.prems(2)] Suc.IH [OF k(2)] show ?case by linarith
  qed simp
  with n Rep.prems(2) show ?case by blast
qed auto

text \<open>The matcher finds a way to match exactly when there is one.\<close>

lemma rx_lang:
  "wf_re r \<Longrightarrow> i \<le> length s \<Longrightarrow> (\<exists>c'. (j, c') \<in> set (rx r s (i, c))) \<longleftrightarrow> lang r s i j"
proof (induction r arbitrary: i j c)
  case (Seq r1 r2)
  have "(\<exists>c'. (j, c') \<in> set (rx (Seq r1 r2) s (i, c))) \<longleftrightarrow>
      (\<exists>k c1. (k, c1) \<in> set (rx r1 s (i, c)) \<and> (\<exists>c'. (j, c') \<in> set (rx r2 s (k, c1))))"
    by auto
  also have "\<dots> \<longleftrightarrow> (\<exists>k. lang r1 s i k \<and> lang r2 s k j)"
    using Seq.IH Seq.prems lang_range [of r1 s i] by (metis wf_re.simps(3))
  finally show ?case by simp
next
  case (Rep lo hi g r)
  have wf: "wf_re r" "\<forall>h. hi = Some h \<longrightarrow> lo \<le> h" using Rep.prems(1) by (auto split: option.splits)
  let ?R = "\<lambda>i j. i \<le> length s \<and> lang r s i j"
  have f: "(\<exists>c'. (j, c') \<in> set (rx r s (i, c))) \<longleftrightarrow> ?R i j" if "i \<le> length s" for i j c
    using Rep.IH [OF wf(1) that] that by simp
  have R: "i \<le> j \<and> j \<le> length s" if "?R i j" for i j using that lang_range [of r s i j] by blast
  have pow: "(?R ^^ n) i j \<longleftrightarrow> (lang r s ^^ n) i j" if "i \<le> length s" for n i
    using that
  proof (induction n arbitrary: i)
    case (Suc n)
    have "(?R ^^ Suc n) i j \<longleftrightarrow> (\<exists>k. ?R i k \<and> (?R ^^ n) k j)"
      by (rule relpowp_Suc_iff)
    also have "\<dots> \<longleftrightarrow> (\<exists>k. lang r s i k \<and> (lang r s ^^ n) k j)"
      using Suc lang_range [of r s i] by blast
    also have "\<dots> \<longleftrightarrow> (lang r s ^^ Suc n) i j"
      by (rule relpowp_Suc_iff [symmetric])
    finally show ?case .
  qed simp
  show ?case
    using rep_lang [of "length s" "rx r s" ?R i lo "lo + (length s - i)" hi j g c, OF f R Rep.prems(2) _ wf(2)]
      pow [OF Rep.prems(2)]
    by (simp add: at_most_def)
next
  case (Alt r1 r2)
  then show ?case by (simp only: rx.simps lang.simps wf_re.simps set_append Un_iff ex_disj_distrib)
next
  case (Grp n r)
  have "(\<exists>c'. (j, c') \<in> set (rx (Grp n r) s (i, c))) \<longleftrightarrow> (\<exists>c'. (j, c') \<in> set (rx r s (i, c)))"
    by force
  with Grp show ?case by simp
qed auto

theorem re_match_lang: "wf_re r \<Longrightarrow> re_match r s \<noteq> None \<longleftrightarrow> (\<exists>j. lang r s 0 j)"
proof -
  assume wf: "wf_re r"
  have "re_match r s \<noteq> None \<longleftrightarrow> rx r s (0, []) \<noteq> []"
    by (auto simp: re_match_def re_match_at_def split: list.splits)
  also have "\<dots> \<longleftrightarrow> (\<exists>j c'. (j, c') \<in> set (rx r s (0, [])))"
    by (cases "rx r s (0, [])") auto
  also have "\<dots> \<longleftrightarrow> (\<exists>j. lang r s 0 j)"
    using rx_lang [OF wf, of 0 s] by simp
  finally show ?thesis .
qed

text \<open>A class matches any run of its characters.\<close>

lemma lang_Cls_pow:
  "(\<forall>k < n. P (s ! (i + k))) \<Longrightarrow> i + n \<le> length s \<Longrightarrow> (lang (Cls P) s ^^ n) i (i + n)"
proof (induction n arbitrary: i)
  case (Suc n)
  have "lang (Cls P) s i (i + 1)" using Suc.prems by (auto dest: spec [of _ 0])
  moreover have "(lang (Cls P) s ^^ n) (i + 1) (i + 1 + n)"
    using Suc.prems by (intro Suc.IH) (auto dest: spec [of _ "Suc _"])
  ultimately show ?case using relpowp_Suc_I2 [of "lang (Cls P) s" i "i + 1" n "i + 1 + n"]
    by (simp del: lang.simps relpowp.simps)
qed simp

lemma lang_Cls_run:
  assumes "list_all P ys" "lo \<le> length ys" "\<forall>h. hi = Some h \<longrightarrow> length ys \<le> h"
    and "i = length xs" "j = i + length ys"
  shows "lang (Rep lo hi g (Cls P)) (xs @ ys @ zs) i j"
proof -
  have "\<forall>k < length ys. P ((xs @ ys @ zs) ! (i + k))"
    using assms(1,4) by (simp add: list_all_length nth_append)
  then have "(lang (Cls P) (xs @ ys @ zs) ^^ length ys) i (i + length ys)"
    using assms(4) by (intro lang_Cls_pow) auto
  with assms(2,3,5) show ?thesis by auto
qed

end
