(* ===== verification/Hostname.thy ===== *)
theory Hostname
  imports Regex
begin

text \<open>
  \<open>evidence/hostname.py\<close>: which names count as human-assigned host names, and which
  vendor a name betrays.  \<open>ipaddress.ip_address\<close> of the standard library is written out
  as far as it accepts or rejects a text (\<open>is_ipv4\<close>, \<open>is_ipv6\<close>).
\<close>

section \<open>Address texts\<close>

text \<open>The value of a text of decimal digits.\<close>

definition dec_value :: "ustr \<Rightarrow> nat" where
  "dec_value t = foldl (\<lambda>n c. 10 * n + (c - 48)) 0 t"

definition is_octet :: "ustr \<Rightarrow> bool" where
  "is_octet t \<longleftrightarrow> t \<noteq> [] \<and> list_all is_digit t \<and> length t \<le> 3 \<and> (t = [48] \<or> hd t \<noteq> 48) \<and> dec_value t \<le> 255"

definition is_ipv4 :: "ustr \<Rightarrow> bool" where
  "is_ipv4 t \<longleftrightarrow> (let parts = split_on 46 t in length parts = 4 \<and> list_all is_octet parts)"

definition is_hextet :: "ustr \<Rightarrow> bool" where
  "is_hextet t \<longleftrightarrow> t \<noteq> [] \<and> list_all is_hex t \<and> length t \<le> 4"

text \<open>The parts between colons of an IPv6 text, a dotted tail replaced by two parts.\<close>

definition ipv6_parts :: "ustr \<Rightarrow> ustr list option" where
  "ipv6_parts t =
     (let parts = split_on 58 t
      in if length parts < 3 then None
         else if 46 \<in> set (last parts) then
           (if is_ipv4 (last parts) then Some (butlast parts @ [[48], [48]]) else None)
         else Some parts)"

text \<open>The empty parts other than the first and last are the place of the double colon.\<close>

definition ipv6_ok :: "ustr list \<Rightarrow> bool" where
  "ipv6_ok parts =
     (let n = length parts;
          skips = filter (\<lambda>i. parts ! i = []) [1..<n - 1]
      in n \<le> 9 \<and>
         (case skips of
            [] \<Rightarrow> n = 8 \<and> hd parts \<noteq> [] \<and> last parts \<noteq> [] \<and> list_all is_hextet parts
          | [k] \<Rightarrow>
              let hi = (if hd parts = [] then k - 1 else k);
                  lo = (if last parts = [] then n - k - 2 else n - k - 1)
              in (hd parts = [] \<longrightarrow> hi = 0) \<and> (last parts = [] \<longrightarrow> lo = 0) \<and> hi + lo < 8 \<and>
                 list_all is_hextet (take hi parts) \<and> list_all is_hextet (drop (n - lo) parts)
          | _ \<Rightarrow> False))"

definition is_ipv6 :: "ustr \<Rightarrow> bool" where
  "is_ipv6 t \<longleftrightarrow> 47 \<notin> set t \<and>
     (case split_on 37 t of
        [a] \<Rightarrow> (case ipv6_parts a of None \<Rightarrow> False | Some ps \<Rightarrow> ipv6_ok ps)
      | [a, scope] \<Rightarrow> scope \<noteq> [] \<and> (case ipv6_parts a of None \<Rightarrow> False | Some ps \<Rightarrow> ipv6_ok ps)
      | _ \<Rightarrow> False)"

definition is_ip_address :: "ustr \<Rightarrow> bool" where
  "is_ip_address t \<longleftrightarrow> is_ipv4 t \<or> is_ipv6 t"

section \<open>is\_valid\_hostname\<close>

definition hex_class :: re where
  "hex_class = Cls is_hex"

definition UUID_RE :: re where
  "UUID_RE = re_seq [Bol, Rep 8 (Some 8) True hex_class, Cls (chr_is 45), Rep 4 (Some 4) True hex_class,
     Cls (chr_is 45), Rep 4 (Some 4) True hex_class, Cls (chr_is 45), Rep 4 (Some 4) True hex_class,
     re_opt (Grp 1 (Seq (Cls (chr_is 45)) (Rep 12 (Some 12) True hex_class))), Eol]"

definition PURE_HEX_RE :: re where
  "PURE_HEX_RE = re_seq [Bol, Rep 8 None True hex_class, Eol]"

definition SDK_DEFAULT_RE :: re where
  "SDK_DEFAULT_RE = re_seq [Bol, Rep 1 (Some 10) True (Cls is_letter_ci),
     Cls (\<lambda>c. c = 45 \<or> c = 95), Rep 8 (Some 12) True hex_class, Eol]"

definition SDK_PREFIXES :: "ustr list" where
  "SDK_PREFIXES = map lit
     [''esdk'', ''esp'', ''tasmota'', ''shelly'', ''tuya'', ''beken'',
      ''ewelink'', ''sonoff'', ''hap'', ''ble'', ''wlan'', ''wifi'',
      ''smartlife'', ''tplink'', ''kasa'', ''deco'', ''meross'']"

definition TLDS :: "ustr list" where
  "TLDS = map lit
     [''com'', ''net'', ''org'', ''edu'', ''gov'', ''mil'', ''io'', ''co'', ''uk'', ''de'', ''fr'',
      ''jp'', ''cn'', ''ru'', ''br'', ''au'', ''in'', ''ca'', ''us'', ''eu'', ''info'', ''biz'',
      ''me'', ''tv'', ''cc'', ''ws'', ''app'', ''dev'', ''cloud'', ''xyz'']"

definition is_hex_segment :: "ustr \<Rightarrow> bool" where
  "is_hex_segment s \<longleftrightarrow> s \<noteq> [] \<and> list_all is_hex s"

text \<open>How many segments at the end are hexadecimal.\<close>

definition trailing_hex :: "ustr list \<Rightarrow> nat" where
  "trailing_hex segs = length (takeWhile is_hex_segment (rev segs))"

definition sdk_default :: "ustr \<Rightarrow> ustr \<Rightarrow> bool" where
  "sdk_default name pfx \<longleftrightarrow> starts_with pfx (lower name) \<and> length name > length pfx + 1 \<and>
     (let suffix = drop (length pfx + 1) name in is_hex_segment suffix \<and> length suffix \<ge> 6)"

definition re_matches :: "re \<Rightarrow> ustr \<Rightarrow> bool" where
  "re_matches r s \<longleftrightarrow> re_match r s \<noteq> None"

text \<open>The checks on the stripped name, in the order of the code.\<close>

definition valid_stripped :: "ustr \<Rightarrow> bool" where
  "valid_stripped name =
     (if name = [] then False
      else if starts_with (lit ''_'') name \<or> contains_sub (lit ''._tcp'') (lower name) \<or>
           contains_sub (lit ''._udp'') (lower name) \<or> contains_sub (lit ''_dns-sd'') (lower name) then False
      else if is_ip_address name then False
      else if 46 \<in> set name \<and> length (split_on 46 name) \<ge> 3 \<and>
           lower (last (split_on 46 name)) \<in> set TLDS then False
      else if re_matches UUID_RE name then False
      else if 45 \<in> set name \<and> list_all is_hex_segment (split_on 45 name) then False
      else if 45 \<in> set name \<and> length (split_on 45 name) \<ge> 4 \<and> trailing_hex (split_on 45 name) \<ge> 3 then False
      else if re_matches PURE_HEX_RE name then False
      else if re_matches SDK_DEFAULT_RE name then False
      else \<not> list_ex (sdk_default name) SDK_PREFIXES)"

definition is_valid_hostname :: "ustr option \<Rightarrow> bool" where
  "is_valid_hostname name = (case name of None \<Rightarrow> False | Some n \<Rightarrow> valid_stripped (strip n))"

definition HOSTNAME_VENDOR_KEYWORDS :: "(ustr \<times> ustr list) list" where
  "HOSTNAME_VENDOR_KEYWORDS = map (\<lambda>(k, vs). (lit k, map lit vs))
    [(''lutron'', [''Lutron'']), (''hue'', [''Philips'', ''Signify'']), (''sonos'', [''Sonos'']),
     (''roku'', [''Roku'']), (''nest'', [''Google'']), (''echo'', [''Amazon'']), (''alexa'', [''Amazon'']),
     (''homepod'', [''Apple'']), (''chromecast'', [''Google'']), (''firestick'', [''Amazon'']),
     (''ring'', [''Amazon'', ''Ring'']), (''roborock'', [''Roborock'']), (''roomba'', [''iRobot'']),
     (''ecobee'', [''ecobee'']), (''dyson'', [''Dyson''])]"

text \<open>\<open>None\<close> and the empty text are both falsy.\<close>

definition truthy :: "ustr option \<Rightarrow> bool" where
  "truthy t \<longleftrightarrow> t \<noteq> None \<and> t \<noteq> Some []"

definition hostname_matches_vendor :: "ustr option \<Rightarrow> ustr option \<Rightarrow> bool" where
  "hostname_matches_vendor hostname vendor =
     (if \<not> truthy hostname \<or> \<not> truthy vendor then True
      else list_all (\<lambda>(keyword, legit).
        contains_sub keyword (lower (the hostname)) \<longrightarrow>
        list_ex (\<lambda>v. contains_sub (lower v) (lower (the vendor)) \<or>
                     contains_sub (lower (the vendor)) (lower v)) legit) HOSTNAME_VENDOR_KEYWORDS)"

section \<open>Lemmas\<close>

lemma dropWhile_none: "\<forall>c \<in> set t. \<not> p c \<Longrightarrow> dropWhile p t = t"
  by (cases t) auto

lemma strip_no_space: "\<forall>c \<in> set t. \<not> is_space c \<Longrightarrow> strip t = t"
  by (simp add: strip_def strip_by_def rstrip_by_def dropWhile_none)

lemma dropWhile_all_append: "list_all p xs \<Longrightarrow> dropWhile p (xs @ ys) = dropWhile p ys"
  by (induction xs) auto

lemma dropWhile_append_kept:
  "dropWhile p (ys @ xs) = (if list_all p ys then dropWhile p xs else dropWhile p ys @ xs)"
  by (induction ys) auto

lemma dropWhile_all: "list_all p xs \<Longrightarrow> dropWhile p xs = []"
  by (simp add: list_all_iff)

lemma strip_surround:
  assumes "list_all is_space xs" "list_all is_space ys"
  shows "strip (xs @ t @ ys) = strip t"
proof -
  show ?thesis
  proof (cases "list_all is_space t")
    case True
    then show ?thesis
      using assms by (simp add: strip_def strip_by_def rstrip_by_def dropWhile_all_append dropWhile_all)
  next
    case False
    then show ?thesis
      using assms by (simp add: strip_def strip_by_def rstrip_by_def dropWhile_all_append dropWhile_append_kept)
  qed
qed

lemma dec_value_append: "dec_value (xs @ [c]) = 10 * dec_value xs + (c - 48)"
  by (simp add: dec_value_def)

lemma dec_value_str_nat [simp]: "dec_value (str_nat n) = n"
proof -
  have "dec_value (map digit_char (rev ds)) = foldr (\<lambda>d a. d + 10 * a) ds 0" if "\<forall>d \<in> set ds. d < 10" for ds
    using that by (induction ds) (auto simp: dec_value_append, simp_all add: dec_value_def digit_char_def)
  then show ?thesis
    using digits_rev_bound [of 10] undigits [of 10 n] by (simp add: str_nat_def)
qed

lemma digits_rev_last: "2 \<le> base \<Longrightarrow> 0 < n \<Longrightarrow> last (digits_rev base n) \<noteq> 0"
proof (induction base n rule: digits_rev.induct)
  case (1 base n)
  show ?case
  proof (cases "n < base")
    case True
    then show ?thesis using 1 by (simp add: digits_rev_small)
  next
    case False
    then have "0 < n div base" using 1 by (simp add: div_greater_zero_iff)
    with False 1 show ?thesis by (simp add: digits_rev.simps [of base n])
  qed
qed

lemma str_nat_octet: "n \<le> 255 \<Longrightarrow> is_octet (str_nat n)"
proof -
  assume n: "n \<le> 255"
  have "length (digits_rev 10 (n div 10)) \<le> 2" using n by (intro digits_rev_two) auto
  then have len: "length (str_nat n) \<le> 3"
    by (simp add: str_nat_def digits_rev.simps [of 10 n])
  have "str_nat n = [48] \<or> hd (str_nat n) \<noteq> 48"
  proof (cases "n = 0")
    case True
    then show ?thesis by (simp add: str_nat_def digits_rev_small digit_char_def)
  next
    case False
    have "hd (str_nat n) = digit_char (last (digits_rev 10 n))"
      by (simp add: str_nat_def hd_map hd_rev)
    moreover have "last (digits_rev 10 n) \<noteq> 0" using digits_rev_last [of 10 n] False by simp
    ultimately show ?thesis by (simp add: digit_char_def)
  qed
  then show ?thesis
    using n len str_nat_decimal [of _ n] by (auto simp: is_octet_def list_all_iff is_digit_def)
qed

lemma decimal_no_space: "c \<in> set (str_nat n) \<Longrightarrow> \<not> is_space c"
  using str_nat_decimal [of c n] by (auto simp: is_space_def)

lemma hex_no_space: "is_hex c \<Longrightarrow> \<not> is_space c \<and> c \<noteq> 45"
  by (auto simp: is_hex_def is_digit_def is_space_def)

lemma set_join: "set (join sep xs) \<subseteq> set sep \<union> \<Union> (set ` set xs)"
  by (induction sep xs rule: join.induct) auto

section \<open>Properties\<close>

text \<open>Every printed IPv4 address is refused as a host name, whatever surrounds it in white
  space.\<close>

theorem ipv4_not_hostname:
  assumes "\<forall>n \<in> {a, b, c, d}. n \<le> 255" and "list_all is_space pre" and "list_all is_space post"
  shows "\<not> is_valid_hostname (Some (pre @ join [46] (map str_nat [a, b, c, d]) @ post))"
proof -
  let ?t = "join [46] (map str_nat [a, b, c, d])"
  have "split_on 46 ?t = map str_nat [a, b, c, d]"
    by (rule split_on_join) (auto dest: str_nat_decimal)
  then have ip: "is_ip_address ?t"
    using assms(1) str_nat_octet by (simp add: is_ip_address_def is_ipv4_def)
  have "strip ?t = ?t"
    by (rule strip_no_space) (auto dest: decimal_no_space simp: is_space_def)
  then have "strip (pre @ ?t @ post) = ?t"
    using strip_surround [OF assms(2,3), of ?t] by (simp del: join.simps)
  with ip show ?thesis by (simp add: is_valid_hostname_def valid_stripped_def del: join.simps)
qed

theorem ipv4_not_hostname_witness: "\<not> is_valid_hostname (Some (lit '' 192.168.0.1 ''))"
proof -
  have "lit '' 192.168.0.1 '' = [32] @ join [46] (map str_nat [192, 168, 0, 1]) @ [32]"
    by (simp add: lit_def str_nat_def digits_rev.simps digit_char_def)
  moreover have "\<not> is_valid_hostname (Some ([32] @ join [46] (map str_nat [192, 168, 0, 1]) @ [32]))"
    by (rule ipv4_not_hostname) (simp_all add: is_space_def)
  ultimately show ?thesis by simp
qed

text \<open>No name made of two or more hexadecimal groups joined by dashes counts as a host name,
  so in particular no UUID, whole or truncated, in either case of letters.\<close>

theorem hex_groups_not_hostname:
  assumes "list_all is_hex_segment segs" and "2 \<le> length segs"
  shows "\<not> is_valid_hostname (Some (join [45] segs))"
proof -
  let ?t = "join [45] segs"
  have "\<forall>x \<in> set segs. (45 :: nat) \<notin> set x"
    using assms(1) hex_no_space by (fastforce simp: list_all_iff is_hex_segment_def)
  then have split: "split_on 45 ?t = segs"
    using assms(2) by (intro split_on_join) auto
  have dash: "45 \<in> set ?t"
    using assms(2) by (cases "([45 :: nat], segs)" rule: join.cases) auto
  have "\<forall>c \<in> set ?t. \<not> is_space c"
    using assms(1) set_join [of "[45]" segs] hex_no_space
    by (fastforce simp: list_all_iff is_hex_segment_def is_space_def)
  then have "strip ?t = ?t" by (rule strip_no_space)
  then show ?thesis
    using assms(1) split dash by (simp add: is_valid_hostname_def valid_stripped_def)
qed

theorem hex_groups_not_hostname_witness:
  "\<not> is_valid_hostname (Some (join [45] [lit ''12345678'', lit ''ABCD'', lit ''0000'', lit ''ffff'', lit ''0123456789ab'']))"
  by (rule hex_groups_not_hostname) (simp_all add: lit_def is_hex_segment_def is_hex_def is_digit_def)

lemma sdk_default_matches:
  assumes "list_all is_letter_ci p" "1 \<le> length p" "length p \<le> 10" "q = 45 \<or> q = 95"
    "list_all is_hex h" "8 \<le> length h" "length h \<le> 12"
  shows "re_matches SDK_DEFAULT_RE (p @ q # h)"
proof -
  let ?s = "p @ q # h"
  have "lang (Rep 1 (Some 10) True (Cls is_letter_ci)) ?s 0 (length p)"
    using lang_Cls_run [of is_letter_ci p 1 "Some 10" 0 "[]" "length p" True "q # h"] assms by simp
  moreover have "lang (Cls (\<lambda>c. c = 45 \<or> c = 95)) ?s (length p) (length p + 1)"
    using assms(4) by auto
  moreover have "lang (Rep 8 (Some 12) True (Cls is_hex)) ?s (length p + 1) (length ?s)"
    using lang_Cls_run [of is_hex h 8 "Some 12" "length p + 1" "p @ [q]" "length ?s" True "[]"] assms by simp
  ultimately have "lang SDK_DEFAULT_RE ?s 0 (length ?s)"
    unfolding SDK_DEFAULT_RE_def hex_class_def re_seq.simps lang.simps(3,7,8) by blast
  moreover have "wf_re SDK_DEFAULT_RE" by (simp add: SDK_DEFAULT_RE_def hex_class_def)
  ultimately show ?thesis unfolding re_matches_def using re_match_lang by blast
qed

text \<open>Firmware default names are refused: one to ten letters, a dash or underscore and eight to
  twelve hexadecimal digits.\<close>

theorem firmware_default_not_hostname:
  assumes "list_all is_letter p" and "1 \<le> length p" and "length p \<le> 10" and "q = 45 \<or> q = 95"
    and "list_all is_hex h" and "8 \<le> length h" and "length h \<le> 12"
  shows "\<not> is_valid_hostname (Some (p @ q # h))"
proof -
  have p: "list_all is_letter_ci p" using assms(1) by (simp add: list_all_iff is_letter_ci_def)
  have "\<forall>c \<in> set (p @ q # h). \<not> is_space c"
    using assms(1,4,5) hex_no_space by (auto simp: list_all_iff is_letter_def is_space_def)
  then have "strip (p @ q # h) = p @ q # h" by (rule strip_no_space)
  then show ?thesis
    using sdk_default_matches [OF p assms(2-7)] by (simp add: is_valid_hostname_def valid_stripped_def)
qed

theorem firmware_default_not_hostname_witness:
  "\<not> is_valid_hostname (Some (lit ''ESDK_7893c366477c'')) \<and> is_valid_hostname (Some (lit ''printer''))"
proof
  have "\<not> is_valid_hostname (Some (lit ''ESDK'' @ 95 # lit ''7893c366477c''))"
    by (rule firmware_default_not_hostname) (simp_all add: lit_def is_letter_def is_hex_def is_digit_def)
  then show "\<not> is_valid_hostname (Some (lit ''ESDK_7893c366477c''))" by (simp add: lit_def)
  show "is_valid_hostname (Some (lit ''printer''))"
    by (simp add: is_valid_hostname_def valid_stripped_def strip_def strip_by_def rstrip_by_def lit_def
        is_space_def lower_def lower_char_def is_ip_address_def is_ipv4_def is_ipv6_def ipv6_parts_def
        re_matches_def re_match_def re_match_at_def UUID_RE_def PURE_HEX_RE_def SDK_DEFAULT_RE_def
        hex_class_def is_hex_def is_digit_def is_letter_ci_def is_letter_def SDK_PREFIXES_def sdk_default_def
        Let_def dec_bound_def chr_is_def)
qed

end
