(* ===== verification/Evidence.thy ===== *)
theory Evidence
  imports Hostname
begin

text \<open>
  The verdict engine: \<open>evidence/models.py\<close>, \<open>evidence/weights.py\<close>,
  \<open>evidence/engine.py\<close> and the vendor tables of \<open>fingerprint/evidence.py\<close> it
  reads.  Certainties and weights are exact rationals: decimal literals stand for the number they
  denote and the rounding of float arithmetic is left out.  A time stamp is its number of
  microseconds; the time of computation is an argument.
\<close>

section \<open>Models\<close>

record evidence =
  ev_source :: string
  ev_method :: string
  certainty :: rat
  category :: "ustr option"
  vendor :: "ustr option"
  platform :: "ustr option"
  platform_version :: "ustr option"
  model :: "ustr option"
  hostname :: "ustr option"
  ev_raw :: dict
  observed_at :: int

record verdict =
  v_hw_addr :: string
  v_category :: "ustr option"
  v_vendor :: "ustr option"
  v_platform :: "ustr option"
  v_platform_version :: "ustr option"
  v_model :: "ustr option"
  v_hostname :: "ustr option"
  v_certainty :: int
  evidence_chain :: "evidence list"
  computed_at :: int

definition weight :: "evidence \<Rightarrow> rat" where
  "weight e = certainty e"

definition is_classified :: "verdict \<Rightarrow> bool" where
  "is_classified v \<longleftrightarrow> truthy (v_category v) \<or> truthy (v_vendor v)"

text \<open>The verdict of a host without evidence.\<close>

definition empty_verdict :: "string \<Rightarrow> int \<Rightarrow> verdict" where
  "empty_verdict hw now =
     \<lparr>v_hw_addr = hw, v_category = None, v_vendor = None, v_platform = None, v_platform_version = None,
      v_model = None, v_hostname = None, v_certainty = 0, evidence_chain = [], computed_at = now\<rparr>"

section \<open>Source weights\<close>

definition TRUST_TIER_1 :: "(string \<times> rat) list" where
  "TRUST_TIER_1 =
    [(''mdns_exclusive'', 90 / 100), (''dhcp_server'', 85 / 100), (''huginn_device'', 85 / 100),
     (''active_probe'', 85 / 100), (''oui'', 90 / 100), (''dns_server'', 50 / 100),
     (''huginn_dhcp'', 80 / 100)]"

definition TRUST_TIER_2 :: "(string \<times> rat) list" where
  "TRUST_TIER_2 =
    [(''icmpv6'', 60 / 100), (''tcp'', 65 / 100), (''banner'', 75 / 100),
     (''banner_cache'', 70 / 100), (''recog'', 80 / 100), (''http_useragent'', 75 / 100),
     (''dhcpv6'', 75 / 100), (''mdns'', 70 / 100), (''ssdp'', 65 / 100),
     (''ws_discovery'', 85 / 100), (''huginn_dhcp_vendor'', 80 / 100), (''ja4'', 75 / 100),
     (''tls_ja4'', 75 / 100), (''dns'', 50 / 100), (''dhcp_vendor'', 80 / 100),
     (''ja3'', 75 / 100), (''tls_ja3'', 75 / 100)]"

definition TRUST_TIER_3 :: "(string \<times> rat) list" where
  "TRUST_TIER_3 =
    [(''mdns_txt'', 75 / 100), (''huginn_dhcpv6'', 75 / 100),
     (''huginn_dhcpv6_enterprise'', 75 / 100), (''mdns_service'', 65 / 100),
     (''netbios'', 60 / 100), (''hostname'', 65 / 100), (''dhcp'', 80 / 100),
     (''mdns_name'', 60 / 100)]"

definition TRUST_AI :: "(string \<times> rat) list" where
  "TRUST_AI =
    [(''ai_dns'', 85 / 100), (''ai_http_path'', 80 / 100), (''ai_port_hint'', 55 / 100)]"

definition TRUST_TIER_4 :: "(string \<times> rat) list" where
  "TRUST_TIER_4 =
    [(''tls_sni'', 50 / 100), (''ttl'', 15 / 100), (''ntp'', 55 / 100),
     (''dns_ntp_hint'', 55 / 100), (''tcp_syn_sig'', 65 / 100), (''ip_observed_port'', 30 / 100),
     (''tcp_syn_ttl'', 50 / 100), (''ip_observed_ttl'', 35 / 100)]"

definition TRUST_INFRASTRUCTURE :: "(string \<times> rat) list" where
  "TRUST_INFRASTRUCTURE =
    [(''lldp'', 95 / 100), (''cdp'', 95 / 100), (''snmp'', 90 / 100), (''dhcpv4'', 85 / 100),
     (''dhcpv4_vendor'', 85 / 100), (''dhcpv4_fingerprint'', 80 / 100),
     (''dhcpv6_vendor'', 85 / 100), (''dhcpv6_oro'', 75 / 100), (''probe'', 85 / 100),
     (''tcp_syn'', 70 / 100), (''tls'', 70 / 100), (''dns_vendor'', 55 / 100),
     (''dns_behavioral'', 60 / 100), (''icmpv6_ra'', 60 / 100), (''stp'', 50 / 100),
     (''dtp'', 90 / 100), (''arp'', 30 / 100), (''ip_observed'', 30 / 100),
     (''http_host'', 40 / 100), (''dns_query'', 45 / 100), (''dns_answer'', 50 / 100),
     (''passive_banner'', 85 / 100), (''ssdp_server'', 65 / 100), (''ssdp_upnp'', 65 / 100),
     (''mdns_service_map'', 70 / 100), (''mdns_srv'', 85 / 100)]"

definition TRUST_IOT_SCADA :: "(string \<times> rat) list" where
  "TRUST_IOT_SCADA =
    [(''modbus'', 60 / 100), (''bacnet'', 65 / 100), (''coap'', 50 / 100), (''mqtt'', 55 / 100),
     (''enip'', 65 / 100), (''dnp3'', 75 / 100), (''s7comm'', 80 / 100), (''opcua'', 75 / 100),
     (''goose'', 85 / 100), (''profinet'', 80 / 100), (''umas'', 85 / 100)]"

definition TRUST_SATORI :: "(string \<times> rat) list" where
  "TRUST_SATORI =
    [(''satori_dhcp'', 80 / 100), (''satori_useragent'', 75 / 100), (''satori_ssh'', 78 / 100),
     (''satori_web'', 75 / 100), (''satori_smb'', 78 / 100), (''satori_sip'', 80 / 100),
     (''satori_tcp'', 78 / 100), (''iana_enterprise'', 60 / 100), (''dhcp_vendor_class'', 92 / 100)]"

definition TRUST_NEW_PROTOCOLS :: "(string \<times> rat) list" where
  "TRUST_NEW_PROTOCOLS =
    [(''igmp'', 35 / 100), (''eap'', 60 / 100), (''stun'', 45 / 100), (''quic_sni'', 60 / 100),
     (''radius'', 65 / 100), (''upnp'', 55 / 100), (''apple_model'', 90 / 100),
     (''mdns_apple_model'', 90 / 100), (''manual'', 99 / 100)]"

text \<open>\<open>{**a, **b}\<close>: later entries replace earlier ones in place.\<close>

definition dict_merge :: "('k \<times> 'v) list \<Rightarrow> ('k \<times> 'v) list \<Rightarrow> ('k \<times> 'v) list" where
  "dict_merge a b = foldl (\<lambda>d e. dict_set d (fst e) (snd e)) a b"

definition SOURCE_WEIGHTS :: "(string \<times> rat) list" where
  "SOURCE_WEIGHTS = foldl dict_merge []
     [TRUST_TIER_1, TRUST_TIER_2, TRUST_TIER_3, TRUST_AI, TRUST_TIER_4, TRUST_INFRASTRUCTURE,
      TRUST_IOT_SCADA, TRUST_SATORI, TRUST_NEW_PROTOCOLS]"

text \<open>\<open>s.rsplit("_", 1)[0]\<close> when the text has an underscore, else the text.\<close>

definition rsplit_head :: "string \<Rightarrow> string" where
  "rsplit_head s = (if CHR ''_'' \<in> set s then rev (tl (dropWhile (\<lambda>c. c \<noteq> CHR ''_'') (rev s))) else s)"

text \<open>\<open>get(source) or get(prefix, 0.5)\<close>: a weight of zero counts as missing.\<close>

definition source_weight :: "string \<Rightarrow> rat" where
  "source_weight src =
     (let fallback = get_or SOURCE_WEIGHTS (rsplit_head src) (1 / 2)
      in case dict_get SOURCE_WEIGHTS src of
           Some w \<Rightarrow> if w \<noteq> 0 then w else fallback
         | None \<Rightarrow> fallback)"

section \<open>Fusion of one field\<close>

definition JUNK_VALUES :: "ustr list" where
  "JUNK_VALUES = map lit [''unknown'', ''unidentified'', ''n/a'', '''']"

definition is_junk :: "ustr \<Rightarrow> bool" where
  "is_junk v \<longleftrightarrow> lower (strip v) \<in> set JUNK_VALUES"

definition AGREEMENT_BONUS :: "(nat \<times> rat) list" where
  "AGREEMENT_BONUS = [(1, 1), (2, 110 / 100), (3, 120 / 100), (4, 125 / 100)]"

definition source_family :: "string \<Rightarrow> string" where
  "source_family src =
     (if starts_with ''satori'' src \<or> starts_with ''huginn'' src then ''fingerprint_db'' else src)"

definition combined_score :: "(string \<times> rat) list \<Rightarrow> rat" where
  "combined_score per_source_best =
     (if per_source_best = [] then 0
      else
        let best = Max (set (map snd per_source_best));
            families = remdups (map (\<lambda>e. source_family (fst e)) per_source_best);
            boost = get_or AGREEMENT_BONUS (min (length families) 4) (125 / 100)
        in best * boost)"

text \<open>The scores of one value so far, by source; of one piece of evidence only the best per
  source counts.\<close>

definition add_score :: "string \<Rightarrow> rat \<Rightarrow> (string \<times> rat) list \<Rightarrow> (string \<times> rat) list" where
  "add_score src score ss = (if score > get_or ss src 0 then dict_set ss src score else ss)"

definition evidence_score :: "(string \<times> rat) list \<Rightarrow> evidence \<Rightarrow> rat" where
  "evidence_score demote e =
     certainty e * (source_weight (ev_source e) * get_or demote (ev_source e) 1)"

type_synonym ballots = "(ustr \<times> (string \<times> rat) list) list"

definition fuse_step :: "(evidence \<Rightarrow> ustr option) \<Rightarrow> (string \<times> rat) list \<Rightarrow> ballots \<Rightarrow> evidence \<Rightarrow> ballots" where
  "fuse_step field demote ps e =
     (case field e of
        None \<Rightarrow> ps
      | Some v \<Rightarrow>
          if is_junk v then ps
          else dict_set ps v (add_score (ev_source e) (evidence_score demote e) (get_or ps v [])))"

text \<open>\<open>max(d, key=d.get)\<close>: the first key with the largest value.\<close>

definition first_max :: "('k \<Rightarrow> rat) \<Rightarrow> 'k list \<Rightarrow> 'k" where
  "first_max f xs = foldl (\<lambda>b x. if f x > f b then x else b) (hd xs) (tl xs)"

lemma first_max_in: "xs \<noteq> [] \<Longrightarrow> first_max f xs \<in> set xs"
proof -
  have "foldl (\<lambda>b x. if f x > f b then x else b) a ys \<in> insert a (set ys)" for a ys
    by (induction ys arbitrary: a) auto
  then show "xs \<noteq> [] \<Longrightarrow> ?thesis" by (cases xs) (auto simp: first_max_def)
qed

lemma first_max_ge: "x \<in> set xs \<Longrightarrow> f x \<le> f (first_max f xs)"
proof -
  have "f a \<le> f (foldl (\<lambda>b x. if f x > f b then x else b) a ys) \<and>
    (\<forall>y \<in> set ys. f y \<le> f (foldl (\<lambda>b x. if f x > f b then x else b) a ys))" for a ys
    by (induction ys arbitrary: a) (auto intro: order_trans less_imp_le, meson linorder_not_less order_trans)
  then show "x \<in> set xs \<Longrightarrow> ?thesis" by (cases xs) (auto simp: first_max_def)
qed

definition candidates :: "ballots \<Rightarrow> (ustr \<times> rat) list" where
  "candidates ps = map (\<lambda>(v, ss). (v, combined_score ss)) ps"

definition fuse_field ::
  "evidence list \<Rightarrow> (evidence \<Rightarrow> ustr option) \<Rightarrow> (string \<times> rat) list \<Rightarrow> ustr option \<times> rat" where
  "fuse_field evidence field demote =
     (let per_source = foldl (fuse_step field demote) [] evidence
      in if per_source = [] then (None, 0)
         else
           let winner = first_max (\<lambda>v. get_or (candidates per_source) v 0) (dict_keys per_source)
           in (Some winner, min (get_or (candidates per_source) winner 0) 1))"

definition cap_evidence :: "nat \<Rightarrow> nat \<Rightarrow> evidence list \<Rightarrow> evidence list" where
  "cap_evidence max_per_source max_total evidence =
     (let by_source = foldl (\<lambda>d e. dict_set d (ev_source e) (get_or d (ev_source e) [] @ [e])) [] evidence;
          kept = concat (map (\<lambda>(src, items). take max_per_source (sort_key (\<lambda>e. - certainty e) items)) by_source)
      in take max_total (sort_key (\<lambda>e. - observed_at e) kept))"

section \<open>Host names\<close>

definition AIRPLAY_PREFIX :: re where
  "AIRPLAY_PREFIX = re_seq [Bol, Rep 6 (Some 12) True (Cls is_hex), Cls (chr_is 64)]"

definition HEX_SUFFIX :: re where
  "HEX_SUFFIX = re_seq [Cls (chr_is 45), Rep 12 None True (Cls is_hex), Eol]"

text \<open>\<open>s.split(p)[0]\<close>: the text before the first occurrence.\<close>

fun before_sub :: "ustr \<Rightarrow> ustr \<Rightarrow> ustr" where
  "before_sub p [] = []"
| "before_sub p (c # cs) = (if starts_with p (c # cs) then [] else c # before_sub p cs)"

definition ends_with :: "'a list \<Rightarrow> 'a list \<Rightarrow> bool" where
  "ends_with p t = starts_with (rev p) (rev t)"

definition clean_hostname :: "ustr \<Rightarrow> ustr" where
  "clean_hostname t =
     (let t = re_remove AIRPLAY_PREFIX t;
          t = (if contains_sub (lit ''._'') t then before_sub (lit ''._'') t else t);
          t = re_remove HEX_SUFFIX t;
          t = (if ends_with (lit ''.local'') t then take (length t - 6) t else t)
      in strip_by (\<lambda>c. c = 46 \<or> c = 45) t)"

text \<open>\<open>_next_valid_hostname\<close>.\<close>

definition next_step :: "ballots \<Rightarrow> evidence \<Rightarrow> ballots" where
  "next_step ps e =
     (case hostname e of
        None \<Rightarrow> ps
      | Some h \<Rightarrow>
          let v = clean_hostname h
          in if v = [] \<or> \<not> is_valid_hostname (Some v) then ps
             else dict_set ps v (add_score (ev_source e) (evidence_score [] e) (get_or ps v [])))"

definition next_valid_hostname :: "evidence list \<Rightarrow> ustr option" where
  "next_valid_hostname evidence =
     (let per_source = foldl next_step [] evidence
      in if per_source = [] then None
         else Some (first_max (\<lambda>v. get_or (candidates per_source) v 0) (dict_keys per_source)))"

definition ENGINE_VENDOR_KEYWORDS :: "(ustr \<times> ustr list) list" where
  "ENGINE_VENDOR_KEYWORDS = map (\<lambda>(k, vs). (lit k, map lit vs))
    [(''lutron'', [''Lutron'']), (''hue'', [''Philips'', ''Signify'']), (''sonos'', [''Sonos'']),
     (''roku'', [''Roku'']), (''nest'', [''Google'']), (''echo'', [''Amazon'']), (''alexa'', [''Amazon'']),
     (''homepod'', [''Apple'']), (''office speaker'', [''Apple'']),
     (''living room speaker'', [''Apple'', ''Google'']), (''chromecast'', [''Google'']),
     (''firestick'', [''Amazon'']), (''ring'', [''Amazon'', ''Ring''])]"

text \<open>The candidate of one piece of evidence in \<open>_find_coherent_hostname\<close>.\<close>

definition coherent_candidate :: "ustr \<Rightarrow> evidence \<Rightarrow> (ustr \<times> rat) option" where
  "coherent_candidate resolved e =
     (if \<not> truthy (hostname e) then None
      else if starts_with ''mdns'' (ev_source e) \<and> (\<not> truthy (vendor e) \<or> vendor e \<noteq> Some resolved) then None
      else
        let hn = clean_hostname (the (hostname e))
        in if hn = [] \<or> \<not> is_valid_hostname (Some hn) then None
           else Some (hn, evidence_score [] e))"

definition find_coherent_hostname :: "ustr \<Rightarrow> evidence list \<Rightarrow> ustr option" where
  "find_coherent_hostname resolved evidence =
     (let cands = List.map_filter (coherent_candidate resolved) evidence
      in if cands = [] then None else Some (fst (hd (sort_key (\<lambda>c. - snd c) cands))))"

text \<open>The host name betrays a vendor other than the resolved one.\<close>

definition foreign_hostname :: "ustr \<Rightarrow> ustr \<Rightarrow> bool" where
  "foreign_hostname resolved hn =
     list_ex (\<lambda>(keyword, legit). contains_sub keyword (lower hn) \<and> resolved \<noteq> [] \<and> resolved \<notin> set legit)
       ENGINE_VENDOR_KEYWORDS"

definition validate_hostname_coherence :: "ustr \<Rightarrow> ustr \<Rightarrow> evidence list \<Rightarrow> ustr option" where
  "validate_hostname_coherence hn resolved evidence =
     (if foreign_hostname resolved hn then find_coherent_hostname resolved evidence else Some hn)"

section \<open>Vendor tables\<close>

datatype os_map = One_Os string | By_Role "(string \<times> string option) list"

definition MULTI_PRODUCT_VENDORS :: "ustr list" where
  "MULTI_PRODUCT_VENDORS = map lit
    [''Samsung'', ''Samsung Electronics'', ''LG'', ''LG Electronics'', ''Sony'',
     ''Microsoft'', ''Google'', ''Amazon'', ''Xiaomi'', ''Huawei'',
     ''Dell'', ''HP'', ''Hewlett Packard'', ''Hewlett-Packard'', ''Lenovo'',
     ''ASUS'', ''ASUSTek'', ''Apple'', ''Roku'', ''Philips'',
     ''Panasonic'', ''TCL'', ''Bosch'']"

definition VENDOR_TO_DEFAULT_OS :: "(string \<times> os_map) list" where
  "VENDOR_TO_DEFAULT_OS =
    [(''cisco'', By_Role [(''router'', Some ''IOS''), (''switch'', Some ''IOS''), (''firewall'', Some ''ASA''), (''_default'', Some ''IOS'')]),
     (''juniper'', One_Os ''Junos''),
     (''arista'', One_Os ''EOS''),
     (''mikrotik'', One_Os ''RouterOS''),
     (''fortinet'', One_Os ''FortiOS''),
     (''palo alto'', One_Os ''PAN-OS''),
     (''ubiquiti'', One_Os ''UniFi OS''),
     (''aruba'', One_Os ''ArubaOS''),
     (''ruckus'', One_Os ''SmartZone''),
     (''draytek'', One_Os ''DrayOS''),
     (''vmware'', By_Role [(''hypervisor'', Some ''ESXi''), (''esxi'', Some ''ESXi''), (''virtual_machine'', None), (''virtual_router'', None), (''_default'', None)]),
     (''broadcom'', By_Role [(''hypervisor'', Some ''ESXi''), (''server'', Some ''ESXi''), (''_default'', None)]),
     (''siemens'', By_Role [(''plc'', Some ''VxWorks''), (''hmi'', Some ''Windows CE''), (''_default'', None)]),
     (''schneider electric'', By_Role [(''plc'', Some ''VxWorks''), (''_default'', None)]),
     (''rockwell automation'', By_Role [(''plc'', Some ''VxWorks''), (''_default'', None)]),
     (''allen-bradley'', By_Role [(''plc'', Some ''VxWorks''), (''_default'', None)]),
     (''abb'', By_Role [(''plc'', Some ''QNX''), (''_default'', None)]),
     (''honeywell'', By_Role [(''plc'', Some ''VxWorks''), (''_default'', None)]),
     (''apple'', By_Role [(''phone'', Some ''iOS''), (''tablet'', Some ''iPadOS''), (''computer'', Some ''macOS''), (''smart_speaker'', Some ''HomePod OS''), (''smart_tv'', Some ''tvOS''), (''_default'', Some ''macOS'')]),
     (''samsung'', By_Role [(''phone'', Some ''Android''), (''tablet'', Some ''Android''), (''smart_tv'', Some ''Tizen''), (''smart_speaker'', Some ''Android''), (''_default'', None)]),
     (''google'', By_Role [(''smart_speaker'', Some ''Cast OS''), (''smart_display'', Some ''Cast OS''), (''smart_home'', Some ''Cast OS''), (''phone'', Some ''Android''), (''_default'', None)]),
     (''amazon'', By_Role [(''smart_speaker'', Some ''Fire OS''), (''tablet'', Some ''Fire OS''), (''_default'', None)]),
     (''lutron'', By_Role [(''_default'', None)]),
     (''roborock'', By_Role [(''_default'', None)]),
     (''xiaomi'', By_Role [(''phone'', Some ''Android''), (''robot_vacuum'', None), (''_default'', Some ''Android'')]),
     (''espressif'', By_Role [(''_default'', None)]),
     (''sony'', By_Role [(''game_console'', Some ''PlayStation''), (''_default'', None)]),
     (''nintendo'', One_Os ''Nintendo''),
     (''microsoft'', By_Role [(''game_console'', Some ''Xbox''), (''_default'', None)]),
     (''sonos'', One_Os ''Sonos S2''),
     (''roku'', One_Os ''RokuOS''),
     (''proxmox'', By_Role [(''hypervisor'', Some ''Proxmox VE''), (''_default'', Some ''Linux'')]),
     (''citrix'', By_Role [(''hypervisor'', Some ''XenServer''), (''load_balancer'', Some ''NetScaler''), (''_default'', None)]),
     (''xen'', By_Role [(''hypervisor'', Some ''Xen''), (''_default'', None)]),
     (''xcp-ng'', By_Role [(''hypervisor'', Some ''XCP-ng''), (''_default'', None)]),
     (''docker'', By_Role [(''container_host'', Some ''Linux''), (''_default'', None)]),
     (''kubernetes'', By_Role [(''k8s_node'', Some ''Linux''), (''_default'', None)]),
     (''openstack'', By_Role [(''_default'', Some ''Linux'')]),
     (''nutanix'', By_Role [(''hypervisor'', Some ''AHV''), (''_default'', None)]),
     (''ovirt'', By_Role [(''hypervisor'', Some ''oVirt''), (''_default'', Some ''Linux'')]),
     (''digitalocean'', By_Role [(''_default'', Some ''Linux'')]),
     (''hetzner'', By_Role [(''_default'', Some ''Linux'')]),
     (''linode'', By_Role [(''_default'', Some ''Linux'')]),
     (''openmediavault'', By_Role [(''nas'', Some ''Linux''), (''_default'', Some ''Linux'')]),
     (''truenas'', By_Role [(''nas'', Some ''FreeBSD''), (''_default'', Some ''FreeBSD'')]),
     (''unraid'', By_Role [(''nas'', Some ''Linux''), (''_default'', Some ''Linux'')]),
     (''synology'', By_Role [(''nas'', Some ''DSM''), (''_default'', Some ''DSM'')]),
     (''qnap'', By_Role [(''nas'', Some ''QTS''), (''_default'', Some ''QTS'')])]"

definition VENDOR_DEFAULT_DEVICE_TYPE :: "(string \<times> string) list" where
  "VENDOR_DEFAULT_DEVICE_TYPE =
    [(''lutron'', ''smart_home''), (''chamberlain'', ''smart_home''), (''jbl'', ''smart_speaker''),
     (''sonos'', ''smart_speaker''), (''ecobee'', ''thermostat''), (''nest'', ''smart_home''),
     (''ring'', ''doorbell''), (''arlo'', ''camera''), (''wyze'', ''camera''),
     (''philips hue'', ''smart_lighting''), (''hue'', ''smart_lighting''), (''lifx'', ''smart_lighting''),
     (''tp-link'', ''smart_plug''), (''kasa'', ''smart_plug''), (''shelly'', ''smart_plug''),
     (''august'', ''smart_lock''), (''yale'', ''smart_lock''), (''gaoshengda'', ''smart_speaker''),
     (''hui zhou gaoshengda'', ''smart_speaker''), (''openmediavault'', ''nas''), (''truenas'', ''nas''),
     (''freenas'', ''nas''), (''unraid'', ''nas''), (''synology'', ''nas''),
     (''qnap'', ''nas''), (''hikvision'', ''ip_camera''), (''dahua'', ''ip_camera''),
     (''amcrest'', ''ip_camera''), (''reolink'', ''ip_camera''), (''arlo'', ''camera''),
     (''roku'', ''streaming_device''), (''ecobee'', ''thermostat''), (''philips'', ''smart_lighting''),
     (''amazon'', ''smart_speaker''), (''nest'', ''smart_home'')]"

definition is_multi_product_vendor :: "ustr option \<Rightarrow> bool" where
  "is_multi_product_vendor v =
     (case v of
        None \<Rightarrow> False
      | Some v \<Rightarrow> v \<noteq> [] \<and> list_ex (\<lambda>m. contains_sub (lower m) (lower v)) MULTI_PRODUCT_VENDORS)"

text \<open>The first entry whose pattern occurs in the lower-cased vendor name.\<close>

definition first_pattern :: "(string \<times> 'v) list \<Rightarrow> ustr \<Rightarrow> 'v option" where
  "first_pattern tbl v = map_option snd (List.find (\<lambda>(p, _). contains_sub (lit p) (lower v)) tbl)"

definition guess_device_type_from_vendor :: "ustr \<Rightarrow> ustr option" where
  "guess_device_type_from_vendor v =
     (if v = [] then None else map_option lit (first_pattern VENDOR_DEFAULT_DEVICE_TYPE v))"

definition guess_os_from_vendor :: "ustr \<Rightarrow> ustr option \<Rightarrow> ustr option" where
  "guess_os_from_vendor v role =
     (case first_pattern VENDOR_TO_DEFAULT_OS v of
        None \<Rightarrow> None
      | Some (One_Os s) \<Rightarrow> Some (lit s)
      | Some (By_Role m) \<Rightarrow>
          let rm = map (\<lambda>(k, os). (lit k, map_option lit os)) m
          in (case (if truthy role then dict_get rm (the role) else None) of
                Some os \<Rightarrow> os
              | None \<Rightarrow> get_or rm (lit ''_default'') None))"

section \<open>VerdictEngine.compute\<close>

text \<open>\<open>int(r)\<close>: truncation towards zero.\<close>

definition py_int :: "rat \<Rightarrow> int" where
  "py_int r = (if r \<ge> 0 then \<lfloor>r\<rfloor> else \<lceil>r\<rceil>)"

definition overall_certainty :: "((ustr option \<times> rat) \<times> rat) list \<Rightarrow> int" where
  "overall_certainty field_weights =
     (let known = filter (\<lambda>(val, w). fst val \<noteq> None) field_weights;
          field_scores = sum_list (map (\<lambda>(val, w). snd val * w) known);
          weight_sum = sum_list (map snd known)
      in min 100 (py_int (field_scores / max weight_sum (1 / 100) * 100)))"

text \<open>The host name that goes with the verdict: cleaned, replaced by the next best when it is
  not valid, and dropped or replaced when it betrays another vendor.\<close>

definition choose_hostname :: "ustr option \<Rightarrow> ustr option \<Rightarrow> evidence list \<Rightarrow> ustr option" where
  "choose_hostname hn resolved evidence =
     (let chosen =
        (case hn of
           None \<Rightarrow> None
         | Some h \<Rightarrow>
             if h = [] then Some h
             else
               let c = (let c = clean_hostname h in if c = [] then h else c)
               in if is_valid_hostname (Some c) then Some c else next_valid_hostname evidence)
      in if truthy chosen \<and> truthy resolved
         then validate_hostname_coherence (the chosen) (the resolved) evidence
         else chosen)"

text \<open>The Apple device type a host name spells out, as category and platform.\<close>

definition apple_device :: "ustr \<Rightarrow> (string \<times> string) option" where
  "apple_device hn =
     (let has = (\<lambda>s. contains_sub (lit s) (lower hn))
      in if has ''macbook'' then Some (''laptop'', ''macOS'')
         else if has ''imac'' \<or> has ''mac mini'' \<or> has ''mac pro'' \<or> has ''mac studio''
           then Some (''workstation'', ''macOS'')
         else if has ''iphone'' then Some (''phone'', ''iOS'')
         else if has ''ipad'' then Some (''tablet'', ''iPadOS'')
         else None)"

definition compute :: "int \<Rightarrow> string \<Rightarrow> evidence list \<Rightarrow> verdict" where
  "compute now hw all_evidence =
     (let evidence = cap_evidence 3 100 all_evidence
      in if evidence = [] then empty_verdict hw now
         else
           let vend = fuse_field evidence vendor [];
               demote = (if is_multi_product_vendor (fst vend) then [(''oui'', 4 / 10)] else []);
               cat = fuse_field evidence category demote;
               plat = fuse_field evidence platform [];
               plat_version = fuse_field evidence platform_version [];
               mdl = fuse_field evidence model demote;
               hname = fuse_field evidence hostname [];
               overall = overall_certainty
                 [(cat, 3 / 10), (vend, 3 / 10), (plat, 25 / 100), (hname, 1 / 10), (mdl, 5 / 100)];
               plat0 = (if fst plat = None \<and> fst vend \<noteq> None
                 then guess_os_from_vendor (the (fst vend)) (fst cat) else fst plat);
               chosen_hostname = choose_hostname (fst hname) (fst vend) evidence;
               cat0 = (if fst cat = None \<and> fst vend \<noteq> None
                 then guess_device_type_from_vendor (the (fst vend)) else fst cat);
               apple = (if truthy chosen_hostname \<and> fst vend = Some (lit ''Apple'')
                 then apple_device (the chosen_hostname) else None)
           in \<lparr>v_hw_addr = hw,
               v_category = (case apple of Some (c, p) \<Rightarrow> Some (lit c) | None \<Rightarrow> cat0),
               v_vendor = fst vend,
               v_platform = (case apple of Some (c, p) \<Rightarrow> Some (lit p) | None \<Rightarrow> plat0),
               v_platform_version = fst plat_version,
               v_model = fst mdl,
               v_hostname = chosen_hostname,
               v_certainty = overall,
               evidence_chain = evidence,
               computed_at = now\<rparr>)"

definition update :: "int \<Rightarrow> verdict \<Rightarrow> evidence list \<Rightarrow> verdict" where
  "update now existing new_evidence =
     compute now (v_hw_addr existing) (evidence_chain existing @ new_evidence)"

end
