(* ===== verification/EvidenceProps.thy ===== *)
theory EvidenceProps
  imports Evidence
begin

text \<open>
  Lemmas and properties of the verdict engine: what the evidence cap keeps, how ballots grow,
  which value wins a field, and what the parts of a verdict guarantee.
\<close>

section \<open>Source weights\<close>

lemma set_dict_merge: "set (dict_merge a b) \<subseteq> set a \<union> set b"
  unfolding dict_merge_def
proof (induction b arbitrary: a)
  case (Cons e b)
  have "set (foldl (\<lambda>d e. dict_set d (fst e) (snd e)) (dict_set a (fst e) (snd e)) b) \<subseteq>
      set (dict_set a (fst e) (snd e)) \<union> set b"
    by (rule Cons.IH)
  then show ?case using set_dict_set [of a "fst e" "snd e"] by auto
qed simp

lemma dict_get_merge:
  "dict_get (dict_merge a b) k = (case dict_get (rev b) k of Some v \<Rightarrow> Some v | None \<Rightarrow> dict_get a k)"
proof (induction b rule: rev_induct)
  case (snoc e b)
  then show ?case by (cases e) (simp add: dict_merge_def)
qed (simp add: dict_merge_def)

lemmas source_weight_eval = source_weight_def SOURCE_WEIGHTS_def dict_get_merge TRUST_TIER_1_def
  TRUST_TIER_2_def TRUST_TIER_3_def TRUST_AI_def TRUST_TIER_4_def TRUST_INFRASTRUCTURE_def
  TRUST_IOT_SCADA_def TRUST_SATORI_def TRUST_NEW_PROTOCOLS_def Let_def

definition fair_weights :: "(string \<times> rat) list \<Rightarrow> bool" where
  "fair_weights d \<longleftrightarrow> (\<forall>e \<in> set d. 0 < snd e \<and> snd e < 1)"

lemma fair_merge: "fair_weights a \<Longrightarrow> fair_weights b \<Longrightarrow> fair_weights (dict_merge a b)"
  using set_dict_merge [of a b] by (auto simp: fair_weights_def)

lemma fair_source_weights: "fair_weights SOURCE_WEIGHTS"
proof -
  have "fair_weights []" "fair_weights TRUST_TIER_1" "fair_weights TRUST_TIER_2" "fair_weights TRUST_TIER_3"
    "fair_weights TRUST_AI" "fair_weights TRUST_TIER_4" "fair_weights TRUST_INFRASTRUCTURE"
    "fair_weights TRUST_IOT_SCADA" "fair_weights TRUST_SATORI" "fair_weights TRUST_NEW_PROTOCOLS"
    by (simp_all add: fair_weights_def TRUST_TIER_1_def TRUST_TIER_2_def TRUST_TIER_3_def TRUST_AI_def
        TRUST_TIER_4_def TRUST_INFRASTRUCTURE_def TRUST_IOT_SCADA_def TRUST_SATORI_def TRUST_NEW_PROTOCOLS_def)
  then show ?thesis by (simp add: SOURCE_WEIGHTS_def fair_merge)
qed

lemma fair_get: "fair_weights d \<Longrightarrow> 0 < get_or d k (1 / 2) \<and> get_or d k (1 / 2) < 1"
  using get_or_in [of d k "1 / 2"] by (auto simp: fair_weights_def)

lemma source_weight_range: "0 < source_weight s \<and> source_weight s < 1"
proof (cases "dict_get SOURCE_WEIGHTS s")
  case None
  then show ?thesis using fair_get [OF fair_source_weights, of "rsplit_head s"] by (simp add: source_weight_def)
next
  case (Some w)
  have "(s, w) \<in> set SOURCE_WEIGHTS" using Some by (simp add: dict_get_def map_of_SomeD)
  then have "0 < w \<and> w < 1" using fair_source_weights by (auto simp: fair_weights_def)
  with Some show ?thesis by (auto simp: source_weight_def Let_def)
qed

definition fair_demote :: "(string \<times> rat) list \<Rightarrow> bool" where
  "fair_demote d \<longleftrightarrow> (\<forall>e \<in> set d. 0 < snd e \<and> snd e \<le> 1)"

lemma demote_range: "fair_demote d \<Longrightarrow> 0 < get_or d s 1 \<and> get_or d s 1 \<le> 1"
  using get_or_in [of d s 1] by (auto simp: fair_demote_def)

lemma evidence_score_pos: "fair_demote d \<Longrightarrow> 0 < certainty e \<Longrightarrow> 0 < evidence_score d e"
  using source_weight_range [of "ev_source e"] demote_range [of d "ev_source e"]
  by (simp add: evidence_score_def)

lemma evidence_score_nonneg: "fair_demote d \<Longrightarrow> 0 \<le> certainty e \<Longrightarrow> 0 \<le> evidence_score d e"
  using source_weight_range [of "ev_source e"] demote_range [of d "ev_source e"]
  by (simp add: evidence_score_def less_imp_le)

section \<open>The first maximum\<close>

section \<open>Ballots\<close>

text \<open>What a ballot knows after some evidence: every value comes from evidence, every score is
  the score of some of it, and no evidence scores more than its source's entry.\<close>

definition ballots_ok ::
  "(evidence \<Rightarrow> ustr option) \<Rightarrow> (string \<times> rat) list \<Rightarrow> evidence list \<Rightarrow> ballots \<Rightarrow> bool" where
  "ballots_ok field demote evs ps \<longleftrightarrow>
     distinct (dict_keys ps) \<and>
     (\<forall>v ss. dict_get ps v = Some ss \<longrightarrow> \<not> is_junk v \<and> (\<exists>e \<in> set evs. field e = Some v) \<and>
        (\<forall>s x. dict_get ss s = Some x \<longrightarrow>
           0 < x \<and> (\<exists>e \<in> set evs. field e = Some v \<and> ev_source e = s \<and> evidence_score demote e = x))) \<and>
     (\<forall>e \<in> set evs. \<forall>v. field e = Some v \<longrightarrow> \<not> is_junk v \<longrightarrow>
        (\<exists>ss. dict_get ps v = Some ss \<and> evidence_score demote e \<le> get_or ss (ev_source e) 0))"

lemma get_or_add_score:
  "get_or (add_score s x ss) k 0 = (if k = s then max x (get_or ss s 0) else get_or ss k 0)"
  by (auto simp: add_score_def get_or_def)

lemma get_or_nonneg:
  "\<forall>s x. dict_get ss s = Some x \<longrightarrow> 0 < (x :: rat) \<Longrightarrow> 0 \<le> get_or ss k 0"
  by (auto simp: get_or_def less_imp_le split: option.split)

lemma ballots_ok_step:
  assumes "ballots_ok field demote evs ps"
  shows "ballots_ok field demote (evs @ [e]) (fuse_step field demote ps e)"
proof (cases "field e = None \<or> is_junk (the (field e))")
  case True
  then show ?thesis using assms by (auto simp: ballots_ok_def fuse_step_def split: option.splits)
next
  case False
  then obtain v where v: "field e = Some v" "\<not> is_junk v" by auto
  let ?ss = "get_or ps v []" and ?x = "evidence_score demote e"
  let ?ss' = "add_score (ev_source e) ?x ?ss"
  have step: "fuse_step field demote ps e = dict_set ps v ?ss'" using v by (simp add: fuse_step_def)
  have old: "0 < y \<and> (\<exists>e \<in> set evs. field e = Some v \<and> ev_source e = s \<and> evidence_score demote e = y)"
    if "dict_get ?ss s = Some y" for s y
    using that assms by (auto simp: ballots_ok_def get_or_def split: option.splits)
  have nonneg: "0 \<le> get_or ?ss k 0" for k using old by (intro get_or_nonneg) blast
  have new: "0 < y \<and> (\<exists>e' \<in> set (evs @ [e]). field e' = Some v \<and> ev_source e' = s \<and> evidence_score demote e' = y)"
    if "dict_get ?ss' s = Some y" for s y
    using that old [of s y] v nonneg [of "ev_source e"] by (auto simp: add_score_def split: if_splits)
  have 1: "distinct (dict_keys (dict_set ps v ?ss'))"
    using assms by (simp add: ballots_ok_def distinct_dict_set)
  have 2: "\<not> is_junk w \<and> (\<exists>e' \<in> set (evs @ [e]). field e' = Some w) \<and>
      (\<forall>s x. dict_get ss s = Some x \<longrightarrow>
         0 < x \<and> (\<exists>e' \<in> set (evs @ [e]). field e' = Some w \<and> ev_source e' = s \<and> evidence_score demote e' = x))"
    if "dict_get (dict_set ps v ?ss') w = Some ss" for w ss
  proof (cases "w = v")
    case True
    then show ?thesis using that v new by auto
  next
    case False
    then have "dict_get ps w = Some ss" using that by simp
    with assms show ?thesis by (fastforce simp: ballots_ok_def)
  qed
  have 3: "\<exists>ss. dict_get (dict_set ps v ?ss') w = Some ss \<and> evidence_score demote e' \<le> get_or ss (ev_source e') 0"
    if "e' \<in> set (evs @ [e])" "field e' = Some w" "\<not> is_junk w" for e' w
  proof (cases "w = v")
    case True
    have "evidence_score demote e' \<le> get_or ?ss' (ev_source e') 0"
    proof (cases "e' = e")
      case False
      then have "e' \<in> set evs" using that(1) by simp
      then have "evidence_score demote e' \<le> get_or ?ss (ev_source e') 0"
        using assms that(2,3) True by (fastforce simp: ballots_ok_def get_or_def)
      then show ?thesis by (auto simp: get_or_add_score)
    qed (simp add: get_or_add_score)
    then show ?thesis using True by simp
  next
    case False
    then have "e' \<in> set evs" using that v by auto
    then show ?thesis using assms that(2,3) False by (fastforce simp: ballots_ok_def)
  qed
  show ?thesis unfolding step ballots_ok_def using 1 2 3 by blast
qed

lemma ballots_ok_fold: "ballots_ok field demote evs (foldl (fuse_step field demote) [] evs)"
proof (induction evs rule: rev_induct)
  case (snoc e evs)
  then show ?case using ballots_ok_step by fastforce
qed (simp add: ballots_ok_def)

lemma ballots_ok_repeat:
  assumes "ballots_ok field demote evs ps" "e \<in> set evs"
  shows "fuse_step field demote ps e = ps"
proof (cases "field e = None \<or> is_junk (the (field e))")
  case True
  then show ?thesis by (auto simp: fuse_step_def split: option.split)
next
  case False
  then obtain v where v: "field e = Some v" "\<not> is_junk v" by auto
  with assms obtain ss where ss: "dict_get ps v = Some ss" "evidence_score demote e \<le> get_or ss (ev_source e) 0"
    unfolding ballots_ok_def by blast
  then have "add_score (ev_source e) (evidence_score demote e) (get_or ps v []) = ss"
    by (simp add: add_score_def get_or_def)
  with ss(1) v show ?thesis by (simp add: fuse_step_def dict_set_same)
qed

section \<open>The winner\<close>

lemma combined_score_cases:
  assumes "ss \<noteq> []"
  obtains s x b where "(s, x) \<in> set ss" "\<forall>e \<in> set ss. snd e \<le> x" "combined_score ss = x * b" "1 \<le> b" "b \<le> 5 / 4"
proof -
  let ?b = "get_or AGREEMENT_BONUS (min (length (remdups (map (\<lambda>e. source_family (fst e)) ss))) 4) (125 / 100)"
  have max: "Max (set (map snd ss)) \<in> set (map snd ss)" "\<forall>e \<in> set ss. snd e \<le> Max (set (map snd ss))"
    using assms Max_in [of "set (map snd ss)"] by (auto intro!: Max_ge rev_image_eqI)
  then obtain s where "(s, Max (set (map snd ss))) \<in> set ss" by auto
  moreover have "1 \<le> ?b \<and> ?b \<le> 5 / 4"
    using get_or_in [of AGREEMENT_BONUS "min (length (remdups (map (\<lambda>e. source_family (fst e)) ss))) 4" "125 / 100"]
    by (auto simp: AGREEMENT_BONUS_def)
  moreover have "combined_score ss = Max (set (map snd ss)) * ?b"
    using assms by (simp add: combined_score_def Let_def)
  ultimately show ?thesis using that max(2) by blast
qed

lemma get_or_candidates:
  "get_or (candidates ps) v 0 = (case dict_get ps v of None \<Rightarrow> 0 | Some ss \<Rightarrow> combined_score ss)"
  by (induction ps) (auto simp: candidates_def get_or_def)

lemma fuse_field_SomeD:
  assumes "fuse_field evs field demote = (Some v, x)"
  obtains ss where "dict_get (foldl (fuse_step field demote) [] evs) v = Some ss" "x = min (combined_score ss) 1"
    "\<forall>w ss'. dict_get (foldl (fuse_step field demote) [] evs) w = Some ss' \<longrightarrow> combined_score ss' \<le> combined_score ss"
proof -
  let ?ps = "foldl (fuse_step field demote) [] evs"
  let ?f = "\<lambda>v. get_or (candidates ?ps) v 0"
  have ne: "?ps \<noteq> []" and v: "v = first_max ?f (dict_keys ?ps)" and x: "x = min (?f v) 1"
    using assms by (auto simp: fuse_field_def Let_def split: if_splits)
  have "dict_keys ?ps \<noteq> []" using ne by (simp add: dict_keys_def)
  then have "v \<in> set (dict_keys ?ps)" unfolding v by (rule first_max_in)
  then obtain ss where ss: "dict_get ?ps v = Some ss" by (rule dict_keys_getE)
  have "combined_score ss' \<le> combined_score ss" if "dict_get ?ps w = Some ss'" for w ss'
    using first_max_ge [of w "dict_keys ?ps" ?f] that ss v
    by (simp add: get_or_candidates) (metis dict_get_None_iff option.distinct(1) option.simps(5))
  with ss x that show ?thesis by (simp add: get_or_candidates)
qed

lemma dict_get_in_set: "dict_get d k = Some v \<Longrightarrow> (k, v) \<in> set d"
  by (simp add: dict_get_def map_of_SomeD)

lemma get_or_le:
  assumes "\<forall>s x. dict_get ss s = Some x \<longrightarrow> x \<le> b" "0 \<le> b"
  shows "get_or ss k 0 \<le> (b :: rat)"
  using assms by (auto simp: get_or_def split: option.split)

lemma in_set_dict_get: "distinct (dict_keys d) \<Longrightarrow> (k, v) \<in> set d \<Longrightarrow> dict_get d k = Some v"
  by (simp add: dict_get_def dict_keys_def)

text \<open>The per-source entries of a ballot have distinct sources.\<close>

lemma fuse_sources_distinct:
  "\<forall>v ss. dict_get (foldl (fuse_step field demote) [] evs) v = Some ss \<longrightarrow> distinct (dict_keys ss)"
proof (induction evs rule: rev_induct)
  case (snoc e evs)
  then show ?case
    by (auto simp: fuse_step_def add_score_def get_or_def distinct_dict_set split: option.splits if_splits)
qed simp

lemma fuse_entry:
  assumes "dict_get (foldl (fuse_step field demote) [] evs) v = Some ss" "(s, x) \<in> set ss"
  shows "0 < x \<and> (\<exists>e \<in> set evs. field e = Some v \<and> ev_source e = s \<and> evidence_score demote e = x)"
proof -
  have "dict_get ss s = Some x"
    using fuse_sources_distinct [of field demote evs] assms by (intro in_set_dict_get) auto
  then show ?thesis using ballots_ok_fold [of field demote evs] assms(1) by (auto simp: ballots_ok_def)
qed

section \<open>The evidence cap\<close>

definition by_source :: "evidence list \<Rightarrow> (string \<times> evidence list) list" where
  "by_source evidence =
     foldl (\<lambda>d e. dict_set d (ev_source e) (get_or d (ev_source e) [] @ [e])) [] evidence"

lemma by_source_get:
  "get_or (by_source evs) s [] = filter (\<lambda>e. ev_source e = s) evs"
proof (induction evs rule: rev_induct)
  case (snoc e evs)
  then show ?case by (auto simp: by_source_def get_or_def split: option.splits)
qed (simp add: by_source_def get_or_def)

lemma by_source_distinct: "distinct (dict_keys (by_source evs))"
  by (induction evs rule: rev_induct) (simp_all add: by_source_def distinct_dict_set)

lemma by_source_keys: "s \<in> set (dict_keys (by_source evs)) \<longleftrightarrow> s \<in> ev_source ` set evs"
proof (induction evs rule: rev_induct)
  case (snoc e evs)
  then show ?case by (auto simp: by_source_def dict_keys_set)
qed (simp add: by_source_def)

lemma by_source_items:
  "(s, items) \<in> set (by_source evs) \<Longrightarrow> items = filter (\<lambda>e. ev_source e = s) evs"
  using by_source_get [of evs s] in_set_dict_get [OF by_source_distinct, of s items evs] by (simp add: get_or_def)

definition best_items :: "nat \<Rightarrow> evidence list \<Rightarrow> evidence list" where
  "best_items m items = take m (sort_key (\<lambda>e. - certainty e) items)"

definition kept_items :: "nat \<Rightarrow> evidence list \<Rightarrow> evidence list" where
  "kept_items m evs = concat (map (\<lambda>(src, items). best_items m items) (by_source evs))"

lemma cap_evidence_kept:
  "cap_evidence m n evs = take n (sort_key (\<lambda>e. - observed_at e) (kept_items m evs))"
  by (simp add: cap_evidence_def kept_items_def by_source_def best_items_def)

lemma filter_source_concat:
  "distinct (dict_keys d) \<Longrightarrow> \<forall>(k, items) \<in> set d. \<forall>e \<in> set items. ev_source e = k \<Longrightarrow>
   filter (\<lambda>e. ev_source e = s) (concat (map (\<lambda>(k, items). best_items m items) d)) =
     best_items m (get_or d s [])"
proof (induction d)
  case Nil
  then show ?case by (simp add: best_items_def get_or_def)
next
  case (Cons x d)
  obtain k items where x: "x = (k, items)" by (cases x)
  have k: "\<forall>e \<in> set (best_items m items). ev_source e = k"
    using Cons.prems(2) x by (auto simp: best_items_def dest: in_set_takeD)
  have IH: "filter (\<lambda>e. ev_source e = s) (concat (map (\<lambda>(k, items). best_items m items) d)) =
      best_items m (get_or d s [])"
    using Cons x by simp
  show ?case
  proof (cases "k = s")
    case True
    then have "dict_get d s = None" using Cons.prems(1) x by (simp add: dict_get_None_iff)
    then have "best_items m (get_or d s []) = []" by (simp add: get_or_def best_items_def)
    then show ?thesis using IH k True x by (simp add: get_or_def)
  next
    case False
    then have "filter (\<lambda>e. ev_source e = s) (best_items m items) = []" using k by (simp add: filter_empty_conv)
    then show ?thesis using IH False x by (simp add: get_or_def)
  qed
qed

lemma filter_kept_items:
  "filter (\<lambda>e. ev_source e = s) (kept_items m evs) = best_items m (filter (\<lambda>e. ev_source e = s) evs)"
  unfolding kept_items_def
  by (subst filter_source_concat [OF by_source_distinct]) (auto simp: by_source_get dest: by_source_items)

lemma kept_items_subset: "set (kept_items m evs) \<subseteq> set evs"
  by (auto simp: kept_items_def best_items_def dest!: in_set_takeD dest: by_source_items)

lemma cap_subset: "set (cap_evidence m n evs) \<subseteq> set evs"
  using kept_items_subset [of m evs] by (auto simp: cap_evidence_kept dest!: in_set_takeD)

lemma length_filter_take: "length (filter P (take n xs)) \<le> length (filter P xs)"
  by (metis append_take_drop_id filter_append le_add1 length_append)

lemma length_filter_sort_key: "length (filter P (sort_key f xs)) = length (filter P xs)"
  by (metis filter_sort length_sort)

lemma cap_per_source: "length (filter (\<lambda>e. ev_source e = s) (cap_evidence m n evs)) \<le> m"
proof -
  have "length (filter (\<lambda>e. ev_source e = s) (cap_evidence m n evs)) \<le>
      length (filter (\<lambda>e. ev_source e = s) (kept_items m evs))"
    unfolding cap_evidence_kept using length_filter_take length_filter_sort_key by metis
  also have "\<dots> \<le> m" by (simp add: filter_kept_items best_items_def)
  finally show ?thesis .
qed

text \<open>What is dropped is beaten by as many kept items as the cap allows.\<close>

lemma best_items_dropped:
  assumes "e \<in> set items" "e \<notin> set (best_items m items)"
  shows "length (filter (\<lambda>x. certainty e \<le> certainty x) (best_items m items)) = m"
proof -
  let ?s = "sort_key (\<lambda>e. - certainty e) items"
  have "e \<in> set (take m ?s) \<union> set (drop m ?s)" using assms(1) by (metis append_take_drop_id set_append set_sort)
  then have d: "e \<in> set (drop m ?s)" using assms(2) by (simp add: best_items_def)
  then have "m < length ?s" by (cases "m < length ?s") auto
  have "sorted (map (\<lambda>e. - certainty e) (take m ?s @ drop m ?s))" by (simp only: append_take_drop_id sorted_sort_key)
  then have "\<forall>x \<in> set (take m ?s). - certainty x \<le> - certainty e"
    using d by (simp add: sorted_append del: append_take_drop_id)
  then have "filter (\<lambda>x. certainty e \<le> certainty x) (take m ?s) = take m ?s" by simp
  then show ?thesis using \<open>m < length ?s\<close> by (simp add: best_items_def)
qed

lemma length_kept_items: "length (kept_items m evs) \<le> m * card (ev_source ` set evs)"
proof -
  have "length (concat (map (\<lambda>(k, items). best_items m items) d)) \<le> m * length d" for d :: "(string \<times> evidence list) list"
    by (induction d) (auto simp: best_items_def)
  then have "length (kept_items m evs) \<le> m * length (dict_keys (by_source evs))" by (simp add: kept_items_def)
  also have "length (dict_keys (by_source evs)) = card (set (dict_keys (by_source evs)))"
    by (simp add: distinct_card by_source_distinct del: length_dict_keys)
  also have "set (dict_keys (by_source evs)) = ev_source ` set evs" using by_source_keys by blast
  finally show ?thesis .
qed

lemma sort_key_Nil_iff [simp]: "sort_key f xs = [] \<longleftrightarrow> xs = []"
  by (metis length_0_conv length_sort)

lemma cap_nonempty:
  assumes "evs \<noteq> []" "0 < m" "0 < n"
  shows "cap_evidence m n evs \<noteq> []"
proof -
  obtain e where e: "e \<in> set evs" using assms(1) by (cases evs) auto
  have "filter (\<lambda>x. ev_source x = ev_source e) evs \<noteq> []" using e by (auto simp: filter_empty_conv)
  then have "best_items m (filter (\<lambda>x. ev_source x = ev_source e) evs) \<noteq> []"
    using assms(2) by (simp add: best_items_def)
  then have "kept_items m evs \<noteq> []" using filter_kept_items [of "ev_source e" m evs] by fastforce
  then show ?thesis using assms(3) by (simp add: cap_evidence_kept)
qed

section \<open>Properties\<close>

text \<open>Pieces of evidence for the witnesses.\<close>

definition vendor_evidence :: "string \<Rightarrow> rat \<Rightarrow> string \<Rightarrow> evidence" where
  "vendor_evidence src c v =
     \<lparr>ev_source = src, ev_method = ''exact'', certainty = c, category = None, vendor = Some (lit v), platform = None,
      platform_version = None, model = None, hostname = None, ev_raw = [], observed_at = 0\<rparr>"


lemma weights_of_witnesses:
  "source_weight ''oui'' = 9 / 10" "source_weight ''satori_tcp'' = 78 / 100" "source_weight ''ttl'' = 15 / 100"
  "source_weight ''huginn_dhcp'' = 80 / 100"
  by (simp_all add: source_weight_eval)


text \<open>Repetition changes nothing: evidence already present, repeated any number of times, leaves
  the winner of every field and its score as they were.\<close>

theorem repeated_evidence_ignored:
  assumes "set ys \<subseteq> set xs"
  shows "fuse_field (xs @ ys) field demote = fuse_field xs field demote"
proof -
  have "foldl (fuse_step field demote) ps ys = ps" if "ballots_ok field demote xs ps" for ps
    using assms
  proof (induction ys)
    case (Cons y ys)
    then show ?case using ballots_ok_repeat [OF that, of y] by simp
  qed simp
  with ballots_ok_fold [of field demote xs] show ?thesis by (simp add: fuse_field_def)
qed

theorem repeated_evidence_ignored_witness:
  "fuse_field [vendor_evidence ''ttl'' 1 ''Dell'', vendor_evidence ''oui'' 1 ''Cisco'',
      vendor_evidence ''ttl'' 1 ''Dell'', vendor_evidence ''ttl'' 1 ''Dell''] vendor [] =
   fuse_field [vendor_evidence ''ttl'' 1 ''Dell'', vendor_evidence ''oui'' 1 ''Cisco''] vendor []"
  using repeated_evidence_ignored [of "[vendor_evidence ''ttl'' 1 ''Dell'', vendor_evidence ''ttl'' 1 ''Dell'']"
      "[vendor_evidence ''ttl'' 1 ''Dell'', vendor_evidence ''oui'' 1 ''Cisco'']"] by simp

text \<open>The fingerprint databases count once: when all evidence for a field comes from Satori and
  Huginn sources, their agreement earns no bonus, and the winning score is that of a single piece of
  evidence, capped at one.\<close>

theorem fingerprint_db_counts_once:
  assumes "\<forall>e \<in> set evs. source_family (ev_source e) = ''fingerprint_db'' \<and> 0 < evidence_score demote e"
    and "fuse_field evs field demote = (Some v, x)"
  shows "\<exists>e \<in> set evs. field e = Some v \<and> x = min (evidence_score demote e) 1"
proof -
  let ?ps = "foldl (fuse_step field demote) [] evs"
  from assms(2) obtain ss where ss: "dict_get ?ps v = Some ss" "x = min (combined_score ss) 1"
    by (rule fuse_field_SomeD)
  obtain e where e: "e \<in> set evs" "field e = Some v" "\<not> is_junk v"
    using ballots_ok_fold [of field demote evs] ss(1) unfolding ballots_ok_def by blast
  then have "evidence_score demote e \<le> get_or ss (ev_source e) 0"
    using ballots_ok_fold [of field demote evs] ss(1) unfolding ballots_ok_def by fastforce
  then have ne: "ss \<noteq> []" using assms(1) e(1) by (auto simp: get_or_def)
  have fam: "source_family s = ''fingerprint_db''" if "(s, y) \<in> set ss" for s y
    using fuse_entry [OF ss(1) that] assms(1) by blast
  have "set (map (\<lambda>z. source_family (fst z)) ss) = {''fingerprint_db''}" using ne fam by (auto simp: neq_Nil_conv image_iff) (use fam in fastforce)+
  then have "length (remdups (map (\<lambda>z. source_family (fst z)) ss)) = 1" by (simp add: length_remdups_card_conv)
  then have c: "combined_score ss = Max (set (map snd ss))"
    using ne by (simp add: combined_score_def Let_def AGREEMENT_BONUS_def get_or_def)
  have "Max (set (map snd ss)) \<in> set (map snd ss)" using ne by (intro Max_in) auto
  then obtain s where "(s, Max (set (map snd ss))) \<in> set ss" by auto
  from fuse_entry [OF ss(1) this] c ss(2) show ?thesis by metis
qed

theorem fingerprint_db_counts_once_witness:
  "snd (fuse_field [vendor_evidence ''satori_tcp'' 1 ''Dell'', vendor_evidence ''huginn_dhcp'' (1 / 2) ''Dell''] vendor [])
     \<le> 80 / 100"
proof -
  let ?evs = "[vendor_evidence ''satori_tcp'' 1 ''Dell'', vendor_evidence ''huginn_dhcp'' (1 / 2) ''Dell'']"
  have h: "\<forall>e \<in> set ?evs. source_family (ev_source e) = ''fingerprint_db'' \<and> 0 < evidence_score [] e"
    by (simp add: vendor_evidence_def source_family_def evidence_score_def weights_of_witnesses get_or_def)
  show ?thesis
  proof (cases "fuse_field ?evs vendor []")
    case (Pair v x)
    then show ?thesis
    proof (cases v)
      case None
      then show ?thesis using Pair by (auto simp: fuse_field_def Let_def split: if_splits)
    next
      case (Some v')
      with Pair fingerprint_db_counts_once [OF h] obtain e where "e \<in> set ?evs" "x = min (evidence_score [] e) 1"
        by blast
      then show ?thesis using Pair
        by (auto simp: vendor_evidence_def evidence_score_def weights_of_witnesses get_or_def)
    qed
  qed
qed

text \<open>The cap: at most three items per source and a hundred in all are kept, all of them from
  the input, and with at most 33 sources an item is only dropped for three of its own source that
  are at least as certain, however old those are.\<close>

theorem cap_keeps_most_certain:
  assumes "card (ev_source ` set evs) \<le> 33" and "e \<in> set evs" and "e \<notin> set (cap_evidence 3 100 evs)"
  shows "set (cap_evidence 3 100 evs) \<subseteq> set evs \<and> length (cap_evidence 3 100 evs) \<le> 100 \<and>
     (\<forall>s. length (filter (\<lambda>x. ev_source x = s) (cap_evidence 3 100 evs)) \<le> 3) \<and>
     length (filter (\<lambda>x. ev_source x = ev_source e \<and> certainty e \<le> certainty x) (cap_evidence 3 100 evs)) = 3"
proof (intro conjI allI)
  let ?k = "kept_items 3 evs" and ?P = "\<lambda>x. certainty e \<le> certainty x"
  let ?own = "filter (\<lambda>x. ev_source x = ev_source e) evs"
  have "length ?k \<le> 100" using length_kept_items [of 3 evs] assms(1) by simp
  then have cap: "cap_evidence 3 100 evs = sort_key (\<lambda>e. - observed_at e) ?k" by (simp add: cap_evidence_kept)
  then have "e \<notin> set ?k" using assms(3) by simp
  then have "e \<notin> set (filter (\<lambda>x. ev_source x = ev_source e) ?k)" by (metis filter_is_subset subsetD)
  then have "e \<notin> set (best_items 3 ?own)" by (simp only: filter_kept_items not_False_eq_True)
  then have "length (filter ?P (best_items 3 ?own)) = 3" using assms(2) by (intro best_items_dropped) auto
  moreover have "filter (\<lambda>x. ev_source x = ev_source e \<and> ?P x) ?k = filter ?P (best_items 3 ?own)"
    by (simp add: filter_kept_items [symmetric] conj_commute)
  ultimately show "length (filter (\<lambda>x. ev_source x = ev_source e \<and> ?P x) (cap_evidence 3 100 evs)) = 3"
    by (simp add: cap length_filter_sort_key)
qed (use cap_subset [of 3 100 evs] cap_per_source [of _ 3 100 evs] in \<open>simp_all add: cap_evidence_kept\<close>)

theorem cap_keeps_most_certain_witness:
  "\<exists>e. e \<notin> set (cap_evidence 3 100 (vendor_evidence ''oui'' (1 / 10) ''A'' # replicate 3 (vendor_evidence ''oui'' 1 ''B''))) \<and>
     length (filter (\<lambda>x. ev_source x = ev_source e \<and> certainty e \<le> certainty x)
       (cap_evidence 3 100 (vendor_evidence ''oui'' (1 / 10) ''A'' # replicate 3 (vendor_evidence ''oui'' 1 ''B'')))) = 3"
proof -
  let ?a = "vendor_evidence ''oui'' (1 / 10) ''A''"
  let ?evs = "?a # replicate 3 (vendor_evidence ''oui'' 1 ''B'')"
  have "?a \<notin> set (cap_evidence 3 100 ?evs)"
    by (simp add: cap_evidence_def vendor_evidence_def get_or_def numeral_3_eq_3 lit_def)
  moreover from this have "length (filter (\<lambda>x. ev_source x = ev_source ?a \<and> certainty ?a \<le> certainty x)
      (cap_evidence 3 100 ?evs)) = 3"
    using cap_keeps_most_certain [of ?evs ?a] by (simp add: vendor_evidence_def)
  ultimately show ?thesis by blast
qed

section \<open>Properties of whole verdicts\<close>

lemma fuse_field_from:
  assumes "fst (fuse_field evs field demote) = Some v"
  shows "\<not> is_junk v \<and> (\<exists>e \<in> set evs. field e = Some v)"
proof -
  obtain x where "fuse_field evs field demote = (Some v, x)"
    using assms by (cases "fuse_field evs field demote") auto
  then obtain ss where "dict_get (foldl (fuse_step field demote) [] evs) v = Some ss" by (rule fuse_field_SomeD)
  then show ?thesis using ballots_ok_fold [of field demote evs] unfolding ballots_ok_def by blast
qed


lemma combined_score_nonneg: "\<forall>e \<in> set ss. 0 < snd e \<Longrightarrow> 0 \<le> combined_score ss"
proof (cases "ss = []")
  case False
  assume pos: "\<forall>e \<in> set ss. 0 < snd e"
  from False obtain s x b where "(s, x) \<in> set ss" "combined_score ss = x * b" "1 \<le> b" by (rule combined_score_cases)
  with pos show ?thesis by fastforce
qed (simp add: combined_score_def)

lemma fuse_score_nonneg: "0 \<le> snd (fuse_field evs field demote)"
proof (cases "fst (fuse_field evs field demote)")
  case None
  then show ?thesis by (auto simp: fuse_field_def Let_def split: if_splits)
next
  case (Some v)
  then obtain x where x: "fuse_field evs field demote = (Some v, x)"
    by (cases "fuse_field evs field demote") auto
  then obtain ss where ss: "dict_get (foldl (fuse_step field demote) [] evs) v = Some ss" "x = min (combined_score ss) 1"
    by (rule fuse_field_SomeD)
  have "0 \<le> combined_score ss" using fuse_entry [OF ss(1)] by (intro combined_score_nonneg) auto
  then show ?thesis using x ss(2) by simp
qed

lemma fuse_pair_nonneg: "(v, x) = fuse_field evs field demote \<Longrightarrow> 0 \<le> x"
  using fuse_score_nonneg by (metis snd_conv)

lemma overall_range:
  assumes "\<And>p. p \<in> set fw \<Longrightarrow> 0 \<le> snd (fst p) \<and> 0 \<le> snd p"
  shows "0 \<le> overall_certainty fw \<and> overall_certainty fw \<le> 100"
proof -
  let ?known = "filter (\<lambda>(val, w). fst val \<noteq> None) fw"
  have "0 \<le> sum_list (map (\<lambda>(val, w). snd val * w) ?known)"
    using assms by (intro sum_list_nonneg) fastforce
  then have "0 \<le> sum_list (map (\<lambda>(val, w). snd val * w) ?known) / max (sum_list (map snd ?known)) (1 / 100) * 100"
    by simp
  then show ?thesis by (simp add: overall_certainty_def Let_def py_int_def)
qed

text \<open>Certainty is a percentage: the certainty of a verdict lies between 0 and 100, whatever
  the certainties of the evidence.\<close>

theorem certainty_is_percentage:
  "0 \<le> v_certainty (compute now hw evs) \<and> v_certainty (compute now hw evs) \<le> 100"
proof -
  show ?thesis
    by (auto simp: compute_def empty_verdict_def Let_def fuse_score_nonneg
        intro!: overall_range [THEN conjunct1] overall_range [THEN conjunct2] dest: fuse_pair_nonneg)
qed

lemma next_valid_is_valid: "next_valid_hostname evs = Some h \<Longrightarrow> is_valid_hostname (Some h)"
proof -
  have keys: "\<forall>v \<in> set (dict_keys (foldl next_step [] evs)). is_valid_hostname (Some v)"
  proof (induction evs rule: rev_induct)
    case (snoc e evs)
    then show ?case
      by (cases "hostname e") (auto simp: next_step_def Let_def dict_keys_set split: if_splits)
  qed simp
  assume "next_valid_hostname evs = Some h"
  then have "dict_keys (foldl next_step [] evs) \<noteq> []" and
    h: "h = first_max (\<lambda>v. get_or (candidates (foldl next_step [] evs)) v 0) (dict_keys (foldl next_step [] evs))"
    by (auto simp: next_valid_hostname_def Let_def dict_keys_def split: if_splits)
  then show ?thesis using keys first_max_in by blast
qed

lemma find_coherent_is_valid:
  assumes "find_coherent_hostname r evs = Some h"
  shows "is_valid_hostname (Some h)"
proof -
  let ?c = "List.map_filter (coherent_candidate r) evs"
  have ne: "?c \<noteq> []" and h: "h = fst (hd (sort_key (\<lambda>c. - snd c) ?c))"
    using assms by (auto simp: find_coherent_hostname_def Let_def split: if_splits)
  have "hd (sort_key (\<lambda>c. - snd c) ?c) \<in> set ?c" using ne by (metis hd_in_set set_sort sort_key_Nil_iff)
  then obtain e where "coherent_candidate r e = Some (hd (sort_key (\<lambda>c. - snd c) ?c))"
    by (auto simp: map_filter_def)
  then obtain x where "hd (sort_key (\<lambda>c. - snd c) ?c) = (h, x)" "coherent_candidate r e = Some (h, x)"
    unfolding h by (metis prod.collapse)
  then show ?thesis by (auto simp: coherent_candidate_def Let_def split: if_splits)
qed

lemma choose_hostname_valid:
  assumes "choose_hostname hn r evs = Some h" "hn \<noteq> Some []"
  shows "is_valid_hostname (Some h)"
proof -
  let ?chosen = "choose_hostname hn None evs"
  have chosen: "is_valid_hostname (Some x)" if "?chosen = Some x" for x
    using that assms(2) next_valid_is_valid [of evs x]
    by (auto simp: choose_hostname_def truthy_def Let_def split: option.splits if_splits)
  have eq: "choose_hostname hn r evs =
      (if truthy ?chosen \<and> truthy r then validate_hostname_coherence (the ?chosen) (the r) evs else ?chosen)"
    by (simp add: choose_hostname_def truthy_def Let_def)
  show ?thesis
  proof (cases "truthy ?chosen \<and> truthy r \<and> foreign_hostname (the r) (the ?chosen)")
    case True
    then have "find_coherent_hostname (the r) evs = Some h"
      using assms(1) eq by (simp add: validate_hostname_coherence_def)
    then show ?thesis by (rule find_coherent_is_valid)
  next
    case False
    then have "?chosen = Some h"
      using assms(1) eq by (auto simp: validate_hostname_coherence_def truthy_def split: if_splits)
    then show ?thesis by (rule chosen)
  qed
qed

text \<open>A verdict never shows a non-hostname: its host name, when it has one, passes the validity
  check, whichever of the three ways it was chosen.\<close>

theorem verdict_hostname_valid:
  "pred_option (\<lambda>h. is_valid_hostname (Some h)) (v_hostname (compute now hw evs))"
proof (cases "v_hostname (compute now hw evs)")
  case (Some h)
  let ?c = "cap_evidence 3 100 evs"
  have "is_junk []" by (simp add: is_junk_def JUNK_VALUES_def lit_def strip_def strip_by_def rstrip_by_def lower_def)
  then have "fst (fuse_field ?c hostname []) \<noteq> Some []" using fuse_field_from [of ?c hostname "[]" "[]"] by auto
  moreover have "choose_hostname (fst (fuse_field ?c hostname [])) (fst (fuse_field ?c vendor [])) ?c = Some h"
    using Some by (auto simp: compute_def empty_verdict_def Let_def split: if_splits)
  ultimately show ?thesis using Some choose_hostname_valid by simp
qed simp

text \<open>The vendor check of host names can be void: when the only evidence naming the host is not
  mDNS, a valid host name that betrays another vendor is rejected and then returned all the
  same as the coherent alternative.\<close>

theorem foreign_hostname_returned:
  assumes "foreign_hostname resolved hn" and "hostname e = Some hn" and "clean_hostname hn = hn"
    and "is_valid_hostname (Some hn)" and "hn \<noteq> []" and "\<not> starts_with ''mdns'' (ev_source e)"
    and "\<forall>e' \<in> set evs. hostname e' = None"
  shows "validate_hostname_coherence hn resolved (evs @ [e]) = Some hn"
proof -
  have "List.map_filter (coherent_candidate resolved) evs = []"
    using assms(7) by (induction evs) (auto simp: map_filter_simps coherent_candidate_def truthy_def)
  moreover have "List.map_filter (coherent_candidate resolved) (evs @ [e]) =
      List.map_filter (coherent_candidate resolved) evs @ List.map_filter (coherent_candidate resolved) [e]"
    by (simp add: map_filter_def)
  moreover have "coherent_candidate resolved e = Some (hn, evidence_score [] e)"
    using assms by (simp add: coherent_candidate_def truthy_def)
  ultimately show ?thesis
    using assms(1) by (simp add: validate_hostname_coherence_def find_coherent_hostname_def map_filter_simps)
qed

definition roku_evidence :: evidence where
  "roku_evidence = (vendor_evidence ''dhcpv4'' 1 ''x'')\<lparr>vendor := None, hostname := Some (lit ''roku-tv'')\<rparr>"

theorem foreign_hostname_returned_witness:
  "foreign_hostname (lit ''LG'') (lit ''roku-tv'') \<and>
   validate_hostname_coherence (lit ''roku-tv'') (lit ''LG'') [vendor_evidence ''oui'' 1 ''LG'', roku_evidence] =
   Some (lit ''roku-tv'')"
proof
  show f: "foreign_hostname (lit ''LG'') (lit ''roku-tv'')"
    by (simp add: foreign_hostname_def ENGINE_VENDOR_KEYWORDS_def lit_def lower_def lower_char_def)
  have c: "clean_hostname (lit ''roku-tv'') = lit ''roku-tv''"
    by (simp add: clean_hostname_def re_remove_def AIRPLAY_PREFIX_def HEX_SUFFIX_def re_match_at_def lit_def
        is_hex_def is_digit_def chr_is_def ends_with_def strip_by_def rstrip_by_def Let_def dec_bound_def)
  have "is_valid_hostname (Some (lit ''roku-tv''))"
    by (simp add: is_valid_hostname_def valid_stripped_def strip_def strip_by_def rstrip_by_def lit_def
        is_space_def lower_def lower_char_def is_ip_address_def is_ipv4_def is_ipv6_def ipv6_parts_def
        re_matches_def re_match_def re_match_at_def UUID_RE_def PURE_HEX_RE_def SDK_DEFAULT_RE_def
        hex_class_def is_hex_def is_digit_def is_letter_ci_def is_letter_def SDK_PREFIXES_def sdk_default_def
        is_hex_segment_def trailing_hex_def Let_def dec_bound_def chr_is_def)
  with foreign_hostname_returned [OF f _ c, of roku_evidence "[vendor_evidence ''oui'' 1 ''LG'']"]
  show "validate_hostname_coherence (lit ''roku-tv'') (lit ''LG'') [vendor_evidence ''oui'' 1 ''LG'', roku_evidence] =
      Some (lit ''roku-tv'')"
    by (simp add: roku_evidence_def vendor_evidence_def lit_def)
qed


end
