(* ===== verification/Store.thy ===== *)
theory Store
  imports Evidence
begin

text \<open>
  The SQLite store (\<open>store/models.py\<close>, \<open>store/database.py\<close>, \<open>store/hosts.py\<close>,
  \<open>store/findings.py\<close>, \<open>store/verdicts.py\<close>): devices with their merge rules,
  authorisation and its audit trail, the learning-window row, presence columns, hosts, findings
  and verdicts.  A table with a primary key is an association list in insertion order, a table
  with a generated id a list of rows, and every statement is a function of the whole store.  A time
  is a number of microseconds: the code stores \<open>isoformat()\<close> texts of UTC times, whose
  alphabetical order is that of the times.  Columns holding JSON hold the encoded value itself.
  Text the code only compares or passes on is a \<open>string\<close>.
\<close>

section \<open>Rows\<close>

type_synonym mac = string

datatype AlertSeverity = INFO | LOW | WARNING | HIGH | CRITICAL

datatype FindingRule =
  NEW_HOST | PLATFORM_DRIFT | ADDR_CONFLICT | LOW_CERTAINTY | STALE_SOURCE | RANDOMIZED_ADDR
| DHCP_ANOMALY | IDENTITY_SHIFT | BEHAVIORAL_DRIFT | OUI_MISMATCH | FINGERPRINT_DRIFT
| MAC_SPOOFING | ARP_SPOOFING | GATEWAY_IMPERSONATION | SENSOR_CONNECT | SENSOR_DISCONNECT
| DEVICE_WENT_OFFLINE | DEVICE_CAME_ONLINE

text \<open>\<open>Device\<close>: the object and the row of the table \<open>devices\<close>.  A \<open>NULL\<close> in the
  column \<open>tags\<close> is the empty list.\<close>

record device =
  d_mac :: mac
  d_ip_v4 :: "string option"
  d_ip_v6 :: "string option"
  d_manufacturer :: "ustr option"
  d_device_type :: "ustr option"
  d_os_family :: "ustr option"
  d_os_version :: "ustr option"
  d_hostname :: "ustr option"
  d_confidence :: int
  d_first_seen :: int
  d_last_seen :: int
  d_alert_status :: string
  d_raw_evidence :: dict
  d_is_randomized_mac :: bool
  d_correlated_mac :: "mac option"
  d_identity_id :: "int option"
  d_manual_override :: "dict option"
  d_owner :: "ustr option"
  d_location :: "ustr option"
  d_criticality :: "string option"
  d_tags :: "ustr list"
  d_notes :: "ustr option"
  d_authorization :: string
  d_authorized_at :: "int option"
  d_authorized_by :: "string option"
  d_passively_observed :: bool
  d_is_online :: bool
  d_offline_since :: "int option"
  d_presence_threshold_seconds :: int
  d_discovery_context :: "string option"

text \<open>\<open>Device(mac=m, first_seen=a, last_seen=b)\<close>: every other field at its default.\<close>

definition new_device :: "mac \<Rightarrow> int \<Rightarrow> int \<Rightarrow> device" where
  "new_device m a b =
     \<lparr>d_mac = m, d_ip_v4 = None, d_ip_v6 = None, d_manufacturer = None, d_device_type = None,
      d_os_family = None, d_os_version = None, d_hostname = None, d_confidence = 0,
      d_first_seen = a, d_last_seen = b, d_alert_status = ''new'', d_raw_evidence = [],
      d_is_randomized_mac = False, d_correlated_mac = None, d_identity_id = None,
      d_manual_override = None, d_owner = None, d_location = None, d_criticality = None,
      d_tags = [], d_notes = None, d_authorization = ''unapproved'', d_authorized_at = None,
      d_authorized_by = None, d_passively_observed = True, d_is_online = True,
      d_offline_since = None, d_presence_threshold_seconds = 300, d_discovery_context = None\<rparr>"

record host =
  h_hw_addr :: mac
  h_ip_addr :: "string option"
  h_ip_v6 :: "string option"
  h_discovered_at :: int
  h_last_active :: int
  h_mac_randomized :: bool
  h_real_hw_addr :: "mac option"
  h_disposition :: string
  h_identity_id :: "int option"

record finding =
  f_id :: "nat option"
  f_hw_addr :: mac
  f_rule :: FindingRule
  f_severity :: AlertSeverity
  f_message :: ustr
  f_timestamp :: int
  f_resolved :: bool
  f_status :: string
  f_disposition :: "string option"
  f_snoozed_until :: "int option"
  f_notes :: "ustr option"

text \<open>\<open>Finding(hw_addr, rule, severity, message)\<close> with the other fields at their
  defaults.\<close>

definition new_finding :: "int \<Rightarrow> mac \<Rightarrow> FindingRule \<Rightarrow> AlertSeverity \<Rightarrow> ustr \<Rightarrow> finding" where
  "new_finding now m r sev msg =
     \<lparr>f_id = None, f_hw_addr = m, f_rule = r, f_severity = sev, f_message = msg,
      f_timestamp = now, f_resolved = False, f_status = ''new'', f_disposition = None,
      f_snoozed_until = None, f_notes = None\<rparr>"

text \<open>\<open>AuthorizationHistory\<close>; the generated ids number the rows in order.\<close>

record auth_row =
  a_mac :: mac
  a_previous :: string
  a_new :: string
  a_actor :: string
  a_reason :: "string option"
  a_timestamp :: int

record sensor =
  first_capture_at :: int
  last_discovery_at :: int
  window_closed_at :: "int option"
  last_heartbeat_at :: "int option"

record store =
  s_devices :: "(mac \<times> device) list"
  s_history :: "auth_row list"
  s_sensor :: "sensor option"
  s_known :: "mac list option"
  s_hosts :: "(mac \<times> host) list"
  s_findings :: "finding list"
  s_next_id :: nat
  s_verdicts :: "(mac \<times> verdict) list"

definition empty_store :: store where
  "empty_store = \<lparr>s_devices = [], s_history = [], s_sensor = None, s_known = None,
     s_hosts = [], s_findings = [], s_next_id = 1, s_verdicts = []\<rparr>"

datatype store_error = IntegrityError | InvalidValue

section \<open>SQL\<close>

definition coalesce :: "'a option \<Rightarrow> 'a option \<Rightarrow> 'a option" where
  "coalesce a b = (case a of None \<Rightarrow> b | Some x \<Rightarrow> Some x)"

text \<open>\<open>UPDATE t SET ... WHERE pk = k\<close>.\<close>

definition update_row :: "('k \<times> 'r) list \<Rightarrow> 'k \<Rightarrow> ('r \<Rightarrow> 'r) \<Rightarrow> ('k \<times> 'r) list" where
  "update_row t k f = map (\<lambda>(k', r). (k', if k' = k then f r else r)) t"

text \<open>\<open>INSERT ... ON CONFLICT(pk) DO UPDATE\<close>: \<open>merge old new\<close> where the key is
  taken.\<close>

definition upsert_row :: "('k \<times> 'r) list \<Rightarrow> 'k \<Rightarrow> 'r \<Rightarrow> ('r \<Rightarrow> 'r \<Rightarrow> 'r) \<Rightarrow> ('k \<times> 'r) list" where
  "upsert_row t k r merge = dict_set t k (case dict_get t k of None \<Rightarrow> r | Some old \<Rightarrow> merge old r)"

text \<open>Texts of \<open>isoformat()\<close> have a \<open>T\<close> after the date, those of
  \<open>datetime('now', ...)\<close> a blank, which is smaller: comparing one with the other compares
  the dates, and \<open>T\<close> wins on the same date.\<close>

definition day_of :: "int \<Rightarrow> int" where
  "day_of t = t div 86400000000"

definition iso_before_sqlite :: "int \<Rightarrow> int \<Rightarrow> bool" where
  "iso_before_sqlite t u \<longleftrightarrow> day_of t < day_of u"

lemma update_row_keys [simp]: "dict_keys (update_row t k f) = dict_keys t"
  by (induction t) (auto simp: update_row_def dict_keys_def)

lemma update_row_get [simp]:
  "dict_get (update_row t k f) k' = (if k' = k then map_option f (dict_get t k') else dict_get t k')"
  by (induction t) (auto simp: update_row_def)

lemma upsert_row_get [simp]:
  "dict_get (upsert_row t k r m) k' =
     (if k' = k then Some (case dict_get t k of None \<Rightarrow> r | Some old \<Rightarrow> m old r) else dict_get t k')"
  by (simp add: upsert_row_def)

lemma upsert_row_keys:
  "dict_keys (upsert_row t k r m) = (if dict_get t k = None then dict_keys t @ [k] else dict_keys t)"
  by (auto simp: upsert_row_def dict_keys_set dict_get_None_iff)

lemma distinct_upsert_row: "distinct (dict_keys t) \<Longrightarrow> distinct (dict_keys (upsert_row t k r m))"
  by (simp add: upsert_row_def distinct_dict_set)

section \<open>Host names in the store\<close>

text \<open>\<open>_sanitize_hostname\<close>, applied when a device is written.\<close>

definition sanitize_hostname :: "ustr option \<Rightarrow> ustr option" where
  "sanitize_hostname name =
     (case name of
        None \<Rightarrow> None
      | Some n \<Rightarrow>
          if n = [] then Some []
          else let c = (if service_name n then before_sub (lit ''._'') n else n);
                   c = re_remove HEX_SUFFIX c;
                   c = (if ends_with (lit ''.local'') c then take (length c - 6) c else c);
                   c = rstrip_dots c
               in Some (if c = [] then n else c))"

text \<open>\<open>_sanitize_hostname_db\<close>, applied when a device is read: \<open>parts[1]\<close> of the split
  at \<open>._\<close> names the service.\<close>

definition after_sub :: "ustr \<Rightarrow> ustr \<Rightarrow> ustr" where
  "after_sub p t = drop (length (before_sub p t) + length p) t"

definition sanitize_hostname_db :: "ustr option \<Rightarrow> ustr option" where
  "sanitize_hostname_db name =
     (case name of
        None \<Rightarrow> None
      | Some n \<Rightarrow>
          if n = [] then Some []
          else let c = rstrip_dots n;
                   c = (if service_name c
                        then let inst = re_remove HEX_SUFFIX (before_sub (lit ''._'') c);
                                 service = before_sub (lit ''._'') (after_sub (lit ''._'') c)
                             in if length inst \<le> 5 \<and> service \<noteq> [] \<and>
                                   service \<noteq> lit ''tcp'' \<and> service \<noteq> lit ''udp''
                                then service else inst
                        else c);
                   c = (if ends_with (lit ''.local'') c then take (length c - 6) c else c);
                   c = rstrip_dots c
               in Some (if c = [] then n else c))"

section \<open>The learning-window row\<close>

definition min_opt :: "int list \<Rightarrow> int option" where
  "min_opt xs = (if xs = [] then None else Some (foldr min (tl xs) (hd xs)))"

definition max_opt :: "int list \<Rightarrow> int option" where
  "max_opt xs = (if xs = [] then None else Some (foldr max (tl xs) (hd xs)))"

definition or_now :: "int option \<Rightarrow> int \<Rightarrow> int" where
  "or_now x now = (case x of None \<Rightarrow> now | Some v \<Rightarrow> v)"

definition seed_sensor_state :: "int \<Rightarrow> store \<Rightarrow> sensor" where
  "seed_sensor_state now s =
     (let seen = map (d_first_seen \<circ> snd) (s_devices s)
      in \<lparr>first_capture_at = or_now (min_opt seen) now, last_discovery_at = or_now (max_opt seen) now,
          window_closed_at = None, last_heartbeat_at = Some now\<rparr>)"

definition get_sensor_state :: "int \<Rightarrow> store \<Rightarrow> sensor \<times> store" where
  "get_sensor_state now s =
     (case s_sensor s of
        Some st \<Rightarrow> (st, s)
      | None \<Rightarrow> let st = seed_sensor_state now s in (st, s\<lparr>s_sensor := Some st\<rparr>))"

text \<open>\<open>_set_sensor_state\<close>: the row is seeded first; the column is the field that \<open>f\<close>
  sets.\<close>

definition set_sensor_state :: "int \<Rightarrow> (sensor \<Rightarrow> sensor) \<Rightarrow> store \<Rightarrow> store" where
  "set_sensor_state now f s =
     (let s = snd (get_sensor_state now s) in s\<lparr>s_sensor := map_option f (s_sensor s)\<rparr>)"

definition mark_discovery :: "int \<Rightarrow> store \<Rightarrow> store" where
  "mark_discovery now = set_sensor_state now (\<lambda>st. st\<lparr>last_discovery_at := now\<rparr>)"

definition close_learning_window :: "int \<Rightarrow> store \<Rightarrow> store" where
  "close_learning_window now s =
     (let (st, s) = get_sensor_state now s
      in if window_closed_at st \<noteq> None then s
         else set_sensor_state now (\<lambda>st. st\<lparr>window_closed_at := Some now\<rparr>) s)"

definition reopen_learning_window :: "int \<Rightarrow> store \<Rightarrow> store" where
  "reopen_learning_window now = set_sensor_state now (\<lambda>st. st\<lparr>window_closed_at := None\<rparr>)"

definition record_heartbeat :: "int \<Rightarrow> store \<Rightarrow> store" where
  "record_heartbeat now = set_sensor_state now (\<lambda>st. st\<lparr>last_heartbeat_at := Some now\<rparr>)"

text \<open>\<open>apply_burst_reentry\<close>.\<close>

definition downgrade :: "mac list \<Rightarrow> finding \<Rightarrow> finding" where
  "downgrade macs f =
     (if f_rule f = NEW_HOST \<and> f_severity f = WARNING \<and> f_hw_addr f \<in> set macs
      then f\<lparr>f_severity := INFO\<rparr> else f)"

definition apply_burst_reentry :: "mac list \<Rightarrow> store \<Rightarrow> store \<times> nat" where
  "apply_burst_reentry macs s =
     (if macs = [] then (s, 0)
      else (s\<lparr>s_devices := map (\<lambda>(m, d). (m, if m \<in> set macs
                then d\<lparr>d_discovery_context := Some ''learning''\<rparr> else d)) (s_devices s),
              s_findings := map (downgrade macs) (s_findings s),
              s_sensor := map_option (\<lambda>st. st\<lparr>window_closed_at := None\<rparr>) (s_sensor s)\<rparr>,
            length macs))"

section \<open>Devices\<close>

text \<open>\<open>_device_bind_params\<close>, with the columns the insert leaves to their
  defaults.\<close>

definition bind_device :: "device \<Rightarrow> device" where
  "bind_device dev = dev\<lparr>
     d_hostname := sanitize_hostname (d_hostname dev),
     d_manual_override := (case d_manual_override dev of Some [] \<Rightarrow> None | o' \<Rightarrow> o'),
     d_discovery_context := (case d_discovery_context dev of
        None \<Rightarrow> Some ''learning'' | Some [] \<Rightarrow> Some ''learning'' | Some c \<Rightarrow> Some c),
     d_authorization := ''unapproved'', d_authorized_at := None, d_authorized_by := None,
     d_is_online := True, d_offline_since := None\<rparr>"

text \<open>The \<open>DO UPDATE\<close> part of \<open>_DEVICE_UPSERT_SQL\<close>.\<close>

definition merge_device :: "device \<Rightarrow> device \<Rightarrow> device" where
  "merge_device old new = old\<lparr>
     d_hostname := coalesce (d_hostname new) (d_hostname old),
     d_manufacturer := coalesce (d_manufacturer new) (d_manufacturer old),
     d_device_type :=
       (if d_manual_override old \<noteq> None then d_device_type old
        else if d_device_type new \<noteq> None \<and> d_device_type new \<noteq> Some (lit ''Unknown'')
        then d_device_type new
        else coalesce (d_device_type old) (d_device_type new)),
     d_os_family := coalesce (d_os_family new) (d_os_family old),
     d_os_version := coalesce (d_os_version new) (d_os_version old),
     d_ip_v4 := coalesce (d_ip_v4 new) (d_ip_v4 old),
     d_ip_v6 := coalesce (d_ip_v6 new) (d_ip_v6 old),
     d_confidence := max (d_confidence new) (d_confidence old),
     d_alert_status := d_alert_status new,
     d_first_seen := min (d_first_seen old) (d_first_seen new),
     d_last_seen := max (d_last_seen old) (d_last_seen new),
     d_raw_evidence := d_raw_evidence new,
     d_is_randomized_mac := d_is_randomized_mac new,
     d_correlated_mac := coalesce (d_correlated_mac new) (d_correlated_mac old),
     d_identity_id := coalesce (d_identity_id new) (d_identity_id old),
     d_manual_override := coalesce (d_manual_override new) (d_manual_override old),
     d_owner := coalesce (d_owner new) (d_owner old),
     d_location := coalesce (d_location new) (d_location old),
     d_criticality := coalesce (d_criticality new) (d_criticality old),
     d_tags := (if d_tags new = [] then d_tags old else d_tags new),
     d_notes := coalesce (d_notes new) (d_notes old),
     d_passively_observed := (d_passively_observed old \<or> d_passively_observed new),
     d_presence_threshold_seconds :=
       (if d_presence_threshold_seconds new = 300 then d_presence_threshold_seconds old
        else d_presence_threshold_seconds new),
     d_discovery_context := coalesce (d_discovery_context old) (d_discovery_context new)\<rparr>"

text \<open>\<open>CHECK (criticality IN (...) OR criticality IS NULL)\<close>.\<close>

definition valid_criticality :: "string option \<Rightarrow> bool" where
  "valid_criticality c \<longleftrightarrow> c \<in> {None, Some ''low'', Some ''medium'', Some ''high'', Some ''critical''}"

text \<open>\<open>_note_device_write\<close>: whether the address is new, the stamped device, and the store
  with the in-memory set of addresses.\<close>

definition note_device_write :: "int \<Rightarrow> device \<Rightarrow> store \<Rightarrow> bool \<times> device \<times> store" where
  "note_device_write now dev s =
     (let known = (case s_known s of Some k \<Rightarrow> k | None \<Rightarrow> dict_keys (s_devices s));
          s = s\<lparr>s_known := Some known\<rparr>
      in if d_mac dev \<in> set known then (False, dev, s)
         else let s = s\<lparr>s_known := Some (d_mac dev # known)\<rparr>
              in if d_discovery_context dev = None
                 then let (st, s) = get_sensor_state now s
                      in (True, dev\<lparr>d_discovery_context := Some (if window_closed_at st = None
                            then ''learning'' else ''monitored'')\<rparr>, s)
                 else (True, dev, s))"

text \<open>The statements of \<open>upsert_device\<close> under the write lock.\<close>

definition write_device :: "int \<Rightarrow> bool \<Rightarrow> device \<Rightarrow> store \<Rightarrow> store_error + store" where
  "write_device now is_new dev s =
     (if \<not> valid_criticality (d_criticality dev) then Inl IntegrityError
      else let s = s\<lparr>s_devices := upsert_row (s_devices s) (d_mac dev) (bind_device dev) merge_device\<rparr>
           in Inr (if is_new
                   then s\<lparr>s_sensor := map_option (\<lambda>st. st\<lparr>last_discovery_at := now\<rparr>) (s_sensor s)\<rparr>
                   else s))"

text \<open>\<open>upsert_device\<close> and \<open>upsert_device_no_commit\<close>; a failed statement leaves what
  \<open>_note_device_write\<close> did to the store.\<close>

definition upsert_device :: "int \<Rightarrow> device \<Rightarrow> store \<Rightarrow> store \<times> (store_error + unit)" where
  "upsert_device now dev s =
     (let (is_new, dev, s) = note_device_write now dev s
      in case write_device now is_new dev s of
           Inl e \<Rightarrow> (s, Inl e)
         | Inr s \<Rightarrow> (s, Inr ()))"

text \<open>\<open>_marshal_device\<close> and \<open>get_device\<close>.\<close>

definition marshal_device :: "device \<Rightarrow> device" where
  "marshal_device d = d\<lparr>
     d_hostname := sanitize_hostname_db (d_hostname d),
     d_alert_status := (if d_alert_status d = [] then ''new'' else d_alert_status d),
     d_authorization := (if d_authorization d = [] then ''unapproved'' else d_authorization d),
     d_presence_threshold_seconds :=
       (if d_presence_threshold_seconds d = 0 then 300 else d_presence_threshold_seconds d),
     d_discovery_context := (case d_discovery_context d of
        None \<Rightarrow> Some ''learning'' | Some [] \<Rightarrow> Some ''learning'' | Some c \<Rightarrow> Some c)\<rparr>"

definition get_device :: "mac \<Rightarrow> store \<Rightarrow> device option" where
  "get_device m s = map_option marshal_device (dict_get (s_devices s) m)"

definition clear_all_devices :: "store \<Rightarrow> store" where
  "clear_all_devices s = s\<lparr>s_devices := []\<rparr>"

section \<open>Authorisation\<close>

definition AUTH_STATES :: "string list" where
  "AUTH_STATES = [''unapproved'', ''approved'', ''rejected'']"

definition set_authorization :: "mac \<Rightarrow> string \<Rightarrow> (int \<times> string) option \<Rightarrow> store \<Rightarrow> store" where
  "set_authorization m new by s = s\<lparr>s_devices := update_row (s_devices s) m
     (\<lambda>d. d\<lparr>d_authorization := new, d_authorized_at := map_option fst by,
             d_authorized_by := map_option snd by\<rparr>)\<rparr>"

definition insert_history :: "mac \<Rightarrow> string \<Rightarrow> string \<Rightarrow> string \<Rightarrow> string option \<Rightarrow> int \<Rightarrow> store \<Rightarrow> store" where
  "insert_history m previous new actor reason now s = s\<lparr>s_history := s_history s @
     [\<lparr>a_mac = m, a_previous = previous, a_new = new, a_actor = actor, a_reason = reason,
       a_timestamp = now\<rparr>]\<rparr>"

definition transition_authorization ::
    "int \<Rightarrow> mac \<Rightarrow> string \<Rightarrow> string \<Rightarrow> string option \<Rightarrow> store \<Rightarrow> store_error + (device option \<times> store)" where
  "transition_authorization now m new actor reason s =
     (if new \<notin> set AUTH_STATES then Inl InvalidValue
      else case get_device m s of
        None \<Rightarrow> Inr (None, s)
      | Some existing \<Rightarrow>
          let previous = d_authorization existing
          in if previous = new then Inr (Some existing, s)
             else let s = set_authorization m new (if new = ''unapproved'' then None else Some (now, actor)) s;
                      s = insert_history m previous new actor reason now s
                  in Inr (get_device m s, s))"

definition resolve_rule :: "mac \<Rightarrow> FindingRule \<Rightarrow> store \<Rightarrow> store" where
  "resolve_rule m r s = s\<lparr>s_findings := map (\<lambda>f. if f_hw_addr f = m \<and> f_rule f = r \<and> \<not> f_resolved f
     then f\<lparr>f_resolved := True\<rparr> else f) (s_findings s)\<rparr>"

text \<open>\<open>approve_device\<close>, \<open>reject_device\<close> and \<open>revoke_device\<close>: the returned device
  and the store.  The constant states are valid, so no ValueError leaves them.\<close>

definition approve_device :: "int \<Rightarrow> mac \<Rightarrow> string \<Rightarrow> string option \<Rightarrow> store \<Rightarrow> store_error + (device option \<times> store)" where
  "approve_device now m actor reason s =
     (case transition_authorization now m ''approved'' actor reason s of
        Inl e \<Rightarrow> Inl e
      | Inr (None, s) \<Rightarrow> Inr (None, s)
      | Inr (Some d, s) \<Rightarrow> Inr (Some d, resolve_rule m NEW_HOST s))"

definition reject_device :: "int \<Rightarrow> mac \<Rightarrow> string \<Rightarrow> string option \<Rightarrow> store \<Rightarrow> store_error + (device option \<times> store)" where
  "reject_device now m actor reason s = transition_authorization now m ''rejected'' actor reason s"

definition revoke_device :: "int \<Rightarrow> mac \<Rightarrow> string \<Rightarrow> string option \<Rightarrow> store \<Rightarrow> store_error + (device option \<times> store)" where
  "revoke_device now m actor reason s = transition_authorization now m ''unapproved'' actor reason s"

definition get_authorization_history :: "mac \<Rightarrow> int \<Rightarrow> store \<Rightarrow> auth_row list" where
  "get_authorization_history m limit s =
     take (nat (max 1 (min limit 1000))) (rev (filter (\<lambda>r. a_mac r = m) (s_history s)))"

text \<open>\<open>baseline_reset\<close>: the rows are fetched first, then updated one by one.\<close>

definition reset_one :: "int \<Rightarrow> string \<Rightarrow> store \<Rightarrow> mac \<times> string \<Rightarrow> store" where
  "reset_one now actor s r =
     insert_history (fst r) (snd r) ''unapproved'' actor (Some ''baseline-reset'') now
       (set_authorization (fst r) ''unapproved'' None s)"

definition baseline_reset :: "int \<Rightarrow> string \<Rightarrow> store \<Rightarrow> store \<times> nat" where
  "baseline_reset now actor s =
     (let rows = map (\<lambda>(m, d). (m, d_authorization d))
                   (filter (\<lambda>(m, d). d_authorization d \<noteq> ''unapproved'') (s_devices s))
      in (foldl (reset_one now actor) s rows, length rows))"

text \<open>\<open>clear_baseline_attestations\<close>.\<close>

definition latest_row :: "mac \<Rightarrow> store \<Rightarrow> auth_row option" where
  "latest_row m s = (case filter (\<lambda>r. a_mac r = m) (s_history s) of [] \<Rightarrow> None | rs \<Rightarrow> Some (last rs))"

definition clear_one :: "int \<Rightarrow> string \<Rightarrow> store \<times> nat \<Rightarrow> mac \<Rightarrow> store \<times> nat" where
  "clear_one now actor sn m =
     (let (s, n) = sn
      in case latest_row m s of
           None \<Rightarrow> (s, n)
         | Some r \<Rightarrow>
             if a_reason r \<noteq> Some ''baseline'' then (s, n)
             else let s = s\<lparr>s_devices := update_row (s_devices s) m (\<lambda>d.
                        if d_authorization d = ''approved''
                        then d\<lparr>d_authorization := ''unapproved'', d_authorized_at := None,
                               d_authorized_by := None\<rparr> else d)\<rparr>;
                      s = insert_history m ''approved'' ''unapproved'' actor
                            (Some ''baseline-attestation-cleared'') now s
                  in (s, Suc n))"

definition baseline_candidates :: "store \<Rightarrow> mac list" where
  "baseline_candidates s = remdups (map a_mac
     (filter (\<lambda>r. a_reason r = Some ''baseline'' \<and> a_new r = ''approved'') (s_history s)))"

definition clear_baseline_attestations :: "int \<Rightarrow> string \<Rightarrow> store \<Rightarrow> store \<times> nat" where
  "clear_baseline_attestations now actor s =
     foldl (clear_one now actor) (s, 0) (baseline_candidates s)"

definition count_state :: "string \<Rightarrow> store \<Rightarrow> nat" where
  "count_state a s = length (filter (\<lambda>(m, d). d_authorization d = a) (s_devices s))"

definition baseline_status :: "store \<Rightarrow> (nat \<times> nat \<times> nat) \<times> int option" where
  "baseline_status s =
     ((count_state ''approved'' s, count_state ''unapproved'' s, count_state ''rejected'' s),
      max_opt (map a_timestamp (filter (\<lambda>r. a_reason r = Some ''baseline'') (s_history s))))"

section \<open>Presence columns and custom properties\<close>

definition set_device_offline :: "int \<Rightarrow> mac \<Rightarrow> store \<Rightarrow> store" where
  "set_device_offline now m s = s\<lparr>s_devices := update_row (s_devices s) m
     (\<lambda>d. d\<lparr>d_is_online := False, d_offline_since := coalesce (d_offline_since d) (Some now)\<rparr>)\<rparr>"

definition set_device_online :: "mac \<Rightarrow> store \<Rightarrow> store" where
  "set_device_online m s = s\<lparr>s_devices := update_row (s_devices s) m
     (\<lambda>d. d\<lparr>d_is_online := True, d_offline_since := None\<rparr>)\<rparr>"

definition get_presence_threshold :: "mac \<Rightarrow> store \<Rightarrow> int" where
  "get_presence_threshold m s =
     (case dict_get (s_devices s) m of None \<Rightarrow> 300 | Some d \<Rightarrow> d_presence_threshold_seconds d)"

definition set_presence_threshold :: "mac \<Rightarrow> int \<Rightarrow> store \<Rightarrow> store" where
  "set_presence_threshold m secs s = s\<lparr>s_devices := update_row (s_devices s) m
     (\<lambda>d. d\<lparr>d_presence_threshold_seconds := secs\<rparr>)\<rparr>"

text \<open>The keyword arguments of \<open>update_device_props\<close>; any other key is
  \<open>OtherProp\<close>.\<close>

datatype prop_update =
  Owner "ustr option" | Location "ustr option" | Criticality "string option" | Tags "ustr list"
| Notes "ustr option" | PresenceThreshold int | OtherProp string

fun apply_prop :: "prop_update \<Rightarrow> device \<Rightarrow> device" where
  "apply_prop (Owner v) d = d\<lparr>d_owner := v\<rparr>"
| "apply_prop (Location v) d = d\<lparr>d_location := v\<rparr>"
| "apply_prop (Criticality v) d = d\<lparr>d_criticality := v\<rparr>"
| "apply_prop (Tags v) d = d\<lparr>d_tags := v\<rparr>"
| "apply_prop (Notes v) d = d\<lparr>d_notes := v\<rparr>"
| "apply_prop (PresenceThreshold v) d = d\<lparr>d_presence_threshold_seconds := v\<rparr>"
| "apply_prop (OtherProp k) d = d"

fun updatable :: "prop_update \<Rightarrow> bool" where
  "updatable (OtherProp k) = False"
| "updatable _ = True"

definition update_device_props ::
    "mac \<Rightarrow> prop_update list \<Rightarrow> store \<Rightarrow> store_error + (device option \<times> store)" where
  "update_device_props m us s =
     (if us = [] then Inr (get_device m s, s)
      else if \<not> list_all updatable us then Inl InvalidValue
      else case dict_get (s_devices s) m of
        None \<Rightarrow> Inr (None, s)
      | Some d \<Rightarrow>
          if \<not> valid_criticality (d_criticality (fold apply_prop us d)) then Inl IntegrityError
          else let s = s\<lparr>s_devices := update_row (s_devices s) m (fold apply_prop us)\<rparr>
               in Inr (get_device m s, s))"

section \<open>Hosts\<close>

text \<open>\<open>HostRepository.upsert\<close>.  The difference of the Julian days, times 86400, is taken
  exactly.\<close>

definition merge_host :: "host \<Rightarrow> host \<Rightarrow> host" where
  "merge_host old new = old\<lparr>
     h_ip_addr := coalesce (h_ip_addr new) (h_ip_addr old),
     h_ip_v6 := coalesce (h_ip_v6 new) (h_ip_v6 old),
     h_last_active := (if h_last_active new - h_last_active old \<ge> 30 * 1000000
                       then h_last_active new else h_last_active old),
     h_mac_randomized := (h_mac_randomized old \<or> h_mac_randomized new),
     h_real_hw_addr := coalesce (h_real_hw_addr new) (h_real_hw_addr old),
     h_disposition := (if h_disposition old = ''self'' then ''self''
                       else if h_disposition old = ''known'' then ''known''
                       else h_disposition new)\<rparr>"

definition hosts_upsert :: "host \<Rightarrow> store \<Rightarrow> store" where
  "hosts_upsert h s = s\<lparr>s_hosts :=
     upsert_row (s_hosts s) (h_hw_addr h) (h\<lparr>h_identity_id := None\<rparr>) merge_host\<rparr>"

definition find_host :: "mac \<Rightarrow> store \<Rightarrow> host option" where
  "find_host m s = dict_get (s_hosts s) m"

text \<open>\<open>ORDER BY last_active DESC\<close>; rows with equal keys keep the table's order.\<close>

definition find_all_hosts :: "nat \<Rightarrow> nat \<Rightarrow> store \<Rightarrow> host list" where
  "find_all_hosts limit offset s =
     take limit (drop offset (sort_key (\<lambda>h. - h_last_active h) (map snd (s_hosts s))))"

definition count_hosts :: "store \<Rightarrow> nat" where
  "count_hosts s = length (s_hosts s)"

section \<open>Verdicts\<close>

definition verdicts_upsert :: "verdict \<Rightarrow> store \<Rightarrow> store" where
  "verdicts_upsert v s = s\<lparr>s_verdicts := upsert_row (s_verdicts s) (v_hw_addr v) v
     (\<lambda>old new. new\<lparr>v_hostname := coalesce (v_hostname new) (v_hostname old)\<rparr>)\<rparr>"

definition find_verdict :: "mac \<Rightarrow> store \<Rightarrow> verdict option" where
  "find_verdict m s = dict_get (s_verdicts s) m"

definition find_all_verdicts :: "nat \<Rightarrow> store \<Rightarrow> verdict list" where
  "find_all_verdicts limit s = take limit (sort_key (\<lambda>v. - v_certainty v) (map snd (s_verdicts s)))"

section \<open>Findings\<close>

definition add_finding :: "finding \<Rightarrow> store \<Rightarrow> store \<times> nat" where
  "add_finding f s =
     (s\<lparr>s_findings := s_findings s @ [f\<lparr>f_id := Some (s_next_id s)\<rparr>], s_next_id := Suc (s_next_id s)\<rparr>,
      s_next_id s)"

text \<open>\<open>UPDATE findings SET ... WHERE p\<close>, with the number of rows it touched.\<close>

definition update_findings :: "(finding \<Rightarrow> bool) \<Rightarrow> (finding \<Rightarrow> finding) \<Rightarrow> store \<Rightarrow> store \<times> nat" where
  "update_findings p g s =
     (s\<lparr>s_findings := map (\<lambda>f. if p f then g f else f) (s_findings s)\<rparr>,
      length (filter p (s_findings s)))"

text \<open>\<open>resolved = 0 AND (status != 'snoozed' OR snoozed_until <= now)\<close>; a comparison
  with \<open>NULL\<close> does not hold.\<close>

definition snooze_over :: "int \<Rightarrow> finding \<Rightarrow> bool" where
  "snooze_over now f = (case f_snoozed_until f of None \<Rightarrow> False | Some u \<Rightarrow> u \<le> now)"

definition active_finding :: "int \<Rightarrow> finding \<Rightarrow> bool" where
  "active_finding now f \<longleftrightarrow> \<not> f_resolved f \<and> (f_status f \<noteq> ''snoozed'' \<or> snooze_over now f)"

definition newest_first :: "finding list \<Rightarrow> finding list" where
  "newest_first = sort_key (\<lambda>f. - f_timestamp f)"

definition list_active :: "int \<Rightarrow> nat \<Rightarrow> nat \<Rightarrow> store \<Rightarrow> finding list" where
  "list_active now limit offset s =
     take limit (drop offset (newest_first (filter (active_finding now) (s_findings s))))"

definition list_all_findings :: "nat \<Rightarrow> bool \<Rightarrow> store \<Rightarrow> finding list" where
  "list_all_findings limit include_resolved s =
     take limit (newest_first (if include_resolved then s_findings s
       else filter (\<lambda>f. \<not> f_resolved f) (s_findings s)))"

definition count_active :: "int \<Rightarrow> store \<Rightarrow> nat" where
  "count_active now s = length (filter (active_finding now) (s_findings s))"

definition list_by_status :: "string \<Rightarrow> nat \<Rightarrow> store \<Rightarrow> finding list" where
  "list_by_status st limit s = take limit (newest_first (filter (\<lambda>f. f_status f = st) (s_findings s)))"

definition resolve_finding :: "nat \<Rightarrow> store \<Rightarrow> store" where
  "resolve_finding i s = fst (update_findings (\<lambda>f. f_id f = Some i) (\<lambda>f. f\<lparr>f_resolved := True\<rparr>) s)"

definition resolve_many :: "nat list \<Rightarrow> store \<Rightarrow> store \<times> nat" where
  "resolve_many ids s =
     (if ids = [] then (s, 0)
      else update_findings (\<lambda>f. f_id f \<in> Some ` set ids) (\<lambda>f. f\<lparr>f_resolved := True\<rparr>) s)"

definition update_status :: "nat \<Rightarrow> string \<Rightarrow> string option \<Rightarrow> store \<Rightarrow> store" where
  "update_status i st disp s = fst (update_findings (\<lambda>f. f_id f = Some i)
     (\<lambda>f. f\<lparr>f_status := st, f_disposition := disp,
            f_resolved := (st = ''resolved'' \<or> st = ''false_positive'')\<rparr>) s)"

definition snooze :: "nat \<Rightarrow> int \<Rightarrow> store \<Rightarrow> store" where
  "snooze i until s = fst (update_findings (\<lambda>f. f_id f = Some i)
     (\<lambda>f. f\<lparr>f_status := ''snoozed'', f_snoozed_until := Some until\<rparr>) s)"

definition unsnooze_expired :: "int \<Rightarrow> store \<Rightarrow> store \<times> nat" where
  "unsnooze_expired now s = update_findings (\<lambda>f. f_status f = ''snoozed'' \<and> snooze_over now f)
     (\<lambda>f. f\<lparr>f_status := ''new'', f_snoozed_until := None\<rparr>) s"

definition update_notes :: "nat \<Rightarrow> ustr \<Rightarrow> store \<Rightarrow> store" where
  "update_notes i n s = fst (update_findings (\<lambda>f. f_id f = Some i) (\<lambda>f. f\<lparr>f_notes := Some n\<rparr>) s)"

definition prune_resolved :: "int \<Rightarrow> int \<Rightarrow> store \<Rightarrow> store \<times> nat" where
  "prune_resolved now max_age_days s =
     (let old = (\<lambda>f. f_resolved f \<and> iso_before_sqlite (f_timestamp f) (now - max_age_days * 86400000000))
      in (s\<lparr>s_findings := filter (\<lambda>f. \<not> old f) (s_findings s)\<rparr>, length (filter old (s_findings s))))"

text \<open>How the rules ask for an open finding: \<open>hw_addr = ? AND rule = ? AND resolved = 0\<close>.\<close>

definition open_finding :: "mac \<Rightarrow> FindingRule \<Rightarrow> store \<Rightarrow> bool" where
  "open_finding m r s \<longleftrightarrow> list_ex (\<lambda>f. f_hw_addr f = m \<and> f_rule f = r \<and> \<not> f_resolved f) (s_findings s)"

end
