(* ===== verification/StoreProps.thy ===== *)
theory StoreProps
  imports Store
begin

text \<open>
  The correctness of the store.  \<open>store_exec\<close> runs one operation; a history of the store is
  a list of operations applied to the empty store.  Two contracts are stated as locales and
  interpreted on it: \<open>audited\<close> (a state with an audit trail) and \<open>sticky\<close> (facts that only
  named operations can undo).
\<close>

section \<open>Operations\<close>

datatype store_op =
  UpsertDevice int device | Approve int mac string "string option"
| Reject int mac string "string option" | Revoke int mac string "string option"
| BaselineReset int string | ClearAttestations int string | ClearDevices | MarkDiscovery int
| CloseWindow int | ReopenWindow int | BurstReentry "mac list" | Heartbeat int
| SetOffline int mac | SetOnline mac | SetThreshold mac int | UpdateProps mac "prop_update list"
| UpsertHost host | UpsertVerdict verdict | AddFinding finding | Resolve nat
| ResolveMany "nat list" | UpdateStatus nat string "string option" | Snooze nat int
| UnsnoozeExpired int | UpdateNotes nat ustr | PruneResolved int int | ResolveRule mac FindingRule
| Restart

definition store_after :: "store \<Rightarrow> store_error + ('a \<times> store) \<Rightarrow> store" where
  "store_after s r = (case r of Inl _ \<Rightarrow> s | Inr (_, s') \<Rightarrow> s')"

text \<open>A restart of the process forgets the in-memory set of addresses.\<close>

fun store_exec :: "store \<Rightarrow> store_op \<Rightarrow> store" where
  "store_exec s (UpsertDevice now d) = fst (upsert_device now d s)"
| "store_exec s (Approve now m a r) = store_after s (approve_device now m a r s)"
| "store_exec s (Reject now m a r) = store_after s (reject_device now m a r s)"
| "store_exec s (Revoke now m a r) = store_after s (revoke_device now m a r s)"
| "store_exec s (BaselineReset now a) = fst (baseline_reset now a s)"
| "store_exec s (ClearAttestations now a) = fst (clear_baseline_attestations now a s)"
| "store_exec s ClearDevices = clear_all_devices s"
| "store_exec s (MarkDiscovery now) = mark_discovery now s"
| "store_exec s (CloseWindow now) = close_learning_window now s"
| "store_exec s (ReopenWindow now) = reopen_learning_window now s"
| "store_exec s (BurstReentry ms) = fst (apply_burst_reentry ms s)"
| "store_exec s (Heartbeat now) = record_heartbeat now s"
| "store_exec s (SetOffline now m) = set_device_offline now m s"
| "store_exec s (SetOnline m) = set_device_online m s"
| "store_exec s (SetThreshold m n) = set_presence_threshold m n s"
| "store_exec s (UpdateProps m us) = store_after s (update_device_props m us s)"
| "store_exec s (UpsertHost h) = hosts_upsert h s"
| "store_exec s (UpsertVerdict v) = verdicts_upsert v s"
| "store_exec s (AddFinding f) = fst (add_finding f s)"
| "store_exec s (Resolve i) = resolve_finding i s"
| "store_exec s (ResolveMany is) = fst (resolve_many is s)"
| "store_exec s (UpdateStatus i st d) = update_status i st d s"
| "store_exec s (Snooze i t) = snooze i t s"
| "store_exec s (UnsnoozeExpired now) = fst (unsnooze_expired now s)"
| "store_exec s (UpdateNotes i n) = update_notes i n s"
| "store_exec s (PruneResolved now n) = fst (prune_resolved now n s)"
| "store_exec s (ResolveRule m r) = resolve_rule m r s"
| "store_exec s Restart = s\<lparr>s_known := None\<rparr>"

section \<open>Contracts\<close>

text \<open>\<open>path a t b\<close>: the transitions \<open>t\<close> lead from \<open>a\<close> to \<open>b\<close>.\<close>

fun path :: "'a \<Rightarrow> ('a \<times> 'a) list \<Rightarrow> 'a \<Rightarrow> bool" where
  "path a [] b \<longleftrightarrow> a = b"
| "path a ((p, n) # t) b \<longleftrightarrow> p = a \<and> path n t b"

lemma path_append: "path a (t @ u) c \<longleftrightarrow> (\<exists>b. path a t b \<and> path b u c)"
  by (induction t arbitrary: a) auto

lemma path_appendI: "path a t b \<Longrightarrow> path b u c \<Longrightarrow> path a (t @ u) c"
  by (auto simp: path_append)

locale audited =
  fixes ok :: "'s \<Rightarrow> bool" and cur :: "'s \<Rightarrow> 'k \<Rightarrow> 'a" and trail :: "'s \<Rightarrow> 'k \<Rightarrow> ('a \<times> 'a) list"
    and step :: "'s \<Rightarrow> 'o \<Rightarrow> 's" and covered :: "'o \<Rightarrow> bool"
  assumes ok_step: "ok s \<Longrightarrow> ok (step s p)"
    and logged: "ok s \<Longrightarrow> covered p \<Longrightarrow>
      \<exists>t. trail (step s p) k = trail s k @ t \<and> path (cur s k) t (cur (step s p) k)"
begin

lemma ok_run: "ok s \<Longrightarrow> ok (foldl step s ps)"
  by (induction ps arbitrary: s) (auto intro: ok_step)

lemma run_logged:
  "ok s \<Longrightarrow> \<forall>p \<in> set ps. covered p \<Longrightarrow>
   \<exists>t. trail (foldl step s ps) k = trail s k @ t \<and> path (cur s k) t (cur (foldl step s ps) k)"
proof (induction ps arbitrary: s)
  case (Cons p ps)
  obtain t where t: "trail (step s p) k = trail s k @ t" "path (cur s k) t (cur (step s p) k)"
    using logged [OF Cons.prems(1), of p k] Cons.prems(2) by auto
  obtain u where u: "trail (foldl step (step s p) ps) k = trail (step s p) k @ u"
      "path (cur (step s p) k) u (cur (foldl step (step s p) ps) k)"
    using Cons.IH [OF ok_step [OF Cons.prems(1)]] Cons.prems(2) by auto
  show ?case using t u by (auto intro: path_appendI)
qed simp

lemma trail_explains:
  "ok s \<Longrightarrow> trail s k = [] \<Longrightarrow> \<forall>p \<in> set ps. covered p \<Longrightarrow>
   path (cur s k) (trail (foldl step s ps) k) (cur (foldl step s ps) k)"
  using run_logged [of s ps k] by auto

end

locale sticky =
  fixes step :: "'s \<Rightarrow> 'o \<Rightarrow> 's" and holds :: "'s \<Rightarrow> bool" and undoes :: "'o \<Rightarrow> bool"
  assumes kept: "holds s \<Longrightarrow> \<not> undoes p \<Longrightarrow> holds (step s p)"
begin

lemma kept_run: "holds s \<Longrightarrow> \<forall>p \<in> set ps. \<not> undoes p \<Longrightarrow> holds (foldl step s ps)"
  by (induction ps arbitrary: s) (auto intro: kept)

end

section \<open>What the operations leave alone\<close>

lemmas sensor_defs = mark_discovery_def close_learning_window_def reopen_learning_window_def
  record_heartbeat_def set_sensor_state_def get_sensor_state_def

lemmas finding_defs = add_finding_def resolve_finding_def resolve_many_def update_status_def
  snooze_def unsnooze_expired_def update_notes_def prune_resolved_def resolve_rule_def
  update_findings_def

lemmas device_defs = set_device_offline_def set_device_online_def set_presence_threshold_def
  clear_all_devices_def

lemma sensor_frame [simp]:
  "s_devices (snd (get_sensor_state now s)) = s_devices s"
  "s_history (snd (get_sensor_state now s)) = s_history s"
  "s_hosts (snd (get_sensor_state now s)) = s_hosts s"
  "s_findings (snd (get_sensor_state now s)) = s_findings s"
  "s_next_id (snd (get_sensor_state now s)) = s_next_id s"
  "s_known (snd (get_sensor_state now s)) = s_known s"
  by (simp_all add: get_sensor_state_def Let_def split: option.split)

lemma set_sensor_frame [simp]:
  "s_devices (set_sensor_state now f s) = s_devices s"
  "s_history (set_sensor_state now f s) = s_history s"
  "s_hosts (set_sensor_state now f s) = s_hosts s"
  "s_findings (set_sensor_state now f s) = s_findings s"
  "s_next_id (set_sensor_state now f s) = s_next_id s"
  "s_known (set_sensor_state now f s) = s_known s"
  by (simp_all add: set_sensor_state_def Let_def)

lemma close_frame [simp]:
  "s_devices (close_learning_window now s) = s_devices s"
  "s_history (close_learning_window now s) = s_history s"
  "s_hosts (close_learning_window now s) = s_hosts s"
  "s_findings (close_learning_window now s) = s_findings s"
  "s_next_id (close_learning_window now s) = s_next_id s"
  "s_known (close_learning_window now s) = s_known s"
  by (simp_all add: close_learning_window_def Let_def split_beta)

lemma note_frame [simp]:
  "s_devices (snd (snd (note_device_write now d s))) = s_devices s"
  "s_history (snd (snd (note_device_write now d s))) = s_history s"
  "s_hosts (snd (snd (note_device_write now d s))) = s_hosts s"
  "s_findings (snd (snd (note_device_write now d s))) = s_findings s"
  "s_next_id (snd (snd (note_device_write now d s))) = s_next_id s"
  by (simp_all add: note_device_write_def Let_def split_beta)

lemma note_device [simp]:
  "d_mac (fst (snd (note_device_write now d s))) = d_mac d"
  "d_criticality (fst (snd (note_device_write now d s))) = d_criticality d"
  by (simp_all add: note_device_write_def Let_def split_beta)

lemma upsert_devices:
  "s_devices (fst (upsert_device now d s)) =
     (if valid_criticality (d_criticality d)
      then upsert_row (s_devices s) (d_mac d) (bind_device (fst (snd (note_device_write now d s)))) merge_device
      else s_devices s)"
  by (simp add: upsert_device_def write_device_def Let_def split_beta)

lemma upsert_frame [simp]:
  "s_history (fst (upsert_device now d s)) = s_history s"
  "s_hosts (fst (upsert_device now d s)) = s_hosts s"
  "s_findings (fst (upsert_device now d s)) = s_findings s"
  "s_next_id (fst (upsert_device now d s)) = s_next_id s"
  by (simp_all add: upsert_device_def write_device_def Let_def split_beta)

lemma finding_ops_frame [simp]:
  "s_devices (fst (update_findings p g s)) = s_devices s"
  "s_history (fst (update_findings p g s)) = s_history s"
  "s_hosts (fst (update_findings p g s)) = s_hosts s"
  "s_next_id (fst (update_findings p g s)) = s_next_id s"
  by (simp_all add: update_findings_def)

lemma resolve_rule_frame [simp]:
  "s_devices (resolve_rule m r s) = s_devices s" "s_history (resolve_rule m r s) = s_history s"
  "s_hosts (resolve_rule m r s) = s_hosts s" "s_next_id (resolve_rule m r s) = s_next_id s"
  by (simp_all add: resolve_rule_def)

lemma authorization_frame [simp]:
  "s_hosts (set_authorization m a by s) = s_hosts s"
  "s_findings (set_authorization m a by s) = s_findings s"
  "s_next_id (set_authorization m a by s) = s_next_id s"
  "s_history (set_authorization m a by s) = s_history s"
  "s_hosts (insert_history m p n a r now s) = s_hosts s"
  "s_findings (insert_history m p n a r now s) = s_findings s"
  "s_next_id (insert_history m p n a r now s) = s_next_id s"
  "s_devices (insert_history m p n a r now s) = s_devices s"
  by (simp_all add: set_authorization_def insert_history_def)

lemma dict_get_map: "dict_get (map (\<lambda>(m, d). (m, g m d)) t) k = map_option (g k) (dict_get t k)"
  by (induction t) auto

lemma dict_keys_map [simp]: "dict_keys (map (\<lambda>(m, d). (m, g m d)) t) = dict_keys t"
  by (induction t) (auto simp: dict_keys_def)

section \<open>Well-formed stores\<close>

text \<open>A row of the table \<open>devices\<close>: approved or rejected exactly when it says by whom and
  when, offline exactly when it says since when, with a discovery context and a legal
  criticality.\<close>

definition row_ok :: "mac \<Rightarrow> device \<Rightarrow> bool" where
  "row_ok m d \<longleftrightarrow>
     d_mac d = m \<and> d_authorization d \<in> set AUTH_STATES \<and>
     (d_authorization d = ''unapproved'' \<longleftrightarrow> d_authorized_at d = None) \<and>
     (d_authorized_at d = None \<longleftrightarrow> d_authorized_by d = None) \<and>
     (d_is_online d \<longleftrightarrow> d_offline_since d = None) \<and>
     valid_criticality (d_criticality d) \<and>
     d_discovery_context d \<noteq> None \<and> d_discovery_context d \<noteq> Some [] \<and>
     d_manual_override d \<noteq> Some []"

definition devices_ok :: "(mac \<times> device) list \<Rightarrow> bool" where
  "devices_ok t \<longleftrightarrow> distinct (dict_keys t) \<and> (\<forall>m d. dict_get t m = Some d \<longrightarrow> row_ok m d)"

definition hosts_ok :: "(mac \<times> host) list \<Rightarrow> bool" where
  "hosts_ok t \<longleftrightarrow> distinct (dict_keys t) \<and> (\<forall>m h. dict_get t m = Some h \<longrightarrow> h_hw_addr h = m)"

definition findings_ok :: "nat \<Rightarrow> finding list \<Rightarrow> bool" where
  "findings_ok n fs \<longleftrightarrow> distinct (map f_id fs) \<and> (\<forall>i \<in> set (map f_id fs). \<exists>k < n. i = Some k)"

definition store_ok :: "store \<Rightarrow> bool" where
  "store_ok s \<longleftrightarrow> devices_ok (s_devices s) \<and> hosts_ok (s_hosts s) \<and> findings_ok (s_next_id s) (s_findings s)"

lemma devices_ok_update:
  "devices_ok t \<Longrightarrow> (\<And>d. dict_get t m = Some d \<Longrightarrow> row_ok m d \<Longrightarrow> row_ok m (f d)) \<Longrightarrow> devices_ok (update_row t m f)"
  by (auto simp: devices_ok_def)

lemma devices_ok_upsert:
  "devices_ok t \<Longrightarrow> row_ok m r \<Longrightarrow> (\<And>d. row_ok m d \<Longrightarrow> row_ok m (g d r)) \<Longrightarrow> devices_ok (upsert_row t m r g)"
  by (auto simp: devices_ok_def distinct_upsert_row split: option.splits)

lemma devices_ok_map:
  "devices_ok t \<Longrightarrow> (\<And>m d. row_ok m d \<Longrightarrow> row_ok m (g m d)) \<Longrightarrow> devices_ok (map (\<lambda>(m, d). (m, g m d)) t)"
  by (auto simp: devices_ok_def dict_get_map)

lemma row_ok_bind:
  "valid_criticality (d_criticality d) \<Longrightarrow> row_ok (d_mac d) (bind_device d)"
  by (auto simp: row_ok_def bind_device_def AUTH_STATES_def split: option.splits list.splits)

lemma coalesce_simps [simp]:
  "coalesce None b = b" "coalesce (Some x) b = Some x" "coalesce a None = a"
  "coalesce a b = None \<longleftrightarrow> a = None \<and> b = None"
  by (auto simp: coalesce_def split: option.splits)

lemma row_ok_merge: "row_ok m d \<Longrightarrow> row_ok m r \<Longrightarrow> row_ok m (merge_device d r)"
  by (auto simp: row_ok_def merge_device_def coalesce_def split: option.splits)

lemma row_ok_note:
  "valid_criticality (d_criticality d) \<Longrightarrow>
   row_ok (d_mac d) (bind_device (fst (snd (note_device_write now d s))))"
  using row_ok_bind [of "fst (snd (note_device_write now d s))"] by simp

lemma upsert_devices_ok: "devices_ok (s_devices s) \<Longrightarrow> devices_ok (s_devices (fst (upsert_device now d s)))"
  by (simp add: upsert_devices devices_ok_upsert row_ok_note row_ok_merge)

lemma update_findings_ok:
  "findings_ok n (s_findings s) \<Longrightarrow> (\<And>f. f_id (g f) = f_id f) \<Longrightarrow> findings_ok n (s_findings (fst (update_findings p g s)))"
proof -
  assume a: "findings_ok n (s_findings s)" and g: "\<And>f. f_id (g f) = f_id f"
  have "map f_id (s_findings (fst (update_findings p g s))) = map f_id (s_findings s)"
    by (simp add: update_findings_def g)
  then show ?thesis using a unfolding findings_ok_def by (rule ssubst)
qed

lemma resolve_rule_update:
  "resolve_rule m r s = fst (update_findings (\<lambda>f. f_hw_addr f = m \<and> f_rule f = r \<and> \<not> f_resolved f)
     (\<lambda>f. f\<lparr>f_resolved := True\<rparr>) s)"
  by (simp add: resolve_rule_def update_findings_def)

lemma findings_ok_filter: "findings_ok n fs \<Longrightarrow> findings_ok n (filter p fs)"
  by (auto simp: findings_ok_def distinct_map_filter)

lemma findings_ok_add: "findings_ok n fs \<Longrightarrow> findings_ok (Suc n) (fs @ [f\<lparr>f_id := Some n\<rparr>])"
  by (fastforce simp: findings_ok_def)

lemma hosts_ok_upsert: "hosts_ok (s_hosts s) \<Longrightarrow> hosts_ok (s_hosts (hosts_upsert h s))"
  by (auto simp: hosts_ok_def hosts_upsert_def distinct_upsert_row merge_host_def split: option.splits)


lemma transition_cases:
  assumes "transition_authorization now m new actor reason s = Inr (r, s')"
  obtains "s' = s" | d where "dict_get (s_devices s) m = Some d"
    "d_authorization (marshal_device d) \<noteq> new" "new \<in> set AUTH_STATES"
    "s' = insert_history m (d_authorization (marshal_device d)) new actor reason now
            (set_authorization m new (if new = ''unapproved'' then None else Some (now, actor)) s)"
  using assms by (cases "dict_get (s_devices s) m")
    (auto simp: transition_authorization_def get_device_def Let_def split: if_splits)

lemma transition_ok:
  assumes "store_ok s"
  shows "store_ok (store_after s (transition_authorization now m new actor reason s))"
proof (cases "transition_authorization now m new actor reason s")
  case (Inr rs)
  obtain r s' where rs: "rs = (r, s')" by (cases rs)
  from Inr [unfolded rs] show ?thesis
  proof (cases rule: transition_cases)
    case 1
    then show ?thesis using assms Inr rs by (simp add: store_after_def)
  next
    case (2 d)
    have "devices_ok (s_devices s')"
      unfolding 2(4) using assms 2(3)
      by (auto simp: store_ok_def set_authorization_def intro!: devices_ok_update)
        (auto simp: row_ok_def)
    then show ?thesis using assms Inr rs 2(4) by (simp add: store_ok_def store_after_def)
  qed
qed (simp add: store_after_def assms)

lemma store_ok_frame:
  "store_ok s \<Longrightarrow> s_devices t = s_devices s \<Longrightarrow> s_hosts t = s_hosts s \<Longrightarrow> s_findings t = s_findings s \<Longrightarrow>
   s_next_id t = s_next_id s \<Longrightarrow> store_ok t"
  by (simp add: store_ok_def)

lemma store_ok_findings: "store_ok s \<Longrightarrow> (\<And>f. f_id (g f) = f_id f) \<Longrightarrow> store_ok (fst (update_findings p g s))"
  by (simp add: store_ok_def update_findings_ok)

lemma store_ok_resolve_rule: "store_ok s \<Longrightarrow> store_ok (resolve_rule m r s)"
  by (simp add: resolve_rule_update store_ok_findings)

lemma approve_ok: "store_ok s \<Longrightarrow> store_ok (store_after s (approve_device now m a r s))"
  using transition_ok [of s now m "''approved''" a r]
  by (auto simp: approve_device_def store_after_def store_ok_resolve_rule split: sum.splits option.splits)

lemma store_ok_devices: "store_ok s \<Longrightarrow> devices_ok t \<Longrightarrow> store_ok (s\<lparr>s_devices := t\<rparr>)"
  by (simp add: store_ok_def)

lemma reset_one_ok: "store_ok s \<Longrightarrow> store_ok (reset_one now a s r)"
  by (auto simp: reset_one_def set_authorization_def store_ok_def row_ok_def AUTH_STATES_def intro!: devices_ok_update)

lemma foldl_inv: "P s \<Longrightarrow> (\<And>s x. P s \<Longrightarrow> P (f s x)) \<Longrightarrow> P (foldl f s xs)"
  by (induction xs arbitrary: s) auto

lemma clear_one_ok: "store_ok (fst sn) \<Longrightarrow> store_ok (fst (clear_one now a sn m))"
  by (auto simp: clear_one_def Let_def split_beta store_ok_def row_ok_def AUTH_STATES_def
      intro!: devices_ok_update split: option.split)

lemma update_props_ok:
  assumes "store_ok s" shows "store_ok (store_after s (update_device_props m us s))"
proof -
  have keep: "d_mac (fold apply_prop us d) = d_mac d \<and> d_authorization (fold apply_prop us d) = d_authorization d \<and>
      d_authorized_at (fold apply_prop us d) = d_authorized_at d \<and>
      d_authorized_by (fold apply_prop us d) = d_authorized_by d \<and>
      d_is_online (fold apply_prop us d) = d_is_online d \<and>
      d_offline_since (fold apply_prop us d) = d_offline_since d \<and>
      d_discovery_context (fold apply_prop us d) = d_discovery_context d \<and>
      d_manual_override (fold apply_prop us d) = d_manual_override d" for d
  proof (induction us arbitrary: d)
    case (Cons u us)
    show ?case using Cons.IH [of "apply_prop u d"] by (cases u) auto
  qed simp
  show ?thesis using assms
    by (auto simp: update_device_props_def store_after_def Let_def store_ok_def row_ok_def keep
        intro!: devices_ok_update split: option.split)
qed

lemma presence_ops_ok:
  assumes "store_ok s"
  shows "store_ok (set_device_offline now m s)" "store_ok (set_device_online m s)"
    "store_ok (set_presence_threshold m n s)" "store_ok (clear_all_devices s)"
  using assms
  by (auto simp: device_defs store_ok_def row_ok_def intro!: devices_ok_update) (simp add: devices_ok_def)

lemma sensor_ops_ok:
  assumes "store_ok s"
  shows "store_ok (set_sensor_state now g s)" "store_ok (close_learning_window now s)"
    "store_ok (s\<lparr>s_known := k\<rparr>)" "store_ok (verdicts_upsert v s)"
  by (rule store_ok_frame [OF assms]; simp add: verdicts_upsert_def)+

lemma finding_ops_ok:
  assumes "store_ok s"
  shows "store_ok (fst (add_finding f s))" "store_ok (fst (prune_resolved now n s))"
    "store_ok (fst (resolve_many is s))"
  using assms store_ok_findings [OF assms]
  by (auto simp: add_finding_def prune_resolved_def resolve_many_def store_ok_def Let_def
      findings_ok_add findings_ok_filter)

lemma burst_ok:
  assumes s: "store_ok s" shows "store_ok (fst (apply_burst_reentry ms s))"
proof -
  have m: "map f_id (map (downgrade ms) (s_findings s)) = map f_id (s_findings s)"
    by (simp add: downgrade_def)
  have "findings_ok (s_next_id s) (map (downgrade ms) (s_findings s))"
    using s unfolding findings_ok_def store_ok_def m by simp
  then show ?thesis using s
    by (auto simp: apply_burst_reentry_def store_ok_def row_ok_def intro!: devices_ok_map)
qed

lemma reset_ok: "store_ok s \<Longrightarrow> store_ok (fst (baseline_reset now a s))"
  using foldl_inv [of store_ok s "reset_one now a", OF _ reset_one_ok] by (simp add: baseline_reset_def Let_def)

lemma clear_ok: "store_ok s \<Longrightarrow> store_ok (fst (clear_baseline_attestations now a s))"
  using foldl_inv [of "\<lambda>sn. store_ok (fst sn)" "(s, 0)" "clear_one now a", OF _ clear_one_ok]
  by (simp add: clear_baseline_attestations_def)

lemma upserts_ok:
  "store_ok s \<Longrightarrow> store_ok (hosts_upsert h s)"
  "store_ok s \<Longrightarrow> store_ok (fst (upsert_device now d s))"
  using hosts_ok_upsert [of s h] by (simp_all add: store_ok_def hosts_upsert_def upsert_devices_ok)

lemma store_exec_ok: "store_ok s \<Longrightarrow> store_ok (store_exec s p)"
  by (cases p) (simp_all add: presence_ops_ok sensor_ops_ok finding_ops_ok burst_ok reset_ok clear_ok upserts_ok
    approve_ok transition_ok reject_device_def revoke_device_def update_props_ok store_ok_resolve_rule
    store_ok_findings mark_discovery_def reopen_learning_window_def record_heartbeat_def
    resolve_finding_def update_status_def snooze_def unsnooze_expired_def update_notes_def)

lemma empty_store_ok: "store_ok empty_store"
  by (simp add: store_ok_def empty_store_def devices_ok_def hosts_ok_def findings_ok_def)

lemma store_run_ok: "store_ok s \<Longrightarrow> store_ok (foldl store_exec s ps)"
  by (rule foldl_inv) (auto intro: store_exec_ok)

text \<open>C11: Whatever operations are applied to an empty store, every table keeps its key unique, every
  device row stays well formed (approved or rejected exactly when it records by whom and when, offline
  exactly when it records since when, discovery context stamped, criticality legal) and finding ids are
  never reused.\<close>

theorem store_well_formed:
  "store_ok (foldl store_exec empty_store ps)"
  by (rule store_run_ok [OF empty_store_ok])

section \<open>The audit trail\<close>

definition auth_of :: "store \<Rightarrow> mac \<Rightarrow> string" where
  "auth_of s m = (case dict_get (s_devices s) m of None \<Rightarrow> ''unapproved'' | Some d \<Rightarrow> d_authorization d)"

definition auth_trail :: "store \<Rightarrow> mac \<Rightarrow> (string \<times> string) list" where
  "auth_trail s m = map (\<lambda>r. (a_previous r, a_new r)) (filter (\<lambda>r. a_mac r = m) (s_history s))"

fun trail_kept :: "store_op \<Rightarrow> bool" where
  "trail_kept (ClearAttestations _ _) = False"
| "trail_kept ClearDevices = False"
| "trail_kept _ = True"

definition logs :: "store \<Rightarrow> store \<Rightarrow> bool" where
  "logs s s' \<longleftrightarrow> (\<forall>k. \<exists>t. auth_trail s' k = auth_trail s k @ t \<and> path (auth_of s k) t (auth_of s' k))"

lemma logs_same: "s_history s' = s_history s \<Longrightarrow> (\<And>k. auth_of s' k = auth_of s k) \<Longrightarrow> logs s s'"
  by (simp add: logs_def auth_trail_def)

lemma logs_frame: "s_history s' = s_history s \<Longrightarrow> s_devices s' = s_devices s \<Longrightarrow> logs s s'"
  by (rule logs_same) (simp_all add: auth_of_def)

lemma logs_trans: "logs s s1 \<Longrightarrow> logs s1 s2 \<Longrightarrow> logs s s2"
  unfolding logs_def by (metis append.assoc path_appendI)

lemma logs_one:
  assumes "auth_of s m = p"
  shows "logs s (insert_history m p n a r now (set_authorization m n by s)) \<or> dict_get (s_devices s) m = None"
proof (cases "dict_get (s_devices s) m")
  case (Some d)
  have "auth_trail (insert_history m p n a r now (set_authorization m n by s)) k =
      auth_trail s k @ (if k = m then [(p, n)] else [])"
    "auth_of (insert_history m p n a r now (set_authorization m n by s)) k = (if k = m then n else auth_of s k)" for k
    using Some by (auto simp: auth_trail_def auth_of_def insert_history_def set_authorization_def split: option.split)
  then show ?thesis using assms by (simp add: logs_def)
qed simp

lemma marshal_authorization: "row_ok m d \<Longrightarrow> d_authorization (marshal_device d) = d_authorization d"
  by (auto simp: marshal_device_def row_ok_def AUTH_STATES_def)

lemma logs_transition:
  assumes "store_ok s" shows "logs s (store_after s (transition_authorization now m new a r s))"
proof (cases "transition_authorization now m new a r s")
  case (Inr rs)
  obtain q s' where rs: "rs = (q, s')" by (cases rs)
  from Inr [unfolded rs] show ?thesis
  proof (cases rule: transition_cases)
    case (2 d)
    have "auth_of s m = d_authorization (marshal_device d)"
      using assms 2(1) marshal_authorization [of m d] by (auto simp: auth_of_def store_ok_def devices_ok_def)
    then show ?thesis using logs_one [of s m] 2(1,4) Inr rs by (fastforce simp: store_after_def)
  qed (simp add: Inr rs store_after_def logs_frame)
qed (simp add: store_after_def logs_frame)

lemma logs_resolve_rule: "logs s s' \<Longrightarrow> logs s (resolve_rule m r s')"
  by (rule logs_trans, assumption) (simp add: logs_frame)

lemma logs_approve: "store_ok s \<Longrightarrow> logs s (store_after s (approve_device now m a r s))"
  using logs_transition [of s now m "''approved''" a r]
  by (auto simp: approve_device_def store_after_def logs_resolve_rule split: sum.splits option.splits)

lemma logs_upsert:
  assumes "store_ok s" shows "logs s (fst (upsert_device now d s))"
proof (rule logs_same)
  have "d_authorization (merge_device x y) = d_authorization x" "d_authorization (bind_device x) = ''unapproved''" for x y
    by (simp_all add: merge_device_def bind_device_def)
  then show "auth_of (fst (upsert_device now d s)) k = auth_of s k" for k
    by (auto simp: auth_of_def upsert_devices split: option.split)
qed simp

lemma logs_update_row:
  "(\<And>d. d_authorization (f d) = d_authorization d) \<Longrightarrow> logs s (s\<lparr>s_devices := update_row (s_devices s) m f\<rparr>)"
  by (rule logs_same) (auto simp: auth_of_def split: option.split)

lemma logs_burst: "logs s (fst (apply_burst_reentry ms s))"
  by (rule logs_same) (auto simp: apply_burst_reentry_def auth_of_def dict_get_map split: option.split)

lemma reset_one_auth:
  "auth_of (reset_one now a s r) k = (if k = fst r then ''unapproved'' else auth_of s k)"
  by (auto simp: reset_one_def auth_of_def insert_history_def set_authorization_def split: option.split)

lemma logs_reset_rows:
  "distinct (map fst rows) \<Longrightarrow> \<forall>(m, p) \<in> set rows. auth_of s m = p \<and> m \<in> set (dict_keys (s_devices s)) \<Longrightarrow>
   logs s (foldl (reset_one now a) s rows)"
proof (induction rows arbitrary: s)
  case Nil
  then show ?case by (simp add: logs_frame)
next
  case (Cons r rows)
  have "\<forall>(m, p) \<in> set rows. auth_of (reset_one now a s r) m = p \<and>
      m \<in> set (dict_keys (s_devices (reset_one now a s r)))"
  proof (clarify, intro conjI)
    fix m p assume x: "(m, p) \<in> set rows"
    have "m \<in> set (map fst rows)" using imageI [OF x, of fst] by simp
    moreover have "fst r \<notin> set (map fst rows)" using Cons.prems(1) by simp
    ultimately have n: "m \<noteq> fst r" by metis
    show "auth_of (reset_one now a s r) m = p" using x n Cons.prems(2) by (auto simp: reset_one_auth)
    show "m \<in> set (dict_keys (s_devices (reset_one now a s r)))"
      using x Cons.prems(2) by (auto simp: reset_one_def set_authorization_def)
  qed
  then have "logs (reset_one now a s r) (foldl (reset_one now a) (reset_one now a s r) rows)"
    using Cons by simp
  moreover have "logs s (reset_one now a s r)"
    using logs_one [of s "fst r" "snd r" "''unapproved''" a "Some ''baseline-reset''" now None] Cons.prems(2)
    by (simp add: reset_one_def dict_get_None_iff case_prod_beta)
  ultimately show ?case using logs_trans [of s "reset_one now a s r"] by simp
qed

lemma dict_get_in: "distinct (dict_keys t) \<Longrightarrow> (k, v) \<in> set t \<Longrightarrow> dict_get t k = Some v"
  by (induction t) (auto simp: dict_keys_def image_iff)

lemma logs_reset:
  assumes "store_ok s" shows "logs s (fst (baseline_reset now a s))"
proof -
  let ?rows = "map (\<lambda>(m, d). (m, d_authorization d)) (filter (\<lambda>(m, d). d_authorization d \<noteq> ''unapproved'') (s_devices s))"
  have d: "distinct (map fst (s_devices s))"
    using assms by (simp add: store_ok_def devices_ok_def dict_keys_def)
  have "map fst ?rows = map fst (filter (\<lambda>(m, d). d_authorization d \<noteq> ''unapproved'') (s_devices s))"
    by (simp add: case_prod_beta)
  then have dist: "distinct (map fst ?rows)" using d by (simp only: distinct_map_filter)
  have "\<forall>(m, p) \<in> set ?rows. auth_of s m = p \<and> m \<in> set (dict_keys (s_devices s))"
    using dict_get_in [of "s_devices s"] d
    by (auto simp: auth_of_def dict_keys_def intro: rev_image_eqI)
  then show ?thesis using logs_reset_rows [OF dist] by (simp add: baseline_reset_def Let_def)
qed

lemma logs_props: "logs s (store_after s (update_device_props m us s))"
proof -
  have "d_authorization (fold apply_prop us d) = d_authorization d" for d
  proof (induction us arbitrary: d)
    case (Cons u us)
    show ?case using Cons.IH [of "apply_prop u d"] by (cases u) auto
  qed simp
  then show ?thesis
    by (auto simp: update_device_props_def store_after_def Let_def logs_frame logs_update_row split: option.split)
qed

lemma store_exec_logs:
  assumes "store_ok s" "trail_kept p" shows "logs s (store_exec s p)"
  using assms(2)
  by (cases p) (simp_all add: logs_upsert logs_approve logs_transition logs_reset logs_burst logs_props
    logs_resolve_rule logs_frame assms(1) reject_device_def revoke_device_def device_defs logs_update_row
    hosts_upsert_def verdicts_upsert_def add_finding_def prune_resolved_def resolve_many_def Let_def
    mark_discovery_def reopen_learning_window_def record_heartbeat_def
    resolve_finding_def update_status_def snooze_def unsnooze_expired_def update_notes_def)

interpretation audit: audited store_ok auth_of auth_trail store_exec trail_kept
proof (unfold_locales, goal_cases)
  case (1 s p)
  then show ?case by (rule store_exec_ok)
next
  case (2 s p k)
  from store_exec_logs [OF 2] show ?case by (simp add: logs_def)
qed




section \<open>Discovery context\<close>

definition context_of :: "store \<Rightarrow> mac \<Rightarrow> string option" where
  "context_of s m = (case dict_get (s_devices s) m of None \<Rightarrow> None | Some d \<Rightarrow> d_discovery_context d)"

definition has_context :: "mac \<Rightarrow> string \<Rightarrow> store \<Rightarrow> bool" where
  "has_context m c s \<longleftrightarrow> context_of s m = Some c"

text \<open>The only operations that may change the context of \<open>m\<close>.\<close>

fun regrades :: "mac \<Rightarrow> store_op \<Rightarrow> bool" where
  "regrades m ClearDevices = True"
| "regrades m (BurstReentry ms) = (m \<in> set ms)"
| "regrades m _ = False"

lemma context_frame: "s_devices t = s_devices s \<Longrightarrow> context_of t m = context_of s m"
  by (simp add: context_of_def)

lemma context_update_row:
  "(\<And>d. d_discovery_context (f d) = d_discovery_context d) \<Longrightarrow>
   context_of (s\<lparr>s_devices := update_row (s_devices s) k f\<rparr>) m = context_of s m"
  by (auto simp: context_of_def split: option.split)

lemma context_upsert:
  "context_of s m = Some c \<Longrightarrow> context_of (fst (upsert_device now d s)) m = Some c"
  by (auto simp: context_of_def upsert_devices merge_device_def split: option.splits)

lemma context_set_authorization [simp]:
  "context_of (set_authorization k a by s) m = context_of s m"
  unfolding set_authorization_def by (rule context_update_row) simp

lemma context_insert_history [simp]:
  "context_of (insert_history k p n a r now s) m = context_of s m"
  by (simp add: context_of_def)

lemma context_transition:
  "context_of (store_after s (transition_authorization now k n a r s)) m = context_of s m"
proof (cases "transition_authorization now k n a r s")
  case (Inr q)
  obtain x s' where q: "q = (x, s')" by (cases q)
  from Inr [unfolded q] show ?thesis by (cases rule: transition_cases) (simp_all add: Inr q store_after_def)
qed (simp add: store_after_def)

lemma context_approve:
  "context_of (store_after s (approve_device now k a r s)) m = context_of s m"
  using context_transition [of s now k "''approved''" a r m]
  by (auto simp: approve_device_def store_after_def context_frame [OF resolve_rule_frame(1)] split: sum.splits option.splits)

lemma context_reset: "context_of (fst (baseline_reset now a s)) m = context_of s m"
proof -
  have "context_of (foldl (reset_one now a) s rows) m = context_of s m" for rows
    by (rule foldl_inv [where P = "\<lambda>t. context_of t m = context_of s m"]) (simp_all add: reset_one_def)
  then show ?thesis by (simp add: baseline_reset_def Let_def)
qed

lemma context_clear: "context_of (fst (clear_baseline_attestations now a s)) m = context_of s m"
  unfolding clear_baseline_attestations_def
  by (rule foldl_inv [where P = "\<lambda>t. context_of (fst t) m = context_of s m"])
    (auto simp: clear_one_def Let_def split_beta context_update_row split: option.split)

lemma context_props: "context_of (store_after s (update_device_props k us s)) m = context_of s m"
proof -
  have "d_discovery_context (fold apply_prop us d) = d_discovery_context d" for d
  proof (induction us arbitrary: d)
    case (Cons u us)
    show ?case using Cons.IH [of "apply_prop u d"] by (cases u) auto
  qed simp
  then show ?thesis
    by (auto simp: update_device_props_def store_after_def Let_def context_update_row split: option.split)
qed

lemma context_burst: "m \<notin> set ms \<Longrightarrow> context_of (fst (apply_burst_reentry ms s)) m = context_of s m"
  by (auto simp: apply_burst_reentry_def context_of_def dict_get_map split: option.split)

lemma context_frames [simp]:
  "context_of (set_sensor_state now g s) m = context_of s m"
  "context_of (close_learning_window now s) m = context_of s m"
  "context_of (hosts_upsert h s) m = context_of s m"
  "context_of (verdicts_upsert v s) m = context_of s m"
  "context_of (fst (add_finding f s)) m = context_of s m"
  "context_of (fst (update_findings q u s)) m = context_of s m"
  "context_of (fst (prune_resolved now n s)) m = context_of s m"
  "context_of (resolve_rule k r s) m = context_of s m"
  "context_of (s\<lparr>s_known := kn\<rparr>) m = context_of s m"
  by (simp_all add: context_of_def hosts_upsert_def verdicts_upsert_def add_finding_def prune_resolved_def Let_def)

lemma context_kept:
  assumes "has_context m c s" "\<not> regrades m p" shows "has_context m c (store_exec s p)"
  using assms
  by (cases p) (simp_all add: has_context_def context_upsert context_approve context_transition context_reset
    context_clear context_props context_burst reject_device_def revoke_device_def device_defs
    context_update_row
    resolve_many_def Let_def mark_discovery_def reopen_learning_window_def record_heartbeat_def
    resolve_finding_def update_status_def snooze_def unsnooze_expired_def update_notes_def)

interpretation graded: sticky store_exec "has_context m c" "regrades m" for m c
  by unfold_locales (rule context_kept)

text \<open>The learning state stamped on a device when it is first written is final: no write,
  authorisation, window or presence operation changes it, only a burst re-entry naming the device or the
  deletion of all devices.\<close>

theorem discovery_context_final:
  assumes "context_of s m = Some c" "\<forall>p \<in> set ps. \<not> regrades m p"
  shows "context_of (foldl store_exec s ps) m = Some c"
  using graded.kept_run [of m c s ps] assms by (simp add: has_context_def)

theorem discovery_context_final_witness:
  "context_of (foldl store_exec
     (fst (upsert_device 1 ((new_device ''aa'' 1 1)\<lparr>d_discovery_context := Some ''monitored''\<rparr>) empty_store))
     [ReopenWindow 5, UpsertDevice 6 (new_device ''aa'' 2 6), BurstReentry [''bb'']]) ''aa'' = Some ''monitored''"
proof (rule discovery_context_final)
  let ?d = "(new_device ''aa'' 1 1)\<lparr>d_discovery_context := Some ''monitored''\<rparr>"
  show "context_of (fst (upsert_device 1 ?d empty_store)) ''aa'' = Some ''monitored''"
    by (simp add: context_of_def upsert_devices note_device_write_def Let_def empty_store_def
        bind_device_def new_device_def valid_criticality_def)
  show "\<forall>p \<in> set [ReopenWindow 5, UpsertDevice 6 (new_device ''aa'' 2 6), BurstReentry [''bb'']].
      \<not> regrades ''aa'' p" by simp
qed

text \<open>Whether the in-memory set takes an address for a new arrival.\<close>

definition fresh_address :: "mac \<Rightarrow> store \<Rightarrow> bool" where
  "fresh_address m s \<longleftrightarrow> m \<notin> set (case s_known s of Some k \<Rightarrow> k | None \<Rightarrow> dict_keys (s_devices s))"

text \<open>A device without a row is graded by the live window only while its address is not in the
  in-memory set, and only then counts as a discovery; an address that is in the set without having a row
  (after a failed write, or after all devices were cleared) is written as learning even when the window
  is closed.\<close>

theorem new_device_graded:
  assumes "dict_get (s_devices s) (d_mac d) = None" "d_discovery_context d = None"
    "valid_criticality (d_criticality d)" "s_sensor s = Some st"
  shows "context_of (fst (upsert_device now d s)) (d_mac d) =
      Some (if fresh_address (d_mac d) s \<and> window_closed_at st \<noteq> None then ''monitored'' else ''learning'') \<and>
    s_sensor (fst (upsert_device now d s)) =
      Some (if fresh_address (d_mac d) s then st\<lparr>last_discovery_at := now\<rparr> else st)"
  using assms
  by (auto simp: upsert_device_def note_device_write_def write_device_def get_sensor_state_def
      fresh_address_def context_of_def bind_device_def Let_def)

theorem new_device_graded_witness:
  "context_of (fst (upsert_device 9 (new_device ''aa'' 9 9) (clear_all_devices
     (empty_store\<lparr>s_devices := [(''aa'', new_device ''aa'' 1 1)], s_known := Some [''aa''],
       s_sensor := Some \<lparr>first_capture_at = 0, last_discovery_at = 1, window_closed_at = Some 5,
         last_heartbeat_at = None\<rparr>\<rparr>)))) ''aa'' = Some ''learning''"
  using new_device_graded [of "clear_all_devices
     (empty_store\<lparr>s_devices := [(''aa'', new_device ''aa'' 1 1)], s_known := Some [''aa''],
       s_sensor := Some \<lparr>first_capture_at = 0, last_discovery_at = 1, window_closed_at = Some 5,
         last_heartbeat_at = None\<rparr>\<rparr>)" "new_device ''aa'' 9 9"]
  by (simp add: clear_all_devices_def new_device_def valid_criticality_def empty_store_def fresh_address_def)


section \<open>Burst re-entry\<close>

text \<open>Burst re-entry removes nothing: the findings stay in place and order, each either unchanged or
  a new-host warning for a listed address regraded to INFO, and no such warning is left; devices change
  only in their context, which becomes learning exactly for the listed ones, and the window is
  open.\<close>

theorem burst_only_regrades:
  assumes "macs \<noteq> []"
  shows "let s' = fst (apply_burst_reentry macs s)
    in list_all2 (\<lambda>f f'. f' = f \<or> f_rule f = NEW_HOST \<and> f_severity f = WARNING \<and>
          f_hw_addr f \<in> set macs \<and> f' = f\<lparr>f_severity := INFO\<rparr>) (s_findings s) (s_findings s') \<and>
       (\<forall>f \<in> set (s_findings s'). f_rule f = NEW_HOST \<longrightarrow> f_hw_addr f \<in> set macs \<longrightarrow> f_severity f \<noteq> WARNING) \<and>
       list_all2 (\<lambda>(m, d) (m', d'). m' = m \<and>
          d' = d\<lparr>d_discovery_context := if m \<in> set macs then Some ''learning'' else d_discovery_context d\<rparr>)
          (s_devices s) (s_devices s') \<and>
       (\<forall>st. s_sensor s' = Some st \<longrightarrow> window_closed_at st = None) \<and>
       s_hosts s' = s_hosts s \<and> s_history s' = s_history s"
  using assms
  by (auto simp: apply_burst_reentry_def Let_def list_all2_map2 downgrade_def list_all2_same)

theorem burst_only_regrades_witness:
  "s_history (fst (apply_burst_reentry [''aa'']
      (empty_store\<lparr>s_findings := [new_finding 1 ''aa'' NEW_HOST WARNING []]\<rparr>))) = [] \<and>
   list_all2 (\<lambda>f f'. f' = f \<or> f_rule f = NEW_HOST \<and> f_severity f = WARNING \<and>
          f_hw_addr f \<in> set [''aa''] \<and> f' = f\<lparr>f_severity := INFO\<rparr>)
     [new_finding 1 ''aa'' NEW_HOST WARNING []] (s_findings (fst (apply_burst_reentry [''aa'']
      (empty_store\<lparr>s_findings := [new_finding 1 ''aa'' NEW_HOST WARNING []]\<rparr>))))"
  using burst_only_regrades [of "[''aa'']" "empty_store\<lparr>s_findings := [new_finding 1 ''aa'' NEW_HOST WARNING []]\<rparr>"]
  unfolding Let_def by (simp add: empty_store_def)

section \<open>Merging devices\<close>

text \<open>The columns a write may not take back: an update leaves \<open>None\<close> only where \<open>None\<close>
  was.\<close>

definition keeps_known :: "device \<Rightarrow> device \<Rightarrow> bool" where
  "keeps_known a b \<longleftrightarrow>
     (d_hostname b = None \<longrightarrow> d_hostname a = None) \<and> (d_manufacturer b = None \<longrightarrow> d_manufacturer a = None) \<and>
     (d_device_type b = None \<longrightarrow> d_device_type a = None) \<and> (d_os_family b = None \<longrightarrow> d_os_family a = None) \<and>
     (d_ip_v4 b = None \<longrightarrow> d_ip_v4 a = None) \<and> (d_ip_v6 b = None \<longrightarrow> d_ip_v6 a = None) \<and>
     (d_manual_override b = None \<longrightarrow> d_manual_override a = None) \<and> (d_owner b = None \<longrightarrow> d_owner a = None) \<and>
     (d_location b = None \<longrightarrow> d_location a = None) \<and> (d_criticality b = None \<longrightarrow> d_criticality a = None) \<and>
     (d_tags b = [] \<longrightarrow> d_tags a = []) \<and> (d_notes b = None \<longrightarrow> d_notes a = None)"

text \<open>Writing a device over an existing row never loses what the row knows: the recorded interval
  only widens, the confidence only grows, a known column stays known, an operator's device type stays, and
  authorisation, presence state and discovery context are not touched.\<close>

theorem device_upsert_merges:
  assumes "dict_get (s_devices s) (d_mac d) = Some old" "valid_criticality (d_criticality d)"
  shows "\<exists>new. dict_get (s_devices (fst (upsert_device now d s))) (d_mac d) = Some new \<and>
    d_first_seen new = min (d_first_seen old) (d_first_seen d) \<and>
    d_last_seen new = max (d_last_seen old) (d_last_seen d) \<and>
    d_confidence old \<le> d_confidence new \<and> keeps_known old new \<and>
    (d_manual_override old \<noteq> None \<longrightarrow> d_device_type new = d_device_type old) \<and>
    (d_passively_observed old \<longrightarrow> d_passively_observed new) \<and>
    d_authorization new = d_authorization old \<and> d_authorized_by new = d_authorized_by old \<and>
    d_is_online new = d_is_online old \<and> d_offline_since new = d_offline_since old \<and>
    (d_discovery_context old \<noteq> None \<longrightarrow> d_discovery_context new = d_discovery_context old)"
proof -
  let ?d = "fst (snd (note_device_write now d s))"
  have times: "d_first_seen ?d = d_first_seen d" "d_last_seen ?d = d_last_seen d"
    by (simp_all add: note_device_write_def Let_def split_beta)
  show ?thesis using assms times
    by (auto simp: upsert_devices merge_device_def bind_device_def keeps_known_def)
qed

theorem device_upsert_merges_witness:
  "\<exists>new. dict_get (s_devices (fst (upsert_device 9 (new_device ''aa'' 9 9)
      (empty_store\<lparr>s_devices := [(''aa'', (new_device ''aa'' 1 1)\<lparr>d_authorization := ''rejected''\<rparr>)]\<rparr>)))) ''aa'' =
        Some new \<and> d_authorization new = ''rejected''"
  using device_upsert_merges [of "empty_store\<lparr>s_devices := [(''aa'', (new_device ''aa'' 1 1)\<lparr>d_authorization := ''rejected''\<rparr>)]\<rparr>"
      "new_device ''aa'' 9 9" "(new_device ''aa'' 1 1)\<lparr>d_authorization := ''rejected''\<rparr>" 9]
  by (auto simp: new_device_def valid_criticality_def)

section \<open>Hosts\<close>

definition settled :: "mac \<Rightarrow> string \<Rightarrow> store \<Rightarrow> bool" where
  "settled m x s \<longleftrightarrow> x \<in> {''known'', ''self''} \<and> map_option h_disposition (find_host m s) = Some x"

lemma host_frames [simp]:
  "s_hosts (fst (apply_burst_reentry ms s)) = s_hosts s"
  "s_hosts (fst (baseline_reset now a s)) = s_hosts s"
  "s_hosts (fst (clear_baseline_attestations now a s)) = s_hosts s"
  "s_hosts (store_after s (transition_authorization now k n a r s)) = s_hosts s"
  "s_hosts (store_after s (approve_device now k a r s)) = s_hosts s"
  "s_hosts (store_after s (update_device_props k us s)) = s_hosts s"
proof -
  show "s_hosts (fst (apply_burst_reentry ms s)) = s_hosts s" by (simp add: apply_burst_reentry_def)
  have "s_hosts (foldl (reset_one now a) s rows) = s_hosts s" for rows
    by (rule foldl_inv [where P = "\<lambda>t. s_hosts t = s_hosts s"]) (simp_all add: reset_one_def)
  then show "s_hosts (fst (baseline_reset now a s)) = s_hosts s" by (simp add: baseline_reset_def Let_def)
  show "s_hosts (fst (clear_baseline_attestations now a s)) = s_hosts s"
    unfolding clear_baseline_attestations_def
    by (rule foldl_inv [where P = "\<lambda>t. s_hosts (fst t) = s_hosts s"])
      (auto simp: clear_one_def Let_def split_beta split: option.split)
  show t: "s_hosts (store_after s (transition_authorization now k n a r s)) = s_hosts s" for n
  proof (cases "transition_authorization now k n a r s")
    case (Inr q)
    obtain x s' where q: "q = (x, s')" by (cases q)
    from Inr [unfolded q] show ?thesis by (cases rule: transition_cases) (simp_all add: Inr q store_after_def)
  qed (simp add: store_after_def)
  show "s_hosts (store_after s (approve_device now k a r s)) = s_hosts s"
    using t [of "''approved''"]
    by (auto simp: approve_device_def store_after_def split: sum.splits option.splits)
  show "s_hosts (store_after s (update_device_props k us s)) = s_hosts s"
    by (simp add: update_device_props_def store_after_def Let_def split: option.split)
qed

lemma settled_kept: "settled m x s \<Longrightarrow> settled m x (store_exec s p)"
  by (cases p) (auto simp: settled_def find_host_def hosts_upsert_def merge_host_def reject_device_def
    revoke_device_def device_defs verdicts_upsert_def add_finding_def prune_resolved_def resolve_many_def Let_def
    mark_discovery_def reopen_learning_window_def record_heartbeat_def resolve_finding_def update_status_def
    snooze_def unsnooze_expired_def update_notes_def split: option.splits)

interpretation host_settled: sticky store_exec "settled m x" "\<lambda>_. False" for m x
  by unfold_locales (rule settled_kept)

text \<open>A host once recorded as known, or as the sensor itself, keeps that disposition through every
  operation of the store: no later write, an operator's included, can mark it otherwise.\<close>

theorem host_disposition_final:
  assumes "find_host m s = Some h" "h_disposition h = ''known'' \<or> h_disposition h = ''self''"
  shows "\<exists>h'. find_host m (foldl store_exec s ps) = Some h' \<and> h_disposition h' = h_disposition h"
  using host_settled.kept_run [of m "h_disposition h" s ps] assms by (auto simp: settled_def)

theorem host_disposition_final_witness:
  "\<exists>h'. find_host ''aa'' (foldl store_exec
      (empty_store\<lparr>s_hosts := [(''aa'', \<lparr>h_hw_addr = ''aa'', h_ip_addr = None, h_ip_v6 = None, h_discovered_at = 0,
         h_last_active = 0, h_mac_randomized = False, h_real_hw_addr = None, h_disposition = ''known'',
         h_identity_id = None\<rparr>)]\<rparr>)
      [UpsertHost \<lparr>h_hw_addr = ''aa'', h_ip_addr = None, h_ip_v6 = None, h_discovered_at = 0,
         h_last_active = 9, h_mac_randomized = False, h_real_hw_addr = None, h_disposition = ''suspicious'',
         h_identity_id = None\<rparr>]) = Some h' \<and> h_disposition h' = ''known''"
  using host_disposition_final [of "''aa''" "empty_store\<lparr>s_hosts := [(''aa'', \<lparr>h_hw_addr = ''aa'', h_ip_addr = None,
         h_ip_v6 = None, h_discovered_at = 0,
         h_last_active = 0, h_mac_randomized = False, h_real_hw_addr = None, h_disposition = ''known'',
         h_identity_id = None\<rparr>)]\<rparr>" "\<lparr>h_hw_addr = ''aa'', h_ip_addr = None, h_ip_v6 = None, h_discovered_at = 0,
         h_last_active = 0, h_mac_randomized = False, h_real_hw_addr = None, h_disposition = ''known'',
         h_identity_id = None\<rparr>" "[UpsertHost \<lparr>h_hw_addr = ''aa'', h_ip_addr = None, h_ip_v6 = None, h_discovered_at = 0,
         h_last_active = 9, h_mac_randomized = False, h_real_hw_addr = None, h_disposition = ''suspicious'',
         h_identity_id = None\<rparr>]"]
  by (simp add: find_host_def)

text \<open>The recorded activity lags the reported one by less than thirty seconds, and is one of the
  reported times.\<close>

lemma host_activity_tracked:
  assumes "find_host m s = Some h" "\<forall>x \<in> set hs. h_hw_addr x = m"
  shows "\<exists>h'. find_host m (foldl (\<lambda>s x. hosts_upsert x s) s hs) = Some h' \<and>
    h_last_active h' \<in> insert (h_last_active h) (h_last_active ` set hs) \<and>
    h_last_active h \<le> h_last_active h' \<and>
    (\<forall>x \<in> set hs. h_last_active x - 30000000 < h_last_active h')"
  using assms
proof (induction hs arbitrary: s h)
  case (Cons x hs)
  let ?h = "merge_host h (x\<lparr>h_identity_id := None\<rparr>)"
  have "find_host m (hosts_upsert x s) = Some ?h"
    using Cons.prems by (simp add: find_host_def hosts_upsert_def)
  then obtain h' where h': "find_host m (foldl (\<lambda>s x. hosts_upsert x s) (hosts_upsert x s) hs) = Some h'"
      "h_last_active h' \<in> insert (h_last_active ?h) (h_last_active ` set hs)"
      "h_last_active ?h \<le> h_last_active h'" "\<forall>x \<in> set hs. h_last_active x - 30000000 < h_last_active h'"
    using Cons.IH [of "hosts_upsert x s" ?h] Cons.prems(2) by auto
  have l: "h_last_active h \<le> h_last_active ?h" "h_last_active x - 30000000 < h_last_active ?h"
    "h_last_active ?h \<in> {h_last_active h, h_last_active x}"
    by (auto simp: merge_host_def)
  show ?case using h' l by (intro exI [of _ h']) auto
qed simp

end
