(* ===== verification/Baseline.thy ===== *)
theory Baseline
  imports Store
begin

text \<open>
  \<open>baseline.py\<close>: when the learning window of the sensor closes and reopens.  Time spans are
  microseconds, as in \<open>timedelta\<close>; the product of a span with the float \<open>0.2\<close> is computed
  as the standard library does, from the exact ratio of the float with rounding half to even.  One
  call of \<open>datetime.now\<close> stands for the clock readings of a tick.
\<close>

section \<open>Spans\<close>

definition minutes :: "int \<Rightarrow> int" where
  "minutes n = n * 60000000"

definition days :: "int \<Rightarrow> int" where
  "days n = n * 86400000000"

text \<open>\<open>datetime._divide_and_round\<close> for a positive divisor.\<close>

definition divide_and_round :: "int \<Rightarrow> int \<Rightarrow> int" where
  "divide_and_round a b =
     (let q = a div b; r = 2 * (a mod b)
      in if r > b \<or> r = b \<and> odd q then q + 1 else q)"

text \<open>\<open>SATURATION_RATIO = 0.2\<close>, by \<open>float.as_integer_ratio\<close>.\<close>

definition SATURATION_RATIO :: "int \<times> int" where
  "SATURATION_RATIO = (3602879701896397, 18014398509481984)"

definition times_ratio :: "int \<Rightarrow> int" where
  "times_ratio elapsed = divide_and_round (elapsed * fst SATURATION_RATIO) (snd SATURATION_RATIO)"

definition LEARNING_FLOOR :: int where
  "LEARNING_FLOOR = minutes 15"

definition BURST_THRESHOLD :: nat where
  "BURST_THRESHOLD = 3"

definition BURST_WINDOW :: int where
  "BURST_WINDOW = minutes 5"

section \<open>The window\<close>

definition required_quiet :: "int \<Rightarrow> int \<Rightarrow> int" where
  "required_quiet elapsed quiet_period = max quiet_period (times_ratio elapsed)"

definition should_close_window :: "int \<Rightarrow> int \<Rightarrow> int \<Rightarrow> int \<Rightarrow> int \<Rightarrow> int \<Rightarrow> bool" where
  "should_close_window now first_capture last_discovery quiet_period max_window least =
     (let elapsed = now - first_capture
      in if elapsed \<ge> max_window then True
         else if elapsed < least then False
         else now - last_discovery \<ge> required_quiet elapsed quiet_period)"

record baseline_config =
  learning_mode :: string
  quiet_period_minutes :: int
  max_window_days :: int

definition burst_macs :: "int \<Rightarrow> store \<Rightarrow> mac list" where
  "burst_macs since s = map fst (filter (\<lambda>(m, d).
     d_discovery_context d = Some ''monitored'' \<and> d_first_seen d \<ge> since) (s_devices s))"

definition evaluate_window :: "int \<Rightarrow> baseline_config \<Rightarrow> store \<Rightarrow> store" where
  "evaluate_window now cfg s =
     (let (st, s) = get_sensor_state now s
      in if window_closed_at st \<noteq> None then
           let macs = burst_macs (now - BURST_WINDOW) s
           in if length macs \<ge> BURST_THRESHOLD then fst (apply_burst_reentry macs s) else s
         else if learning_mode cfg \<noteq> ''automatic'' then s
         else if should_close_window now (first_capture_at st) (last_discovery_at st)
                   (minutes (quiet_period_minutes cfg)) (days (max_window_days cfg)) LEARNING_FLOOR
         then close_learning_window now s
         else s)"

definition recover_from_outage :: "int \<Rightarrow> baseline_config \<Rightarrow> store \<Rightarrow> store" where
  "recover_from_outage now cfg s =
     (let (st, s) = get_sensor_state now s
      in if window_closed_at st = None then s
         else case last_heartbeat_at st of
           None \<Rightarrow> s
         | Some beat \<Rightarrow>
             if now - beat \<ge> days (max_window_days cfg) then reopen_learning_window now s else s)"

section \<open>The quiet requirement\<close>

text \<open>Below thirty-five years the product with the float is the fifth of the span, rounded to the
  nearest microsecond: the float exceeds one fifth by less than one part in \<open>10 ^ 16\<close>.\<close>

lemma times_ratio_fifth:
  assumes "0 \<le> e" "e < 2 ^ 50" shows "times_ratio e = (e + 2) div 5"
proof -
  define q where "q = e div 5"
  define r where "r = e mod 5"
  let ?b = "18014398509481984 :: int"
  have e: "e = 5 * q + r" and r: "0 \<le> r" "r < 5" and q: "0 \<le> q"
    using assms by (simp_all add: q_def r_def)
  have q50: "q < 2 ^ 50" using assms e r by simp
  have prod: "e * 3602879701896397 = q * ?b + (q + r * 3602879701896397)"
    using e by simp
  have small: "0 \<le> q + r * 3602879701896397" "q + r * 3602879701896397 < ?b"
    using q q50 r by simp_all
  have "(e * 3602879701896397) div ?b = q" "(e * 3602879701896397) mod ?b = q + r * 3602879701896397"
    unfolding prod by (simp_all only: div_mult_self3 mod_mult_self3 div_pos_pos_trivial
      mod_pos_pos_trivial small)
  then have "times_ratio e = (if 2 * (q + r * 3602879701896397) > ?b \<or>
      2 * (q + r * 3602879701896397) = ?b \<and> odd q then q + 1 else q)"
    by (simp add: times_ratio_def SATURATION_RATIO_def divide_and_round_def Let_def)
  moreover have "r \<in> {0, 1, 2, 3, 4}" using r by auto
  moreover have "(e + 2) div 5 = q + (if r \<ge> 3 then 1 else 0)"
    using e r by auto
  ultimately show ?thesis using q50 q by auto
qed

lemma required_quiet_fifth:
  "0 \<le> e \<Longrightarrow> e < 2 ^ 50 \<Longrightarrow> required_quiet e q = max q ((e + 2) div 5)"
  by (simp add: required_quiet_def times_ratio_fifth)

end
