(* ===== verification/BaselineProps.thy ===== *)
theory BaselineProps
  imports Baseline StoreProps
begin

text \<open>
  The learning window as a state machine: what one tick does, when the window closes and that it
  does close.  The contract of a timer that fires is the locale \<open>deadline\<close>.
\<close>

section \<open>A condition that time makes true\<close>

text \<open>A state in which a condition becomes and stays due by a deadline, and a tick that acts on it:
  whatever ticks come before, the first tick after the deadline finds the work done or does it.\<close>

locale deadline =
  fixes tick :: "int \<Rightarrow> 's \<Rightarrow> 's" and waiting :: "'s \<Rightarrow> bool" and achieved :: "'s \<Rightarrow> bool" and due :: int
  assumes keeps: "waiting s \<Longrightarrow> waiting (tick t s) \<or> achieved (tick t s)"
    and stays: "achieved s \<Longrightarrow> achieved (tick t s)"
    and fires: "waiting s \<Longrightarrow> due \<le> t \<Longrightarrow> achieved (tick t s)"
begin

lemma ticks_keep: "waiting s \<or> achieved s \<Longrightarrow> waiting (foldl (\<lambda>s t. tick t s) s ts) \<or> achieved (foldl (\<lambda>s t. tick t s) s ts)"
proof (induction ts arbitrary: s)
  case (Cons t ts)
  then show ?case using keeps stays by (metis foldl_Cons)
qed simp

lemma eventually:
  assumes "waiting s" "due \<le> t" shows "achieved (tick t (foldl (\<lambda>s t. tick t s) s ts))"
  using ticks_keep [of s ts] assms fires stays by blast

end

section \<open>One tick\<close>

text \<open>A tick in automatic mode closes an open window exactly when the sensor has watched for the
  maximum, or for at least the floor with no discovery for the quiet period and for a fifth of the time
  watched; nothing else of the store changes.\<close>

theorem window_closes_when_learned:
  assumes "s_sensor s = Some st" "window_closed_at st = None" "learning_mode cfg = ''automatic''"
    "0 \<le> now - first_capture_at st" "now - first_capture_at st < 2 ^ 50"
  shows "evaluate_window now cfg s =
    (if now - first_capture_at st \<ge> days (max_window_days cfg) \<or>
        now - first_capture_at st \<ge> minutes 15 \<and>
        now - last_discovery_at st \<ge> max (minutes (quiet_period_minutes cfg)) ((now - first_capture_at st + 2) div 5)
     then s\<lparr>s_sensor := Some (st\<lparr>window_closed_at := Some now\<rparr>)\<rparr> else s)"
proof -
  have g: "get_sensor_state now s = (st, s)" using assms(1) by (simp add: get_sensor_state_def)
  have c: "close_learning_window now s = s\<lparr>s_sensor := Some (st\<lparr>window_closed_at := Some now\<rparr>)\<rparr>"
    using assms(1,2) by (simp add: close_learning_window_def set_sensor_state_def get_sensor_state_def)
  show ?thesis
    using assms(2,3) unfolding evaluate_window_def g Let_def
    by (simp add: c should_close_window_def Let_def required_quiet_fifth [OF assms(4,5)] LEARNING_FLOOR_def)
qed

theorem window_closes_when_learned_witness:
  "evaluate_window (minutes 60) \<lparr>learning_mode = ''automatic'', quiet_period_minutes = 30, max_window_days = 7\<rparr>
     (empty_store\<lparr>s_sensor := Some \<lparr>first_capture_at = 0, last_discovery_at = minutes 10, window_closed_at = None,
        last_heartbeat_at = None\<rparr>\<rparr>) =
   empty_store\<lparr>s_sensor := Some \<lparr>first_capture_at = 0, last_discovery_at = minutes 10,
        window_closed_at = Some (minutes 60), last_heartbeat_at = None\<rparr>\<rparr>"
  using window_closes_when_learned [of "empty_store\<lparr>s_sensor := Some \<lparr>first_capture_at = 0,
      last_discovery_at = minutes 10, window_closed_at = None, last_heartbeat_at = None\<rparr>\<rparr>"
      "\<lparr>first_capture_at = 0, last_discovery_at = minutes 10, window_closed_at = None, last_heartbeat_at = None\<rparr>"
      "\<lparr>learning_mode = ''automatic'', quiet_period_minutes = 30, max_window_days = 7\<rparr>" "minutes 60"]
  by (simp add: minutes_def days_def)

section \<open>The window does close\<close>

text \<open>When discoveries have stopped, every condition for closing holds from this time on.\<close>

definition quiet_deadline :: "baseline_config \<Rightarrow> sensor \<Rightarrow> int" where
  "quiet_deadline cfg st =
     max (first_capture_at st + minutes 15)
       (max (last_discovery_at st + minutes (quiet_period_minutes cfg))
          (last_discovery_at st + (last_discovery_at st - first_capture_at st + 2) div 4 + 1))"

lemma quiet_deadline_enough:
  assumes "quiet_deadline cfg st \<le> now" "first_capture_at st \<le> last_discovery_at st"
  shows "now - first_capture_at st \<ge> minutes 15"
    "now - last_discovery_at st \<ge> max (minutes (quiet_period_minutes cfg)) ((now - first_capture_at st + 2) div 5)"
  using assms by (auto simp: quiet_deadline_def)

definition few_monitored :: "store \<Rightarrow> bool" where
  "few_monitored s \<longleftrightarrow>
     length (filter (\<lambda>(m, d). d_discovery_context d = Some ''monitored'') (s_devices s)) < BURST_THRESHOLD"

definition watching :: "baseline_config \<Rightarrow> sensor \<Rightarrow> store \<Rightarrow> bool" where
  "watching cfg st s \<longleftrightarrow> s_sensor s = Some st \<and> window_closed_at st = None \<and>
     learning_mode cfg = ''automatic'' \<and> first_capture_at st \<le> last_discovery_at st \<and>
     days (max_window_days cfg) \<le> 2 ^ 50 \<and> few_monitored s"

definition learned :: "store \<Rightarrow> bool" where
  "learned s \<longleftrightarrow> (\<exists>st. s_sensor s = Some st \<and> window_closed_at st \<noteq> None) \<and> few_monitored s"

lemma burst_macs_few:
  "length (burst_macs since s) \<le> length (filter (\<lambda>(m, d). d_discovery_context d = Some ''monitored'') (s_devices s))"
proof -
  have "length (filter (\<lambda>(m, d). d_discovery_context d = Some ''monitored'' \<and> since \<le> d_first_seen d) xs) \<le>
      length (filter (\<lambda>(m, d). d_discovery_context d = Some ''monitored'') xs)" for xs :: "(mac \<times> device) list"
    by (induction xs) auto
  then show ?thesis by (simp add: burst_macs_def)
qed

lemma learned_stays: "learned s \<Longrightarrow> evaluate_window t cfg s = s"
  using burst_macs_few [of "t - BURST_WINDOW" s]
  by (auto simp: learned_def few_monitored_def evaluate_window_def get_sensor_state_def Let_def)

lemma tick_cases:
  assumes "watching cfg st s"
  shows "evaluate_window t cfg s = s \<or> evaluate_window t cfg s = s\<lparr>s_sensor := Some (st\<lparr>window_closed_at := Some t\<rparr>)\<rparr>"
  using assms by (simp add: watching_def evaluate_window_def get_sensor_state_def close_learning_window_def
      set_sensor_state_def Let_def)

lemma closing_learned:
  "watching cfg st s \<Longrightarrow> learned (s\<lparr>s_sensor := Some (st\<lparr>window_closed_at := Some t\<rparr>)\<rparr>)"
  by (auto simp: watching_def learned_def few_monitored_def)

lemma tick_fires:
  assumes w: "watching cfg st s" and t: "quiet_deadline cfg st \<le> t"
  shows "evaluate_window t cfg s = s\<lparr>s_sensor := Some (st\<lparr>window_closed_at := Some t\<rparr>)\<rparr>"
proof -
  have g: "get_sensor_state t s = (st, s)" using w by (simp add: get_sensor_state_def watching_def)
  have c: "close_learning_window t s = s\<lparr>s_sensor := Some (st\<lparr>window_closed_at := Some t\<rparr>)\<rparr>"
    using w by (simp add: close_learning_window_def set_sensor_state_def get_sensor_state_def watching_def)
  have e: "0 \<le> t - first_capture_at st" using t by (auto simp: quiet_deadline_def minutes_def)
  have "should_close_window t (first_capture_at st) (last_discovery_at st)
      (minutes (quiet_period_minutes cfg)) (days (max_window_days cfg)) LEARNING_FLOOR"
  proof (cases "t - first_capture_at st < 2 ^ 50")
    case True
    show ?thesis using quiet_deadline_enough [OF t] w
      by (simp add: should_close_window_def Let_def required_quiet_fifth [OF e True] LEARNING_FLOOR_def watching_def)
  next
    case False
    then show ?thesis using w by (simp add: should_close_window_def Let_def watching_def)
  qed
  then show ?thesis using w unfolding evaluate_window_def g Let_def by (simp add: c watching_def)
qed

interpretation window: deadline "\<lambda>t. evaluate_window t cfg" "watching cfg st" learned "quiet_deadline cfg st"
  for cfg st
proof (unfold_locales, goal_cases)
  case (1 s t)
  then show ?case using tick_cases [OF 1, of t] closing_learned [OF 1, of t] by auto
next
  case (2 s t)
  then show ?case by (simp add: learned_stays)
next
  case (3 s t)
  then show ?case using tick_fires [OF 3] closing_learned [OF 3(1), of t] by simp
qed

text \<open>Liveness of learning: in automatic mode, once discoveries stop, the first tick after a deadline
  computed from the last discovery finds the window closed or closes it, whatever ticks came before; and
  then no further tick reopens it.\<close>

theorem quiet_network_gets_learned:
  assumes "s_sensor s = Some st" "window_closed_at st = None" "learning_mode cfg = ''automatic''"
    "first_capture_at st \<le> last_discovery_at st" "days (max_window_days cfg) \<le> 2 ^ 50"
    "few_monitored s" "quiet_deadline cfg st \<le> t"
  shows "\<exists>st'. s_sensor (foldl (\<lambda>s t. evaluate_window t cfg s) s (ts @ t # us)) = Some st' \<and>
    window_closed_at st' \<noteq> None"
proof -
  have "watching cfg st s" using assms by (simp add: watching_def)
  then have l: "learned (evaluate_window t cfg (foldl (\<lambda>s t. evaluate_window t cfg s) s ts))"
    using assms(7) by (rule window.eventually)
  have "foldl (\<lambda>s t. evaluate_window t cfg s) s' us = s'" if "learned s'" for s'
    using that by (induction us) (simp_all add: learned_stays)
  then show ?thesis using l by (simp add: learned_def)
qed

theorem quiet_network_gets_learned_witness:
  "\<exists>st'. s_sensor (foldl (\<lambda>s t. evaluate_window t \<lparr>learning_mode = ''automatic'', quiet_period_minutes = 30,
        max_window_days = 7\<rparr> s)
      (empty_store\<lparr>s_sensor := Some \<lparr>first_capture_at = 0, last_discovery_at = 0, window_closed_at = None,
        last_heartbeat_at = None\<rparr>\<rparr>) ([] @ minutes 31 # [minutes 32])) = Some st' \<and> window_closed_at st' \<noteq> None"
  by (rule quiet_network_gets_learned [where st = "\<lparr>first_capture_at = 0, last_discovery_at = 0,
        window_closed_at = None, last_heartbeat_at = None\<rparr>"])
    (simp_all add: days_def minutes_def few_monitored_def empty_store_def BURST_THRESHOLD_def quiet_deadline_def)

end
