(* ===== verification/Presence.thy ===== *)
theory Presence
  imports Store
begin

text \<open>
  \<open>presence/sweeper.py\<close> and \<open>rules/presence.py\<close>: one pass over hosts and devices that
  brings the column \<open>is_online\<close> in line with the last activity, and the findings made from its
  transitions.  The timer task around the pass is left out.
\<close>

section \<open>Thresholds\<close>

definition DEFAULT_PRESENCE_THRESHOLD :: int where
  "DEFAULT_PRESENCE_THRESHOLD = 300"

definition TYPE_PRESENCE_DEFAULTS :: "(ustr \<times> int) list" where
  "TYPE_PRESENCE_DEFAULTS = map (\<lambda>(k, v). (lit k, v))
    [(''phone'', 1800), (''tablet'', 1800), (''wearable'', 3600),
     (''media_device'', 1800), (''media_player'', 1800), (''smart_speaker'', 1800),
     (''streaming_device'', 1800), (''smart_tv'', 1800), (''game_console'', 1800),
     (''laptop'', 1200), (''robot_vacuum'', 3600), (''printer'', 3600),
     (''iot'', 600), (''smart_home'', 600)]"

definition RANDOMIZED_MIN_THRESHOLD :: int where
  "RANDOMIZED_MIN_THRESHOLD = 1800"

definition effective_threshold :: "int \<Rightarrow> ustr option \<Rightarrow> bool \<Rightarrow> int" where
  "effective_threshold base device_type randomized =
     (let base = (if base = 0 then DEFAULT_PRESENCE_THRESHOLD else base)
      in if base \<noteq> DEFAULT_PRESENCE_THRESHOLD then base
         else let eff = get_or TYPE_PRESENCE_DEFAULTS (lower (case device_type of None \<Rightarrow> [] | Some t \<Rightarrow> t)) base
              in if randomized then max eff RANDOMIZED_MIN_THRESHOLD else eff)"

section \<open>The pass\<close>

record presence_row =
  p_mac :: mac
  p_last_seen :: int
  p_online :: bool
  p_threshold :: int
  p_criticality :: "string option"
  p_device_type :: "ustr option"
  p_randomized :: bool
  p_missing :: bool

record transition =
  t_mac :: mac
  t_previous :: string
  t_new :: string
  t_last_seen :: int
  t_threshold :: int
  t_criticality :: "string option"

text \<open>\<open>hosts h FULL OUTER JOIN devices d ON h.hw_addr = d.mac\<close>: the rows of a host, of a host
  with its device, and of a device alone.\<close>

definition host_row :: "store \<Rightarrow> mac \<times> host \<Rightarrow> presence_row" where
  "host_row s mh =
     (case mh of (m, h) \<Rightarrow>
       (case dict_get (s_devices s) m of
          None \<Rightarrow> \<lparr>p_mac = m, p_last_seen = h_last_active h, p_online = True,
             p_threshold = effective_threshold 300 None (h_mac_randomized h), p_criticality = None,
             p_device_type = None, p_randomized = h_mac_randomized h, p_missing = True\<rparr>
        | Some d \<Rightarrow> \<lparr>p_mac = m, p_last_seen = h_last_active h, p_online = d_is_online d,
             p_threshold = effective_threshold (d_presence_threshold_seconds d) (d_device_type d) (h_mac_randomized h),
             p_criticality = d_criticality d, p_device_type = d_device_type d,
             p_randomized = h_mac_randomized h, p_missing = False\<rparr>))"

definition device_row :: "mac \<times> device \<Rightarrow> presence_row" where
  "device_row md =
     (case md of (m, d) \<Rightarrow>
        \<lparr>p_mac = m, p_last_seen = d_last_seen d, p_online = d_is_online d,
          p_threshold = effective_threshold (d_presence_threshold_seconds d) (d_device_type d) (d_is_randomized_mac d),
          p_criticality = d_criticality d, p_device_type = d_device_type d,
          p_randomized = d_is_randomized_mac d, p_missing = False\<rparr>)"

definition sweep_rows :: "store \<Rightarrow> presence_row list" where
  "sweep_rows s = map (host_row s) (s_hosts s) @
     map device_row (filter (\<lambda>(m, d). dict_get (s_hosts s) m = None) (s_devices s))"

definition should_be_online :: "int \<Rightarrow> presence_row \<Rightarrow> bool" where
  "should_be_online now r \<longleftrightarrow> now - p_last_seen r < p_threshold r * 1000000"

definition mk_transition :: "presence_row \<Rightarrow> string \<Rightarrow> string \<Rightarrow> transition" where
  "mk_transition r a b = \<lparr>t_mac = p_mac r, t_previous = a, t_new = b, t_last_seen = p_last_seen r,
     t_threshold = p_threshold r, t_criticality = p_criticality r\<rparr>"

text \<open>The loop body.\<close>

definition sweep_row :: "int \<Rightarrow> store \<times> transition list \<Rightarrow> presence_row \<Rightarrow> store \<times> transition list" where
  "sweep_row now acc r =
     (let (s, ts) = acc; online = p_online r; wanted = should_be_online now r
      in if p_mac r = [] then (s, ts)
         else if online = wanted \<and> \<not> p_missing r then (s, ts)
         else
           let s = (if p_missing r
                    then fst (upsert_device now (new_device (p_mac r) (p_last_seen r) (p_last_seen r)) s)
                    else s)
           in if online \<and> \<not> wanted
              then (set_device_offline now (p_mac r) s, ts @ [mk_transition r ''online'' ''offline''])
              else if \<not> online \<and> wanted
              then (set_device_online (p_mac r) s, ts @ [mk_transition r ''offline'' ''online''])
              else (s, ts))"

definition sweep_once :: "int \<Rightarrow> store \<Rightarrow> store \<times> transition list" where
  "sweep_once now s = foldl (sweep_row now) (s, []) (sweep_rows s)"

section \<open>Findings from transitions\<close>

definition severity_for_offline :: "string option \<Rightarrow> AlertSeverity" where
  "severity_for_offline c =
     get_or [(None, INFO), (Some ''low'', INFO), (Some ''medium'', INFO), (Some ''high'', WARNING),
       (Some ''critical'', WARNING)] c INFO"

text \<open>A finding is stored with its id; the caller's object keeps none.\<close>

definition handle_presence_transition :: "int \<Rightarrow> transition \<Rightarrow> store \<Rightarrow> store \<times> finding option" where
  "handle_presence_transition now t s =
     (if t_new t = ''offline'' then
        let f = new_finding now (t_mac t) DEVICE_WENT_OFFLINE (severity_for_offline (t_criticality t))
                  (lit ''Device '' @ lit (t_mac t) @ lit '' went offline (no traffic for > '' @
                   str_int (t_threshold t) @ lit ''s)'')
        in (fst (add_finding f s), Some f)
      else if t_new t = ''online'' then
        let s = resolve_rule (t_mac t) DEVICE_WENT_OFFLINE s;
            f = new_finding now (t_mac t) DEVICE_CAME_ONLINE INFO
                  (lit ''Device '' @ lit (t_mac t) @ lit '' came back online'')
        in (fst (add_finding f s), Some f)
      else (s, None))"

text \<open>The pass with the rule as its callback.\<close>

definition presence_pass :: "int \<Rightarrow> store \<Rightarrow> store \<times> transition list" where
  "presence_pass now s =
     (let (s, ts) = sweep_once now s
      in (foldl (\<lambda>s t. fst (handle_presence_transition now t s)) s ts, ts))"

end
