(* ===== verification/PresenceProps.thy ===== *)
theory PresenceProps
  imports Presence StoreProps
begin

text \<open>
  The presence pass against its specification: the row of an address says when it was last seen and
  within what threshold it counts as online; a pass makes the stored state agree with that and then has
  nothing left to do.
\<close>

section \<open>The row of an address\<close>

definition row_of :: "store \<Rightarrow> mac \<Rightarrow> presence_row option" where
  "row_of s m = (case dict_get (s_hosts s) m of
     Some h \<Rightarrow> Some (host_row s (m, h))
   | None \<Rightarrow> map_option (\<lambda>d. device_row (m, d)) (dict_get (s_devices s) m))"

definition agrees :: "store \<Rightarrow> presence_row \<Rightarrow> bool" where
  "agrees s r \<longleftrightarrow> (case dict_get (s_devices s) (p_mac r) of
     None \<Rightarrow> p_missing r \<and> p_online r
   | Some d \<Rightarrow> \<not> p_missing r \<and> p_online r = d_is_online d)"

text \<open>What the pass reads of a device besides its state.\<close>

definition device_facts :: "device \<Rightarrow> int \<times> int \<times> ustr option \<times> bool \<times> string option" where
  "device_facts d = (d_last_seen d, d_presence_threshold_seconds d, d_device_type d, d_is_randomized_mac d,
     d_criticality d)"

lemma host_row_fields [simp]:
  "p_mac (host_row s (m, h)) = m" "p_last_seen (host_row s (m, h)) = h_last_active h"
  by (auto simp: host_row_def split: option.split)

lemma device_row_fields [simp]:
  "p_mac (device_row (m, d)) = m" "p_missing (device_row (m, d)) = False"
  "p_online (device_row (m, d)) = d_is_online d" "p_last_seen (device_row (m, d)) = d_last_seen d"
  by (auto simp: device_row_def)

lemma row_of_mac: "row_of s m = Some r \<Longrightarrow> p_mac r = m"
  by (auto simp: row_of_def split: option.splits)

lemma row_of_agrees: "row_of s m = Some r \<Longrightarrow> agrees s r"
  by (auto simp: row_of_def agrees_def host_row_def split: option.splits)

lemma sweep_rows_macs:
  assumes "store_ok s" shows "distinct (map p_mac (sweep_rows s))"
proof -
  let ?ds = "filter (\<lambda>(m, d). dict_get (s_hosts s) m = None) (s_devices s)"
  have h: "map p_mac (map (host_row s) hs) = map fst hs" for hs :: "(mac \<times> host) list"
    by (induction hs) auto
  have d: "map p_mac (map device_row ds) = map fst ds" for ds
    by (induction ds) auto
  have "distinct (map fst (s_hosts s))" "distinct (map fst (s_devices s))"
    using assms by (simp_all add: store_ok_def hosts_ok_def devices_ok_def dict_keys_def)
  moreover have "set (map fst (s_hosts s)) \<inter> set (map fst ?ds) = {}"
    by (fastforce simp: dict_get_None_iff dict_keys_def image_iff)
  ultimately show ?thesis
    unfolding sweep_rows_def map_append distinct_append h d by (simp add: distinct_map_filter)
qed

lemma sweep_rows_row_of:
  assumes "store_ok s" "r \<in> set (sweep_rows s)" shows "row_of s (p_mac r) = Some r"
proof -
  have dk: "distinct (dict_keys (s_hosts s))" "distinct (dict_keys (s_devices s))"
    using assms(1) by (simp_all add: store_ok_def hosts_ok_def devices_ok_def)
  show ?thesis using assms(2) dict_get_in [OF dk(1)] dict_get_in [OF dk(2)]
    by (auto simp: sweep_rows_def row_of_def split: option.split)
qed

lemma row_of_sweep_rows:
  assumes "row_of s m = Some r" shows "r \<in> set (sweep_rows s)"
proof (cases "dict_get (s_hosts s) m")
  case (Some h)
  then have "r = host_row s (m, h)" using assms by (simp add: row_of_def)
  then show ?thesis using dict_get_mem [OF Some] by (simp add: sweep_rows_def)
next
  case None
  then obtain d where d: "dict_get (s_devices s) m = Some d" "r = device_row (m, d)"
    using assms by (auto simp: row_of_def)
  have "(m, d) \<in> set (filter (\<lambda>(m, d). dict_get (s_hosts s) m = None) (s_devices s))"
    using dict_get_mem [OF d(1)] None by simp
  then have "r \<in> set (map device_row (filter (\<lambda>(m, d). dict_get (s_hosts s) m = None) (s_devices s)))"
    unfolding d(2) set_map by (rule imageI)
  then show ?thesis by (simp add: sweep_rows_def)
qed

section \<open>One row\<close>

lemma upsert_new:
  assumes "dict_get (s_devices s) m = None"
  shows "\<exists>d. s_devices (fst (upsert_device now (new_device m a a) s)) = dict_set (s_devices s) m d \<and>
    d_is_online d \<and> device_facts d = (a, 300, None, False, None)"
  using assms
  by (auto simp: upsert_devices upsert_row_def new_device_def valid_criticality_def bind_device_def
      device_facts_def note_device_write_def Let_def split_beta intro!: exI)

lemma presence_devices:
  "dict_get (s_devices (set_device_offline now m s)) k =
     (if k = m then map_option (\<lambda>d. d\<lparr>d_is_online := False, d_offline_since := coalesce (d_offline_since d) (Some now)\<rparr>)
        (dict_get (s_devices s) k) else dict_get (s_devices s) k)"
  "dict_get (s_devices (set_device_online m s)) k =
     (if k = m then map_option (\<lambda>d. d\<lparr>d_is_online := True, d_offline_since := None\<rparr>)
        (dict_get (s_devices s) k) else dict_get (s_devices s) k)"
  by (simp_all add: set_device_offline_def set_device_online_def)

lemma sweep_row_hosts [simp]: "s_hosts (fst (sweep_row now (s, ts) r)) = s_hosts s"
  by (simp add: sweep_row_def Let_def set_device_offline_def set_device_online_def)

lemma sweep_row_other:
  "k \<noteq> p_mac r \<Longrightarrow> dict_get (s_devices (fst (sweep_row now (s, ts) r))) k = dict_get (s_devices s) k"
  by (simp add: sweep_row_def Let_def presence_devices upsert_devices new_device_def)

lemma sweep_row_self:
  assumes "agrees s r" "p_mac r \<noteq> []"
  shows "\<exists>d. dict_get (s_devices (fst (sweep_row now (s, ts) r))) (p_mac r) = Some d \<and>
    d_is_online d = should_be_online now r \<and>
    device_facts d = (case dict_get (s_devices s) (p_mac r) of
      None \<Rightarrow> (p_last_seen r, 300, None, False, None) | Some d0 \<Rightarrow> device_facts d0)"
proof (cases "dict_get (s_devices s) (p_mac r)")
  case None
  then obtain d where "s_devices (fst (upsert_device now (new_device (p_mac r) (p_last_seen r) (p_last_seen r)) s)) =
      dict_set (s_devices s) (p_mac r) d" "d_is_online d" "device_facts d = (p_last_seen r, 300, None, False, None)"
    using upsert_new by blast
  then show ?thesis using assms None
    by (auto simp: agrees_def sweep_row_def Let_def presence_devices device_facts_def)
next
  case (Some d)
  then show ?thesis using assms
    by (auto simp: agrees_def sweep_row_def Let_def presence_devices device_facts_def)
qed

text \<open>The transitions a row adds.\<close>

lemma sweep_row_transitions:
  "snd (sweep_row now (s, ts) r) = ts @
     (if p_mac r = [] \<or> p_online r = should_be_online now r then []
      else if p_online r then [mk_transition r ''online'' ''offline'']
      else [mk_transition r ''offline'' ''online''])"
  by (auto simp: sweep_row_def Let_def)

section \<open>The pass\<close>

lemma sweep_rows_fold:
  assumes "distinct (map p_mac rows)" "\<forall>r \<in> set rows. agrees s r"
  shows "let s' = fst (foldl (sweep_row now) (s, ts) rows)
    in s_hosts s' = s_hosts s \<and>
      (\<forall>k. k \<notin> set (map p_mac rows) \<longrightarrow> dict_get (s_devices s') k = dict_get (s_devices s) k) \<and>
      (\<forall>r \<in> set rows. p_mac r \<noteq> [] \<longrightarrow> (\<exists>d. dict_get (s_devices s') (p_mac r) = Some d \<and>
        d_is_online d = should_be_online now r \<and>
        device_facts d = (case dict_get (s_devices s) (p_mac r) of
          None \<Rightarrow> (p_last_seen r, 300, None, False, None) | Some d0 \<Rightarrow> device_facts d0)))"
  using assms
proof (induction rows arbitrary: s ts)
  case (Cons r rows)
  obtain s1 ts1 where st: "sweep_row now (s, ts) r = (s1, ts1)" by fastforce
  have s1: "s_hosts s1 = s_hosts s" "\<And>k. k \<noteq> p_mac r \<Longrightarrow> dict_get (s_devices s1) k = dict_get (s_devices s) k"
    using sweep_row_hosts [of now s ts r] sweep_row_other [of _ r now s ts] st by simp_all
  have ne: "p_mac x \<noteq> p_mac r" if "x \<in> set rows" for x
    using Cons.prems(1) imageI [OF that, of p_mac] by auto
  have "agrees s1 x" if "x \<in> set rows" for x
    using Cons.prems(2) that s1(2) [OF ne [OF that]] by (simp add: agrees_def)
  then have IH: "let s' = fst (foldl (sweep_row now) (s1, ts1) rows)
    in s_hosts s' = s_hosts s1 \<and>
      (\<forall>k. k \<notin> set (map p_mac rows) \<longrightarrow> dict_get (s_devices s') k = dict_get (s_devices s1) k) \<and>
      (\<forall>r \<in> set rows. p_mac r \<noteq> [] \<longrightarrow> (\<exists>d. dict_get (s_devices s') (p_mac r) = Some d \<and>
        d_is_online d = should_be_online now r \<and>
        device_facts d = (case dict_get (s_devices s1) (p_mac r) of
          None \<Rightarrow> (p_last_seen r, 300, None, False, None) | Some d0 \<Rightarrow> device_facts d0)))"
    using Cons.IH [of s1 ts1] Cons.prems(1) by simp
  have self: "p_mac r \<noteq> [] \<longrightarrow> (\<exists>d. dict_get (s_devices s1) (p_mac r) = Some d \<and>
    d_is_online d = should_be_online now r \<and>
    device_facts d = (case dict_get (s_devices s) (p_mac r) of
      None \<Rightarrow> (p_last_seen r, 300, None, False, None) | Some d0 \<Rightarrow> device_facts d0))"
    using sweep_row_self [of s r now ts] Cons.prems(2) st by simp
  have r: "p_mac r \<notin> set (map p_mac rows)" using Cons.prems(1) by simp
  show ?case using IH self r s1 ne unfolding Let_def foldl_Cons st by auto
qed simp

lemma sweep_once_spec:
  assumes "store_ok s"
  shows "s_hosts (fst (sweep_once now s)) = s_hosts s"
    "row_of s m = None \<Longrightarrow> dict_get (s_devices (fst (sweep_once now s))) m = None"
    "row_of s m = Some r \<Longrightarrow> m \<noteq> [] \<Longrightarrow> \<exists>d. dict_get (s_devices (fst (sweep_once now s))) m = Some d \<and>
        d_is_online d = should_be_online now r \<and>
        device_facts d = (case dict_get (s_devices s) m of
          None \<Rightarrow> (p_last_seen r, 300, None, False, None) | Some d0 \<Rightarrow> device_facts d0)"
proof -
  have "\<forall>r \<in> set (sweep_rows s). agrees s r"
    using sweep_rows_row_of [OF assms] row_of_agrees by blast
  note f = sweep_rows_fold [OF sweep_rows_macs [OF assms] this, of now "[]", unfolded Let_def]
  show "s_hosts (fst (sweep_once now s)) = s_hosts s" using f by (simp add: sweep_once_def)
  show "\<exists>d. dict_get (s_devices (fst (sweep_once now s))) m = Some d \<and>
        d_is_online d = should_be_online now r \<and>
        device_facts d = (case dict_get (s_devices s) m of
          None \<Rightarrow> (p_last_seen r, 300, None, False, None) | Some d0 \<Rightarrow> device_facts d0)"
    if "row_of s m = Some r" "m \<noteq> []"
    using f row_of_sweep_rows [OF that(1)] row_of_mac [OF that(1)] that(2) by (auto simp: sweep_once_def)
  show "dict_get (s_devices (fst (sweep_once now s))) m = None" if "row_of s m = None"
  proof -
    have "m \<notin> set (map p_mac (sweep_rows s))" using that sweep_rows_row_of [OF assms] by force
    moreover have "dict_get (s_devices s) m = None" using that by (auto simp: row_of_def split: option.splits)
    ultimately show ?thesis using f by (simp add: sweep_once_def)
  qed
qed

text \<open>C25: After a presence pass the stored state of every address is the specified one: a device is online
  exactly when its last activity is younger than its threshold, and every host seen in capture has a device
  row.\<close>

theorem sweep_settles:
  assumes "store_ok s" "row_of s m = Some r" "m \<noteq> []"
  shows "\<exists>d. dict_get (s_devices (fst (sweep_once now s))) m = Some d \<and>
    (d_is_online d \<longleftrightarrow> now - p_last_seen r < p_threshold r * 1000000)"
  using sweep_once_spec(3) [OF assms] by (auto simp: should_be_online_def)


theorem sweep_settles_witness:
  "\<exists>d. dict_get (s_devices (fst (sweep_once 600000000
      (empty_store\<lparr>s_hosts := [(''aa'', \<lparr>h_hw_addr = ''aa'', h_ip_addr = None, h_ip_v6 = None, h_discovered_at = 0,
        h_last_active = 0, h_mac_randomized = False, h_real_hw_addr = None, h_disposition = ''known'',
        h_identity_id = None\<rparr>)]\<rparr>)))) ''aa'' = Some d \<and> \<not> d_is_online d"
proof -
  let ?h = "\<lparr>h_hw_addr = ''aa'', h_ip_addr = None, h_ip_v6 = None, h_discovered_at = 0,
        h_last_active = 0, h_mac_randomized = False, h_real_hw_addr = None, h_disposition = ''known'',
        h_identity_id = None\<rparr>"
  let ?s = "empty_store\<lparr>s_hosts := [(''aa'', ?h)]\<rparr>"
  have ok: "store_ok ?s"
    by (simp add: store_ok_def empty_store_def devices_ok_def hosts_ok_def findings_ok_def)
  have thr: "effective_threshold 300 None False = 300"
    by (simp add: effective_threshold_def DEFAULT_PRESENCE_THRESHOLD_def TYPE_PRESENCE_DEFAULTS_def get_or_def
        lower_def lit_def)
  have row: "row_of ?s ''aa'' = Some (host_row ?s (''aa'', ?h))" by (simp add: row_of_def)
  have t: "p_threshold (host_row ?s (''aa'', ?h)) = 300"
    using thr by (simp add: host_row_def empty_store_def)
  have "''aa'' \<noteq> ([] :: mac)" by simp
  from sweep_settles [OF ok row this, of 600000000] show ?thesis by (auto simp: t)
qed

section \<open>The second pass\<close>

lemma sweep_row_ok: "store_ok (fst acc) \<Longrightarrow> store_ok (fst (sweep_row now acc r))"
  by (cases acc) (simp add: sweep_row_def Let_def presence_ops_ok upserts_ok)

lemma sweep_once_ok: "store_ok s \<Longrightarrow> store_ok (fst (sweep_once now s))"
  unfolding sweep_once_def by (rule foldl_inv [where P = "\<lambda>a. store_ok (fst a)"]) (simp_all add: sweep_row_ok)

lemma sweep_transitions_none:
  "\<forall>r \<in> set rows. p_mac r = [] \<or> p_online r = should_be_online now r \<Longrightarrow>
   snd (foldl (sweep_row now) (s, ts) rows) = ts"
proof (induction rows arbitrary: s)
  case (Cons r rows)
  have "snd (sweep_row now (s, ts) r) = ts" using Cons.prems by (simp add: sweep_row_transitions)
  then obtain s1 where "sweep_row now (s, ts) r = (s1, ts)" by (metis surjective_pairing)
  then show ?case using Cons by simp
qed simp

lemma row_of_after_sweep:
  assumes "store_ok s" "row_of (fst (sweep_once now s)) m = Some r'" "m \<noteq> []"
  shows "p_online r' = should_be_online now r'"
proof -
  let ?s' = "fst (sweep_once now s)"
  have hosts: "s_hosts ?s' = s_hosts s" using sweep_once_spec(1) [OF assms(1)] .
  obtain r where r: "row_of s m = Some r"
    using assms(2) sweep_once_spec(2) [OF assms(1), of m now] hosts
    by (cases "row_of s m") (auto simp: row_of_def split: option.splits)
  obtain d where d: "dict_get (s_devices ?s') m = Some d" "d_is_online d = should_be_online now r"
    "device_facts d = (case dict_get (s_devices s) m of
          None \<Rightarrow> (p_last_seen r, 300, None, False, None) | Some d0 \<Rightarrow> device_facts d0)"
    using sweep_once_spec(3) [OF assms(1) r assms(3)] by blast
  have "p_online r' = d_is_online d" "p_last_seen r' = p_last_seen r" "p_threshold r' = p_threshold r"
    using assms(2) r d(1,3) hosts
    by (auto simp: row_of_def host_row_def device_row_def device_facts_def split: option.splits)
  then show ?thesis using d(2) by (simp add: should_be_online_def)
qed

text \<open>A presence pass leaves nothing for a second pass at the same time: no further transition is
  reported.\<close>

theorem sweep_idempotent:
  assumes "store_ok s"
  shows "snd (sweep_once now (fst (sweep_once now s))) = []"
proof -
  have "\<forall>r \<in> set (sweep_rows (fst (sweep_once now s))). p_mac r = [] \<or> p_online r = should_be_online now r"
    using sweep_rows_row_of [OF sweep_once_ok [OF assms]] row_of_after_sweep [OF assms] by blast
  then show ?thesis unfolding sweep_once_def [of now "fst (sweep_once now s)"] by (rule sweep_transitions_none)
qed

theorem sweep_idempotent_witness:
  "snd (sweep_once 5 (fst (sweep_once 5 empty_store))) = []"
  by (rule sweep_idempotent [OF empty_store_ok])

end
