(* ===== verification/Behavior.thy ===== *)
theory Behavior
  imports Evidence
begin

text \<open>
  \<open>processors/behavioral.py\<close>: the DNS profile of a host and the detection of drift.  A
  \<open>Counter\<close> is an association list in order of first insertion.  The vendor of a queried domain
  is an argument of \<open>record_query\<close>; clock values are rationals and ratios of counts are exact (the
  comparisons of the code with its float constants agree with the exact ones).  Percentages are
  reported before their rounding to one decimal.
\<close>

section \<open>Profiles\<close>

record host_profile =
  bp_first_seen :: rat
  vendor_counts :: "(ustr \<times> nat) list"
  total_classified :: nat
  total_queries :: nat
  baseline_vendor :: "ustr option"
  baseline_locked :: bool
  drift_detected_at :: "rat option"

definition fresh_profile :: "rat \<Rightarrow> host_profile" where
  "fresh_profile now = \<lparr>bp_first_seen = now, vendor_counts = [], total_classified = 0, total_queries = 0,
     baseline_vendor = None, baseline_locked = False, drift_detected_at = None\<rparr>"

definition MIN_QUERIES_FOR_PROFILE :: nat where
  "MIN_QUERIES_FOR_PROFILE = 20"

definition LEARNING_PERIOD_SECONDS :: rat where
  "LEARNING_PERIOD_SECONDS = 600"

definition STABLE_DRIFT_DURATION :: rat where
  "STABLE_DRIFT_DURATION = 1800"

definition FIRST_HOUR_SECONDS :: rat where
  "FIRST_HOUR_SECONDS = 3600"

text \<open>\<open>most_common(1)\<close>: the largest count, the earliest inserted among equals.\<close>

definition most_common :: "(ustr \<times> nat) list \<Rightarrow> (ustr \<times> nat) option" where
  "most_common c = (if c = [] then None
     else let v = first_max (\<lambda>v. of_nat (get_or c v 0)) (dict_keys c) in Some (v, get_or c v 0))"

type_synonym tracker = "(string \<times> host_profile) list"

section \<open>Recording\<close>

definition record_profile :: "rat \<Rightarrow> ustr option \<Rightarrow> host_profile \<Rightarrow> host_profile" where
  "record_profile now vend p =
     (let p = p\<lparr>total_queries := total_queries p + 1\<rparr>
      in if \<not> truthy vend then p
         else let v = the vend;
                  p = p\<lparr>vendor_counts := dict_set (vendor_counts p) v (get_or (vendor_counts p) v 0 + 1),
                        total_classified := total_classified p + 1\<rparr>
              in if \<not> baseline_locked p \<and> total_classified p \<ge> MIN_QUERIES_FOR_PROFILE \<and>
                    now - bp_first_seen p \<ge> LEARNING_PERIOD_SECONDS
                 then p\<lparr>baseline_vendor := map_option fst (most_common (vendor_counts p)), baseline_locked := True\<rparr>
                 else p)"

definition record_query :: "rat \<Rightarrow> string \<Rightarrow> ustr option \<Rightarrow> tracker \<Rightarrow> tracker" where
  "record_query now hw vend ps =
     dict_set ps hw (record_profile now vend
       (case dict_get ps hw of None \<Rightarrow> fresh_profile now | Some p \<Rightarrow> p))"

definition is_profiled :: "string \<Rightarrow> tracker \<Rightarrow> bool" where
  "is_profiled hw ps = (case dict_get ps hw of None \<Rightarrow> False
     | Some p \<Rightarrow> total_classified p \<ge> MIN_QUERIES_FOR_PROFILE)"

section \<open>Drift\<close>

record drift =
  from_vendor :: "ustr option"
  from_part :: rat
  to_vendor :: ustr
  to_part :: rat
  observed_for :: rat

definition profile_drift :: "rat \<Rightarrow> host_profile \<Rightarrow> host_profile \<times> drift option" where
  "profile_drift now p =
     (if \<not> baseline_locked p \<or> total_classified p < MIN_QUERIES_FOR_PROFILE then (p, None)
      else case most_common (vendor_counts p) of
        None \<Rightarrow> (p, None)
      | Some (current, n) \<Rightarrow>
          let total = of_nat (total_classified p) :: rat;
              current_pct = of_nat n / total;
              calm = p\<lparr>drift_detected_at := None\<rparr>
          in if Some current = baseline_vendor p then (calm, None)
             else
               let base_count = (case baseline_vendor p of None \<Rightarrow> 0 | Some b \<Rightarrow> get_or (vendor_counts p) b 0);
                   baseline_pct = of_nat base_count / total;
                   age = now - bp_first_seen p;
                   threshold = (if age < FIRST_HOUR_SECONDS then 60 / 100 else 50 / 100);
                   report = \<lparr>from_vendor = baseline_vendor p, from_part = baseline_pct, to_vendor = current,
                             to_part = current_pct, observed_for = age\<rparr>
               in if 1 - baseline_pct \<ge> threshold \<and> current_pct \<ge> 40 / 100 then
                    if age < FIRST_HOUR_SECONDS then (p, Some report)
                    else (case drift_detected_at p of
                            None \<Rightarrow> (p\<lparr>drift_detected_at := Some now\<rparr>, None)
                          | Some t \<Rightarrow> if now - t < STABLE_DRIFT_DURATION then (p, None) else (p, Some report))
                  else (calm, None))"

definition check_drift :: "rat \<Rightarrow> string \<Rightarrow> tracker \<Rightarrow> tracker \<times> drift option" where
  "check_drift now hw ps =
     (case dict_get ps hw of
        None \<Rightarrow> (ps, None)
      | Some p \<Rightarrow> let (p, d) = profile_drift now p in (dict_set ps hw p, d))"

text \<open>\<open>get_affinity_evidence\<close>: the vendor with at least four fifths of the classified
  queries.\<close>

definition affinity_vendor :: "string \<Rightarrow> tracker \<Rightarrow> ustr option" where
  "affinity_vendor hw ps =
     (case dict_get ps hw of
        None \<Rightarrow> None
      | Some p \<Rightarrow>
          if \<not> baseline_locked p \<or> total_classified p < MIN_QUERIES_FOR_PROFILE then None
          else case most_common (vendor_counts p) of
            None \<Rightarrow> None
          | Some (v, n) \<Rightarrow> if of_nat n / (of_nat (total_classified p) :: rat) < 80 / 100 then None else Some v)"

text \<open>\<open>_maybe_prune_tracker\<close> of \<open>rules/behavioral.py\<close>: every five-hundredth evaluation
  drops the profiles that are older than an hour and have fewer than five queries.\<close>

definition prune_tracker :: "rat \<Rightarrow> nat \<Rightarrow> tracker \<Rightarrow> nat \<times> tracker" where
  "prune_tracker now counter ps =
     (let counter = counter + 1
      in (counter, if counter mod 500 \<noteq> 0 then ps
          else filter (\<lambda>(hw, p). \<not> (now - bp_first_seen p > 3600 \<and> total_queries p < 5)) ps))"

section \<open>Profiles count what was recorded\<close>

definition profile_ok :: "host_profile \<Rightarrow> bool" where
  "profile_ok p \<longleftrightarrow> distinct (dict_keys (vendor_counts p)) \<and>
     sum_list (map snd (vendor_counts p)) = total_classified p \<and> total_classified p \<le> total_queries p \<and>
     (\<forall>x \<in> set (vendor_counts p). 0 < snd x) \<and>
     (baseline_locked p \<longrightarrow> MIN_QUERIES_FOR_PROFILE \<le> total_classified p \<and>
        (\<exists>v. baseline_vendor p = Some v \<and> v \<in> set (dict_keys (vendor_counts p))))"

lemma sum_dict_set:
  "distinct (dict_keys c) \<Longrightarrow> sum_list (map snd (dict_set c v (get_or c v 0 + (k :: nat)))) = sum_list (map snd c) + k"
  by (induction c) (auto simp: get_or_def)

lemma most_common_key: "most_common c = Some (v, n) \<Longrightarrow> v \<in> set (dict_keys c) \<and> n = get_or c v 0"
  using first_max_in [of "dict_keys c"] by (auto simp: most_common_def Let_def dict_keys_def split: if_splits)

lemma most_common_some: "c \<noteq> [] \<Longrightarrow> \<exists>v n. most_common c = Some (v, n)"
  by (simp add: most_common_def Let_def)

lemma fresh_profile_ok: "profile_ok (fresh_profile now)"
  by (simp add: profile_ok_def fresh_profile_def dict_keys_def)

lemma dict_keys_nonempty: "c \<noteq> [] \<Longrightarrow> dict_keys c \<noteq> []"
  by (cases c) auto

lemma positive_dict_set:
  "\<forall>x \<in> set c. 0 < snd x \<Longrightarrow> 0 < n \<Longrightarrow> \<forall>x \<in> set (dict_set c v n). 0 < (snd x :: nat)"
  using set_dict_set [of c v n] by auto

lemma record_profile_ok:
  assumes "profile_ok p" shows "profile_ok (record_profile now vend p)"
proof (cases "truthy vend")
  case True
  define v where "v = the vend"
  let ?c = "dict_set (vendor_counts p) v (get_or (vendor_counts p) v 0 + 1)"
  have ne: "?c \<noteq> []" by (cases "vendor_counts p") (auto split: if_splits)
  obtain w n where w: "most_common ?c = Some (w, n)" using most_common_some [OF ne] by blast
  have k: "set (dict_keys (vendor_counts p)) \<subseteq> set (dict_keys ?c)" by (auto simp: dict_keys_set)
  have s: "sum_list (map snd ?c) = sum_list (map snd (vendor_counts p)) + 1" "distinct (dict_keys ?c)"
    using assms sum_dict_set [of "vendor_counts p" v 1] by (simp_all add: profile_ok_def distinct_dict_set)
  have pos: "\<forall>x \<in> set ?c. 0 < snd x"
    using assms by (intro positive_dict_set) (simp_all add: profile_ok_def)
  show ?thesis
    using assms True s pos w k most_common_key [OF w] unfolding v_def
    by (auto simp: profile_ok_def record_profile_def Let_def)
qed (use assms in \<open>simp add: record_profile_def profile_ok_def\<close>)

lemma profile_drift_fields:
  "vendor_counts (fst (profile_drift now p)) = vendor_counts p"
  "total_classified (fst (profile_drift now p)) = total_classified p"
  "total_queries (fst (profile_drift now p)) = total_queries p"
  "baseline_vendor (fst (profile_drift now p)) = baseline_vendor p"
  "baseline_locked (fst (profile_drift now p)) = baseline_locked p"
  "bp_first_seen (fst (profile_drift now p)) = bp_first_seen p"
  by (auto simp: profile_drift_def Let_def split: option.split)

lemma profile_drift_ok: "profile_ok p \<Longrightarrow> profile_ok (fst (profile_drift now p))"
  by (simp add: profile_ok_def profile_drift_fields)

section \<open>Alarms\<close>

text \<open>What happens to one profile: a query with its vendor, or a check.\<close>

datatype profile_event = Query rat "ustr option" | Check rat

fun profile_step :: "host_profile \<Rightarrow> profile_event \<Rightarrow> host_profile" where
  "profile_step p (Query now v) = record_profile now v p"
| "profile_step p (Check now) = fst (profile_drift now p)"

lemma profile_steps_ok: "profile_ok p \<Longrightarrow> profile_ok (foldl profile_step p es)"
proof (induction es arbitrary: p)
  case (Cons e es)
  then show ?case by (cases e) (auto simp: record_profile_ok profile_drift_ok)
qed simp

lemma drift_time_checked:
  "drift_detected_at (foldl profile_step p es) = Some t \<Longrightarrow> drift_detected_at p = None \<Longrightarrow> Check t \<in> set es"
proof (induction es rule: rev_induct)
  case (snoc e es)
  let ?p = "foldl profile_step p es"
  have "drift_detected_at (profile_step ?p e) = drift_detected_at ?p \<or> drift_detected_at (profile_step ?p e) = None \<or>
      (\<exists>now. e = Check now \<and> drift_detected_at (profile_step ?p e) = Some now)"
    by (cases e) (auto simp: record_profile_def profile_drift_def Let_def split: option.split)
  then show ?case using snoc by auto
qed simp

text \<open>What a report says of the profile it is made from.\<close>

lemma drift_report:
  assumes "profile_ok p" "snd (profile_drift now p) = Some d"
  shows "baseline_locked p" "from_vendor d = baseline_vendor p" "from_vendor d \<noteq> Some (to_vendor d)"
    "MIN_QUERIES_FOR_PROFILE \<le> total_classified p" "40 / 100 \<le> to_part d" "from_part d \<le> 50 / 100"
    "now - bp_first_seen p < FIRST_HOUR_SECONDS \<or>
      (\<exists>t. drift_detected_at p = Some t \<and> STABLE_DRIFT_DURATION \<le> now - t)"
    "most_common (vendor_counts p) = Some (to_vendor d, get_or (vendor_counts p) (to_vendor d) 0)"
  using assms most_common_key [of "vendor_counts p"]
  by (auto simp: profile_drift_def Let_def not_less split: option.splits if_splits)

text \<open>A drift alarm is never sudden: it names the locked baseline and a different vendor that leads the
  classified queries with at least two fifths while the baseline has fallen to half or less, and on a host
  watched for over an hour an earlier check at least half an hour before had already seen the drift.\<close>

theorem drift_alarm_sustained:
  assumes "snd (profile_drift now (foldl profile_step (fresh_profile t0) es)) = Some d"
  shows "from_vendor d \<noteq> None \<and> from_vendor d \<noteq> Some (to_vendor d) \<and> 40 / 100 \<le> to_part d \<and>
    from_part d \<le> 50 / 100 \<and>
    (bp_first_seen (foldl profile_step (fresh_profile t0) es) + 3600 \<le> now \<longrightarrow>
      (\<exists>t. Check t \<in> set es \<and> t + 1800 \<le> now))"
proof -
  let ?p = "foldl profile_step (fresh_profile t0) es"
  have ok: "profile_ok ?p" by (rule profile_steps_ok [OF fresh_profile_ok])
  note r = drift_report [OF ok assms]
  have "from_vendor d \<noteq> None" using ok r(1,2) by (auto simp: profile_ok_def)
  moreover have "\<exists>t. Check t \<in> set es \<and> t + 1800 \<le> now" if "bp_first_seen ?p + 3600 \<le> now"
  proof -
    have "\<not> now - bp_first_seen ?p < FIRST_HOUR_SECONDS" using that by (simp add: FIRST_HOUR_SECONDS_def)
    then obtain t where t: "drift_detected_at ?p = Some t" "STABLE_DRIFT_DURATION \<le> now - t"
      using r(7) by blast
    have "Check t \<in> set es" using drift_time_checked [OF t(1)] by (simp add: fresh_profile_def)
    then show ?thesis using t(2) by (auto simp: STABLE_DRIFT_DURATION_def)
  qed
  ultimately show ?thesis using r(3,5,6) by blast
qed


theorem drift_alarm_sustained_witness:
  "\<exists>d. snd (profile_drift 800 (foldl profile_step (fresh_profile 0)
      (replicate 20 (Query 600 (Some [65])) @ replicate 31 (Query 700 (Some [66]))))) = Some d \<and>
    from_vendor d \<noteq> Some (to_vendor d)"
proof -
  let ?es = "replicate 20 (Query 600 (Some [65])) @ replicate 31 (Query 700 (Some [66]))"
  have "snd (profile_drift 800 (foldl profile_step (fresh_profile 0) ?es)) =
      Some \<lparr>from_vendor = Some [65], from_part = 20 / 51, to_vendor = [66], to_part = 31 / 51, observed_for = 800\<rparr>"
    by code_simp
  then show ?thesis using drift_alarm_sustained [of 800 0 ?es] by blast
qed

end
