(* ===== verification/Rules.thy ===== *)
theory Rules
  imports Presence Behavior
begin

text \<open>
  The finding rules of \<open>rules/\<close>: new hosts and low certainty (\<open>discovery.py\<close>), identity
  shifts and address conflicts (\<open>drift.py\<close>), randomised addresses (\<open>randomization.py\<close>) and
  behavioural drift (\<open>behavioral.py\<close>), run in the order of their registration.  The module-level
  dictionaries are the state \<open>rule_state\<close>.  A rule is a function of the two clocks (the UTC time
  and the monotonic one), the host, the verdict and the store.
\<close>

section \<open>State and text\<close>

record rule_state =
  low_cert_fired :: "(mac \<times> int) list"
  shift_fired :: "(mac \<times> rat) list"
  conflict_fired :: "(mac \<times> rat) list"
  behavior :: tracker
  eval_counter :: nat

definition rule_state0 :: rule_state where
  "rule_state0 = \<lparr>low_cert_fired = [], shift_fired = [], conflict_fired = [], behavior = [], eval_counter = 0\<rparr>"

text \<open>An em dash between blanks, and an arrow.\<close>

definition DASH :: ustr where
  "DASH = [32, 8212, 32]"

definition ARROW :: ustr where
  "ARROW = [32, 8594, 32]"

definition truthy_s :: "string option \<Rightarrow> bool" where
  "truthy_s x \<longleftrightarrow> x \<noteq> None \<and> x \<noteq> Some []"

definition text_of :: "ustr option \<Rightarrow> ustr" where
  "text_of x = (case x of None \<Rightarrow> [] | Some t \<Rightarrow> t)"

definition part_if :: "bool \<Rightarrow> ustr \<Rightarrow> ustr list" where
  "part_if b t = (if b then [t] else [])"

section \<open>discovery.py\<close>

definition device_authorization :: "mac \<Rightarrow> store \<Rightarrow> string" where
  "device_authorization m s = (case dict_get (s_devices s) m of None \<Rightarrow> ''unapproved'' | Some d \<Rightarrow> d_authorization d)"

definition device_passively_observed :: "mac \<Rightarrow> store \<Rightarrow> bool" where
  "device_passively_observed m s = (case dict_get (s_devices s) m of None \<Rightarrow> True | Some d \<Rightarrow> d_passively_observed d)"

definition device_discovery_context :: "mac \<Rightarrow> store \<Rightarrow> string" where
  "device_discovery_context m s = (case dict_get (s_devices s) m of
     None \<Rightarrow> ''learning''
   | Some d \<Rightarrow> (case d_discovery_context d of None \<Rightarrow> ''learning'' | Some c \<Rightarrow> c))"

definition new_host_severity :: "mac \<Rightarrow> store \<Rightarrow> AlertSeverity" where
  "new_host_severity m s =
     (let sev = (if device_authorization m s = ''rejected'' then CRITICAL
                 else if device_discovery_context m s = ''learning'' then INFO
                 else WARNING)
      in if \<not> device_passively_observed m s then INFO else sev)"

definition new_host_rule :: "int \<Rightarrow> host \<Rightarrow> verdict \<Rightarrow> store \<Rightarrow> finding option" where
  "new_host_rule now h v s =
     (if h_disposition h = ''new'' then
        let parts = [lit ''New host discovered: '' @ lit (h_hw_addr h)] @
              part_if (truthy (v_vendor v)) (text_of (v_vendor v)) @
              part_if (truthy (v_category v)) (text_of (v_category v)) @
              part_if (truthy_s (h_ip_addr h)) (lit (the (h_ip_addr h))) @
              part_if (h_mac_randomized h) (lit ''randomized MAC'') @
              part_if (device_authorization (h_hw_addr h) s = ''rejected'') (lit ''authorization: rejected'')
        in Some (new_finding now (h_hw_addr h) NEW_HOST (new_host_severity (h_hw_addr h) s) (join DASH parts))
      else None)"

definition LOW_CERT_COOLDOWN :: int where
  "LOW_CERT_COOLDOWN = 3600000000"

definition low_certainty_rule ::
    "int \<Rightarrow> host \<Rightarrow> verdict \<Rightarrow> store \<Rightarrow> rule_state \<Rightarrow> rule_state \<times> finding option" where
  "low_certainty_rule now h v s r =
     (let hw = h_hw_addr h
      in if v_certainty v < 50 \<and> h_disposition h \<in> {''known'', ''new''} then
           if (case dict_get (low_cert_fired r) hw of None \<Rightarrow> False | Some prev \<Rightarrow> now - prev < LOW_CERT_COOLDOWN)
           then (r, None)
           else if open_finding hw LOW_CERTAINTY s then (r, None)
           else (r\<lparr>low_cert_fired := dict_set (low_cert_fired r) hw now\<rparr>,
                 Some (new_finding now hw LOW_CERTAINTY LOW
                   (lit ''Host '' @ lit hw @ lit '' has low identification certainty ('' @
                    str_int (v_certainty v) @ lit ''%)'')))
         else (r, None))"

section \<open>drift.py\<close>

definition prune_fired :: "rat \<Rightarrow> (mac \<times> rat) list \<Rightarrow> (mac \<times> rat) list" where
  "prune_fired now fired =
     (if length fired > 10000 then filter (\<lambda>(k, v). \<not> now - v > 600) fired else fired)"

text \<open>\<open>now - fired.get(hw, 0) < cooldown\<close>: an address that never fired counts as fired at
  zero.\<close>

definition cooling :: "rat \<Rightarrow> rat \<Rightarrow> (mac \<times> rat) list \<Rightarrow> mac \<Rightarrow> bool" where
  "cooling cooldown now fired hw \<longleftrightarrow> now - get_or fired hw 0 < cooldown"

definition differs :: "ustr option \<Rightarrow> ustr option \<Rightarrow> bool" where
  "differs a b \<longleftrightarrow> truthy a \<and> truthy b \<and> a \<noteq> b"

definition changed_part :: "string \<Rightarrow> ustr option \<Rightarrow> ustr option \<Rightarrow> ustr" where
  "changed_part what a b = lit what @ lit '': '' @ text_of a @ ARROW @ text_of b"

text \<open>What changed between the stored and the new verdict, as severity and message.\<close>

definition shift_report :: "mac \<Rightarrow> verdict \<Rightarrow> verdict \<Rightarrow> (AlertSeverity \<times> ustr) option" where
  "shift_report hw old v =
     (let cat = differs (v_category old) (v_category v);
          vend = differs (v_vendor old) (v_vendor v);
          plat = differs (v_platform old) (v_platform v);
          vers = differs (v_platform_version old) (v_platform_version v)
      in if \<not> (cat \<or> vend \<or> plat \<or> vers) then None
         else if cat \<or> vend then
           Some (CRITICAL, lit ''Identity shift on '' @ lit hw @ lit '': '' @ join (lit '', '')
             (part_if cat (changed_part ''category'' (v_category old) (v_category v)) @
              part_if vend (changed_part ''vendor'' (v_vendor old) (v_vendor v)) @
              part_if plat (changed_part ''platform'' (v_platform old) (v_platform v))))
         else if plat then
           Some (HIGH, lit ''Platform changed on '' @ lit hw @ lit '': '' @
             text_of (v_platform old) @ ARROW @ text_of (v_platform v))
         else
           Some (INFO, lit ''Platform version changed on '' @ lit hw @ lit '': '' @
             text_of (v_platform_version old) @ ARROW @ text_of (v_platform_version v)))"

definition identity_shift_rule ::
    "int \<Rightarrow> rat \<Rightarrow> host \<Rightarrow> verdict \<Rightarrow> store \<Rightarrow> rule_state \<Rightarrow> rule_state \<times> finding option" where
  "identity_shift_rule now mt h v s r =
     (case find_verdict (h_hw_addr h) s of
        None \<Rightarrow> (r, None)
      | Some old \<Rightarrow>
          if v_certainty old < 50 \<or> v_certainty v < 50 \<or> length (evidence_chain old) < 3 \<or>
             now - h_discovered_at h < 60000000 then (r, None)
          else
            let r = r\<lparr>shift_fired := prune_fired mt (shift_fired r)\<rparr>;
                hw = h_hw_addr h
            in if cooling 300 mt (shift_fired r) hw then (r, None)
               else (case shift_report hw old v of
                       None \<Rightarrow> (r, None)
                     | Some (sev, msg) \<Rightarrow>
                         (r\<lparr>shift_fired := dict_set (shift_fired r) hw mt\<rparr>,
                          Some (new_finding now hw IDENTITY_SHIFT sev msg))))"

text \<open>The query for conflicting hosts compares an \<open>isoformat()\<close> text with one of
  \<open>datetime('now', '-5 minutes')\<close>.\<close>

definition conflicting_hosts :: "int \<Rightarrow> host \<Rightarrow> store \<Rightarrow> mac list" where
  "conflicting_hosts now h s = map fst (filter (\<lambda>(m, x).
     h_ip_addr x = h_ip_addr h \<and> m \<noteq> h_hw_addr h \<and>
     \<not> iso_before_sqlite (h_last_active x) (now - 300000000)) (s_hosts s))"

definition addr_conflict_rule ::
    "int \<Rightarrow> rat \<Rightarrow> host \<Rightarrow> store \<Rightarrow> rule_state \<Rightarrow> rule_state \<times> finding option" where
  "addr_conflict_rule now mt h s r =
     (if \<not> truthy_s (h_ip_addr h) then (r, None)
      else
        let r = r\<lparr>conflict_fired := prune_fired mt (conflict_fired r)\<rparr>;
            hw = h_hw_addr h
        in if cooling 300 mt (conflict_fired r) hw then (r, None)
           else (case conflicting_hosts now h s of
                   [] \<Rightarrow> (r, None)
                 | other # _ \<Rightarrow>
                     if open_finding hw ADDR_CONFLICT s then (r, None)
                     else (r\<lparr>conflict_fired := dict_set (conflict_fired r) hw mt\<rparr>,
                           Some (new_finding now hw ADDR_CONFLICT HIGH
                             (lit ''Address conflict: '' @ lit (the (h_ip_addr h)) @ lit '' claimed by '' @
                              lit hw @ lit '' and '' @ lit other)))))"

section \<open>behavioral.py\<close>

text \<open>\<open>show1\<close> renders a number rounded to one decimal.\<close>

definition behavioral_drift_rule ::
    "(rat \<Rightarrow> ustr) \<Rightarrow> int \<Rightarrow> rat \<Rightarrow> host \<Rightarrow> rule_state \<Rightarrow> rule_state \<times> finding option" where
  "behavioral_drift_rule show1 now mt h r =
     (let (counter, ps) = prune_tracker mt (eval_counter r) (behavior r);
          (ps, d) = check_drift mt (h_hw_addr h) ps;
          r = r\<lparr>eval_counter := counter, behavior := ps\<rparr>
      in case d of
           None \<Rightarrow> (r, None)
         | Some d \<Rightarrow> (r, Some (new_finding now (h_hw_addr h) BEHAVIORAL_DRIFT HIGH
             (lit ''DNS behavioral drift on '' @ lit (h_hw_addr h) @ lit '': profile shifted from '' @
              text_of (from_vendor d) @ lit '' ('' @ show1 (from_part d * 100) @ lit ''%) to '' @
              to_vendor d @ lit '' ('' @ show1 (to_part d * 100) @ lit ''%) over '' @
              show1 (observed_for d / 60) @ lit '' minutes''))))"

section \<open>randomization.py\<close>

definition randomized_addr_rule :: "int \<Rightarrow> host \<Rightarrow> verdict \<Rightarrow> store \<Rightarrow> finding option" where
  "randomized_addr_rule now h v s =
     (if \<not> h_mac_randomized h \<or> open_finding (h_hw_addr h) RANDOMIZED_ADDR s then None
      else
        let label = (if truthy (v_hostname v)
                     then (if truthy (v_vendor v)
                           then text_of (v_hostname v) @ lit '' ('' @ text_of (v_vendor v) @ lit '')''
                           else text_of (v_hostname v))
                     else text_of (v_vendor v));
            parts = [lit ''Randomized MAC detected: '' @ lit (h_hw_addr h)] @
              part_if (label \<noteq> []) (lit ''identified as '' @ label) @
              part_if (truthy (v_platform v)) (lit ''running '' @ text_of (v_platform v)) @
              part_if (truthy_s (h_real_hw_addr h)) (lit ''real MAC: '' @ lit (the (h_real_hw_addr h))) @
              part_if (truthy_s (h_ip_addr h)) (lit ''IP: '' @ lit (the (h_ip_addr h)))
        in Some (new_finding now (h_hw_addr h) RANDOMIZED_ADDR INFO (join DASH parts)))"

text \<open>\<open>LIKE '%...%'\<close> ignores the case of ASCII letters.\<close>

definition like :: "string \<Rightarrow> ustr \<Rightarrow> bool" where
  "like p t \<longleftrightarrow> contains_sub (lower (lit p)) (lower t)"

definition collision_reported :: "mac \<Rightarrow> store \<Rightarrow> bool" where
  "collision_reported hw s \<longleftrightarrow> list_ex (\<lambda>f. f_hw_addr f = hw \<and>
     f_rule f \<in> {BEHAVIORAL_DRIFT, RANDOMIZED_ADDR} \<and> \<not> f_resolved f \<and>
     (like ''shares hostname'' (f_message f) \<or> like ''MAC rotation'' (f_message f))) (s_findings s)"

text \<open>The hosts whose stored verdict has the same host name, latest activity first, at most
  five.\<close>

definition same_hostname :: "ustr \<Rightarrow> mac \<Rightarrow> store \<Rightarrow> host list" where
  "same_hostname hn hw s = take 5 (sort_key (\<lambda>h. - h_last_active h)
     (map snd (filter (\<lambda>(m, h). m \<noteq> hw \<and>
        (case dict_get (s_verdicts s) m of None \<Rightarrow> False | Some v \<Rightarrow> v_hostname v = Some hn)) (s_hosts s))))"

definition other_label :: "host \<Rightarrow> store \<Rightarrow> ustr" where
  "other_label h s =
     (case dict_get (s_verdicts s) (h_hw_addr h) of
        None \<Rightarrow> lit (h_hw_addr h)
      | Some v \<Rightarrow>
          if truthy (v_vendor v)
          then text_of (v_vendor v) @ lit '' '' @ (case h_ip_addr h of None \<Rightarrow> lit ''None'' | Some ip \<Rightarrow> lit ip)
          else lit (h_hw_addr h))"

definition collision_rule :: "int \<Rightarrow> host \<Rightarrow> verdict \<Rightarrow> store \<Rightarrow> finding option" where
  "collision_rule now h v s =
     (if \<not> h_mac_randomized h \<or> \<not> truthy (v_hostname v) then None
      else
        let hw = h_hw_addr h; hn = text_of (v_hostname v)
        in if collision_reported hw s then None
           else
             let matches = same_hostname hn hw s;
                 active = filter (\<lambda>m. h_last_active m \<ge> now - 1800000000) matches;
                 stale = filter (\<lambda>m. \<not> h_last_active m \<ge> now - 1800000000) matches
             in case active of
                  other # _ \<Rightarrow> Some (new_finding now hw ADDR_CONFLICT WARNING
                    (lit ''Randomized MAC '' @ lit hw @ lit '' shares hostname \"'' @ hn @
                     lit ''\" with active device '' @ other_label other s @ lit '' ('' @ lit (h_hw_addr other) @
                     lit ''). Possible MAC rotation or spoofing attempt.''))
                | [] \<Rightarrow> (case stale of
                    other # _ \<Rightarrow> Some (new_finding now hw RANDOMIZED_ADDR INFO
                      (lit ''MAC rotation detected: '' @ lit hw @ lit '' appears to be the same device as '' @
                       lit (h_hw_addr other) @ lit '' (hostname: \"'' @ hn @
                       lit ''\"). Previous MAC is now offline.''))
                  | [] \<Rightarrow> None))"

section \<open>All rules\<close>

text \<open>The loop of the pipeline over the registered rules: the finding of each rule is stored before the
  next rule runs.\<close>

definition store_finding :: "finding option \<Rightarrow> store \<Rightarrow> store" where
  "store_finding f s = (case f of None \<Rightarrow> s | Some f \<Rightarrow> fst (add_finding f s))"

definition run_rules ::
    "(rat \<Rightarrow> ustr) \<Rightarrow> int \<Rightarrow> rat \<Rightarrow> host \<Rightarrow> verdict \<Rightarrow> store \<times> rule_state \<Rightarrow> store \<times> rule_state" where
  "run_rules show1 now mt h v sr =
     (let (s, r) = sr;
          s = store_finding (new_host_rule now h v s) s;
          (r, f) = low_certainty_rule now h v s r; s = store_finding f s;
          (r, f) = identity_shift_rule now mt h v s r; s = store_finding f s;
          (r, f) = addr_conflict_rule now mt h s r; s = store_finding f s;
          (r, f) = behavioral_drift_rule show1 now mt h r; s = store_finding f s;
          s = store_finding (randomized_addr_rule now h v s) s;
          s = store_finding (collision_rule now h v s) s
      in (s, r))"

end
