(* ===== verification/RulesProps.thy ===== *)
theory RulesProps
  imports Rules StoreProps
begin

text \<open>
  The rules do not flood: the contract of a cooldown is a locale, interpreted by the three rules that
  have one, and the grading of new hosts follows the context stamped at discovery.
\<close>

section \<open>Cooldowns\<close>

text \<open>A step at a time \<open>t\<close> on an event of some key: when it fires it records \<open>t\<close>, and it fires
  only if the recorded time is at least the cooldown away; a recent record survives every step.\<close>

locale cooldown =
  fixes step :: "'t :: linordered_idom \<Rightarrow> 'e \<Rightarrow> 's \<Rightarrow> 's \<times> 'r option"
    and fired :: "'s \<Rightarrow> ('k \<times> 't) list" and key :: "'e \<Rightarrow> 'k" and period :: 't
  assumes fire: "step t e s = (s', Some f) \<Longrightarrow> dict_get (fired s') (key e) = Some t"
    and apart: "step t e s = (s', Some f) \<Longrightarrow> dict_get (fired s) (key e) = Some t0 \<Longrightarrow> period \<le> t - t0"
    and kept: "step t e s = (s', x) \<Longrightarrow> dict_get (fired s) k = Some t0 \<Longrightarrow> t - t0 < period \<Longrightarrow>
      k \<noteq> key e \<or> x = None \<Longrightarrow> dict_get (fired s') k = Some t0"
begin

text \<open>The times and keys of the findings of a run.\<close>

fun alarms :: "'s \<Rightarrow> ('t \<times> 'e) list \<Rightarrow> ('t \<times> 'k) list" where
  "alarms s [] = []"
| "alarms s ((t, e) # es) =
     (case step t e s of (s', x) \<Rightarrow> (if x = None then [] else [(t, key e)]) @ alarms s' es)"

lemma alarm_times: "(u, k) \<in> set (alarms s es) \<Longrightarrow> u \<in> set (map fst es)"
proof (induction es arbitrary: s)
  case (Cons te es)
  obtain t1 e where te: "te = (t1, e)" by (cases te)
  obtain s' x where st: "step t1 e s = (s', x)" by (cases "step t1 e s")
  show ?case using Cons.prems Cons.IH [of s'] by (auto simp: te st split: if_splits)
qed simp

lemma later_alarms:
  "dict_get (fired s) k = Some t0 \<Longrightarrow> sorted (map fst es) \<Longrightarrow> (t, k) \<in> set (alarms s es) \<Longrightarrow> period \<le> t - t0"
proof (induction es arbitrary: s)
  case (Cons te es)
  obtain t1 e where te: "te = (t1, e)" by (cases te)
  obtain s' x where st: "step t1 e s = (s', x)" by (cases "step t1 e s")
  have later: "\<forall>u \<in> set (map fst es). t1 \<le> u" "sorted (map fst es)" using Cons.prems(2) te by auto
  show ?case
  proof (cases "period \<le> t1 - t0")
    case True
    then have "t = t1 \<or> t1 \<le> t"
      using Cons.prems(3) later(1) alarm_times [of t k s' es] by (auto simp: te st split: if_splits)
    then show ?thesis using True by (auto intro: order_trans)
  next
    case False
    have no: "k \<noteq> key e \<or> x = None"
    proof (cases x)
      case (Some f)
      then show ?thesis using apart [of t1 e s s' f t0] st Cons.prems(1) False by auto
    qed simp
    then have "(t, k) \<in> set (alarms s' es)" using Cons.prems(3) by (auto simp: te st split: if_splits)
    moreover have "dict_get (fired s') k = Some t0"
      using kept [OF st Cons.prems(1) _ no] False by simp
    ultimately show ?thesis using Cons.IH later(2) by blast
  qed
qed simp

lemma alarms_apart:
  "sorted (map fst es) \<Longrightarrow> sorted_wrt (\<lambda>(t1, k1) (t2, k2). k1 = k2 \<longrightarrow> period \<le> t2 - t1) (alarms s es)"
proof (induction es arbitrary: s)
  case (Cons te es)
  obtain t1 e where te: "te = (t1, e)" by (cases te)
  obtain s' x where st: "step t1 e s = (s', x)" by (cases "step t1 e s")
  have IH: "sorted_wrt (\<lambda>(t1, k1) (t2, k2). k1 = k2 \<longrightarrow> period \<le> t2 - t1) (alarms s' es)"
    using Cons by simp
  have "\<forall>(t2, k2) \<in> set (alarms s' es). key e = k2 \<longrightarrow> period \<le> t2 - t1" if "x = Some f" for f
  proof -
    have "dict_get (fired s') (key e) = Some t1" using fire [of t1 e s s' f] st that by simp
    then show ?thesis using later_alarms [of s' "key e" t1 es] Cons.prems by auto
  qed
  then show ?case using IH by (cases x) (auto simp: te st)
qed simp

end

section \<open>The rules with a cooldown\<close>

lemma prune_fired_get:
  "dict_get fs k = Some t0 \<Longrightarrow> now - t0 \<le> 600 \<Longrightarrow> dict_get (prune_fired now fs) k = Some t0"
proof -
  have "dict_get (filter (\<lambda>(k, v). \<not> now - v > 600) fs) k = Some t0"
    if "dict_get fs k = Some t0" "now - t0 \<le> 600" for fs :: "(mac \<times> rat) list"
    using that by (induction fs) (auto split: if_splits)
  then show "dict_get fs k = Some t0 \<Longrightarrow> now - t0 \<le> 600 \<Longrightarrow> ?thesis" by (simp add: prune_fired_def)
qed

lemma cooling_recent: "dict_get fs k = Some t0 \<Longrightarrow> \<not> cooling 300 now (prune_fired now fs) k \<Longrightarrow> 300 \<le> now - t0"
  using prune_fired_get [of fs k t0 now] by (fastforce simp: cooling_def get_or_def)

definition shift_step ::
    "rat \<Rightarrow> int \<times> host \<times> verdict \<times> store \<Rightarrow> rule_state \<Rightarrow> rule_state \<times> finding option" where
  "shift_step t e r = (case e of (now, h, v, s) \<Rightarrow> identity_shift_rule now t h v s r)"

definition shift_key :: "int \<times> host \<times> verdict \<times> store \<Rightarrow> mac" where
  "shift_key e = (case e of (now, h, v, s) \<Rightarrow> h_hw_addr h)"

lemma identity_shift_cases:
  assumes "identity_shift_rule now t h v s r = (r', x)"
  shows "x = None \<and> shift_fired r' = shift_fired r \<or>
    x = None \<and> shift_fired r' = prune_fired t (shift_fired r) \<or>
    x \<noteq> None \<and> \<not> cooling 300 t (prune_fired t (shift_fired r)) (h_hw_addr h) \<and>
      shift_fired r' = dict_set (prune_fired t (shift_fired r)) (h_hw_addr h) t"
proof (cases "find_verdict (h_hw_addr h) s")
  case (Some old)
  let ?p = "prune_fired t (shift_fired r)"
  show ?thesis
  proof (cases "v_certainty old < 50 \<or> v_certainty v < 50 \<or> length (evidence_chain old) < 3 \<or>
      now - h_discovered_at h < 60000000")
    case True
    then have "(r', x) = (r, None)"
      using assms unfolding identity_shift_rule_def Some option.case if_P [OF True] by simp
    then show ?thesis by simp
  next
    case False
    note e = assms [unfolded identity_shift_rule_def Some option.case if_not_P [OF False] Let_def]
    show ?thesis
      using e by (cases "cooling 300 t ?p (h_hw_addr h)"; cases "shift_report (h_hw_addr h) old v") auto
  qed
qed (use assms in \<open>simp add: identity_shift_rule_def\<close>)

interpretation shift: cooldown shift_step shift_fired shift_key 300
proof (unfold_locales, goal_cases)
  case (1 t e s s' f)
  obtain now h v st where e: "e = (now, h, v, st)" by (cases e)
  from identity_shift_cases [OF 1 [unfolded shift_step_def e prod.case]] show ?case
    by (simp add: e shift_key_def)
next
  case (2 t e s s' f t0)
  obtain now h v st where e: "e = (now, h, v, st)" by (cases e)
  from identity_shift_cases [OF 2(1) [unfolded shift_step_def e prod.case]] 2(2) show ?case
    using cooling_recent [of "shift_fired s" "h_hw_addr h" t0 t] by (simp add: e shift_key_def)
next
  case (3 t e s s' x k t0)
  obtain now h v st where e: "e = (now, h, v, st)" by (cases e)
  have p: "dict_get (prune_fired t (shift_fired s)) k = Some t0"
    using prune_fired_get [OF 3(2)] 3(3) by simp
  from identity_shift_cases [OF 3(1) [unfolded shift_step_def e prod.case]] 3(2,4) p show ?case
    by (auto simp: e shift_key_def)
qed

definition conflict_step ::
    "rat \<Rightarrow> int \<times> host \<times> store \<Rightarrow> rule_state \<Rightarrow> rule_state \<times> finding option" where
  "conflict_step t e r = (case e of (now, h, s) \<Rightarrow> addr_conflict_rule now t h s r)"

definition conflict_key :: "int \<times> host \<times> store \<Rightarrow> mac" where
  "conflict_key e = (case e of (now, h, s) \<Rightarrow> h_hw_addr h)"

lemma addr_conflict_cases:
  assumes "addr_conflict_rule now t h s r = (r', x)"
  shows "x = None \<and> conflict_fired r' = conflict_fired r \<or>
    x = None \<and> conflict_fired r' = prune_fired t (conflict_fired r) \<or>
    x \<noteq> None \<and> \<not> cooling 300 t (prune_fired t (conflict_fired r)) (h_hw_addr h) \<and>
      conflict_fired r' = dict_set (prune_fired t (conflict_fired r)) (h_hw_addr h) t"
proof (cases "truthy_s (h_ip_addr h)")
  case True
  then have n: "\<not> \<not> truthy_s (h_ip_addr h)" by simp
  note e = assms [unfolded addr_conflict_rule_def if_not_P [OF n] Let_def]
  show ?thesis
    using e by (cases "cooling 300 t (prune_fired t (conflict_fired r)) (h_hw_addr h)";
      cases "conflicting_hosts now h s"; cases "open_finding (h_hw_addr h) ADDR_CONFLICT s") auto
qed (use assms in \<open>simp add: addr_conflict_rule_def\<close>)

interpretation conflict: cooldown conflict_step conflict_fired conflict_key 300
proof (unfold_locales, goal_cases)
  case (1 t e s s' f)
  obtain now h st where e: "e = (now, h, st)" by (cases e)
  from addr_conflict_cases [OF 1 [unfolded conflict_step_def e prod.case]] show ?case
    by (simp add: e conflict_key_def)
next
  case (2 t e s s' f t0)
  obtain now h st where e: "e = (now, h, st)" by (cases e)
  from addr_conflict_cases [OF 2(1) [unfolded conflict_step_def e prod.case]] 2(2) show ?case
    using cooling_recent [of "conflict_fired s" "h_hw_addr h" t0 t] by (simp add: e conflict_key_def)
next
  case (3 t e s s' x k t0)
  obtain now h st where e: "e = (now, h, st)" by (cases e)
  have p: "dict_get (prune_fired t (conflict_fired s)) k = Some t0"
    using prune_fired_get [OF 3(2)] 3(3) by simp
  from addr_conflict_cases [OF 3(1) [unfolded conflict_step_def e prod.case]] 3(2,4) p show ?case
    by (auto simp: e conflict_key_def)
qed

definition low_step ::
    "int \<Rightarrow> host \<times> verdict \<times> store \<Rightarrow> rule_state \<Rightarrow> rule_state \<times> finding option" where
  "low_step t e r = (case e of (h, v, s) \<Rightarrow> low_certainty_rule t h v s r)"

definition low_key :: "host \<times> verdict \<times> store \<Rightarrow> mac" where
  "low_key e = (case e of (h, v, s) \<Rightarrow> h_hw_addr h)"

interpretation low: cooldown low_step low_cert_fired low_key LOW_CERT_COOLDOWN
  by unfold_locales (auto simp: low_step_def low_key_def low_certainty_rule_def Let_def
    split: if_splits option.splits)

text \<open>The findings of a run of the rule over evaluations of any hosts.\<close>

fun shift_alarms :: "rule_state \<Rightarrow> (rat \<times> int \<times> host \<times> verdict \<times> store) list \<Rightarrow> (rat \<times> mac) list" where
  "shift_alarms r [] = []"
| "shift_alarms r ((t, now, h, v, s) # es) =
     (case identity_shift_rule now t h v s r of
        (r', x) \<Rightarrow> (if x = None then [] else [(t, h_hw_addr h)]) @ shift_alarms r' es)"

lemma shift_applied:
  "shift_step t (now, h, v, s) r = identity_shift_rule now t h v s r" "shift_key (now, h, v, s) = h_hw_addr h"
  by (simp_all add: shift_step_def shift_key_def)

lemma shift_alarms: "shift_alarms r es = shift.alarms r es"
  by (induction r es rule: shift_alarms.induct) (auto simp: shift_applied split: prod.split)


text \<open>The same of address conflicts, and of low certainty within an hour.\<close>

lemma addr_conflict_rate_limited:
  "sorted (map fst es) \<Longrightarrow>
   sorted_wrt (\<lambda>(t1, m1) (t2, m2). m1 = m2 \<longrightarrow> 300 \<le> t2 - t1) (conflict.alarms r es)"
  by (rule conflict.alarms_apart)

lemma low_certainty_rate_limited:
  "sorted (map fst es) \<Longrightarrow>
   sorted_wrt (\<lambda>(t1, m1) (t2, m2). m1 = m2 \<longrightarrow> LOW_CERT_COOLDOWN \<le> t2 - t1) (low.alarms r es)"
  by (rule low.alarms_apart)


definition sample_host :: "mac \<Rightarrow> string \<Rightarrow> host" where
  "sample_host m disp = \<lparr>h_hw_addr = m, h_ip_addr = None, h_ip_v6 = None, h_discovered_at = 0, h_last_active = 0,
     h_mac_randomized = False, h_real_hw_addr = None, h_disposition = disp, h_identity_id = None\<rparr>"

definition sample_verdict :: "mac \<Rightarrow> ustr option \<Rightarrow> verdict" where
  "sample_verdict m vend = \<lparr>v_hw_addr = m, v_category = None, v_vendor = vend, v_platform = None,
     v_platform_version = None, v_model = None, v_hostname = None, v_certainty = 90, evidence_chain = [],
     computed_at = 0\<rparr>"


section \<open>Grading of new hosts\<close>

text \<open>A device first written while the sensor was learning never raises a new-host warning: whatever
  operations follow (burst re-entry naming it and deletion of all devices aside), the rule grades it INFO,
  or CRITICAL when an operator has rejected it.\<close>

theorem learned_inventory_stays_quiet:
  assumes "context_of s (h_hw_addr h) = Some ''learning''"
    and "\<forall>p \<in> set ps. \<not> regrades (h_hw_addr h) p"
    and "new_host_rule now h v (foldl store_exec s ps) = Some f"
  shows "f_severity f = INFO \<or>
    f_severity f = CRITICAL \<and> auth_of (foldl store_exec s ps) (h_hw_addr h) = ''rejected''"
proof -
  let ?s = "foldl store_exec s ps"
  have "has_context (h_hw_addr h) ''learning'' ?s"
    using graded.kept_run [of "h_hw_addr h" "''learning''" s ps] assms(1,2) by (simp add: has_context_def)
  then have "device_discovery_context (h_hw_addr h) ?s = ''learning''"
    by (simp add: has_context_def context_of_def device_discovery_context_def split: option.splits)
  moreover have "f_severity f = new_host_severity (h_hw_addr h) ?s"
    using assms(3) by (auto simp: new_host_rule_def new_finding_def Let_def split: if_splits)
  moreover have "device_authorization (h_hw_addr h) ?s = auth_of ?s (h_hw_addr h)"
    by (simp add: device_authorization_def auth_of_def)
  ultimately show ?thesis by (auto simp: new_host_severity_def)
qed

theorem learned_inventory_stays_quiet_witness:
  "\<exists>f. new_host_rule 9 (sample_host ''aa'' ''new'') (sample_verdict ''aa'' None)
      (foldl store_exec (empty_store\<lparr>s_devices := [(''aa'', (new_device ''aa'' 1 1)\<lparr>d_discovery_context := Some ''learning''\<rparr>)]\<rparr>)
        [ReopenWindow 3]) = Some f \<and> (f_severity f = INFO \<or> f_severity f = CRITICAL)"
proof -
  let ?s = "empty_store\<lparr>s_devices := [(''aa'', (new_device ''aa'' 1 1)\<lparr>d_discovery_context := Some ''learning''\<rparr>)]\<rparr>"
  have c: "context_of ?s (h_hw_addr (sample_host ''aa'' ''new'')) = Some ''learning''"
    by (simp add: context_of_def sample_host_def)
  have g: "\<forall>p \<in> set [ReopenWindow 3]. \<not> regrades (h_hw_addr (sample_host ''aa'' ''new'')) p" by simp
  obtain f where "new_host_rule 9 (sample_host ''aa'' ''new'') (sample_verdict ''aa'' None)
      (foldl store_exec ?s [ReopenWindow 3]) = Some f"
    by (simp add: new_host_rule_def sample_host_def Let_def)
  with learned_inventory_stays_quiet [OF c g this] show ?thesis by blast
qed

end
