(* ===== verification/Identity.thy ===== *)
theory Identity
  imports Store
begin

text \<open>
  Randomised addresses and identities: \<open>fingerprint/mac_intel.py\<close> (detection of locally
  administered addresses, weighted correlation of signals) and \<open>store/identities.py\<close> (the
  table of identities, keyed by primary address; ids number the rows).  Signal weights are exact
  rationals.
\<close>

section \<open>mac_intel.py\<close>

text \<open>\<open>int(s, 16)\<close>: blanks around, a sign, an optional \<open>0x\<close>, and digits with single
  underscores between them; None where Python raises ValueError.\<close>

definition hex_val :: "nat \<Rightarrow> nat option" where
  "hex_val c = (if 48 \<le> c \<and> c \<le> 57 then Some (c - 48)
     else if 97 \<le> c \<and> c \<le> 102 then Some (c - 87)
     else if 65 \<le> c \<and> c \<le> 70 then Some (c - 55) else None)"

text \<open>\<open>need\<close>: a digit must come next.\<close>

fun hex_digits :: "bool \<Rightarrow> nat \<Rightarrow> ustr \<Rightarrow> nat option" where
  "hex_digits need acc [] = (if need then None else Some acc)"
| "hex_digits need acc (c # cs) =
     (if c = 95 then (if need then None else hex_digits True acc cs)
      else (case hex_val c of None \<Rightarrow> None | Some d \<Rightarrow> hex_digits False (16 * acc + d) cs))"

definition hex_body :: "ustr \<Rightarrow> nat option" where
  "hex_body t = (case t of
     z # x # rest \<Rightarrow>
       if z = 48 \<and> (x = 120 \<or> x = 88)
       then hex_digits True 0 (case rest of u # r \<Rightarrow> if u = 95 then r else rest | [] \<Rightarrow> rest)
       else hex_digits True 0 t
   | _ \<Rightarrow> hex_digits True 0 t)"

definition py_int16 :: "ustr \<Rightarrow> int option" where
  "py_int16 s = (case strip s of
     [] \<Rightarrow> None
   | c # cs \<Rightarrow>
       if c = 45 then map_option (\<lambda>n. - int n) (hex_body cs)
       else if c = 43 then map_option int (hex_body cs)
       else map_option int (hex_body (c # cs)))"

definition HYPERVISOR_MAC_PREFIXES :: "ustr list" where
  "HYPERVISOR_MAC_PREFIXES = map lit [''02:42'', ''02:50:56'', ''52:54:00'']"

definition is_randomized_text :: "ustr \<Rightarrow> bool" where
  "is_randomized_text addr =
     (let norm = upper (map (\<lambda>c. if c = 45 then 58 else c) addr);
          first_hex = hd (split_on 45 (hd (split_on 58 addr)))
      in if addr = [] then False
         else if list_ex (\<lambda>p. starts_with (upper p) norm) HYPERVISOR_MAC_PREFIXES then False
         else if first_hex = [] then False
         else (case py_int16 first_hex of None \<Rightarrow> False | Some octet \<Rightarrow> (octet div 2) mod 2 = 1))"

definition is_randomized_mac :: "mac \<Rightarrow> bool" where
  "is_randomized_mac m = is_randomized_text (lit m)"

type_synonym signals = "(string \<times> ustr) list"

definition SIGNAL_WEIGHTS :: "(string \<times> rat) list" where
  "SIGNAL_WEIGHTS = [(''hostname'', 35 / 100), (''dhcp_opt60'', 25 / 100), (''dhcp_opt55'', 15 / 100),
     (''tcp_sig'', 15 / 100), (''mdns_name'', 10 / 100)]"

definition CORRELATION_THRESHOLD :: rat where
  "CORRELATION_THRESHOLD = 40 / 100"

definition signal_set :: "signals \<Rightarrow> string \<Rightarrow> bool" where
  "signal_set fp k \<longleftrightarrow> truthy (dict_get fp k)"

definition compute_correlation_score :: "signals \<Rightarrow> signals \<Rightarrow> rat" where
  "compute_correlation_score probe known =
     sum_list (map (\<lambda>(k, w). if signal_set probe k \<and> signal_set known k \<and> dict_get probe k = dict_get known k
       then w else 0) SIGNAL_WEIGHTS)"

section \<open>identities.py\<close>

record identity =
  i_primary_mac :: mac
  i_id :: nat
  i_manufacturer :: "ustr option"
  i_device_type :: "ustr option"
  i_os_family :: "ustr option"
  i_os_version :: "ustr option"
  i_hostname :: "ustr option"
  i_confidence :: int
  i_fingerprint :: signals
  i_first_seen :: int
  i_last_seen :: int

type_synonym identities = "(mac \<times> identity) list"

text \<open>Rows are never deleted, so the next generated id is one more than their number.\<close>

definition find_or_create :: "int \<Rightarrow> mac \<Rightarrow> identities \<Rightarrow> identities \<times> identity" where
  "find_or_create now m t =
     (case dict_get t m of
        Some i \<Rightarrow> (t, i)
      | None \<Rightarrow>
          let i = \<lparr>i_primary_mac = m, i_id = length t + 1, i_manufacturer = None, i_device_type = None,
                   i_os_family = None, i_os_version = None, i_hostname = None, i_confidence = 0,
                   i_fingerprint = [], i_first_seen = now, i_last_seen = now\<rparr>
          in (t @ [(m, i)], i))"

definition find_all_identities :: "nat \<Rightarrow> identities \<Rightarrow> identity list" where
  "find_all_identities limit t = take limit (sort_key (\<lambda>i. - i_last_seen i) (map snd t))"

definition update_identity :: "identity \<Rightarrow> identities \<Rightarrow> identities" where
  "update_identity i t = update_row t (i_primary_mac i) (\<lambda>old. old\<lparr>
     i_manufacturer := coalesce (i_manufacturer i) (i_manufacturer old),
     i_device_type := coalesce (i_device_type i) (i_device_type old),
     i_os_family := coalesce (i_os_family i) (i_os_family old),
     i_os_version := coalesce (i_os_version i) (i_os_version old),
     i_hostname := coalesce (i_hostname i) (i_hostname old),
     i_confidence := max (i_confidence old) (i_confidence i),
     i_fingerprint := i_fingerprint i,
     i_last_seen := i_last_seen i\<rparr>)"

section \<open>Correlation\<close>

text \<open>The search of \<open>_correlate_or_create\<close> for the best-scoring identity: the first one among
  equals, none with score zero.\<close>

definition best_identity :: "signals \<Rightarrow> identity list \<Rightarrow> rat \<times> identity option" where
  "best_identity sg is = foldl (\<lambda>(b, x) i.
     let sc = compute_correlation_score sg (i_fingerprint i) in if sc > b then (sc, Some i) else (b, x)) (0, None) is"

text \<open>The identity object; \<open>find_or_create\<close> has stored its row, the new fingerprint only
  the object.\<close>

definition correlate_or_create :: "int \<Rightarrow> mac \<Rightarrow> signals \<Rightarrow> identities \<Rightarrow> identities \<times> identity" where
  "correlate_or_create now m sg t =
     (if sg = [] then find_or_create now m t
      else
        let (best_score, best) = best_identity sg (find_all_identities 1000 t)
        in case best of
             Some i \<Rightarrow>
               if best_score \<ge> CORRELATION_THRESHOLD then (t, i)
               else let (t, j) = find_or_create now m t in (t, j\<lparr>i_fingerprint := sg\<rparr>)
           | None \<Rightarrow> let (t, j) = find_or_create now m t in (t, j\<lparr>i_fingerprint := sg\<rparr>))"

section \<open>Facts\<close>

lemma compute_correlation_bounds:
  "0 \<le> compute_correlation_score a b" "compute_correlation_score a b \<le> 1"
  by (auto simp: compute_correlation_score_def SIGNAL_WEIGHTS_def)

text \<open>No single signal reaches the threshold: two must agree.\<close>

lemma correlation_needs_two:
  assumes "CORRELATION_THRESHOLD \<le> compute_correlation_score a b"
  shows "\<exists>j k. j \<noteq> k \<and> signal_set a j \<and> signal_set a k \<and> dict_get a j = dict_get b j \<and> dict_get a k = dict_get b k"
proof (rule ccontr)
  assume n: "\<not> ?thesis"
  then have one: "\<And>j k. signal_set a j \<Longrightarrow> dict_get a j = dict_get b j \<Longrightarrow> signal_set a k \<Longrightarrow>
      dict_get a k = dict_get b k \<Longrightarrow> j = k" by blast
  define P where "P k \<longleftrightarrow> signal_set a k \<and> signal_set b k \<and> dict_get a k = dict_get b k" for k
  have P: "\<not> (P j \<and> P k)" if "j \<noteq> k" for j k using one [of j k] that by (auto simp: P_def)
  have "compute_correlation_score a b = sum_list (map (\<lambda>(k, w). if P k then w else 0) SIGNAL_WEIGHTS)"
    by (simp add: compute_correlation_score_def P_def)
  also have "\<dots> \<le> 35 / 100"
    using P [of "''hostname''" "''dhcp_opt60''"] P [of "''hostname''" "''dhcp_opt55''"]
      P [of "''hostname''" "''tcp_sig''"] P [of "''hostname''" "''mdns_name''"]
      P [of "''dhcp_opt60''" "''dhcp_opt55''"] P [of "''dhcp_opt60''" "''tcp_sig''"]
      P [of "''dhcp_opt60''" "''mdns_name''"] P [of "''dhcp_opt55''" "''tcp_sig''"]
      P [of "''dhcp_opt55''" "''mdns_name''"] P [of "''tcp_sig''" "''mdns_name''"]
    by (cases "P ''hostname''"; cases "P ''dhcp_opt60''"; cases "P ''dhcp_opt55''"; cases "P ''tcp_sig''";
        cases "P ''mdns_name''") (simp_all add: SIGNAL_WEIGHTS_def)
  finally have "compute_correlation_score a b \<le> 35 / 100" .
  then show False using assms by (simp add: CORRELATION_THRESHOLD_def)
qed

lemma best_identity_score:
  assumes "best_identity sg is = (b, Some i)"
  shows "i \<in> set is \<and> b = compute_correlation_score sg (i_fingerprint i) \<and>
    (\<forall>j \<in> set is. compute_correlation_score sg (i_fingerprint j) \<le> b)"
proof -
  define f where "f = (\<lambda>(b, x) i.
     let sc = compute_correlation_score sg (i_fingerprint i) in if sc > b then (sc, Some i) else (b, x :: identity option))"
  have "(case foldl f (0, None) is of (b, x) \<Rightarrow>
      (\<forall>j \<in> set is. compute_correlation_score sg (i_fingerprint j) \<le> b) \<and>
      (\<forall>i. x = Some i \<longrightarrow> i \<in> set is \<and> b = compute_correlation_score sg (i_fingerprint i)))"
    by (induction "is" rule: rev_induct)
      (auto simp: f_def Let_def split: prod.splits if_splits intro: less_imp_le order_trans)
  then show ?thesis using assms unfolding best_identity_def f_def by auto
qed

text \<open>Two addresses are merged into one identity only when at least two of their signals agree: the
  identity returned for a randomised address with signals is its own or one with two equal signals, none
  of the candidates scoring higher.\<close>

theorem identity_merge_needs_two_signals:
  assumes "correlate_or_create now m sg t = (t', i)" "sg \<noteq> []"
  shows "dict_get t' m = Some (i\<lparr>i_fingerprint := i_fingerprint (the (dict_get t' m))\<rparr>) \<or>
    t' = t \<and> i \<in> snd ` set t \<and>
    (\<exists>j k. j \<noteq> k \<and> signal_set sg j \<and> signal_set sg k \<and>
       dict_get sg j = dict_get (i_fingerprint i) j \<and> dict_get sg k = dict_get (i_fingerprint i) k)"
proof -
  obtain b x where bx: "best_identity sg (find_all_identities 1000 t) = (b, x)" by fastforce
  have sub: "set (find_all_identities 1000 t) \<subseteq> snd ` set t"
    by (auto simp: find_all_identities_def dest: in_set_takeD)
  have new: ?thesis if "(t', i) = (let (t, j) = find_or_create now m t in (t, j\<lparr>i_fingerprint := sg\<rparr>))"
    using that by (auto simp: find_or_create_def Let_def dict_get_append split: option.splits)
  show ?thesis
  proof (cases "x \<noteq> None \<and> CORRELATION_THRESHOLD \<le> b")
    case True
    then obtain y where y: "x = Some y" by blast
    have r: "(t', i) = (t, y)" using assms bx True y by (simp add: correlate_or_create_def)
    have "i \<in> snd ` set t" "CORRELATION_THRESHOLD \<le> compute_correlation_score sg (i_fingerprint i)"
      using best_identity_score [OF bx [unfolded y]] True sub r by auto
    then show ?thesis using correlation_needs_two r by blast
  next
    case False
    then show ?thesis using new assms bx by (cases x) (auto simp: correlate_or_create_def)
  qed
qed


theorem identity_merge_needs_two_signals_witness:
  "\<exists>t i. (t, i) = correlate_or_create 5 ''bb'' [(''hostname'', [65]), (''dhcp_opt60'', [66])]
      [(''aa'', \<lparr>i_primary_mac = ''aa'', i_id = 1, i_manufacturer = None, i_device_type = None, i_os_family = None,
        i_os_version = None, i_hostname = None, i_confidence = 0,
        i_fingerprint = [(''hostname'', [65]), (''dhcp_opt60'', [66])], i_first_seen = 0, i_last_seen = 0\<rparr>)] \<and>
    i_primary_mac i = ''aa'' \<and>
    (\<exists>j k. j \<noteq> k \<and> dict_get [(''hostname'', [65]), (''dhcp_opt60'', [66])] j = dict_get (i_fingerprint i) j \<and>
       dict_get [(''hostname'', [65]), (''dhcp_opt60'', [66])] k = dict_get (i_fingerprint i) k)"
proof -
  let ?sg = "[(''hostname'', [65]), (''dhcp_opt60'', [66])] :: signals"
  let ?i = "\<lparr>i_primary_mac = ''aa'', i_id = 1, i_manufacturer = None, i_device_type = None, i_os_family = None,
        i_os_version = None, i_hostname = None, i_confidence = 0, i_fingerprint = ?sg, i_first_seen = 0,
        i_last_seen = 0\<rparr>"
  have c: "correlate_or_create 5 ''bb'' ?sg [(''aa'', ?i)] = ([(''aa'', ?i)], ?i)"
    by (simp add: correlate_or_create_def best_identity_def find_all_identities_def compute_correlation_score_def
        SIGNAL_WEIGHTS_def signal_set_def truthy_def CORRELATION_THRESHOLD_def Let_def)
  have n: "?sg \<noteq> []" by simp
  have "\<exists>j k. j \<noteq> k \<and> signal_set ?sg j \<and> signal_set ?sg k \<and>
       dict_get ?sg j = dict_get (i_fingerprint ?i) j \<and> dict_get ?sg k = dict_get (i_fingerprint ?i) k"
    using identity_merge_needs_two_signals [OF c n] by simp
  then show ?thesis using c by (intro exI [of _ "[(''aa'', ?i)]"] exI [of _ ?i]) auto
qed

end
