(* ===== verification/Dhcp.thy ===== *)
theory Dhcp
  imports Packets
begin

text \<open>
  \<open>capture/protocols/dhcp.py\<close>: the DHCP parsers of the chain.  What they read of the packet
  object is the record \<open>dhcp_packet\<close>; option values have the forms the packet library gives them, and
  the text \<open>str\<close> makes of any other value is an argument.  An option value kept in
  \<open>raw_options\<close> is stored as the pipeline later decodes it.
\<close>

section \<open>Packets\<close>

datatype dhcp_val = DBytes bytes | DText ustr | DInt int | DInts "int list"

text \<open>An entry of the option list: a pair, or a marker such as \<open>end\<close>.\<close>

datatype dhcp_opt = Marker string | Opt string dhcp_val

record dhcp_packet =
  dp_src :: string
  dp_options :: "dhcp_opt list option"
  dp_chaddr :: bytes
  dp_yiaddr :: string
  dp_ciaddr :: string
  dp_siaddr :: string
  dp_ip_src :: "string option"
  dp_bytes :: bytes

definition mac_text :: "bytes \<Rightarrow> string" where
  "mac_text bs = map char_of (join [58] (map hex_byte bs))"

text \<open>\<open>bytes.decode()\<close>: strict UTF-8.\<close>

definition utf8_strict :: "bytes \<Rightarrow> py_error + ustr" where
  "utf8_strict bs = (if utf8_replace bs = utf8_ignore bs then Inr (utf8_ignore bs) else Inl ValueError)"

definition str_of_int :: "int \<Rightarrow> ustr" where
  "str_of_int i = (if i < 0 then 45 # str_nat (nat (- i)) else str_nat (nat i))"

text \<open>\<open>",".join(str(x) for x in value)\<close>; an integer is not iterable.\<close>

definition join_values :: "dhcp_val \<Rightarrow> py_error + ustr" where
  "join_values v = (case v of
     DInts xs \<Rightarrow> Inr (join [44] (map str_of_int xs))
   | DBytes bs \<Rightarrow> Inr (join [44] (map (\<lambda>b. str_nat (unat b)) bs))
   | DText t \<Rightarrow> Inr (join [44] (map (\<lambda>c. [c]) t))
   | DInt _ \<Rightarrow> Inl TypeError)"

definition decode_or_str :: "(dhcp_val \<Rightarrow> ustr) \<Rightarrow> dhcp_val \<Rightarrow> py_error + ustr" where
  "decode_or_str show_val v = (case v of DBytes bs \<Rightarrow> utf8_strict bs | DText t \<Rightarrow> Inr t | _ \<Rightarrow> Inr (show_val v))"

definition raw_value :: "dhcp_val \<Rightarrow> pyval" where
  "raw_value v = (case v of DBytes bs \<Rightarrow> PStr (utf8_replace bs) | DText t \<Rightarrow> PStr t | DInt i \<Rightarrow> PInt i
     | DInts xs \<Rightarrow> PList (map PInt xs))"

section \<open>DHCPv4\<close>

record dhcp_scan =
  sc_opt55 :: "ustr option"
  sc_opt60 :: "ustr option"
  sc_hostname :: "ustr option"
  sc_msg_type :: "dhcp_val option"
  sc_requested :: "string option"
  sc_client_id :: "string option"
  sc_raw :: dict

definition dhcp_scan0 :: dhcp_scan where
  "dhcp_scan0 = \<lparr>sc_opt55 = None, sc_opt60 = None, sc_hostname = None, sc_msg_type = None, sc_requested = None,
     sc_client_id = None, sc_raw = []\<rparr>"

definition client_id_of :: "dhcp_val \<Rightarrow> string option \<Rightarrow> string option" where
  "client_id_of v old = (case v of
     DBytes bs \<Rightarrow> (if length bs = 7 \<and> bs ! 0 = 1 then Some (mac_text (drop 1 bs))
                  else if length bs = 6 then Some (mac_text bs) else old)
   | _ \<Rightarrow> old)"

definition scan_opt :: "(dhcp_val \<Rightarrow> ustr) \<Rightarrow> string \<Rightarrow> dhcp_val \<Rightarrow> dhcp_scan \<Rightarrow> py_error + dhcp_scan" where
  "scan_opt show_val name v a =
     (let a = a\<lparr>sc_raw := dict_set (sc_raw a) name (raw_value v)\<rparr>
      in if name = ''param_req_list'' then
           (case join_values v of Inl e \<Rightarrow> Inl e | Inr t \<Rightarrow> Inr (a\<lparr>sc_opt55 := Some t\<rparr>))
         else if name = ''vendor_class_id'' then
           (case decode_or_str show_val v of Inl e \<Rightarrow> Inl e | Inr t \<Rightarrow> Inr (a\<lparr>sc_opt60 := Some t\<rparr>))
         else if name = ''hostname'' then
           (case decode_or_str show_val v of Inl e \<Rightarrow> Inl e | Inr t \<Rightarrow> Inr (a\<lparr>sc_hostname := Some t\<rparr>))
         else if name = ''message-type'' then Inr (a\<lparr>sc_msg_type := Some v\<rparr>)
         else if name = ''requested_addr'' then
           Inr (a\<lparr>sc_requested := Some (map char_of (case v of DText t \<Rightarrow> t | _ \<Rightarrow> show_val v))\<rparr>)
         else if name = ''client_id'' then Inr (a\<lparr>sc_client_id := client_id_of v (sc_client_id a)\<rparr>)
         else Inr a)"

fun scan_options :: "(dhcp_val \<Rightarrow> ustr) \<Rightarrow> dhcp_opt list \<Rightarrow> dhcp_scan \<Rightarrow> py_error + dhcp_scan" where
  "scan_options show_val [] a = Inr a"
| "scan_options show_val (Marker _ # os) a = scan_options show_val os a"
| "scan_options show_val (Opt name v # os) a =
     (case scan_opt show_val name v a of Inl e \<Rightarrow> Inl e | Inr a \<Rightarrow> scan_options show_val os a)"

definition NO_IP :: string where
  "NO_IP = ''0.0.0.0''"

definition addr_or_none :: "string \<Rightarrow> string" where
  "addr_or_none a = (if a = [] then NO_IP else a)"

definition client_ip :: "dhcp_packet \<Rightarrow> string option \<Rightarrow> string" where
  "client_ip p requested =
     (if addr_or_none (dp_yiaddr p) \<noteq> NO_IP then addr_or_none (dp_yiaddr p)
      else if addr_or_none (dp_ciaddr p) \<noteq> NO_IP then addr_or_none (dp_ciaddr p)
      else (case requested of
              Some r \<Rightarrow> if r \<noteq> [] \<and> r \<noteq> NO_IP then r
                        else (case dp_ip_src p of None \<Rightarrow> NO_IP | Some s \<Rightarrow> s)
            | None \<Rightarrow> (case dp_ip_src p of None \<Rightarrow> NO_IP | Some s \<Rightarrow> s)))"

definition parse_dhcpv4 :: "(dhcp_val \<Rightarrow> ustr) \<Rightarrow> dhcp_packet \<Rightarrow> parse_result" where
  "parse_dhcpv4 show_val p =
     (case dp_options p of
        None \<Rightarrow> Inr None
      | Some os \<Rightarrow>
          (case scan_options show_val os dhcp_scan0 of
             Inl e \<Rightarrow> Inl e
           | Inr a \<Rightarrow>
               if length (dp_chaddr p) < 6 then Inr None
               else Inr (Some ((captured ''dhcpv4'' (mac_text (take 6 (dp_chaddr p))) (client_ip p (sc_requested a)) None
                 [(''opt55'', opt_str (sc_opt55 a)), (''opt60'', opt_str (sc_opt60 a)),
                  (''hostname'', opt_str (sc_hostname a)),
                  (''message_type'', (case sc_msg_type a of None \<Rightarrow> PNone | Some v \<Rightarrow> raw_value v)),
                  (''client_id'', opt_str (map_option lit (sc_client_id a))),
                  (''raw_options'', PDict (sc_raw a))])\<lparr>cp_raw := Some (dp_bytes p)\<rparr>))))"

section \<open>DHCP servers\<close>

fun first_message_type :: "dhcp_opt list \<Rightarrow> dhcp_val option" where
  "first_message_type [] = None"
| "first_message_type (Marker _ # os) = first_message_type os"
| "first_message_type (Opt name v # os) = (if name = ''message-type'' then Some v else first_message_type os)"

definition parse_dhcp_server :: "dhcp_packet \<Rightarrow> parse_result" where
  "parse_dhcp_server p =
     (case dp_options p of
        None \<Rightarrow> Inr None
      | Some os \<Rightarrow>
          if first_message_type os \<notin> {Some (DInt 2), Some (DInt 5)} then Inr None
          else if dp_src p = [] then Inr None
          else
            let siaddr = addr_or_none (dp_siaddr p);
                server_ip = (if siaddr \<noteq> NO_IP then siaddr else (case dp_ip_src p of None \<Rightarrow> NO_IP | Some s \<Rightarrow> s))
            in if server_ip = NO_IP then Inr None
               else Inr (Some ((captured ''dhcp_server'' (dp_src p) server_ip None
                 [(''message_type'', (case first_message_type os of None \<Rightarrow> PNone | Some v \<Rightarrow> raw_value v)),
                  (''role'', pstr ''dhcp_server''),
                  (''client_mac'', PStr (lit (if length (dp_chaddr p) < 6 then [] else mac_text (take 6 (dp_chaddr p))))),
                  (''offered_ip'', PStr (lit (addr_or_none (dp_yiaddr p))))])\<lparr>cp_raw := Some (dp_bytes p)\<rparr>)))"

text \<open>What the chain makes of a DHCP packet: the server parser runs before the client parser, and a
  parser that raises is passed over.\<close>

definition classify_dhcp :: "(dhcp_val \<Rightarrow> ustr) \<Rightarrow> dhcp_packet \<Rightarrow> captured_packet option" where
  "classify_dhcp show_val p =
     (case parse_dhcp_server p of
        Inr (Some c) \<Rightarrow> Some c
      | _ \<Rightarrow> (case parse_dhcpv4 show_val p of Inr (Some c) \<Rightarrow> Some c | _ \<Rightarrow> None))"

section \<open>DHCPv6 unique identifiers\<close>

definition duid_type_name :: "nat \<Rightarrow> string option" where
  "duid_type_name n = dict_get [(1, ''LLT''), (2, ''EN''), (3, ''LL''), (4, ''UUID'')] n"

text \<open>\<open>_decode_duid\<close>: the identifier in hexadecimal, its type, the link-layer address and the
  enterprise number it carries.\<close>

definition decode_duid :: "bytes \<Rightarrow> ustr option \<times> ustr option \<times> ustr option \<times> nat option" where
  "decode_duid blob =
     (if length blob < 3 then (None, None, None, None)
      else
        let code = be_nat (slice 0 2 blob); hex = Some (hex_bytes blob)
        in case duid_type_name code of
             None \<Rightarrow> (hex, Some (str_nat code), None, None)
           | Some name \<Rightarrow>
               (hex, Some (lit name),
                if code = 1 then (if length blob \<ge> 14 \<and> be_nat (slice 2 4 blob) = 1
                                  then Some (join [58] (map hex_byte (slice 8 14 blob))) else None)
                else if code = 3 then (if length blob \<ge> 10 \<and> be_nat (slice 2 4 blob) = 1
                                  then Some (join [58] (map hex_byte (slice 4 10 blob))) else None)
                else None,
                if code = 2 \<and> length blob \<ge> 6 then Some (be_nat (slice 2 6 blob)) else None))"

record dhcp6_packet =
  d6_request :: bool
  d6_oro :: "int list option"
  d6_duid :: "bytes option"
  d6_enterprise :: "nat option"
  d6_vendor :: "dhcp_val option"
  d6_fqdn :: "ustr option"
  d6_ip_src :: "string option"
  d6_ether_src :: "string option"
  d6_bytes :: bytes

definition parse_dhcpv6 :: "(dhcp_val \<Rightarrow> ustr) \<Rightarrow> dhcp6_packet \<Rightarrow> parse_result" where
  "parse_dhcpv6 show_val p =
     (if \<not> d6_request p then Inr None
      else
        let (duid, duid_type, duid_mac, duid_ent) =
              (case d6_duid p of Some (b # bs) \<Rightarrow> decode_duid (b # bs) | _ \<Rightarrow> (None, None, None, None))
        in (case (case d6_vendor p of None \<Rightarrow> Inr None
                  | Some v \<Rightarrow> (case decode_or_str show_val v of Inl e \<Rightarrow> Inl e | Inr t \<Rightarrow> Inr (Some t))) of
              Inl e \<Rightarrow> Inl e
            | Inr vendor_class \<Rightarrow>
                (case d6_ether_src p of
                   None \<Rightarrow> Inr None
                 | Some hw \<Rightarrow>
                     Inr (Some ((captured ''dhcpv6'' hw (case d6_ip_src p of None \<Rightarrow> ''::'' | Some s \<Rightarrow> s) None
                       [(''oro'', opt_str (map_option (\<lambda>xs. join [44] (map str_of_int xs)) (d6_oro p))),
                        (''duid'', opt_str duid), (''duid_type'', opt_str duid_type), (''duid_mac'', opt_str duid_mac),
                        (''vendor_class'', opt_str vendor_class),
                        (''enterprise_id'', (case d6_enterprise p of Some n \<Rightarrow> pnat n
                           | None \<Rightarrow> (case duid_ent of None \<Rightarrow> PNone | Some n \<Rightarrow> pnat n))),
                        (''enterprise_id_source'', (case d6_enterprise p of Some n \<Rightarrow> pstr ''vendor_class''
                           | None \<Rightarrow> (case duid_ent of None \<Rightarrow> PNone | Some n \<Rightarrow> pstr ''duid_en''))),
                        (''fqdn'', opt_str (d6_fqdn p))])\<lparr>cp_raw := Some (d6_bytes p)\<rparr>)))))"

end
