(* ===== verification/Pipeline.thy ===== *)
theory Pipeline
  imports Rules Identity Dhcp
begin

text \<open>
  \<open>core/pipeline.py\<close>: what happens to one captured packet.  The processors, the fingerprint
  lookups, the test for private addresses and the test for local interfaces are fields of
  \<open>pipe_env\<close>; a processor or lookup that raises gives None.  Callbacks and the sighting are the
  recorded \<open>effects\<close>, in order.  The dictionaries of the pipeline are association lists; one
  UTC time and one monotonic time stand for the clock readings of a packet.
\<close>

section \<open>State\<close>

record fp_match =
  fm_source :: string
  fm_match_type :: string
  fm_confidence :: rat
  fm_device_type :: "ustr option"
  fm_category :: "ustr option"
  fm_manufacturer :: "ustr option"
  fm_model :: "ustr option"
  fm_os_family :: "ustr option"
  fm_os_version :: "ustr option"
  fm_vendor :: "ustr option"
  fm_raw :: dict

record pipe_env =
  analyze :: "captured_packet \<Rightarrow> evidence list option"
  match_mac :: "mac \<Rightarrow> fp_match list"
  fingerprint_lookup :: "captured_packet \<Rightarrow> fp_match list option"
  private_ip :: "string \<Rightarrow> bool"
  local_mac :: "mac \<Rightarrow> bool"
  show1 :: "rat \<Rightarrow> ustr"

record pipe =
  evidence_buffer :: "(mac \<times> evidence list) list"
  oui_vendors :: "(mac \<times> ustr) list"
  oui_device_types :: "(mac \<times> ustr) list"
  gateway_macs :: "mac list"
  lookup_done :: "(mac \<times> string) list"
  seen_at :: "(mac \<times> rat) list"
  p_store :: store
  p_rules :: rule_state
  p_identities :: identities

definition pipe0 :: pipe where
  "pipe0 = \<lparr>evidence_buffer = [], oui_vendors = [], oui_device_types = [], gateway_macs = [], lookup_done = [],
     seen_at = [], p_store = empty_store, p_rules = rule_state0, p_identities = []\<rparr>"

datatype effect =
  ArpSeen captured_packet | DhcpSeen captured_packet
| GatewayHint mac string string string
| SightingRecorded mac string nat rat "string option" "string option"
| NewHost mac host
| VerdictReady mac verdict

section \<open>Addresses\<close>

definition MAC_RE :: re where
  "MAC_RE = re_seq [Bol, Rep 5 (Some 5) True (Seq (Rep 2 (Some 2) True (Cls is_hex)) (Cls (chr_is 58))),
     Rep 2 (Some 2) True (Cls is_hex), Eol]"

definition is_valid_mac :: "mac \<Rightarrow> bool" where
  "is_valid_mac m \<longleftrightarrow> m \<noteq> [] \<and> re_match MAC_RE (lit m) \<noteq> None \<and>
     m \<noteq> ''ff:ff:ff:ff:ff:ff'' \<and> m \<noteq> ''00:00:00:00:00:00''"

section \<open>Evidence\<close>

definition or_else :: "ustr option \<Rightarrow> ustr option \<Rightarrow> ustr option" where
  "or_else a b = (if truthy a then a else b)"

definition match_to_evidence :: "int \<Rightarrow> fp_match \<Rightarrow> evidence" where
  "match_to_evidence now m =
     \<lparr>ev_source = fm_source m, ev_method = fm_match_type m, certainty = fm_confidence m,
      category = or_else (fm_device_type m) (fm_category m), vendor = or_else (fm_manufacturer m) (fm_vendor m),
      platform = fm_os_family m, platform_version = fm_os_version m, model = fm_model m, hostname = None,
      ev_raw = fm_raw m, observed_at = now\<rparr>"

definition FORWARDED_EVIDENCE_SOURCES :: "string list" where
  "FORWARDED_EVIDENCE_SOURCES = [''mdns_service'', ''mdns_exclusive'', ''mdns'', ''mdns_txt'', ''mdns_name'',
     ''mdns_srv'', ''mdns_apple_model'', ''dns_answer'']"

definition blank_evidence :: "evidence \<Rightarrow> evidence" where
  "blank_evidence e = e\<lparr>certainty := 0, vendor := None, category := None, platform := None,
     platform_version := None, model := None, hostname := None\<rparr>"

text \<open>\<open>_vendors_match\<close>: equal, or one contained in the other without regard to case.\<close>

definition vendors_match :: "ustr option \<Rightarrow> ustr \<Rightarrow> bool" where
  "vendors_match a b \<longleftrightarrow> truthy a \<and>
     (let x = the a in x = b \<or> contains_sub (lower b) (lower x) \<or> contains_sub (lower x) (lower b))"

definition scrub_evidence :: "ustr option \<Rightarrow> evidence \<Rightarrow> evidence" where
  "scrub_evidence ref e =
     (if ev_source e \<notin> set FORWARDED_EVIDENCE_SOURCES then e
      else if truthy ref \<and> truthy (vendor e) \<and> vendors_match (vendor e) (the ref) then e
      else blank_evidence e)"

definition buffer_of :: "mac \<Rightarrow> pipe \<Rightarrow> evidence list" where
  "buffer_of m st = get_or (evidence_buffer st) m []"

definition scrub_infra_mdns :: "mac \<Rightarrow> pipe \<Rightarrow> pipe" where
  "scrub_infra_mdns m st =
     (case dict_get (evidence_buffer st) m of
        None \<Rightarrow> st
      | Some buf \<Rightarrow> st\<lparr>evidence_buffer := dict_set (evidence_buffer st) m
          (map (scrub_evidence (dict_get (oui_vendors st) m)) buf)\<rparr>)"

definition add_gateway :: "mac \<Rightarrow> pipe \<Rightarrow> pipe" where
  "add_gateway m st = st\<lparr>gateway_macs := List.insert m (gateway_macs st)\<rparr>"

text \<open>Past the limit, the older half of the tracked addresses goes.\<close>

definition MAX_TRACKED_MACS :: nat where
  "MAX_TRACKED_MACS = 20000"

definition evict_stale_macs :: "pipe \<Rightarrow> pipe" where
  "evict_stale_macs st =
     (if length (evidence_buffer st) \<le> MAX_TRACKED_MACS then st
      else
        let order = map fst (sort_key snd (seen_at st));
            gone = take (length order div 2) order
        in st\<lparr>evidence_buffer := filter (\<lambda>x. fst x \<notin> set gone) (evidence_buffer st),
              oui_vendors := filter (\<lambda>x. fst x \<notin> set gone) (oui_vendors st),
              oui_device_types := filter (\<lambda>x. fst x \<notin> set gone) (oui_device_types st),
              seen_at := filter (\<lambda>x. fst x \<notin> set gone) (seen_at st),
              lookup_done := filter (\<lambda>x. fst x \<notin> set gone) (lookup_done st)\<rparr>)"

section \<open>Gateways announced by the packet\<close>

definition role_evidence :: "int \<Rightarrow> string \<Rightarrow> dict \<Rightarrow> evidence" where
  "role_evidence now src raw =
     \<lparr>ev_source = src, ev_method = ''observed'', certainty = 95 / 100, category = Some (lit ''router''),
      vendor = None, platform = None, platform_version = None, model = None, hostname = None, ev_raw = raw,
      observed_at = now\<rparr>"

definition announce_gateway :: "int \<Rightarrow> captured_packet \<Rightarrow> string \<Rightarrow> string \<Rightarrow> dict \<Rightarrow> pipe \<Rightarrow> pipe \<times> effect list" where
  "announce_gateway now p src hint raw st =
     (let m = hw_addr p;
          st = scrub_infra_mdns m (add_gateway m st);
          st = st\<lparr>evidence_buffer := dict_set (evidence_buffer st) m (buffer_of m st @ [role_evidence now src raw])\<rparr>
      in (st, [GatewayHint m (ip_addr p) hint (case cp_interface p of None \<Rightarrow> [] | Some i \<Rightarrow> i)]))"

text \<open>The options of a DHCP packet must be a dictionary: \<open>get\<close> of anything else raises.\<close>

definition learn_gateway :: "int \<Rightarrow> captured_packet \<Rightarrow> pipe \<Rightarrow> py_error + (pipe \<times> effect list)" where
  "learn_gateway now p st =
     (if protocol p = ''dhcpv4'' then
        (case cp_get p ''raw_options'' (PDict []) of
           PDict opts \<Rightarrow>
             let mt = get_or opts ''message-type'' PNone
             in if (mt = PInt 2 \<or> mt = PInt 5 \<or> mt = PFloat 2 \<or> mt = PFloat 5) \<and> ip_addr p \<noteq> []
                then Inr (announce_gateway now p ''dhcp_server'' ''dhcp_server''
                       [(''dhcp_message_type'', mt), (''ip'', PStr (lit (ip_addr p)))] st)
                else Inr (st, [])
         | _ \<Rightarrow> Inl AttributeError)
      else if protocol p = ''icmpv6'' then
        if cp_get p ''icmpv6_type'' PNone = pstr ''router_advertisement'' \<and> ip_addr p \<noteq> []
        then Inr (announce_gateway now p ''icmpv6'' ''auto_gateway''
               [(''icmpv6_type'', pstr ''router_advertisement''), (''ip'', PStr (lit (ip_addr p)))] st)
        else Inr (st, [])
      else Inr (st, []))"

section \<open>Lookups\<close>

definition INFRA_TYPES :: "ustr list" where
  "INFRA_TYPES = map lit [''router'', ''switch'', ''gateway'', ''firewall'', ''access_point'', ''ap'', ''bridge'',
     ''mesh_router'']"

text \<open>The address lookup, only while the address has no buffered evidence.\<close>

definition mac_lookup :: "pipe_env \<Rightarrow> int \<Rightarrow> mac \<Rightarrow> pipe \<times> evidence list \<Rightarrow> pipe \<times> evidence list" where
  "mac_lookup env now m acc =
     (let (st, evs) = acc
      in if dict_get (evidence_buffer st) m \<noteq> None then (st, evs)
         else
           let matches = match_mac env m;
               evs = evs @ map (match_to_evidence now) matches
           in case find (\<lambda>x. fm_source x = ''oui'') matches of
                None \<Rightarrow> (st, evs)
              | Some hit \<Rightarrow>
                  let st = (if truthy (fm_manufacturer hit)
                            then st\<lparr>oui_vendors := dict_set (oui_vendors st) m (the (fm_manufacturer hit))\<rparr> else st);
                      dtype = lower (text_of (or_else (fm_device_type hit) (fm_category hit)));
                      st = st\<lparr>oui_device_types := dict_set (oui_device_types st) m dtype\<rparr>
                  in (if dtype \<in> set INFRA_TYPES then scrub_infra_mdns m (add_gateway m st) else st, evs))"

definition protocol_lookup :: "pipe_env \<Rightarrow> int \<Rightarrow> captured_packet \<Rightarrow> pipe \<times> evidence list \<Rightarrow> pipe \<times> evidence list" where
  "protocol_lookup env now p acc =
     (let (st, evs) = acc; key = (hw_addr p, protocol p)
      in if key \<in> set (lookup_done st) then (st, evs)
         else (st\<lparr>lookup_done := key # lookup_done st\<rparr>,
               case fingerprint_lookup env p of None \<Rightarrow> evs | Some ms \<Rightarrow> evs @ map (match_to_evidence now) ms))"

section \<open>Cross-validation\<close>

definition vendor_votes :: "evidence list \<Rightarrow> (ustr \<times> rat) list" where
  "vendor_votes evs = foldl (\<lambda>vs e. if truthy (vendor e)
     then dict_set vs (the (vendor e)) (get_or vs (the (vendor e)) 0 + certainty e) else vs) [] evs"

definition reference_vendor :: "mac \<Rightarrow> evidence list \<Rightarrow> pipe \<Rightarrow> ustr option" where
  "reference_vendor m evs st =
     (let oui = dict_get (oui_vendors st) m
      in if truthy oui then oui
         else let votes = vendor_votes (buffer_of m st @ evs)
              in if votes = [] then oui else Some (first_max (\<lambda>v. get_or votes v 0) (dict_keys votes)))"

text \<open>One piece of forwarded evidence against the reference vendor; \<open>others\<close> is all evidence
  except itself.\<close>

definition validate_evidence :: "bool \<Rightarrow> ustr \<Rightarrow> evidence list \<Rightarrow> evidence \<Rightarrow> evidence" where
  "validate_evidence infra ref others e =
     (if ev_source e \<notin> set FORWARDED_EVIDENCE_SOURCES then e
      else if infra then (if vendors_match (vendor e) ref then e else blank_evidence e)
      else if truthy (vendor e) \<and> \<not> vendors_match (vendor e) ref
        then e\<lparr>certainty := min (certainty e) (15 / 100), category := None, hostname := None\<rparr>
      else if \<not> truthy (vendor e) \<and> truthy (hostname e) then
        (if list_ex (\<lambda>x. truthy (hostname x) \<and> truthy (vendor x) \<and> vendors_match (vendor x) ref) others
         then e\<lparr>hostname := None\<rparr> else e)
      else e)"

text \<open>The loop changes the list in place: earlier items are already validated.\<close>

definition cross_validate :: "bool \<Rightarrow> ustr option \<Rightarrow> evidence list \<Rightarrow> evidence list \<Rightarrow> evidence list" where
  "cross_validate infra ref buf evs =
     (if \<not> truthy ref then evs
      else foldl (\<lambda>es i. es[i := validate_evidence infra (the ref) (buf @ take i es @ drop (Suc i) es) (es ! i)])
             evs [0..<length evs])"

section \<open>The host\<close>

definition TRUSTED_IP_PROTOCOLS :: "string list" where
  "TRUSTED_IP_PROTOCOLS = [''arp'', ''dhcpv4'', ''dhcpv6'', ''icmpv6'']"

text \<open>The addresses of the packet that may be written to the host.\<close>

definition assign_ip :: "pipe_env \<Rightarrow> captured_packet \<Rightarrow> pipe \<Rightarrow> string option \<times> string option" where
  "assign_ip env p st =
     (let m = hw_addr p; raw = ip_addr p; existing = find_host m (p_store st);
          usable = raw \<noteq> [] \<and> raw \<noteq> ''0.0.0.0''; is6 = CHR '':'' \<in> set raw;
          v4 = (if usable \<and> \<not> is6 then Some raw else None);
          v6 = (if usable \<and> is6 then Some raw else None);
          v4 = (if v4 \<noteq> None \<and> m \<in> set (gateway_macs st)
                then (if protocol p \<notin> set TRUSTED_IP_PROTOCOLS then None
                      else (case existing of
                              Some h \<Rightarrow> if truthy_s (h_ip_addr h) \<and> h_ip_addr h \<noteq> v4 then None else v4
                            | None \<Rightarrow> v4))
                else v4);
          v4 = (if v4 \<noteq> None \<and> \<not> private_ip env (the v4)
                then (case existing of
                        Some h \<Rightarrow> if truthy_s (h_ip_addr h) \<and> private_ip env (the (h_ip_addr h)) then None else v4
                      | None \<Rightarrow> v4)
                else v4);
          v6 = (if v6 \<noteq> None \<and> \<not> private_ip env (the v6)
                then (case existing of
                        Some h \<Rightarrow> if truthy_s (h_ip_v6 h) \<and> private_ip env (the (h_ip_v6 h)) then h_ip_v6 h else v6
                      | None \<Rightarrow> v6)
                else v6)
      in (v4, v6))"

text \<open>The real address of a randomised client, from option 61.  \<open>len\<close> of a missing value
  raises TypeError.\<close>

definition real_mac_of :: "captured_packet \<Rightarrow> py_error + mac option" where
  "real_mac_of p =
     (if is_randomized_mac (hw_addr p) \<and> protocol p = ''dhcpv4'' then
        (case cp_get p ''client_id'' (PStr []) of
           PStr c \<Rightarrow>
             Inr (if length c = 17 \<and> length (filter (\<lambda>x. x = 58) c) = 5 \<and> lower c \<noteq> lower (lit (hw_addr p)) \<and>
                     \<not> is_randomized_text c
                  then Some (map char_of c) else None)
         | _ \<Rightarrow> Inl TypeError)
      else Inr None)"

definition host_disposition :: "pipe_env \<Rightarrow> mac \<Rightarrow> store \<Rightarrow> string" where
  "host_disposition env m s =
     (let d = (case find_host m s of None \<Rightarrow> ''new'' | Some h \<Rightarrow> h_disposition h)
      in if d \<noteq> ''self'' \<and> local_mac env m then ''self'' else d)"

section \<open>Identity\<close>

text \<open>Signals from the verdict and the buffered evidence; a value that is not a text is rendered by
  \<open>render\<close>.\<close>

definition py_text :: "(pyval \<Rightarrow> ustr) \<Rightarrow> pyval \<Rightarrow> ustr" where
  "py_text render v = (case v of PStr t \<Rightarrow> t | _ \<Rightarrow> render v)"

definition raw_signal :: "(pyval \<Rightarrow> ustr) \<Rightarrow> string \<Rightarrow> string \<Rightarrow> dict \<Rightarrow> signals \<Rightarrow> signals" where
  "raw_signal render sig key raw sg =
     (if \<not> signal_set sg sig \<and> py_truthy (get_or raw key PNone)
      then dict_set sg sig (lower (py_text render (get_or raw key PNone))) else sg)"

definition evidence_signals :: "(pyval \<Rightarrow> ustr) \<Rightarrow> signals \<Rightarrow> evidence \<Rightarrow> signals" where
  "evidence_signals render sg e =
     (let raw = ev_raw e;
          sg = (if \<not> signal_set sg ''hostname'' \<and> truthy (hostname e)
                then dict_set sg ''hostname'' (lower (the (hostname e))) else sg);
          sg = raw_signal render ''dhcp_opt60'' ''opt60'' raw sg;
          sg = raw_signal render ''dhcp_opt55'' ''opt55'' raw sg;
          name = (if py_truthy (get_or raw ''friendly_name'' PNone) then get_or raw ''friendly_name'' PNone
                  else get_or raw ''name'' PNone);
          sg = (if \<not> signal_set sg ''mdns_name'' \<and> py_truthy name \<and> 64 \<notin> set (py_text render name)
                then dict_set sg ''mdns_name'' (lower (py_text render name)) else sg)
      in raw_signal render ''hostname'' ''hostname'' raw sg)"

definition build_correlation_signals :: "(pyval \<Rightarrow> ustr) \<Rightarrow> verdict \<Rightarrow> evidence list \<Rightarrow> signals" where
  "build_correlation_signals render v buf =
     foldl (evidence_signals render)
       (if truthy (v_hostname v) then [(''hostname'', lower (the (v_hostname v)))] else []) buf"

definition dict_update :: "('k \<times> 'v) list \<Rightarrow> ('k \<times> 'v) list \<Rightarrow> ('k \<times> 'v) list" where
  "dict_update d e = foldl (\<lambda>d (k, v). dict_set d k v) d e"

definition resolve_identity :: "(pyval \<Rightarrow> ustr) \<Rightarrow> int \<Rightarrow> mac \<Rightarrow> verdict \<Rightarrow> host \<Rightarrow> pipe \<Rightarrow> pipe" where
  "resolve_identity render now m v h st =
     (let sg = build_correlation_signals render v (buffer_of m st);
          (t, i) = (if \<not> is_randomized_mac m then find_or_create now m (p_identities st)
                    else if truthy_s (h_real_hw_addr h) then find_or_create now (the (h_real_hw_addr h)) (p_identities st)
                    else correlate_or_create now m sg (p_identities st));
          i = i\<lparr>i_manufacturer := or_else (v_vendor v) (i_manufacturer i),
                i_device_type := or_else (v_category v) (i_device_type i),
                i_os_family := or_else (v_platform v) (i_os_family i),
                i_os_version := or_else (v_platform_version v) (i_os_version i),
                i_hostname := or_else (v_hostname v) (i_hostname i),
                i_confidence := (if v_certainty v = 0 then i_confidence i else max (i_confidence i) (v_certainty v)),
                i_last_seen := now\<rparr>;
          i = (if is_randomized_mac m \<and> sg \<noteq> [] then i\<lparr>i_fingerprint := dict_update (i_fingerprint i) sg\<rparr> else i);
          t = update_identity i t
      in st\<lparr>p_identities := t,
            p_store := (if Some (int (i_id i)) = h_identity_id h then p_store st
              else (p_store st)\<lparr>s_hosts := update_row (s_hosts (p_store st)) m
                     (\<lambda>x. x\<lparr>h_identity_id := Some (int (i_id i))\<rparr>)\<rparr>)\<rparr>)"

section \<open>One packet\<close>

text \<open>From the evidence to the verdict: buffer, verdict, rules, disposition, stored verdict,
  identity.\<close>

definition judge_packet ::
    "(pyval \<Rightarrow> ustr) \<Rightarrow> pipe_env \<Rightarrow> int \<Rightarrow> rat \<Rightarrow> mac \<Rightarrow> host \<Rightarrow> evidence list \<Rightarrow> pipe \<Rightarrow> pipe \<times> effect list" where
  "judge_packet render env now mt m h evs st =
     (let v = compute now m (buffer_of m st @ evs);
          st = st\<lparr>evidence_buffer := dict_set (evidence_buffer st) m (evidence_chain v)\<rparr>;
          (s, r) = run_rules (show1 env) now mt h v (p_store st, p_rules st);
          (h, s) = (if h_disposition h = ''new''
                    then let h = h\<lparr>h_disposition := ''known''\<rparr> in (h, hosts_upsert h s) else (h, s));
          s = verdicts_upsert v s;
          st = resolve_identity render now m v h (st\<lparr>p_store := s, p_rules := r\<rparr>)
      in (st, [VerdictReady m v]))"

definition max_certainty :: "evidence list \<Rightarrow> rat" where
  "max_certainty evs = (if evs = [] then 0 else Max (set (map certainty evs)))"

text \<open>The evidence of one packet, up to its cross-validation.\<close>

definition gather_evidence ::
    "pipe_env \<Rightarrow> int \<Rightarrow> rat \<Rightarrow> captured_packet \<Rightarrow> pipe \<Rightarrow> pipe \<times> evidence list" where
  "gather_evidence env now mt p st =
     (let m = hw_addr p;
          evs = (case analyze env p of None \<Rightarrow> [] | Some es \<Rightarrow> es);
          st = evict_stale_macs (st\<lparr>seen_at := dict_set (seen_at st) m mt\<rparr>);
          (st, evs) = protocol_lookup env now p (mac_lookup env now m (st, evs))
      in (st, cross_validate (m \<in> set (gateway_macs st)) (reference_vendor m evs st) (buffer_of m st) evs))"

text \<open>The host row the packet writes, and the verdict that follows.\<close>

definition packet_host ::
    "pipe_env \<Rightarrow> int \<Rightarrow> captured_packet \<Rightarrow> string option \<times> string option \<Rightarrow> mac option \<Rightarrow> store \<Rightarrow> host" where
  "packet_host env now p ips rm s =
     \<lparr>h_hw_addr = hw_addr p, h_ip_addr = fst ips, h_ip_v6 = snd ips, h_discovered_at = now, h_last_active = now,
      h_mac_randomized = is_randomized_mac (hw_addr p), h_real_hw_addr = rm,
      h_disposition = host_disposition env (hw_addr p) s, h_identity_id = None\<rparr>"

definition record_packet ::
    "(pyval \<Rightarrow> ustr) \<Rightarrow> pipe_env \<Rightarrow> int \<Rightarrow> rat \<Rightarrow> mac \<Rightarrow> host \<Rightarrow> evidence list \<Rightarrow> pipe \<Rightarrow> pipe \<times> effect list" where
  "record_packet render env now mt m h evs st =
     (let out = (if find_host m (p_store st) = None then [NewHost m h] else []);
          st = st\<lparr>p_store := hosts_upsert h (p_store st)\<rparr>
      in if evs = [] then (st, out)
         else let (st, vs) = judge_packet render env now mt m h evs st in (st, out @ vs))"

text \<open>\<open>process\<close>: the new state with the effects, or the exception that leaves it.\<close>

definition process ::
    "(pyval \<Rightarrow> ustr) \<Rightarrow> pipe_env \<Rightarrow> int \<Rightarrow> rat \<Rightarrow> captured_packet \<Rightarrow> pipe \<Rightarrow> (pipe \<times> effect list) \<times> py_error option" where
  "process render env now mt p st0 =
     (if \<not> is_valid_mac (hw_addr p) then ((st0, []), None)
      else
        let m = hw_addr p;
            out = (if protocol p = ''arp'' then [ArpSeen p] else []) @
                  (if protocol p = ''dhcpv4'' then [DhcpSeen p] else [])
        in case learn_gateway now p st0 of
             Inl e \<Rightarrow> ((st0, out), Some e)
           | Inr (st, hints) \<Rightarrow>
               let (st, evs) = gather_evidence env now mt p st;
                   out = out @ hints @ [SightingRecorded m (protocol p) (length evs) (max_certainty evs)
                            (cp_interface p) (cp_network p)]
               in case real_mac_of p of
                    Inl e \<Rightarrow> ((st, out), Some e)
                  | Inr rm \<Rightarrow>
                      let (st, vs) = record_packet render env now mt m
                            (packet_host env now p (assign_ip env p st) rm (p_store st)) evs st
                      in ((st, out @ vs), None))"

definition process_batch ::
    "(pyval \<Rightarrow> ustr) \<Rightarrow> pipe_env \<Rightarrow> (int \<times> rat \<times> captured_packet) list \<Rightarrow> pipe \<Rightarrow> pipe" where
  "process_batch render env ps st = foldl (\<lambda>st (now, mt, p). fst (fst (process render env now mt p st))) st ps"

end
