(* ===== verification/PipelineProps.thy ===== *)
theory PipelineProps
  imports Pipeline StoreProps
begin

text \<open>
  The pipeline as a whole: what one packet does to hosts and findings, composed from the store, the
  rules and the parsers.
\<close>

section \<open>What the rules add to the findings\<close>

definition new_host_count :: "mac \<Rightarrow> store \<Rightarrow> nat" where
  "new_host_count m s = length (filter (\<lambda>f. f_rule f = NEW_HOST \<and> f_hw_addr f = m) (s_findings s))"

lemma store_finding_frame [simp]:
  "s_hosts (store_finding f s) = s_hosts s" "s_devices (store_finding f s) = s_devices s"
  "s_verdicts (store_finding f s) = s_verdicts s"
  by (simp_all add: store_finding_def add_finding_def split: option.split)

lemma new_host_count_store:
  "new_host_count m (store_finding f s) = new_host_count m s +
     (case f of Some x \<Rightarrow> if f_rule x = NEW_HOST \<and> f_hw_addr x = m then 1 else 0 | None \<Rightarrow> 0)"
  by (simp add: new_host_count_def store_finding_def add_finding_def split: option.split)

lemma new_finding_fields [simp]:
  "f_rule (new_finding now m r sev msg) = r" "f_hw_addr (new_finding now m r sev msg) = m"
  "f_severity (new_finding now m r sev msg) = sev"
  by (simp_all add: new_finding_def)

definition other_rule :: "finding option \<Rightarrow> bool" where
  "other_rule x \<longleftrightarrow> (\<forall>f. x = Some f \<longrightarrow> f_rule f \<noteq> NEW_HOST)"

lemma other_rule_simps [simp]:
  "other_rule None" "other_rule (Some f) \<longleftrightarrow> f_rule f \<noteq> NEW_HOST"
  by (simp_all add: other_rule_def)

lemma count_other: "other_rule x \<Longrightarrow> new_host_count m (store_finding x s) = new_host_count m s"
  by (cases x) (simp_all add: new_host_count_store)

lemma low_certainty_other: "other_rule (snd (low_certainty_rule now h v s r))"
  unfolding low_certainty_rule_def Let_def by (simp split: option.split)

lemma identity_shift_other: "other_rule (snd (identity_shift_rule now mt h v s r))"
  unfolding identity_shift_rule_def Let_def by (simp split: option.split prod.split)

lemma addr_conflict_other: "other_rule (snd (addr_conflict_rule now mt h s r))"
  unfolding addr_conflict_rule_def Let_def by (simp split: list.split)

lemma behavioral_other: "other_rule (snd (behavioral_drift_rule sh now mt h r))"
  unfolding behavioral_drift_rule_def Let_def by (simp split: option.split prod.split)

lemma randomized_other: "other_rule (randomized_addr_rule now h v s)"
  unfolding randomized_addr_rule_def Let_def by simp

lemma collision_other: "other_rule (collision_rule now h v s)"
  unfolding collision_rule_def Let_def by (simp split: list.split)

lemmas other_rules = low_certainty_other identity_shift_other addr_conflict_other behavioral_other
  randomized_other collision_other

lemma run_rules_count:
  "new_host_count m (fst (run_rules sh now mt h v (s, r))) =
     new_host_count m s + (if h_disposition h = ''new'' \<and> m = h_hw_addr h then 1 else 0)"
proof -
  have n: "new_host_count m (store_finding (new_host_rule now h v s) s) =
      new_host_count m s + (if h_disposition h = ''new'' \<and> m = h_hw_addr h then 1 else 0)"
    by (auto simp: new_host_count_store new_host_rule_def Let_def)
  show ?thesis
    unfolding run_rules_def Let_def prod.case split_beta fst_conv
    by (simp only: count_other [OF low_certainty_other] count_other [OF identity_shift_other]
        count_other [OF addr_conflict_other] count_other [OF behavioral_other]
        count_other [OF randomized_other] count_other [OF collision_other] n)
qed

lemma run_rules_frame [simp]:
  "s_hosts (fst (run_rules sh now mt h v (s, r))) = s_hosts s"
  "s_devices (fst (run_rules sh now mt h v (s, r))) = s_devices s"
  unfolding run_rules_def Let_def prod.case split_beta by simp_all

section \<open>Hosts\<close>

lemma find_hosts_upsert:
  "find_host m (hosts_upsert h s) =
     (if m = h_hw_addr h then Some (case find_host m s of None \<Rightarrow> h\<lparr>h_identity_id := None\<rparr>
        | Some old \<Rightarrow> merge_host old (h\<lparr>h_identity_id := None\<rparr>)) else find_host m s)"
  by (simp add: find_host_def hosts_upsert_def)

lemma merge_host_disposition:
  "h_disposition (merge_host old new) =
     (if h_disposition old = ''self'' \<or> h_disposition old = ''known'' then h_disposition old else h_disposition new)"
  by (auto simp: merge_host_def)

lemma upsert_other_frame [simp]:
  "s_findings (hosts_upsert h s) = s_findings s" "s_findings (verdicts_upsert v s) = s_findings s"
  "s_hosts (verdicts_upsert v s) = s_hosts s"
  by (simp_all add: hosts_upsert_def verdicts_upsert_def)

lemma count_frame: "s_findings t = s_findings s \<Longrightarrow> new_host_count m t = new_host_count m s"
  by (simp add: new_host_count_def)

lemma resolve_identity_store:
  "s_findings (p_store (resolve_identity rd now m v h st)) = s_findings (p_store st)"
  "map_option h_disposition (find_host k (p_store (resolve_identity rd now m v h st))) =
   map_option h_disposition (find_host k (p_store st))"
  unfolding resolve_identity_def Let_def split_beta
  by (auto simp: find_host_def map_option_case split: option.split)

text \<open>The disposition of a host in the store.\<close>

definition disposition_of :: "mac \<Rightarrow> store \<Rightarrow> string option" where
  "disposition_of m s = map_option h_disposition (find_host m s)"

lemma disposition_upsert:
  "disposition_of m (hosts_upsert h s) =
     (if m = h_hw_addr h then
        (case disposition_of m s of
           None \<Rightarrow> Some (h_disposition h)
         | Some d \<Rightarrow> Some (if d = ''self'' \<or> d = ''known'' then d else h_disposition h))
      else disposition_of m s)"
  by (auto simp: disposition_of_def find_hosts_upsert merge_host_disposition split: option.split)

lemma disposition_frame: "s_hosts t = s_hosts s \<Longrightarrow> disposition_of m t = disposition_of m s"
  by (simp add: disposition_of_def find_host_def)

section \<open>New hosts are reported once\<close>

definition reported_once :: "store \<Rightarrow> bool" where
  "reported_once s \<longleftrightarrow> (\<forall>m. new_host_count m s = 0 \<or>
     new_host_count m s = 1 \<and> disposition_of m s \<in> {Some ''known'', Some ''self''})"

lemma judge_store:
  "p_store (fst (judge_packet rd env now mt m h evs st)) =
   (let v = compute now m (buffer_of m st @ evs);
        s = fst (run_rules (show1 env) now mt h v (p_store st, p_rules st));
        s2 = verdicts_upsert v (if h_disposition h = ''new'' then hosts_upsert (h\<lparr>h_disposition := ''known''\<rparr>) s else s)
    in p_store (resolve_identity rd now m v (if h_disposition h = ''new'' then h\<lparr>h_disposition := ''known''\<rparr> else h)
         (st\<lparr>evidence_buffer := dict_set (evidence_buffer st) m (evidence_chain v), p_store := s2,
             p_rules := snd (run_rules (show1 env) now mt h v (p_store st, p_rules st))\<rparr>)))"
  unfolding judge_packet_def Let_def split_beta by simp

lemma judge_once:
  assumes "reported_once (p_store st)" "h_hw_addr h = m"
    "h_disposition h = ''new'' \<Longrightarrow> disposition_of m (p_store st) = Some ''new''"
  shows "reported_once (p_store (fst (judge_packet rd env now mt m h evs st)))"
proof -
  define v where "v = compute now m (buffer_of m st @ evs)"
  define s where "s = fst (run_rules (show1 env) now mt h v (p_store st, p_rules st))"
  define s2 where "s2 = verdicts_upsert v
    (if h_disposition h = ''new'' then hosts_upsert (h\<lparr>h_disposition := ''known''\<rparr>) s else s)"
  have c: "new_host_count k s2 =
      new_host_count k (p_store st) + (if h_disposition h = ''new'' \<and> k = m then 1 else 0)" for k
  proof -
    have "new_host_count k s2 = new_host_count k s" by (rule count_frame) (simp add: s2_def)
    then show ?thesis using run_rules_count assms(2) by (simp add: s_def)
  qed
  have ds: "disposition_of k s = disposition_of k (p_store st)" for k
    by (rule disposition_frame) (simp add: s_def)
  have d: "disposition_of k s2 =
      (if h_disposition h = ''new'' \<and> k = m then Some ''known'' else disposition_of k (p_store st))" for k
  proof -
    have "disposition_of k s2 = disposition_of k
        (if h_disposition h = ''new'' then hosts_upsert (h\<lparr>h_disposition := ''known''\<rparr>) s else s)"
      by (rule disposition_frame) (simp add: s2_def)
    then show ?thesis using assms(2,3) by (simp add: disposition_upsert ds)
  qed
  have r: "reported_once s2"
    unfolding reported_once_def
  proof
    fix k
    show "new_host_count k s2 = 0 \<or> new_host_count k s2 = 1 \<and> disposition_of k s2 \<in> {Some ''known'', Some ''self''}"
      using assms(1,3) by (cases "h_disposition h = ''new'' \<and> k = m") (auto simp: reported_once_def c d)
  qed
  let ?st = "st\<lparr>evidence_buffer := dict_set (evidence_buffer st) m (evidence_chain v), p_store := s2,
             p_rules := snd (run_rules (show1 env) now mt h v (p_store st, p_rules st))\<rparr>"
  have "new_host_count k (p_store (resolve_identity rd now m v h' ?st)) = new_host_count k s2" for k h'
    by (rule count_frame) (simp add: resolve_identity_store(1))
  moreover have "disposition_of k (p_store (resolve_identity rd now m v h' ?st)) = disposition_of k s2" for k h'
    unfolding disposition_of_def resolve_identity_store(2) by simp
  ultimately have "reported_once (p_store (resolve_identity rd now m v h' ?st))" for h'
    using r by (simp add: reported_once_def)
  then show ?thesis unfolding judge_store Let_def v_def s_def s2_def by blast
qed

text \<open>What a packet does to the store before any evidence is judged.\<close>

lemma announce_store: "learn_gateway now p st = Inr (st', hs) \<Longrightarrow> p_store st' = p_store st"
  by (auto simp: learn_gateway_def announce_gateway_def scrub_infra_mdns_def add_gateway_def Let_def
      split: if_splits pyval.splits option.splits)

lemma scrub_store [simp]: "p_store (scrub_infra_mdns m st) = p_store st" "p_store (add_gateway m st) = p_store st"
  "p_store (evict_stale_macs st) = p_store st"
  by (simp_all add: scrub_infra_mdns_def add_gateway_def evict_stale_macs_def Let_def split: option.split)

lemma lookup_store:
  "p_store (fst (protocol_lookup env now p acc)) = p_store (fst acc)"
  "p_store (fst (mac_lookup env now m acc)) = p_store (fst acc)"
  by (simp_all add: protocol_lookup_def mac_lookup_def Let_def split_beta split: option.split)

lemma gather_store: "p_store (fst (gather_evidence env now mt p st)) = p_store st"
  by (simp add: gather_evidence_def Let_def split_beta lookup_store)

text \<open>The four ways through \<open>process\<close>.\<close>

lemma process_invalid: "\<not> is_valid_mac (hw_addr p) \<Longrightarrow> process rd env now mt p st = ((st, []), None)"
  by (simp add: process_def)

lemma process_options:
  "is_valid_mac (hw_addr p) \<Longrightarrow> learn_gateway now p st = Inl e \<Longrightarrow>
     fst (fst (process rd env now mt p st)) = st \<and> snd (process rd env now mt p st) = Some e"
  by (simp add: process_def Let_def)

lemma process_client:
  "is_valid_mac (hw_addr p) \<Longrightarrow> learn_gateway now p st = Inr (st1, hs) \<Longrightarrow> real_mac_of p = Inl e \<Longrightarrow>
     fst (fst (process rd env now mt p st)) = fst (gather_evidence env now mt p st1) \<and>
     snd (process rd env now mt p st) = Some e"
  by (simp add: process_def Let_def split_beta)

lemma process_recorded:
  "is_valid_mac (hw_addr p) \<Longrightarrow> learn_gateway now p st = Inr (st1, hs) \<Longrightarrow> real_mac_of p = Inr rm \<Longrightarrow>
     gather_evidence env now mt p st1 = (st2, evs) \<Longrightarrow>
     fst (fst (process rd env now mt p st)) =
       fst (record_packet rd env now mt (hw_addr p) (packet_host env now p (assign_ip env p st2) rm (p_store st2)) evs st2) \<and>
     snd (process rd env now mt p st) = None"
  by (simp add: process_def Let_def split_beta)

lemma host_disposition_new:
  "host_disposition env m s = ''new'' \<Longrightarrow> disposition_of m s = None \<or> disposition_of m s = Some ''new''"
  by (auto simp: host_disposition_def disposition_of_def Let_def split: option.splits if_splits)

lemma packet_host_simps [simp]:
  "h_hw_addr (packet_host env now p ips rm s) = hw_addr p"
  "h_disposition (packet_host env now p ips rm s) = host_disposition env (hw_addr p) s"
  by (simp_all add: packet_host_def)

lemma upsert_once:
  assumes "reported_once s"
  shows "reported_once (hosts_upsert h s)"
  unfolding reported_once_def
proof
  fix m
  have c: "new_host_count m (hosts_upsert h s) = new_host_count m s" by (rule count_frame) simp
  show "new_host_count m (hosts_upsert h s) = 0 \<or> new_host_count m (hosts_upsert h s) = 1 \<and>
      disposition_of m (hosts_upsert h s) \<in> {Some ''known'', Some ''self''}"
    using assms [unfolded reported_once_def, rule_format, of m] unfolding c disposition_upsert by auto
qed

lemma upsert_stays_new:
  assumes "host_disposition env (h_hw_addr h) s = ''new''" "h_disposition h = ''new''"
  shows "disposition_of (h_hw_addr h) (hosts_upsert h s) = Some ''new''"
  using host_disposition_new [OF assms(1)] assms(2) by (auto simp: disposition_upsert)

lemma record_once:
  assumes "reported_once (p_store st)"
  shows "reported_once (p_store (fst (record_packet rd env now mt (hw_addr p)
           (packet_host env now p ips rm (p_store st)) evs st)))"
proof (cases "evs = []")
  case True
  then show ?thesis using upsert_once [OF assms] by (simp add: record_packet_def Let_def)
next
  case False
  let ?h = "packet_host env now p ips rm (p_store st)"
  have "reported_once (p_store (fst (judge_packet rd env now mt (hw_addr p) ?h evs
      (st\<lparr>p_store := hosts_upsert ?h (p_store st)\<rparr>))))"
  proof (rule judge_once)
    show "h_disposition ?h = ''new'' \<Longrightarrow>
        disposition_of (hw_addr p) (p_store (st\<lparr>p_store := hosts_upsert ?h (p_store st)\<rparr>)) = Some ''new''"
      using upsert_stays_new [of env ?h "p_store st"] by simp
  qed (use upsert_once [OF assms] in simp_all)
  with False show ?thesis by (simp add: record_packet_def Let_def split_beta)
qed

lemma process_once:
  assumes "reported_once (p_store st)"
  shows "reported_once (p_store (fst (fst (process rd env now mt p st))))"
proof (cases "is_valid_mac (hw_addr p)")
  case False
  then show ?thesis using assms by (simp add: process_invalid)
next
  case v: True
  show ?thesis
  proof (cases "learn_gateway now p st")
    case (Inl e)
    then show ?thesis using process_options [OF v] assms by metis
  next
    case (Inr sh)
    obtain st1 hs where sh: "learn_gateway now p st = Inr (st1, hs)" using Inr by (cases sh) simp
    obtain st2 evs where g: "gather_evidence env now mt p st1 = (st2, evs)" by fastforce
    have s2: "p_store st2 = p_store st" using gather_store [of env now mt p st1] g announce_store [OF sh] by simp
    show ?thesis
    proof (cases "real_mac_of p")
      case (Inl e)
      then show ?thesis using process_client [OF v sh Inl, of rd env mt] g s2 assms by simp
    next
      case (Inr rm)
      then show ?thesis
        using process_recorded [OF v sh Inr g, of rd] record_once [of st2 rd env now mt p _ rm evs] s2 assms by simp
    qed
  qed
qed

lemma batch_once: "reported_once (p_store st) \<Longrightarrow> reported_once (p_store (process_batch rd env ps st))"
proof (induction ps arbitrary: st)
  case Nil
  then show ?case by (simp add: process_batch_def)
next
  case (Cons x ps)
  obtain now mt p where x: "x = (now, mt, p)" by (cases x)
  show ?case using Cons.IH [OF process_once [OF Cons.prems, of rd env now mt p]]
    by (simp add: process_batch_def x)
qed

text \<open>C13: Whatever packets arrive, in whatever order, the discovery of a hardware address is reported
  at most once, and an address that was reported is recorded as known or as the sensor itself.\<close>

theorem new_host_reported_once:
  "new_host_count m (p_store (process_batch rd env ps pipe0)) = 0 \<or>
   new_host_count m (p_store (process_batch rd env ps pipe0)) = 1 \<and>
   map_option h_disposition (find_host m (p_store (process_batch rd env ps pipe0)))
     \<in> {Some ''known'', Some ''self''}"
proof -
  have "reported_once (p_store pipe0)"
    by (simp add: pipe0_def empty_store_def reported_once_def new_host_count_def)
  from batch_once [OF this] show ?thesis by (simp add: reported_once_def disposition_of_def)
qed

section \<open>Every packet leaves its host in the store\<close>

lemma find_upsert_some: "find_host (h_hw_addr h) (hosts_upsert h s) \<noteq> None"
  by (simp add: find_hosts_upsert)

lemma judge_keeps_hosts:
  assumes "find_host k (p_store st) \<noteq> None"
  shows "find_host k (p_store (fst (judge_packet rd env now mt m h evs st))) \<noteq> None"
proof -
  define s where "s = fst (run_rules (show1 env) now mt h (compute now m (buffer_of m st @ evs)) (p_store st, p_rules st))"
  define s2 where "s2 = verdicts_upsert (compute now m (buffer_of m st @ evs))
    (if h_disposition h = ''new'' then hosts_upsert (h\<lparr>h_disposition := ''known''\<rparr>) s else s)"
  have "s_hosts s = s_hosts (p_store st)" by (simp add: s_def)
  then have "disposition_of k s \<noteq> None" using assms by (simp add: disposition_of_def find_host_def)
  moreover have "disposition_of k s2 = disposition_of k
      (if h_disposition h = ''new'' then hosts_upsert (h\<lparr>h_disposition := ''known''\<rparr>) s else s)"
    by (rule disposition_frame) (simp add: s2_def)
  ultimately have "disposition_of k s2 \<noteq> None" by (auto simp: disposition_upsert split: option.split)
  moreover have "disposition_of k (p_store (resolve_identity rd now m v h'
      (st\<lparr>evidence_buffer := b, p_store := s2, p_rules := r\<rparr>))) = disposition_of k s2" for v h' b r
    unfolding disposition_of_def resolve_identity_store(2) by simp
  ultimately have "disposition_of k (p_store (resolve_identity rd now m v h'
      (st\<lparr>evidence_buffer := b, p_store := s2, p_rules := r\<rparr>))) \<noteq> None" for v h' b r
    by simp
  then show ?thesis unfolding judge_store Let_def s_def s2_def disposition_of_def option.map_disc_iff by blast
qed

text \<open>A packet with a valid address whose processing raises no exception leaves the host of that
  address in the store, whether or not any evidence came out of it.\<close>

theorem packet_records_host:
  assumes "is_valid_mac (hw_addr p)" "snd (process rd env now mt p st) = None"
  shows "find_host (hw_addr p) (p_store (fst (fst (process rd env now mt p st)))) \<noteq> None"
proof (cases "learn_gateway now p st")
  case (Inl e)
  then show ?thesis using process_options [OF assms(1) Inl, of rd env mt] assms(2) by simp
next
  case (Inr sh)
  obtain st1 hs where sh: "learn_gateway now p st = Inr (st1, hs)" using Inr by (cases sh) simp
  obtain st2 evs where g: "gather_evidence env now mt p st1 = (st2, evs)" by fastforce
  show ?thesis
  proof (cases "real_mac_of p")
    case (Inl e)
    then show ?thesis using process_client [OF assms(1) sh Inl, of rd env mt] assms(2) by simp
  next
    case (Inr rm)
    let ?h = "packet_host env now p (assign_ip env p st2) rm (p_store st2)"
    have "find_host (hw_addr p) (hosts_upsert ?h (p_store st2)) \<noteq> None"
      using find_upsert_some [of ?h "p_store st2"] by simp
    then have "find_host (hw_addr p) (p_store (fst (record_packet rd env now mt (hw_addr p) ?h evs st2))) \<noteq> None"
      using judge_keeps_hosts [of "hw_addr p" "st2\<lparr>p_store := hosts_upsert ?h (p_store st2)\<rparr>"]
      by (simp add: record_packet_def Let_def split_beta)
    then show ?thesis using process_recorded [OF assms(1) sh Inr g, of rd] by simp
  qed
qed

text \<open>An environment without processors, databases or local addresses.\<close>

definition bare_env :: pipe_env where
  "bare_env = \<lparr>analyze = \<lambda>_. None, match_mac = \<lambda>_. [], fingerprint_lookup = \<lambda>_. None, private_ip = \<lambda>_. True,
     local_mac = \<lambda>_. False, show1 = \<lambda>_. []\<rparr>"

definition arp_packet :: captured_packet where
  "arp_packet = captured ''arp'' ''00:11:22:33:44:55'' ''10.0.0.7'' None []"

lemma arp_packet_valid: "is_valid_mac (hw_addr arp_packet)"
  by code_simp

lemma arp_packet_no_exception: "snd (process rd env now mt arp_packet st) = None"
proof -
  have a: "protocol arp_packet = ''arp''" by (simp add: arp_packet_def captured_def)
  then show ?thesis by (simp add: process_def learn_gateway_def real_mac_of_def Let_def split_beta)
qed

theorem packet_records_host_witness:
  "find_host ''00:11:22:33:44:55''
     (p_store (fst (fst (process (\<lambda>_. []) bare_env 0 0 arp_packet pipe0)))) \<noteq> None"
  using packet_records_host [OF arp_packet_valid arp_packet_no_exception]
  by (simp add: arp_packet_def captured_def)

section \<open>DHCP clients without a client identifier\<close>

lemma scan_opt_client:
  "scan_opt sv name v a = Inr b \<Longrightarrow> name \<noteq> ''client_id'' \<Longrightarrow> sc_client_id b = sc_client_id a"
  by (auto simp: scan_opt_def Let_def split: if_splits sum.splits)

lemma scan_options_client:
  "scan_options sv os a = Inr b \<Longrightarrow> (\<And>v. Opt ''client_id'' v \<notin> set os) \<Longrightarrow> sc_client_id b = sc_client_id a"
proof (induction sv os a rule: scan_options.induct)
  case (3 sv name v os a)
  then show ?case by (cases "scan_opt sv name v a") (auto dest: scan_opt_client)
qed simp_all

text \<open>What the parser hands on for such a client.\<close>

lemma anonymous_client_packet:
  assumes "parse_dhcpv4 sv d = Inr (Some c)" "dp_options d = Some os" "\<And>v. Opt ''client_id'' v \<notin> set os"
  shows "protocol c = ''dhcpv4'' \<and> cp_get c ''client_id'' x = PNone \<and> (\<exists>r. cp_get c ''raw_options'' y = PDict r)"
proof -
  obtain a where a: "scan_options sv os dhcp_scan0 = Inr a"
    using assms(1,2) by (cases "scan_options sv os dhcp_scan0") (simp_all add: parse_dhcpv4_def)
  have "sc_client_id a = None" using scan_options_client [OF a] assms(3) by (simp add: dhcp_scan0_def)
  then show ?thesis using assms(1,2) a
    by (auto simp: parse_dhcpv4_def captured_def cp_get_def get_or_def opt_str_def split: if_splits)
qed

text \<open>C15: A DHCP client with a randomised address that sends no client identifier (option 61) is never
  recorded: the missing identifier makes the pipeline raise TypeError before the host is written, so
  the store is as it was before the packet.\<close>

theorem anonymous_dhcp_client_lost:
  assumes "parse_dhcpv4 sv d = Inr (Some c)" "dp_options d = Some os" "\<And>v. Opt ''client_id'' v \<notin> set os"
    "is_valid_mac (hw_addr c)" "is_randomized_mac (hw_addr c)"
  shows "snd (process rd env now mt c st) = Some TypeError \<and>
    p_store (fst (fst (process rd env now mt c st))) = p_store st"
proof -
  have c: "protocol c = ''dhcpv4''" "cp_get c ''client_id'' x = PNone" "\<exists>r. cp_get c ''raw_options'' y = PDict r" for x y
    using anonymous_client_packet [OF assms(1-3)] by auto
  have r: "real_mac_of c = Inl TypeError" using c assms(5) by (simp add: real_mac_of_def)
  obtain st1 hs where g: "learn_gateway now c st = Inr (st1, hs)"
  proof -
    obtain r where "cp_get c ''raw_options'' (PDict []) = PDict r" using c(3) by blast
    then show thesis using that
      by (cases "learn_gateway now c st") (auto simp: learn_gateway_def Let_def c(1) split: if_splits)
  qed
  show ?thesis
    using process_client [OF assms(4) g r] gather_store announce_store [OF g] by metis
qed

definition anonymous_client :: dhcp_packet where
  "anonymous_client = \<lparr>dp_src = ''da:11:22:33:44:55'',
     dp_options = Some [Opt ''message-type'' (DInt 1), Opt ''hostname'' (DText (lit ''Pixel-7'')), Marker ''end''],
     dp_chaddr = [0xda, 0x11, 0x22, 0x33, 0x44, 0x55], dp_yiaddr = ''0.0.0.0'', dp_ciaddr = ''0.0.0.0'',
     dp_siaddr = ''0.0.0.0'', dp_ip_src = Some ''0.0.0.0'', dp_bytes = []\<rparr>"

definition anonymous_packet :: captured_packet where
  "anonymous_packet = (case parse_dhcpv4 (\<lambda>_. []) anonymous_client of Inr (Some c) \<Rightarrow> c | _ \<Rightarrow> arp_packet)"

lemma anonymous_packet_parsed: "parse_dhcpv4 (\<lambda>_. []) anonymous_client = Inr (Some anonymous_packet)"
  by (simp add: anonymous_packet_def parse_dhcpv4_def anonymous_client_def scan_opt_def decode_or_str_def)

lemma ascii_of_code:
  "char_of (58 :: nat) = CHR '':''" "char_of (digit_char 13) = CHR ''d''" "char_of (digit_char 10) = CHR ''a''"
  "char_of (digit_char (Suc 0)) = CHR ''1''" "char_of (digit_char 2) = CHR ''2''" "char_of (digit_char 3) = CHR ''3''"
  "char_of (digit_char 4) = CHR ''4''" "char_of (digit_char 5) = CHR ''5''"
  by (code_simp)+

lemma anonymous_packet_address: "hw_addr anonymous_packet = ''da:11:22:33:44:55''"
  by (simp add: anonymous_packet_def parse_dhcpv4_def anonymous_client_def scan_opt_def decode_or_str_def
      mac_text_def captured_def hex_byte_def ascii_of_code)

theorem anonymous_dhcp_client_lost_witness:
  "snd (process (\<lambda>_. []) bare_env 0 0 anonymous_packet pipe0) = Some TypeError \<and>
   p_store (fst (fst (process (\<lambda>_. []) bare_env 0 0 anonymous_packet pipe0))) = p_store pipe0"
proof (rule anonymous_dhcp_client_lost [OF anonymous_packet_parsed])
  show "dp_options anonymous_client =
      Some [Opt ''message-type'' (DInt 1), Opt ''hostname'' (DText (lit ''Pixel-7'')), Marker ''end'']"
    by (simp add: anonymous_client_def)
  show "is_valid_mac (hw_addr anonymous_packet)" unfolding anonymous_packet_address by code_simp
  show "is_randomized_mac (hw_addr anonymous_packet)" unfolding anonymous_packet_address by code_simp
qed simp

section \<open>Forwarded evidence on infrastructure\<close>

lemma foldl_update_map:
  assumes "\<And>e x. f e x = g (x :: 'a)"
  shows "n \<le> length xs \<Longrightarrow>
    foldl (\<lambda>es i. es[i := f (h es i) (es ! i)]) xs [0..<n] = map g (take n xs) @ drop n xs"
proof (induction n)
  case (Suc n)
  then have n: "n < length xs" by simp
  have "(map g (take n xs) @ drop n xs) ! n = xs ! n" using n by (simp add: nth_append min_def)
  moreover have "(map g (take n xs) @ drop n xs)[n := y] = map g (take n xs) @ y # drop (Suc n) xs" for y
    using n by (simp add: list_update_append min_def Cons_nth_drop_Suc [OF n, symmetric])
  ultimately show ?case using Suc n assms by (simp add: take_Suc_conv_app_nth)
qed simp

lemma cross_validate_infra:
  "ref \<noteq> [] \<Longrightarrow> cross_validate True (Some ref) buf evs = map (validate_evidence True ref []) evs"
  using foldl_update_map [of "\<lambda>os. validate_evidence True ref os" "validate_evidence True ref []" "length evs" evs
      "\<lambda>es i. buf @ take i es @ drop (Suc i) es"]
  by (simp add: cross_validate_def truthy_def validate_evidence_def)

text \<open>C16: On a device flagged as infrastructure, forwarded evidence survives cross-validation only when
  its vendor agrees with the reference vendor.  Any other piece loses its certainty and every claim
  about the device; all other evidence is untouched and the order is kept.\<close>

theorem infra_forwarded_evidence:
  assumes "ref \<noteq> []" "i < length evs"
  shows "length (cross_validate True (Some ref) buf evs) = length evs \<and>
    (if ev_source (evs ! i) \<in> set FORWARDED_EVIDENCE_SOURCES \<and> \<not> vendors_match (vendor (evs ! i)) ref
     then cross_validate True (Some ref) buf evs ! i = (evs ! i)\<lparr>certainty := 0, vendor := None, category := None,
            platform := None, platform_version := None, model := None, hostname := None\<rparr>
     else cross_validate True (Some ref) buf evs ! i = evs ! i)"
  using assms by (simp add: cross_validate_infra validate_evidence_def blank_evidence_def)

definition forwarded_evidence :: "ustr \<Rightarrow> evidence" where
  "forwarded_evidence v = \<lparr>ev_source = ''mdns'', ev_method = ''pattern'', certainty = 9 / 10,
     category = Some (lit ''speaker''), vendor = Some v, platform = None, platform_version = None, model = None,
     hostname = Some (lit ''kitchen''), ev_raw = [], observed_at = 0\<rparr>"

theorem infra_forwarded_evidence_witness:
  "hostname (cross_validate True (Some (lit ''Ubiquiti'')) [] [forwarded_evidence (lit ''Apple'')] ! 0) = None"
proof -
  have n: "\<not> vendors_match (Some (lit ''Apple'')) (lit ''Ubiquiti'')" by code_simp
  have s: "''mdns'' \<in> set FORWARDED_EVIDENCE_SOURCES" by (simp add: FORWARDED_EVIDENCE_SOURCES_def)
  have r: "lit ''Ubiquiti'' \<noteq> []" by (simp add: lit_def)
  show ?thesis
    using infra_forwarded_evidence [OF r, of 0 "[forwarded_evidence (lit ''Apple'')]" "[]"] n s
    by (simp add: forwarded_evidence_def)
qed

end
