(* ===== verification/Tables.thy ===== *)
theory Tables
  imports Store
begin

text \<open>
  The other tables of \<open>store/database.py\<close> and the repositories beside it: alerts, trusted
  bindings, ARP history, suppression rules, API tokens, fingerprint snapshots
  (\<open>fingerprint_history\<close> and \<open>store/snapshots.py\<close>), probe targets, sightings
  (\<open>store/sightings.py\<close>) and operator overrides (\<open>store/overrides.py\<close>).  As in
  \<open>Store\<close>, a table with a primary key is an association list in insertion order and a table with
  a generated id a list of rows; a lookup without \<open>ORDER BY\<close> returns the first row.  Foreign keys
  are declared but not enforced: the program never turns them on.
\<close>

section \<open>Rows\<close>

datatype AlertType =
  NEW_DEVICE | OS_CHANGE | SPOOFING | MAC_SPOOFED | INFRA_OFFLINE | UNCLASSIFIED | SOURCE_STALE
| MAC_RANDOMIZED | DHCP_IRREGULAR

record alert =
  al_id :: "nat option"
  al_mac :: mac
  al_type :: AlertType
  al_severity :: AlertSeverity
  al_message :: ustr
  al_timestamp :: int
  al_acknowledged :: bool
  al_rule :: "string option"

text \<open>\<open>Alert(device_mac, alert_type, severity, message, rule=...)\<close>.\<close>

definition new_alert :: "int \<Rightarrow> mac \<Rightarrow> AlertType \<Rightarrow> AlertSeverity \<Rightarrow> ustr \<Rightarrow> string option \<Rightarrow> alert" where
  "new_alert now m ty sev msg rule =
     \<lparr>al_id = None, al_mac = m, al_type = ty, al_severity = sev, al_message = msg, al_timestamp = now,
      al_acknowledged = False, al_rule = rule\<rparr>"

record binding =
  b_ip :: string
  b_source :: string
  b_created_at :: int
  b_interface :: "string option"

record arp_row =
  ar_first_seen :: int
  ar_last_seen :: int
  ar_packet_count :: nat
  ar_gratuitous :: bool

record mute_rule =
  mu_id :: nat
  mu_mac :: "mac option"
  mu_ip :: "string option"
  mu_subtype :: "string option"
  mu_reason :: ustr
  mu_created_at :: int

record token =
  tk_id :: nat
  tk_hash :: string
  tk_role :: string
  tk_label :: "ustr option"
  tk_created_at :: int
  tk_last_used :: "int option"
  tk_revoked :: bool

record snapshot =
  sn_mac :: mac
  sn_timestamp :: int
  sn_os_family :: "ustr option"
  sn_manufacturer :: "ustr option"
  sn_device_type :: "ustr option"
  sn_hostname :: "ustr option"
  sn_oui_vendor :: "ustr option"

record probe_target =
  pt_ip :: string
  pt_last_probed :: "int option"
  pt_result :: "ustr option"
  pt_status :: string

record sighting =
  sg_hw_addr :: mac
  sg_source :: string
  sg_certainty :: rat
  sg_interface :: "string option"
  sg_network :: "string option"
  sg_timestamp :: int

record tables =
  t_alerts :: "alert list"
  t_alert_next :: nat
  t_bindings :: "(mac \<times> binding) list"
  t_arp :: "((mac \<times> string \<times> string) \<times> arp_row) list"
  t_mutes :: "mute_rule list"
  t_mute_next :: nat
  t_tokens :: "token list"
  t_token_next :: nat
  t_history :: "snapshot list"
  t_snapshots :: "snapshot list"
  t_probes :: "((mac \<times> nat \<times> string) \<times> probe_target) list"
  t_sightings :: "sighting list"
  t_overrides :: "(mac \<times> (string \<times> ustr) list) list"

definition empty_tables :: tables where
  "empty_tables = \<lparr>t_alerts = [], t_alert_next = 1, t_bindings = [], t_arp = [], t_mutes = [], t_mute_next = 1,
     t_tokens = [], t_token_next = 1, t_history = [], t_snapshots = [], t_probes = [], t_sightings = [],
     t_overrides = []\<rparr>"

text \<open>\<open>DELETE FROM t WHERE p\<close>, with the number of rows deleted.\<close>

definition delete_where :: "('r \<Rightarrow> bool) \<Rightarrow> 'r list \<Rightarrow> 'r list \<times> nat" where
  "delete_where p rows = (filter (\<lambda>r. \<not> p r) rows, length (filter p rows))"

section \<open>Alerts\<close>

text \<open>\<open>add_alert\<close>, \<open>add_alert_no_commit\<close>: dropped when the device has an unacknowledged alert
  of that type.  The rule name is not a column.\<close>

definition add_alert :: "alert \<Rightarrow> tables \<Rightarrow> tables" where
  "add_alert a t =
     (if list_ex (\<lambda>r. al_mac r = al_mac a \<and> al_type r = al_type a \<and> \<not> al_acknowledged r) (t_alerts t) then t
      else t\<lparr>t_alerts := t_alerts t @ [a\<lparr>al_id := Some (t_alert_next t), al_rule := None\<rparr>],
             t_alert_next := Suc (t_alert_next t)\<rparr>)"

definition list_alerts :: "bool option \<Rightarrow> AlertType option \<Rightarrow> tables \<Rightarrow> alert list" where
  "list_alerts acknowledged ty t = sort_key (\<lambda>a. - al_timestamp a)
     (filter (\<lambda>a. (acknowledged = None \<or> acknowledged = Some (al_acknowledged a)) \<and>
                  (ty = None \<or> ty = Some (al_type a))) (t_alerts t))"

definition get_alert_count :: "bool option \<Rightarrow> tables \<Rightarrow> nat" where
  "get_alert_count acknowledged t = length
     (filter (\<lambda>a. acknowledged = None \<or> acknowledged = Some (al_acknowledged a)) (t_alerts t))"

definition acknowledge_alerts_batch :: "nat list \<Rightarrow> tables \<Rightarrow> tables" where
  "acknowledge_alerts_batch ids t =
     t\<lparr>t_alerts := map (\<lambda>a. if al_id a \<in> Some ` set ids then a\<lparr>al_acknowledged := True\<rparr> else a) (t_alerts t)\<rparr>"

definition acknowledge_alert :: "nat \<Rightarrow> tables \<Rightarrow> tables" where
  "acknowledge_alert i = acknowledge_alerts_batch [i]"

definition delete_resolved_alerts :: "tables \<Rightarrow> tables \<times> nat" where
  "delete_resolved_alerts t =
     (let (rows, n) = delete_where al_acknowledged (t_alerts t) in (t\<lparr>t_alerts := rows\<rparr>, n))"

definition delete_all_alerts :: "tables \<Rightarrow> tables \<times> nat" where
  "delete_all_alerts t = (t\<lparr>t_alerts := []\<rparr>, length (t_alerts t))"

definition delete_alerts_batch :: "nat list \<Rightarrow> tables \<Rightarrow> tables \<times> nat" where
  "delete_alerts_batch ids t =
     (let (rows, n) = delete_where (\<lambda>a. al_id a \<in> Some ` set ids) (t_alerts t) in (t\<lparr>t_alerts := rows\<rparr>, n))"

definition prune_alerts :: "int \<Rightarrow> int \<Rightarrow> tables \<Rightarrow> tables \<times> nat" where
  "prune_alerts now retention_days t =
     (let (rows, n) = delete_where (\<lambda>a. al_timestamp a < now - retention_days * 86400000000) (t_alerts t)
      in (t\<lparr>t_alerts := rows\<rparr>, n))"

section \<open>Trusted bindings\<close>

definition add_trusted_binding :: "int \<Rightarrow> mac \<Rightarrow> string \<Rightarrow> string \<Rightarrow> string option \<Rightarrow> tables \<Rightarrow> tables" where
  "add_trusted_binding now m ip source interface t =
     t\<lparr>t_bindings := upsert_row (t_bindings t) m
        \<lparr>b_ip = ip, b_source = source, b_created_at = now, b_interface = interface\<rparr>
        (\<lambda>old new. old\<lparr>b_ip := b_ip new, b_source := b_source new, b_interface := b_interface new\<rparr>)\<rparr>"

definition remove_trusted_binding :: "mac \<Rightarrow> tables \<Rightarrow> tables" where
  "remove_trusted_binding m t = t\<lparr>t_bindings := dict_pop (t_bindings t) m\<rparr>"

definition get_trusted_binding_for_ip :: "string \<Rightarrow> tables \<Rightarrow> (mac \<times> binding) option" where
  "get_trusted_binding_for_ip ip t = find (\<lambda>(m, b). b_ip b = ip) (t_bindings t)"

definition list_trusted_bindings :: "tables \<Rightarrow> (mac \<times> binding) list" where
  "list_trusted_bindings t = sort_key (\<lambda>(m, b). - b_created_at b) (t_bindings t)"

section \<open>ARP history\<close>

definition upsert_arp_entry :: "int \<Rightarrow> mac \<Rightarrow> string \<Rightarrow> string \<Rightarrow> bool \<Rightarrow> tables \<Rightarrow> tables" where
  "upsert_arp_entry now m ip interface gratuitous t =
     t\<lparr>t_arp := upsert_row (t_arp t) (m, ip, interface)
        \<lparr>ar_first_seen = now, ar_last_seen = now, ar_packet_count = 1, ar_gratuitous = gratuitous\<rparr>
        (\<lambda>old new. old\<lparr>ar_last_seen := ar_last_seen new, ar_packet_count := ar_packet_count old + 1,
                       ar_gratuitous := (ar_gratuitous old \<or> ar_gratuitous new)\<rparr>)\<rparr>"

definition get_arp_history_for_ip :: "string \<Rightarrow> tables \<Rightarrow> ((mac \<times> string \<times> string) \<times> arp_row) list" where
  "get_arp_history_for_ip ip t = sort_key (\<lambda>r. - ar_last_seen (snd r)) (filter (\<lambda>((m, i, f), r). i = ip) (t_arp t))"

definition get_arp_history_for_mac :: "mac \<Rightarrow> tables \<Rightarrow> ((mac \<times> string \<times> string) \<times> arp_row) list" where
  "get_arp_history_for_mac mac t = sort_key (\<lambda>r. - ar_last_seen (snd r)) (filter (\<lambda>((m, i, f), r). m = mac) (t_arp t))"

section \<open>Suppression rules\<close>

definition add_suppression_rule ::
    "int \<Rightarrow> mac option \<Rightarrow> string option \<Rightarrow> string option \<Rightarrow> ustr \<Rightarrow> tables \<Rightarrow> tables \<times> nat" where
  "add_suppression_rule now m ip subtype reason t =
     (t\<lparr>t_mutes := t_mutes t @ [\<lparr>mu_id = t_mute_next t, mu_mac = m, mu_ip = ip, mu_subtype = subtype,
          mu_reason = reason, mu_created_at = now\<rparr>],
        t_mute_next := Suc (t_mute_next t)\<rparr>, t_mute_next t)"

definition remove_suppression_rule :: "nat \<Rightarrow> tables \<Rightarrow> tables" where
  "remove_suppression_rule i t = t\<lparr>t_mutes := filter (\<lambda>r. mu_id r \<noteq> i) (t_mutes t)\<rparr>"

definition list_suppression_rules :: "tables \<Rightarrow> mute_rule list" where
  "list_suppression_rules t = sort_key (\<lambda>r. - mu_created_at r) (t_mutes t)"

section \<open>API tokens\<close>

text \<open>\<open>create_auth_token\<close>; a hash that is taken violates the UNIQUE constraint.\<close>

definition create_auth_token ::
    "int \<Rightarrow> string \<Rightarrow> string \<Rightarrow> ustr option \<Rightarrow> tables \<Rightarrow> store_error + (tables \<times> nat)" where
  "create_auth_token now h role label t =
     (if list_ex (\<lambda>k. tk_hash k = h) (t_tokens t) then Inl IntegrityError
      else Inr (t\<lparr>t_tokens := t_tokens t @ [\<lparr>tk_id = t_token_next t, tk_hash = h, tk_role = role, tk_label = label,
                    tk_created_at = now, tk_last_used = None, tk_revoked = False\<rparr>],
                  t_token_next := Suc (t_token_next t)\<rparr>, t_token_next t))"

definition live_token :: "string \<Rightarrow> token \<Rightarrow> bool" where
  "live_token h k \<longleftrightarrow> tk_hash k = h \<and> \<not> tk_revoked k"

definition validate_token :: "int \<Rightarrow> string \<Rightarrow> tables \<Rightarrow> token option \<times> tables" where
  "validate_token now h t =
     (if find (live_token h) (t_tokens t) = None then (None, t)
      else let t = t\<lparr>t_tokens := map (\<lambda>k. if tk_hash k = h then k\<lparr>tk_last_used := Some now\<rparr> else k) (t_tokens t)\<rparr>
           in (find (live_token h) (t_tokens t), t))"

definition list_auth_tokens :: "tables \<Rightarrow> token list" where
  "list_auth_tokens t = sort_key (\<lambda>k. - tk_created_at k) (t_tokens t)"

definition revoke_auth_token :: "nat \<Rightarrow> tables \<Rightarrow> tables" where
  "revoke_auth_token i t =
     t\<lparr>t_tokens := map (\<lambda>k. if tk_id k = i then k\<lparr>tk_revoked := True\<rparr> else k) (t_tokens t)\<rparr>"

definition revoke_all_admin_tokens :: "tables \<Rightarrow> tables" where
  "revoke_all_admin_tokens t =
     t\<lparr>t_tokens := map (\<lambda>k. if tk_role k = ''admin'' \<and> \<not> tk_revoked k then k\<lparr>tk_revoked := True\<rparr> else k) (t_tokens t)\<rparr>"

definition count_active_admin_tokens :: "tables \<Rightarrow> nat" where
  "count_active_admin_tokens t = length (filter (\<lambda>k. tk_role k = ''admin'' \<and> \<not> tk_revoked k) (t_tokens t))"

section \<open>Snapshots\<close>

text \<open>\<open>add_fingerprint_snapshot\<close>, \<open>get_fingerprint_history\<close> and the repository of
  \<open>store/snapshots.py\<close>.\<close>

definition add_fingerprint_snapshot :: "snapshot \<Rightarrow> tables \<Rightarrow> tables" where
  "add_fingerprint_snapshot r t = t\<lparr>t_history := t_history t @ [r]\<rparr>"

definition get_fingerprint_history :: "mac \<Rightarrow> nat \<Rightarrow> tables \<Rightarrow> snapshot list" where
  "get_fingerprint_history m limit t =
     take limit (sort_key (\<lambda>r. - sn_timestamp r) (filter (\<lambda>r. sn_mac r = m) (t_history t)))"

definition snapshot_add :: "snapshot \<Rightarrow> tables \<Rightarrow> tables" where
  "snapshot_add r t = t\<lparr>t_snapshots := t_snapshots t @ [r]\<rparr>"

definition snapshot_latest :: "mac \<Rightarrow> nat \<Rightarrow> tables \<Rightarrow> snapshot list" where
  "snapshot_latest m limit t =
     take limit (sort_key (\<lambda>r. - sn_timestamp r) (filter (\<lambda>r. sn_mac r = m) (t_snapshots t)))"

text \<open>\<open>prune\<close>: a row survives when fewer than the limit of its address are newer; among equal times
  the earlier row counts as newer.\<close>

definition newer_rows :: "('r \<Rightarrow> 'k) \<Rightarrow> ('r \<Rightarrow> int) \<Rightarrow> 'r list \<Rightarrow> nat \<Rightarrow> nat" where
  "newer_rows key time rows i = length (filter (\<lambda>j. key (rows ! j) = key (rows ! i) \<and>
     (time (rows ! i) < time (rows ! j) \<or> time (rows ! j) = time (rows ! i) \<and> j < i)) [0..<length rows])"

definition prune_per_key :: "('r \<Rightarrow> 'k) \<Rightarrow> ('r \<Rightarrow> int) \<Rightarrow> nat \<Rightarrow> 'r list \<Rightarrow> 'r list \<times> nat" where
  "prune_per_key key time limit rows =
     (let kept = filter (\<lambda>i. newer_rows key time rows i < limit) [0..<length rows]
      in (map ((!) rows) kept, length rows - length kept))"

definition snapshot_prune :: "nat \<Rightarrow> tables \<Rightarrow> tables \<times> nat" where
  "snapshot_prune max_per_mac t =
     (let (rows, n) = prune_per_key sn_mac sn_timestamp max_per_mac (t_snapshots t) in (t\<lparr>t_snapshots := rows\<rparr>, n))"

section \<open>Sightings\<close>

definition record_sighting :: "sighting \<Rightarrow> tables \<Rightarrow> tables" where
  "record_sighting s t = t\<lparr>t_sightings := t_sightings t @ [s]\<rparr>"

definition sightings_for_host :: "mac \<Rightarrow> nat \<Rightarrow> tables \<Rightarrow> sighting list" where
  "sightings_for_host m limit t =
     take limit (sort_key (\<lambda>s. - sg_timestamp s) (filter (\<lambda>s. sg_hw_addr s = m) (t_sightings t)))"

definition prune_sightings :: "nat \<Rightarrow> tables \<Rightarrow> tables \<times> nat" where
  "prune_sightings max_per_mac t =
     (let (rows, n) = prune_per_key sg_hw_addr sg_timestamp max_per_mac (t_sightings t) in (t\<lparr>t_sightings := rows\<rparr>, n))"

section \<open>Probe targets\<close>

definition upsert_probe_target :: "mac \<Rightarrow> string \<Rightarrow> nat \<Rightarrow> string \<Rightarrow> tables \<Rightarrow> tables" where
  "upsert_probe_target m ip port proto t =
     t\<lparr>t_probes := upsert_row (t_probes t) (m, port, proto)
        \<lparr>pt_ip = ip, pt_last_probed = None, pt_result = None, pt_status = ''pending''\<rparr>
        (\<lambda>old new. old\<lparr>pt_ip := pt_ip new\<rparr>)\<rparr>"

definition update_probe_result ::
    "int \<Rightarrow> mac \<Rightarrow> nat \<Rightarrow> string \<Rightarrow> string \<Rightarrow> ustr option \<Rightarrow> tables \<Rightarrow> tables" where
  "update_probe_result now m port proto status result t =
     t\<lparr>t_probes := update_row (t_probes t) (m, port, proto)
        (\<lambda>r. r\<lparr>pt_status := status, pt_result := result, pt_last_probed := Some (now - now mod 1000000)\<rparr>)\<rparr>"

definition get_device_services :: "mac \<Rightarrow> tables \<Rightarrow> ((mac \<times> nat \<times> string) \<times> probe_target) list" where
  "get_device_services mac t = sort_key (\<lambda>((m, port, proto), r). port)
     (filter (\<lambda>((m, port, proto), r). m = mac \<and> pt_status r = ''completed'') (t_probes t))"

section \<open>Overrides\<close>

definition OVERRIDE_FIELDS :: "string list" where
  "OVERRIDE_FIELDS = [''hostname'', ''device_type'', ''manufacturer'', ''os_family'', ''os_version'', ''model'',
     ''connection_type'', ''disposition'', ''notes'']"

text \<open>The columns of a row that are not NULL, in no particular order; \<open>COALESCE\<close> keeps the old value
  of a column that is not given.\<close>

definition override_upsert :: "mac \<Rightarrow> (string \<times> ustr option) list \<Rightarrow> tables \<Rightarrow> tables" where
  "override_upsert m values t =
     (let given = List.map_filter (\<lambda>k. case dict_get values k of Some (Some v) \<Rightarrow> Some (k, v) | _ \<Rightarrow> None) OVERRIDE_FIELDS
      in t\<lparr>t_overrides := upsert_row (t_overrides t) m given (\<lambda>old new. foldl (\<lambda>d (k, v). dict_set d k v) old new)\<rparr>)"

definition override_find :: "mac \<Rightarrow> tables \<Rightarrow> (string \<times> ustr) list option" where
  "override_find m t = dict_get (t_overrides t) m"

definition override_delete :: "mac \<Rightarrow> tables \<Rightarrow> tables" where
  "override_delete m t = t\<lparr>t_overrides := dict_pop (t_overrides t) m\<rparr>"

end
