(* ===== verification/Spoofing.thy ===== *)
theory Spoofing
  imports Rules Identity Tables "HOL-Library.List_Lexorder"
begin

text \<open>
  \<open>analysis/spoofing.py\<close>: the address verifier.  Its dictionaries are association lists, the
  deques lists with the oldest entry first.  One UTC time and one monotonic time stand for the clock
  readings of a call.  The two loops over ARP packets and device updates return their alerts with the
  new state; where the database is read or written it is the store (devices) and the tables.
\<close>

section \<open>Constants\<close>

definition GRATUITOUS_BURST_WINDOW :: rat where
  "GRATUITOUS_BURST_WINDOW = 60"

definition GRATUITOUS_BURST_LIMIT :: nat where
  "GRATUITOUS_BURST_LIMIT = 20"

definition GRATUITOUS_BURST_LIMIT_INFRA :: nat where
  "GRATUITOUS_BURST_LIMIT_INFRA = 50"

definition MAC_OSCILLATION_WINDOW :: rat where
  "MAC_OSCILLATION_WINDOW = 300"

definition MAC_OSCILLATION_CHANGE_LIMIT :: nat where
  "MAC_OSCILLATION_CHANGE_LIMIT = 3"

definition RATE_LIMIT_INTERVAL :: rat where
  "RATE_LIMIT_INTERVAL = 300"

definition DRIFT_FLIPFLOP_WINDOW :: rat where
  "DRIFT_FLIPFLOP_WINDOW = 1800"

definition IP_CONFLICT_ACTIVE_WINDOW :: rat where
  "IP_CONFLICT_ACTIVE_WINDOW = 120"

definition INFRA_DEVICES :: "ustr list" where
  "INFRA_DEVICES = map lit [''router'', ''switch'', ''gateway'', ''access_point'', ''firewall'', ''load_balancer'',
     ''Router'', ''UniFi Switch'', ''UniFi AP'']"

definition KNOWN_OUI_VENDOR_PAIRS :: "(ustr \<times> ustr list) list" where
  "KNOWN_OUI_VENDOR_PAIRS = map (\<lambda>(k, vs). (lit k, map lit vs))
    [(''hon hai'', [''apple'', ''apple inc'', ''dell'', ''dell inc'', ''dell technologies'', ''hp'', ''hewlett-packard'',
        ''hewlett packard'', ''lenovo'', ''lenovo group'', ''cisco'']),
     (''foxconn'', [''apple'', ''apple inc'', ''dell'', ''dell inc'', ''dell technologies'', ''hp'', ''hewlett-packard'',
        ''hewlett packard'', ''lenovo'', ''lenovo group'', ''cisco'']),
     (''murata'', [''apple'', ''apple inc'', ''sony'', ''samsung'']),
     (''intel'', [''dell'', ''dell inc'', ''dell technologies'', ''hp'', ''hewlett-packard'', ''hewlett packard'',
        ''lenovo'', ''lenovo group'', ''apple'', ''apple inc'', ''microsoft'']),
     (''broadcom'', [''apple'', ''apple inc'', ''dell'', ''dell inc'', ''dell technologies'', ''hp'', ''hewlett-packard'',
        ''hewlett packard'']),
     (''qualcomm'', [''samsung'', ''oneplus'', ''xiaomi'', ''oppo'']),
     (''realtek'', [''dell'', ''dell inc'', ''dell technologies'', ''hp'', ''hewlett-packard'', ''hewlett packard'',
        ''lenovo'', ''lenovo group'', ''asus'']),
     (''quanta'', [''dell'', ''dell inc'', ''dell technologies'', ''hp'', ''hewlett-packard'', ''hewlett packard'',
        ''lenovo'', ''lenovo group'']),
     (''pegatron'', [''apple'', ''apple inc'', ''asus'']),
     (''wistron'', [''dell'', ''dell inc'', ''dell technologies'', ''hp'', ''hewlett-packard'', ''hewlett packard'',
        ''lenovo'', ''lenovo group'', ''acer'']),
     (''compal'', [''dell'', ''dell inc'', ''dell technologies'', ''hp'', ''hewlett-packard'', ''hewlett packard'',
        ''lenovo'', ''lenovo group'', ''toshiba'']),
     (''lite-on'', [''dell'', ''dell inc'', ''dell technologies'', ''hp'', ''hewlett-packard'', ''hewlett packard'',
        ''lenovo'', ''lenovo group''])]"

definition OS_DERIVED_VENDORS :: "ustr list" where
  "OS_DERIVED_VENDORS = map lit [''microsoft'', ''canonical'', ''ubuntu'', ''debian'', ''red hat'', ''redhat'',
     ''fedora'', ''centos'', ''suse'', ''alpine'', ''vmware'', ''citrix'', ''proxmox'', ''openbsd'', ''freebsd'', ''netbsd'']"

definition OS_DERIVED_CATEGORIES :: "ustr list" where
  "OS_DERIVED_CATEGORIES = map lit [''computer'', ''laptop'', ''desktop'', ''workstation'', ''server'',
     ''virtual_machine'', ''vm'', ''hypervisor'']"

definition is_os_derived_vendor :: "ustr option \<Rightarrow> bool" where
  "is_os_derived_vendor name \<longleftrightarrow> truthy name \<and> list_ex (\<lambda>v. contains_sub v (lower (the name))) OS_DERIVED_VENDORS"

definition is_laa :: "mac \<Rightarrow> bool" where
  "is_laa m \<longleftrightarrow> m \<noteq> [] \<and>
     (case py_int16 (take 2 (filter (\<lambda>c. c \<noteq> 58 \<and> c \<noteq> 45 \<and> c \<noteq> 46) (lit m))) of
        None \<Rightarrow> False | Some i \<Rightarrow> (i div 2) mod 2 = 1)"

section \<open>State\<close>

record verifier =
  v_timeline :: "(string \<times> mac \<times> rat) list"
  v_pins :: "(string \<times> mac) list"
  v_mutes :: "mute_rule list"
  v_gratuitous :: "(mac \<times> rat list) list"
  v_oscillation :: "(string \<times> (mac \<times> rat) list) list"
  v_limiter :: "(string \<times> rat) list"
  v_identities :: "(mac \<times> ((ustr option \<times> ustr option) \<times> rat) list) list"

definition new_verifier :: verifier where
  "new_verifier = \<lparr>v_timeline = [], v_pins = [], v_mutes = [], v_gratuitous = [], v_oscillation = [],
     v_limiter = [], v_identities = []\<rparr>"

text \<open>\<open>refresh_mute_rules\<close> and \<open>prepare\<close>.\<close>

definition refresh_mute_rules :: "tables \<Rightarrow> verifier \<Rightarrow> verifier" where
  "refresh_mute_rules t v = v\<lparr>v_mutes := list_suppression_rules t\<rparr>"

definition prepare_verifier :: "tables \<Rightarrow> verifier \<Rightarrow> verifier" where
  "prepare_verifier t v = refresh_mute_rules t
     (v\<lparr>v_pins := foldl (\<lambda>pins (m, b). dict_set pins (b_ip b) m) (v_pins v) (list_trusted_bindings t)\<rparr>)"

definition rule_matches :: "mac \<Rightarrow> string option \<Rightarrow> string \<Rightarrow> mute_rule \<Rightarrow> bool" where
  "rule_matches m ip subtype r \<longleftrightarrow> (mu_mac r = None \<or> mu_mac r = Some m) \<and> (mu_ip r = None \<or> mu_ip r = ip) \<and>
     (mu_subtype r = None \<or> mu_subtype r = Some subtype)"

definition is_suppressed :: "verifier \<Rightarrow> mac \<Rightarrow> string option \<Rightarrow> string \<Rightarrow> bool" where
  "is_suppressed v m ip subtype \<longleftrightarrow> list_ex (rule_matches m ip subtype) (v_mutes v)"

definition rate_limit_ok :: "rat \<Rightarrow> string \<Rightarrow> verifier \<Rightarrow> bool \<times> verifier" where
  "rate_limit_ok mt key v =
     (if (case dict_get (v_limiter v) key of None \<Rightarrow> False | Some prev \<Rightarrow> mt - prev < RATE_LIMIT_INTERVAL)
      then (False, v)
      else (True, v\<lparr>v_limiter := dict_set (v_limiter v) key mt\<rparr>))"

text \<open>The common end of every check: an alert is raised when its conditions hold, the rate limiter lets it
  pass and no rule mutes it, in that order of evaluation.\<close>

definition raise_alert ::
    "rat \<Rightarrow> bool \<Rightarrow> string \<Rightarrow> mac \<Rightarrow> string option \<Rightarrow> string \<Rightarrow> alert \<Rightarrow> verifier \<Rightarrow> alert list \<times> verifier" where
  "raise_alert mt cond key m ip subtype a v =
     (if \<not> cond then ([], v)
      else let (ok, v) = rate_limit_ok mt key v
           in (if ok \<and> \<not> is_suppressed v m ip subtype then [a] else [], v))"

section \<open>Labels\<close>

definition describe_host :: "store \<Rightarrow> mac \<Rightarrow> string \<Rightarrow> ustr" where
  "describe_host s m ip =
     (let rec = get_device m s
      in join [32] ([lit m] @
           (if ip \<noteq> [] then [lit ip]
            else case rec of Some d \<Rightarrow> if truthy_s (d_ip_v4 d) then [lit (the (d_ip_v4 d))] else [] | None \<Rightarrow> []) @
           (case rec of
              Some d \<Rightarrow> if truthy (d_hostname d) then [[40] @ the (d_hostname d) @ [41]] else []
            | None \<Rightarrow> [])))"

definition device_label :: "device \<Rightarrow> ustr" where
  "device_label d = join [32] ([lit (d_mac d)] @ (if truthy_s (d_ip_v4 d) then [lit (the (d_ip_v4 d))] else []) @
     (if truthy (d_hostname d) then [[40] @ the (d_hostname d) @ [41]] else []))"

definition stored_infra :: "store \<Rightarrow> mac \<Rightarrow> bool" where
  "stored_infra s m = (case get_device m s of None \<Rightarrow> False
     | Some d \<Rightarrow> (case d_device_type d of None \<Rightarrow> False | Some ty \<Rightarrow> ty \<in> set INFRA_DEVICES))"

section \<open>ARP packets\<close>

text \<open>Check 1: another address claims a bound IP address.\<close>

definition check_binding :: "int \<Rightarrow> rat \<Rightarrow> store \<Rightarrow> mac \<Rightarrow> string \<Rightarrow> verifier \<Rightarrow> alert list \<times> verifier" where
  "check_binding now mt s m ip v =
     (case dict_get (v_pins v) ip of
        None \<Rightarrow> ([], v)
      | Some pinned \<Rightarrow>
          raise_alert mt (pinned \<noteq> [] \<and> pinned \<noteq> m) (''gateway_impersonation:'' @ ip @ '':'' @ m) m (Some ip)
            ''gateway_impersonation''
            (new_alert now m SPOOFING CRITICAL
               (lit ''Trusted binding violation: '' @ lit ip @ lit '' bound to '' @ describe_host s pinned ip @
                lit '' but '' @ describe_host s m ip @ lit '' is claiming it'') (Some ''gateway_impersonation'')) v)"

text \<open>Check 2: two addresses claim an unbound IP address at about the same time.\<close>

definition check_conflict :: "int \<Rightarrow> rat \<Rightarrow> store \<Rightarrow> mac \<Rightarrow> string \<Rightarrow> verifier \<Rightarrow> alert list \<times> verifier" where
  "check_conflict now mt s m ip v =
     (case dict_get (v_timeline v) ip of
        None \<Rightarrow> ([], v)
      | Some (prior, seen) \<Rightarrow>
          raise_alert mt
            (prior \<noteq> m \<and> dict_get (v_pins v) ip \<in> {None, Some []} \<and>
             mt - seen \<le> IP_CONFLICT_ACTIVE_WINDOW \<and> \<not> (is_laa m \<and> is_laa prior))
            (''ip_conflict:'' @ ip) m (Some ip) ''ip_conflict''
            (new_alert now m SPOOFING WARNING
               (lit ''IP conflict on '' @ lit ip @ lit '': claimed by '' @ describe_host s prior ip @ lit '' and '' @
                describe_host s m ip) (Some ''addr_conflict'')) v)"

text \<open>Check 3: a burst of gratuitous ARP packets.\<close>

definition check_burst :: "int \<Rightarrow> rat \<Rightarrow> store \<Rightarrow> mac \<Rightarrow> string \<Rightarrow> verifier \<Rightarrow> alert list \<times> verifier" where
  "check_burst now mt s m ip v =
     (let queue = dropWhile (\<lambda>x. x \<le> mt - GRATUITOUS_BURST_WINDOW) (get_or (v_gratuitous v) m [] @ [mt]);
          v = v\<lparr>v_gratuitous := dict_set (v_gratuitous v) m queue\<rparr>;
          limit = (if stored_infra s m then GRATUITOUS_BURST_LIMIT_INFRA else GRATUITOUS_BURST_LIMIT)
      in raise_alert mt (length queue > limit) (''grat_flood:'' @ m) m (Some ip) ''grat_flood''
           (new_alert now m SPOOFING HIGH
              (lit ''Gratuitous ARP flood from '' @ describe_host s m ip @ lit '': '' @ str_nat (length queue) @
               lit '' in 60s'') (Some ''arp_spoofing'')) v)"

text \<open>Check 4: the address behind an IP address keeps changing.\<close>

definition change_count :: "(mac \<times> rat) list \<Rightarrow> nat" where
  "change_count es = length (filter (\<lambda>i. fst (es ! i) \<noteq> fst (es ! (i - 1))) [1..<length es])"

definition OSCILLATION_CAP :: nat where
  "OSCILLATION_CAP = 10000"

definition log_oscillation :: "rat \<Rightarrow> mac \<Rightarrow> string \<Rightarrow> verifier \<Rightarrow> verifier" where
  "log_oscillation mt m ip v =
     (let es = filter (\<lambda>(a, x). x > mt - MAC_OSCILLATION_WINDOW) (get_or (v_oscillation v) ip [] @ [(m, mt)]);
          log = filter (\<lambda>(i, es). es \<noteq> []) (dict_set (v_oscillation v) ip es);
          oldest = map fst (sort_key (\<lambda>(i, es). foldr min (map snd (tl es)) (snd (hd es))) log);
          gone = take (length log - OSCILLATION_CAP) oldest
      in v\<lparr>v_oscillation := filter (\<lambda>(i, es). i \<notin> set gone) log\<rparr>)"

definition check_oscillation :: "int \<Rightarrow> rat \<Rightarrow> store \<Rightarrow> mac \<Rightarrow> string \<Rightarrow> verifier \<Rightarrow> alert list \<times> verifier" where
  "check_oscillation now mt s m ip v =
     (let v = log_oscillation mt m ip v;
          es = get_or (v_oscillation v) ip [];
          macs = remdups (map fst es)
      in raise_alert mt
           (change_count es \<ge> MAC_OSCILLATION_CHANGE_LIMIT \<and> \<not> (macs \<noteq> [] \<and> list_all is_laa macs) \<and> \<not> stored_infra s m)
           (''flip_flop:'' @ ip) m (Some ip) ''flip_flop''
           (new_alert now m SPOOFING HIGH
              (lit ''ARP flip-flop on '' @ lit ip @ lit '': '' @ str_nat (change_count es) @
               lit '' MAC changes in 300s between '' @ join (lit '', '') (sort (map lit macs)))
              (Some ''arp_spoofing'')) v)"

text \<open>\<open>inspect_arp\<close>.\<close>

definition inspect_arp ::
    "int \<Rightarrow> rat \<Rightarrow> store \<Rightarrow> mac \<Rightarrow> string \<Rightarrow> string \<Rightarrow> int \<Rightarrow> string \<Rightarrow> tables \<times> verifier \<Rightarrow> alert list \<times> tables \<times> verifier" where
  "inspect_arp now mt s src_mac src_ip dst_ip oper interface tv =
     (let (t, v) = tv;
          gratuitous = (oper = 2 \<and> src_ip = dst_ip);
          t = upsert_arp_entry now src_mac src_ip interface gratuitous t;
          (a1, v) = check_binding now mt s src_mac src_ip v;
          (a2, v) = check_conflict now mt s src_mac src_ip v;
          (a3, v) = (if gratuitous then check_burst now mt s src_mac src_ip v else ([], v));
          (a4, v) = check_oscillation now mt s src_mac src_ip v;
          v = v\<lparr>v_timeline := dict_set (v_timeline v) src_ip (src_mac, mt)\<rparr>
      in (a1 @ a2 @ a3 @ a4, t, v))"

section \<open>Device updates\<close>

text \<open>Check 5: the fingerprint differs from the last snapshot.\<close>

definition changed_value :: "ustr option \<Rightarrow> ustr option \<Rightarrow> bool" where
  "changed_value old new \<longleftrightarrow> truthy old \<and> truthy new \<and> old \<noteq> new"

definition drift_deltas :: "bool \<Rightarrow> snapshot \<Rightarrow> device \<Rightarrow> ustr list" where
  "drift_deltas infra prev d =
     part_if (\<not> infra \<and> changed_value (sn_os_family prev) (d_os_family d))
       (lit ''OS: '' @ text_of (sn_os_family prev) @ ARROW @ text_of (d_os_family d)) @
     part_if (changed_value (sn_manufacturer prev) (d_manufacturer d) \<and>
              is_os_derived_vendor (sn_manufacturer prev) = is_os_derived_vendor (d_manufacturer d))
       (lit ''manufacturer: '' @ text_of (sn_manufacturer prev) @ ARROW @ text_of (d_manufacturer d))"

definition IDENTITY_CAP :: nat where
  "IDENTITY_CAP = 10000"

text \<open>Whether the identity was seen within the window, and the history with it added.\<close>

definition note_identity :: "rat \<Rightarrow> device \<Rightarrow> verifier \<Rightarrow> bool \<times> verifier" where
  "note_identity mt d v =
     (let ident = (d_manufacturer d, d_os_family d);
          past = dropWhile (\<lambda>(i, x). mt - x > DRIFT_FLIPFLOP_WINDOW) (get_or (v_identities v) (d_mac d) []);
          log = dict_set (v_identities v) (d_mac d) (past @ [(ident, mt)]);
          log = (if length log > IDENTITY_CAP
                 then filter (\<lambda>(m, h). h \<noteq> [] \<and> \<not> snd (last h) < mt - DRIFT_FLIPFLOP_WINDOW) log else log)
      in (list_ex (\<lambda>(i, x). i = ident) past, v\<lparr>v_identities := log\<rparr>))"

definition check_drift_alert :: "int \<Rightarrow> rat \<Rightarrow> store \<Rightarrow> device \<Rightarrow> snapshot list \<Rightarrow> verifier \<Rightarrow> alert list \<times> verifier" where
  "check_drift_alert now mt s d prior v =
     (case prior of
        [] \<Rightarrow> ([], v)
      | prev # _ \<Rightarrow>
          let infra = ((case d_device_type d of None \<Rightarrow> False | Some ty \<Rightarrow> ty \<in> set INFRA_DEVICES) \<or> stored_infra s (d_mac d));
              deltas = drift_deltas infra prev d
          in if deltas = [] then ([], v)
             else let (reverting, v) = note_identity mt d v
                  in raise_alert mt (\<not> reverting) (''fp_drift:'' @ d_mac d) (d_mac d) (d_ip_v4 d) ''fp_drift''
                       (new_alert now (d_mac d) SPOOFING WARNING
                          (lit ''Fingerprint drift on '' @ device_label d @ lit '': '' @ join (lit '', '') deltas)
                          (Some ''fingerprint_drift'')) v)"

text \<open>Check 6: the vendor of the address does not fit the identified manufacturer.\<close>

definition known_pair :: "ustr \<Rightarrow> ustr \<Rightarrow> bool" where
  "known_pair oui mfg \<longleftrightarrow> list_ex (\<lambda>(k, vs). contains_sub k oui \<and>
     list_ex (\<lambda>x. contains_sub x mfg \<or> contains_sub mfg x) vs) KNOWN_OUI_VENDOR_PAIRS"

definition os_derived :: "device \<Rightarrow> bool" where
  "os_derived d \<longleftrightarrow>
     map (\<lambda>c. if c = 32 then 95 else c) (lower (text_of (d_device_type d))) \<in> set OS_DERIVED_CATEGORIES \<or>
     list_ex (\<lambda>v. contains_sub v (lower (text_of (d_manufacturer d)))) OS_DERIVED_VENDORS"

definition oui_conflict :: "device \<Rightarrow> ustr option \<Rightarrow> bool" where
  "oui_conflict d oui \<longleftrightarrow> truthy oui \<and> truthy (d_manufacturer d) \<and> d_confidence d \<ge> 60 \<and>
     \<not> d_is_randomized_mac d \<and> \<not> os_derived d \<and>
     (let o' = lower (text_of oui); m = lower (text_of (d_manufacturer d))
      in \<not> known_pair o' m \<and> \<not> contains_sub o' m \<and> \<not> contains_sub m o')"

definition check_oui :: "int \<Rightarrow> rat \<Rightarrow> device \<Rightarrow> ustr option \<Rightarrow> verifier \<Rightarrow> alert list \<times> verifier" where
  "check_oui now mt d oui v =
     raise_alert mt (oui_conflict d oui) (''oui_mismatch:'' @ d_mac d) (d_mac d) (d_ip_v4 d) ''oui_mismatch''
       (new_alert now (d_mac d) SPOOFING WARNING
          (lit ''OUI mismatch on '' @ device_label d @ lit '': NIC vendor '' @ [39] @ text_of oui @ [39] @
           lit '' but identified as '' @ [39] @ text_of (d_manufacturer d) @ [39]) (Some ''oui_mismatch'')) v"

text \<open>Check 7: another device may use the address.\<close>

definition changed_text :: "ustr option \<Rightarrow> ustr option \<Rightarrow> bool" where
  "changed_text old new \<longleftrightarrow> truthy old \<and> truthy new \<and> lower (text_of old) \<noteq> lower (text_of new)"

definition check_mac_spoofing ::
    "int \<Rightarrow> rat \<Rightarrow> device \<Rightarrow> ustr option \<Rightarrow> snapshot list \<Rightarrow> verifier \<Rightarrow> alert list \<times> verifier" where
  "check_mac_spoofing now mt d oui prior v =
     (case prior of
        [] \<Rightarrow> ([], v)
      | prev # _ \<Rightarrow>
          let oui_changed = changed_text (sn_oui_vendor prev) oui;
              identity_changed = (changed_text (sn_manufacturer prev) (d_manufacturer d) \<and>
                                  changed_text (sn_os_family prev) (d_os_family d));
              detail = (if oui_changed
                then lit ''OUI vendor changed from '' @ [39] @ text_of (sn_oui_vendor prev) @ [39] @ lit '' to '' @
                     [39] @ text_of oui @ [39]
                else lit ''Identity changed from '' @ text_of (sn_manufacturer prev) @ [47] @ text_of (sn_os_family prev) @
                     lit '' to '' @ text_of (d_manufacturer d) @ [47] @ text_of (d_os_family d))
          in raise_alert mt (\<not> d_is_randomized_mac d \<and> (oui_changed \<or> identity_changed))
               (''mac_spoofing:'' @ d_mac d) (d_mac d) (d_ip_v4 d) ''mac_spoofing''
               (new_alert now (d_mac d) MAC_SPOOFED HIGH
                  (lit ''Possible MAC spoofing on '' @ device_label d @ lit '': '' @ detail @
                   lit ''. A different device may be using this MAC address.'') (Some ''mac_spoofing'')) v)"

definition device_snapshot :: "int \<Rightarrow> device \<Rightarrow> ustr option \<Rightarrow> snapshot" where
  "device_snapshot now d oui = \<lparr>sn_mac = d_mac d, sn_timestamp = now, sn_os_family = d_os_family d,
     sn_manufacturer = d_manufacturer d, sn_device_type = d_device_type d, sn_hostname = d_hostname d,
     sn_oui_vendor = oui\<rparr>"

text \<open>\<open>process_device_update\<close> on the snapshots the reader gave, with the snapshot handed to the
  writer; \<open>device_update_db\<close> is the call without reader and writer, \<open>device_update_repo\<close>
  the one of the application.\<close>

definition process_device_update ::
    "int \<Rightarrow> rat \<Rightarrow> store \<Rightarrow> device \<Rightarrow> ustr option \<Rightarrow> snapshot list \<Rightarrow> verifier \<Rightarrow> alert list \<times> verifier \<times> snapshot" where
  "process_device_update now mt s d oui prior v =
     (if d_is_randomized_mac d then ([], v, device_snapshot now d oui)
      else
        let (a5, v) = check_drift_alert now mt s d prior v;
            (a6, v) = check_oui now mt d oui v;
            (a7, v) = check_mac_spoofing now mt d oui prior v
        in (a5 @ a6 @ a7, v, device_snapshot now d oui))"

definition device_update_db ::
    "int \<Rightarrow> rat \<Rightarrow> store \<Rightarrow> device \<Rightarrow> ustr option \<Rightarrow> tables \<times> verifier \<Rightarrow> alert list \<times> tables \<times> verifier" where
  "device_update_db now mt s d oui tv =
     (let (t, v) = tv; (as, v, r) = process_device_update now mt s d oui (get_fingerprint_history (d_mac d) 1 t) v
      in (as, add_fingerprint_snapshot r t, v))"

definition device_update_repo ::
    "int \<Rightarrow> rat \<Rightarrow> store \<Rightarrow> device \<Rightarrow> ustr option \<Rightarrow> tables \<times> verifier \<Rightarrow> alert list \<times> tables \<times> verifier" where
  "device_update_repo now mt s d oui tv =
     (let (t, v) = tv; (as, v, r) = process_device_update now mt s d oui (snapshot_latest (d_mac d) 1 t) v
      in (as, snapshot_add r t, v))"

section \<open>Gateways\<close>

definition learn_binding :: "int \<Rightarrow> mac \<Rightarrow> string \<Rightarrow> string \<Rightarrow> string \<Rightarrow> tables \<times> verifier \<Rightarrow> tables \<times> verifier" where
  "learn_binding now m ip source interface tv =
     (let (t, v) = tv
      in case get_trusted_binding_for_ip ip t of
           Some (_, b) \<Rightarrow> if b_source b = ''manual'' then (t, v)
             else (add_trusted_binding now m ip source (Some interface) t, v\<lparr>v_pins := dict_set (v_pins v) ip m\<rparr>)
         | None \<Rightarrow> (add_trusted_binding now m ip source (Some interface) t, v\<lparr>v_pins := dict_set (v_pins v) ip m\<rparr>))"

section \<open>Trusted bindings in the web interface\<close>

text \<open>\<open>POST /api/trust\<close> and \<open>DELETE /api/trust/mac\<close>: the status code, tables and verifier.  The
  address of a new pin is not checked.\<close>

definition api_trust_add :: "int \<Rightarrow> mac \<Rightarrow> string \<Rightarrow> tables \<times> verifier \<Rightarrow> nat \<times> tables \<times> verifier" where
  "api_trust_add now mac ip tv =
     (let (t, v) = tv; m = lower_s mac
      in if m = [] \<or> ip = [] then (400, t, v)
         else (200, add_trusted_binding now m ip ''manual'' None t, v\<lparr>v_pins := dict_set (v_pins v) ip m\<rparr>))"

definition MAC_PATH_RE :: re where
  "MAC_PATH_RE = re_seq [Bol, Rep 5 (Some 5) True (Seq (Rep 2 (Some 2) True (Cls (\<lambda>c. is_hex c \<and> \<not> (65 \<le> c \<and> c \<le> 70))))
       (Cls (\<lambda>c. c = 58 \<or> c = 45))), Rep 2 (Some 2) True (Cls (\<lambda>c. is_hex c \<and> \<not> (65 \<le> c \<and> c \<le> 70))), Eol]"

definition validate_mac :: "ustr \<Rightarrow> ustr option" where
  "validate_mac mac = (let m = lower (strip mac) in if re_match MAC_PATH_RE m \<noteq> None then Some m else None)"

definition api_trust_remove :: "string \<Rightarrow> tables \<times> verifier \<Rightarrow> nat \<times> tables \<times> verifier" where
  "api_trust_remove mac tv =
     (let (t, v) = tv
      in case validate_mac (lit mac) of
           None \<Rightarrow> (400, t, v)
         | Some m \<Rightarrow> let m = map char_of (lower m)
             in (200, remove_trusted_binding m t, v\<lparr>v_pins := filter (\<lambda>(ip, x). x \<noteq> m) (v_pins v)\<rparr>))"

text \<open>\<open>POST /api/suppressions\<close> and \<open>DELETE /api/suppressions/id\<close>; empty texts count as
  missing.\<close>

definition given_s :: "string option \<Rightarrow> string option" where
  "given_s x = (if truthy_s x then x else None)"

definition api_suppressions_add ::
    "int \<Rightarrow> mac option \<Rightarrow> string option \<Rightarrow> string option \<Rightarrow> ustr \<Rightarrow> tables \<times> verifier \<Rightarrow> nat \<times> tables \<times> verifier" where
  "api_suppressions_add now m ip subtype reason tv =
     (let (t, v) = tv
      in if given_s m = None \<and> given_s ip = None \<and> given_s subtype = None then (400, t, v)
         else let (t, i) = add_suppression_rule now (given_s m) (given_s ip) (given_s subtype) reason t
              in (200, t, refresh_mute_rules t v))"

definition api_suppressions_remove :: "nat \<Rightarrow> tables \<times> verifier \<Rightarrow> tables \<times> verifier" where
  "api_suppressions_remove i tv =
     (let (t, v) = tv; t = remove_suppression_rule i t in (t, refresh_mute_rules t v))"

end
