(* ===== verification/SpoofingProps.thy ===== *)
theory SpoofingProps
  imports Spoofing
begin

text \<open>
  The address verifier: consistent ARP traffic raises no alert, the claim on a bound address does, a
  restart brings back the oldest binding, and an automatic binding replaces an operator's pin.
\<close>

section \<open>Quiet networks\<close>

record arp_event =
  ae_now :: int
  ae_mono :: rat
  ae_src_mac :: mac
  ae_src_ip :: string
  ae_dst_ip :: string
  ae_op :: int
  ae_interface :: string

fun arp_run :: "store \<Rightarrow> arp_event list \<Rightarrow> tables \<times> verifier \<Rightarrow> alert list \<times> tables \<times> verifier" where
  "arp_run s [] tv = ([], tv)"
| "arp_run s (e # es) tv =
     (case inspect_arp (ae_now e) (ae_mono e) s (ae_src_mac e) (ae_src_ip e) (ae_dst_ip e) (ae_op e) (ae_interface e) tv of
        (as, tv) \<Rightarrow> (case arp_run s es tv of (bs, tv) \<Rightarrow> (as @ bs, tv)))"

text \<open>Everything the verifier remembers about an IP address names its owner.\<close>

definition owned :: "(string \<Rightarrow> mac) \<Rightarrow> verifier \<Rightarrow> bool" where
  "owned owner v \<longleftrightarrow> (\<forall>(ip, m) \<in> set (v_pins v). m = owner ip) \<and>
     (\<forall>(ip, m, x) \<in> set (v_timeline v). m = owner ip) \<and>
     (\<forall>(ip, es) \<in> set (v_oscillation v). \<forall>e \<in> set es. fst e = owner ip)"

lemma owned_get:
  assumes "owned owner v"
  shows "dict_get (v_pins v) ip = Some m \<Longrightarrow> m = owner ip"
    and "dict_get (v_timeline v) ip = Some (m', x) \<Longrightarrow> m' = owner ip"
    and "e \<in> set (get_or (v_oscillation v) ip []) \<Longrightarrow> fst e = owner ip"
proof -
  note o' = assms [unfolded owned_def]
  show "dict_get (v_pins v) ip = Some m \<Longrightarrow> m = owner ip" using o' by (auto dest!: dict_get_mem)
  show "dict_get (v_timeline v) ip = Some (m', x) \<Longrightarrow> m' = owner ip" using o' by (auto dest!: dict_get_mem)
  show "e \<in> set (get_or (v_oscillation v) ip []) \<Longrightarrow> fst e = owner ip"
    using o' by (cases "dict_get (v_oscillation v) ip") (auto simp: get_or_def dest!: dict_get_mem)
qed

lemma raise_alert_quiet: "raise_alert mt False key m ip sub a v = ([], v)"
  by (simp add: raise_alert_def)

lemma change_count_same:
  assumes "\<And>e. e \<in> set es \<Longrightarrow> fst e = m"
  shows "change_count es = 0"
proof -
  have "fst (es ! i) = m" if "i < length es" for i using assms that nth_mem by blast
  then show ?thesis by (auto simp: change_count_def filter_empty_conv)
qed

lemma in_dict_set: "x \<in> set (dict_set d k v) \<Longrightarrow> x = (k, v) \<or> x \<in> set d"
  by (induction d k v rule: dict_set.induct) (auto split: if_splits)

lemma log_entries:
  assumes "owned owner v" "x \<in> set (filter P (get_or (v_oscillation v) ip [] @ [(owner ip, mt)]))"
  shows "fst x = owner ip"
proof -
  have "x \<in> set (get_or (v_oscillation v) ip []) \<or> x = (owner ip, mt)" using assms(2) by (simp only: set_filter) auto
  then show ?thesis using owned_get(3) [OF assms(1), of x ip] by auto
qed

lemma kept_rows: "set (filter P (filter Q d)) \<subseteq> set d"
  by auto

lemma log_oscillation_owned:
  assumes "owned owner v"
  shows "owned owner (log_oscillation mt (owner ip) ip v)"
proof -
  let ?es = "filter (\<lambda>(a, x). x > mt - MAC_OSCILLATION_WINDOW) (get_or (v_oscillation v) ip [] @ [(owner ip, mt)])"
  have "\<forall>(i, es) \<in> set (dict_set (v_oscillation v) ip ?es). \<forall>e \<in> set es. fst e = owner i"
  proof
    fix r assume "r \<in> set (dict_set (v_oscillation v) ip ?es)"
    from in_dict_set [OF this] show "case r of (i, es) \<Rightarrow> \<forall>e \<in> set es. fst e = owner i"
    proof
      assume "r = (ip, ?es)"
      then show ?thesis using log_entries [OF assms] by blast
    next
      assume "r \<in> set (v_oscillation v)"
      then show ?thesis using assms unfolding owned_def by blast
    qed
  qed
  moreover have "set (v_oscillation (log_oscillation mt (owner ip) ip v)) \<subseteq> set (dict_set (v_oscillation v) ip ?es)"
    unfolding log_oscillation_def Let_def by (rule subset_trans [OF eq_refl kept_rows]) simp
  moreover have "v_pins (log_oscillation mt (owner ip) ip v) = v_pins v"
      "v_timeline (log_oscillation mt (owner ip) ip v) = v_timeline v"
    by (simp_all add: log_oscillation_def Let_def)
  ultimately show ?thesis using assms unfolding owned_def by (metis (no_types, lifting) subsetD)
qed

lemma inspect_quiet:
  assumes "owned owner v" "m = owner ip" "\<not> (oper = 2 \<and> ip = dst)"
  shows "\<exists>t' v'. inspect_arp now mt s m ip dst oper f (t, v) = ([], t', v') \<and> owned owner v'"
proof -
  have 1: "check_binding now mt s m ip v = ([], v)"
    using owned_get(1) [OF assms(1)] assms(2)
    by (auto simp: check_binding_def raise_alert_quiet split: option.split)
  have 2: "check_conflict now mt s m ip v = ([], v)"
    using owned_get(2) [OF assms(1)] assms(2)
    by (auto simp: check_conflict_def raise_alert_quiet split: option.split)
  let ?v = "log_oscillation mt m ip v"
  have o': "owned owner ?v" using log_oscillation_owned [OF assms(1)] assms(2) by simp
  have "change_count (get_or (v_oscillation ?v) ip []) = 0"
    by (rule change_count_same) (use owned_get(3) [OF o'] in blast)
  then have 4: "check_oscillation now mt s m ip v = ([], ?v)"
    by (simp add: check_oscillation_def Let_def raise_alert_quiet MAC_OSCILLATION_CHANGE_LIMIT_def)
  have "owned owner (?v\<lparr>v_timeline := dict_set (v_timeline ?v) ip (m, mt)\<rparr>)"
    using o' assms(2) in_dict_set by (fastforce simp: owned_def)
  then show ?thesis using assms(3) by (auto simp: inspect_arp_def 1 2 4)
qed

lemma arp_run_quiet:
  assumes "owned owner v"
    "\<forall>e \<in> set es. ae_src_mac e = owner (ae_src_ip e) \<and> \<not> (ae_op e = 2 \<and> ae_src_ip e = ae_dst_ip e)"
  shows "fst (arp_run s es (t, v)) = []"
  using assms
proof (induction es arbitrary: t v)
  case (Cons e es)
  obtain t' v' where i: "inspect_arp (ae_now e) (ae_mono e) s (ae_src_mac e) (ae_src_ip e) (ae_dst_ip e) (ae_op e)
      (ae_interface e) (t, v) = ([], t', v')" "owned owner v'"
    using inspect_quiet [OF Cons.prems(1)] Cons.prems(2) by (metis list.set_intros(1))
  show ?case using Cons.IH [OF i(2), of t'] Cons.prems(2) i(1) by (simp split: prod.split)
qed simp

lemma prepared_pins:
  "set (v_pins (prepare_verifier t v)) \<subseteq> set (v_pins v) \<union> (\<lambda>(m, b). (b_ip b, m)) ` set (t_bindings t)"
proof -
  have "set (foldl (\<lambda>pins (m, b). dict_set pins (b_ip b) m) p xs) \<subseteq> set p \<union> (\<lambda>(m, b). (b_ip b, m)) ` set xs" for p xs
  proof (induction xs arbitrary: p)
    case (Cons x xs)
    show ?case using Cons.IH [of "dict_set p (b_ip (snd x)) (fst x)"] in_dict_set by (fastforce split: prod.splits)
  qed simp
  from this [of "v_pins v" "list_trusted_bindings t"] show ?thesis
    by (simp add: prepare_verifier_def refresh_mute_rules_def list_trusted_bindings_def)
qed



section \<open>Claims on bound addresses\<close>

text \<open>What the limiter remembers of a key, and the verifier's answer to the first claim.\<close>

definition claim_key :: "string \<Rightarrow> mac \<Rightarrow> string" where
  "claim_key ip m = ''gateway_impersonation:'' @ ip @ '':'' @ m"

lemma claim_raised:
  assumes "dict_get (v_pins v) ip = Some g" "g \<noteq> []" "g \<noteq> m" "dict_get (v_limiter v) (claim_key ip m) = None"
    "\<not> is_suppressed v m (Some ip) ''gateway_impersonation''"
  shows "\<exists>a \<in> set (fst (inspect_arp now mt s m ip dst oper f (t, v))).
    al_mac a = m \<and> al_severity a = CRITICAL \<and> al_rule a = Some ''gateway_impersonation''"
proof -
  have "dict_get (v_limiter v) (''gateway_impersonation:'' @ ip @ '':'' @ m) = None"
    using assms(4) by (simp add: claim_key_def)
  then have "\<exists>a. fst (check_binding now mt s m ip v) = [a] \<and>
      al_mac a = m \<and> al_severity a = CRITICAL \<and> al_rule a = Some ''gateway_impersonation''"
    using assms(1-3,5)
    by (simp add: check_binding_def raise_alert_def rate_limit_ok_def is_suppressed_def new_alert_def Let_def)
  moreover have "\<exists>xs. fst (inspect_arp now mt s m ip dst oper f (t, v)) = fst (check_binding now mt s m ip v) @ xs"
    unfolding inspect_arp_def Let_def split_beta fst_conv snd_conv by blast
  ultimately show ?thesis by auto
qed

section \<open>Restarts\<close>

lemma find_append_none: "find P xs = None \<Longrightarrow> find P (xs @ ys) = find P ys"
  by (induction xs) (auto split: if_splits)

lemma pins_after_load:
  "dict_get (foldl (\<lambda>pins (m, b). dict_set pins (b_ip b) m) p xs) ip =
     (case rev (filter (\<lambda>(m, b). b_ip b = ip) xs) of [] \<Rightarrow> dict_get p ip | (m, b) # _ \<Rightarrow> Some m)"
proof (induction xs rule: rev_induct)
  case (snoc x xs)
  then show ?case by (cases x) (auto simp: dicts)
qed simp

lemma learn_binding_mutes: "t_mutes (fst (learn_binding now m ip src f tv)) = t_mutes (fst tv)"
  by (auto simp: learn_binding_def add_trusted_binding_def Let_def split: prod.split option.split)

text \<open>C33: A replaced gateway comes back at a restart.  When the gateway of an IP address was learned and
  then replaced by a newer one, both bindings stay in the table; after a restart the older one is loaded
  last and wins, and the first ARP packet of the present gateway raises a critical impersonation alert.\<close>

theorem replaced_gateway_returns:
  assumes "\<forall>(m, b) \<in> set (t_bindings t). b_ip b \<noteq> ip" "dict_get (t_bindings t) m1 = None" "dict_get (t_bindings t) m2 = None"
    "m1 \<noteq> m2" "m1 \<noteq> []" "now1 < now2" "src1 \<noteq> ''manual''"
    "t2 = fst (learn_binding now2 m2 ip src2 f2 (learn_binding now1 m1 ip src1 f1 (t, v)))"
    "\<not> is_suppressed (prepare_verifier t2 new_verifier) m2 (Some ip) ''gateway_impersonation''"
  shows "dict_get (v_pins (snd (learn_binding now2 m2 ip src2 f2 (learn_binding now1 m1 ip src1 f1 (t, v))))) ip = Some m2 \<and>
    dict_get (v_pins (prepare_verifier t2 new_verifier)) ip = Some m1 \<and>
    (\<exists>a \<in> set (fst (inspect_arp now mt s m2 ip dst oper f (t2, prepare_verifier t2 new_verifier))).
       al_mac a = m2 \<and> al_severity a = CRITICAL \<and> al_rule a = Some ''gateway_impersonation'')"
proof -
  let ?b1 = "\<lparr>b_ip = ip, b_source = src1, b_created_at = now1, b_interface = Some f1\<rparr>"
  let ?b2 = "\<lparr>b_ip = ip, b_source = src2, b_created_at = now2, b_interface = Some f2\<rparr>"
  have none: "find (\<lambda>(m, b). b_ip b = ip) (t_bindings t) = None"
    using assms(1) by (auto simp: find_None_iff)
  have nofilter: "filter (\<lambda>(m, b). b_ip b = ip) (t_bindings t) = []"
    using assms(1) by (auto simp: filter_empty_conv)
  have t1: "t_bindings (add_trusted_binding now1 m1 ip src1 (Some f1) t) = t_bindings t @ [(m1, ?b1)]"
    using assms(2) by (simp add: add_trusted_binding_def upsert_row_def dict_set_fresh)
  have l1: "learn_binding now1 m1 ip src1 f1 (t, v) =
      (add_trusted_binding now1 m1 ip src1 (Some f1) t, v\<lparr>v_pins := dict_set (v_pins v) ip m1\<rparr>)"
    using none by (simp add: learn_binding_def get_trusted_binding_for_ip_def)
  have g1: "get_trusted_binding_for_ip ip (add_trusted_binding now1 m1 ip src1 (Some f1) t) = Some (m1, ?b1)"
    using none by (simp add: get_trusted_binding_for_ip_def t1 find_append_none)
  have l2: "learn_binding now2 m2 ip src2 f2 (learn_binding now1 m1 ip src1 f1 (t, v)) =
      (add_trusted_binding now2 m2 ip src2 (Some f2) (add_trusted_binding now1 m1 ip src1 (Some f1) t),
       v\<lparr>v_pins := dict_set (dict_set (v_pins v) ip m1) ip m2\<rparr>)"
    unfolding l1 using assms(7) by (simp add: learn_binding_def g1)
  have t2: "t_bindings t2 = t_bindings t @ [(m1, ?b1), (m2, ?b2)]"
    using assms(3,4,8) unfolding l2
    by (simp add: add_trusted_binding_def [of now2] upsert_row_def dict_set_fresh t1 dict_get_append dict_get_Cons)
  have "filter (\<lambda>(m, b). b_ip b = ip) (list_trusted_bindings t2) = [(m2, ?b2), (m1, ?b1)]"
    using assms(6) nofilter by (simp add: list_trusted_bindings_def filter_sort t2)
  then have p: "dict_get (v_pins (prepare_verifier t2 new_verifier)) ip = Some m1"
    by (simp add: prepare_verifier_def refresh_mute_rules_def pins_after_load)
  have q: "dict_get (v_limiter (prepare_verifier t2 new_verifier)) k = None" for k
    by (simp add: prepare_verifier_def refresh_mute_rules_def new_verifier_def)
  show ?thesis
    using claim_raised [OF p assms(5,4) q assms(9)] p unfolding l2 by (simp add: dicts)
qed

theorem replaced_gateway_returns_witness:
  "\<exists>t2. \<exists>a \<in> set (fst (inspect_arp 9 9 empty_store ''bb'' ''10.0.0.1'' ''10.0.0.5'' 1 ''eth0''
     (t2, prepare_verifier t2 new_verifier))). al_mac a = ''bb'' \<and> al_severity a = CRITICAL"
proof -
  let ?t = "fst (learn_binding 2 ''bb'' ''10.0.0.1'' ''dhcp_server'' ''eth0''
    (learn_binding 1 ''aa'' ''10.0.0.1'' ''dhcp_server'' ''eth0'' (empty_tables, new_verifier)))"
  have "t_mutes ?t = []" by (simp add: learn_binding_mutes empty_tables_def)
  then have "v_mutes (prepare_verifier ?t new_verifier) = []"
    by (simp add: prepare_verifier_def refresh_mute_rules_def list_suppression_rules_def)
  then have s: "\<not> is_suppressed (prepare_verifier ?t new_verifier) ''bb'' (Some ''10.0.0.1'') ''gateway_impersonation''"
    by (simp add: is_suppressed_def)
  from replaced_gateway_returns [OF _ _ _ _ _ _ _ refl s, of 9 9 empty_store "''10.0.0.5''" 1 "''eth0''"]
  show ?thesis by (auto simp: empty_tables_def)
qed

section \<open>Pins of an operator\<close>

lemma bindings_mem:
  "distinct (dict_keys d) \<Longrightarrow> (k, b) \<in> set d \<longleftrightarrow> dict_get d k = Some b"
  by (simp add: dict_get_def dict_keys_def)

lemma binding_for_ip:
  assumes "distinct (dict_keys (t_bindings t))"
  shows "get_trusted_binding_for_ip ip t = None \<longleftrightarrow> (\<forall>k b. dict_get (t_bindings t) k = Some b \<longrightarrow> b_ip b \<noteq> ip)"
    and "get_trusted_binding_for_ip ip t = Some (k, b) \<Longrightarrow> dict_get (t_bindings t) k = Some b \<and> b_ip b = ip"
  using bindings_mem [OF assms]
  by (auto simp: get_trusted_binding_for_ip_def find_None_iff find_Some_iff dest: nth_mem)

lemma added_binding:
  "dict_get (t_bindings (add_trusted_binding now m ip src f t)) k =
     (if k = m then Some (case dict_get (t_bindings t) m of
          None \<Rightarrow> \<lparr>b_ip = ip, b_source = src, b_created_at = now, b_interface = f\<rparr>
        | Some old \<Rightarrow> old\<lparr>b_ip := ip, b_source := src, b_interface := f\<rparr>) else dict_get (t_bindings t) k)"
  by (auto simp: add_trusted_binding_def split: option.split)

lemma added_distinct:
  "distinct (dict_keys (t_bindings t)) \<Longrightarrow> distinct (dict_keys (t_bindings (add_trusted_binding now m ip src f t)))"
  by (simp add: add_trusted_binding_def distinct_upsert_row)

text \<open>An automatic binding replaces an operator's pin of the same hardware address: when the pinned
  address is later seen serving another IP address, the pinned IP address has no binding any more.\<close>

theorem manual_pin_lost:
  assumes "distinct (dict_keys (t_bindings t))"
    "\<forall>k b. dict_get (t_bindings t) k = Some b \<longrightarrow> b_ip b \<noteq> ip1 \<and> b_ip b \<noteq> ip2" "ip1 \<noteq> ip2" "ip1 \<noteq> []" "lower_s m \<noteq> []"
  shows "(\<exists>b. get_trusted_binding_for_ip ip1 (fst (snd (api_trust_add now1 m ip1 (t, v)))) = Some (lower_s m, b) \<and>
      b_source b = ''manual'') \<and>
    get_trusted_binding_for_ip ip1
      (fst (learn_binding now2 (lower_s m) ip2 src f (snd (api_trust_add now1 m ip1 (t, v))))) = None"
proof -
  let ?m = "lower_s m"
  let ?t1 = "add_trusted_binding now1 ?m ip1 ''manual'' None t"
  have a: "snd (api_trust_add now1 m ip1 (t, v)) = (?t1, v\<lparr>v_pins := dict_set (v_pins v) ip1 ?m\<rparr>)"
    using assms(4,5) by (simp add: api_trust_add_def Let_def)
  have d1: "distinct (dict_keys (t_bindings ?t1))" by (rule added_distinct [OF assms(1)])
  have pin: "\<exists>b. dict_get (t_bindings ?t1) ?m = Some b \<and> b_ip b = ip1 \<and> b_source b = ''manual''"
    by (auto simp: added_binding split: option.split)
  then obtain k b where kb: "get_trusted_binding_for_ip ip1 ?t1 = Some (k, b)"
    using binding_for_ip(1) [OF d1, of ip1] by (cases "get_trusted_binding_for_ip ip1 ?t1") auto
  have "k = ?m" using binding_for_ip(2) [OF d1 kb] assms(2) by (auto simp: added_binding split: if_splits)
  then have m: "\<exists>b. get_trusted_binding_for_ip ip1 ?t1 = Some (?m, b) \<and> b_source b = ''manual''"
    using kb binding_for_ip(2) [OF d1 kb] pin by auto
  have none: "get_trusted_binding_for_ip ip2 ?t1 = None"
    using binding_for_ip(1) [OF d1, of ip2] assms(2,3) by (auto simp: added_binding split: option.splits)
  have l: "fst (learn_binding now2 ?m ip2 src f (snd (api_trust_add now1 m ip1 (t, v)))) =
      add_trusted_binding now2 ?m ip2 src (Some f) ?t1"
    unfolding a by (simp add: learn_binding_def none)
  have "get_trusted_binding_for_ip ip1 (add_trusted_binding now2 ?m ip2 src (Some f) ?t1) = None"
    using binding_for_ip(1) [OF added_distinct [OF d1], of ip1 now2 ?m ip2 src "Some f"] assms(2,3)
    by (auto simp: added_binding split: option.splits if_splits)
  with m show ?thesis unfolding l by (simp add: a)
qed

theorem manual_pin_lost_witness:
  "get_trusted_binding_for_ip ''10.0.0.1'' (fst (learn_binding 2 (lower_s ''aa'') ''10.0.0.2'' ''dhcp_server'' ''eth0''
     (snd (api_trust_add 1 ''aa'' ''10.0.0.1'' (empty_tables, new_verifier))))) = None"
proof -
  have "lower_s ''aa'' \<noteq> []" by (simp add: lower_s_def lit_def lower_def)
  then show ?thesis using manual_pin_lost [of empty_tables "''10.0.0.1''" "''10.0.0.2''" "''aa''" 1 new_verifier 2 "''dhcp_server''" "''eth0''"]
    by (simp add: empty_tables_def dict_keys_def)
qed

end
