(* ===== verification/Auth.thy ===== *)
theory Auth
  imports Tables
begin

text \<open>
  Access control of the web interface: \<open>auth/roles.py\<close>, \<open>auth/middleware.py\<close>,
  \<open>auth/tokens.py\<close> (hashing; the digest is an argument), the token routes of
  \<open>ui/web/routers/auth.py\<close> and the middlewares of \<open>ui/web/app.py\<close> with the rate limiter.
  A request is what they read of it; a response that is not the handler's is its status code.  The
  middlewares run in the order authentication, role, rate limit: the framework puts the one added last
  outermost.
\<close>

section \<open>Roles\<close>

definition ADMIN_ONLY_PREFIXES :: "string list" where
  "ADMIN_ONLY_PREFIXES = [''/api/auth/tokens'', ''/api/auth/revoke'', ''/api/capture/restart'', ''/api/settings/db'',
     ''/api/settings/import'', ''/api/settings/query'']"

definition AUTHORIZATION_SUFFIXES :: "string list" where
  "AUTHORIZATION_SUFFIXES = [''/approve'', ''/reject'', ''/revoke'']"

definition ADMIN_ONLY_METHODS :: "(string \<times> string list) list" where
  "ADMIN_ONLY_METHODS =
    [(''PUT'', [''/api/settings'']),
     (''DELETE'', [''/api/alerts'', ''/api/trust'', ''/api/suppressions'', ''/api/patterns'', ''/api/topology/share'']),
     (''POST'', [''/api/settings/apply'', ''/api/settings/reset'', ''/api/baseline/reset'', ''/api/baseline/finish'',
        ''/api/baseline/restart-learning'', ''/api/baseline/clear-attestations'', ''/api/devices/bulk/authorization'',
        ''/api/inventory/'', ''/api/topology/share''])]"

definition upper_s :: "string \<Rightarrow> string" where
  "upper_s t = map char_of (upper (lit t))"

definition requires_admin :: "string \<Rightarrow> string \<Rightarrow> bool" where
  "requires_admin method path \<longleftrightarrow>
     list_ex (\<lambda>p. starts_with p path) ADMIN_ONLY_PREFIXES \<or>
     list_ex (\<lambda>p. starts_with p path) (get_or ADMIN_ONLY_METHODS (upper_s method) []) \<or>
     upper_s method = ''POST'' \<and> starts_with ''/api/devices/'' path \<and>
       list_ex (\<lambda>x. ends_with x path) AUTHORIZATION_SUFFIXES"

section \<open>Requests\<close>

text \<open>The headers are empty texts when missing.\<close>

record request =
  rq_method :: string
  rq_path :: string
  rq_authorization :: ustr
  rq_api_key :: ustr
  rq_cookie :: "ustr option"
  rq_query :: "ustr option"
  rq_client :: "string option"

datatype verdict_of_auth = Refused nat | Admitted string "nat option"

definition TOKEN_PREFIX :: ustr where
  "TOKEN_PREFIX = lit ''ltk_''"

definition NO_AUTH_HOSTS :: "string list" where
  "NO_AUTH_HOSTS = [''127.0.0.1'', ''localhost'', ''::1'']"

definition EXEMPT_PATHS :: "string list" where
  "EXEMPT_PATHS = [''/api/auth/login'', ''/api/auth/status'', ''/health'']"

definition EXEMPT_PREFIXES :: "string list" where
  "EXEMPT_PREFIXES = [''/assets/'', ''/ws'', ''/share/'']"

definition check_auth_required :: "string \<Rightarrow> bool option \<Rightarrow> bool" where
  "check_auth_required bind_host force = (case force of Some b \<Rightarrow> b | None \<Rightarrow> bind_host \<notin> set NO_AUTH_HOSTS)"

definition is_exempt :: "string \<Rightarrow> bool" where
  "is_exempt path \<longleftrightarrow> path \<in> set EXEMPT_PATHS \<or> list_ex (\<lambda>p. starts_with p path) EXEMPT_PREFIXES"

text \<open>The token a request presents: the bearer header, then the key header, then the cookie; the query
  only when that gave nothing.\<close>

definition presented_token :: "request \<Rightarrow> ustr option" where
  "presented_token r =
     (let raw = (if starts_with (lit ''Bearer '') (rq_authorization r) then Some (strip (drop 7 (rq_authorization r)))
                 else if starts_with TOKEN_PREFIX (rq_api_key r) then Some (strip (rq_api_key r))
                 else rq_cookie r)
      in if truthy raw then raw else rq_query r)"

text \<open>\<open>auth_middleware\<close>; no tables stand for a database that is not ready.\<close>

definition auth_check ::
    "(ustr \<Rightarrow> string) \<Rightarrow> int \<Rightarrow> bool \<Rightarrow> request \<Rightarrow> tables option \<Rightarrow> verdict_of_auth \<times> tables option" where
  "auth_check hash_token now enabled r db =
     (if \<not> enabled then (Admitted ''admin'' None, db)
      else if is_exempt (rq_path r) then (Admitted ''anonymous'' None, db)
      else if \<not> starts_with ''/api/'' (rq_path r) then (Admitted ''anonymous'' None, db)
      else case db of
        None \<Rightarrow> (Refused 503, None)
      | Some t \<Rightarrow>
          if \<not> truthy (presented_token r) then (Refused 401, db)
          else (case validate_token now (hash_token (the (presented_token r))) t of
                  (None, t) \<Rightarrow> (Refused 401, Some t)
                | (Some k, t) \<Rightarrow> (Admitted (tk_role k) (Some (tk_id k)), Some t)))"

text \<open>\<open>_role_middleware\<close>.\<close>

definition role_check :: "bool \<Rightarrow> request \<Rightarrow> string \<Rightarrow> bool" where
  "role_check enabled r role \<longleftrightarrow> \<not> enabled \<or>
     \<not> (starts_with ''/api/'' (rq_path r) \<and> requires_admin (rq_method r) (rq_path r) \<and> role \<noteq> ''admin'')"

section \<open>Rate limit\<close>

text \<open>\<open>_RateLimiter.allow\<close>: the list of the client is changed in place, also after its entry was
  dropped from the dictionary as stale; then the request is not remembered.\<close>

definition CLEANUP_CLIENTS :: nat where
  "CLEANUP_CLIENTS = 1000"

definition allow ::
    "nat \<Rightarrow> rat \<Rightarrow> rat \<Rightarrow> string \<Rightarrow> (string \<times> rat list) list \<Rightarrow> bool \<times> (string \<times> rat list) list" where
  "allow max_requests window now client reqs =
     (let mine = filter (\<lambda>x. now - x < window) (get_or reqs client []);
          reqs = dict_set reqs client mine;
          reqs = (if length reqs > CLEANUP_CLIENTS then filter (\<lambda>(ip, times). times \<noteq> []) reqs else reqs)
      in if length mine \<ge> max_requests then (False, reqs)
         else (True, if dict_get reqs client = None then reqs else dict_set reqs client (mine @ [now])))"

definition rate_check :: "rat \<Rightarrow> request \<Rightarrow> (string \<times> rat list) list \<Rightarrow> bool \<times> (string \<times> rat list) list" where
  "rate_check mt r reqs =
     (if starts_with ''/api/'' (rq_path r)
      then allow 120 60 mt (case rq_client r of None \<Rightarrow> ''unknown'' | Some c \<Rightarrow> c) reqs else (True, reqs))"

section \<open>The three middlewares\<close>

text \<open>What a request meets before its handler: a refusal, or the role it is handled with.\<close>

definition serve ::
    "(ustr \<Rightarrow> string) \<Rightarrow> int \<Rightarrow> rat \<Rightarrow> bool \<Rightarrow> request \<Rightarrow> tables option \<times> (string \<times> rat list) list \<Rightarrow>
     verdict_of_auth \<times> tables option \<times> (string \<times> rat list) list" where
  "serve hash_token now mt enabled r st =
     (case auth_check hash_token now enabled r (fst st) of
        (Refused n, db) \<Rightarrow> (Refused n, db, snd st)
      | (Admitted role i, db) \<Rightarrow>
          if \<not> role_check enabled r role then (Refused 403, db, snd st)
          else (case rate_check mt r (snd st) of
                  (False, reqs) \<Rightarrow> (Refused 429, db, reqs)
                | (True, reqs) \<Rightarrow> (Admitted role i, db, reqs)))"

section \<open>Token routes\<close>

text \<open>\<open>POST /api/auth/login\<close>, \<open>POST /api/auth/tokens\<close> with a generated token, and
  \<open>DELETE /api/auth/tokens/id\<close>; a status code with what the body names.\<close>

definition api_auth_login :: "(ustr \<Rightarrow> string) \<Rightarrow> int \<Rightarrow> ustr \<Rightarrow> tables \<Rightarrow> (nat + string) \<times> tables" where
  "api_auth_login hash_token now body_token t =
     (let raw = strip body_token
      in if raw = [] then (Inl 400, t)
         else case validate_token now (hash_token raw) t of
                (None, t) \<Rightarrow> (Inl 401, t)
              | (Some k, t) \<Rightarrow> (Inr (tk_role k), t))"

definition api_auth_create_token ::
    "(ustr \<Rightarrow> string) \<Rightarrow> int \<Rightarrow> ustr \<Rightarrow> string \<Rightarrow> ustr option \<Rightarrow> tables \<Rightarrow> (nat + nat) \<times> tables" where
  "api_auth_create_token hash_token now raw role label t =
     (if role \<noteq> ''admin'' \<and> role \<noteq> ''analyst'' then (Inl 400, t)
      else case create_auth_token now (hash_token raw) role label t of
             Inl e \<Rightarrow> (Inl 500, t)
           | Inr (t, i) \<Rightarrow> (Inr i, t))"

definition api_auth_revoke_token :: "nat \<Rightarrow> tables \<Rightarrow> tables" where
  "api_auth_revoke_token i t = revoke_auth_token i t"

end
