(* ===== verification/AuthProps.thy ===== *)
theory AuthProps
  imports Auth
begin

text \<open>
  Admin routes are reached only with a live admin token, revoked tokens stay refused whatever happens to
  the table afterwards, and the limits of the rate limiter.
\<close>

section \<open>Admin routes\<close>

lemma find_SomeD: "find P xs = Some x \<Longrightarrow> x \<in> set xs \<and> P x"
  by (induction xs) (auto split: if_splits)

lemma found_token:
  assumes "fst (validate_token now h t) = Some k"
  shows "\<exists>k' \<in> set (t_tokens t). live_token h k' \<and> tk_role k' = tk_role k \<and> tk_id k' = tk_id k"
proof -
  let ?f = "\<lambda>k. if tk_hash k = h then k\<lparr>tk_last_used := Some now\<rparr> else k"
  have "find (live_token h) (map ?f (t_tokens t)) = Some k"
    using assms by (simp add: validate_token_def Let_def split: if_splits)
  from find_SomeD [OF this] have "k \<in> ?f ` set (t_tokens t)" "live_token h k" by auto
  then show ?thesis by (auto simp: live_token_def split: if_splits)
qed

text \<open>C30: With authentication on, a request to an admin-only route reaches its handler only when it
  presents a token whose hash is that of an unrevoked admin token of the table; no exempt path and no
  other role gets there.\<close>

theorem admin_routes_need_admin_token:
  assumes "fst (serve hash_token now mt True r (db, reqs)) = Admitted role i"
    "starts_with ''/api/'' (rq_path r)" "requires_admin (rq_method r) (rq_path r)"
  shows "\<exists>t raw. db = Some t \<and> presented_token r = Some raw \<and>
    (\<exists>k \<in> set (t_tokens t). tk_hash k = hash_token raw \<and> tk_role k = ''admin'' \<and> \<not> tk_revoked k)"
proof (cases "fst (auth_check hash_token now True r db)")
  case (Refused n)
  then show ?thesis using assms(1) by (cases "auth_check hash_token now True r db") (simp add: serve_def)
next
  case (Admitted role' i')
  then have "role_check True r role'"
    using assms(1) by (cases "auth_check hash_token now True r db") (auto simp: serve_def split: if_splits)
  then have "role' = ''admin''" using assms(2,3) by (simp add: role_check_def)
  then have a: "fst (auth_check hash_token now True r db) = Admitted ''admin'' i'" using Admitted by simp
  then obtain t where t: "db = Some t" "truthy (presented_token r)"
      "fst (auth_check hash_token now True r db) = (case fst (validate_token now (hash_token (the (presented_token r))) t) of
         None \<Rightarrow> Refused 401 | Some k \<Rightarrow> Admitted (tk_role k) (Some (tk_id k)))"
    by (auto simp: auth_check_def assms(2) split: if_splits option.splits prod.splits)
  then obtain k where k: "fst (validate_token now (hash_token (the (presented_token r))) t) = Some k" "tk_role k = ''admin''"
    using a by (auto split: option.splits)
  from found_token [OF k(1)] k(2) t show ?thesis by (cases "presented_token r") (auto simp: truthy_def live_token_def)
qed

definition revoke_request :: request where
  "revoke_request = \<lparr>rq_method = ''POST'', rq_path = ''/api/devices/aa/reject'', rq_authorization = [],
     rq_api_key = [], rq_cookie = Some (lit ''ltk_1''), rq_query = None, rq_client = Some ''10.0.0.9''\<rparr>"

definition admin_tables :: tables where
  "admin_tables = empty_tables\<lparr>t_tokens := [\<lparr>tk_id = 1, tk_hash = ''h'', tk_role = ''admin'', tk_label = None,
     tk_created_at = 0, tk_last_used = None, tk_revoked = False\<rparr>]\<rparr>"

theorem admin_routes_need_admin_token_witness:
  "\<exists>t raw. Some admin_tables = Some t \<and> presented_token revoke_request = Some raw \<and>
    (\<exists>k \<in> set (t_tokens t). tk_hash k = ''h'' \<and> tk_role k = ''admin'' \<and> \<not> tk_revoked k)"
proof (rule admin_routes_need_admin_token [where hash_token = "\<lambda>_. ''h''"])
  show "fst (serve (\<lambda>_. ''h'') 0 0 True revoke_request (Some admin_tables, [])) = Admitted ''admin'' (Some 1)"
    by code_simp
  show "starts_with ''/api/'' (rq_path revoke_request)" by code_simp
  show "requires_admin (rq_method revoke_request) (rq_path revoke_request)" by code_simp
qed

section \<open>Revocation\<close>

datatype token_op =
  CreateToken int string string "ustr option" | ValidateToken int string | RevokeToken nat | RevokeAdmins

fun token_exec :: "tables \<Rightarrow> token_op \<Rightarrow> tables" where
  "token_exec t (CreateToken now h role label) =
     (case create_auth_token now h role label t of Inl e \<Rightarrow> t | Inr (t, i) \<Rightarrow> t)"
| "token_exec t (ValidateToken now h) = snd (validate_token now h t)"
| "token_exec t (RevokeToken i) = revoke_auth_token i t"
| "token_exec t RevokeAdmins = revoke_all_admin_tokens t"

definition refused :: "string \<Rightarrow> tables \<Rightarrow> bool" where
  "refused h t \<longleftrightarrow> h \<in> tk_hash ` set (t_tokens t) \<and> (\<forall>k \<in> set (t_tokens t). tk_hash k = h \<longrightarrow> tk_revoked k)"

lemma refused_map:
  assumes "refused h t" "\<And>k. tk_hash (f k) = tk_hash k" "\<And>k. tk_revoked k \<Longrightarrow> tk_revoked (f k)"
  shows "refused h (t\<lparr>t_tokens := map f (t_tokens t)\<rparr>)"
  using assms by (auto simp: refused_def image_image)

lemma refused_exec: "refused h t \<Longrightarrow> refused h (token_exec t p)"
proof (cases p)
  case (CreateToken now h' role label)
  assume "refused h t"
  then show ?thesis
    using CreateToken by (cases "h' = h") (auto simp: refused_def create_auth_token_def list_ex_iff)
next
  case (ValidateToken now h')
  assume "refused h t"
  then show ?thesis
    using ValidateToken refused_map [of h t "\<lambda>k. if tk_hash k = h' then k\<lparr>tk_last_used := Some now\<rparr> else k"]
    by (auto simp: validate_token_def Let_def)
next
  case (RevokeToken i)
  assume "refused h t"
  then show ?thesis
    using RevokeToken refused_map [of h t "\<lambda>k. if tk_id k = i then k\<lparr>tk_revoked := True\<rparr> else k"]
    by (auto simp: revoke_auth_token_def)
next
  case RevokeAdmins
  assume "refused h t"
  then show ?thesis
    using RevokeAdmins
      refused_map [of h t "\<lambda>k. if tk_role k = ''admin'' \<and> \<not> tk_revoked k then k\<lparr>tk_revoked := True\<rparr> else k"]
    by (auto simp: revoke_all_admin_tokens_def)
qed

lemma refused_run: "refused h t \<Longrightarrow> refused h (foldl token_exec t ps)"
  by (induction ps arbitrary: t) (simp_all add: refused_exec)

lemma refused_validate: "refused h t \<Longrightarrow> fst (validate_token now h t) = None"
  by (auto simp: refused_def validate_token_def live_token_def find_None_iff Let_def)

lemma token_exec_distinct:
  "distinct (map tk_hash (t_tokens t)) \<Longrightarrow> distinct (map tk_hash (t_tokens (token_exec t p)))"
  by (cases p) (auto simp: create_auth_token_def validate_token_def revoke_auth_token_def revoke_all_admin_tokens_def
      Let_def list_ex_iff o_def if_distrib [of tk_hash] cong: if_cong)

lemma token_run_distinct:
  "distinct (map tk_hash (t_tokens t)) \<Longrightarrow> distinct (map tk_hash (t_tokens (foldl token_exec t ps)))"
  by (induction ps arbitrary: t) (simp_all add: token_exec_distinct)

text \<open>C31: Once a token is revoked, no request presenting it is ever authenticated again, whatever tokens
  are created, validated or revoked before and after.\<close>

theorem revoked_token_stays_refused:
  assumes "k \<in> set (t_tokens (foldl token_exec empty_tables ps))"
  shows "fst (validate_token now (tk_hash k)
    (foldl token_exec (revoke_auth_token (tk_id k) (foldl token_exec empty_tables ps)) qs)) = None"
proof -
  let ?t = "foldl token_exec empty_tables ps"
  have d: "distinct (map tk_hash (t_tokens ?t))" by (rule token_run_distinct) (simp add: empty_tables_def)
  have "refused (tk_hash k) (revoke_auth_token (tk_id k) ?t)"
  proof -
    have "k' = k" if "k' \<in> set (t_tokens ?t)" "tk_hash k' = tk_hash k" for k'
      using d that assms by (auto simp: distinct_map inj_on_def)
    moreover have "map tk_hash (t_tokens (revoke_auth_token (tk_id k) ?t)) = map tk_hash (t_tokens ?t)"
      by (simp add: revoke_auth_token_def)
    then have "tk_hash k \<in> tk_hash ` set (t_tokens (revoke_auth_token (tk_id k) ?t))"
      using assms by (metis image_eqI list.set_map)
    ultimately show ?thesis by (auto simp: refused_def revoke_auth_token_def split: if_splits)
  qed
  then show ?thesis by (intro refused_validate refused_run)
qed

theorem revoked_token_stays_refused_witness:
  "fst (validate_token 9 ''h'' (foldl token_exec (revoke_auth_token 1
     (foldl token_exec empty_tables [CreateToken 0 ''h'' ''admin'' None])) [ValidateToken 3 ''h'', CreateToken 4 ''h'' ''admin'' None])) = None"
  using revoked_token_stays_refused [of "\<lparr>tk_id = 1, tk_hash = ''h'', tk_role = ''admin'', tk_label = None,
      tk_created_at = 0, tk_last_used = None, tk_revoked = False\<rparr>" "[CreateToken 0 ''h'' ''admin'' None]" 9
      "[ValidateToken 3 ''h'', CreateToken 4 ''h'' ''admin'' None]"]
  by (simp add: create_auth_token_def empty_tables_def)

section \<open>Rate limit\<close>

text \<open>The rate limiter stops limiting: once it tracks a thousand clients that each have remembered
  requests, any other client is let through and forgotten, so it may send any number of requests.\<close>

theorem crowded_limiter_admits_everything:
  assumes "CLEANUP_CLIENTS \<le> length reqs" "\<forall>r \<in> set reqs. snd r \<noteq> []" "client \<notin> set (dict_keys reqs)"
    "0 < max_requests"
  shows "foldl (\<lambda>(oks, reqs) now. case allow max_requests window now client reqs of (ok, reqs) \<Rightarrow> (oks @ [ok], reqs))
      ([], reqs) arrivals = (replicate (length arrivals) True, reqs)"
proof -
  have n: "dict_get reqs client = None" using assms(3) by (simp add: dict_get_None_iff)
  have s: "dict_set reqs client [] = reqs @ [(client, [])]" by (rule dict_set_fresh) (use n in simp)
  have f: "filter (\<lambda>(ip, times). times \<noteq> []) reqs = reqs" using assms(2) by (auto simp: filter_id_conv)
  have one: "allow max_requests window now client reqs = (True, reqs)" for now
    using assms(1,4) n s f by (simp add: allow_def get_or_def Let_def)
  have "foldl (\<lambda>(oks, reqs) now. case allow max_requests window now client reqs of (ok, reqs) \<Rightarrow> (oks @ [ok], reqs))
      (oks, reqs) arrivals = (oks @ replicate (length arrivals) True, reqs)" for oks
    by (induction arrivals arbitrary: oks) (simp_all add: one)
  then show ?thesis by simp
qed

theorem crowded_limiter_admits_everything_witness:
  "foldl (\<lambda>(oks, reqs) now. case allow 120 60 now ''y'' reqs of (ok, reqs) \<Rightarrow> (oks @ [ok], reqs))
     ([], map (\<lambda>i. (replicate i CHR ''x'', [0])) [0..<1000]) (replicate 500 1) =
   (replicate 500 True, map (\<lambda>i. (replicate i CHR ''x'', [0])) [0..<1000])"
proof -
  have "''y'' \<noteq> replicate i CHR ''x''" for i by (cases i) simp_all
  then show ?thesis
    using crowded_limiter_admits_everything [of "map (\<lambda>i. (replicate i CHR ''x'', [0])) [0..<1000]" "''y''" 120 60
        "replicate 500 1"]
    by (auto simp: CLEANUP_CLIENTS_def dict_keys_def)
qed

end
