(* ===== verification/DnsMatching.thy ===== *)
theory DnsMatching
  imports Evidence
begin

text \<open>
  \<open>match_dns_query\<close> of \<open>patterns/matching.py\<close>: a cascade of tests on the lower-case name, each
  with the dictionary it answers.  The cascade is the list \<open>DNS_RULES\<close>, in the order of the code,
  and the answer is that of the first rule that holds.  The classes \<open>\d\<close> and \<open>\w\<close> are those of ASCII.
\<close>

section \<open>Rules\<close>

datatype dns_test =
    Domain string
  | Within string
  | Suffix string
  | Fits re
  | Both dns_test dns_test

type_synonym dns_rule = "dns_test \<times> dict"

text \<open>\<open>_domain_matches\<close>.\<close>

definition domain_matches :: "ustr \<Rightarrow> ustr \<Rightarrow> bool" where
  "domain_matches query domain \<longleftrightarrow> query = domain \<or> ends_with (46 # domain) query"

fun holds :: "dns_test \<Rightarrow> ustr \<Rightarrow> bool" where
  "holds (Domain d) q = domain_matches q (lit d)"
| "holds (Within t) q = contains_sub (lit t) q"
| "holds (Suffix t) q = ends_with (lit t) q"
| "holds (Fits r) q = (re_match r q \<noteq> None)"
| "holds (Both a b) q = (holds a q \<and> holds b q)"

fun first_answer :: "ustr \<Rightarrow> dns_rule list \<Rightarrow> dict option" where
  "first_answer q [] = None"
| "first_answer q ((t, a) # rs) = (if holds t q then Some a else first_answer q rs)"

definition opt_text :: "string option \<Rightarrow> pyval" where
  "opt_text t = (case t of None \<Rightarrow> PNone | Some t \<Rightarrow> pstr t)"

text \<open>The dictionaries of the answers.\<close>

definition dns_result :: "string option \<Rightarrow> string option \<Rightarrow> string option \<Rightarrow> rat \<Rightarrow> string \<Rightarrow> dict" where
  "dns_result manufacturer device_type os_family confidence note =
     [(''manufacturer'', opt_text manufacturer), (''device_type'', opt_text device_type),
      (''os_family'', opt_text os_family), (''confidence'', PFloat confidence), (''note'', pstr note)]"

definition ai_result :: "rat \<Rightarrow> string \<Rightarrow> string \<Rightarrow> dict" where
  "ai_result confidence service cat =
     dns_result None None None confidence (''AI service consumer: '' @ service) @
     [(''ai_service'', pstr service), (''ai_category'', pstr cat)]"

definition doms :: "string list \<Rightarrow> (string \<Rightarrow> dict) \<Rightarrow> dns_rule list" where
  "doms ds f = map (\<lambda>d. (Domain d, f d)) ds"

definition either :: "dns_test \<Rightarrow> dns_test \<Rightarrow> dict \<Rightarrow> dns_rule list" where
  "either a b r = [(a, r), (b, r)]"

section \<open>The cascade\<close>

definition is_word_char :: "nat \<Rightarrow> bool" where
  "is_word_char c \<longleftrightarrow> is_letter c \<or> is_digit c \<or> c = 95"

definition NTP_PATTERNS :: "re list" where
  "NTP_PATTERNS =
    [re_seq [Bol, re_plus (Cls is_digit), re_str (lit ''.pool.ntp.org''), Eol],
     re_seq [Bol, re_str (lit ''time.''), re_plus (Cls is_word_char), Cls (chr_is 46), re_plus (Cls is_word_char), Eol],
     re_seq [Bol, re_str (lit ''ntp.''), re_plus (Cls is_word_char), Cls (chr_is 46), re_plus (Cls is_word_char), Eol]]"

definition DNS_APPLE :: "dns_rule list" where
  "DNS_APPLE =
     doms [''icloud.com'', ''apple.com'', ''apple-dns.net'', ''mzstatic.com'', ''itunes.apple.com'',
       ''appleiphonecell.com'', ''apple-cloudkit.com'', ''icloud-content.com'', ''me.com'', ''cdn-apple.com'',
       ''push.apple.com'', ''gs.apple.com'', ''p-push-ssl.apple.com'', ''courier.push.apple.com'',
       ''albert.apple.com'', ''setup.icloud.com'', ''swscan.apple.com'']
       (\<lambda>d. dns_result (Some ''Apple'') None (Some ''iOS/macOS'') (90 / 100) (''Apple cloud service: '' @ d)) @
     either (Within ''phobos.apple.com'') (Within ''mesu.apple.com'')
       (dns_result (Some ''Apple'') None (Some ''iOS/macOS'') (95 / 100) ''Apple update server'') @
     doms [''push.apple.com'', ''courier.push.apple.com'', ''albert.apple.com'', ''gs.apple.com'']
       (\<lambda>d. dns_result (Some ''Apple'') None (Some ''iOS/macOS'') (92 / 100) ''Apple push/activation service'')"

definition DNS_MICROSOFT :: "dns_rule list" where
  "DNS_MICROSOFT =
     either (Within ''windowsupdate.microsoft.com'') (Within ''update.microsoft.com'')
       (dns_result (Some ''Microsoft'') None (Some ''Windows'') (95 / 100) ''Windows Update server'') @
     doms [''msftncsi.com'', ''msftconnecttest.com'', ''windows.com'']
       (\<lambda>d. dns_result (Some ''Microsoft'') None (Some ''Windows'') (85 / 100) (''Windows connectivity: '' @ d)) @
     doms [''live.com'', ''outlook.com'', ''office.com'', ''onedrive.live.com'', ''microsoft.com'',
       ''microsoftonline.com'']
       (\<lambda>d. dns_result None None None (30 / 100) (''Microsoft service (cross-platform): '' @ d))"

definition DNS_GOOGLE :: "dns_rule list" where
  "DNS_GOOGLE =
     doms [''android.clients.google.com'', ''play.googleapis.com'', ''android.googleapis.com'', ''time.android.com'']
       (\<lambda>d. dns_result None None (Some ''Android'') (88 / 100) (''Android service: '' @ d)) @
     doms [''home.nest.com'', ''home.ft.nest.com'', ''device-provisioning.googleapis.com'']
       (\<lambda>d. dns_result (Some ''Google'') (Some ''smart_speaker'') None (85 / 100) ''Google Home/Nest service'') @
     [(Within ''connectivitycheck.gstatic.com'',
       dns_result None (Some ''computer'') None (40 / 100) ''Connectivity check (Android and Linux NetworkManager)'')] @
     map (\<lambda>(d, s). (Within d, ai_result (85 / 100) s ''cloud_api''))
       [(''generativelanguage.googleapis.com'', ''Google Gemini''),
        (''aiplatform.googleapis.com'', ''Google Vertex AI'')] @
     [(Within ''gemini.google.com'', ai_result (75 / 100) ''Google Gemini'' ''ai_saas'')] @
     either (Domain ''gstatic.com'') (Domain ''googleapis.com'')
       (dns_result None None None (20 / 100) ''Generic Google service (not device-specific)'') @
     doms [''mtalk.google.com'', ''alt1-mtalk.google.com'', ''dl.google.com'', ''clients3.google.com'',
       ''clients4.google.com'', ''clients.google.com'']
       (\<lambda>d. dns_result None None None (25 / 100) (''Generic Google service: '' @ d))"

definition DNS_LINUX :: "dns_rule list" where
  "DNS_LINUX =
     map (\<lambda>(t, distro, c). (Fits (Seq (re_star (Cls (\<lambda>x. x \<noteq> 10))) (re_str (lit t))),
       dns_result None None (Some (''Linux/'' @ distro)) c (distro @ '' update server'')))
     [(''.kali.org'', ''Kali Linux'', 95 / 100), (''kali.download'', ''Kali Linux'', 95 / 100),
      (''kali-linux-mirror'', ''Kali Linux'', 92 / 100), (''.parrotsec.org'', ''Parrot OS'', 95 / 100),
      (''.ubuntu.com'', ''Ubuntu'', 90 / 100), (''.debian.org'', ''Debian'', 90 / 100),
      (''.linuxmint.com'', ''Linux Mint'', 90 / 100), (''.pop-os.org'', ''Pop!_OS'', 90 / 100),
      (''.elementary.io'', ''elementary OS'', 90 / 100), (''.fedoraproject.org'', ''Fedora'', 90 / 100),
      (''.redhat.com'', ''Red Hat'', 85 / 100), (''.centos.org'', ''CentOS'', 90 / 100),
      (''.rockylinux.org'', ''Rocky Linux'', 90 / 100), (''.almalinux.org'', ''AlmaLinux'', 90 / 100),
      (''.archlinux.org'', ''Arch Linux'', 90 / 100), (''.manjaro.org'', ''Manjaro'', 90 / 100),
      (''.opensuse.org'', ''openSUSE'', 90 / 100), (''.gentoo.org'', ''Gentoo'', 90 / 100),
      (''.voidlinux.org'', ''Void Linux'', 90 / 100), (''.nixos.org'', ''NixOS'', 90 / 100),
      (''.raspberrypi.org'', ''Raspberry Pi OS'', 90 / 100),
      (''.raspberrypi.com'', ''Raspberry Pi OS'', 90 / 100)]"

definition DNS_IOT :: "dns_rule list" where
  "DNS_IOT =
     map (\<lambda>(d, m, ty, c). (Domain d, dns_result m ty None c (''IoT vendor domain: '' @ d)))
     [(''tuya.com'', Some ''Tuya'', Some ''iot'', 90 / 100),
      (''tuyacn.com'', Some ''Tuya'', Some ''iot'', 90 / 100),
      (''tuyaeu.com'', Some ''Tuya'', Some ''iot'', 90 / 100),
      (''tuyaus.com'', Some ''Tuya'', Some ''iot'', 90 / 100),
      (''xiaomi.com'', Some ''Xiaomi'', Some ''iot'', 85 / 100),
      (''mi.com'', Some ''Xiaomi'', Some ''iot'', 85 / 100),
      (''miui.com'', Some ''Xiaomi'', Some ''mobile'', 85 / 100),
      (''huawei.com'', Some ''Huawei'', Some ''iot'', 80 / 100),
      (''meizu.com'', Some ''Meizu'', Some ''iot'', 80 / 100),
      (''nest.com'', Some ''Google Nest'', Some ''iot'', 90 / 100),
      (''nestlabs.com'', Some ''Google Nest'', Some ''iot'', 90 / 100),
      (''ring.com'', Some ''Amazon Ring'', Some ''iot'', 90 / 100),
      (''wyze.com'', Some ''Wyze'', Some ''iot'', 90 / 100),
      (''arlo.com'', Some ''Arlo'', Some ''camera'', 90 / 100),
      (''netgear.com'', Some ''Netgear'', None, 75 / 100), (''tp-link.com'', Some ''TP-Link'', None, 75 / 100),
      (''dlink.com'', Some ''D-Link'', None, 75 / 100),
      (''belkin.com'', Some ''Belkin'', Some ''iot'', 75 / 100),
      (''wemo.com'', Some ''Belkin WeMo'', Some ''smart_plug'', 90 / 100),
      (''lifx.com'', Some ''LIFX'', Some ''smart_lighting'', 90 / 100),
      (''philips-hue.com'', Some ''Philips'', Some ''smart_lighting'', 90 / 100),
      (''meethue.com'', Some ''Philips Hue'', Some ''smart_lighting'', 90 / 100),
      (''ecobee.com'', Some ''ecobee'', Some ''thermostat'', 90 / 100),
      (''honeywell.com'', Some ''Honeywell'', Some ''iot'', 70 / 100),
      (''august.com'', Some ''August'', Some ''smart_lock'', 90 / 100),
      (''smartthings.com'', Some ''Samsung SmartThings'', Some ''home_hub'', 90 / 100),
      (''wink.com'', Some ''Wink'', Some ''home_hub'', 90 / 100),
      (''axis.com'', Some ''Axis'', Some ''camera'', 85 / 100),
      (''hikvision.com'', Some ''Hikvision'', Some ''camera'', 90 / 100),
      (''dahua.com'', Some ''Dahua'', Some ''camera'', 90 / 100),
      (''ubnt.com'', Some ''Ubiquiti'', Some ''camera'', 80 / 100),
      (''ubiquiti.com'', Some ''Ubiquiti'', Some ''camera'', 80 / 100),
      (''samsungcloud.tv'', Some ''Samsung'', Some ''smart_tv'', 90 / 100),
      (''samsungcloudsolution.com'', Some ''Samsung'', Some ''smart_tv'', 85 / 100),
      (''lgtvsdp.com'', Some ''LG'', Some ''smart_tv'', 90 / 100),
      (''lge.com'', Some ''LG'', Some ''smart_tv'', 85 / 100),
      (''vizio.com'', Some ''Vizio'', Some ''smart_tv'', 90 / 100),
      (''roku.com'', Some ''Roku'', Some ''streaming_device'', 90 / 100),
      (''netflix.com'', None, Some ''streaming_device'', 60 / 100),
      (''playstation.net'', Some ''Sony'', Some ''game_console'', 95 / 100),
      (''playstation.com'', Some ''Sony'', Some ''game_console'', 90 / 100),
      (''xbox.com'', Some ''Microsoft'', Some ''game_console'', 90 / 100),
      (''xboxlive.com'', Some ''Microsoft'', Some ''game_console'', 95 / 100),
      (''nintendo.net'', Some ''Nintendo'', Some ''game_console'', 90 / 100),
      (''nintendowifi.net'', Some ''Nintendo'', Some ''game_console'', 95 / 100)]"

definition DNS_CONTAINERS :: "dns_rule list" where
  "DNS_CONTAINERS =
     doms [''docker.internal'', ''host.docker.internal'', ''containers.internal'', ''gateway.docker.internal'']
       (\<lambda>d.
       dns_result (Some ''Docker'') (Some ''container'') (Some ''Linux'') (95 / 100) (''Docker container DNS: '' @ d)) @
     either (Domain ''docker.io'') (Domain ''docker.com'')
       (dns_result (Some ''Docker'') (Some ''container_host'') (Some ''Linux'') (85 / 100) ''Docker registry/hub access'') @
     doms [''.cluster.local'', ''.svc.cluster.local'', ''.default.svc'', ''.kube-system.svc'']
       (\<lambda>d.
       dns_result (Some ''Kubernetes'') (Some ''container'') (Some ''Linux'') (95 / 100) (''Kubernetes cluster DNS: '' @ d)) @
     doms [''k8s.io'', ''kubernetes.io'', ''k8s.gcr.io'', ''registry.k8s.io'',
       ''storage.googleapis.com/kubernetes-release'']
       (\<lambda>d.
       dns_result (Some ''Kubernetes'') (Some ''kubernetes_node'') (Some ''Linux'') (85 / 100) (''Kubernetes API/registry: '' @ d))"

definition DNS_VIRTUAL :: "dns_rule list" where
  "DNS_VIRTUAL =
     either (Domain ''proxmox.com'') (Suffix ''.pve'')
       (dns_result (Some ''Proxmox'') (Some ''hypervisor'') (Some ''Linux/Debian'') (90 / 100) ''Proxmox VE platform'') @
     doms [''vmware.com'', ''vsphere.local'', ''vcsa.local'', ''vmwareidentity.com'', ''vmwarehorizon.com'']
       (\<lambda>d.
       dns_result (Some ''VMware'') (Some ''hypervisor'') (Some ''ESXi'') (85 / 100) (''VMware infrastructure: '' @ d)) @
     doms [''citrix.com'', ''xenserver.org'', ''xenproject.org'', ''cloud.com'', ''netsvc.net'']
       (\<lambda>d.
       dns_result (Some ''Citrix'') (Some ''hypervisor'') (Some ''XenServer'') (85 / 100) (''Citrix infrastructure: '' @ d)) @
     doms [''hyperv.local'', ''azurestack.local'']
       (\<lambda>d.
       dns_result (Some ''Microsoft'') (Some ''hyper_v'') (Some ''Windows Server'') (90 / 100) (''Microsoft Hyper-V: '' @ d)) @
     either (Within ''nutanix.com'') (Suffix ''.nutanix'')
       (dns_result (Some ''Nutanix'') (Some ''hypervisor'') (Some ''AHV'') (90 / 100) ''Nutanix AHV platform'') @
     doms [''ovirt.org'', ''rhev.local'']
       (\<lambda>d.
       dns_result (Some ''Red Hat'') (Some ''kvm_host'') (Some ''Linux/RHEL'') (85 / 100) (''oVirt/RHV infrastructure: '' @ d)) @
     either (Suffix ''.consul'') (Within ''consul.io'')
       (dns_result (Some ''HashiCorp'') (Some ''container_host'') (Some ''Linux'') (85 / 100) ''HashiCorp Consul service mesh'')"

definition DNS_SERVICES :: "dns_rule list" where
  "DNS_SERVICES =
     map (\<lambda>(d, m, ty). (Domain d,
       dns_result (Some m) (Some ty) (Some ''Linux'') (80 / 100) (''Container registry: '' @ d)))
       [(''quay.io'', ''Red Hat'', ''container_host''), (''gcr.io'', ''Google'', ''container_host''),
        (''ghcr.io'', ''GitHub'', ''container_host''),
        (''registry.hub.docker.com'', ''Docker'', ''container_host''),
        (''azurecr.io'', ''Microsoft'', ''container_host''), (''ecr.aws'', ''Amazon'', ''container_host'')] @
     map (\<lambda>r. (Fits r, dns_result None (Some ''embedded'') (Some ''Linux/Embedded'') (60 / 100)
         ''NTP time sync (common in embedded/IoT devices)'')) NTP_PATTERNS @
     either (Within ''ocsp'') (Within ''crl'') (dns_result None None None (30 / 100) ''Certificate validation (OCSP/CRL)'') @
     [(Within ''inference.ai.cloudflare.com'', ai_result (85 / 100) ''Cloudflare Workers AI'' ''cloud_api'')]"

definition DNS_CLOUD :: "dns_rule list" where
  "DNS_CLOUD =
     map (\<lambda>(d, m, c). (Domain d, dns_result m None None c (''CDN/cloud storage: '' @ d)))
       [(''cloudfront.net'', Some ''Amazon'', 40 / 100), (''s3.amazonaws.com'', Some ''Amazon'', 45 / 100),
        (''akamaiedge.net'', None, 30 / 100), (''cloudflare.com'', None, 30 / 100),
        (''fastly.net'', None, 30 / 100)] @
     map (\<lambda>(d, m, ty, os, c, n). (Domain d, dns_result m ty os c (''Cloud provider: '' @ n)))
       [(''amazonaws.com'', Some ''Amazon'', None, Some ''Linux'', 70 / 100, ''AWS cloud service''),
        (''ec2.internal'', Some ''Amazon'', Some ''server'', Some ''Linux'', 90 / 100, ''AWS EC2 instance''),
        (''azure-devices.net'', Some ''Microsoft'', Some ''iot'', None, 85 / 100, ''Azure IoT Hub''),
        (''metadata.google.internal'', Some ''Google'', Some ''server'', Some ''Linux'', 90 / 100, ''GCP metadata service''),
        (''digitaloceanspaces.com'', Some ''DigitalOcean'', None, None, 75 / 100, ''DigitalOcean Spaces''),
        (''hetzner.cloud'', Some ''Hetzner'', Some ''server'', Some ''Linux'', 85 / 100, ''Hetzner Cloud'')] @
     map (\<lambda>d. (Domain d, dns_result
         (if contains_sub ''apple'' d then Some ''Apple'' else if contains_sub ''android'' d then None
          else if contains_sub ''firefox'' d then Some ''Mozilla'' else None) None
         (if contains_sub ''apple'' d then Some ''iOS/macOS'' else if contains_sub ''android'' d then Some ''Android'' else None)
         (85 / 100) ''Captive portal detection''))
       [''captive.apple.com'', ''connectivitycheck.android.com'', ''detectportal.firefox.com''] @
     [(Suffix ''.local'', dns_result None None None (50 / 100) ''mDNS-capable device (.local domain)'')]"

definition DNS_VENDORS :: "dns_rule list" where
  "DNS_VENDORS =
     doms [''router.asus.com'', ''routerlogin.net'', ''tplinkwifi.net'', ''dlinkrouter.local'', ''myrouter.local'']
       (\<lambda>d. dns_result None (Some ''router'') None (80 / 100) (''Router admin domain: '' @ d)) @
     map (\<lambda>(d, m, ty, c). (Domain d, dns_result (Some m) (Some ty) None c (''Printer vendor domain: '' @ d)))
       [(''hp.com'', ''HP'', ''printer'', 70 / 100),
        (''hpconnectedsolutions.com'', ''HP'', ''printer'', 85 / 100),
        (''canon.com'', ''Canon'', ''printer'', 70 / 100), (''epson.com'', ''Epson'', ''printer'', 70 / 100),
        (''brother.com'', ''Brother'', ''printer'', 70 / 100),
        (''xerox.com'', ''Xerox'', ''printer'', 80 / 100), (''lexmark.com'', ''Lexmark'', ''printer'', 85 / 100)] @
     map (\<lambda>(d, m, ty, c). (Domain d, dns_result (Some m) (Some ty) None c (''Automotive telematics: '' @ d)))
       [(''tesla.com'', ''Tesla'', ''automotive'', 85 / 100),
        (''teslamotors.com'', ''Tesla'', ''automotive'', 85 / 100),
        (''mbusa.com'', ''Mercedes-Benz'', ''automotive'', 80 / 100),
        (''bmw.com'', ''BMW'', ''automotive'', 75 / 100),
        (''toyota.com'', ''Toyota'', ''automotive'', 70 / 100),
        (''onstar.com'', ''GM OnStar'', ''automotive'', 90 / 100)]"

definition DNS_AI :: "dns_rule list" where
  "DNS_AI =
     map (\<lambda>(d, s). (Domain d, ai_result (85 / 100) s ''cloud_api''))
       [(''api.openai.com'', ''OpenAI (GPT/ChatGPT)''), (''api.anthropic.com'', ''Anthropic (Claude)''),
        (''api.groq.com'', ''Groq''), (''api.together.xyz'', ''Together AI''),
        (''api.fireworks.ai'', ''Fireworks AI''), (''api.replicate.com'', ''Replicate''),
        (''api.cohere.com'', ''Cohere''), (''api.mistral.ai'', ''Mistral AI''),
        (''api-inference.huggingface.co'', ''Hugging Face Inference''),
        (''api.perplexity.ai'', ''Perplexity AI''), (''api.deepseek.com'', ''DeepSeek''),
        (''api.x.ai'', ''xAI (Grok)''), (''api.stability.ai'', ''Stability AI''),
        (''api.elevenlabs.io'', ''ElevenLabs (Voice AI)''), (''api.runpod.io'', ''RunPod (GPU Cloud)''),
        (''api.databricks.com'', ''Databricks Model Serving''), (''api.deepinfra.com'', ''DeepInfra''),
        (''api.anyscale.com'', ''Anyscale Endpoints''), (''api.sambanova.ai'', ''SambaNova''),
        (''api.cerebras.ai'', ''Cerebras'')] @
     [(Suffix ''.openai.azure.com'', ai_result (85 / 100) ''Azure OpenAI'' ''cloud_api''),
      (Both (Within ''bedrock-runtime'') (Within ''amazonaws.com''), ai_result (85 / 100) ''AWS Bedrock'' ''cloud_api''),
      (Suffix ''.modal.run'', ai_result (80 / 100) ''Modal'' ''cloud_api'')] @
     map (\<lambda>(d, s). (Domain d, ai_result (75 / 100) s ''ai_saas''))
       [(''chat.openai.com'', ''ChatGPT''), (''chatgpt.com'', ''ChatGPT''), (''claude.ai'', ''Claude''),
        (''copilot.microsoft.com'', ''Microsoft Copilot''), (''copilot.github.com'', ''GitHub Copilot'')]"


definition DNS_RULES :: "dns_rule list" where
  "DNS_RULES = DNS_APPLE @ DNS_MICROSOFT @ DNS_GOOGLE @ DNS_LINUX @ DNS_IOT @ DNS_CONTAINERS @ DNS_VIRTUAL @
     DNS_SERVICES @ DNS_CLOUD @ DNS_VENDORS @ DNS_AI"

text \<open>The query type is not used.\<close>

definition match_dns_query :: "ustr \<Rightarrow> dict option" where
  "match_dns_query query_name = (if query_name = [] then None else first_answer (lower query_name) DNS_RULES)"

end
