(* ===== verification/DnsMatchingProps.thy ===== *)
theory DnsMatchingProps
  imports DnsMatching
begin

text \<open>
  The cascade of \<open>DnsMatching\<close>: which of its rules can never answer, and that the names of
  Kubernetes clusters are not recognised.
\<close>

section \<open>Shadowed rules\<close>

text \<open>\<open>covers a b\<close>: every name for which \<open>b\<close> holds satisfies \<open>a\<close>.\<close>

fun covers :: "dns_test \<Rightarrow> dns_test \<Rightarrow> bool" where
  "covers (Domain a) (Domain b) = (b = a \<or> ends_with (CHR ''.'' # a) b)"
| "covers (Suffix a) (Domain b) = ends_with a b"
| "covers (Within a) (Domain b) = contains_sub a b"
| "covers _ _ = False"

lemma ends_with_iff: "ends_with p t \<longleftrightarrow> (\<exists>s. t = s @ p)"
proof
  assume "ends_with p t"
  then obtain s where "rev t = rev p @ s" by (auto simp: ends_with_def starts_with_iff)
  then have "t = rev s @ p" by (metis rev_append rev_rev_ident)
  then show "\<exists>s. t = s @ p" by blast
qed (auto simp: ends_with_def)

lemma lit_append: "lit (a @ b) = lit a @ lit b"
  by (simp add: lit_def)

lemma lit_Nil: "lit [] = []"
  by (simp add: lit_def)

lemma lit_Cons: "lit (c # t) = of_char c # lit t"
  by (simp add: lit_def)

lemmas lit_simps = lit_append lit_Nil lit_Cons

lemma starts_with_lit: "starts_with (lit p) (lit t) = starts_with p t"
  by (induction p t rule: starts_with.induct) (auto simp: lit_simps)

lemma domain_matches_iff: "domain_matches q d \<longleftrightarrow> q = d \<or> (\<exists>s. q = s @ 46 # d)"
  by (auto simp: domain_matches_def ends_with_iff)

lemma covers_sound: "covers a b \<Longrightarrow> holds b q \<Longrightarrow> holds a q"
proof (induction a b rule: covers.induct)
  case (1 a b)
  then show ?case by (auto simp: domain_matches_iff ends_with_iff lit_simps)
next
  case (2 a b)
  then show ?case by (auto simp: domain_matches_iff ends_with_iff lit_simps)
next
  case (3 a b)
  then show ?case by (auto simp: domain_matches_iff contains_sub_iff lit_simps) (metis append_Cons append_assoc)+
qed auto

text \<open>Every test that \<open>dead\<close> drops is covered by a kept test before it; only the tests for which
  \<open>key\<close> holds are remembered as covers.\<close>

fun shadowed :: "(dns_test \<Rightarrow> bool) \<Rightarrow> (dns_test \<Rightarrow> bool) \<Rightarrow> dns_test list \<Rightarrow> dns_test list \<Rightarrow> bool" where
  "shadowed dead key seen [] = True"
| "shadowed dead key seen (t # ts) =
     (if dead t then list_ex (\<lambda>s. covers s t) seen \<and> shadowed dead key seen ts
      else shadowed dead key (if key t then t # seen else seen) ts)"

lemma first_answer_shadowed:
  assumes "shadowed dead key seen (map fst rs)" "\<forall>s \<in> set seen. \<not> holds s q"
  shows "first_answer q (filter (\<lambda>r. \<not> dead (fst r)) rs) = first_answer q rs"
  using assms
proof (induction rs arbitrary: seen)
  case (Cons r rs)
  obtain t a where r: "r = (t, a)" by (cases r)
  show ?case
  proof (cases "dead t")
    case True
    then obtain s where "s \<in> set seen" "covers s t" using Cons.prems r by (auto simp: list_ex_iff)
    then have "\<not> holds t q" using covers_sound Cons.prems(2) by blast
    then show ?thesis using Cons.IH [of seen] Cons.prems True r by simp
  next
    case False
    then show ?thesis
      using Cons.IH [of "if key t then t # seen else seen"] Cons.prems r by (cases "holds t q") auto
  qed
qed simp

lemma map_fst_doms: "map fst (doms ds f) = map Domain ds"
  by (simp add: doms_def)

lemma map_fst_either: "map fst (either a b r) = [a, b]"
  by (simp add: either_def)

lemmas dns_sections = DNS_RULES_def DNS_APPLE_def DNS_MICROSOFT_def DNS_GOOGLE_def DNS_LINUX_def DNS_IOT_def
  DNS_CONTAINERS_def DNS_VIRTUAL_def DNS_SERVICES_def DNS_CLOUD_def DNS_VENDORS_def DNS_AI_def

lemmas dns_tests = map_append map_fst_doms map_fst_either map_map comp_def split_beta fst_conv list.map

definition DEAD_DOMAINS :: "string list" where
  "DEAD_DOMAINS = [''itunes.apple.com'', ''push.apple.com'', ''gs.apple.com'', ''p-push-ssl.apple.com'',
     ''courier.push.apple.com'', ''albert.apple.com'', ''setup.icloud.com'', ''swscan.apple.com'',
     ''onedrive.live.com'', ''host.docker.internal'', ''gateway.docker.internal'', ''registry.k8s.io'',
     ''registry.hub.docker.com'', ''captive.apple.com'', ''dlinkrouter.local'', ''myrouter.local'',
     ''copilot.microsoft.com'']"

definition dead_rule :: "dns_test \<Rightarrow> bool" where
  "dead_rule t = (case t of Domain d \<Rightarrow> d \<in> set DEAD_DOMAINS | _ \<Rightarrow> False)"

definition COVERS :: "string list" where
  "COVERS = [''apple.com'', ''icloud.com'', ''live.com'', ''microsoft.com'', ''docker.internal'', ''docker.com'', ''k8s.io'']"

definition cover_rule :: "dns_test \<Rightarrow> bool" where
  "cover_rule t = (case t of Domain d \<Rightarrow> d \<in> set COVERS | Suffix d \<Rightarrow> d = ''.local'' | _ \<Rightarrow> False)"

lemma DNS_RULES_shadowed: "shadowed dead_rule cover_rule [] (map fst DNS_RULES)"
  unfolding dns_sections dns_tests by code_simp

text \<open>Seventeen domains of the cascade never answer, because an earlier rule of the cascade covers
  each of them: it gives the same answers without their rules.  Among them are the captive portal of
  Apple, the router addresses under \<open>.local\<close> and Microsoft Copilot.\<close>

theorem dns_rules_shadowed:
  "match_dns_query q =
     (if q = [] then None else first_answer (lower q) (filter (\<lambda>r. \<not> dead_rule (fst r)) DNS_RULES))"
  unfolding match_dns_query_def
  using first_answer_shadowed [OF DNS_RULES_shadowed, of "lower q"] by simp

section \<open>Kubernetes clusters\<close>

definition cluster_note :: "dict \<Rightarrow> bool" where
  "cluster_note a \<longleftrightarrow> (case dict_get a ''note'' of Some (PStr t) \<Rightarrow> starts_with (lit ''Kubernetes cluster DNS'') t | _ \<Rightarrow> False)"

text \<open>Only the four dotted domains answer with that note.\<close>

definition dotted_domain :: "dns_test \<Rightarrow> bool" where
  "dotted_domain t = (case t of Domain d \<Rightarrow> starts_with ''.'' d | _ \<Rightarrow> False)"

lemma cluster_note_result:
  "cluster_note (dns_result m d os c note) = starts_with ''Kubernetes cluster DNS'' note"
  by (simp add: cluster_note_def dns_result_def starts_with_lit del: starts_with.simps)

lemma cluster_note_ai: "\<not> cluster_note (ai_result c s k)"
  by (simp add: cluster_note_def ai_result_def dns_result_def lit_def)

lemma cluster_rules: "r \<in> set DNS_RULES \<Longrightarrow> cluster_note (snd r) \<Longrightarrow> dotted_domain (fst r)"
  unfolding dns_sections doms_def either_def set_append list.set set_map
  by (elim UnE imageE insertE emptyE; auto simp: cluster_note_result cluster_note_ai dotted_domain_def)

lemma first_answer_rule: "first_answer q rs = Some a \<Longrightarrow> \<exists>t. (t, a) \<in> set rs \<and> holds t q"
  by (induction q rs rule: first_answer.induct) (auto split: if_splits)

lemma dotted_domain_not_matched:
  assumes "dotted_domain t" "\<not> starts_with (lit ''.'') q" "\<not> contains_sub (lit ''..'') q"
  shows "\<not> holds t q"
proof (cases t)
  case (Domain d)
  then obtain d' where d: "d = CHR ''.'' # d'" using assms(1) by (auto simp: dotted_domain_def starts_with_iff)
  show ?thesis
  proof
    assume "holds t q"
    then consider "q = 46 # lit d'" | s where "q = s @ 46 # 46 # lit d'"
      by (auto simp: Domain d domain_matches_iff lit_simps)
    then show False
      using assms(2,3) by cases (auto simp: lit_simps contains_sub_iff starts_with_iff)
  qed
qed (use assms(1) in \<open>auto simp: dotted_domain_def\<close>)

lemma starts_with_map:
  "\<forall>c \<in> set p. \<forall>x. (c = f x) = (c = x) \<Longrightarrow> starts_with p (map f q) = starts_with p q"
  by (induction p q rule: starts_with.induct) auto

lemma contains_sub_map:
  assumes "\<forall>c \<in> set p. \<forall>x. (c = f x) = (c = x)" shows "contains_sub p (map f q) = contains_sub p q"
proof (induction q)
  case (Cons x q)
  show ?case using Cons starts_with_map [OF assms, of "x # q"] by simp
qed simp

lemma lower_dots: "starts_with (lit ''.'') (lower q) = starts_with (lit ''.'') q"
  "contains_sub (lit ''..'') (lower q) = contains_sub (lit ''..'') q"
proof -
  show "starts_with (lit ''.'') (lower q) = starts_with (lit ''.'') q"
    unfolding lower_def by (rule starts_with_map) (auto simp: lit_simps lower_char_def)
  show "contains_sub (lit ''..'') (lower q) = contains_sub (lit ''..'') q"
    unfolding lower_def by (rule contains_sub_map) (auto simp: lit_simps lower_char_def)
qed

text \<open>No well-formed name is recognised as the name of a Kubernetes cluster: the domains of those
  rules begin with a dot and the test puts another dot before them, so a name would need an empty label.\<close>

theorem cluster_names_unrecognised:
  assumes "\<not> starts_with (lit ''.'') q" "\<not> contains_sub (lit ''..'') q" "match_dns_query q = Some a"
  shows "\<not> cluster_note a"
proof
  assume "cluster_note a"
  moreover obtain t where "(t, a) \<in> set DNS_RULES" "holds t (lower q)"
    using assms(3) first_answer_rule by (auto simp: match_dns_query_def split: if_splits)
  ultimately show False
    using cluster_rules [of "(t, a)"] dotted_domain_not_matched [of t "lower q"] assms(1,2) by (simp add: lower_dots)
qed

lemma first_answer_append:
  "first_answer q (xs @ ys) = (case first_answer q xs of None \<Rightarrow> first_answer q ys | Some a \<Rightarrow> Some a)"
  by (induction q xs rule: first_answer.induct) auto

lemma first_answer_none: "list_all (\<lambda>t. \<not> holds t q) (map fst rs) \<Longrightarrow> first_answer q rs = None"
  by (induction rs) auto

lemma cluster_example:
  "list_all (\<lambda>t. \<not> holds t (lit ''a.cluster.local'')) (map fst (DNS_APPLE @ DNS_MICROSOFT @ DNS_GOOGLE @ DNS_LINUX @
     DNS_IOT @ DNS_CONTAINERS @ DNS_VIRTUAL @ DNS_SERVICES))"
  unfolding dns_sections dns_tests by code_simp

theorem cluster_names_unrecognised_witness:
  "\<not> cluster_note (dns_result None None None (50 / 100) ''mDNS-capable device (.local domain)'')"
proof (rule cluster_names_unrecognised)
  let ?q = "lit ''a.cluster.local''"
  have l: "lower ?q = ?q" by code_simp
  have "first_answer ?q DNS_CLOUD = Some (dns_result None None None (50 / 100) ''mDNS-capable device (.local domain)'')"
    by (simp add: DNS_CLOUD_def domain_matches_def ends_with_def lit_simps)
  moreover have "first_answer ?q DNS_RULES =
      (case None of None \<Rightarrow> first_answer ?q (DNS_CLOUD @ DNS_VENDORS @ DNS_AI) | Some a \<Rightarrow> Some a)"
    unfolding first_answer_none [OF cluster_example, symmetric] first_answer_append [symmetric]
    by (simp only: DNS_RULES_def append_assoc)
  ultimately have "first_answer ?q DNS_RULES = Some (dns_result None None None (50 / 100) ''mDNS-capable device (.local domain)'')"
    by (simp only: first_answer_append option.case)
  then show "match_dns_query ?q = Some (dns_result None None None (50 / 100) ''mDNS-capable device (.local domain)'')"
    using l by (simp add: match_dns_query_def lit_simps)
  show "\<not> starts_with (lit ''.'') ?q" by code_simp
  show "\<not> contains_sub (lit ''..'') ?q" by code_simp
qed

end
