(* ===== verification/Matching.thy ===== *)
theory Matching
  imports DnsMatching Identity
begin

text \<open>
  The other functions of \<open>patterns/matching.py\<close>.  The pattern files under \<open>patterns/data\<close> are
  data: a record of what \<open>loader.py\<close> and the loaders of this module read from them, with the regular
  expressions compiled (ignoring case) and the entries as dictionaries.  An answer is a dictionary, as in
  the code.
\<close>

section \<open>Pattern data\<close>

text \<open>An entry with its expression; None for an empty or missing one.\<close>

type_synonym entry = "re option \<times> dict"

record banner_entry =
  be_match :: "(ustr \<times> re) option"
  be_version :: "re option"
  be_info :: dict

record opt_entry =
  oe_device_type :: "ustr option"
  oe_os_family :: "ustr option"
  oe_manufacturer :: "ustr option"
  oe_confidence :: int

record pattern_data =
  pd_banners :: "(string \<times> banner_entry list) list"
  pd_ssdp :: "entry list"
  pd_upnp :: "(ustr \<times> pyval) list"
  pd_services :: "(ustr \<times> dict) list"
  pd_names :: "entry list"
  pd_opt55 :: "(ustr \<times> opt_entry) list"
  pd_opt60 :: "(re \<times> opt_entry) list"
  pd_oro :: "(ustr \<times> opt_entry) list"
  pd_enterprise :: "(ustr \<times> dict) list"
  pd_vendor_class :: "entry list"
  pd_ra :: "dict list"
  pd_hostname :: "entry list"

section \<open>Values\<close>

text \<open>\<open>d.get(k)\<close>, and the number it holds; comparisons of the code are on numbers.\<close>

definition dget :: "dict \<Rightarrow> string \<Rightarrow> pyval" where
  "dget d k = get_or d k PNone"

definition num_of :: "pyval \<Rightarrow> rat" where
  "num_of v = (case v of PInt i \<Rightarrow> of_int i | PFloat r \<Rightarrow> r | PBool b \<Rightarrow> (if b then 1 else 0) | _ \<Rightarrow> 0)"

text \<open>\<open>int(s)\<close>: blanks around, a sign, digits with single underscores between them.\<close>

fun dec_digits :: "bool \<Rightarrow> nat \<Rightarrow> ustr \<Rightarrow> nat option" where
  "dec_digits need acc [] = (if need then None else Some acc)"
| "dec_digits need acc (c # cs) =
     (if c = 95 then (if need then None else dec_digits True acc cs)
      else if is_digit c then dec_digits False (10 * acc + (c - 48)) cs else None)"

definition py_int10 :: "ustr \<Rightarrow> int option" where
  "py_int10 s = (case strip s of
     [] \<Rightarrow> None
   | c # cs \<Rightarrow>
       if c = 45 then map_option (\<lambda>n. - int n) (dec_digits True 0 cs)
       else if c = 43 then map_option int (dec_digits True 0 cs)
       else map_option int (dec_digits True 0 (c # cs)))"

text \<open>All results, or None when one fails: a comprehension whose expression may raise ValueError.\<close>

fun all_some :: "'a option list \<Rightarrow> 'a list option" where
  "all_some [] = Some []"
| "all_some (x # xs) = (case x of None \<Rightarrow> None | Some y \<Rightarrow> map_option ((#) y) (all_some xs))"

definition render_opts :: "int list \<Rightarrow> ustr" where
  "render_opts xs = join [44] (map str_int xs)"

definition parse_opts :: "ustr \<Rightarrow> int list option" where
  "parse_opts t = all_some (map py_int10 (filter (\<lambda>o'. strip o' \<noteq> []) (split_on 44 t)))"

section \<open>Banners\<close>

definition EXTENDED_PRIORITY :: "string list" where
  "EXTENDED_PRIORITY = [''cloud'', ''scada'', ''virtualization'', ''container'', ''security'', ''webapp'', ''database'',
     ''communication'', ''iot_http'']"

definition PROTOCOL_MAP :: "(ustr \<times> string) list" where
  "PROTOCOL_MAP = map (\<lambda>(k, c). (lit k, c))
    [(''ssh'', ''ssh''), (''ssh-2.0'', ''ssh''), (''http'', ''http''), (''https'', ''http''),
     (''http-proxy'', ''http''), (''smb'', ''smb''), (''microsoft-ds'', ''smb''), (''netbios-ssn'', ''smb''),
     (''ftp'', ''ftp''), (''smtp'', ''smtp''), (''smtps'', ''smtp''), (''submission'', ''smtp''),
     (''imap'', ''imap_pop''), (''imaps'', ''imap_pop''), (''pop3'', ''imap_pop''), (''pop3s'', ''imap_pop''),
     (''telnet'', ''telnet''), (''dns'', ''dns''), (''domain'', ''dns''), (''ldap'', ''ldap''),
     (''ldaps'', ''ldap''), (''snmp'', ''snmp''), (''rdp'', ''rdp_vnc''), (''ms-wbt-server'', ''rdp_vnc''),
     (''vnc'', ''rdp_vnc''), (''rfb'', ''rdp_vnc''), (''sip'', ''sip''), (''sips'', ''sip''),
     (''h323'', ''sip''), (''ntp'', ''ntp''), (''mqtt'', ''mqtt''), (''ipp'', ''printer''),
     (''jetdirect'', ''printer''), (''printer'', ''printer''), (''kerberos'', ''kerberos''),
     (''krb5'', ''kerberos''), (''kpasswd'', ''kerberos''), (''radius'', ''radius''), (''tacacs'', ''radius''),
     (''amqp'', ''message_queue''), (''stomp'', ''message_queue''), (''memcache'', ''cache''),
     (''memcached'', ''cache''), (''rtsp'', ''streaming''), (''rtmp'', ''streaming''), (''rtp'', ''streaming''),
     (''git'', ''vcs''), (''svn'', ''vcs''), (''hg'', ''vcs''), (''xmpp'', ''chat''), (''jabber'', ''chat''),
     (''irc'', ''chat''), (''stun'', ''webrtc''), (''turn'', ''webrtc''), (''modbus'', ''industrial''),
     (''dnp3'', ''industrial''), (''bacnet'', ''industrial''), (''opcua'', ''industrial''),
     (''coap'', ''iot_protocol''), (''lwm2m'', ''iot_protocol''), (''rsync'', ''file_sync''),
     (''grpc'', ''api''), (''graphql'', ''api'')]"

definition ALL_BASIC_CATEGORIES :: "string list" where
  "ALL_BASIC_CATEGORIES =
    [''ssh'', ''http'', ''smb'', ''ftp'', ''smtp'', ''imap_pop'', ''telnet'', ''dns'', ''ldap'', ''snmp'',
     ''rdp_vnc'', ''sip'', ''ntp'', ''mqtt'', ''printer'', ''gaming_media'', ''network'', ''storage'',
     ''backup'', ''kerberos'', ''radius'', ''message_queue'', ''cache'', ''streaming'', ''vcs'', ''chat'',
     ''webrtc'', ''industrial'', ''iot_protocol'', ''file_sync'', ''api'']"

definition PatternData0 :: pattern_data where
  "PatternData0 = \<lparr>pd_banners = [], pd_ssdp = [], pd_upnp = [], pd_services = [], pd_names = [], pd_opt55 = [],
     pd_opt60 = [], pd_oro = [], pd_enterprise = [], pd_vendor_class = [], pd_ra = [], pd_hostname = []\<rparr>"

text \<open>\<open>_match_extended\<close> and the loop over the basic patterns, which differ in one key of the answer.\<close>

definition found_version :: "ustr \<Rightarrow> banner_entry \<Rightarrow> pyval" where
  "found_version banner e = (case be_version e of None \<Rightarrow> PNone
     | Some r \<Rightarrow> (case re_search r banner of None \<Rightarrow> PNone | Some (i, m) \<Rightarrow> opt_str (group_of banner m 1)))"

fun banner_hit :: "bool \<Rightarrow> ustr \<Rightarrow> banner_entry list \<Rightarrow> dict option" where
  "banner_hit extended banner [] = None"
| "banner_hit extended banner (e # es) =
     (case be_match e of
        None \<Rightarrow> banner_hit extended banner es
      | Some (regex_str, r) \<Rightarrow>
          if re_search r banner = None then banner_hit extended banner es
          else Some
            ([(''product'', dget (be_info e) ''product''), (''vendor'', dget (be_info e) ''vendor''),
              (''os_family'', dget (be_info e) ''platform''), (''version'', found_version banner e),
              (''confidence'', get_or (be_info e) ''certainty'' (PInt 50))] @
             (if extended then [(''device_type'', dget (be_info e) ''device_type'')] else []) @
             [(''matched_pattern'', PStr regex_str)]))"

fun first_some :: "('a \<Rightarrow> 'b option) \<Rightarrow> 'a list \<Rightarrow> 'b option" where
  "first_some f [] = None"
| "first_some f (x # xs) = (case f x of None \<Rightarrow> first_some f xs | Some y \<Rightarrow> Some y)"

definition match_banner_extended :: "pattern_data \<Rightarrow> ustr \<Rightarrow> dict option" where
  "match_banner_extended pd banner =
     (if banner = [] then None
      else first_some (\<lambda>c. banner_hit True banner (get_or (pd_banners pd) c [])) EXTENDED_PRIORITY)"

definition match_banner :: "pattern_data \<Rightarrow> ustr \<Rightarrow> ustr \<Rightarrow> dict option" where
  "match_banner pd proto banner =
     (if banner = [] then None
      else case first_some (\<lambda>c. banner_hit True banner (get_or (pd_banners pd) c [])) EXTENDED_PRIORITY of
        Some a \<Rightarrow> Some a
      | None \<Rightarrow> banner_hit False banner
          (case dict_get PROTOCOL_MAP (lower proto) of
             Some c \<Rightarrow> get_or (pd_banners pd) c []
           | None \<Rightarrow> concat (map (\<lambda>c. get_or (pd_banners pd) c []) ALL_BASIC_CATEGORIES)))"

section \<open>SSDP\<close>

text \<open>\<open>m.group(n)\<close>, None also for a group the expression does not have.\<close>

definition match_group :: "ustr \<Rightarrow> nat \<times> mstate \<Rightarrow> nat \<Rightarrow> ustr option" where
  "match_group s m n = (if n = 0 then Some (slice (fst m) (fst (snd m)) s) else group_of s (snd m) n)"

fun match_ssdp_in :: "ustr \<Rightarrow> entry list \<Rightarrow> dict option" where
  "match_ssdp_in header [] = None"
| "match_ssdp_in header ((r, e) # es) =
     (case (case r of None \<Rightarrow> None | Some r \<Rightarrow> re_search r header) of
        None \<Rightarrow> match_ssdp_in header es
      | Some m \<Rightarrow> Some
          [(''os_family'', dget e ''os_family''),
           (''os_version'', case dget e ''os_version_group'' of PInt n \<Rightarrow> opt_str (match_group header m (nat n)) | _ \<Rightarrow> PNone),
           (''device_type'', dget e ''device_type''), (''manufacturer'', dget e ''manufacturer''),
           (''confidence'', dget e ''confidence''), (''match_source'', pstr ''ssdp_server'')])"

definition match_ssdp_server :: "pattern_data \<Rightarrow> ustr \<Rightarrow> dict option" where
  "match_ssdp_server pd header = (if header = [] then None else match_ssdp_in header (pd_ssdp pd))"

definition match_upnp_device_type :: "pattern_data \<Rightarrow> ustr \<Rightarrow> pyval option" where
  "match_upnp_device_type pd st =
     (if st = [] then None
      else case find (\<lambda>(p, info). starts_with p st) (pd_upnp pd) of
        None \<Rightarrow> None
      | Some (p, info) \<Rightarrow> Some (case info of PDict d \<Rightarrow> dget d ''category'' | _ \<Rightarrow> info))"

section \<open>mDNS\<close>

definition MDNS_SERVICE_DEVICE_MAP :: "(string \<times> dict) list" where
  "MDNS_SERVICE_DEVICE_MAP = map (\<lambda>(k, fs). (k, map (\<lambda>(f, x). (f, pstr x)) fs))
    [(''_googlecast._tcp'', [(''device_type'', ''smart_speaker''), (''category'', ''cast'')]),
     (''_airplay._tcp'', [(''device_type'', ''media_player''), (''manufacturer'', ''Apple''), (''category'', ''airplay'')]),
     (''_raop._tcp'', [(''device_type'', ''media_player''), (''manufacturer'', ''Apple''), (''category'', ''airplay'')]),
     (''_companion-link._tcp'', [(''device_type'', ''media_player''), (''manufacturer'', ''Apple'')]),
     (''_mediaremotetv._tcp'', [(''device_type'', ''smart_tv''), (''manufacturer'', ''Apple'')]),
     (''_hap._tcp'', [(''manufacturer'', ''Apple''), (''category'', ''homekit'')]),
     (''_homekit._tcp'', [(''manufacturer'', ''Apple''), (''category'', ''homekit'')]),
     (''_amzn-wplay._tcp'', [(''device_type'', ''smart_speaker''), (''manufacturer'', ''Amazon'')]),
     (''_spotify-connect._tcp'', [(''device_type'', ''media_device''), (''category'', ''audio'')]),
     (''_sonos._tcp'', [(''device_type'', ''smart_speaker''), (''manufacturer'', ''Sonos'')]),
     (''_roku._tcp'', [(''device_type'', ''streaming_device''), (''manufacturer'', ''Roku'')]),
     (''_hue._tcp'', [(''device_type'', ''smart_home''), (''manufacturer'', ''Philips'')]),
     (''_ipp._tcp'', [(''device_type'', ''printer'')]), (''_ipps._tcp'', [(''device_type'', ''printer'')]),
     (''_pdl-datastream._tcp'', [(''device_type'', ''printer'')]),
     (''_printer._tcp'', [(''device_type'', ''printer'')]),
     (''_scanner._tcp'', [(''device_type'', ''scanner'')]),
     (''_smb._tcp'', [(''device_type'', ''server''), (''category'', ''file_share'')]),
     (''_afpovertcp._tcp'', [(''device_type'', ''server''), (''manufacturer'', ''Apple''), (''category'', ''file_share'')]),
     (''_nfs._tcp'', [(''device_type'', ''server''), (''category'', ''file_share'')]),
     (''_readynas._tcp'', [(''device_type'', ''nas''), (''manufacturer'', ''Netgear'')]),
     (''_ssh._tcp'', [(''category'', ''remote_access'')]), (''_rfb._tcp'', [(''category'', ''vnc'')]),
     (''_teamviewer._tcp'', [(''category'', ''remote_access'')]),
     (''_androidtvremote._tcp'', [(''device_type'', ''smart_tv''), (''os_family'', ''Android'')]),
     (''_androidtvremote2._tcp'', [(''device_type'', ''smart_tv''), (''os_family'', ''Android'')]),
     (''_nvstream._tcp'', [(''device_type'', ''streaming_device''), (''manufacturer'', ''NVIDIA'')]),
     (''_smartthings._tcp'', [(''device_type'', ''smart_home''), (''manufacturer'', ''Samsung'')]),
     (''_http._tcp'', [(''category'', ''web_service'')]), (''_https._tcp'', [(''category'', ''web_service'')]),
     (''_axis-video._tcp'', [(''device_type'', ''camera''), (''manufacturer'', ''Axis'')]),
     (''_hass._tcp'', [(''device_type'', ''smart_home''), (''category'', ''home_assistant'')]),
     (''_mqtt._tcp'', [(''device_type'', ''iot''), (''category'', ''mqtt'')]),
     (''_googlezone._tcp'', [(''device_type'', ''smart_speaker''), (''manufacturer'', ''Google'')])]"

text \<open>\<open>match_mdns_service\<close>: the answer for the service, which the first name pattern that fits may
  replace when it is more certain.\<close>

definition clean_service :: "ustr \<Rightarrow> ustr" where
  "clean_service t = (let t = strip (lower t) in if ends_with (lit ''.local.'') t then take (length t - 7) t else t)"

definition service_answer :: "pattern_data \<Rightarrow> ustr \<Rightarrow> dict option" where
  "service_answer pd service =
     (case dict_get (pd_services pd) service of
        None \<Rightarrow> None
      | Some svc \<Rightarrow>
          if py_truthy (dget svc ''category'') \<or> py_truthy (dget svc ''vendor'') \<or> py_truthy (dget svc ''platform'')
          then Some [(''device_type'', dget svc ''category''), (''manufacturer'', dget svc ''vendor''),
                     (''os_family'', dget svc ''platform''), (''confidence'', get_or svc ''certainty'' (PInt 50)),
                     (''match_source'', pstr ''service_type'')]
          else None)"

definition entry_fits :: "ustr \<Rightarrow> entry \<Rightarrow> bool" where
  "entry_fits t e = (case fst e of None \<Rightarrow> False | Some r \<Rightarrow> re_search r t \<noteq> None)"

definition match_mdns_service :: "pattern_data \<Rightarrow> ustr \<Rightarrow> ustr option \<Rightarrow> dict option" where
  "match_mdns_service pd service_type name =
     (let result = service_answer pd (clean_service service_type)
      in if \<not> truthy name then result
         else case find (entry_fits (the name)) (pd_names pd) of
           None \<Rightarrow> result
         | Some (r, e) \<Rightarrow>
             let c = get_or e ''certainty'' (PInt 50)
             in if (case result of None \<Rightarrow> True | Some a \<Rightarrow> num_of (get_or a ''confidence'' (PInt 0)) < num_of c)
                then Some [(''device_type'', dget e ''category''), (''manufacturer'', dget e ''vendor''),
                           (''os_family'', dget e ''platform''), (''confidence'', c),
                           (''match_source'', pstr ''name_pattern'')]
                else result)"

section \<open>DHCPv4\<close>

definition MOBILE_DEVICE_TYPES :: "ustr list" where
  "MOBILE_DEVICE_TYPES = map lit [''phone'', ''mobile'', ''tablet'']"

definition MIN_SUBSET_OPT_COUNT :: nat where
  "MIN_SUBSET_OPT_COUNT = 6"

definition opt_answer :: "opt_entry \<Rightarrow> int \<Rightarrow> string \<Rightarrow> dict" where
  "opt_answer e c source =
     [(''device_type'', opt_str (oe_device_type e)), (''os_family'', opt_str (oe_os_family e)),
      (''manufacturer'', opt_str (oe_manufacturer e)), (''confidence'', PInt c), (''match_source'', pstr source)]"

definition key_opts :: "ustr \<Rightarrow> int list option" where
  "key_opts key = all_some (map py_int10 (split_on 44 key))"

text \<open>\<open>_load_dhcp_patterns\<close>: each list of options is also entered with its options in order.\<close>

definition load_opt55 :: "(ustr \<times> opt_entry) list \<Rightarrow> (ustr \<times> opt_entry) list" where
  "load_opt55 raw = foldl (\<lambda>d (key, e).
     let d = dict_set d key e
     in case key_opts key of
          None \<Rightarrow> d
        | Some xs \<Rightarrow>
            let sorted_key = render_opts (sort xs)
            in if sorted_key \<noteq> key \<and> dict_get d sorted_key = None then dict_set d sorted_key e else d) [] raw"

definition subset_eligible :: "int list \<Rightarrow> nat \<Rightarrow> ustr \<Rightarrow> opt_entry \<Rightarrow> bool" where
  "subset_eligible input best key e \<longleftrightarrow>
     (case oe_device_type e of None \<Rightarrow> True | Some ty \<Rightarrow> ty \<notin> set MOBILE_DEVICE_TYPES) \<and>
     (case key_opts key of None \<Rightarrow> False | Some xs \<Rightarrow>
        let n = length (remdups xs)
        in n \<ge> MIN_SUBSET_OPT_COUNT \<and> n > best \<and> set xs \<subseteq> set input \<and> set xs \<noteq> set input)"

definition subset_penalty :: "int list \<Rightarrow> nat \<Rightarrow> int" where
  "subset_penalty input n =
     (let m = length (remdups input) in \<lfloor>15 + 10 * ((of_nat m - of_nat n) / of_nat m :: rat)\<rfloor>)"

definition subset_step :: "int list \<Rightarrow> dict option \<times> nat \<Rightarrow> ustr \<times> opt_entry \<Rightarrow> dict option \<times> nat" where
  "subset_step input acc ke =
     (let (best, size) = acc; (key, e) = ke
      in if \<not> subset_eligible input size key e then acc
         else let n = length (remdups (the (key_opts key)))
              in (Some (opt_answer e (max (oe_confidence e - subset_penalty input n) 20) ''dhcp_opt55_partial''), n))"

definition match_dhcp_opt55 :: "pattern_data \<Rightarrow> ustr \<Rightarrow> dict option" where
  "match_dhcp_opt55 pd options =
     (if options = [] then None
      else
        let opt55 = load_opt55 (pd_opt55 pd);
            opts = parse_opts options;
            normalized = (case opts of None \<Rightarrow> options | Some xs \<Rightarrow> render_opts (sort xs))
        in case first_some (dict_get opt55) [normalized, options] of
             Some e \<Rightarrow> Some (opt_answer e (oe_confidence e) ''dhcp_opt55_exact'')
           | None \<Rightarrow>
               (case opts of None \<Rightarrow> None
                | Some xs \<Rightarrow> fst (foldl (subset_step xs) (None, 0) opt55)))"

definition match_dhcp_opt60 :: "pattern_data \<Rightarrow> ustr \<Rightarrow> dict option" where
  "match_dhcp_opt60 pd vendor_class =
     (if vendor_class = [] then None
      else case find (\<lambda>(r, e). re_match r vendor_class \<noteq> None) (pd_opt60 pd) of
        None \<Rightarrow> None
      | Some (r, e) \<Rightarrow> Some
          [(''device_type'', opt_str (oe_device_type e)), (''manufacturer'', opt_str (oe_manufacturer e)),
           (''os_family'', opt_str (oe_os_family e)), (''confidence'', PInt (oe_confidence e)),
           (''match_source'', pstr ''dhcp_opt60'')])"

text \<open>\<open>get_dhcp_fingerprint_hash\<close> without the digest: the text that is hashed.\<close>

definition fingerprint_text :: "ustr \<Rightarrow> ustr" where
  "fingerprint_text options = (case parse_opts options of None \<Rightarrow> options | Some xs \<Rightarrow> render_opts (sort xs))"

section \<open>DHCPv6\<close>

definition oro_step :: "ustr list \<Rightarrow> dict option \<times> nat \<Rightarrow> ustr \<times> opt_entry \<Rightarrow> dict option \<times> nat" where
  "oro_step input acc ke =
     (let (best, size) = acc; (key, e) = ke; ks = remdups (split_on 44 key)
      in if set ks \<subseteq> set input \<and> length ks > size
         then (Some (opt_answer e (max (oe_confidence e - 20) 10) ''dhcpv6_oro_subset''), length ks) else acc)"

definition match_dhcpv6_oro :: "pattern_data \<Rightarrow> ustr \<Rightarrow> dict option" where
  "match_dhcpv6_oro pd oro =
     (if oro = [] then None
      else
        let normalized = (case parse_opts oro of None \<Rightarrow> oro | Some xs \<Rightarrow> render_opts (sort xs))
        in case first_some (dict_get (pd_oro pd)) [normalized, oro] of
             Some e \<Rightarrow> Some (opt_answer e (oe_confidence e) ''dhcpv6_oro_exact'')
           | None \<Rightarrow> fst (foldl (oro_step (split_on 44 normalized)) (None, 0) (pd_oro pd)))"

definition match_dhcpv6_enterprise :: "pattern_data \<Rightarrow> int \<Rightarrow> dict option" where
  "match_dhcpv6_enterprise pd i =
     (case dict_get (pd_enterprise pd) (str_int i) of
        None \<Rightarrow> None
      | Some e \<Rightarrow> if e = [] then None
          else Some [(''manufacturer'', dget e ''manufacturer''), (''device_types'', dget e ''device_types''),
                     (''match_source'', pstr ''dhcpv6_enterprise_id'')])"

text \<open>A literal under IGNORECASE; four letters outside ASCII fold to \<open>i\<close>, \<open>s\<close> and \<open>k\<close>.\<close>

definition chr_ci :: "nat \<Rightarrow> nat \<Rightarrow> bool" where
  "chr_ci k c \<longleftrightarrow> lower_char c = lower_char k \<or>
     (lower_char k = 105 \<and> (c = 0x130 \<or> c = 0x131)) \<or> (lower_char k = 115 \<and> c = 0x17F) \<or>
     (lower_char k = 107 \<and> c = 0x212A)"

fun re_ci :: "ustr \<Rightarrow> re" where
  "re_ci [] = Eps"
| "re_ci [c] = Cls (chr_ci c)"
| "re_ci (c # cs) = Seq (Cls (chr_ci c)) (re_ci cs)"

fun re_alts :: "re list \<Rightarrow> re" where
  "re_alts [] = Cls (\<lambda>c. False)"
| "re_alts [r] = r"
| "re_alts (r # rs) = Alt r (re_alts rs)"

definition VC_PATTERNS :: "(re \<times> string \<times> string option \<times> string option \<times> int) list" where
  "VC_PATTERNS =
    [(re_seq [Bol, re_ci (lit ''MSFT''), re_plus (Cls is_space), Cls is_digit], ''workstation'', Some ''Microsoft'', Some ''Windows'', 90),
     (Seq Bol (re_ci (lit ''dhcpcd'')), ''workstation'', None, Some ''Linux'', 75),
     (Seq Bol (re_ci (lit ''udhcp'')), ''router'', None, Some ''Linux (Embedded)'', 70),
     (re_seq [Bol, re_ci (lit ''Cisco''), Cls is_space], ''network'', Some ''Cisco'', Some ''IOS'', 90),
     (Seq Bol (re_ci (lit ''Juniper'')), ''router'', Some ''Juniper'', Some ''JunOS'', 90),
     (Seq Bol (re_ci (lit ''Fortinet'')), ''firewall'', Some ''Fortinet'', Some ''FortiOS'', 90),
     (Seq Bol (re_ci (lit ''MikroTik'')), ''router'', Some ''MikroTik'', Some ''RouterOS'', 90),
     (Seq Bol (re_ci (lit ''Aruba'')), ''access_point'', Some ''Aruba'', Some ''ArubaOS'', 90),
     (Seq Bol (Grp 1 (Alt (re_ci (lit ''ubnt'')) (re_ci (lit ''UniFi'')))), ''access_point'', Some ''Ubiquiti'', None, 85),
     (Seq Bol (re_ci (lit ''AAPLBSDPC/'')), ''workstation'', Some ''Apple'', Some ''macOS'', 90),
     (Seq Bol (re_ci (lit ''android-dhcp'')), ''mobile'', None, Some ''Android'', 85),
     (Seq Bol (re_ci (lit ''VMware'')), ''virtual_machine'', Some ''VMware'', None, 85),
     (re_seq [Bol, re_ci (lit ''HP''), re_plus (Cls is_space),
        Grp 1 (re_alts [re_ci (lit ''LaserJet''), re_ci (lit ''OfficeJet''), re_ci (lit ''DeskJet'')])],
        ''printer'', Some ''HP'', None, 95),
     (Seq Bol (re_ci (lit ''EPSON'')), ''printer'', Some ''Epson'', None, 95),
     (Seq Bol (re_ci (lit ''Canon'')), ''printer'', Some ''Canon'', None, 90),
     (Seq Bol (re_ci (lit ''Brother'')), ''printer'', Some ''Brother'', None, 90),
     (Seq Bol (re_ci (lit ''XEROX'')), ''printer'', Some ''Xerox'', None, 90),
     (Seq Bol (re_ci (lit ''Polycom'')), ''voip_phone'', Some ''Polycom'', None, 90),
     (Seq Bol (re_ci (lit ''Yealink'')), ''voip_phone'', Some ''Yealink'', None, 90),
     (Seq Bol (re_ci (lit ''Synology'')), ''nas'', Some ''Synology'', Some ''DSM'', 90),
     (Seq Bol (re_ci (lit ''QNAP'')), ''nas'', Some ''QNAP'', Some ''QTS'', 90)]"

definition match_dhcpv6_vendor_class :: "pattern_data \<Rightarrow> ustr \<Rightarrow> dict option" where
  "match_dhcpv6_vendor_class pd vc =
     (if vc = [] then None
      else case find (\<lambda>(r, e). case r of None \<Rightarrow> False | Some r \<Rightarrow> re_match r vc \<noteq> None) (pd_vendor_class pd) of
        Some (r, e) \<Rightarrow> Some
          [(''device_type'', dget e ''device_type''), (''manufacturer'', dget e ''manufacturer''),
           (''os_family'', dget e ''os_family''), (''confidence'', get_or e ''confidence'' (PInt 50)),
           (''match_source'', pstr ''dhcpv6_vendor_class'')]
      | None \<Rightarrow>
          (case find (\<lambda>(r, x). re_match r vc \<noteq> None) VC_PATTERNS of
             None \<Rightarrow> None
           | Some (r, ty, m, os, c) \<Rightarrow> Some
               [(''device_type'', pstr ty), (''manufacturer'', opt_text m), (''os_family'', opt_text os),
                (''confidence'', PInt c), (''match_source'', pstr ''dhcpv6_vendor_class'')]))"

definition get_duid_type_hint :: "int \<Rightarrow> string option" where
  "get_duid_type_hint = dict_get [(1, ''DUID-LLT (Link-Layer Address Plus Time)''), (2, ''DUID-EN (Enterprise Number)''),
     (3, ''DUID-LL (Link-Layer Address)''), (4, ''DUID-UUID (RFC 6355)'')]"

section \<open>NetBIOS and LLMNR\<close>

definition NETBIOS_SUFFIXES :: "(int \<times> string \<times> string) list" where
  "NETBIOS_SUFFIXES =
    [(0, ''Workstation'', ''workstation''), (1, ''Messenger (client)'', ''workstation''),
     (3, ''Messenger'', ''workstation''), (6, ''RAS Server'', ''server''),
     (27, ''Domain Master Browser'', ''server''), (28, ''Domain Controller'', ''server''),
     (29, ''Master Browser'', ''server''), (30, ''Browser Service Elections'', ''workstation''),
     (31, ''NetDDE Service'', ''workstation''), (32, ''File Server'', ''server''),
     (33, ''RAS Client'', ''workstation''), (34, ''Microsoft Exchange Interchange'', ''server''),
     (35, ''Microsoft Exchange Store'', ''server''), (36, ''Microsoft Exchange Directory'', ''server''),
     (48, ''Modem Sharing Server'', ''server''), (49, ''Modem Sharing Client'', ''workstation''),
     (67, ''SMS Clients Remote Control'', ''workstation''), (68, ''SMS Admin Remote Control Tool'', ''server''),
     (69, ''SMS Clients Remote Chat'', ''workstation''), (70, ''SMS Clients Remote Transfer'', ''workstation''),
     (76, ''DEC Pathworks TCP/IP Service'', ''server''), (82, ''DEC Pathworks TCP/IP Service'', ''server''),
     (135, ''Microsoft Exchange MTA'', ''server''), (106, ''Microsoft Exchange IMC'', ''server''),
     (190, ''Network Monitor Agent'', ''server''), (191, ''Network Monitor Application'', ''server'')]"

definition match_netbios_suffix :: "int \<Rightarrow> dict option" where
  "match_netbios_suffix suffix =
     (case dict_get NETBIOS_SUFFIXES suffix of
        None \<Rightarrow> None
      | Some (service, ty) \<Rightarrow> Some [(''service'', pstr service), (''device_type'', pstr ty),
          (''os_family'', pstr ''Windows''), (''confidence'', PInt 80)])"

definition match_llmnr_query :: "ustr \<Rightarrow> dict" where
  "match_llmnr_query q = [(''hostname'', PStr q), (''os_family'', pstr ''Windows''), (''confidence'', PInt 75)]"

section \<open>ICMPv6\<close>

definition match_ra_fingerprint :: "pattern_data \<Rightarrow> int \<Rightarrow> int \<Rightarrow> int \<Rightarrow> dict option" where
  "match_ra_fingerprint pd hop_limit managed other =
     (case find (\<lambda>fp. dget fp ''hop_limit'' = PInt hop_limit \<and> dget fp ''managed'' = PInt managed \<and>
                      dget fp ''other'' = PInt other) (pd_ra pd) of
        Some fp \<Rightarrow> Some (map (\<lambda>k. (k, dget fp k)) [''os_family'', ''device_type'', ''manufacturer'', ''confidence'', ''note''])
      | None \<Rightarrow>
          map_option (\<lambda>(os, ty, m, c, note).
              [(''os_family'', pstr os), (''device_type'', opt_text ty), (''manufacturer'', opt_text m),
               (''confidence'', PFloat c), (''note'', pstr note)])
            (dict_get
              [(64, ''Linux/BSD'', None, None, 40 / 100, ''Common hop_limit=64 (Linux/BSD/Unix)''),
               (128, ''Windows'', None, Some ''Microsoft'', 45 / 100, ''hop_limit=128 (Windows)''),
               (255, ''Cisco IOS/OpenBSD'', Some ''router'', None, 50 / 100, ''hop_limit=255 (Cisco/OpenBSD)'')] hop_limit))"

definition detect_ra_spoofing :: "int \<Rightarrow> ustr option \<Rightarrow> bool \<times> ustr list \<times> string" where
  "detect_ra_spoofing hop_limit expected =
     (let odd = (hop_limit \<noteq> 64 \<and> hop_limit \<noteq> 128 \<and> hop_limit \<noteq> 255);
          consumer = (truthy expected \<and>
            list_ex (\<lambda>x. contains_sub (lit x) (the expected)) [''Apple'', ''Samsung'', ''LG'', ''Sony'', ''Google''])
      in (odd \<or> consumer,
          (if odd then [lit ''Unusual hop_limit: '' @ str_int hop_limit] else []) @
          (if consumer then [lit ''RA from consumer device manufacturer: '' @ the expected] else []),
          if consumer then ''high'' else if odd then ''medium'' else ''low''))"

section \<open>Host names\<close>

definition match_hostname :: "pattern_data \<Rightarrow> ustr \<Rightarrow> dict option" where
  "match_hostname pd hn =
     (if hn = [] then None
      else case find (entry_fits hn) (pd_hostname pd) of
        None \<Rightarrow> None
      | Some (r, e) \<Rightarrow> Some
          [(''device_type'', dget e ''category''), (''manufacturer'', dget e ''vendor''), (''os_family'', dget e ''platform''),
           (''model'', dget e ''model''), (''confidence'', get_or e ''certainty'' (PInt 50))])"

section \<open>AI services\<close>

definition AI_HTTP_PATTERNS :: "(string option \<times> string \<times> string \<times> string \<times> rat) list" where
  "AI_HTTP_PATTERNS =
    [(None, ''/api/tags'', ''Ollama'', ''inference'', 90 / 100),
     (Some ''POST'', ''/api/generate'', ''Ollama'', ''inference'', 90 / 100),
     (Some ''POST'', ''/api/chat'', ''Ollama'', ''inference'', 90 / 100),
     (None, ''/api/show'', ''Ollama'', ''inference'', 85 / 100),
     (None, ''/sdapi/v1/'', ''Stable Diffusion WebUI'', ''image_gen'', 90 / 100),
     (None, ''/sdapi/v1/options'', ''Stable Diffusion WebUI'', ''image_gen'', 90 / 100),
     (None, ''/sdapi/v1/txt2img'', ''Stable Diffusion WebUI'', ''image_gen'', 90 / 100),
     (None, ''/system_stats'', ''ComfyUI'', ''image_gen'', 75 / 100),
     (None, ''/v2/repository/index'', ''Triton/KServe'', ''inference'', 85 / 100),
     (None, ''/v2/models/'', ''Triton/KServe'', ''inference'', 80 / 100),
     (None, ''/api/serve/applications'', ''Ray Serve'', ''inference'', 85 / 100),
     (None, ''/health/readiness'', ''LiteLLM'', ''gateway'', 75 / 100),
     (Some ''POST'', ''/v1/chat/completions'', ''OpenAI-compatible'', ''inference'', 80 / 100),
     (Some ''POST'', ''/v1/completions'', ''OpenAI-compatible'', ''inference'', 80 / 100),
     (Some ''POST'', ''/v1/embeddings'', ''OpenAI-compatible'', ''inference'', 80 / 100),
     (None, ''/v1/models'', ''OpenAI-compatible'', ''inference'', 75 / 100)]"

definition AI_PORT_HINTS :: "(nat \<times> string \<times> rat) list" where
  "AI_PORT_HINTS =
    [(11434, ''Ollama'', 60 / 100), (7860, ''Gradio/SD WebUI'', 50 / 100), (8188, ''ComfyUI'', 50 / 100),
     (8265, ''Ray Serve'', 50 / 100), (30000, ''SGLang'', 50 / 100), (4000, ''LiteLLM'', 50 / 100),
     (3001, ''AnythingLLM'', 50 / 100), (39281, ''Jan'', 50 / 100)]"

definition match_http_ai_path :: "ustr \<Rightarrow> ustr \<Rightarrow> dict option" where
  "match_http_ai_path http_method path =
     (if path = [] then None
      else map_option (\<lambda>(m, p, service, cat, c).
              [(''service'', pstr service), (''category'', pstr cat), (''confidence'', PFloat c)])
        (find (\<lambda>(m, p, x). (case m of None \<Rightarrow> True | Some m \<Rightarrow> lit m = upper http_method) \<and>
                           starts_with (lower (lit p)) (lower path)) AI_HTTP_PATTERNS))"

end
