(* ===== verification/MatchingProps.thy ===== *)
theory MatchingProps
  imports Matching
begin

text \<open>
  Properties of the option lists of \<open>Matching\<close>: the numbers of a list survive printing and parsing, so
  a DHCP option list is matched without regard to its order, and what a partial match may answer.
\<close>

section \<open>Printing and parsing option lists\<close>

lemma dec_digits_map:
  "list_all (\<lambda>d. d < 10) ds \<Longrightarrow>
   dec_digits need acc (map digit_char ds) =
     (if ds = [] \<and> need then None else Some (foldl (\<lambda>a d. 10 * a + d) acc ds))"
  by (induction ds arbitrary: need acc) (auto simp: digit_char_def is_digit_def)

lemma dec_digits_str_nat: "dec_digits True 0 (str_nat n) = Some n"
proof -
  have d: "list_all (\<lambda>d. d < 10) (rev (digits_rev 10 n))"
    using digits_rev_bound [of 10 _ n] by (auto simp: list_all_iff)
  have "foldl (\<lambda>a d. 10 * a + d) 0 (rev (digits_rev 10 n)) = n"
    using undigits [of 10 n] by (simp add: foldl_conv_foldr add.commute)
  then show ?thesis unfolding str_nat_def by (simp add: dec_digits_map [OF d])
qed

lemma str_int_chars: "c \<in> set (str_int i) \<Longrightarrow> c = 45 \<or> 48 \<le> c \<and> c \<le> 57"
  by (auto simp: str_int_def lit_def dest: str_nat_decimal split: if_splits)

lemma strip_str_int: "strip (str_int i) = str_int i"
  by (rule strip_no_space) (auto simp: is_space_def dest!: str_int_chars)

lemma str_int_nonempty [simp]: "str_int i \<noteq> []"
  by (simp add: str_int_def)

lemma py_int10_str_int [simp]: "py_int10 (str_int i) = Some i"
proof (cases "i < 0")
  case True
  then have "str_int i = 45 # str_nat (nat (- i))" by (simp add: str_int_def lit_def)
  then show ?thesis using True strip_str_int [of i] by (simp add: py_int10_def dec_digits_str_nat)
next
  case False
  then have s: "str_int i = str_nat (nat i)" by (simp add: str_int_def)
  obtain c cs where c: "str_nat (nat i) = c # cs" by (cases "str_nat (nat i)") simp_all
  then have "c \<noteq> 45 \<and> c \<noteq> 43" using str_nat_decimal [of c "nat i"] by auto
  then show ?thesis
    using False strip_str_int [of i] dec_digits_str_nat [of "nat i"] unfolding s c by (simp add: py_int10_def)
qed

lemma all_some_map [simp]: "all_some (map (\<lambda>x. Some (f x)) xs) = Some (map f xs)"
  by (induction xs) auto

lemma split_render: "xs \<noteq> [] \<Longrightarrow> split_on 44 (render_opts xs) = map str_int xs"
  unfolding render_opts_def by (rule split_on_join) (auto dest: str_int_chars)

lemma render_opts_Nil [simp]: "render_opts [] = []"
  by (simp add: render_opts_def)

lemma render_opts_nonempty: "xs \<noteq> [] \<Longrightarrow> render_opts xs \<noteq> []"
  using split_render [of xs] by (cases xs rule: remdups_adj.cases) (auto simp: render_opts_def)

lemma key_opts_render: "xs \<noteq> [] \<Longrightarrow> key_opts (render_opts xs) = Some xs"
  by (simp add: key_opts_def split_render comp_def)

lemma parse_opts_render [simp]: "parse_opts (render_opts xs) = Some xs"
proof (cases "xs = []")
  case True
  then show ?thesis by (simp add: parse_opts_def strip_def strip_by_def rstrip_by_def)
next
  case False
  have "filter (\<lambda>t. strip t \<noteq> []) (map str_int xs) = map str_int xs"
    by (simp add: filter_id_conv strip_str_int)
  then show ?thesis using False by (simp add: parse_opts_def split_render comp_def)
qed

lemma render_opts_inject: "render_opts xs = render_opts ys \<longleftrightarrow> xs = ys"
  by (metis parse_opts_render option.inject)

section \<open>The loaded table\<close>

text \<open>A list of options that is a key has its sorted form as a key too.\<close>

definition sorted_closed :: "(ustr \<times> opt_entry) list \<Rightarrow> bool" where
  "sorted_closed d \<longleftrightarrow> (\<forall>xs. dict_get d (render_opts xs) \<noteq> None \<longrightarrow> xs \<noteq> [] \<longrightarrow> dict_get d (render_opts (sort xs)) \<noteq> None)"

definition load_step :: "(ustr \<times> opt_entry) list \<Rightarrow> ustr \<times> opt_entry \<Rightarrow> (ustr \<times> opt_entry) list" where
  "load_step d ke = (case ke of (key, e) \<Rightarrow>
     let d = dict_set d key e
     in case key_opts key of
          None \<Rightarrow> d
        | Some xs \<Rightarrow>
            let sorted_key = render_opts (sort xs)
            in if sorted_key \<noteq> key \<and> dict_get d sorted_key = None then dict_set d sorted_key e else d)"

lemma load_opt55_fold: "load_opt55 raw = foldl load_step [] raw"
  unfolding load_opt55_def by (rule foldl_cong) (auto simp: load_step_def fun_eq_iff split: prod.splits)

lemma load_step_closed:
  assumes "sorted_closed d" shows "sorted_closed (load_step d (key, e))"
  unfolding sorted_closed_def
proof (intro allI impI)
  fix xs assume xs: "dict_get (load_step d (key, e)) (render_opts xs) \<noteq> None" "xs \<noteq> []"
  show "dict_get (load_step d (key, e)) (render_opts (sort xs)) \<noteq> None"
  proof (cases "key = render_opts xs")
    case True
    then show ?thesis using xs by (auto simp: load_step_def Let_def key_opts_render)
  next
    case False
    then consider "dict_get d (render_opts xs) \<noteq> None" | zs where "key_opts key = Some zs" "render_opts xs = render_opts (sort zs)"
      using xs by (auto simp: load_step_def Let_def split: option.splits if_splits)
    then show ?thesis
    proof cases
      case 1
      then have "dict_get d (render_opts (sort xs)) \<noteq> None" using assms xs(2) by (auto simp: sorted_closed_def)
      then show ?thesis by (auto simp: load_step_def Let_def split: option.splits)
    next
      case 2
      then have "sort xs = xs" by (simp add: render_opts_inject sorted_sort_id)
      then show ?thesis using xs(1) by simp
    qed
  qed
qed

lemma load_opt55_closed: "sorted_closed (load_opt55 raw)"
proof -
  have "sorted_closed (foldl load_step d raw)" if "sorted_closed d" for d
    using that by (induction raw arbitrary: d) (auto intro: load_step_closed)
  moreover have "sorted_closed []" by (simp add: sorted_closed_def)
  ultimately show ?thesis by (simp add: load_opt55_fold)
qed

section \<open>Order independence\<close>

lemma subset_step_cong:
  assumes "set xs = set ys" shows "subset_step xs = subset_step ys"
proof -
  have "length (remdups xs) = length (remdups ys)" using assms by (metis length_remdups_card_conv)
  then have "subset_penalty xs = subset_penalty ys" "subset_eligible xs = subset_eligible ys"
    by (intro ext; unfold subset_penalty_def subset_eligible_def assms Let_def; simp)+
  then show ?thesis by (simp add: subset_step_def fun_eq_iff)
qed

lemma exact_lookup:
  assumes "sorted_closed d" "xs \<noteq> []"
  shows "first_some (dict_get d) [render_opts (sort xs), render_opts xs] = dict_get d (render_opts (sort xs))"
proof (cases "dict_get d (render_opts (sort xs))")
  case None
  then have "dict_get d (render_opts xs) = None" using assms unfolding sorted_closed_def by blast
  with None show ?thesis by simp
qed simp

lemma match_rendered:
  assumes "xs \<noteq> []"
  shows "match_dhcp_opt55 pd (render_opts xs) =
    (case dict_get (load_opt55 (pd_opt55 pd)) (render_opts (sort xs)) of
       Some e \<Rightarrow> Some (opt_answer e (oe_confidence e) ''dhcp_opt55_exact'')
     | None \<Rightarrow> fst (foldl (subset_step xs) (None, 0) (load_opt55 (pd_opt55 pd))))"
  unfolding match_dhcp_opt55_def Let_def parse_opts_render option.case exact_lookup [OF load_opt55_closed assms]
  using render_opts_nonempty [OF assms] by simp


section \<open>Partial matches\<close>

definition partial_ok :: "int list \<Rightarrow> (ustr \<times> opt_entry) list \<Rightarrow> dict \<Rightarrow> bool" where
  "partial_ok input d a \<longleftrightarrow> (\<exists>key e ks c. (key, e) \<in> set d \<and> key_opts key = Some ks \<and>
     a = opt_answer e (max (oe_confidence e - c) 20) ''dhcp_opt55_partial'' \<and> 15 \<le> c \<and> c < 25 \<and>
     6 \<le> card (set ks) \<and> set ks \<subset> set input \<and> oe_device_type e \<notin> Some ` set MOBILE_DEVICE_TYPES)"

lemma penalty_bounds:
  assumes "set ks \<subset> set input" "ks \<noteq> []"
  shows "15 \<le> subset_penalty input (length (remdups ks)) \<and> subset_penalty input (length (remdups ks)) < 25"
proof -
  define n m :: rat where "n = of_nat (card (set ks))" and "m = of_nat (card (set input))"
  have "card (set ks) < card (set input)" "0 < card (set ks)"
    using assms by (auto intro: psubset_card_mono simp: card_gt_0_iff)
  then have nm: "n < m" "0 < n" by (simp_all add: n_def m_def)
  then have "0 \<le> (m - n) / m" "(m - n) / m < 1" by (simp_all add: field_simps)
  then have "15 \<le> 15 + 10 * ((m - n) / m)" "15 + 10 * ((m - n) / m) < 25" by linarith+
  then have "15 \<le> \<lfloor>15 + 10 * ((m - n) / m)\<rfloor>" "\<lfloor>15 + 10 * ((m - n) / m)\<rfloor> < 25"
    by (simp_all add: le_floor_iff floor_less_iff)
  then show ?thesis by (simp add: subset_penalty_def Let_def length_remdups_card_conv n_def m_def)
qed

lemma subset_step_ok:
  assumes "ke \<in> set d" "case fst acc of None \<Rightarrow> True | Some a \<Rightarrow> partial_ok input d a"
  shows "case fst (subset_step input acc ke) of None \<Rightarrow> True | Some a \<Rightarrow> partial_ok input d a"
proof -
  obtain best size key e where x: "acc = (best, size)" "ke = (key, e)" by (cases acc; cases ke) auto
  show ?thesis
  proof (cases "subset_eligible input size key e")
    case False
    then show ?thesis using assms x by (simp add: subset_step_def)
  next
    case True
    then obtain ks where ks: "key_opts key = Some ks" "6 \<le> card (set ks)" "set ks \<subset> set input"
        "oe_device_type e \<notin> Some ` set MOBILE_DEVICE_TYPES"
      by (auto simp: subset_eligible_def Let_def length_remdups_card_conv MIN_SUBSET_OPT_COUNT_def
          split: option.splits)
    have "ks \<noteq> []" using ks(2) by auto
    from penalty_bounds [OF ks(3) this] ks assms(1) x True show ?thesis
      unfolding partial_ok_def by (auto simp: subset_step_def Let_def intro!: exI [of _ key] exI [of _ e])
  qed
qed

lemma subset_fold_ok:
  "set es \<subseteq> set d \<Longrightarrow> (case fst acc of None \<Rightarrow> True | Some a \<Rightarrow> partial_ok input d a) \<Longrightarrow>
   (case fst (foldl (subset_step input) acc es) of None \<Rightarrow> True | Some a \<Rightarrow> partial_ok input d a)"
proof (induction es arbitrary: acc)
  case (Cons ke es)
  then show ?case using subset_step_ok [where ke = ke and d = d and acc = acc and input = input] by simp
qed simp

text \<open>A partial answer for an option list comes from a pattern of at least six options, all of them
  requested and not all that are requested, never from one of a phone or tablet; its confidence is that
  of the pattern less fifteen to twenty-four points, and at least twenty.\<close>

theorem opt55_partial_bounded:
  assumes "match_dhcp_opt55 pd options = Some a" "dget a ''match_source'' = pstr ''dhcp_opt55_partial''"
  shows "\<exists>input key e ks c. parse_opts options = Some input \<and> (key, e) \<in> set (load_opt55 (pd_opt55 pd)) \<and>
    key_opts key = Some ks \<and> 6 \<le> card (set ks) \<and> set ks \<subset> set input \<and>
    oe_device_type e \<notin> Some ` set MOBILE_DEVICE_TYPES \<and> 15 \<le> c \<and> c < 25 \<and>
    dget a ''confidence'' = PInt (max (oe_confidence e - c) 20)"
proof -
  let ?d = "load_opt55 (pd_opt55 pd)"
  have exact: "dget (opt_answer e k ''dhcp_opt55_exact'') ''match_source'' \<noteq> pstr ''dhcp_opt55_partial''" for e k
    by (simp add: opt_answer_def dget_def get_or_def lit_def)
  obtain input where input: "parse_opts options = Some input" "fst (foldl (subset_step input) (None, 0) ?d) = Some a"
    using assms exact by (auto simp: match_dhcp_opt55_def Let_def split: if_splits option.splits)
  then have "partial_ok input ?d a"
    using subset_fold_ok [where es = ?d and d = ?d and acc = "(None, 0)" and input = input] by simp
  then show ?thesis
    using input(1) unfolding partial_ok_def by (fastforce simp: opt_answer_def dget_def get_or_def)
qed

definition thermostat :: opt_entry where
  "thermostat = \<lparr>oe_device_type = Some (lit ''thermostat''), oe_os_family = None, oe_manufacturer = Some (lit ''Acme''),
     oe_confidence = 80\<rparr>"

definition thermostat_data :: pattern_data where
  "thermostat_data = PatternData0\<lparr>pd_opt55 := [(render_opts [1, 3, 6, 12, 15, 28], thermostat)]\<rparr>"

lemma thermostat_loaded: "load_opt55 (pd_opt55 thermostat_data) = [(render_opts [1, 3, 6, 12, 15, 28], thermostat)]"
  by (simp add: thermostat_data_def load_opt55_def key_opts_render)

lemma thermostat_partial:
  "match_dhcp_opt55 thermostat_data (render_opts [1, 3, 6, 12, 15, 28, 42, 66]) =
     Some (opt_answer thermostat 63 ''dhcp_opt55_partial'')"
proof -
  have p: "subset_penalty [1, 3, 6, 12, 15, 28, 42, 66] (Suc (Suc (Suc (Suc (Suc (Suc 0)))))) = 17"
    by (simp add: subset_penalty_def Let_def floor_eq_iff)
  have "subset_eligible [1, 3, 6, 12, 15, 28, 42, 66] 0 (render_opts [1, 3, 6, 12, 15, 28]) thermostat"
    by (simp add: subset_eligible_def key_opts_render MIN_SUBSET_OPT_COUNT_def thermostat_def MOBILE_DEVICE_TYPES_def lit_def
        set_eq_subset)
  then show ?thesis
    by (simp add: match_rendered thermostat_loaded render_opts_inject subset_step_def key_opts_render)
      (simp add: thermostat_def p)
qed


theorem opt55_partial_bounded_witness:
  "\<exists>input key e ks c. parse_opts (render_opts [1, 3, 6, 12, 15, 28, 42, 66]) = Some input \<and>
    (key, e) \<in> set (load_opt55 (pd_opt55 thermostat_data)) \<and>
    key_opts key = Some ks \<and> 6 \<le> card (set ks) \<and> set ks \<subset> set input \<and>
    oe_device_type e \<notin> Some ` set MOBILE_DEVICE_TYPES \<and> 15 \<le> c \<and> c < 25 \<and>
    dget (opt_answer thermostat 63 ''dhcp_opt55_partial'') ''confidence'' = PInt (max (oe_confidence e - c) 20)"
  by (rule opt55_partial_bounded [OF thermostat_partial]) (simp add: opt_answer_def dget_def get_or_def)

end
