(* ===== verification/Observers.thy ===== *)
theory Observers
  imports Matching Pipeline Tls
begin

text \<open>
  The processors of \<open>processors/\<close> for protocols that need no further machinery: \<open>network.py\<close>,
  \<open>services.py\<close>, \<open>passive.py\<close>, \<open>active.py\<close>, \<open>iot_scada.py\<close>, \<open>infrastructure.py\<close> and
  \<open>discovery_enhanced.py\<close>.  A processor turns a captured packet into evidence.  A field holds what the
  parsers put there: a field read as a text counts as missing when it is none.  Every processor has the time
  of the observation as an argument.
\<close>

section \<open>Fields and evidence\<close>

definition textv :: "pyval \<Rightarrow> ustr option" where
  "textv v = (case v of PStr t \<Rightarrow> Some t | _ \<Rightarrow> None)"

abbreviation fget :: "captured_packet \<Rightarrow> string \<Rightarrow> pyval" where
  "fget p k \<equiv> cp_get p k PNone"

definition ftext :: "captured_packet \<Rightarrow> string \<Rightarrow> ustr option" where
  "ftext p k = textv (fget p k)"

text \<open>The texts of a field that is a list of texts.\<close>

definition ftexts :: "captured_packet \<Rightarrow> string \<Rightarrow> ustr list" where
  "ftexts p k = (case fget p k of PList vs \<Rightarrow> List.map_filter textv vs | _ \<Rightarrow> [])"

definition evd :: "int \<Rightarrow> string \<Rightarrow> string \<Rightarrow> rat \<Rightarrow> dict \<Rightarrow> evidence" where
  "evd now src how c raw =
     \<lparr>ev_source = src, ev_method = how, certainty = c, category = None, vendor = None, platform = None,
      platform_version = None, model = None, hostname = None, ev_raw = raw, observed_at = now\<rparr>"

text \<open>The confidence of a match: above one it counts in percent.\<close>

definition cert_of :: "rat \<Rightarrow> dict \<Rightarrow> rat" where
  "cert_of dflt m =
     (let c = (case dict_get m ''confidence'' of None \<Rightarrow> dflt | Some v \<Rightarrow> num_of v) in if c > 1 then c / 100 else c)"

definition match_evd :: "int \<Rightarrow> string \<Rightarrow> rat \<Rightarrow> dict \<Rightarrow> dict \<Rightarrow> evidence" where
  "match_evd now src dflt m raw =
     (evd now src ''pattern'' (cert_of dflt m) (raw @ [(''match'', PDict m)]))
       \<lparr>vendor := textv (dget m ''manufacturer''), category := textv (dget m ''device_type''),
        platform := textv (dget m ''os_family'')\<rparr>"

definition cat :: "string \<Rightarrow> ustr option" where
  "cat c = Some (lit c)"

text \<open>\<open>str(v)\<close> of the values that occur.\<close>

definition py_str :: "pyval \<Rightarrow> ustr" where
  "py_str v = (case v of PNone \<Rightarrow> lit ''None'' | PInt i \<Rightarrow> str_int i | PStr t \<Rightarrow> t
     | PBool b \<Rightarrow> lit (if b then ''True'' else ''False'') | _ \<Rightarrow> [])"

definition is_flag :: "captured_packet \<Rightarrow> string \<Rightarrow> bool" where
  "is_flag p k = py_truthy (cp_get p k (PBool False))"

section \<open>network.py\<close>

definition analyze_arp :: "int \<Rightarrow> captured_packet \<Rightarrow> evidence list" where
  "analyze_arp now p = [evd now ''arp'' ''heuristic'' (3 / 10) [(''op'', fget p ''op''), (''ip'', PStr (lit (ip_addr p)))]]"

definition CLIENT_ID_KEYWORDS :: "ustr list" where
  "CLIENT_ID_KEYWORDS = map lit [''dell'', ''hp'', ''lenovo'', ''apple'', ''cisco'', ''huawei'', ''samsung'', ''intel'', ''broadcom'']"

definition client_id_evd :: "int \<Rightarrow> ustr \<Rightarrow> evidence" where
  "client_id_evd now c =
     (if re_match MAC_RE c \<noteq> None
      then evd now ''dhcpv4'' ''exact'' (70 / 100) [(''client_id'', PStr c), (''possible_real_mac'', PBool True)]
      else (evd now ''dhcpv4'' ''exact'' (70 / 100) [(''client_id'', PStr c)])
        \<lparr>vendor := (if list_ex (\<lambda>k. contains_sub k (lower c)) CLIENT_ID_KEYWORDS then Some c else None)\<rparr>)"

definition analyze_dhcpv4 :: "int \<Rightarrow> pattern_data \<Rightarrow> captured_packet \<Rightarrow> evidence list" where
  "analyze_dhcpv4 now pd p =
     (let hn = ftext p ''hostname''; opt55 = fget p ''opt55''; opt60 = ftext p ''opt60''; cid = ftext p ''client_id''
      in (if truthy hn \<and> is_valid_hostname hn
          then (evd now ''dhcpv4'' ''exact'' (75 / 100) [(''hostname'', PStr (the hn))])\<lparr>hostname := hn\<rparr> #
            (case match_hostname pd (the hn) of None \<Rightarrow> []
             | Some m \<Rightarrow> [(match_evd now ''hostname'' 75 m [(''hostname'', PStr (the hn))])
                  \<lparr>model := textv (dget m ''model''), hostname := hn\<rparr>])
          else []) @
         (if truthy opt60
          then evd now ''dhcpv4_vendor'' ''pattern'' (80 / 100) [(''opt60'', PStr (the opt60))] #
            (case match_dhcp_opt60 pd (the opt60) of None \<Rightarrow> []
             | Some m \<Rightarrow> [match_evd now ''dhcpv4_vendor'' 80 m [(''opt60'', PStr (the opt60))]])
          else []) @
         (if py_truthy opt55 then [evd now ''dhcpv4_fingerprint'' ''pattern'' (70 / 100) [(''opt55'', opt55)]] else []) @
         (if truthy cid then [client_id_evd now (the cid)] else []))"

definition analyze_dhcpv6 :: "int \<Rightarrow> captured_packet \<Rightarrow> evidence list" where
  "analyze_dhcpv6 now p =
     (let field = (\<lambda>k f. if py_truthy (fget p k) then [f (fget p k)] else [])
      in field ''vendor_class'' (\<lambda>v. evd now ''dhcpv6_vendor'' ''pattern'' (80 / 100) [(''vendor_class'', v)]) @
         field ''oro'' (\<lambda>v. evd now ''dhcpv6_oro'' ''pattern'' (65 / 100) [(''oro'', v)]) @
         field ''fqdn'' (\<lambda>v. (evd now ''dhcpv6'' ''exact'' (75 / 100) [(''fqdn'', v)])\<lparr>hostname := textv v\<rparr>) @
         field ''enterprise_id'' (\<lambda>v. evd now ''dhcpv6'' ''exact'' (70 / 100) [(''enterprise_id'', v)]) @
         field ''duid'' (\<lambda>v. evd now ''dhcpv6'' ''exact'' (65 / 100) [(''duid'', v), (''duid_type'', fget p ''duid_type'')]))"

definition analyze_igmp :: "int \<Rightarrow> captured_packet \<Rightarrow> evidence list" where
  "analyze_igmp now p =
     (let group = ftext p ''group'';
          e = evd now ''igmp'' ''heuristic'' (40 / 100) [(''group'', fget p ''group''), (''type'', cp_get p ''type_name'' (PStr []))]
      in [if truthy group \<and> \<not> starts_with (lit ''239.255.255.'') (the group) \<and> the group \<noteq> lit ''224.0.0.251'' \<and>
             starts_with (lit ''239.'') (the group)
          then e\<lparr>category := cat ''media_device'', certainty := 30 / 100\<rparr> else e])"

definition analyze_eap :: "int \<Rightarrow> captured_packet \<Rightarrow> evidence list" where
  "analyze_eap now p =
     (let identity = ftext p ''identity'';
          e = evd now ''eap'' ''exact'' (60 / 100) [(''eap_type'', cp_get p ''eap_type_name'' (PStr [])), (''identity'', fget p ''identity'')]
      in [if truthy identity \<and> is_valid_hostname identity then e\<lparr>hostname := identity\<rparr> else e])"

definition analyze_icmpv6 :: "int \<Rightarrow> captured_packet \<Rightarrow> evidence list" where
  "analyze_icmpv6 now p =
     (if fget p ''icmpv6_type'' = pstr ''router_advertisement''
      then [(evd now ''icmpv6_ra'' ''heuristic'' (50 / 100) [(''hop_limit'', fget p ''hop_limit''), (''managed'', fget p ''managed'')])
              \<lparr>category := cat ''router''\<rparr>]
      else [])"

section \<open>services.py\<close>

definition ttl_os_hint :: "pyval \<Rightarrow> ustr option" where
  "ttl_os_hint ttl = None"

definition analyze_tcp_syn :: "int \<Rightarrow> captured_packet \<Rightarrow> evidence list" where
  "analyze_tcp_syn now p =
     (let ttl = fget p ''ttl''; ws = fget p ''window_size''; mss = fget p ''mss''; opts = cp_get p ''tcp_options'' (PStr [])
      in (if ttl \<noteq> PNone \<and> truthy (ttl_os_hint ttl)
          then [(evd now ''tcp_syn_ttl'' ''heuristic'' (50 / 100) [(''ttl'', ttl), (''os_hint'', opt_str (ttl_os_hint ttl))])
                  \<lparr>platform := ttl_os_hint ttl\<rparr>] else []) @
         (if ws \<noteq> PNone
          then [evd now ''tcp_syn_sig'' ''pattern'' (40 / 100)
                  [(''signature'', PStr (join [58] [py_str ttl, py_str ws, if py_truthy mss then py_str mss else lit ''*'', py_str opts])),
                   (''window_size'', ws), (''mss'', mss), (''tcp_options'', opts)]]
          else []))"

definition ja3_match :: "ustr \<Rightarrow> ja3_entry option" where
  "ja3_match h = map_option snd (find (\<lambda>x. lit (fst x) = h) KNOWN_JA3)"

definition analyze_tls :: "int \<Rightarrow> captured_packet \<Rightarrow> evidence list" where
  "analyze_tls now p =
     (let ja3 = ftext p ''ja3_hash''; ja4 = fget p ''ja4''; sni = fget p ''sni''
      in (if truthy ja3
          then [(evd now ''tls_ja3'' ''pattern'' (75 / 100) [(''ja3_hash'', PStr (the ja3))])
                  \<lparr>vendor := (case ja3_match (the ja3) of None \<Rightarrow> None | Some m \<Rightarrow> cat (app m)),
                   platform := (case ja3_match (the ja3) of None \<Rightarrow> None | Some m \<Rightarrow> map_option lit (os_family m))\<rparr>]
          else []) @
         (if py_truthy ja4 then [evd now ''tls_ja4'' ''pattern'' (75 / 100) [(''ja4'', ja4)]] else []) @
         (if py_truthy sni then [evd now ''tls_sni'' ''exact'' (70 / 100) [(''sni'', sni)]] else []))"

definition parse_user_agent :: "ustr \<Rightarrow> ustr option \<times> ustr option" where
  "parse_user_agent ua =
     (let u = lower ua; has = (\<lambda>t. contains_sub (lit t) u)
      in if has ''windows'' then (cat ''Windows'', cat ''Microsoft'')
         else if has ''macintosh'' \<or> has ''mac os'' then (cat ''macOS'', cat ''Apple'')
         else if has ''iphone'' \<or> has ''ipad'' then (cat ''iOS'', cat ''Apple'')
         else if has ''android'' then (cat ''Android'',
           if has ''pixel'' \<or> has ''nexus'' then cat ''Google''
           else if has ''sm-'' \<or> has ''samsung'' then cat ''Samsung''
           else if has ''xiaomi'' \<or> has ''redmi'' \<or> has ''poco'' then cat ''Xiaomi''
           else if has ''oneplus'' then cat ''OnePlus''
           else if has ''motorola'' \<or> has ''moto '' \<or> has ''moto/'' then cat ''Motorola''
           else if has ''huawei'' \<or> has ''honor'' then cat ''Huawei''
           else if has ''oppo'' then cat ''OPPO''
           else if has ''vivo'' then cat ''Vivo''
           else None)
         else if has ''linux'' then (cat ''Linux'', None)
         else if has ''cros'' then (cat ''ChromeOS'', cat ''Google'')
         else (None, None))"

definition analyze_http_useragent :: "int \<Rightarrow> captured_packet \<Rightarrow> evidence list" where
  "analyze_http_useragent now p =
     (let ua = ftext p ''user_agent''; h = fget p ''host''
      in (if truthy ua
          then [(evd now ''http_useragent'' ''pattern'' (80 / 100) [(''user_agent'', PStr (the ua))])
                  \<lparr>platform := fst (parse_user_agent (the ua)), vendor := snd (parse_user_agent (the ua))\<rparr>]
          else []) @
         (if py_truthy h then [evd now ''http_host'' ''pattern'' (40 / 100) [(''host'', h)]] else []))"

definition analyze_stun :: "int \<Rightarrow> captured_packet \<Rightarrow> evidence list" where
  "analyze_stun now p =
     [evd now ''stun'' ''heuristic'' (50 / 100) [(''type'', cp_get p ''type_name'' (PStr [])), (''dst_port'', fget p ''dst_port'')]]"

definition analyze_quic :: "int \<Rightarrow> captured_packet \<Rightarrow> evidence list" where
  "analyze_quic now p = [evd now ''quic_sni'' ''exact'' (65 / 100) [(''sni'', fget p ''sni'')]]"

definition analyze_radius :: "int \<Rightarrow> captured_packet \<Rightarrow> evidence list" where
  "analyze_radius now p =
     [(evd now ''radius'' ''exact'' (70 / 100) [(''code'', cp_get p ''code_name'' (PStr []))])
        \<lparr>category := (if is_flag p ''is_server'' then cat ''server'' else None)\<rparr>]"

section \<open>passive.py and active.py\<close>

definition PORT_SERVICES :: "(int \<times> string) list" where
  "PORT_SERVICES =
    [(21, ''ftp''), (22, ''ssh''), (23, ''telnet''), (25, ''smtp''), (53, ''dns''), (80, ''http''), (110, ''pop3''),
     (143, ''imap''), (443, ''https''), (445, ''smb''), (993, ''imaps''), (995, ''pop3s''), (1433, ''mssql''),
     (3306, ''mysql''), (3389, ''rdp''), (5060, ''sip''), (5432, ''postgresql''), (6379, ''redis''),
     (8080, ''http-proxy''), (8443, ''https-alt''), (8883, ''mqtt-tls'')]"

definition port_service_hint :: "pyval \<Rightarrow> string option" where
  "port_service_hint v = (case v of PInt n \<Rightarrow> dict_get PORT_SERVICES n | _ \<Rightarrow> None)"

definition analyze_ip_observed :: "int \<Rightarrow> captured_packet \<Rightarrow> evidence list" where
  "analyze_ip_observed now p =
     (let ttl = fget p ''ttl''; dport = fget p ''dst_port''
      in (if ttl \<noteq> PNone \<and> truthy (ttl_os_hint ttl)
          then [(evd now ''ip_observed_ttl'' ''heuristic'' (40 / 100) [(''ttl'', ttl), (''os_hint'', opt_str (ttl_os_hint ttl))])
                  \<lparr>platform := ttl_os_hint ttl\<rparr>] else []) @
         (case port_service_hint dport of None \<Rightarrow> []
          | Some h \<Rightarrow> [evd now ''ip_observed_port'' ''heuristic'' (30 / 100) [(''port'', dport), (''service_hint'', pstr h)]]))"

text \<open>The name of the source ends in the type of the probe.\<close>

definition analyze_probe :: "int \<Rightarrow> captured_packet \<Rightarrow> evidence list" where
  "analyze_probe now p =
     (let ty = cp_get p ''probe_type'' (pstr ''unknown''); result = cp_get p ''result'' (PDict []);
          field = (\<lambda>k. case result of PDict d \<Rightarrow> textv (dget d k) | _ \<Rightarrow> None)
      in [(evd now (''probe_'' @ map char_of (py_str ty)) ''exact'' (num_of (cp_get p ''certainty'' (PFloat (70 / 100))))
             [(''probe_type'', ty), (''result'', result)])
           \<lparr>vendor := field ''vendor'', platform := field ''platform'', platform_version := field ''platform_version'',
            model := field ''model'', hostname := field ''hostname'', category := field ''category''\<rparr>])"

section \<open>iot\_scada.py\<close>

definition MQTT_CLIENT_PATTERNS :: "(string \<times> string option \<times> string) list" where
  "MQTT_CLIENT_PATTERNS =
    [(''tasmota'', Some ''Tasmota'', ''iot_device''), (''shelly'', Some ''Shelly'', ''iot_device''),
     (''sonoff'', Some ''Sonoff'', ''iot_device''), (''homebridge'', Some ''Homebridge'', ''smart_home''),
     (''zigbee2mqtt'', None, ''smart_home''), (''node-red'', Some ''Node-RED'', ''smart_home''),
     (''homeassistant'', Some ''Home Assistant'', ''smart_home''), (''hass'', Some ''Home Assistant'', ''smart_home''),
     (''esphome'', Some ''ESPHome'', ''iot_device'')]"

definition analyze_modbus :: "int \<Rightarrow> captured_packet \<Rightarrow> evidence list" where
  "analyze_modbus now p =
     [(evd now ''modbus'' ''heuristic'' (60 / 100) [(''unit_id'', fget p ''unit_id''), (''function_code'', fget p ''function_code'')])
        \<lparr>category := cat ''ics_device''\<rparr>]"

definition analyze_bacnet :: "int \<Rightarrow> captured_packet \<Rightarrow> evidence list" where
  "analyze_bacnet now p =
     [(evd now ''bacnet'' ''heuristic'' (65 / 100) (map (\<lambda>k. (k, fget p k)) [''vendor_id'', ''object_name'', ''model_name'']))
        \<lparr>category := cat ''building_automation'', model := ftext p ''model_name''\<rparr>]"

definition analyze_coap :: "int \<Rightarrow> captured_packet \<Rightarrow> evidence list" where
  "analyze_coap now p =
     [(evd now ''coap'' ''heuristic'' (50 / 100) (map (\<lambda>k. (k, fget p k)) [''uri_path'', ''content_format'']))
        \<lparr>category := cat ''iot_device''\<rparr>]"

definition analyze_mqtt :: "int \<Rightarrow> captured_packet \<Rightarrow> evidence list" where
  "analyze_mqtt now p =
     (let cid = ftext p ''client_id''
      in (evd now ''mqtt'' ''heuristic'' (55 / 100) [(''client_id'', cp_get p ''client_id'' (PStr [])), (''topic'', fget p ''topic'')])
           \<lparr>category := cat ''iot_device''\<rparr> #
         (if \<not> truthy cid then []
          else case find (\<lambda>(prefix, v, c). starts_with (lit prefix) (lower (the cid))) MQTT_CLIENT_PATTERNS of
            None \<Rightarrow> []
          | Some (prefix, v, c) \<Rightarrow>
              [(evd now ''mqtt'' ''pattern'' (75 / 100) [(''client_id'', PStr (the cid))])
                 \<lparr>vendor := map_option lit v, category := cat c\<rparr>]))"

definition analyze_enip :: "int \<Rightarrow> captured_packet \<Rightarrow> evidence list" where
  "analyze_enip now p =
     [(evd now ''enip'' ''heuristic'' (65 / 100) (map (\<lambda>k. (k, fget p k)) [''product_name'', ''vendor_id'', ''device_type'']))
        \<lparr>category := cat ''ics_device'', model := ftext p ''product_name''\<rparr>]"

definition analyze_dnp3 :: "int \<Rightarrow> captured_packet \<Rightarrow> evidence list" where
  "analyze_dnp3 now p =
     [(evd now ''dnp3'' ''exact'' (75 / 100) [(''func'', cp_get p ''func_name'' (PStr [])), (''src_addr'', fget p ''src_addr''),
         (''dst_addr'', fget p ''dst_addr'')])
        \<lparr>category := cat (if is_flag p ''is_server'' then ''rtu'' else ''scada_server'')\<rparr>]"

definition analyze_s7comm :: "int \<Rightarrow> captured_packet \<Rightarrow> evidence list" where
  "analyze_s7comm now p =
     [(evd now ''s7comm'' ''exact'' (80 / 100) [(''pdu'', fget p ''s7_pdu_name''), (''function'', fget p ''s7_function_name'')])
        \<lparr>vendor := cat ''Siemens'', category := cat (if is_flag p ''is_server'' then ''plc'' else ''scada_server'')\<rparr>]"

definition analyze_opcua :: "int \<Rightarrow> captured_packet \<Rightarrow> evidence list" where
  "analyze_opcua now p =
     [(evd now ''opcua'' ''exact'' (if is_flag p ''is_server'' then 75 / 100 else 50 / 100)
         [(''msg_type'', cp_get p ''msg_type'' (PStr [])), (''type_name'', cp_get p ''type_name'' (PStr [])),
          (''endpoint_url'', fget p ''endpoint_url'')])
        \<lparr>category := cat (if is_flag p ''is_server'' then ''scada_server'' else ''opcua_client'')\<rparr>]"

definition analyze_goose :: "int \<Rightarrow> captured_packet \<Rightarrow> evidence list" where
  "analyze_goose now p =
     [(evd now ''goose'' ''exact'' (85 / 100) (map (\<lambda>k. (k, fget p k)) [''gocb_ref'', ''go_id'', ''appid'']))
        \<lparr>category := cat ''ics_device'', hostname := (if truthy (ftext p ''go_id'') then ftext p ''go_id'' else None)\<rparr>]"

definition analyze_profinet :: "int \<Rightarrow> captured_packet \<Rightarrow> evidence list" where
  "analyze_profinet now p =
     (let role = ftexts p ''device_role'';
          c = (if lit ''io_controller'' \<in> set role then ''plc'' else if lit ''io_device'' \<in> set role then ''ics_device''
               else if lit ''io_supervisor'' \<in> set role then ''hmi'' else ''plc'')
      in [(evd now ''profinet'' ''exact'' (80 / 100) [(''frame_type'', cp_get p ''frame_type'' (PStr [])),
             (''station_name'', fget p ''station_name''), (''device_role'', cp_get p ''device_role'' (PList []))])
           \<lparr>vendor := ftext p ''vendor_name'', category := cat c,
            hostname := (if truthy (ftext p ''station_name'') then ftext p ''station_name'' else None)\<rparr>])"

definition analyze_umas :: "int \<Rightarrow> captured_packet \<Rightarrow> evidence list" where
  "analyze_umas now p =
     [(evd now ''umas'' ''exact'' (85 / 100) [(''function'', cp_get p ''umas_function'' (PStr [])), (''project_name'', fget p ''project_name'')])
        \<lparr>vendor := cat ''Schneider Electric'', category := cat (if is_flag p ''is_server'' then ''plc'' else ''scada_server''),
         platform := cat ''Unity'',
         hostname := (if truthy (ftext p ''project_name'') then ftext p ''project_name'' else None)\<rparr>]"

end
