(* ===== verification/ObserversNames.thy ===== *)
theory ObserversNames
  imports Observers Behavior
begin

text \<open>
  \<open>processors/names.py\<close>: what DNS, mDNS, NetBIOS, SSDP and UPnP packets say about a host.  The
  announcements of mDNS are the hard case: a router repeats those of other hosts under its own
  address, so a packet is judged first (\<open>cross_device\<close>, \<open>reflected\<close>) and its claims are kept or
  dropped accordingly.  The fields are the texts the parsers put there; TXT records are a dictionary.
\<close>

section \<open>DNS\<close>

definition NTP_VENDOR_MAP :: "(ustr \<times> ustr option \<times> ustr option) list" where
  "NTP_VENDOR_MAP = map (\<lambda>(d, v, o'). (lit d, map_option lit v, map_option lit o'))
    [(''time.apple.com'', Some ''Apple'', Some ''iOS/macOS''), (''time.euro.apple.com'', Some ''Apple'', Some ''iOS/macOS''),
     (''time-ios.apple.com'', Some ''Apple'', Some ''iOS''), (''time-macos.apple.com'', Some ''Apple'', Some ''macOS''),
     (''time.windows.com'', Some ''Microsoft'', Some ''Windows''), (''time.google.com'', Some ''Google'', None),
     (''time1.google.com'', Some ''Google'', None), (''time2.google.com'', Some ''Google'', None),
     (''time3.google.com'', Some ''Google'', None), (''time4.google.com'', Some ''Google'', None),
     (''time.android.com'', Some ''Google'', Some ''Android''), (''ntp.ubuntu.com'', None, Some ''Linux''),
     (''time.ui.com'', Some ''Ubiquiti'', None), (''ntp.synology.com'', Some ''Synology'', None),
     (''ntp.qnap.com'', Some ''QNAP'', None), (''time.cloudflare.com'', None, None), (''time.facebook.com'', None, None)]"

definition claims :: "ustr option \<Rightarrow> ustr option \<Rightarrow> bool" where
  "claims v o' \<longleftrightarrow> truthy v \<or> truthy o'"

definition analyze_dns :: "int \<Rightarrow> captured_packet \<Rightarrow> evidence list" where
  "analyze_dns now p =
     (case ftext p ''query_name'' of
        None \<Rightarrow> []
      | Some q \<Rightarrow>
          if q = [] then []
          else
            [evd now ''dns_query'' ''pattern'' (40 / 100)
               [(''query_name'', PStr q), (''query_type'', cp_get p ''query_type'' (PInt 1))]] @
            (case match_dns_query q of
               None \<Rightarrow> []
             | Some m \<Rightarrow>
                 let v = textv (dget m ''manufacturer''); o' = textv (dget m ''os_family'')
                 in if num_of (get_or m ''confidence'' (PInt 0)) \<ge> 40 / 100 \<and> claims v o'
                    then [(evd now ''dns_vendor'' ''pattern'' (min (num_of (get_or m ''confidence'' (PFloat (50 / 100)))) (60 / 100))
                             [(''query_name'', PStr q), (''match'', get_or m ''note'' (PStr []))])
                            \<lparr>vendor := v, platform := o'\<rparr>]
                    else []) @
            (case dict_get NTP_VENDOR_MAP (rstrip_by (chr_is 46) (lower q)) of
               None \<Rightarrow> []
             | Some (v, o') \<Rightarrow>
                 if claims v o'
                 then [(evd now ''dns_ntp_hint'' ''heuristic'' (55 / 100) [(''query'', PStr q), (''type'', pstr ''ntp_server'')])
                         \<lparr>vendor := v, platform := o'\<rparr>]
                 else []))"

text \<open>The behavioural profile is fed with every query: \<open>_classify_domain\<close> and \<open>record\<close>.\<close>

definition classify_domain :: "ustr \<Rightarrow> ustr option" where
  "classify_domain d =
     (case match_dns_query d of None \<Rightarrow> None
      | Some m \<Rightarrow> if num_of (get_or m ''confidence'' (PInt 0)) \<ge> 50 / 100 then textv (dget m ''manufacturer'') else None)"

definition feed_tracker :: "rat \<Rightarrow> captured_packet \<Rightarrow> tracker \<Rightarrow> tracker" where
  "feed_tracker mt p ps =
     (case ftext p ''query_name'' of
        None \<Rightarrow> ps
      | Some q \<Rightarrow> if q = [] then ps else record_query mt (hw_addr p) (classify_domain q) ps)"

text \<open>A service suffix and the local domain go.\<close>

definition before_service :: "ustr \<Rightarrow> ustr" where
  "before_service t =
     (let t = (if contains_sub (lit ''._'') t then before_sub (lit ''._'') t else t)
      in if ends_with (lit ''.local'') t then take (length t - 6) t else t)"

definition is_dot_dash :: "nat \<Rightarrow> bool" where
  "is_dot_dash c \<longleftrightarrow> c = 46 \<or> c = 45"

definition analyze_dns_answer :: "int \<Rightarrow> captured_packet \<Rightarrow> evidence list" where
  "analyze_dns_answer now p =
     (case ftext p ''hostname'' of
        None \<Rightarrow> []
      | Some h \<Rightarrow>
          let clean = strip_by is_dot_dash (re_remove AIRPLAY_PREFIX (before_service h));
              clean = (if clean = [] then h else clean)
          in if h \<noteq> [] \<and> is_valid_hostname (Some clean)
             then [(evd now ''dns_answer'' ''exact'' (60 / 100) [(''query_name'', fget p ''query_name''), (''hostname'', PStr h)])
                     \<lparr>hostname := Some clean\<rparr>]
             else [])"

section \<open>mDNS\<close>

definition EXCLUSIVE_SERVICES :: "(string \<times> string \<times> string option \<times> string option \<times> rat) list" where
  "EXCLUSIVE_SERVICES =
    [(''_apple-mobdev2._tcp'', ''Apple'', Some ''phone'', Some ''iOS'', 97 / 100),
     (''_apple-mobdev._tcp'', ''Apple'', Some ''phone'', Some ''iOS'', 97 / 100),
     (''_companion-link._tcp'', ''Apple'', None, None, 90 / 100), (''_homekit._tcp'', ''Apple'', None, None, 90 / 100),
     (''_airplay._tcp'', ''Apple'', None, None, 85 / 100), (''_raop._tcp'', ''Apple'', None, None, 85 / 100),
     (''_rdlink._tcp'', ''Apple'', None, None, 85 / 100),
     (''_touch-able._tcp'', ''Apple'', Some ''phone'', Some ''iOS'', 90 / 100),
     (''_apple-pairable._tcp'', ''Apple'', None, None, 90 / 100),
     (''_googlecast._tcp'', ''Google'', Some ''smart_speaker'', Some ''Cast OS'', 95 / 100),
     (''_googlerpc._tcp'', ''Google'', None, None, 85 / 100),
     (''_googlehomedevice._tcp'', ''Google'', Some ''smart_speaker'', None, 90 / 100),
     (''_amzn-wplay._tcp'', ''Amazon'', Some ''smart_speaker'', Some ''Fire OS'', 90 / 100),
     (''_samsung-osp._tcp'', ''Samsung'', None, None, 90 / 100),
     (''_samsungtvrc._tcp'', ''Samsung'', Some ''smart_tv'', Some ''Tizen'', 95 / 100),
     (''_samsung-msn._tcp'', ''Samsung'', Some ''smart_tv'', Some ''Tizen'', 90 / 100),
     (''_roku-rsp._tcp'', ''Roku'', Some ''streaming_device'', Some ''RokuOS'', 95 / 100),
     (''_sonos._tcp'', ''Sonos'', Some ''smart_speaker'', None, 95 / 100),
     (''_lgtvremote._tcp'', ''LG'', Some ''smart_tv'', Some ''webOS'', 95 / 100)]"

text \<open>\<open>hex_id@name\<close>.\<close>

definition AIRPLAY_NAME_RE :: re where
  "AIRPLAY_NAME_RE = re_seq [Bol, Grp 1 (Rep 6 (Some 12) True (Cls is_hex)), Cls (chr_is 64),
     Grp 2 (re_plus (Cls (\<lambda>x. x \<noteq> 10))), Eol]"

definition LOCALLY_ADMIN_VENDOR_CIDS :: "ustr list" where
  "LOCALLY_ADMIN_VENDOR_CIDS = [lit ''FA:8F:CA'']"

text \<open>The identifier in the name is not that of the sender.\<close>

definition names_other_device :: "mac \<Rightarrow> ustr option \<Rightarrow> bool" where
  "names_other_device m name =
     (case name of None \<Rightarrow> False
      | Some n \<Rightarrow> (case re_match AIRPLAY_NAME_RE n of None \<Rightarrow> False
         | Some r \<Rightarrow>
             let advertised = upper (case group_of n r 1 of None \<Rightarrow> [] | Some g \<Rightarrow> g);
                 src = upper (filter (\<lambda>c. c \<noteq> 58) (lit m))
             in \<not> contains_sub advertised src \<and> \<not> contains_sub src advertised))"

text \<open>A randomised sender without a known vendor prefix repeats the announcements of others.\<close>

definition reflecting :: "mac \<Rightarrow> bool" where
  "reflecting m \<longleftrightarrow> is_randomized_mac m \<and>
     map (\<lambda>c. if c = 45 then 58 else c) (upper (take 8 (lit m))) \<notin> set LOCALLY_ADMIN_VENDOR_CIDS"

definition reflected :: "mac \<Rightarrow> ustr option \<Rightarrow> bool" where
  "reflected m name \<longleftrightarrow> \<not> names_other_device m name \<and> reflecting m"

definition cross_device :: "mac \<Rightarrow> ustr option \<Rightarrow> bool" where
  "cross_device m name \<longleftrightarrow> names_other_device m name \<or> reflecting m"

definition service_evidence :: "int \<Rightarrow> pattern_data \<Rightarrow> mac \<Rightarrow> ustr \<Rightarrow> ustr option \<Rightarrow> evidence list" where
  "service_evidence now pd m ty name =
     (let away = cross_device m name; echoed = reflected m name
      in case find (\<lambda>x. lit (fst x) = ty) EXCLUSIVE_SERVICES of
           Some (s, v, c, o', cert) \<Rightarrow>
             [(evd now ''mdns_exclusive'' ''exact'' (if \<not> away then cert else min cert (50 / 100))
                 [(''service_type'', PStr ty), (''name'', opt_str name), (''exclusive_match'', PBool True),
                  (''cross_device'', PBool away), (''reflected'', PBool echoed)])
                \<lparr>vendor := (if echoed then None else cat v),
                 category := (if away then None else map_option lit c),
                 platform := (if away then None else map_option lit o')\<rparr>]
         | None \<Rightarrow>
             evd now ''mdns_service'' ''pattern'' (70 / 100)
               [(''service_type'', PStr ty), (''name'', opt_str name), (''reflected'', PBool echoed)] #
             (if echoed then []
              else case match_mdns_service pd ty name of
                None \<Rightarrow> []
              | Some a \<Rightarrow> [match_evd now ''mdns_service'' 70 a [(''service_type'', PStr ty)]]))"

text \<open>The name of the announced instance, of the device itself only.\<close>

definition instance_evidence :: "int \<Rightarrow> mac \<Rightarrow> pyval \<Rightarrow> ustr option \<Rightarrow> evidence list" where
  "instance_evidence now m ty name =
     (if truthy name \<and> \<not> cross_device m name \<and> \<not> reflected m name then
        let n = the name;
            cand = (case re_match AIRPLAY_NAME_RE n of None \<Rightarrow> n
              | Some r \<Rightarrow> (case group_of n r 2 of None \<Rightarrow> n | Some g \<Rightarrow> g));
            cand = strip_by is_dot_dash (before_service cand)
        in if is_valid_hostname (Some cand)
           then [(evd now ''mdns_name'' ''exact'' (72 / 100) [(''service_type'', ty), (''instance_name'', PStr n)])
                   \<lparr>hostname := Some cand\<rparr>]
           else []
      else [])"

section \<open>TXT records\<close>

definition HAP_CATEGORIES :: "(string \<times> string) list" where
  "HAP_CATEGORIES =
    [(''1'', ''other''), (''2'', ''bridge''), (''3'', ''fan''), (''5'', ''garage_door''), (''6'', ''smart_lighting''),
     (''7'', ''smart_lock''), (''8'', ''smart_plug''), (''9'', ''smart_plug''), (''10'', ''sensor''),
     (''11'', ''smart_plug''), (''12'', ''thermostat''), (''13'', ''sensor''), (''14'', ''security_system''),
     (''17'', ''sensor''), (''22'', ''sensor''), (''28'', ''sprinkler''), (''29'', ''faucet''),
     (''30'', ''smart_display''), (''31'', ''smart_speaker''), (''32'', ''media_player'')]"

definition py_or :: "pyval \<Rightarrow> pyval \<Rightarrow> pyval" where
  "py_or a b = (if py_truthy a then a else b)"

definition hap_category :: "dict \<Rightarrow> ustr option" where
  "hap_category d =
     (let ci = dget d ''ci''
      in if \<not> py_truthy ci then None
         else map_option (\<lambda>x. lit (snd x)) (find (\<lambda>x. lit (fst x) = py_str ci) HAP_CATEGORIES))"

definition txt_model :: "dict \<Rightarrow> pyval" where
  "txt_model d =
     (let md = py_or (dget d ''model'') (dget d ''md''); sys = py_or (dget d ''systype'') (dget d ''devtype'')
      in if py_truthy sys then py_or md sys else md)"

definition txt_evidence :: "int \<Rightarrow> bool \<Rightarrow> dict \<Rightarrow> evidence list" where
  "txt_evidence now echoed d =
     (let md = txt_model d; v = py_or (dget d ''manufacturer'') (dget d ''vendor'');
          fn = (if is_valid_hostname (textv (dget d ''fn'')) then textv (dget d ''fn'') else None)
      in if d = [] then []
         else if echoed then [evd now ''mdns_txt'' ''exact'' (40 / 100) [(''txt_records'', PDict d), (''reflected'', PBool True)]]
         else if py_truthy md \<or> py_truthy v
              then [(evd now ''mdns_txt'' ''exact'' (80 / 100) [(''txt_records'', PDict d)])
                      \<lparr>model := textv md, vendor := textv v, category := hap_category d, hostname := fn\<rparr>]
         else if truthy fn
              then [(evd now ''mdns_txt'' ''exact'' (75 / 100) [(''txt_records'', PDict d)])\<lparr>hostname := fn\<rparr>]
         else [])"

section \<open>Apple models\<close>

text \<open>The names of the models are read from a class \<open>ModelLookup\<close> of \<open>fingerprint/lookup.py\<close>, and an
  ImportError is ignored.  That file defines no such class (the table is in \<open>SignatureMatcher\<close>), so the
  import never succeeds.\<close>

definition ModelLookup_map :: "(string \<times> string) list option" where
  "ModelLookup_map = None"

definition apple_category :: "ustr \<Rightarrow> ustr option" where
  "apple_category code =
     map_option (\<lambda>x. lit (snd x)) (find (\<lambda>x. starts_with (lit (fst x)) code)
       [(''iPhone'', ''phone''), (''iPad'', ''tablet''), (''AudioAccessory'', ''smart_speaker''), (''AppleTV'', ''media_player''),
        (''Watch'', ''wearable''), (''MacBook'', ''laptop''), (''iMac'', ''desktop''), (''Mac'', ''desktop'')])"

definition apple_evidence :: "int \<Rightarrow> ustr option \<Rightarrow> evidence list" where
  "apple_evidence now code =
     (if \<not> truthy code then []
      else case ModelLookup_map of
        None \<Rightarrow> []
      | Some amap \<Rightarrow>
          let c = the code; friendly = (case find (\<lambda>x. lit (fst x) = c) amap of None \<Rightarrow> c | Some x \<Rightarrow> lit (snd x))
          in [(evd now ''mdns_apple_model'' ''exact'' (92 / 100)
                 [(''apple_model_code'', PStr c), (''resolved_name'', PStr friendly)])
                \<lparr>vendor := cat ''Apple'', model := Some friendly, category := apple_category c,
                 platform := cat ''iOS/macOS''\<rparr>])"

section \<open>The host name of an announcement\<close>

text \<open>The target of the SRV record first, then the friendly name, then the name of the instance.\<close>

definition best_name :: "ustr option \<Rightarrow> ustr option \<Rightarrow> ustr option \<Rightarrow> ustr option" where
  "best_name srv friendly name =
     (if truthy srv \<and> is_valid_hostname srv then srv
      else if truthy friendly \<and> is_valid_hostname friendly then friendly
      else if truthy name \<and> is_valid_hostname name then name else None)"

definition name_evidence ::
    "int \<Rightarrow> mac \<Rightarrow> pyval \<Rightarrow> ustr option \<Rightarrow> ustr option \<Rightarrow> ustr option \<Rightarrow> evidence list" where
  "name_evidence now m ty name friendly srv =
     (let h = (if cross_device m name then None else best_name srv friendly name);
          (src, c) = (if truthy srv \<and> h = srv then (''mdns_srv'', 85 / 100)
                      else if truthy friendly \<and> h = friendly then (''mdns_name'', 75 / 100)
                      else (''mdns_name'', 65 / 100))
      in if \<not> truthy h then []
         else [(evd now src ''exact'' c [(''name'', opt_str name), (''service_type'', ty),
                  (''friendly_name'', opt_str friendly), (''srv_target'', opt_str srv)])\<lparr>hostname := h\<rparr>])"

definition txt_records :: "captured_packet \<Rightarrow> dict" where
  "txt_records p = (case fget p ''txt_records'' of PDict d \<Rightarrow> d | _ \<Rightarrow> [])"

definition analyze_mdns :: "int \<Rightarrow> pattern_data \<Rightarrow> captured_packet \<Rightarrow> evidence list" where
  "analyze_mdns now pd p =
     (let m = hw_addr p; ty = fget p ''service_type''; name = ftext p ''name''; d = txt_records p
      in (if truthy (textv ty) then service_evidence now pd m (the (textv ty)) name else []) @
         instance_evidence now m ty name @
         txt_evidence now (reflected m name) d @
         apple_evidence now (ftext p ''apple_model'') @
         name_evidence now m ty name (textv (dget d ''fn'')) (ftext p ''srv_target''))"

section \<open>NetBIOS, UPnP, SSDP\<close>

definition analyze_netbios :: "int \<Rightarrow> pattern_data \<Rightarrow> captured_packet \<Rightarrow> evidence list" where
  "analyze_netbios now pd p =
     (let name = ftext p ''query_name''
      in if \<not> truthy name then []
         else (evd now ''netbios'' ''exact'' (70 / 100)
                 [(''query_name'', PStr (the name)), (''query_type'', cp_get p ''query_type'' (pstr ''llmnr'')),
                  (''netbios_suffix'', fget p ''netbios_suffix'')])\<lparr>hostname := name\<rparr> #
              (case match_hostname pd (the name) of
                 None \<Rightarrow> []
               | Some a \<Rightarrow> [(match_evd now ''netbios'' 65 a [(''query_name'', PStr (the name))])\<lparr>hostname := name\<rparr>]))"

text \<open>The preview of a UPnP packet must be a text: anything else has no \<open>lower\<close>, or no slices.\<close>

definition upnp_category :: "ustr \<Rightarrow> ustr option" where
  "upnp_category t =
     (if contains_sub (lit ''mediarenderer'') t then cat ''media_player''
      else if contains_sub (lit ''mediaserver'') t then cat ''media_server''
      else if contains_sub (lit ''internetgateway'') t then cat ''router'' else None)"

definition analyze_upnp :: "int \<Rightarrow> captured_packet \<Rightarrow> py_error + evidence list" where
  "analyze_upnp now p =
     (case cp_get p ''payload_preview'' (PStr []) of
        PStr t \<Rightarrow> Inr [(evd now ''upnp'' ''pattern'' (60 / 100)
          [(''dst_port'', fget p ''dst_port''), (''preview'', PStr (take 100 t))])\<lparr>category := upnp_category (lower t)\<rparr>]
      | PList vs \<Rightarrow> Inl AttributeError
      | _ \<Rightarrow> Inl TypeError)"

definition analyze_ssdp :: "int \<Rightarrow> pattern_data \<Rightarrow> captured_packet \<Rightarrow> evidence list" where
  "analyze_ssdp now pd p =
     (let server = ftext p ''server''
      in if \<not> truthy server then []
         else evd now ''ssdp_server'' ''pattern'' (65 / 100) [(''server'', PStr (the server)), (''st'', fget p ''st'')] #
              (case match_ssdp_server pd (the server) of
                 None \<Rightarrow> []
               | Some a \<Rightarrow> [match_evd now ''ssdp_server'' 65 a [(''server'', PStr (the server))]]))"

end
