(* ===== verification/ObserversInfra.thy ===== *)
theory ObserversInfra
  imports Observers
begin

text \<open>
  The processors \<open>infrastructure.py\<close>, \<open>discovery_enhanced.py\<close> and \<open>banner.py\<close> of \<open>processors/\<close>.
  Regular expressions are written with the constructors of \<open>Regex\<close>; \<open>re_ci\<close> is a literal without
  regard to case.  An operation that raises on a missing text gives an error.
\<close>

section \<open>infrastructure.py\<close>

definition LLDP_CAP_MAP :: "(ustr \<times> string) list" where
  "LLDP_CAP_MAP = map (\<lambda>(k, c). (lit k, c))
    [(''router'', ''router''), (''bridge'', ''switch''), (''wlan_ap'', ''access_point''), (''station'', ''endpoint''),
     (''telephone'', ''voip_phone''), (''docsis'', ''cable_modem''), (''repeater'', ''switch'')]"

definition CAP_PRIORITY :: "(string \<times> nat) list" where
  "CAP_PRIORITY = [(''router'', 1), (''switch'', 2), (''access_point'', 3), (''voip_phone'', 4), (''cable_modem'', 5),
     (''endpoint'', 6)]"

definition CDP_CAP_MAP :: "(ustr \<times> string) list" where
  "CDP_CAP_MAP = map (\<lambda>(k, c). (lit k, c))
    [(''router'', ''router''), (''switch'', ''switch''), (''host'', ''workstation''), (''phone'', ''voip_phone''),
     (''igmp'', ''router'')]"

text \<open>The mapped capability with the best priority, the first among equals.\<close>

definition lldp_device_type :: "ustr list \<Rightarrow> string option" where
  "lldp_device_type caps = fst (foldl (\<lambda>(ty, best) c.
     case dict_get LLDP_CAP_MAP c of
       None \<Rightarrow> (ty, best)
     | Some m \<Rightarrow> if get_or CAP_PRIORITY m 99 < best then (Some m, get_or CAP_PRIORITY m 99) else (ty, best))
     (None, 999) caps)"

text \<open>Vendor and platform betrayed by the description.\<close>

definition lldp_software :: "ustr \<Rightarrow> ustr option \<times> ustr option" where
  "lldp_software descr =
     (let d = lower descr; has = (\<lambda>t. contains_sub (lit t) d)
      in if has ''cisco ios'' \<or> has ''cisco nx-os'' then (cat ''Cisco'', cat (if has ''nx-os'' then ''NX-OS'' else ''IOS''))
         else if has ''junos'' then (cat ''Juniper'', cat ''Junos'')
         else if has ''linux'' then (None, cat ''Linux'')
         else if has ''windows'' then (None, cat ''Windows'')
         else if has ''aruba'' then (cat ''Aruba'', cat ''ArubaOS'')
         else if has ''extreme'' then (cat ''Extreme'', None)
         else if has ''fortinet'' \<or> has ''fortigate'' then (cat ''Fortinet'', cat ''FortiOS'')
         else if has ''mikrotik'' \<or> has ''routeros'' then (cat ''MikroTik'', cat ''RouterOS'')
         else (None, None))"

text \<open>The UniFi models, by the beginning of the first part of the description.\<close>

definition UNIFI_MODELS :: "(re \<times> string) list" where
  "UNIFI_MODELS =
    [(Seq Bol (Grp 1 (re_alts [re_seq [re_str (lit ''us''), re_opt (Cls (chr_is 119)), Cls (chr_is 45)],
        re_str (lit ''us8''), re_str (lit ''us16''), re_str (lit ''us24''), re_str (lit ''us48'')])), ''switch''),
     (Seq Bol (Grp 1 (re_alts (map (\<lambda>t. re_str (lit t)) [''uap'', ''u6'', ''u7'', ''nanohd'', ''flexhd'', ''beaconhd'']))),
        ''access_point''),
     (Seq Bol (Grp 1 (re_alts (map (\<lambda>t. re_str (lit t)) [''udm'', ''ucg'', ''udr'', ''usg'', ''edgerouter'']))), ''router'')]"

definition analyze_lldp :: "int \<Rightarrow> captured_packet \<Rightarrow> evidence list" where
  "analyze_lldp now p =
     (let sys_name = textv (cp_get p ''system_name'' (PStr [])); descr = textv (cp_get p ''system_description'' (PStr []));
          ty = lldp_device_type (ftexts p ''capabilities'');
          (vend, plat) = lldp_software (text_of descr);
          model_str = strip (hd (split_on 44 (text_of descr)));
          unifi = (if truthy descr then find (\<lambda>(r, t). re_match r (lower model_str) \<noteq> None) UNIFI_MODELS else None);
          vend = (if unifi = None then vend else cat ''Ubiquiti'');
          ty = (case unifi of None \<Rightarrow> ty | Some (r, t) \<Rightarrow> Some t);
          mdl = (if unifi \<noteq> None \<and> model_str \<noteq> [] then Some model_str else if truthy sys_name then sys_name else None)
      in [(evd now ''lldp'' ''exact'' (if ty = Some ''endpoint'' then 60 / 100 else 90 / 100)
             [(''system_name'', cp_get p ''system_name'' (PStr [])), (''system_description'', cp_get p ''system_description'' (PStr [])),
              (''capabilities'', if py_truthy (fget p ''capabilities'') then fget p ''capabilities'' else PList []),
              (''management_ip'', fget p ''management_ip'')])
           \<lparr>category := map_option lit ty, vendor := vend, platform := plat, model := mdl,
            hostname := (if truthy sys_name then sys_name else None)\<rparr>])"

text \<open>The first capability that is known.\<close>

definition cdp_device_type :: "ustr list \<Rightarrow> string option" where
  "cdp_device_type caps = first_some (\<lambda>c. dict_get CDP_CAP_MAP (lower c)) caps"

definition cdp_model :: "ustr \<Rightarrow> ustr option \<times> ustr option" where
  "cdp_model plat =
     (if plat = [] then (None, None)
      else if contains_sub (lit ''cisco'') (lower plat)
      then (cat ''Cisco'',
            let rest = (if starts_with (lit ''cisco '') plat \<or> starts_with (lit ''Cisco '') plat
                        then strip (drop 6 plat) else [])
            in Some (if rest = [] then plat else rest))
      else (None, Some plat))"

definition cdp_os :: "ustr \<Rightarrow> ustr option" where
  "cdp_os version =
     (let v = lower version; has = (\<lambda>t. contains_sub (lit t) v)
      in if has ''ios-xe'' then cat ''IOS-XE'' else if has ''ios'' \<and> has ''cisco'' then cat ''IOS''
         else if has ''nx-os'' then cat ''NX-OS'' else if has ''adaptive security'' \<or> has ''asa'' then cat ''ASA'' else None)"

definition CDP_VERSION_RE :: re where
  "CDP_VERSION_RE = re_seq [re_str (lit ''Version''), re_plus (Cls is_space),
     Grp 1 (re_plus (Cls (\<lambda>c. is_digit c \<or> is_letter c \<or> c = 46 \<or> c = 40 \<or> c = 41)))]"

text \<open>\<open>re.search\<close> of a missing software version raises.\<close>

definition analyze_cdp :: "int \<Rightarrow> captured_packet \<Rightarrow> py_error + evidence list" where
  "analyze_cdp now p =
     (case cp_get p ''software_version'' (PStr []) of
        PStr version \<Rightarrow>
          let plat = text_of (textv (cp_get p ''platform'' (PStr [])));
              ver = (case re_search CDP_VERSION_RE version of None \<Rightarrow> None | Some (i, m) \<Rightarrow> group_of version m 1)
          in Inr [(evd now ''cdp'' ''exact'' (92 / 100)
                [(''device_id'', cp_get p ''device_id'' (PStr [])), (''platform'', cp_get p ''platform'' (PStr [])),
                 (''software_version'', PStr version),
                 (''capabilities'', if py_truthy (fget p ''capabilities'') then fget p ''capabilities'' else PList []),
                 (''management_ip'', fget p ''management_ip'')])
              \<lparr>category := map_option lit (cdp_device_type (ftexts p ''capabilities'')), vendor := fst (cdp_model plat),
               platform := cdp_os version, platform_version := ver, model := snd (cdp_model plat)\<rparr>]
      | _ \<Rightarrow> Inl TypeError)"

definition stp_certainty :: "rat \<Rightarrow> bool \<Rightarrow> rat" where
  "stp_certainty priority is_root =
     (let c = (if priority < 8192 then 45 / 100 else if priority < 32768 then 35 / 100 else 20 / 100)
      in if is_root then min (c + 5 / 100) (45 / 100) else c)"

definition analyze_stp :: "int \<Rightarrow> captured_packet \<Rightarrow> evidence list" where
  "analyze_stp now p =
     [(evd now ''stp'' ''heuristic'' (stp_certainty (num_of (cp_get p ''bridge_priority'' (PInt 32768))) (is_flag p ''is_root''))
         [(''bridge_priority'', cp_get p ''bridge_priority'' (PInt 32768)), (''bridge_mac'', cp_get p ''bridge_mac'' (PStr [])),
          (''is_root'', cp_get p ''is_root'' (PBool False)), (''root_mac'', cp_get p ''root_mac'' (PStr [])),
          (''root_priority'', cp_get p ''root_priority'' (PInt 32768)), (''bridge_id'', cp_get p ''bridge_id'' (PStr [])),
          (''root_id'', cp_get p ''root_id'' (PStr [])), (''port_id'', cp_get p ''port_id'' (PInt 0)),
          (''interface'', opt_text (cp_interface p))])
        \<lparr>category := cat ''switch''\<rparr>]"

definition analyze_dtp :: "int \<Rightarrow> captured_packet \<Rightarrow> evidence list" where
  "analyze_dtp now p =
     [(evd now ''dtp'' ''exact'' (90 / 100)
         [(''mode'', cp_get p ''mode'' (pstr ''unknown'')), (''status_byte'', fget p ''status_byte''),
          (''negotiating'', cp_get p ''negotiating'' (PBool False)), (''encap'', fget p ''encap''), (''domain'', fget p ''domain''),
          (''neighbor_mac'', fget p ''neighbor_mac''), (''src_mac'', cp_get p ''src_mac'' (PStr [])),
          (''interface'', opt_text (cp_interface p))])
        \<lparr>category := cat ''switch''\<rparr>]"

definition SNMP_LINUX_RE :: re where
  "SNMP_LINUX_RE = re_seq [re_str (lit ''Linux''), re_plus (Cls is_space), re_plus (Cls (\<lambda>c. \<not> is_space c)),
     re_plus (Cls is_space), Grp 1 (re_plus (Cls (\<lambda>c. is_digit c \<or> c = 46)))]"

text \<open>Vendor, platform, version and type betrayed by the system description.\<close>

definition snmp_system :: "ustr \<Rightarrow> ustr option \<times> ustr option \<times> ustr option \<times> ustr option" where
  "snmp_system descr =
     (let d = lower descr; has = (\<lambda>t. contains_sub (lit t) d)
      in if has ''cisco ios'' \<or> has ''cisco nx-os'' \<or> has ''cisco adaptive'' \<or> has ''asa'' \<or> has ''pix'' then
           (if has ''asa'' \<or> has ''adaptive security'' \<or> has ''pix'' then (cat ''Cisco'', cat ''ASA'', None, cat ''firewall'')
            else if has ''nx-os'' then (cat ''Cisco'', cat ''NX-OS'', None, cat ''switch'')
            else if has ''ios-xe'' then (cat ''Cisco'', cat ''IOS-XE'', None, cat (if has ''router'' then ''router'' else ''network_device''))
            else if has ''wireless'' \<or> has ''air-'' \<or> has ''wlc'' then (cat ''Cisco'', cat ''IOS'', None, cat ''wireless_controller'')
            else if has ''ios'' \<and> has ''router'' then (cat ''Cisco'', cat ''IOS'', None, cat ''router'')
            else (cat ''Cisco'', cat ''IOS'', None, cat ''network_device''))
         else if has ''junos'' then (cat ''Juniper'', cat ''Junos'', None, None)
         else if has ''linux'' then (None, cat ''Linux'',
           case re_search SNMP_LINUX_RE descr of None \<Rightarrow> None | Some (i, m) \<Rightarrow> group_of descr m 1, None)
         else if has ''windows'' then (None, cat ''Windows'', None, None)
         else if has ''freebsd'' then (None, cat ''FreeBSD'', None, None)
         else if has ''net-snmp'' then (None, cat ''Linux'', None, None)
         else if has ''arista'' then (cat ''Arista'', cat ''EOS'', None, None)
         else if has ''hp'' \<or> has ''procurve'' then (cat ''HP'', None, None, cat ''switch'')
         else if has ''ubiquiti'' \<or> has ''unifi'' then (cat ''Ubiquiti'', None, None, None)
         else if has ''fortinet'' then (cat ''Fortinet'', cat ''FortiOS'', None, None)
         else (None, None, None, None))"

definition analyze_snmp :: "int \<Rightarrow> captured_packet \<Rightarrow> evidence list" where
  "analyze_snmp now p =
     (let descr = textv (cp_get p ''sys_descr'' (PStr []));
          (vend, plat, ver, ty) = (if truthy descr then snmp_system (the descr) else (None, None, None, None))
      in [(evd now ''snmp'' (if truthy descr then ''exact'' else ''heuristic'') (if truthy descr then 85 / 100 else 30 / 100)
             (map (\<lambda>k. (k, cp_get p k (PStr [])))
                [''version'', ''community'', ''pdu_type'', ''sys_descr'', ''sys_name'', ''sys_object_id'']))
           \<lparr>category := ty, vendor := vend, platform := plat, platform_version := ver\<rparr>])"

section \<open>discovery\_enhanced.py\<close>

definition analyze_dhcp_server :: "int \<Rightarrow> captured_packet \<Rightarrow> evidence list" where
  "analyze_dhcp_server now p =
     [(evd now ''dhcp_server'' ''heuristic'' (55 / 100) [(''role'', pstr ''dhcp_server''), (''message_type'', fget p ''message_type''),
         (''client_mac'', fget p ''client_mac''), (''offered_ip'', fget p ''offered_ip'')])
        \<lparr>category := cat ''infrastructure''\<rparr>]"

definition analyze_dns_server :: "int \<Rightarrow> captured_packet \<Rightarrow> evidence list" where
  "analyze_dns_server now p =
     [evd now ''dns_server'' ''heuristic'' (40 / 100) [(''role'', pstr ''dns_server''), (''answer_count'', cp_get p ''answer_count'' (PInt 0))]]"

definition analyze_ws_discovery :: "int \<Rightarrow> captured_packet \<Rightarrow> evidence list" where
  "analyze_ws_discovery now p =
     (let mf = ftext p ''manufacturer''; mdl = ftext p ''model''; types = ftexts p ''device_types'';
          ts = (if py_truthy (fget p ''device_types'') then fget p ''device_types'' else PList [])
      in if truthy mf \<or> truthy mdl
         then [(evd now ''ws_discovery'' ''exact'' (85 / 100) [(''device_types'', ts), (''firmware'', fget p ''firmware''), (''action'', fget p ''action'')])
                 \<lparr>vendor := mf, model := mdl, category := (case types of [] \<Rightarrow> None | t # _ \<Rightarrow> Some t)\<rparr>]
         else (case types of
                 [] \<Rightarrow> []
               | t # _ \<Rightarrow> [(evd now ''ws_discovery'' ''heuristic'' (65 / 100) [(''device_types'', ts), (''action'', fget p ''action'')])
                             \<lparr>category := Some t\<rparr>]))"

definition analyze_ntp :: "int \<Rightarrow> captured_packet \<Rightarrow> evidence list" where
  "analyze_ntp now p =
     (if fget p ''mode'' \<in> {pstr ''server'', pstr ''broadcast'', pstr ''client''}
      then [evd now ''ntp'' ''heuristic'' (30 / 100) [(''ntp_role'', fget p ''mode''), (''stratum'', cp_get p ''stratum'' (PInt 0)),
              (''reference_id'', fget p ''reference_id'')]]
      else [])"

section \<open>banner.py\<close>

definition SERVICE_CATEGORIES :: "(ustr \<times> string \<times> rat) list" where
  "SERVICE_CATEGORIES = map (\<lambda>(k, c). (lit k, c))
    [(''ssh'', ''server'', 30 / 100), (''ftp'', ''server'', 40 / 100), (''smtp'', ''server'', 50 / 100), (''imap'', ''server'', 50 / 100),
     (''pop3'', ''server'', 50 / 100), (''mysql'', ''server'', 85 / 100), (''postgresql'', ''server'', 85 / 100),
     (''mssql'', ''server'', 85 / 100), (''mongodb'', ''server'', 85 / 100), (''redis'', ''server'', 85 / 100),
     (''irc'', ''server'', 70 / 100), (''ipp'', ''printer'', 85 / 100), (''jetdirect'', ''printer'', 85 / 100),
     (''lpd'', ''printer'', 85 / 100), (''mqtt'', ''server'', 60 / 100), (''amqp'', ''server'', 75 / 100),
     (''sip'', ''server'', 60 / 100), (''rtsp'', ''ip_camera'', 85 / 100), (''unifiprotect'', ''ip_camera'', 85 / 100),
     (''ldap'', ''server'', 75 / 100), (''cassandra'', ''server'', 85 / 100), (''elasticsearch'', ''server'', 85 / 100),
     (''docker_api'', ''server'', 85 / 100), (''kubernetes_api'', ''server'', 85 / 100), (''socks'', ''server'', 70 / 100),
     (''bgp'', ''router'', 85 / 100), (''pptp'', ''server'', 70 / 100)]"

definition SERVICE_PLATFORMS :: "(ustr \<times> string) list" where
  "SERVICE_PLATFORMS = [(lit ''mssql'', ''Windows'')]"

definition SOFTWARE_VENDORS :: "(string \<times> string) list" where
  "SOFTWARE_VENDORS =
    [(''openssh'', ''OpenSSH''), (''dropbear'', ''Dropbear''), (''proftpd'', ''ProFTPD''), (''vsftpd'', ''vsFTPd''),
     (''postfix'', ''Postfix''), (''exim'', ''Exim''), (''dovecot'', ''Dovecot''), (''mysql'', ''MySQL''), (''mariadb'', ''MariaDB''),
     (''postgresql'', ''PostgreSQL''), (''microsoft sql server'', ''Microsoft''), (''mongodb'', ''MongoDB''), (''redis'', ''Redis''),
     (''elasticsearch'', ''Elastic''), (''docker'', ''Docker''), (''kubernetes'', ''Kubernetes''), (''rabbitmq'', ''RabbitMQ''),
     (''unifi protect'', ''Ubiquiti''), (''ubiquiti'', ''Ubiquiti'')]"

definition SSH_OS_HINTS :: "(string \<times> string) list" where
  "SSH_OS_HINTS = [(''ubuntu'', ''Linux''), (''debian'', ''Linux''), (''freebsd'', ''FreeBSD''), (''el7'', ''Linux''), (''el8'', ''Linux''),
     (''el9'', ''Linux''), (''fc'', ''Linux''), (''amzn'', ''Linux''), (''alpine'', ''Linux''), (''arch'', ''Linux'')]"

text \<open>The value of the first key that occurs in the text.\<close>

definition hint_in :: "(string \<times> string) list \<Rightarrow> ustr \<Rightarrow> string option" where
  "hint_in table t = map_option snd (find (\<lambda>(k, v). contains_sub (lit k) t) table)"

definition resolve_vendor :: "ustr option \<Rightarrow> ustr option" where
  "resolve_vendor software =
     (if \<not> truthy software then None
      else case hint_in SOFTWARE_VENDORS (lower (the software)) of None \<Rightarrow> software | Some v \<Rightarrow> Some (lit v))"

text \<open>The expressions for the devices of operation technology.  Classes such as \<open>[A-Z]\<close> under
  IGNORECASE are \<open>is_letter_ci\<close>; \<open>many c n m\<close> repeats a class.\<close>

abbreviation many :: "(nat \<Rightarrow> bool) \<Rightarrow> nat \<Rightarrow> nat option \<Rightarrow> re" where
  "many c n m \<equiv> Rep n m True (Cls c)"

abbreviation spaces :: re where
  "spaces \<equiv> many is_space 0 None"

definition words_ci :: "string list \<Rightarrow> re" where
  "words_ci ts = re_alts (map (\<lambda>t. re_ci (lit t)) ts)"

text \<open>\<open>(?:Name\s+)?\<close>.\<close>

definition maybe_name :: "string \<Rightarrow> re" where
  "maybe_name n = re_opt (Seq (re_ci (lit n)) (many is_space 1 None))"

definition SEL_RE :: re where
  "SEL_RE = Grp 1 (re_seq [re_ci (lit ''SEL-''), many is_digit 3 (Some 4), many is_letter_ci 0 (Some 1)])"

definition FID_RE :: re where
  "FID_RE = Seq (re_str (lit ''FID='')) (Grp 1 (many (\<lambda>c. is_word_char c \<or> c = 45) 1 None))"

definition GE_RE :: re where
  "GE_RE = re_seq [maybe_name ''GE'', re_ci (lit ''Multilin''), many is_space 1 None,
     Grp 1 (Seq (Cls is_letter_ci) (many is_digit 2 (Some 3)))]"

definition SCHNEIDER_RE :: re where
  "SCHNEIDER_RE = Alt
     (re_seq [re_ci (lit ''BMX''), spaces, Cls is_letter_ci, many is_digit 2 (Some 2), spaces, many is_digit 4 (Some 4)])
     (re_seq [re_ci (lit ''Modicon''), many is_space 1 None, Cls is_letter_ci, many is_digit 3 (Some 4)])"

definition SIEMENS_RE :: re where
  "SIEMENS_RE = re_seq [maybe_name ''SIMATIC'', re_ci (lit ''S7-''), Grp 1 (many is_digit 3 (Some 4))]"

definition SIEMENS_ORDER_RE :: re where
  "SIEMENS_ORDER_RE = re_seq [re_str (lit ''6ES7''), spaces, many is_digit 3 (Some 3)]"

definition WOODWARD_RE :: re where
  "WOODWARD_RE = re_alts [re_ci (lit ''easYgen''), re_ci (lit ''MicroNet''),
     re_seq [re_ci (lit ''Woodward''), many (\<lambda>c. c \<noteq> 10) 0 None, words_ci [''2301'', ''DECS'', ''ProTech'']]]"

definition ABB_RE :: re where
  "ABB_RE = re_seq [re_ci (lit ''ABB''), many is_space 1 None, Grp 1 (re_alts
     [re_seq [re_ci (lit ''AC''), many is_digit 3 (Some 3), many is_letter_ci 0 (Some 1)],
      Seq (re_ci (lit ''ACS'')) (many is_digit 3 (Some 3)),
      re_seq [re_ci (lit ''RE''), words_ci [''F'', ''T'', ''L''], many is_digit 3 (Some 3)],
      re_ci (lit ''800xA''), re_ci (lit ''Relion'')])]"

definition ABB_MODEL_RE :: re where
  "ABB_MODEL_RE = Grp 1 (re_alts
     [re_ci (lit ''AC500''), Seq (re_ci (lit ''AC800'')) (many is_letter_ci 0 (Some 1)),
      Seq (re_ci (lit ''ACS'')) (many is_digit 3 (Some 3)),
      re_seq [re_ci (lit ''RE''), words_ci [''F'', ''T'', ''L''], many is_digit 3 (Some 3)]])"

definition ROCKWELL_RE :: re where
  "ROCKWELL_RE = re_seq [maybe_name ''Allen-Bradley'',
     words_ci [''ControlLogix'', ''CompactLogix'', ''MicroLogix'', ''GuardLogix'', ''PanelView'', ''PowerFlex'', ''Stratix''],
     spaces, many is_digit 0 None]"

definition ROCKWELL_ORDER_RE :: re where
  "ROCKWELL_ORDER_RE = Seq (re_alts (map (\<lambda>t. re_str (lit t)) [''1756'', ''1769'', ''1762'', ''2711'', ''20-'']))
     (many (\<lambda>c. (65 \<le> c \<and> c \<le> 90) \<or> is_digit c \<or> c = 45) 1 None)"

definition HONEYWELL_RE :: re where
  "HONEYWELL_RE = Seq (maybe_name ''Honeywell'') (re_alts
     [re_ci (lit ''Experion''), re_ci (lit ''ControlEdge''), re_ci (lit ''HC900''),
      re_seq [re_ci (lit ''Safety''), spaces, re_ci (lit ''Manager'')], re_ci (lit ''MasterLogic'')])"

definition EMERSON_RE :: re where
  "EMERSON_RE = Seq (maybe_name ''Emerson'') (re_alts
     [re_ci (lit ''DeltaV''), Seq (re_ci (lit ''ROC'')) (many is_digit 3 (Some 4)), re_ci (lit ''Ovation''),
      re_seq [re_ci (lit ''Fisher''), many is_space 1 None, re_ci (lit ''ROC'')]])"

definition YOKOGAWA_RE :: re where
  "YOKOGAWA_RE = Seq (maybe_name ''Yokogawa'') (re_alts
     [re_seq [re_ci (lit ''CENTUM''), spaces, re_ci (lit ''V''), many (chr_ci 80) 0 (Some 1)], re_ci (lit ''ProSafe''),
      re_ci (lit ''STARDOM''), re_ci (lit ''FA-M3''), re_ci (lit ''FAST/TOOLS'')])"

definition MITSUBISHI_RE :: re where
  "MITSUBISHI_RE = Seq (maybe_name ''Mitsubishi'') (re_alts
     [re_ci (lit ''MELSEC''), re_seq [re_ci (lit ''iQ-''), words_ci [''R'', ''F''], spaces, many is_word_char 0 None],
      re_seq [re_ci (lit ''FX''), Cls (\<lambda>c. c = 51 \<or> c = 53), many is_letter_ci 1 None],
      Seq (re_ci (lit ''GOT'')) (many is_digit 4 (Some 4)),
      re_seq [re_ci (lit ''Q''), many is_digit 2 (Some 2), many is_letter_ci 0 None, re_ci (lit ''CPU'')]])"

definition OMRON_RE :: re where
  "OMRON_RE = Seq (maybe_name ''Omron'') (re_alts
     [Seq (re_ci (lit ''NX'')) (many is_digit 3 (Some 3)), Seq (re_ci (lit ''NJ'')) (many is_digit 3 (Some 3)),
      re_seq [re_ci (lit ''CJ''), Cls (\<lambda>c. c = 49 \<or> c = 50), Cls is_letter_ci],
      Seq (re_ci (lit ''CP1'')) (Cls is_letter_ci), re_ci (lit ''Sysmac'')])"

definition MOXA_RE :: re where
  "MOXA_RE = Seq (maybe_name ''Moxa'') (re_alts
     [re_seq [re_ci (lit ''ioLogik''), spaces, many is_letter_ci 0 (Some 1), many is_digit 4 (Some 4)],
      re_seq [re_ci (lit ''NPort''), spaces, many is_digit 4 (Some 4)],
      Seq (re_ci (lit ''EDS-'')) (many is_digit 3 (Some 4))])"

definition SCADAPACK_RE :: re where
  "SCADAPACK_RE = re_seq [re_ci (lit ''SCADAPack''), spaces, many is_digit 0 None]"

definition CODESYS_RE :: re where
  "CODESYS_RE = re_seq [re_ci (lit ''CODESYS''), spaces, re_opt (re_ci (lit ''Control'')),
     re_opt (re_seq [spaces, many (chr_ci 86) 0 (Some 1),
       Grp 1 (re_seq [many is_digit 1 None, Cls (chr_is 46), many is_digit 1 None])])]"

definition FW_RE :: re where
  "FW_RE = re_seq [words_ci [''FW'', ''Firmware'', ''Version'', ''Rev''], many (\<lambda>c. c = 58 \<or> is_space c) 1 None,
     Grp 1 (Seq (many is_digit 1 None) (re_plus (Seq (Cls (chr_is 46)) (many is_digit 1 None))))]"

text \<open>The text of a match, and one of its groups.\<close>

definition found :: "re \<Rightarrow> ustr \<Rightarrow> nat \<Rightarrow> ustr option" where
  "found r s n = (case re_search r s of None \<Rightarrow> None | Some m \<Rightarrow> match_group s m n)"

definition ot_evd :: "int \<Rightarrow> ustr \<Rightarrow> rat \<Rightarrow> string \<Rightarrow> ustr \<Rightarrow> string \<Rightarrow> evidence" where
  "ot_evd now banner c vend mdl category' =
     (evd now ''passive_banner'' ''pattern'' c [(''banner'', PStr (take 200 banner))])
       \<lparr>vendor := cat vend, model := Some mdl, category := cat category'\<rparr>"

text \<open>Evidence when the expression was found, from the text of the match.\<close>

definition when_found :: "ustr option \<Rightarrow> (ustr \<Rightarrow> evidence) \<Rightarrow> evidence list" where
  "when_found m f = (case m of None \<Rightarrow> [] | Some t \<Rightarrow> [f t])"

definition or_found :: "ustr option \<Rightarrow> ustr option \<Rightarrow> ustr option" where
  "or_found a b = (if a = None then b else a)"

definition ot_results :: "int \<Rightarrow> ustr \<Rightarrow> evidence list" where
  "ot_results now b =
     (let up = upper b; E = ot_evd now b; has = (\<lambda>t. contains_sub (lit t) up)
      in when_found (found SEL_RE b 1) (\<lambda>m. (E (90 / 100) ''SEL'' (upper m) ''ics_device'')
            \<lparr>ev_raw := [(''banner'', PStr (take 200 b)), (''fid'', opt_str (found FID_RE b 1))]\<rparr>) @
         when_found (found GE_RE b 1) (\<lambda>m. E (90 / 100) ''GE'' (lit ''GE Multilin '' @ upper m) ''ics_device'') @
         when_found (found SCHNEIDER_RE b 0) (\<lambda>m. E (85 / 100) ''Schneider Electric'' m ''plc'') @
         when_found (or_found (if has ''SIEMENS'' \<or> has ''SIMATIC'' then found SIEMENS_RE b 0 else None) (found SIEMENS_ORDER_RE b 0))
           (\<lambda>m. E (85 / 100) ''Siemens'' m ''plc'') @
         when_found (found WOODWARD_RE b 0) (\<lambda>m. E (85 / 100) ''Woodward'' m ''ics_device'') @
         when_found (or_found (found ABB_RE b 0) (if has ''ABB'' then found ABB_MODEL_RE b 0 else None))
           (\<lambda>m. E (85 / 100) ''ABB'' m (if contains_sub (lit ''AC'') (upper m) then ''plc'' else ''ics_device'')) @
         when_found (or_found (found ROCKWELL_RE b 0)
             (if has ''ALLEN-BRADLEY'' \<or> has ''ROCKWELL'' then found ROCKWELL_ORDER_RE b 0 else None))
           (\<lambda>m. E (85 / 100) ''Rockwell'' m
              (if contains_sub (lit ''panelview'') (lower m) then ''hmi''
               else if contains_sub (lit ''stratix'') (lower m) then ''industrial_switch''
               else if contains_sub (lit ''powerflex'') (lower m) then ''ics_device'' else ''plc'')) @
         when_found (found HONEYWELL_RE b 0) (\<lambda>m. E (85 / 100) ''Honeywell'' m
              (if contains_sub (lit ''experion'') (lower m) then ''scada_server'' else ''plc'')) @
         when_found (found EMERSON_RE b 0) (\<lambda>m. E (85 / 100) ''Emerson'' m
              (if contains_sub (lit ''roc'') (lower m) then ''rtu'' else ''scada_server'')) @
         when_found (found YOKOGAWA_RE b 0) (\<lambda>m. E (85 / 100) ''Yokogawa'' m ''scada_server'') @
         when_found (found MITSUBISHI_RE b 0) (\<lambda>m. E (85 / 100) ''Mitsubishi'' m
              (if contains_sub (lit ''got'') (lower m) then ''hmi'' else ''plc'')) @
         when_found (found OMRON_RE b 0) (\<lambda>m. E (80 / 100) ''Omron'' m ''plc'') @
         when_found (found MOXA_RE b 0) (\<lambda>m. E (85 / 100) ''Moxa'' m
              (if contains_sub (lit ''eds'') (lower m) then ''industrial_switch'' else ''ics_device'')) @
         when_found (found SCADAPACK_RE b 0) (\<lambda>m. E (85 / 100) ''Schneider Electric'' m ''rtu'') @
         when_found (found CODESYS_RE b 0) (\<lambda>m.
            (evd now ''passive_banner'' ''pattern'' (70 / 100) [(''banner'', PStr (take 200 b))])
              \<lparr>model := cat ''CODESYS Runtime'', category := cat ''plc'', platform := cat ''CODESYS'',
               platform_version := found CODESYS_RE b 1\<rparr>))"

text \<open>A firmware version goes to the first piece of evidence when that has none.\<close>

definition extract_ot_identity :: "int \<Rightarrow> ustr \<Rightarrow> evidence list" where
  "extract_ot_identity now b =
     (case ot_results now b of
        [] \<Rightarrow> []
      | e # es \<Rightarrow> (if found FW_RE b 1 \<noteq> None \<and> \<not> truthy (platform_version e)
                  then e\<lparr>platform_version := found FW_RE b 1\<rparr> else e) # es)"

definition analyze_banner :: "int \<Rightarrow> captured_packet \<Rightarrow> evidence list" where
  "analyze_banner now p =
     (let service = ftext p ''service''; software = textv (cp_get p ''software'' (PStr []))
      in if \<not> truthy service then []
         else
           let svc = the service; entry = dict_get SERVICE_CATEGORIES svc;
               hint = (if svc = lit ''ssh'' \<and> truthy software then hint_in SSH_OS_HINTS (lower (the software)) else None);
               plat = (if hint = None then dict_get SERVICE_PLATFORMS svc else hint);
               raw_banner = ftext p ''raw_banner'';
               banner = (if truthy raw_banner then raw_banner else ftext p ''banner'')
           in (evd now ''passive_banner'' ''pattern'' (case entry of None \<Rightarrow> 85 / 100 | Some (c, r) \<Rightarrow> r)
                 [(''service'', PStr svc), (''software'', cp_get p ''software'' (PStr [])), (''version'', fget p ''version''),
                  (''server_port'', fget p ''server_port'')])
                \<lparr>category := map_option (\<lambda>(c, r). lit c) entry, vendor := resolve_vendor software,
                 platform := map_option lit plat, platform_version := ftext p ''version''\<rparr> #
              (if truthy banner then extract_ot_identity now (the banner) else []))"

end
