(* ===== verification/Processors.thy ===== *)
theory Processors
  imports ObserversNames ObserversInfra
begin

text \<open>
  The processors as the pipeline runs them: \<open>processors/registry.py\<close>, the \<open>analyze\<close> methods that
  choose by protocol, and the step of \<open>core/pipeline.py\<close> that runs a processor and feeds the profile
  of DNS queries.  Each protocol belongs to one processor.
\<close>

section \<open>Registry\<close>

datatype processor = NetworkP | ServicesP | NamesP | InfrastructureP | IotScadaP | DiscoveryP | PassiveP | ActiveP | BannerP

definition REGISTRY :: "(string \<times> processor) list" where
  "REGISTRY =
     map (\<lambda>s. (s, NetworkP)) [''arp'', ''dhcpv4'', ''dhcpv6'', ''icmpv6'', ''igmp'', ''eap''] @
     map (\<lambda>s. (s, ServicesP)) [''tcp_syn'', ''tls'', ''http_useragent'', ''stun'', ''quic'', ''radius''] @
     map (\<lambda>s. (s, NamesP)) [''dns'', ''dns_answer'', ''mdns'', ''netbios'', ''ssdp'', ''upnp''] @
     map (\<lambda>s. (s, InfrastructureP)) [''lldp'', ''cdp'', ''stp'', ''dtp'', ''snmp''] @
     map (\<lambda>s. (s, IotScadaP)) [''modbus'', ''bacnet'', ''coap'', ''mqtt'', ''enip'', ''dnp3'', ''s7comm'', ''opcua'',
       ''goose'', ''profinet'', ''umas''] @
     [(''ip_observed'', PassiveP), (''service_banner'', BannerP), (''probe'', ActiveP)] @
     map (\<lambda>s. (s, DiscoveryP)) [''ws_discovery'', ''ntp'', ''dhcp_server'', ''dns_server'']"

definition get_processor :: "string \<Rightarrow> processor option" where
  "get_processor proto = dict_get REGISTRY proto"

section \<open>The choice by protocol\<close>

definition network_analyze :: "int \<Rightarrow> pattern_data \<Rightarrow> captured_packet \<Rightarrow> evidence list" where
  "network_analyze now pd p =
     (if protocol p = ''arp'' then analyze_arp now p
      else if protocol p = ''dhcpv4'' then analyze_dhcpv4 now pd p
      else if protocol p = ''dhcpv6'' then analyze_dhcpv6 now p
      else if protocol p = ''icmpv6'' then analyze_icmpv6 now p
      else if protocol p = ''igmp'' then analyze_igmp now p
      else if protocol p = ''eap'' then analyze_eap now p
      else [])"

definition services_analyze :: "int \<Rightarrow> captured_packet \<Rightarrow> evidence list" where
  "services_analyze now p =
     (if protocol p = ''tcp_syn'' then analyze_tcp_syn now p
      else if protocol p = ''tls'' then analyze_tls now p
      else if protocol p = ''http_useragent'' then analyze_http_useragent now p
      else if protocol p = ''stun'' then analyze_stun now p
      else if protocol p = ''quic'' then analyze_quic now p
      else if protocol p = ''radius'' then analyze_radius now p
      else [])"

definition names_analyze :: "int \<Rightarrow> pattern_data \<Rightarrow> captured_packet \<Rightarrow> py_error + evidence list" where
  "names_analyze now pd p =
     (if protocol p = ''dns'' then Inr (analyze_dns now p)
      else if protocol p = ''dns_answer'' then Inr (analyze_dns_answer now p)
      else if protocol p = ''mdns'' then Inr (analyze_mdns now pd p)
      else if protocol p = ''netbios'' then Inr (analyze_netbios now pd p)
      else if protocol p = ''ssdp'' then Inr (analyze_ssdp now pd p)
      else if protocol p = ''upnp'' then analyze_upnp now p
      else Inr [])"

definition infrastructure_analyze :: "int \<Rightarrow> captured_packet \<Rightarrow> py_error + evidence list" where
  "infrastructure_analyze now p =
     (if protocol p = ''lldp'' then Inr (analyze_lldp now p)
      else if protocol p = ''cdp'' then analyze_cdp now p
      else if protocol p = ''stp'' then Inr (analyze_stp now p)
      else if protocol p = ''dtp'' then Inr (analyze_dtp now p)
      else if protocol p = ''snmp'' then Inr (analyze_snmp now p)
      else Inr [])"

definition iot_scada_analyze :: "int \<Rightarrow> captured_packet \<Rightarrow> evidence list" where
  "iot_scada_analyze now p =
     (if protocol p = ''modbus'' then analyze_modbus now p
      else if protocol p = ''bacnet'' then analyze_bacnet now p
      else if protocol p = ''coap'' then analyze_coap now p
      else if protocol p = ''mqtt'' then analyze_mqtt now p
      else if protocol p = ''enip'' then analyze_enip now p
      else if protocol p = ''dnp3'' then analyze_dnp3 now p
      else if protocol p = ''s7comm'' then analyze_s7comm now p
      else if protocol p = ''opcua'' then analyze_opcua now p
      else if protocol p = ''goose'' then analyze_goose now p
      else if protocol p = ''profinet'' then analyze_profinet now p
      else if protocol p = ''umas'' then analyze_umas now p
      else [])"

definition discovery_analyze :: "int \<Rightarrow> captured_packet \<Rightarrow> evidence list" where
  "discovery_analyze now p =
     (if protocol p = ''ws_discovery'' then analyze_ws_discovery now p
      else if protocol p = ''ntp'' then analyze_ntp now p
      else if protocol p = ''dhcp_server'' then analyze_dhcp_server now p
      else if protocol p = ''dns_server'' then analyze_dns_server now p
      else [])"

definition processor_analyze :: "int \<Rightarrow> pattern_data \<Rightarrow> processor \<Rightarrow> captured_packet \<Rightarrow> py_error + evidence list" where
  "processor_analyze now pd pr p =
     (case pr of
        NetworkP \<Rightarrow> Inr (network_analyze now pd p)
      | ServicesP \<Rightarrow> Inr (services_analyze now p)
      | NamesP \<Rightarrow> names_analyze now pd p
      | InfrastructureP \<Rightarrow> infrastructure_analyze now p
      | IotScadaP \<Rightarrow> Inr (iot_scada_analyze now p)
      | DiscoveryP \<Rightarrow> Inr (discovery_analyze now p)
      | PassiveP \<Rightarrow> Inr (analyze_ip_observed now p)
      | ActiveP \<Rightarrow> Inr (analyze_probe now p)
      | BannerP \<Rightarrow> Inr (analyze_banner now p))"

text \<open>What the pipeline makes of it: no evidence without a processor, None when the processor
  raises.\<close>

definition run_processor :: "int \<Rightarrow> pattern_data \<Rightarrow> captured_packet \<Rightarrow> evidence list option" where
  "run_processor now pd p =
     (case get_processor (protocol p) of
        None \<Rightarrow> Some []
      | Some pr \<Rightarrow> (case processor_analyze now pd pr p of Inl e \<Rightarrow> None | Inr es \<Rightarrow> Some es))"

section \<open>The pipeline with its processors\<close>

definition live_env :: "int \<Rightarrow> pattern_data \<Rightarrow> pipe_env \<Rightarrow> pipe_env" where
  "live_env now pd env = env\<lparr>analyze := run_processor now pd\<rparr>"

text \<open>A DNS query of a valid sender enters the profile that the rules read later in the same step.\<close>

definition observe_query :: "rat \<Rightarrow> captured_packet \<Rightarrow> pipe \<Rightarrow> pipe" where
  "observe_query mt p st =
     (if protocol p = ''dns'' \<and> is_valid_mac (hw_addr p)
      then st\<lparr>p_rules := (p_rules st)\<lparr>behavior := feed_tracker mt p (behavior (p_rules st))\<rparr>\<rparr> else st)"

definition observe_packet ::
    "(pyval \<Rightarrow> ustr) \<Rightarrow> pattern_data \<Rightarrow> pipe_env \<Rightarrow> int \<Rightarrow> rat \<Rightarrow> captured_packet \<Rightarrow> pipe \<Rightarrow> (pipe \<times> effect list) \<times> py_error option" where
  "observe_packet render pd env now mt p st = process render (live_env now pd env) now mt p (observe_query mt p st)"

end
