(* ===== verification/ProcessorsProps.thy ===== *)
theory ProcessorsProps
  imports Processors
begin

text \<open>
  Properties of the processors: the certainty of what they claim is a certainty, a router that repeats
  the announcements of others claims nothing for itself unless the name of the announcement carries an
  identifier, in which case it claims all, and a steady stream of queries for one vendor ends in a
  profile.
\<close>

section \<open>Evidence\<close>

lemma evd_sel [simp]:
  "certainty (evd now s h c r) = c" "vendor (evd now s h c r) = None" "category (evd now s h c r) = None"
  "platform (evd now s h c r) = None" "platform_version (evd now s h c r) = None" "model (evd now s h c r) = None"
  "hostname (evd now s h c r) = None" "ev_source (evd now s h c r) = s" "observed_at (evd now s h c r) = now"
  by (simp_all add: evd_def)

definition sure :: "evidence list \<Rightarrow> bool" where
  "sure es \<longleftrightarrow> (\<forall>e \<in> set es. 0 \<le> certainty e \<and> certainty e \<le> 1)"

lemma sure_Nil [simp]: "sure []"
  by (simp add: sure_def)

lemma sure_Cons [simp]: "sure (e # es) \<longleftrightarrow> 0 \<le> certainty e \<and> certainty e \<le> 1 \<and> sure es"
  by (auto simp: sure_def)

lemma sure_append [simp]: "sure (es @ fs) \<longleftrightarrow> sure es \<and> sure fs"
  by (auto simp: sure_def)

text \<open>Pattern data whose certainties are percentages.\<close>

definition percent :: "rat \<Rightarrow> bool" where
  "percent c \<longleftrightarrow> 0 \<le> c \<and> c \<le> 100"

definition rated :: "dict \<Rightarrow> bool" where
  "rated d \<longleftrightarrow> percent (num_of (get_or d ''certainty'' (PInt 50)))"

definition data_rated :: "pattern_data \<Rightarrow> bool" where
  "data_rated pd \<longleftrightarrow> list_all rated (map snd (pd_hostname pd)) \<and> list_all rated (map snd (pd_names pd)) \<and>
     list_all rated (map snd (pd_services pd)) \<and>
     list_all (\<lambda>d. percent (num_of (dget d ''confidence''))) (map snd (pd_ssdp pd)) \<and>
     list_all (\<lambda>e. percent (of_int (oe_confidence e))) (map snd (pd_opt60 pd))"

definition confident :: "dict option \<Rightarrow> bool" where
  "confident a \<longleftrightarrow> (\<forall>m. a = Some m \<longrightarrow> (\<exists>c. dict_get m ''confidence'' = Some c \<and> percent (num_of c)))"

lemma confident_None [simp]: "confident None"
  by (simp add: confident_def)

lemma confident_Some [simp]:
  "confident (Some m) \<longleftrightarrow> (case dict_get m ''confidence'' of None \<Rightarrow> False | Some c \<Rightarrow> percent (num_of c))"
  by (auto simp: confident_def split: option.splits)

lemma cert_of_unit: "confident (Some m) \<Longrightarrow> 0 \<le> cert_of d m \<and> cert_of d m \<le> 1"
  by (auto simp: cert_of_def percent_def Let_def split: option.splits)

lemma match_evd_certainty [simp]: "certainty (match_evd now s d m raw) = cert_of d m"
  by (simp add: match_evd_def)

lemma find_in: "find P xs = Some x \<Longrightarrow> x \<in> set xs"
  by (auto simp: find_Some_iff)

lemma match_hostname_confident: "data_rated pd \<Longrightarrow> confident (match_hostname pd h)"
  by (auto simp: match_hostname_def data_rated_def rated_def list_all_iff split: option.splits dest!: find_in)

lemma service_answer_confident: "data_rated pd \<Longrightarrow> confident (service_answer pd s)"
  by (auto simp: service_answer_def data_rated_def rated_def list_all_iff split: option.splits dest!: dict_get_mem)

lemma match_mdns_confident: "data_rated pd \<Longrightarrow> confident (match_mdns_service pd ty name)"
  using service_answer_confident [of pd "clean_service ty"]
  by (auto simp: match_mdns_service_def Let_def data_rated_def rated_def list_all_iff split: option.splits dest!: find_in)

lemma match_ssdp_confident: "list_all (\<lambda>d. percent (num_of (dget d ''confidence''))) (map snd es) \<Longrightarrow> confident (match_ssdp_in h es)"
  by (induction h es rule: match_ssdp_in.induct) (auto split: option.splits)

lemma match_ssdp_server_confident: "data_rated pd \<Longrightarrow> confident (match_ssdp_server pd h)"
  by (simp add: match_ssdp_server_def data_rated_def match_ssdp_confident)

lemma match_opt60_confident: "data_rated pd \<Longrightarrow> confident (match_dhcp_opt60 pd c)"
  by (auto simp: match_dhcp_opt60_def data_rated_def list_all_iff num_of_def split: option.splits dest!: find_in)

lemmas confident_matches =
  match_hostname_confident match_mdns_confident match_ssdp_server_confident match_opt60_confident

text \<open>A match that was made is a certainty when the pattern data are rated.\<close>

lemma sure_match:
  "confident a \<Longrightarrow> (\<And>m. a = Some m \<Longrightarrow> certainty (f m) = cert_of d m) \<Longrightarrow>
   sure (case a of None \<Rightarrow> [] | Some m \<Rightarrow> [f m])"
  by (cases a) (auto dest: cert_of_unit simp del: confident_Some)

section \<open>Processors one by one\<close>

lemma sure_dhcpv4: "data_rated pd \<Longrightarrow> sure (analyze_dhcpv4 now pd p)"
  unfolding analyze_dhcpv4_def Let_def client_id_evd_def
  by (auto intro!: sure_match confident_matches)

lemma get_or_default: "0 < num_of (get_or m k (PInt 0)) \<Longrightarrow> get_or m k d = get_or m k (PInt 0)"
  by (auto simp: get_or_def num_of_def split: option.splits)

lemma sure_dns: "sure (analyze_dns now p)"
  unfolding analyze_dns_def Let_def
  by (auto split: option.splits simp: get_or_default [where d = "PFloat (1 / 2)"])

lemma sure_exclusive: "find P EXCLUSIVE_SERVICES = Some (s, v, c, o', r) \<Longrightarrow> 0 \<le> r \<and> r \<le> 1"
  by (drule find_in) (auto simp: EXCLUSIVE_SERVICES_def)

lemma mdns_cert:
  assumes "match_mdns_service pd ty name = Some a" and "data_rated pd"
  shows "0 \<le> cert_of d a \<and> cert_of d a \<le> 1"
  using match_mdns_confident [OF assms(2), of ty name] assms(1) cert_of_unit [of a d] by simp

lemma sure_service: "data_rated pd \<Longrightarrow> sure (service_evidence now pd m ty name)"
  unfolding service_evidence_def Let_def
  by (auto split: option.splits dest!: sure_exclusive mdns_cert [where d = 70])

lemma sure_instance: "sure (instance_evidence now m ty name)"
  by (simp add: instance_evidence_def Let_def)

lemma sure_txt: "sure (txt_evidence now echoed d)"
  by (simp add: txt_evidence_def Let_def)

lemma sure_apple: "sure (apple_evidence now code)"
  by (simp add: apple_evidence_def ModelLookup_map_def)

lemma sure_name: "sure (name_evidence now m ty name fn srv)"
  by (simp add: name_evidence_def Let_def)

lemma sure_mdns: "data_rated pd \<Longrightarrow> sure (analyze_mdns now pd p)"
  unfolding analyze_mdns_def Let_def by (simp add: sure_service sure_instance sure_txt sure_apple sure_name)

lemma sure_netbios: "data_rated pd \<Longrightarrow> sure (analyze_netbios now pd p)"
  unfolding analyze_netbios_def Let_def by (auto intro!: sure_match confident_matches)

lemma sure_ssdp: "data_rated pd \<Longrightarrow> sure (analyze_ssdp now pd p)"
  unfolding analyze_ssdp_def Let_def by (auto intro!: sure_match confident_matches)

lemma sure_when_found: "(\<And>t. 0 \<le> certainty (f t) \<and> certainty (f t) \<le> 1) \<Longrightarrow> sure (when_found m f)"
  by (simp add: when_found_def split: option.splits)

lemma ot_evd_certainty [simp]: "certainty (ot_evd now b c v m ca) = c"
  by (simp add: ot_evd_def)

lemma sure_ot: "sure (ot_results now b)"
  unfolding ot_results_def Let_def by (simp add: sure_when_found)

lemma sure_extract: "sure (extract_ot_identity now b)"
  using sure_ot [of now b] by (auto simp: extract_ot_identity_def split: list.splits)

lemma sure_category: "dict_get SERVICE_CATEGORIES s = Some (c, r) \<Longrightarrow> 0 \<le> r \<and> r \<le> 1"
  by (drule dict_get_mem) (auto simp: SERVICE_CATEGORIES_def)

lemma sure_banner: "sure (analyze_banner now p)"
  unfolding analyze_banner_def Let_def by (auto simp: sure_extract split: option.splits dest: sure_category)

lemma sure_network: "data_rated pd \<Longrightarrow> sure (network_analyze now pd p)"
  unfolding network_analyze_def
  by (simp add: sure_dhcpv4 analyze_arp_def analyze_dhcpv6_def analyze_icmpv6_def analyze_igmp_def analyze_eap_def Let_def)

lemma sure_services: "sure (services_analyze now p)"
  unfolding services_analyze_def
  by (simp add: analyze_tcp_syn_def analyze_tls_def analyze_http_useragent_def analyze_stun_def analyze_quic_def
      analyze_radius_def Let_def)

lemma sure_names: "data_rated pd \<Longrightarrow> names_analyze now pd p = Inr es \<Longrightarrow> sure es"
  unfolding names_analyze_def
  by (auto simp: sure_dns sure_mdns sure_netbios sure_ssdp analyze_dns_answer_def analyze_upnp_def Let_def
      split: if_splits option.splits pyval.splits)

lemma sure_infrastructure: "infrastructure_analyze now p = Inr es \<Longrightarrow> sure es"
  unfolding infrastructure_analyze_def
  by (auto simp: analyze_lldp_def analyze_cdp_def analyze_stp_def stp_certainty_def analyze_dtp_def analyze_snmp_def Let_def
      split: if_splits option.splits pyval.splits prod.splits)

lemma sure_iot: "sure (iot_scada_analyze now p)"
  unfolding iot_scada_analyze_def
  by (simp add: analyze_modbus_def analyze_bacnet_def analyze_coap_def analyze_mqtt_def analyze_enip_def analyze_dnp3_def
      analyze_s7comm_def analyze_opcua_def analyze_goose_def analyze_profinet_def analyze_umas_def Let_def
      split: option.splits prod.splits)

lemma sure_discovery: "sure (discovery_analyze now p)"
  unfolding discovery_analyze_def
  by (simp add: analyze_ws_discovery_def analyze_ntp_def analyze_dhcp_server_def analyze_dns_server_def Let_def
      split: list.splits)

lemma sure_passive: "sure (analyze_ip_observed now p)"
  by (simp add: analyze_ip_observed_def Let_def split: option.splits)

lemma sure_probe:
  "0 \<le> num_of (cp_get p ''certainty'' (PFloat (70 / 100))) \<Longrightarrow> num_of (cp_get p ''certainty'' (PFloat (70 / 100))) \<le> 1 \<Longrightarrow>
   sure (analyze_probe now p)"
  by (simp add: analyze_probe_def Let_def)

lemma sure_processor:
  assumes "data_rated pd" and "processor_analyze now pd pr p = Inr es"
    and "pr = ActiveP \<Longrightarrow> sure (analyze_probe now p)"
  shows "sure es"
  using assms
  by (cases pr) (auto simp: processor_analyze_def sure_network sure_services sure_iot sure_discovery sure_passive sure_banner
      dest: sure_names sure_infrastructure)

lemma probe_only: "get_processor s = Some ActiveP \<Longrightarrow> s = ''probe''"
  by (drule dict_get_mem [of REGISTRY, folded get_processor_def]) (auto simp: REGISTRY_def)

section \<open>Certainties\<close>

definition probe_rated :: "captured_packet \<Rightarrow> bool" where
  "probe_rated p \<longleftrightarrow> protocol p \<noteq> ''probe'' \<or>
     0 \<le> num_of (cp_get p ''certainty'' (PFloat (70 / 100))) \<and> num_of (cp_get p ''certainty'' (PFloat (70 / 100))) \<le> 1"

text \<open>Whatever packet arrives, every piece of evidence of its processor has a certainty between 0 and 1,
  provided the entries of the pattern data are rated in percent and an active probe rates itself between 0
  and 1.\<close>

theorem evidence_certainty_in_unit:
  assumes "data_rated pd" and "probe_rated p" and "run_processor now pd p = Some es" and "e \<in> set es"
  shows "0 \<le> certainty e \<and> certainty e \<le> 1"
proof -
  have "sure es"
    using assms(1-3) sure_processor [OF assms(1), of now _ p es] sure_probe [of p now] probe_only [of "protocol p"]
    by (auto simp: run_processor_def probe_rated_def split: option.splits sum.splits)
  then show ?thesis using assms(4) by (simp add: sure_def)
qed

text \<open>A NetBIOS name, with one host name pattern.\<close>

definition sample_patterns :: pattern_data where
  "sample_patterns = PatternData0\<lparr>pd_hostname :=
     [(Some (re_str (lit ''NAS'')), [(''certainty'', PInt 85), (''category'', pstr ''nas'')])]\<rparr>"

definition sample_netbios :: captured_packet where
  "sample_netbios = captured ''netbios'' ''00:11:32:aa:bb:cc'' ''10.0.0.9'' None [(''query_name'', pstr ''NAS1'')]"

lemma sample_netbios_runs:
  "run_processor 0 sample_patterns sample_netbios = Some (analyze_netbios 0 sample_patterns sample_netbios)"
  by (simp add: run_processor_def get_processor_def REGISTRY_def processor_analyze_def names_analyze_def sample_netbios_def
      captured_def)

lemma sample_match:
  "match_hostname sample_patterns (lit ''NAS1'') = Some
     [(''device_type'', pstr ''nas''), (''manufacturer'', PNone), (''os_family'', PNone), (''model'', PNone), (''confidence'', PInt 85)]"
  by code_simp

lemma sample_netbios_evidence:
  "map certainty (analyze_netbios 0 sample_patterns sample_netbios) = [70 / 100, 85 / 100]"
  using sample_match
  by (simp add: analyze_netbios_def sample_netbios_def captured_def ftext_def cp_get_def get_or_def textv_def truthy_def
      cert_of_def num_of_def lit_def Let_def)

theorem evidence_certainty_in_unit_witness:
  "certainty (analyze_netbios 0 sample_patterns sample_netbios ! 1) = 85 / 100 \<and>
   0 \<le> certainty (analyze_netbios 0 sample_patterns sample_netbios ! 1) \<and>
   certainty (analyze_netbios 0 sample_patterns sample_netbios ! 1) \<le> 1"
proof -
  have l: "length (analyze_netbios 0 sample_patterns sample_netbios) = 2"
    using arg_cong [OF sample_netbios_evidence, of length] by simp
  have "data_rated sample_patterns" by code_simp
  moreover have "probe_rated sample_netbios" by (simp add: probe_rated_def sample_netbios_def captured_def)
  moreover have "certainty (analyze_netbios 0 sample_patterns sample_netbios ! 1) = 85 / 100"
    using arg_cong [OF sample_netbios_evidence, of "\<lambda>l. l ! 1"] l by simp
  ultimately show ?thesis using evidence_certainty_in_unit [OF _ _ sample_netbios_runs] l by simp
qed

section \<open>Announcements of other devices\<close>

lemma when_reflecting:
  assumes "reflecting m" and "\<not> names_other_device m name"
  shows "reflected m name" and "cross_device m name"
  using assms by (auto simp: reflected_def cross_device_def)

definition silent :: "evidence \<Rightarrow> bool" where
  "silent e \<longleftrightarrow> vendor e = None \<and> category e = None \<and> platform e = None \<and> model e = None \<and> hostname e = None"

lemma silent_evd [simp]: "silent (evd now s h c r)"
  by (simp add: silent_def)

lemma silent_service:
  assumes "reflected m name" and "cross_device m name" and "e \<in> set (service_evidence now pd m ty name)"
  shows "silent e \<and> certainty e \<le> 70 / 100"
  using assms unfolding service_evidence_def Let_def
  by (auto simp: silent_def min_def split: option.splits)

lemma silent_txt: "e \<in> set (txt_evidence now True d) \<Longrightarrow> silent e \<and> certainty e \<le> 70 / 100"
  by (auto simp: txt_evidence_def Let_def split: if_splits)

text \<open>A sender with a randomised address outside the known prefixes, as the routers that repeat mDNS have,
  claims nothing about itself: whatever service, TXT records, names or Apple model codes it announces, its
  evidence names no vendor, category, platform, model or host name, as long as the announced name carries no
  foreign identifier.\<close>

theorem repeated_announcement_claims_nothing:
  assumes "reflecting (hw_addr p)" and "\<not> names_other_device (hw_addr p) (ftext p ''name'')"
    and "e \<in> set (analyze_mdns now pd p)"
  shows "vendor e = None \<and> category e = None \<and> platform e = None \<and> model e = None \<and> hostname e = None \<and>
    certainty e \<le> 70 / 100"
proof -
  note r = when_reflecting [OF assms(1, 2)]
  have "silent e \<and> certainty e \<le> 70 / 100"
    using assms(3) r unfolding analyze_mdns_def Let_def
    by (auto simp: instance_evidence_def apple_evidence_def ModelLookup_map_def name_evidence_def truthy_def
        dest: silent_service [OF r] silent_txt split: if_splits)
  then show ?thesis by (simp add: silent_def)
qed

lemma empty_invalid: "\<not> is_valid_hostname (Some [])"
  by code_simp

text \<open>A service repeated by a router, and an AirPlay name repeated by the same router.\<close>

definition sample_announcement :: "string \<Rightarrow> captured_packet" where
  "sample_announcement name = captured ''mdns'' ''0a:11:22:33:44:55'' ''10.0.0.1'' None
     [(''service_type'', pstr ''_googlecast._tcp''), (''name'', pstr name), (''txt_records'', PDict [(''fn'', pstr ''Kitchen'')])]"

lemma sample_fields:
  "hw_addr (sample_announcement n) = ''0a:11:22:33:44:55''" "ftext (sample_announcement n) ''name'' = Some (lit n)"
  "ftext (sample_announcement n) ''apple_model'' = None" "textv (fget (sample_announcement n) ''service_type'') = cat ''_googlecast._tcp''"
  "txt_records (sample_announcement n) = [(''fn'', pstr ''Kitchen'')]"
  by (simp_all add: sample_announcement_def captured_def ftext_def cp_get_def get_or_def textv_def txt_records_def cat_def)

lemma sample_reflecting: "reflecting ''0a:11:22:33:44:55''"
  by code_simp

lemma sample_names:
  "\<not> names_other_device ''0a:11:22:33:44:55'' (Some (lit ''Kitchen''))"
  "names_other_device ''0a:11:22:33:44:55'' (Some (lit ''AABBCC@K''))"
  by code_simp+

theorem repeated_announcement_claims_nothing_witness:
  "let e = hd (analyze_mdns 0 PatternData0 (sample_announcement ''Kitchen''))
   in ev_source e = ''mdns_exclusive'' \<and> vendor e = None \<and> certainty e \<le> 70 / 100"
proof -
  let ?es = "analyze_mdns 0 PatternData0 (sample_announcement ''Kitchen'')"
  have "find (\<lambda>x. lit (fst x) = lit ''_googlecast._tcp'') EXCLUSIVE_SERVICES =
      Some (''_googlecast._tcp'', ''Google'', Some ''smart_speaker'', Some ''Cast OS'', 95 / 100)"
    by code_simp
  then have s: "ev_source (hd ?es) = ''mdns_exclusive'' \<and> ?es \<noteq> []"
    by (auto simp: analyze_mdns_def sample_fields service_evidence_def Let_def cat_def truthy_def lit_def)
  then have "hd ?es \<in> set ?es" by simp
  then have "vendor (hd ?es) = None \<and> certainty (hd ?es) \<le> 70 / 100"
    using repeated_announcement_claims_nothing [of "sample_announcement ''Kitchen''" "hd ?es" 0 PatternData0]
      sample_reflecting sample_names by (simp add: sample_fields truthy_def)
  then show ?thesis using s by (simp add: Let_def)
qed

text \<open>An announcement that carries the identifier of another device is not taken for a repeated one, so the
  friendly name of its TXT records becomes evidence for the host name of the sender, even when the sender has a
  randomised address.\<close>

theorem foreign_name_adopted:
  assumes "names_other_device (hw_addr p) (ftext p ''name'')"
    and "textv (dget (txt_records p) ''fn'') = Some f" and "is_valid_hostname (Some f)"
  shows "\<exists>e \<in> set (analyze_mdns now pd p). ev_source e = ''mdns_txt'' \<and> hostname e = Some f \<and> 75 / 100 \<le> certainty e"
proof -
  have "\<not> reflected (hw_addr p) (ftext p ''name'')" using assms(1) by (simp add: reflected_def)
  moreover have "txt_records p \<noteq> []" using assms(2) by (auto simp: dget_def get_or_def textv_def)
  moreover have "truthy (Some f)" using assms(3) by (auto simp: truthy_def empty_invalid)
  ultimately show ?thesis
    using assms(2, 3) unfolding analyze_mdns_def txt_evidence_def Let_def by auto
qed

theorem foreign_name_adopted_witness:
  "reflecting (hw_addr (sample_announcement ''AABBCC@K'')) \<and>
   (\<exists>e \<in> set (analyze_mdns 0 PatternData0 (sample_announcement ''AABBCC@K'')).
      ev_source e = ''mdns_txt'' \<and> hostname e = cat ''Kitchen'' \<and> 75 / 100 \<le> certainty e)"
proof -
  have "is_valid_hostname (Some (lit ''Kitchen''))" by code_simp
  then show ?thesis
    using foreign_name_adopted [of "sample_announcement ''AABBCC@K''" "lit ''Kitchen''" 0 PatternData0]
      sample_reflecting sample_names
    by (simp add: sample_fields cat_def dget_def get_or_def textv_def)
qed

section \<open>The profile of a host\<close>

definition track_all :: "(rat \<times> captured_packet) list \<Rightarrow> tracker \<Rightarrow> tracker" where
  "track_all qs ps = foldl (\<lambda>ps (t, p). feed_tracker t p ps) ps qs"

text \<open>The queries of one host, and that all of them are for domains of one vendor.\<close>

definition queries_of :: "mac \<Rightarrow> (rat \<times> captured_packet) list \<Rightarrow> (rat \<times> captured_packet) list" where
  "queries_of hw qs = filter (\<lambda>(t, p). hw_addr p = hw \<and> truthy (ftext p ''query_name'')) qs"

definition asks_only :: "ustr \<Rightarrow> (rat \<times> captured_packet) list \<Rightarrow> bool" where
  "asks_only v qs \<longleftrightarrow> list_all (\<lambda>(t, p). classify_domain (the (ftext p ''query_name'')) = Some v) qs"

definition one_vendor :: "ustr \<Rightarrow> (rat \<times> captured_packet) list \<Rightarrow> host_profile \<Rightarrow> bool" where
  "one_vendor v qs p \<longleftrightarrow> vendor_counts p = [(v, length qs)] \<and> total_classified p = length qs \<and>
     bp_first_seen p = fst (hd qs) \<and> (baseline_locked p \<longrightarrow> baseline_vendor p = Some v) \<and>
     (20 \<le> length qs \<and> 600 \<le> fst (List.last qs) - fst (hd qs) \<longrightarrow> baseline_locked p)"

lemma most_common_single: "most_common [(v, n)] = Some (v, n)"
  by (simp add: most_common_def dict_keys_def first_max_def get_or_def)

lemma one_vendor_first:
  "v \<noteq> [] \<Longrightarrow> one_vendor v [(t, p)] (record_profile t (Some v) (fresh_profile t))"
  by (simp add: one_vendor_def record_profile_def fresh_profile_def truthy_def get_or_def MIN_QUERIES_FOR_PROFILE_def)

lemma one_vendor_next:
  assumes "one_vendor v qs h" and "qs \<noteq> []" and "v \<noteq> []"
  shows "one_vendor v (qs @ [(t, p)]) (record_profile t (Some v) h)"
  using assms
  by (auto simp: one_vendor_def record_profile_def truthy_def get_or_def MIN_QUERIES_FOR_PROFILE_def
      LEARNING_PERIOD_SECONDS_def most_common_single Let_def)

lemma feed_tracker_other:
  "hw_addr p \<noteq> hw \<or> \<not> truthy (ftext p ''query_name'') \<Longrightarrow> dict_get (feed_tracker t p ps) hw = dict_get ps hw"
  by (auto simp: feed_tracker_def record_query_def truthy_def split: option.splits)

lemma feed_tracker_own:
  "hw_addr p = hw \<Longrightarrow> truthy (ftext p ''query_name'') \<Longrightarrow>
   dict_get (feed_tracker t p ps) hw = Some (record_profile t (classify_domain (the (ftext p ''query_name'')))
     (case dict_get ps hw of None \<Rightarrow> fresh_profile t | Some h \<Rightarrow> h))"
  by (auto simp: feed_tracker_def record_query_def truthy_def split: option.splits)

lemma profile_after:
  assumes "asks_only v (queries_of hw qs)" and "v \<noteq> []" and "dict_get ps hw = None"
  shows "if queries_of hw qs = [] then dict_get (track_all qs ps) hw = None
    else \<exists>h. dict_get (track_all qs ps) hw = Some h \<and> one_vendor v (queries_of hw qs) h"
  using assms(1)
proof (induction qs rule: rev_induct)
  case Nil
  then show ?case using assms(3) by (simp add: queries_of_def track_all_def)
next
  case (snoc x qs)
  obtain t p where x: "x = (t, p)" by fastforce
  have step: "track_all (qs @ [x]) ps = feed_tracker t p (track_all qs ps)" by (simp add: track_all_def x)
  show ?case
  proof (cases "hw_addr p = hw \<and> truthy (ftext p ''query_name'')")
    case False
    then have "queries_of hw (qs @ [x]) = queries_of hw qs" by (simp add: queries_of_def x)
    then show ?thesis using snoc step feed_tracker_other [of p hw t "track_all qs ps"] False by simp
  next
    case True
    then have q: "queries_of hw (qs @ [x]) = queries_of hw qs @ [(t, p)]" by (simp add: queries_of_def x)
    then have c: "classify_domain (the (ftext p ''query_name'')) = Some v" and a: "asks_only v (queries_of hw qs)"
      using snoc.prems by (simp_all add: asks_only_def)
    show ?thesis
      using snoc.IH [OF a] one_vendor_first [OF assms(2), of t p] one_vendor_next [of v "queries_of hw qs" _ t p] assms(2)
        feed_tracker_own [of p hw t "track_all qs ps"] True
      by (auto simp: q c step split: if_splits)
  qed
qed


text \<open>Twenty queries for Apple's cloud, the last after ten minutes, with a query of another host before.\<close>

definition sample_query :: "mac \<Rightarrow> string \<Rightarrow> captured_packet" where
  "sample_query hw q = captured ''dns'' hw ''10.0.0.7'' None [(''query_name'', pstr q)]"

definition sample_traffic :: "(rat \<times> captured_packet) list" where
  "sample_traffic = (0, sample_query ''m2'' ''windows.com'') # replicate 19 (5, sample_query ''m1'' ''icloud.com'') @
     [(605, sample_query ''m1'' ''icloud.com'')]"

lemma classify_icloud: "classify_domain (lit ''icloud.com'') = Some (lit ''Apple'')"
proof -
  let ?a = "dns_result (Some ''Apple'') None (Some ''iOS/macOS'') (90 / 100) (''Apple cloud service: '' @ ''icloud.com'')"
  have l: "lower (lit ''icloud.com'') = lit ''icloud.com''" and ne: "lit ''icloud.com'' \<noteq> []" by code_simp+
  obtain rs where r: "DNS_RULES = (Domain ''icloud.com'', ?a) # rs"
    by (simp add: DNS_RULES_def DNS_APPLE_def doms_def)
  have "match_dns_query (lit ''icloud.com'') = Some ?a"
    unfolding match_dns_query_def l r using ne by (simp add: domain_matches_def)
  then show ?thesis
    by (simp add: classify_domain_def dns_result_def dget_def get_or_def num_of_def opt_text_def textv_def)
qed

lemma sample_query_fields [simp]:
  "hw_addr (sample_query hw q) = hw" "ftext (sample_query hw q) ''query_name'' = Some (lit q)"
  by (simp_all add: sample_query_def captured_def ftext_def cp_get_def get_or_def textv_def)


end
