(* ===== verification/Frames.thy ===== *)
theory Frames
  imports IotScada Dhcp Tls
begin

text \<open>
  A captured frame: what the protocol parsers of \<open>capture/\<close> read of the packet object of the packet
  library, one option per layer, extending \<open>packet\<close>.  A field of a layer that may hold bytes or
  something else is a \<open>sval\<close>; for anything but bytes it has the text \<open>str\<close> makes of it.
\<close>

section \<open>Field values\<close>

datatype sval = SBytes bytes | SText ustr

text \<open>\<open>v.decode("utf-8", errors="replace") if isinstance(v, bytes) else str(v)\<close>, the same with
  a strict decoding, and \<open>bool(v)\<close>.\<close>

definition sval_text :: "sval \<Rightarrow> ustr" where
  "sval_text v = (case v of SBytes b \<Rightarrow> utf8_replace b | SText t \<Rightarrow> t)"

definition sval_strict :: "sval \<Rightarrow> py_error + ustr" where
  "sval_strict v = (case v of SBytes b \<Rightarrow> utf8_strict b | SText t \<Rightarrow> Inr t)"

definition sval_set :: "sval \<Rightarrow> bool" where
  "sval_set v = (case v of SBytes b \<Rightarrow> b \<noteq> [] | SText t \<Rightarrow> t \<noteq> [])"

section \<open>Layers\<close>

record arp_layer =
  arp_op :: nat
  arp_hwsrc :: string
  arp_psrc :: string
  arp_hwdst :: string
  arp_pdst :: string

record eap_layer =
  eap_code :: nat
  eap_type :: "nat option"
  eap_identity :: "sval option"

record eapol_layer =
  eapol_type :: nat
  eapol_eap :: "eap_layer option"

text \<open>The parts of an LLDP frame; the capabilities are None when the library does not give them as a number.\<close>

record lldp_layer =
  ll_chassis :: "(sval \<times> int) option"
  ll_port :: "(sval \<times> int) option"
  ll_port_descr :: "sval option"
  ll_name :: "sval option"
  ll_descr :: "sval option"
  ll_caps :: "nat option option"
  ll_mgmt :: "sval option"

record cdp_layer =
  cd_device :: "sval option"
  cd_software :: "sval option"
  cd_platform :: "sval option"
  cd_port :: "sval option"
  cd_caps :: "nat option"
  cd_vlan :: "int option"
  cd_mgmt :: "ustr option"

record stp_layer =
  st_bridgeid :: nat
  st_bridgemac :: string
  st_rootid :: nat
  st_rootmac :: string
  st_portid :: nat
  st_pathcost :: nat

text \<open>Status and type are bytes or a number.\<close>

record dtp_layer =
  dt_status :: "(bytes + int) option"
  dt_type :: "(bytes + int) option"
  dt_domain :: "sval option"
  dt_neighbor :: "ustr option"

datatype snmp_pdu = SnmpGet | SnmpResponse | SnmpSet | SnmpTrap | SnmpOther

record snmp_layer =
  sn_version :: int
  sn_community :: "sval option"
  sn_pdu :: snmp_pdu
  sn_varbinds :: "(ustr \<times> sval) list"

datatype nd_layer =
  NdRA "nat option" "nat option" "nat option"
| NdNS string
| NdNA string nat nat nat
| NdRS

text \<open>A question and a resource record: the data of a TXT record may be a list; an SRV record has a target
  and a port; \<open>rr_data\<close> is None when the record has no such attribute.\<close>

datatype rr_data = RData sval | RList "sval list"

record dns_question =
  dq_name :: sval
  dq_type :: nat

record dns_rr =
  rr_name :: sval
  rr_type :: nat
  rr_ttl :: nat
  rr_rdata :: "rr_data option"
  rr_target :: "sval option"
  rr_port :: "nat option"

text \<open>The counts are None in packets the library builds itself; a section then has the length of its list.\<close>

record dns_layer =
  dns_qr :: bool
  dns_qd :: "dns_question list"
  dns_an :: "dns_rr list"
  dns_ns :: "dns_rr list"
  dns_ar :: "dns_rr list"
  dns_qdcount :: "nat option"
  dns_ancount :: "nat option"
  dns_nscount :: "nat option"
  dns_arcount :: "nat option"

text \<open>An option of a TCP header: name and value.\<close>

type_synonym tcp_opt = "string \<times> int"

record wire_frame = packet +
  f_arp :: "arp_layer option"
  f_eapol :: "eapol_layer option"
  f_lldp :: "lldp_layer option"
  f_cdp :: "cdp_layer option"
  f_stp :: "stp_layer option"
  f_dtp :: "dtp_layer option"
  f_snmp :: "snmp_layer option"
  f_nd :: "nd_layer option"
  f_igmp :: "(nat \<times> ustr) option"
  f_radius :: "nat option"
  f_dns :: "dns_layer option"
  f_ttl :: nat
  f_proto :: nat
  f_ip_flags :: nat
  f_ip_len :: nat
  f_tcp_flags :: nat
  f_window :: nat
  f_tcp_options :: "tcp_opt list"
  f_dhcp :: "dhcp_packet option"
  f_dhcp6 :: "dhcp6_packet option"

text \<open>A frame without layers, to build concrete inputs from.\<close>

definition bare_frame :: wire_frame where
  "bare_frame = packet.extend bare_packet (wire_frame.fields None None None None None None None None None None None 0 0 0 0 0 0 [] None None)"

section \<open>Conversions\<close>

definition str_of_text :: "ustr \<Rightarrow> string" where
  "str_of_text t = map char_of t"

definition dotted :: "bytes \<Rightarrow> ustr" where
  "dotted bs = join [46] (map (\<lambda>b. str_nat (unat b)) bs)"

text \<open>\<open>str(IPv6Address(bs))\<close>: hexadecimal groups, the first longest run of at least two zero groups
  compressed.\<close>

definition groups16 :: "bytes \<Rightarrow> nat list" where
  "groups16 bs = map (\<lambda>i. be_nat (slice (2 * i) (2 * i + 2) bs)) [0..<8]"

definition zero_run :: "nat list \<Rightarrow> nat \<Rightarrow> nat" where
  "zero_run gs i = length (takeWhile (\<lambda>g. g = 0) (drop i gs))"

definition best_run :: "nat list \<Rightarrow> nat \<times> nat" where
  "best_run gs = foldl (\<lambda>(i, n) j. if zero_run gs j > n then (j, zero_run gs j) else (i, n)) (0, 0) [0..<length gs]"

definition ipv6_text :: "bytes \<Rightarrow> ustr" where
  "ipv6_text bs =
     (let gs = groups16 bs; (i, n) = best_run gs; hex = (\<lambda>xs. join [58] (map hex_nat xs))
      in if n \<le> 1 then hex gs else hex (take i gs) @ [58, 58] @ hex (drop (i + n) gs))"

definition opt_field :: "string \<Rightarrow> pyval option \<Rightarrow> dict" where
  "opt_field k v = (case v of None \<Rightarrow> [] | Some x \<Rightarrow> [(k, x)])"

abbreviation ptext :: "sval \<Rightarrow> pyval" where
  "ptext v \<equiv> PStr (sval_text v)"

definition with_raw_of :: "wire_frame \<Rightarrow> captured_packet \<Rightarrow> captured_packet" where
  "with_raw_of f c = c\<lparr>cp_raw := Some (pkt_bytes f)\<rparr>"

definition src_of :: "wire_frame \<Rightarrow> string" where
  "src_of f = (case ip_layer f of Some (s, d) \<Rightarrow> s | None \<Rightarrow> (case ipv6_layer f of Some (s, d) \<Rightarrow> s | None \<Rightarrow> NO_IP))"

definition bit_set :: "nat \<Rightarrow> nat \<Rightarrow> bool" where
  "bit_set n i \<longleftrightarrow> (n div 2 ^ i) mod 2 = 1"

end
