(* ===== verification/LinkParsers.thy ===== *)
theory LinkParsers
  imports Frames
begin

text \<open>
  Parsers of link-layer and management protocols: \<open>capture/parsers/\<close> (LLDP, CDP, STP, DTP, SNMP), their
  wrappers in \<open>capture/protocols/infrastructure.py\<close>, and \<open>arp.py\<close> and \<open>eap.py\<close>.  A parser gives
  None for a frame that is not its own.
\<close>

section \<open>ARP\<close>

definition parse_arp :: "wire_frame \<Rightarrow> captured_packet option" where
  "parse_arp f =
     (case f_arp f of
        None \<Rightarrow> None
      | Some a \<Rightarrow>
          if arp_op a \<notin> {1, 2} then None
          else Some (with_raw_of f
            ((captured ''arp'' (arp_hwsrc a) (arp_psrc a) (Some (arp_pdst a))
               [(''op'', pnat (arp_op a)), (''src_mac'', pstr (arp_hwsrc a)), (''src_ip'', pstr (arp_psrc a)),
                (''dst_mac'', pstr (arp_hwdst a)), (''dst_ip'', pstr (arp_pdst a))])
             \<lparr>target_hw := Some (arp_hwdst a)\<rparr>)))"

section \<open>EAP\<close>

definition EAPOL_TYPE_NAMES :: "(nat \<times> string) list" where
  "EAPOL_TYPE_NAMES = [(0, ''eap_packet''), (1, ''eapol_start''), (2, ''eapol_logoff''), (3, ''eapol_key'')]"

definition EAP_CODE_NAMES :: "(nat \<times> string) list" where
  "EAP_CODE_NAMES = [(1, ''request''), (2, ''response''), (3, ''success''), (4, ''failure'')]"

definition EAP_TYPE_NAMES :: "(nat \<times> string) list" where
  "EAP_TYPE_NAMES = [(1, ''identity''), (2, ''notification''), (3, ''nak''), (4, ''md5_challenge''), (13, ''tls''),
     (21, ''ttls''), (25, ''peap''), (43, ''fast'')]"

definition eap_fields :: "eap_layer \<Rightarrow> dict" where
  "eap_fields e =
     [(''eap_code'', pnat (eap_code e)), (''eap_type'', case eap_type e of None \<Rightarrow> PNone | Some t \<Rightarrow> pnat t),
      (''eap_code_name'', name_of EAP_CODE_NAMES (eap_code e) (lit ''unknown'')),
      (''eap_type_name'', case eap_type e of None \<Rightarrow> pstr ''unknown'' | Some t \<Rightarrow> name_of EAP_TYPE_NAMES t (lit ''unknown''))] @
     (if eap_type e = Some 1 then opt_field ''identity'' (map_option ptext (eap_identity e)) else [])"

definition parse_eap :: "wire_frame \<Rightarrow> captured_packet option" where
  "parse_eap f =
     (case f_eapol f of
        None \<Rightarrow> None
      | Some l \<Rightarrow> Some (captured ''eap'' (pkt_src f) NO_IP None
          ([(''eapol_type'', pnat (eapol_type l)),
            (''eapol_type_name'', name_of EAPOL_TYPE_NAMES (eapol_type l) (lit ''type_'' @ str_nat (eapol_type l)))] @
           (case eapol_eap l of None \<Rightarrow> [] | Some e \<Rightarrow> eap_fields e))))"

section \<open>LLDP\<close>

definition flags_of :: "string list \<Rightarrow> nat \<Rightarrow> pyval" where
  "flags_of names n = PList (map (\<lambda>(i, s). pstr s) (filter (\<lambda>(i, s). bit_set n i) (enumerate 0 names)))"

definition LLDP_CAPS :: "string list" where
  "LLDP_CAPS = [''other'', ''repeater'', ''bridge'', ''wlan_ap'', ''router'', ''telephone'', ''docsis'', ''station'']"

definition lldp_address :: "sval \<Rightarrow> ustr" where
  "lldp_address v = (case v of
     SBytes b \<Rightarrow> if length b = 4 then dotted b else if length b = 16 then ipv6_text b else hex_bytes b
   | SText t \<Rightarrow> t)"

definition parse_lldp_raw :: "wire_frame \<Rightarrow> dict option" where
  "parse_lldp_raw f =
     (case f_lldp f of
        None \<Rightarrow> None
      | Some l \<Rightarrow>
          let ident = (\<lambda>k x. case x of None \<Rightarrow> [] | Some (v, n) \<Rightarrow> [(k, ptext v), (k @ ''_subtype'', PInt n)]);
              fs = ident ''chassis_id'' (ll_chassis l) @ ident ''port_id'' (ll_port l) @
                   opt_field ''port_description'' (map_option ptext (ll_port_descr l)) @
                   opt_field ''system_name'' (map_option ptext (ll_name l)) @
                   opt_field ''system_description'' (map_option ptext (ll_descr l)) @
                   opt_field ''capabilities'' (case ll_caps l of Some (Some n) \<Rightarrow> Some (flags_of LLDP_CAPS n) | _ \<Rightarrow> None) @
                   opt_field ''management_ip'' (map_option (\<lambda>v. PStr (lldp_address v)) (ll_mgmt l))
          in if fs = [] then None else Some ((''protocol'', pstr ''lldp'') # fs))"

text \<open>\<open>result.get("management_ip") or ""\<close>.\<close>

definition mgmt_ip :: "dict \<Rightarrow> string" where
  "mgmt_ip d = (case get_or d ''management_ip'' PNone of PStr t \<Rightarrow> str_of_text t | _ \<Rightarrow> [])"

definition parse_lldp :: "wire_frame \<Rightarrow> captured_packet option" where
  "parse_lldp f = map_option (\<lambda>d. with_raw_of f (captured ''lldp'' (pkt_src f) (mgmt_ip d) None d)) (parse_lldp_raw f)"

section \<open>CDP\<close>

definition CDP_CAPS :: "string list" where
  "CDP_CAPS = [''router'', ''transparent_bridge'', ''source_route_bridge'', ''switch'', ''host'', ''igmp'', ''repeater'']"

definition parse_cdp_raw :: "wire_frame \<Rightarrow> dict option" where
  "parse_cdp_raw f =
     (case f_cdp f of
        None \<Rightarrow> None
      | Some l \<Rightarrow>
          let fs = opt_field ''device_id'' (map_option ptext (cd_device l)) @
                   opt_field ''software_version'' (map_option ptext (cd_software l)) @
                   opt_field ''platform'' (map_option ptext (cd_platform l)) @
                   opt_field ''port_id'' (map_option ptext (cd_port l)) @
                   opt_field ''capabilities'' (map_option (flags_of CDP_CAPS) (cd_caps l)) @
                   opt_field ''native_vlan'' (map_option PInt (cd_vlan l)) @
                   opt_field ''management_ip'' (map_option PStr (cd_mgmt l))
          in if fs = [] then None else Some ((''protocol'', pstr ''cdp'') # fs))"

definition parse_cdp :: "wire_frame \<Rightarrow> captured_packet option" where
  "parse_cdp f = map_option (\<lambda>d. with_raw_of f (captured ''cdp'' (pkt_src f) (mgmt_ip d) None d)) (parse_cdp_raw f)"

section \<open>STP\<close>

definition hex4 :: "nat \<Rightarrow> ustr" where
  "hex4 n = zfill 4 (hex_nat n)"

definition parse_stp_raw :: "wire_frame \<Rightarrow> dict option" where
  "parse_stp_raw f =
     (case f_stp f of
        None \<Rightarrow> None
      | Some l \<Rightarrow> Some
          [(''protocol'', pstr ''stp''),
           (''bridge_id'', PStr (hex4 (st_bridgeid l) @ [46] @ lit (st_bridgemac l))),
           (''root_id'', PStr (hex4 (st_rootid l) @ [46] @ lit (st_rootmac l))),
           (''root_mac'', pstr (st_rootmac l)), (''bridge_mac'', pstr (st_bridgemac l)),
           (''root_priority'', pnat (st_rootid l)), (''bridge_priority'', pnat (st_bridgeid l)),
           (''port_priority'', pnat (st_portid l div 4096)), (''port_id'', pnat (st_portid l mod 4096)),
           (''root_path_cost'', pnat (st_pathcost l)), (''is_root'', PBool (st_rootmac l = st_bridgemac l))])"

definition parse_stp :: "wire_frame \<Rightarrow> captured_packet option" where
  "parse_stp f = map_option (\<lambda>d. with_raw_of f (captured ''stp'' (pkt_src f) [] None d)) (parse_stp_raw f)"

section \<open>DTP\<close>

definition DTP_MODES :: "(int \<times> string) list" where
  "DTP_MODES = [(0x01, ''access''), (0x02, ''off''), (0x03, ''dynamic_desirable''), (0x04, ''dynamic_auto''), (0x81, ''trunk'')]"

definition NEGOTIATING_BYTES :: "int list" where
  "NEGOTIATING_BYTES = [0x03, 0x04, 0x81]"

definition DTP_ENCAP :: "(int \<times> string) list" where
  "DTP_ENCAP = [(0x42, ''isl''), (0xa5, ''dot1q''), (0x45, ''dot1q_force'')]"

definition last_byte :: "bytes + int \<Rightarrow> int option" where
  "last_byte v = (case v of Inl [] \<Rightarrow> None | Inl bs \<Rightarrow> Some (int (unat (List.last bs))) | Inr i \<Rightarrow> Some i)"

definition parse_dtp_raw :: "wire_frame \<Rightarrow> dict option" where
  "parse_dtp_raw f =
     (case f_dtp f of
        None \<Rightarrow> None
      | Some l \<Rightarrow> Some
          ([(''protocol'', pstr ''dtp'')] @
           (case Option.bind (dt_status l) last_byte of None \<Rightarrow> []
            | Some b \<Rightarrow> [(''status_byte'', PInt b), (''mode'', pstr (get_or DTP_MODES b ''unknown'')),
                         (''negotiating'', PBool (b \<in> set NEGOTIATING_BYTES))]) @
           (case Option.bind (dt_type l) last_byte of None \<Rightarrow> []
            | Some b \<Rightarrow> [(''dtp_type_byte'', PInt b), (''encap'', pstr (get_or DTP_ENCAP b ''unknown''))]) @
           (case dt_domain l of None \<Rightarrow> []
            | Some (SBytes b) \<Rightarrow> [(''domain'', PStr (rstrip_nul (utf8_ignore b)))]
            | Some (SText t) \<Rightarrow> if t = [] then [] else [(''domain'', PStr t)]) @
           opt_field ''neighbor_mac'' (map_option PStr (dt_neighbor l)) @
           [(''src_mac'', pstr (pkt_src f))]))"

definition parse_dtp :: "wire_frame \<Rightarrow> captured_packet option" where
  "parse_dtp f = map_option (\<lambda>d. with_raw_of f (captured ''dtp'' (pkt_src f) [] None d)) (parse_dtp_raw f)"

section \<open>SNMP\<close>

definition SYSTEM_OIDS :: "(ustr \<times> string) list" where
  "SYSTEM_OIDS = map (\<lambda>(k, s). (lit k, s))
    [(''1.3.6.1.2.1.1.1'', ''sys_descr''), (''1.3.6.1.2.1.1.1.0'', ''sys_descr''),
     (''1.3.6.1.2.1.1.2'', ''sys_object_id''), (''1.3.6.1.2.1.1.2.0'', ''sys_object_id''),
     (''1.3.6.1.2.1.1.4'', ''sys_contact''), (''1.3.6.1.2.1.1.4.0'', ''sys_contact''),
     (''1.3.6.1.2.1.1.5'', ''sys_name''), (''1.3.6.1.2.1.1.5.0'', ''sys_name''),
     (''1.3.6.1.2.1.1.6'', ''sys_location''), (''1.3.6.1.2.1.1.6.0'', ''sys_location'')]"

definition extract_varbinds :: "(ustr \<times> sval) list \<Rightarrow> dict \<Rightarrow> dict" where
  "extract_varbinds vbs d = foldl (\<lambda>d (oid, v).
     case dict_get SYSTEM_OIDS oid of
       None \<Rightarrow> d
     | Some k \<Rightarrow> if sval_text v = [] then d else dict_set d k (ptext v)) d vbs"

definition parse_snmp_raw :: "wire_frame \<Rightarrow> dict option" where
  "parse_snmp_raw f =
     (case f_snmp f of
        None \<Rightarrow> None
      | Some l \<Rightarrow>
          let d = [(''protocol'', pstr ''snmp''),
                   (''version'', PStr (if sn_version l = 0 then lit ''v1'' else if sn_version l \<in> {1, 2} then lit ''v2c''
                      else 118 # str_int (sn_version l)))] @
                  (case sn_community l of None \<Rightarrow> [] | Some c \<Rightarrow> if sval_set c then [(''community'', ptext c)] else []) @
                  [(''pdu_type'', pstr (case sn_pdu l of SnmpGet \<Rightarrow> ''get-request'' | SnmpResponse \<Rightarrow> ''get-response''
                     | SnmpSet \<Rightarrow> ''set-request'' | SnmpTrap \<Rightarrow> ''trap'' | SnmpOther \<Rightarrow> ''unknown''))]
          in Some (if sn_pdu l = SnmpResponse then extract_varbinds (sn_varbinds l) d else d))"

definition parse_snmp :: "wire_frame \<Rightarrow> captured_packet option" where
  "parse_snmp f = map_option (\<lambda>d. with_raw_of f
     (captured ''snmp'' (pkt_src f) (case ip_layer f of Some (s, t) \<Rightarrow> s | None \<Rightarrow> []) None d)) (parse_snmp_raw f)"

end
