(* ===== verification/NetParsers.thy ===== *)
theory NetParsers
  imports Frames Matching
begin

text \<open>
  Parsers of \<open>capture/protocols/\<close> that read addresses, ports and payloads: \<open>icmpv6.py\<close>,
  \<open>igmp.py\<close>, \<open>ntp.py\<close>, \<open>quic.py\<close>, \<open>radius.py\<close>, \<open>stun.py\<close>, \<open>tcp_syn.py\<close>, \<open>http.py\<close>,
  \<open>fallback.py\<close>, and the SSDP, NetBIOS and UPnP parsers of \<open>discovery.py\<close>.
\<close>

section \<open>Texts\<close>

text \<open>\<open>t.split(sep)\<close> for a separator of several characters.\<close>

function split_sub :: "ustr \<Rightarrow> ustr \<Rightarrow> ustr list" where
  "split_sub sep [] = [[]]"
| "split_sub sep (c # cs) =
     (if sep \<noteq> [] \<and> starts_with sep (c # cs) then [] # split_sub sep (drop (length sep) (c # cs))
      else (case split_sub sep cs of [] \<Rightarrow> [[c]] | y # ys \<Rightarrow> (c # y) # ys))"
  by pat_completeness auto
termination by (relation "measure (\<lambda>(sep, t). length t)") auto

definition CRLF :: ustr where
  "CRLF = [13, 10]"

text \<open>\<open>t.partition(c)\<close> without the separator.\<close>

definition partition_at :: "nat \<Rightarrow> ustr \<Rightarrow> ustr \<times> ustr" where
  "partition_at c t = (takeWhile (\<lambda>x. x \<noteq> c) t, drop 1 (dropWhile (\<lambda>x. x \<noteq> c) t))"

definition or_text :: "ustr option \<Rightarrow> ustr option \<Rightarrow> ustr option" where
  "or_text a b = (if truthy a then a else b)"

definition udp_text :: "wire_frame \<Rightarrow> ustr option" where
  "udp_text f = (case udp_layer f of None \<Rightarrow> None
     | Some u \<Rightarrow> (case l4_payload u of Inl e \<Rightarrow> None | Inr b \<Rightarrow> Some (utf8_ignore b)))"

text \<open>The transport of a frame that uses one of the ports, with the addresses.\<close>

definition on_port :: "l4 option \<Rightarrow> nat list \<Rightarrow> l4 option" where
  "on_port t ports = (case t of None \<Rightarrow> None
     | Some u \<Rightarrow> if dport u \<in> set ports \<or> sport u \<in> set ports then Some u else None)"

section \<open>ICMPv6\<close>

definition nd_fields :: "nd_layer \<Rightarrow> dict" where
  "nd_fields l = (let num = (\<lambda>x. case x of None \<Rightarrow> PNone | Some n \<Rightarrow> pnat n) in case l of
     NdRA hop managed other \<Rightarrow> [(''icmpv6_type'', pstr ''router_advertisement''), (''hop_limit'', num hop),
       (''managed'', num managed), (''other'', num other)]
   | NdNS tgt \<Rightarrow> [(''icmpv6_type'', pstr ''neighbor_solicitation''), (''target'', pstr tgt)]
   | NdNA tgt r s ov \<Rightarrow> [(''icmpv6_type'', pstr ''neighbor_advertisement''), (''target'', pstr tgt), (''router'', pnat r),
       (''solicited'', pnat s), (''override'', pnat ov)]
   | NdRS \<Rightarrow> [(''icmpv6_type'', pstr ''router_solicitation'')])"

definition parse_icmpv6 :: "wire_frame \<Rightarrow> captured_packet option" where
  "parse_icmpv6 f =
     (case (ipv6_layer f, f_nd f) of
        (Some (src, dst), Some l) \<Rightarrow>
          Some (with_raw_of f ((captured ''icmpv6'' (pkt_src f) src (Some dst) (nd_fields l))\<lparr>target_hw := Some (pkt_dst f)\<rparr>))
      | _ \<Rightarrow> None)"

section \<open>IGMP\<close>

definition parse_igmp :: "wire_frame \<Rightarrow> captured_packet option" where
  "parse_igmp f =
     (case (f_igmp f, ip_layer f) of
        (Some (ty, gaddr), Some (src, dst)) \<Rightarrow>
          if ty = 0x11 \<or> gaddr = [] \<or> gaddr = lit ''0.0.0.0'' then None
          else Some (captured ''igmp'' (pkt_src f) src None
            [(''igmp_type'', pnat ty), (''group'', PStr gaddr),
             (''type_name'', name_of [(0x16, ''membership_report_v2''), (0x17, ''leave_group''), (0x22, ''membership_report_v3'')]
                ty (lit ''type_'' @ str_nat ty))])
      | _ \<Rightarrow> None)"

section \<open>NTP\<close>

definition NTP_MODE_NAMES :: "(nat \<times> string) list" where
  "NTP_MODE_NAMES = [(1, ''symmetric_active''), (2, ''symmetric_passive''), (3, ''client''), (4, ''server''), (5, ''broadcast'')]"

definition ntp_reference :: "bytes \<Rightarrow> ustr" where
  "ntp_reference payload =
     (let ref = slice 12 16 payload
      in if bnat payload 1 \<le> 1 then strip (rstrip_nul (ascii_ignore ref)) else dotted ref)"

definition addresses :: "wire_frame \<Rightarrow> (string \<times> string) option" where
  "addresses f = (case ip_layer f of Some a \<Rightarrow> Some a | None \<Rightarrow> ipv6_layer f)"

definition parse_ntp :: "wire_frame \<Rightarrow> captured_packet option" where
  "parse_ntp f =
     (case (on_port (udp_layer f) [123], addresses f) of
        (Some u, Some (src, dst)) \<Rightarrow>
          (case l4_payload u of
             Inl e \<Rightarrow> None
           | Inr payload \<Rightarrow>
               if length payload < 48 then None
               else (case dict_get NTP_MODE_NAMES (bnat payload 0 mod 8) of
                       None \<Rightarrow> None
                     | Some mode \<Rightarrow> Some (with_raw_of f (captured ''ntp'' (pkt_src f) src (Some dst)
                         [(''mode'', pstr mode), (''stratum'', pnat (bnat payload 1)),
                          (''reference_id'', PStr (ntp_reference payload))]))))
      | _ \<Rightarrow> None)"

section \<open>QUIC\<close>

definition is_alnum :: "nat \<Rightarrow> bool" where
  "is_alnum c \<longleftrightarrow> is_letter c \<or> is_digit c"

definition is_plausible_hostname :: "ustr \<Rightarrow> bool" where
  "is_plausible_hostname name =
     (let parts = split_on 46 name; n = length (List.last parts)
      in 2 \<le> length parts \<and> 2 \<le> n \<and> n \<le> 10 \<and> 4 \<le> length name \<and>
         list_all (\<lambda>p. let q = filter (\<lambda>c. c \<noteq> 45) p in q \<noteq> [] \<and> list_all is_alnum q) (filter (\<lambda>p. p \<noteq> []) parts))"

text \<open>A name at a position that looks like the server name extension.\<close>

definition sni_at :: "bytes \<Rightarrow> nat \<Rightarrow> ustr option" where
  "sni_at payload i =
     (let ext_len = be_nat (slice (i + 2) (i + 4) payload); name_len = be_nat (slice (i + 7) (i + 9) payload);
          name = slice (i + 9) (i + 9 + name_len) payload; t = map unat name
      in if slice i (i + 2) payload \<noteq> [0, 0] \<or> ext_len < 4 \<or> 256 < ext_len \<or> payload ! (i + 6) \<noteq> 0 \<or>
            name_len < 3 \<or> 253 < name_len then None
         else if list_all (\<lambda>b. unat b < 128) name \<and> 46 \<in> set t \<and> list_all (\<lambda>c. is_alnum c \<or> c = 46 \<or> c = 45) t \<and>
                 is_plausible_hostname t
         then Some t else None)"

definition extract_sni_from_quic :: "bytes \<Rightarrow> ustr option" where
  "extract_sni_from_quic payload = first_some (sni_at payload) [0..<min (length payload) 500 - 10]"

definition parse_quic :: "wire_frame \<Rightarrow> captured_packet option" where
  "parse_quic f =
     (case (on_port (udp_layer f) [443], ip_layer f, raw_layer f) of
        (Some u, Some (src, dst), Some payload) \<Rightarrow>
          if length payload < 5 \<or> bnat payload 0 < 0xC0 then None
          else (case extract_sni_from_quic payload of
                  None \<Rightarrow> None
                | Some name \<Rightarrow> if name = [] then None
                    else Some (captured ''quic'' (pkt_src f) src (Some dst) [(''sni'', PStr name), (''dst_port'', pnat (dport u))]))
      | _ \<Rightarrow> None)"

section \<open>RADIUS\<close>

definition RADIUS_CODE_NAMES :: "(nat \<times> string) list" where
  "RADIUS_CODE_NAMES = [(1, ''access_request''), (2, ''access_accept''), (3, ''access_reject''), (4, ''accounting_request''),
     (5, ''accounting_response''), (11, ''access_challenge'')]"

definition RADIUS_PORTS :: "nat list" where
  "RADIUS_PORTS = [1812, 1813, 1645, 1646]"

definition radius_code :: "nat \<Rightarrow> dict" where
  "radius_code c = [(''code'', pnat c), (''code_name'', name_of RADIUS_CODE_NAMES c (lit ''code_'' @ str_nat c))]"

definition parse_radius :: "wire_frame \<Rightarrow> captured_packet option" where
  "parse_radius f =
     (case (udp_layer f, ip_layer f) of
        (Some u, Some (src, dst)) \<Rightarrow>
          (case f_radius f of
             Some c \<Rightarrow> Some (captured ''radius'' (pkt_src f) src (Some dst) (radius_code c))
           | None \<Rightarrow>
               if on_port (Some u) RADIUS_PORTS = None then None
               else (case raw_layer f of
                       None \<Rightarrow> None
                     | Some payload \<Rightarrow>
                         if length payload < 20 then None
                         else Some (captured ''radius'' (pkt_src f) src (Some dst)
                           (radius_code (bnat payload 0) @ [(''is_server'', PBool (sport u \<in> set RADIUS_PORTS))]))))
      | _ \<Rightarrow> None)"

section \<open>STUN\<close>

definition STUN_PORTS :: "nat list" where
  "STUN_PORTS = [3478, 5349, 19302, 19303, 19304, 19305, 19306, 19307, 19308]"

definition parse_stun :: "wire_frame \<Rightarrow> captured_packet option" where
  "parse_stun f =
     (case (on_port (udp_layer f) STUN_PORTS, ip_layer f, raw_layer f) of
        (Some u, Some (src, dst), Some payload) \<Rightarrow>
          if length payload < 20 \<or> slice 4 8 payload \<noteq> [0x21, 0x12, 0xa4, 0x42] then None
          else
            let ty = be_at payload 0 2
            in Some (captured ''stun'' (pkt_src f) src (Some dst)
                 [(''msg_type'', pnat ty),
                  (''type_name'', name_of [(0x0001, ''binding_request''), (0x0101, ''binding_response''), (0x0111, ''binding_error''),
                     (0x0003, ''allocate_request''), (0x0103, ''allocate_response'')] ty (lit ''type_'' @ hex_prefixed 6 ty)),
                  (''msg_length'', pnat (be_at payload 2 4)), (''dst_port'', pnat (dport u))])
      | _ \<Rightarrow> None)"

section \<open>TCP handshakes\<close>

text \<open>\<open>_satori_signature\<close>.\<close>

definition satori_signature :: "wire_frame \<Rightarrow> ustr list \<Rightarrow> ustr" where
  "satori_signature f detailed =
     join [58] [str_nat (f_window f), str_nat (f_ttl f), str_nat (if bit_set (f_ip_flags f) 1 then 1 else 0), str_nat (f_ip_len f),
       if detailed = [] then [46] else join [44] detailed, [46]]"

text \<open>The letter of an option, and the same with its value.\<close>

definition option_letter :: "string \<Rightarrow> string" where
  "option_letter name = get_or [(''MSS'', ''M''), (''NOP'', ''N''), (''WScale'', ''W''), (''Timestamp'', ''T''), (''SAckOK'', ''S''),
     (''EOL'', ''E'')] name ''?''"

definition option_detail :: "tcp_opt \<Rightarrow> ustr" where
  "option_detail o' = (case o' of (name, v) \<Rightarrow>
     lit (option_letter name) @ (if name = ''MSS'' \<or> name = ''WScale'' then str_int v else []))"

definition last_value :: "string \<Rightarrow> tcp_opt list \<Rightarrow> pyval" where
  "last_value name os = foldl (\<lambda>a (n, v). if n = name then PInt v else a) PNone os"

definition parse_tcp_syn :: "wire_frame \<Rightarrow> captured_packet option" where
  "parse_tcp_syn f =
     (case (tcp_layer f, ip_layer f) of
        (Some t, Some (src, dst)) \<Rightarrow>
          if \<not> bit_set (f_tcp_flags f) 1 then None
          else
            let os = f_tcp_options f
            in Some (with_raw_of f ((captured ''tcp_syn'' (pkt_src f) src (Some dst)
                 [(''ttl'', pnat (f_ttl f)), (''window_size'', pnat (f_window f)), (''mss'', last_value ''MSS'' os),
                  (''tcp_options'', PStr (join [44] (map (\<lambda>o'. lit (option_letter (fst o'))) os))),
                  (''window_scale'', last_value ''WScale'' os),
                  (''tcp_flags'', pstr (if bit_set (f_tcp_flags f) 4 then ''SA'' else ''S'')),
                  (''df'', pnat (if bit_set (f_ip_flags f) 1 then 1 else 0)), (''ip_len'', pnat (f_ip_len f)),
                  (''satori_sig'', PStr (satori_signature f (map option_detail os)))])
                \<lparr>target_hw := Some (pkt_dst f)\<rparr>))
      | _ \<Rightarrow> None)"

section \<open>HTTP requests\<close>

definition HTTP_METHODS :: "string list" where
  "HTTP_METHODS = [''GET '', ''POST '', ''PUT '', ''DELETE '', ''HEAD '', ''PATCH '', ''OPTIONS '']"

text \<open>The last user agent and host before the blank line.\<close>

fun http_headers :: "ustr list \<Rightarrow> ustr option \<times> ustr option \<Rightarrow> ustr option \<times> ustr option" where
  "http_headers [] a = a"
| "http_headers (line # ls) (ua, h) =
     (if line = [] then (ua, h)
      else let v = strip (snd (partition_at 58 line))
           in http_headers ls
                (if starts_with (lit ''user-agent:'') (lower line) then (Some v, h)
                 else if starts_with (lit ''host:'') (lower line) then (ua, Some v) else (ua, h)))"

definition parse_http_useragent :: "wire_frame \<Rightarrow> captured_packet option" where
  "parse_http_useragent f =
     (case (tcp_layer f, raw_layer f, ip_layer f) of
        (Some t, Some payload, Some (src, dst)) \<Rightarrow>
          let txt' = utf8_ignore (take 2048 payload); ls = split_sub CRLF txt'; parts = split_on 32 (hd ls);
              (ua, h) = http_headers (tl ls) (None, None)
          in if \<not> list_ex (\<lambda>m. starts_with (lit m) txt') HTTP_METHODS \<or> length parts < 2 \<or> \<not> truthy ua then None
             else Some (captured ''http_useragent'' (pkt_src f) src (Some dst)
               [(''user_agent'', opt_str ua), (''host'', opt_str h), (''method'', PStr (hd parts)), (''path'', PStr (parts ! 1))])
      | _ \<Rightarrow> None)"

section \<open>Any IP packet\<close>

definition guess_initial_ttl :: "nat \<Rightarrow> nat \<times> string option" where
  "guess_initial_ttl ttl = (if ttl \<le> 64 then (64, None) else if ttl \<le> 128 then (128, Some ''windows'')
     else (255, Some ''network_device''))"

definition parse_ip_observed :: "wire_frame \<Rightarrow> captured_packet option" where
  "parse_ip_observed f =
     (case ip_layer f of
        None \<Rightarrow> None
      | Some (src, dst) \<Rightarrow>
          let (ttl0, hint) = guess_initial_ttl (f_ttl f);
              (sp, dp) = (case tcp_or_udp (packet.truncate f) of None \<Rightarrow> (PNone, PNone) | Some t \<Rightarrow> (pnat (sport t), pnat (dport t)))
          in Some (captured ''ip_observed'' (pkt_src f) src (Some dst)
               [(''proto'', pnat (f_proto f)), (''ttl'', pnat (f_ttl f)), (''ttl_initial_guess'', pnat ttl0),
                (''ttl_os_hint'', opt_text hint), (''ttl_hops'', PInt (int ttl0 - int (f_ttl f))),
                (''src_port'', sp), (''dst_port'', dp)]))"

section \<open>SSDP\<close>

definition ssdp_headers :: "ustr list \<Rightarrow> (ustr \<times> ustr) list" where
  "ssdp_headers ls = foldl (\<lambda>d line.
     if 58 \<in> set line
     then let (k, v) = partition_at 58 line in dict_set d (upper (strip k)) (strip v) else d) [] ls"

definition ssdp_type :: "ustr \<Rightarrow> string option" where
  "ssdp_type t = (if starts_with (lit ''NOTIFY'') t then Some ''notify''
     else if starts_with (lit ''HTTP/'') t then Some ''response''
     else if starts_with (lit ''M-SEARCH'') t then Some ''m-search'' else None)"

definition parse_ssdp :: "wire_frame \<Rightarrow> captured_packet option" where
  "parse_ssdp f =
     (case (on_port (udp_layer f) [1900], ip_layer f, udp_text f) of
        (Some u, Some (src, dst), Some t) \<Rightarrow>
          let h = ssdp_headers (tl (split_sub CRLF t)); get = (\<lambda>k. dict_get h (lit k));
              server = or_text (get ''SERVER'') (get ''USER-AGENT''); st = or_text (get ''ST'') (get ''NT'')
          in (case ssdp_type t of
                None \<Rightarrow> None
              | Some ty \<Rightarrow>
                  if \<not> truthy server \<and> \<not> truthy st then None
                  else Some (with_raw_of f (captured ''ssdp'' (pkt_src f) src (Some dst)
                    [(''ssdp_type'', pstr ty), (''server'', opt_str server), (''st'', opt_str st), (''usn'', opt_str (get ''USN'')),
                     (''location'', opt_str (get ''LOCATION''))])))
      | _ \<Rightarrow> None)"

section \<open>LLMNR and NetBIOS\<close>

text \<open>The first-level encoding: two letters from \<open>A\<close> per character.  \<open>bytes\<close> of a value outside 0 to 255
  raises.\<close>

definition netbios_char :: "bytes \<Rightarrow> nat \<Rightarrow> int" where
  "netbios_char enc j = (let a = int (bnat enc j) - 0x41; b = int (bnat enc (j + 1)) - 0x41 in or (push_bit 4 a) b)"

definition netbios_name :: "bytes \<Rightarrow> (ustr \<times> int) option" where
  "netbios_name payload =
     (if length payload < 45 then None
      else
        let enc = slice 13 45 payload; chars = map (\<lambda>j. netbios_char enc (2 * j)) [0..<16]; name = take 15 chars
        in if list_all (\<lambda>c. 0 \<le> c \<and> c \<le> 255) name
           then Some (rstrip_by is_space (map nat (filter (\<lambda>c. c < 128) name)), chars ! 15) else None)"

definition parse_llmnr_netbios :: "wire_frame \<Rightarrow> captured_packet option" where
  "parse_llmnr_netbios f =
     (case (udp_layer f, ip_layer f) of
        (Some u, Some (src, dst)) \<Rightarrow>
          if on_port (Some u) [5355] \<noteq> None then
            (case f_dns f of
               None \<Rightarrow> None
             | Some d \<Rightarrow>
                 (case dns_qd d of
                    [] \<Rightarrow> None
                  | q # _ \<Rightarrow>
                      (case sval_strict (dq_name q) of
                         Inl e \<Rightarrow> None
                       | Inr t \<Rightarrow>
                           let name = rstrip_by (chr_is 46) t
                           in if name = [] then None
                              else Some (with_raw_of f (captured ''netbios'' (pkt_src f) src (Some dst)
                                [(''query_name'', PStr name), (''query_type'', pstr ''llmnr'')])))))
          else if on_port (Some u) [137] \<noteq> None then
            (case l4_payload u of
               Inl e \<Rightarrow> None
             | Inr payload \<Rightarrow>
                 (case netbios_name payload of
                    None \<Rightarrow> None
                  | Some (name, suffix) \<Rightarrow>
                      if name = [] then None
                      else Some (with_raw_of f (captured ''netbios'' (pkt_src f) src (Some dst)
                        [(''query_name'', PStr name), (''query_type'', pstr ''netbios''), (''netbios_suffix'', PInt suffix)]))))
          else None
      | _ \<Rightarrow> None)"

section \<open>UPnP\<close>

definition UPNP_PORTS :: "nat list" where
  "UPNP_PORTS = [2869, 5000, 49152, 49153, 49154, 49155, 8008, 8443, 8080]"

definition UPNP_INDICATORS :: "string list" where
  "UPNP_INDICATORS = [''upnp'', ''urn:schemas-upnp-org'', ''rootdevice'', ''WANIPConnection'', ''WANPPPConnection'',
     ''InternetGateway'', ''MediaRenderer'', ''MediaServer'', ''ContentDirectory'']"

definition parse_upnp :: "wire_frame \<Rightarrow> captured_packet option" where
  "parse_upnp f =
     (case (on_port (tcp_layer f) UPNP_PORTS, ip_layer f, raw_layer f) of
        (Some t, Some (src, dst), Some payload) \<Rightarrow>
          let txt' = take 500 (utf8_replace payload)
          in if \<not> list_ex (\<lambda>i. contains_sub (lower (lit i)) (lower txt')) UPNP_INDICATORS then None
             else Some (captured ''upnp'' (pkt_src f) src (Some dst)
               [(''dst_port'', pnat (dport t)), (''payload_preview'', PStr (take 200 txt'))])
      | _ \<Rightarrow> None)"

end
