(* ===== verification/DnsParsers.thy ===== *)
theory DnsParsers
  imports NetParsers
begin

text \<open>
  The parsers of the three uses of DNS packets: \<open>capture/protocols/dns.py\<close> (queries and answers on
  port 53, and the answers of any DNS packet) and \<open>parse_mdns\<close> of \<open>discovery.py\<close>.  Names are decoded
  strictly, so a name that is not UTF-8 raises; the answers parser skips such a record, the others do not
  catch it.
\<close>

section \<open>Queries\<close>

definition QTYPE_NAMES :: "(nat \<times> string) list" where
  "QTYPE_NAMES = [(1, ''A''), (2, ''NS''), (5, ''CNAME''), (6, ''SOA''), (12, ''PTR''), (15, ''MX''), (16, ''TXT''), (28, ''AAAA''),
     (33, ''SRV''), (255, ''ANY'')]"

definition parse_dns :: "wire_frame \<Rightarrow> parse_result" where
  "parse_dns f =
     (case (f_dns f, on_port (udp_layer f) [53]) of
        (Some d, Some u) \<Rightarrow>
          if dns_qr d then
            Inr (Some (with_raw_of f (captured ''dns_server'' (lower_s (pkt_src f)) (src_of f) None
              [(''role'', pstr ''dns_server''), (''answer_count'', case dns_ancount d of None \<Rightarrow> PInt 0 | Some n \<Rightarrow> pnat n)])))
          else (case dns_qd d of
                  [] \<Rightarrow> Inr None
                | q # _ \<Rightarrow>
                    (case sval_strict (dq_name q) of
                       Inl e \<Rightarrow> Inl e
                     | Inr qname \<Rightarrow>
                         if pkt_src f = [] then Inr None
                         else Inr (Some (with_raw_of f (captured ''dns'' (lower_s (pkt_src f)) (src_of f) (map_option snd (addresses f))
                           [(''query_name'', PStr (rstrip_dots qname)), (''query_type'', pnat (dq_type q)),
                            (''query_type_name'', name_of QTYPE_NAMES (dq_type q) (lit ''TYPE'' @ str_nat (dq_type q)))])))))
      | _ \<Rightarrow> Inr None)"

section \<open>Answers\<close>

definition RECORD_TYPES :: "(nat \<times> string) list" where
  "RECORD_TYPES = [(1, ''A''), (28, ''AAAA''), (12, ''PTR''), (33, ''SRV''), (5, ''CNAME'')]"

text \<open>One record: a packet for an address or a pointer, nothing for other types or when decoding fails.  A list
  of texts occurs in TXT records only, which give nothing.\<close>

definition answer_packet :: "wire_frame \<Rightarrow> string \<times> string \<Rightarrow> dns_rr \<Rightarrow> captured_packet option" where
  "answer_packet f a rr =
     (case (sval_strict (rr_name rr), rr_rdata rr) of
        (Inr rrname, Some (RData v)) \<Rightarrow>
          (case sval_strict v of
             Inl e \<Rightarrow> None
           | Inr t \<Rightarrow>
               let rdata = rstrip_dots t;
                   ty = name_of RECORD_TYPES (rr_type rr) (str_nat (rr_type rr));
                   fs = [(''query_name'', PStr (rstrip_dots rrname)), (''record_type'', ty), (''ttl'', pnat (rr_ttl rr))]
               in if rr_type rr = 1 \<or> rr_type rr = 28
                  then Some (captured ''dns_answer'' (pkt_src f) (fst a) (Some (str_of_text rdata)) (fs @ [(''answer_ip'', PStr rdata)]))
                  else if rr_type rr = 12
                  then Some (captured ''dns_answer'' (pkt_src f) (fst a) (Some (snd a)) (fs @ [(''hostname'', PStr rdata)]))
                  else None)
      | _ \<Rightarrow> None)"

definition parse_dns_answer :: "wire_frame \<Rightarrow> captured_packet list" where
  "parse_dns_answer f =
     (case (f_dns f, addresses f) of
        (Some d, Some a) \<Rightarrow> if \<not> dns_qr d then [] else List.map_filter (answer_packet f a) (dns_an d)
      | _ \<Rightarrow> [])"

section \<open>mDNS\<close>

text \<open>Whether a name belongs to a service, and the service: a label that begins with an underscore followed by
  the transport.\<close>

fun service_of :: "ustr list \<Rightarrow> ustr option" where
  "service_of (p # q # ps) =
     (if starts_with (lit ''_'') p \<and> (q = lit ''_tcp'' \<or> q = lit ''_udp'') then Some (p @ 46 # q) else service_of (q # ps))"
| "service_of _ = None"

definition service_in :: "ustr \<Rightarrow> ustr option" where
  "service_in name = (if service_name name then service_of (split_on 46 (rstrip_dots name)) else None)"

text \<open>A section as the loops read it: the records up to the count.\<close>

definition section_of :: "'a list \<Rightarrow> nat option \<Rightarrow> 'a list" where
  "section_of xs n = (case n of None \<Rightarrow> xs | Some k \<Rightarrow> take k xs)"

text \<open>The service of the last question that names one.\<close>

fun query_service :: "dns_question list \<Rightarrow> ustr option \<Rightarrow> py_error + ustr option" where
  "query_service [] s = Inr s"
| "query_service (q # qs) s =
     (case sval_strict (dq_name q) of
        Inl e \<Rightarrow> Inl e
      | Inr t \<Rightarrow> query_service qs (case service_in t of None \<Rightarrow> s | Some x \<Rightarrow> Some x))"

definition rdata_of :: "dns_rr \<Rightarrow> sval option" where
  "rdata_of rr = (case rr_rdata rr of Some (RData v) \<Rightarrow> if sval_set v then Some v else None | _ \<Rightarrow> None)"

text \<open>The service of the first answer that names one, with the name it points to.\<close>

fun answer_service :: "dns_rr list \<Rightarrow> py_error + (ustr option \<times> ustr option)" where
  "answer_service [] = Inr (None, None)"
| "answer_service (rr # rrs) =
     (case sval_strict (rr_name rr) of
        Inl e \<Rightarrow> Inl e
      | Inr t \<Rightarrow>
          (case service_in t of
             None \<Rightarrow> answer_service rrs
           | Some s \<Rightarrow>
               (case (if rr_type rr = 12 then rdata_of rr else None) of
                  None \<Rightarrow> Inr (Some s, None)
                | Some v \<Rightarrow> (case sval_strict v of Inl e \<Rightarrow> Inl e | Inr n \<Rightarrow> Inr (Some s, Some n)))))"

text \<open>\<open>key=value\<close> texts: keys in lower case, both stripped.  A key of the model is a string of characters;
  others appear as question marks, which no key that is read contains.\<close>

definition key_of :: "ustr \<Rightarrow> string" where
  "key_of t = map (\<lambda>c. if c < 256 then char_of c else CHR ''?'') t"

definition add_txt :: "ustr \<Rightarrow> dict \<Rightarrow> dict" where
  "add_txt t d =
     (if 61 \<in> set t then let (k, v) = partition_at 61 t in dict_set d (key_of (lower (strip k))) (PStr (strip v)) else d)"

function txt_loop :: "bytes \<Rightarrow> dict \<Rightarrow> dict" where
  "txt_loop [] d = d"
| "txt_loop (n # bs) d =
     (if n = 0 \<or> unat n > length bs then d
      else txt_loop (drop (unat n) bs) (add_txt (utf8_replace (take (unat n) bs)) d))"
  by pat_completeness auto
termination by (relation "measure (\<lambda>(bs, d). length bs)") auto

definition add_txt_data :: "rr_data option \<Rightarrow> dict \<Rightarrow> dict" where
  "add_txt_data r d = (case r of
     Some (RData (SBytes bs)) \<Rightarrow> txt_loop bs d
   | Some (RList vs) \<Rightarrow> foldl (\<lambda>d v. add_txt (sval_text v) d) d vs
   | _ \<Rightarrow> d)"

text \<open>The target of an SRV record without the local domain.\<close>

definition drop_local :: "ustr \<Rightarrow> ustr" where
  "drop_local t = (if ends_with (lit ''.local'') t then take (length t - 6) t else t)"

definition srv_target_of :: "dns_rr \<Rightarrow> py_error + ustr option" where
  "srv_target_of rr =
     (case rr_target rr of
        None \<Rightarrow> Inr None
      | Some v \<Rightarrow>
          if \<not> sval_set v then Inr None
          else (case sval_strict v of Inl e \<Rightarrow> Inl e
                | Inr t \<Rightarrow> let x = drop_local (rstrip_dots t) in Inr (if x = [] then None else Some x)))"

record mdns_scan =
  ms_txt :: dict
  ms_target :: "ustr option"
  ms_port :: "nat option"
  ms_name :: "ustr option"

definition scan_record :: "dns_rr \<Rightarrow> mdns_scan \<Rightarrow> py_error + mdns_scan" where
  "scan_record rr m =
     (case sval_strict (rr_name rr) of
        Inl e \<Rightarrow> Inl e
      | Inr rrname \<Rightarrow>
          if rr_type rr = 33 then
            (case srv_target_of rr of
               Inl e \<Rightarrow> Inl e
             | Inr t \<Rightarrow> Inr (m\<lparr>ms_target := (if t = None then ms_target m else t),
                 ms_port := (case rr_port rr of None \<Rightarrow> ms_port m | Some n \<Rightarrow> if n = 0 then ms_port m else Some n)\<rparr>))
          else if rr_type rr = 16 \<and> rr_rdata rr \<noteq> None then Inr (m\<lparr>ms_txt := add_txt_data (rr_rdata rr) (ms_txt m)\<rparr>)
          else (case rdata_of rr of
                  None \<Rightarrow> Inr m
                | Some v \<Rightarrow>
                    (case sval_strict v of Inl e \<Rightarrow> Inl e
                     | Inr t \<Rightarrow> Inr (if service_name rrname then m\<lparr>ms_name := Some t\<rparr> else m))))"

fun scan_records :: "dns_rr list \<Rightarrow> mdns_scan \<Rightarrow> py_error + mdns_scan" where
  "scan_records [] m = Inr m"
| "scan_records (rr # rrs) m = (case scan_record rr m of Inl e \<Rightarrow> Inl e | Inr m \<Rightarrow> scan_records rrs m)"

text \<open>The additional and authority records give a target when the answers had none.\<close>

fun more_targets :: "dns_rr list \<Rightarrow> ustr option \<Rightarrow> py_error + ustr option" where
  "more_targets [] t = Inr t"
| "more_targets (rr # rrs) t =
     (if rr_type rr = 33 \<and> t = None
      then (case srv_target_of rr of Inl e \<Rightarrow> Inl e | Inr x \<Rightarrow> more_targets rrs x)
      else more_targets rrs t)"

fun local_name :: "dns_rr list \<Rightarrow> py_error + ustr option" where
  "local_name [] = Inr None"
| "local_name (rr # rrs) =
     (case sval_strict (rr_name rr) of
        Inl e \<Rightarrow> Inl e
      | Inr t \<Rightarrow> let x = rstrip_dots t
          in if ends_with (lit ''.local'') x then Inr (Some (take (length x - 6) x)) else local_name rrs)"

definition clean_instance :: "ustr option \<Rightarrow> ustr option" where
  "clean_instance name =
     (if \<not> truthy name then name
      else let t = the name;
               t = (if service_name t then before_sub (lit ''._'') t else t);
               t = drop_local (re_remove HEX_SUFFIX t);
               t = rstrip_dots t
           in if t = [] then name else Some t)"

definition mdns_fields :: "ustr option \<Rightarrow> ustr option \<Rightarrow> ustr option \<Rightarrow> mdns_scan \<Rightarrow> dict" where
  "mdns_fields ty name local' m =
     (let d = ms_txt m; copy = (\<lambda>k k'. case dict_get d k of None \<Rightarrow> [] | Some v \<Rightarrow> [(k', v)])
      in [(''service_type'', opt_str ty),
          (''name'', opt_str (if truthy local' \<and> \<not> truthy name then local' else name))] @
         (if ms_target m = None then [] else [(''srv_target'', opt_str (ms_target m))]) @
         (case ms_port m of None \<Rightarrow> [] | Some n \<Rightarrow> [(''srv_port'', pnat n)]) @
         (if d = [] then []
          else [(''txt_records'', PDict d)] @ copy ''md'' ''model'' @ copy ''fn'' ''friendly_name'' @ copy ''am'' ''apple_model'' @
               copy ''manufacturer'' ''txt_manufacturer''))"

text \<open>An exception leaves, a value goes on.\<close>

definition and_then :: "py_error + 'a \<Rightarrow> ('a \<Rightarrow> py_error + 'b) \<Rightarrow> py_error + 'b" where
  "and_then r k = (case r of Inl e \<Rightarrow> Inl e | Inr x \<Rightarrow> k x)"

definition upto_count :: "'a list \<Rightarrow> nat option \<Rightarrow> 'a list" where
  "upto_count xs n = take (case n of None \<Rightarrow> 0 | Some k \<Rightarrow> k) xs"

definition parse_mdns :: "wire_frame \<Rightarrow> parse_result" where
  "parse_mdns f =
     (case (f_dns f, on_port (udp_layer f) [5353]) of
        (Some d, Some u) \<Rightarrow>
          let an = section_of (dns_an d) (dns_ancount d)
          in and_then (query_service (section_of (dns_qd d) (dns_qdcount d)) None) (\<lambda>q.
             and_then (if q = None then answer_service an else Inr (q, None)) (\<lambda>(ty, name).
             and_then (scan_records an \<lparr>ms_txt = [], ms_target = None, ms_port = None, ms_name = name\<rparr>) (\<lambda>m.
             and_then (more_targets (upto_count (dns_ar d) (dns_arcount d) @ upto_count (dns_ns d) (dns_nscount d)) (ms_target m)) (\<lambda>tgt.
             and_then (if ty = None then local_name an else Inr None) (\<lambda>loc.
               if ty = None \<and> loc = None then Inr None
               else Inr (Some (with_raw_of f (captured ''mdns'' (pkt_src f)
                 (case ip_layer f of Some (s, t) \<Rightarrow> s | None \<Rightarrow> NO_IP) (Some ''224.0.0.251'')
                 (mdns_fields ty (clean_instance (ms_name m)) loc (m\<lparr>ms_target := tgt\<rparr>))))))))))
      | _ \<Rightarrow> Inr None)"

end
