(* ===== verification/Banners.thy ===== *)
theory Banners
  imports NetParsers "HOL-Library.While_Combinator"
begin

text \<open>
  Passive service banners: \<open>capture/banner/ports.py\<close>, \<open>capture/banner/matchers.py\<close> and
  \<open>capture/protocols/banner.py\<close>.  A matcher gives the fields of a banner or None.  Texts are decoded
  ASCII, so the classes of the expressions are those of ASCII; which characters are printable is an
  argument, a table of the Unicode standard.
\<close>

section \<open>Ports\<close>

definition SERVICE_PORTS :: "(string \<times> nat list) list" where
  "SERVICE_PORTS =
    [(''SSH'', [22]), (''FTP'', [21]), (''Telnet'', [23]), (''SMTP'', [25, 587]), (''POP3'', [110]), (''IMAP'', [143]),
     (''VNC'', [5900, 5901, 5902, 5903]), (''IRC'', [6667, 6697]), (''MySQL'', [3306]), (''PostgreSQL'', [5432]),
     (''MSSQL'', [1433]), (''MongoDB'', [27017]), (''Redis'', [6379]), (''SMB'', [445, 139]), (''RDP'', [3389]),
     (''IPP'', [631]), (''JetDirect'', [9100]), (''LPD'', [515]), (''MQTT'', [1883, 8883]), (''AMQP'', [5672]),
     (''SIP'', [5060, 5061]), (''RTSP'', [554, 7447, 8554]), (''UniFiProtect'', [7443, 7444]), (''LDAP'', [389, 636]),
     (''Cassandra'', [9042]), (''Elasticsearch'', [9200]), (''DockerAPI'', [2375, 2376]), (''KubernetesAPI'', [6443]),
     (''SOCKS'', [1080, 1081]), (''BGP'', [179]), (''PPTP'', [1723])]"

definition PORT_TO_SERVICE :: "(nat \<times> string) list" where
  "PORT_TO_SERVICE = concat (map (\<lambda>(s, ps). map (\<lambda>p. (p, s)) ps) SERVICE_PORTS)"

definition WATCHED_PORTS :: "nat list" where
  "WATCHED_PORTS = map fst PORT_TO_SERVICE"

definition service_for_port :: "nat \<Rightarrow> string option" where
  "service_for_port p = dict_get PORT_TO_SERVICE p"

section \<open>Expressions\<close>

definition non_space :: "nat \<Rightarrow> bool" where
  "non_space c \<longleftrightarrow> \<not> is_space c"

abbreviation words :: re where
  "words \<equiv> re_plus (Cls non_space)"

abbreviation blanks :: re where
  "blanks \<equiv> Rep 0 None True (Cls is_space)"

abbreviation blanks1 :: re where
  "blanks1 \<equiv> re_plus (Cls is_space)"

abbreviation digits :: "nat \<Rightarrow> re" where
  "digits n \<equiv> Rep n (Some n) True (Cls is_digit)"

abbreviation version_chars :: re where
  "version_chars \<equiv> re_plus (Cls (\<lambda>c. is_digit c \<or> c = 46))"

definition ref :: "re \<Rightarrow> ustr \<Rightarrow> nat \<Rightarrow> ustr option" where
  "ref r t n = (case re_search r t of None \<Rightarrow> None | Some (i, m) \<Rightarrow> group_of t m n)"

text \<open>A field when there is a value.\<close>

definition set_if :: "string \<Rightarrow> ustr option \<Rightarrow> dict" where
  "set_if k v = (case v of None \<Rightarrow> [] | Some t \<Rightarrow> [(k, PStr t)])"

definition banner_of :: "string \<Rightarrow> ustr \<Rightarrow> dict" where
  "banner_of service raw = [(''service'', pstr service), (''raw_banner'', PStr raw)]"

definition has :: "string \<Rightarrow> ustr \<Rightarrow> bool" where
  "has s t = contains_sub (lit s) t"

definition SERVER_RE :: re where
  "SERVER_RE = re_seq [re_str (lit ''Server:''), blanks, Grp 1 (re_plus_lazy (Cls (\<lambda>c. c \<noteq> 10))), re_opt (Cls (chr_is 13)), Cls (chr_is 10)]"

definition json_text :: "string \<Rightarrow> re \<Rightarrow> re" where
  "json_text key v = re_seq [re_str (34 # lit key @ [34]), blanks, Cls (chr_is 58), blanks, Cls (chr_is 34), Grp 1 v, Cls (chr_is 34)]"

section \<open>Server greetings\<close>

definition SSH_RE :: re where
  "SSH_RE = re_seq [re_str (lit ''SSH-''), Grp 1 words, Cls (chr_is 45), Grp 2 words]"

definition SSH_SOFTWARE_RE :: re where
  "SSH_SOFTWARE_RE = re_seq [Grp 1 (re_plus_lazy (Cls (\<lambda>c. c \<noteq> 10))), Cls (\<lambda>c. c = 45 \<or> c = 95),
     Grp 2 (Seq (Cls is_digit) (re_star (Cls non_space)))]"

definition match_ssh :: "bytes \<Rightarrow> dict option" where
  "match_ssh payload =
     (let t = ascii_replace payload
      in case re_match SSH_RE t of
           None \<Rightarrow> None
         | Some m \<Rightarrow>
             let raw = (case group_of t m 2 of None \<Rightarrow> [] | Some g \<Rightarrow> g);
                 (sw, ver) = (case re_match SSH_SOFTWARE_RE raw of None \<Rightarrow> (Some raw, None)
                   | Some n \<Rightarrow> (group_of raw n 1, group_of raw n 2))
             in Some ([(''service'', pstr ''ssh''), (''software'', opt_str sw), (''proto_version'', opt_str (group_of t m 1)),
                       (''raw_banner'', PStr (strip t))] @ set_if ''version'' ver))"

definition is_word :: "nat \<Rightarrow> bool" where
  "is_word c \<longleftrightarrow> is_alnum c \<or> c = 95"

definition FTP_VERSION_RE :: re where
  "FTP_VERSION_RE = re_seq [re_str (lit ''220''), Cls (\<lambda>c. c = 32 \<or> c = 45), re_opt (Cls (chr_is 40)),
     Grp 1 (Seq (Cls is_word) (re_plus_lazy (Cls non_space))), re_plus (Cls (\<lambda>c. is_space c \<or> c = 95)),
     Grp 2 (re_seq [Cls is_digit, re_star (Cls (\<lambda>c. is_digit c \<or> c = 46)), re_star (Cls non_space)])]"

definition FTP_SOFTWARE_RE :: re where
  "FTP_SOFTWARE_RE = re_seq [re_str (lit ''220''), Cls (\<lambda>c. c = 32 \<or> c = 45), re_opt (Cls (chr_is 40)),
     Grp 1 (Seq (Rep 2 None True (Cls is_word)) (re_star (Cls non_space)))]"

definition match_ftp :: "bytes \<Rightarrow> dict option" where
  "match_ftp payload =
     (let t = ascii_replace payload; plain = (\<lambda>s. s \<notin> {Some (lit ''Welcome''), Some (lit ''Service'')})
      in if \<not> starts_with (lit ''220 '') t \<and> \<not> starts_with (lit ''220-'') t then None
         else Some (banner_of ''ftp'' (strip t) @
           (if re_search FTP_VERSION_RE t \<noteq> None
            then (if plain (ref FTP_VERSION_RE t 1)
                  then set_if ''software'' (ref FTP_VERSION_RE t 1) @ set_if ''version'' (ref FTP_VERSION_RE t 2) else [])
            else if plain (ref FTP_SOFTWARE_RE t 1) then set_if ''software'' (ref FTP_SOFTWARE_RE t 1) else [])))"

text \<open>A greeting that must begin so, and the software an expression finds in it.\<close>

definition greeting :: "string \<Rightarrow> string \<Rightarrow> re \<Rightarrow> bytes \<Rightarrow> dict option" where
  "greeting service start r payload =
     (let t = ascii_replace payload
      in if \<not> starts_with (lit start) t then None
         else Some (banner_of service (strip t) @ set_if ''software'' (ref r t 1)))"

definition match_smtp :: "bytes \<Rightarrow> dict option" where
  "match_smtp payload =
     (let t = ascii_replace payload
      in if \<not> has ''SMTP'' (upper t) \<and> \<not> has ''ESMTP'' (upper t) then None
         else greeting ''smtp'' ''220'' (re_seq [Alt (re_str (lit ''ESMTP'')) (re_str (lit ''SMTP'')), blanks1, Grp 1 words]) payload)"

definition match_imap :: "bytes \<Rightarrow> dict option" where
  "match_imap = greeting ''imap'' ''* OK'' (re_seq [Cls (chr_is 93), blanks1, Grp 1 words])"

definition match_pop3 :: "bytes \<Rightarrow> dict option" where
  "match_pop3 = greeting ''pop3'' ''+OK'' (re_seq [re_str (lit ''+OK''), blanks1, Grp 1 words])"

section \<open>Telnet\<close>

text \<open>How far the end of a subnegotiation is: IAC SE, or the last byte.\<close>

fun sb_length :: "bytes \<Rightarrow> nat" where
  "sb_length (a # b # bs) = (if a = 0xFF \<and> b = 0xF0 then 0 else Suc (sb_length (b # bs)))"
| "sb_length _ = 0"

text \<open>One turn of the loop over the position and the output; leaving the loop sets the position to the end.\<close>

definition iac_step :: "bytes \<Rightarrow> nat \<times> bytes \<Rightarrow> nat \<times> bytes" where
  "iac_step payload st =
     (let (i, out) = st; n = length payload
      in if payload ! i \<noteq> 0xFF then (i + 1, out @ [payload ! i])
         else if i + 1 \<ge> n then (n, out)
         else if payload ! (i + 1) = 0xFA then (i + 2 + sb_length (drop (i + 2) payload) + 2, out)
         else if 0xFB \<le> payload ! (i + 1) \<and> payload ! (i + 1) \<le> 0xFE then (i + 3, out)
         else (i + 2, out))"

definition iac_loop :: "bytes \<Rightarrow> (nat \<times> bytes) option" where
  "iac_loop payload = while_option (\<lambda>(i, out). i < length payload) (iac_step payload) (0, [])"

definition strip_telnet_iac :: "bytes \<Rightarrow> bytes" where
  "strip_telnet_iac payload = (case iac_loop payload of None \<Rightarrow> [] | Some (i, out) \<Rightarrow> out)"

definition FOREIGN_GREETING_RE :: re where
  "FOREIGN_GREETING_RE = Seq Bol (re_alts
     [re_ci (lit ''SSH-''), re_ci (lit ''HTTP/''), re_ci (lit ''RTSP/''), re_ci (lit ''SIP/''),
      Seq (re_ci (lit ''RFB'')) (Cls is_space), re_ci (lit ''+OK''),
      re_seq [re_str (lit ''*''), blanks1, re_ci (lit ''OK'')], Seq (digits 3) (Cls (\<lambda>c. c = 32 \<or> c = 45))])"

text \<open>With \<open>MULTILINE\<close> the end of a line counts as an end; whether there is a match does not depend on
  consuming the line break.\<close>

definition TELNET_PROMPT_RE :: re where
  "TELNET_PROMPT_RE = re_seq [re_alts (map (\<lambda>s. re_ci (lit s)) [''login'', ''username'', ''user name'', ''password'']),
     blanks, Cls (chr_is 58), blanks, Alt (Cls (chr_is 10)) Eol]"

definition match_telnet :: "bytes \<Rightarrow> dict option" where
  "match_telnet payload =
     (let t = strip (filter (\<lambda>c. c \<noteq> repl_char) (ascii_replace (strip_telnet_iac payload)))
      in if take 1 payload \<noteq> [0xFF] \<and> (re_match FOREIGN_GREETING_RE t \<noteq> None \<or> re_search TELNET_PROMPT_RE t = None)
         then None else Some (banner_of ''telnet'' t))"

definition match_vnc :: "bytes \<Rightarrow> dict option" where
  "match_vnc payload =
     (let t = ascii_replace payload
      in case re_match (re_seq [re_str (lit ''RFB''), blanks1, Grp 1 (re_seq [digits 3, Cls (chr_is 46), digits 3])]) t of
           None \<Rightarrow> None
         | Some m \<Rightarrow> Some ([(''service'', pstr ''vnc''), (''version'', opt_str (group_of t m 1)), (''raw_banner'', PStr (strip t))]))"

definition match_irc :: "bytes \<Rightarrow> dict option" where
  "match_irc payload =
     (let t = ascii_replace payload
      in if has ''NOTICE'' t \<or> re_match (re_seq [Cls (chr_is 58), words, blanks1, digits 3]) t \<noteq> None
         then Some (banner_of ''irc'' (strip t)) else None)"

section \<open>Databases\<close>

definition le4 :: "bytes \<Rightarrow> nat \<Rightarrow> nat" where
  "le4 bs i = le_nat (slice i (i + 4) bs)"

definition MARIADB_RE :: re where
  "MARIADB_RE = Seq (Grp 1 (re_seq [re_plus (Cls is_digit), Cls (chr_is 46), re_plus (Cls is_digit), Cls (chr_is 46),
     re_plus (Cls is_digit)])) (re_str (lit ''-MariaDB''))"

definition match_mysql :: "bytes \<Rightarrow> dict option" where
  "match_mysql payload =
     (if length payload < 6 \<or> payload ! 4 \<noteq> 0x0A \<or> 0 \<notin> set (drop 5 payload) then None
      else
        let t = ascii_replace (takeWhile (\<lambda>b. b \<noteq> 0) (drop 5 payload)); maria = has ''MariaDB'' t;
            ver = (if maria then (case ref MARIADB_RE t 1 of None \<Rightarrow> t | Some v \<Rightarrow> v) else t)
        in Some [(''service'', pstr ''mysql''), (''software'', pstr (if maria then ''MariaDB'' else ''MySQL'')),
                 (''version'', PStr ver), (''raw_banner'', PStr t)])"

text \<open>The messages of a server: the value of the first \<open>server_version\<close>.  A status message moves by its length,
  any other byte by one.\<close>

function pg_version :: "bytes \<Rightarrow> nat \<Rightarrow> ustr option" where
  "pg_version payload i =
     (if i \<ge> length payload then None
      else if payload ! i = 83 \<and> i + 4 < length payload then
        let n = be_nat (slice (i + 1) (i + 5) payload); parts = split_on 0 (slice (i + 5) (i + 1 + n) payload)
        in if length parts \<ge> 2 \<and> map unat (hd parts) = lit ''server_version'' then Some (ascii_replace (parts ! 1))
           else pg_version payload (i + (1 + n))
      else pg_version payload (i + 1))"
  by pat_completeness auto
termination by (relation "measure (\<lambda>(p, i). length p - i)") auto

declare pg_version.simps [simp del]

definition match_postgresql :: "bytes \<Rightarrow> dict option" where
  "match_postgresql payload =
     (if payload = [] \<or> hd payload \<notin> {82, 83, 69} then None
      else Some ([(''service'', pstr ''postgresql''), (''software'', pstr ''PostgreSQL''), (''raw_banner'', PStr (hex_bytes payload))] @
        set_if ''version'' (pg_version payload 0)))"

definition match_mssql :: "bytes \<Rightarrow> dict option" where
  "match_mssql payload =
     (if payload = [] \<or> hd payload \<noteq> 0x04 then None
      else Some [(''service'', pstr ''mssql''), (''software'', pstr ''MSSQL''), (''raw_banner'', PStr (hex_bytes payload))])"

definition match_mongodb :: "bytes \<Rightarrow> dict option" where
  "match_mongodb payload =
     (if length payload < 16 \<or> le4 payload 12 \<notin> {1, 2013} then None
      else Some ([(''service'', pstr ''mongodb''), (''software'', pstr ''MongoDB''), (''raw_banner'', PStr (hex_bytes payload))] @
        set_if ''version'' (ref (json_text ''version'' version_chars) (ascii_replace payload) 1)))"

definition match_redis :: "bytes \<Rightarrow> dict option" where
  "match_redis payload =
     (let t = ascii_replace payload
      in if payload = [] \<or> hd t \<notin> set (lit ''+-$*:'') then None
         else Some (banner_of ''redis'' (strip t) @
           set_if ''version'' (ref (Seq (re_str (lit ''redis_version:'')) (Grp 1 version_chars)) t 1)))"

section \<open>SMB and RDP\<close>

text \<open>UTF-16 little endian; lone surrogates and a last odd byte are dropped.\<close>

fun utf16_units :: "bytes \<Rightarrow> nat list" where
  "utf16_units (a # b # bs) = (unat a + 256 * unat b) # utf16_units bs"
| "utf16_units _ = []"

fun utf16_decode :: "nat list \<Rightarrow> ustr" where
  "utf16_decode [] = []"
| "utf16_decode [u] = (if 0xD800 \<le> u \<and> u \<le> 0xDFFF then [] else [u])"
| "utf16_decode (u # v # us) =
     (if 0xD800 \<le> u \<and> u \<le> 0xDBFF then
        (if 0xDC00 \<le> v \<and> v \<le> 0xDFFF then (0x10000 + (u - 0xD800) * 0x400 + (v - 0xDC00)) # utf16_decode us
         else utf16_decode (v # us))
      else if 0xDC00 \<le> u \<and> u \<le> 0xDFFF then utf16_decode (v # us)
      else u # utf16_decode (v # us))"

text \<open>The strings between aligned null units.\<close>

definition utf16_strings :: "bytes \<Rightarrow> ustr list" where
  "utf16_strings blob = filter (\<lambda>t. t \<noteq> []) (map (\<lambda>us. strip (utf16_decode us)) (split_on 0 (utf16_units blob)))"

definition looks_like_text :: "(nat \<Rightarrow> bool) \<Rightarrow> ustr list \<Rightarrow> bool" where
  "looks_like_text printable vs \<longleftrightarrow> vs \<noteq> [] \<and>
     list_all (\<lambda>v. v \<noteq> [] \<and> list_all (\<lambda>c. c = 32 \<or> printable c \<and> c < 0x2000) v) vs"

definition smb_strings :: "(nat \<Rightarrow> bool) \<Rightarrow> bytes \<Rightarrow> bool \<Rightarrow> ustr list" where
  "smb_strings printable blob unicode =
     (if \<not> unicode then filter (\<lambda>t. t \<noteq> []) (map (\<lambda>c. strip (latin1 c)) (split_on 0 blob))
      else
        let aligned = utf16_strings blob; shifted = utf16_strings (drop 1 blob)
        in if looks_like_text printable aligned then aligned
           else if looks_like_text printable shifted then shifted
           else if aligned \<noteq> [] then aligned else shifted)"

definition parse_smb1_session_setup :: "(nat \<Rightarrow> bool) \<Rightarrow> bytes \<Rightarrow> ustr option \<times> ustr option" where
  "parse_smb1_session_setup printable payload =
     (if length payload < 37 then (None, None)
      else
        let unicode = bit_set (le_nat (slice 14 16 payload)) 15; wc = bnat payload 36; bco = 37 + wc * 2
        in if length payload < bco + 2 then (None, None)
           else
             let start = bco + 2; count = le_nat (slice bco (bco + 2) payload);
                 data = (if count \<noteq> 0 then slice start (start + count) payload else drop start payload)
             in if data = [] \<or> wc \<notin> {3, 4} then (None, None)
                else
                  let data = (if wc = 4 then drop (le_nat (slice 43 45 payload)) data else data);
                      ss = smb_strings printable data unicode
                  in (if ss = [] then None else Some (hd ss), if length ss > 1 then Some (ss ! 1) else None))"

definition match_smb :: "(nat \<Rightarrow> bool) \<Rightarrow> bytes \<Rightarrow> dict option" where
  "match_smb printable payload =
     (let magic = slice 4 8 payload;
          ver = (if magic = [0xFE, 83, 77, 66] then Some ''2'' else if magic = [0xFF, 83, 77, 66] then Some ''1'' else None)
      in if length payload < 8 then None
         else case ver of
           None \<Rightarrow> None
         | Some v \<Rightarrow>
             let (os, lanman) = (if v = ''1'' \<and> length payload > 8 \<and> payload ! 8 = 0x73
                   then parse_smb1_session_setup printable payload else (None, None));
                 raw = (if truthy os then the os else hex_bytes (take 32 payload))
             in Some ([(''service'', pstr ''smb''), (''smb_version'', pstr v), (''raw_banner'', PStr raw)] @
                  set_if ''native_os'' (if truthy os then os else None) @
                  set_if ''native_lanman'' (if truthy lanman then lanman else None)))"

definition match_rdp :: "bytes \<Rightarrow> dict option" where
  "match_rdp payload =
     (if length payload < 6 \<or> payload ! 0 \<noteq> 0x03 \<or> payload ! 5 \<noteq> 0xD0 then None
      else Some (banner_of ''rdp'' (hex_bytes payload)))"

section \<open>Printers, messaging, streaming\<close>

text \<open>A text with a \<open>Server:\<close> header.\<close>

definition server_field :: "ustr \<Rightarrow> dict" where
  "server_field t = set_if ''software'' (map_option strip (ref SERVER_RE t 1))"

definition match_ipp :: "bytes \<Rightarrow> dict option" where
  "match_ipp payload =
     (let t = ascii_replace payload
      in if has ''application/ipp'' (lower t) then Some (banner_of ''ipp'' (strip t) @ server_field t) else None)"

definition match_jetdirect :: "bytes \<Rightarrow> dict option" where
  "match_jetdirect payload =
     (let t = ascii_replace payload in if starts_with (lit ''@PJL'') t then Some (banner_of ''jetdirect'' (strip t)) else None)"

definition match_lpd :: "bytes \<Rightarrow> dict option" where
  "match_lpd payload =
     (let t = lower (ascii_replace payload)
      in if has ''printer'' t \<or> has ''queue'' t \<or> has ''lpd'' t then Some (banner_of ''lpd'' (strip t)) else None)"

definition match_mqtt :: "bytes \<Rightarrow> dict option" where
  "match_mqtt payload =
     (if length payload < 4 \<or> payload ! 0 \<noteq> 0x20 then None
      else Some (banner_of ''mqtt'' (hex_bytes (take 4 payload)) @ [(''connect_return_code'', pnat (bnat payload 3))]))"

definition match_sip :: "bytes \<Rightarrow> dict option" where
  "match_sip payload =
     (let t = ascii_replace payload
      in if starts_with (lit ''SIP/'') t \<or> has ''SIP/2.0'' t then Some (banner_of ''sip'' (strip t) @ server_field t) else None)"

definition match_rtsp :: "bytes \<Rightarrow> dict option" where
  "match_rtsp payload =
     (let t = ascii_replace payload
      in if starts_with (lit ''RTSP/'') t then Some (banner_of ''rtsp'' (strip t) @ server_field t) else None)"

section \<open>Directory, databases and containers\<close>

definition match_ldap :: "bytes \<Rightarrow> dict option" where
  "match_ldap payload =
     (if length payload < 6 \<or> payload ! 0 \<noteq> 0x30 \<or> \<not> list_ex (\<lambda>b. b = 0x61 \<or> b = 0x65) (slice 2 16 payload) then None
      else Some (banner_of ''ldap'' (hex_bytes (take 16 payload)) @ [(''ldap_response'', PStr (latin1 payload))]))"

definition match_cassandra :: "bytes \<Rightarrow> dict option" where
  "match_cassandra payload =
     (if length payload < 4 \<or> payload ! 0 < 0x80 \<or> payload ! 3 \<notin> {0x02, 0x06} then None
      else Some (banner_of ''cassandra'' (hex_bytes (take 8 payload))))"

definition quoted :: "string \<Rightarrow> ustr \<Rightarrow> bool" where
  "quoted k t \<longleftrightarrow> contains_sub (34 # lit k @ [34]) t"

definition not_quote :: re where
  "not_quote = re_plus (Cls (\<lambda>c. c \<noteq> 34))"

definition match_elasticsearch :: "bytes \<Rightarrow> dict option" where
  "match_elasticsearch payload =
     (let t = ascii_replace payload
      in if \<not> starts_with (lit ''HTTP/'') t \<or> \<not> quoted ''cluster_name'' t then None
         else Some ([(''service'', pstr ''elasticsearch''), (''software'', pstr ''Elasticsearch''), (''raw_banner'', PStr (strip t))] @
           set_if ''version'' (ref (json_text ''number'' version_chars) t 1)))"

definition match_docker_api :: "bytes \<Rightarrow> dict option" where
  "match_docker_api payload =
     (let t = ascii_replace payload
      in if \<not> starts_with (lit ''HTTP/'') t \<or> \<not> quoted ''ApiVersion'' t then None
         else Some ([(''service'', pstr ''docker_api''), (''software'', pstr ''Docker''), (''raw_banner'', PStr (strip t))] @
           set_if ''version'' (ref (json_text ''ApiVersion'' not_quote) t 1)))"

definition match_kubernetes_api :: "bytes \<Rightarrow> dict option" where
  "match_kubernetes_api payload =
     (let t = ascii_replace payload;
          status = (\<lambda>gap. contains_sub ((34 # lit ''kind'' @ [34, 58]) @ gap @ (34 # lit ''Status'' @ [34])) t)
      in if \<not> starts_with (lit ''HTTP/'') t \<or>
            \<not> (quoted ''major'' t \<and> quoted ''minor'' t \<or> status [] \<or> status [32]) then None
         else Some ([(''service'', pstr ''kubernetes_api''), (''software'', pstr ''Kubernetes''), (''raw_banner'', PStr (strip t))] @
           set_if ''version'' (ref (json_text ''gitVersion'' not_quote) t 1)))"

definition match_amqp :: "bytes \<Rightarrow> dict option" where
  "match_amqp payload =
     (if length payload < 4 then None
      else if map unat (take 4 payload) = lit ''AMQP'' then
        Some (banner_of ''amqp'' (hex_bytes (take 8 payload)) @
          (if length payload \<ge> 8 then [(''proto_version'', PStr (dotted (slice 5 8 payload)))] else []))
      else if payload ! 0 = 0x01 then Some (banner_of ''amqp'' (hex_bytes (take 16 payload)))
      else None)"

definition match_socks :: "bytes \<Rightarrow> dict option" where
  "match_socks payload =
     (let answer = (\<lambda>v n. Some [(''service'', pstr ''socks''), (''version'', pstr v), (''raw_banner'', PStr (hex_bytes (take n payload)))])
      in if length payload < 2 then None
         else if payload ! 0 = 0x05 then answer ''5'' 2
         else if payload ! 0 = 0x00 \<and> payload ! 1 = 0x5A then answer ''4'' 8
         else None)"

definition match_bgp :: "bytes \<Rightarrow> dict option" where
  "match_bgp payload =
     (if length payload < 21 \<or> take 16 payload \<noteq> replicate 16 0xFF \<or> payload ! 18 \<noteq> 1 then None
      else Some (banner_of ''bgp'' (hex_bytes (take 21 payload)) @ [(''version'', PStr (str_nat (bnat payload 19)))] @
        (if length payload \<ge> 22 then [(''as_number'', pnat (be_nat (slice 20 22 payload)))] else [])))"

definition match_pptp :: "bytes \<Rightarrow> dict option" where
  "match_pptp payload =
     (if length payload < 12 \<or> slice 8 10 payload \<noteq> [0, 1] \<or> slice 10 12 payload \<noteq> [0, 2] then None
      else Some (banner_of ''pptp'' (hex_bytes (take 32 payload))))"

definition match_unifiprotect :: "bytes \<Rightarrow> dict option" where
  "match_unifiprotect payload =
     (let t = ascii_replace payload; protect = (\<lambda>raw sw. [(''service'', pstr ''unifiprotect''), (''software'', PStr sw), (''raw_banner'', PStr raw)])
      in if payload ! 0 = 0x16 \<and> length payload \<ge> 5 then Some (protect (hex_bytes (take 8 payload)) (lit ''UniFi Protect''))
         else if starts_with (lit ''HTTP/'') t
              then Some (protect (strip (take 256 t)) (case ref SERVER_RE t 1 of None \<Rightarrow> lit ''UniFi Protect'' | Some v \<Rightarrow> strip v))
         else None)"

section \<open>Dispatch\<close>

definition MATCHERS :: "(nat \<Rightarrow> bool) \<Rightarrow> (string \<times> (bytes \<Rightarrow> dict option)) list" where
  "MATCHERS printable =
    [(''ssh'', match_ssh), (''ftp'', match_ftp), (''smtp'', match_smtp), (''imap'', match_imap), (''pop3'', match_pop3),
     (''telnet'', match_telnet), (''vnc'', match_vnc), (''irc'', match_irc), (''mysql'', match_mysql),
     (''postgresql'', match_postgresql), (''mssql'', match_mssql), (''mongodb'', match_mongodb), (''redis'', match_redis),
     (''smb'', match_smb printable), (''rdp'', match_rdp), (''ipp'', match_ipp), (''jetdirect'', match_jetdirect),
     (''lpd'', match_lpd), (''mqtt'', match_mqtt), (''sip'', match_sip), (''rtsp'', match_rtsp), (''ldap'', match_ldap),
     (''cassandra'', match_cassandra), (''elasticsearch'', match_elasticsearch), (''amqp'', match_amqp),
     (''docker_api'', match_docker_api), (''kubernetes_api'', match_kubernetes_api), (''socks'', match_socks),
     (''bgp'', match_bgp), (''pptp'', match_pptp), (''unifiprotect'', match_unifiprotect)]"

definition banner_match :: "(nat \<Rightarrow> bool) \<Rightarrow> string \<Rightarrow> bytes \<Rightarrow> dict option" where
  "banner_match printable service payload =
     (if payload = [] then None
      else case dict_get (MATCHERS printable) (lower_s service) of None \<Rightarrow> None | Some m \<Rightarrow> m payload)"

definition MAX_PAYLOAD :: nat where
  "MAX_PAYLOAD = 2048"

text \<open>The fields of the banner, then what else the matcher found.\<close>

definition banner_fields :: "string \<Rightarrow> nat \<Rightarrow> dict \<Rightarrow> dict" where
  "banner_fields service port r =
     (let fs = [(''service'', get_or r ''service'' (pstr service)), (''version'', get_or r ''version'' PNone),
                (''software'', get_or r ''software'' PNone), (''raw_banner'', get_or r ''raw_banner'' PNone),
                (''server_port'', pnat port), (''banner_source'', pstr ''server_greeting'')]
      in fs @ filter (\<lambda>(k, v). k \<notin> set (dict_keys fs)) r)"

definition parse_service_banner :: "(nat \<Rightarrow> bool) \<Rightarrow> wire_frame \<Rightarrow> captured_packet option" where
  "parse_service_banner printable f =
     (case (ip_layer f, tcp_layer f, raw_layer f) of
        (Some (src, dst), Some t, Some raw) \<Rightarrow>
          (case service_for_port (sport t) of
             None \<Rightarrow> None
           | Some s \<Rightarrow>
               let payload = take MAX_PAYLOAD raw; service = lower_s s
               in case banner_match printable service payload of
                    None \<Rightarrow> None
                  | Some r \<Rightarrow> Some (with_raw_of f ((captured ''service_banner'' (pkt_src f) src (Some dst)
                      (banner_fields service (sport t) r))\<lparr>target_hw := Some (pkt_dst f)\<rparr>)))
      | _ \<Rightarrow> None)"

end
