(* ===== verification/WsDiscovery.thy ===== *)
theory WsDiscovery
  imports NetParsers
begin

text \<open>
  \<open>capture/protocols/ws_discovery.py\<close>.  The XML parser is a third-party package, an argument: None for a
  text it rejects, else the tree.  An element has its qualified name, the text before its first child, and
  its children.
\<close>

section \<open>XML trees\<close>

datatype xml = Elem (xml_tag: string) (xml_text: "ustr option") (xml_children: "xml list")

text \<open>\<open>root.find(".//tag")\<close>: the first element below the root in document order.\<close>

fun nodes :: "xml \<Rightarrow> xml list" where
  "nodes (Elem t x cs) = Elem t x cs # concat (map nodes cs)"

definition below :: "xml \<Rightarrow> xml list" where
  "below e = concat (map nodes (xml_children e))"

definition find_tag :: "string \<Rightarrow> xml \<Rightarrow> xml option" where
  "find_tag tag doc = find (\<lambda>e. xml_tag e = tag) (below doc)"

text \<open>The text of the first such element, when it has one that is not empty.\<close>

definition tag_text :: "string \<Rightarrow> xml \<Rightarrow> ustr option" where
  "tag_text tag doc = (case find_tag tag doc of None \<Rightarrow> None | Some e \<Rightarrow> if truthy (xml_text e) then xml_text e else None)"

definition NS :: "string \<Rightarrow> string" where
  "NS prefix = ''{'' @ get_or
     [(''s'', ''http://www.w3.org/2003/05/soap-envelope''), (''a'', ''http://schemas.xmlsoap.org/ws/2004/08/addressing''),
      (''d'', ''http://schemas.xmlsoap.org/ws/2005/04/discovery''), (''pnp'', ''http://schemas.microsoft.com/windows/pnpx/2005/10''),
      (''df'', ''http://schemas.microsoft.com/windows/2008/09/devicefoundation'')] prefix [] @ ''}''"

text \<open>\<open>t.split()\<close>.\<close>

fun py_split_from :: "ustr \<Rightarrow> ustr \<Rightarrow> ustr list" where
  "py_split_from cur [] = (if cur = [] then [] else [cur])"
| "py_split_from cur (c # cs) =
     (if is_space c then (if cur = [] then [] else [cur]) @ py_split_from [] cs else py_split_from (cur @ [c]) cs)"

definition py_split :: "ustr \<Rightarrow> ustr list" where
  "py_split t = py_split_from [] t"

section \<open>Extraction\<close>

definition extract_action :: "xml \<Rightarrow> string option" where
  "extract_action doc =
     (case tag_text (NS ''a'' @ ''Action'') doc of
        None \<Rightarrow> None
      | Some t \<Rightarrow> if contains_sub (lit ''hello'') (lower t) then Some ''hello''
          else if contains_sub (lit ''probematch'') (lower t) then Some ''probe_match'' else None)"

definition TYPE_MAP :: "(string \<times> string) list" where
  "TYPE_MAP = [(''wprt:PrinterServiceType'', ''printer''), (''wscn:ScannerServiceType'', ''scanner''), (''wsdp:Device'', ''computer''),
     (''pub:Computer'', ''computer''), (''netdisco:NetworkDevice'', ''network_device'')]"

text \<open>The first type whose local name occurs in the text.\<close>

definition type_of :: "ustr \<Rightarrow> string option" where
  "type_of raw = map_option snd (find (\<lambda>(k, v). contains_sub (lower (List.last (split_on 58 (lit k)))) (lower raw)) TYPE_MAP)"

definition extract_types :: "xml \<Rightarrow> ustr list" where
  "extract_types doc =
     (case tag_text (NS ''d'' @ ''Types'') doc of
        None \<Rightarrow> []
      | Some t \<Rightarrow> foldl (\<lambda>ts raw. case type_of raw of None \<Rightarrow> ts | Some v \<Rightarrow> if lit v \<in> set ts then ts else ts @ [lit v])
          [] (py_split (strip t)))"

definition pnp_text :: "string \<Rightarrow> xml \<Rightarrow> ustr option" where
  "pnp_text tag doc = map_option strip (case tag_text (NS ''pnp'' @ tag) doc of None \<Rightarrow> tag_text (NS ''df'' @ tag) doc | Some t \<Rightarrow> Some t)"

definition split_tag :: "string \<Rightarrow> xml \<Rightarrow> ustr list" where
  "split_tag tag doc = (case tag_text (NS ''d'' @ tag) doc of None \<Rightarrow> [] | Some t \<Rightarrow> py_split (strip t))"

definition scope_manufacturer :: "ustr list \<Rightarrow> ustr option \<Rightarrow> ustr option" where
  "scope_manufacturer scopes m = foldl (\<lambda>m scope.
     if contains_sub (lit ''manufacturer'') (lower scope) then Some (List.last (split_on 47 (rstrip_by (chr_is 47) scope))) else m)
     m scopes"

text \<open>Manufacturer, model and firmware.\<close>

definition extract_pnp_metadata :: "xml \<Rightarrow> ustr option \<times> ustr option \<times> ustr option" where
  "extract_pnp_metadata doc =
     (let m = pnp_text ''Manufacturer'' doc
      in (if truthy m then m else scope_manufacturer (split_tag ''Scopes'' doc) m,
          pnp_text ''ModelName'' doc, pnp_text ''FirmwareVersion'' doc))"

definition MAX_WSD_PAYLOAD :: nat where
  "MAX_WSD_PAYLOAD = 65536"

definition parse_ws_discovery :: "(ustr \<Rightarrow> xml option) \<Rightarrow> wire_frame \<Rightarrow> captured_packet option" where
  "parse_ws_discovery parse_xml f =
     (case (on_port (udp_layer f) [3702], ip_layer f, udp_text f) of
        (Some u, Some (src, dst), Some t) \<Rightarrow>
          if \<not> starts_with (lit ''<'') (strip t) \<or> length t > MAX_WSD_PAYLOAD then None
          else (case parse_xml t of
                  None \<Rightarrow> None
                | Some doc \<Rightarrow>
                    (case extract_action doc of
                       None \<Rightarrow> None
                     | Some action \<Rightarrow>
                         let types = extract_types doc; (mf, mdl, fw) = extract_pnp_metadata doc
                         in if types = [] \<and> \<not> truthy mf \<and> \<not> truthy mdl then None
                            else Some (with_raw_of f (captured ''ws_discovery'' (pkt_src f) src (Some dst)
                              [(''action'', pstr action), (''device_types'', PList (map PStr types)), (''manufacturer'', opt_str mf),
                               (''model'', opt_str mdl), (''firmware'', opt_str fw),
                               (''scopes'', PList (map PStr (split_tag ''Scopes'' doc))),
                               (''xaddrs'', PList (map PStr (split_tag ''XAddrs'' doc)))]))))
      | _ \<Rightarrow> None)"

end
