(* ===== verification/Capture.thy ===== *)
theory Capture
  imports LinkParsers DnsParsers Banners WsDiscovery Caches
begin

text \<open>
  The parser chain of \<open>capture/protocols/__init__.py\<close> and the classification of frames in
  \<open>capture/engine.py\<close>: the first parser that recognises a frame decides what it is, a parser that raises
  is passed over, and repeated observations are dropped before the queue.  The digests, the XML parser, the
  printable characters and the texts of option values that are neither bytes nor text are arguments.
\<close>

section \<open>The chain\<close>

record capture_env =
  md5_hex :: "ustr \<Rightarrow> ustr"
  sha256_hex :: "ustr \<Rightarrow> ustr"
  show_val :: "dhcp_val \<Rightarrow> ustr"
  printable :: "nat \<Rightarrow> bool"
  xml_parser :: "ustr \<Rightarrow> xml option"

type_synonym parser = "wire_frame \<Rightarrow> py_error + captured_packet list"

text \<open>A result that may be missing, with and without an exception, as a list.\<close>

definition single :: "captured_packet option \<Rightarrow> py_error + captured_packet list" where
  "single r = Inr (case r of None \<Rightarrow> [] | Some c \<Rightarrow> [c])"

definition fallible :: "parse_result \<Rightarrow> py_error + captured_packet list" where
  "fallible r = (case r of Inl e \<Rightarrow> Inl e | Inr x \<Rightarrow> single x)"

definition on_packet :: "(packet \<Rightarrow> captured_packet option) \<Rightarrow> parser" where
  "on_packet p f = single (p (packet.truncate f))"

text \<open>The parsers, with the protocol each gives.\<close>

definition PARSER_CHAIN :: "capture_env \<Rightarrow> (string \<times> parser) list" where
  "PARSER_CHAIN env =
    [(''lldp'', \<lambda>f. single (parse_lldp f)), (''cdp'', \<lambda>f. single (parse_cdp f)), (''stp'', \<lambda>f. single (parse_stp f)),
     (''dtp'', \<lambda>f. single (parse_dtp f)), (''eap'', \<lambda>f. single (parse_eap f)),
     (''goose'', on_packet parse_goose), (''profinet'', on_packet parse_profinet),
     (''arp'', \<lambda>f. single (parse_arp f)),
     (''dhcp_server'', \<lambda>f. fallible (case f_dhcp f of None \<Rightarrow> Inr None | Some d \<Rightarrow> parse_dhcp_server d)),
     (''dhcpv4'', \<lambda>f. fallible (case f_dhcp f of None \<Rightarrow> Inr None | Some d \<Rightarrow> parse_dhcpv4 (show_val env) d)),
     (''dhcpv6'', \<lambda>f. fallible (case f_dhcp6 f of None \<Rightarrow> Inr None | Some d \<Rightarrow> parse_dhcpv6 (show_val env) d)),
     (''tcp_syn'', \<lambda>f. single (parse_tcp_syn f)),
     (''tls'', \<lambda>f. fallible (parse_tls_client_hello (md5_hex env) (sha256_hex env) (packet.truncate f))),
     (''quic'', \<lambda>f. single (parse_quic f)), (''http_useragent'', \<lambda>f. single (parse_http_useragent f)),
     (''dns'', \<lambda>f. fallible (parse_dns f)), (''dns_answer'', \<lambda>f. Inr (parse_dns_answer f)),
     (''mdns'', \<lambda>f. fallible (parse_mdns f)), (''ssdp'', \<lambda>f. single (parse_ssdp f)),
     (''netbios'', \<lambda>f. single (parse_llmnr_netbios f)),
     (''ws_discovery'', \<lambda>f. single (parse_ws_discovery (xml_parser env) f)),
     (''snmp'', \<lambda>f. single (parse_snmp f)), (''icmpv6'', \<lambda>f. single (parse_icmpv6 f)), (''igmp'', \<lambda>f. single (parse_igmp f)),
     (''ntp'', \<lambda>f. single (parse_ntp f)), (''umas'', on_packet parse_umas), (''modbus'', on_packet parse_modbus),
     (''bacnet'', on_packet parse_bacnet), (''coap'', on_packet parse_coap), (''mqtt'', on_packet parse_mqtt),
     (''enip'', on_packet parse_enip), (''dnp3'', on_packet parse_dnp3), (''s7comm'', on_packet parse_s7comm),
     (''opcua'', on_packet parse_opcua), (''stun'', \<lambda>f. single (parse_stun f)), (''radius'', \<lambda>f. single (parse_radius f)),
     (''upnp'', \<lambda>f. single (parse_upnp f)), (''service_banner'', \<lambda>f. single (parse_service_banner (printable env) f)),
     (''ip_observed'', \<lambda>f. single (parse_ip_observed f))]"

section \<open>Classification\<close>

text \<open>The results of the first parser that has any.\<close>

fun run_chain :: "(string \<times> parser) list \<Rightarrow> wire_frame \<Rightarrow> captured_packet list" where
  "run_chain [] f = []"
| "run_chain ((s, p) # ps) f = (case p f of Inl e \<Rightarrow> run_chain ps f | Inr [] \<Rightarrow> run_chain ps f | Inr (c # cs) \<Rightarrow> c # cs)"

definition port_hint :: "nat \<Rightarrow> dict option" where
  "port_hint n = map_option (\<lambda>(service, c). [(''service'', pstr service), (''confidence'', PFloat c)])
     (dict_get AI_PORT_HINTS n)"

definition enrich_ai_hints :: "wire_frame \<Rightarrow> captured_packet \<Rightarrow> captured_packet" where
  "enrich_ai_hints f c =
     (case tcp_layer f of
        None \<Rightarrow> c
      | Some t \<Rightarrow>
          let text_of = (\<lambda>k. case cp_get c k (PStr []) of PStr x \<Rightarrow> x | _ \<Rightarrow> []);
              hint = (case match_http_ai_path (text_of ''method'') (text_of ''path'') of
                        Some d \<Rightarrow> Some d
                      | None \<Rightarrow> (case port_hint (dport t) of Some d \<Rightarrow> Some d | None \<Rightarrow> port_hint (sport t)))
          in case hint of None \<Rightarrow> c | Some d \<Rightarrow> c\<lparr>cp_fields := dict_set (cp_fields c) ''ai_service'' (PDict d)\<rparr>)"

text \<open>The packet of the frame and the further packets that go straight to the queue.\<close>

definition classify :: "capture_env \<Rightarrow> wire_frame \<Rightarrow> captured_packet option \<times> captured_packet list" where
  "classify env f =
     (case run_chain (PARSER_CHAIN env) f of
        [] \<Rightarrow> (None, [])
      | c # extras \<Rightarrow>
          (Some (if protocol c = ''http_useragent'' then enrich_ai_hints f c else c), map (\<lambda>x. x\<lparr>cp_interface := Some []\<rparr>) extras))"

section \<open>Ingestion\<close>

record capture =
  raw_buffer :: "bytes list"
  ip_observed_dedup :: "(string \<times> pyval) ttl_dedup"
  banner_dedup :: "(string \<times> pyval) ttl_dedup"
  queue :: "captured_packet list"

definition capture0 :: capture where
  "capture0 = \<lparr>raw_buffer = [], ip_observed_dedup = ttl_dedup_new 50000 300, banner_dedup = ttl_dedup_new 50000 300, queue = []\<rparr>"

definition BUFFER_SIZE :: nat where
  "BUFFER_SIZE = 2000"

text \<open>A deque of bounded length drops its oldest entry.\<close>

definition push_raw :: "bytes \<Rightarrow> capture \<Rightarrow> capture" where
  "push_raw b c = (let xs = raw_buffer c @ [b] in c\<lparr>raw_buffer := drop (length xs - BUFFER_SIZE) xs\<rparr>)"

definition enqueue :: "captured_packet \<Rightarrow> capture \<Rightarrow> capture" where
  "enqueue p c = c\<lparr>queue := queue c @ [p]\<rparr>"

definition unclassified :: "wire_frame \<Rightarrow> captured_packet option" where
  "unclassified f =
     (let hw = pkt_src f
      in if hw \<noteq> [] \<and> CHR '':'' \<in> set hw \<and> hw \<noteq> ''00:00:00:00:00:00''
         then Some (captured ''unclassified'' hw [] None [(''note'', pstr ''no parser matched'')]) else None)"

text \<open>Whether the observation was made lately, with the filter that remembers it.\<close>

definition duplicate :: "rat \<Rightarrow> captured_packet \<Rightarrow> capture \<Rightarrow> py_error + (capture \<times> bool)" where
  "duplicate now p c =
     (if protocol p = ''service_banner'' then
        (case seen (banner_dedup c) now (hw_addr p, cp_get p ''server_port'' (PInt 0)) of
           Inl e \<Rightarrow> Inl e | Inr (d, b) \<Rightarrow> Inr (c\<lparr>banner_dedup := d\<rparr>, b))
      else if protocol p = ''ip_observed'' then
        (case seen (ip_observed_dedup c) now (hw_addr p, cp_get p ''dst_port'' PNone) of
           Inl e \<Rightarrow> Inl e | Inr (d, b) \<Rightarrow> Inr (c\<lparr>ip_observed_dedup := d\<rparr>, b))
      else Inr (c, False))"

definition ingest :: "capture_env \<Rightarrow> rat \<Rightarrow> wire_frame \<Rightarrow> string \<Rightarrow> capture \<Rightarrow> capture \<times> py_error option" where
  "ingest env now f dev c =
     (let c = push_raw (pkt_bytes f) c; (result, extras) = classify env f; c = fold enqueue extras c
      in case result of
           None \<Rightarrow> (case unclassified f of None \<Rightarrow> c | Some p \<Rightarrow> enqueue (p\<lparr>cp_interface := Some dev\<rparr>) c, None)
         | Some p \<Rightarrow>
             (case duplicate now p c of
                Inl e \<Rightarrow> (c, Some e)
              | Inr (c, dup) \<Rightarrow> (if dup then c else enqueue (p\<lparr>cp_interface := Some dev\<rparr>) c, None)))"

text \<open>The frames of a run: the sniffing loop starts again after an exception.\<close>

fun ingest_all :: "capture_env \<Rightarrow> (rat \<times> wire_frame \<times> string) list \<Rightarrow> capture \<Rightarrow> capture" where
  "ingest_all env [] c = c"
| "ingest_all env ((now, f, dev) # fs) c = ingest_all env fs (fst (ingest env now f dev c))"

end
