(* ===== verification/CaptureProps.thy ===== *)
theory CaptureProps
  imports Capture
begin

text \<open>
  What the capture engine makes of frames: the order of the parser chain, the fallback, the ring of raw frames
  and the suppression of repeated observations, the banners of the watched ports, and the names and texts
  that the discovery parsers decode.
\<close>

section \<open>The chain\<close>

lemma run_chain_append: "run_chain (ps @ qs) f = (if run_chain ps f = [] then run_chain qs f else run_chain ps f)"
  by (induction ps f rule: run_chain.induct) (auto split: sum.splits list.splits)

lemma run_chain_skip: "list_all (\<lambda>(s, p). p f = Inr []) ps \<Longrightarrow> run_chain (ps @ qs) f = run_chain qs f"
  by (induction ps) (auto split: prod.splits)

lemma single_None [simp]: "single None = Inr []"
  by (simp add: single_def)

lemma single_Some [simp]: "single (Some c) = Inr [c]"
  by (simp add: single_def)

lemma fallible_simps [simp]: "fallible (Inr x) = single x" "fallible (Inl e) = Inl e"
  by (simp_all add: fallible_def)

text \<open>A DNS message in a UDP datagram: no other layer of the frame is one the parsers before it read.\<close>

definition dns_datagram :: "wire_frame \<Rightarrow> l4 \<Rightarrow> dns_layer \<Rightarrow> bool" where
  "dns_datagram f u d \<longleftrightarrow> f_dns f = Some d \<and> udp_layer f = Some u \<and> tcp_layer f = None \<and> raw_layer f = None \<and>
     (case ether_layer f of None \<Rightarrow> True | Some (t, p) \<Rightarrow> t \<noteq> 0x88B8 \<and> t \<noteq> 0x8892) \<and> f_lldp f = None \<and> f_cdp f = None \<and> f_stp f = None \<and> f_dtp f = None \<and> f_eapol f = None \<and>
     f_arp f = None \<and> f_dhcp f = None \<and> f_dhcp6 f = None"

lemma truncate_layers [simp]:
  "tcp_layer (packet.truncate f) = tcp_layer f" "udp_layer (packet.truncate f) = udp_layer f"
  "ip_layer (packet.truncate f) = ip_layer f" "raw_layer (packet.truncate f) = raw_layer f"
  "ether_layer (packet.truncate f) = ether_layer f" "pkt_src (packet.truncate f) = pkt_src f"
  by (simp_all add: packet.truncate_def)

lemma dns_datagram_chain:
  assumes "dns_datagram f u d"
  shows "run_chain (PARSER_CHAIN env) f = run_chain (drop 15 (PARSER_CHAIN env)) f"
proof -
  have "list_all (\<lambda>(s, p). p f = Inr []) (take 15 (PARSER_CHAIN env))"
    using assms
    by (auto simp: PARSER_CHAIN_def dns_datagram_def parse_lldp_def parse_lldp_raw_def parse_cdp_def parse_cdp_raw_def
        parse_stp_def parse_stp_raw_def parse_dtp_def parse_dtp_raw_def parse_eap_def on_packet_def parse_goose_def
        parse_profinet_def parse_arp_def parse_tcp_syn_def parse_tls_client_hello_def parse_quic_def
        parse_http_useragent_def split: option.splits)
  from run_chain_skip [OF this, of "drop 15 (PARSER_CHAIN env)"] show ?thesis by simp
qed

lemma dns_part: "drop 15 (PARSER_CHAIN env) =
    (''dns'', \<lambda>f. fallible (parse_dns f)) # (''dns_answer'', \<lambda>f. Inr (parse_dns_answer f)) # drop 17 (PARSER_CHAIN env)"
  by (simp add: PARSER_CHAIN_def)

lemma answer_protocol: "answer_packet f a rr = Some c \<Longrightarrow> protocol c = ''dns_answer''"
  by (auto simp: answer_packet_def captured_def Let_def split: sum.splits option.splits rr_data.splits if_splits)

lemma map_filter_set: "x \<in> set (List.map_filter g xs) \<Longrightarrow> \<exists>y \<in> set xs. g y = Some x"
  by (auto simp: map_filter_def)

definition env0 :: capture_env where
  "env0 = \<lparr>md5_hex = id, sha256_hex = id, show_val = (\<lambda>v. []), printable = (\<lambda>c. c < 127), xml_parser = (\<lambda>t. None)\<rparr>"

text \<open>A printer announces its service and its address.\<close>

definition printer_datagram :: l4 where
  "printer_datagram = \<lparr>sport = 5353, dport = 5353, l4_payload = Inr []\<rparr>"

definition printer_records :: "dns_rr list" where
  "printer_records =
    [\<lparr>rr_name = SText (lit ''_ipp._tcp.local.''), rr_type = 12, rr_ttl = 120,
      rr_rdata = Some (RData (SText (lit ''LaserJet._ipp._tcp.local.''))), rr_target = None, rr_port = None\<rparr>,
     \<lparr>rr_name = SText (lit ''printer.local.''), rr_type = 1, rr_ttl = 120,
      rr_rdata = Some (RData (SText (lit ''10.0.0.7''))), rr_target = None, rr_port = None\<rparr>]"

definition printer_message :: dns_layer where
  "printer_message = \<lparr>dns_qr = True, dns_qd = [], dns_an = printer_records, dns_ns = [], dns_ar = [],
     dns_qdcount = None, dns_ancount = None, dns_nscount = None, dns_arcount = None\<rparr>"

definition printer_frame :: wire_frame where
  "printer_frame = bare_frame\<lparr>pkt_src := ''00:11:22:33:44:55'', ip_layer := Some (''10.0.0.7'', ''224.0.0.251''),
     udp_layer := Some printer_datagram, f_dns := Some printer_message\<rparr>"

lemma parse_dns_answer_protocol: "c \<in> set (parse_dns_answer f) \<Longrightarrow> protocol c = ''dns_answer''"
  by (auto simp: parse_dns_answer_def dest!: map_filter_set answer_protocol split: option.splits if_splits)

text \<open>An mDNS response with an address or a pointer record is what the chain makes of it as a DNS answer: the
  first record becomes the packet, the others go to the queue, and \<open>parse_mdns\<close>, which comes later, never
  sees it; the service, the model and the text records of the announcement are lost.\<close>

theorem mdns_response_taken_as_answer:
  assumes "dns_datagram f u d" "dns_qr d" "on_port (Some u) [53] = None" "addresses f = Some a"
    "List.map_filter (answer_packet f a) (dns_an d) = c # cs"
  shows "classify env f = (Some c, map (\<lambda>x. x\<lparr>cp_interface := Some []\<rparr>) cs) \<and> protocol c = ''dns_answer''"
proof -
  have f: "f_dns f = Some d" "udp_layer f = Some u" using assms(1) by (simp_all add: dns_datagram_def)
  have dns: "parse_dns f = Inr None" using assms(3) f by (simp add: parse_dns_def)
  have ans: "parse_dns_answer f = c # cs" using assms(2,4,5) f by (simp add: parse_dns_answer_def)
  then have prot: "protocol c = ''dns_answer''" using parse_dns_answer_protocol [of c f] by simp
  have "run_chain (PARSER_CHAIN env) f = c # cs"
    unfolding dns_datagram_chain [OF assms(1)] dns_part by (simp add: dns ans)
  then show ?thesis by (simp add: classify_def prot)
qed

text \<open>The printer's announcement: what becomes of it, and what the mDNS parser would have read.\<close>

lemma printer_answers:
  "map cp_fields (List.map_filter (answer_packet printer_frame (''10.0.0.7'', ''224.0.0.251'')) (dns_an printer_message)) =
    [[(''query_name'', pstr ''_ipp._tcp.local''), (''record_type'', pstr ''PTR''), (''ttl'', PInt 120),
      (''hostname'', pstr ''LaserJet._ipp._tcp.local'')],
     [(''query_name'', pstr ''printer.local''), (''record_type'', pstr ''A''), (''ttl'', PInt 120),
      (''answer_ip'', pstr ''10.0.0.7'')]]"
  by code_simp

lemma printer_mdns:
  "map_sum id (map_option cp_fields) (parse_mdns printer_frame) =
    Inr (Some [(''service_type'', pstr ''_ipp._tcp''), (''name'', pstr ''LaserJet'')])"
  by code_simp

lemma printer_frame_layers:
  "dns_datagram printer_frame printer_datagram printer_message" "dns_qr printer_message"
  "on_port (Some printer_datagram) [53] = None" "addresses printer_frame = Some (''10.0.0.7'', ''224.0.0.251'')"
  by (simp_all add: dns_datagram_def printer_frame_def bare_frame_def bare_packet_def packet.defs wire_frame.defs
      printer_datagram_def printer_message_def on_port_def addresses_def)

lemma mdns_response_taken_as_answer_witness:
  "\<exists>c cs. classify env0 printer_frame = (Some c, cs) \<and> protocol c = ''dns_answer'' \<and>
     cp_fields c = [(''query_name'', pstr ''_ipp._tcp.local''), (''record_type'', pstr ''PTR''), (''ttl'', PInt 120),
       (''hostname'', pstr ''LaserJet._ipp._tcp.local'')] \<and>
     map_sum id (map_option cp_fields) (parse_mdns printer_frame) =
       Inr (Some [(''service_type'', pstr ''_ipp._tcp''), (''name'', pstr ''LaserJet'')])"
proof -
  obtain c cs where c: "List.map_filter (answer_packet printer_frame (''10.0.0.7'', ''224.0.0.251'')) (dns_an printer_message) = c # cs"
      "cp_fields c = [(''query_name'', pstr ''_ipp._tcp.local''), (''record_type'', pstr ''PTR''), (''ttl'', PInt 120),
        (''hostname'', pstr ''LaserJet._ipp._tcp.local'')]"
    using printer_answers by (auto simp: Cons_eq_map_conv map_eq_Cons_conv)
  then show ?thesis
    using mdns_response_taken_as_answer [OF printer_frame_layers c(1), of env0] printer_mdns by blast
qed

text \<open>A response of a DNS server becomes one packet that says so, and its answer records give nothing: the
  parser of answers never sees the datagrams of port 53.\<close>

theorem dns_response_answers_unread:
  assumes "dns_datagram f u d" "dns_qr d" "on_port (Some u) [53] = Some u"
  shows "\<exists>c. classify env f = (Some c, []) \<and> protocol c = ''dns_server'' \<and> target_ip c = None \<and>
    dict_keys (cp_fields c) = [''role'', ''answer_count'']"
proof -
  have f: "f_dns f = Some d" "udp_layer f = Some u" using assms(1) by (simp_all add: dns_datagram_def)
  obtain c where c: "parse_dns f = Inr (Some c)" "protocol c = ''dns_server''" "target_ip c = None"
      "dict_keys (cp_fields c) = [''role'', ''answer_count'']"
    using assms(2,3) f by (simp add: parse_dns_def with_raw_of_def captured_def dict_keys_def)
  have "run_chain (PARSER_CHAIN env) f = [c]"
    unfolding dns_datagram_chain [OF assms(1)] dns_part by (simp add: c(1))
  then show ?thesis using c(2-4) by (simp add: classify_def)
qed

definition resolver_datagram :: l4 where
  "resolver_datagram = \<lparr>sport = 53, dport = 40000, l4_payload = Inr []\<rparr>"

definition resolver_frame :: wire_frame where
  "resolver_frame = bare_frame\<lparr>ip_layer := Some (''10.0.0.53'', ''10.0.0.7''), udp_layer := Some resolver_datagram,
     f_dns := Some printer_message\<rparr>"

lemma dns_response_answers_unread_witness:
  "(\<exists>c. classify env0 resolver_frame = (Some c, []) \<and> protocol c = ''dns_server'' \<and> target_ip c = None \<and>
    dict_keys (cp_fields c) = [''role'', ''answer_count'']) \<and> dns_an printer_message \<noteq> []"
proof -
  have "dns_datagram resolver_frame resolver_datagram printer_message" "dns_qr printer_message"
    "on_port (Some resolver_datagram) [53] = Some resolver_datagram"
    by (simp_all add: dns_datagram_def resolver_frame_def bare_frame_def bare_packet_def packet.defs wire_frame.defs
      resolver_datagram_def printer_message_def on_port_def)
  from dns_response_answers_unread [OF this, of env0] show ?thesis by (simp add: printer_message_def printer_records_def)
qed

lemma chain_last: "PARSER_CHAIN env = butlast (PARSER_CHAIN env) @ [(''ip_observed'', \<lambda>f. single (parse_ip_observed f))]"
  by (simp add: PARSER_CHAIN_def)

text \<open>No IP frame is lost: whatever its other layers hold, and whichever parsers raise, the frame is classified,
  in the last resort as observed traffic of its sender.\<close>

theorem ip_frame_classified:
  assumes "ip_layer f \<noteq> None"
  shows "\<exists>c. fst (classify env f) = Some c"
proof -
  have "parse_ip_observed f \<noteq> None"
    using assms by (auto simp: parse_ip_observed_def Let_def split: prod.splits)
  then obtain c where c: "parse_ip_observed f = Some c" by blast
  have "run_chain (PARSER_CHAIN env) f \<noteq> []"
    by (subst chain_last) (auto simp: run_chain_append c)
  then show ?thesis by (auto simp: classify_def split: list.splits)
qed

definition plain_frame :: wire_frame where
  "plain_frame = bare_frame\<lparr>ip_layer := Some (''10.0.0.9'', ''10.0.0.1''), f_ttl := 64\<rparr>"

lemma ip_frame_classified_witness: "\<exists>c. fst (classify env0 plain_frame) = Some c"
  by (rule ip_frame_classified) (simp add: plain_frame_def bare_frame_def packet.defs)

section \<open>Ingestion\<close>

definition capture_ok :: "capture \<Rightarrow> bool" where
  "capture_ok c \<longleftrightarrow> length (raw_buffer c) \<le> BUFFER_SIZE \<and> dedup_ok 50000 300 (banner_dedup c) \<and>
     dedup_ok 50000 300 (ip_observed_dedup c)"

lemma capture_ok0: "capture_ok capture0"
  by (simp add: capture_ok_def capture0_def dedup_ok_new)

lemma fold_enqueue: "fold enqueue ps c = c\<lparr>queue := queue c @ ps\<rparr>"
  by (induction ps arbitrary: c) (simp_all add: enqueue_def)

lemma push_raw_fields [simp]:
  "banner_dedup (push_raw b c) = banner_dedup c" "ip_observed_dedup (push_raw b c) = ip_observed_dedup c"
  "queue (push_raw b c) = queue c"
  by (simp_all add: push_raw_def Let_def)

lemma enqueue_fields [simp]:
  "banner_dedup (enqueue p c) = banner_dedup c" "ip_observed_dedup (enqueue p c) = ip_observed_dedup c"
  "raw_buffer (enqueue p c) = raw_buffer c" "queue (enqueue p c) = queue c @ [p]"
  by (simp_all add: enqueue_def)

text \<open>The filters answer every call, keep their bounds and touch nothing else.\<close>

lemma duplicate_ok:
  assumes "dedup_ok 50000 300 (banner_dedup c)" "dedup_ok 50000 300 (ip_observed_dedup c)"
  obtains c' b where "duplicate now p c = Inr (c', b)" "dedup_ok 50000 300 (banner_dedup c')"
    "dedup_ok 50000 300 (ip_observed_dedup c')" "raw_buffer c' = raw_buffer c" "queue c' = queue c"
proof -
  obtain d b where s: "seen (banner_dedup c) now (hw_addr p, cp_get p ''server_port'' (PInt 0)) = Inr (d, b)"
    using seen_total [OF assms(1)] by blast
  obtain d' b' where s': "seen (ip_observed_dedup c) now (hw_addr p, cp_get p ''dst_port'' PNone) = Inr (d', b')"
    using seen_total [OF assms(2)] by blast
  show thesis
    using that assms seen_ok [OF assms(1) s] seen_ok [OF assms(2) s'] by (cases "protocol p = ''service_banner''";
      cases "protocol p = ''ip_observed''") (auto simp: duplicate_def s s')
qed

text \<open>A step: the frame enters the ring, what it is classified as enters the queue unless it repeats.\<close>

lemma ingest_cases:
  assumes "capture_ok c"
  obtains (observed) p ps d b where "classify env f = (Some p, ps)"
      "duplicate now p ((push_raw (pkt_bytes f) c)\<lparr>queue := queue c @ ps\<rparr>) = Inr (d, b)"
      "ingest env now f dev c = (if b then d else enqueue (p\<lparr>cp_interface := Some dev\<rparr>) d, None)"
  | (other) ps qs where "classify env f = (None, ps)"
      "ingest env now f dev c = ((push_raw (pkt_bytes f) c)\<lparr>queue := queue c @ qs\<rparr>, None)"
proof (cases "classify env f")
  case (Pair r ps)
  let ?c = "(push_raw (pkt_bytes f) c)\<lparr>queue := queue c @ ps\<rparr>"
  show thesis
  proof (cases r)
    case None
    show thesis
    proof (cases "unclassified f")
      case None
      then show thesis using \<open>r = None\<close> Pair
        by (intro other [of ps ps]) (simp_all add: ingest_def fold_enqueue)
    next
      case (Some q)
      then show thesis using None Pair
        by (intro other [of ps "ps @ [q\<lparr>cp_interface := Some dev\<rparr>]"])
          (simp_all add: ingest_def fold_enqueue enqueue_def)
    qed
  next
    case (Some p)
    have "dedup_ok 50000 300 (banner_dedup ?c)" "dedup_ok 50000 300 (ip_observed_dedup ?c)"
      using assms by (simp_all add: capture_ok_def)
    then obtain d b where "duplicate now p ?c = Inr (d, b)" by (rule duplicate_ok)
    then show thesis using Some Pair by (intro observed) (simp_all add: ingest_def fold_enqueue)
  qed
qed

lemma ingest_no_error: "capture_ok c \<Longrightarrow> snd (ingest env now f dev c) = None"
  by (erule ingest_cases [of c env f now dev]) simp_all

lemma ingest_raw:
  assumes "capture_ok c"
  shows "raw_buffer (fst (ingest env now f dev c)) = raw_buffer (push_raw (pkt_bytes f) c)"
  using assms
proof (cases rule: ingest_cases [of c env f now dev])
  case (observed p ps d b)
  have "raw_buffer d = raw_buffer (push_raw (pkt_bytes f) c)"
    using observed(2) by (auto simp: duplicate_def split: if_splits sum.splits)
  then show ?thesis using observed(3) by simp
qed simp

text \<open>One filter is called at most once, the other stays.\<close>

lemma ingest_filter:
  assumes "capture_ok c" "sel = banner_dedup \<or> sel = ip_observed_dedup"
  shows "sel (fst (ingest env now f dev c)) = sel c \<or>
    (\<exists>key b. seen (sel c) now key = Inr (sel (fst (ingest env now f dev c)), b))"
  using assms(1)
proof (cases rule: ingest_cases [of c env f now dev])
  case (observed p ps d b)
  have "sel d = sel c \<or> (\<exists>key b. seen (sel c) now key = Inr (sel d, b))"
    using observed(2) assms(2) by (auto simp: duplicate_def split: if_splits sum.splits)
  then show ?thesis using observed(3) assms(2) by auto
next
  case (other ps qs)
  then show ?thesis using assms(2) by auto
qed

lemma ingest_ok:
  assumes "capture_ok c"
  shows "capture_ok (fst (ingest env now f dev c))"
proof -
  have "dedup_ok 50000 300 (sel (fst (ingest env now f dev c)))" if "sel = banner_dedup \<or> sel = ip_observed_dedup" for sel
    using ingest_filter [OF assms that, of env now f dev] that assms seen_ok by (auto simp: capture_ok_def)
  then show ?thesis
    by (simp add: capture_ok_def ingest_raw [OF assms] push_raw_def Let_def)
qed

lemma ingest_all_ok: "capture_ok c \<Longrightarrow> capture_ok (ingest_all env fs c)"
  by (induction env fs c rule: ingest_all.induct) (simp_all add: ingest_ok)

definition last_n :: "nat \<Rightarrow> 'a list \<Rightarrow> 'a list" where
  "last_n n xs = drop (length xs - n) xs"

lemma last_n_rev: "last_n n xs = rev (take n (rev xs))"
  by (simp add: last_n_def take_rev)

lemma last_n_append: "last_n n (last_n n xs @ ys) = last_n n (xs @ ys)"
  by (simp add: last_n_rev min_def)

lemma push_raw_last: "raw_buffer (push_raw b c) = last_n BUFFER_SIZE (raw_buffer c @ [b])"
  by (simp add: push_raw_def last_n_def Let_def)

lemma ingest_all_raw:
  assumes "capture_ok c"
  shows "raw_buffer (ingest_all env fs c) = last_n BUFFER_SIZE (raw_buffer c @ map (\<lambda>(t, f, dev). pkt_bytes f) fs)"
  using assms
proof (induction env fs c rule: ingest_all.induct)
  case (1 env c)
  then show ?case by (simp add: capture_ok_def last_n_def)
next
  case (2 env now f dev fs c)
  then show ?case by (simp add: ingest_ok ingest_raw push_raw_last last_n_append)
qed

text \<open>C36: After any run of the engine the ring holds the bytes of the last 2000 frames in order, whatever the parsers
  made of them, neither filter has grown past its bound, and the next frame raises no exception.\<close>

theorem capture_ring_and_filters:
  "raw_buffer (ingest_all env fs capture0) = last_n 2000 (map (\<lambda>(t, f, dev). pkt_bytes f) fs) \<and>
   ttl_dedup_len (banner_dedup (ingest_all env fs capture0)) \<le> 50000 \<and>
   ttl_dedup_len (ip_observed_dedup (ingest_all env fs capture0)) \<le> 50000 \<and>
   snd (ingest env now f dev (ingest_all env fs capture0)) = None"
proof -
  have ok: "capture_ok (ingest_all env fs capture0)" using ingest_all_ok [OF capture_ok0] .
  have "raw_buffer (ingest_all env fs capture0) = last_n 2000 (map (\<lambda>(t, f, dev). pkt_bytes f) fs)"
    using ingest_all_raw [OF capture_ok0] by (simp add: BUFFER_SIZE_def capture0_def)
  with ok ingest_no_error [OF ok] show ?thesis by (simp add: capture_ok_def dedup_ok_def ttl_dedup_len_def)
qed

section \<open>Repeated observations\<close>

text \<open>A filter remembers a key: its time stamp, and at most \<open>n\<close> keys are younger.\<close>

definition remembered :: "'k ttl_dedup \<Rightarrow> 'k \<Rightarrow> rat \<Rightarrow> nat \<Rightarrow> bool" where
  "remembered d k t n \<longleftrightarrow> dict_get (dd_store d) k = Some t \<and> age k (dict_keys (dd_store d)) \<le> n"

lemma dict_get_key: "dict_get d k = Some v \<Longrightarrow> k \<in> set (dict_keys d)"
  by (metis dict_get_None_iff option.distinct(1))

lemma remembered_step:
  assumes "dedup_ok m ttl d" "seen d now key = Inr (d', b)" "remembered d k t n" "n + 1 < m" "now - t < ttl"
  shows "remembered d' k t (n + 1)"
proof -
  have k: "k \<in> set (dict_keys (dd_store d'))" "age k (dict_keys (dd_store d')) \<le> age k (dict_keys (dd_store d)) + 1"
    using seen_kept [OF assms(1,2), of k] assms(3,4) by (auto simp: remembered_def dict_get_key)
  then show ?thesis
    using seen_get_kept [OF assms(1,2) _ k(1)] assms(3,5) by (auto simp: remembered_def)
qed

lemma remembered_new:
  assumes "dedup_ok m ttl d" "seen d now key = Inr (d', False)"
  shows "remembered d' key now 0"
  using assms(2)
proof (cases rule: seen_cases)
  case (new st)
  have "dict_keys (dict_set st key now) = dict_keys st @ [key]"
    using make_room_fresh [OF new(2), of key] by (simp add: dict_keys_append)
  then show ?thesis using new(3) by (simp add: remembered_def age_snoc)
qed simp

lemma remembered_seen: "remembered d k t n \<Longrightarrow> now - t < dd_ttl d \<Longrightarrow> \<exists>d'. seen d now k = Inr (d', True)"
  by (simp add: remembered_def seen_def)

lemma remembered_ingest:
  assumes "capture_ok c" "sel = banner_dedup \<or> sel = ip_observed_dedup" "remembered (sel c) k t n" "n + 1 < 50000" "now - t < 300"
  shows "remembered (sel (fst (ingest env now f dev c))) k t (n + 1)"
  using ingest_filter [OF assms(1,2), of env now f dev]
proof (elim disjE exE)
  assume "sel (fst (ingest env now f dev c)) = sel c"
  then show ?thesis using assms(3) by (simp add: remembered_def)
next
  fix key b
  assume "seen (sel c) now key = Inr (sel (fst (ingest env now f dev c)), b)"
  moreover have "dedup_ok 50000 300 (sel c)" using assms(1,2) by (auto simp: capture_ok_def)
  ultimately show ?thesis using assms(3-5) by (blast intro: remembered_step)
qed

lemma remembered_ingest_all:
  assumes "capture_ok c" "sel = banner_dedup \<or> sel = ip_observed_dedup" "remembered (sel c) k t n" "n + length fs < 50000"
    "list_all (\<lambda>(now, f, dev). now - t < 300) fs"
  shows "remembered (sel (ingest_all env fs c)) k t (n + length fs)"
  using assms
proof (induction env fs c arbitrary: n rule: ingest_all.induct)
  case (2 env now f dev fs c)
  have "remembered (sel (ingest_all env fs (fst (ingest env now f dev c)))) k t ((n + 1) + length fs)"
    using 2(3-6) remembered_ingest [OF 2(2,3,4), of now env f dev]
    by (intro 2(1)) (simp_all add: ingest_ok [OF 2(2)])
  then show ?case by simp
qed simp

text \<open>What the filters tell apart: the sender with the port of its service or the port it talks to.\<close>

definition filter_of :: "captured_packet \<Rightarrow> capture \<Rightarrow> (string \<times> pyval) ttl_dedup" where
  "filter_of p = (if protocol p = ''service_banner'' then banner_dedup else ip_observed_dedup)"

definition observation :: "captured_packet \<Rightarrow> string \<times> pyval" where
  "observation p = (hw_addr p,
     if protocol p = ''service_banner'' then cp_get p ''server_port'' (PInt 0) else cp_get p ''dst_port'' PNone)"

definition filtered :: "captured_packet \<Rightarrow> bool" where
  "filtered p \<longleftrightarrow> protocol p \<in> {''service_banner'', ''ip_observed''}"

lemma filter_of_cases: "filter_of p = banner_dedup \<or> filter_of p = ip_observed_dedup"
  by (simp add: filter_of_def)

text \<open>A filtered packet: new and remembered, or dropped.\<close>

lemma ingest_filtered:
  assumes "capture_ok c" "classify env f = (Some p, [])" "filtered p"
  obtains (kept) d where "seen (filter_of p c) now (observation p) = Inr (d, False)"
      "filter_of p (fst (ingest env now f dev c)) = d"
  | (dropped) d where "seen (filter_of p c) now (observation p) = Inr (d, True)"
      "queue (fst (ingest env now f dev c)) = queue c"
  using assms(1)
proof (cases rule: ingest_cases [of c env f now dev])
  case (observed p' ps d b)
  then have eq: "p' = p" "ps = []" using assms(2) by simp_all
  show thesis
    using observed(2,3) assms(3) kept dropped unfolding eq
    by (cases b) (auto simp: duplicate_def filtered_def filter_of_def observation_def split: if_splits sum.splits)
next
  case (other ps qs)
  then show thesis using assms(2) by simp
qed

text \<open>A banner or an observed flow that was accepted is not queued again within five minutes, whatever is captured
  in between, as long as fewer than 49999 frames are: the second observation of the same sender and port leaves
  the queue alone.\<close>

theorem repeated_observation_dropped:
  fixes env fs0 f f' dev dev' fs t t'
  defines "c \<equiv> ingest_all env fs0 capture0"
  defines "c1 \<equiv> fst (ingest env t f dev c)"
  defines "c2 \<equiv> ingest_all env fs c1"
  assumes "classify env f = (Some p, [])" "classify env f' = (Some p', [])"
    "filtered p" "protocol p' = protocol p" "observation p' = observation p" "queue c1 \<noteq> queue c"
    "length fs < 49999" "list_all (\<lambda>(now, f, dev). now - t < 300) fs" "t' - t < 300"
  shows "queue (fst (ingest env t' f' dev' c2)) = queue c2"
proof -
  have ok: "capture_ok c" unfolding c_def by (rule ingest_all_ok [OF capture_ok0])
  have ok1: "capture_ok c1" unfolding c1_def by (rule ingest_ok [OF ok])
  have ok2: "capture_ok c2" unfolding c2_def by (rule ingest_all_ok [OF ok1])
  have same: "filter_of p' = filter_of p" "filtered p'" using assms(6,7) by (simp_all add: filter_of_def filtered_def)
  have d: "dedup_ok 50000 300 (filter_of p c)" "dedup_ok 50000 300 (filter_of p c2)"
    using ok ok2 filter_of_cases [of p] by (auto simp: capture_ok_def)
  have "seen (filter_of p c) t (observation p) = Inr (filter_of p c1, False)"
    using ok assms(4,6)
  proof (cases rule: ingest_filtered [of c env f p t dev])
    case (dropped d)
    then show ?thesis using assms(9) by (simp add: c1_def)
  qed (simp add: c1_def)
  then have "remembered (filter_of p c1) (observation p) t 0" using remembered_new [OF d(1)] by simp
  then have "remembered (filter_of p c2) (observation p) t (0 + length fs)"
    unfolding c2_def using ok1 filter_of_cases assms(10,11) by (intro remembered_ingest_all) auto
  then obtain d' where seen: "seen (filter_of p c2) t' (observation p) = Inr (d', True)"
    using remembered_seen d(2) assms(12) by (fastforce simp: dedup_ok_def)
  show ?thesis
    using ok2 assms(5) same(2)
  proof (cases rule: ingest_filtered [of c2 env f' p' t' dev'])
    case (kept d)
    then show ?thesis using seen same(1) assms(8) by simp
  qed
qed

text \<open>A frame without a transport layer: nothing but its addresses is observed, once.\<close>

lemma plain_frame_layers [simp]:
  "f_lldp plain_frame = None" "f_cdp plain_frame = None" "f_stp plain_frame = None" "f_dtp plain_frame = None"
  "f_eapol plain_frame = None" "f_arp plain_frame = None" "f_dhcp plain_frame = None" "f_dhcp6 plain_frame = None"
  "tcp_layer plain_frame = None" "udp_layer plain_frame = None" "raw_layer plain_frame = None"
  "ether_layer plain_frame = None" "f_dns plain_frame = None" "f_snmp plain_frame = None" "f_nd plain_frame = None"
  "f_igmp plain_frame = None" "f_radius plain_frame = None" "ip_layer plain_frame = Some (''10.0.0.9'', ''10.0.0.1'')"
  "ipv6_layer plain_frame = None"
  by (simp_all add: plain_frame_def bare_frame_def bare_packet_def packet.defs wire_frame.defs)

lemma plain_frame_chain: "list_all (\<lambda>(s, p). p plain_frame = Inr []) (butlast (PARSER_CHAIN env))"
  by (simp add: PARSER_CHAIN_def parse_lldp_def parse_lldp_raw_def parse_cdp_def parse_cdp_raw_def parse_stp_def
      parse_stp_raw_def parse_dtp_def parse_dtp_raw_def parse_eap_def on_packet_def parse_goose_def parse_profinet_def
      parse_arp_def parse_tcp_syn_def parse_tls_client_hello_def parse_quic_def parse_http_useragent_def on_port_def
      parse_dns_def parse_dns_answer_def parse_mdns_def parse_ssdp_def parse_llmnr_netbios_def parse_ws_discovery_def
      parse_snmp_def parse_snmp_raw_def parse_icmpv6_def parse_igmp_def parse_ntp_def parse_umas_def parse_modbus_def
      parse_bacnet_def parse_coap_def parse_mqtt_def parse_enip_def parse_dnp3_def parse_s7comm_def parse_opcua_def
      parse_stun_def parse_radius_def parse_upnp_def parse_service_banner_def tcp_or_udp_def udp_text_def)

lemma plain_frame_classified:
  obtains p where "classify env plain_frame = (Some p, [])" "protocol p = ''ip_observed''"
proof -
  have "\<exists>p. parse_ip_observed plain_frame = Some p \<and> protocol p = ''ip_observed''"
    by (cases "guess_initial_ttl (f_ttl plain_frame)") (simp add: parse_ip_observed_def captured_def tcp_or_udp_def)
  then obtain p where p: "parse_ip_observed plain_frame = Some p" "protocol p = ''ip_observed''" by blast
  have "run_chain (PARSER_CHAIN env) plain_frame = run_chain [(''ip_observed'', \<lambda>f. single (parse_ip_observed f))] plain_frame"
    by (subst chain_last) (rule run_chain_skip [OF plain_frame_chain])
  then show thesis using that p by (simp add: classify_def)
qed

lemma repeated_observation_dropped_witness:
  "\<exists>p. classify env0 plain_frame = (Some p, []) \<and>
     queue (fst (ingest env0 0 plain_frame ''eth0'' capture0)) = [p\<lparr>cp_interface := Some ''eth0''\<rparr>] \<and>
     queue (fst (ingest env0 200 plain_frame ''eth1'' (fst (ingest env0 0 plain_frame ''eth0'' capture0)))) =
       [p\<lparr>cp_interface := Some ''eth0''\<rparr>]"
proof -
  obtain p where p: "classify env0 plain_frame = (Some p, [])" "protocol p = ''ip_observed''"
    by (rule plain_frame_classified)
  have first: "queue (fst (ingest env0 0 plain_frame ''eth0'' capture0)) = [p\<lparr>cp_interface := Some ''eth0''\<rparr>]"
    by (simp add: ingest_def p fold_enqueue duplicate_def capture0_def seen_def seen_new_def make_room_def
        ttl_dedup_new_def dict_get_def)
  then show ?thesis
    using repeated_observation_dropped [of env0 plain_frame p plain_frame p 0 "''eth0''" "[]" "[]" 200 "''eth1''"] p
    by (simp add: filtered_def capture0_def)
qed

end
