(* ===== verification/BannersProps.thy ===== *)
theory BannersProps
  imports Banners
begin

text \<open>
  The removal of Telnet negotiation from a banner: the loop over the payload ends for every byte string, and
  for a well-formed stream of text, commands, option negotiations and subnegotiations what is left is the text.
  The services of the watched ports and the matchers that exist.
\<close>

section \<open>Streams\<close>

text \<open>What a Telnet server sends: a byte of text, IAC and a command, IAC and an option, a subnegotiation.\<close>

datatype telnet_item = TText byte | TCommand byte | TOption byte byte | TSub bytes

fun telnet_ok :: "telnet_item \<Rightarrow> bool" where
  "telnet_ok (TText b) \<longleftrightarrow> b \<noteq> 0xFF"
| "telnet_ok (TCommand c) \<longleftrightarrow> c < 0xFA \<or> c = 0xFF"
| "telnet_ok (TOption c opt) \<longleftrightarrow> 0xFB \<le> c \<and> c \<le> 0xFE"
| "telnet_ok (TSub d) \<longleftrightarrow> 0xFF \<notin> set d"

fun telnet_encode :: "telnet_item \<Rightarrow> bytes" where
  "telnet_encode (TText b) = [b]"
| "telnet_encode (TCommand c) = [0xFF, c]"
| "telnet_encode (TOption c opt) = [0xFF, c, opt]"
| "telnet_encode (TSub d) = [0xFF, 0xFA] @ d @ [0xFF, 0xF0]"

fun telnet_text :: "telnet_item list \<Rightarrow> bytes" where
  "telnet_text [] = []"
| "telnet_text (TText b # ts) = b # telnet_text ts"
| "telnet_text (t # ts) = telnet_text ts"

section \<open>Steps\<close>

text \<open>Every turn moves the position, and adds at most one byte.\<close>

lemma iac_step_advances: "i < length payload \<Longrightarrow> i < fst (iac_step payload (i, out))"
  by (auto simp: iac_step_def Let_def)

lemma iac_step_output: "length (snd (iac_step payload (i, out))) \<le> Suc (length out)"
  by (auto simp: iac_step_def Let_def)

definition telnet_run :: "bytes \<Rightarrow> nat \<times> bytes \<Rightarrow> (nat \<times> bytes) option" where
  "telnet_run payload st = while_option (\<lambda>(i, out). i < length payload) (iac_step payload) st"

lemma iac_loop_run: "iac_loop payload = telnet_run payload (0, [])"
  by (simp add: iac_loop_def telnet_run_def)

lemma telnet_run_step: "i < length payload \<Longrightarrow> telnet_run payload (i, out) = telnet_run payload (iac_step payload (i, out))"
  unfolding telnet_run_def by (subst while_option_unfold) simp

lemma telnet_run_end: "length payload \<le> i \<Longrightarrow> telnet_run payload (i, out) = Some (i, out)"
  unfolding telnet_run_def by (subst while_option_unfold) simp

lemma telnet_run_ends:
  "length out \<le> i \<Longrightarrow> length out \<le> length payload \<Longrightarrow>
   \<exists>j r. telnet_run payload (i, out) = Some (j, r) \<and> length payload \<le> j \<and> length r \<le> length payload"
proof (induction "length payload - i" arbitrary: i out rule: less_induct)
  case less
  show ?case
  proof (cases "i < length payload")
    case True
    obtain j r where st: "iac_step payload (i, out) = (j, r)" by fastforce
    have "i < j" "length r \<le> Suc (length out)"
      using iac_step_advances [OF True, of out] iac_step_output [of payload i out] by (simp_all add: st)
    then have "\<exists>j' r'. telnet_run payload (j, r) = Some (j', r') \<and> length payload \<le> j' \<and> length r' \<le> length payload"
      using True less.prems by (intro less.hyps) auto
    then show ?thesis by (simp add: telnet_run_step [OF True] st)
  next
    case False
    then show ?thesis using less.prems by (simp add: telnet_run_end)
  qed
qed

text \<open>One item of a well-formed stream is consumed whole.\<close>

lemma sb_length_data: "0xFF \<notin> set d \<Longrightarrow> sb_length (d @ 0xFF # 0xF0 # post) = length d"
proof (induction d)
  case (Cons x d)
  then show ?case by (cases d) auto
qed simp

lemma telnet_run_item:
  assumes "telnet_ok t"
  shows "telnet_run (pre @ telnet_encode t @ post) (length pre, out) =
    telnet_run (pre @ telnet_encode t @ post) (length (pre @ telnet_encode t), out @ telnet_text [t])"
proof -
  have "iac_step (pre @ telnet_encode t @ post) (length pre, out) = (length (pre @ telnet_encode t), out @ telnet_text [t])"
  proof (cases t)
    case (TText b)
    then show ?thesis using assms by (simp add: iac_step_def)
  next
    case (TCommand c)
    moreover from this have "c \<noteq> 0xFA" "\<not> (0xFB \<le> c \<and> c \<le> 0xFE)"
      using assms by (auto simp: word_less_nat_alt word_le_nat_alt)
    ultimately show ?thesis by (simp add: iac_step_def Let_def nth_append)
  next
    case (TOption c opt)
    moreover from this have "c \<noteq> 0xFA" using assms by auto
    ultimately show ?thesis using assms by (simp add: iac_step_def Let_def nth_append)
  next
    case (TSub d)
    have "drop (length pre + 2) (pre @ telnet_encode t @ post) = d @ 0xFF # 0xF0 # post" by (simp add: TSub)
    then show ?thesis using assms TSub by (simp add: iac_step_def Let_def nth_append sb_length_data)
  qed
  moreover have "telnet_encode t \<noteq> []" by (cases t) auto
  ultimately show ?thesis by (subst telnet_run_step) auto
qed

lemma telnet_text_append: "telnet_text (t # ts) = telnet_text [t] @ telnet_text ts"
  by (cases t) auto

lemma telnet_run_items:
  assumes "list_all telnet_ok ts"
  shows "telnet_run (pre @ concat (map telnet_encode ts)) (length pre, out) =
    Some (length (pre @ concat (map telnet_encode ts)), out @ telnet_text ts)"
  using assms
proof (induction ts arbitrary: pre out)
  case Nil
  then show ?case by (simp add: telnet_run_end)
next
  case (Cons t ts)
  have "telnet_run (pre @ concat (map telnet_encode (t # ts))) (length pre, out) =
      telnet_run ((pre @ telnet_encode t) @ concat (map telnet_encode ts)) (length (pre @ telnet_encode t), out @ telnet_text [t])"
    using telnet_run_item [of t pre "concat (map telnet_encode ts)" out] Cons.prems by simp
  also have "\<dots> = Some (length ((pre @ telnet_encode t) @ concat (map telnet_encode ts)), (out @ telnet_text [t]) @ telnet_text ts)"
    using Cons.prems by (intro Cons.IH) simp
  finally show ?case by (simp add: telnet_text_append [of t ts])
qed

section \<open>Properties\<close>

text \<open>C38: The loop that strips Telnet negotiation returns for every payload, with the position at the end of the
  payload or past it and no more output than positions: every turn moves forward, also at a truncated command
  and in an unterminated subnegotiation.\<close>

theorem telnet_loop_ends:
  "\<exists>i out. iac_loop payload = Some (i, out) \<and> length payload \<le> i \<and> length out \<le> length payload \<and> strip_telnet_iac payload = out"
  using telnet_run_ends [of "[]" 0 payload] by (auto simp: iac_loop_run strip_telnet_iac_def)

text \<open>From a stream of text bytes, commands, option negotiations and subnegotiations exactly the text is left,
  in order.\<close>

theorem telnet_text_kept:
  assumes "list_all telnet_ok ts"
  shows "strip_telnet_iac (concat (map telnet_encode ts)) = telnet_text ts"
  using telnet_run_items [OF assms, of "[]" "[]"] by (simp add: strip_telnet_iac_def iac_loop_run)

lemma telnet_text_kept_witness:
  "strip_telnet_iac [0xFF, 0xFD, 0x18, 108, 0xFF, 0xFA, 1, 2, 0xFF, 0xF0, 111, 0xFF, 0xF9, 103] = [108, 111, 103]"
  using telnet_text_kept [of "[TOption 0xFD 0x18, TText 108, TSub [1, 2], TText 111, TCommand 0xF9, TText 103]"] by simp

section \<open>Watched ports\<close>

lemma dict_get_None_keys: "dict_get d k = None \<longleftrightarrow> k \<notin> set (map fst d)"
  by (simp add: dict_get_None_iff dict_keys_def)

lemmas lower_eval = lower_s_def lower_def lit_def lower_char_def char_of_eq_iff take_bit_eq_mod

lemma services_lower:
  "map lower_s (map fst SERVICE_PORTS) =
    [''ssh'', ''ftp'', ''telnet'', ''smtp'', ''pop3'', ''imap'', ''vnc'', ''irc'', ''mysql'', ''postgresql'', ''mssql'',
     ''mongodb'', ''redis'', ''smb'', ''rdp'', ''ipp'', ''jetdirect'', ''lpd'', ''mqtt'', ''amqp'', ''sip'', ''rtsp'',
     ''unifiprotect'', ''ldap'', ''cassandra'', ''elasticsearch'', ''dockerapi'', ''kubernetesapi'', ''socks'', ''bgp'', ''pptp'']"
  by (simp add: SERVICE_PORTS_def lower_eval)

lemma services_without_matcher:
  "filter (\<lambda>k. dict_get (MATCHERS pr) k = None) (map lower_s (map fst SERVICE_PORTS)) = [''dockerapi'', ''kubernetesapi'']"
  unfolding services_lower by (simp add: MATCHERS_def dict_get_None_keys)

lemma container_matchers:
  "dict_get (MATCHERS pr) ''dockerapi'' = None" "dict_get (MATCHERS pr) ''kubernetesapi'' = None"
  by (simp_all add: MATCHERS_def dict_get_None_keys)

lemma container_lower:
  "lower_s ''DockerAPI'' = ''dockerapi''" "lower_s ''dockerapi'' = ''dockerapi''"
  "lower_s ''KubernetesAPI'' = ''kubernetesapi''" "lower_s ''kubernetesapi'' = ''kubernetesapi''"
  by (simp_all add: lower_eval)

lemma container_ports:
  "service_for_port 2375 = Some ''DockerAPI''" "service_for_port 2376 = Some ''DockerAPI''"
  "service_for_port 6443 = Some ''KubernetesAPI''"
  by (simp_all add: service_for_port_def PORT_TO_SERVICE_def SERVICE_PORTS_def dict_get_def)

text \<open>Every service of the port table has a matcher under its name in lower case but two: the Docker and the
  Kubernetes interfaces, whose matchers stand under other keys.  No frame from their ports is recognised,
  whatever it carries, though the matchers would recognise it.\<close>

theorem container_banners_unmatched:
  assumes "tcp_layer f = Some t" "sport t \<in> {2375, 2376, 6443}"
  shows "parse_service_banner pr f = None \<and>
    filter (\<lambda>k. dict_get (MATCHERS pr) k = None) (map lower_s (map fst SERVICE_PORTS)) = [''dockerapi'', ''kubernetesapi'']"
  using assms services_without_matcher [of pr]
  by (auto simp: parse_service_banner_def container_ports container_lower banner_match_def container_matchers Let_def
      split: option.splits)

text \<open>A Docker host answers a request for its version.\<close>

definition docker_answer :: bytes where
  "docker_answer = map (\<lambda>c. of_char c) (''HTTP/1.1 200 OK'' @ [CHR 0x0A, CHR 0x22] @ ''ApiVersion'' @ [CHR 0x22] @ '':1.43'')"

definition docker_frame :: wire_frame where
  "docker_frame = bare_frame\<lparr>ip_layer := Some (''10.0.0.8'', ''10.0.0.9''), raw_layer := Some docker_answer,
     tcp_layer := Some \<lparr>sport = 2375, dport = 50000, l4_payload = Inr docker_answer\<rparr>\<rparr>"

lemma docker_answer_matches: "match_docker_api docker_answer \<noteq> None"
  by (simp add: match_docker_api_def docker_answer_def quoted_def ascii_replace_def lit_def Let_def)

lemma container_banners_unmatched_witness:
  "parse_service_banner (\<lambda>c. c < 127) docker_frame = None \<and> match_docker_api docker_answer \<noteq> None"
proof -
  have "tcp_layer docker_frame = Some \<lparr>sport = 2375, dport = 50000, l4_payload = Inr docker_answer\<rparr>"
    by (simp add: docker_frame_def)
  from container_banners_unmatched [OF this, of "\<lambda>c. c < 127"] docker_answer_matches show ?thesis by simp
qed

end
