(* ===== verification/DiscoveryProps.thy ===== *)
theory DiscoveryProps
  imports DnsParsers
begin

text \<open>
  The decoders of names and texts in discovery traffic against the encoders of the protocols: the strings of a
  TXT record and the first-level encoding of NetBIOS names.
\<close>

section \<open>TXT records\<close>

text \<open>RFC 6763: every \<open>key=value\<close> string is preceded by its length.\<close>

definition txt_string :: "bytes \<times> bytes \<Rightarrow> bytes" where
  "txt_string kv = fst kv @ 61 # snd kv"

definition txt_encode :: "bytes \<times> bytes \<Rightarrow> bytes" where
  "txt_encode kv = word_of_nat (length (txt_string kv)) # txt_string kv"

definition ascii_bytes :: "bytes \<Rightarrow> bool" where
  "ascii_bytes bs \<longleftrightarrow> list_all (\<lambda>b. b < 0x80) bs"

text \<open>A pair that can be read back: ASCII, a key in lower case without an equals sign, neither part with
  space at its ends, at most 255 bytes.\<close>

definition txt_ok :: "bytes \<times> bytes \<Rightarrow> bool" where
  "txt_ok kv \<longleftrightarrow> (let (k, v) = kv in ascii_bytes k \<and> ascii_bytes v \<and> 61 \<notin> set k \<and>
     lower (latin1 k) = latin1 k \<and> strip (latin1 k) = latin1 k \<and> strip (latin1 v) = latin1 v \<and> length (txt_string kv) < 256)"

definition txt_entry :: "bytes \<times> bytes \<Rightarrow> string \<times> pyval" where
  "txt_entry kv = (key_of (latin1 (fst kv)), PStr (latin1 (snd kv)))"

lemma utf8_replace_ascii: "ascii_bytes bs \<Longrightarrow> utf8_replace bs = latin1 bs"
  by (simp add: utf8_replace_def utf8_decode_ascii ascii_bytes_def latin1_def list_all_iff)

lemma partition_at_first: "c \<notin> set a \<Longrightarrow> partition_at c (a @ c # b) = (a, b)"
  by (induction a) (auto simp: partition_at_def)

lemma unat_eq_61: "unat b = 61 \<longleftrightarrow> b = (61 :: byte)"
  by unat_arith

lemma add_txt_string:
  assumes "txt_ok kv"
  shows "add_txt (utf8_replace (txt_string kv)) d = dict_set d (fst (txt_entry kv)) (snd (txt_entry kv))"
proof -
  obtain k v where kv: "kv = (k, v)" by (cases kv)
  have "utf8_replace (txt_string kv) = latin1 k @ 61 # latin1 v"
    using assms by (subst utf8_replace_ascii) (auto simp: kv txt_ok_def txt_string_def ascii_bytes_def latin1_def)
  moreover have "61 \<notin> set (latin1 k)" using assms by (auto simp: kv txt_ok_def latin1_def unat_eq_61)
  ultimately show ?thesis
    using assms by (simp add: add_txt_def partition_at_first kv txt_ok_def txt_entry_def)
qed

lemma txt_loop_encode:
  assumes "txt_ok kv"
  shows "txt_loop (txt_encode kv @ bs) d = txt_loop bs (dict_set d (fst (txt_entry kv)) (snd (txt_entry kv)))"
proof -
  have l: "length (txt_string kv) < 256" using assms by (auto simp: txt_ok_def)
  then have u: "unat (word_of_nat (length (txt_string kv)) :: byte) = length (txt_string kv)"
    by (simp add: unat_of_nat)
  moreover have "length (txt_string kv) \<noteq> 0" by (simp add: txt_string_def)
  ultimately have "(word_of_nat (length (txt_string kv)) :: byte) \<noteq> 0" by (metis unat_0)
  then show ?thesis by (simp add: txt_encode_def u add_txt_string [OF assms])
qed

lemma txt_loop_all:
  assumes "list_all txt_ok kvs" "distinct (dict_keys d @ map (fst \<circ> txt_entry) kvs)"
  shows "txt_loop (concat (map txt_encode kvs)) d = d @ map txt_entry kvs"
  using assms
proof (induction kvs arbitrary: d)
  case (Cons kv kvs)
  have "dict_set d (fst (txt_entry kv)) (snd (txt_entry kv)) = d @ [txt_entry kv]"
    using Cons.prems(2) by (subst dict_set_fresh) (auto simp: dict_get_None_iff)
  moreover have "txt_loop (concat (map txt_encode kvs)) (d @ [txt_entry kv]) = (d @ [txt_entry kv]) @ map txt_entry kvs"
    using Cons.prems by (intro Cons.IH) (auto simp: dict_keys_def)
  ultimately show ?case using Cons.prems(1) by (simp add: txt_loop_encode)
qed simp

text \<open>The strings of a TXT record come back as they were announced: every key with its value, in order, when
  the keys are distinct and in lower case.\<close>

theorem txt_record_roundtrip:
  assumes "list_all txt_ok kvs" "distinct (map (fst \<circ> txt_entry) kvs)"
  shows "add_txt_data (Some (RData (SBytes (concat (map txt_encode kvs))))) [] = map txt_entry kvs"
  using txt_loop_all [of kvs "[]"] assms by (simp add: add_txt_data_def dict_keys_def)

lemma txt_record_roundtrip_witness:
  "add_txt_data (Some (RData (SBytes ([5, 109, 100, 61, 84, 86, 3, 102, 110, 61])))) [] =
    [(''md'', pstr ''TV''), (''fn'', PStr [])]"
  using txt_record_roundtrip [of "[([109, 100], [84, 86]), ([102, 110], [])]"]
  by (simp add: txt_ok_def txt_string_def txt_encode_def txt_entry_def ascii_bytes_def latin1_def lower_def lower_char_def
      strip_def strip_by_def rstrip_by_def is_space_def key_of_def lit_def char_of_eq_iff take_bit_eq_mod)

section \<open>NetBIOS names\<close>

text \<open>RFC 1001: the name is padded with spaces to 15 bytes, a suffix is added, and every byte becomes two
  letters.\<close>

definition netbios_letters :: "byte \<Rightarrow> bytes" where
  "netbios_letters b = [0x41 + drop_bit 4 b, 0x41 + and b 0x0F]"

definition netbios_encode :: "bytes \<Rightarrow> byte \<Rightarrow> bytes" where
  "netbios_encode name suffix = concat (map netbios_letters (name @ replicate (15 - length name) 0x20 @ [suffix]))"

lemma or_nibbles:
  assumes "0 \<le> b" "b < (16 :: int)"
  shows "or (push_bit 4 a) b = 16 * a + b"
proof -
  have "take_bit 4 b = b" using assms by (simp add: take_bit_eq_mod)
  then have "\<not> bit b n" if "4 \<le> n" for n using that by (metis bit_take_bit_iff not_less)
  then have "push_bit 4 a + b = or (push_bit 4 a) b"
    by (intro disjunctive_add_eq_or) (auto simp: bit_eq_iff bit_simps)
  then show ?thesis by (simp add: push_bit_eq_mult)
qed

lemma unat_high: "unat (0x41 + drop_bit 4 (b :: byte)) = 65 + unat b div 16"
proof -
  have "unat (drop_bit 4 b) = unat b div 16" by (simp add: drop_bit_eq_div unat_div)
  moreover have "unat b div 16 < 16" using unat_byte_lt [of b] by (simp add: div_less_iff_less_mult del: unat_byte_lt)
  ultimately show ?thesis by (subst unat_add_lem [THEN iffD1]) simp_all
qed

lemma unat_low: "unat (0x41 + and (b :: byte) 0x0F) = 65 + unat b mod 16"
proof -
  have "unat (and b (mask 4)) = unat b mod 16" by (simp add: take_bit_eq_mod unat_mod flip: take_bit_eq_mask)
  then have "unat (and b 0x0F) = unat b mod 16" by (simp add: mask_eq_exp_minus_1)
  moreover have "unat b mod 16 < 16" by simp
  ultimately show ?thesis by (subst unat_add_lem [THEN iffD1]) simp_all
qed

lemma netbios_char_letters:
  assumes "enc ! j = 0x41 + drop_bit 4 b" "enc ! (j + 1) = 0x41 + and b 0x0F"
  shows "netbios_char enc j = int (unat b)"
proof -
  have "netbios_char enc j = or (push_bit 4 (int (unat b div 16))) (int (unat b mod 16))"
    using assms by (simp only: netbios_char_def bnat_def unat_high unat_low) (simp add: Let_def)
  also have "\<dots> = 16 * int (unat b div 16) + int (unat b mod 16)" by (rule or_nibbles) simp_all
  also have "\<dots> = int (16 * (unat b div 16) + unat b mod 16)" by (simp only: of_nat_add of_nat_mult of_nat_numeral)
  also have "\<dots> = int (unat b)" by (simp only: mult_div_mod_eq)
  finally show ?thesis .
qed

lemma netbios_letters_nth:
  "i < length bs \<Longrightarrow> concat (map netbios_letters bs) ! (2 * i) = 0x41 + drop_bit 4 (bs ! i) \<and>
     concat (map netbios_letters bs) ! (2 * i + 1) = 0x41 + and (bs ! i) 0x0F"
proof (induction bs arbitrary: i)
  case (Cons b bs)
  then show ?case by (cases i) (auto simp: netbios_letters_def)
qed simp

lemma length_netbios_letters [simp]: "length (concat (map netbios_letters bs)) = 2 * length bs"
  by (induction bs) (simp_all add: netbios_letters_def)

lemma netbios_chars:
  "map (\<lambda>j. netbios_char (concat (map netbios_letters bs)) (2 * j)) [0..<length bs] = map (\<lambda>b. int (unat b)) bs"
  using netbios_char_letters netbios_letters_nth by (intro nth_equalityI) (auto simp del: of_nat_unat)

lemma rstrip_by_padding: "p c \<Longrightarrow> rstrip_by p (t @ replicate n c) = rstrip_by p t"
  by (simp add: rstrip_by_def) (induction n, auto)

lemma netbios_name_chars:
  assumes "45 \<le> length payload" "length bs = 16" "\<forall>b \<in> set (take 15 bs). unat b < 128"
    "map (\<lambda>j. netbios_char (slice 13 45 payload) (2 * j)) [0..<16] = map (\<lambda>b. int (unat b)) bs"
  shows "netbios_name payload = Some (rstrip_by is_space (latin1 (take 15 bs)), int (unat (bs ! 15)))"
proof -
  let ?cs = "map (\<lambda>b. int (unat b)) (take 15 bs)"
  have "filter (\<lambda>c. c < 128) ?cs = ?cs" using assms(3) by (intro filter_True) (auto simp del: of_nat_unat)
  moreover have "list_all (\<lambda>c. 0 \<le> c \<and> c \<le> 255) ?cs" using assms(3) by (auto simp: list_all_iff simp del: of_nat_unat)
  moreover have "map nat ?cs = latin1 (take 15 bs)" by (simp add: latin1_def)
  ultimately show ?thesis
    unfolding netbios_name_def Let_def assms(4) unfolding take_map using assms(1,2) by (simp del: map_map of_nat_unat)
qed

text \<open>A NetBIOS name of up to 15 ASCII bytes that does not end in a space is decoded from a name service packet
  as it was registered, padding removed, with its suffix byte, wherever the packet goes on.\<close>

theorem netbios_name_roundtrip:
  assumes "length name \<le> 15" "ascii_bytes name" "rstrip_by is_space (latin1 name) = latin1 name" "length header = 13"
  shows "netbios_name (header @ netbios_encode name suffix @ rest) = Some (latin1 name, int (unat suffix))"
proof -
  let ?bs = "name @ replicate (15 - length name) 0x20 @ [suffix]"
  have len: "length ?bs = 16" using assms(1) by simp
  have enc: "slice 13 45 (header @ netbios_encode name suffix @ rest) = concat (map netbios_letters ?bs)"
    unfolding netbios_encode_def using assms(4) len by (intro slice_middle) (simp_all only: length_netbios_letters)
  have first: "take 15 ?bs = name @ replicate (15 - length name) 0x20" using assms(1) by simp
  have "netbios_name (header @ netbios_encode name suffix @ rest) =
      Some (rstrip_by is_space (latin1 (take 15 ?bs)), int (unat (?bs ! 15)))"
  proof (rule netbios_name_chars)
    show "45 \<le> length (header @ netbios_encode name suffix @ rest)"
      using assms(4) len by (simp only: netbios_encode_def length_append length_netbios_letters)
    show "\<forall>b \<in> set (take 15 ?bs). unat b < 128"
      using assms(2) unfolding first by (auto simp: ascii_bytes_def list_all_iff word_less_nat_alt)
  qed (use len netbios_chars [of ?bs] in \<open>simp_all only: enc\<close>)
  moreover have "rstrip_by is_space (latin1 (take 15 ?bs)) = latin1 name"
    unfolding first using assms(3) rstrip_by_padding [of is_space 32 "latin1 name"] by (simp add: latin1_def is_space_def)
  ultimately show ?thesis using assms(1) by (simp add: nth_append)
qed

lemma netbios_name_roundtrip_witness:
  "netbios_name (replicate 13 0 @ netbios_encode [78, 65, 83, 49] 0x20 @ [0, 0, 0x20, 0, 1]) = Some (lit ''NAS1'', 32)"
  using netbios_name_roundtrip [of "[78, 65, 83, 49]" "replicate 13 0" "0x20" "[0, 0, 0x20, 0, 1]"]
  by (simp add: ascii_bytes_def latin1_def rstrip_by_def is_space_def lit_def)

end
