(* ===== verification/Signatures.thy ===== *)
theory Signatures
  imports Pipeline Observers Banners
begin

text \<open>
  The matching methods of \<open>SignatureMatcher\<close>, \<open>fingerprint/lookup.py\<close>: addresses, TCP
  signatures, banners, mDNS, DHCP.  The data files of \<open>~/.leetha/cache\<close> are an argument: a record with
  one field per file, None for a file that is missing, unreadable or empty, its entries as dictionaries and
  its regular expressions compiled, None for one that \<open>re\<close> rejects.  The indexes and memos the class
  keeps of these files are functions of them and are not state here.
\<close>

section \<open>Data\<close>

record recog_param =
  rq_name :: ustr
  rq_value :: "ustr option"
  rq_pos :: nat

record recog_print =
  rp_pattern :: ustr
  rp_re :: "re option"
  rp_params :: "recog_param list"
  rp_description :: pyval

text \<open>An entry of a Satori file: its fields and its tests.\<close>

type_synonym satori_entry = "dict \<times> dict list"

record sig_db =
  db_patterns :: pattern_data
  db_word :: "nat \<Rightarrow> bool"
  db_oui :: "(ustr \<times> dict) list"
  db_p0f :: "dict list option"
  db_banners :: "(re option \<times> dict) list option"
  db_recog :: "(ustr \<times> recog_print list) list option"
  db_combos :: "(ustr \<times> dict list) list option"
  db_devices :: "(ustr \<times> dict) list option"
  db_dhcp :: "(ustr \<times> dict) list option"
  db_dhcp_vendor :: "(ustr \<times> dict) list option"
  db_dhcpv6 :: "(ustr \<times> dict) list option"
  db_dhcpv6_enterprise :: "(ustr \<times> dict) list option"
  db_iana :: "(ustr \<times> pyval) list option"
  db_satori :: "string \<Rightarrow> satori_entry list option"
  db_ja3 :: "(ustr \<times> dict) list option"
  db_ja4 :: "(ustr \<times> dict) list option"

section \<open>Matches\<close>

definition fmatch :: "string \<Rightarrow> string \<Rightarrow> rat \<Rightarrow> dict \<Rightarrow> fp_match" where
  "fmatch source kind c raw = \<lparr>fm_source = source, fm_match_type = kind, fm_confidence = c, fm_device_type = None,
     fm_category = None, fm_manufacturer = None, fm_model = None, fm_os_family = None, fm_os_version = None,
     fm_vendor = None, fm_raw = raw\<rparr>"

text \<open>\<open>conf / 100.0 if conf > 1 else conf\<close>.\<close>

definition conf_of :: "pyval \<Rightarrow> rat" where
  "conf_of v = (let c = num_of v in if c > 1 then c / 100 else c)"

text \<open>The three fields most answers have.\<close>

definition with_answer :: "dict \<Rightarrow> fp_match \<Rightarrow> fp_match" where
  "with_answer d m = m\<lparr>fm_device_type := textv (dget d ''device_type''), fm_manufacturer := textv (dget d ''manufacturer''),
     fm_os_family := textv (dget d ''os_family'')\<rparr>"

text \<open>\<open>x or None\<close>.\<close>

definition or_none :: "ustr \<Rightarrow> ustr option" where
  "or_none t = (if t = [] then None else Some t)"

definition some_text :: "pyval \<Rightarrow> ustr" where
  "some_text v = (case v of PStr t \<Rightarrow> t | _ \<Rightarrow> [])"

section \<open>Addresses\<close>

definition norm_mac :: "ustr \<Rightarrow> ustr" where
  "norm_mac m = upper (filter (\<lambda>c. c \<noteq> 58 \<and> c \<noteq> 45) m)"

definition oui_match :: "ustr \<Rightarrow> dict \<Rightarrow> fp_match" where
  "oui_match pfx info =
     (fmatch ''oui'' ''exact'' (95 / 100)
        [(''source_db'', pstr ''IEEE OUI Master Database''),
         (''source_file'', pstr ''~/.leetha/cache/ieee_oui/master_oui.csv''), (''matched_key'', PStr (lit ''OUI prefix '' @ pfx))])
       \<lparr>fm_manufacturer := textv (dget info ''manufacturer''), fm_device_type := textv (dget info ''device_type''),
        fm_model := textv (dget info ''model''), fm_category := textv (dget info ''category'')\<rparr>"

definition OUI_LENGTHS :: "nat list" where
  "OUI_LENGTHS = [9, 8, 7, 6, 4]"

definition lookup_mac :: "sig_db \<Rightarrow> mac \<Rightarrow> fp_match list" where
  "lookup_mac db m =
     (if m = [] \<or> is_randomized_mac m then []
      else case first_some (\<lambda>n. let pfx = take n (norm_mac (lit m)) in map_option (Pair pfx) (dict_get (db_oui db) pfx)) OUI_LENGTHS of
        None \<Rightarrow> []
      | Some (pfx, info) \<Rightarrow> [oui_match pfx info])"

section \<open>TCP signatures\<close>

definition match_tcp_signature :: "sig_db \<Rightarrow> ustr \<Rightarrow> fp_match option" where
  "match_tcp_signature db sig =
     (if sig = [] then None
      else case db_p0f db of
        None \<Rightarrow> None
      | Some es \<Rightarrow> map_option (\<lambda>e.
          (fmatch ''tcp'' ''exact'' (conf_of (get_or e ''confidence'' (PInt 80)))
             ([(''source_db'', pstr ''p0f TCP/IP Fingerprints''), (''source_file'', pstr ''~/.leetha/cache/p0f/p0f.fp''),
               (''matched_key'', PStr (lit ''TCP signature '' @ take 40 sig))] @
              map (\<lambda>k. (k, dget e k)) [''signature'', ''label'', ''ttl'', ''window_size'', ''mss'']))
            \<lparr>fm_os_family := textv (dget e ''os_family''), fm_os_version := textv (dget e ''os_version''),
             fm_device_type := textv (dget e ''device_type'')\<rparr>)
          (find (\<lambda>e. dget e ''signature'' = PStr sig) es))"

section \<open>Recog\<close>

definition RECOG_MATCH_TYPES :: "(ustr \<times> string) list" where
  "RECOG_MATCH_TYPES = map (\<lambda>(k, t). (lit k, t))
    [(''ssh'', ''ssh.banner''), (''ftp'', ''ftp.banner''), (''smtp'', ''smtp.banner''), (''pop3'', ''pop3.banner''),
     (''pop'', ''pop3.banner''), (''imap'', ''imap4.banner''), (''imap4'', ''imap4.banner''),
     (''snmp'', ''snmp.sys_description''), (''smb'', ''smb.native_os''), (''ntp'', ''ntp.readvar''),
     (''sip'', ''sip_header.server''), (''mysql'', ''mysql.banners''), (''http'', ''http_header.server''),
     (''http_server'', ''http_header.server''), (''http_cookie'', ''http_header.cookie''),
     (''http_xpoweredby'', ''http_header.x-powered-by''), (''telnet'', ''telnet_banners''),
     (''rtsp'', ''rtsp_header.server''), (''ldap'', ''ldap.search_result''),
     (''mdns_device_info'', ''mdns.device-info.txt''), (''dhcp_vendor_class'', ''dhcp_vendor_class''),
     (''sip_user_agent'', ''sip_header.user_agent'')]"

definition not_newline :: re where
  "not_newline = re_star (Cls (\<lambda>c. c \<noteq> 10))"

definition REPLY_RE :: re where
  "REPLY_RE = re_seq [Bol, digits 3, re_plus (Cls (\<lambda>c. c = 32 \<or> c = 45)), Grp 1 not_newline, Eol]"

definition POP_RE :: re where
  "POP_RE = re_seq [Bol, re_ci (lit ''+OK''), blanks1, Grp 1 not_newline, Eol]"

definition IMAP_RE :: re where
  "IMAP_RE = re_seq [Bol, Cls (chr_is 42), blanks1, re_ci (lit ''OK''), blanks1,
     re_opt (re_seq [Cls (chr_is 91), re_star (Cls (\<lambda>c. c \<noteq> 93)), Cls (chr_is 93), blanks]), Grp 1 not_newline, Eol]"

definition unframed :: "re \<Rightarrow> ustr \<Rightarrow> ustr" where
  "unframed r t = (case re_match r t of None \<Rightarrow> t | Some m \<Rightarrow> (case group_of t m 1 of None \<Rightarrow> t | Some g \<Rightarrow> g))"

text \<open>\<open>t.split("-", 2)[2]\<close> when there are two.\<close>

definition after_two :: "nat \<Rightarrow> ustr \<Rightarrow> ustr option" where
  "after_two c t = (let (a, b) = partition_at c t; (a', b') = partition_at c b
     in if c \<in> set t \<and> c \<in> set b then Some b' else None)"

definition strip_banner_framing :: "ustr \<Rightarrow> ustr \<Rightarrow> ustr" where
  "strip_banner_framing kind txt' =
     (let kind = lower kind
      in if kind = lit ''telnet'' then strip txt'
         else
           let cleaned = strip (hd (split_on 10 (hd (split_sub CRLF (strip txt'))))) in
           let cleaned =
             (if kind = lit ''ssh'' then
                (if starts_with (lit ''SSH-'') (upper cleaned)
                 then (case after_two 45 cleaned of None \<Rightarrow> cleaned | Some r \<Rightarrow> r) else cleaned)
              else if kind \<in> {lit ''ftp'', lit ''smtp''} then unframed REPLY_RE cleaned
              else if kind \<in> {lit ''pop'', lit ''pop3''} then unframed POP_RE cleaned
              else if kind \<in> {lit ''imap'', lit ''imap4''} then unframed IMAP_RE cleaned
              else cleaned)
           in strip cleaned)"

text \<open>The value of every named parameter: given, or a group of the match; the first of a name counts.\<close>

definition param_value :: "ustr \<Rightarrow> nat \<times> mstate \<Rightarrow> recog_param \<Rightarrow> ustr option" where
  "param_value txt' m p = (case rq_value p of Some v \<Rightarrow> Some v
     | None \<Rightarrow> if rq_pos p = 0 then None else match_group txt' m (rq_pos p))"

definition resolve_params :: "ustr \<Rightarrow> nat \<times> mstate \<Rightarrow> recog_param list \<Rightarrow> (ustr \<times> ustr) list" where
  "resolve_params txt' m ps = foldl (\<lambda>d p. case param_value txt' m p of
       None \<Rightarrow> d
     | Some v \<Rightarrow> if rq_name p = [] \<or> v = [] \<or> dict_get d (rq_name p) \<noteq> None then d else dict_set d (rq_name p) v) [] ps"

text \<open>\<open>{name}\<close> stands for the value of that parameter.\<close>

definition template_char :: "nat \<Rightarrow> bool" where
  "template_char c \<longleftrightarrow> is_letter_ci c \<or> is_digit c \<or> c = 95 \<or> c = 46"

function interpolate :: "(ustr \<times> ustr) list \<Rightarrow> ustr \<Rightarrow> ustr" where
  "interpolate d [] = []"
| "interpolate d (c # cs) =
     (let n = takeWhile template_char cs; r = dropWhile template_char cs
      in if c = 123 \<and> n \<noteq> [] \<and> r \<noteq> [] \<and> hd r = 125 then get_or d n [] @ interpolate d (tl r)
         else c # interpolate d cs)"
  by pat_completeness auto
termination
proof (relation "measure (\<lambda>(d, t). length t)")
  fix d :: "(ustr \<times> ustr) list" and c :: nat and cs n r :: ustr
  assume "n = takeWhile template_char cs" "r = dropWhile template_char cs" "c = 123 \<and> n \<noteq> [] \<and> r \<noteq> [] \<and> hd r = 125"
  then have "length (tl r) < length r" "length r \<le> length cs" by (auto simp: length_dropWhile_le)
  then show "((d, tl r), d, c # cs) \<in> measure (\<lambda>(d, t). length t)" by simp
qed auto

definition param_text :: "(ustr \<times> ustr) list \<Rightarrow> ustr \<Rightarrow> ustr" where
  "param_text d name = (let v = get_or d name [] in if 123 \<in> set v then strip (interpolate d v) else v)"

text \<open>The first parameter of some names that has a value.\<close>

definition recog_field :: "(ustr \<times> ustr) list \<Rightarrow> recog_param list \<Rightarrow> string list \<Rightarrow> ustr option" where
  "recog_field d ps names = first_some (\<lambda>p. if rq_name p \<in> set (map lit names) then or_none (param_text d (rq_name p)) else None) ps"

definition recog_hit :: "ustr \<Rightarrow> string \<Rightarrow> recog_print \<Rightarrow> fp_match option" where
  "recog_hit txt' kind fp =
     (case (if rp_pattern fp = [] then None else Option.bind (rp_re fp) (\<lambda>r. re_search r txt')) of
        None \<Rightarrow> None
      | Some m \<Rightarrow>
          let d = resolve_params txt' m (rp_params fp); fld = recog_field d (rp_params fp);
              vnd = fld [''service.vendor'', ''hw.vendor'', ''os.vendor''];
              product = fld [''hw.product'', ''hw.model'', ''service.product''];
              os = fld [''os.product'', ''os.family'']; dev = fld [''hw.device''];
              ver = fld [''service.version'', ''os.version'', ''hw.version'']
          in if vnd = None \<and> product = None \<and> os = None \<and> dev = None then None
             else Some ((fmatch ''recog'' ''pattern'' (80 / 100)
               [(''recog_match'', pstr kind), (''description'', rp_description fp), (''version'', opt_str ver),
                (''matched_pattern'', PStr (rp_pattern fp))])
               \<lparr>fm_manufacturer := vnd, fm_os_family := os, fm_device_type := dev, fm_model := product\<rparr>))"

definition match_recog :: "sig_db \<Rightarrow> ustr \<Rightarrow> ustr \<Rightarrow> fp_match option" where
  "match_recog db kind txt' =
     (if txt' = [] \<or> kind = [] then None
      else case (dict_get RECOG_MATCH_TYPES (lower kind), db_recog db) of
        (Some ty, Some es) \<Rightarrow>
          let t = strip_banner_framing kind txt'; candidates = (if t = txt' then [t] else [t, txt'])
          in first_some (\<lambda>c. first_some (recog_hit c ty) (get_or es (lit ty) [])) candidates
      | _ \<Rightarrow> None)"

section \<open>Banners\<close>

definition cached_banner_hit :: "ustr \<Rightarrow> re option \<times> dict \<Rightarrow> bool" where
  "cached_banner_hit banner e =
     (let (r, d) = e; kind = get_or d ''pattern_type'' (pstr ''regex''); s = some_text (get_or d ''pattern'' (PStr []))
      in if kind = pstr ''regex'' then (case r of None \<Rightarrow> False | Some r \<Rightarrow> re_search r banner \<noteq> None)
         else if kind = pstr ''exact'' then banner = s
         else if kind = pstr ''contains'' then contains_sub (lower s) (lower banner)
         else False)"

definition cached_banner :: "sig_db \<Rightarrow> ustr \<Rightarrow> ustr \<Rightarrow> fp_match option" where
  "cached_banner db proto banner =
     (case db_banners db of
        None \<Rightarrow> None
      | Some es \<Rightarrow> map_option (\<lambda>(r, d).
          (fmatch ''banner_cache'' ''pattern'' (conf_of (get_or d ''confidence'' (PInt 65))) [(''product'', dget d ''product'')])
            \<lparr>fm_os_family := textv (dget d ''os_family''), fm_manufacturer := textv (dget d ''vendor''),
             fm_device_type := textv (dget d ''device_type'')\<rparr>)
          (find (\<lambda>e. dget (snd e) ''protocol'' = PStr (lower proto) \<and> cached_banner_hit banner e) es))"

definition lookup_banner :: "sig_db \<Rightarrow> ustr \<Rightarrow> ustr \<Rightarrow> fp_match option" where
  "lookup_banner db proto banner =
     (if banner = [] then None
      else case match_banner (db_patterns db) proto banner of
        Some d \<Rightarrow> Some
          ((fmatch ''banner'' ''pattern'' (conf_of (dget d ''confidence''))
             (map (\<lambda>k. (k, dget d k)) [''product'', ''vendor'', ''version'', ''matched_pattern'']))
            \<lparr>fm_os_family := textv (dget d ''os_family''), fm_manufacturer := textv (dget d ''vendor''),
             fm_device_type := textv (dget d ''device_type'')\<rparr>)
      | None \<Rightarrow>
          (case cached_banner db proto banner of Some m \<Rightarrow> Some m | None \<Rightarrow> match_recog db proto banner))"

end
