(* ===== verification/DhcpSignatures.thy ===== *)
theory DhcpSignatures
  imports Signatures
begin

text \<open>
  The rest of the DHCP, mDNS and Satori methods of \<open>fingerprint/lookup.py\<close>, with
  \<open>_parse_vendor_class_fields\<close> of \<open>sync/parsers.py\<close>.
\<close>

section \<open>mDNS\<close>

definition APPLE_MODEL_MAP :: "(ustr \<times> string) list" where
  "APPLE_MODEL_MAP = map (\<lambda>(k, t). (lit k, t))
    [(''AudioAccessory1,1'', ''HomePod''), (''AudioAccessory1,2'', ''HomePod''), (''AudioAccessory5,1'', ''HomePod mini''),
     (''AudioAccessory6,1'', ''HomePod 2nd gen''), (''AppleTV2,1'', ''Apple TV 2nd gen''), (''AppleTV3,1'', ''Apple TV 3rd gen''),
     (''AppleTV3,2'', ''Apple TV 3rd gen rev A''), (''AppleTV5,3'', ''Apple TV 4th gen''), (''AppleTV6,2'', ''Apple TV 4K''),
     (''AppleTV11,1'', ''Apple TV 4K 2nd gen''), (''AppleTV14,1'', ''Apple TV 4K 3rd gen''), (''iPhone14,5'', ''iPhone 13''),
     (''iPhone15,2'', ''iPhone 14 Pro''), (''iPhone16,1'', ''iPhone 15 Pro''), (''iPad13,1'', ''iPad Air 4th gen''),
     (''iPad14,1'', ''iPad mini 6th gen''), (''MacBookPro18,1'', ''MacBook Pro 16-inch M1 Pro''),
     (''MacBookAir10,1'', ''MacBook Air M1''), (''iMac21,1'', ''iMac 24-inch M1'')]"

definition apple_kind :: "ustr \<Rightarrow> string" where
  "apple_kind code =
     (case find (\<lambda>(p, k). starts_with (lit p) code)
        [(''AudioAccessory'', ''smart_speaker''), (''AppleTV'', ''media_player''), (''iPhone'', ''phone''), (''iPad'', ''tablet''),
         (''MacBook'', ''laptop''), (''iMac'', ''desktop'')] of
        None \<Rightarrow> ''media_player'' | Some (p, k) \<Rightarrow> k)"

text \<open>A service that is no text raises AttributeError.\<close>

definition lookup_mdns :: "sig_db \<Rightarrow> pyval \<Rightarrow> ustr option \<Rightarrow> dict \<Rightarrow> py_error + fp_match list" where
  "lookup_mdns db service_type name fs =
     (case service_type of
        PStr st \<Rightarrow>
          let by_pattern = (case match_mdns_service (db_patterns db) st name of
                None \<Rightarrow> []
              | Some d \<Rightarrow> [with_answer d (fmatch ''mdns'' ''pattern'' (conf_of (dget d ''confidence''))
                  [(''service_type'', PStr st), (''name'', opt_str name), (''match_source'', dget d ''match_source'')])]);
              meta = (case find (\<lambda>(k, d). lit k = strip (lower st)) MDNS_SERVICE_DEVICE_MAP of None \<Rightarrow> [] | Some (k, d) \<Rightarrow> d);
              by_map = (if by_pattern = [] \<and> (py_truthy (dget meta ''device_type'') \<or> py_truthy (dget meta ''manufacturer''))
                then [with_answer meta (fmatch ''mdns_service_map'' ''pattern'' (65 / 100)
                  [(''service_type'', PStr st), (''category'', dget meta ''category'')])] else []);
              by_model = (case dict_get fs ''model'' of
                None \<Rightarrow> []
              | Some v \<Rightarrow> [(fmatch ''mdns_txt'' ''exact'' (92 / 100)
                  [(''txt_model'', v), (''friendly_name'', dget fs ''friendly_name''), (''txt_records'', dget fs ''txt_records'')])
                  \<lparr>fm_model := textv v, fm_device_type := textv (get_or meta ''device_type'' (pstr ''smart_speaker'')),
                   fm_manufacturer := textv (dget fs ''txt_manufacturer'')\<rparr>]);
              by_apple = (case dict_get fs ''apple_model'' of
                Some (PStr code) \<Rightarrow> [(fmatch ''mdns_txt'' ''exact'' (95 / 100)
                  [(''apple_model_code'', PStr code), (''friendly_name'', dget fs ''friendly_name'')])
                  \<lparr>fm_model := Some (case dict_get APPLE_MODEL_MAP code of None \<Rightarrow> code | Some n \<Rightarrow> lit n),
                   fm_device_type := Some (lit (apple_kind code)), fm_manufacturer := Some (lit ''Apple''),
                   fm_os_family := (if starts_with (lit ''iPhone'') code then Some (lit ''iOS'') else None)\<rparr>]
              | _ \<Rightarrow> [])
          in Inr (by_pattern @ by_map @ by_model @ by_apple)
      | _ \<Rightarrow> Inl AttributeError)"

section \<open>Translation of device types and systems\<close>

definition HUGINN_TYPE_TRANSLATION :: "(ustr \<times> string) list" where
  "HUGINN_TYPE_TRANSLATION = map (\<lambda>(k, t). (lit k, t))
    [(''router'', ''router''), (''wireless router'', ''router''), (''switch'', ''switch''),
     (''wireless access point'', ''access_point''), (''wireless controller'', ''wireless_controller''), (''firewall'', ''firewall''),
     (''load balancer'', ''load_balancer''), (''workstation'', ''computer''), (''phone'', ''phone''), (''smartphone'', ''phone''),
     (''tablet'', ''tablet''), (''printer'', ''printer''), (''scanner'', ''scanner''), (''voip phone'', ''voip_phone''),
     (''voip gateway'', ''voip_gateway''), (''video phone'', ''voip_phone''), (''video conferencing'', ''voip_phone''),
     (''smart tv'', ''smart_tv''), (''smarttv'', ''smart_tv''), (''iptv'', ''smart_tv''), (''game console'', ''game_console''),
     (''nas'', ''nas''), (''thin client'', ''thin_client''), (''ebook reader'', ''tablet''),
     (''digital media player'', ''media_player''), (''multimedia device'', ''media_player''),
     (''media link controller'', ''media_player''), (''digital signage'', ''digital_signage''), (''dvr'', ''ip_camera''),
     (''ip network camera'', ''ip_camera''), (''sensor'', ''sensor''), (''ups'', ''ups''), (''dsp'', ''iot''), (''pda'', ''phone''),
     (''network diagnostics'', ''network_device''), (''key lock box'', ''iot''), (''miscellaneous'', ''unknown''),
     (''programmable logic controller'', ''plc''), (''plc'', ''plc''), (''human machine interface'', ''hmi''), (''hmi'', ''hmi''),
     (''remote terminal unit'', ''rtu''), (''rtu'', ''rtu''), (''distributed control system'', ''dcs''), (''dcs'', ''dcs''),
     (''intelligent electronic device'', ''ied''), (''ied'', ''ied''), (''variable frequency drive'', ''motor_drive''),
     (''vfd'', ''motor_drive''), (''servo drive'', ''motor_drive''), (''motor drive'', ''motor_drive''),
     (''safety controller'', ''plc''), (''industrial gateway'', ''industrial_router''), (''protocol converter'', ''industrial_router''),
     (''industrial switch'', ''industrial_switch''), (''industrial router'', ''industrial_router''), (''power meter'', ''power_meter''),
     (''energy meter'', ''power_meter''), (''building controller'', ''building_automation''),
     (''building automation controller'', ''building_automation''), (''scada server'', ''scada_server''),
     (''data historian'', ''scada_server''), (''relay'', ''ied''), (''protective relay'', ''ied'')]"

definition translate_huginn_type :: "ustr \<Rightarrow> ustr" where
  "translate_huginn_type raw = (let t = lower (strip raw) in case dict_get HUGINN_TYPE_TRANSLATION t of None \<Rightarrow> t | Some k \<Rightarrow> lit k)"

text \<open>Expressions: a word between boundaries, parts separated by space.\<close>

definition worded :: "(nat \<Rightarrow> bool) \<Rightarrow> re \<Rightarrow> re" where
  "worded w r = re_seq [Wb w, r, Wb w]"

definition SATORI_OS_EXTRACTORS :: "(nat \<Rightarrow> bool) \<Rightarrow> (re \<times> string) list" where
  "SATORI_OS_EXTRACTORS w =
    (let wd = (\<lambda>t. worded w (re_ci (lit t))); gap = (\<lambda>a sp b. worded w (re_seq [re_ci (lit a), sp, re_ci (lit b)]))
     in [(wd ''VxWorks'', ''VxWorks''), (wd ''QNX'', ''QNX''), (gap ''Nucleus'' blanks ''RTOS'', ''Nucleus RTOS''),
         (Alt (wd ''ThreadX'') (gap ''Azure'' blanks ''RTOS''), ''ThreadX''), (wd ''INTEGRITY'', ''INTEGRITY''),
         (wd ''FreeRTOS'', ''FreeRTOS''), (wd ''Zephyr'', ''Zephyr''), (wd ''RTEMS'', ''RTEMS''), (wd ''eCos'', ''eCos''),
         (wd ''PikeOS'', ''PikeOS''), (wd ''LynxOS'', ''LynxOS''), (gap ''Cisco'' blanks1 ''IOS'', ''Cisco IOS''),
         (gap ''ENEA'' blanks1 ''OSE'', ''ENEA OSE''),
         (re_seq [Wb w, re_ci (lit ''Windows''), blanks1, re_opt (Seq (re_ci (lit ''Server'')) blanks1),
            Grp 1 (Seq (re_plus (Cls is_digit)) (re_opt (Seq (Cls (chr_is 46)) (re_plus (Cls is_digit)))))], ''Windows''),
         (wd ''Windows'', ''Windows''),
         (re_alts [wd ''macOS'',
            worded w (re_seq [re_ci (lit ''Mac''), blanks, re_ci (lit ''OS''), blanks, re_opt (re_ci (lit ''X''))]),
            gap ''OS'' blanks ''X''], ''macOS''),
         (re_alts [wd ''iOS'', wd ''iPhone'', wd ''iPad''], ''iOS''), (wd ''Android'', ''Android''), (wd ''Linux'', ''Linux''),
         (Alt (wd ''ChromeOS'') (gap ''Chrome'' blanks ''OS''), ''ChromeOS''), (wd ''FreeBSD'', ''FreeBSD''),
         (Alt (wd ''ESXi'') (wd ''VMkernel''), ''ESXi''), (gap ''Fire'' blanks ''OS'', ''Android''), (wd ''tvOS'', ''tvOS''),
         (wd ''watchOS'', ''watchOS''), (wd ''Tizen'', ''Tizen''), (wd ''webOS'', ''webOS''), (gap ''Roku'' blanks ''OS'', ''RokuOS''),
         (wd ''PlayStation'', ''PlayStation''), (wd ''Xbox'', ''Xbox''), (wd ''Nintendo'', ''Nintendo'')])"

definition os_family_from_satori :: "(nat \<Rightarrow> bool) \<Rightarrow> ustr \<Rightarrow> string option" where
  "os_family_from_satori w label = map_option snd (find (\<lambda>(r, os). re_search r label \<noteq> None) (SATORI_OS_EXTRACTORS w))"

section \<open>DHCP vendor classes\<close>

definition VC_STRUCTURED_RE :: "(nat \<Rightarrow> bool) \<Rightarrow> re" where
  "VC_STRUCTURED_RE w = re_seq [Wb w, Grp 1 (re_alts [re_ci (lit ''mfg''), re_ci (lit ''typ''), re_ci (lit ''mod'')]), blanks,
     Cls (chr_is 61), blanks, Grp 2 (re_plus (Cls (\<lambda>c. c \<noteq> 59)))]"

definition vc_field :: "ustr \<Rightarrow> mstate \<Rightarrow> (ustr \<times> ustr) list \<Rightarrow> (ustr \<times> ustr) list" where
  "vc_field t m d = (case (group_of t m 1, group_of t m 2) of
     (Some k, Some v) \<Rightarrow> if strip v = [] then d else dict_set d (lower k) (strip v)
   | _ \<Rightarrow> d)"

definition parse_vendor_class_fields :: "(nat \<Rightarrow> bool) \<Rightarrow> ustr \<Rightarrow> dict" where
  "parse_vendor_class_fields w t =
     (if t = [] \<or> 61 \<notin> set t then []
      else
        let found = fold (vc_field t) (find_all (VC_STRUCTURED_RE w) t) [];
            fld = (\<lambda>k k'. case dict_get found (lit k) of None \<Rightarrow> [] | Some v \<Rightarrow> [(k', PStr v)])
        in fld ''mfg'' ''vendor'' @ fld ''typ'' ''device_type'' @ fld ''mod'' ''model'')"

text \<open>The longest value that occurs in the vendor class, the first of that length.\<close>

definition vendor_winner :: "sig_db \<Rightarrow> ustr \<Rightarrow> dict option" where
  "vendor_winner db opt60 =
     (case db_dhcp_vendor db of
        None \<Rightarrow> None
      | Some es \<Rightarrow> fst (foldl (\<lambda>(best, n) (k, e).
          let v = lower (some_text (dget e ''value''))
          in if length v > n \<and> contains_sub v (lower opt60) then (Some e, length v) else (best, n)) (None, 0) es))"

definition resolve_huginn_dhcp_vendor :: "sig_db \<Rightarrow> ustr \<Rightarrow> fp_match option" where
  "resolve_huginn_dhcp_vendor db opt60 =
     (case vendor_winner db opt60 of
        None \<Rightarrow> None
      | Some e \<Rightarrow>
          let mfr = some_text (dget e ''vendor_hint''); dev = some_text (dget e ''device_type''); mdl = some_text (dget e ''model'')
          in if mfr = [] \<and> dev = [] \<and> mdl = [] then None
             else Some ((fmatch ''huginn_dhcp_vendor'' ''substring'' (75 / 100)
               [(''vendor_class'', PStr opt60), (''matched_value'', dget e ''value'')])
               \<lparr>fm_manufacturer := or_none mfr, fm_device_type := or_none (lower dev), fm_model := or_none mdl\<rparr>))"

section \<open>DHCP options\<close>

fun longest_name :: "dict list \<Rightarrow> dict" where
  "longest_name [] = []"
| "longest_name (c # cs) = foldl (\<lambda>b c. if length (some_text (dget c ''satori_name'')) > length (some_text (dget b ''satori_name''))
     then c else b) c cs"

text \<open>The first level of the hierarchy that has a translation.\<close>

definition refine_type :: "dict \<Rightarrow> ustr \<Rightarrow> ustr" where
  "refine_type dev dtype =
     (if dtype \<noteq> [] \<and> dtype \<noteq> lit ''unknown'' then dtype
      else case dget dev ''hierarchy'' of
        PList ls \<Rightarrow>
          (case find (\<lambda>l. translate_huginn_type (some_text l) \<noteq> lower (strip (some_text l))) ls of
             None \<Rightarrow> dtype | Some l \<Rightarrow> translate_huginn_type (some_text l))
      | _ \<Rightarrow> dtype)"

text \<open>\<open>str(v)\<close> of an identifier, a number or a text.\<close>

definition id_text :: "pyval \<Rightarrow> ustr" where
  "id_text v = (case v of PInt i \<Rightarrow> str_int i | PStr t \<Rightarrow> t | _ \<Rightarrow> [])"

definition resolve_huginn_combo :: "sig_db \<Rightarrow> ustr \<Rightarrow> fp_match option" where
  "resolve_huginn_combo db opt55 =
     (case Option.bind (db_combos db) (\<lambda>es. dict_get es opt55) of
        None \<Rightarrow> None
      | Some cs \<Rightarrow>
          if cs = [] then None
          else
            let best = longest_name cs; label = some_text (dget best ''satori_name'');
                dtype = translate_huginn_type (some_text (dget best ''device_type'')); i = dget best ''device_id'';
                dev = (if py_truthy i then Option.bind (db_devices db) (\<lambda>es. dict_get es (id_text i)) else None);
                dev = (case dev of Some [] \<Rightarrow> None | _ \<Rightarrow> dev);
                hier = (case dev of None \<Rightarrow> PNone | Some d \<Rightarrow> dget d ''hierarchy_str'');
                dtype = (case dev of None \<Rightarrow> dtype | Some d \<Rightarrow> refine_type d dtype)
            in Some ((fmatch ''huginn_device'' ''exact'' (90 / 100)
                 [(''options'', PStr opt55), (''huginn_device_id'', i), (''satori_name'', PStr label), (''hierarchy_str'', hier)])
                 \<lparr>fm_device_type := or_none dtype, fm_manufacturer := or_none (some_text (dget best ''device_vendor'')),
                  fm_os_family := map_option lit (os_family_from_satori (db_word db) label), fm_model := or_none label\<rparr>))"

text \<open>The last entry with that value.\<close>

definition resolve_huginn_dhcp_sig :: "sig_db \<Rightarrow> ustr \<Rightarrow> fp_match option" where
  "resolve_huginn_dhcp_sig db opt55 =
     (case Option.bind (db_dhcp db) (\<lambda>es. find (\<lambda>(i, e). dget e ''value'' = PStr opt55) (rev es)) of
        None \<Rightarrow> None
      | Some (i, e) \<Rightarrow> if i = [] \<or> opt55 = [] then None
          else Some (fmatch ''huginn_dhcp'' ''exact'' (82 / 100)
            [(''source_db'', pstr ''Huginn-Muninn DHCP Signatures''),
             (''source_file'', pstr ''~/.leetha/cache/huginn_dhcp/dhcp_signature.json''),
             (''matched_key'', PStr (lit ''DHCP Option 55: '' @ take 60 opt55)), (''huginn_fingerprint_id'', PStr i)]))"

definition opt_match :: "string \<Rightarrow> string \<Rightarrow> dict \<Rightarrow> dict \<Rightarrow> fp_match" where
  "opt_match source kind d raw = with_answer d (fmatch source kind (conf_of (dget d ''confidence'')) raw)"

abbreviation opt_hit :: "'a option \<Rightarrow> 'a list" where
  "opt_hit x \<equiv> (case x of None \<Rightarrow> [] | Some y \<Rightarrow> [y])"

definition vendor_class_hits :: "sig_db \<Rightarrow> ustr \<Rightarrow> fp_match list" where
  "vendor_class_hits db t =
     opt_hit (map_option (\<lambda>d. opt_match ''dhcp_vendor'' ''pattern'' d [(''vendor_class'', PStr t)]) (match_dhcp_opt60 (db_patterns db) t)) @
     (let d = parse_vendor_class_fields (db_word db) t
      in if d = [] then []
         else [(fmatch ''dhcp_vendor_class'' ''exact'' (90 / 100) [(''vendor_class'', PStr t), (''parsed'', PDict d)])
           \<lparr>fm_manufacturer := textv (dget d ''vendor''), fm_device_type := or_none (lower (some_text (dget d ''device_type''))),
            fm_model := textv (dget d ''model'')\<rparr>]) @
     opt_hit (resolve_huginn_dhcp_vendor db t)"

definition option_hits :: "sig_db \<Rightarrow> ustr \<Rightarrow> fp_match list" where
  "option_hits db t =
     opt_hit (resolve_huginn_combo db t) @ opt_hit (resolve_huginn_dhcp_sig db t) @
     opt_hit (map_option (\<lambda>d. opt_match ''dhcp''
         (map char_of (some_text (get_or d ''match_source'' (pstr ''pattern'')))) d [(''options'', PStr t)])
       (match_dhcp_opt55 (db_patterns db) t))"

definition lookup_dhcp :: "sig_db \<Rightarrow> ustr option \<Rightarrow> ustr option \<Rightarrow> fp_match list" where
  "lookup_dhcp db opt55 opt60 =
     (if truthy opt60 then vendor_class_hits db (the opt60) else []) @ (if truthy opt55 then option_hits db (the opt55) else [])"

section \<open>DHCPv6\<close>

definition resolve_huginn_dhcpv6 :: "sig_db \<Rightarrow> ustr \<Rightarrow> fp_match option" where
  "resolve_huginn_dhcpv6 db oro =
     map_option (\<lambda>(i, e). fmatch ''huginn_dhcpv6'' ''exact'' (70 / 100) [(''oro'', PStr oro), (''huginn_fingerprint_id'', PStr i)])
       (Option.bind (db_dhcpv6 db) (find (\<lambda>(i, e). dget e ''value'' = PStr oro)))"

definition resolve_huginn_dhcpv6_enterprise :: "sig_db \<Rightarrow> int \<Rightarrow> fp_match option" where
  "resolve_huginn_dhcpv6_enterprise db eid =
     map_option (\<lambda>(i, e).
       let org = some_text (dget e ''organization'')
       in (fmatch ''huginn_dhcpv6_enterprise'' ''exact'' (70 / 100) [(''enterprise_id'', PInt eid), (''organization'', PStr org)])
            \<lparr>fm_manufacturer := or_none org\<rparr>)
       (Option.bind (db_dhcpv6_enterprise db)
          (find (\<lambda>(i, e). py_truthy (dget e ''value'') \<and> id_text (dget e ''value'') = str_int eid)))"

definition resolve_iana_enterprise :: "sig_db \<Rightarrow> int \<Rightarrow> fp_match option" where
  "resolve_iana_enterprise db eid =
     (let org = (case Option.bind (db_iana db) (\<lambda>es. dict_get es (str_int eid)) of
           Some (PStr t) \<Rightarrow> t
         | Some (PDict d) \<Rightarrow> if py_truthy (dget d ''organization'') then some_text (dget d ''organization'') else some_text (dget d ''name'')
         | _ \<Rightarrow> [])
      in if org = [] then None
         else Some ((fmatch ''iana_enterprise'' ''exact'' (60 / 100)
           [(''enterprise_id'', PInt eid), (''organization'', PStr org), (''source_db'', pstr ''IANA Private Enterprise Numbers'')])
           \<lparr>fm_manufacturer := Some org\<rparr>))"

definition enterprise_hits :: "sig_db \<Rightarrow> int \<Rightarrow> fp_match list" where
  "enterprise_hits db eid =
     (let huginn = opt_hit (resolve_huginn_dhcpv6_enterprise db eid)
      in opt_hit (map_option (\<lambda>d.
             (fmatch ''dhcpv6'' ''exact'' (75 / 100) [(''enterprise_id'', PInt eid), (''device_types'', dget d ''device_types''),
                (''match_source'', dget d ''match_source'')])
             \<lparr>fm_manufacturer := textv (dget d ''manufacturer'')\<rparr>) (match_dhcpv6_enterprise (db_patterns db) eid)) @
         huginn @ (if huginn = [] then opt_hit (resolve_iana_enterprise db eid) else []))"

definition lookup_dhcpv6 :: "sig_db \<Rightarrow> ustr option \<Rightarrow> ustr option \<Rightarrow> int option \<Rightarrow> fp_match list" where
  "lookup_dhcpv6 db oro vc eid =
     (if truthy oro then
        opt_hit (map_option (\<lambda>d. opt_match ''dhcpv6'' ''pattern'' d [(''oro'', PStr (the oro)), (''match_source'', dget d ''match_source'')])
          (match_dhcpv6_oro (db_patterns db) (the oro))) @
        opt_hit (resolve_huginn_dhcpv6 db (the oro)) else []) @
     (if truthy vc then
        opt_hit (map_option (\<lambda>d. opt_match ''dhcpv6'' ''pattern'' d [(''vendor_class'', PStr (the vc)), (''match_source'', dget d ''match_source'')])
          (match_dhcpv6_vendor_class (db_patterns db) (the vc))) else []) @
     (case eid of None \<Rightarrow> [] | Some i \<Rightarrow> enterprise_hits db i)"

section \<open>Satori\<close>

definition satori_key :: "string option \<Rightarrow> dict \<Rightarrow> ustr \<Rightarrow> ustr" where
  "satori_key qualifier_field test v =
     (let k = (if dget test ''matchtype'' = pstr ''exact'' then v else lower v)
      in case qualifier_field of None \<Rightarrow> k | Some f \<Rightarrow> some_text (dget test f) @ 124 # k)"

definition or_val :: "pyval \<Rightarrow> pyval \<Rightarrow> pyval" where
  "or_val a b = (if py_truthy a then a else b)"

definition satori_row :: "dict \<Rightarrow> dict \<Rightarrow> int \<Rightarrow> dict" where
  "satori_row entry test wt =
     [(''name'', get_or entry ''name'' (PStr [])),
      (''os_family'', or_val (dget entry ''os_class'') (or_val (dget entry ''os_name'') PNone)),
      (''os_vendor'', or_val (dget entry ''os_vendor'') PNone), (''device_type'', or_val (dget entry ''device_type'') PNone),
      (''manufacturer'', or_val (dget entry ''device_vendor'') (or_val (dget entry ''os_vendor'') PNone)),
      (''matchtype'', get_or test ''matchtype'' (pstr ''exact'')), (''_weight'', PInt wt)]"

definition int_val :: "pyval \<Rightarrow> int" where
  "int_val v = (case v of PInt i \<Rightarrow> i | PStr t \<Rightarrow> (case py_int10 t of None \<Rightarrow> 0 | Some i \<Rightarrow> i) | _ \<Rightarrow> 0)"

definition satori_add :: "string \<Rightarrow> string option \<Rightarrow> dict \<Rightarrow> dict \<Rightarrow> (ustr \<times> dict) list \<Rightarrow> (ustr \<times> dict) list" where
  "satori_add test_field qf entry test idx =
     (let v = some_text (dget test test_field); wt = int_val (get_or test ''weight'' (PInt 0)); key = satori_key qf test v
      in if v = [] then idx
         else case dict_get idx key of
           Some old \<Rightarrow> if wt > int_val (dget old ''_weight'') then dict_set idx key (satori_row entry test wt) else idx
         | None \<Rightarrow> dict_set idx key (satori_row entry test wt))"

definition satori_index :: "sig_db \<Rightarrow> string \<Rightarrow> string \<Rightarrow> string option \<Rightarrow> (ustr \<times> dict) list" where
  "satori_index db source test_field qf =
     (case db_satori db source of
        None \<Rightarrow> []
      | Some es \<Rightarrow> fold (\<lambda>(entry, tests). fold (satori_add test_field qf entry) tests) es [])"

text \<open>The entry of the value, of the value in lower case, or the heaviest partial entry that occurs in it.\<close>

definition satori_hit :: "(ustr \<times> dict) list \<Rightarrow> ustr \<Rightarrow> ustr \<Rightarrow> dict option" where
  "satori_hit idx prefix v =
     (case first_some (dict_get idx) [prefix @ v, prefix @ lower v] of
        Some e \<Rightarrow> Some e
      | None \<Rightarrow> foldl (\<lambda>best (k, e).
          if dget e ''matchtype'' = pstr ''partial'' \<and> contains_sub k (prefix @ lower v) \<and>
             (case best of None \<Rightarrow> True | Some b \<Rightarrow> int_val (dget e ''_weight'') > int_val (dget b ''_weight''))
          then Some e else best) None idx)"

definition satori_source :: "string \<Rightarrow> string" where
  "satori_source source = ''satori_'' @ (if take 7 source = ''satori_'' then drop 7 source else source)"

definition match_satori :: "sig_db \<Rightarrow> string \<Rightarrow> string \<Rightarrow> rat \<Rightarrow> (string \<times> ustr) option \<Rightarrow> ustr \<Rightarrow> fp_match option" where
  "match_satori db source test_field c qualifier v =
     (if v = [] then None
      else case satori_hit (satori_index db source test_field (map_option fst qualifier))
                  (case qualifier of None \<Rightarrow> [] | Some (f, q) \<Rightarrow> q @ [124]) v of
        None \<Rightarrow> None
      | Some e \<Rightarrow> Some (with_answer e
          (fmatch (satori_source source) (map char_of (some_text (dget e ''matchtype''))) c
             [(''satori_name'', dget e ''name''), (''source_db'', PStr (lit ''Satori '' @ lit source))])))"

definition match_satori_dhcp :: "sig_db \<Rightarrow> ustr \<Rightarrow> fp_match option" where
  "match_satori_dhcp db = match_satori db ''satori_dhcp'' ''dhcpoption55'' (85 / 100) None"

definition match_satori_useragent :: "sig_db \<Rightarrow> ustr \<Rightarrow> fp_match option" where
  "match_satori_useragent db = match_satori db ''satori_useragent'' ''webuseragent'' (80 / 100) None"

definition match_satori_ssh :: "sig_db \<Rightarrow> ustr \<Rightarrow> fp_match option" where
  "match_satori_ssh db = match_satori db ''satori_ssh'' ''ssh'' (82 / 100) None"

definition match_satori_smb :: "sig_db \<Rightarrow> ustr \<Rightarrow> fp_match option" where
  "match_satori_smb db v = first_some (\<lambda>f. match_satori db ''satori_smb'' f (82 / 100) None v) [''smbnativename'', ''smbnativelanman'']"

definition match_satori_web :: "sig_db \<Rightarrow> ustr \<Rightarrow> fp_match option" where
  "match_satori_web db = match_satori db ''satori_web'' ''webserver'' (78 / 100) None"

definition match_satori_sip :: "sig_db \<Rightarrow> ustr \<Rightarrow> fp_match option" where
  "match_satori_sip db = match_satori db ''satori_sip'' ''sipserver'' (82 / 100) None"

definition match_satori_tcp :: "sig_db \<Rightarrow> ustr \<Rightarrow> ustr \<Rightarrow> fp_match option" where
  "match_satori_tcp db sig flags = match_satori db ''satori_tcp'' ''tcpsig'' (80 / 100) (Some (''tcpflag'', flags)) sig"

end
