(* ===== verification/Lookup.thy ===== *)
theory Lookup
  imports DhcpSignatures
begin

text \<open>
  The remaining methods of \<open>fingerprint/lookup.py\<close> and \<open>_fingerprint_lookup\<close> of
  \<open>core/pipeline.py\<close>, which asks them protocol by protocol.
\<close>

section \<open>Discovery and TLS\<close>

definition lookup_ssdp :: "sig_db \<Rightarrow> ustr option \<Rightarrow> ustr option \<Rightarrow> fp_match option" where
  "lookup_ssdp db server st =
     (case (if truthy server then match_ssdp_server (db_patterns db) (the server) else None) of
        Some d \<Rightarrow> Some ((with_answer d (fmatch ''ssdp'' ''pattern'' (conf_of (dget d ''confidence''))
          [(''server'', opt_str server), (''st'', opt_str st)]))\<lparr>fm_os_version := textv (dget d ''os_version'')\<rparr>)
      | None \<Rightarrow>
          (case (if truthy st then match_upnp_device_type (db_patterns db) (the st) else None) of
             None \<Rightarrow> None
           | Some v \<Rightarrow> if py_truthy v
               then Some ((fmatch ''ssdp'' ''pattern'' (70 / 100) [(''st'', opt_str st)])\<lparr>fm_device_type := textv v\<rparr>) else None))"

definition lookup_netbios :: "ustr \<Rightarrow> ustr \<Rightarrow> int option \<Rightarrow> fp_match option" where
  "lookup_netbios query_name query_type suffix =
     (case (if query_type = lit ''netbios'' then Option.bind suffix match_netbios_suffix else None) of
        Some d \<Rightarrow> Some ((fmatch ''netbios'' ''exact'' (conf_of (dget d ''confidence''))
          [(''query_name'', PStr query_name), (''service'', dget d ''service''),
           (''suffix'', case suffix of None \<Rightarrow> PNone | Some i \<Rightarrow> PInt i)])
          \<lparr>fm_os_family := textv (dget d ''os_family''), fm_device_type := textv (dget d ''device_type'')\<rparr>)
      | None \<Rightarrow>
          let d = match_llmnr_query query_name
          in if \<not> py_truthy (dget d ''os_family'') then None
             else Some ((fmatch ''netbios'' ''heuristic'' (conf_of (dget d ''confidence''))
               [(''query_name'', PStr query_name), (''query_type'', PStr query_type)])
               \<lparr>fm_os_family := textv (dget d ''os_family'')\<rparr>))"

definition match_ja3 :: "sig_db \<Rightarrow> ustr \<Rightarrow> fp_match option" where
  "match_ja3 db h =
     (case ja3_match h of
        Some e \<Rightarrow> Some ((fmatch ''ja3'' ''exact'' (conf_of (PInt (int (Tls.confidence e))))
          [(''ja3_hash'', PStr h), (''app'', pstr (app e))])\<lparr>fm_os_family := map_option lit (os_family e)\<rparr>)
      | None \<Rightarrow> map_option (\<lambda>d.
          (fmatch ''ja3'' ''exact'' (72 / 100) [(''ja3_hash'', PStr h), (''app'', dget d ''app''), (''description'', dget d ''description'')])
            \<lparr>fm_os_family := textv (dget d ''os_family''), fm_device_type := textv (dget d ''device_type'')\<rparr>)
          (Option.bind (db_ja3 db) (\<lambda>es. dict_get es h)))"

definition match_ja4 :: "sig_db \<Rightarrow> ustr \<Rightarrow> fp_match option" where
  "match_ja4 db fingerprint =
     map_option (\<lambda>d.
       (fmatch ''ja4'' ''exact'' (75 / 100) [(''ja4'', PStr fingerprint), (''app'', dget d ''app''), (''description'', dget d ''description'')])
         \<lparr>fm_os_family := textv (dget d ''os_family'')\<rparr>)
       (Option.bind (db_ja4 db) (\<lambda>es. dict_get es fingerprint))"

section \<open>TTL, DNS, router advertisements, host names\<close>

definition match_ttl :: "int \<Rightarrow> fp_match option" where
  "match_ttl ttl =
     (let raw = (\<lambda>i. [(''ttl'', PInt ttl), (''initial_ttl'', PInt i)])
      in if ttl \<le> 0 then None
         else if ttl \<le> 64 then Some (fmatch ''ttl'' ''heuristic'' (10 / 100) (raw 64))
         else if ttl \<le> 128 then Some (fmatch ''ttl'' ''heuristic'' (10 / 100) (raw 128))
         else Some ((fmatch ''ttl'' ''heuristic'' (25 / 100) (raw 255))\<lparr>fm_device_type := Some (lit ''network_device'')\<rparr>))"

definition lookup_dns :: "ustr \<Rightarrow> pyval \<Rightarrow> fp_match option" where
  "lookup_dns qname qtype =
     map_option (\<lambda>d. with_answer d (fmatch ''dns'' ''pattern'' (num_of (get_or d ''confidence'' (PFloat (50 / 100))))
       [(''query_name'', PStr qname), (''query_type'', qtype), (''note'', dget d ''note'')])) (match_dns_query qname)"

definition lookup_icmpv6 :: "sig_db \<Rightarrow> int \<Rightarrow> int \<Rightarrow> int \<Rightarrow> fp_match option" where
  "lookup_icmpv6 db hop_limit managed other =
     map_option (\<lambda>d. with_answer d (fmatch ''icmpv6'' ''exact'' (num_of (get_or d ''confidence'' (PFloat (50 / 100)))) []))
       (match_ra_fingerprint (db_patterns db) hop_limit managed other)"

definition lookup_hostname :: "sig_db \<Rightarrow> ustr \<Rightarrow> fp_match option" where
  "lookup_hostname db hn =
     map_option (\<lambda>d. (with_answer d (fmatch ''hostname'' ''pattern'' (conf_of (dget d ''confidence'')) [(''hostname'', PStr hn)]))
         \<lparr>fm_model := textv (dget d ''model'')\<rparr>)
       (match_hostname (db_patterns db) hn)"

section \<open>User agents\<close>

definition dotted_digits :: re where
  "dotted_digits = re_plus (Cls (\<lambda>c. is_digit c \<or> c = 46))"

definition under_digits :: re where
  "under_digits = re_plus (Cls (\<lambda>c. is_digit c \<or> c = 95))"

definition ANDROID_RE :: re where
  "ANDROID_RE = re_seq [re_str (lit ''Android''), blanks1, Grp 1 dotted_digits]"

text \<open>The first group of the first match, underscores as dots.\<close>

definition under_version :: "string \<Rightarrow> ustr \<Rightarrow> ustr option" where
  "under_version start ua = map_option (map (\<lambda>c. if c = 95 then 46 else c)) (ref (Seq (re_str (lit start)) (Grp 1 under_digits)) ua 1)"

definition NT_VERSIONS :: "(ustr \<times> string) list" where
  "NT_VERSIONS = [(lit ''10.0'', ''10/11''), (lit ''6.3'', ''8.1''), (lit ''6.2'', ''8''), (lit ''6.1'', ''7'')]"

text \<open>System, version and device type.\<close>

definition ua_system :: "ustr \<Rightarrow> (string option \<times> ustr option \<times> string)" where
  "ua_system ua =
     (if re_search ANDROID_RE ua \<noteq> None then
        (Some ''Android'', ref ANDROID_RE ua 1, if has ''Tablet'' ua \<or> has ''iPad'' ua then ''tablet'' else ''phone'')
      else if has ''iPhone'' ua then (Some ''iOS'', under_version ''iPhone OS '' ua, ''phone'')
      else if has ''iPad'' ua then (Some ''iPadOS'', under_version ''CPU OS '' ua, ''tablet'')
      else if has ''Macintosh'' ua \<or> has ''Mac OS X'' ua then (Some ''macOS'', under_version ''Mac OS X '' ua, ''workstation'')
      else if has ''Windows NT'' ua then
        (Some ''Windows'',
         map_option (\<lambda>v. case dict_get NT_VERSIONS v of None \<Rightarrow> v | Some t \<Rightarrow> lit t)
           (ref (Seq (re_str (lit ''Windows NT '')) (Grp 1 dotted_digits)) ua 1), ''workstation'')
      else if has ''Linux'' ua then (Some ''Linux'', None, ''workstation'')
      else (None, None, ''workstation''))"

text \<open>Devices by their tokens, in the order of the tests: certainty, type, manufacturer, system.\<close>

definition UA_DEVICES :: "(string list \<times> rat \<times> string \<times> string option \<times> string option) list" where
  "UA_DEVICES =
    [([''Tizen/''], 85 / 100, ''smart_tv'', Some ''Samsung'', Some ''Tizen''), ([''SmartTV'', ''SMART-TV''], 70 / 100, ''smart_tv'', None, None),
     ([''LG NetCast'', ''Web0S'', ''webOS''], 85 / 100, ''smart_tv'', Some ''LG'', Some ''webOS''),
     ([''Sonos/''], 85 / 100, ''smart_speaker'', Some ''Sonos'', None)]"

definition UA_CONSOLES :: "(string list \<times> rat \<times> string \<times> string option \<times> string option) list" where
  "UA_CONSOLES =
    [([''PlayStation''], 85 / 100, ''game_console'', Some ''Sony'', Some ''PlayStation''),
     ([''Xbox'', ''XboxOne''], 85 / 100, ''game_console'', Some ''Microsoft'', Some ''Xbox''),
     ([''Nintendo'', ''NintendoBrowser''], 85 / 100, ''game_console'', Some ''Nintendo'', None),
     ([''CrKey''], 85 / 100, ''streaming_device'', Some ''Google'', Some ''Cast OS''),
     ([''AppleTV''], 85 / 100, ''smart_tv'', Some ''Apple'', Some ''tvOS'')]"

definition ua_device :: "ustr \<Rightarrow> (rat \<times> string \<times> string option \<times> string option) option" where
  "ua_device ua =
     (let by = (\<lambda>ds. map_option snd (find (\<lambda>(ts, x). list_ex (\<lambda>t. has t ua) ts) ds))
      in if has ''Roku/DVP'' ua \<or> has ''Roku/'' ua then Some (85 / 100, ''streaming_device'', Some ''Roku'', Some ''RokuOS'')
         else if has ''Silk/'' ua \<or> starts_with (lit ''AFTM'') ua then Some (85 / 100, ''streaming_device'', Some ''Amazon'', Some ''Fire OS'')
         else case by UA_DEVICES of
           Some x \<Rightarrow> Some x
         | None \<Rightarrow> if has ''Linux UPnP'' ua \<and> has ''Sonos'' ua then Some (85 / 100, ''smart_speaker'', Some ''Sonos'', None)
             else by UA_CONSOLES)"

definition match_user_agent :: "ustr \<Rightarrow> fp_match option" where
  "match_user_agent ua =
     (let m = (\<lambda>c. fmatch ''http_useragent'' ''pattern'' c [(''user_agent'', PStr (take 200 ua))])
      in if ua = [] then None
         else case ua_device ua of
           Some (c, ty, mfr, os) \<Rightarrow> Some ((m c)\<lparr>fm_device_type := Some (lit ty), fm_manufacturer := map_option lit mfr,
             fm_os_family := map_option lit os\<rparr>)
         | None \<Rightarrow>
             (case ua_system ua of
                (None, v, ty) \<Rightarrow> None
              | (Some os, v, ty) \<Rightarrow> Some ((m (80 / 100))\<lparr>fm_device_type := Some (lit ty), fm_os_family := Some (lit os), fm_os_version := v\<rparr>)))"

section \<open>Cloud services\<close>

definition HOST_CLOUD_PATTERNS :: "(nat \<Rightarrow> bool) \<Rightarrow> (re \<times> string option \<times> string option \<times> string option) list" where
  "HOST_CLOUD_PATTERNS w =
    (let suffix = (\<lambda>t. Seq (re_str (lit t)) Eol); part = (\<lambda>t. re_str (lit t))
     in [(suffix ''.apple.com'', Some ''Apple'', None, None), (suffix ''.icloud.com'', Some ''Apple'', None, Some ''iOS/macOS''),
         (suffix ''.google.com'', Some ''Google'', None, None),
         (re_seq [Wb w, part ''clients'', re_plus (Cls is_digit), suffix ''.google.com''], Some ''Google'', None, Some ''Android''),
         (part ''connectivitycheck.gstatic.com'', Some ''Google'', None, Some ''Android''),
         (suffix ''.amazon.com'', Some ''Amazon'', None, None), (suffix ''.amazonaws.com'', None, None, None),
         (part ''.samsungcloudsolution.com'', Some ''Samsung'', Some ''smart_tv'', None),
         (part ''.samsungcloud.tv'', Some ''Samsung'', Some ''smart_tv'', None),
         (part ''home.nest.com'', Some ''Google'', Some ''smart_home'', None),
         (part ''.googlevideo.com'', None, Some ''streaming_device'', None),
         (suffix ''.roku.com'', Some ''Roku'', Some ''streaming_device'', None),
         (suffix ''.sonos.com'', Some ''Sonos'', Some ''smart_speaker'', None), (suffix ''.ring.com'', Some ''Ring'', Some ''camera'', None),
         (suffix ''.wyzecam.com'', Some ''Wyze'', Some ''camera'', None), (suffix ''.tesla.com'', Some ''Tesla'', Some ''iot'', None),
         (suffix ''.teslamotors.com'', Some ''Tesla'', Some ''iot'', None)])"

definition try_host_patterns :: "sig_db \<Rightarrow> string \<Rightarrow> ustr \<Rightarrow> fp_match option" where
  "try_host_patterns db origin hn =
     (let t = strip (lower hn)
      in map_option (\<lambda>(r, mfr, ty, os).
           (fmatch origin ''pattern'' (55 / 100) [(''hostname'', PStr hn)])
             \<lparr>fm_manufacturer := map_option lit mfr, fm_device_type := map_option lit ty, fm_os_family := map_option lit os\<rparr>)
         (find (\<lambda>(r, mfr, ty, os). re_search r t \<noteq> None \<and> \<not> (mfr = None \<and> ty = None \<and> os = None)) (HOST_CLOUD_PATTERNS (db_word db))))"

definition lookup_tls_sni :: "sig_db \<Rightarrow> ustr \<Rightarrow> fp_match option" where
  "lookup_tls_sni db hn = (if hn = [] then None else try_host_patterns db ''tls_sni'' hn)"

definition lookup_http_host :: "sig_db \<Rightarrow> ustr \<Rightarrow> fp_match option" where
  "lookup_http_host db host = (if host = [] then None else try_host_patterns db ''http_host'' host)"

section \<open>The lookups of a packet\<close>

text \<open>One group per protocol of \<open>_fingerprint_lookup\<close>; a match is added where the code appends it.\<close>

definition dhcpv4_hits :: "sig_db \<Rightarrow> captured_packet \<Rightarrow> fp_match list" where
  "dhcpv4_hits db p =
     (let opt55 = ftext p ''opt55''; opt60 = ftext p ''opt60''; hn = ftext p ''hostname''
      in lookup_dhcp db opt55 opt60 @
         (if truthy opt60 then opt_hit (match_recog db (lit ''dhcp_vendor_class'') (the opt60)) else []) @
         (if truthy opt55 then opt_hit (match_satori_dhcp db (the opt55)) else []) @
         (if truthy hn then opt_hit (lookup_hostname db (the hn)) else []))"

definition dhcpv6_hits :: "sig_db \<Rightarrow> captured_packet \<Rightarrow> fp_match list" where
  "dhcpv6_hits db p =
     (let eid = (case fget p ''enterprise_id'' of PInt i \<Rightarrow> Some i | _ \<Rightarrow> None); duid_mac = ftext p ''duid_mac''
      in lookup_dhcpv6 db (ftext p ''oro'') (ftext p ''vendor_class'') eid @
         (if truthy duid_mac \<and> lower (the duid_mac) \<noteq> lower (lit (hw_addr p))
          then map (\<lambda>m. m\<lparr>fm_raw := dict_set (fm_raw m) ''from'' (pstr ''dhcpv6_duid'')\<rparr>)
                 (filter (\<lambda>m. fm_source m = ''oui'') (lookup_mac db (map char_of (the duid_mac))))
          else []))"

definition icmpv6_hits :: "sig_db \<Rightarrow> captured_packet \<Rightarrow> fp_match list" where
  "icmpv6_hits db p =
     (if fget p ''icmpv6_type'' = pstr ''router_advertisement''
      then (case (fget p ''hop_limit'', fget p ''managed'', fget p ''other'') of
              (PInt h, PInt m, PInt o') \<Rightarrow> opt_hit (lookup_icmpv6 db h m o')
            | _ \<Rightarrow> [])
      else [])"

text \<open>The first \<open>key=value\<close> of the TXT record that Recog knows.\<close>

definition txt_record_hit :: "sig_db \<Rightarrow> captured_packet \<Rightarrow> fp_match list" where
  "txt_record_hit db p =
     (case fget p ''txt_records'' of
        PDict d \<Rightarrow> opt_hit (first_some (\<lambda>(k, v). match_recog db (lit ''mdns_device_info'') (lit k @ 61 # py_str v)) d)
      | _ \<Rightarrow> [])"

definition mdns_hits :: "sig_db \<Rightarrow> captured_packet \<Rightarrow> fp_match list option" where
  "mdns_hits db p =
     (case lookup_mdns db (cp_get p ''service_type'' (PStr [])) (ftext p ''name'') (cp_fields p) of
        Inl e \<Rightarrow> None
      | Inr ms \<Rightarrow> Some (ms @ txt_record_hit db p))"

definition tcp_hits :: "sig_db \<Rightarrow> captured_packet \<Rightarrow> fp_match list" where
  "tcp_hits db p =
     (let flags = some_text (cp_get p ''tcp_flags'' (pstr ''S'')); ttl = int_val (cp_get p ''ttl'' (PInt 0)); sig = ftext p ''satori_sig'';
          num = (\<lambda>k d. py_str (cp_get p k d))
      in (if ttl \<noteq> 0 then opt_hit (match_ttl ttl) else []) @
         (if flags = lit ''S''
          then opt_hit (match_tcp_signature db (join [58]
                 [num ''ttl'' (PInt 0), num ''window_size'' (PInt 0), num ''mss'' (pstr ''*''), num ''tcp_options'' (PStr [])]))
          else []) @
         (if truthy sig then opt_hit (match_satori_tcp db (the sig) flags) else []))"

definition sip_hits :: "sig_db \<Rightarrow> captured_packet \<Rightarrow> ustr \<Rightarrow> fp_match list" where
  "sip_hits db p banner =
     (let server = (if truthy (ftext p ''software'') then the (ftext p ''software'') else banner)
      in opt_hit (match_satori_sip db server) @
         opt_hit (first_some (\<lambda>kind. match_recog db (lit kind) server) [''sip'', ''sip_user_agent'']))"

definition smb_hits :: "sig_db \<Rightarrow> captured_packet \<Rightarrow> fp_match list" where
  "smb_hits db p =
     opt_hit (first_some (\<lambda>k. if truthy (ftext p k) then match_satori_smb db (the (ftext p k)) else None) [''native_os'', ''native_lanman'']) @
     (if truthy (ftext p ''native_os'') then opt_hit (match_recog db (lit ''smb'') (the (ftext p ''native_os''))) else [])"

definition banner_hits :: "sig_db \<Rightarrow> captured_packet \<Rightarrow> fp_match list" where
  "banner_hits db p =
     (let service = some_text (fget p ''service''); banner = some_text (fget p ''raw_banner'')
      in if service = [] \<or> banner = [] then []
         else opt_hit (lookup_banner db service banner) @
           (if service = lit ''ssh'' then opt_hit (match_satori_ssh db banner)
            else if service = lit ''http'' \<or> service = lit ''https''
            then opt_hit (match_satori_web db (some_text (cp_get p ''server'' (PStr banner))))
            else if service = lit ''sip'' then sip_hits db p banner
            else if service \<in> {lit ''telnet'', lit ''rtsp'', lit ''ldap''}
            then (let t = (if service = lit ''ldap'' then ftext p ''ldap_response'' else Some banner)
                  in opt_hit (match_recog db service (if truthy t then the t else banner)))
            else if service = lit ''smb'' then smb_hits db p
            else []))"

definition tls_hits :: "sig_db \<Rightarrow> captured_packet \<Rightarrow> fp_match list" where
  "tls_hits db p =
     (let look = (\<lambda>k f. if truthy (ftext p k) then opt_hit (f (the (ftext p k))) else [])
      in look ''ja3_hash'' (match_ja3 db) @ look ''ja4'' (match_ja4 db) @ look ''sni'' (lookup_tls_sni db))"

definition ua_hits :: "sig_db \<Rightarrow> captured_packet \<Rightarrow> fp_match list" where
  "ua_hits db p =
     (let ua = some_text (fget p ''user_agent'')
      in if ua = [] then [] else opt_hit (match_user_agent ua) @ opt_hit (match_satori_useragent db ua))"

definition netbios_hits :: "captured_packet \<Rightarrow> fp_match list" where
  "netbios_hits p = opt_hit (lookup_netbios (some_text (fget p ''query_name'')) (some_text (cp_get p ''query_type'' (pstr ''llmnr'')))
     (case fget p ''netbios_suffix'' of PInt i \<Rightarrow> Some i | _ \<Rightarrow> None))"

definition dns_hits :: "captured_packet \<Rightarrow> fp_match list" where
  "dns_hits p =
     (let q = some_text (fget p ''query_name'') in if q = [] then [] else opt_hit (lookup_dns q (cp_get p ''query_type'' (PInt 1))))"

text \<open>None when the lookup raises.\<close>

definition pipeline_lookup :: "sig_db \<Rightarrow> captured_packet \<Rightarrow> fp_match list option" where
  "pipeline_lookup db p =
     (let proto = protocol p
      in if proto = ''dhcpv4'' then Some (dhcpv4_hits db p)
         else if proto = ''dhcpv6'' then Some (dhcpv6_hits db p)
         else if proto = ''icmpv6'' then Some (icmpv6_hits db p)
         else if proto = ''mdns'' then mdns_hits db p
         else if proto = ''ssdp'' then Some (opt_hit (lookup_ssdp db (ftext p ''server'') (ftext p ''st'')))
         else if proto = ''http_useragent'' then Some (ua_hits db p)
         else if proto = ''tcp_syn'' then Some (tcp_hits db p)
         else if proto = ''dns'' then Some (dns_hits p)
         else if proto = ''netbios'' then Some (netbios_hits p)
         else if proto = ''service_banner'' then Some (banner_hits db p)
         else if proto = ''tls'' then Some (tls_hits db p)
         else Some [])"

text \<open>The pipeline's environment with these lookups.\<close>

definition with_lookups :: "sig_db \<Rightarrow> pipe_env \<Rightarrow> pipe_env" where
  "with_lookups db env = env\<lparr>match_mac := lookup_mac db, fingerprint_lookup := pipeline_lookup db\<rparr>"

end
