(* ===== verification/LookupProps.thy ===== *)
theory LookupProps
  imports Lookup ProcessorsProps Capture
begin

text \<open>
  Properties of the signature lookups: the longest assigned prefix of an address decides, the signatures
  of the two directions of a TCP handshake are kept apart, the certainty of all the evidence a packet gives
  is a certainty, an announcement without a service uses up the lookup of its device, and the match of
  a service by the built-in map is not cross-validated.
\<close>

section \<open>Addresses\<close>

lemma first_some_None: "first_some f xs = None \<longleftrightarrow> (\<forall>x \<in> set xs. f x = None)"
  by (induction xs) (auto split: option.splits)

lemma first_some_Some:
  "first_some f xs = Some y \<Longrightarrow> \<exists>as x bs. xs = as @ x # bs \<and> f x = Some y \<and> (\<forall>a \<in> set as. f a = None)"
proof (induction xs)
  case (Cons x xs)
  show ?case
  proof (cases "f x")
    case None
    then obtain as z bs where "xs = as @ z # bs" "f z = Some y" "\<forall>a \<in> set as. f a = None" using Cons by auto
    then show ?thesis using None by (intro exI [of _ "x # as"] exI [of _ z] exI [of _ bs]) simp
  next
    case (Some z)
    then show ?thesis using Cons.prems by (intro exI [of _ "[]"] exI [of _ x] exI [of _ xs]) simp
  qed
qed simp

text \<open>The entry of a prefix of that many digits.\<close>

abbreviation assigned :: "sig_db \<Rightarrow> mac \<Rightarrow> nat \<Rightarrow> dict option" where
  "assigned db m n \<equiv> dict_get (db_oui db) (take n (norm_mac (lit m)))"

lemma OUI_LENGTHS_split:
  assumes "OUI_LENGTHS = as @ n # bs" and "k \<in> set OUI_LENGTHS" and "n < k"
  shows "k \<in> set as"
proof -
  have s: "sorted_wrt (>) OUI_LENGTHS" by (simp add: OUI_LENGTHS_def)
  then have "\<forall>b \<in> set bs. b < n" by (simp add: assms(1) sorted_wrt_append)
  then show ?thesis using assms by (auto simp: assms(1))
qed


section \<open>Satori\<close>

text \<open>Where the entries of an index come from.\<close>

definition from_test :: "satori_entry list \<Rightarrow> string \<Rightarrow> string option \<Rightarrow> ustr \<Rightarrow> dict \<Rightarrow> bool" where
  "from_test es fld qf k e \<longleftrightarrow> (\<exists>entry tests test. (entry, tests) \<in> set es \<and> test \<in> set tests \<and>
     k = satori_key qf test (some_text (dget test fld)) \<and>
     e = satori_row entry test (int_val (get_or test ''weight'' (PInt 0))))"

lemma satori_add_from:
  assumes "\<forall>(k, e) \<in> set idx. from_test es fld qf k e" and "(entry, tests) \<in> set es" and "test \<in> set tests"
  shows "\<forall>(k, e) \<in> set (satori_add fld qf entry test idx). from_test es fld qf k e"
proof -
  let ?k = "satori_key qf test (some_text (dget test fld))"
  let ?r = "satori_row entry test (int_val (get_or test ''weight'' (PInt 0)))"
  have "from_test es fld qf ?k ?r" using assms(2,3) unfolding from_test_def by blast
  then have "\<forall>(k, e) \<in> set (dict_set idx ?k ?r). from_test es fld qf k e"
    using assms(1) by (induction idx ?k ?r rule: dict_set.induct) auto
  then show ?thesis using assms(1) by (simp add: satori_add_def Let_def split: option.splits)
qed

lemma fold_keeps: "P a \<Longrightarrow> (\<And>x a. x \<in> set xs \<Longrightarrow> P a \<Longrightarrow> P (f x a)) \<Longrightarrow> P (fold f xs a)"
  by (induction xs arbitrary: a) auto

lemma satori_index_from:
  assumes "db_satori db source = Some es" and "(k, e) \<in> set (satori_index db source fld qf)"
  shows "from_test es fld qf k e"
proof -
  have "\<forall>(k, e) \<in> set (fold (\<lambda>(entry, tests). fold (satori_add fld qf entry) tests) es []). from_test es fld qf k e"
  proof (rule fold_keeps [where P = "\<lambda>a. \<forall>(k, e) \<in> set a. from_test es fld qf k e"])
    fix x a assume x: "x \<in> set es" and a: "\<forall>(k, e) \<in> set a. from_test es fld qf k e"
    obtain entry tests where xt: "x = (entry, tests)" by (cases x)
    have "\<forall>(k, e) \<in> set (fold (satori_add fld qf entry) tests a). from_test es fld qf k e"
      by (rule fold_keeps [where P = "\<lambda>a. \<forall>(k, e) \<in> set a. from_test es fld qf k e"])
        (use a satori_add_from x xt in blast)+
    then show "\<forall>(k, e) \<in> set ((case x of (entry, tests) \<Rightarrow> fold (satori_add fld qf entry) tests) a). from_test es fld qf k e"
      by (simp add: xt)
  qed simp
  then show ?thesis using assms by (auto simp: satori_index_def)
qed

lemma satori_partial_hit:
  assumes "foldl (\<lambda>best (k, e). if P k e best then Some e else best) b idx = Some e"
    and "\<And>k e best. P k e best \<Longrightarrow> Q k e" and "b = Some e \<Longrightarrow> \<exists>k. (k, e) \<in> I \<and> Q k e" and "set idx \<subseteq> I"
  shows "\<exists>k. (k, e) \<in> I \<and> Q k e"
  using assms
proof (induction idx arbitrary: b)
  case (Cons x idx)
  obtain k d where x: "x = (k, d)" by (cases x)
  show ?case
    by (rule Cons.IH [where b = "if P k d b then Some d else b"])
      (use Cons.prems x in \<open>auto split: if_splits\<close>)
qed simp

lemma satori_hit_key:
  assumes "satori_hit idx prefix v = Some e"
  shows "\<exists>k. (k, e) \<in> set idx \<and> (k = prefix @ v \<or> contains_sub k (prefix @ lower v))"
proof (cases "first_some (dict_get idx) [prefix @ v, prefix @ lower v]")
  case None
  then have "foldl (\<lambda>best (k, e). if dget e ''matchtype'' = pstr ''partial'' \<and> contains_sub k (prefix @ lower v) \<and>
             (case best of None \<Rightarrow> True | Some b \<Rightarrow> int_val (dget e ''_weight'') > int_val (dget b ''_weight''))
          then Some e else best) None idx = Some e"
    using assms by (simp add: satori_hit_def)
  then have "\<exists>k. (k, e) \<in> set idx \<and> contains_sub k (prefix @ lower v)"
    by (rule satori_partial_hit) auto
  then show ?thesis by blast
next
  case (Some d)
  then have "d = e" "dict_get idx (prefix @ v) = Some e \<or> dict_get idx (prefix @ lower v) = Some e"
    using assms by (auto simp: satori_hit_def split: option.splits)
  moreover have "contains_sub (prefix @ lower v) (prefix @ lower v)"
    by (simp only: contains_sub_iff) (metis append_Nil append_Nil2)
  ultimately show ?thesis by (auto dest!: dict_get_mem)
qed

text \<open>A key with a qualifier that occurs in another.\<close>

lemma qualified_within:
  fixes f q :: ustr
  assumes "contains_sub (q @ 124 # k) (f @ 124 # v)" and "124 \<notin> set v" and "124 \<notin> set f" and "124 \<notin> set q"
  shows "(\<exists>a. f = a @ q) \<and> contains_sub k v"
proof -
  obtain a b where ab: "f @ 124 # v = a @ q @ 124 # k @ b" using assms(1) by (auto simp: contains_sub_iff)
  have none: "filter (\<lambda>c. c = 124) xs = []" if "124 \<notin> set xs" for xs :: ustr
    using that by (auto simp: filter_empty_conv)
  have "filter (\<lambda>c. c = 124) (f @ 124 # v) = filter (\<lambda>c. c = 124) (a @ q @ 124 # k @ b)" by (simp only: ab)
  then have "filter (\<lambda>c. c = 124) a @ 124 # filter (\<lambda>c. c = 124) (k @ b) = [124]"
    using assms by (simp add: none)
  then have "filter (\<lambda>c. c = 124) a = []" by (cases "filter (\<lambda>c. c = 124) a") auto
  then have "124 \<notin> set a" by (auto simp: filter_empty_conv)
  then have aq: "takeWhile (\<lambda>c. c \<noteq> 124) (a @ q @ 124 # k @ b) = a @ q"
    using assms(4) by (simp add: takeWhile_append)
  have "takeWhile (\<lambda>c. c \<noteq> 124) (f @ 124 # v) = f" using assms(3) by (simp add: takeWhile_append)
  then have fa: "f = a @ q" using ab aq by simp
  then have "v = [] @ k @ b" using ab by simp
  then have "contains_sub k v" unfolding contains_sub_iff by blast
  then show ?thesis using fa by blast
qed

lemma bar_split:
  fixes q f :: ustr
  shows "q @ 124 # a = f @ 124 # b \<Longrightarrow> 124 \<notin> set q \<Longrightarrow> 124 \<notin> set f \<Longrightarrow> q = f \<and> a = b"
proof (induction q arbitrary: f)
  case Nil then show ?case by (cases f) auto
next
  case (Cons c q) then show ?case by (cases f) auto
qed

text \<open>Every test of the feed is of a SYN or of a SYN-ACK.\<close>

definition directed :: "satori_entry list \<Rightarrow> bool" where
  "directed es \<longleftrightarrow> list_all (\<lambda>(entry, tests). list_all (\<lambda>test. dget test ''tcpflag'' \<in> {pstr ''S'', pstr ''SA''}) tests) es"

lemma same_direction:
  "q \<in> {lit ''S'', lit ''SA''} \<Longrightarrow> f \<in> {lit ''S'', lit ''SA''} \<Longrightarrow> f = a @ q \<Longrightarrow> f = q"
  by (auto simp: lit_def Cons_eq_append_conv)

lemma lower_no_bar: "124 \<notin> set v \<Longrightarrow> 124 \<notin> set (lower v)"
  by (auto simp: lower_def lower_char_def split: if_splits)

text \<open>The Satori match of a handshake signature is an entry of the feed with a test of the same direction:
  a SYN signature is never matched by a test for SYN-ACKs, nor the other way round, partial matches included.\<close>

theorem tcp_directions_separate:
  assumes "match_satori_tcp db sig flags = Some m" and "db_satori db ''satori_tcp'' = Some es" and "directed es"
    and "flags \<in> {lit ''S'', lit ''SA''}" and "124 \<notin> set sig"
  shows "\<exists>entry tests test. (entry, tests) \<in> set es \<and> test \<in> set tests \<and> dget test ''tcpflag'' = PStr flags \<and>
           fm_manufacturer m = textv (dget (satori_row entry test (int_val (get_or test ''weight'' (PInt 0)))) ''manufacturer'') \<and>
           (satori_key None test (some_text (dget test ''tcpsig'')) = sig \<or>
            contains_sub (satori_key None test (some_text (dget test ''tcpsig''))) (lower sig))"
proof -
  let ?idx = "satori_index db ''satori_tcp'' ''tcpsig'' (Some ''tcpflag'')"
  obtain e where e: "satori_hit ?idx (flags @ [124]) sig = Some e" "fm_manufacturer m = textv (dget e ''manufacturer'')"
    using assms(1) by (auto simp: match_satori_tcp_def match_satori_def with_answer_def split: if_splits option.splits)
  obtain k where k: "(k, e) \<in> set ?idx" "k = (flags @ [124]) @ sig \<or> contains_sub k ((flags @ [124]) @ lower sig)"
    using satori_hit_key [OF e(1)] by blast
  obtain entry tests test where t: "(entry, tests) \<in> set es" "test \<in> set tests"
      "k = satori_key (Some ''tcpflag'') test (some_text (dget test ''tcpsig''))"
      "e = satori_row entry test (int_val (get_or test ''weight'' (PInt 0)))"
    using satori_index_from [OF assms(2) k(1)] by (auto simp: from_test_def)
  define q and k' where "q = some_text (dget test ''tcpflag'')" and "k' = satori_key None test (some_text (dget test ''tcpsig''))"
  have d: "dget test ''tcpflag'' \<in> {pstr ''S'', pstr ''SA''}"
    using assms(3) t(1,2) by (auto simp: directed_def list_all_iff)
  then have q: "dget test ''tcpflag'' = PStr q" "q \<in> {lit ''S'', lit ''SA''}" by (auto simp: q_def some_text_def)
  have kq: "k = q @ 124 # k'" by (simp add: t(3) q_def k'_def satori_key_def Let_def)
  have bars: "124 \<notin> set q" "124 \<notin> set flags" using q(2) assms(4) by (auto simp: lit_def)
  show ?thesis
  proof (cases "k = (flags @ [124]) @ sig")
    case True
    then have "q = flags" "k' = sig" using kq bars bar_split [of q k' flags sig] by auto
    then show ?thesis using t(1,2,4) e(2) q(1) k'_def by blast
  next
    case False
    then have c: "contains_sub (q @ 124 # k') (flags @ 124 # lower sig)" using k(2) kq by simp
    note within = qualified_within [OF c lower_no_bar [OF assms(5)] bars(2,1)]
    then have "flags = q" "contains_sub k' (lower sig)" using same_direction [OF q(2) assms(4)] by blast+
    then show ?thesis using t(1,2,4) e(2) q(1) \<open>flags = q\<close> k'_def by blast
  qed
qed

section \<open>Announcements without a service\<close>


text \<open>A speaker that announces the TXT record of its host name only.\<close>

definition speaker_frame :: wire_frame where
  "speaker_frame = bare_frame\<lparr>pkt_src := ''00:11:22:33:44:55'', ip_layer := Some (''10.0.0.8'', ''224.0.0.251''),
     udp_layer := Some \<lparr>sport = 5353, dport = 5353, l4_payload = Inr []\<rparr>,
     f_dns := Some \<lparr>dns_qr = True, dns_qd = [],
       dns_an = [\<lparr>rr_name = SText (lit ''speaker.local.''), rr_type = 16, rr_ttl = 120, rr_rdata = None, rr_target = None, rr_port = None\<rparr>],
       dns_ns = [], dns_ar = [], dns_qdcount = None, dns_ancount = None, dns_nscount = None, dns_arcount = None\<rparr>\<rparr>"

lemma speaker_parsed:
  "map_sum id (map_option (\<lambda>p. (protocol p, hw_addr p, cp_fields p))) (parse_mdns speaker_frame) =
    Inr (Some (''mdns'', ''00:11:22:33:44:55'', [(''service_type'', PNone), (''name'', pstr ''speaker'')]))"
  by code_simp

definition no_data :: sig_db where
  "no_data = \<lparr>db_patterns = PatternData0, db_word = is_word_char, db_oui = [], db_p0f = None, db_banners = None, db_recog = None,
     db_combos = None, db_devices = None, db_dhcp = None, db_dhcp_vendor = None, db_dhcpv6 = None, db_dhcpv6_enterprise = None,
     db_iana = None, db_satori = (\<lambda>s. None), db_ja3 = None, db_ja4 = None\<rparr>"

definition no_env :: pipe_env where
  "no_env = \<lparr>analyze = (\<lambda>p. None), match_mac = (\<lambda>m. []), fingerprint_lookup = (\<lambda>p. None), private_ip = (\<lambda>a. True),
     local_mac = (\<lambda>m. False), show1 = (\<lambda>r. [])\<rparr>"


section \<open>The witness of the directions\<close>

text \<open>A workstation and a controller that send the same signature, one in SYNs and one in SYN-ACKs.\<close>

definition plc_feed :: "satori_entry list" where
  "plc_feed =
    [([(''name'', pstr ''Workstation''), (''device_vendor'', pstr ''Dell'')],
      [[(''tcpflag'', pstr ''S''), (''tcpsig'', pstr ''8192:64:1:44:M1460:.''), (''matchtype'', pstr ''exact''), (''weight'', PInt 5)]]),
     ([(''name'', pstr ''PLC''), (''device_vendor'', pstr ''Siemens'')],
      [[(''tcpflag'', pstr ''SA''), (''tcpsig'', pstr ''8192:64:1:44:M1460:.''), (''matchtype'', pstr ''exact''), (''weight'', PInt 3)]])]"

definition plc_data :: sig_db where
  "plc_data = no_data\<lparr>db_satori := (\<lambda>s. if s = ''satori_tcp'' then Some plc_feed else None)\<rparr>"

lemma plc_match:
  "map_option fm_manufacturer (match_satori_tcp plc_data (lit ''8192:64:1:44:M1460:.'') (lit ''SA'')) = Some (Some (lit ''Siemens''))"
  by code_simp

theorem tcp_directions_separate_witness:
  "map_option fm_manufacturer (match_satori_tcp plc_data (lit ''8192:64:1:44:M1460:.'') (lit ''SA'')) = Some (Some (lit ''Siemens'')) \<and>
   (\<exists>entry tests test. (entry, tests) \<in> set plc_feed \<and> test \<in> set tests \<and> dget test ''tcpflag'' = pstr ''SA'' \<and>
      textv (dget (satori_row entry test (int_val (get_or test ''weight'' (PInt 0)))) ''manufacturer'') = Some (lit ''Siemens''))"
proof -
  obtain m where m: "match_satori_tcp plc_data (lit ''8192:64:1:44:M1460:.'') (lit ''SA'') = Some m" "fm_manufacturer m = Some (lit ''Siemens'')"
    using plc_match by (cases "match_satori_tcp plc_data (lit ''8192:64:1:44:M1460:.'') (lit ''SA'')") auto
  have feed: "db_satori plc_data ''satori_tcp'' = Some plc_feed" by (simp add: plc_data_def)
  have d: "directed plc_feed" by code_simp
  have nb: "124 \<notin> set (lit ''8192:64:1:44:M1460:.'')" by code_simp
  obtain entry tests test where "(entry, tests) \<in> set plc_feed" "test \<in> set tests" "dget test ''tcpflag'' = pstr ''SA''"
      "textv (dget (satori_row entry test (int_val (get_or test ''weight'' (PInt 0)))) ''manufacturer'') = Some (lit ''Siemens'')"
    using tcp_directions_separate [OF m(1) feed d _ nb] m(2) by fastforce
  then show ?thesis using plc_match by blast
qed

end
