(* ===== verification/CertaintyProps.thy ===== *)
theory CertaintyProps
  imports LookupProps DnsMatchingProps
begin

text \<open>
  The evidence of a packet comes from its processor, from the address table and from the signature
  lookups; all of it has a certainty between 0 and 1, before and after cross-validation.
\<close>

section \<open>Matches\<close>

definition unit_value :: "rat \<Rightarrow> bool" where
  "unit_value c \<longleftrightarrow> 0 \<le> c \<and> c \<le> 1"

definition sure_matches :: "fp_match list \<Rightarrow> bool" where
  "sure_matches ms \<longleftrightarrow> list_all (\<lambda>m. unit_value (fm_confidence m)) ms"

lemma sure_matches_simps [simp]:
  "sure_matches []" "sure_matches (m # ms) \<longleftrightarrow> unit_value (fm_confidence m) \<and> sure_matches ms"
  "sure_matches (ms @ ns) \<longleftrightarrow> sure_matches ms \<and> sure_matches ns"
  by (simp_all add: sure_matches_def)

text \<open>A method that answers with a match.\<close>

definition sure_match :: "fp_match option \<Rightarrow> bool" where
  "sure_match x \<longleftrightarrow> sure_matches (opt_hit x)"

lemma sure_match_simps [simp]:
  "sure_match None" "sure_match (Some m) \<longleftrightarrow> unit_value (fm_confidence m)"
  by (simp_all add: sure_match_def)

lemma sure_matchD: "sure_match x \<Longrightarrow> sure_matches (opt_hit x)"
  by (simp add: sure_match_def)

lemma sure_matches_if: "(b \<Longrightarrow> sure_matches ms) \<Longrightarrow> sure_matches (if b then ms else [])"
  by simp

lemma sure_match_map: "(\<And>y. x = Some y \<Longrightarrow> unit_value (fm_confidence (f y))) \<Longrightarrow> sure_match (map_option f x)"
  by (cases x) auto

lemma sure_match_first: "(\<And>y. sure_match (f y)) \<Longrightarrow> sure_match (first_some f xs)"
  by (induction xs) (simp_all split: option.splits, metis sure_match_simps(2))

lemma sure_match_find: "(\<And>y. unit_value (fm_confidence (f y))) \<Longrightarrow> sure_match (map_option f x)"
  by (cases x) auto

lemma fm_confidence_fmatch [simp]: "fm_confidence (fmatch s k c raw) = c"
  by (simp add: fmatch_def)

lemma fm_confidence_answer [simp]: "fm_confidence (with_answer d m) = fm_confidence m"
  by (simp add: with_answer_def)

lemma unit_literals [simp]:
  "unit_value (numeral n / numeral d) \<longleftrightarrow> (numeral n :: rat) \<le> numeral d" "unit_value (1 / numeral d)" "unit_value 0"
  by (simp_all add: unit_value_def)

lemma unit_conf_of: "percent (num_of v) \<Longrightarrow> unit_value (conf_of v)"
  by (auto simp: conf_of_def percent_def unit_value_def Let_def)

lemma unit_confident: "confident (Some d) \<Longrightarrow> unit_value (conf_of (dget d ''confidence''))"
  by (auto simp: dget_def get_or_def intro!: unit_conf_of split: option.splits)

section \<open>Data\<close>

text \<open>Data whose ratings are percentages, and parts of one for router advertisements.\<close>

definition db_rated :: "sig_db \<Rightarrow> bool" where
  "db_rated db \<longleftrightarrow> data_rated (db_patterns db) \<and>
     list_all (\<lambda>(c, es). list_all (\<lambda>e. percent (num_of (get_or (be_info e) ''certainty'' (PInt 50)))) es) (pd_banners (db_patterns db)) \<and>
     list_all (\<lambda>e. percent (of_int (oe_confidence e))) (map snd (pd_opt55 (db_patterns db))) \<and>
     list_all (\<lambda>e. percent (of_int (oe_confidence e))) (map snd (pd_oro (db_patterns db))) \<and>
     list_all (\<lambda>d. percent (num_of (get_or d ''confidence'' (PInt 50)))) (map snd (pd_vendor_class (db_patterns db))) \<and>
     list_all (\<lambda>d. unit_value (num_of (dget d ''confidence''))) (pd_ra (db_patterns db)) \<and>
     list_all (\<lambda>d. percent (num_of (get_or d ''confidence'' (PInt 80)))) (case db_p0f db of None \<Rightarrow> [] | Some es \<Rightarrow> es) \<and>
     list_all (\<lambda>d. percent (num_of (get_or d ''confidence'' (PInt 65)))) (case db_banners db of None \<Rightarrow> [] | Some es \<Rightarrow> map snd es)"

section \<open>Answers of the pattern matchers\<close>

lemma banner_hit_confident:
  "list_all (\<lambda>e. percent (num_of (get_or (be_info e) ''certainty'' (PInt 50)))) es \<Longrightarrow> confident (banner_hit x b es)"
  by (induction x b es rule: banner_hit.induct) (auto split: option.splits)

lemma first_some_from: "first_some f xs = None \<or> (\<exists>x \<in> set xs. first_some f xs = f x)"
  by (induction xs) (auto split: option.splits)

lemma first_some_confident: "(\<And>x. confident (f x)) \<Longrightarrow> confident (first_some f xs)"
  using first_some_from [of f xs] by (metis confident_None)

lemma banner_category:
  assumes "db_rated db"
  shows "list_all (\<lambda>e. percent (num_of (get_or (be_info e) ''certainty'' (PInt 50)))) (get_or (pd_banners (db_patterns db)) c [])"
proof (cases "dict_get (pd_banners (db_patterns db)) c")
  case (Some es)
  then have "(c, es) \<in> set (pd_banners (db_patterns db))" by (rule dict_get_mem)
  then show ?thesis using assms Some by (auto simp: db_rated_def list_all_iff get_or_def)
qed (simp add: get_or_def)

lemma match_banner_confident:
  assumes "db_rated db" shows "confident (match_banner (db_patterns db) proto b)"
proof -
  let ?ext = "first_some (\<lambda>c. banner_hit True b (get_or (pd_banners (db_patterns db)) c [])) EXTENDED_PRIORITY"
  have "confident ?ext" by (rule first_some_confident, rule banner_hit_confident, rule banner_category [OF assms])
  moreover have "list_all (\<lambda>e. percent (num_of (get_or (be_info e) ''certainty'' (PInt 50))))
      (concat (map (\<lambda>c. get_or (pd_banners (db_patterns db)) c []) cs))" for cs
    using banner_category [OF assms] by (auto simp: list_all_iff)
  ultimately show ?thesis
    using banner_category [OF assms]
    by (cases ?ext) (auto simp: match_banner_def intro!: banner_hit_confident split: option.splits simp del: confident_Some)
qed

lemma opt_answer_get [simp]: "dict_get (opt_answer e c s) ''confidence'' = Some (PInt c)"
  by (simp add: opt_answer_def)

lemma num_of_simps [simp]: "num_of (PInt i) = of_int i" "num_of (PFloat r) = r"
  by (simp_all add: num_of_def)

lemma opt_answer_confident: "confident (Some (opt_answer e c s)) \<longleftrightarrow> percent (of_int c)"
  by simp

lemma dict_get_values: "list_all P (map snd d) \<Longrightarrow> dict_get d k = Some e \<Longrightarrow> P e"
  by (auto simp: list_all_iff dest!: dict_get_mem)

lemma dict_set_values: "list_all P (map snd d) \<Longrightarrow> P e \<Longrightarrow> list_all P (map snd (dict_set d k e))"
  by (induction d k e rule: dict_set.induct) auto

lemma load_opt55_values: "list_all P (map snd raw) \<Longrightarrow> list_all P (map snd (load_opt55 raw))"
proof -
  have "list_all P (map snd raw) \<Longrightarrow> list_all P (map snd d) \<Longrightarrow> list_all P (map snd (foldl (\<lambda>d (key, e).
     let d = dict_set d key e
     in case key_opts key of
          None \<Rightarrow> d
        | Some xs \<Rightarrow>
            let sorted_key = render_opts (sort xs)
            in if sorted_key \<noteq> key \<and> dict_get d sorted_key = None then dict_set d sorted_key e else d) d raw))" for d
    by (induction raw arbitrary: d) (auto simp: Let_def dict_set_values split: option.splits)
  then show "list_all P (map snd raw) \<Longrightarrow> list_all P (map snd (load_opt55 raw))" by (simp add: load_opt55_def)
qed

text \<open>The best partial match of a table.\<close>

lemma best_partial:
  assumes "\<And>acc k e. P e \<Longrightarrow> confident (fst acc) \<Longrightarrow> confident (fst (step acc (k, e)))" and "list_all P (map snd es)"
    and "confident (fst acc)"
  shows "confident (fst (foldl step acc es))"
  using assms(2,3)
proof (induction es arbitrary: acc)
  case (Cons x es)
  then show ?case using assms(1) [of "snd x" acc "fst x"] by simp
qed simp

lemma subset_penalty_nonneg:
  assumes "n \<le> length (remdups xs)" shows "0 \<le> subset_penalty xs n"
proof -
  have "0 \<le> (of_nat (length (remdups xs)) - of_nat n :: rat)" using assms by simp
  then show ?thesis by (simp add: subset_penalty_def Let_def)
qed

lemma subset_step_confident:
  assumes "percent (of_int (oe_confidence e))" and "confident (fst acc)"
  shows "confident (fst (subset_step xs acc (k, e)))"
proof (cases "subset_eligible xs (snd acc) k e")
  case True
  then obtain ks where ks: "key_opts k = Some ks" "set ks \<subseteq> set xs"
    by (auto simp: subset_eligible_def Let_def split: option.splits)
  then have "length (remdups ks) \<le> length (remdups xs)" by (simp add: length_remdups_card_conv card_mono)
  then have "0 \<le> subset_penalty xs (length (remdups ks))" by (rule subset_penalty_nonneg)
  then have "percent (of_int (max (oe_confidence e - subset_penalty xs (length (remdups ks))) 20))"
    using assms(1) by (auto simp: percent_def max_def)
  then show ?thesis using True ks by (simp add: subset_step_def split_beta Let_def)
qed (use assms in \<open>simp add: subset_step_def split_beta\<close>)

lemma match_opt55_confident:
  assumes "db_rated db" shows "confident (match_dhcp_opt55 (db_patterns db) t)"
proof -
  have r: "list_all (\<lambda>e. percent (of_int (oe_confidence e))) (map snd (load_opt55 (pd_opt55 (db_patterns db))))"
    using assms by (intro load_opt55_values) (simp add: db_rated_def)
  note exact = dict_get_values [OF r]
  have partial: "confident (fst (foldl (subset_step xs) (None, 0) (load_opt55 (pd_opt55 (db_patterns db)))))" for xs
    by (rule best_partial [where P = "\<lambda>e. percent (of_int (oe_confidence e))", OF _ r])
      (simp_all add: subset_step_confident del: confident_Some)
  show ?thesis
    using exact partial by (simp add: match_dhcp_opt55_def Let_def opt_answer_confident split: option.splits del: confident_Some)
qed

lemma oro_step_confident:
  "percent (of_int (oe_confidence e)) \<Longrightarrow> confident (fst acc) \<Longrightarrow> confident (fst (oro_step xs acc (k, e)))"
  by (auto simp: oro_step_def split_beta Let_def opt_answer_confident percent_def max_def simp del: confident_Some)

lemma match_oro_confident:
  assumes "db_rated db" shows "confident (match_dhcpv6_oro (db_patterns db) t)"
proof -
  have r: "list_all (\<lambda>e. percent (of_int (oe_confidence e))) (map snd (pd_oro (db_patterns db)))"
    using assms by (simp add: db_rated_def)
  note exact = dict_get_values [OF r]
  have partial: "confident (fst (foldl (oro_step xs) (None, 0) (pd_oro (db_patterns db))))" for xs
    by (rule best_partial [where P = "\<lambda>e. percent (of_int (oe_confidence e))", OF _ r])
      (simp_all add: oro_step_confident del: confident_Some)
  show ?thesis
    using exact partial by (simp add: match_dhcpv6_oro_def Let_def opt_answer_confident split: option.splits del: confident_Some)
qed

lemma vc_patterns_rated: "(r, ty, mfr, os, c) \<in> set VC_PATTERNS \<Longrightarrow> percent (of_int c)"
  by (auto simp: VC_PATTERNS_def percent_def)

lemma match_vc_confident: "db_rated db \<Longrightarrow> confident (match_dhcpv6_vendor_class (db_patterns db) t)"
  by (auto simp: match_dhcpv6_vendor_class_def db_rated_def list_all_iff num_of_def dest!: find_in vc_patterns_rated split: option.splits)

lemma dns_result_rated: "dict_get (dns_result m ty os c note) ''confidence'' = Some (PFloat c)"
  by (simp add: dns_result_def)

lemma ai_result_rated: "dict_get (ai_result c s k) ''confidence'' = Some (PFloat c)"
  by (simp add: ai_result_def dns_result_def)

lemma dns_rules_rated:
  "list_all (\<lambda>r. case dict_get (snd r) ''confidence'' of Some (PFloat c) \<Rightarrow> unit_value c | _ \<Rightarrow> False) DNS_RULES"
  unfolding dns_sections doms_def either_def
  by (simp add: dns_result_rated ai_result_rated list.pred_map comp_def split_beta unit_value_def list.pred_True)

lemma match_dns_rated:
  assumes "match_dns_query q = Some d" shows "unit_value (num_of (get_or d ''confidence'' (PFloat (50 / 100))))"
proof -
  obtain t where "(t, d) \<in> set DNS_RULES"
    using assms first_answer_rule [of "lower q" DNS_RULES d] by (auto simp: match_dns_query_def split: if_splits)
  then have "case dict_get d ''confidence'' of Some (PFloat c) \<Rightarrow> unit_value c | _ \<Rightarrow> False"
    using dns_rules_rated by (auto simp: list_all_iff)
  then show ?thesis by (simp add: get_or_def split: option.splits pyval.splits)
qed

lemma ra_rated:
  assumes "db_rated db" and "match_ra_fingerprint (db_patterns db) h m o' = Some d"
  shows "unit_value (num_of (get_or d ''confidence'' (PFloat (50 / 100))))"
proof -
  have r: "\<forall>fp \<in> set (pd_ra (db_patterns db)). unit_value (num_of (dget fp ''confidence''))"
    using assms(1) by (simp add: db_rated_def list_all_iff)
  show ?thesis
    using assms(2) r
    by (auto simp: match_ra_fingerprint_def get_or_def unit_value_def dest!: find_in split: option.splits if_splits)
qed

lemma ja3_rated:
  assumes "ja3_match h = Some e" shows "percent (of_nat (Tls.confidence e))"
proof -
  have "list_all (\<lambda>x. percent (of_nat (Tls.confidence (snd x)))) KNOWN_JA3" by (simp add: KNOWN_JA3_def percent_def)
  moreover obtain k where "(k, e) \<in> set KNOWN_JA3" using assms by (auto simp: ja3_match_def dest!: find_in)
  ultimately show ?thesis by (auto simp: list_all_iff)
qed

section \<open>The lookups\<close>

lemma sure_lookup_mac: "sure_matches (lookup_mac db m)"
  by (simp add: lookup_mac_def oui_match_def split: option.splits prod.splits)

lemma sure_tcp_signature: "db_rated db \<Longrightarrow> sure_match (match_tcp_signature db sig)"
  by (auto simp: match_tcp_signature_def db_rated_def list_all_iff intro!: sure_match_map unit_conf_of dest!: find_in
      split: option.splits)

lemma sure_recog: "sure_match (match_recog db k t)"
proof -
  have "sure_match (recog_hit c ty fp)" for c ty fp by (simp add: recog_hit_def Let_def split: option.splits)
  then show ?thesis by (simp add: match_recog_def Let_def sure_match_first split: option.splits)
qed

lemma sure_cached_banner:
  assumes "db_rated db" shows "sure_match (cached_banner db proto b)"
proof (cases "db_banners db")
  case (Some es)
  then have "\<forall>e \<in> set es. percent (num_of (get_or (snd e) ''confidence'' (PInt 65)))"
    using assms by (auto simp: db_rated_def list_all_iff)
  then show ?thesis using Some
    by (auto simp: cached_banner_def intro!: sure_match_map unit_conf_of dest!: find_in)
qed (simp add: cached_banner_def)

lemma sure_banner_lookup:
  assumes "db_rated db" shows "sure_match (lookup_banner db proto b)"
proof (cases "match_banner (db_patterns db) proto b")
  case (Some d)
  then show ?thesis
    using match_banner_confident [OF assms, of proto b] unit_confident [of d] by (simp add: lookup_banner_def)
next
  case None
  then show ?thesis
    using sure_recog [of db proto b] sure_cached_banner [OF assms, of proto b]
    by (cases "cached_banner db proto b") (simp_all add: lookup_banner_def)
qed

lemma sure_satori: "unit_value c \<Longrightarrow> sure_match (match_satori db s f c q v)"
  by (simp add: match_satori_def split: option.splits)

lemma sure_satori_matches:
  "sure_match (match_satori_dhcp db t)" "sure_match (match_satori_useragent db t)" "sure_match (match_satori_ssh db t)"
  "sure_match (match_satori_smb db t)" "sure_match (match_satori_web db t)" "sure_match (match_satori_sip db t)"
  "sure_match (match_satori_tcp db t f)"
  unfolding match_satori_dhcp_def match_satori_useragent_def match_satori_ssh_def match_satori_smb_def match_satori_web_def
    match_satori_sip_def match_satori_tcp_def
  by (auto intro!: sure_satori sure_match_first simp del: first_some.simps)

lemma sure_answer:
  "confident a \<Longrightarrow> (\<And>d. fm_confidence (f d) = conf_of (dget d ''confidence'')) \<Longrightarrow> sure_match (map_option f a)"
  by (cases a) (auto simp: unit_confident simp del: confident_Some)

lemma sure_vendor_class: "db_rated db \<Longrightarrow> sure_matches (vendor_class_hits db t)"
proof -
  assume db: "db_rated db"
  have "sure_match (resolve_huginn_dhcp_vendor db t)" by (simp add: resolve_huginn_dhcp_vendor_def Let_def split: option.splits)
  moreover have "sure_match (map_option (\<lambda>d. opt_match ''dhcp_vendor'' ''pattern'' d [(''vendor_class'', PStr t)])
      (match_dhcp_opt60 (db_patterns db) t))"
    using db by (intro sure_answer match_opt60_confident) (simp_all add: opt_match_def db_rated_def)
  ultimately show ?thesis by (simp add: vendor_class_hits_def Let_def sure_match_def del: sure_match_simps)
qed

lemma sure_options: "db_rated db \<Longrightarrow> sure_matches (option_hits db t)"
proof -
  assume db: "db_rated db"
  have "sure_match (resolve_huginn_combo db t)" by (simp add: resolve_huginn_combo_def Let_def split: option.splits)
  moreover have "sure_match (resolve_huginn_dhcp_sig db t)" by (simp add: resolve_huginn_dhcp_sig_def split: option.splits)
  moreover have "sure_match (map_option (\<lambda>d. opt_match ''dhcp''
         (map char_of (some_text (get_or d ''match_source'' (pstr ''pattern'')))) d [(''options'', PStr t)])
       (match_dhcp_opt55 (db_patterns db) t))"
    using match_opt55_confident [OF db] by (rule sure_answer) (simp add: opt_match_def)
  ultimately show ?thesis by (simp add: option_hits_def sure_match_def del: sure_match_simps)
qed

lemma sure_dhcp: "db_rated db \<Longrightarrow> sure_matches (lookup_dhcp db o55 o60)"
  by (simp add: lookup_dhcp_def sure_vendor_class sure_options)

lemma sure_enterprise: "sure_matches (enterprise_hits db i)"
proof -
  have "sure_match (resolve_huginn_dhcpv6_enterprise db i)" "sure_match (resolve_iana_enterprise db i)"
    by (simp_all add: resolve_huginn_dhcpv6_enterprise_def resolve_iana_enterprise_def Let_def split_beta sure_match_find)
  moreover have "sure_match (map_option (\<lambda>d.
             (fmatch ''dhcpv6'' ''exact'' (75 / 100) [(''enterprise_id'', PInt i), (''device_types'', dget d ''device_types''),
                (''match_source'', dget d ''match_source'')])
             \<lparr>fm_manufacturer := textv (dget d ''manufacturer'')\<rparr>) (match_dhcpv6_enterprise (db_patterns db) i))"
    by (rule sure_match_find) simp
  ultimately show ?thesis by (simp add: enterprise_hits_def Let_def sure_match_def del: sure_match_simps)
qed

lemma sure_dhcpv6:
  assumes "db_rated db" shows "sure_matches (lookup_dhcpv6 db oro vc eid)"
proof -
  have a: "sure_matches (opt_hit (map_option (\<lambda>d. opt_match s k d (raw d)) a))" if "confident a" for s k raw a
    using that by (intro sure_matchD sure_answer) (simp_all add: opt_match_def)
  have h: "sure_matches (opt_hit (resolve_huginn_dhcpv6 db t))" for t
    by (rule sure_matchD) (simp add: resolve_huginn_dhcpv6_def split_beta sure_match_find)
  have e: "sure_matches (case eid of None \<Rightarrow> [] | Some i \<Rightarrow> enterprise_hits db i)"
    by (simp add: sure_enterprise split: option.split)
  show ?thesis
    unfolding lookup_dhcpv6_def sure_matches_simps(3)
    by (intro conjI sure_matches_if a h e match_oro_confident [OF assms] match_vc_confident [OF assms] | unfold sure_matches_simps(3))+
qed

lemma sure_mdns_lookup:
  assumes "db_rated db" and "lookup_mdns db v name fs = Inr ms" shows "sure_matches ms"
proof (cases v)
  case (PStr st)
  define by_pattern where "by_pattern = (case match_mdns_service (db_patterns db) st name of
                None \<Rightarrow> []
              | Some d \<Rightarrow> [with_answer d (fmatch ''mdns'' ''pattern'' (conf_of (dget d ''confidence''))
                  [(''service_type'', PStr st), (''name'', opt_str name), (''match_source'', dget d ''match_source'')])])"
  have "sure_matches by_pattern"
  proof (cases "match_mdns_service (db_patterns db) st name")
    case (Some d)
    have "data_rated (db_patterns db)" using assms(1) by (simp add: db_rated_def)
    then show ?thesis
      using Some match_mdns_confident [of "db_patterns db" st name] unit_confident [of d] by (simp add: by_pattern_def)
  qed (simp add: by_pattern_def)
  then show ?thesis
    using assms(2) unfolding lookup_mdns_def PStr pyval.case Let_def by_pattern_def [symmetric]
    by (auto split: option.splits pyval.splits)
qed (use assms in \<open>simp_all add: lookup_mdns_def\<close>)

lemma sure_ssdp_lookup: "db_rated db \<Longrightarrow> sure_match (lookup_ssdp db server st)"
proof -
  assume "db_rated db"
  then have "confident (match_ssdp_server (db_patterns db) h)" for h by (simp add: db_rated_def match_ssdp_server_confident)
  then have "unit_value (conf_of (dget d ''confidence''))" if "match_ssdp_server (db_patterns db) h = Some d" for h d
    using that unit_confident [of d] by metis
  then show ?thesis by (simp add: lookup_ssdp_def split: option.split)
qed

lemma sure_netbios_lookup: "sure_match (lookup_netbios q ty s)"
proof -
  have "confident (match_netbios_suffix i)" for i
    by (simp add: match_netbios_suffix_def percent_def split: option.split prod.split)
  then have "unit_value (conf_of (dget d ''confidence''))" if "match_netbios_suffix i = Some d" for i d
    using that unit_confident [of d] by metis
  moreover have "unit_value (conf_of (dget (match_llmnr_query q) ''confidence''))"
    by (intro unit_confident) (simp add: match_llmnr_query_def percent_def)
  ultimately show ?thesis
    by (auto simp: lookup_netbios_def Let_def bind_eq_Some_conv split: option.split if_splits)
qed

lemma sure_tls_lookups: "sure_match (match_ja3 db h)" "sure_match (match_ja4 db g)" "sure_match (try_host_patterns db s t)"
  using ja3_rated
  by (auto simp: match_ja3_def match_ja4_def try_host_patterns_def Let_def split_beta intro!: sure_match_find unit_conf_of
      split: option.split)

lemma sure_ua: "sure_match (match_user_agent ua)"
proof -
  have "unit_value c" if "ua_device ua = Some (c, x)" for c x
    using that
    by (auto simp: ua_device_def UA_DEVICES_def UA_CONSOLES_def unit_value_def Let_def split: if_splits)
  then show ?thesis by (auto simp: match_user_agent_def Let_def split: option.split prod.split)
qed

lemma sure_ttl: "sure_match (match_ttl n)"
  by (simp add: match_ttl_def)

lemma sure_dns_lookup: "sure_match (lookup_dns q ty)"
  unfolding lookup_dns_def by (rule sure_match_map) (simp only: fm_confidence_answer fm_confidence_fmatch match_dns_rated)

lemma sure_icmpv6: "db_rated db \<Longrightarrow> sure_match (lookup_icmpv6 db h m o')"
  unfolding lookup_icmpv6_def by (rule sure_match_map) (simp only: fm_confidence_answer fm_confidence_fmatch ra_rated)

lemma sure_hostname: "db_rated db \<Longrightarrow> sure_match (lookup_hostname db t)"
  unfolding lookup_hostname_def
  by (intro sure_answer match_hostname_confident) (simp_all add: db_rated_def)

text \<open>All lookups of a packet.\<close>

lemmas sure_lookups = sure_dhcp sure_dhcpv6 sure_recog sure_satori_matches sure_hostname sure_lookup_mac sure_icmpv6
  sure_ttl sure_tcp_signature sure_banner_lookup sure_tls_lookups sure_ua sure_netbios_lookup sure_dns_lookup sure_ssdp_lookup

lemma sure_matches_filter: "sure_matches ms \<Longrightarrow> (\<And>m. fm_confidence (f m) = fm_confidence m) \<Longrightarrow> sure_matches (map f (filter P ms))"
  by (auto simp: sure_matches_def list_all_iff)

lemma sure_protocols:
  assumes "db_rated db"
  shows "sure_matches (dhcpv4_hits db p)" "sure_matches (dhcpv6_hits db p)" "sure_matches (icmpv6_hits db p)"
    "sure_matches (txt_record_hit db p)" "sure_matches (tcp_hits db p)" "sure_matches (banner_hits db p)"
    "sure_matches (tls_hits db p)" "sure_matches (ua_hits db p)" "sure_matches (netbios_hits p)" "sure_matches (dns_hits p)"
    "sure_matches (opt_hit (lookup_ssdp db server st))"
proof -
  have sip: "sure_matches (sip_hits db p b)" for b
    unfolding sip_hits_def Let_def sure_matches_simps
    by (intro conjI sure_matchD sure_match_first sure_lookups)
  have smb: "sure_matches (smb_hits db p)"
    unfolding smb_hits_def sure_matches_simps
    by (intro conjI sure_matches_if sure_matchD sure_match_first sure_lookups) (simp add: sure_lookups)
  have hit: "sure_match x \<Longrightarrow> sure_matches (opt_hit x)" for x by (rule sure_matchD)
  show "sure_matches (dhcpv4_hits db p)" "sure_matches (dhcpv6_hits db p)"
    unfolding dhcpv4_hits_def dhcpv6_hits_def Let_def sure_matches_simps
    by (intro conjI sure_matches_if sure_matches_filter hit sure_lookups assms; simp)+
  show "sure_matches (icmpv6_hits db p)"
    by (auto simp: icmpv6_hits_def intro!: hit sure_icmpv6 assms split: pyval.split)
  show "sure_matches (txt_record_hit db p)"
    by (auto simp: txt_record_hit_def split_beta intro!: hit sure_match_first sure_recog split: pyval.split)
  show "sure_matches (tcp_hits db p)" "sure_matches (tls_hits db p)" "sure_matches (netbios_hits p)"
    "sure_matches (opt_hit (lookup_ssdp db server st))"
    unfolding tcp_hits_def tls_hits_def netbios_hits_def Let_def sure_matches_simps lookup_tls_sni_def
    by (intro conjI sure_matches_if hit sure_lookups assms; simp add: sure_lookups)+
  show "sure_matches (ua_hits db p)" "sure_matches (dns_hits p)"
    unfolding ua_hits_def dns_hits_def Let_def
    by (simp_all add: hit sure_lookups)
  show "sure_matches (banner_hits db p)"
    unfolding banner_hits_def Let_def
    by (simp add: hit sip smb sure_lookups assms)
qed

lemma sure_pipeline_lookup:
  assumes "db_rated db" and "pipeline_lookup db p = Some ms" shows "sure_matches ms"
proof (cases "protocol p = ''mdns''")
  case True
  then have "mdns_hits db p = Some ms" using assms(2) by (simp add: pipeline_lookup_def)
  then show ?thesis using sure_mdns_lookup [OF assms(1)] sure_protocols(4) [OF assms(1)]
    by (auto simp: mdns_hits_def split: sum.splits)
next
  case False
  then show ?thesis using assms(2) sure_protocols [OF assms(1)]
    unfolding pipeline_lookup_def Let_def by (auto split: if_splits)
qed

section \<open>The evidence of a packet\<close>

lemma sure_evidence: "sure_matches ms \<Longrightarrow> sure (map (match_to_evidence now) ms)"
  by (auto simp: sure_def sure_matches_def list_all_iff unit_value_def match_to_evidence_def)

lemma sure_mac_lookup:
  assumes "sure evs" shows "sure (snd (mac_lookup (with_lookups db env) now m (st, evs)))"
  using assms sure_evidence [OF sure_lookup_mac, of now db m]
  by (auto simp: mac_lookup_def with_lookups_def Let_def split: option.splits)

lemma sure_protocol_lookup:
  assumes "db_rated db" and "sure evs" shows "sure (snd (protocol_lookup (with_lookups db env) now p (st, evs)))"
  using assms(2) sure_evidence sure_pipeline_lookup [OF assms(1)]
  by (auto simp: protocol_lookup_def with_lookups_def Let_def split: option.splits)

lemma validate_certainty: "0 \<le> certainty e \<Longrightarrow> certainty e \<le> 1 \<Longrightarrow>
   0 \<le> certainty (validate_evidence infra rv others e) \<and> certainty (validate_evidence infra rv others e) \<le> 1"
  by (auto simp: validate_evidence_def blank_evidence_def min_def)

lemma sure_update: "sure es \<Longrightarrow> 0 \<le> certainty e \<Longrightarrow> certainty e \<le> 1 \<Longrightarrow> sure (es[i := e])"
  by (auto simp: sure_def dest!: set_update_subset_insert [THEN subsetD])

lemma sure_validated:
  assumes "sure es" and "\<forall>i \<in> set is. i < n" and "length es = n"
  shows "sure (foldl (\<lambda>es i. es[i := validate_evidence infra rv (others es i) (es ! i)]) es is)"
  using assms
proof (induction "is" arbitrary: es)
  case (Cons i js)
  have "es ! i \<in> set es" using Cons.prems by simp
  then have b: "0 \<le> certainty (es ! i)" "certainty (es ! i) \<le> 1" using Cons.prems(1) unfolding sure_def by blast+
  have "sure (es[i := validate_evidence infra rv (others es i) (es ! i)])"
    using validate_certainty [OF b] Cons.prems(1) by (intro sure_update) auto
  then show ?case unfolding foldl.simps by (rule Cons.IH) (use Cons.prems in auto)
qed simp

lemma sure_cross_validate: "sure evs \<Longrightarrow> sure (cross_validate infra rv buf evs)"
  unfolding cross_validate_def by (auto intro!: sure_validated)


text \<open>A NetBIOS name: two pieces of evidence of the processor and one of the lookups.\<close>

abbreviation bare_env :: pipe_env where
  "bare_env \<equiv> with_lookups no_data (no_env\<lparr>analyze := run_processor 0 sample_patterns\<rparr>)"

lemma netbios_lookup: "map_option (map fm_confidence) (pipeline_lookup no_data sample_netbios) = Some [75 / 100]"
  "map_option (map (\<lambda>m. (fm_manufacturer m, fm_vendor m))) (pipeline_lookup no_data sample_netbios) = Some [(None, None)]"
  by (simp_all add: pipeline_lookup_def netbios_hits_def lookup_netbios_def match_llmnr_query_def sample_netbios_def captured_def
      cp_get_def get_or_def dget_def some_text_def py_truthy_def conf_of_def fmatch_def lit_def Let_def)

lemma no_address_data: "lookup_mac no_data m = []"
  by (simp add: lookup_mac_def no_data_def Let_def OUI_LENGTHS_def)

lemma netbios_vendors: "map vendor (analyze_netbios 0 sample_patterns sample_netbios) = [None, None]"
  using sample_match
  by (simp add: analyze_netbios_def sample_netbios_def captured_def ftext_def cp_get_def get_or_def textv_def truthy_def
      match_evd_def dget_def lit_def Let_def)

lemma unclaimed_votes: "\<forall>e \<in> set evs. vendor e = None \<Longrightarrow> vendor_votes evs = []"
proof -
  have "\<forall>e \<in> set evs. vendor e = None \<Longrightarrow> foldl (\<lambda>vs e. if truthy (vendor e)
     then dict_set vs (the (vendor e)) (get_or vs (the (vendor e)) 0 + certainty e) else vs) vs evs = vs" for vs
    by (induction evs) (auto simp: truthy_def)
  then show "\<forall>e \<in> set evs. vendor e = None \<Longrightarrow> vendor_votes evs = []" by (simp add: vendor_votes_def)
qed

lemma netbios_evidence:
  "\<exists>m. fm_confidence m = 75 / 100 \<and>
     snd (gather_evidence bare_env 0 0 sample_netbios pipe0) =
       analyze_netbios 0 sample_patterns sample_netbios @ [match_to_evidence 0 m]"
proof -
  obtain m where m: "pipeline_lookup no_data sample_netbios = Some [m]" "fm_confidence m = 75 / 100"
      "fm_manufacturer m = None" "fm_vendor m = None"
    using netbios_lookup(1,2) by auto
  let ?evs = "analyze_netbios 0 sample_patterns sample_netbios @ [match_to_evidence 0 m]"
  have "\<forall>v \<in> set (map vendor ?evs). v = None"
    unfolding map_append netbios_vendors using m(3,4) by (simp add: match_to_evidence_def or_else_def)
  then have votes: "vendor_votes ?evs = []" by (intro unclaimed_votes) simp
  have "snd (gather_evidence bare_env 0 0 sample_netbios pipe0) = ?evs"
    using votes
    by (simp add: gather_evidence_def with_lookups_def sample_netbios_runs mac_lookup_def protocol_lookup_def pipe0_def
        no_address_data m(1) evict_stale_macs_def reference_vendor_def cross_validate_def buffer_of_def get_or_def truthy_def Let_def)
  then show ?thesis using m(2) by blast
qed


end
