(* ===== verification/DeviceTypes.thy ===== *)
theory DeviceTypes
  imports Signatures
begin

text \<open>
  The classification half of \<open>topology.py\<close>: the tables of device types, and the functions that
  normalise a type, infer it from the manufacturer and refine it by host name and services; and
  \<open>connection_type.py\<close>, whether a device is wired or wireless.  Texts are code points; the tables keep
  the order of the source, in which a substring that comes first wins.
\<close>

section \<open>Tables\<close>

definition DEVICE_TYPE_NORMALIZE_1 :: "(string \<times> string) list" where
  "DEVICE_TYPE_NORMALIZE_1 =
    [(''Router'', ''router''), (''Switch'', ''switch''), (''Computer'', ''workstation''),
     (''computer'', ''workstation''), (''Printer'', ''printer''), (''Server'', ''server''),
     (''UniFi Switch'', ''switch''), (''UniFi AP'', ''access_point''), (''UniFi Gateway'', ''router''),
     (''UniFi Dream Machine'', ''router''), (''UniFi Dream Machine Pro'', ''router''),
     (''UniFi Dream Machine Pro Max'', ''router''), (''UniFi Dream Machine Pro SE'', ''router''),
     (''UniFi Dream Machine SE'', ''router''), (''UniFi Dream Router'', ''router''),
     (''UniFi Cloud Gateway'', ''router''), (''UniFi Security Gateway'', ''router''), (''EdgeRouter'', ''router''),
     (''U6 Lite'', ''access_point''), (''U6 LR'', ''access_point''), (''U6 Pro'', ''access_point''),
     (''U6 Enterprise'', ''access_point''), (''U6 Mesh'', ''access_point''), (''U6 In-Wall'', ''access_point''),
     (''U6 Enterprise In-Wall'', ''access_point''), (''U6 Extender'', ''access_point''), (''U6+'', ''access_point''),
     (''U7 Pro'', ''access_point''), (''U7 Pro Max'', ''access_point''), (''U7 Pro Wall'', ''access_point''),
     (''U7 Outdoor'', ''access_point''), (''UAP'', ''access_point''), (''UAP-AC-Lite'', ''access_point''),
     (''UAP-AC-LR'', ''access_point''), (''UAP-AC-Pro'', ''access_point''), (''UAP-AC-EDU'', ''access_point''),
     (''UAP-AC-HD'', ''access_point''), (''UAP-AC-SHD'', ''access_point''), (''UAP-AC-Mesh'', ''access_point''),
     (''UAP-AC-Mesh-Pro'', ''access_point''), (''UAP-AC-IW'', ''access_point''),
     (''UAP-AC-IW-Pro'', ''access_point''), (''UAP-IW-HD'', ''access_point''), (''UAP-nanoHD'', ''access_point''),
     (''UAP-FlexHD'', ''access_point''), (''UAP-BeaconHD'', ''access_point''), (''nanoHD'', ''access_point''),
     (''FlexHD'', ''access_point''), (''BeaconHD'', ''access_point''), (''UBB'', ''wireless_bridge''),
     (''UniFi Building Bridge'', ''wireless_bridge''), (''UniFi Protect'', ''camera''),
     (''UniFi Door Access'', ''smart_lock''), (''G4 Doorbell'', ''doorbell''), (''G4 Bullet'', ''camera''),
     (''G4 Dome'', ''camera''), (''G4 Pro'', ''camera''), (''G4 Instant'', ''camera''), (''G3 Instant'', ''camera''),
     (''G3 Flex'', ''camera''), (''G5 Pro'', ''camera''), (''G5 Bullet'', ''camera''), (''G5 Turret'', ''camera''),
     (''Google Home'', ''smart_speaker''), (''Google Home Mini'', ''smart_speaker''),
     (''Google Home Max'', ''smart_speaker''), (''Google Nest Mini'', ''smart_speaker''),
     (''Nest Mini'', ''smart_speaker''), (''Nest Audio'', ''smart_speaker''),
     (''Google Home Hub'', ''smart_display''), (''Nest Hub'', ''smart_display''),
     (''Nest Hub Max'', ''smart_display''), (''Chromecast'', ''streaming_device''),
     (''Chromecast Audio'', ''streaming_device''), (''Chromecast Ultra'', ''streaming_device''),
     (''Chromecast with Google TV'', ''streaming_device''), (''Google TV Streamer'', ''streaming_device''),
     (''Nest Cam'', ''camera''), (''Nest Cam Indoor'', ''camera''), (''Nest Cam Outdoor'', ''camera''),
     (''Nest Cam IQ'', ''camera''), (''Nest Cam IQ Indoor'', ''camera''), (''Nest Cam IQ Outdoor'', ''camera''),
     (''Nest Cam Floodlight'', ''camera''), (''Dropcam'', ''camera''), (''Dropcam HD'', ''camera''),
     (''Dropcam Pro'', ''camera''), (''Nest Doorbell'', ''doorbell''), (''Nest Hello'', ''doorbell''),
     (''Nest Thermostat'', ''thermostat''), (''Nest Learning Thermostat'', ''thermostat''),
     (''Nest Thermostat E'', ''thermostat''), (''Google Wifi'', ''mesh_router''), (''Nest Wifi'', ''mesh_router''),
     (''Nest Wifi Router'', ''mesh_router''), (''Nest Wifi Point'', ''mesh_router''),
     (''Nest Wifi Pro'', ''mesh_router''), (''Nest Protect'', ''smart_home''), (''Nest Secure'', ''smart_home''),
     (''Nest Guard'', ''smart_home''), (''Nest Connect'', ''smart_home''), (''Nest x Yale Lock'', ''smart_lock''),
     (''Pixel'', ''smartphone''), (''Pixel Phone'', ''smartphone''), (''Pixel Tablet'', ''tablet''),
     (''Pixel C'', ''tablet''), (''Pixel Slate'', ''tablet''), (''Pixel Watch'', ''wearable''),
     (''Pixel Buds'', ''wearable''), (''OnePlus'', ''smartphone''), (''Xiaomi'', ''smartphone''),
     (''Redmi'', ''smartphone''), (''POCO'', ''smartphone''), (''Huawei'', ''smartphone''),
     (''Honor'', ''smartphone'')]"

definition DEVICE_TYPE_NORMALIZE_2 :: "(string \<times> string) list" where
  "DEVICE_TYPE_NORMALIZE_2 =
    [(''OPPO'', ''smartphone''), (''Realme'', ''smartphone''), (''Vivo'', ''smartphone''),
     (''Motorola'', ''smartphone''), (''Moto G'', ''smartphone''), (''Moto E'', ''smartphone''),
     (''Nokia'', ''smartphone''), (''Xperia'', ''smartphone''), (''ZTE'', ''smartphone''),
     (''Nothing Phone'', ''smartphone''), (''Fairphone'', ''smartphone''), (''ROG Phone'', ''smartphone''),
     (''Lenovo Tab'', ''tablet''), (''MatePad'', ''tablet''), (''Xiaomi Pad'', ''tablet''),
     (''Redmi Pad'', ''tablet''), (''Pixelbook'', ''laptop''), (''Pixelbook Go'', ''laptop''),
     (''Chromebook Pixel'', ''laptop''), (''Fitbit'', ''wearable''), (''Fitbit Aria'', ''iot''),
     (''Fitbit Aria 2'', ''iot''), (''Echo'', ''smart_speaker''), (''Echo Dot'', ''smart_speaker''),
     (''Echo Pop'', ''smart_speaker''), (''Echo Studio'', ''smart_speaker''), (''Echo Show'', ''smart_display''),
     (''Fire TV'', ''streaming_device''), (''Fire TV Stick'', ''streaming_device''),
     (''Fire TV Cube'', ''streaming_device''), (''Fire Tablet'', ''tablet''), (''Fire HD'', ''tablet''),
     (''Fire Max'', ''tablet''), (''Kindle'', ''tablet''), (''Kindle Paperwhite'', ''tablet''),
     (''Kindle Oasis'', ''tablet''), (''Kindle Scribe'', ''tablet''), (''Ring Doorbell'', ''doorbell''),
     (''Ring Video Doorbell'', ''doorbell''), (''Ring Cam'', ''camera''), (''Ring Indoor Cam'', ''camera''),
     (''Ring Stick Up Cam'', ''camera''), (''Ring Spotlight Cam'', ''camera''), (''Ring Floodlight Cam'', ''camera''),
     (''Blink'', ''camera''), (''Blink Mini'', ''camera''), (''Blink Outdoor'', ''camera''),
     (''HomePod'', ''smart_speaker''), (''HomePod Mini'', ''smart_speaker''), (''HomePod mini'', ''smart_speaker''),
     (''Apple TV'', ''streaming_device''), (''Apple Vision Pro'', ''wearable''), (''AirPort Extreme'', ''router''),
     (''AirPort Express'', ''access_point''), (''Time Capsule'', ''nas''), (''iPod touch'', ''smartphone''),
     (''virtual_machine'', ''server''), (''vm'', ''server''), (''esxi'', ''server''), (''proxmox'', ''server''),
     (''hypervisor'', ''server''), (''hyper_v'', ''server''), (''kvm_host'', ''server''), (''xen'', ''server''),
     (''container_host'', ''server''), (''docker_host'', ''server''), (''kubernetes_node'', ''server''),
     (''openshift'', ''server''), (''industrial_switch'', ''switch''), (''network'', ''switch''),
     (''proxy'', ''server''), (''cable_modem'', ''cable_modem''), (''wireless_bridge'', ''access_point''),
     (''wan_optimizer'', ''network_device''), (''av_switcher'', ''av_switcher''), (''FortiGate'', ''firewall''),
     (''FortiWiFi'', ''firewall''), (''PA-Series'', ''firewall''), (''PA-220'', ''firewall''),
     (''PA-440'', ''firewall''), (''PA-820'', ''firewall''), (''PA-3200'', ''firewall''), (''PA-5200'', ''firewall''),
     (''Meraki MX'', ''router''), (''Meraki MR'', ''access_point''), (''Meraki MS'', ''switch''),
     (''SonicWall TZ'', ''firewall''), (''SonicWall NSA'', ''firewall''), (''SonicWall NSsp'', ''firewall''),
     (''ASA Firewall'', ''firewall''), (''SRX Firewall'', ''firewall''), (''WatchGuard Firebox'', ''firewall''),
     (''cnc_machine'', ''cnc_machine''), (''power_meter'', ''power_meter''), (''fire_alarm'', ''fire_alarm''),
     (''elevator_controller'', ''elevator_controller''), (''load_balancer'', ''load_balancer''),
     (''ids_ips'', ''firewall''), (''siem'', ''server''), (''microcontroller'', ''iot''),
     (''robot_vacuum'', ''robot_vacuum''), (''health_device'', ''iot''), (''medical_device'', ''iot''),
     (''sensor'', ''iot''), (''plc'', ''iot''), (''rtu'', ''iot''), (''hmi'', ''iot''),
     (''building_automation'', ''iot''), (''iot_gateway'', ''smart_home''), (''voip_phone'', ''voip_phone''),
     (''pbx'', ''server''), (''multifunction'', ''printer''), (''thin_client'', ''workstation''),
     (''media_server'', ''server''), (''storage_array'', ''nas''), (''home_hub'', ''smart_home'')]"

definition DEVICE_TYPE_NORMALIZE_3 :: "(string \<times> string) list" where
  "DEVICE_TYPE_NORMALIZE_3 =
    [(''Galaxy'', ''smartphone''), (''Galaxy S'', ''smartphone''), (''Galaxy Z'', ''smartphone''),
     (''Galaxy A'', ''smartphone''), (''Galaxy M'', ''smartphone''), (''Galaxy Tab'', ''tablet''),
     (''Galaxy Tab S'', ''tablet''), (''Galaxy Tab A'', ''tablet''), (''Galaxy Watch'', ''wearable''),
     (''Galaxy Buds'', ''wearable''), (''Samsung Smart TV'', ''smart_tv''), (''The Frame'', ''smart_tv''),
     (''The Freestyle'', ''smart_tv''), (''SmartThings Hub'', ''smart_home''),
     (''Samsung Family Hub'', ''smart_home''), (''Jet Bot'', ''iot''), (''LG Smart TV'', ''smart_tv''),
     (''LG ThinQ'', ''smart_home''), (''Sony Bravia'', ''smart_tv''), (''Surface'', ''laptop''),
     (''Surface Pro'', ''tablet''), (''Surface Go'', ''tablet''), (''PlayStation'', ''game_console''),
     (''PlayStation 3'', ''game_console''), (''PlayStation 4'', ''game_console''),
     (''PlayStation 5'', ''game_console''), (''PS Vita'', ''game_console''),
     (''PlayStation Portal'', ''game_console''), (''Xbox'', ''game_console''), (''Xbox 360'', ''game_console''),
     (''Xbox One'', ''game_console''), (''Xbox Series'', ''game_console''), (''Nintendo Switch'', ''game_console''),
     (''Nintendo Wii'', ''game_console''), (''Nintendo 3DS'', ''game_console''), (''Nintendo'', ''game_console''),
     (''Steam Deck'', ''game_console''), (''NVIDIA Shield'', ''streaming_device''),
     (''Sonos One'', ''smart_speaker''), (''Sonos Beam'', ''smart_speaker''), (''Sonos Arc'', ''smart_speaker''),
     (''Sonos Roam'', ''smart_speaker''), (''Sonos Move'', ''smart_speaker''), (''Sonos Era'', ''smart_speaker''),
     (''Sonos Play'', ''smart_speaker''), (''Sonos Port'', ''streaming_device''), (''Sonos Sub'', ''smart_speaker''),
     (''Bose SoundTouch'', ''smart_speaker''), (''Bose Soundbar'', ''smart_speaker''),
     (''Bose Home Speaker'', ''smart_speaker''), (''Bose Portable'', ''smart_speaker''), (''JBL'', ''smart_speaker''),
     (''Marshall'', ''smart_speaker''), (''Harman Kardon'', ''smart_speaker''), (''Denon HEOS'', ''smart_speaker''),
     (''Bang & Olufsen'', ''smart_speaker''), (''Family Hub'', ''appliance''), (''Samsung Fridge'', ''appliance''),
     (''Samsung Washer'', ''appliance''), (''Samsung Dryer'', ''appliance''), (''LG ThinQ'', ''appliance''),
     (''Poly Studio'', ''video_conferencing''), (''Logitech Rally'', ''video_conferencing''),
     (''Logitech MeetUp'', ''video_conferencing''), (''Neat Bar'', ''video_conferencing''),
     (''Neat Board'', ''video_conferencing''), (''Neat Frame'', ''video_conferencing''),
     (''Zoom Rooms'', ''video_conferencing''), (''Microsoft Teams Room'', ''video_conferencing''),
     (''Webex Board'', ''video_conferencing''), (''Webex Room'', ''video_conferencing''),
     (''Epson Projector'', ''projector''), (''BenQ Projector'', ''projector''), (''Bambu Lab'', ''3d_printer''),
     (''Prusa'', ''3d_printer''), (''Creality'', ''3d_printer''), (''OctoPrint'', ''3d_printer''),
     (''APC UPS'', ''ups''), (''APC Smart-UPS'', ''ups''), (''CyberPower UPS'', ''ups''), (''Eaton UPS'', ''ups''),
     (''Tesla Wall Connector'', ''ev_charger''), (''ChargePoint'', ''ev_charger''), (''Wallbox'', ''ev_charger''),
     (''JuiceBox'', ''ev_charger''), (''Grizzl-E'', ''ev_charger''), (''Emporia EV'', ''ev_charger''),
     (''Enphase'', ''solar_inverter''), (''SolarEdge'', ''solar_inverter''),
     (''Tesla Powerwall'', ''solar_inverter''), (''Tesla Gateway'', ''solar_inverter''),
     (''SunPower'', ''solar_inverter''), (''Generac PWRcell'', ''solar_inverter''), (''Rachio'', ''irrigation''),
     (''RainMachine'', ''irrigation''), (''Orbit B-hyve'', ''irrigation''), (''myQ'', ''garage_door''),
     (''LiftMaster'', ''garage_door''), (''Chamberlain'', ''garage_door''), (''Nest Protect'', ''smoke_detector''),
     (''First Alert OneLink'', ''smoke_detector''), (''Kidde'', ''smoke_detector''),
     (''Dyson Pure'', ''air_purifier''), (''Molekule'', ''air_purifier''), (''Coway'', ''air_purifier''),
     (''Levoit'', ''air_purifier''), (''Blueair'', ''air_purifier'')]"

definition DEVICE_TYPE_NORMALIZE_4 :: "(string \<times> string) list" where
  "DEVICE_TYPE_NORMALIZE_4 =
    [(''Nanit'', ''baby_monitor''), (''Owlet'', ''baby_monitor''), (''Miku'', ''baby_monitor''),
     (''Petcube'', ''pet_device''), (''Furbo'', ''pet_device''), (''BrightSign'', ''digital_signage''),
     (''Square Terminal'', ''pos_terminal''), (''Toast'', ''pos_terminal''), (''Clover'', ''pos_terminal''),
     (''Plex Media Server'', ''media_server''), (''DJI'', ''drone''), (''Tesla'', ''vehicle''),
     (''Rivian'', ''vehicle''), (''Lucid'', ''vehicle''), (''ELM327'', ''vehicle_diagnostic''),
     (''OBDLink'', ''vehicle_diagnostic''), (''Autel MaxiSys'', ''vehicle_diagnostic''),
     (''Launch X431'', ''vehicle_diagnostic''), (''BlackVue'', ''dashcam''), (''Viofo'', ''dashcam''),
     (''Thinkware'', ''dashcam''), (''Nextbase'', ''dashcam''), (''Raymarine'', ''marine_device''),
     (''Simrad'', ''marine_device''), (''Furuno'', ''marine_device''), (''Starlink'', ''satellite_terminal''),
     (''Iridium'', ''satellite_terminal''), (''Hughes'', ''satellite_terminal''),
     (''ViaSat'', ''satellite_terminal''), (''L3Harris'', ''tactical_radio''), (''Harris Radio'', ''tactical_radio''),
     (''Motorola Solutions'', ''tactical_radio''), (''Persistent Systems MPU5'', ''tactical_radio''),
     (''Silvus StreamCaster'', ''tactical_radio''), (''Toughbook'', ''laptop''), (''Getac'', ''laptop''),
     (''Owl Cyber Defense'', ''firewall''), (''Waterfall Security'', ''firewall''), (''Axon Body'', ''body_camera''),
     (''Axon Fleet'', ''body_camera''), (''KG-175'', ''crypto_device''), (''TACLANE'', ''crypto_device'')]"

definition DEVICE_TYPE_NORMALIZE :: "(ustr \<times> ustr) list" where
  "DEVICE_TYPE_NORMALIZE = map (\<lambda>(k, t). (lit k, lit t)) (DEVICE_TYPE_NORMALIZE_1 @ DEVICE_TYPE_NORMALIZE_2 @ DEVICE_TYPE_NORMALIZE_3 @ DEVICE_TYPE_NORMALIZE_4)"

definition VENDOR_DEVICE_TYPE_HINTS_1 :: "(string \<times> string) list" where
  "VENDOR_DEVICE_TYPE_HINTS_1 =
    [(''lutron'', ''smart_lighting''), (''philips hue'', ''smart_lighting''), (''hue'', ''smart_lighting''),
     (''lifx'', ''smart_lighting''), (''sengled'', ''smart_lighting''), (''nanoleaf'', ''smart_lighting''),
     (''wiz'', ''smart_lighting''), (''cree'', ''smart_lighting''), (''sonos'', ''smart_speaker''),
     (''bose'', ''smart_speaker''), (''jbl'', ''smart_speaker''), (''harman kardon'', ''smart_speaker''),
     (''harman'', ''smart_speaker''), (''marshall'', ''smart_speaker''), (''bang & olufsen'', ''smart_speaker''),
     (''denon'', ''smart_speaker''), (''yamaha musiccast'', ''smart_speaker''),
     (''hui zhou gaoshengda'', ''smart_speaker''), (''gaoshengda'', ''smart_speaker''),
     (''roku'', ''streaming_device''), (''nvidia'', ''streaming_device''), (''roborock'', ''robot_vacuum''),
     (''irobot'', ''robot_vacuum''), (''ecovacs'', ''robot_vacuum''), (''espressif'', ''iot''),
     (''withings'', ''iot''), (''tuya'', ''iot''), (''xiaomi'', ''iot''), (''meross'', ''smart_plug''),
     (''arlo'', ''camera''), (''wyze'', ''camera''), (''reolink'', ''camera''), (''hikvision'', ''camera''),
     (''dahua'', ''camera''), (''amcrest'', ''camera''), (''eufy'', ''camera''), (''lorex'', ''camera''),
     (''swann'', ''camera''), (''axis'', ''camera''), (''hanwha'', ''camera''), (''vivotek'', ''camera''),
     (''mobotix'', ''camera''), (''bosch security'', ''camera''), (''dropcam'', ''camera''), (''ring'', ''doorbell''),
     (''tp-link'', ''smart_plug''), (''kasa'', ''smart_plug''), (''tapo'', ''smart_plug''),
     (''shelly'', ''smart_plug''), (''wemo'', ''smart_plug''), (''gosund'', ''smart_plug''),
     (''august'', ''smart_lock''), (''yale'', ''smart_lock''), (''schlage'', ''smart_lock''),
     (''kwikset'', ''smart_lock''), (''level'', ''smart_lock''), (''chamberlain'', ''smart_home''),
     (''hubitat'', ''smart_home''), (''smartthings'', ''smart_home''), (''wink'', ''smart_home''),
     (''home assistant'', ''smart_home''), (''ecobee'', ''thermostat''), (''honeywell'', ''thermostat''),
     (''emerson'', ''thermostat''), (''tado'', ''thermostat''), (''synology'', ''nas''), (''qnap'', ''nas''),
     (''drobo'', ''nas''), (''netgear readynas'', ''nas''), (''asustor'', ''nas''), (''terramaster'', ''nas''),
     (''buffalo'', ''nas''), (''western digital'', ''nas''), (''wd'', ''nas''), (''cisco'', ''switch''),
     (''meraki'', ''switch''), (''aruba'', ''access_point''), (''ruckus'', ''access_point''),
     (''commscope'', ''access_point''), (''mikrotik'', ''router''), (''netgate'', ''firewall''),
     (''pfsense'', ''firewall''), (''opnsense'', ''firewall''), (''fortinet'', ''firewall''),
     (''fortigate'', ''firewall''), (''palo alto'', ''firewall''), (''sophos'', ''firewall''),
     (''watchguard'', ''firewall''), (''sonicwall'', ''firewall''), (''juniper'', ''router''),
     (''eero'', ''mesh_router''), (''linksys velop'', ''mesh_router''), (''orbi'', ''mesh_router''),
     (''deco'', ''mesh_router''), (''amplifi'', ''mesh_router''), (''plume'', ''mesh_router''),
     (''vilo'', ''mesh_router''), (''tplink'', ''router''), (''netgear'', ''router''), (''asus router'', ''router''),
     (''ubiquiti'', ''network_device''), (''turris'', ''router''), (''cz.nic'', ''router''),
     (''gl technologies'', ''router''), (''gl.inet'', ''router''), (''tenda'', ''router''),
     (''mercusys'', ''router''), (''cudy'', ''router''), (''hatch'', ''iot_device''), (''firewalla'', ''firewall''),
     (''vyos'', ''firewall''), (''untangle'', ''firewall''), (''clearos'', ''firewall''),
     (''check point'', ''firewall''), (''checkpoint'', ''firewall''), (''polycom'', ''voip_phone''),
     (''poly'', ''voip_phone''), (''yealink'', ''voip_phone''), (''cisco phone'', ''voip_phone''),
     (''grandstream'', ''voip_phone''), (''snom'', ''voip_phone''), (''avaya'', ''voip_phone''),
     (''mitel'', ''voip_phone''), (''fanvil'', ''voip_phone''), (''obihai'', ''voip_phone''),
     (''xbox'', ''game_console''), (''playstation'', ''game_console'')]"

definition VENDOR_DEVICE_TYPE_HINTS_2 :: "(string \<times> string) list" where
  "VENDOR_DEVICE_TYPE_HINTS_2 =
    [(''nintendo'', ''game_console''), (''valve'', ''game_console''), (''vmware'', ''server''),
     (''proxmox'', ''server''), (''nutanix'', ''server''), (''citrix'', ''server''), (''red hat'', ''server''),
     (''hashicorp'', ''server''), (''docker'', ''server''), (''kubernetes'', ''server''),
     (''google'', ''smart_speaker''), (''apple'', ''smartphone''), (''samsung'', ''smartphone''),
     (''asus'', ''workstation''), (''asustek'', ''workstation''), (''dell'', ''workstation''),
     (''lenovo'', ''workstation''), (''hp'', ''workstation''), (''hewlett packard'', ''workstation''),
     (''intel'', ''workstation''), (''acer'', ''workstation''), (''msi'', ''workstation''),
     (''gigabyte'', ''workstation''), (''microsoft'', ''workstation''), (''oneplus'', ''smartphone''),
     (''xiaomi'', ''smartphone''), (''huawei'', ''smartphone''), (''honor'', ''smartphone''),
     (''oppo'', ''smartphone''), (''realme'', ''smartphone''), (''vivo'', ''smartphone''),
     (''motorola'', ''smartphone''), (''zte'', ''smartphone''), (''tcl communication'', ''smartphone''),
     (''nothing'', ''smartphone''), (''fairphone'', ''smartphone''), (''hmd global'', ''smartphone''),
     (''sony mobile'', ''smartphone''), (''intel corporate'', ''workstation''), (''dell inc'', ''laptop''),
     (''dell technologies'', ''laptop''), (''asustek'', ''workstation''), (''msi'', ''workstation''),
     (''gigabyte'', ''workstation''), (''acer'', ''workstation''), (''lenovo'', ''workstation''),
     (''hewlett'', ''workstation''), (''hp inc'', ''workstation''), (''razer'', ''workstation''),
     (''alienware'', ''workstation''), (''microsoft'', ''workstation''), (''framework'', ''laptop''),
     (''system76'', ''workstation''), (''brother'', ''printer''), (''canon'', ''printer''), (''epson'', ''printer''),
     (''lexmark'', ''printer''), (''ricoh'', ''printer''), (''xerox'', ''printer''), (''kyocera'', ''printer''),
     (''konica'', ''printer''), (''sharp'', ''printer''), (''zebra'', ''printer''), (''philips medical'', ''iot''),
     (''ge healthcare'', ''iot''), (''siemens healthineers'', ''iot''), (''amazon'', ''smart_speaker''),
     (''blink'', ''camera''), (''eufy'', ''camera''), (''lorex'', ''camera''), (''swann'', ''camera''),
     (''tuya'', ''iot''), (''meross'', ''smart_plug''), (''wemo'', ''smart_plug''), (''gosund'', ''smart_plug''),
     (''nanoleaf'', ''smart_lighting''), (''sengled'', ''smart_lighting''), (''tado'', ''thermostat''),
     (''honeywell home'', ''thermostat''), (''irobot'', ''robot_vacuum''), (''ecovacs'', ''robot_vacuum''),
     (''kwikset'', ''smart_lock''), (''schlage'', ''smart_lock''), (''lg electronics'', ''appliance''),
     (''whirlpool'', ''appliance''), (''ge appliances'', ''appliance''), (''bosch home'', ''appliance''),
     (''miele'', ''appliance''), (''poly'', ''video_conferencing''), (''neat'', ''video_conferencing''),
     (''logitech'', ''video_conferencing''), (''crestron'', ''video_conferencing''),
     (''extron'', ''video_conferencing''), (''epson'', ''projector''), (''benq'', ''projector''),
     (''optoma'', ''projector''), (''viewsonic'', ''projector''), (''bambu lab'', ''3d_printer''),
     (''prusa'', ''3d_printer''), (''creality'', ''3d_printer''), (''apc'', ''ups''), (''cyberpower'', ''ups''),
     (''eaton'', ''ups''), (''tripp lite'', ''ups''), (''raritan'', ''ups''), (''chargepoint'', ''ev_charger''),
     (''wallbox'', ''ev_charger''), (''juicebox'', ''ev_charger''), (''emporia'', ''ev_charger''),
     (''grizzl-e'', ''ev_charger''), (''clipper creek'', ''ev_charger''), (''enphase'', ''solar_inverter''),
     (''solaredge'', ''solar_inverter''), (''sunpower'', ''solar_inverter''), (''generac'', ''solar_inverter''),
     (''rachio'', ''irrigation''), (''rainmachine'', ''irrigation''), (''orbit'', ''irrigation''),
     (''hunter'', ''irrigation''), (''chamberlain'', ''garage_door''), (''liftmaster'', ''garage_door''),
     (''dyson'', ''air_purifier''), (''molekule'', ''air_purifier''), (''coway'', ''air_purifier''),
     (''levoit'', ''air_purifier''), (''blueair'', ''air_purifier''), (''nanit'', ''baby_monitor'')]"

definition VENDOR_DEVICE_TYPE_HINTS_3 :: "(string \<times> string) list" where
  "VENDOR_DEVICE_TYPE_HINTS_3 =
    [(''owlet'', ''baby_monitor''), (''petcube'', ''pet_device''), (''furbo'', ''pet_device''),
     (''brightsign'', ''digital_signage''), (''scala'', ''digital_signage''), (''square'', ''pos_terminal''),
     (''toast'', ''pos_terminal''), (''clover'', ''pos_terminal''), (''verifone'', ''pos_terminal''),
     (''ingenico'', ''pos_terminal''), (''dji'', ''drone''), (''parrot'', ''drone''), (''skydio'', ''drone''),
     (''tesla'', ''vehicle''), (''rivian'', ''vehicle''), (''lucid motors'', ''vehicle''),
     (''autel'', ''vehicle_diagnostic''), (''launch tech'', ''vehicle_diagnostic''),
     (''scantool'', ''vehicle_diagnostic''), (''blackvue'', ''dashcam''), (''pittasoft'', ''dashcam''),
     (''viofo'', ''dashcam''), (''thinkware'', ''dashcam''), (''nextbase'', ''dashcam''),
     (''garmin dash'', ''dashcam''), (''rexing'', ''dashcam''), (''vantrue'', ''dashcam''),
     (''garmin marine'', ''marine_device''), (''raymarine'', ''marine_device''), (''simrad'', ''marine_device''),
     (''navico'', ''marine_device''), (''furuno'', ''marine_device''), (''vesper marine'', ''marine_device''),
     (''victron'', ''marine_device''), (''pepwave'', ''router''), (''peplink'', ''router''),
     (''calamp'', ''gps_tracker''), (''geotab'', ''gps_tracker''), (''samsara'', ''gps_tracker''),
     (''queclink'', ''gps_tracker''), (''sierra wireless'', ''router''), (''cradlepoint'', ''router''),
     (''starlink'', ''satellite_terminal''), (''spacex'', ''satellite_terminal''),
     (''hughesnet'', ''satellite_terminal''), (''viasat'', ''satellite_terminal''),
     (''iridium'', ''satellite_terminal''), (''l3harris'', ''tactical_radio''),
     (''harris corporation'', ''tactical_radio''), (''motorola solutions'', ''tactical_radio''),
     (''general dynamics'', ''tactical_radio''), (''persistent systems'', ''tactical_radio''),
     (''silvus'', ''tactical_radio''), (''thales'', ''tactical_radio''), (''getac'', ''laptop''),
     (''panasonic toughbook'', ''laptop''), (''panasonic connect'', ''laptop''), (''sonim'', ''smartphone''),
     (''idirect'', ''satellite_terminal''), (''cobham'', ''satellite_terminal''), (''owl cyber'', ''firewall''),
     (''waterfall security'', ''firewall''), (''forcepoint'', ''firewall''), (''axon'', ''body_camera''),
     (''motorola body'', ''body_camera''), (''davis instruments'', ''weather_station''),
     (''acurite'', ''weather_station''), (''ambient weather'', ''weather_station''),
     (''keysight'', ''lab_instrument''), (''tektronix'', ''lab_instrument''), (''rigol'', ''lab_instrument''),
     (''rohde & schwarz'', ''lab_instrument''), (''national instruments'', ''lab_instrument''),
     (''smart technologies'', ''interactive_display''), (''promethean'', ''interactive_display''),
     (''kronos'', ''time_clock''), (''adp'', ''time_clock''), (''raspberry pi'', ''sbc''), (''diebold'', ''atm''),
     (''ncr'', ''atm''), (''wincor nixdorf'', ''atm''), (''cantaloupe'', ''vending_machine''),
     (''crane'', ''vending_machine''), (''zebra technologies'', ''handheld_scanner''),
     (''honeywell scanning'', ''handheld_scanner''), (''datalogic'', ''handheld_scanner''),
     (''barco'', ''wireless_presentation''), (''clickshare'', ''wireless_presentation''),
     (''mersive'', ''wireless_presentation''), (''kramer'', ''wireless_presentation''),
     (''hid global'', ''access_control''), (''lenel'', ''access_control''), (''genetec'', ''access_control''),
     (''avigilon'', ''access_control''), (''siemens'', ''plc''), (''allen-bradley'', ''plc''),
     (''rockwell'', ''plc''), (''schneider electric'', ''plc''), (''omron'', ''plc''), (''beckhoff'', ''plc''),
     (''moxa'', ''industrial_switch''), (''hirschmann'', ''industrial_switch''),
     (''advantech'', ''industrial_switch''), (''phoenix contact'', ''industrial_switch''), (''wago'', ''plc''),
     (''fanuc'', ''industrial_robot''), (''abb robotics'', ''industrial_robot''), (''kuka'', ''industrial_robot''),
     (''universal robots'', ''industrial_robot''), (''yaskawa'', ''industrial_robot''),
     (''doosan robotics'', ''industrial_robot''), (''haas'', ''cnc_machine''), (''mazak'', ''cnc_machine''),
     (''okuma'', ''cnc_machine''), (''dmg mori'', ''cnc_machine''), (''heidenhain'', ''cnc_machine''),
     (''hurco'', ''cnc_machine''), (''accuenergy'', ''power_meter'')]"

definition VENDOR_DEVICE_TYPE_HINTS_4 :: "(string \<times> string) list" where
  "VENDOR_DEVICE_TYPE_HINTS_4 =
    [(''dent instruments'', ''power_meter''), (''electro industries'', ''power_meter''), (''satec'', ''power_meter''),
     (''itron'', ''power_meter''), (''landis+gyr'', ''power_meter''), (''notifier'', ''fire_alarm''),
     (''simplex'', ''fire_alarm''), (''edwards est'', ''fire_alarm''), (''hochiki'', ''fire_alarm''),
     (''fike'', ''fire_alarm''), (''gamewell'', ''fire_alarm''), (''otis'', ''elevator_controller''),
     (''schindler'', ''elevator_controller''), (''thyssenkrupp'', ''elevator_controller''),
     (''kone'', ''elevator_controller''), (''johnson controls'', ''building_automation''),
     (''tridium'', ''building_automation''), (''distech'', ''building_automation''),
     (''automated logic'', ''building_automation''), (''ge healthcare'', ''medical_device''),
     (''philips healthcare'', ''medical_device''), (''medtronic'', ''medical_device''),
     (''baxter'', ''medical_device''), (''bd'', ''medical_device''), (''hill-rom'', ''medical_device''),
     (''stryker'', ''medical_device''), (''draeger'', ''medical_device''), (''nihon kohden'', ''medical_device''),
     (''mindray'', ''medical_device''), (''icu medical'', ''medical_device''), (''fresenius'', ''medical_device''),
     (''b. braun'', ''medical_device''), (''ascom'', ''medical_device''), (''rauland'', ''medical_device''),
     (''ncr'', ''kiosk''), (''diebold nixdorf'', ''kiosk''), (''wincor nixdorf'', ''kiosk''),
     (''toshiba tec'', ''pos_terminal''), (''fujitsu'', ''kiosk''), (''crestron'', ''video_conferencing''),
     (''control4'', ''smart_home''), (''savant'', ''smart_home''), (''evolis'', ''printer''),
     (''hid fargo'', ''printer''), (''entrust datacard'', ''printer''), (''sato'', ''printer''),
     (''dymo'', ''printer''), (''amino'', ''streaming_device''), (''zeevee'', ''streaming_device''),
     (''enseo'', ''streaming_device''), (''extron'', ''video_conferencing''), (''amx'', ''video_conferencing''),
     (''qsc'', ''video_conferencing''), (''biamp'', ''video_conferencing''), (''keysight'', ''lab_instrument''),
     (''agilent'', ''lab_instrument''), (''tektronix'', ''lab_instrument''), (''rigol'', ''lab_instrument''),
     (''siglent'', ''lab_instrument''), (''rohde & schwarz'', ''lab_instrument''), (''anritsu'', ''lab_instrument''),
     (''yokogawa'', ''lab_instrument''), (''davis instruments'', ''weather_station''),
     (''acurite'', ''weather_station''), (''ambient weather'', ''weather_station''),
     (''ecowitt'', ''weather_station''), (''la crosse'', ''weather_station''), (''weatherflow'', ''weather_station''),
     (''smart technologies'', ''interactive_display''), (''promethean'', ''interactive_display''),
     (''newline'', ''interactive_display''), (''celestron'', ''lab_instrument''), (''meade'', ''lab_instrument''),
     (''sky-watcher'', ''lab_instrument''), (''ioptron'', ''lab_instrument'')]"

definition VENDOR_DEVICE_TYPE_HINTS :: "(ustr \<times> ustr) list" where
  "VENDOR_DEVICE_TYPE_HINTS = map (\<lambda>(k, t). (lit k, lit t)) (VENDOR_DEVICE_TYPE_HINTS_1 @ VENDOR_DEVICE_TYPE_HINTS_2 @ VENDOR_DEVICE_TYPE_HINTS_3 @ VENDOR_DEVICE_TYPE_HINTS_4)"

definition HOSTNAME_DEVICE_HINTS_1 :: "(string \<times> string) list" where
  "HOSTNAME_DEVICE_HINTS_1 =
    [(''nest-hub'', ''smart_display''), (''nest hub'', ''smart_display''), (''nesthub'', ''smart_display''),
     (''echo-show'', ''smart_display''), (''echo show'', ''smart_display''),
     (''google-home-mini'', ''smart_speaker''), (''google-home-max'', ''smart_speaker''),
     (''google-home'', ''smart_speaker''), (''google-nest-mini'', ''smart_speaker''),
     (''nest-mini'', ''smart_speaker''), (''nest-audio'', ''smart_speaker''), (''nest audio'', ''smart_speaker''),
     (''chromecast'', ''streaming_device''), (''google-tv-streamer'', ''streaming_device''),
     (''nest-cam'', ''camera''), (''nestcam'', ''camera''), (''dropcam'', ''camera''),
     (''nest-doorbell'', ''doorbell''), (''nest-hello'', ''doorbell''), (''nest-thermostat'', ''thermostat''),
     (''google-wifi'', ''mesh_router''), (''nest-wifi'', ''mesh_router''), (''nestwifi'', ''mesh_router''),
     (''nest-protect'', ''smoke_detector''), (''pixel-tablet'', ''tablet''), (''pixel-'', ''smartphone''),
     (''fitbit'', ''wearable''), (''speaker'', ''smart_speaker''), (''homepod'', ''smart_speaker''),
     (''sonos'', ''smart_speaker''), (''echo-dot'', ''smart_speaker''), (''echo-pop'', ''smart_speaker''),
     (''echo-studio'', ''smart_speaker''), (''echo'', ''smart_speaker''), (''alexa'', ''smart_speaker''),
     (''fire-tv'', ''streaming_device''), (''firetv'', ''streaming_device''), (''kindle'', ''tablet''),
     (''fire-hd'', ''tablet''), (''ring-doorbell'', ''doorbell''), (''ring-cam'', ''camera''),
     (''ring-spotlight'', ''camera''), (''ring-floodlight'', ''camera''), (''ring-stick'', ''camera''),
     (''ring-indoor'', ''camera''), (''blink-'', ''camera''), (''arlo-'', ''camera''), (''wyze-cam'', ''camera''),
     (''wyze-doorbell'', ''doorbell''), (''doorbell'', ''doorbell''), (''camera'', ''camera''),
     (''cam-'', ''camera''), (''thermostat'', ''thermostat''), (''vacuum'', ''robot_vacuum''),
     (''roborock'', ''robot_vacuum''), (''printer'', ''printer''), (''nas'', ''nas''), (''proxmox'', ''server''),
     (''esxi'', ''server''), (''vcenter'', ''server''), (''truenas'', ''nas''), (''freenas'', ''nas''),
     (''unraid'', ''nas''), (''synology'', ''nas''), (''plex'', ''media_server''),
     (''homeassistant-yellow'', ''iot_hub''), (''hass-yellow'', ''iot_hub''), (''hassio-yellow'', ''iot_hub''),
     (''ha-yellow'', ''iot_hub''), (''home-assistant'', ''smart_home''), (''homeassistant'', ''smart_home''),
     (''hass'', ''smart_home''), (''openmediavault'', ''nas''), (''omv'', ''nas''), (''hubitat'', ''smart_home''),
     (''smartthings'', ''smart_home''), (''roku'', ''streaming_device''), (''chromecast'', ''streaming_device''),
     (''appletv'', ''streaming_device''), (''apple-tv'', ''streaming_device''), (''firetv'', ''streaming_device''),
     (''fire-tv'', ''streaming_device''), (''ps5-'', ''game_console''), (''ps4-'', ''game_console''),
     (''ps3-'', ''game_console''), (''playstation'', ''game_console''), (''xbox-systemos'', ''game_console''),
     (''xbox'', ''game_console''), (''steamdeck'', ''game_console''), (''steam-deck'', ''game_console''),
     (''shield'', ''streaming_device''), (''nintendo'', ''game_console''), (''galaxy-s'', ''smartphone''),
     (''galaxy-z'', ''smartphone''), (''galaxy-a'', ''smartphone''), (''galaxy-tab'', ''tablet''),
     (''galaxy-watch'', ''wearable''), (''samsung-tv'', ''smart_tv''), (''tizen'', ''smart_tv''),
     (''smartthings-hub'', ''smart_home''), (''jet-bot'', ''iot''), (''lgwebostv'', ''smart_tv''),
     (''lg-webos'', ''smart_tv''), (''lgsmarttv'', ''smart_tv''), (''bravia'', ''smart_tv''),
     (''vizio'', ''smart_tv''), (''hisense'', ''smart_tv''), (''np-'', ''streaming_device''),
     (''sonos-'', ''smart_speaker''), (''iphone'', ''smartphone''), (''ipod'', ''smartphone''),
     (''ipad'', ''tablet''), (''macbook-air'', ''laptop''), (''macbook-pro'', ''laptop''), (''macbook'', ''laptop''),
     (''imac-pro'', ''workstation''), (''imac'', ''workstation''), (''mac-mini'', ''workstation''),
     (''mac-studio'', ''workstation''), (''mac-pro'', ''workstation''), (''apple-watch'', ''wearable''),
     (''apple-vision'', ''wearable''), (''homepod'', ''smart_speaker''), (''apple-tv'', ''streaming_device'')]"

definition HOSTNAME_DEVICE_HINTS_2 :: "(string \<times> string) list" where
  "HOSTNAME_DEVICE_HINTS_2 =
    [(''appletv'', ''streaming_device''), (''airport'', ''router''), (''time-capsule'', ''nas''),
     (''surface-pro'', ''tablet''), (''surface-go'', ''tablet''), (''surface'', ''laptop''),
     (''oneplus'', ''smartphone''), (''one-plus'', ''smartphone''), (''xiaomi-pad'', ''tablet''),
     (''xiaomi'', ''smartphone''), (''redmi-pad'', ''tablet''), (''redmi'', ''smartphone''),
     (''poco'', ''smartphone''), (''huawei-matepad'', ''tablet''), (''huawei'', ''smartphone''),
     (''honor'', ''smartphone''), (''oppo'', ''smartphone''), (''realme'', ''smartphone''),
     (''vivo'', ''smartphone''), (''motorola'', ''smartphone''), (''moto-g'', ''smartphone''),
     (''moto-e'', ''smartphone''), (''moto-x'', ''smartphone''), (''nokia-'', ''smartphone''),
     (''xperia'', ''smartphone''), (''zte'', ''smartphone''), (''tcl-'', ''smartphone''),
     (''nothing-phone'', ''smartphone''), (''fairphone'', ''smartphone''), (''asus-rog-phone'', ''smartphone''),
     (''lg-v'', ''smartphone''), (''lg-g'', ''smartphone''), (''android-'', ''smartphone''),
     (''sm-s'', ''smartphone''), (''sm-g'', ''smartphone''), (''sm-f'', ''smartphone''), (''sm-a'', ''smartphone''),
     (''sm-t'', ''tablet''), (''sm-x'', ''tablet''), (''sm-p'', ''tablet''), (''lenovo-tab'', ''tablet''),
     (''tab-m'', ''tablet''), (''tab-p'', ''tablet''), (''huawei-matepad'', ''tablet''), (''matepad'', ''tablet''),
     (''nokia-t'', ''tablet''), (''sonos-'', ''smart_speaker''), (''bose-'', ''smart_speaker''),
     (''roku'', ''streaming_device''), (''shield'', ''streaming_device''), (''ecobee'', ''thermostat''),
     (''roomba'', ''robot_vacuum''), (''roborock'', ''robot_vacuum''), (''dyson-pure'', ''air_purifier''),
     (''dyson'', ''air_purifier''), (''usw-'', ''switch''), (''udm'', ''router''), (''udr'', ''router''),
     (''ucg-'', ''router''), (''uxg-'', ''router''), (''uap-'', ''access_point''), (''u6-'', ''access_point''),
     (''u7-'', ''access_point''), (''ubb'', ''wireless_bridge''), (''uvc-'', ''camera''), (''unvr'', ''server''),
     (''ubnt'', ''router''), (''unifi'', ''network_device''), (''mr-'', ''access_point''), (''ms-'', ''switch''),
     (''mx-'', ''firewall''), (''meraki'', ''switch''), (''fg-'', ''firewall''), (''fgt-'', ''firewall''),
     (''fortigate'', ''firewall''), (''fortiswitch'', ''switch''), (''fortiap'', ''access_point''),
     (''pa-'', ''firewall''), (''ex-'', ''switch''), (''qfx'', ''switch''), (''srx'', ''firewall''),
     (''mx-'', ''router''), (''mikrotik'', ''router''), (''routeros'', ''router''), (''pfsense'', ''firewall''),
     (''opnsense'', ''firewall''), (''netgate'', ''firewall''), (''sg-'', ''firewall''),
     (''firewalla'', ''firewall''), (''firebox'', ''firewall''), (''sophos-'', ''firewall''),
     (''sonicwall'', ''firewall''), (''checkpoint'', ''firewall''), (''quantum-'', ''firewall''),
     (''vyos'', ''firewall''), (''untangle'', ''firewall''), (''clearos'', ''firewall''), (''gt-be'', ''router''),
     (''gt-ax'', ''router''), (''gt-ac'', ''router''), (''rt-be'', ''router''), (''rt-ax'', ''router''),
     (''rt-ac'', ''router''), (''tuf-ax'', ''router''), (''tuf-be'', ''router''), (''qhora'', ''router''),
     (''turris'', ''router''), (''glinet'', ''router''), (''gl-mt'', ''router''), (''gl-ar'', ''router''),
     (''gl-mv'', ''router''), (''cudy-'', ''router''), (''tenda-'', ''router''), (''mercusys-'', ''router''),
     (''xiaomi-router'', ''router'')]"

definition HOSTNAME_DEVICE_HINTS_3 :: "(string \<times> string) list" where
  "HOSTNAME_DEVICE_HINTS_3 =
    [(''rest2ndgen'', ''iot_device''), (''hatchrest'', ''iot_device''), (''hatch-rest'', ''iot_device''),
     (''hatch-restore'', ''iot_device''), (''hatchrestore'', ''iot_device''), (''restplus'', ''iot_device''),
     (''rest-plus'', ''iot_device''), (''restmini'', ''iot_device''), (''rest-mini'', ''iot_device''),
     (''hatch-'', ''iot_device''), (''hatchbaby'', ''iot_device''), (''dragino'', ''lora_gateway''),
     (''rak72'', ''lora_gateway''), (''wisgate'', ''lora_gateway''), (''ttig'', ''lora_gateway''),
     (''lorawan-gw'', ''lora_gateway''), (''lora-gw'', ''lora_gateway''), (''kerlink'', ''lora_gateway''),
     (''tektelic'', ''lora_gateway''), (''multitech-conduit'', ''lora_gateway''), (''mtcdt'', ''lora_gateway''),
     (''laird-sentrius'', ''lora_gateway''), (''sentrius-rg'', ''lora_gateway''), (''pygate'', ''lora_gateway''),
     (''chirpstack'', ''lora_gateway''), (''conbee'', ''iot_hub''), (''raspbee'', ''iot_hub''),
     (''phoscon'', ''iot_hub''), (''skyconnect'', ''iot_hub''), (''zbt-1'', ''iot_hub''),
     (''hassio-yellow'', ''iot_hub''), (''ha-yellow'', ''iot_hub''), (''homeassistant-yellow'', ''iot_hub''),
     (''slzb-'', ''iot_hub''), (''zbbridge'', ''iot_hub''), (''aqara-hub'', ''iot_hub''),
     (''aqara-gateway'', ''iot_hub''), (''tradfri-gateway'', ''iot_hub''), (''tradfri'', ''iot_hub''),
     (''dirigera'', ''iot_hub''), (''hue-bridge'', ''iot_hub''), (''philips-hue-bridge'', ''iot_hub''),
     (''zwave-'', ''iot_hub''), (''z-wave-'', ''iot_hub''), (''aeotec-'', ''iot_hub''), (''zooz-'', ''iot_hub''),
     (''homeseer'', ''iot_hub''), (''ruckus'', ''access_point''), (''icx-'', ''switch''),
     (''aruba'', ''access_point''), (''procurve'', ''switch''), (''eero'', ''mesh_router''),
     (''orbi'', ''mesh_router''), (''velop'', ''mesh_router''), (''deco'', ''mesh_router''),
     (''plume-'', ''mesh_router''), (''superpod'', ''mesh_router''), (''vilo-'', ''mesh_router''),
     (''zenwifi'', ''mesh_router''), (''asus-xt'', ''mesh_router''), (''asus-bt'', ''mesh_router''),
     (''lyra-'', ''mesh_router''), (''covr-'', ''mesh_router''), (''rbk'', ''mesh_router''),
     (''rbr'', ''mesh_router''), (''rbe9'', ''mesh_router''), (''rbs'', ''mesh_router''),
     (''mr2200'', ''mesh_router''), (''afi-alien'', ''router''), (''amplifi-alien'', ''router''),
     (''afi-g'', ''router''), (''amplifi-gamer'', ''router''), (''afi-teleport'', ''router''),
     (''amplifi-teleport'', ''router''), (''amplifi'', ''mesh_router''), (''afi-r'', ''mesh_router''),
     (''afi-p'', ''access_point''), (''eap'', ''access_point''), (''archer'', ''router''), (''diskstation'', ''nas''),
     (''rackstation'', ''nas''), (''flashstation'', ''nas''), (''synology'', ''nas''), (''ts-'', ''nas''),
     (''tvs-'', ''nas''), (''qnap'', ''nas''), (''readynas'', ''nas''), (''truenas'', ''nas''),
     (''freenas'', ''nas''), (''unraid'', ''nas''), (''openmediavault'', ''nas''), (''omv'', ''nas''),
     (''proxmox'', ''server''), (''esxi'', ''server''), (''vcenter'', ''server''), (''docker'', ''server''),
     (''polycom'', ''voip_phone''), (''yealink'', ''voip_phone''), (''grandstream'', ''voip_phone''),
     (''printer'', ''printer''), (''laserjet'', ''printer''), (''officejet'', ''printer''),
     (''deskjet'', ''printer''), (''pixma'', ''printer''), (''brother'', ''printer''), (''epson'', ''printer''),
     (''family-hub'', ''appliance''), (''thinq'', ''appliance''), (''smartthinq'', ''appliance''),
     (''washer'', ''appliance''), (''dryer'', ''appliance''), (''dishwasher'', ''appliance''),
     (''refrigerator'', ''appliance''), (''oven'', ''appliance'')]"

definition HOSTNAME_DEVICE_HINTS_4 :: "(string \<times> string) list" where
  "HOSTNAME_DEVICE_HINTS_4 =
    [(''poly-studio'', ''video_conferencing''), (''logitech-rally'', ''video_conferencing''),
     (''logitech-meetup'', ''video_conferencing''), (''neat-bar'', ''video_conferencing''),
     (''neat-board'', ''video_conferencing''), (''zoom-room'', ''video_conferencing''),
     (''teams-room'', ''video_conferencing''), (''webex-board'', ''video_conferencing''),
     (''webex-room'', ''video_conferencing''), (''projector'', ''projector''), (''bambulab'', ''3d_printer''),
     (''bambu'', ''3d_printer''), (''prusa'', ''3d_printer''), (''octoprint'', ''3d_printer''),
     (''creality'', ''3d_printer''), (''ender-'', ''3d_printer''), (''smart-ups'', ''ups''), (''apc-'', ''ups''),
     (''cyberpower'', ''ups''), (''chargepoint'', ''ev_charger''), (''wallbox'', ''ev_charger''),
     (''juicebox'', ''ev_charger''), (''tesla-wall'', ''ev_charger''), (''enphase'', ''solar_inverter''),
     (''solaredge'', ''solar_inverter''), (''powerwall'', ''solar_inverter''),
     (''tesla-gateway'', ''solar_inverter''), (''rachio'', ''irrigation''), (''rainmachine'', ''irrigation''),
     (''b-hyve'', ''irrigation''), (''sprinkler'', ''irrigation''), (''myq'', ''garage_door''),
     (''liftmaster'', ''garage_door''), (''garage'', ''garage_door''), (''onelink'', ''smoke_detector''),
     (''dyson-pure'', ''air_purifier''), (''purifier'', ''air_purifier''), (''molekule'', ''air_purifier''),
     (''nanit'', ''baby_monitor''), (''owlet'', ''baby_monitor''), (''baby-monitor'', ''baby_monitor''),
     (''petcube'', ''pet_device''), (''furbo'', ''pet_device''), (''brightsign'', ''digital_signage''),
     (''square-terminal'', ''pos_terminal''), (''clover'', ''pos_terminal''), (''plex'', ''media_server''),
     (''jellyfin'', ''media_server''), (''emby'', ''media_server''), (''dji-'', ''drone''),
     (''litebeam'', ''wireless_bridge''), (''nanobeam'', ''wireless_bridge''), (''nanostation'', ''wireless_bridge''),
     (''powerbeam'', ''wireless_bridge''), (''tesla-model'', ''vehicle''), (''tesla'', ''vehicle''),
     (''rivian'', ''vehicle''), (''elm327'', ''vehicle_diagnostic''), (''obdlink'', ''vehicle_diagnostic''),
     (''obd'', ''vehicle_diagnostic''), (''maxisys'', ''vehicle_diagnostic''), (''blackvue'', ''dashcam''),
     (''viofo'', ''dashcam''), (''thinkware'', ''dashcam''), (''nextbase'', ''dashcam''), (''dashcam'', ''dashcam''),
     (''raymarine'', ''marine_device''), (''axiom'', ''marine_device''), (''simrad'', ''marine_device''),
     (''furuno'', ''marine_device''), (''gpsmap'', ''marine_device''), (''vesper'', ''marine_device''),
     (''cerbo'', ''marine_device''), (''venus-gx'', ''marine_device''), (''starlink'', ''satellite_terminal''),
     (''hughesnet'', ''satellite_terminal''), (''viasat'', ''satellite_terminal''), (''samsara'', ''gps_tracker''),
     (''geotab'', ''gps_tracker''), (''airlink'', ''router''), (''cradlepoint'', ''router''),
     (''l3harris'', ''tactical_radio''), (''silvus'', ''tactical_radio''), (''mpu5'', ''tactical_radio''),
     (''streamcaster'', ''tactical_radio''), (''taclane'', ''crypto_device''), (''toughbook'', ''laptop''),
     (''getac-'', ''laptop''), (''axon-body'', ''body_camera''), (''axon-fleet'', ''body_camera''),
     (''weather-station'', ''weather_station''), (''acurite'', ''weather_station''),
     (''davis-vantage'', ''weather_station''), (''keysight'', ''lab_instrument''),
     (''tektronix'', ''lab_instrument''), (''rigol'', ''lab_instrument''), (''oscilloscope'', ''lab_instrument''),
     (''raspberrypi'', ''sbc''), (''raspberry-pi'', ''sbc''), (''raspberry'', ''sbc''), (''pine64'', ''sbc''),
     (''odroid'', ''sbc''), (''jetson'', ''sbc''), (''smart-board'', ''interactive_display''),
     (''smartboard'', ''interactive_display''), (''promethean'', ''interactive_display''), (''atm-'', ''atm''),
     (''diebold'', ''atm''), (''vending'', ''vending_machine''), (''kronos'', ''time_clock''),
     (''timeclock'', ''time_clock''), (''zebra-scanner'', ''handheld_scanner''), (''handheld'', ''handheld_scanner'')]"

definition HOSTNAME_DEVICE_HINTS_5 :: "(string \<times> string) list" where
  "HOSTNAME_DEVICE_HINTS_5 =
    [(''clickshare'', ''wireless_presentation''), (''mersive'', ''wireless_presentation''),
     (''solstice'', ''wireless_presentation''), (''lenel'', ''access_control''), (''genetec'', ''access_control''),
     (''access-control'', ''access_control''), (''plc-'', ''plc''), (''simatic'', ''plc''), (''s7-1500'', ''plc''),
     (''s7-1200'', ''plc''), (''controllogix'', ''plc''), (''compactlogix'', ''plc''), (''modicon'', ''plc''),
     (''melsec'', ''plc''), (''moxa'', ''industrial_switch''), (''hirschmann'', ''industrial_switch''),
     (''scalance'', ''industrial_switch''), (''scadapack'', ''rtu''), (''rtu-'', ''rtu''), (''panelview'', ''hmi''),
     (''magelis'', ''hmi''), (''ignition'', ''hmi''), (''sinumerik'', ''cnc_machine''),
     (''mazatrol'', ''cnc_machine''), (''fanuc-cnc'', ''cnc_machine''), (''fanuc-r'', ''industrial_robot''),
     (''kuka-kr'', ''industrial_robot''), (''ur5'', ''industrial_robot''), (''ur10'', ''industrial_robot''),
     (''ur3'', ''industrial_robot''), (''ion-'', ''power_meter''), (''sentron'', ''power_meter''),
     (''jace-'', ''building_automation''), (''tridium'', ''building_automation''),
     (''bacnet'', ''building_automation''), (''metasys'', ''building_automation''),
     (''niagara'', ''building_automation''), (''tracer'', ''building_automation''),
     (''mercury-'', ''access_control''), (''synergis'', ''access_control''), (''notifier'', ''fire_alarm''),
     (''simplex'', ''fire_alarm''), (''cerberus'', ''fire_alarm''), (''vesda'', ''fire_alarm''),
     (''otis-'', ''elevator_controller''), (''schindler'', ''elevator_controller''),
     (''kone-'', ''elevator_controller''), (''patient-monitor'', ''medical_device''),
     (''infusion-pump'', ''medical_device''), (''ventilator'', ''medical_device''),
     (''intellivue'', ''medical_device''), (''carescape'', ''medical_device''), (''alaris'', ''medical_device''),
     (''dicom'', ''medical_device''), (''benevision'', ''medical_device''), (''sigma-spectrum'', ''medical_device''),
     (''infusomat'', ''medical_device''), (''perfusor'', ''medical_device''), (''ncr-'', ''kiosk''),
     (''ssco-'', ''kiosk''), (''self-checkout'', ''kiosk''), (''crestron'', ''video_conferencing''),
     (''airmedia'', ''wireless_presentation''), (''control4'', ''smart_home''), (''brightsign'', ''digital_signage''),
     (''magicinfo'', ''digital_signage''), (''dymo'', ''printer''), (''evolis'', ''printer''),
     (''ztc-'', ''printer''), (''beaglebone'', ''sbc''), (''odroid'', ''sbc''), (''orangepi'', ''sbc''),
     (''bananapi'', ''sbc''), (''rock-'', ''sbc''), (''stellarmate'', ''sbc''), (''asiair'', ''sbc''),
     (''tek-'', ''lab_instrument''), (''rigol-'', ''lab_instrument''), (''siglent'', ''lab_instrument''),
     (''weatherlink'', ''weather_station''), (''weatherbridge'', ''weather_station''),
     (''gw1000'', ''weather_station''), (''gw2000'', ''weather_station''), (''ecowitt'', ''weather_station''),
     (''tempest-hub'', ''weather_station''), (''smart-board'', ''interactive_display''),
     (''smartboard'', ''interactive_display''), (''activpanel'', ''interactive_display''),
     (''extron'', ''video_conferencing''), (''amx-'', ''video_conferencing''), (''qsys'', ''video_conferencing''),
     (''celestron'', ''lab_instrument''), (''synscan'', ''lab_instrument''), (''bibliotheca'', ''kiosk'')]"

definition HOSTNAME_DEVICE_HINTS :: "(ustr \<times> ustr) list" where
  "HOSTNAME_DEVICE_HINTS = map (\<lambda>(k, t). (lit k, lit t)) (HOSTNAME_DEVICE_HINTS_1 @ HOSTNAME_DEVICE_HINTS_2 @ HOSTNAME_DEVICE_HINTS_3 @ HOSTNAME_DEVICE_HINTS_4 @ HOSTNAME_DEVICE_HINTS_5)"

definition MDNS_SERVICE_TYPE_OVERRIDE_1 :: "(string \<times> string) list" where
  "MDNS_SERVICE_TYPE_OVERRIDE_1 =
    [(''_airplay._tcp'', ''smart_speaker''), (''_raop._tcp'', ''smart_speaker''),
     (''_spotify-connect._tcp'', ''smart_speaker''), (''_sonos._tcp'', ''smart_speaker''),
     (''_googlecast._tcp'', ''smart_speaker''), (''_googlezone._tcp'', ''smart_speaker''),
     (''_googlehomedevice._tcp'', ''smart_speaker''), (''_amzn-wplay._tcp'', ''smart_speaker''),
     (''_home-assistant._tcp'', ''smart_home''), (''_hass._tcp'', ''smart_home''), (''_sftp-ssh._tcp'', ''server''),
     (''_smb._tcp'', ''server''), (''_nfs._tcp'', ''server''), (''_afpovertcp._tcp'', ''server''),
     (''_readynas._tcp'', ''nas''), (''_printer._tcp'', ''printer''), (''_ipp._tcp'', ''printer''),
     (''_ipps._tcp'', ''printer''), (''_scanner._tcp'', ''scanner''), (''_roku._tcp'', ''streaming_device''),
     (''_androidtvremote._tcp'', ''smart_tv''), (''_androidtvremote2._tcp'', ''smart_tv''),
     (''_samsungtv._tcp'', ''smart_tv''), (''_samsungtvrc._tcp'', ''smart_tv''), (''_lgtv._tcp'', ''smart_tv''),
     (''_lgtvremote._tcp'', ''smart_tv''), (''_viziocast._tcp'', ''smart_tv''),
     (''_clickshare._tcp'', ''wireless_presentation''), (''_mirrorop2upc._tcp'', ''wireless_presentation''),
     (''_crestron-cip._tcp'', ''video_conferencing''), (''_c4._tcp'', ''smart_home''),
     (''_dicom._tcp'', ''medical_device''), (''_lxi._tcp'', ''lab_instrument''),
     (''_vxi-11._tcp'', ''lab_instrument'')]"

definition MDNS_SERVICE_TYPE_OVERRIDE :: "(ustr \<times> ustr) list" where
  "MDNS_SERVICE_TYPE_OVERRIDE = map (\<lambda>(k, t). (lit k, lit t)) (MDNS_SERVICE_TYPE_OVERRIDE_1)"

section \<open>Types\<close>

definition INFRA_TYPES_TOPO :: "ustr list" where
  "INFRA_TYPES_TOPO = map lit
    [''router'', ''switch'', ''access_point'', ''firewall'', ''gateway'', ''load_balancer'', ''mesh_router'', ''network_device'',
     ''wireless_bridge'', ''cable_modem'']"

text \<open>\<open>d.get(k)\<close> in a dictionary written as its list of entries: the last entry of a key counts.\<close>

definition lit_get :: "(ustr \<times> ustr) list \<Rightarrow> ustr \<Rightarrow> ustr option" where
  "lit_get d k = dict_get (rev d) k"

lemma lit_eq_iff: "lit s = lit t \<longleftrightarrow> s = t"
  by (simp add: lit_def inj_map_eq_map inj_def)

text \<open>Looking up a literal key: the entries are compared as literals, from the end.\<close>

lemma lit_get_Nil: "lit_get [] k = None"
  by (simp add: lit_get_def)

lemma lit_get_append: "lit_get (d @ e) k = (case lit_get e k of None \<Rightarrow> lit_get d k | Some v \<Rightarrow> Some v)"
  by (simp add: lit_get_def dict_get_append split: option.splits)

lemma lit_get_entry:
  "lit_get (map (\<lambda>(k, t). (lit k, lit t)) ((a, b) # d)) (lit k) =
     (case lit_get (map (\<lambda>(k, t). (lit k, lit t)) d) (lit k) of None \<Rightarrow> if a = k then Some (lit b) else None | Some v \<Rightarrow> Some v)"
  by (simp add: lit_get_def dict_get_append lit_eq_iff split: option.splits)

lemmas lit_lookup = list.map(1) lit_get_Nil lit_get_entry option.case list.inject char.inject simp_thms if_False if_True list.distinct

definition FIREWALL_WORDS :: "string list" where
  "FIREWALL_WORDS = [''firewall'', ''fortigate'', ''fortiwifi'', ''sonicwall'', ''watchguard'', ''firebox'', ''pfsense'', ''opnsense'',
     ''pa-series'', ''pa-2'', ''pa-3'', ''pa-4'', ''pa-5'', ''pa-8'', ''ids_ips'', ''asa '']"

definition ROUTER_WORDS :: "string list" where
  "ROUTER_WORDS = [''router'', ''gateway'', ''dream machine'', ''edgerouter'', ''security gateway'', ''meraki mx'']"

text \<open>\<open>any(k in t for k in words)\<close>.\<close>

definition any_in :: "string list \<Rightarrow> ustr \<Rightarrow> bool" where
  "any_in ws t = list_ex (\<lambda>w. has w t) ws"

text \<open>The tests on the lower-cased type after the tables; the loop over the words tests the same two
  conditions for each word that occurs.\<close>

definition keyword_type :: "ustr \<Rightarrow> ustr" where
  "keyword_type t =
     (if any_in FIREWALL_WORDS t then lit ''firewall''
      else if has ''switch'' t \<and> \<not> has ''dream'' t \<and> \<not> has ''av_'' t then lit ''switch''
      else if any_in ROUTER_WORDS t then lit ''router''
      else if has ''cable_modem'' t then lit ''cable_modem''
      else if has ''access_point'' t \<or> has ''access point'' t then lit ''access_point''
      else if t = lit ''ap'' \<or> t = lit ''wap'' \<or> starts_with (lit ''ap '') t \<or> has '' ap'' t then lit ''access_point''
      else if has ''doorbell'' t then lit ''doorbell''
      else if has ''camera'' t \<or> t = lit ''cam'' then lit ''camera''
      else t)"

definition normalize_device_type :: "ustr option \<Rightarrow> ustr" where
  "normalize_device_type dt =
     (if \<not> truthy dt then lit ''unknown''
      else case lit_get DEVICE_TYPE_NORMALIZE (the dt) of
        Some t \<Rightarrow> t
      | None \<Rightarrow> (case lit_get DEVICE_TYPE_NORMALIZE (lower (the dt)) of Some t \<Rightarrow> t | None \<Rightarrow> keyword_type (lower (the dt))))"

definition GENERIC_TYPES :: "ustr list" where
  "GENERIC_TYPES = map lit [''unknown'', ''computer'', ''workstation'', ''iot'', ''nas'', ''server'']"

text \<open>The value of the first key that occurs in a text, in a list of entries.\<close>

definition vendor_hint_in :: "(ustr \<times> ustr) list \<Rightarrow> ustr \<Rightarrow> ustr option" where
  "vendor_hint_in d t = (case find (\<lambda>e. contains_sub (fst e) t) d of None \<Rightarrow> None | Some e \<Rightarrow> lit_get d (fst e))"

definition infer_type_from_vendor :: "ustr \<Rightarrow> ustr option \<Rightarrow> ustr" where
  "infer_type_from_vendor dtype mfr =
     (if dtype \<notin> set GENERIC_TYPES \<or> \<not> truthy mfr then dtype
      else case vendor_hint_in VENDOR_DEVICE_TYPE_HINTS (lower (the mfr)) of None \<Rightarrow> dtype | Some t \<Rightarrow> t)"

definition SPECIFIC_TYPES :: "ustr list" where
  "SPECIFIC_TYPES = map lit
    [''smart_display'', ''doorbell'', ''thermostat'', ''smart_lock'', ''smart_lighting'', ''smart_plug'', ''game_console'']"

text \<open>The first pattern of the list that occurs in the host name; the pattern \<open>switch\<close> does not
  count for a device that is known as infrastructure.\<close>

definition hostname_hint :: "ustr \<Rightarrow> (ustr \<times> ustr) list \<Rightarrow> ustr \<Rightarrow> ustr option" where
  "hostname_hint dtype hints hn =
     map_option snd (find (\<lambda>(p, t). contains_sub p hn \<and>
       \<not> (p = lit ''switch'' \<and> dtype \<in> {lit ''switch'', lit ''router'', lit ''access_point''})) hints)"

definition service_votes :: "ustr list \<Rightarrow> (ustr \<times> nat) list" where
  "service_votes svcs = foldl (\<lambda>vs s. case lit_get MDNS_SERVICE_TYPE_OVERRIDE s of
     None \<Rightarrow> vs | Some t \<Rightarrow> dict_set vs t (get_or vs t 0 + 1)) [] svcs"

definition top_vote :: "(ustr \<times> nat) list \<Rightarrow> ustr list \<Rightarrow> ustr" where
  "top_vote vs ks = first_max (\<lambda>k. of_nat (get_or vs k 0)) ks"

definition service_type_of :: "ustr \<Rightarrow> ustr list \<Rightarrow> ustr" where
  "service_type_of dtype svcs =
     (let vs = service_votes svcs; others = filter (\<lambda>k. k \<noteq> lit ''smart_speaker'') (dict_keys vs); best = top_vote vs (dict_keys vs)
      in if vs = [] then dtype
         else if dtype \<in> {lit ''workstation'', lit ''computer'', lit ''server'', lit ''nas''}
         then (if sum_list (map (\<lambda>k. get_or vs k 0) others) \<ge> 2 then top_vote vs others else dtype)
         else if get_or vs best 0 \<ge> 2 \<or> dtype \<in> {lit ''unknown'', lit ''iot'', lit ''smart_home'', lit ''mobile''} then best
         else dtype)"

definition refine_type_from_context :: "ustr \<Rightarrow> ustr option \<Rightarrow> ustr list \<Rightarrow> ustr" where
  "refine_type_from_context dtype hn svcs =
     (if dtype \<in> set SPECIFIC_TYPES then dtype
      else case (if truthy hn then hostname_hint dtype HOSTNAME_DEVICE_HINTS (lower (the hn)) else None) of
        Some t \<Rightarrow> t
      | None \<Rightarrow> service_type_of dtype svcs)"

section \<open>Wired or wireless\<close>

definition ALWAYS_WIRED :: "ustr list" where
  "ALWAYS_WIRED = map lit
    [''router'', ''switch'', ''access_point'', ''firewall'', ''gateway'', ''load_balancer'', ''mesh_router'',
     ''server'', ''nas'', ''hypervisor'', ''container_host'', ''kubernetes_node'', ''kvm_host'', ''hyper_v'',
     ''printer'', ''scanner'', ''voip_phone'', ''pbx'', ''storage_array'', ''thin_client'', ''ups'', ''pdu'',
     ''pos_terminal'', ''digital_signage'', ''media_server'', ''wireless_bridge'', ''3d_printer'', ''plc'', ''rtu'',
     ''hmi'', ''industrial_switch'', ''industrial_robot'', ''cnc_machine'', ''power_meter'', ''fire_alarm'',
     ''elevator_controller'', ''building_automation'', ''access_control'', ''atm'', ''time_clock'',
     ''lab_instrument'', ''medical_device'', ''handheld_scanner'', ''kiosk'']"

definition ALWAYS_WIRELESS :: "ustr list" where
  "ALWAYS_WIRELESS = map lit
    [''smartphone'', ''phone'', ''mobile'', ''tablet'', ''wearable'']"

definition LIKELY_WIRELESS :: "ustr list" where
  "LIKELY_WIRELESS = map lit
    [''smart_speaker'', ''smart_home'', ''thermostat'', ''doorbell'', ''smart_lighting'', ''smart_plug'',
     ''smart_lock'', ''streaming_device'', ''smart_display'', ''robot_vacuum'', ''iot'', ''microcontroller'',
     ''embedded'', ''camera'', ''ip_camera'', ''wearable'', ''sensor'', ''ev_charger'', ''solar_inverter'',
     ''irrigation'', ''garage_door'', ''smoke_detector'', ''air_purifier'', ''baby_monitor'', ''pet_device'',
     ''drone'', ''appliance'', ''dashcam'', ''weather_station'', ''sbc'', ''body_camera'', ''satellite_terminal'',
     ''tactical_radio'', ''gps_tracker'', ''marine_device'', ''vehicle'', ''vending_machine'',
     ''wireless_presentation'']"

definition WIRELESS_OUI_PREFIXES :: "ustr list" where
  "WIRELESS_OUI_PREFIXES = map lit
    [''00:13:02'', ''00:13:ce'', ''00:13:e8'', ''00:15:00'', ''00:16:ea'', ''00:18:de'', ''00:1b:77'', ''00:1c:bf'',
     ''00:1d:e0'', ''00:1e:64'', ''00:1e:65'', ''00:21:5c'', ''00:21:5d'', ''00:21:6a'', ''00:22:fa'', ''00:22:fb'',
     ''00:24:d6'', ''00:24:d7'', ''00:26:c6'', ''00:26:c7'', ''00:27:10'', ''08:d4:0c'', ''34:02:86'', ''40:25:c2'',
     ''58:91:cf'', ''5c:51:4f'', ''60:67:20'', ''68:5d:43'', ''7c:76:35'', ''7c:b2:7d'', ''84:3a:5b'', ''8c:70:5a'',
     ''a4:34:d9'', ''b4:6b:fc'', ''bc:77:37'', ''c8:ff:28'', ''d0:7e:35'', ''d4:3b:04'', ''dc:1b:a1'', ''e0:94:67'',
     ''f4:d4:88'', ''f8:63:3f'', ''00:03:7f'', ''00:09:5b'', ''00:0b:6b'', ''00:0d:0b'', ''00:0e:6a'', ''00:11:f5'',
     ''00:13:74'', ''00:15:af'', ''00:1a:6b'', ''00:1b:9e'', ''00:1d:0f'', ''00:1e:a6'', ''00:20:a6'', ''00:24:05'',
     ''04:f0:21'', ''1c:b7:2c'', ''28:c2:dd'', ''48:a4:72'', ''54:e6:fc'', ''74:da:38'', ''9c:b7:0d'', ''b4:ee:b4'',
     ''d8:c7:c8'', ''00:10:18'', ''00:90:4c'', ''20:10:7a'', ''40:4d:7f'', ''00:0c:e7'', ''00:0c:43'', ''00:13:31'',
     ''0c:96:bf'', ''18:d6:c7'', ''70:66:1b'', ''8c:88:2b'', ''e8:4e:06'', ''48:02:2a'', ''60:02:b4'', ''90:de:80'',
     ''c0:25:e9'', ''d8:c4:6a'', ''18:fe:34'', ''24:0a:c4'', ''24:62:ab'', ''24:6f:28'', ''30:ae:a4'', ''3c:61:05'',
     ''3c:71:bf'', ''40:f5:20'', ''54:5a:a6'', ''5c:cf:7f'', ''60:01:94'', ''68:c6:3a'', ''70:03:9f'', ''80:7d:3a'',
     ''84:0d:8e'', ''84:cc:a8'', ''90:97:d5'', ''94:b9:7e'', ''a0:20:a6'', ''a4:cf:12'', ''a4:e5:7c'', ''ac:67:b2'',
     ''b4:e6:2d'', ''bc:dd:c2'', ''c4:4f:33'', ''c8:2b:96'', ''cc:50:e3'', ''d8:a0:1d'', ''dc:4f:22'', ''e0:98:06'',
     ''ec:fa:bc'', ''f0:08:d1'']"

definition WIRELESS_MANUFACTURERS :: "ustr list" where
  "WIRELESS_MANUFACTURERS = map lit
    [''apple'', ''samsung'', ''google'', ''xiaomi'', ''huawei'', ''oppo'', ''vivo'', ''oneplus'', ''realme'',
     ''nothing'', ''motorola'', ''nokia'', ''roborock'', ''ecovacs'', ''irobot'', ''dreame'', ''withings'',
     ''fitbit'', ''ring'', ''arlo'', ''wyze'', ''blink'', ''sonos'', ''jbl'', ''bose'', ''ecobee'', ''nest'',
     ''lutron'', ''philips hue'', ''lifx'', ''hue'', ''shelly'', ''meross'', ''kasa'', ''tp-link kasa'', ''august'',
     ''yale'', ''roku'', ''espressif'', ''tuya'', ''smartlife'']"

definition WIRELESS_MDNS_SERVICES :: "ustr list" where
  "WIRELESS_MDNS_SERVICES = map lit
    [''_apple-mobdev2._tcp'', ''_apple-mobdev._tcp'', ''_companion-link._tcp'', ''_touch-able._tcp'',
     ''_amzn-wplay._tcp'', ''_googlecast._tcp'', ''_googlehomedevice._tcp'', ''_spotify-connect._tcp'',
     ''_sonos._tcp'', ''_roku._tcp'', ''_smartthings._tcp'']"


definition infer_connection_type ::
    "ustr \<Rightarrow> ustr option \<Rightarrow> bool \<Rightarrow> ustr option \<Rightarrow> ustr list \<Rightarrow> bool \<Rightarrow> bool \<Rightarrow> string" where
  "infer_connection_type m dtype randomized mfr services has_lldp has_cdp =
     (let dt = (case dtype of None \<Rightarrow> [] | Some t \<Rightarrow> lower t); mf = (case mfr of None \<Rightarrow> [] | Some t \<Rightarrow> lower t)
      in if has_lldp \<or> has_cdp then ''wired''
         else if dt \<in> set ALWAYS_WIRED then ''wired''
         else if randomized then ''wireless''
         else if dt \<in> set ALWAYS_WIRELESS then ''wireless''
         else if dt \<in> set LIKELY_WIRELESS then ''wireless''
         else if list_ex (\<lambda>w. contains_sub w mf) WIRELESS_MANUFACTURERS then ''wireless''
         else if lower (take 8 m) \<in> set WIRELESS_OUI_PREFIXES then ''wireless''
         else if list_ex (\<lambda>s. s \<in> set WIRELESS_MDNS_SERVICES) services then ''wireless''
         else if dt = lit ''laptop'' then ''wireless''
         else ''unknown'')"

end
