(* ===== verification/Topology.thy ===== *)
theory Topology
  imports DeviceTypes DhcpSignatures
begin

text \<open>
  The graph of \<open>topology.py\<close>: \<open>build_topology_graph\<close> with its helpers.  A device, a gateway and a
  neighbour are the dictionaries of the code; a node is a record of the fields the function reads again, the
  fields it only copies in \<open>nd_rest\<close>.  The hash of texts and the order of sets, which differ from
  run to run, are arguments.  Times are microseconds.
\<close>

section \<open>Data\<close>

record topo_env =
  te_hash :: "ustr \<Rightarrow> int"
  te_order :: "ustr list \<Rightarrow> ustr list"
  te_now :: int

type_synonym gateway = "ustr \<times> ustr"

record topo_node =
  nd_id :: ustr
  nd_type :: ustr
  nd_hostname :: "ustr option"
  nd_ip :: "ustr option"
  nd_subnet :: "ustr option"
  nd_gateway :: bool
  nd_infra :: bool
  nd_online :: bool
  nd_self :: bool
  nd_conn :: ustr
  nd_rest :: dict

record topo_edge =
  e_source :: ustr
  e_target :: ustr
  e_kind :: string
  e_port :: pyval

text \<open>A text field, and the address every device has.\<close>

definition tget :: "dict \<Rightarrow> string \<Rightarrow> ustr option" where
  "tget d k = textv (dget d k)"

definition mac_of :: "dict \<Rightarrow> ustr" where
  "mac_of d = some_text (dget d ''mac'')"

section \<open>Networks\<close>

text \<open>The eight groups of an IPv6 text that \<open>ipv6_ok\<close> accepts.\<close>

definition ipv6_groups :: "ustr list \<Rightarrow> ustr list" where
  "ipv6_groups parts =
     (let n = length parts
      in case filter (\<lambda>i. parts ! i = []) [1..<n - 1] of
           [] \<Rightarrow> parts
         | k # ks \<Rightarrow>
             let hi = (if hd parts = [] then k - 1 else k); lo = (if List.last parts = [] then n - k - 2 else n - k - 1)
             in take hi parts @ replicate (8 - hi - lo) [48] @ drop (n - lo) parts)"

definition hex_value :: "ustr \<Rightarrow> nat" where
  "hex_value t = foldl (\<lambda>n c. 16 * n + (if is_digit c then c - 48 else lower_char c - 87)) 0 t"

definition net6_text :: "nat \<Rightarrow> nat \<Rightarrow> ustr" where
  "net6_text a b = (if b = 0 then (if a = 0 then [] else hex_nat a) else hex_nat a @ 58 # hex_nat b) @ lit ''::''"

text \<open>The network of at most 32 bits; the second group is cut to multiples of \<open>n\<close>.  A scope stays when the address
  is that of the network.\<close>

definition net6 :: "nat \<Rightarrow> ustr \<Rightarrow> ustr" where
  "net6 n t =
     (let gs = map hex_value (ipv6_groups (case ipv6_parts (hd (split_on 37 t)) of None \<Rightarrow> [] | Some ps \<Rightarrow> ps));
          a = gs ! 0; b = gs ! 1; scope = dropWhile (\<lambda>c. c \<noteq> 37) t
      in net6_text a (b - b mod n) @ (if b mod n = 0 \<and> list_all (\<lambda>g. g = 0) (drop 2 gs) then scope else []))"

definition subnet_for_ip :: "ustr option \<Rightarrow> ustr option" where
  "subnet_for_ip ip =
     (if \<not> truthy ip then None
      else if is_ipv4 (the ip) then Some (join [46] (take 3 (split_on 46 (the ip)) @ [[48]]) @ lit ''/24'')
      else if is_ipv6 (the ip) then Some (net6 256 (the ip) @ lit ''/24'')
      else None)"

section \<open>Gateways\<close>

definition type_of_device :: "dict \<Rightarrow> ustr" where
  "type_of_device d = infer_type_from_vendor (normalize_device_type (tget d ''device_type'')) (tget d ''manufacturer'')"

definition device_types :: "dict list \<Rightarrow> (ustr \<times> ustr) list" where
  "device_types ds = foldl (\<lambda>t d. dict_set t (mac_of d) (type_of_device d)) [] ds"

definition infer_gateway :: "gateway list \<Rightarrow> dict \<Rightarrow> gateway list" where
  "infer_gateway gs d =
     (if normalize_device_type (tget d ''device_type'') = lit ''router'' \<and> mac_of d \<notin> set (map fst gs) \<and> truthy (tget d ''ip_v4'')
      then gs @ [(mac_of d, the (tget d ''ip_v4''))] else gs)"

text \<open>Gateways that are no infrastructure go, when there is some; routers take their place.\<close>

definition valid_gateways :: "dict list \<Rightarrow> gateway list \<Rightarrow> gateway list" where
  "valid_gateways ds gs =
     (let types = device_types ds;
          bad = filter (\<lambda>m. get_or types m (lit ''unknown'') \<notin> set INFRA_TYPES_TOPO) (map fst gs)
      in if bad \<noteq> [] \<and> list_ex (\<lambda>t. t \<in> set INFRA_TYPES_TOPO) (map snd types)
         then foldl infer_gateway (filter (\<lambda>g. fst g \<notin> set bad) gs) ds else gs)"

definition gateway_subnets :: "gateway list \<Rightarrow> (ustr \<times> ustr) list" where
  "gateway_subnets gs = foldl (\<lambda>t (m, ip). case subnet_for_ip (Some ip) of None \<Rightarrow> t | Some s \<Rightarrow> dict_set t s m) [] gs"

section \<open>Nodes\<close>

definition AP_KEYWORDS :: "string list" where
  "AP_KEYWORDS = [''uap'', ''u6'', ''u7'', ''ap '', ''access point'', ''nanostation'', ''litebeam'', ''nanobeam'', ''powerbeam'',
     ''unifi ap'', ''ac-lite'', ''ac-lr'', ''ac-pro'', ''ac-hd'', ''ac-mesh'', ''flexhd'', ''in-wall'', ''basestation'', ''-ap-'',
     ''eap'', ''wap'', ''aruba ap'', ''ruckus'']"

definition SWITCH_KEYWORDS :: "string list" where
  "SWITCH_KEYWORDS = [''usw'', ''switch'', ''us-'', ''us8'', ''us16'', ''us24'', ''us48'', ''unifi switch'', ''catalyst'', ''prosafe'',
     ''gs1'', ''gs3'']"

definition ROUTER_KEYWORDS :: "string list" where
  "ROUTER_KEYWORDS = [''udm'', ''ucg'', ''udr'', ''usg'', ''edgerouter'', ''dream machine'', ''cloud gateway'', ''security gateway'']"

definition neighbour_names :: "dict list \<Rightarrow> string \<Rightarrow> ustr \<Rightarrow> bool" where
  "neighbour_names nbs k m \<longleftrightarrow> list_ex (\<lambda>n. tget n k = Some m) nbs"

definition near_access_point :: "dict list \<Rightarrow> dict \<Rightarrow> bool" where
  "near_access_point ds d \<longleftrightarrow> subnet_for_ip (tget d ''ip_v4'') \<noteq> None \<and>
     list_ex (\<lambda>x. normalize_device_type (tget x ''device_type'') = lit ''access_point'' \<and>
       subnet_for_ip (tget x ''ip_v4'') = subnet_for_ip (tget d ''ip_v4'')) ds"

text \<open>What a network device of unknown kind is.\<close>

definition refine_network_device :: "dict list \<Rightarrow> dict list \<Rightarrow> dict \<Rightarrow> ustr" where
  "refine_network_device ds nbs d =
     (let name = lower (case or_else (tget d ''model'') (tget d ''hostname'') of None \<Rightarrow> [] | Some t \<Rightarrow> t)
      in if any_in AP_KEYWORDS name then lit ''access_point''
         else if any_in SWITCH_KEYWORDS name then lit ''switch''
         else if any_in ROUTER_KEYWORDS name then lit ''router''
         else if neighbour_names nbs ''device_mac'' (mac_of d) \<or> neighbour_names nbs ''neighbor_mac'' (mac_of d)
         then (if near_access_point ds d then lit ''access_point'' else lit ''network_device'')
         else if tget d ''manufacturer'' \<noteq> None \<and>
           lower (the (tget d ''manufacturer'')) \<in> {lit ''ubiquiti'', lit ''ubiquiti inc'', lit ''ubiquiti networks''}
         then lit ''access_point'' else lit ''network_device'')"

definition node_type :: "dict list \<Rightarrow> dict list \<Rightarrow> (ustr \<times> ustr list) list \<Rightarrow> dict \<Rightarrow> ustr" where
  "node_type ds nbs svcs d =
     (let t = refine_type_from_context (type_of_device d) (tget d ''hostname'') (get_or svcs (mac_of d) [])
      in if t = lit ''network_device'' then refine_network_device ds nbs d else t)"

definition clean_hostname_topo :: "ustr option \<Rightarrow> ustr \<Rightarrow> ustr option \<Rightarrow> ustr option \<Rightarrow> ustr option" where
  "clean_hostname_topo hn dtype mfr mdl =
     (if \<not> truthy hn
      then (if dtype = lit ''network_device'' \<and> truthy mfr \<and> has ''ubiquiti'' (lower (the mfr))
            then (if truthy mdl then mdl else Some (lit ''Ubiquiti (AP/SW?)'')) else None)
      else let t = strip (the hn)
           in if length (filter (\<lambda>c. c = 46) t) \<ge> 2 \<and> \<not> ends_with (lit ''.local'') t then None
              else if length t > 50 then None else Some t)"

definition copied_fields :: "dict \<Rightarrow> dict" where
  "copied_fields d =
     map (\<lambda>k. (k, dget d k)) [''model'', ''manufacturer'', ''last_seen'', ''os_family'', ''all_ips'', ''owner'', ''location'', ''criticality''] @
     [(''confidence'', get_or d ''confidence'' (PInt 0)), (''tags'', if py_truthy (dget d ''tags'') then dget d ''tags'' else PList []),
      (''authorization'', if py_truthy (dget d ''authorization'') then dget d ''authorization'' else pstr ''unapproved'')]"

definition ONLINE_SPAN :: int where
  "ONLINE_SPAN = 30 * 60 * 1000000"

definition node_of :: "topo_env \<Rightarrow> dict list \<Rightarrow> gateway list \<Rightarrow> dict list \<Rightarrow> (ustr \<times> ustr list) list \<Rightarrow> dict \<Rightarrow> topo_node" where
  "node_of env ds gs nbs svcs d =
     (let t = node_type ds nbs svcs d; gw = (mac_of d \<in> set (map fst gs))
      in \<lparr>nd_id = mac_of d, nd_type = t,
          nd_hostname = clean_hostname_topo (tget d ''hostname'') t (tget d ''manufacturer'') (tget d ''model''),
          nd_ip = or_else (tget d ''ip_v4'') (tget d ''ip_v6''), nd_subnet = subnet_for_ip (tget d ''ip_v4''),
          nd_gateway = gw, nd_infra = (t \<in> set INFRA_TYPES_TOPO \<and> \<not> gw),
          nd_online = (case dget d ''last_seen'' of PInt ls \<Rightarrow> te_now env - ls < ONLINE_SPAN | _ \<Rightarrow> False),
          nd_self = (tget d ''alert_status'' = Some (lit ''self'')),
          nd_conn = some_text (get_or d ''connection_type'' (pstr ''unknown'')), nd_rest = copied_fields d\<rparr>)"

text \<open>A device without any address is no node.\<close>

definition device_nodes :: "topo_env \<Rightarrow> dict list \<Rightarrow> gateway list \<Rightarrow> dict list \<Rightarrow> (ustr \<times> ustr list) list \<Rightarrow> topo_node list" where
  "device_nodes env ds gs nbs svcs =
     map (node_of env ds gs nbs svcs) (filter (\<lambda>d. truthy (tget d ''ip_v4'') \<or> truthy (tget d ''ip_v6'')) ds)"

section \<open>Neighbours and traffic\<close>

definition by_mac :: "topo_node list \<Rightarrow> (ustr \<times> topo_node) list" where
  "by_mac ns = foldl (\<lambda>t n. dict_set t (nd_id n) n) [] ns"

text \<open>The two ends of a neighbour announcement, when both are given.\<close>

definition ends_of :: "dict \<Rightarrow> (ustr \<times> ustr) option" where
  "ends_of nb =
     (case (tget nb ''device_mac'', tget nb ''neighbor_mac'') of
        (Some a, Some b) \<Rightarrow> if a = [] \<or> b = [] then None else Some (a, b)
      | _ \<Rightarrow> None)"

definition add_neighbour :: "ustr \<Rightarrow> ustr \<Rightarrow> (ustr \<times> ustr list) list \<Rightarrow> (ustr \<times> ustr list) list" where
  "add_neighbour a b t = dict_set t a (List.insert b (get_or t a []))"

definition lldp_links :: "dict list \<Rightarrow> (ustr \<times> ustr list) list" where
  "lldp_links nbs = foldl (\<lambda>t nb. case ends_of nb of None \<Rightarrow> t | Some (a, b) \<Rightarrow> add_neighbour b a (add_neighbour a b t)) [] nbs"

definition lldp_ports :: "dict list \<Rightarrow> ((ustr \<times> ustr) \<times> pyval) list" where
  "lldp_ports nbs = foldl (\<lambda>t nb. case ends_of nb of None \<Rightarrow> t
     | Some ab \<Rightarrow> if py_truthy (dget nb ''port_id'') then dict_set t ab (dget nb ''port_id'') else t) [] nbs"

definition arp_counts :: "dict list \<Rightarrow> (ustr \<times> rat) list" where
  "arp_counts es = foldl (\<lambda>t e. case tget e ''mac'' of
       Some m \<Rightarrow> if m = [] then t else dict_set t m (get_or t m 0 + num_of (get_or e ''packet_count'' (PInt 0)))
     | None \<Rightarrow> t) [] es"

definition is_switch :: "topo_node \<Rightarrow> bool" where
  "is_switch n \<longleftrightarrow> nd_infra n \<and> nd_type n \<in> {lit ''switch'', lit ''unifi switch''} \<and> \<not> nd_gateway n"

definition is_ap :: "topo_node \<Rightarrow> bool" where
  "is_ap n \<longleftrightarrow> nd_infra n \<and> nd_type n = lit ''access_point''"

text \<open>The switch with the most traffic, the first of them; an empty address counts as none when edges are drawn.\<close>

definition core_switch :: "topo_node list \<Rightarrow> dict list \<Rightarrow> ustr option" where
  "core_switch ns arp =
     (let sw = filter is_switch ns
      in if sw = [] then None else Some (nd_id (first_max (\<lambda>n. get_or (arp_counts arp) (nd_id n) 0) sw)))"

section \<open>Virtual machines\<close>

definition VM_OUI_PREFIXES :: "ustr list" where
  "VM_OUI_PREFIXES = map lit [''00:0c:29'', ''00:50:56'', ''52:54:00'', ''00:16:3e'', ''08:00:27'']"

definition is_vm :: "topo_node \<Rightarrow> bool" where
  "is_vm n \<longleftrightarrow> lower (take 8 (nd_id n)) \<in> set VM_OUI_PREFIXES"

definition HOST_TYPES :: "ustr list" where
  "HOST_TYPES = map lit [''workstation'', ''computer'', ''server'', ''desktop'', ''laptop'']"

definition can_host :: "topo_node \<Rightarrow> topo_node \<Rightarrow> bool" where
  "can_host n c \<longleftrightarrow> nd_id c \<noteq> nd_id n \<and> \<not> nd_gateway c \<and> \<not> nd_infra c \<and> nd_subnet c = nd_subnet n \<and> \<not> is_vm c \<and>
     nd_type c \<in> set HOST_TYPES"

definition vm_to_host :: "topo_node list \<Rightarrow> (ustr \<times> ustr) list" where
  "vm_to_host ns = foldl (\<lambda>t n. if is_vm n \<and> truthy (nd_subnet n)
     then (case find (can_host n) ns of None \<Rightarrow> t | Some c \<Rightarrow> dict_set t (nd_id n) (nd_id c)) else t) [] ns"

section \<open>Edges\<close>

fun text_le :: "ustr \<Rightarrow> ustr \<Rightarrow> bool" where
  "text_le [] t = True"
| "text_le (a # s) [] = False"
| "text_le (a # s) (b # t) = (a < b \<or> (a = b \<and> text_le s t))"

definition edge_pair :: "ustr \<Rightarrow> ustr \<Rightarrow> ustr \<times> ustr" where
  "edge_pair a b = (if text_le a b then (a, b) else (b, a))"

text \<open>The edges so far, the pairs that count as connected, and the index of the next access point.\<close>

record wiring =
  w_edges :: "topo_edge list"
  w_joined :: "(ustr \<times> ustr) list"
  w_next :: nat

definition put_edge :: "topo_edge \<Rightarrow> wiring \<Rightarrow> wiring" where
  "put_edge e w = w\<lparr>w_edges := w_edges w @ [e]\<rparr>"

definition join_once :: "topo_edge \<Rightarrow> wiring \<Rightarrow> wiring" where
  "join_once e w =
     (let p = edge_pair (e_source e) (e_target e)
      in if p \<in> set (w_joined w) then w else put_edge e (w\<lparr>w_joined := p # w_joined w\<rparr>))"

definition plain_edge :: "ustr \<Rightarrow> ustr \<Rightarrow> string \<Rightarrow> topo_edge" where
  "plain_edge a b k = \<lparr>e_source = a, e_target = b, e_kind = k, e_port = PNone\<rparr>"

definition INTERNET :: ustr where
  "INTERNET = lit ''internet''"

definition wan_links :: "gateway list \<Rightarrow> ustr option \<Rightarrow> wiring \<Rightarrow> wiring" where
  "wan_links gs core w =
     (if gs \<noteq> [] then fold (\<lambda>g. put_edge (plain_edge INTERNET (fst g) ''wan_link'')) gs w
      else case core of None \<Rightarrow> w | Some c \<Rightarrow> put_edge (plain_edge INTERNET c ''wan_link'') w)"

definition port_between :: "((ustr \<times> ustr) \<times> pyval) list \<Rightarrow> ustr \<Rightarrow> ustr \<Rightarrow> pyval" where
  "port_between ports a b = or_val (get_or ports (a, b) PNone) (get_or ports (b, a) PNone)"

definition trunk_links :: "gateway list \<Rightarrow> topo_node list \<Rightarrow> ((ustr \<times> ustr) \<times> pyval) list \<Rightarrow> ustr option \<Rightarrow> wiring \<Rightarrow> wiring" where
  "trunk_links gs ns ports core w =
     (case core of None \<Rightarrow> w
      | Some c \<Rightarrow>
          fold (\<lambda>n. join_once ((plain_edge c (nd_id n) ''trunk_link'')\<lparr>e_port := port_between ports c (nd_id n)\<rparr>))
            (filter (\<lambda>n. nd_infra n \<and> \<not> nd_gateway n \<and> nd_id n \<noteq> c) ns)
            (fold (\<lambda>g. join_once (plain_edge (fst g) c ''trunk_link'')) gs w))"

definition lldp_edges :: "dict list \<Rightarrow> topo_node list \<Rightarrow> wiring \<Rightarrow> wiring" where
  "lldp_edges nbs ns w =
     fold (\<lambda>nb w. case ends_of nb of None \<Rightarrow> w
       | Some (a, b) \<Rightarrow> if a \<in> nd_id ` set ns \<and> b \<in> nd_id ` set ns
           then join_once ((plain_edge a b ''lldp'')\<lparr>e_port := dget nb ''port_id''\<rparr>) w else w) nbs w"

section \<open>Clients\<close>

text \<open>What the loop over the clients reads.\<close>

record topo_view =
  v_nodes :: "topo_node list"
  v_gateways :: "gateway list"
  v_links :: "(ustr \<times> ustr list) list"
  v_core :: "ustr option"

definition aps_of :: "topo_view \<Rightarrow> topo_node list" where
  "aps_of v = filter is_ap (v_nodes v)"

definition switches_of :: "topo_view \<Rightarrow> ustr list" where
  "switches_of v = map nd_id (filter is_switch (v_nodes v))"

text \<open>\<open>xs[hash(mac) % len(xs)]\<close>.\<close>

definition hash_pick :: "topo_env \<Rightarrow> ustr \<Rightarrow> ustr list \<Rightarrow> ustr" where
  "hash_pick env m xs = xs ! nat (te_hash env m mod int (length xs))"

text \<open>An access point of the same subnet, or the next one in turn.\<close>

definition ap_target :: "topo_env \<Rightarrow> topo_view \<Rightarrow> topo_node \<Rightarrow> wiring \<Rightarrow> ustr option \<times> wiring" where
  "ap_target env v n w =
     (let near = map nd_id (filter (\<lambda>a. truthy (nd_subnet a) \<and> nd_subnet a = nd_subnet n) (aps_of v))
      in if truthy (nd_subnet n) \<and> near \<noteq> [] then (Some (hash_pick env (nd_id n) near), w)
         else if aps_of v \<noteq> [] then (Some (nd_id (aps_of v ! (w_next w mod length (aps_of v)))), w\<lparr>w_next := w_next w + 1\<rparr>)
         else (None, w))"

text \<open>The gateway of the subnet, or any.\<close>

definition any_gateway :: "topo_env \<Rightarrow> topo_view \<Rightarrow> topo_node \<Rightarrow> ustr option" where
  "any_gateway env v n =
     (let own = Option.bind (nd_subnet n) (dict_get (gateway_subnets (v_gateways v)));
          ms = te_order env (remdups (map fst (v_gateways v)))
      in if truthy own then own else if ms = [] \<or> hd ms = [] then None else Some (hd ms))"

text \<open>An edge to the client from the first of these parents that exists.\<close>

definition client_edge :: "topo_node \<Rightarrow> string \<Rightarrow> ustr \<Rightarrow> wiring \<Rightarrow> wiring" where
  "client_edge n k p w = put_edge (plain_edge p (nd_id n) k) w"

definition self_link :: "topo_view \<Rightarrow> topo_node \<Rightarrow> wiring \<Rightarrow> wiring" where
  "self_link v n w =
     (let same = filter (\<lambda>s. (case dict_get (by_mac (v_nodes v)) s of None \<Rightarrow> None | Some x \<Rightarrow> nd_subnet x) = nd_subnet n) (switches_of v)
      in join_once (plain_edge (if same \<noteq> [] then hd same else hd (switches_of v)) (nd_id n) ''client_link'') w)"

definition lldp_parent :: "topo_env \<Rightarrow> topo_view \<Rightarrow> topo_node \<Rightarrow> ustr option" where
  "lldp_parent env v n =
     (case dict_get (v_links v) (nd_id n) of None \<Rightarrow> None
      | Some nbs \<Rightarrow> find (\<lambda>b. case dict_get (by_mac (v_nodes v)) b of None \<Rightarrow> False | Some x \<Rightarrow> nd_infra x) (te_order env nbs))"

text \<open>The last resorts: the core switch, a gateway, the internet.\<close>

definition wireless_link :: "topo_env \<Rightarrow> topo_view \<Rightarrow> topo_node \<Rightarrow> wiring \<Rightarrow> wiring" where
  "wireless_link env v n w =
     (let (ap, w) = ap_target env v n w
      in if truthy ap then client_edge n ''wireless_link'' (the ap) w
         else case v_core v of
           Some c \<Rightarrow> client_edge n ''wireless_link'' c w
         | None \<Rightarrow> (case any_gateway env v n of
             Some g \<Rightarrow> client_edge n ''wireless_link'' g w
           | None \<Rightarrow> client_edge n ''client_link'' INTERNET w))"

definition core_or_gateway :: "topo_env \<Rightarrow> topo_view \<Rightarrow> topo_node \<Rightarrow> wiring \<Rightarrow> wiring" where
  "core_or_gateway env v n w =
     (case v_core v of Some c \<Rightarrow> client_edge n ''client_link'' c w
      | None \<Rightarrow> (case any_gateway env v n of Some g \<Rightarrow> client_edge n ''client_link'' g w | None \<Rightarrow> w))"

definition unknown_link :: "topo_env \<Rightarrow> topo_view \<Rightarrow> topo_node \<Rightarrow> wiring \<Rightarrow> wiring" where
  "unknown_link env v n w =
     (if nd_type n = [] \<or> lower (nd_type n) \<notin> set INFRA_TYPES_TOPO
      then (let (ap, w) = ap_target env v n w
            in if truthy ap then client_edge n ''wireless_link'' (the ap) w else core_or_gateway env v n w)
      else if switches_of v \<noteq> [] then client_edge n ''client_link'' (hash_pick env (nd_id n) (switches_of v)) w
      else core_or_gateway env v n w)"

definition last_resort :: "topo_env \<Rightarrow> topo_view \<Rightarrow> topo_node \<Rightarrow> wiring \<Rightarrow> wiring" where
  "last_resort env v n w =
     (case any_gateway env v n of Some g \<Rightarrow> client_edge n ''client_link'' g w
      | None \<Rightarrow>
          client_edge n ''client_link''
            (case find (\<lambda>x. nd_infra x \<or> nd_gateway x) (v_nodes v) of None \<Rightarrow> INTERNET
             | Some x \<Rightarrow> if nd_id x = [] then INTERNET else nd_id x) w)"

definition client_link :: "topo_env \<Rightarrow> topo_view \<Rightarrow> topo_node \<Rightarrow> wiring \<Rightarrow> wiring" where
  "client_link env v n w =
     (if nd_self n \<and> switches_of v \<noteq> [] then self_link v n w
      else if truthy (lldp_parent env v n) then join_once (plain_edge (the (lldp_parent env v n)) (nd_id n) ''client_link'') w
      else case dict_get (vm_to_host (v_nodes v)) (nd_id n) of
        Some h \<Rightarrow> client_edge n ''vm_link'' h w
      | None \<Rightarrow>
          if nd_conn n = lit ''wireless'' \<or> (nd_conn n = lit ''unknown'' \<and> aps_of v \<noteq> [] \<and> switches_of v = [])
          then wireless_link env v n w
          else if nd_conn n = lit ''unknown'' \<and> aps_of v \<noteq> [] then unknown_link env v n w
          else if switches_of v \<noteq> [] \<and> nd_conn n = lit ''wired''
          then client_edge n ''client_link'' (hash_pick env (nd_id n) (switches_of v)) w
          else (case v_core v of Some c \<Rightarrow> client_edge n ''client_link'' c w | None \<Rightarrow> last_resort env v n w))"

definition is_client :: "topo_node \<Rightarrow> bool" where
  "is_client n \<longleftrightarrow> \<not> nd_gateway n \<and> \<not> nd_infra n"

section \<open>The graph\<close>

text \<open>A manual parent replaces the edges that lead to the device.\<close>

definition apply_override :: "topo_node list \<Rightarrow> ustr \<times> ustr \<Rightarrow> topo_edge list \<Rightarrow> topo_edge list" where
  "apply_override ns ov es =
     (let (child, parent) = ov
      in if child \<notin> nd_id ` set ns \<or> (parent \<noteq> INTERNET \<and> parent \<notin> nd_id ` set ns) then es
         else filter (\<lambda>e. e_target e \<noteq> child) es @ [plain_edge parent child ''manual_link''])"

record placed =
  pl_id :: ustr
  pl_tier :: string
  pl_core :: bool
  pl_node :: "topo_node option"

record topo_graph =
  tg_nodes :: "placed list"
  tg_edges :: "topo_edge list"
  tg_subnets :: "ustr list"

definition placed_as :: "string \<Rightarrow> bool \<Rightarrow> topo_node \<Rightarrow> placed" where
  "placed_as tier core n = \<lparr>pl_id = nd_id n, pl_tier = tier, pl_core = core, pl_node = Some n\<rparr>"

definition place_nodes :: "gateway list \<Rightarrow> ustr option \<Rightarrow> topo_node list \<Rightarrow> placed list" where
  "place_nodes gs core ns =
     \<lparr>pl_id = INTERNET, pl_tier = ''internet'', pl_core = False, pl_node = None\<rparr> #
     map (placed_as ''gateway'' False) (filter nd_gateway ns) @
     map (\<lambda>n. placed_as (if gs = [] \<and> nd_id n \<noteq> [] \<and> Some (nd_id n) = core then ''gateway'' else ''infrastructure'') (Some (nd_id n) = core) n)
       (filter (\<lambda>n. nd_infra n \<and> \<not> nd_gateway n) ns) @
     map (placed_as ''client'' False) (filter is_client ns)"

fun insert_text :: "ustr \<Rightarrow> ustr list \<Rightarrow> ustr list" where
  "insert_text t [] = [t]"
| "insert_text t (x # xs) = (if text_le t x then t # x # xs else x # insert_text t xs)"

definition sorted_texts :: "ustr list \<Rightarrow> ustr list" where
  "sorted_texts ts = foldr insert_text ts []"

text \<open>Gateways, nodes, neighbours and core switch; then the edges without the manual ones.\<close>

definition view_of :: "topo_env \<Rightarrow> dict list \<Rightarrow> gateway list \<Rightarrow> dict list \<Rightarrow> dict list \<Rightarrow> (ustr \<times> ustr list) list \<Rightarrow> topo_view" where
  "view_of env ds gs0 arp nbs svcs =
     (let gs = valid_gateways ds gs0; ns = device_nodes env ds gs nbs svcs; core = core_switch ns arp
      in \<lparr>v_nodes = ns, v_gateways = gs, v_links = lldp_links nbs, v_core = (if truthy core then core else None)\<rparr>)"

definition no_wires :: wiring where
  "no_wires = \<lparr>w_edges = [], w_joined = [], w_next = 0\<rparr>"

definition drawn :: "topo_env \<Rightarrow> dict list \<Rightarrow> topo_view \<Rightarrow> wiring" where
  "drawn env nbs v =
     fold (client_link env v) (filter is_client (v_nodes v))
       (lldp_edges nbs (v_nodes v)
         (trunk_links (v_gateways v) (v_nodes v) (lldp_ports nbs) (v_core v)
           (wan_links (v_gateways v) (v_core v) no_wires)))"

definition build_topology_graph ::
    "topo_env \<Rightarrow> dict list \<Rightarrow> gateway list \<Rightarrow> dict list \<Rightarrow> dict list \<Rightarrow> (ustr \<times> ustr list) list \<Rightarrow> (ustr \<times> ustr) list \<Rightarrow> topo_graph" where
  "build_topology_graph env ds gs0 arp nbs svcs overrides =
     (let v = view_of env ds gs0 arp nbs svcs
      in \<lparr>tg_nodes = place_nodes (v_gateways v) (core_switch (v_nodes v) arp) (v_nodes v),
          tg_edges = fold (apply_override (v_nodes v)) overrides (w_edges (drawn env nbs v)),
          tg_subnets = sorted_texts (remdups (List.map_filter nd_subnet (v_nodes v)))\<rparr>)"

end
