(* ===== verification/TopologyLinks.thy ===== *)
theory TopologyLinks
  imports Topology
begin

text \<open>
  What the drawn network looks like.  A graph is read as undirected links; the builders of edges are steps that
  only add edges, and the pairs they hold as connected always have one.
\<close>

section \<open>Links\<close>

definition adjacent :: "topo_edge list \<Rightarrow> ustr \<Rightarrow> ustr \<Rightarrow> bool" where
  "adjacent es a b \<longleftrightarrow> list_ex (\<lambda>e. (e_source e = a \<and> e_target e = b) \<or> (e_source e = b \<and> e_target e = a)) es"

definition linked :: "topo_edge list \<Rightarrow> ustr \<Rightarrow> ustr \<Rightarrow> bool" where
  "linked es a b \<longleftrightarrow> (adjacent es)\<^sup>*\<^sup>* a b"

lemma adjacentI: "e \<in> set es \<Longrightarrow> e_source e = a \<Longrightarrow> e_target e = b \<Longrightarrow> adjacent es a b"
  by (auto simp: adjacent_def list_ex_iff)

lemma adjacent_sym: "adjacent es a b \<Longrightarrow> adjacent es b a"
  by (auto simp: adjacent_def list_ex_iff)

lemma adjacent_mono: "adjacent es a b \<Longrightarrow> set es \<subseteq> set es' \<Longrightarrow> adjacent es' a b"
  by (auto simp: adjacent_def list_ex_iff)

lemma linked_refl [simp]: "linked es a a"
  by (simp add: linked_def)

lemma linked_step: "linked es a b \<Longrightarrow> adjacent es b c \<Longrightarrow> linked es a c"
  by (auto simp: linked_def)

lemma edge_pair_adjacent:
  "edge_pair (e_source e) (e_target e) = edge_pair a b \<Longrightarrow> e \<in> set es \<Longrightarrow> adjacent es a b"
  by (force simp: edge_pair_def adjacent_def list_ex_iff split: if_splits)

section \<open>Steps that add edges\<close>

definition joined_ok :: "wiring \<Rightarrow> bool" where
  "joined_ok w \<longleftrightarrow> (\<forall>p\<in>set (w_joined w). \<exists>e\<in>set (w_edges w). edge_pair (e_source e) (e_target e) = p)"

definition grows :: "(wiring \<Rightarrow> wiring) \<Rightarrow> bool" where
  "grows f \<longleftrightarrow> (\<forall>w. set (w_edges w) \<subseteq> set (w_edges (f w)) \<and> (joined_ok w \<longrightarrow> joined_ok (f w)))"

named_theorems growing

lemma grows_edges: "grows f \<Longrightarrow> set (w_edges w) \<subseteq> set (w_edges (f w))"
  and grows_joined: "grows f \<Longrightarrow> joined_ok w \<Longrightarrow> joined_ok (f w)"
  by (auto simp: grows_def)

lemma grows_id [growing]: "grows (\<lambda>w. w)"
  by (simp add: grows_def)

lemma grows_put_edge [growing]: "grows (put_edge e)"
  by (auto simp: grows_def joined_ok_def put_edge_def)

lemma grows_client_edge [growing]: "grows (client_edge n k p)"
  by (auto simp: grows_def joined_ok_def put_edge_def client_edge_def)

lemma grows_join_once [growing]: "grows (join_once e)"
  by (auto simp: grows_def joined_ok_def join_once_def put_edge_def Let_def)

lemma grows_fold: "(\<And>x. x \<in> set xs \<Longrightarrow> grows (f x)) \<Longrightarrow> grows (fold f xs)"
proof (induction xs)
  case (Cons x xs)
  then have "grows (f x)" "grows (fold f xs)" by auto
  then show ?case by (simp add: grows_def) blast
qed (simp add: grows_def)

lemma grows_comp: "grows f \<Longrightarrow> grows g \<Longrightarrow> grows (\<lambda>w. g (f w))"
  by (simp add: grows_def) blast

lemma grows_if: "grows f \<Longrightarrow> grows g \<Longrightarrow> grows (\<lambda>w. if b then f w else g w)"
  by (cases b) simp_all

lemma grows_next [growing]: "grows (\<lambda>w. w\<lparr>w_next := w_next w + 1\<rparr>)"
  by (auto simp: grows_def joined_ok_def)

lemma put_edge_adjacent: "adjacent (w_edges (put_edge e w)) (e_source e) (e_target e)"
  by (simp add: put_edge_def adjacent_def)

lemma client_edge_adjacent: "adjacent (w_edges (client_edge n k p w)) p (nd_id n)"
  by (simp add: client_edge_def put_edge_def adjacent_def plain_edge_def)

lemma join_once_adjacent:
  assumes "joined_ok w" shows "adjacent (w_edges (join_once e w)) (e_source e) (e_target e)"
proof (cases "edge_pair (e_source e) (e_target e) \<in> set (w_joined w)")
  case True
  then obtain e' where e': "e' \<in> set (w_edges w)" "edge_pair (e_source e') (e_target e') = edge_pair (e_source e) (e_target e)"
    using assms unfolding joined_ok_def by blast
  then have "adjacent (w_edges w) (e_source e) (e_target e)" by (metis edge_pair_adjacent)
  with True show ?thesis by (simp add: join_once_def Let_def)
qed (simp add: join_once_def Let_def put_edge_def adjacent_def)

text \<open>A fold of growing steps keeps what one of them reached.\<close>

lemma fold_reaches_some:
  assumes "\<And>x. x \<in> set xs \<Longrightarrow> grows (f x)" "x \<in> set xs" "joined_ok w"
    and "\<And>w. joined_ok w \<Longrightarrow> \<exists>a\<in>A. adjacent (w_edges (f x w)) a b"
  shows "\<exists>a\<in>A. adjacent (w_edges (fold f xs w)) a b"
  using assms
proof (induction xs arbitrary: w)
  case (Cons y ys)
  show ?case
  proof (cases "y = x")
    case True
    obtain a where a: "a \<in> A" "adjacent (w_edges (f x w)) a b" using Cons.prems(3,4) by blast
    moreover have "grows (fold f ys)" using Cons.prems(1) by (intro grows_fold) auto
    ultimately have "adjacent (w_edges (fold f ys (f x w))) a b" using grows_edges adjacent_mono by metis
    with a(1) True show ?thesis by auto
  next
    case False
    have "\<exists>a\<in>A. adjacent (w_edges (fold f ys (f y w))) a b"
      using False Cons.prems by (intro Cons.IH) (auto intro: grows_joined)
    then show ?thesis by simp
  qed
qed simp

lemma fold_reaches:
  assumes "\<And>x. x \<in> set xs \<Longrightarrow> grows (f x)" "x \<in> set xs" "joined_ok w"
    and "\<And>w. joined_ok w \<Longrightarrow> adjacent (w_edges (f x w)) a b"
  shows "adjacent (w_edges (fold f xs w)) a b"
  using fold_reaches_some [of xs f x w "{a}" b] assms by simp

lemma grows_trunk [growing]: "grows (trunk_links gs ns ports core)"
proof (cases core)
  case (Some c)
  show ?thesis unfolding trunk_links_def Some option.case
    by (rule grows_comp; rule grows_fold; rule growing)
qed (simp add: trunk_links_def grows_def)

lemma grows_lldp [growing]: "grows (lldp_edges nbs ns)"
proof -
  have "grows (fold (\<lambda>nb w. case ends_of nb of None \<Rightarrow> w
       | Some (a, b) \<Rightarrow> if a \<in> nd_id ` set ns \<and> b \<in> nd_id ` set ns
           then join_once ((plain_edge a b ''lldp'')\<lparr>e_port := dget nb ''port_id''\<rparr>) w else w) nbs)"
  proof (rule grows_fold)
    fix nb
    show "grows (\<lambda>w. case ends_of nb of None \<Rightarrow> w
       | Some (a, b) \<Rightarrow> if a \<in> nd_id ` set ns \<and> b \<in> nd_id ` set ns
           then join_once ((plain_edge a b ''lldp'')\<lparr>e_port := dget nb ''port_id''\<rparr>) w else w)"
      by (cases "ends_of nb") (auto simp: growing intro!: grows_if)
  qed
  moreover have "lldp_edges nbs ns = fold (\<lambda>nb w. case ends_of nb of None \<Rightarrow> w
       | Some (a, b) \<Rightarrow> if a \<in> nd_id ` set ns \<and> b \<in> nd_id ` set ns
           then join_once ((plain_edge a b ''lldp'')\<lparr>e_port := dget nb ''port_id''\<rparr>) w else w) nbs"
    by (rule ext) (simp add: lldp_edges_def)
  ultimately show ?thesis by simp
qed

lemma grows_ap_target: "grows (\<lambda>w. snd (ap_target env v n w))"
  by (auto simp: grows_def ap_target_def joined_ok_def Let_def)

section \<open>What a client is given\<close>

definition infra_ids :: "topo_view \<Rightarrow> ustr set" where
  "infra_ids v = nd_id ` {x \<in> set (v_nodes v). nd_infra x}"

text \<open>The parents a client can get; the last resorts only when there is no core switch.\<close>

definition client_parents :: "topo_view \<Rightarrow> topo_node \<Rightarrow> ustr set" where
  "client_parents v n =
     infra_ids v \<union> set_option (dict_get (vm_to_host (v_nodes v)) (nd_id n)) \<union>
     (case v_core v of Some c \<Rightarrow> {c}
      | None \<Rightarrow> {INTERNET} \<union> fst ` set (v_gateways v) \<union> nd_id ` {x \<in> set (v_nodes v). nd_gateway x})"

inductive client_step :: "topo_view \<Rightarrow> topo_node \<Rightarrow> wiring \<Rightarrow> wiring \<Rightarrow> bool" for v n w where
  joins: "p \<in> infra_ids v \<Longrightarrow> client_step v n w (join_once (plain_edge p (nd_id n) k) w)"
| hangs: "p \<in> client_parents v n \<Longrightarrow> client_step v n w (client_edge n k p (w\<lparr>w_next := i\<rparr>))"
| skips: "v_core v = None \<Longrightarrow> client_step v n w (w\<lparr>w_next := i\<rparr>)"

inductive_cases client_stepE: "client_step v n w w'"

lemma hangs_same: "p \<in> client_parents v n \<Longrightarrow> client_step v n w (client_edge n k p w)"
  using hangs [of p v n w k "w_next w"] by simp

lemma hash_pick_in: "xs \<noteq> [] \<Longrightarrow> hash_pick env m xs \<in> set xs"
  by (simp add: hash_pick_def nat_less_iff)

lemma switch_infra: "x \<in> set (switches_of v) \<Longrightarrow> x \<in> infra_ids v"
  by (auto simp: switches_of_def is_switch_def infra_ids_def)

lemma infra_parent: "p \<in> infra_ids v \<Longrightarrow> p \<in> client_parents v n"
  by (simp add: client_parents_def)

lemma core_parent: "v_core v = Some c \<Longrightarrow> c \<in> client_parents v n"
  by (simp add: client_parents_def)

lemma host_parent: "dict_get (vm_to_host (v_nodes v)) (nd_id n) = Some h \<Longrightarrow> h \<in> client_parents v n"
  by (simp add: client_parents_def)

lemma ap_target_cases:
  assumes "ap_target env v n w = (a, w')"
  obtains i where "w' = w\<lparr>w_next := i\<rparr>" "truthy a \<Longrightarrow> the a \<in> infra_ids v"
proof -
  let ?near = "map nd_id (filter (\<lambda>a. truthy (nd_subnet a) \<and> nd_subnet a = nd_subnet n) (aps_of v))"
  have near: "hash_pick env (nd_id n) ?near \<in> infra_ids v" if "?near \<noteq> []"
    using hash_pick_in [OF that, of env "nd_id n"] by (auto simp: aps_of_def is_ap_def infra_ids_def)
  have turn: "nd_id (aps_of v ! (w_next w mod length (aps_of v))) \<in> infra_ids v" if "aps_of v \<noteq> []"
  proof -
    from that have "aps_of v ! (w_next w mod length (aps_of v)) \<in> set (aps_of v)" by simp
    then show ?thesis by (auto simp: aps_of_def is_ap_def infra_ids_def)
  qed
  consider "truthy (nd_subnet n) \<and> ?near \<noteq> []" | "\<not> (truthy (nd_subnet n) \<and> ?near \<noteq> [])" "aps_of v \<noteq> []"
    | "\<not> (truthy (nd_subnet n) \<and> ?near \<noteq> [])" "aps_of v = []" by blast
  then show ?thesis
  proof cases
    case 1
    then have "a = Some (hash_pick env (nd_id n) ?near)" "w' = w"
      using assms by (auto simp: ap_target_def Let_def)
    with near 1 that [of "w_next w"] show ?thesis by simp
  next
    case 2
    then have "a = Some (nd_id (aps_of v ! (w_next w mod length (aps_of v))))" "w' = w\<lparr>w_next := w_next w + 1\<rparr>"
      using assms unfolding ap_target_def Let_def by auto
    with turn 2 that show ?thesis by simp
  next
    case 3
    then have "a = None" "w' = w"
      using assms unfolding ap_target_def Let_def by auto
    with that [of "w_next w"] show ?thesis by (simp add: truthy_def)
  qed
qed

lemma dict_foldl_values:
  "dict_get (foldl (\<lambda>t n. dict_set t (k n) (f n)) t ns) b = Some x \<Longrightarrow> (\<exists>n\<in>set ns. k n = b \<and> f n = x) \<or> dict_get t b = Some x"
proof (induction ns arbitrary: t)
  case (Cons n ns)
  from Cons.IH [of "dict_set t (k n) (f n)"] Cons.prems show ?case by (auto split: if_splits)
qed simp

lemma gateway_subnets_values: "dict_get (gateway_subnets gs) s = Some g \<Longrightarrow> g \<in> fst ` set gs"
proof -
  have "dict_get (foldl (\<lambda>t (m, ip). case subnet_for_ip (Some ip) of None \<Rightarrow> t | Some s \<Rightarrow> dict_set t s m) t gs) s = Some g \<Longrightarrow>
      g \<in> fst ` set gs \<or> dict_get t s = Some g" for t
  proof (induction gs arbitrary: t)
    case (Cons x xs)
    obtain m ip where x: "x = (m, ip)" by (cases x)
    show ?case
      using Cons.prems Cons.IH [of "case subnet_for_ip (Some ip) of None \<Rightarrow> t | Some s \<Rightarrow> dict_set t s m"]
      by (auto simp: x dict_get_set split: option.splits if_splits)
  qed simp
  from this [of "[]"] show "dict_get (gateway_subnets gs) s = Some g \<Longrightarrow> g \<in> fst ` set gs"
    by (simp add: gateway_subnets_def dict_get_def)
qed

definition orders :: "topo_env \<Rightarrow> bool" where
  "orders env \<longleftrightarrow> (\<forall>xs. set (te_order env xs) = set xs)"

lemma any_gateway_in:
  assumes "any_gateway env v n = Some g" "orders env"
  shows "g \<in> fst ` set (v_gateways v)"
proof -
  let ?own = "Option.bind (nd_subnet n) (dict_get (gateway_subnets (v_gateways v)))"
  let ?ms = "te_order env (remdups (map fst (v_gateways v)))"
  show ?thesis
  proof (cases "truthy ?own")
    case True
    then have "?own = Some g" using assms(1) by (simp add: any_gateway_def)
    then show ?thesis using gateway_subnets_values by (auto simp: bind_eq_Some_conv)
  next
    case False
    then have "?ms \<noteq> []" "g = hd ?ms"
      using assms(1) by (auto simp: any_gateway_def Let_def split: if_splits)
    then have "g \<in> set ?ms" by simp
    then show ?thesis using assms(2) by (simp add: orders_def)
  qed
qed

lemma gateway_parent:
  assumes "v_core v = None" "any_gateway env v n = Some g" "orders env"
  shows "g \<in> client_parents v n"
  using any_gateway_in [OF assms(2,3)] assms(1) by (simp add: client_parents_def)

text \<open>Every client is given what \<open>client_step\<close> allows.\<close>

lemma wireless_link_step:
  assumes "orders env" shows "client_step v n w (wireless_link env v n w)"
proof -
  obtain a w' where aw: "ap_target env v n w = (a, w')" by (cases "ap_target env v n w")
  obtain i where w': "w' = w\<lparr>w_next := i\<rparr>" and a: "truthy a \<Longrightarrow> the a \<in> infra_ids v"
    using ap_target_cases [OF aw] by blast
  consider "truthy a" | c where "\<not> truthy a" "v_core v = Some c"
    | g where "\<not> truthy a" "v_core v = None" "any_gateway env v n = Some g"
    | "\<not> truthy a" "v_core v = None" "any_gateway env v n = None"
    by (cases "v_core v"; cases "any_gateway env v n") auto
  then show ?thesis
  proof cases
    case 1
    then show ?thesis by (simp add: wireless_link_def aw w' hangs infra_parent a)
  next
    case 2
    then show ?thesis by (simp add: wireless_link_def aw w' hangs core_parent)
  next
    case 3
    then show ?thesis by (simp add: wireless_link_def aw w' hangs gateway_parent assms)
  next
    case 4
    then have "INTERNET \<in> client_parents v n" by (simp add: client_parents_def)
    with 4 show ?thesis by (simp add: wireless_link_def aw w' hangs)
  qed
qed

lemma core_or_gateway_step:
  assumes "orders env" shows "client_step v n w (core_or_gateway env v n (w\<lparr>w_next := i\<rparr>))"
  using gateway_parent [OF _ _ assms, of v n]
  by (auto simp: core_or_gateway_def hangs core_parent skips split: option.splits)

lemma core_or_gateway_same: "orders env \<Longrightarrow> client_step v n w (core_or_gateway env v n w)"
  using core_or_gateway_step [of env v n w "w_next w"] by simp

lemma switch_step:
  "switches_of v \<noteq> [] \<Longrightarrow> client_step v n w (client_edge n k (hash_pick env m (switches_of v)) w)"
  by (intro hangs_same infra_parent switch_infra hash_pick_in)

lemma unknown_link_step:
  assumes "orders env" shows "client_step v n w (unknown_link env v n w)"
proof -
  obtain a w' where aw: "ap_target env v n w = (a, w')" by (cases "ap_target env v n w")
  obtain i where w': "w' = w\<lparr>w_next := i\<rparr>" and a: "truthy a \<Longrightarrow> the a \<in> infra_ids v"
    using ap_target_cases [OF aw] by blast
  show ?thesis
    by (auto simp: unknown_link_def aw w' hangs infra_parent a core_or_gateway_step core_or_gateway_same assms switch_step)
qed

lemma last_resort_step:
  assumes "orders env" "v_core v = None" shows "client_step v n w (last_resort env v n w)"
proof (cases "any_gateway env v n")
  case (Some g)
  then show ?thesis by (simp add: last_resort_def hangs_same gateway_parent assms)
next
  case None
  have "(case find (\<lambda>x. nd_infra x \<or> nd_gateway x) (v_nodes v) of None \<Rightarrow> INTERNET
      | Some x \<Rightarrow> if nd_id x = [] then INTERNET else nd_id x) \<in> client_parents v n"
    using assms(2) by (auto simp: client_parents_def infra_ids_def find_Some_iff split: option.splits)
  with None show ?thesis by (simp add: last_resort_def hangs_same)
qed

lemma by_mac_get: "dict_get (by_mac ns) b = Some x \<Longrightarrow> x \<in> set ns \<and> nd_id x = b"
  using dict_foldl_values [of nd_id "\<lambda>n. n" "[]" ns b x] by (simp add: by_mac_def)

lemma lldp_parent_infra: "lldp_parent env v n = Some p \<Longrightarrow> p \<in> infra_ids v"
proof -
  assume "lldp_parent env v n = Some p"
  then obtain x where "dict_get (by_mac (v_nodes v)) p = Some x" "nd_infra x"
    by (auto simp: lldp_parent_def find_Some_iff split: option.splits)
  then show "p \<in> infra_ids v" using by_mac_get by (force simp: infra_ids_def)
qed

lemma self_link_step: "switches_of v \<noteq> [] \<Longrightarrow> client_step v n w (self_link v n w)"
proof -
  assume ne: "switches_of v \<noteq> []"
  let ?same = "filter (\<lambda>s. (case dict_get (by_mac (v_nodes v)) s of None \<Rightarrow> None | Some x \<Rightarrow> nd_subnet x) = nd_subnet n) (switches_of v)"
  have "(if ?same \<noteq> [] then hd ?same else hd (switches_of v)) \<in> set (switches_of v)"
    using ne hd_in_set [of ?same] hd_in_set [OF ne] by auto
  then show "client_step v n w (self_link v n w)"
    unfolding self_link_def Let_def by (intro joins switch_infra)
qed

lemma client_link_step:
  assumes "orders env" shows "client_step v n w (client_link env v n w)"
proof -
  consider "nd_self n \<and> switches_of v \<noteq> []"
    | p where "\<not> (nd_self n \<and> switches_of v \<noteq> [])" "truthy (lldp_parent env v n)" "lldp_parent env v n = Some p"
    | h where "\<not> (nd_self n \<and> switches_of v \<noteq> [])" "\<not> truthy (lldp_parent env v n)" "dict_get (vm_to_host (v_nodes v)) (nd_id n) = Some h"
    | "\<not> (nd_self n \<and> switches_of v \<noteq> [])" "\<not> truthy (lldp_parent env v n)" "dict_get (vm_to_host (v_nodes v)) (nd_id n) = None"
    by (cases "lldp_parent env v n"; cases "dict_get (vm_to_host (v_nodes v)) (nd_id n)") (auto simp: truthy_def)
  then show ?thesis
  proof cases
    case 1
    then show ?thesis by (simp add: client_link_def self_link_step)
  next
    case 2
    then show ?thesis by (auto simp: client_link_def joins lldp_parent_infra)
  next
    case 3
    then show ?thesis by (auto simp: client_link_def hangs_same host_parent)
  next
    case 4
    then have "client_link env v n w =
      (if nd_conn n = lit ''wireless'' \<or> (nd_conn n = lit ''unknown'' \<and> aps_of v \<noteq> [] \<and> switches_of v = [])
       then wireless_link env v n w
       else if nd_conn n = lit ''unknown'' \<and> aps_of v \<noteq> [] then unknown_link env v n w
       else if switches_of v \<noteq> [] \<and> nd_conn n = lit ''wired''
       then client_edge n ''client_link'' (hash_pick env (nd_id n) (switches_of v)) w
       else (case v_core v of Some c \<Rightarrow> client_edge n ''client_link'' c w | None \<Rightarrow> last_resort env v n w))"
      by (simp only: client_link_def if_not_P if_False option.case simp_thms)
    then show ?thesis
      by (auto simp: wireless_link_step unknown_link_step switch_step last_resort_step assms hangs_same core_parent
          split: option.splits)
  qed
qed

lemma client_step_grows:
  assumes "client_step v n w w'"
  shows "set (w_edges w) \<subseteq> set (w_edges w')" "joined_ok w \<Longrightarrow> joined_ok w'"
proof -
  have "set (w_edges w) \<subseteq> set (w_edges w') \<and> (joined_ok w \<longrightarrow> joined_ok w')"
    using assms
  proof (cases rule: client_step.cases)
    case (joins p k)
    then show ?thesis using grows_join_once unfolding grows_def by blast
  next
    case (hangs p k i)
    then show ?thesis by (auto simp: joined_ok_def client_edge_def put_edge_def)
  next
    case (skips i)
    then show ?thesis by (simp add: joined_ok_def)
  qed
  then show "set (w_edges w) \<subseteq> set (w_edges w')" "joined_ok w \<Longrightarrow> joined_ok w'" by blast+
qed

lemma grows_client_link: "orders env \<Longrightarrow> grows (client_link env v n)"
  using client_step_grows [OF client_link_step] by (simp add: grows_def)

section \<open>A network with a core switch hangs together\<close>

text \<open>What the view of the builder guarantees.\<close>

definition view_ok :: "topo_view \<Rightarrow> bool" where
  "view_ok v \<longleftrightarrow>
     (\<forall>n\<in>set (v_nodes v). nd_gateway n \<longleftrightarrow> nd_id n \<in> fst ` set (v_gateways v)) \<and>
     (\<forall>c. v_core v = Some c \<longrightarrow> c \<in> infra_ids v)"

lemma view_of_ok: "view_ok (view_of env ds gs0 arp nbs svcs)"
proof -
  have "nd_gateway n \<longleftrightarrow> nd_id n \<in> fst ` set gs" if "n \<in> set (device_nodes env ds gs nbs svcs)" for n gs
  proof -
    from that obtain d where "n = node_of env ds gs nbs svcs d" by (auto simp: device_nodes_def)
    then show ?thesis by (simp add: node_of_def Let_def)
  qed
  moreover have "\<exists>x\<in>set ns. nd_infra x \<and> nd_id x = c" if "core_switch ns arp = Some c" for ns c
    using that first_max_in [of "filter is_switch ns" "\<lambda>n. get_or (arp_counts arp) (nd_id n) 0"]
    by (auto simp: core_switch_def Let_def is_switch_def split: if_splits)
  ultimately show ?thesis
    by (fastforce simp: view_ok_def view_of_def Let_def infra_ids_def split: if_splits)
qed

lemma vm_host:
  assumes "dict_get (vm_to_host ns) m = Some h"
  obtains n x where "n \<in> set ns" "is_vm n" "nd_id n = m" "x \<in> set ns" "can_host n x" "nd_id x = h"
proof -
  let ?f = "\<lambda>t n. if is_vm n \<and> truthy (nd_subnet n)
     then (case find (can_host n) ns of None \<Rightarrow> t | Some c \<Rightarrow> dict_set t (nd_id n) (nd_id c)) else t"
  have "dict_get (foldl ?f t xs) m = Some h \<Longrightarrow> set xs \<subseteq> set ns \<Longrightarrow>
      dict_get t m = Some h \<or> (\<exists>n x. n \<in> set ns \<and> is_vm n \<and> nd_id n = m \<and> x \<in> set ns \<and> can_host n x \<and> nd_id x = h)" for t xs
  proof (induction xs arbitrary: t)
    case (Cons n xs)
    from Cons.IH [of "?f t n"] Cons.prems have
      "dict_get (?f t n) m = Some h \<or> (\<exists>n x. n \<in> set ns \<and> is_vm n \<and> nd_id n = m \<and> x \<in> set ns \<and> can_host n x \<and> nd_id x = h)"
      by simp
    then show ?case using Cons.prems(2)
      by (auto simp: find_Some_iff split: if_splits option.splits) (metis nth_mem)
  qed simp
  from this [of "[]" ns] assms that show ?thesis by (auto simp: vm_to_host_def)
qed

lemma host_not_vm: "can_host n x \<Longrightarrow> dict_get (vm_to_host ns) (nd_id x) = None"
proof (rule ccontr)
  assume "can_host n x" "dict_get (vm_to_host ns) (nd_id x) \<noteq> None"
  then obtain h where "dict_get (vm_to_host ns) (nd_id x) = Some h" by auto
  then obtain n' where "is_vm n'" "nd_id n' = nd_id x" by (elim vm_host)
  with \<open>can_host n x\<close> show False by (simp add: can_host_def is_vm_def)
qed

lemma joined_start: "joined_ok (wan_links gs core no_wires)"
proof -
  have "joined_ok (fold (\<lambda>g. put_edge (plain_edge INTERNET (fst g) ''wan_link'')) gs w)" if "joined_ok w" for w
    using that by (intro grows_joined [OF grows_fold] grows_put_edge)
  moreover have "joined_ok no_wires" by (simp add: joined_ok_def no_wires_def)
  ultimately show ?thesis
    by (cases core) (simp_all add: wan_links_def grows_joined [OF grows_put_edge])
qed

text \<open>The order in which the links are made.\<close>

lemma drawn_grows:
  fixes nbs :: "dict list"
  assumes "orders env"
  defines "w1 \<equiv> \<lambda>v. wan_links (v_gateways v) (v_core v) no_wires"
  defines "w2 \<equiv> \<lambda>v. trunk_links (v_gateways v) (v_nodes v) (lldp_ports nbs) (v_core v) (w1 v)"
  shows "set (w_edges (w1 v)) \<subseteq> set (w_edges (drawn env nbs v))" "set (w_edges (w2 v)) \<subseteq> set (w_edges (drawn env nbs v))"
    "joined_ok (lldp_edges nbs (v_nodes v) (w2 v))"
proof -
  let ?w3 = "lldp_edges nbs (v_nodes v) (w2 v)"
  have d: "drawn env nbs v = fold (client_link env v) (filter is_client (v_nodes v)) ?w3"
    by (simp add: drawn_def w2_def w1_def)
  have 4: "set (w_edges ?w3) \<subseteq> set (w_edges (drawn env nbs v))"
    unfolding d by (intro grows_edges grows_fold grows_client_link assms(1))
  have 3: "set (w_edges (w2 v)) \<subseteq> set (w_edges ?w3)" by (intro grows_edges grows_lldp)
  have 2: "set (w_edges (w1 v)) \<subseteq> set (w_edges (w2 v))" unfolding w2_def by (intro grows_edges grows_trunk)
  show "set (w_edges (w1 v)) \<subseteq> set (w_edges (drawn env nbs v))" "set (w_edges (w2 v)) \<subseteq> set (w_edges (drawn env nbs v))"
    using 2 3 4 by blast+
  show "joined_ok ?w3" unfolding w2_def w1_def
    by (intro grows_joined [OF grows_lldp] grows_joined [OF grows_trunk] joined_start)
qed

lemma wan_reaches:
  assumes "orders env" "g \<in> set (v_gateways v)"
  shows "adjacent (w_edges (drawn env nbs v)) INTERNET (fst g)"
proof -
  have "adjacent (w_edges (wan_links (v_gateways v) (v_core v) no_wires)) INTERNET (fst g)"
  proof -
    have "adjacent (w_edges (fold (\<lambda>g. put_edge (plain_edge INTERNET (fst g) ''wan_link'')) (v_gateways v) no_wires)) INTERNET (fst g)"
      using assms(2) put_edge_adjacent [of "plain_edge INTERNET (fst g) ''wan_link''"]
      by (intro fold_reaches [where x = g]) (auto simp: growing plain_edge_def joined_ok_def no_wires_def)
    moreover have "v_gateways v \<noteq> []" using assms(2) by auto
    ultimately show ?thesis by (simp add: wan_links_def)
  qed
  then show ?thesis using drawn_grows(1) [OF assms(1)] by (rule adjacent_mono)
qed

lemma wan_reaches_core:
  assumes "orders env" "v_gateways v = []" "v_core v = Some c"
  shows "adjacent (w_edges (drawn env nbs v)) INTERNET c"
proof -
  have "adjacent (w_edges (wan_links (v_gateways v) (v_core v) no_wires)) INTERNET c"
    using put_edge_adjacent [of "plain_edge INTERNET c ''wan_link''" no_wires]
    by (simp add: wan_links_def assms plain_edge_def)
  then show ?thesis using drawn_grows(1) [OF assms(1)] by (rule adjacent_mono)
qed

lemma trunk_reaches:
  assumes "orders env" "v_core v = Some c"
  shows "g \<in> set (v_gateways v) \<Longrightarrow> adjacent (w_edges (drawn env nbs v)) (fst g) c"
    and "n \<in> set (v_nodes v) \<Longrightarrow> nd_infra n \<Longrightarrow> \<not> nd_gateway n \<Longrightarrow> nd_id n \<noteq> c \<Longrightarrow> adjacent (w_edges (drawn env nbs v)) c (nd_id n)"
proof -
  let ?w1 = "wan_links (v_gateways v) (v_core v) no_wires" and ?ports = "lldp_ports nbs"
  let ?t = "\<lambda>n. join_once ((plain_edge c (nd_id n) ''trunk_link'')\<lparr>e_port := port_between ?ports c (nd_id n)\<rparr>)"
  let ?ns = "filter (\<lambda>n. nd_infra n \<and> \<not> nd_gateway n \<and> nd_id n \<noteq> c) (v_nodes v)"
  let ?u = "fold (\<lambda>g. join_once (plain_edge (fst g) c ''trunk_link'')) (v_gateways v) ?w1"
  let ?w2 = "trunk_links (v_gateways v) (v_nodes v) ?ports (v_core v) ?w1"
  have w2: "?w2 = fold ?t ?ns ?u" by (simp add: trunk_links_def assms(2))
  have ok: "joined_ok ?u"
    by (rule grows_joined [OF grows_fold]) (auto simp: growing joined_start)
  have sub: "adjacent (w_edges ?w2) a b \<Longrightarrow> adjacent (w_edges (drawn env nbs v)) a b" for a b
    using drawn_grows(2) [OF assms(1)] adjacent_mono by blast
  show "adjacent (w_edges (drawn env nbs v)) (fst g) c" if "g \<in> set (v_gateways v)"
  proof (rule sub)
    have "adjacent (w_edges ?u) (fst g) c"
      using that join_once_adjacent [of _ "plain_edge (fst g) c ''trunk_link''"]
      by (intro fold_reaches [where x = g]) (auto simp: growing plain_edge_def joined_start)
    moreover have "set (w_edges ?u) \<subseteq> set (w_edges ?w2)"
      unfolding w2 by (intro grows_edges grows_fold growing)
    ultimately show "adjacent (w_edges ?w2) (fst g) c" by (rule adjacent_mono)
  qed
  show "adjacent (w_edges (drawn env nbs v)) c (nd_id n)" if "n \<in> set (v_nodes v)" "nd_infra n" "\<not> nd_gateway n" "nd_id n \<noteq> c"
  proof (rule sub)
    show "adjacent (w_edges ?w2) c (nd_id n)"
      unfolding w2 using that ok join_once_adjacent [of _ "(plain_edge c (nd_id n) ''trunk_link'')\<lparr>e_port := port_between ?ports c (nd_id n)\<rparr>"]
      by (intro fold_reaches [where x = n]) (auto simp: growing plain_edge_def)
  qed
qed

lemma client_reaches:
  assumes "orders env" "v_core v = Some c" "n \<in> set (v_nodes v)" "is_client n"
  obtains p where "p \<in> client_parents v n" "adjacent (w_edges (drawn env nbs v)) p (nd_id n)"
proof -
  let ?w3 = "lldp_edges nbs (v_nodes v) (trunk_links (v_gateways v) (v_nodes v) (lldp_ports nbs) (v_core v)
    (wan_links (v_gateways v) (v_core v) no_wires))"
  have step: "\<exists>p\<in>client_parents v n. adjacent (w_edges (client_link env v n w)) p (nd_id n)" if "joined_ok w" for w
    using client_link_step [OF assms(1), of v n w]
  proof (cases rule: client_step.cases)
    case (joins p k)
    then show ?thesis
      using join_once_adjacent [OF that, of "plain_edge p (nd_id n) k"] infra_parent by (auto simp: plain_edge_def)
  next
    case (hangs p k i)
    then show ?thesis using client_edge_adjacent by metis
  next
    case skips
    with assms(2) show ?thesis by simp
  qed
  have "\<exists>p\<in>client_parents v n. adjacent (w_edges (fold (client_link env v) (filter is_client (v_nodes v)) ?w3)) p (nd_id n)"
    using assms(3,4)
    by (intro fold_reaches_some [where x = n] step grows_client_link [OF assms(1)] drawn_grows(3) [OF assms(1)]) simp_all
  then show ?thesis using that by (auto simp: drawn_def)
qed

lemma drawn_linked:
  assumes "orders env" "v_core v = Some c" "view_ok v" "n \<in> set (v_nodes v)"
  shows "linked (w_edges (drawn env nbs v)) INTERNET (nd_id n)"
proof -
  let ?E = "w_edges (drawn env nbs v)"
  have gw: "linked ?E INTERNET (fst g)" if "g \<in> set (v_gateways v)" for g
    using linked_step [OF linked_refl wan_reaches [OF assms(1) that]] .
  have core: "linked ?E INTERNET c"
  proof (cases "v_gateways v")
    case Nil
    then show ?thesis using linked_step [OF linked_refl wan_reaches_core [OF assms(1) _ assms(2)]] by simp
  next
    case (Cons g gs)
    then have "g \<in> set (v_gateways v)" by simp
    then show ?thesis using gw trunk_reaches(1) [OF assms(1,2)] linked_step by blast
  qed
  have infra: "linked ?E INTERNET p" if p: "p \<in> infra_ids v" for p
  proof -
    from p obtain x where x: "x \<in> set (v_nodes v)" "nd_infra x" "nd_id x = p" by (auto simp: infra_ids_def)
    show ?thesis
    proof (cases "nd_gateway x")
      case True
      then have "p \<in> fst ` set (v_gateways v)" using assms(3) x by (auto simp: view_ok_def)
      then show ?thesis using gw by auto
    next
      case False
      then show ?thesis using core x trunk_reaches(2) [OF assms(1,2) x(1,2)] linked_step by (cases "p = c") auto
    qed
  qed
  have client: "linked ?E INTERNET (nd_id n)"
    if n: "n \<in> set (v_nodes v)" "is_client n"
      and host: "\<And>h. dict_get (vm_to_host (v_nodes v)) (nd_id n) = Some h \<Longrightarrow> linked ?E INTERNET h" for n
  proof -
    obtain p where p: "p \<in> client_parents v n" "adjacent ?E p (nd_id n)"
      using client_reaches [OF assms(1,2) n] .
    from p(1) have "linked ?E INTERNET p"
      using infra host core by (auto simp: client_parents_def assms(2))
    then show ?thesis using p(2) by (rule linked_step)
  qed
  show ?thesis
  proof (cases "is_client n")
    case True
    have "linked ?E INTERNET h" if "dict_get (vm_to_host (v_nodes v)) (nd_id n) = Some h" for h
    proof -
      from that obtain n' x where x: "x \<in> set (v_nodes v)" "can_host n' x" "nd_id x = h" by (elim vm_host) blast
      then have "linked ?E INTERNET (nd_id x)"
        by (intro client) (auto simp: can_host_def is_client_def host_not_vm)
      then show ?thesis using x(3) by simp
    qed
    then show ?thesis using client [OF assms(4) True] by blast
  next
    case False
    then have "nd_id n \<in> infra_ids v \<or> nd_id n \<in> fst ` set (v_gateways v)"
      using assms(3,4) by (auto simp: is_client_def view_ok_def infra_ids_def)
    then show ?thesis using infra gw by auto
  qed
qed

section \<open>Where an edge comes from\<close>

definition adds :: "(topo_edge \<Rightarrow> bool) \<Rightarrow> (wiring \<Rightarrow> wiring) \<Rightarrow> bool" where
  "adds P f \<longleftrightarrow> (\<forall>w. \<forall>e\<in>set (w_edges (f w)). e \<in> set (w_edges w) \<or> P e)"

lemma adds_fold: "(\<And>x. x \<in> set xs \<Longrightarrow> adds P (f x)) \<Longrightarrow> adds P (fold f xs)"
proof (induction xs)
  case (Cons x xs)
  then have "adds P (f x)" "adds P (fold f xs)" by auto
  then show ?case by (simp add: adds_def) blast
qed (simp add: adds_def)

lemma adds_put_edge: "P e \<Longrightarrow> adds P (put_edge e)"
  by (simp add: adds_def put_edge_def)

lemma adds_join_once: "P e \<Longrightarrow> adds P (join_once e)"
  by (simp add: adds_def join_once_def put_edge_def Let_def)

lemma addsD: "adds P f \<Longrightarrow> e \<in> set (w_edges (f w)) \<Longrightarrow> e \<in> set (w_edges w) \<or> P e"
  by (simp add: adds_def)

definition node_ids :: "topo_view \<Rightarrow> ustr set" where
  "node_ids v = nd_id ` set (v_nodes v)"

inductive edge_origin :: "dict list \<Rightarrow> topo_view \<Rightarrow> topo_edge \<Rightarrow> bool" for nbs v e where
  wan: "e_source e = INTERNET \<Longrightarrow> e_target e \<in> fst ` set (v_gateways v) \<union> set_option (v_core v) \<Longrightarrow> edge_origin nbs v e"
| trunk: "v_core v = Some c \<Longrightarrow> (e_source e \<in> fst ` set (v_gateways v) \<and> e_target e = c) \<or> (e_source e = c \<and> e_target e \<in> infra_ids v) \<Longrightarrow>
    edge_origin nbs v e"
| announced: "nbs \<noteq> [] \<Longrightarrow> e_source e \<in> node_ids v \<Longrightarrow> e_target e \<in> node_ids v \<Longrightarrow> edge_origin nbs v e"
| client: "n \<in> set (v_nodes v) \<Longrightarrow> is_client n \<Longrightarrow> e_target e = nd_id n \<Longrightarrow> e_source e \<in> client_parents v n \<Longrightarrow> edge_origin nbs v e"

lemma adds_client_link:
  assumes "orders env" "n \<in> set (v_nodes v)" "is_client n"
  shows "adds (edge_origin nbs v) (client_link env v n)"
  unfolding adds_def
proof (intro allI ballI)
  fix w e assume e: "e \<in> set (w_edges (client_link env v n w))"
  show "e \<in> set (w_edges w) \<or> edge_origin nbs v e"
    using client_link_step [OF assms(1), of v n w]
  proof (cases rule: client_step.cases)
    case (joins p k)
    then have "edge_origin nbs v (plain_edge p (nd_id n) k)"
      by (intro edge_origin.client [OF assms(2,3)]) (simp_all add: plain_edge_def infra_parent)
    then show ?thesis using e joins addsD [OF adds_join_once] by auto
  next
    case (hangs p k i)
    then have "edge_origin nbs v (plain_edge p (nd_id n) k)"
      by (intro edge_origin.client [OF assms(2,3)]) (simp_all add: plain_edge_def)
    then show ?thesis using e hangs by (auto simp: client_edge_def put_edge_def)
  next
    case skips
    then show ?thesis using e by simp
  qed
qed

lemma adds_trunk: "adds (edge_origin nbs v) (trunk_links (v_gateways v) (v_nodes v) ports (v_core v))"
proof (cases "v_core v")
  case (Some c)
  have t: "adds (edge_origin nbs v) (fold (\<lambda>n. join_once ((plain_edge c (nd_id n) ''trunk_link'')\<lparr>e_port := port_between ports c (nd_id n)\<rparr>))
            (filter (\<lambda>n. nd_infra n \<and> \<not> nd_gateway n \<and> nd_id n \<noteq> c) (v_nodes v)))"
    by (intro adds_fold adds_join_once edge_origin.trunk [OF Some]) (auto simp: plain_edge_def infra_ids_def)
  have g: "adds (edge_origin nbs v) (fold (\<lambda>g. join_once (plain_edge (fst g) c ''trunk_link'')) (v_gateways v))"
    by (intro adds_fold adds_join_once edge_origin.trunk [OF Some]) (auto simp: plain_edge_def)
  show ?thesis unfolding adds_def trunk_links_def Some option.case
    using addsD [OF t] addsD [OF g] by blast
qed (simp add: trunk_links_def adds_def)

lemma adds_lldp: "adds (edge_origin nbs v) (lldp_edges nbs (v_nodes v))"
proof -
  let ?f = "\<lambda>nb w. case ends_of nb of None \<Rightarrow> w
       | Some (a, b) \<Rightarrow> if a \<in> nd_id ` set (v_nodes v) \<and> b \<in> nd_id ` set (v_nodes v)
           then join_once ((plain_edge a b ''lldp'')\<lparr>e_port := dget nb ''port_id''\<rparr>) w else w"
  have "adds (edge_origin nbs v) (?f nb)" if nb: "nb \<in> set nbs" for nb
  proof (cases "\<exists>a b. ends_of nb = Some (a, b) \<and> a \<in> node_ids v \<and> b \<in> node_ids v")
    case True
    then obtain a b where ab: "ends_of nb = Some (a, b)" "a \<in> node_ids v" "b \<in> node_ids v" by blast
    have "edge_origin nbs v ((plain_edge a b ''lldp'')\<lparr>e_port := dget nb ''port_id''\<rparr>)"
      using nb ab by (intro edge_origin.announced) (auto simp: plain_edge_def)
    then show ?thesis using ab adds_join_once by (simp add: node_ids_def)
  next
    case False
    then have "?f nb = (\<lambda>w. w)" by (intro ext) (auto simp: node_ids_def split: option.splits)
    then show ?thesis by (simp add: adds_def)
  qed
  then have "adds (edge_origin nbs v) (fold ?f nbs)" by (rule adds_fold)
  moreover have "lldp_edges nbs (v_nodes v) = fold ?f nbs" by (rule ext) (simp add: lldp_edges_def)
  ultimately show ?thesis by simp
qed

lemma adds_wan: "adds (edge_origin nbs v) (wan_links (v_gateways v) (v_core v))"
proof -
  have "adds (edge_origin nbs v) (fold (\<lambda>g. put_edge (plain_edge INTERNET (fst g) ''wan_link'')) (v_gateways v))"
    by (intro adds_fold adds_put_edge edge_origin.wan) (auto simp: plain_edge_def)
  moreover have "adds (edge_origin nbs v) (put_edge (plain_edge INTERNET c ''wan_link''))" if "v_core v = Some c" for c
    using that by (intro adds_put_edge edge_origin.wan) (auto simp: plain_edge_def)
  ultimately show ?thesis by (auto simp: adds_def wan_links_def split: option.splits)
qed

lemma drawn_origin:
  assumes "orders env" "e \<in> set (w_edges (drawn env nbs v))"
  shows "edge_origin nbs v e"
proof -
  have "adds (edge_origin nbs v) (fold (client_link env v) (filter is_client (v_nodes v)))"
    by (intro adds_fold adds_client_link assms(1)) auto
  with assms(2) adds_lldp [of nbs v] adds_trunk [of nbs v "lldp_ports nbs"] adds_wan [of nbs v] show ?thesis
    unfolding drawn_def by (auto simp: no_wires_def dest!: addsD)
qed

end
