(* ===== verification/TopologyProps.thy ===== *)
theory TopologyProps
  imports TopologyLinks
begin

text \<open>
  The properties of the drawn network over the lemmas of \<open>TopologyLinks\<close>, with a home network as sample:
  a router, an access point and a computer, and the same with a switch.
\<close>

section \<open>The nodes of the graph\<close>

text \<open>The addresses of the devices that are drawn; the internet is no device.\<close>

definition device_ids :: "topo_graph \<Rightarrow> ustr set" where
  "device_ids g = pl_id ` {p \<in> set (tg_nodes g). pl_node p \<noteq> None}"

lemma placed_node:
  assumes "n \<in> set ns"
  obtains q where "q \<in> set (place_nodes gs core ns)" "pl_id q = nd_id n" "pl_node q = Some n"
    "pl_core q \<longleftrightarrow> nd_infra n \<and> \<not> nd_gateway n \<and> Some (nd_id n) = core"
proof -
  consider "nd_gateway n" | "nd_infra n" "\<not> nd_gateway n" | "is_client n" by (auto simp: is_client_def)
  then show ?thesis
  proof cases
    case 1
    then have "placed_as ''gateway'' False n \<in> set (place_nodes gs core ns)" using assms by (simp add: place_nodes_def)
    then show ?thesis using 1 by (intro that [of "placed_as ''gateway'' False n"]) (simp_all add: placed_as_def)
  next
    case 2
    let ?q = "placed_as (if gs = [] \<and> nd_id n \<noteq> [] \<and> Some (nd_id n) = core then ''gateway'' else ''infrastructure'') (Some (nd_id n) = core) n"
    have "?q \<in> set (place_nodes gs core ns)" using assms 2 by (simp add: place_nodes_def)
    then show ?thesis using 2 by (intro that [of ?q]) (simp_all add: placed_as_def)
  next
    case 3
    then have "placed_as ''client'' False n \<in> set (place_nodes gs core ns)" using assms by (simp add: place_nodes_def)
    then show ?thesis using 3 by (intro that [of "placed_as ''client'' False n"]) (simp_all add: placed_as_def is_client_def)
  qed
qed

lemma placed_cases:
  assumes "q \<in> set (place_nodes gs core ns)"
  shows "(pl_id q = INTERNET \<and> pl_node q = None) \<or> (\<exists>n\<in>set ns. pl_id q = nd_id n \<and> pl_node q = Some n)"
  using assms by (auto simp: place_nodes_def placed_as_def)

lemma internet_placed: "INTERNET \<in> pl_id ` set (place_nodes gs core ns)"
  by (simp add: place_nodes_def)

lemma placed_ids: "pl_id ` set (place_nodes gs core ns) = insert INTERNET (nd_id ` set ns)"
proof
  show "pl_id ` set (place_nodes gs core ns) \<subseteq> insert INTERNET (nd_id ` set ns)"
    using placed_cases by fastforce
  have "nd_id n \<in> pl_id ` set (place_nodes gs core ns)" if n: "n \<in> set ns" for n
  proof -
    obtain q where "q \<in> set (place_nodes gs core ns)" "pl_id q = nd_id n" using placed_node [OF n] by blast
    then show ?thesis by force
  qed
  then show "insert INTERNET (nd_id ` set ns) \<subseteq> pl_id ` set (place_nodes gs core ns)"
    using internet_placed by blast
qed

lemma device_ids_build: "device_ids (build_topology_graph env ds gs arp nbs svcs ovs) = node_ids (view_of env ds gs arp nbs svcs)"
proof -
  let ?v = "view_of env ds gs arp nbs svcs"
  let ?ps = "place_nodes (v_gateways ?v) (core_switch (v_nodes ?v) arp) (v_nodes ?v)"
  have "pl_id ` {p \<in> set ?ps. pl_node p \<noteq> None} = nd_id ` set (v_nodes ?v)"
  proof
    show "pl_id ` {p \<in> set ?ps. pl_node p \<noteq> None} \<subseteq> nd_id ` set (v_nodes ?v)"
      using placed_cases by fastforce
    have "nd_id n \<in> pl_id ` {p \<in> set ?ps. pl_node p \<noteq> None}" if n: "n \<in> set (v_nodes ?v)" for n
    proof -
      obtain q where "q \<in> set ?ps" "pl_id q = nd_id n" "pl_node q = Some n"
        using placed_node [OF n, of "v_gateways ?v" "core_switch (v_nodes ?v) arp"] by blast
      then show ?thesis by force
    qed
    then show "nd_id ` set (v_nodes ?v) \<subseteq> pl_id ` {p \<in> set ?ps. pl_node p \<noteq> None}" by blast
  qed
  then show ?thesis by (simp add: device_ids_def build_topology_graph_def Let_def node_ids_def)
qed

lemma core_placed:
  assumes "q \<in> set (tg_nodes (build_topology_graph env ds gs arp nbs svcs ovs))" "pl_core q" "pl_id q \<noteq> []"
  shows "v_core (view_of env ds gs arp nbs svcs) = Some (pl_id q)"
proof -
  let ?v = "view_of env ds gs arp nbs svcs"
  have "core_switch (v_nodes ?v) arp = Some (pl_id q)"
    using assms(1,2) by (auto simp: build_topology_graph_def Let_def place_nodes_def placed_as_def)
  then show ?thesis using assms(3) by (simp add: view_of_def Let_def truthy_def)
qed

lemma no_core:
  assumes "\<not> list_ex pl_core (tg_nodes (build_topology_graph env ds gs arp nbs svcs ovs))"
  shows "v_core (view_of env ds gs arp nbs svcs) = None"
proof (rule ccontr)
  let ?v = "view_of env ds gs arp nbs svcs"
  assume "v_core ?v \<noteq> None"
  then obtain c where c: "core_switch (v_nodes ?v) arp = Some c"
    by (auto simp: view_of_def Let_def split: if_splits)
  then obtain x where x: "x \<in> set (v_nodes ?v)" "is_switch x" "nd_id x = c"
    using first_max_in [of "filter is_switch (v_nodes ?v)" "\<lambda>n. get_or (arp_counts arp) (nd_id n) 0"]
    by (auto simp: core_switch_def Let_def split: if_splits)
  obtain q where "q \<in> set (place_nodes (v_gateways ?v) (core_switch (v_nodes ?v) arp) (v_nodes ?v))" "pl_core q"
    using placed_node [OF x(1), of "v_gateways ?v" "core_switch (v_nodes ?v) arp"] x c by (auto simp: is_switch_def)
  then show False using assms by (auto simp: build_topology_graph_def Let_def list_ex_iff)
qed

lemma view_gateways: "v_gateways (view_of env ds gs arp nbs svcs) = valid_gateways ds gs"
  by (simp add: view_of_def Let_def)

section \<open>Manual parents\<close>

lemma override_other: "child \<noteq> c \<Longrightarrow> filter (\<lambda>e. e_target e = c) (apply_override ns (child, p) es) = filter (\<lambda>e. e_target e = c) es"
proof -
  assume "child \<noteq> c"
  moreover then have "filter (\<lambda>e. e_target e = c) (filter (\<lambda>e. e_target e \<noteq> child) es) = filter (\<lambda>e. e_target e = c) es"
    by (induction es) auto
  ultimately show ?thesis by (simp add: apply_override_def plain_edge_def)
qed

lemma overrides_other:
  "c \<notin> fst ` set ovs \<Longrightarrow> filter (\<lambda>e. e_target e = c) (fold (apply_override ns) ovs es) = filter (\<lambda>e. e_target e = c) es"
proof (induction ovs arbitrary: es)
  case (Cons x xs)
  then show ?case by (cases x) (auto simp: override_other)
qed simp

lemma overrides_filter:
  assumes "distinct (map fst ovs)" "(c, p) \<in> set ovs" "c \<in> nd_id ` set ns" "p = INTERNET \<or> p \<in> nd_id ` set ns"
  shows "filter (\<lambda>e. e_target e = c) (fold (apply_override ns) ovs es) = [plain_edge p c ''manual_link'']"
  using assms(1,2)
proof (induction ovs arbitrary: es)
  case (Cons x xs)
  show ?case
  proof (cases "x = (c, p)")
    case True
    then have "c \<notin> fst ` set xs" using Cons.prems(1) by auto
    then have "filter (\<lambda>e. e_target e = c) (fold (apply_override ns) (x # xs) es) = filter (\<lambda>e. e_target e = c) (apply_override ns x es)"
      by (simp add: overrides_other)
    also have "\<dots> = [plain_edge p c ''manual_link'']"
      using assms(3,4) True by (auto simp: apply_override_def plain_edge_def filter_empty_conv)
    finally show ?thesis .
  next
    case False
    then show ?thesis using Cons by auto
  qed
qed simp

lemma override_edges: "e \<in> set (apply_override ns (child, p) es) \<Longrightarrow> e \<in> set es \<or> (e_target e \<in> nd_id ` set ns \<and> (e_source e = INTERNET \<or> e_source e \<in> nd_id ` set ns))"
  by (auto simp: apply_override_def plain_edge_def split: if_splits)

lemma overrides_edges:
  "e \<in> set (fold (apply_override ns) ovs es) \<Longrightarrow> e \<in> set es \<or> (e_target e \<in> nd_id ` set ns \<and> (e_source e = INTERNET \<or> e_source e \<in> nd_id ` set ns))"
proof (induction ovs arbitrary: es)
  case (Cons x xs)
  then have "e \<in> set (apply_override ns x es) \<or> (e_target e \<in> nd_id ` set ns \<and> (e_source e = INTERNET \<or> e_source e \<in> nd_id ` set ns))"
    by simp
  then show ?case using override_edges [of e ns "fst x" "snd x" es] by auto
qed simp

section \<open>A sample network\<close>

lemma normalize_entries:
  "normalize_device_type (Some (lit ''Switch'')) = lit ''switch''" "normalize_device_type (Some (lit ''Router'')) = lit ''router''"
  "normalize_device_type (Some (lit ''U6 Lite'')) = lit ''access_point''" "normalize_device_type (Some (lit ''Computer'')) = lit ''workstation''"
proof -
  have later: "lit_get (map (\<lambda>(k, t). (lit k, lit t)) DEVICE_TYPE_NORMALIZE_2) (lit k) = None \<and>
      lit_get (map (\<lambda>(k, t). (lit k, lit t)) DEVICE_TYPE_NORMALIZE_3) (lit k) = None \<and>
      lit_get (map (\<lambda>(k, t). (lit k, lit t)) DEVICE_TYPE_NORMALIZE_4) (lit k) = None"
    if "k \<in> {''Switch'', ''Router'', ''U6 Lite'', ''Computer''}" for k
    using that unfolding DEVICE_TYPE_NORMALIZE_2_def DEVICE_TYPE_NORMALIZE_3_def DEVICE_TYPE_NORMALIZE_4_def
    by (elim insertE emptyE; simp only: lit_lookup)
  have first: "lit_get (map (\<lambda>(k, t). (lit k, lit t)) DEVICE_TYPE_NORMALIZE_1) (lit ''Switch'') = Some (lit ''switch'')"
    "lit_get (map (\<lambda>(k, t). (lit k, lit t)) DEVICE_TYPE_NORMALIZE_1) (lit ''Router'') = Some (lit ''router'')"
    "lit_get (map (\<lambda>(k, t). (lit k, lit t)) DEVICE_TYPE_NORMALIZE_1) (lit ''U6 Lite'') = Some (lit ''access_point'')"
    "lit_get (map (\<lambda>(k, t). (lit k, lit t)) DEVICE_TYPE_NORMALIZE_1) (lit ''Computer'') = Some (lit ''workstation'')"
    unfolding DEVICE_TYPE_NORMALIZE_1_def by (simp_all only: lit_lookup)
  have "normalize_device_type (Some (lit k)) = lit t"
    if "k \<in> {''Switch'', ''Router'', ''U6 Lite'', ''Computer''}" "lit_get (map (\<lambda>(k, t). (lit k, lit t)) DEVICE_TYPE_NORMALIZE_1) (lit k) = Some (lit t)" for k t
    using that later [OF that(1)]
    by (auto simp: normalize_device_type_def DEVICE_TYPE_NORMALIZE_def lit_get_append truthy_def lit_def)
  then show "normalize_device_type (Some (lit ''Switch'')) = lit ''switch''" "normalize_device_type (Some (lit ''Router'')) = lit ''router''"
    "normalize_device_type (Some (lit ''U6 Lite'')) = lit ''access_point''" "normalize_device_type (Some (lit ''Computer'')) = lit ''workstation''"
    using first by blast+
qed

definition sample_env :: topo_env where
  "sample_env = \<lparr>te_hash = (\<lambda>_. 0), te_order = (\<lambda>xs. xs), te_now = 0\<rparr>"

definition sample_device :: "string \<Rightarrow> string \<Rightarrow> string \<Rightarrow> dict" where
  "sample_device m t ip = [(''mac'', pstr m), (''device_type'', pstr t), (''ip_v4'', pstr ip)]"

definition HOME :: "dict list" where
  "HOME = [sample_device ''02:00:00:00:00:01'' ''Router'' ''192.168.1.1'', sample_device ''02:00:00:00:00:03'' ''U6 Lite'' ''192.168.1.3'',
     sample_device ''02:00:00:00:00:04'' ''Computer'' ''192.168.1.20'']"

definition HOME_SWITCH :: dict where
  "HOME_SWITCH = sample_device ''02:00:00:00:00:02'' ''Switch'' ''192.168.1.2''"

definition HOME_GATEWAY :: "gateway list" where
  "HOME_GATEWAY = [(lit ''02:00:00:00:00:01'', lit ''192.168.1.1'')]"

lemma orders_sample: "orders sample_env"
  by (simp add: orders_def sample_env_def)

lemma sample_reads:
  "mac_of (sample_device m t ip) = lit m" "tget (sample_device m t ip) ''device_type'' = Some (lit t)"
  "tget (sample_device m t ip) ''ip_v4'' = Some (lit ip)" "tget (sample_device m t ip) ''ip_v6'' = None"
  "tget (sample_device m t ip) ''manufacturer'' = None" "tget (sample_device m t ip) ''hostname'' = None"
  "tget (sample_device m t ip) ''model'' = None" "tget (sample_device m t ip) ''alert_status'' = None"
  "dget (sample_device m t ip) ''last_seen'' = PNone" "get_or (sample_device m t ip) ''connection_type'' x = x"
  by (simp_all add: mac_of_def tget_def sample_device_def dget_def get_or_def some_text_def textv_def dict_get_def)

lemma sample_subnets:
  "ip \<in> {''192.168.1.1'', ''192.168.1.2'', ''192.168.1.3'', ''192.168.1.20''} \<Longrightarrow> subnet_for_ip (Some (lit ip)) = Some (lit ''192.168.1.0/24'')"
proof -
  have "subnet_for_ip (Some (lit ''192.168.1.1'')) = Some (lit ''192.168.1.0/24'')" by code_simp
  moreover have "subnet_for_ip (Some (lit ''192.168.1.2'')) = Some (lit ''192.168.1.0/24'')" by code_simp
  moreover have "subnet_for_ip (Some (lit ''192.168.1.3'')) = Some (lit ''192.168.1.0/24'')" by code_simp
  moreover have "subnet_for_ip (Some (lit ''192.168.1.20'')) = Some (lit ''192.168.1.0/24'')" by code_simp
  ultimately show "ip \<in> {''192.168.1.1'', ''192.168.1.2'', ''192.168.1.3'', ''192.168.1.20''} \<Longrightarrow> subnet_for_ip (Some (lit ip)) = Some (lit ''192.168.1.0/24'')"
    by auto
qed

text \<open>The node of a sample device.\<close>

definition sample_node :: "string \<Rightarrow> string \<Rightarrow> string \<Rightarrow> string \<Rightarrow> bool \<Rightarrow> bool \<Rightarrow> topo_node" where
  "sample_node m t ip ty gw infra = \<lparr>nd_id = lit m, nd_type = lit ty, nd_hostname = None, nd_ip = Some (lit ip),
     nd_subnet = Some (lit ''192.168.1.0/24''), nd_gateway = gw, nd_infra = infra, nd_online = False, nd_self = False,
     nd_conn = lit ''unknown'', nd_rest = copied_fields (sample_device m t ip)\<rparr>"

lemma service_type_none: "service_type_of t [] = t"
  by (simp add: service_type_of_def service_votes_def)

lemma sample_node_simps [simp]:
  "nd_id (sample_node m t ip ty gw infra) = lit m" "nd_type (sample_node m t ip ty gw infra) = lit ty"
  "nd_gateway (sample_node m t ip ty gw infra) = gw" "nd_infra (sample_node m t ip ty gw infra) = infra"
  by (simp_all add: sample_node_def)

lemma sample_type:
  "normalize_device_type (Some (lit t)) = lit ty \<Longrightarrow> ty \<in> {''switch'', ''router'', ''access_point'', ''workstation''} \<Longrightarrow>
     type_of_device (sample_device m t ip) = lit ty \<and> node_type ds [] [] (sample_device m t ip) = lit ty"
  by (auto simp: type_of_device_def node_type_def sample_reads infer_type_from_vendor_def refine_type_from_context_def truthy_def
      lit_eq_iff get_or_def service_type_none Let_def)

lemma sample_node_of:
  assumes "normalize_device_type (Some (lit t)) = lit ty" "ty \<in> {''switch'', ''router'', ''access_point'', ''workstation''}"
    and "ip \<in> {''192.168.1.1'', ''192.168.1.2'', ''192.168.1.3'', ''192.168.1.20''}"
  shows "node_of sample_env ds HOME_GATEWAY [] [] (sample_device m t ip) =
    sample_node m t ip ty (m = ''02:00:00:00:00:01'') (ty \<noteq> ''workstation'' \<and> m \<noteq> ''02:00:00:00:00:01'')"
proof -
  have "lit ty \<in> set INFRA_TYPES_TOPO \<longleftrightarrow> ty \<noteq> ''workstation''"
    using assms(2) by (auto simp: INFRA_TYPES_TOPO_def lit_eq_iff)
  moreover have "lit ty \<noteq> lit ''network_device''" using assms(2) by (auto simp: lit_eq_iff)
  moreover have "clean_hostname_topo None (lit ty) None None = None" by (simp add: clean_hostname_topo_def truthy_def)
  moreover have "or_else (Some (lit ip)) None = Some (lit ip)" using assms(3) by (auto simp: or_else_def truthy_def lit_def)
  ultimately show ?thesis
    using sample_type [OF assms(1,2), of m ip ds] sample_subnets [OF assms(3)]
    by (auto simp: node_of_def sample_node_def sample_reads HOME_GATEWAY_def lit_eq_iff Let_def some_text_def)
qed

lemmas sample_nodes = sample_node_of [OF normalize_entries(1)] sample_node_of [OF normalize_entries(2)]
  sample_node_of [OF normalize_entries(3)] sample_node_of [OF normalize_entries(4)]

lemma sample_gateways:
  "valid_gateways HOME HOME_GATEWAY = HOME_GATEWAY" "valid_gateways (HOME_SWITCH # HOME) HOME_GATEWAY = HOME_GATEWAY"
  using sample_type [OF normalize_entries(1)] sample_type [OF normalize_entries(2)] sample_type [OF normalize_entries(3)]
    sample_type [OF normalize_entries(4)]
  by (simp_all add: valid_gateways_def device_types_def HOME_def HOME_SWITCH_def HOME_GATEWAY_def sample_reads get_or_def
      lit_eq_iff INFRA_TYPES_TOPO_def)

lemma sample_addressed: "truthy (tget (sample_device m t (CHR ''1'' # ip)) ''ip_v4'')"
  by (simp add: sample_reads truthy_def lit_def)

text \<open>The nodes of the sample network, without and with its switch.\<close>

lemma home_nodes:
  "v_nodes (view_of sample_env HOME HOME_GATEWAY [] [] []) =
     [sample_node ''02:00:00:00:00:01'' ''Router'' ''192.168.1.1'' ''router'' True False,
      sample_node ''02:00:00:00:00:03'' ''U6 Lite'' ''192.168.1.3'' ''access_point'' False True,
      sample_node ''02:00:00:00:00:04'' ''Computer'' ''192.168.1.20'' ''workstation'' False False]"
  by (simp add: view_of_def Let_def device_nodes_def HOME_def sample_addressed sample_nodes sample_gateways [unfolded HOME_def])

lemma switched_nodes:
  "v_nodes (view_of sample_env (HOME_SWITCH # HOME) HOME_GATEWAY [] [] []) =
     [sample_node ''02:00:00:00:00:02'' ''Switch'' ''192.168.1.2'' ''switch'' False True,
      sample_node ''02:00:00:00:00:01'' ''Router'' ''192.168.1.1'' ''router'' True False,
      sample_node ''02:00:00:00:00:03'' ''U6 Lite'' ''192.168.1.3'' ''access_point'' False True,
      sample_node ''02:00:00:00:00:04'' ''Computer'' ''192.168.1.20'' ''workstation'' False False]"
  by (simp add: view_of_def Let_def device_nodes_def HOME_def HOME_SWITCH_def sample_addressed sample_nodes
      sample_gateways [unfolded HOME_def HOME_SWITCH_def])

lemma build_nodes:
  "tg_nodes (build_topology_graph env ds gs arp nbs svcs ovs) =
     (let v = view_of env ds gs arp nbs svcs in place_nodes (v_gateways v) (core_switch (v_nodes v) arp) (v_nodes v))"
  by (simp add: build_topology_graph_def Let_def)

lemma home_cores:
  "core_switch (v_nodes (view_of sample_env HOME HOME_GATEWAY [] [] [])) [] = None"
  "core_switch (v_nodes (view_of sample_env (HOME_SWITCH # HOME) HOME_GATEWAY [] [] [])) [] = Some (lit ''02:00:00:00:00:02'')"
  by (simp_all add: home_nodes switched_nodes core_switch_def is_switch_def lit_eq_iff first_max_def)

lemmas listed_cores = home_cores [unfolded home_nodes switched_nodes]

lemma switched_placed:
  "(\<exists>q\<in>set (tg_nodes (build_topology_graph sample_env (HOME_SWITCH # HOME) HOME_GATEWAY [] [] [] ovs)). pl_core q \<and> pl_id q \<noteq> [])"
  "(\<exists>q\<in>set (tg_nodes (build_topology_graph sample_env (HOME_SWITCH # HOME) HOME_GATEWAY [] [] [] ovs)). pl_id q = lit ''02:00:00:00:00:04'')"
  "device_ids (build_topology_graph sample_env (HOME_SWITCH # HOME) HOME_GATEWAY [] [] [] ovs) =
     {lit ''02:00:00:00:00:01'', lit ''02:00:00:00:00:02'', lit ''02:00:00:00:00:03'', lit ''02:00:00:00:00:04''}"
proof -
  have "v_gateways (view_of sample_env (HOME_SWITCH # HOME) HOME_GATEWAY [] [] []) \<noteq> []"
    unfolding view_gateways sample_gateways by (simp add: HOME_GATEWAY_def)
  then show "(\<exists>q\<in>set (tg_nodes (build_topology_graph sample_env (HOME_SWITCH # HOME) HOME_GATEWAY [] [] [] ovs)). pl_core q \<and> pl_id q \<noteq> [])"
    "(\<exists>q\<in>set (tg_nodes (build_topology_graph sample_env (HOME_SWITCH # HOME) HOME_GATEWAY [] [] [] ovs)). pl_id q = lit ''02:00:00:00:00:04'')"
    by (simp_all add: build_nodes Let_def listed_cores switched_nodes place_nodes_def placed_as_def is_client_def lit_eq_iff)
      (simp_all add: lit_def)
  show "device_ids (build_topology_graph sample_env (HOME_SWITCH # HOME) HOME_GATEWAY [] [] [] ovs) =
     {lit ''02:00:00:00:00:01'', lit ''02:00:00:00:00:02'', lit ''02:00:00:00:00:03'', lit ''02:00:00:00:00:04''}"
    by (auto simp: device_ids_build node_ids_def switched_nodes)
qed

section \<open>Properties\<close>

text \<open>C26: a network with a core switch is drawn in one piece: without manual parents every device is linked with
  the internet.\<close>

theorem topology_connected:
  assumes "orders env"
    and "q \<in> set (tg_nodes (build_topology_graph env ds gs arp nbs svcs []))" "pl_core q" "pl_id q \<noteq> []"
    and "p \<in> set (tg_nodes (build_topology_graph env ds gs arp nbs svcs []))"
  shows "linked (tg_edges (build_topology_graph env ds gs arp nbs svcs [])) INTERNET (pl_id p)"
proof -
  let ?v = "view_of env ds gs arp nbs svcs"
  have "pl_id p \<in> pl_id ` set (tg_nodes (build_topology_graph env ds gs arp nbs svcs []))" using assms(5) by simp
  then consider "pl_id p = INTERNET" | n where "n \<in> set (v_nodes ?v)" "pl_id p = nd_id n"
    by (auto simp: build_topology_graph_def Let_def placed_ids)
  then have "linked (w_edges (drawn env nbs ?v)) INTERNET (pl_id p)"
    by cases (simp_all add: drawn_linked [OF assms(1) core_placed [OF assms(2-4)] view_of_ok])
  then show ?thesis by (simp add: build_topology_graph_def Let_def)
qed

text \<open>without a core switch and without neighbour announcements nothing leads to a network device that is no
  gateway: an access point and the wireless clients it gets hang in the air, though the gateway is drawn.\<close>

theorem infrastructure_without_uplink:
  assumes "orders env" "distinct (map mac_of ds)"
    and "\<not> list_ex pl_core (tg_nodes (build_topology_graph env ds gs arp [] svcs []))"
    and "p \<in> set (tg_nodes (build_topology_graph env ds gs arp [] svcs []))" "pl_tier p = ''infrastructure''"
  shows "\<not> list_ex (\<lambda>e. e_target e = pl_id p) (tg_edges (build_topology_graph env ds gs arp [] svcs []))"
proof -
  let ?v = "view_of env ds gs arp [] svcs"
  note core = no_core [OF assms(3)]
  obtain n where n: "n \<in> set (v_nodes ?v)" "nd_infra n" "\<not> nd_gateway n" "pl_id p = nd_id n"
    using assms(4,5) by (auto simp: build_topology_graph_def Let_def place_nodes_def placed_as_def)
  have "inj_on nd_id (set (v_nodes ?v))"
    using assms(2) by (auto simp: inj_on_def view_of_def Let_def device_nodes_def node_of_def distinct_map)
  then have only: "nd_id x = nd_id n \<Longrightarrow> x \<in> set (v_nodes ?v) \<Longrightarrow> x = n" for x
    using n(1) by (auto dest: inj_onD)
  have gw: "nd_id n \<notin> fst ` set (v_gateways ?v)"
    using n(1,3) view_of_ok [of env ds gs arp "[]" svcs] unfolding view_ok_def by blast
  have "e_target e \<noteq> pl_id p" if "e \<in> set (w_edges (drawn env [] ?v))" for e
    using drawn_origin [OF assms(1) that]
  proof (cases rule: edge_origin.cases)
    case wan
    then have "e_target e \<in> fst ` set (v_gateways ?v)" using core by simp
    then show ?thesis using gw n(4) by metis
  next
    case (client x)
    then show ?thesis using only n by (auto simp: is_client_def)
  qed (use core in auto)
  then show ?thesis by (auto simp: build_topology_graph_def Let_def list_ex_iff)
qed

text \<open>C8: when every gateway is a device that is drawn, both ends of every edge are nodes of the graph, whatever
  the manual parents and the neighbours say.\<close>

theorem edges_between_nodes:
  assumes "orders env"
    and "fst ` set (valid_gateways ds gs) \<subseteq> device_ids (build_topology_graph env ds gs arp nbs svcs ovs)"
    and "e \<in> set (tg_edges (build_topology_graph env ds gs arp nbs svcs ovs))"
  shows "e_source e \<in> pl_id ` set (tg_nodes (build_topology_graph env ds gs arp nbs svcs ovs)) \<and>
    e_target e \<in> pl_id ` set (tg_nodes (build_topology_graph env ds gs arp nbs svcs ovs))"
proof -
  let ?v = "view_of env ds gs arp nbs svcs"
  have ids: "pl_id ` set (tg_nodes (build_topology_graph env ds gs arp nbs svcs ovs)) = insert INTERNET (node_ids ?v)"
    by (simp add: build_topology_graph_def Let_def placed_ids node_ids_def)
  have gw: "fst ` set (v_gateways ?v) \<subseteq> node_ids ?v"
    using assms(2) by (simp add: device_ids_build view_gateways)
  have infra: "infra_ids ?v \<subseteq> node_ids ?v" by (auto simp: infra_ids_def node_ids_def)
  have core: "v_core ?v = Some c \<Longrightarrow> c \<in> node_ids ?v" for c
    using view_of_ok infra by (fastforce simp: view_ok_def)
  have host: "dict_get (vm_to_host (v_nodes ?v)) m = Some h \<Longrightarrow> h \<in> node_ids ?v" for m h
    by (elim vm_host) (auto simp: node_ids_def)
  have parents: "client_parents ?v n \<subseteq> insert INTERNET (node_ids ?v)" for n
    using gw infra core host by (auto simp: client_parents_def node_ids_def split: option.splits)
  have drawn: "e_source e \<in> insert INTERNET (node_ids ?v) \<and> e_target e \<in> insert INTERNET (node_ids ?v)"
    if "edge_origin nbs ?v e" for e
    using that
  proof (cases rule: edge_origin.cases)
    case wan
    then show ?thesis using gw core by auto
  next
    case (trunk c)
    then show ?thesis using gw infra core by blast
  next
    case announced
    then show ?thesis by blast
  next
    case (client n)
    then show ?thesis using parents by (auto simp: node_ids_def)
  qed
  from assms(3) have "e \<in> set (w_edges (drawn env nbs ?v)) \<or>
      (e_target e \<in> node_ids ?v \<and> (e_source e = INTERNET \<or> e_source e \<in> node_ids ?v))"
    using overrides_edges by (auto simp: build_topology_graph_def Let_def node_ids_def)
  then show ?thesis using drawn drawn_origin [OF assms(1)] unfolding ids by blast
qed

text \<open>a manual parent of a device that is drawn is its only parent, in whatever order the manual parents are given.\<close>

theorem override_wins:
  assumes "distinct (map fst ovs)" "(child, parent) \<in> set ovs"
    and "child \<in> device_ids (build_topology_graph env ds gs arp nbs svcs ovs)"
    and "parent = INTERNET \<or> parent \<in> device_ids (build_topology_graph env ds gs arp nbs svcs ovs)"
  shows "filter (\<lambda>e. e_target e = child) (tg_edges (build_topology_graph env ds gs arp nbs svcs ovs)) = [plain_edge parent child ''manual_link'']"
proof -
  have "child \<in> nd_id ` set (v_nodes (view_of env ds gs arp nbs svcs))"
    "parent = INTERNET \<or> parent \<in> nd_id ` set (v_nodes (view_of env ds gs arp nbs svcs))"
    using assms(3,4) by (simp_all only: device_ids_build node_ids_def)
  from overrides_filter [OF assms(1,2) this] show ?thesis by (simp add: build_topology_graph_def Let_def)
qed

theorem topology_connected_witness:
  "linked (tg_edges (build_topology_graph sample_env (HOME_SWITCH # HOME) HOME_GATEWAY [] [] [] [])) INTERNET (lit ''02:00:00:00:00:04'')"
  using switched_placed(1,2) [of "[]"] topology_connected [OF orders_sample, of _ "HOME_SWITCH # HOME" HOME_GATEWAY "[]" "[]" "[]"]
  by metis

theorem infrastructure_without_uplink_witness:
  "\<not> list_ex (\<lambda>e. e_target e = lit ''02:00:00:00:00:03'') (tg_edges (build_topology_graph sample_env HOME HOME_GATEWAY [] [] [] []))"
proof -
  let ?n = "sample_node ''02:00:00:00:00:03'' ''U6 Lite'' ''192.168.1.3'' ''access_point'' False True"
  have d: "distinct (map mac_of HOME)" by (simp add: HOME_def sample_reads lit_eq_iff)
  have c: "\<not> list_ex pl_core (tg_nodes (build_topology_graph sample_env HOME HOME_GATEWAY [] [] [] []))"
    by (simp add: build_nodes Let_def listed_cores home_nodes place_nodes_def placed_as_def is_client_def)
  have p: "placed_as ''infrastructure'' False ?n \<in> set (tg_nodes (build_topology_graph sample_env HOME HOME_GATEWAY [] [] [] []))"
    by (simp add: build_nodes Let_def listed_cores home_nodes place_nodes_def placed_as_def is_client_def)
  show ?thesis
    using infrastructure_without_uplink [OF orders_sample d c p] by (simp add: placed_as_def)
qed

theorem override_wins_witness:
  "filter (\<lambda>e. e_target e = lit ''02:00:00:00:00:04'')
     (tg_edges (build_topology_graph sample_env (HOME_SWITCH # HOME) HOME_GATEWAY [] [] [] [(lit ''02:00:00:00:00:04'', lit ''02:00:00:00:00:03'')])) =
   [plain_edge (lit ''02:00:00:00:00:03'') (lit ''02:00:00:00:00:04'') ''manual_link'']"
  by (rule override_wins) (simp_all add: switched_placed(3))

theorem edges_between_nodes_witness:
  "lit ''02:00:00:00:00:03'' \<in> pl_id ` set (tg_nodes (build_topology_graph sample_env (HOME_SWITCH # HOME) HOME_GATEWAY [] [] []
     [(lit ''02:00:00:00:00:04'', lit ''02:00:00:00:00:03'')]))"
proof -
  let ?ovs = "[(lit ''02:00:00:00:00:04'', lit ''02:00:00:00:00:03'')]"
  let ?g = "build_topology_graph sample_env (HOME_SWITCH # HOME) HOME_GATEWAY [] [] [] ?ovs"
  have gw: "fst ` set (valid_gateways (HOME_SWITCH # HOME) HOME_GATEWAY) \<subseteq> device_ids ?g"
    unfolding sample_gateways switched_placed(3) by (simp add: HOME_GATEWAY_def)
  have "filter (\<lambda>e. e_target e = lit ''02:00:00:00:00:04'') (tg_edges ?g) = [plain_edge (lit ''02:00:00:00:00:03'') (lit ''02:00:00:00:00:04'') ''manual_link'']"
    unfolding build_topology_graph_def Let_def topo_graph.simps
    by (rule overrides_filter) (auto simp: switched_nodes)
  then have "plain_edge (lit ''02:00:00:00:00:03'') (lit ''02:00:00:00:00:04'') ''manual_link'' \<in> set (tg_edges ?g)"
    using filter_is_subset [of "\<lambda>e. e_target e = lit ''02:00:00:00:00:04''" "tg_edges ?g"] by simp
  from edges_between_nodes [OF orders_sample gw this] show ?thesis unfolding plain_edge_def topo_edge.simps by (rule conjunct1)
qed

end
