(* ===== verification/AttackSurface.thy ===== *)
theory AttackSurface
  imports Topology Matching DnsParsers
begin

text \<open>
  The passive rules of \<open>analysis/attack_surface.py\<close> and the context they read.  A rule is a function from
  the context to findings or to the exception that silences it.  The texts a finding shows to people
  (description, recommended tools) are left out; a finding keeps what the analysis reads of it.  Decoding JSON,
  the text of values that are no text and the order of sets are arguments.
\<close>

section \<open>Data\<close>

datatype severity = Critical | High | Medium | Low | Info

datatype category = NameResolution | Layer2 | DhcpAttacks | RoutingAttacks | ServiceExploit | TlsCrypto | NetworkIntel

fun severity_rank :: "severity \<Rightarrow> nat" where
  "severity_rank Info = 0"
| "severity_rank Low = 1"
| "severity_rank Medium = 2"
| "severity_rank High = 3"
| "severity_rank Critical = 4"

definition INFRA_DEVICE_TYPES :: "ustr list" where
  "INFRA_DEVICE_TYPES = map lit [''router'', ''gateway'', ''firewall'', ''switch'', ''access_point'', ''network_device'', ''wifi_router'']"

record exposure =
  x_rule :: string
  x_name :: ustr
  x_category :: category
  x_severity :: severity
  x_devices :: "dict list"
  x_evidence :: "ustr list"
  x_chains :: "string list"
  x_excluded :: bool

record rule_info =
  ri_id :: string
  ri_name :: ustr
  ri_category :: category
  ri_severity :: severity

record as_env =
  ae_json :: "ustr \<Rightarrow> pyval option"
  ae_str :: "pyval \<Rightarrow> ustr"
  ae_order :: "pyval list \<Rightarrow> pyval list"

record as_device =
  ad_mac :: ustr
  ad_ip4 :: "ustr option"
  ad_ip6 :: "ustr option"
  ad_manufacturer :: "ustr option"
  ad_type :: "ustr option"
  ad_os :: "ustr option"
  ad_hostname :: "ustr option"
  ad_certainty :: int
  ad_disposition :: string

record sighting_row =
  ob_mac :: ustr
  ob_type :: string
  ob_raw :: ustr

record probe_row =
  pb_mac :: ustr
  pb_ip :: ustr
  pb_port :: nat
  pb_result :: "ustr option"

record analysis_context =
  cx_devices :: "as_device list"
  cx_observations :: "sighting_row list"
  cx_services :: "(probe_row \<times> dict) list"
  cx_anomalies :: "ustr list"
  cx_interface :: ustr
  cx_interface_type :: string
  cx_gateway :: "ustr option"
  cx_domain :: "ustr option"
  cx_attacker :: "ustr option"
  cx_dc :: "ustr option"
  cx_exclusions :: "(string \<times> ustr) list"

section \<open>Steps that may raise\<close>

fun fold_res :: "('a \<Rightarrow> 's \<Rightarrow> py_error + 's) \<Rightarrow> 'a list \<Rightarrow> 's \<Rightarrow> py_error + 's" where
  "fold_res f [] s = Inr s"
| "fold_res f (x # xs) s = and_then (f x s) (fold_res f xs)"

lemma and_then_simps [simp]: "and_then (Inl e) f = Inl e" "and_then (Inr x) f = f x"
  by (simp_all add: and_then_def)

lemma and_then_Inr: "and_then r f = Inr y \<longleftrightarrow> (\<exists>x. r = Inr x \<and> f x = Inr y)"
  by (cases r) auto

text \<open>\<open>v.get(k, d)\<close>, a method of a text, membership in a set, \<open>', '.join\<close>.\<close>

definition raw_get :: "pyval \<Rightarrow> string \<Rightarrow> pyval \<Rightarrow> py_error + pyval" where
  "raw_get v k d = (case v of PDict m \<Rightarrow> Inr (get_or m k d) | _ \<Rightarrow> Inl AttributeError)"

definition text_method :: "(ustr \<Rightarrow> 'a) \<Rightarrow> pyval \<Rightarrow> py_error + 'a" where
  "text_method f v = (case v of PStr t \<Rightarrow> Inr (f t) | _ \<Rightarrow> Inl AttributeError)"

definition hashed :: "pyval \<Rightarrow> py_error + pyval" where
  "hashed v = (case v of PList _ \<Rightarrow> Inl TypeError | PDict _ \<Rightarrow> Inl TypeError | _ \<Rightarrow> Inr v)"

definition is_int :: "int \<Rightarrow> pyval \<Rightarrow> bool" where
  "is_int n v \<longleftrightarrow> v = PInt n \<or> v = PFloat (of_int n)"

definition join_raw :: "pyval list \<Rightarrow> py_error + ustr" where
  "join_raw vs =
     (if list_all (\<lambda>v. textv v \<noteq> None) vs then Inr (join (lit '', '') (map some_text vs)) else Inl TypeError)"

definition shown :: "as_env \<Rightarrow> pyval \<Rightarrow> ustr" where
  "shown env v = (case v of PStr t \<Rightarrow> t | PInt i \<Rightarrow> str_int i | _ \<Rightarrow> ae_str env v)"

definition counted :: "nat \<Rightarrow> string \<Rightarrow> ustr" where
  "counted n s = str_nat n @ 32 # lit s"

section \<open>Helpers\<close>

definition parse_raw_data :: "as_env \<Rightarrow> sighting_row \<Rightarrow> pyval" where
  "parse_raw_data env ob = (case ae_json env (ob_raw ob) of None \<Rightarrow> PDict [] | Some v \<Rightarrow> v)"

definition device_info :: "as_device \<Rightarrow> dict" where
  "device_info d = [(''mac'', PStr (ad_mac d)), (''ip'', opt_str (or_else (ad_ip4 d) (ad_ip6 d))), (''hostname'', opt_str (ad_hostname d))]"

definition device_of :: "analysis_context \<Rightarrow> ustr \<Rightarrow> as_device option" where
  "device_of cx m = find (\<lambda>d. ad_mac d = m) (rev (cx_devices cx))"

definition who :: "analysis_context \<Rightarrow> ustr \<Rightarrow> dict" where
  "who cx m = (case device_of cx m of None \<Rightarrow> [(''mac'', PStr m)] | Some d \<Rightarrow> device_info d)"

definition observed :: "analysis_context \<Rightarrow> string \<Rightarrow> sighting_row list" where
  "observed cx s = filter (\<lambda>ob. ob_type ob = s) (cx_observations cx)"

definition probed :: "analysis_context \<Rightarrow> string \<Rightarrow> (probe_row \<times> dict) list" where
  "probed cx s = filter (\<lambda>p. get_or (snd p) ''service'' (PStr []) = pstr s) (cx_services cx)"

text \<open>The devices affected so far, in the order in which they were met.\<close>

type_synonym met = "(ustr \<times> dict) list"

definition meet :: "analysis_context \<Rightarrow> ustr \<Rightarrow> met \<Rightarrow> met" where
  "meet cx m t = (if m \<in> set (map fst t) then t else t @ [(m, who cx m)])"

definition note_value :: "pyval \<Rightarrow> pyval list \<Rightarrow> pyval list" where
  "note_value v vs = (if py_truthy v \<and> v \<notin> set vs then vs @ [v] else vs)"

definition finding_of :: "rule_info \<Rightarrow> severity \<Rightarrow> dict list \<Rightarrow> ustr list \<Rightarrow> exposure" where
  "finding_of i s ds ev =
     \<lparr>x_rule = ri_id i, x_name = ri_name i, x_category = ri_category i, x_severity = s, x_devices = ds, x_evidence = ev,
      x_chains = [], x_excluded = False\<rparr>"

definition listed :: "string \<Rightarrow> nat \<Rightarrow> pyval list \<Rightarrow> py_error + ustr" where
  "listed s n vs = (if vs = [] then Inr [] else and_then (join_raw (take n vs)) (\<lambda>t. Inr (lit s @ t)))"

text \<open>Observations that pass a test, by device.\<close>

definition met_by :: "as_env \<Rightarrow> analysis_context \<Rightarrow> (pyval \<Rightarrow> py_error + bool) \<Rightarrow> sighting_row list \<Rightarrow> met \<Rightarrow> py_error + met" where
  "met_by env cx hit obs t =
     fold_res (\<lambda>ob t. and_then (hit (parse_raw_data env ob)) (\<lambda>b. Inr (if b then meet cx (ob_mac ob) t else t))) obs t"

section \<open>Name resolution\<close>

definition named_queries :: "as_env \<Rightarrow> analysis_context \<Rightarrow> string \<Rightarrow> py_error + (met \<times> pyval list)" where
  "named_queries env cx kind =
     fold_res (\<lambda>ob (t, qs). let raw = parse_raw_data env ob in
         and_then (raw_get raw ''query_type'' PNone) (\<lambda>k.
           if k = pstr kind
           then and_then (raw_get raw ''query_name'' (PStr [])) (\<lambda>q. Inr (meet cx (ob_mac ob) t, note_value q qs))
           else Inr (t, qs)))
       (observed cx ''netbios'') ([], [])"

definition NR_001 :: rule_info where
  "NR_001 = \<lparr>ri_id = ''NR-001'', ri_name = lit ''LLMNR Queries Detected'', ri_category = NameResolution, ri_severity = High\<rparr>"

definition NR_002 :: rule_info where
  "NR_002 = \<lparr>ri_id = ''NR-002'', ri_name = lit ''NetBIOS Name Service Queries Detected'', ri_category = NameResolution, ri_severity = High\<rparr>"

definition query_rule :: "rule_info \<Rightarrow> string \<Rightarrow> string \<Rightarrow> as_env \<Rightarrow> analysis_context \<Rightarrow> py_error + exposure list" where
  "query_rule i kind txt' env cx =
     and_then (named_queries env cx kind) (\<lambda>(t, qs).
       if t = [] then Inr []
       else and_then (listed ''Queried names: '' 10 qs) (\<lambda>names.
         Inr [finding_of i (ri_severity i) (map snd t) [counted (length t) txt', names]]))"

definition llmnr_rule :: "as_env \<Rightarrow> analysis_context \<Rightarrow> py_error + exposure list" where
  "llmnr_rule = query_rule NR_001 ''llmnr'' ''device(s) sending LLMNR queries''"

definition netbios_rule :: "as_env \<Rightarrow> analysis_context \<Rightarrow> py_error + exposure list" where
  "netbios_rule = query_rule NR_002 ''netbios'' ''device(s) sending NetBIOS NS queries''"

text \<open>Every sighting of a kind, and the different values of one of its fields.\<close>

definition seen_values :: "as_env \<Rightarrow> analysis_context \<Rightarrow> string \<Rightarrow> string \<Rightarrow> py_error + (met \<times> pyval list)" where
  "seen_values env cx s k =
     fold_res (\<lambda>ob (t, vs). and_then (raw_get (parse_raw_data env ob) k (PStr [])) (\<lambda>v.
         Inr (meet cx (ob_mac ob) t, note_value v vs))) (observed cx s) ([], [])"

definition NR_003 :: rule_info where
  "NR_003 = \<lparr>ri_id = ''NR-003'', ri_name = lit ''mDNS Queries Detected'', ri_category = NameResolution, ri_severity = Info\<rparr>"

definition mdns_rule :: "as_env \<Rightarrow> analysis_context \<Rightarrow> py_error + exposure list" where
  "mdns_rule env cx =
     (if observed cx ''mdns'' = [] then Inr []
      else and_then (seen_values env cx ''mdns'' ''service_type'') (\<lambda>(t, vs).
        and_then (listed ''Service types: '' 10 vs) (\<lambda>names.
          Inr [finding_of NR_003 Info (map snd t) [counted (length t) ''device(s) using mDNS'', names]])))"

definition NR_004 :: rule_info where
  "NR_004 = \<lparr>ri_id = ''NR-004'', ri_name = lit ''WPAD Queries Detected'', ri_category = NameResolution, ri_severity = High\<rparr>"

definition asks_for :: "(ustr \<Rightarrow> ustr) \<Rightarrow> string \<Rightarrow> pyval \<Rightarrow> py_error + bool" where
  "asks_for f w raw = and_then (raw_get raw ''query_name'' (PStr [])) (text_method (\<lambda>t. contains_sub (lit w) (f t)))"

definition wpad_rule :: "as_env \<Rightarrow> analysis_context \<Rightarrow> py_error + exposure list" where
  "wpad_rule env cx =
     and_then (met_by env cx (asks_for lower ''wpad'') (observed cx ''dns'') []) (\<lambda>t.
     and_then (met_by env cx (asks_for upper ''WPAD'') (observed cx ''netbios'') t) (\<lambda>t.
       Inr (if t = [] then []
            else [finding_of NR_004 High (map snd t) [counted (length t) ''device(s) querying for WPAD'']])))"

section \<open>Layer 2\<close>

definition met_all :: "analysis_context \<Rightarrow> sighting_row list \<Rightarrow> met \<Rightarrow> met" where
  "met_all cx obs t = foldl (\<lambda>t ob. meet cx (ob_mac ob) t) t obs"

definition L2_001 :: rule_info where
  "L2_001 = \<lparr>ri_id = ''L2-001'', ri_name = lit ''ARP Traffic Detected'', ri_category = Layer2, ri_severity = Medium\<rparr>"

definition arp_activity_rule :: "as_env \<Rightarrow> analysis_context \<Rightarrow> py_error + exposure list" where
  "arp_activity_rule env cx =
     (let t = met_all cx (observed cx ''arp'') []
      in Inr (if length t < 25 then []
              else [finding_of L2_001 Medium (take 20 (map snd t)) [counted (length t) ''device(s) participating in ARP exchanges'']]))"

text \<open>Which addresses claim a value, \<open>d.setdefault(k, set()).add(mac)\<close>.\<close>

type_synonym ip_claims = "(pyval \<times> ustr list) list"

definition claim :: "pyval \<Rightarrow> ustr \<Rightarrow> ip_claims \<Rightarrow> ip_claims" where
  "claim k m t = (let ms = get_or t k [] in dict_set t k (if m \<in> set ms then ms else ms @ [m]))"

definition claim_hashed :: "pyval \<Rightarrow> ustr \<Rightarrow> ip_claims \<Rightarrow> py_error + ip_claims" where
  "claim_hashed k m t = and_then (hashed k) (\<lambda>k. Inr (claim k m t))"

definition UNSPECIFIED :: pyval where
  "UNSPECIFIED = pstr ''0.0.0.0''"

definition in_dict :: "pyval \<Rightarrow> string \<Rightarrow> pyval" where
  "in_dict v k = (case v of PDict m \<Rightarrow> get_or m k PNone | _ \<Rightarrow> PNone)"

definition ip4_of :: "analysis_context \<Rightarrow> ustr \<Rightarrow> pyval" where
  "ip4_of cx m = opt_str (Option.bind (device_of cx m) ad_ip4)"

definition arp_claims :: "as_env \<Rightarrow> analysis_context \<Rightarrow> py_error + ip_claims" where
  "arp_claims env cx =
     fold_res (\<lambda>ob t.
       let ip = in_dict (parse_raw_data env ob) ''src_ip''; ip = (if py_truthy ip then ip else ip4_of cx (ob_mac ob))
       in if \<not> py_truthy ip \<or> ip = UNSPECIFIED then Inr t else claim_hashed ip (ob_mac ob) t) (observed cx ''arp'') []"

definition set_order :: "as_env \<Rightarrow> ustr list \<Rightarrow> ustr list" where
  "set_order env ms = map some_text (ae_order env (map PStr ms))"

definition comma :: "ustr list \<Rightarrow> ustr" where
  "comma ts = join (lit '', '') ts"

definition L2_002 :: rule_info where
  "L2_002 = \<lparr>ri_id = ''L2-002'', ri_name = lit ''Multiple MACs for Same IP'', ri_category = Layer2, ri_severity = High\<rparr>"

definition arp_duplicate_rule :: "as_env \<Rightarrow> analysis_context \<Rightarrow> py_error + exposure list" where
  "arp_duplicate_rule env cx =
     and_then (arp_claims env cx) (\<lambda>t.
       let conflicts = filter (\<lambda>(ip, ms). length ms > 1) t
       in Inr (if conflicts = [] then []
               else [finding_of L2_002 High
                      (take 20 (concat (map (\<lambda>(ip, ms). map (\<lambda>m. who cx m @ [(''conflict_ip'', ip)]) (set_order env ms)) conflicts)))
                      (take 10 (map (\<lambda>(ip, ms). lit ''IP '' @ shown env ip @ lit '' seen on MACs: '' @ comma (sorted_texts ms)) conflicts))]))"

definition L2_003 :: rule_info where
  "L2_003 = \<lparr>ri_id = ''L2-003'', ri_name = lit ''Gratuitous ARP Detected'', ri_category = Layer2, ri_severity = Medium\<rparr>"

definition gratuitous_arp_rule :: "as_env \<Rightarrow> analysis_context \<Rightarrow> py_error + exposure list" where
  "gratuitous_arp_rule env cx =
     and_then
       (fold_res (\<lambda>ob t. let raw = parse_raw_data env ob; src = ip4_of cx (ob_mac ob) in
           and_then (raw_get raw ''op'' PNone) (\<lambda>op.
             Inr (if is_int 2 op \<and> py_truthy src \<and> in_dict raw ''dst_ip'' = src then meet cx (ob_mac ob) t else t)))
         (observed cx ''arp'') [])
       (\<lambda>t. Inr (if t = [] then []
                 else [finding_of L2_003 Medium (map snd t) [counted (length t) ''device(s) sending gratuitous ARP'']]))"

definition ROUTER_TYPES :: "ustr list" where
  "ROUTER_TYPES = map lit [''router'', ''gateway'', ''firewall'']"

definition routes :: "as_device \<Rightarrow> bool" where
  "routes d \<longleftrightarrow> (case ad_type d of None \<Rightarrow> False | Some t \<Rightarrow> t \<in> set ROUTER_TYPES)"

definition L2_004 :: rule_info where
  "L2_004 = \<lparr>ri_id = ''L2-004'', ri_name = lit ''IPv6 NDP Spoofing Risk'', ri_category = Layer2, ri_severity = Low\<rparr>"

definition ndp_step :: "as_env \<Rightarrow> analysis_context \<Rightarrow> sighting_row \<Rightarrow> met \<times> ip_claims \<Rightarrow> py_error + (met \<times> ip_claims)" where
  "ndp_step env cx ob tc =
     (let raw = parse_raw_data env ob in
      and_then (raw_get raw ''icmpv6_type'' PNone) (\<lambda>kind.
      and_then (raw_get raw ''override'' (PBool False)) (\<lambda>ov.
        if kind = pstr ''neighbor_advertisement'' \<and> py_truthy ov \<and>
           (case device_of cx (ob_mac ob) of None \<Rightarrow> False | Some d \<Rightarrow> \<not> routes d)
        then and_then (raw_get raw ''target'' PNone) (\<lambda>target.
               if py_truthy target
               then and_then (claim_hashed target (ob_mac ob) (snd tc)) (\<lambda>c. Inr (meet cx (ob_mac ob) (fst tc), c))
               else Inr (meet cx (ob_mac ob) (fst tc), snd tc))
        else Inr tc)))"

definition ndp_rule :: "as_env \<Rightarrow> analysis_context \<Rightarrow> py_error + exposure list" where
  "ndp_rule env cx =
     and_then (fold_res (ndp_step env cx) (observed cx ''icmpv6'') ([], [])) (\<lambda>(t, c).
       let contested = filter (\<lambda>(k, ms). length ms > 1) c;
           overrides = counted (length t) ''non-router device(s) sending NA with override flag''
       in Inr (if t = [] then []
               else if contested \<noteq> []
               then [finding_of L2_004 High (map snd t) [counted (length contested) ''IPv6 target(s) claimed by multiple MACs'', overrides]]
               else [finding_of L2_004 Low (map snd t) [overrides]]))"

definition MAC_THRESHOLD :: nat where
  "MAC_THRESHOLD = 100"

definition L2_005 :: rule_info where
  "L2_005 = \<lparr>ri_id = ''L2-005'', ri_name = lit ''High MAC Diversity '' @ 8212 # lit '' Consider Verifying Port Security'', ri_category = Layer2, ri_severity = Medium\<rparr>"

definition mac_diversity_rule :: "as_env \<Rightarrow> analysis_context \<Rightarrow> py_error + exposure list" where
  "mac_diversity_rule env cx =
     Inr (if length (cx_devices cx) < MAC_THRESHOLD then []
          else [finding_of L2_005 Medium []
                 [str_nat (length (cx_devices cx)) @ lit '' unique MACs observed (threshold: '' @ str_nat MAC_THRESHOLD @ lit '')'']])"

definition L2_006 :: rule_info where
  "L2_006 = \<lparr>ri_id = ''L2-006'', ri_name = lit ''CDP/LLDP Discovery Protocol Detected'', ri_category = Layer2, ri_severity = Info\<rparr>"

definition named_by :: "as_env \<Rightarrow> string \<Rightarrow> pyval \<Rightarrow> ustr \<Rightarrow> ustr" where
  "named_by env p v m = lit p @ shown env v @ lit '' ('' @ m @ lit '')''"

definition cdp_step :: "as_env \<Rightarrow> analysis_context \<Rightarrow> sighting_row \<Rightarrow> met \<times> ustr list \<Rightarrow> py_error + (met \<times> ustr list)" where
  "cdp_step env cx ob te =
     and_then (raw_get (parse_raw_data env ob) ''device_id'' PNone) (\<lambda>v.
       Inr (meet cx (ob_mac ob) (fst te), snd te @ (if py_truthy v then [named_by env ''CDP: '' v (ob_mac ob)] else [])))"

definition lldp_step :: "as_env \<Rightarrow> analysis_context \<Rightarrow> sighting_row \<Rightarrow> met \<times> ustr list \<Rightarrow> py_error + (met \<times> ustr list)" where
  "lldp_step env cx ob te =
     (let raw = parse_raw_data env ob in
      and_then (raw_get raw ''system_name'' PNone) (\<lambda>n.
      and_then (raw_get raw ''chassis_id'' (PStr [])) (\<lambda>c.
        let v = or_val n c
        in Inr (meet cx (ob_mac ob) (fst te), snd te @ (if py_truthy v then [named_by env ''LLDP: '' v (ob_mac ob)] else [])))))"

definition NETWORK_WORDS :: "string list" where
  "NETWORK_WORDS = [''cisco'', ''juniper'', ''aruba'', ''switch'', ''router'']"

definition ssdp_step :: "as_env \<Rightarrow> analysis_context \<Rightarrow> sighting_row \<Rightarrow> met \<times> ustr list \<Rightarrow> py_error + (met \<times> ustr list)" where
  "ssdp_step env cx ob te =
     (let raw = parse_raw_data env ob in
      and_then (raw_get raw ''server'' (PStr [])) (\<lambda>v.
      and_then (text_method lower v) (\<lambda>server.
        Inr (if any_in NETWORK_WORDS server \<and> ob_mac ob \<notin> set (map fst (fst te))
             then (meet cx (ob_mac ob) (fst te), snd te @ [named_by env ''SSDP: '' v (ob_mac ob)]) else te))))"

definition discovery_rule :: "as_env \<Rightarrow> analysis_context \<Rightarrow> py_error + exposure list" where
  "discovery_rule env cx =
     and_then (fold_res (cdp_step env cx) (observed cx ''cdp'') ([], [])) (\<lambda>te.
     and_then (fold_res (lldp_step env cx) (observed cx ''lldp'') te) (\<lambda>te.
     and_then (if fst te = [] then fold_res (ssdp_step env cx) (observed cx ''ssdp'') te else Inr te) (\<lambda>(t, ev).
       Inr (if t = [] then []
            else [finding_of L2_006 Info (map snd t)
                   (if ev = [] then [counted (length t) ''infrastructure device(s) detected''] else take 10 ev)]))))"

definition L2_007 :: rule_info where
  "L2_007 = \<lparr>ri_id = ''L2-007'', ri_name = lit ''VLAN Hopping '' @ 8212 # lit '' DTP/Trunk Port Detected'', ri_category = Layer2, ri_severity = High\<rparr>"

definition add_info :: "dict \<Rightarrow> dict list \<Rightarrow> dict list" where
  "add_info i ds = (if i \<in> set ds then ds else ds @ [i])"

definition dtp_step :: "as_env \<Rightarrow> analysis_context \<Rightarrow> sighting_row \<Rightarrow> dict list \<times> ustr list \<Rightarrow> py_error + (dict list \<times> ustr list)" where
  "dtp_step env cx ob de =
     (let raw = parse_raw_data env ob in
      and_then (raw_get raw ''negotiating'' PNone) (\<lambda>n.
        if \<not> py_truthy n then Inr de
        else and_then (raw_get raw ''mode'' (pstr ''negotiating'')) (\<lambda>md.
          Inr (add_info (who cx (ob_mac ob)) (fst de),
               snd de @ [lit ''DTP '' @ [39] @ shown env md @ [39] @ lit '' observed from '' @ ob_mac ob @ [32, 8212] @ lit '' port will negotiate a trunk'']))))"

definition native_step :: "as_env \<Rightarrow> analysis_context \<Rightarrow> sighting_row \<Rightarrow> dict list \<times> ustr list \<Rightarrow> py_error + (dict list \<times> ustr list)" where
  "native_step env cx ob de =
     and_then (raw_get (parse_raw_data env ob) ''native_vlan'' PNone) (\<lambda>v.
       Inr (if py_truthy v
            then (add_info (who cx (ob_mac ob)) (fst de),
                  snd de @ [lit ''CDP reveals native VLAN '' @ shown env v @ lit '' on '' @ ob_mac ob])
            else de))"

definition dtp_rule :: "as_env \<Rightarrow> analysis_context \<Rightarrow> py_error + exposure list" where
  "dtp_rule env cx =
     and_then (fold_res (dtp_step env cx) (observed cx ''dtp'') ([], [])) (\<lambda>d.
     and_then (fold_res (native_step env cx) (observed cx ''cdp'') d) (\<lambda>(ds, ev).
       Inr (if ev = [] then []
            else [finding_of L2_007 (if snd d \<noteq> [] then High else Medium) (take 20 ds) (take 10 ev)])))"

text \<open>\<open>str(ip_network(f"{ip}/{n}", strict=False))\<close> for 20 and 24 bits.\<close>

definition network20 :: "ustr \<Rightarrow> ustr option" where
  "network20 t =
     (if is_ipv4 t
      then (let qs = split_on 46 t; q = dec_value (qs ! 2)
            in Some (join [46] [qs ! 0, qs ! 1, str_nat (q - q mod 16), [48]] @ lit ''/20''))
      else if is_ipv6 t then Some (net6 4096 t @ lit ''/20'') else None)"

definition network_of :: "(ustr \<Rightarrow> ustr option) \<Rightarrow> pyval \<Rightarrow> ustr option" where
  "network_of f v = Option.bind (textv v) f"

definition bridging :: "analysis_context \<Rightarrow> ustr \<Rightarrow> bool" where
  "bridging cx m \<longleftrightarrow> (case Option.bind (device_of cx m) ad_type of None \<Rightarrow> False | Some t \<Rightarrow> t \<in> set INFRA_DEVICE_TYPES)"

text \<open>The networks a device ip_claims; a network is added to the set of its device.\<close>

definition add_network :: "ustr \<Rightarrow> ustr \<Rightarrow> (ustr \<times> ustr list) list \<Rightarrow> (ustr \<times> ustr list) list" where
  "add_network m n t = (let ns = get_or t m [] in dict_set t m (if n \<in> set ns then ns else ns @ [n]))"

definition network_step :: "(ustr \<Rightarrow> ustr option) \<Rightarrow> as_env \<Rightarrow> analysis_context \<Rightarrow> sighting_row \<Rightarrow> (ustr \<times> ustr list) list \<Rightarrow> py_error + (ustr \<times> ustr list) list" where
  "network_step f env cx ob t =
     and_then (raw_get (parse_raw_data env ob) ''src_ip'' PNone) (\<lambda>ip.
       Inr (if \<not> py_truthy ip \<or> ip = UNSPECIFIED \<or> bridging cx (ob_mac ob) then t
            else case network_of f ip of None \<Rightarrow> t | Some n \<Rightarrow> add_network (ob_mac ob) n t))"

definition L2_008 :: rule_info where
  "L2_008 = \<lparr>ri_id = ''L2-008'', ri_name = lit ''VLAN Leakage '' @ 8212 # lit '' Device on Multiple Subnets'', ri_category = Layer2, ri_severity = Medium\<rparr>"

definition vlan_leakage_rule :: "as_env \<Rightarrow> analysis_context \<Rightarrow> py_error + exposure list" where
  "vlan_leakage_rule env cx =
     and_then (fold_res (network_step network20 env cx) (observed cx ''arp'') []) (\<lambda>t.
       let multi = filter (\<lambda>(m, ns). length ns > 1) t; shownr = take 10 multi
       in Inr (if multi = [] then []
               else [finding_of L2_008 Medium
                      (map (\<lambda>(m, ns). who cx m @ [(''subnets'', PList (map PStr (set_order env ns)))]) shownr)
                      (map (\<lambda>(m, ns). m @ lit '' seen on subnets: '' @ comma (sorted_texts ns)) shownr)]))"

definition L2_009 :: rule_info where
  "L2_009 = \<lparr>ri_id = ''L2-009'', ri_name = lit ''STP Root Bridge Manipulation Risk'', ri_category = Layer2, ri_severity = High\<rparr>"

definition is_number :: "pyval \<Rightarrow> bool" where
  "is_number v \<longleftrightarrow> (case v of PInt _ \<Rightarrow> True | PFloat _ \<Rightarrow> True | PBool _ \<Rightarrow> True | _ \<Rightarrow> False)"

definition stp_step :: "as_env \<Rightarrow> sighting_row \<Rightarrow> (pyval \<times> pyval) list \<Rightarrow> py_error + (pyval \<times> pyval) list" where
  "stp_step env ob t =
     (let raw = parse_raw_data env ob in
      and_then (raw_get raw ''root_mac'' PNone) (\<lambda>m.
        if \<not> py_truthy m then Inr t
        else and_then (raw_get raw ''root_priority'' (PInt 32768)) (\<lambda>rp.
             and_then (hashed m) (\<lambda>m.
               if is_number rp
               then (let old = get_or t m (PInt 1073741824) in Inr (dict_set t m (if num_of rp < num_of old then rp else old)))
               else Inl TypeError))))"

definition who_value :: "analysis_context \<Rightarrow> pyval \<Rightarrow> dict" where
  "who_value cx v = (case v of PStr m \<Rightarrow> who cx m | _ \<Rightarrow> [(''mac'', v)])"

definition stp_rule :: "as_env \<Rightarrow> analysis_context \<Rightarrow> py_error + exposure list" where
  "stp_rule env cx =
     and_then (fold_res (stp_step env) (observed cx ''stp'') []) (\<lambda>roots.
       let ordered = sort_key (\<lambda>(m, p). num_of p) roots
       in Inr (if roots = [] then []
               else [finding_of L2_009 (if length roots > 1 then High else Info) (take 10 (map (\<lambda>(m, p). who_value cx m) ordered))
                      (take 6 (counted (length roots) ''distinct root bridge(s) advertised'' #
                        map (\<lambda>(m, p). lit ''Root bridge '' @ shown env m @ lit '' (priority '' @ shown env p @ lit '')'') ordered))]))"

definition L2_010 :: rule_info where
  "L2_010 = \<lparr>ri_id = ''L2-010'', ri_name = lit ''No Layer-2 Control-Plane Visibility'', ri_category = Layer2, ri_severity = Info\<rparr>"

definition visibility_rule :: "as_env \<Rightarrow> analysis_context \<Rightarrow> py_error + exposure list" where
  "visibility_rule env cx =
     Inr (if list_ex (\<lambda>s. observed cx s \<noteq> []) [''stp'', ''dtp'', ''cdp''] then []
          else [finding_of L2_010 Info [] [lit ''No stp/dtp/cdp sightings on the monitored interface(s)'']])"

section \<open>DHCP\<close>

definition DH_001 :: rule_info where
  "DH_001 = \<lparr>ri_id = ''DH-001'', ri_name = lit ''DHCP Activity Detected'', ri_category = DhcpAttacks, ri_severity = Info\<rparr>"

definition field_is :: "string \<Rightarrow> (pyval \<Rightarrow> bool) \<Rightarrow> pyval \<Rightarrow> py_error + bool" where
  "field_is k f raw = and_then (raw_get raw k PNone) (\<lambda>v. Inr (f v))"

definition dhcp_activity_rule :: "as_env \<Rightarrow> analysis_context \<Rightarrow> py_error + exposure list" where
  "dhcp_activity_rule env cx =
     and_then (met_by env cx (field_is ''message_type'' (\<lambda>v. is_int 1 v \<or> is_int 3 v)) (observed cx ''dhcpv4'') []) (\<lambda>t.
       Inr (if t = [] then []
            else [finding_of DH_001 Info (take 20 (map snd t)) [counted (length t) ''device(s) requesting DHCP leases'']]))"

definition DH_002 :: rule_info where
  "DH_002 = \<lparr>ri_id = ''DH-002'', ri_name = lit ''DHCP Anomalies Detected'', ri_category = DhcpAttacks, ri_severity = High\<rparr>"

definition anomaly_step :: "as_env \<Rightarrow> ustr \<Rightarrow> pyval list \<times> pyval list \<Rightarrow> py_error + (pyval list \<times> pyval list)" where
  "anomaly_step env line am =
     (case ae_json env line of None \<Rightarrow> Inr am
      | Some a \<Rightarrow> and_then (raw_get a ''src_mac'' PNone) (\<lambda>m.
          if py_truthy m then and_then (hashed m) (\<lambda>m. Inr (fst am @ [a], List.insert m (snd am))) else Inr (fst am @ [a], snd am)))"

definition dhcp_anomaly_rule :: "as_env \<Rightarrow> analysis_context \<Rightarrow> py_error + exposure list" where
  "dhcp_anomaly_rule env cx =
     and_then (fold_res (anomaly_step env) (drop (length (cx_anomalies cx) - 50) (cx_anomalies cx)) ([], [])) (\<lambda>(as, ms).
       if as = [] then Inr []
       else and_then (raw_get (List.last as) ''reason'' (pstr ''unknown'')) (\<lambda>reason.
         Inr [finding_of DH_002 High (take 20 (map (who_value cx) (ae_order env ms)))
           [str_nat (length as) @ lit '' anomalies from '' @ str_nat (length ms) @ lit '' device(s)'', lit ''Latest: '' @ shown env reason]]))"

definition DH_003 :: rule_info where
  "DH_003 = \<lparr>ri_id = ''DH-003'', ri_name = lit ''Multiple DHCP Servers Detected'', ri_category = DhcpAttacks, ri_severity = High\<rparr>"

definition server_step :: "as_env \<Rightarrow> sighting_row \<Rightarrow> ip_claims \<Rightarrow> py_error + ip_claims" where
  "server_step env ob t =
     (let raw = parse_raw_data env ob in
      and_then (raw_get raw ''message_type'' PNone) (\<lambda>v.
        if is_int 2 v \<or> is_int 5 v
        then and_then (raw_get raw ''raw_options'' (PDict [])) (\<lambda>opts.
               let s = in_dict opts ''server_id'' in if py_truthy s then claim_hashed s (ob_mac ob) t else Inr t)
        else Inr t))"

definition dhcp_servers_rule :: "as_env \<Rightarrow> analysis_context \<Rightarrow> py_error + exposure list" where
  "dhcp_servers_rule env cx =
     and_then (fold_res (server_step env) (observed cx ''dhcpv4'') []) (\<lambda>t.
       Inr (if length t < 2 then []
            else [finding_of DH_003 High []
                   (map (\<lambda>(ip, ms). lit ''DHCP server at '' @ shown env ip @ lit '' (from '' @ str_nat (length ms) @ lit '' device(s))'') t)]))"

definition DH_004 :: rule_info where
  "DH_004 = \<lparr>ri_id = ''DH-004'', ri_name = lit ''DHCPv6 Activity Detected '' @ 8212 # lit '' IPv6 MITM Surface'', ri_category = DhcpAttacks, ri_severity = Info\<rparr>"

definition dhcpv6_rule :: "as_env \<Rightarrow> analysis_context \<Rightarrow> py_error + exposure list" where
  "dhcpv6_rule env cx =
     (let t = met_all cx (observed cx ''dhcpv6'') []
      in Inr (if observed cx ''dhcpv6'' = [] then []
              else [finding_of DH_004 Info (take 20 (map snd t)) [counted (length t) ''device(s) sending DHCPv6 messages'']]))"

section \<open>Routing\<close>

definition RT_001 :: rule_info where
  "RT_001 = \<lparr>ri_id = ''RT-001'', ri_name = lit ''IPv6 Router Advertisements Detected'', ri_category = RoutingAttacks, ri_severity = Info\<rparr>"

definition advertisement_rule :: "as_env \<Rightarrow> analysis_context \<Rightarrow> py_error + exposure list" where
  "advertisement_rule env cx =
     and_then (met_by env cx (field_is ''icmpv6_type'' (\<lambda>v. v = pstr ''router_advertisement'')) (observed cx ''icmpv6'') []) (\<lambda>t.
       Inr (if t = [] then []
            else [finding_of RT_001 (if length t > 1 then High else Info) (map snd t)
                   [counted (length t) ''distinct device(s) sending RAs'']]))"

definition RT_002 :: rule_info where
  "RT_002 = \<lparr>ri_id = ''RT-002'', ri_name = lit ''Routing Protocol Services Detected'', ri_category = RoutingAttacks, ri_severity = High\<rparr>"

definition ROUTING_SERVICES :: "string list" where
  "ROUTING_SERVICES = [''hsrp'', ''vrrp'', ''bgp'', ''ospf'', ''eigrp'', ''rip'']"

definition routing_probe_rule :: "as_env \<Rightarrow> analysis_context \<Rightarrow> py_error + exposure list" where
  "routing_probe_rule env cx =
     (let found = filter (\<lambda>s. probed cx s \<noteq> []) ROUTING_SERVICES;
          ds = concat (map (\<lambda>s. map (\<lambda>(p, r). who cx (pb_mac p) @ [(''port'', pnat (pb_port p)), (''service'', pstr s)]) (probed cx s))
                 ROUTING_SERVICES)
      in Inr (if ds = [] then []
              else [finding_of RT_002 High ds [lit ''Detected: '' @ comma (sorted_texts (map lit found))]]))"

definition RT_003 :: rule_info where
  "RT_003 = \<lparr>ri_id = ''RT-003'', ri_name = lit ''ICMP Redirect Risk '' @ 8212 # lit '' Gateway on Segment'', ri_category = RoutingAttacks, ri_severity = Low\<rparr>"

definition redirect_rule :: "as_env \<Rightarrow> analysis_context \<Rightarrow> py_error + exposure list" where
  "redirect_rule env cx =
     (case filter (\<lambda>d. routes d \<and> truthy (ad_ip4 d)) (cx_devices cx) of
        [] \<Rightarrow> Inr []
      | d # ds \<Rightarrow> Inr [finding_of RT_003 Low (map device_info (d # ds)) [lit ''Gateway at '' @ the (ad_ip4 d)]])"

section \<open>TLS and cleartext services\<close>

definition TC_001 :: rule_info where
  "TC_001 = \<lparr>ri_id = ''TC-001'', ri_name = lit ''Weak TLS Versions Detected'', ri_category = TlsCrypto, ri_severity = Medium\<rparr>"

definition old_tls :: "pyval \<Rightarrow> bool" where
  "old_tls v \<longleftrightarrow> (case v of PInt i \<Rightarrow> i < 0x0303 | PBool _ \<Rightarrow> True | _ \<Rightarrow> False)"

definition weak_tls_rule :: "as_env \<Rightarrow> analysis_context \<Rightarrow> py_error + exposure list" where
  "weak_tls_rule env cx =
     and_then (met_by env cx (field_is ''tls_version'' old_tls) (observed cx ''tls'') []) (\<lambda>t.
       Inr (if t = [] then [] else [finding_of TC_001 Medium (map snd t) [counted (length t) ''device(s) using TLS < 1.2'']]))"

definition TC_002 :: rule_info where
  "TC_002 = \<lparr>ri_id = ''TC-002'', ri_name = lit ''HTTP Services Without TLS'', ri_category = TlsCrypto, ri_severity = Medium\<rparr>"

definition HTTPS_PORTS :: "nat list" where
  "HTTPS_PORTS = [443, 8443, 4443]"

definition plain_http_rule :: "as_env \<Rightarrow> analysis_context \<Rightarrow> py_error + exposure list" where
  "plain_http_rule env cx =
     (let ds = map (\<lambda>(p, r). who cx (pb_mac p) @ [(''port'', pnat (pb_port p))])
                 (filter (\<lambda>(p, r). pb_port p \<notin> set HTTPS_PORTS \<and> \<not> py_truthy (dget r ''tls'')) (probed cx ''http''))
      in Inr (if ds = [] then [] else [finding_of TC_002 Medium ds [counted (length ds) ''HTTP service(s) without TLS'']]))"

section \<open>Network intelligence\<close>

definition NI_001 :: rule_info where
  "NI_001 = \<lparr>ri_id = ''NI-001'', ri_name = lit ''UPnP/SSDP Devices Detected'', ri_category = NetworkIntel, ri_severity = Low\<rparr>"

definition upnp_rule :: "as_env \<Rightarrow> analysis_context \<Rightarrow> py_error + exposure list" where
  "upnp_rule env cx =
     (if observed cx ''ssdp'' = [] then Inr []
      else and_then (seen_values env cx ''ssdp'' ''server'') (\<lambda>(t, vs).
        and_then (listed ''Servers: '' 5 vs) (\<lambda>names.
          Inr [finding_of NI_001 Low (take 20 (map snd t)) [counted (length t) ''UPnP device(s) detected'', names]])))"

definition NI_002 :: rule_info where
  "NI_002 = \<lparr>ri_id = ''NI-002'', ri_name = lit ''Internal DNS Queries Detected'', ri_category = NetworkIntel, ri_severity = Low\<rparr>"

definition INTERNAL_TLDS :: "string list" where
  "INTERNAL_TLDS = [''.local'', ''.internal'', ''.corp'', ''.lan'', ''.home'', ''.intranet'']"

definition query_name :: "pyval \<Rightarrow> py_error + ustr" where
  "query_name raw = and_then (raw_get raw ''query_name'' (PStr [])) (text_method (\<lambda>t. rstrip_dots (lower t)))"

definition internal_step :: "as_env \<Rightarrow> analysis_context \<Rightarrow> sighting_row \<Rightarrow> met \<times> ustr list \<Rightarrow> py_error + (met \<times> ustr list)" where
  "internal_step env cx ob td =
     and_then (query_name (parse_raw_data env ob)) (\<lambda>q.
       Inr (if list_ex (\<lambda>tld. ends_with (lit tld) q) INTERNAL_TLDS
            then (meet cx (ob_mac ob) (fst td), if q \<in> set (snd td) then snd td else snd td @ [q]) else td))"

definition internal_dns_rule :: "as_env \<Rightarrow> analysis_context \<Rightarrow> py_error + exposure list" where
  "internal_dns_rule env cx =
     and_then (fold_res (internal_step env cx) (observed cx ''dns'') ([], [])) (\<lambda>(t, ds).
       Inr (if t = [] then []
            else [finding_of NI_002 Low (take 20 (map snd t))
                   [counted (length ds) ''internal domain(s) queried'', if ds = [] then [] else lit ''Domains: '' @ comma (take 10 ds)]]))"

definition NI_003 :: rule_info where
  "NI_003 = \<lparr>ri_id = ''NI-003'', ri_name = lit ''Multiple Gateways Detected'', ri_category = NetworkIntel, ri_severity = Info\<rparr>"

definition gateways_rule :: "as_env \<Rightarrow> analysis_context \<Rightarrow> py_error + exposure list" where
  "gateways_rule env cx =
     (let rs = filter routes (cx_devices cx)
      in Inr (if length rs < 2 then []
              else [finding_of NI_003 Info (map device_info rs) [counted (length rs) ''routers/gateways detected'']]))"

definition NI_004 :: rule_info where
  "NI_004 = \<lparr>ri_id = ''NI-004'', ri_name = lit ''Phantom/Stale IP References Detected'', ri_category = NetworkIntel, ri_severity = Info\<rparr>"

definition has_ip :: "analysis_context \<Rightarrow> pyval \<Rightarrow> bool" where
  "has_ip cx v \<longleftrightarrow> (case v of PStr t \<Rightarrow> t \<noteq> [] \<and> list_ex (\<lambda>d. ad_ip4 d = Some t \<or> ad_ip6 d = Some t) (cx_devices cx) | _ \<Rightarrow> False)"

definition phantom_step :: "as_env \<Rightarrow> analysis_context \<Rightarrow> sighting_row \<Rightarrow> ip_claims \<Rightarrow> py_error + ip_claims" where
  "phantom_step env cx ob t =
     (let raw = parse_raw_data env ob in
      and_then (raw_get raw ''op'' PNone) (\<lambda>op.
        if \<not> is_int 1 op then Inr t
        else and_then (raw_get raw ''dst_ip'' PNone) (\<lambda>ip.
          if \<not> py_truthy ip then Inr t
          else and_then (hashed ip) (\<lambda>ip. Inr (if has_ip cx ip \<or> ip = UNSPECIFIED then t else claim ip (ob_mac ob) t)))))"

definition phantom_rule :: "as_env \<Rightarrow> analysis_context \<Rightarrow> py_error + exposure list" where
  "phantom_rule env cx =
     and_then (fold_res (phantom_step env cx) (observed cx ''arp'') []) (\<lambda>t.
       Inr (if t = [] then []
            else [finding_of NI_004 Info
                   (take 20 (concat (map (\<lambda>(ip, ms). map (\<lambda>m. who cx m @ [(''phantom_ip'', ip)]) ms) (take 20 t))))
                   (take 10 (map (\<lambda>(ip, ms). lit ''ARP request for '' @ shown env ip @ lit '' from '' @ comma (take 3 ms)) (take 20 t)))]))"

section \<open>Credentials, IoT devices and pivots\<close>

definition CRED_001 :: rule_info where
  "CRED_001 = \<lparr>ri_id = ''CRED-001'', ri_name = lit ''Unencrypted Protocol Detected'', ri_category = ServiceExploit, ri_severity = High\<rparr>"

definition CLEARTEXT_PORTS :: "(int \<times> string) list" where
  "CLEARTEXT_PORTS = [(21, ''FTP''), (23, ''Telnet''), (110, ''POP3''), (143, ''IMAP''), (161, ''SNMP'')]"

text \<open>The observations by device, in the order in which the devices come first.\<close>

definition by_device :: "analysis_context \<Rightarrow> (ustr \<times> sighting_row list) list" where
  "by_device cx = foldl (\<lambda>t ob. dict_set t (ob_mac ob) (get_or t (ob_mac ob) [] @ [ob])) [] (cx_observations cx)"

definition cleartext_step :: "as_env \<Rightarrow> sighting_row \<Rightarrow> (ustr \<times> int) list \<Rightarrow> py_error + (ustr \<times> int) list" where
  "cleartext_step env ob seen =
     and_then (raw_get (parse_raw_data env ob) ''dst_port'' PNone) (\<lambda>v.
     and_then (hashed v) (\<lambda>v.
       Inr (case v of
              PInt p \<Rightarrow> if p \<in> set (dict_keys CLEARTEXT_PORTS) \<and> (ob_mac ob, p) \<notin> set seen then seen @ [(ob_mac ob, p)] else seen
            | _ \<Rightarrow> seen)))"

definition cleartext_rule :: "as_env \<Rightarrow> analysis_context \<Rightarrow> py_error + exposure list" where
  "cleartext_rule env cx =
     and_then (fold_res (cleartext_step env) (concat (map snd (by_device cx))) []) (\<lambda>seen.
       let name = (\<lambda>p. lit (get_or CLEARTEXT_PORTS p []));
           ds = map (\<lambda>(m, p). who cx m @ [(''port'', PInt p), (''protocol'', PStr (name p))]) seen
       in Inr (if ds = [] then []
               else [finding_of CRED_001 High ds
                      [counted (length ds) ''device(s) using cleartext protocols: '' @ comma (sorted_texts (remdups (map (\<lambda>(m, p). name p) seen)))]]))"

definition CRED_002 :: rule_info where
  "CRED_002 = \<lparr>ri_id = ''CRED-002'', ri_name = lit ''IoT Default Credential Risk'', ri_category = ServiceExploit, ri_severity = Info\<rparr>"

definition RISKY_TYPES :: "(string \<times> string) list" where
  "RISKY_TYPES =
    [(''ip_camera'', ''IP cameras frequently have admin/admin or similar defaults''),
     (''camera'', ''Cameras often have vendor default credentials''),
     (''doorbell'', ''Smart doorbells may have default cloud credentials''),
     (''smart_home'', ''Smart home hubs often have weak default passwords''),
     (''thermostat'', ''Smart thermostats may expose APIs without authentication''),
     (''smart_plug'', ''Smart plugs often have no authentication on local API''),
     (''smart_lock'', ''Smart locks with default codes are a physical security risk''),
     (''printer'', ''Network printers frequently have default admin credentials''),
     (''microcontroller'', ''Microcontrollers often have debug interfaces exposed''),
     (''plc'', ''PLCs commonly use default credentials (Modbus has no auth)''),
     (''hmi'', ''HMI panels often have default passwords''),
     (''robot_vacuum'', ''Robot vacuums may expose local API without authentication'')]"

definition device_map :: "analysis_context \<Rightarrow> (ustr \<times> as_device) list" where
  "device_map cx = foldl (\<lambda>t d. dict_set t (ad_mac d) d) [] (cx_devices cx)"

definition risk_of :: "as_device \<Rightarrow> string option" where
  "risk_of d =
     (let ty = map (\<lambda>c. if c = 32 then 95 else c) (lower (case ad_type d of None \<Rightarrow> [] | Some t \<Rightarrow> t))
      in map_option snd (find (\<lambda>(k, r). lit k = ty) RISKY_TYPES))"

definition iot_rule :: "as_env \<Rightarrow> analysis_context \<Rightarrow> py_error + exposure list" where
  "iot_rule env cx =
     (let ds = List.map_filter (\<lambda>d. map_option (\<lambda>r. device_info d @ [(''risk_reason'', pstr r)]) (risk_of d)) (map snd (device_map cx))
      in Inr (if ds = [] then []
              else [finding_of CRED_002 Info ds [counted (length ds) ''IoT/embedded device(s) with default credential risk'']]))"

definition NET_007 :: rule_info where
  "NET_007 = \<lparr>ri_id = ''NET-007'', ri_name = lit ''Device Visible Across Subnets'', ri_category = NetworkIntel, ri_severity = Info\<rparr>"

definition network24 :: "ustr \<Rightarrow> ustr option" where
  "network24 t = subnet_for_ip (Some t)"

definition pivot_rule :: "as_env \<Rightarrow> analysis_context \<Rightarrow> py_error + exposure list" where
  "pivot_rule env cx =
     and_then (fold_res (network_step network24 env cx) (filter (\<lambda>ob. \<not> bridging cx (ob_mac ob)) (concat (map snd (by_device cx)))) []) (\<lambda>t.
       let multi = filter (\<lambda>(m, ns). length ns \<ge> 2) t
       in Inr (if multi = [] then []
               else [finding_of NET_007 Info
                      (map (\<lambda>(m, ns). who cx m @ [(''subnets'', PList (map PStr (sorted_texts ns)))]) multi)
                      (map (\<lambda>(m, ns). m @ lit '' on '' @ comma (sorted_texts ns)) (take 5 multi))]))"

text \<open>The rules in the order in which they run.\<close>

definition passive_rules :: "(as_env \<Rightarrow> analysis_context \<Rightarrow> py_error + exposure list) list" where
  "passive_rules =
     [cleartext_rule, iot_rule, pivot_rule, llmnr_rule, netbios_rule, mdns_rule, wpad_rule, arp_activity_rule, arp_duplicate_rule,
      gratuitous_arp_rule, dhcp_activity_rule, dhcp_anomaly_rule, advertisement_rule, routing_probe_rule, weak_tls_rule,
      plain_http_rule, upnp_rule, internal_dns_rule, gateways_rule, ndp_rule, mac_diversity_rule, discovery_rule,
      dhcp_servers_rule, dhcpv6_rule, redirect_rule, phantom_rule, dtp_rule, vlan_leakage_rule, stp_rule, visibility_rule]"

end
