(* ===== verification/AttackChains.thy ===== *)
theory AttackChains
  imports AttackSurface
begin

text \<open>
  The rest of \<open>analysis/attack_surface.py\<close>: the rules for probed services, the building of attack chains from
  findings, the context and the whole analysis.  The queries of the context are arguments: hosts with their
  verdicts, sightings, completed probes, the lines of the anomaly log, the exclusions.  Steps and tools of a chain
  are texts for people and left out.
\<close>

section \<open>Services\<close>

record service_rule =
  sr_id :: string
  sr_services :: "string list"
  sr_name :: ustr
  sr_severity :: severity

definition SE_001 :: service_rule where
  "SE_001 =
    \<lparr>sr_id = ''SE-001'', sr_services = [''telnet''],
     sr_name = lit ''Telnet Service Detected '' @ [8212] @ lit '' Cleartext Protocol'', sr_severity = High\<rparr>"

definition SE_002 :: service_rule where
  "SE_002 =
    \<lparr>sr_id = ''SE-002'', sr_services = [''ftp''],
     sr_name = lit ''FTP Service Detected '' @ [8212] @ lit '' Cleartext Protocol'', sr_severity = High\<rparr>"

definition SE_003 :: service_rule where
  "SE_003 =
    \<lparr>sr_id = ''SE-003'', sr_services = [''smb'', ''cifs'', ''microsoft-ds''],
     sr_name = lit ''SMB/CIFS Service Detected '' @ [8212] @ lit '' Relay Target'', sr_severity = High\<rparr>"

definition SE_004 :: service_rule where
  "SE_004 =
    \<lparr>sr_id = ''SE-004'', sr_services = [''snmp''],
     sr_name = lit ''SNMP Service Detected'', sr_severity = High\<rparr>"

definition SE_009 :: service_rule where
  "SE_009 =
    \<lparr>sr_id = ''SE-009'', sr_services = [''modbus''],
     sr_name = lit ''Modbus (ICS/SCADA) Service Detected'', sr_severity = Critical\<rparr>"

definition SE_010 :: service_rule where
  "SE_010 =
    \<lparr>sr_id = ''SE-010'', sr_services = [''dnp3''],
     sr_name = lit ''DNP3 (ICS/SCADA) Service Detected'', sr_severity = Critical\<rparr>"

definition SE_011 :: service_rule where
  "SE_011 =
    \<lparr>sr_id = ''SE-011'', sr_services = [''bacnet''],
     sr_name = lit ''BACnet (Building Automation) Detected'', sr_severity = Critical\<rparr>"

definition SE_012 :: service_rule where
  "SE_012 =
    \<lparr>sr_id = ''SE-012'', sr_services = [''enip'', ''ethernet_ip''],
     sr_name = lit ''EtherNet/IP (ICS) Service Detected'', sr_severity = Critical\<rparr>"

definition SE_013 :: service_rule where
  "SE_013 =
    \<lparr>sr_id = ''SE-013'', sr_services = [''iec61850''],
     sr_name = lit ''IEC 61850 MMS (Power Grid) Service Detected'', sr_severity = Critical\<rparr>"

definition SE_014 :: service_rule where
  "SE_014 =
    \<lparr>sr_id = ''SE-014'', sr_services = [''ethercat''],
     sr_name = lit ''EtherCAT (Real-Time Control) Detected'', sr_severity = High\<rparr>"

definition SE_015 :: service_rule where
  "SE_015 =
    \<lparr>sr_id = ''SE-015'', sr_services = [''modbus_rtu''],
     sr_name = lit ''Modbus RTU/TCP (Legacy ICS) Service Detected'', sr_severity = Critical\<rparr>"

definition SE_016 :: service_rule where
  "SE_016 =
    \<lparr>sr_id = ''SE-016'', sr_services = [''ff_hse''],
     sr_name = lit ''Foundation Fieldbus HSE (Process Control) Detected'', sr_severity = High\<rparr>"

definition SE_017 :: service_rule where
  "SE_017 =
    \<lparr>sr_id = ''SE-017'', sr_services = [''canopen''],
     sr_name = lit ''CANopen Gateway (Embedded Control) Detected'', sr_severity = High\<rparr>"

definition SE_024 :: service_rule where
  "SE_024 =
    \<lparr>sr_id = ''SE-024'', sr_services = [''iolink''],
     sr_name = lit ''IO-Link Master Gateway Detected'', sr_severity = Medium\<rparr>"

definition SE_025 :: service_rule where
  "SE_025 =
    \<lparr>sr_id = ''SE-025'', sr_services = [''ollama''],
     sr_name = lit ''Ollama LLM Server Exposed'', sr_severity = Critical\<rparr>"

definition SE_026 :: service_rule where
  "SE_026 =
    \<lparr>sr_id = ''SE-026'', sr_services = [''vllm'', ''openai_compat'', ''sglang'', ''localai'', ''llamacpp'', ''lm_studio''],
     sr_name = lit ''OpenAI-Compatible LLM API Exposed'', sr_severity = High\<rparr>"

definition SE_027 :: service_rule where
  "SE_027 =
    \<lparr>sr_id = ''SE-027'', sr_services = [''gradio'', ''stable_diffusion'', ''comfyui'', ''fooocus''],
     sr_name = lit ''AI Image Generation UI Exposed'', sr_severity = High\<rparr>"

definition SE_028 :: service_rule where
  "SE_028 =
    \<lparr>sr_id = ''SE-028'', sr_services = [''litellm'', ''openwebui'', ''anythingllm''],
     sr_name = lit ''AI Gateway / Platform Exposed'', sr_severity = High\<rparr>"

definition SE_029 :: service_rule where
  "SE_029 =
    \<lparr>sr_id = ''SE-029'', sr_services = [''triton'', ''nvidia_nim'', ''tensorrt_llm'', ''ray_serve'', ''bentoml''],
     sr_name = lit ''Enterprise ML Inference Server Exposed'', sr_severity = High\<rparr>"

definition SE_018 :: service_rule where
  "SE_018 =
    \<lparr>sr_id = ''SE-018'', sr_services = [''ldap''],
     sr_name = lit ''LDAP Service Detected '' @ [8212] @ lit '' Relay Target'', sr_severity = High\<rparr>"

definition SE_019 :: service_rule where
  "SE_019 =
    \<lparr>sr_id = ''SE-019'', sr_services = [''kerberos''],
     sr_name = lit ''Kerberos Service Detected '' @ [8212] @ lit '' Domain Controller'', sr_severity = High\<rparr>"

definition SE_020 :: service_rule where
  "SE_020 =
    \<lparr>sr_id = ''SE-020'', sr_services = [''docker_api'', ''docker''],
     sr_name = lit ''Docker API Detected'', sr_severity = Critical\<rparr>"

definition SE_021 :: service_rule where
  "SE_021 =
    \<lparr>sr_id = ''SE-021'', sr_services = [''kubernetes_api'', ''kubernetes''],
     sr_name = lit ''Kubernetes API Detected'', sr_severity = Critical\<rparr>"

definition SE_023 :: service_rule where
  "SE_023 =
    \<lparr>sr_id = ''SE-023'', sr_services = [''imap'', ''pop3''],
     sr_name = lit ''IMAP/POP3 Service Detected '' @ [8212] @ lit '' Cleartext Mail'', sr_severity = Medium\<rparr>"

definition SE_005 :: service_rule where
  "SE_005 =
    \<lparr>sr_id = ''SE-005'', sr_services = [''ssh''],
     sr_name = lit ''SSH Service Detected'', sr_severity = Medium\<rparr>"

definition SE_006 :: service_rule where
  "SE_006 =
    \<lparr>sr_id = ''SE-006'', sr_services = [''rdp'', ''ms-wbt-server''],
     sr_name = lit ''RDP Service Detected'', sr_severity = High\<rparr>"

definition SE_007 :: service_rule where
  "SE_007 =
    \<lparr>sr_id = ''SE-007'', sr_services = [''mssql'', ''ms-sql-s''],
     sr_name = lit ''Microsoft SQL Server Detected'', sr_severity = High\<rparr>"

definition SE_008 :: service_rule where
  "SE_008 =
    \<lparr>sr_id = ''SE-008'', sr_services = [''mysql'', ''mariadb'', ''postgresql'', ''postgres''],
     sr_name = lit ''Database Service Detected'', sr_severity = High\<rparr>"

definition SE_030 :: service_rule where
  "SE_030 =
    \<lparr>sr_id = ''SE-030'', sr_services = [''ipmi'', ''bmc''],
     sr_name = lit ''IPMI/BMC Service Detected'', sr_severity = Critical\<rparr>"

definition SE_031 :: service_rule where
  "SE_031 =
    \<lparr>sr_id = ''SE-031'', sr_services = [''vnc''],
     sr_name = lit ''VNC Service Detected'', sr_severity = High\<rparr>"

definition SE_032 :: service_rule where
  "SE_032 =
    \<lparr>sr_id = ''SE-032'', sr_services = [''winrm'', ''wsman''],
     sr_name = lit ''WinRM Service Detected'', sr_severity = High\<rparr>"

definition SERVICE_RULES :: "service_rule list" where
  "SERVICE_RULES = [SE_001, SE_002, SE_003, SE_004, SE_009, SE_010, SE_011, SE_012, SE_013, SE_014, SE_015, SE_016, SE_017, SE_024, SE_025, SE_026, SE_027, SE_028, SE_029, SE_018, SE_019, SE_020, SE_021, SE_023, SE_005, SE_006, SE_007, SE_008, SE_030, SE_031, SE_032]"

definition banner_text :: "dict \<Rightarrow> py_error + pyval" where
  "banner_text r =
     (case or_val (dget r ''banner'') (PStr []) of
        PStr t \<Rightarrow> Inr (PStr (take 200 t)) | PList vs \<Rightarrow> Inr (PList (take 200 vs)) | _ \<Rightarrow> Inl TypeError)"

definition instance_step :: "analysis_context \<Rightarrow> probe_row \<times> dict \<Rightarrow> dict list \<Rightarrow> py_error + dict list" where
  "instance_step cx pr ds =
     and_then (banner_text (snd pr)) (\<lambda>b.
       Inr (ds @ [who cx (pb_mac (fst pr)) @
         [(''port'', pnat (pb_port (fst pr))), (''service_version'', dget (snd pr) ''version''), (''banner'', b)]]))"

definition service_finding :: "analysis_context \<Rightarrow> service_rule \<Rightarrow> exposure list \<Rightarrow> py_error + exposure list" where
  "service_finding cx r fs =
     and_then (fold_res (instance_step cx) (concat (map (probed cx) (sr_services r))) []) (\<lambda>ds.
       Inr (if ds = [] then fs
            else fs @ [\<lparr>x_rule = sr_id r, x_name = sr_name r, x_category = ServiceExploit, x_severity = sr_severity r, x_devices = ds,
              x_evidence = [counted (length ds) ''instance(s) of '' @ comma (map lit (sr_services r))], x_chains = [], x_excluded = False\<rparr>]))"

definition service_findings :: "analysis_context \<Rightarrow> py_error + exposure list" where
  "service_findings cx = fold_res (service_finding cx) SERVICE_RULES []"

section \<open>Attack chains\<close>

record chain_definition =
  cd_id :: string
  cd_name :: ustr
  cd_severity :: severity
  cd_prereqs :: "string list"
  cd_mode :: string
  cd_env :: "string option"

record attack_chain =
  ac_id :: string
  ac_name :: ustr
  ac_severity :: severity
  ac_prereqs :: "string list"
  ac_interface :: ustr
  ac_triggered :: "exposure list"

definition CHAIN_001 :: chain_definition where
  "CHAIN_001 =
    \<lparr>cd_id = ''CHAIN-001'', cd_name = lit ''LLMNR/NBT-NS Poisoning -> NTLMv2 Relay'', cd_severity = Critical,
     cd_prereqs = [''NR-001'', ''NR-002''], cd_mode = ''any'', cd_env = Some ''windows''\<rparr>"

definition CHAIN_002 :: chain_definition where
  "CHAIN_002 =
    \<lparr>cd_id = ''CHAIN-002'', cd_name = lit ''DTP Trunk Negotiation -> VLAN Hopping -> Cross-Segment Access'', cd_severity = Critical,
     cd_prereqs = [''L2-007''], cd_mode = ''any'', cd_env = None\<rparr>"

definition CHAIN_003 :: chain_definition where
  "CHAIN_003 =
    \<lparr>cd_id = ''CHAIN-003'', cd_name = lit ''Rogue DHCP -> DNS Poisoning -> Traffic Interception'', cd_severity = Critical,
     cd_prereqs = [''DH-003'', ''NR-004''], cd_mode = ''custom'', cd_env = None\<rparr>"

definition CHAIN_004 :: chain_definition where
  "CHAIN_004 =
    \<lparr>cd_id = ''CHAIN-004'', cd_name = lit ''IPv6 Rogue RA -> MITM via mitm6'', cd_severity = High,
     cd_prereqs = [''RT-001''], cd_mode = ''any'', cd_env = Some ''windows''\<rparr>"

definition CHAIN_005 :: chain_definition where
  "CHAIN_005 =
    \<lparr>cd_id = ''CHAIN-005'', cd_name = lit ''ICS/SCADA Reconnaissance -> Protocol Exploitation'', cd_severity = Critical,
     cd_prereqs = [''SE-009'', ''SE-010'', ''SE-011'', ''SE-012''], cd_mode = ''any'', cd_env = Some ''ics''\<rparr>"

definition CHAIN_006 :: chain_definition where
  "CHAIN_006 =
    \<lparr>cd_id = ''CHAIN-006'', cd_name = lit ''SMB Relay -> Domain Compromise'', cd_severity = Critical,
     cd_prereqs = [''NR-001'', ''SE-003''], cd_mode = ''all'', cd_env = Some ''windows''\<rparr>"

definition CHAIN_007 :: chain_definition where
  "CHAIN_007 =
    \<lparr>cd_id = ''CHAIN-007'', cd_name = lit ''DHCPv6 Spoofing -> DNS Takeover -> NTLM Relay'', cd_severity = Critical,
     cd_prereqs = [''DH-004'', ''NR-004''], cd_mode = ''custom'', cd_env = Some ''windows''\<rparr>"

definition CHAIN_008 :: chain_definition where
  "CHAIN_008 =
    \<lparr>cd_id = ''CHAIN-008'', cd_name = lit ''ARP MITM -> Cleartext Credential Harvest'', cd_severity = High,
     cd_prereqs = [''L2-001'', ''SE-001'', ''SE-002'', ''SE-004'', ''SE-023''], cd_mode = ''custom'', cd_env = None\<rparr>"

definition CHAIN_009 :: chain_definition where
  "CHAIN_009 =
    \<lparr>cd_id = ''CHAIN-009'', cd_name = lit ''Name Resolution Poisoning -> Coerced Auth -> Shadow Credentials'', cd_severity = Critical,
     cd_prereqs = [''NR-001'', ''SE-018''], cd_mode = ''all'', cd_env = Some ''windows''\<rparr>"

definition CHAIN_010 :: chain_definition where
  "CHAIN_010 =
    \<lparr>cd_id = ''CHAIN-010'', cd_name = lit ''STP Root Bridge Takeover -> Full Segment MITM'', cd_severity = High,
     cd_prereqs = [''L2-009''], cd_mode = ''any'', cd_env = None\<rparr>"

definition CHAIN_DEFINITIONS :: "chain_definition list" where
  "CHAIN_DEFINITIONS = [CHAIN_001, CHAIN_002, CHAIN_003, CHAIN_004, CHAIN_005, CHAIN_006, CHAIN_007, CHAIN_008, CHAIN_009, CHAIN_010]"

definition WINDOWS_ENV_RULES :: "string list" where
  "WINDOWS_ENV_RULES = [''NR-002'', ''SE-003'', ''SE-018'', ''SE-019'', ''SE-032'']"

definition ICS_ENV_RULES :: "string list" where
  "ICS_ENV_RULES = [''SE-009'', ''SE-010'', ''SE-011'', ''SE-012'', ''SE-013'', ''SE-014'', ''SE-015'', ''SE-016'', ''SE-017'', ''SE-024'']"

definition rule_ids :: "exposure list \<Rightarrow> string set" where
  "rule_ids fs = x_rule ` set fs"

definition detect_environments :: "exposure list \<Rightarrow> analysis_context \<Rightarrow> (string \<times> bool) list" where
  "detect_environments fs cx =
     [(''windows'', list_ex (\<lambda>r. r \<in> rule_ids fs) WINDOWS_ENV_RULES \<or> truthy (cx_dc cx)),
      (''ics'', list_ex (\<lambda>r. r \<in> rule_ids fs) ICS_ENV_RULES)]"

definition actionable :: "exposure list \<Rightarrow> exposure list" where
  "actionable fs = filter (\<lambda>f. severity_rank (x_severity f) \<ge> severity_rank Medium) fs"

text \<open>Whether the prerequisites of a chain are met; in the custom mode the first is required with one of the others.\<close>

definition chain_matches :: "string set \<Rightarrow> chain_definition \<Rightarrow> bool" where
  "chain_matches ids d =
     (if cd_mode d = ''any'' then list_ex (\<lambda>r. r \<in> ids) (cd_prereqs d)
      else if cd_mode d = ''custom''
      then hd (cd_prereqs d) \<in> ids \<and> list_ex (\<lambda>r. r \<noteq> hd (cd_prereqs d) \<and> r \<in> ids) (cd_prereqs d)
      else list_all (\<lambda>r. r \<in> ids) (cd_prereqs d))"

definition feasible :: "(string \<times> bool) list \<Rightarrow> chain_definition \<Rightarrow> bool" where
  "feasible envs d = (case cd_env d of None \<Rightarrow> True | Some e \<Rightarrow> e = [] \<or> get_or envs e False)"

text \<open>The findings that trigger a chain: the last of each rule.\<close>

definition triggers :: "exposure list \<Rightarrow> chain_definition \<Rightarrow> exposure list" where
  "triggers fs d = List.map_filter (\<lambda>r. find (\<lambda>f. x_rule f = r) (rev fs)) (cd_prereqs d)"

definition build_chains :: "exposure list \<Rightarrow> analysis_context \<Rightarrow> attack_chain list" where
  "build_chains fs cx =
     map (\<lambda>d. \<lparr>ac_id = cd_id d, ac_name = cd_name d, ac_severity = cd_severity d, ac_prereqs = cd_prereqs d,
              ac_interface = cx_interface cx, ac_triggered = triggers (actionable fs) d\<rparr>)
       (filter (\<lambda>d. feasible (detect_environments fs cx) d \<and> chain_matches (rule_ids (actionable fs)) d) CHAIN_DEFINITIONS)"

definition tag_finding :: "attack_chain \<Rightarrow> exposure \<Rightarrow> exposure" where
  "tag_finding c f =
     (if x_rule f \<in> set (ac_prereqs c) \<and> ac_id c \<notin> set (x_chains f) then f\<lparr>x_chains := x_chains f @ [ac_id c]\<rparr> else f)"

definition tag_findings :: "attack_chain list \<Rightarrow> exposure list \<Rightarrow> exposure list" where
  "tag_findings cs fs = map (\<lambda>f. foldl (\<lambda>f c. tag_finding c f) f cs) fs"

section \<open>The context\<close>

record analysis_input =
  in_hosts :: "(host \<times> verdict option) list"
  in_sightings :: "sighting_row list"
  in_probes :: "probe_row list"
  in_anomalies :: "ustr list"
  in_exclusions :: "(string \<times> ustr) list"
  in_interface :: "ustr option"
  in_interface_type :: string
  in_attacker :: "ustr option"

definition load_device :: "host \<times> verdict option \<Rightarrow> as_device" where
  "load_device hv =
     (let (h, v) = hv; vf = (\<lambda>f. Option.bind v f)
      in \<lparr>ad_mac = lit (h_hw_addr h), ad_ip4 = map_option lit (h_ip_addr h), ad_ip6 = map_option lit (h_ip_v6 h),
          ad_manufacturer = vf v_vendor, ad_type = vf v_category, ad_os = vf v_platform, ad_hostname = vf v_hostname,
          ad_certainty = (case v of None \<Rightarrow> 0 | Some v \<Rightarrow> v_certainty v),
          ad_disposition = (if h_disposition h = [] then ''new'' else h_disposition h)\<rparr>)"

definition decoded :: "as_env \<Rightarrow> probe_row \<Rightarrow> pyval option" where
  "decoded env p = (case pb_result p of None \<Rightarrow> None | Some t \<Rightarrow> if t = [] then None else ae_json env t)"

text \<open>Probes by service: results that are no dictionary and services that are no key are passed over.\<close>

definition probe_service :: "as_env \<Rightarrow> probe_row \<Rightarrow> (probe_row \<times> dict) option" where
  "probe_service env p =
     (case decoded env p of
        Some (PDict d) \<Rightarrow>
          (let s = get_or d ''service'' (PStr [])
           in if py_truthy s \<and> (case hashed s of Inl _ \<Rightarrow> False | Inr _ \<Rightarrow> True) then Some (p, d) else None)
      | _ \<Rightarrow> None)"

definition dc_step :: "as_env \<Rightarrow> probe_row \<Rightarrow> ustr option \<Rightarrow> py_error + ustr option" where
  "dc_step env p dc =
     (case decoded env p of None \<Rightarrow> Inr dc
      | Some v \<Rightarrow> and_then (raw_get v ''service'' PNone) (\<lambda>s.
          Inr (if s = pstr ''kerberos'' \<and> pb_ip p \<noteq> [] then or_else dc (Some (pb_ip p)) else dc)))"

definition DOMAIN_TLDS :: "string list" where
  "DOMAIN_TLDS = [''.local'', ''.corp'', ''.internal'', ''.lan'']"

text \<open>The last two labels of the first internal name.\<close>

definition domain_of :: "ustr \<Rightarrow> ustr option" where
  "domain_of q =
     (if list_ex (\<lambda>tld. ends_with (lit tld) q) DOMAIN_TLDS
      then (let ps = split_on 46 q in Some (join [46] (drop (length ps - 2) ps))) else None)"

definition domain_step :: "as_env \<Rightarrow> sighting_row \<Rightarrow> ustr option \<Rightarrow> py_error + ustr option" where
  "domain_step env ob dm =
     (if dm \<noteq> None then Inr dm else and_then (query_name (parse_raw_data env ob)) (\<lambda>q. Inr (domain_of q)))"

definition build_context :: "as_env \<Rightarrow> analysis_input \<Rightarrow> py_error + analysis_context" where
  "build_context env i =
     (let ds = map load_device (in_hosts i);
          gw = map_option (\<lambda>d. the (ad_ip4 d)) (find (\<lambda>d. routes d \<and> truthy (ad_ip4 d)) ds)
      in and_then (fold_res (dc_step env) (in_probes i) None) (\<lambda>dc.
         and_then (fold_res (domain_step env) (filter (\<lambda>ob. ob_type ob = ''dns'') (in_sightings i)) None) (\<lambda>dm.
           Inr \<lparr>cx_devices = ds, cx_observations = in_sightings i,
             cx_services = List.map_filter (probe_service env) (in_probes i), cx_anomalies = in_anomalies i,
             cx_interface = (case in_interface i of None \<Rightarrow> lit ''eth0'' | Some t \<Rightarrow> if t = [] then lit ''eth0'' else t),
             cx_interface_type = in_interface_type i, cx_gateway = gw, cx_domain = dm, cx_attacker = in_attacker i,
             cx_dc = dc, cx_exclusions = in_exclusions i\<rparr>)))"

section \<open>The analysis\<close>

definition kept :: "py_error + exposure list \<Rightarrow> exposure list" where
  "kept r = (case r of Inl _ \<Rightarrow> [] | Inr fs \<Rightarrow> fs)"

definition all_findings :: "as_env \<Rightarrow> analysis_context \<Rightarrow> exposure list" where
  "all_findings env cx = concat (map (\<lambda>r. kept (r env cx)) passive_rules) @ kept (service_findings cx)"

definition TUNNELS :: "string list" where
  "TUNNELS = [''vpn'', ''proxy'', ''pivot'']"

definition visible_findings :: "as_env \<Rightarrow> analysis_context \<Rightarrow> exposure list" where
  "visible_findings env cx =
     (if cx_interface_type cx \<in> set TUNNELS then filter (\<lambda>f. \<not> starts_with ''L2-'' (x_rule f)) (all_findings env cx)
      else all_findings env cx)"

definition excluded_values :: "analysis_context \<Rightarrow> string \<Rightarrow> ustr list" where
  "excluded_values cx k = map snd (filter (\<lambda>e. fst e = k) (cx_exclusions cx))"

definition is_excluded :: "analysis_context \<Rightarrow> exposure \<Rightarrow> bool" where
  "is_excluded cx f \<longleftrightarrow>
     lit (x_rule f) \<in> set (excluded_values cx ''rule'') \<or>
     list_ex (\<lambda>d. dget d ''ip'' \<in> set (map PStr (excluded_values cx ''ip'')) \<or>
                dget d ''mac'' \<in> set (map PStr (excluded_values cx ''mac''))) (x_devices f)"

definition apply_exclusions :: "analysis_context \<Rightarrow> exposure list \<Rightarrow> exposure list" where
  "apply_exclusions cx fs = map (\<lambda>f. if is_excluded cx f then f\<lparr>x_excluded := True\<rparr> else f) fs"

record analysis_report =
  ar_findings :: "exposure list"
  ar_chains :: "attack_chain list"
  ar_total :: nat
  ar_by_severity :: "(severity \<times> nat) list"
  ar_by_category :: "(category \<times> nat) list"
  ar_chain_count :: nat

definition tally :: "'k list \<Rightarrow> ('k \<times> nat) list" where
  "tally ks = foldl (\<lambda>t k. dict_set t k (get_or t k 0 + 1)) [] ks"

definition build_report :: "exposure list \<Rightarrow> attack_chain list \<Rightarrow> analysis_report" where
  "build_report fs cs =
     \<lparr>ar_findings = fs, ar_chains = cs, ar_total = length fs, ar_by_severity = tally (map x_severity fs),
      ar_by_category = tally (map x_category fs), ar_chain_count = length cs\<rparr>"

definition analyze_context :: "as_env \<Rightarrow> analysis_context \<Rightarrow> analysis_report" where
  "analyze_context env cx =
     (let fs = apply_exclusions cx (visible_findings env cx); cs = build_chains fs cx
      in build_report (tag_findings cs fs) cs)"

definition analyze_attack_surface :: "as_env \<Rightarrow> analysis_input \<Rightarrow> py_error + analysis_report" where
  "analyze_attack_surface env i = and_then (build_context env i) (\<lambda>cx. Inr (analyze_context env cx))"

end
