(* ===== verification/AttackProps.thy ===== *)
theory AttackProps
  imports AttackChains Dhcp
begin

text \<open>
  What the analysis reports: which findings carry which rule, when a chain is built, what exclusions and tunnel
  interfaces change, and what the rules can learn from the packets the parsers make.
\<close>

section \<open>The findings of a rule\<close>

definition finds_only :: "string \<Rightarrow> (as_env \<Rightarrow> analysis_context \<Rightarrow> py_error + exposure list) \<Rightarrow> bool" where
  "finds_only i r \<longleftrightarrow> (\<forall>env cx. \<forall>f\<in>set (kept (r env cx)). x_rule f = i)"

named_theorems rule_idents

lemma kept_simps [simp]: "kept (Inr fs) = fs" "kept (Inl e) = []"
  by (simp_all add: kept_def)

lemma kept_and_then: "f \<in> set (kept (and_then r g)) \<longleftrightarrow> (\<exists>x. r = Inr x \<and> f \<in> set (kept (g x)))"
  by (cases r) auto

lemma finding_of_simps [simp]:
  "x_rule (finding_of i s ds ev) = ri_id i" "x_severity (finding_of i s ds ev) = s" "x_devices (finding_of i s ds ev) = ds"
  "x_category (finding_of i s ds ev) = ri_category i"
  by (simp_all add: finding_of_def)

lemma finds_onlyI: "(\<And>env cx f. f \<in> set (kept (r env cx)) \<Longrightarrow> x_rule f = i) \<Longrightarrow> finds_only i r"
  by (auto simp: finds_only_def)

lemma query_finds [rule_idents]: "finds_only ''NR-001'' llmnr_rule" "finds_only ''NR-002'' netbios_rule"
  by (rule finds_onlyI; auto simp: llmnr_rule_def netbios_rule_def query_rule_def kept_and_then NR_001_def NR_002_def split: if_splits)+

lemma name_finds [rule_idents]: "finds_only ''NR-003'' mdns_rule" "finds_only ''NR-004'' wpad_rule"
  by (rule finds_onlyI; auto simp: mdns_rule_def wpad_rule_def kept_and_then NR_003_def NR_004_def split: if_splits)+

lemma arp_finds [rule_idents]: "finds_only ''L2-001'' arp_activity_rule" "finds_only ''L2-002'' arp_duplicate_rule"
    "finds_only ''L2-003'' gratuitous_arp_rule"
  by (rule finds_onlyI; auto simp: arp_activity_rule_def arp_duplicate_rule_def gratuitous_arp_rule_def kept_and_then Let_def
      L2_001_def L2_002_def L2_003_def split: if_splits)+

lemma ndp_finds [rule_idents]: "finds_only ''L2-004'' ndp_rule" "finds_only ''L2-005'' mac_diversity_rule" "finds_only ''L2-006'' discovery_rule"
  by (rule finds_onlyI; auto simp: ndp_rule_def mac_diversity_rule_def discovery_rule_def kept_and_then Let_def
      L2_004_def L2_005_def L2_006_def split: if_splits)+

lemma vlan_finds [rule_idents]: "finds_only ''L2-007'' dtp_rule" "finds_only ''L2-008'' vlan_leakage_rule" "finds_only ''L2-009'' stp_rule"
    "finds_only ''L2-010'' visibility_rule"
  by (rule finds_onlyI; auto simp: dtp_rule_def vlan_leakage_rule_def stp_rule_def visibility_rule_def kept_and_then Let_def
      L2_007_def L2_008_def L2_009_def L2_010_def split: if_splits)+

lemma dhcp_finds [rule_idents]: "finds_only ''DH-001'' dhcp_activity_rule" "finds_only ''DH-002'' dhcp_anomaly_rule"
    "finds_only ''DH-003'' dhcp_servers_rule" "finds_only ''DH-004'' dhcpv6_rule"
  by (rule finds_onlyI; auto simp: dhcp_activity_rule_def dhcp_anomaly_rule_def dhcp_servers_rule_def dhcpv6_rule_def kept_and_then Let_def
      DH_001_def DH_002_def DH_003_def DH_004_def split: if_splits)+

lemma routing_finds [rule_idents]: "finds_only ''RT-001'' advertisement_rule" "finds_only ''RT-002'' routing_probe_rule"
    "finds_only ''RT-003'' redirect_rule"
  by (rule finds_onlyI; auto simp: advertisement_rule_def routing_probe_rule_def redirect_rule_def kept_and_then Let_def
      RT_001_def RT_002_def RT_003_def split: if_splits list.splits)+

lemma tls_finds [rule_idents]: "finds_only ''TC-001'' weak_tls_rule" "finds_only ''TC-002'' plain_http_rule"
  by (rule finds_onlyI; auto simp: weak_tls_rule_def plain_http_rule_def kept_and_then Let_def TC_001_def TC_002_def split: if_splits)+

lemma intel_finds [rule_idents]: "finds_only ''NI-001'' upnp_rule" "finds_only ''NI-002'' internal_dns_rule"
    "finds_only ''NI-003'' gateways_rule" "finds_only ''NI-004'' phantom_rule"
  by (rule finds_onlyI; auto simp: upnp_rule_def internal_dns_rule_def gateways_rule_def phantom_rule_def kept_and_then Let_def
      NI_001_def NI_002_def NI_003_def NI_004_def split: if_splits)+

lemma device_finds [rule_idents]: "finds_only ''CRED-001'' cleartext_rule" "finds_only ''CRED-002'' iot_rule" "finds_only ''NET-007'' pivot_rule"
  by (rule finds_onlyI; auto simp: cleartext_rule_def iot_rule_def pivot_rule_def kept_and_then Let_def
      CRED_001_def CRED_002_def NET_007_def split: if_splits)+

text \<open>Every rule with the identifier of its findings.\<close>

definition passive_table :: "(string \<times> (as_env \<Rightarrow> analysis_context \<Rightarrow> py_error + exposure list)) list" where
  "passive_table =
    [(''CRED-001'', cleartext_rule), (''CRED-002'', iot_rule), (''NET-007'', pivot_rule), (''NR-001'', llmnr_rule),
     (''NR-002'', netbios_rule), (''NR-003'', mdns_rule), (''NR-004'', wpad_rule), (''L2-001'', arp_activity_rule),
     (''L2-002'', arp_duplicate_rule), (''L2-003'', gratuitous_arp_rule), (''DH-001'', dhcp_activity_rule),
     (''DH-002'', dhcp_anomaly_rule), (''RT-001'', advertisement_rule), (''RT-002'', routing_probe_rule),
     (''TC-001'', weak_tls_rule), (''TC-002'', plain_http_rule), (''NI-001'', upnp_rule), (''NI-002'',
     internal_dns_rule), (''NI-003'', gateways_rule), (''L2-004'', ndp_rule), (''L2-005'', mac_diversity_rule),
     (''L2-006'', discovery_rule), (''DH-003'', dhcp_servers_rule), (''DH-004'', dhcpv6_rule), (''RT-003'',
     redirect_rule), (''NI-004'', phantom_rule), (''L2-007'', dtp_rule), (''L2-008'', vlan_leakage_rule),
     (''L2-009'', stp_rule), (''L2-010'', visibility_rule)]"

lemma passive_table_rules: "map snd passive_table = passive_rules"
  by (simp add: passive_table_def passive_rules_def)

lemma passive_table_finds: "(i, r) \<in> set passive_table \<Longrightarrow> finds_only i r"
  by (auto simp: passive_table_def rule_idents)

lemma passive_table_distinct: "distinct (map fst passive_table)"
  by (simp add: passive_table_def)

lemma fold_res_invariant:
  assumes "fold_res f xs s = Inr t" "P s" "\<And>x s s'. x \<in> set xs \<Longrightarrow> P s \<Longrightarrow> f x s = Inr s' \<Longrightarrow> P s'"
  shows "P t"
  using assms
proof (induction xs arbitrary: s)
  case (Cons x xs)
  then obtain s' where "f x s = Inr s'" "fold_res f xs s' = Inr t" by (auto simp: and_then_Inr)
  with Cons show ?case by (metis list.set_intros)
qed simp

lemma service_ids: "f \<in> set (kept (service_findings cx)) \<Longrightarrow> x_rule f \<in> sr_id ` set SERVICE_RULES"
proof (cases "service_findings cx")
  case (Inr fs)
  have "\<forall>f\<in>set fs. x_rule f \<in> sr_id ` set SERVICE_RULES"
    using Inr unfolding service_findings_def
    by (rule fold_res_invariant [where P = "\<lambda>fs. \<forall>f\<in>set fs. x_rule f \<in> sr_id ` set SERVICE_RULES"])
      (auto simp: service_finding_def and_then_Inr split: if_splits)
  then show "f \<in> set (kept (service_findings cx)) \<Longrightarrow> x_rule f \<in> sr_id ` set SERVICE_RULES" using Inr by simp
qed simp

lemmas service_rule_defs = SE_001_def SE_002_def SE_003_def SE_004_def SE_005_def SE_006_def SE_007_def SE_008_def SE_009_def
  SE_010_def SE_011_def SE_012_def SE_013_def SE_014_def SE_015_def SE_016_def SE_017_def SE_018_def SE_019_def SE_020_def
  SE_021_def SE_023_def SE_024_def SE_025_def SE_026_def SE_027_def SE_028_def SE_029_def SE_030_def SE_031_def SE_032_def

lemma service_ids_separate: "sr_id ` set SERVICE_RULES \<inter> fst ` set passive_table = {}"
  by (simp add: SERVICE_RULES_def service_rule_defs passive_table_def)

text \<open>A finding with the identifier of a passive rule comes from that rule.\<close>

lemma from_rule:
  assumes "f \<in> set (all_findings env cx)" "(x_rule f, r) \<in> set passive_table"
  shows "f \<in> set (kept (r env cx))"
proof -
  have "x_rule f \<in> fst ` set passive_table" using assms(2) by force
  then have "f \<notin> set (kept (service_findings cx))" using service_ids service_ids_separate by blast
  then obtain r' where r': "r' \<in> set passive_rules" "f \<in> set (kept (r' env cx))"
    using assms(1) by (auto simp: all_findings_def)
  then obtain i where i: "(i, r') \<in> set passive_table" by (auto simp flip: passive_table_rules)
  then have "x_rule f = i" using passive_table_finds r'(2) by (force simp: finds_only_def)
  then have "r' = r" using i assms(2) passive_table_distinct by (metis eq_key_imp_eq_value)
  then show ?thesis using r'(2) by simp
qed

section \<open>Chains\<close>

lemma visible_subset: "set (visible_findings env cx) \<subseteq> set (all_findings env cx)"
  by (auto simp: visible_findings_def)

text \<open>What exclusions leave of a finding.\<close>

lemma excluded_fields:
  "f \<in> set (apply_exclusions cx fs) \<Longrightarrow> \<exists>g\<in>set fs. x_rule f = x_rule g \<and> x_severity f = x_severity g \<and> x_chains f = x_chains g"
  by (auto simp: apply_exclusions_def)

lemma chain_prereqs:
  "d \<in> set CHAIN_DEFINITIONS \<Longrightarrow> cd_prereqs d \<noteq> []"
  by (auto simp: CHAIN_DEFINITIONS_def CHAIN_001_def CHAIN_002_def CHAIN_003_def CHAIN_004_def CHAIN_005_def CHAIN_006_def
      CHAIN_007_def CHAIN_008_def CHAIN_009_def CHAIN_010_def)

lemma chain_ids: "distinct (map cd_id CHAIN_DEFINITIONS)"
  by (simp add: CHAIN_DEFINITIONS_def CHAIN_001_def CHAIN_002_def CHAIN_003_def CHAIN_004_def CHAIN_005_def CHAIN_006_def
      CHAIN_007_def CHAIN_008_def CHAIN_009_def CHAIN_010_def)

lemma chain_match_some: "chain_matches ids d \<Longrightarrow> cd_prereqs d \<noteq> [] \<Longrightarrow> \<exists>r\<in>set (cd_prereqs d). r \<in> ids"
  by (cases "cd_prereqs d") (auto simp: chain_matches_def list_ex_iff split: if_splits)

text \<open>The findings of a context before tags, and the rules that may build chains.\<close>

definition marked :: "as_env \<Rightarrow> analysis_context \<Rightarrow> exposure list" where
  "marked env cx = apply_exclusions cx (visible_findings env cx)"

lemma analyze_parts:
  "ar_chains (analyze_context env cx) = build_chains (marked env cx) cx"
  "ar_findings (analyze_context env cx) = tag_findings (build_chains (marked env cx) cx) (marked env cx)"
  by (simp_all add: analyze_context_def build_report_def marked_def Let_def)

lemma marked_from: "f \<in> set (marked env cx) \<Longrightarrow> \<exists>g\<in>set (all_findings env cx). x_rule f = x_rule g \<and> x_severity f = x_severity g"
  using excluded_fields visible_subset unfolding marked_def by blast

lemma built_from:
  assumes "c \<in> set (build_chains fs cx)"
  obtains d where "d \<in> set CHAIN_DEFINITIONS" "ac_id c = cd_id d" "ac_prereqs c = cd_prereqs d"
    "chain_matches (rule_ids (actionable fs)) d" "feasible (detect_environments fs cx) d"
  using assms by (auto simp: build_chains_def)

text \<open>A chain whose first rule never gives an actionable finding is not built in the custom mode.\<close>

lemma custom_needs_first:
  assumes "c \<in> set (ar_chains (analyze_context env cx))" "d \<in> set CHAIN_DEFINITIONS" "cd_id d = ac_id c" "cd_mode d = ''custom''"
  obtains f where "f \<in> set (all_findings env cx)" "x_rule f = hd (cd_prereqs d)" "severity_rank (x_severity f) \<ge> severity_rank Medium"
proof -
  from assms(1) obtain e where e: "e \<in> set CHAIN_DEFINITIONS" "ac_id c = cd_id e" "chain_matches (rule_ids (actionable (marked env cx))) e"
    by (auto simp: analyze_parts elim: built_from)
  then have "e = d" using assms(2,3) chain_ids by (metis (no_types, lifting) distinct_map inj_onD)
  then have "hd (cd_prereqs d) \<in> rule_ids (actionable (marked env cx))" using e(3) assms(4) by (simp add: chain_matches_def)
  then obtain f where "f \<in> set (marked env cx)" "x_rule f = hd (cd_prereqs d)" "severity_rank (x_severity f) \<ge> severity_rank Medium"
    by (auto simp: rule_ids_def actionable_def)
  then show ?thesis using marked_from that by metis
qed

section \<open>Tags\<close>

lemma tag_finding_simps [simp]: "x_rule (tag_finding c f) = x_rule f" "x_severity (tag_finding c f) = x_severity f"
  by (simp_all add: tag_finding_def)

lemma tags_simps [simp]: "x_rule (foldl (\<lambda>f c. tag_finding c f) f cs) = x_rule f" "x_severity (foldl (\<lambda>f c. tag_finding c f) f cs) = x_severity f"
  by (induction cs arbitrary: f) simp_all

lemma tags_keep: "i \<in> set (x_chains f) \<Longrightarrow> i \<in> set (x_chains (foldl (\<lambda>f c. tag_finding c f) f cs))"
  by (induction cs arbitrary: f) (auto simp: tag_finding_def)

lemma tags_add: "c \<in> set cs \<Longrightarrow> x_rule f \<in> set (ac_prereqs c) \<Longrightarrow> ac_id c \<in> set (x_chains (foldl (\<lambda>f c. tag_finding c f) f cs))"
proof (induction cs arbitrary: f)
  case (Cons d cs)
  show ?case
  proof (cases "c = d")
    case True
    have "ac_id c \<in> set (x_chains (tag_finding c f))" using Cons.prems(2) by (simp add: tag_finding_def)
    then show ?thesis using True tags_keep by simp
  qed (use Cons in auto)
qed simp

section \<open>What no rule reads\<close>

lemma no_exclusions_tables [simp]:
  "device_of (cx\<lparr>cx_exclusions := ex\<rparr>) = device_of cx" "observed (cx\<lparr>cx_exclusions := ex\<rparr>) = observed cx"
  "probed (cx\<lparr>cx_exclusions := ex\<rparr>) = probed cx" "by_device (cx\<lparr>cx_exclusions := ex\<rparr>) = by_device cx"
  "device_map (cx\<lparr>cx_exclusions := ex\<rparr>) = device_map cx"
  by (simp_all add: fun_eq_iff device_of_def observed_def probed_def by_device_def device_map_def)

lemma no_exclusions_devices [simp]:
  "who (cx\<lparr>cx_exclusions := ex\<rparr>) = who cx" "bridging (cx\<lparr>cx_exclusions := ex\<rparr>) = bridging cx"
  "ip4_of (cx\<lparr>cx_exclusions := ex\<rparr>) = ip4_of cx"
  by (simp_all add: fun_eq_iff who_def bridging_def ip4_of_def)

lemma no_exclusions_values [simp]:
  "has_ip (cx\<lparr>cx_exclusions := ex\<rparr>) = has_ip cx" "who_value (cx\<lparr>cx_exclusions := ex\<rparr>) = who_value cx"
  "meet (cx\<lparr>cx_exclusions := ex\<rparr>) = meet cx"
  by (simp_all add: fun_eq_iff has_ip_def who_value_def meet_def split: pyval.splits)

lemma no_exclusions_steps [simp]:
  "met_by env (cx\<lparr>cx_exclusions := ex\<rparr>) = met_by env cx" "met_all (cx\<lparr>cx_exclusions := ex\<rparr>) = met_all cx"
  "seen_values env (cx\<lparr>cx_exclusions := ex\<rparr>) = seen_values env cx" "named_queries env (cx\<lparr>cx_exclusions := ex\<rparr>) = named_queries env cx"
  "ndp_step env (cx\<lparr>cx_exclusions := ex\<rparr>) = ndp_step env cx" "cdp_step env (cx\<lparr>cx_exclusions := ex\<rparr>) = cdp_step env cx"
  "lldp_step env (cx\<lparr>cx_exclusions := ex\<rparr>) = lldp_step env cx" "ssdp_step env (cx\<lparr>cx_exclusions := ex\<rparr>) = ssdp_step env cx"
  "dtp_step env (cx\<lparr>cx_exclusions := ex\<rparr>) = dtp_step env cx" "native_step env (cx\<lparr>cx_exclusions := ex\<rparr>) = native_step env cx"
  "network_step g env (cx\<lparr>cx_exclusions := ex\<rparr>) = network_step g env cx" "internal_step env (cx\<lparr>cx_exclusions := ex\<rparr>) = internal_step env cx"
  "phantom_step env (cx\<lparr>cx_exclusions := ex\<rparr>) = phantom_step env cx" "arp_claims env (cx\<lparr>cx_exclusions := ex\<rparr>) = arp_claims env cx"
  "instance_step (cx\<lparr>cx_exclusions := ex\<rparr>) = instance_step cx"
  by (simp_all add: fun_eq_iff met_by_def met_all_def seen_values_def named_queries_def ndp_step_def cdp_step_def lldp_step_def
      ssdp_step_def dtp_step_def native_step_def network_step_def internal_step_def phantom_step_def arp_claims_def instance_step_def
      Let_def cong: if_cong option.case_cong)

lemma rules_ignore_exclusions: "map (\<lambda>r. r env (cx\<lparr>cx_exclusions := ex\<rparr>)) passive_rules = map (\<lambda>r. r env cx) passive_rules"
  by (simp add: passive_rules_def cleartext_rule_def iot_rule_def pivot_rule_def llmnr_rule_def netbios_rule_def query_rule_def
      mdns_rule_def wpad_rule_def arp_activity_rule_def arp_duplicate_rule_def gratuitous_arp_rule_def dhcp_activity_rule_def
      dhcp_anomaly_rule_def advertisement_rule_def routing_probe_rule_def weak_tls_rule_def plain_http_rule_def upnp_rule_def
      internal_dns_rule_def gateways_rule_def ndp_rule_def mac_diversity_rule_def discovery_rule_def dhcp_servers_rule_def
      dhcpv6_rule_def redirect_rule_def phantom_rule_def dtp_rule_def vlan_leakage_rule_def stp_rule_def visibility_rule_def Let_def
      cong: if_cong option.case_cong list.case_cong)

lemma services_ignore_exclusions: "service_findings (cx\<lparr>cx_exclusions := ex\<rparr>) = service_findings cx"
proof -
  have "service_finding (cx\<lparr>cx_exclusions := ex\<rparr>) = service_finding cx"
    by (intro ext) (simp add: service_finding_def)
  then show ?thesis by (simp add: service_findings_def)
qed

lemma findings_ignore_exclusions: "visible_findings env (cx\<lparr>cx_exclusions := ex\<rparr>) = visible_findings env cx"
proof -
  have "map (\<lambda>r. kept (r env (cx\<lparr>cx_exclusions := ex\<rparr>))) passive_rules = map (\<lambda>r. kept (r env cx)) passive_rules"
    using arg_cong [OF rules_ignore_exclusions, of "map kept"] by (simp add: comp_def del: list.map_comp)
  then have "all_findings env (cx\<lparr>cx_exclusions := ex\<rparr>) = all_findings env cx"
    unfolding all_findings_def services_ignore_exclusions by (rule arg_cong)
  then show ?thesis by (simp add: visible_findings_def)
qed

text \<open>Marking leaves rules and severities as they are.\<close>

lemma marked_columns:
  "map x_rule (apply_exclusions cx fs) = map x_rule fs" "map x_severity (apply_exclusions cx fs) = map x_severity fs"
  "map x_category (apply_exclusions cx fs) = map x_category fs" "length (apply_exclusions cx fs) = length fs"
  "rule_ids (apply_exclusions cx fs) = rule_ids fs" "rule_ids (actionable (apply_exclusions cx fs)) = rule_ids (actionable fs)"
  by (induction fs) (auto simp: apply_exclusions_def rule_ids_def actionable_def)

section \<open>The DHCP packets the rules get to see\<close>

fun message_type_opt :: "dhcp_opt \<Rightarrow> bool" where
  "message_type_opt (Opt name v) = (name = ''message-type'')"
| "message_type_opt (Marker s) = False"

text \<open>A packet with a sender, a source address and at most one message type.\<close>

definition properly_sent :: "dhcp_packet \<Rightarrow> bool" where
  "properly_sent p \<longleftrightarrow> dp_src p \<noteq> [] \<and> (case dp_ip_src p of None \<Rightarrow> False | Some s \<Rightarrow> s \<noteq> NO_IP) \<and>
     (case dp_options p of None \<Rightarrow> True | Some os \<Rightarrow> length (filter message_type_opt os) \<le> 1)"

lemma scan_opt_type:
  "scan_opt sv name v a = Inr b \<Longrightarrow> sc_msg_type b = (if name = ''message-type'' then Some v else sc_msg_type a)"
  by (auto simp: scan_opt_def Let_def split: if_splits sum.splits)

lemma scan_options_type:
  "scan_options sv os a = Inr b \<Longrightarrow> length (filter message_type_opt os) \<le> 1 \<Longrightarrow>
     sc_msg_type b = (case first_message_type os of None \<Rightarrow> sc_msg_type a | Some v \<Rightarrow> Some v)"
proof (induction sv os a rule: scan_options.induct)
  case (3 sv name v os a)
  then obtain a' where a': "scan_opt sv name v a = Inr a'" "scan_options sv os a' = Inr b" by (auto split: sum.splits)
  show ?case
  proof (cases "name = ''message-type''")
    case True
    have "first_message_type os = None"
    proof -
      have "filter message_type_opt os = []" using 3(3) True by simp
      then show ?thesis by (induction os rule: first_message_type.induct) (auto split: if_splits)
    qed
    then show ?thesis using 3(1) [OF a'] 3(3) True scan_opt_type [OF a'(1)] by simp
  next
    case False
    then show ?thesis using 3(1) [OF a'] 3(3) scan_opt_type [OF a'(1)] by (simp split: option.splits)
  qed
qed simp_all

lemma is_int_raw: "is_int n (raw_value v) \<longleftrightarrow> v = DInt n"
  by (cases v) (auto simp: is_int_def raw_value_def)

lemma server_packet: "parse_dhcp_server p = Inr (Some c) \<Longrightarrow> protocol c = ''dhcp_server''"
  by (auto simp: parse_dhcp_server_def captured_def Let_def split: option.splits if_splits)

text \<open>What the chain makes of offers and acknowledgements is no packet of the protocol \<open>dhcpv4\<close>.\<close>

lemma client_packet_type:
  assumes "properly_sent p" "classify_dhcp sv p = Some c" "protocol c = ''dhcpv4''"
  obtains v where "get_or (cp_fields c) ''message_type'' PNone = v" "\<not> is_int 2 v" "\<not> is_int 5 v"
proof -
  have no: "parse_dhcp_server p \<noteq> Inr (Some d)" for d
    using assms(2,3) server_packet by (auto simp: classify_dhcp_def)
  then have c: "parse_dhcpv4 sv p = Inr (Some c)"
    using assms(2) by (auto simp: classify_dhcp_def split: sum.splits option.splits)
  then obtain os a where os: "dp_options p = Some os" "scan_options sv os dhcp_scan0 = Inr a"
    and v: "get_or (cp_fields c) ''message_type'' PNone = (case sc_msg_type a of None \<Rightarrow> PNone | Some v \<Rightarrow> raw_value v)"
    by (auto simp: parse_dhcpv4_def captured_def get_or_def split: option.splits sum.splits if_splits)
  have t: "sc_msg_type a = first_message_type os"
    using scan_options_type [OF os(2)] assms(1) os(1) by (auto simp: properly_sent_def dhcp_scan0_def split: option.splits)
  have "first_message_type os \<notin> {Some (DInt 2), Some (DInt 5)}"
  proof
    assume mt: "first_message_type os \<in> {Some (DInt 2), Some (DInt 5)}"
    obtain s where s: "dp_src p \<noteq> []" "dp_ip_src p = Some s" "s \<noteq> NO_IP"
      using assms(1) by (auto simp: properly_sent_def split: option.splits)
    have "\<exists>d. parse_dhcp_server p = Inr (Some d)"
      using mt s os(1) by (cases "addr_or_none (dp_siaddr p) = NO_IP") (auto simp: parse_dhcp_server_def Let_def)
    then show False using no by blast
  qed
  then have "\<not> is_int 2 (case first_message_type os of None \<Rightarrow> PNone | Some v \<Rightarrow> raw_value v)"
    "\<not> is_int 5 (case first_message_type os of None \<Rightarrow> PNone | Some v \<Rightarrow> raw_value v)"
    by (cases "first_message_type os"; simp add: is_int_raw; simp add: is_int_def)+
  then show ?thesis using that v t by metis
qed

text \<open>The sightings of the protocol hold the fields of such packets.\<close>

definition recorded :: "as_env \<Rightarrow> (dhcp_val \<Rightarrow> ustr) \<Rightarrow> sighting_row \<Rightarrow> bool" where
  "recorded env sv ob \<longleftrightarrow> (\<exists>p c. properly_sent p \<and> classify_dhcp sv p = Some c \<and> protocol c = ''dhcpv4'' \<and>
     ae_json env (ob_raw ob) = Some (PDict (cp_fields c)))"

lemma recorded_no_server: "recorded env sv ob \<Longrightarrow> server_step env ob t = Inr t"
proof -
  assume "recorded env sv ob"
  then obtain p c where pc: "properly_sent p" "classify_dhcp sv p = Some c" "protocol c = ''dhcpv4''"
    "ae_json env (ob_raw ob) = Some (PDict (cp_fields c))" by (auto simp: recorded_def)
  from client_packet_type [OF pc(1-3)] pc(4) show "server_step env ob t = Inr t"
    by (auto simp: server_step_def parse_raw_data_def raw_get_def Let_def)
qed

lemma fold_res_idle: "(\<And>x. x \<in> set xs \<Longrightarrow> f x s = Inr s) \<Longrightarrow> fold_res f xs s = Inr s"
  by (induction xs) auto

section \<open>Properties\<close>

text \<open>C12: every chain in a report rests on a finding of medium or higher severity of the same report, which is one
  of its prerequisites and carries its identifier.\<close>

theorem chain_has_trigger:
  assumes "c \<in> set (ar_chains (analyze_context env cx))"
  shows "\<exists>f\<in>set (ar_findings (analyze_context env cx)).
    x_rule f \<in> set (ac_prereqs c) \<and> severity_rank (x_severity f) \<ge> severity_rank Medium \<and> ac_id c \<in> set (x_chains f)"
proof -
  let ?fs = "marked env cx" and ?cs = "build_chains (marked env cx) cx"
  have c: "c \<in> set ?cs" using assms by (simp add: analyze_parts)
  then obtain d where d: "d \<in> set CHAIN_DEFINITIONS" "ac_prereqs c = cd_prereqs d" "chain_matches (rule_ids (actionable ?fs)) d"
    by (elim built_from)
  then obtain r where r: "r \<in> set (ac_prereqs c)" "r \<in> rule_ids (actionable ?fs)"
    using chain_match_some chain_prereqs by metis
  then obtain f where f: "f \<in> set ?fs" "x_rule f = r" "severity_rank (x_severity f) \<ge> severity_rank Medium"
    by (auto simp: rule_ids_def actionable_def)
  let ?g = "foldl (\<lambda>f c. tag_finding c f) f ?cs"
  have "?g \<in> set (ar_findings (analyze_context env cx))" using f(1) by (simp add: analyze_parts tag_findings_def)
  moreover have "ac_id c \<in> set (x_chains ?g)" using tags_add [OF c, of f] r(1) f(2) by simp
  ultimately show ?thesis using f r by (metis tags_simps)
qed

text \<open>the chain of DHCPv6 and WPAD is never built: it asks for an actionable finding of a rule that only gives
  findings of the severity INFO.\<close>

theorem dhcpv6_chain_never_built:
  "\<not> list_ex (\<lambda>c. ac_id c = ''CHAIN-007'') (ar_chains (analyze_context env cx))"
proof
  assume "list_ex (\<lambda>c. ac_id c = ''CHAIN-007'') (ar_chains (analyze_context env cx))"
  then obtain c where c: "c \<in> set (ar_chains (analyze_context env cx))" "ac_id c = ''CHAIN-007''" by (auto simp: list_ex_iff)
  have "CHAIN_007 \<in> set CHAIN_DEFINITIONS" "cd_id CHAIN_007 = ac_id c" "cd_mode CHAIN_007 = ''custom''" "hd (cd_prereqs CHAIN_007) = ''DH-004''"
    using c(2) by (simp_all add: CHAIN_DEFINITIONS_def CHAIN_007_def)
  then obtain f where f: "f \<in> set (all_findings env cx)" "x_rule f = ''DH-004''" "severity_rank (x_severity f) \<ge> severity_rank Medium"
    using custom_needs_first [OF c(1)] by metis
  have "(''DH-004'', dhcpv6_rule) \<in> set passive_table" by (simp add: passive_table_def)
  then have "f \<in> set (kept (dhcpv6_rule env cx))" using from_rule [OF f(1)] f(2) by simp
  then show False using f(3) by (auto simp: dhcpv6_rule_def Let_def split: if_splits)
qed

text \<open>an exclusion only marks findings: whatever is excluded, the same chains are built and the same findings
  counted.\<close>

theorem exclusions_keep_chains:
  "map ac_id (ar_chains (analyze_context env (cx\<lparr>cx_exclusions := ex\<rparr>))) = map ac_id (ar_chains (analyze_context env cx)) \<and>
   ar_total (analyze_context env (cx\<lparr>cx_exclusions := ex\<rparr>)) = ar_total (analyze_context env cx) \<and>
   ar_by_severity (analyze_context env (cx\<lparr>cx_exclusions := ex\<rparr>)) = ar_by_severity (analyze_context env cx)"
proof -
  let ?cx = "cx\<lparr>cx_exclusions := ex\<rparr>"
  have ids: "rule_ids (marked env ?cx) = rule_ids (marked env cx)" "rule_ids (actionable (marked env ?cx)) = rule_ids (actionable (marked env cx))"
    by (simp_all add: marked_def findings_ignore_exclusions marked_columns)
  then have envs: "detect_environments (marked env ?cx) ?cx = detect_environments (marked env cx) cx"
    by (simp add: detect_environments_def)
  have tags: "map x_severity (tag_findings cs fs) = map x_severity fs" for cs fs by (simp add: tag_findings_def)
  have sev: "map x_severity (marked env ?cx) = map x_severity (marked env cx)" "length (marked env ?cx) = length (marked env cx)"
    by (simp_all add: marked_def findings_ignore_exclusions marked_columns)
  have "map ac_id (build_chains (marked env ?cx) ?cx) = map ac_id (build_chains (marked env cx) cx)"
    by (simp add: build_chains_def ids envs comp_def)
  moreover have "ar_total (analyze_context env y) = length (marked env y)"
    "ar_by_severity (analyze_context env y) = tally (map x_severity (marked env y))" for y
    by (simp_all add: analyze_context_def build_report_def marked_def Let_def tags) (simp_all add: tag_findings_def)
  ultimately show ?thesis by (simp add: analyze_parts sev)
qed

text \<open>on a tunnel no finding of layer 2 is reported, and no chain that needs one is built.\<close>

theorem tunnel_hides_layer2:
  assumes "cx_interface_type cx \<in> set TUNNELS"
  shows "\<not> list_ex (\<lambda>f. starts_with ''L2-'' (x_rule f)) (ar_findings (analyze_context env cx)) \<and>
    \<not> list_ex (\<lambda>c. ac_id c \<in> {''CHAIN-002'', ''CHAIN-008'', ''CHAIN-010''}) (ar_chains (analyze_context env cx))"
proof -
  have no: "\<not> starts_with ''L2-'' r" if "r \<in> rule_ids (marked env cx)" for r
    using that assms unfolding marked_def marked_columns(5) by (auto simp: rule_ids_def visible_findings_def)
  have "\<not> list_ex (\<lambda>f. starts_with ''L2-'' (x_rule f)) (ar_findings (analyze_context env cx))"
    using no by (auto simp: analyze_parts tag_findings_def list_ex_iff rule_ids_def)
  moreover have "ac_id c \<notin> {''CHAIN-002'', ''CHAIN-008'', ''CHAIN-010''}" if c: "c \<in> set (ar_chains (analyze_context env cx))" for c
  proof
    assume i: "ac_id c \<in> {''CHAIN-002'', ''CHAIN-008'', ''CHAIN-010''}"
    obtain d where d: "d \<in> set CHAIN_DEFINITIONS" "ac_id c = cd_id d" "chain_matches (rule_ids (actionable (marked env cx))) d"
      using c by (auto simp: analyze_parts elim: built_from)
    have "d \<in> {CHAIN_002, CHAIN_008, CHAIN_010}"
      using d(1,2) i by (auto simp: CHAIN_DEFINITIONS_def CHAIN_001_def CHAIN_003_def CHAIN_004_def CHAIN_005_def CHAIN_006_def
          CHAIN_007_def CHAIN_009_def)
    then obtain r where "r \<in> rule_ids (actionable (marked env cx))" "starts_with ''L2-'' r"
      using d(3) by (auto simp: CHAIN_002_def CHAIN_008_def CHAIN_010_def chain_matches_def)
    then show False using no by (auto simp: rule_ids_def actionable_def)
  qed
  ultimately show ?thesis by (auto simp: list_ex_iff)
qed


section \<open>Samples\<close>

text \<open>A request of a client, its sighting, and a WPAD query; texts stand for what they decode to.\<close>

definition sample_request :: dhcp_packet where
  "sample_request = \<lparr>dp_src = ''02:00:00:00:00:04'', dp_options = Some [Opt ''message-type'' (DInt 3), Marker ''end''],
     dp_chaddr = [2, 0, 0, 0, 0, 4], dp_yiaddr = NO_IP, dp_ciaddr = NO_IP, dp_siaddr = NO_IP, dp_ip_src = Some ''192.168.1.20'', dp_bytes = []\<rparr>"

definition sample_decoder :: "(ustr \<Rightarrow> pyval option) \<Rightarrow> as_env" where
  "sample_decoder js = \<lparr>ae_json = js, ae_str = (\<lambda>_. []), ae_order = (\<lambda>vs. vs)\<rparr>"

definition sample_json :: "ustr \<Rightarrow> pyval option" where
  "sample_json t =
     (if t = lit ''request'' then map_option (\<lambda>c. PDict (cp_fields c)) (classify_dhcp (\<lambda>_. []) sample_request)
      else if t = lit ''wpad'' then Some (PDict [(''query_name'', pstr ''wpad'')])
      else if t = lit ''dtp'' then Some (PDict [(''negotiating'', PBool True)]) else None)"

definition sample_context :: "string \<Rightarrow> analysis_context" where
  "sample_context kind = \<lparr>cx_devices = [],
     cx_observations = [\<lparr>ob_mac = lit ''02:00:00:00:00:04'', ob_type = ''dhcpv4'', ob_raw = lit ''request''\<rparr>,
       \<lparr>ob_mac = lit ''02:00:00:00:00:04'', ob_type = ''dns'', ob_raw = lit ''wpad''\<rparr>,
       \<lparr>ob_mac = lit ''02:00:00:00:00:05'', ob_type = ''dtp'', ob_raw = lit ''dtp''\<rparr>],
     cx_services = [], cx_anomalies = [], cx_interface = lit ''eth0'', cx_interface_type = kind, cx_gateway = None, cx_domain = None,
     cx_attacker = None, cx_dc = None, cx_exclusions = []\<rparr>"

theorem tunnel_hides_layer2_witness:
  "\<not> list_ex (\<lambda>f. starts_with ''L2-'' (x_rule f)) (ar_findings (analyze_context (sample_decoder sample_json) (sample_context ''vpn'')))"
  using tunnel_hides_layer2 [of "sample_context ''vpn''" "sample_decoder sample_json"] by (simp add: sample_context_def TUNNELS_def)


lemma sample_chain:
  "\<exists>c\<in>set (ar_chains (analyze_context (sample_decoder sample_json) (sample_context ''local''))). ac_id c = ''CHAIN-002'' \<and> ac_prereqs c = [''L2-007'']"
proof -
  let ?env = "sample_decoder sample_json" and ?cx = "sample_context ''local''"
  obtain ds ev where r: "dtp_rule ?env ?cx = Inr [finding_of L2_007 High ds ev]"
    by (simp add: dtp_rule_def observed_def sample_context_def dtp_step_def parse_raw_data_def sample_decoder_def sample_json_def
        raw_get_def get_or_def py_truthy_def lit_eq_iff)
  have "finding_of L2_007 High ds ev \<in> set (all_findings ?env ?cx)"
    using r by (auto simp: all_findings_def passive_rules_def)
  moreover have "\<not> is_excluded ?cx f" for f
    by (simp add: is_excluded_def excluded_values_def sample_context_def list_ex_iff)
  moreover have "visible_findings ?env ?cx = all_findings ?env ?cx"
    by (simp add: visible_findings_def TUNNELS_def) (simp add: sample_context_def)
  ultimately have "finding_of L2_007 High ds ev \<in> set (marked ?env ?cx)"
    by (simp add: marked_def apply_exclusions_def)
  then have "''L2-007'' \<in> rule_ids (actionable (marked ?env ?cx))"
    by (force simp: rule_ids_def actionable_def L2_007_def image_iff)
  then show ?thesis
    by (auto simp: analyze_parts build_chains_def CHAIN_DEFINITIONS_def CHAIN_002_def feasible_def chain_matches_def)
qed

theorem chain_has_trigger_witness:
  "\<exists>f\<in>set (ar_findings (analyze_context (sample_decoder sample_json) (sample_context ''local''))).
     x_rule f = ''L2-007'' \<and> ''CHAIN-002'' \<in> set (x_chains f)"
proof -
  obtain c where "c \<in> set (ar_chains (analyze_context (sample_decoder sample_json) (sample_context ''local'')))"
    "ac_id c = ''CHAIN-002''" "ac_prereqs c = [''L2-007'']"
    using sample_chain by blast
  from chain_has_trigger [OF this(1)] this(2,3) show ?thesis by auto
qed

end
