(* ===== verification/Application.thy ===== *)
theory Application
  imports Pipeline Spoofing Auth DeviceTypes
begin

text \<open>
  The orchestrator of \<open>app.py\<close>: the event queues of its subscribers, the thread that takes packets
  from the capture queue through the pipeline and the security checks, the periodic analysis and the admin
  token.  The application owns two address verifiers: the one the web interface updates
  (\<open>app_verifier\<close>) and the one of the packet thread (\<open>thread_verifier\<close>), both over the same
  database.  Times are microseconds, monotonic times rationals.  Events scheduled on the main loop are
  delivered in the order they are scheduled.
\<close>

section \<open>Subscribers\<close>

datatype event =
  DeviceUpdate captured_packet "verdict option"
| DeviceDiscovered mac host
| FindingCreated finding

text \<open>\<open>asyncio.Queue(maxsize=500)\<close>: \<open>put_nowait\<close> raises \<open>QueueFull\<close>, None here.\<close>

definition QUEUE_SIZE :: nat where
  "QUEUE_SIZE = 500"

definition put_nowait :: "'e \<Rightarrow> 'e list \<Rightarrow> 'e list option" where
  "put_nowait e q = (if length q < QUEUE_SIZE then Some (q @ [e]) else None)"

definition get_nowait :: "'e list \<Rightarrow> 'e list" where
  "get_nowait q = tl q"

definition safe_enqueue :: "'e \<Rightarrow> 'e list \<Rightarrow> 'e list" where
  "safe_enqueue e q = (case put_nowait e q of Some q' \<Rightarrow> q'
     | None \<Rightarrow> (let q = get_nowait q in case put_nowait e q of Some q' \<Rightarrow> q' | None \<Rightarrow> q))"

text \<open>The loop of \<open>_broadcast_finding\<close> and \<open>_on_verdict_event\<close>: a subscriber whose queue is
  still full after its oldest event is dropped is removed.\<close>

definition accepts :: "'e \<Rightarrow> 'e list \<Rightarrow> bool" where
  "accepts e q \<longleftrightarrow> put_nowait e q \<noteq> None \<or> put_nowait e (get_nowait q) \<noteq> None"

definition broadcast :: "'e \<Rightarrow> (nat \<times> 'e list) list \<Rightarrow> (nat \<times> 'e list) list" where
  "broadcast e subs = map (\<lambda>(i, q). (i, safe_enqueue e q)) (filter (\<lambda>(i, q). accepts e q) subs)"

text \<open>\<open>_push_event\<close>, \<open>_broadcast_finding_threadsafe\<close> and \<open>_on_new_host_discovered\<close>: nobody is
  removed.\<close>

definition push_all :: "'e \<Rightarrow> (nat \<times> 'e list) list \<Rightarrow> (nat \<times> 'e list) list" where
  "push_all e subs = map (\<lambda>(i, q). (i, safe_enqueue e q)) subs"

section \<open>State\<close>

record app =
  app_pipe :: pipe
  app_tables :: tables
  app_verifier :: verifier
  thread_verifier :: verifier
  app_subs :: "(nat \<times> event list) list"
  app_next_sub :: nat
  local_macs :: "mac list"
  processed :: nat
  failures :: nat

abbreviation app_store :: "app \<Rightarrow> store" where
  "app_store a \<equiv> p_store (app_pipe a)"

definition set_store :: "store \<Rightarrow> app \<Rightarrow> app" where
  "set_store s a = a\<lparr>app_pipe := (app_pipe a)\<lparr>p_store := s\<rparr>\<rparr>"

text \<open>What a start makes of the stored tables: both verifiers read the bindings and the suppression
  rules.\<close>

definition start_app :: "store \<Rightarrow> tables \<Rightarrow> app" where
  "start_app s t = \<lparr>app_pipe = pipe0\<lparr>p_store := s\<rparr>, app_tables = t, app_verifier = prepare_verifier t new_verifier,
     thread_verifier = prepare_verifier t new_verifier, app_subs = [], app_next_sub = 0, local_macs = [],
     processed = 0, failures = 0\<rparr>"

definition subscribe :: "app \<Rightarrow> app \<times> nat" where
  "subscribe a = (a\<lparr>app_subs := app_subs a @ [(app_next_sub a, [])], app_next_sub := Suc (app_next_sub a)\<rparr>, app_next_sub a)"

definition unsubscribe :: "nat \<Rightarrow> app \<Rightarrow> app" where
  "unsubscribe i a = a\<lparr>app_subs := filter (\<lambda>(j, q). j \<noteq> i) (app_subs a)\<rparr>"

text \<open>\<open>_detect_local_macs\<close> on the detected interfaces (name and address) and the captured ones;
  \<open>is_local_device\<close>.\<close>

definition detect_local_macs :: "(string \<times> mac) list \<Rightarrow> string list \<Rightarrow> app \<Rightarrow> app" where
  "detect_local_macs detected captured_names a =
     a\<lparr>local_macs := local_macs a @ map (\<lambda>(n, m). upper_s m)
        (filter (\<lambda>(n, m). n \<in> set captured_names \<and> m \<noteq> []) detected)\<rparr>"

definition is_local_device :: "app \<Rightarrow> mac \<Rightarrow> bool" where
  "is_local_device a m \<longleftrightarrow> upper_s m \<in> set (local_macs a)"

section \<open>Security alerts as findings\<close>

text \<open>\<open>FindingRule(value)\<close>.\<close>

definition FINDING_RULES :: "(string \<times> FindingRule) list" where
  "FINDING_RULES =
    [(''new_host'', NEW_HOST), (''platform_drift'', PLATFORM_DRIFT), (''addr_conflict'', ADDR_CONFLICT),
     (''low_certainty'', LOW_CERTAINTY), (''stale_source'', STALE_SOURCE), (''randomized_addr'', RANDOMIZED_ADDR),
     (''dhcp_anomaly'', DHCP_ANOMALY), (''identity_shift'', IDENTITY_SHIFT), (''behavioral_drift'', BEHAVIORAL_DRIFT),
     (''oui_mismatch'', OUI_MISMATCH), (''fingerprint_drift'', FINGERPRINT_DRIFT), (''mac_spoofing'', MAC_SPOOFING),
     (''arp_spoofing'', ARP_SPOOFING), (''gateway_impersonation'', GATEWAY_IMPERSONATION),
     (''sensor_connect'', SENSOR_CONNECT), (''sensor_disconnect'', SENSOR_DISCONNECT),
     (''device_went_offline'', DEVICE_WENT_OFFLINE), (''device_came_online'', DEVICE_CAME_ONLINE)]"

text \<open>\<open>_resolve_finding_rule\<close>, and the map of alert types both callers pass.\<close>

definition ALERT_RULES :: "(AlertType \<times> FindingRule) list" where
  "ALERT_RULES = [(SPOOFING, IDENTITY_SHIFT), (MAC_SPOOFED, MAC_SPOOFING)]"

definition resolve_finding_rule :: "(AlertType \<times> FindingRule) list \<Rightarrow> alert \<Rightarrow> FindingRule" where
  "resolve_finding_rule fallback al =
     (let other = (case dict_get fallback (al_type al) of Some r \<Rightarrow> r | None \<Rightarrow> IDENTITY_SHIFT)
      in case al_rule al of
           None \<Rightarrow> other
         | Some hint \<Rightarrow> if hint = [] then other
             else case dict_get FINDING_RULES hint of Some r \<Rightarrow> r | None \<Rightarrow> other)"

definition alert_finding :: "int \<Rightarrow> alert \<Rightarrow> finding" where
  "alert_finding now al =
     new_finding now (al_mac al) (resolve_finding_rule ALERT_RULES al) (al_severity al) (al_message al)"

text \<open>\<open>store.findings.add\<close> and \<open>_broadcast_finding_threadsafe\<close>, for every alert in order.\<close>

definition report :: "finding \<Rightarrow> app \<Rightarrow> app" where
  "report f a = (set_store (fst (add_finding f (app_store a))) a)\<lparr>app_subs := push_all (FindingCreated f) (app_subs a)\<rparr>"

definition report_alerts :: "int \<Rightarrow> alert list \<Rightarrow> app \<Rightarrow> app" where
  "report_alerts now als a = foldl (\<lambda>a al. report (alert_finding now al) a) a als"

section \<open>The packet thread\<close>

text \<open>\<open>_run_arp_security\<close>.  The operation is only compared with 2.\<close>

definition arp_oper :: "captured_packet \<Rightarrow> int" where
  "arp_oper p = (if cp_get p ''op'' (PInt 0) \<in> {PInt 2, PFloat 2} then 2 else 0)"

definition given_or :: "string option \<Rightarrow> string \<Rightarrow> string" where
  "given_or v d = (if truthy_s v then the v else d)"

definition run_arp_security :: "int \<Rightarrow> rat \<Rightarrow> captured_packet \<Rightarrow> app \<Rightarrow> app" where
  "run_arp_security now mt p a =
     (let (als, t, v) = inspect_arp now mt (app_store a) (hw_addr p) (ip_addr p) (given_or (target_ip p) []) (arp_oper p)
            (given_or (cp_interface p) ''unknown'') (app_tables a, thread_verifier a)
      in report_alerts now als (a\<lparr>app_tables := t, thread_verifier := v\<rparr>))"

text \<open>\<open>_run_device_security\<close>: the device as the host row and the verdict describe it.\<close>

definition verdict_device :: "int \<Rightarrow> host \<Rightarrow> verdict \<Rightarrow> mac \<Rightarrow> device" where
  "verdict_device now h v m = (new_device m now now)\<lparr>d_ip_v4 := h_ip_addr h, d_ip_v6 := h_ip_v6 h,
     d_manufacturer := v_vendor v, d_device_type := v_category v, d_os_family := v_platform v,
     d_os_version := v_platform_version v, d_hostname := v_hostname v, d_confidence := v_certainty v,
     d_is_randomized_mac := h_mac_randomized h\<rparr>"

definition run_device_security :: "int \<Rightarrow> rat \<Rightarrow> mac \<Rightarrow> verdict \<Rightarrow> app \<Rightarrow> app" where
  "run_device_security now mt m v a =
     (case find_host m (app_store a) of
        None \<Rightarrow> a
      | Some h \<Rightarrow>
          (let (als, t, w) = device_update_repo now mt (app_store a) (verdict_device now h v m)
                 (dict_get (oui_vendors (app_pipe a)) m) (app_tables a, thread_verifier a)
           in report_alerts now als (a\<lparr>app_tables := t, thread_verifier := w\<rparr>)))"

text \<open>The gateway learning at the end of the loop.  Options that are not a dictionary raise before, in
  the pipeline.\<close>

definition learn_dhcp_server :: "int \<Rightarrow> captured_packet \<Rightarrow> app \<Rightarrow> app" where
  "learn_dhcp_server now p a =
     (if protocol p \<noteq> ''dhcpv4'' then a
      else case cp_get p ''raw_options'' (PDict []) of
        PDict opts \<Rightarrow>
          if get_or opts ''message-type'' PNone \<in> {PInt 2, PInt 5, PFloat 2, PFloat 5} \<and> ip_addr p \<noteq> [] then
            let (t, v) = learn_binding now (hw_addr p) (ip_addr p) ''dhcp_server'' (given_or (cp_interface p) [])
                  (app_tables a, thread_verifier a)
            in a\<lparr>app_tables := t, thread_verifier := v\<rparr>
          else a
      | _ \<Rightarrow> a)"

text \<open>The sighting the pipeline records goes to the table; its other effects have no receiver in the
  thread.\<close>

definition record_effect :: "int \<Rightarrow> tables \<Rightarrow> effect \<Rightarrow> tables" where
  "record_effect now t e = (case e of
     SightingRecorded m src n c i net \<Rightarrow> record_sighting \<lparr>sg_hw_addr = m, sg_source = src, sg_certainty = c,
       sg_interface = i, sg_network = net, sg_timestamp = now\<rparr> t
   | _ \<Rightarrow> t)"

text \<open>After the pipeline: the event, then the security checks.\<close>

definition after_pipeline :: "int \<Rightarrow> rat \<Rightarrow> captured_packet \<Rightarrow> app \<Rightarrow> app" where
  "after_pipeline now mt p a =
     (let found = find_verdict (hw_addr p) (app_store a);
          a = a\<lparr>app_subs := push_all (DeviceUpdate p found) (app_subs a)\<rparr>;
          a = (if protocol p = ''arp'' then run_arp_security now mt p a else a);
          a = (case found of None \<Rightarrow> a
               | Some v \<Rightarrow> if 0 < v_certainty v then run_device_security now mt (hw_addr p) v a else a)
      in learn_dhcp_server now p a)"

text \<open>One turn of \<open>_process_thread\<close>; an exception of the pipeline ends it after the writes that
  were made.\<close>

definition process_packet ::
    "(pyval \<Rightarrow> ustr) \<Rightarrow> pipe_env \<Rightarrow> int \<Rightarrow> rat \<Rightarrow> captured_packet \<Rightarrow> app \<Rightarrow> app" where
  "process_packet render env now mt p a =
     (let ((st, effs), err) = process render (env\<lparr>local_mac := is_local_device a\<rparr>) now mt p (app_pipe a);
          a = a\<lparr>app_pipe := st, app_tables := foldl (record_effect now) (app_tables a) effs\<rparr>
      in case err of
           Some _ \<Rightarrow> a\<lparr>failures := Suc (failures a)\<rparr>
         | None \<Rightarrow> after_pipeline now mt p (a\<lparr>processed := Suc (processed a)\<rparr>))"

definition process_packets ::
    "(pyval \<Rightarrow> ustr) \<Rightarrow> pipe_env \<Rightarrow> (int \<times> rat \<times> captured_packet) list \<Rightarrow> app \<Rightarrow> app" where
  "process_packets render env ps a = foldl (\<lambda>a (now, mt, p). process_packet render env now mt p a) a ps"

section \<open>Periodic analysis\<close>

text \<open>\<open>LIKE\<close> of SQLite: a percent sign stands for any text, an underscore for one character, and
  the case of ASCII letters does not count.\<close>

definition fold_ascii :: "nat \<Rightarrow> nat" where
  "fold_ascii c = (if 65 \<le> c \<and> c \<le> 90 then c + 32 else c)"

fun like_match :: "ustr \<Rightarrow> ustr \<Rightarrow> bool" where
  "like_match [] t \<longleftrightarrow> t = []"
| "like_match (c # p) t \<longleftrightarrow>
     (if c = 37 then like_match p t \<or> (case t of [] \<Rightarrow> False | _ # t' \<Rightarrow> like_match (c # p) t')
      else case t of [] \<Rightarrow> False | x # t' \<Rightarrow> (c = 95 \<or> fold_ascii x = fold_ascii c) \<and> like_match p t')"

definition message_like :: "string \<Rightarrow> finding \<Rightarrow> bool" where
  "message_like part f \<longleftrightarrow> like_match ([37] @ lit part @ [37]) (f_message f)"

text \<open>\<open>_check_stale_sources\<close> on the files of the data directory (name and modification time in
  seconds).\<close>

definition is_json :: "string \<Rightarrow> bool" where
  "is_json n \<longleftrightarrow> 5 < length n \<and> drop (length n - 5) n = ''.json''"

definition stale_reported :: "string \<Rightarrow> store \<Rightarrow> bool" where
  "stale_reported n s \<longleftrightarrow> list_ex (\<lambda>f. f_rule f = STALE_SOURCE \<and> \<not> f_resolved f \<and> message_like n f) (s_findings s)"

definition stale_message :: "string \<Rightarrow> int \<Rightarrow> int \<Rightarrow> ustr" where
  "stale_message n days max_days = lit ''Fingerprint source '' @ lit n @ lit '' is '' @ str_int days @
     lit '' days old (threshold: '' @ str_int max_days @ lit ''d). Run 'leetha sync' to update.''"

definition check_source :: "int \<Rightarrow> rat \<Rightarrow> int \<Rightarrow> app \<Rightarrow> string \<times> rat \<Rightarrow> app" where
  "check_source now clock max_days a = (\<lambda>(n, mtime).
     (if is_json n \<and> of_int (max_days * 86400) < clock - mtime \<and> \<not> stale_reported n (app_store a)
      then let f = new_finding now ''00:00:00:00:00:00'' STALE_SOURCE WARNING
                 (stale_message n \<lfloor>(clock - mtime) / 86400\<rfloor> max_days)
           in (set_store (fst (add_finding f (app_store a))) a)\<lparr>app_subs := broadcast (FindingCreated f) (app_subs a)\<rparr>
      else a))"

definition check_stale_sources :: "int \<Rightarrow> rat \<Rightarrow> int \<Rightarrow> (string \<times> rat) list \<Rightarrow> app \<Rightarrow> app" where
  "check_stale_sources now clock sync_interval_days files a =
     foldl (check_source now clock (sync_interval_days * 4)) a files"

text \<open>\<open>_check_infra_offline\<close>.\<close>

definition OFFLINE_LIMIT :: int where
  "OFFLINE_LIMIT = 5 * 60 * 1000000"

definition offline_reported :: "mac \<Rightarrow> store \<Rightarrow> bool" where
  "offline_reported m s \<longleftrightarrow>
     list_ex (\<lambda>f. f_hw_addr f = m \<and> \<not> f_resolved f \<and> message_like ''offline'' f) (s_findings s)"

definition GATEWAY_TYPES :: "ustr list" where
  "GATEWAY_TYPES = map lit [''router'', ''gateway'', ''firewall'']"

definition verdict_label :: "verdict \<Rightarrow> ustr" where
  "verdict_label v = (if truthy (v_hostname v) then the (v_hostname v)
     else if truthy (v_vendor v) then the (v_vendor v) else lit (v_hw_addr v))"

definition offline_finding :: "int \<Rightarrow> verdict \<Rightarrow> host \<Rightarrow> finding" where
  "offline_finding now v h =
     (let gw = normalize_device_type (v_category v) \<in> set GATEWAY_TYPES
      in new_finding now (v_hw_addr v) DEVICE_WENT_OFFLINE (if gw then CRITICAL else WARNING)
           (lit (if gw then ''Gateway'' else ''Infrastructure device'') @ lit '' offline: '' @ verdict_label v @
            lit '' ('' @ lit (v_hw_addr v) @ lit '')'' @ DASH @ lit ''last seen '' @
            str_int ((now - h_last_active h) div 60000000) @ lit '' minutes ago''))"

text \<open>Which verdicts the pass reports, one after the other.\<close>

definition went_offline :: "int \<Rightarrow> store \<Rightarrow> verdict \<Rightarrow> host option" where
  "went_offline now s v =
     (if \<not> truthy (v_category v) \<or> normalize_device_type (v_category v) \<notin> set INFRA_TYPES_TOPO then None
      else case find_host (v_hw_addr v) s of
        None \<Rightarrow> None
      | Some h \<Rightarrow> if h_disposition h = ''self'' \<or> now - OFFLINE_LIMIT \<le> h_last_active h \<or> offline_reported (v_hw_addr v) s
                  then None else Some h)"

definition check_offline :: "int \<Rightarrow> app \<Rightarrow> verdict \<Rightarrow> app" where
  "check_offline now a v = (case went_offline now (app_store a) v of
     None \<Rightarrow> a
   | Some h \<Rightarrow> let f = offline_finding now v h
       in (set_store (fst (add_finding f (app_store a))) a)\<lparr>app_subs := broadcast (FindingCreated f) (app_subs a)\<rparr>)"

definition check_infra_offline :: "int \<Rightarrow> app \<Rightarrow> app" where
  "check_infra_offline now a = foldl (check_offline now) a (find_all_verdicts 1000 (app_store a))"

text \<open>\<open>_prune_sightings\<close>: the time stamps are compared as texts.\<close>

definition prune_old_sightings :: "int \<Rightarrow> int \<Rightarrow> tables \<Rightarrow> tables" where
  "prune_old_sightings now retention_days t = t\<lparr>t_sightings :=
     filter (\<lambda>s. \<not> iso_before_sqlite (sg_timestamp s) (now - retention_days * 86400000000)) (t_sightings t)\<rparr>"

text \<open>A turn of \<open>_analysis_loop\<close>; metrics and checkpoints of the database file are left out.\<close>

definition analysis_cycle :: "int \<Rightarrow> rat \<Rightarrow> int \<Rightarrow> (string \<times> rat) list \<Rightarrow> nat \<Rightarrow> app \<Rightarrow> app" where
  "analysis_cycle now clock sync_days files cycle a =
     (let a = check_infra_offline now (check_stale_sources now clock sync_days files a)
      in if cycle mod 20 = 0
         then a\<lparr>app_tables := fst (snapshot_prune 50 (prune_old_sightings now 7 (app_tables a)))\<rparr>
         else a)"

text \<open>\<open>_reevaluate_unknown_devices\<close>.\<close>

definition reevaluate :: "int \<Rightarrow> store \<Rightarrow> verdict \<Rightarrow> store" where
  "reevaluate now s v = (let w = compute now (v_hw_addr v) (evidence_chain v)
     in if v_certainty w \<noteq> v_certainty v then verdicts_upsert w s else s)"

definition reevaluate_unknown_devices :: "int \<Rightarrow> store \<Rightarrow> store" where
  "reevaluate_unknown_devices now s =
     foldl (reevaluate now) s (filter (\<lambda>v. v_certainty v < 50) (find_all_verdicts 1000 s))"

section \<open>DHCP irregularities\<close>

text \<open>\<open>_write_dhcp_anomaly_findings\<close> on records with the keys \<open>src_mac\<close>, \<open>option\<close> and
  \<open>reason\<close>.\<close>

definition report_irregularity :: "int \<Rightarrow> app \<Rightarrow> mac \<times> ustr \<times> ustr \<Rightarrow> app" where
  "report_irregularity now a = (\<lambda>(m, opt, reason).
     let f = new_finding now m DHCP_ANOMALY WARNING
           (lit ''DHCP anomaly on option '' @ [39] @ opt @ [39] @ lit '': '' @ reason)
     in (set_store (fst (add_finding f (app_store a))) a)\<lparr>app_subs := broadcast (FindingCreated f) (app_subs a)\<rparr>)"

section \<open>The admin token\<close>

text \<open>\<open>_read_token_file\<close> on the content of the file; \<open>load_admin_token\<close> on the primary and the
  old location; \<open>save_admin_token\<close> writes the primary one.\<close>

definition read_token_file :: "ustr option \<Rightarrow> ustr option" where
  "read_token_file content = (case content of None \<Rightarrow> None
     | Some c \<Rightarrow> if strip c = [] then None else Some (strip c))"

definition load_admin_token :: "ustr option \<Rightarrow> ustr option \<Rightarrow> ustr option" where
  "load_admin_token primary old = (case read_token_file primary of Some k \<Rightarrow> Some k | None \<Rightarrow> read_token_file old)"

definition save_admin_token :: "ustr \<Rightarrow> ustr option" where
  "save_admin_token raw = Some (raw @ [10])"

text \<open>\<open>_restore_admin_token\<close>: the tables and the primary file.  \<open>fresh\<close> is the generated token;
  a taken hash raises and ends the attempt.\<close>

definition restore_admin_token ::
    "(ustr \<Rightarrow> string) \<Rightarrow> ustr \<Rightarrow> int \<Rightarrow> ustr option \<Rightarrow> tables \<times> ustr option \<Rightarrow> tables \<times> ustr option" where
  "restore_admin_token hash fresh now old = (\<lambda>(t, primary).
     (if 0 < count_active_admin_tokens t then (t, primary)
      else case load_admin_token primary old of
        Some raw \<Rightarrow> (case create_auth_token now (hash raw) ''admin'' (Some (lit ''restored-from-file'')) t of
            Inl _ \<Rightarrow> (t, primary) | Inr (t, i) \<Rightarrow> (t, primary))
      | None \<Rightarrow> (case create_auth_token now (hash fresh) ''admin'' (Some (lit ''auto-generated'')) t of
            Inl _ \<Rightarrow> (t, primary) | Inr (t, i) \<Rightarrow> (t, save_admin_token fresh))))"

section \<open>Probe results and trusted bindings\<close>

text \<open>\<open>_probe_result_callback\<close>: the evidence of a probe match.\<close>

definition probe_evidence :: "int \<Rightarrow> ustr \<Rightarrow> fp_match \<Rightarrow> evidence" where
  "probe_evidence now shown m =
     \<lparr>ev_source = ''probe'', ev_method = ''active'', certainty = 85 / 100, category = fm_device_type m,
      vendor = fm_manufacturer m, platform = fm_os_family m, platform_version = fm_os_version m, model = fm_model m,
      hostname = None, ev_raw = [(''probe_result'', PStr shown)], observed_at = now\<rparr>"

definition probe_result_callback :: "int \<Rightarrow> mac \<Rightarrow> ustr \<Rightarrow> fp_match \<Rightarrow> pipe \<Rightarrow> pipe" where
  "probe_result_callback now m shown match st =
     (let evs = buffer_of m st @ [probe_evidence now shown match];
          st = st\<lparr>evidence_buffer := dict_set (evidence_buffer st) m evs\<rparr>
      in st\<lparr>p_store := verdicts_upsert (compute now m evs) (p_store st)\<rparr>)"

text \<open>\<open>POST /api/trust\<close> on the running application: the tables and the verifier of the web
  interface.\<close>

definition trust_binding :: "int \<Rightarrow> mac \<Rightarrow> string \<Rightarrow> app \<Rightarrow> app" where
  "trust_binding now m ip a =
     (let (code, t, v) = api_trust_add now m ip (app_tables a, app_verifier a)
      in a\<lparr>app_tables := t, app_verifier := v\<rparr>)"

end
