(* ===== verification/AppProps.thy ===== *)
theory AppProps
  imports Application PipelineProps SpoofingProps TopologyProps "HOL-Library.Sublist"
begin

text \<open>
  The application of \<open>Application\<close>: what its subscribers receive, which attacks the packet thread
  reports and which settings it does not see, how often missing infrastructure is reported, and when the
  start restores an admin token.
\<close>

section \<open>Queues\<close>

definition newest :: "'e list \<Rightarrow> 'e list" where
  "newest xs = drop (length xs - QUEUE_SIZE) xs"

definition sent :: "'e list \<Rightarrow> (nat \<times> 'e list) list \<Rightarrow> (nat \<times> 'e list) list" where
  "sent es subs = map (\<lambda>(i, q). (i, newest (q @ es))) subs"

definition bounded :: "(nat \<times> 'e list) list \<Rightarrow> bool" where
  "bounded subs \<longleftrightarrow> (\<forall>(i, q) \<in> set subs. length q \<le> QUEUE_SIZE)"

lemma queue_room: "0 < QUEUE_SIZE"
  by (simp add: QUEUE_SIZE_def)

lemma newest_short: "length xs \<le> QUEUE_SIZE \<Longrightarrow> newest xs = xs"
  by (simp add: newest_def)

lemma newest_length: "length (newest xs) \<le> QUEUE_SIZE"
  by (simp add: newest_def)

lemma newest_newest: "newest (newest xs @ ys) = newest (xs @ ys)"
  by (cases "length xs \<le> QUEUE_SIZE") (auto simp: newest_def add.commute)

lemma safe_enqueue_newest: "length q \<le> QUEUE_SIZE \<Longrightarrow> safe_enqueue e q = newest (q @ [e])"
  using queue_room by (cases q) (auto simp: safe_enqueue_def put_nowait_def get_nowait_def newest_def Let_def
    not_less le_antisym)

lemma accepts_bounded: "length q \<le> QUEUE_SIZE \<Longrightarrow> accepts e q"
  using queue_room by (cases q) (auto simp: accepts_def put_nowait_def get_nowait_def)

lemma push_all_sent: "bounded subs \<Longrightarrow> push_all e subs = sent [e] subs"
  by (auto simp: push_all_def sent_def bounded_def safe_enqueue_newest)

lemma broadcast_sent: "bounded subs \<Longrightarrow> broadcast e subs = sent [e] subs"
proof -
  assume b: "bounded subs"
  have "filter (\<lambda>(i, q). accepts e q) subs = subs"
    using b by (auto simp: bounded_def accepts_bounded filter_id_conv)
  then show ?thesis
    using push_all_sent [OF b, of e] by (simp add: broadcast_def push_all_def)
qed

lemma sent_bounded [simp]: "bounded (sent es subs)"
  by (auto simp: bounded_def sent_def newest_length)

lemma sent_sent [simp]: "sent es2 (sent es1 subs) = sent (es1 @ es2) subs"
  by (auto simp: sent_def newest_newest)

lemma sent_nothing: "bounded subs \<Longrightarrow> sent [] subs = subs"
  by (auto simp: sent_def bounded_def newest_short intro!: map_idI)

section \<open>What the steps of a packet send\<close>

definition updates :: "event list \<Rightarrow> captured_packet list" where
  "updates es = List.map_filter (\<lambda>e. case e of DeviceUpdate p v \<Rightarrow> Some p | _ \<Rightarrow> None) es"

lemma updates_simps [simp]:
  "updates [] = []" "updates (DeviceUpdate p v # es) = p # updates es" "updates (FindingCreated f # es) = updates es"
  "updates (es @ es') = updates es @ updates es'"
  by (simp_all add: updates_def map_filter_def)

lemma set_store_simps [simp]:
  "app_subs (set_store s a) = app_subs a" "app_tables (set_store s a) = app_tables a"
  "app_store (set_store s a) = s" "thread_verifier (set_store s a) = thread_verifier a"
  "processed (set_store s a) = processed a" "failures (set_store s a) = failures a"
  by (simp_all add: set_store_def)

lemma report_simps [simp]:
  "app_subs (report f a) = push_all (FindingCreated f) (app_subs a)" "app_tables (report f a) = app_tables a"
  "thread_verifier (report f a) = thread_verifier a" "processed (report f a) = processed a"
  "failures (report f a) = failures a" "app_store (report f a) = fst (add_finding f (app_store a))"
  by (simp_all add: report_def set_store_def)

lemma report_alerts_frame [simp]:
  "app_tables (report_alerts now als a) = app_tables a" "thread_verifier (report_alerts now als a) = thread_verifier a"
  "processed (report_alerts now als a) = processed a" "failures (report_alerts now als a) = failures a"
  by (induction als arbitrary: a) (simp_all add: report_alerts_def)

lemma report_alerts_sent:
  "bounded (app_subs a) \<Longrightarrow>
     app_subs (report_alerts now als a) = sent (map (\<lambda>al. FindingCreated (alert_finding now al)) als) (app_subs a)"
proof (induction als arbitrary: a)
  case Nil then show ?case by (simp add: report_alerts_def sent_nothing)
next
  case (Cons al als)
  from Cons.IH [of "report (alert_finding now al) a"] Cons.prems show ?case
    by (simp add: report_alerts_def push_all_sent)
qed

lemma updates_findings [simp]: "updates (map (\<lambda>al. FindingCreated (alert_finding now al)) als) = []"
  by (induction als) simp_all

text \<open>One step sends the same events to every subscriber and counts no packet.\<close>

definition sends :: "captured_packet list \<Rightarrow> app \<Rightarrow> app \<Rightarrow> bool" where
  "sends ps a b \<longleftrightarrow> processed b = processed a \<and> failures b = failures a \<and>
     (\<exists>es. app_subs b = sent es (app_subs a) \<and> updates es = ps)"

lemma sends_alerts:
  assumes "bounded (app_subs a)" "app_subs b = app_subs a" "processed b = processed a" "failures b = failures a"
  shows "sends [] a (report_alerts now als b)"
  using assms report_alerts_sent [of b now als] by (auto simp: sends_def)

lemma sends_refl: "bounded (app_subs a) \<Longrightarrow> sends [] a a"
  using sent_nothing [of "app_subs a"] by (auto simp: sends_def intro!: exI [of _ "[]"])

lemma sends_trans: "sends ps a b \<Longrightarrow> sends qs b c \<Longrightarrow> sends (ps @ qs) a c"
  unfolding sends_def by (metis sent_sent updates_simps(4))

lemma sends_bounded: "sends ps a b \<Longrightarrow> bounded (app_subs b)"
  by (auto simp: sends_def)

lemma arp_sends: "bounded (app_subs a) \<Longrightarrow> sends [] a (run_arp_security now mt p a)"
  by (auto simp: run_arp_security_def split_beta intro!: sends_alerts)

lemma device_sends: "bounded (app_subs a) \<Longrightarrow> sends [] a (run_device_security now mt m v a)"
  by (auto simp: run_device_security_def split_beta sends_refl intro!: sends_alerts split: option.split)

lemma learn_sends: "bounded (app_subs a) \<Longrightarrow> sends [] a (learn_dhcp_server now p a)"
proof -
  assume b: "bounded (app_subs a)"
  have "app_subs (learn_dhcp_server now p a) = app_subs a \<and> processed (learn_dhcp_server now p a) = processed a \<and>
      failures (learn_dhcp_server now p a) = failures a"
    by (simp add: learn_dhcp_server_def Let_def split_beta split: pyval.split)
  then show ?thesis
    using sent_nothing [OF b] by (auto simp: sends_def intro!: exI [of _ "[]"])
qed

lemma after_sends: "bounded (app_subs a) \<Longrightarrow> sends [p] a (after_pipeline now mt p a)"
proof -
  assume b: "bounded (app_subs a)"
  let ?a1 = "a\<lparr>app_subs := push_all (DeviceUpdate p (find_verdict (hw_addr p) (app_store a))) (app_subs a)\<rparr>"
  let ?a2 = "if protocol p = ''arp'' then run_arp_security now mt p ?a1 else ?a1"
  let ?a3 = "case find_verdict (hw_addr p) (app_store a) of None \<Rightarrow> ?a2
     | Some v \<Rightarrow> if 0 < v_certainty v then run_device_security now mt (hw_addr p) v ?a2 else ?a2"
  have s1: "sends [p] a ?a1"
    using b by (auto simp: sends_def push_all_sent)
  have s2: "sends [] ?a1 ?a2"
    using sends_bounded [OF s1] by (auto intro: arp_sends sends_refl)
  have s3: "sends [] ?a2 ?a3"
    using sends_bounded [OF s2] by (auto intro: device_sends sends_refl split: option.split)
  have "sends [] ?a3 (learn_dhcp_server now p ?a3)"
    by (rule learn_sends [OF sends_bounded [OF s3]])
  from sends_trans [OF sends_trans [OF sends_trans [OF s1 s2] s3] this]
  show ?thesis by (simp add: after_pipeline_def Let_def)
qed

text \<open>Over a run: the events, and the count of packets.\<close>

definition ran :: "captured_packet list \<Rightarrow> app \<Rightarrow> app \<Rightarrow> bool" where
  "ran ps a b \<longleftrightarrow> (\<exists>es. app_subs b = sent es (app_subs a) \<and> subseq (updates es) ps \<and>
     processed b = processed a + length (updates es) \<and>
     failures b = failures a + (length ps - length (updates es)))"

lemma process_ran: "bounded (app_subs a) \<Longrightarrow> ran [p] a (process_packet render env now mt p a)"
proof -
  assume b: "bounded (app_subs a)"
  obtain st effs err where x: "process render (env\<lparr>local_mac := is_local_device a\<rparr>) now mt p (app_pipe a) = ((st, effs), err)"
    by (metis prod.exhaust)
  let ?a = "a\<lparr>app_pipe := st, app_tables := foldl (record_effect now) (app_tables a) effs\<rparr>"
  show ?thesis
  proof (cases err)
    case (Some e)
    then have "process_packet render env now mt p a = ?a\<lparr>failures := Suc (failures a)\<rparr>"
      by (simp add: process_packet_def x)
    then show ?thesis
      using sent_nothing [OF b] by (auto simp: ran_def intro!: exI [of _ "[]"])
  next
    case None
    then have e: "process_packet render env now mt p a = after_pipeline now mt p (?a\<lparr>processed := Suc (processed a)\<rparr>)"
      by (simp add: process_packet_def x)
    have "sends [p] (?a\<lparr>processed := Suc (processed a)\<rparr>) (process_packet render env now mt p a)"
      unfolding e using b by (intro after_sends) simp
    then show ?thesis
      by (auto simp: sends_def ran_def)
  qed
qed

lemma ran_trans:
  assumes "ran ps a b" "ran qs b c" shows "ran (ps @ qs) a c"
proof -
  obtain es es' where x: "app_subs b = sent es (app_subs a)" "subseq (updates es) ps" "app_subs c = sent es' (app_subs b)"
      "subseq (updates es') qs" and
    n: "processed b = processed a + length (updates es)" "failures b = failures a + (length ps - length (updates es))"
      "processed c = processed b + length (updates es')" "failures c = failures b + (length qs - length (updates es'))"
    using assms by (auto simp: ran_def)
  have "length (updates es) \<le> length ps" "length (updates es') \<le> length qs"
    using x by (auto dest: list_emb_length)
  then show ?thesis
    unfolding ran_def using x n by (intro exI [of _ "es @ es'"]) (auto intro: list_emb_append_mono)
qed

lemma ran_run: "bounded (app_subs a) \<Longrightarrow> ran (map (\<lambda>(now, mt, p). p) ps) a (process_packets render env ps a)"
proof (induction ps arbitrary: a)
  case Nil
  then show ?case
    using sent_nothing [of "app_subs a"] by (auto simp: ran_def process_packets_def intro!: exI [of _ "[]"])
next
  case (Cons x ps)
  obtain now mt p where x: "x = (now, mt, p)" by (metis prod.exhaust)
  have r: "ran [p] a (process_packet render env now mt p a)" by (rule process_ran [OF Cons.prems])
  then have "bounded (app_subs (process_packet render env now mt p a))" by (auto simp: ran_def)
  from ran_trans [OF r Cons.IH [OF this]] show ?case by (simp add: process_packets_def x)
qed

text \<open>C24: the subscribers of the event stream.  Whatever packets the thread takes, no subscriber is lost, all of them
  are sent the same events, each queue holds the newest 500 of them in order, and every packet is either announced to
  the subscribers, in the order of capture, or counted as a failure.\<close>

theorem subscribers_keep_newest:
  assumes "bounded (app_subs a)" and b: "b = process_packets render env ps a"
  shows "\<exists>es. app_subs b = sent es (app_subs a) \<and> subseq (updates es) (map (\<lambda>(now, mt, p). p) ps) \<and>
    processed b = processed a + length (updates es) \<and> failures b = failures a + (length ps - length (updates es))"
  using ran_run [OF assms(1), of ps render env] by (simp add: ran_def b)

section \<open>Findings stay in the store\<close>

abbreviation found_in :: "app \<Rightarrow> finding set" where
  "found_in a \<equiv> set (s_findings (app_store a))"

definition like_finding :: "finding \<Rightarrow> finding \<Rightarrow> bool" where
  "like_finding f g \<longleftrightarrow> g = f\<lparr>f_id := f_id g\<rparr>"

lemma report_alerts_keeps: "found_in a \<subseteq> found_in (report_alerts now als a)"
  by (induction als arbitrary: a) (fastforce simp: report_alerts_def add_finding_def)+

lemma report_alerts_adds:
  "al \<in> set als \<Longrightarrow> \<exists>f \<in> found_in (report_alerts now als a). like_finding (alert_finding now al) f"
proof (induction als arbitrary: a)
  case (Cons x als)
  let ?a = "report (alert_finding now x) a"
  show ?case
  proof (cases "al \<in> set als")
    case True
    from Cons.IH [OF this, of ?a] show ?thesis by (simp add: report_alerts_def)
  next
    case False
    with Cons.prems have "al = x" by simp
    then have "\<exists>f \<in> found_in ?a. like_finding (alert_finding now al) f"
      by (simp add: add_finding_def like_finding_def)
    then show ?thesis
      using report_alerts_keeps [of ?a now als] by (auto simp: report_alerts_def)
  qed
qed simp

lemma device_keeps: "found_in a \<subseteq> found_in (run_device_security now mt m v a)"
proof -
  have "found_in b = found_in a \<Longrightarrow> found_in a \<subseteq> found_in (report_alerts now als b)" for b als
    using report_alerts_keeps [of b now als] by simp
  then show ?thesis
    by (simp add: run_device_security_def split_beta split: option.split)
qed

lemma learn_store [simp]: "app_pipe (learn_dhcp_server now p a) = app_pipe a"
  by (simp add: learn_dhcp_server_def Let_def split_beta split: pyval.split)

lemma after_arp_keeps:
  assumes "protocol p = ''arp''" "f \<in> found_in (run_arp_security now mt p
      (a\<lparr>app_subs := push_all (DeviceUpdate p (find_verdict (hw_addr p) (app_store a))) (app_subs a)\<rparr>))"
  shows "f \<in> found_in (after_pipeline now mt p a)"
  using assms device_keeps by (fastforce simp: after_pipeline_def Let_def split: option.split)

section \<open>Claims on a pinned address\<close>

lemma arp_processed:
  assumes "protocol p = ''arp''" shows "snd (process render env now mt p st) = None"
proof (cases "is_valid_mac (hw_addr p)")
  case True
  have l: "Pipeline.learn_gateway now p st = Inr (st, [])"
    using assms by (simp add: learn_gateway_def)
  have r: "real_mac_of p = Inr None"
    using assms by (simp add: real_mac_of_def)
  obtain st2 evs where g: "gather_evidence env now mt p st = (st2, evs)" by (metis prod.exhaust)
  from process_recorded [OF True l r g] show ?thesis by simp
qed (simp add: process_invalid)

text \<open>What the address verifier reports about a claim, whatever the limiter remembers of other keys.\<close>

definition claim_due :: "rat \<Rightarrow> captured_packet \<Rightarrow> verifier \<Rightarrow> bool" where
  "claim_due mt p v \<longleftrightarrow> dict_get (v_limiter v) (claim_key (ip_addr p) (hw_addr p)) = None \<and>
     \<not> is_suppressed v (hw_addr p) (Some (ip_addr p)) ''gateway_impersonation''"

lemma claim_found:
  assumes "protocol p = ''arp''" "dict_get (v_pins (thread_verifier a)) (ip_addr p) = Some g" "g \<noteq> []" "g \<noteq> hw_addr p"
    "claim_due mt p (thread_verifier a)"
  shows "\<exists>f \<in> found_in (process_packet render env now mt p a). f_hw_addr f = hw_addr p \<and>
    f_rule f = GATEWAY_IMPERSONATION \<and> f_severity f = CRITICAL \<and> \<not> f_resolved f \<and> f_timestamp f = now"
proof -
  obtain st effs where x: "process render (env\<lparr>local_mac := is_local_device a\<rparr>) now mt p (app_pipe a) = ((st, effs), None)"
    using arp_processed [OF assms(1)] by (metis prod.collapse)
  let ?b = "a\<lparr>app_pipe := st, app_tables := foldl (record_effect now) (app_tables a) effs, processed := Suc (processed a)\<rparr>"
  let ?c = "?b\<lparr>app_subs := push_all (DeviceUpdate p (find_verdict (hw_addr p) (app_store ?b))) (app_subs ?b)\<rparr>"
  have "\<exists>f \<in> found_in (run_arp_security now mt p ?c). f_hw_addr f = hw_addr p \<and>
      f_rule f = GATEWAY_IMPERSONATION \<and> f_severity f = CRITICAL \<and> \<not> f_resolved f \<and> f_timestamp f = now"
  proof -
    obtain al where al: "al_mac al = hw_addr p" "al_severity al = CRITICAL" "al_rule al = Some ''gateway_impersonation''"
      "al \<in> set (fst (inspect_arp now mt (app_store ?c) (hw_addr p) (ip_addr p) (given_or (target_ip p) []) (arp_oper p)
          (given_or (cp_interface p) ''unknown'') (app_tables ?c, thread_verifier ?c)))"
      using claim_raised [of "thread_verifier ?c" "ip_addr p" g "hw_addr p" now mt "app_store ?c"
          "given_or (target_ip p) []" "arp_oper p" "given_or (cp_interface p) ''unknown''" "app_tables ?c"] assms(2-5)
      by (auto simp: claim_due_def)
    have "resolve_finding_rule ALERT_RULES al = GATEWAY_IMPERSONATION"
      using al(3) by (simp add: resolve_finding_rule_def FINDING_RULES_def dict_get_def)
    then have "like_finding (alert_finding now al) f \<Longrightarrow> f_hw_addr f = hw_addr p \<and>
        f_rule f = GATEWAY_IMPERSONATION \<and> f_severity f = CRITICAL \<and> \<not> f_resolved f \<and> f_timestamp f = now" for f
      using al(1,2) by (cases f) (simp add: like_finding_def alert_finding_def new_finding_def)
    then show ?thesis
      using report_alerts_adds [OF al(4), of now]
      by (fastforce simp: run_arp_security_def split_beta)
  qed
  then show ?thesis
    using after_arp_keeps [OF assms(1), of _ now mt ?b] by (auto simp: process_packet_def x)
qed

text \<open>What a DHCP answer teaches.\<close>

definition dhcp_answer :: "captured_packet \<Rightarrow> bool" where
  "dhcp_answer p \<longleftrightarrow> protocol p = ''dhcpv4'' \<and> ip_addr p \<noteq> [] \<and> real_mac_of p \<noteq> Inl TypeError \<and>
     (\<exists>opts. cp_get p ''raw_options'' (PDict []) = PDict opts \<and> get_or opts ''message-type'' PNone \<in> {PInt 2, PInt 5})"

definition manual_pin :: "string \<Rightarrow> tables \<Rightarrow> bool" where
  "manual_pin ip t \<longleftrightarrow> (\<exists>m b. get_trusted_binding_for_ip ip t = Some (m, b) \<and> b_source b = ''manual'')"

lemma real_mac_error: "real_mac_of p = Inl e \<Longrightarrow> e = TypeError"
  by (auto simp: real_mac_of_def split: if_splits pyval.splits)

lemma answer_processed:
  assumes "dhcp_answer p" shows "snd (process render env now mt p st) = None"
proof (cases "is_valid_mac (hw_addr p)")
  case True
  obtain st1 hs where l: "Pipeline.learn_gateway now p st = Inr (st1, hs)"
    using assms by (auto simp: learn_gateway_def dhcp_answer_def Let_def announce_gateway_def)
  obtain rm where r: "real_mac_of p = Inr rm"
    using assms real_mac_error by (cases "real_mac_of p") (auto simp: dhcp_answer_def)
  obtain st2 evs where g: "gather_evidence env now mt p st1 = (st2, evs)" by (metis prod.exhaust)
  from process_recorded [OF True l r g] show ?thesis by simp
qed (simp add: process_invalid)

lemma record_effect_bindings: "t_bindings (record_effect now t e) = t_bindings t"
  by (simp add: record_effect_def record_sighting_def split: effect.split)

lemma record_effects_bindings [simp]: "t_bindings (foldl (record_effect now) t es) = t_bindings t"
  by (induction es arbitrary: t) (simp_all add: record_effect_bindings)

lemma device_bindings: "t_bindings (app_tables (run_device_security now mt m v a)) = t_bindings (app_tables a)"
  by (simp add: run_device_security_def device_update_repo_def snapshot_add_def split_beta Let_def split: option.split)

lemma binding_frame: "t_bindings t = t_bindings u \<Longrightarrow> get_trusted_binding_for_ip ip t = get_trusted_binding_for_ip ip u"
  by (simp add: get_trusted_binding_for_ip_def)

lemma manual_frame: "t_bindings t = t_bindings u \<Longrightarrow> manual_pin ip t \<Longrightarrow> manual_pin ip u"
  using binding_frame [of t u ip] by (auto simp: manual_pin_def)

lemma learn_pins:
  assumes "dhcp_answer p" "\<not> manual_pin (ip_addr p) (app_tables a)"
  shows "dict_get (v_pins (thread_verifier (learn_dhcp_server now p a))) (ip_addr p) = Some (hw_addr p)"
proof -
  have "dict_get (v_pins (snd (learn_binding now (hw_addr p) (ip_addr p) src f (app_tables a, v)))) (ip_addr p) = Some (hw_addr p)"
    for src f v
    using assms(2) by (auto simp: learn_binding_def manual_pin_def split: option.split)
  then show ?thesis
    using assms(1) by (auto simp: learn_dhcp_server_def dhcp_answer_def split_beta Let_def)
qed

lemma after_dhcp:
  assumes "protocol p = ''dhcpv4''"
  shows "\<exists>d. after_pipeline now mt p a = learn_dhcp_server now p d \<and> t_bindings (app_tables d) = t_bindings (app_tables a)"
proof -
  have "\<exists>d. after_pipeline now mt p a = learn_dhcp_server now p d \<and>
      (d = c \<or> (\<exists>v. d = run_device_security now mt (hw_addr p) v c))"
    if "c = a\<lparr>app_subs := push_all (DeviceUpdate p (find_verdict (hw_addr p) (app_store a))) (app_subs a)\<rparr>" for c
    using assms that by (auto simp: after_pipeline_def Let_def split: option.split)
  then show ?thesis
    using device_bindings by fastforce
qed

lemma answer_pins:
  assumes "dhcp_answer p" "\<not> manual_pin (ip_addr p) (app_tables a)"
  shows "dict_get (v_pins (thread_verifier (process_packet render env now mt p a))) (ip_addr p) = Some (hw_addr p)"
proof -
  obtain st effs where x: "process render (env\<lparr>local_mac := is_local_device a\<rparr>) now mt p (app_pipe a) = ((st, effs), None)"
    using answer_processed [OF assms(1)] by (metis prod.collapse)
  let ?b = "a\<lparr>app_pipe := st, app_tables := foldl (record_effect now) (app_tables a) effs, processed := Suc (processed a)\<rparr>"
  obtain d where d: "after_pipeline now mt p ?b = learn_dhcp_server now p d" "t_bindings (app_tables d) = t_bindings (app_tables ?b)"
    using after_dhcp [of p now mt ?b] assms(1) by (auto simp: dhcp_answer_def)
  have "\<not> manual_pin (ip_addr p) (app_tables d)"
    using assms(2) manual_frame [of "app_tables d" "app_tables a"] d(2) by auto
  then show ?thesis
    using learn_pins [OF assms(1)] d(1) by (simp add: process_packet_def x)
qed



section \<open>Bindings the packet thread does not see\<close>

text \<open>An application whose verifier of the web interface and table of bindings are exchanged.\<close>

definition rebound :: "(mac \<times> binding) list \<Rightarrow> verifier \<Rightarrow> app \<Rightarrow> app" where
  "rebound bs v a = a\<lparr>app_tables := (app_tables a)\<lparr>t_bindings := bs\<rparr>, app_verifier := v\<rparr>"

lemma rebound_simps [simp]:
  "app_pipe (rebound bs v a) = app_pipe a" "thread_verifier (rebound bs v a) = thread_verifier a"
  "app_subs (rebound bs v a) = app_subs a" "local_macs (rebound bs v a) = local_macs a"
  "processed (rebound bs v a) = processed a" "failures (rebound bs v a) = failures a"
  "app_tables (rebound bs v a) = (app_tables a)\<lparr>t_bindings := bs\<rparr>"
  by (simp_all add: rebound_def)

lemma rebound_updates:
  "rebound bs v (a\<lparr>app_subs := x\<rparr>) = (rebound bs v a)\<lparr>app_subs := x\<rparr>"
  "rebound bs v (a\<lparr>processed := n\<rparr>) = (rebound bs v a)\<lparr>processed := n\<rparr>"
  "rebound bs v (a\<lparr>failures := n\<rparr>) = (rebound bs v a)\<lparr>failures := n\<rparr>"
  "rebound bs v (a\<lparr>app_pipe := st, app_tables := t\<rparr>) = (rebound bs v a)\<lparr>app_pipe := st, app_tables := t\<lparr>t_bindings := bs\<rparr>\<rparr>"
  "rebound bs v (a\<lparr>app_tables := t, thread_verifier := w\<rparr>) =
     (rebound bs v a)\<lparr>app_tables := t\<lparr>t_bindings := bs\<rparr>, thread_verifier := w\<rparr>"
  by (simp_all add: rebound_def)

lemma rebound_report: "report f (rebound bs v a) = rebound bs v (report f a)"
  by (simp add: report_def set_store_def rebound_def)

lemma rebound_reports: "report_alerts now als (rebound bs v a) = rebound bs v (report_alerts now als a)"
  by (induction als arbitrary: a) (simp_all add: report_alerts_def rebound_report)

lemma inspect_rebound:
  "inspect_arp now mt s m ip d oper f (t\<lparr>t_bindings := bs\<rparr>, v) =
     (case inspect_arp now mt s m ip d oper f (t, v) of (als, t', v') \<Rightarrow> (als, t'\<lparr>t_bindings := bs\<rparr>, v'))"
  by (simp add: inspect_arp_def Let_def split_beta upsert_arp_entry_def)

lemma device_rebound:
  "device_update_repo now mt s d oui (t\<lparr>t_bindings := bs\<rparr>, v) =
     (case device_update_repo now mt s d oui (t, v) of (als, t', v') \<Rightarrow> (als, t'\<lparr>t_bindings := bs\<rparr>, v'))"
  by (simp add: device_update_repo_def Let_def split_beta snapshot_latest_def snapshot_add_def)

lemma rebound_arp: "run_arp_security now mt p (rebound bs v a) = rebound bs v (run_arp_security now mt p a)"
  by (simp add: run_arp_security_def inspect_rebound split_beta Let_def rebound_reports [symmetric] rebound_updates)

lemma rebound_device: "run_device_security now mt m w (rebound bs v a) = rebound bs v (run_device_security now mt m w a)"
  by (simp add: run_device_security_def device_rebound split_beta Let_def rebound_reports [symmetric] rebound_updates
    split: option.split)

lemma rebound_after:
  assumes "protocol p \<noteq> ''dhcpv4''"
  shows "after_pipeline now mt p (rebound bs v a) = rebound bs v (after_pipeline now mt p a)"
  using assms by (simp add: after_pipeline_def Let_def learn_dhcp_server_def rebound_arp rebound_device
    rebound_updates(1) [symmetric] split: option.split)

lemma record_effects_rebound:
  "foldl (record_effect now) (t\<lparr>t_bindings := bs\<rparr>) es = (foldl (record_effect now) t es)\<lparr>t_bindings := bs\<rparr>"
proof (induction es arbitrary: t)
  case (Cons e es)
  have "record_effect now (t\<lparr>t_bindings := bs\<rparr>) e = (record_effect now t e)\<lparr>t_bindings := bs\<rparr>"
    by (simp add: record_effect_def record_sighting_def split: effect.split)
  then show ?case by (simp add: Cons.IH)
qed simp

lemma rebound_packet:
  assumes "protocol p \<noteq> ''dhcpv4''"
  shows "process_packet render env now mt p (rebound bs v a) = rebound bs v (process_packet render env now mt p a)"
proof -
  have l: "is_local_device (rebound bs v a) = is_local_device a"
    by (simp add: is_local_device_def fun_eq_iff)
  obtain st effs err where x: "process render (env\<lparr>local_mac := is_local_device a\<rparr>) now mt p (app_pipe a) = ((st, effs), err)"
    by (metis prod.exhaust)
  show ?thesis
    by (cases err) (simp_all add: process_packet_def l x record_effects_rebound rebound_after [OF assms, symmetric] rebound_updates)
qed

lemma rebound_run:
  "(\<forall>(now, mt, p) \<in> set ps. protocol p \<noteq> ''dhcpv4'') \<Longrightarrow>
     process_packets render env ps (rebound bs v a) = rebound bs v (process_packets render env ps a)"
  by (induction ps arbitrary: a) (auto simp: process_packets_def rebound_packet)

lemma trust_rebound: "\<exists>bs v. trust_binding now m ip a = rebound bs v a"
proof -
  have "\<exists>bs. fst (snd (api_trust_add now m ip (t, v))) = t\<lparr>t_bindings := bs\<rparr>" for t v
  proof (cases "lower_s m = [] \<or> ip = []")
    case True
    then show ?thesis by (intro exI [of _ "t_bindings t"]) (auto simp: api_trust_add_def Let_def)
  next
    case False
    then show ?thesis by (auto simp: api_trust_add_def add_trusted_binding_def Let_def)
  qed
  then obtain bs where "fst (snd (api_trust_add now m ip (app_tables a, app_verifier a))) = (app_tables a)\<lparr>t_bindings := bs\<rparr>"
    by blast
  then show ?thesis
    by (auto simp: trust_binding_def split_beta rebound_def intro!: exI [of _ bs])
qed



section \<open>Missing infrastructure\<close>

declare like_match.simps(2) [simp del]

lemma like_cons [simp]:
  "like_match (c # p) [] \<longleftrightarrow> c = 37 \<and> like_match p []"
  "like_match (37 # p) (x # t) \<longleftrightarrow> like_match p (x # t) \<or> like_match (37 # p) t"
  "c \<noteq> 37 \<Longrightarrow> like_match (c # p) (x # t) \<longleftrightarrow> (c = 95 \<or> fold_ascii x = fold_ascii c) \<and> like_match p t"
  by (simp_all add: like_match.simps(2))

lemma like_percent: "like_match p t \<Longrightarrow> like_match (37 # p) (s @ t)"
  by (induction s) (simp_all add: like_match.simps(2) [of 37 p t])

lemma like_rest: "like_match [37] t"
  by (induction t) simp_all

lemma like_literal:
  "\<forall>c \<in> set p. c \<noteq> 37 \<Longrightarrow> like_match (p @ [37]) (p @ t)"
  by (induction p) (simp_all add: like_rest)

lemma message_like_part:
  assumes "\<forall>c \<in> set (lit part). c \<noteq> 37" "f_message f = s @ lit part @ t"
  shows "message_like part f"
  using like_percent [OF like_literal [OF assms(1), of t], of s] by (simp add: message_like_def assms(2))

lemma offline_message: "message_like ''offline'' (offline_finding now v h)"
proof -
  obtain t where "f_message (offline_finding now v h) =
      (lit (if normalize_device_type (v_category v) \<in> set GATEWAY_TYPES then ''Gateway'' else ''Infrastructure device'') @ lit '' '') @
      lit ''offline'' @ t"
    by (simp add: offline_finding_def new_finding_def Let_def lit_def)
  then show ?thesis
    by (rule message_like_part [rotated]) (simp add: lit_def)
qed

lemma offline_frame [simp]:
  "s_hosts (app_store (check_offline now a v)) = s_hosts (app_store a)"
  "s_verdicts (app_store (check_offline now a v)) = s_verdicts (app_store a)"
  by (simp_all add: check_offline_def add_finding_def Let_def split: option.split)

lemma offline_step:
  "s_findings (app_store (check_offline now a v)) = s_findings (app_store a) @
     (case went_offline now (app_store a) v of None \<Rightarrow> []
      | Some h \<Rightarrow> [(offline_finding now v h)\<lparr>f_id := Some (s_next_id (app_store a))\<rparr>])"
  by (simp add: check_offline_def add_finding_def Let_def split: option.split)

lemma went_offline_reported: "went_offline now s v = Some h \<Longrightarrow> \<not> offline_reported (v_hw_addr v) s"
  by (auto simp: went_offline_def split: if_splits option.splits)

lemma reported_silent: "offline_reported (v_hw_addr v) s \<Longrightarrow> went_offline now s v = None"
  by (auto simp: went_offline_def split: option.splits)

lemma offline_step_other:
  assumes "offline_reported m (app_store a)"
  shows "filter (\<lambda>f. f_hw_addr f = m) (s_findings (app_store (check_offline now a v))) =
    filter (\<lambda>f. f_hw_addr f = m) (s_findings (app_store a))"
  using assms reported_silent [of v "app_store a" now]
  by (auto simp: offline_step offline_finding_def new_finding_def Let_def split: option.split)

lemma offline_reported_filter:
  "offline_reported m s \<longleftrightarrow> list_ex (\<lambda>f. \<not> f_resolved f \<and> message_like ''offline'' f) (filter (\<lambda>f. f_hw_addr f = m) (s_findings s))"
  by (auto simp: offline_reported_def list_ex_iff)

lemma offline_run_other:
  assumes "offline_reported m (app_store a)"
  shows "filter (\<lambda>f. f_hw_addr f = m) (s_findings (app_store (foldl (check_offline now) a vs))) =
    filter (\<lambda>f. f_hw_addr f = m) (s_findings (app_store a))"
  using assms
proof (induction vs arbitrary: a)
  case (Cons v vs)
  note same = offline_step_other [OF Cons.prems, of now v]
  have "offline_reported m (app_store (check_offline now a v))"
    using Cons.prems by (simp add: offline_reported_filter same)
  from Cons.IH [OF this] same show ?case by simp
qed simp

lemma offline_step_found:
  assumes "went_offline now (app_store a) v = Some h"
  shows "offline_reported (v_hw_addr v) (app_store (check_offline now a v))"
proof -
  have "message_like ''offline'' ((offline_finding now v h)\<lparr>f_id := i\<rparr>)" for i
    using offline_message [of now v h] by (simp add: message_like_def)
  then show ?thesis
    using assms by (simp add: offline_reported_def offline_step list_ex_append)
      (simp add: offline_finding_def new_finding_def Let_def)
qed

text \<open>A verdict whose device is reported changes nothing for the others.\<close>

lemma went_offline_frame:
  assumes "s_hosts t = s_hosts s" "offline_reported (v_hw_addr v) t = offline_reported (v_hw_addr v) s"
  shows "went_offline now t v = went_offline now s v"
  using assms by (simp add: went_offline_def find_host_def split: option.split)

lemma offline_other_mac:
  assumes "v_hw_addr v \<noteq> m"
  shows "filter (\<lambda>f. f_hw_addr f = m) (s_findings (app_store (check_offline now a v))) =
    filter (\<lambda>f. f_hw_addr f = m) (s_findings (app_store a))"
  using assms by (auto simp: offline_step offline_finding_def new_finding_def Let_def split: option.split)

lemma offline_run_one:
  assumes "v \<in> set vs" "went_offline now (app_store a) v = Some h" "distinct (map v_hw_addr vs)"
  shows "\<exists>i. filter (\<lambda>f. f_hw_addr f = v_hw_addr v) (s_findings (app_store (foldl (check_offline now) a vs))) =
    filter (\<lambda>f. f_hw_addr f = v_hw_addr v) (s_findings (app_store a)) @ [(offline_finding now v h)\<lparr>f_id := Some i\<rparr>]"
  using assms
proof (induction vs arbitrary: a)
  case (Cons w vs)
  let ?a = "check_offline now a w"
  show ?case
  proof (cases "w = v")
    case True
    have "offline_reported (v_hw_addr v) (app_store ?a)"
      using offline_step_found [OF Cons.prems(2)] True by simp
    from offline_run_other [OF this, of now vs] show ?thesis
      using Cons.prems(2) True by (simp add: offline_step offline_finding_def new_finding_def Let_def)
  next
    case False
    then have v: "v \<in> set vs" "v_hw_addr w \<noteq> v_hw_addr v"
      using Cons.prems(1,3) by (auto simp: image_iff)
    have f: "filter (\<lambda>f. f_hw_addr f = v_hw_addr v) (s_findings (app_store ?a)) =
        filter (\<lambda>f. f_hw_addr f = v_hw_addr v) (s_findings (app_store a))"
      by (rule offline_other_mac [OF v(2)])
    have "went_offline now (app_store ?a) v = Some h"
      using Cons.prems(2) went_offline_frame [of "app_store ?a" "app_store a" v now]
      by (simp add: offline_reported_filter f)
    from Cons.IH [OF v(1) this] Cons.prems(3) f show ?thesis by simp
  qed
qed simp


text \<open>The table of verdicts: its keys are the addresses of its rows.\<close>

definition verdicts_keyed :: "store \<Rightarrow> bool" where
  "verdicts_keyed s \<longleftrightarrow> distinct (dict_keys (s_verdicts s)) \<and> (\<forall>(k, v) \<in> set (s_verdicts s). v_hw_addr v = k)"

lemma keyed_set:
  "verdicts_keyed s \<Longrightarrow> v_hw_addr v = k \<Longrightarrow> verdicts_keyed (s\<lparr>s_verdicts := dict_set (s_verdicts s) k v\<rparr>)"
  by (auto simp: verdicts_keyed_def distinct_dict_set dest!: in_dict_set)

lemma keyed_upsert: "verdicts_keyed s \<Longrightarrow> verdicts_keyed (verdicts_upsert v s)"
  by (simp add: verdicts_upsert_def upsert_row_def keyed_set split: option.split)

lemma keyed_all_distinct:
  assumes "verdicts_keyed s" shows "distinct (map v_hw_addr (find_all_verdicts n s))"
proof -
  have "map v_hw_addr (map snd (s_verdicts s)) = dict_keys (s_verdicts s)"
    using assms by (auto simp: verdicts_keyed_def dict_keys_def)
  then have "distinct (map v_hw_addr (map snd (s_verdicts s)))"
    using assms by (simp add: verdicts_keyed_def)
  then have "distinct (map v_hw_addr (sort_key (\<lambda>v. - v_certainty v) (map snd (s_verdicts s))))"
    by (simp only: distinct_map distinct_sort set_sort)
  then show ?thesis
    by (simp add: find_all_verdicts_def take_map [symmetric] distinct_take)
qed


section \<open>The admin token\<close>

lemma created_admin:
  "create_auth_token now h ''admin'' l t = Inr (t', i) \<Longrightarrow> 0 < count_active_admin_tokens t'"
  by (auto simp: create_auth_token_def count_active_admin_tokens_def split: if_splits)

lemma create_fails:
  "create_auth_token now h r l t = Inl e \<longleftrightarrow> h \<in> tk_hash ` set (t_tokens t) \<and> e = IntegrityError"
  by (auto simp: create_auth_token_def list_ex_iff)

text \<open>C39: when a start leaves the database without an active admin token.  It does exactly when there was none and the
  token it would register (the one of the token file, or a fresh one without a file) is already in the table: a token
  file whose token was revoked keeps every later start from making an admin token.\<close>

theorem start_admin_token:
  "count_active_admin_tokens (fst (restore_admin_token hash fresh now old (t, primary))) = 0 \<longleftrightarrow>
     count_active_admin_tokens t = 0 \<and>
     hash (case load_admin_token primary old of Some raw \<Rightarrow> raw | None \<Rightarrow> fresh) \<in> tk_hash ` set (t_tokens t)"
proof (cases "0 < count_active_admin_tokens t")
  case none: False
  let ?raw = "case load_admin_token primary old of Some raw \<Rightarrow> raw | None \<Rightarrow> fresh"
  let ?l = "case load_admin_token primary old of Some raw \<Rightarrow> Some (lit ''restored-from-file'') | None \<Rightarrow> Some (lit ''auto-generated'')"
  have l: "fst (restore_admin_token hash fresh now old (t, primary)) =
      (case create_auth_token now (hash ?raw) ''admin'' ?l t of Inl _ \<Rightarrow> t | Inr (t', i) \<Rightarrow> t')"
    using none by (simp add: restore_admin_token_def split: option.split sum.split prod.split)
  show ?thesis
  proof (cases "create_auth_token now (hash ?raw) ''admin'' ?l t")
    case (Inl e)
    then have "hash ?raw \<in> tk_hash ` set (t_tokens t)" by (simp only: create_fails)
    then show ?thesis using none by (simp add: l Inl)
  next
    case (Inr r)
    obtain t' i where r: "r = (t', i)" by (cases r)
    have "hash ?raw \<notin> tk_hash ` set (t_tokens t)"
      using create_fails [of now "hash ?raw" "''admin''" ?l t IntegrityError] Inr by auto
    then show ?thesis using created_admin [OF Inr [unfolded r]] by (simp add: l Inr r)
  qed
qed (simp add: restore_admin_token_def)


section \<open>Sample runs\<close>

definition FRESH_APP :: app where
  "FRESH_APP = fst (subscribe (start_app empty_store empty_tables))"

definition GATEWAY_OFFER :: captured_packet where
  "GATEWAY_OFFER = captured ''dhcpv4'' ''00:11:22:33:44:66'' ''10.0.0.1'' None [(''raw_options'', PDict [(''message-type'', PInt 2)])]"

definition CLAIM :: captured_packet where
  "CLAIM = captured ''arp'' ''00:11:22:33:44:77'' ''10.0.0.1'' None []"

lemma fresh_app: "app_subs FRESH_APP = [(0, [])]" "app_tables FRESH_APP = empty_tables" "app_store FRESH_APP = empty_store"
  "thread_verifier FRESH_APP = prepare_verifier empty_tables new_verifier"
  by (simp_all add: FRESH_APP_def subscribe_def start_app_def)

theorem subscribers_keep_newest_witness:
  "\<forall>render env. \<exists>es. app_subs (process_packets render env [(1, 1, arp_packet)] FRESH_APP) = sent es (app_subs FRESH_APP) \<and>
     subseq (updates es) [arp_packet] \<and>
     processed (process_packets render env [(1, 1, arp_packet)] FRESH_APP) = processed FRESH_APP + length (updates es) \<and>
     failures (process_packets render env [(1, 1, arp_packet)] FRESH_APP) = failures FRESH_APP + (1 - length (updates es))"
proof (intro allI)
  fix render env
  have "bounded (app_subs FRESH_APP)" by (simp add: fresh_app bounded_def)
  from subscribers_keep_newest [OF this refl, of render env "[(1, 1, arp_packet)]"]
  show "\<exists>es. app_subs (process_packets render env [(1, 1, arp_packet)] FRESH_APP) = sent es (app_subs FRESH_APP) \<and>
     subseq (updates es) [arp_packet] \<and>
     processed (process_packets render env [(1, 1, arp_packet)] FRESH_APP) = processed FRESH_APP + length (updates es) \<and>
     failures (process_packets render env [(1, 1, arp_packet)] FRESH_APP) = failures FRESH_APP + (1 - length (updates es))"
    by simp
qed

lemma bare_gather:
  "analyze env p = None \<Longrightarrow> match_mac env (hw_addr p) = [] \<Longrightarrow> fingerprint_lookup env p = None \<Longrightarrow>
     snd (gather_evidence env now mt p st) = []"
  by (simp add: gather_evidence_def mac_lookup_def protocol_lookup_def cross_validate_def Let_def split_beta)

lemma bare_process:
  assumes "analyze env p = None" "match_mac env (hw_addr p) = []" "fingerprint_lookup env p = None"
  shows "s_verdicts (p_store (fst (fst (process render env now mt p st)))) = s_verdicts (p_store st)"
  using announce_store [of now p st]
  by (auto simp: process_def Let_def split_beta bare_gather [OF assms] gather_store record_packet_def hosts_upsert_def
      split: sum.split)

lemma learn_quiet:
  "v_limiter (thread_verifier (learn_dhcp_server now p a)) = v_limiter (thread_verifier a)"
  "v_mutes (thread_verifier (learn_dhcp_server now p a)) = v_mutes (thread_verifier a)"
  by (simp_all add: learn_dhcp_server_def learn_binding_def Let_def split_beta split: pyval.split option.split)

lemma bare_thread:
  assumes "dhcp_answer p"
  shows "v_limiter (thread_verifier (process_packet render bare_env now mt p FRESH_APP)) = []"
    "v_mutes (thread_verifier (process_packet render bare_env now mt p FRESH_APP)) = []"
proof -
  let ?env = "bare_env\<lparr>local_mac := is_local_device FRESH_APP\<rparr>"
  obtain st effs where x: "process render ?env now mt p (app_pipe FRESH_APP) = ((st, effs), None)"
    using answer_processed [OF assms] by (metis prod.collapse)
  have "s_verdicts (p_store st) = []"
  proof -
    have "s_verdicts (p_store (fst (fst (process render ?env now mt p (app_pipe FRESH_APP))))) = s_verdicts (app_store FRESH_APP)"
      by (rule bare_process) (simp_all add: bare_env_def)
    then show ?thesis by (simp only: x fst_conv fresh_app) (simp add: empty_store_def)
  qed
  then have "find_verdict (hw_addr p) (p_store st) = None"
    by (simp add: find_verdict_def dict_get_def)
  then show "v_limiter (thread_verifier (process_packet render bare_env now mt p FRESH_APP)) = []"
    "v_mutes (thread_verifier (process_packet render bare_env now mt p FRESH_APP)) = []"
    using assms by (simp_all add: process_packet_def x after_pipeline_def Let_def dhcp_answer_def learn_quiet fresh_app
      prepare_verifier_def refresh_mute_rules_def list_suppression_rules_def new_verifier_def empty_tables_def)
qed

lemma gateway_offer: "dhcp_answer GATEWAY_OFFER" "hw_addr GATEWAY_OFFER = ''00:11:22:33:44:66''" "ip_addr GATEWAY_OFFER = ''10.0.0.1''"
  by (simp_all add: dhcp_answer_def GATEWAY_OFFER_def captured_def real_mac_of_def cp_get_def get_or_def dict_get_def)




text \<open>A router that was last seen ten minutes ago.\<close>

definition SILENT_ROUTER :: verdict where
  "SILENT_ROUTER = (empty_verdict ''00:11:22:33:44:66'' 0)\<lparr>v_category := Some (lit ''Router''), v_certainty := 90\<rparr>"

definition SILENT_HOST :: host where
  "SILENT_HOST = \<lparr>h_hw_addr = ''00:11:22:33:44:66'', h_ip_addr = None, h_ip_v6 = None, h_discovered_at = 0, h_last_active = 0,
     h_mac_randomized = False, h_real_hw_addr = None, h_disposition = ''known'', h_identity_id = None\<rparr>"

definition SILENT_APP :: app where
  "SILENT_APP = start_app (empty_store\<lparr>s_hosts := [(''00:11:22:33:44:66'', SILENT_HOST)],
     s_verdicts := [(''00:11:22:33:44:66'', SILENT_ROUTER)]\<rparr>) empty_tables"


end
