(* ===== verification/Reports.thy ===== *)
theory Reports
  imports Spoofing Application "HOL-Library.List_Lexorder"
begin

text \<open>
  The reports over stored data: the offline validation of \<open>analysis/validator.py\<close>, the timeline of a
  device of \<open>timeline.py\<close> and the alert engine of \<open>alerts/engine.py\<close>.  The IEEE table is the
  content of its cache file; time stamps of the timeline are the texts the rows hold, compared as texts.
\<close>

section \<open>Validation against the IEEE table\<close>

text \<open>An entry of the table: its \<open>vendor\<close> and, in old files, \<open>manufacturer\<close>.\<close>

type_synonym oui_entry = "ustr option \<times> ustr option"

definition strip_separators :: "ustr \<Rightarrow> ustr" where
  "strip_separators m = filter (\<lambda>c. c \<noteq> 58 \<and> c \<noteq> 45) m"

text \<open>\<open>_read_oui_db\<close> on the entries of the file (None when it is missing or unreadable): a later
  prefix replaces an earlier one of the same normal form.\<close>

definition read_oui_db :: "(ustr \<times> oui_entry) list option \<Rightarrow> (ustr \<times> oui_entry) list" where
  "read_oui_db entries = (case entries of None \<Rightarrow> []
     | Some es \<Rightarrow> foldl (\<lambda>d (p, e). dict_set d (upper (strip_separators p)) e) [] es)"

definition extract_oui_prefix :: "mac \<Rightarrow> ustr" where
  "extract_oui_prefix m = take 6 (upper (strip_separators (lit m)))"

definition is_locally_administered :: "mac \<Rightarrow> bool" where
  "is_locally_administered m \<longleftrightarrow>
     (case py_int16 (take 2 (filter (\<lambda>c. c \<noteq> 46) (strip_separators (lit m)))) of
        None \<Rightarrow> False | Some i \<Rightarrow> (i div 2) mod 2 = 1)"

text \<open>A row of \<open>_load_devices_for_validation\<close>: a host with the vendor and category of its verdict.\<close>

record checked =
  ck_mac :: mac
  ck_manufacturer :: "ustr option"
  ck_category :: "ustr option"
  ck_randomized :: bool
  ck_last_seen :: int

definition load_checked :: "store \<Rightarrow> checked list" where
  "load_checked s = map (\<lambda>(m, h). let v = find_verdict m s
     in \<lparr>ck_mac = m, ck_manufacturer = (case v of None \<Rightarrow> None | Some v \<Rightarrow> v_vendor v),
         ck_category = (case v of None \<Rightarrow> None | Some v \<Rightarrow> v_category v), ck_randomized = h_mac_randomized h,
         ck_last_seen = h_last_active h\<rparr>) (s_hosts s)"

definition skip_for_oui :: "checked \<Rightarrow> bool" where
  "skip_for_oui d \<longleftrightarrow> ck_randomized d \<or> is_locally_administered (ck_mac d)"

definition skip_for_manufacturer :: "checked \<Rightarrow> bool" where
  "skip_for_manufacturer d \<longleftrightarrow> skip_for_oui d \<or>
     map (\<lambda>c. if c = 32 then 95 else c) (lower (text_of (ck_category d))) \<in> set OS_DERIVED_CATEGORIES \<or>
     list_ex (\<lambda>v. contains_sub v (lower (text_of (ck_manufacturer d)))) OS_DERIVED_VENDORS"

text \<open>A check counts what passed and lists what failed.\<close>

type_synonym 'd outcome = "nat \<times> nat \<times> 'd list"

definition tally_one :: "('a \<Rightarrow> ('d option) option) \<Rightarrow> 'd outcome \<Rightarrow> 'a \<Rightarrow> 'd outcome" where
  "tally_one verdict_of = (\<lambda>(ok, failed, issues) d. case verdict_of d of
     None \<Rightarrow> (ok, failed, issues)
   | Some None \<Rightarrow> (ok + 1, failed, issues)
   | Some (Some i) \<Rightarrow> (ok, failed + 1, issues @ [i]))"

definition run_tally :: "('a \<Rightarrow> ('d option) option) \<Rightarrow> 'a list \<Rightarrow> 'd outcome" where
  "run_tally verdict_of ds = foldl (tally_one verdict_of) (0, 0, []) ds"

text \<open>\<open>check_oui_coverage\<close>: address and prefix of each failure.\<close>

definition oui_known :: "(ustr \<times> oui_entry) list \<Rightarrow> checked \<Rightarrow> ((mac \<times> ustr) option) option" where
  "oui_known db d =
     (if skip_for_oui d then None
      else let p = extract_oui_prefix (ck_mac d)
           in Some (if dict_get db p \<noteq> None then None else Some (ck_mac d, p)))"

definition check_oui_coverage :: "store \<Rightarrow> (ustr \<times> oui_entry) list option \<Rightarrow> (mac \<times> ustr) outcome" where
  "check_oui_coverage s entries = run_tally (oui_known (read_oui_db entries)) (load_checked s)"

text \<open>\<open>check_manufacturer_agreement\<close>: address and the two names of each failure.\<close>

definition oui_manufacturer :: "(ustr \<times> oui_entry) list \<Rightarrow> mac \<Rightarrow> ustr option" where
  "oui_manufacturer db m = (case dict_get db (extract_oui_prefix m) of
     None \<Rightarrow> None | Some (v, mf) \<Rightarrow> or_else v mf)"

definition names_agree :: "ustr \<Rightarrow> ustr \<Rightarrow> bool" where
  "names_agree a b \<longleftrightarrow> contains_sub (lower a) (lower b) \<or> contains_sub (lower b) (lower a)"

definition agreement :: "(ustr \<times> oui_entry) list \<Rightarrow> checked \<Rightarrow> ((mac \<times> ustr \<times> ustr) option) option" where
  "agreement db d =
     (if skip_for_manufacturer d \<or> \<not> truthy (ck_manufacturer d) then None
      else let oui = oui_manufacturer db (ck_mac d)
           in if \<not> truthy oui then None
              else Some (if names_agree (the oui) (the (ck_manufacturer d)) then None
                         else Some (ck_mac d, the oui, the (ck_manufacturer d))))"

definition check_manufacturer_agreement :: "store \<Rightarrow> (ustr \<times> oui_entry) list option \<Rightarrow> (mac \<times> ustr \<times> ustr) outcome" where
  "check_manufacturer_agreement s entries = run_tally (agreement (read_oui_db entries)) (load_checked s)"

text \<open>\<open>check_stale_devices\<close>: address, last sight and days since then.\<close>

definition check_stale_devices :: "int \<Rightarrow> int \<Rightarrow> store \<Rightarrow> (mac \<times> int \<times> int) list" where
  "check_stale_devices now stale_days s =
     map (\<lambda>d. (ck_mac d, ck_last_seen d, (now - ck_last_seen d) div 86400000000))
       (filter (\<lambda>d. ck_last_seen d < now - stale_days * 86400000000) (load_checked s))"

definition execute_all_checks ::
    "int \<Rightarrow> int \<Rightarrow> store \<Rightarrow> (ustr \<times> oui_entry) list option \<Rightarrow>
       (mac \<times> ustr) outcome \<times> (mac \<times> ustr \<times> ustr) outcome \<times> (mac \<times> int \<times> int) list" where
  "execute_all_checks now stale_days s entries =
     (check_oui_coverage s entries, check_manufacturer_agreement s entries, check_stale_devices now stale_days s)"

section \<open>Timeline\<close>

datatype event_kind = FirstSeen | Observed | Classification | IpChange | Alarm

record timeline_event =
  tl_time :: ustr
  tl_kind :: event_kind
  tl_title :: ustr
  tl_detail :: "ustr option"
  tl_source :: "ustr option"

text \<open>The texts of \<open>_parse_observation_title\<close>: the first of two fields that is given, or another
  text.  \<open>shown\<close> is \<open>str\<close> of a value; the length of a user agent is that of a text.\<close>

definition field_or :: "dict \<Rightarrow> string \<Rightarrow> string \<Rightarrow> pyval" where
  "field_or d k k' = (let v = get_or d k PNone in if py_truthy v then v else get_or d k' PNone)"

definition titled :: "(pyval \<Rightarrow> ustr) \<Rightarrow> string \<Rightarrow> pyval \<Rightarrow> string \<Rightarrow> ustr" where
  "titled shown prefix v other = (if py_truthy v then lit prefix @ py_text shown v else lit other)"

definition clip_agent :: "pyval \<Rightarrow> pyval" where
  "clip_agent v = (case v of PStr t \<Rightarrow> if length t > 60 then PStr (take 60 t @ lit ''...'') else v | _ \<Rightarrow> v)"

definition observation_title :: "(pyval \<Rightarrow> ustr) \<Rightarrow> string \<Rightarrow> dict \<Rightarrow> ustr" where
  "observation_title shown src d =
     (if src = ''dhcpv4'' then titled shown ''DHCP hostname: '' (get_or d ''hostname'' PNone) ''DHCP exchange''
      else if src = ''arp'' then titled shown ''ARP: '' (field_or d ''src_ip'' ''ip'') ''ARP exchange''
      else if src = ''mdns'' then titled shown ''mDNS service: '' (field_or d ''service'' ''name'') ''mDNS announcement''
      else if src = ''dns'' then titled shown ''DNS query: '' (field_or d ''query'' ''name'') ''DNS activity''
      else if src = ''tls_client_hello'' then titled shown ''TLS connection: '' (field_or d ''sni'' ''server_name'') ''TLS handshake''
      else if src = ''http_useragent'' then
        titled shown ''HTTP User-Agent: '' (clip_agent (field_or d ''user_agent'' ''ua'')) ''HTTP request''
      else if src = ''ssdp'' then titled shown ''SSDP: '' (field_or d ''server'' ''st'') ''UPnP discovery''
      else if src = ''lldp'' then titled shown ''LLDP neighbor: '' (field_or d ''system_name'' ''device_id'') ''LLDP announcement''
      else if src = ''cdp'' then titled shown ''CDP neighbor: '' (field_or d ''system_name'' ''device_id'') ''CDP announcement''
      else if src = ''tcp_syn'' then lit ''TCP SYN fingerprint''
      else if src = ''icmpv6'' then titled shown ''ICMPv6 type '' (get_or d ''type'' PNone) ''ICMPv6 packet''
      else if src = ''ip_observed'' then lit ''IP traffic observed''
      else lit src @ lit '' observation'')"

text \<open>The rows the timeline is built from.\<close>

record tl_observation =
  ob_time :: "ustr option"
  ob_source :: string
  ob_data :: dict
  ob_confidence :: pyval

record tl_snapshot =
  tp_time :: "ustr option"
  tp_device_type :: "ustr option"
  tp_manufacturer :: "ustr option"
  tp_os_family :: "ustr option"
  tp_hostname :: "ustr option"
  tp_oui_vendor :: "ustr option"

record tl_arp =
  ta_first_seen :: "ustr option"
  ta_last_seen :: ustr
  ta_ip :: ustr
  ta_count :: nat

record tl_finding =
  tf_time :: "ustr option"
  tf_type :: ustr
  tf_severity :: ustr
  tf_message :: ustr

definition first_event :: "(ustr option \<times> ustr option) option \<Rightarrow> timeline_event list" where
  "first_event device = (case device of
     None \<Rightarrow> []
   | Some (seen, name) \<Rightarrow> if \<not> truthy seen then []
       else [\<lparr>tl_time = the seen, tl_kind = FirstSeen, tl_title = lit ''Device first discovered'',
              tl_detail = Some (if truthy name then lit ''Hostname: '' @ the name else lit ''Unknown device''), tl_source = None\<rparr>])"

definition observation_event :: "(pyval \<Rightarrow> ustr) \<Rightarrow> tl_observation \<Rightarrow> timeline_event list" where
  "observation_event shown r =
     (if \<not> truthy (ob_time r) then []
      else [\<lparr>tl_time = the (ob_time r), tl_kind = Observed, tl_title = observation_title shown (ob_source r) (ob_data r),
             tl_detail = Some (lit ''Source: '' @ lit (ob_source r) @ DASH @ lit ''confidence: '' @
               py_text shown (ob_confidence r) @ lit ''%''), tl_source = Some (lit (ob_source r))\<rparr>])"

definition snapshot_event :: "tl_snapshot \<Rightarrow> timeline_event list" where
  "snapshot_event r =
     (if \<not> truthy (tp_time r) then []
      else let parts = map the (filter truthy [tp_device_type r, tp_manufacturer r, tp_os_family r]);
               details = (if truthy (tp_hostname r) then [lit ''hostname: '' @ the (tp_hostname r)] else []) @
                         (if truthy (tp_oui_vendor r) then [lit ''OUI: '' @ the (tp_oui_vendor r)] else [])
           in [\<lparr>tl_time = the (tp_time r), tl_kind = Classification,
                tl_title = (if parts = [] then lit ''Classification: unknown'' else lit ''Classified as '' @ join DASH parts),
                tl_detail = (if details = [] then None else Some (join (lit '', '') details)),
                tl_source = Some (lit ''fingerprint'')\<rparr>])"

definition address_event :: "tl_arp \<Rightarrow> timeline_event list" where
  "address_event r =
     (if \<not> truthy (ta_first_seen r) then []
      else [\<lparr>tl_time = the (ta_first_seen r), tl_kind = IpChange, tl_title = lit ''IP address: '' @ ta_ip r,
             tl_detail = Some (lit ''Packets: '' @ str_nat (ta_count r) @ DASH @ lit ''last seen: '' @ ta_last_seen r),
             tl_source = Some (lit ''arp'')\<rparr>])"

definition finding_event :: "tl_finding \<Rightarrow> timeline_event list" where
  "finding_event r =
     (if \<not> truthy (tf_time r) then []
      else [\<lparr>tl_time = the (tf_time r), tl_kind = Alarm, tl_title = tf_type r,
             tl_detail = Some (lit ''['' @ upper (tf_severity r) @ lit ''] '' @ tf_message r), tl_source = Some (lit ''rule'')\<rparr>])"

definition timeline_events ::
    "(pyval \<Rightarrow> ustr) \<Rightarrow> (ustr option \<times> ustr option) option \<Rightarrow> tl_observation list \<Rightarrow> tl_snapshot list \<Rightarrow> tl_arp list \<Rightarrow>
       tl_finding list \<Rightarrow> timeline_event list" where
  "timeline_events shown device obs snaps arps finds =
     first_event device @ concat (map (observation_event shown) obs) @ concat (map snapshot_event snaps) @
     concat (map address_event arps) @ concat (map finding_event finds)"

text \<open>\<open>sort(reverse=True)\<close> keeps the order of equal elements: reversed, sorted and reversed again.
  A negative limit cuts from the end.\<close>

definition newest_events :: "timeline_event list \<Rightarrow> timeline_event list" where
  "newest_events es = rev (sort_key tl_time (rev es))"

definition slice_to :: "int \<Rightarrow> 'a list \<Rightarrow> 'a list" where
  "slice_to n xs = (if 0 \<le> n then take (nat n) xs else take (length xs - nat (- n)) xs)"

definition build_timeline ::
    "(pyval \<Rightarrow> ustr) \<Rightarrow> int \<Rightarrow> (ustr option \<times> ustr option) option \<Rightarrow> tl_observation list \<Rightarrow> tl_snapshot list \<Rightarrow> tl_arp list \<Rightarrow>
       tl_finding list \<Rightarrow> timeline_event list" where
  "build_timeline shown limit device obs snaps arps finds =
     slice_to limit (newest_events (timeline_events shown device obs snaps arps finds))"

section \<open>The alert engine\<close>

text \<open>\<open>AlertEngine\<close>: the database and the times of the last OS alerts.  \<open>registered\<close> are the names
  in the registry of finding rules.\<close>

record alert_engine =
  ae_store :: store
  ae_tables :: tables
  ae_fired :: "(mac \<times> rat) list"

definition OS_CHANGE_COOLDOWN :: rat where
  "OS_CHANGE_COOLDOWN = 300"

definition INFRA_DEVICE_NAMES :: "ustr list" where
  "INFRA_DEVICE_NAMES = map lit [''router'', ''switch'', ''gateway'', ''access_point'', ''firewall'', ''load_balancer'',
     ''Router'', ''UniFi Switch'', ''UniFi AP'', ''mesh_router'', ''network_device'', ''wireless_bridge'', ''cable_modem'']"

definition device_summary :: "device \<Rightarrow> ustr" where
  "device_summary d =
     (let parts = part_if (truthy (d_hostname d)) (the (d_hostname d)) @
                  part_if (truthy (d_manufacturer d)) (the (d_manufacturer d)) @
                  part_if (truthy (d_device_type d)) (map (\<lambda>c. if c = 95 then 32 else c) (the (d_device_type d))) @
                  (if truthy_s (d_ip_v4 d) then [lit (the (d_ip_v4 d))]
                   else if truthy_s (d_ip_v6 d) then [lit (the (d_ip_v6 d))] else [])
      in if parts = [] then lit (d_mac d) else join (lit '' / '') parts)"

definition new_device_alert :: "int \<Rightarrow> string list \<Rightarrow> device option \<Rightarrow> device \<Rightarrow> alert list" where
  "new_device_alert now registered existing d =
     (if ''new_host'' \<in> set registered \<or> existing \<noteq> None then []
      else [new_alert now (d_mac d) NEW_DEVICE INFO (lit ''New device discovered: '' @ device_summary d) None])"

text \<open>The alert on a changed operating system with its cooldown; the table of times is pruned when it has
  grown beyond 10000 entries.\<close>

definition prune_os_fired :: "rat \<Rightarrow> (mac \<times> rat) list \<Rightarrow> (mac \<times> rat) list" where
  "prune_os_fired mt fired = (if length fired > 10000 then filter (\<lambda>(k, v). \<not> mt - v > 600) fired else fired)"

definition os_changed :: "device option \<Rightarrow> device \<Rightarrow> bool" where
  "os_changed existing d \<longleftrightarrow> (case existing of None \<Rightarrow> False
     | Some old \<Rightarrow> d_alert_status old = ''known'' \<and> truthy (d_os_family old) \<and> truthy (d_os_family d) \<and>
         d_os_family old \<noteq> d_os_family d \<and> \<not> d_confidence d < 50 \<and>
         \<not> (truthy (d_device_type d) \<and> the (d_device_type d) \<in> set INFRA_DEVICE_NAMES))"

definition os_change_alert ::
    "int \<Rightarrow> rat \<Rightarrow> string list \<Rightarrow> device option \<Rightarrow> device \<Rightarrow> (mac \<times> rat) list \<Rightarrow> alert list \<times> (mac \<times> rat) list" where
  "os_change_alert now mt registered existing d fired =
     (if ''identity_shift'' \<in> set registered \<or> \<not> os_changed existing d then ([], fired)
      else let fired = prune_os_fired mt fired
           in if mt - get_or fired (d_mac d) 0 \<ge> OS_CHANGE_COOLDOWN
              then ([new_alert now (d_mac d) OS_CHANGE WARNING (lit ''OS changed on '' @ device_summary d @ lit '': '' @
                      text_of (d_os_family (the existing)) @ lit '' -> '' @ text_of (d_os_family d)) None],
                    dict_set fired (d_mac d) mt)
              else ([], fired))"

definition unclassified_alert :: "int \<Rightarrow> string list \<Rightarrow> device \<Rightarrow> alert list" where
  "unclassified_alert now registered d =
     (if ''low_certainty'' \<in> set registered \<or> \<not> (d_confidence d < 50 \<and> d_alert_status d = ''known'') then []
      else [new_alert now (d_mac d) UNCLASSIFIED LOW
              (lit ''Low confidence ('' @ str_int (d_confidence d) @ lit ''%) for '' @ device_summary d) None])"

definition randomized_alert :: "int \<Rightarrow> device option \<Rightarrow> device \<Rightarrow> alert list" where
  "randomized_alert now existing d =
     (if \<not> d_is_randomized_mac d \<or> existing \<noteq> None then []
      else [new_alert now (d_mac d) MAC_RANDOMIZED INFO
              (lit ''Randomized MAC on '' @ device_summary d @
               (if d_identity_id d \<notin> {None, Some 0} \<and> truthy_s (d_correlated_mac d)
                then lit '' (grouped with '' @ lit (the (d_correlated_mac d)) @ lit '')''
                else if truthy_s (d_correlated_mac d)
                then lit '' (correlated with '' @ lit (the (d_correlated_mac d)) @ lit '')'' else [])) None])"

definition add_alerts :: "alert list \<Rightarrow> tables \<Rightarrow> tables" where
  "add_alerts als t = foldl (\<lambda>t al. add_alert al t) t als"

text \<open>\<open>evaluate\<close>: the alerts, or the error of a refused device row.\<close>

definition evaluate_alerts ::
    "int \<Rightarrow> rat \<Rightarrow> string list \<Rightarrow> device \<Rightarrow> alert_engine \<Rightarrow> (store_error + alert list) \<times> alert_engine" where
  "evaluate_alerts now mt registered d e =
     (let existing = get_device (d_mac d) (ae_store e)
      in if d_alert_status d = ''self'' then
           (case upsert_device now d (ae_store e) of
              (s, Inl err) \<Rightarrow> (Inl err, e\<lparr>ae_store := s\<rparr>) | (s, Inr _) \<Rightarrow> (Inr [], e\<lparr>ae_store := s\<rparr>))
         else
           let (os, fired) = os_change_alert now mt registered existing d (ae_fired e);
               als = new_device_alert now registered existing d @ os @ unclassified_alert now registered d @
                     randomized_alert now existing d
           in (case upsert_device now d (ae_store e) of
                 (s, Inl err) \<Rightarrow> (Inl err, e\<lparr>ae_store := s, ae_fired := fired\<rparr>)
               | (s, Inr _) \<Rightarrow> (Inr als, e\<lparr>ae_store := s, ae_tables := add_alerts als (ae_tables e), ae_fired := fired\<rparr>)))"

text \<open>\<open>check_stale_sources\<close> on the files of a directory (name, suffix and modification time).\<close>

definition stale_source_alerts :: "int \<Rightarrow> rat \<Rightarrow> int \<Rightarrow> (string \<times> string \<times> rat) list \<Rightarrow> alert list" where
  "stale_source_alerts now clock max_age_days files =
     map (\<lambda>(n, suffix, mtime). new_alert now ''00:00:00:00:00:00'' SOURCE_STALE WARNING
            (stale_message n \<lfloor>(clock - mtime) / 86400\<rfloor> max_age_days) None)
       (filter (\<lambda>(n, suffix, mtime). suffix \<in> {''.json'', ''.csv'', ''.fp'', ''.txt''} \<and>
            clock - mtime > of_int (max_age_days * 86400)) files)"

definition check_stale_sources_alerts ::
    "int \<Rightarrow> rat \<Rightarrow> int \<Rightarrow> (string \<times> string \<times> rat) list \<Rightarrow> alert_engine \<Rightarrow> alert list \<times> alert_engine" where
  "check_stale_sources_alerts now clock max_age_days files e =
     (let als = stale_source_alerts now clock max_age_days files in (als, e\<lparr>ae_tables := add_alerts als (ae_tables e)\<rparr>))"

text \<open>\<open>check_infra_offline\<close>: the devices to report are chosen against the alerts that were open before
  the pass.\<close>

definition infra_silent :: "int \<Rightarrow> int \<Rightarrow> alert list \<Rightarrow> device \<Rightarrow> bool" where
  "infra_silent now offline_minutes opened d \<longleftrightarrow>
     truthy (d_device_type d) \<and> normalize_device_type (d_device_type d) \<in> set INFRA_TYPES_TOPO \<and>
     d_alert_status d \<noteq> ''self'' \<and> d_last_seen d < now - offline_minutes * 60000000 \<and>
     \<not> list_ex (\<lambda>a. al_mac a = d_mac d \<and> al_type a = INFRA_OFFLINE) opened"

definition infra_alert :: "int \<Rightarrow> device \<Rightarrow> alert" where
  "infra_alert now d =
     (let gw = normalize_device_type (d_device_type d) \<in> set GATEWAY_TYPES
      in new_alert now (d_mac d) INFRA_OFFLINE (if gw then CRITICAL else WARNING)
           (lit (if gw then ''Gateway'' else ''Infrastructure device'') @ lit '' offline: '' @ device_summary d @ DASH @
            lit ''last seen '' @ str_int ((now - d_last_seen d) div 60000000) @ lit '' minutes ago'') None)"

definition infra_offline_alerts :: "int \<Rightarrow> int \<Rightarrow> alert_engine \<Rightarrow> alert list \<times> alert_engine" where
  "infra_offline_alerts now offline_minutes e =
     (let als = map (infra_alert now) (filter (infra_silent now offline_minutes (list_alerts (Some False) None (ae_tables e)))
                  (map (\<lambda>(m, d). marshal_device d) (s_devices (ae_store e))))
      in (als, e\<lparr>ae_tables := add_alerts als (ae_tables e)\<rparr>))"

text \<open>\<open>process_dhcp_anomalies\<close> on address, option and reason.\<close>

definition process_dhcp_anomalies :: "int \<Rightarrow> (mac \<times> ustr \<times> ustr) list \<Rightarrow> alert_engine \<Rightarrow> alert list \<times> alert_engine" where
  "process_dhcp_anomalies now anomalies e =
     (let als = map (\<lambda>(m, opt, reason). new_alert now m DHCP_IRREGULAR WARNING
                  (lit ''DHCP anomaly on option '' @ [39] @ opt @ [39] @ lit '': '' @ reason) None) anomalies
      in (als, e\<lparr>ae_tables := add_alerts als (ae_tables e)\<rparr>))"

end
