(* ===== verification/DhcpCheck.thy ===== *)
theory DhcpCheck
  imports Application Dhcp Matching
begin

text \<open>
  The checker of DHCP option values of \<open>analysis/dhcp_anomaly.py\<close> with its log file, and how the
  application hands its records to the findings.  Which characters are printable, the classes of digits,
  the text \<open>str\<close> makes of bytes and sequences and the rendering of a record as a line are arguments.
\<close>

section \<open>Values\<close>

datatype opt_val = VNone | VBytes bytes | VText ustr | VInt int | VSeq "opt_val list"

record check_env =
  printable :: "nat \<Rightarrow> bool"
  shown_val :: "opt_val \<Rightarrow> ustr"

text \<open>\<open>str(val)\<close>.\<close>

definition str_val :: "check_env \<Rightarrow> opt_val \<Rightarrow> ustr" where
  "str_val env v = (case v of VNone \<Rightarrow> lit ''None'' | VText t \<Rightarrow> t | VInt i \<Rightarrow> str_int i | _ \<Rightarrow> shown_val env v)"

text \<open>\<open>int(val)\<close>.\<close>

definition int_of_val :: "opt_val \<Rightarrow> py_error + int" where
  "int_of_val v = (case v of
     VInt i \<Rightarrow> Inr i
   | VText t \<Rightarrow> (case py_int10 t of None \<Rightarrow> Inl ValueError | Some i \<Rightarrow> Inr i)
   | VBytes bs \<Rightarrow> (case py_int10 (map unat bs) of None \<Rightarrow> Inl ValueError | Some i \<Rightarrow> Inr i)
   | _ \<Rightarrow> Inl TypeError)"

text \<open>\<open>_clamp_repr\<close>.\<close>

definition clamp_repr :: "check_env \<Rightarrow> opt_val \<Rightarrow> ustr" where
  "clamp_repr env v = (case v of
     VBytes bs \<Rightarrow> concat (map hex_byte (take 64 bs)) @ (if length bs > 64 then lit ''...'' else [])
   | _ \<Rightarrow> (let t = str_val env v in take 128 t @ (if length t > 128 then lit ''...'' else [])))"

definition IPV4_PATTERN :: re where
  "IPV4_PATTERN = re_seq [Bol, Rep 1 (Some 3) True (Cls is_digit),
     Rep 3 (Some 3) True (Seq (Cls (chr_is 46)) (Rep 1 (Some 3) True (Cls is_digit))), Eol]"

definition octet_ok :: "ustr \<Rightarrow> bool" where
  "octet_ok part \<longleftrightarrow> (case py_int10 part of None \<Rightarrow> False | Some i \<Rightarrow> 0 \<le> i \<and> i \<le> 255)"

definition looks_like_ipv4 :: "check_env \<Rightarrow> opt_val \<Rightarrow> bool" where
  "looks_like_ipv4 env v \<longleftrightarrow>
     (let t = str_val env v in re_match IPV4_PATTERN t \<noteq> None \<and> list_all octet_ok (split_on 46 t))"

definition text_is_clean :: "check_env \<Rightarrow> opt_val \<Rightarrow> bool" where
  "text_is_clean env v =
     (case (case v of VBytes bs \<Rightarrow> utf8_strict bs | _ \<Rightarrow> Inr (str_val env v)) of
        Inl _ \<Rightarrow> False
      | Inr t \<Rightarrow> list_all (\<lambda>c. printable env c \<or> c = 9) t)"

section \<open>The checks of single options\<close>

text \<open>A reason to report, or None; only the check of the requested options can raise.\<close>

definition check_single_ip :: "check_env \<Rightarrow> opt_val \<Rightarrow> ustr option" where
  "check_single_ip env v = (if looks_like_ipv4 env v then None else Some (lit ''invalid IP address: '' @ clamp_repr env v))"

definition check_ip_collection :: "check_env \<Rightarrow> opt_val \<Rightarrow> ustr option" where
  "check_ip_collection env v = (case v of
     VSeq vs \<Rightarrow> map_option (\<lambda>x. lit ''invalid IP in list: '' @ clamp_repr env x) (find (\<lambda>x. \<not> looks_like_ipv4 env x) vs)
   | _ \<Rightarrow> check_single_ip env v)"

definition check_printable_text :: "check_env \<Rightarrow> opt_val \<Rightarrow> ustr option" where
  "check_printable_text env v =
     (if text_is_clean env v then None else Some (lit ''non-printable bytes in value: '' @ clamp_repr env v))"

text \<open>The three checks of an integer with bounds.\<close>

definition check_msg_type :: "check_env \<Rightarrow> opt_val \<Rightarrow> ustr option" where
  "check_msg_type env v = (case int_of_val v of
     Inl _ \<Rightarrow> Some (lit ''non-integer message type: '' @ clamp_repr env v)
   | Inr n \<Rightarrow> if 1 \<le> n \<and> n \<le> 8 then None else Some (lit ''message type '' @ str_int n @ lit '' outside RFC range 1-8''))"

definition check_duration :: "check_env \<Rightarrow> opt_val \<Rightarrow> ustr option" where
  "check_duration env v = (case int_of_val v of
     Inl _ \<Rightarrow> Some (lit ''non-integer lease time: '' @ clamp_repr env v)
   | Inr n \<Rightarrow> if n \<le> 0 \<or> n > 0xFFFFFFFF
       then Some (lit ''lease time '' @ str_int n @ lit '' outside valid range 1-4294967295'') else None)"

definition check_max_msg_size :: "check_env \<Rightarrow> opt_val \<Rightarrow> ustr option" where
  "check_max_msg_size env v = (case int_of_val v of
     Inl _ \<Rightarrow> Some (lit ''non-integer max DHCP size: '' @ clamp_repr env v)
   | Inr n \<Rightarrow> if n < 576 \<or> n > 65535
       then Some (lit ''max DHCP size '' @ str_int n @ lit '' outside valid range 576-65535'') else None)"

text \<open>The loop over the requested options: \<open>int\<close> of an entry may raise.\<close>

fun first_bad_code :: "opt_val list \<Rightarrow> py_error + ustr option" where
  "first_bad_code [] = Inr None"
| "first_bad_code (v # vs) = (case int_of_val v of
     Inl e \<Rightarrow> Inl e
   | Inr n \<Rightarrow> if 1 \<le> n \<and> n \<le> 254 then first_bad_code vs
       else Inr (Some (lit ''option number '' @ str_int n @ lit '' outside valid range 1-254'')))"

definition check_param_request :: "opt_val \<Rightarrow> py_error + ustr option" where
  "check_param_request v = (case v of
     VSeq vs \<Rightarrow> first_bad_code vs
   | VBytes bs \<Rightarrow> first_bad_code (map (\<lambda>b. VInt (uint b)) bs)
   | _ \<Rightarrow> Inr None)"

definition check_nonempty :: "opt_val \<Rightarrow> ustr option" where
  "check_nonempty v = (if v = VNone \<or> v = VBytes [] \<or> v = VText [] then Some (lit ''empty value'') else None)"

section \<open>The registry\<close>

datatype field_check = SingleIp | IpCollection | PrintableText | ParamRequest | Duration | MsgType | MaxMsgSize | Nonempty

definition FIELD_RULES :: "(string \<times> string \<times> field_check) list" where
  "FIELD_RULES =
    [(''subnet_mask'', ''ipv4_address'', SingleIp), (''requested_addr'', ''ipv4_address'', SingleIp),
     (''server_id'', ''ipv4_address'', SingleIp), (''broadcast_address'', ''ipv4_address'', SingleIp),
     (''router'', ''ipv4_address_list'', IpCollection), (''name_server'', ''ipv4_address_list'', IpCollection),
     (''NIS_server'', ''ipv4_address_list'', IpCollection), (''NTP_server'', ''ipv4_address_list'', IpCollection),
     (''domain'', ''printable_string'', PrintableText), (''hostname'', ''printable_string'', PrintableText),
     (''vendor_class_id'', ''printable_string'', PrintableText), (''NIS_domain'', ''printable_string'', PrintableText),
     (''TFTP_server_name'', ''printable_string'', PrintableText), (''boot-file-name'', ''printable_string'', PrintableText),
     (''param_req_list'', ''byte_sequence_1_254'', ParamRequest), (''lease_time'', ''uint32_positive'', Duration),
     (''renewal_time'', ''uint32_positive'', Duration), (''rebinding_time'', ''uint32_positive'', Duration),
     (''message-type'', ''uint8_1_8'', MsgType), (''max_dhcp_size'', ''uint16_gte_576'', MaxMsgSize),
     (''client_id'', ''nonempty_bytes'', Nonempty)]"

definition RELAY_AGENT_OPTIONS :: "string list" where
  "RELAY_AGENT_OPTIONS = [''relay_agent_Information'']"

definition run_check :: "check_env \<Rightarrow> field_check \<Rightarrow> opt_val \<Rightarrow> py_error + ustr option" where
  "run_check env c v = (case c of
     SingleIp \<Rightarrow> Inr (check_single_ip env v) | IpCollection \<Rightarrow> Inr (check_ip_collection env v)
   | PrintableText \<Rightarrow> Inr (check_printable_text env v) | ParamRequest \<Rightarrow> check_param_request v
   | Duration \<Rightarrow> Inr (check_duration env v) | MsgType \<Rightarrow> Inr (check_msg_type env v)
   | MaxMsgSize \<Rightarrow> Inr (check_max_msg_size env v) | Nonempty \<Rightarrow> Inr (check_nonempty v))"

section \<open>One packet\<close>

record irregularity =
  ir_timestamp :: int
  ir_mac :: mac
  ir_ip :: string
  ir_option :: string
  ir_expected :: string
  ir_actual :: ustr
  ir_reason :: ustr

definition from_client :: "(string \<times> opt_val) list \<Rightarrow> bool" where
  "from_client opts \<longleftrightarrow> dict_get opts ''message-type'' \<in> (Some \<circ> VInt) ` {1, 3, 4, 7, 8}"

definition relay_pass :: "check_env \<Rightarrow> int \<Rightarrow> mac \<Rightarrow> string \<Rightarrow> (string \<times> opt_val) list \<Rightarrow> irregularity list" where
  "relay_pass env ts m ip opts =
     map (\<lambda>(n, v). \<lparr>ir_timestamp = ts, ir_mac = m, ir_ip = ip, ir_option = n, ir_expected = ''relay_only'',
            ir_actual = clamp_repr env v, ir_reason = lit ''relay agent option in client packet''\<rparr>)
       (filter (\<lambda>(n, v). n \<in> set RELAY_AGENT_OPTIONS \<and> from_client opts) opts)"

fun field_pass :: "check_env \<Rightarrow> int \<Rightarrow> mac \<Rightarrow> string \<Rightarrow> (string \<times> opt_val) list \<Rightarrow> py_error + irregularity list" where
  "field_pass env ts m ip [] = Inr []"
| "field_pass env ts m ip ((n, v) # opts) =
     (case dict_get FIELD_RULES n of
        None \<Rightarrow> field_pass env ts m ip opts
      | Some (label, c) \<Rightarrow> (case run_check env c v of
          Inl e \<Rightarrow> Inl e
        | Inr reason \<Rightarrow> (case field_pass env ts m ip opts of
            Inl e \<Rightarrow> Inl e
          | Inr irs \<Rightarrow> Inr ((case reason of None \<Rightarrow> [] | Some r \<Rightarrow>
              [\<lparr>ir_timestamp = ts, ir_mac = m, ir_ip = ip, ir_option = n, ir_expected = label,
                ir_actual = clamp_repr env v, ir_reason = r\<rparr>]) @ irs))))"

text \<open>\<open>inspect_dhcp_fields\<close> without the log.\<close>

definition inspect_fields :: "check_env \<Rightarrow> int \<Rightarrow> mac \<Rightarrow> string \<Rightarrow> (string \<times> opt_val) list \<Rightarrow> py_error + irregularity list" where
  "inspect_fields env ts m ip opts = (case field_pass env ts m ip opts of
     Inl e \<Rightarrow> Inl e | Inr irs \<Rightarrow> Inr (relay_pass env ts m ip opts @ irs))"

section \<open>The log\<close>

text \<open>The file and its archive, as texts of ASCII characters; None is no file.\<close>

record anomaly_log =
  log_current :: "ustr option"
  log_archive :: "ustr option"

definition ANOMALY_LOG_CEILING :: nat where
  "ANOMALY_LOG_CEILING = 10 * 1024 * 1024"

definition rotate :: "anomaly_log \<Rightarrow> anomaly_log" where
  "rotate l = (case log_current l of
     None \<Rightarrow> l
   | Some t \<Rightarrow> if length t > ANOMALY_LOG_CEILING then \<lparr>log_current = None, log_archive = Some t\<rparr> else l)"

definition persist_anomalies :: "(irregularity \<Rightarrow> ustr) \<Rightarrow> irregularity list \<Rightarrow> anomaly_log \<Rightarrow> anomaly_log" where
  "persist_anomalies to_line irs l =
     (let l = rotate l; old = (case log_current l of None \<Rightarrow> [] | Some t \<Rightarrow> t)
      in l\<lparr>log_current := Some (old @ concat (map (\<lambda>r. to_line r @ [10]) irs))\<rparr>)"

text \<open>\<open>inspect_dhcp_fields\<close>.\<close>

definition inspect_dhcp_fields ::
    "check_env \<Rightarrow> (irregularity \<Rightarrow> ustr) \<Rightarrow> int \<Rightarrow> (string \<times> opt_val) list \<Rightarrow> mac \<Rightarrow> string \<Rightarrow> anomaly_log \<Rightarrow>
       py_error + (irregularity list \<times> anomaly_log)" where
  "inspect_dhcp_fields env to_line ts opts m ip l = (case inspect_fields env ts m ip opts of
     Inl e \<Rightarrow> Inl e
   | Inr irs \<Rightarrow> Inr (irs, if irs = [] then l else persist_anomalies to_line irs l))"

section \<open>Into the findings\<close>

text \<open>\<open>_handle_dhcp_anomalies\<close> and \<open>_write_dhcp_anomaly_findings\<close>: a check that raised gives
  no finding.\<close>

definition write_irregularities :: "int \<Rightarrow> irregularity list \<Rightarrow> app \<Rightarrow> app" where
  "write_irregularities now irs a = foldl (\<lambda>a r. report_irregularity now a (ir_mac r, lit (ir_option r), ir_reason r)) a irs"

definition handle_dhcp_anomalies :: "int \<Rightarrow> py_error + (irregularity list \<times> anomaly_log) \<Rightarrow> app \<Rightarrow> app" where
  "handle_dhcp_anomalies now r a = (case r of Inl _ \<Rightarrow> a | Inr (irs, l) \<Rightarrow> write_irregularities now irs a)"

end
