(* ===== verification/ReportProps.thy ===== *)
theory ReportProps
  imports Reports DhcpCheck "HOL-Library.Multiset" "HOL-Library.Sublist"
begin

text \<open>
  Properties of the reports: the log of DHCP irregularities, the check of option values, the timeline and
  the alert engine beside the finding rules.
\<close>

section \<open>The log of irregularities\<close>

definition batch_text :: "(irregularity \<Rightarrow> ustr) \<Rightarrow> irregularity list \<Rightarrow> ustr" where
  "batch_text to_line irs = concat (map (\<lambda>r. to_line r @ [10]) irs)"

definition file_text :: "ustr option \<Rightarrow> ustr" where
  "file_text c = (case c of None \<Rightarrow> [] | Some t \<Rightarrow> t)"

definition log_all :: "(irregularity \<Rightarrow> ustr) \<Rightarrow> irregularity list list \<Rightarrow> anomaly_log" where
  "log_all to_line bs = foldl (\<lambda>l b. persist_anomalies to_line b l) \<lparr>log_current = None, log_archive = None\<rparr> bs"

text \<open>The two files together are the end of what was written, and neither outgrows the ceiling by more than
  one batch.\<close>

definition log_ok :: "nat \<Rightarrow> ustr \<Rightarrow> anomaly_log \<Rightarrow> bool" where
  "log_ok n written l \<longleftrightarrow> suffix (file_text (log_archive l) @ file_text (log_current l)) written \<and>
     length (file_text (log_current l)) \<le> ANOMALY_LOG_CEILING + n \<and> length (file_text (log_archive l)) \<le> ANOMALY_LOG_CEILING + n"

lemma rotate_ok: "log_ok n written l \<Longrightarrow> log_ok n written (rotate l) \<and> length (file_text (log_current (rotate l))) \<le> ANOMALY_LOG_CEILING"
  by (cases "log_current l") (auto simp: rotate_def log_ok_def file_text_def suffix_def)

lemma persist_ok:
  assumes "log_ok n written l" "length (batch_text to_line b) \<le> n"
  shows "log_ok n (written @ batch_text to_line b) (persist_anomalies to_line b l)"
proof -
  have "file_text (log_current (persist_anomalies to_line b l)) = file_text (log_current (rotate l)) @ batch_text to_line b"
    by (simp add: persist_anomalies_def file_text_def batch_text_def Let_def)
  moreover have "log_archive (persist_anomalies to_line b l) = log_archive (rotate l)"
    by (simp add: persist_anomalies_def Let_def)
  ultimately show ?thesis
    using rotate_ok [OF assms(1)] assms(2) by (auto simp: log_ok_def suffix_def)
qed

lemma log_all_ok:
  "\<forall>b \<in> set bs. length (batch_text to_line b) \<le> n \<Longrightarrow> log_ok n (concat (map (batch_text to_line) bs)) (log_all to_line bs)"
proof (induction bs rule: rev_induct)
  case Nil then show ?case by (simp add: log_ok_def log_all_def file_text_def)
next
  case (snoc b bs)
  then show ?case using persist_ok [of n "concat (map (batch_text to_line) bs)" "log_all to_line bs" to_line b]
    by (simp add: log_all_def)
qed

text \<open>the log of DHCP irregularities.  After any number of batches, the archive followed by the current file is the
  end of everything that was written, in order, and each of the two files is at most the ceiling of ten megabytes and
  one batch long.\<close>

theorem anomaly_log_rotates:
  assumes "\<forall>b \<in> set bs. length (batch_text to_line b) \<le> n"
  shows "suffix (file_text (log_archive (log_all to_line bs)) @ file_text (log_current (log_all to_line bs)))
      (concat (map (batch_text to_line) bs)) \<and>
    length (file_text (log_current (log_all to_line bs))) \<le> ANOMALY_LOG_CEILING + n \<and>
    length (file_text (log_archive (log_all to_line bs))) \<le> ANOMALY_LOG_CEILING + n"
  using log_all_ok [OF assms] by (simp add: log_ok_def)

definition SAMPLE_IRREGULARITY :: irregularity where
  "SAMPLE_IRREGULARITY = \<lparr>ir_timestamp = 0, ir_mac = ''aa'', ir_ip = ''10.0.0.7'', ir_option = ''lease_time'',
     ir_expected = ''uint32_positive'', ir_actual = lit ''0'', ir_reason = lit ''lease time 0''\<rparr>"

theorem anomaly_log_rotates_witness:
  "suffix (file_text (log_archive (log_all ir_actual [[SAMPLE_IRREGULARITY], [SAMPLE_IRREGULARITY]])) @
      file_text (log_current (log_all ir_actual [[SAMPLE_IRREGULARITY], [SAMPLE_IRREGULARITY]])))
      (concat (map (batch_text ir_actual) [[SAMPLE_IRREGULARITY], [SAMPLE_IRREGULARITY]])) \<and>
    length (file_text (log_current (log_all ir_actual [[SAMPLE_IRREGULARITY], [SAMPLE_IRREGULARITY]]))) \<le> ANOMALY_LOG_CEILING + 2 \<and>
    length (file_text (log_archive (log_all ir_actual [[SAMPLE_IRREGULARITY], [SAMPLE_IRREGULARITY]]))) \<le> ANOMALY_LOG_CEILING + 2"
  by (rule anomaly_log_rotates) (simp add: batch_text_def SAMPLE_IRREGULARITY_def lit_def)

section \<open>Option values\<close>

text \<open>A lease time is accepted exactly in the range of 32 bits, zero excluded; that of an infinite lease is.\<close>

lemma duration_range: "check_duration env (VInt n) = None \<longleftrightarrow> 1 \<le> n \<and> n < 2 ^ 32"
  by (auto simp: check_duration_def int_of_val_def)

text \<open>The requested options as the packet library gives them never raise.\<close>

lemma param_request_ints: "\<exists>r. check_param_request (VSeq (map VInt ns)) = Inr r"
proof -
  have "\<exists>r. first_bad_code (map VInt ns) = Inr r"
    by (induction ns) (auto simp: int_of_val_def)
  then show ?thesis by (simp add: check_param_request_def)
qed

section \<open>Timeline\<close>

lemma newest_events_sorted: "sorted_wrt (\<lambda>a b. tl_time b \<le> tl_time a) (newest_events es)"
proof -
  have "sorted (map tl_time (sort_key tl_time (rev es)))" by simp
  then show ?thesis
    by (simp add: newest_events_def sorted_wrt_rev sorted_map)
qed

lemma newest_events_mset: "mset (newest_events es) = mset es"
  by (simp add: newest_events_def)

text \<open>the timeline of a device shows the newest events.  It is in descending order of time, it has as many events as
  the limit allows, each row with a time stamp gives one event, and no event that is left out is newer than one
  shown.\<close>

theorem timeline_newest:
  assumes es: "es = timeline_events shown device obs snaps arps finds" and n: "0 \<le> limit"
    and out: "out = build_timeline shown limit device obs snaps arps finds"
  shows "sorted_wrt (\<lambda>a b. tl_time b \<le> tl_time a) out \<and> length out = min (nat limit) (length es) \<and>
    (\<exists>rest. mset (out @ rest) = mset es \<and> (\<forall>x \<in> set out. \<forall>y \<in> set rest. tl_time y \<le> tl_time x))"
proof -
  have t: "out = take (nat limit) (newest_events es)"
    using n by (simp add: out es build_timeline_def slice_to_def)
  have s: "sorted_wrt (\<lambda>a b. tl_time b \<le> tl_time a) (out @ drop (nat limit) (newest_events es))"
    using newest_events_sorted [of es] by (simp add: t)
  let ?rest = "drop (nat limit) (newest_events es)"
  have m: "mset (out @ ?rest) = mset es"
    using newest_events_mset [of es] by (simp only: t append_take_drop_id)
  have "length out = min (nat limit) (length es)"
    using arg_cong [OF newest_events_mset [of es], of size] by (simp add: t)
  moreover have "\<forall>x \<in> set out. \<forall>y \<in> set ?rest. tl_time y \<le> tl_time x" "sorted_wrt (\<lambda>a b. tl_time b \<le> tl_time a) out"
    using s unfolding sorted_wrt_append by blast+
  ultimately show ?thesis using m by blast
qed

theorem timeline_newest_witness:
  "\<forall>shown. \<exists>out. out = build_timeline shown 1 (Some (Some (lit ''2024''), None)) [] [] []
       [\<lparr>tf_time = Some (lit ''2025''), tf_type = lit ''new_host'', tf_severity = lit ''info'', tf_message = []\<rparr>] \<and>
     sorted_wrt (\<lambda>a b. tl_time b \<le> tl_time a) out \<and> length out = 1"
proof (intro allI)
  fix shown
  let ?f = "[\<lparr>tf_time = Some (lit ''2025''), tf_type = lit ''new_host'', tf_severity = lit ''info'', tf_message = []\<rparr>]"
  let ?out = "build_timeline shown 1 (Some (Some (lit ''2024''), None)) [] [] [] ?f"
  have "length (timeline_events shown (Some (Some (lit ''2024''), None)) [] [] [] ?f) = 2"
    by (simp add: timeline_events_def first_event_def finding_event_def truthy_def lit_def)
  then show "\<exists>out. out = ?out \<and> sorted_wrt (\<lambda>a b. tl_time b \<le> tl_time a) out \<and> length out = 1"
    using timeline_newest [OF refl, of 1 ?out shown "Some (Some (lit ''2024''), None)" "[]" "[]" "[]" ?f] by simp
qed

section \<open>The alert engine beside the finding rules\<close>

text \<open>With the three rules registered the engine only reports a randomised address, at its first sight.\<close>

lemma alert_engine_silent:
  assumes "{''new_host'', ''identity_shift'', ''low_certainty''} \<subseteq> set registered"
    and "evaluate_alerts now mt registered d e = (Inr als, e')" "al \<in> set als"
  shows "al_type al = MAC_RANDOMIZED \<and> al_mac al = d_mac d \<and> get_device (d_mac d) (ae_store e) = None \<and> als = [al]"
  using assms by (auto simp: evaluate_alerts_def Let_def new_device_alert_def os_change_alert_def unclassified_alert_def
      randomized_alert_def new_alert_def split: if_splits prod.splits sum.splits)

end
