(* ===== verification/Dispatch.thy ===== *)
theory Dispatch
  imports Tables Packets
begin

text \<open>
  \<open>pipeline.py\<close>: the dispatcher that spreads packets over worker queues and the committer that writes
  store operations in batches.  The hash of an address is an argument; how many operations a batch takes
  depends on the clock and is an argument too.
\<close>

section \<open>Packet distribution\<close>

record dispatcher =
  shard_queues :: "captured_packet list list"
  dropped_count :: nat
  max_queue_size :: nat

definition new_dispatcher :: "nat \<Rightarrow> nat \<Rightarrow> dispatcher" where
  "new_dispatcher shard_count bound = \<lparr>shard_queues = replicate shard_count [], dropped_count = 0, max_queue_size = bound\<rparr>"

definition num_workers :: "dispatcher \<Rightarrow> nat" where
  "num_workers d = length (shard_queues d)"

definition shard_for :: "(mac \<Rightarrow> int) \<Rightarrow> dispatcher \<Rightarrow> captured_packet \<Rightarrow> nat" where
  "shard_for hash d p = nat (hash (hw_addr p) mod int (num_workers d))"

text \<open>\<open>route\<close>; a queue of size 0 has no bound.\<close>

definition route :: "(mac \<Rightarrow> int) \<Rightarrow> dispatcher \<Rightarrow> captured_packet \<Rightarrow> dispatcher" where
  "route hash d p =
     (let i = shard_for hash d p; q = shard_queues d ! i
      in if max_queue_size d = 0 \<or> length q < max_queue_size d
         then d\<lparr>shard_queues := (shard_queues d)[i := q @ [p]]\<rparr>
         else d\<lparr>dropped_count := Suc (dropped_count d)\<rparr>)"

text \<open>A worker takes the oldest packet of its queue.\<close>

definition take_packet :: "nat \<Rightarrow> dispatcher \<Rightarrow> captured_packet option \<times> dispatcher" where
  "take_packet i d = (case shard_queues d ! i of
     [] \<Rightarrow> (None, d) | p # q \<Rightarrow> (Some p, d\<lparr>shard_queues := (shard_queues d)[i := q]\<rparr>))"

section \<open>Store operations\<close>

record stored_observation =
  o_device_mac :: mac
  o_source_type :: string
  o_raw_data :: ustr
  o_match_result :: ustr
  o_confidence :: int
  o_timestamp :: int
  o_interface :: "string option"
  o_network :: "string option"

datatype batch_op = RecordSighting stored_observation | UpdateHost device | RecordFinding alert

record batch_db =
  bd_store :: store
  bd_tables :: tables
  bd_observations :: "stored_observation list"

text \<open>\<open>execute\<close>: the database after the statements, and whether they succeeded.  An operation in the
  queue is paired with the reading of the clock at its execution.\<close>

type_synonym timed_op = "int \<times> batch_op"

definition execute_op :: "int \<Rightarrow> batch_op \<Rightarrow> batch_db \<Rightarrow> batch_db \<times> bool" where
  "execute_op now x db = (case x of
     RecordSighting obs \<Rightarrow> (db\<lparr>bd_observations := bd_observations db @ [obs]\<rparr>, True)
   | UpdateHost d \<Rightarrow> (case upsert_device now d (bd_store db) of (s, r) \<Rightarrow> (db\<lparr>bd_store := s\<rparr>, r = Inr ()))
   | RecordFinding al \<Rightarrow> (db\<lparr>bd_tables := add_alert al (bd_tables db)\<rparr>, True))"

fun execute_ops :: "timed_op list \<Rightarrow> batch_db \<Rightarrow> batch_db \<times> bool" where
  "execute_ops [] db = (db, True)"
| "execute_ops ((now, x) # xs) db =
     (case execute_op now x db of (db', ok) \<Rightarrow> if ok then execute_ops xs db' else (db', False))"

text \<open>\<open>transaction\<close>: a failure rolls the tables back, not the set of known addresses in memory.\<close>

definition roll_back :: "batch_db \<Rightarrow> batch_db \<Rightarrow> batch_db" where
  "roll_back old new = old\<lparr>bd_store := (bd_store old)\<lparr>s_known := s_known (bd_store new)\<rparr>\<rparr>"

definition commit_batch :: "timed_op list \<Rightarrow> batch_db \<Rightarrow> batch_db" where
  "commit_batch xs db = (case execute_ops xs db of (db', ok) \<Rightarrow> if ok then db' else roll_back db db')"

section \<open>Batches\<close>

record committer =
  pending :: "timed_op list"
  batch_cap :: nat
  committed :: batch_db

definition new_committer :: "batch_db \<Rightarrow> committer" where
  "new_committer db = \<lparr>pending = [], batch_cap = 50, committed = db\<rparr>"

definition enqueue_ops :: "timed_op list \<Rightarrow> committer \<Rightarrow> committer" where
  "enqueue_ops xs c = c\<lparr>pending := pending c @ xs\<rparr>"

text \<open>\<open>_collect_batch\<close> when \<open>n\<close> operations arrive in its time: at most the cap of them.\<close>

definition collect_batch :: "nat \<Rightarrow> committer \<Rightarrow> timed_op list \<times> committer" where
  "collect_batch n c = (let k = min n (batch_cap c) in (take k (pending c), c\<lparr>pending := drop k (pending c)\<rparr>))"

definition run_once :: "nat \<Rightarrow> committer \<Rightarrow> committer" where
  "run_once n c =
     (case collect_batch n c of (batch, c) \<Rightarrow>
        if batch = [] then c else c\<lparr>committed := commit_batch batch (committed c)\<rparr>)"

definition flush :: "committer \<Rightarrow> committer" where
  "flush c =
     (if pending c = [] then c
      else c\<lparr>pending := [], committed := commit_batch (pending c) (committed c)\<rparr>)"

end
