(* ===== verification/DispatchProps.thy ===== *)
theory DispatchProps
  imports Dispatch
begin

text \<open>
  The dispatcher and the committer of \<open>Dispatch\<close>: where routed packets are and in which order, and
  that batches do what their operations do one by one.
\<close>

section \<open>Routing\<close>

lemma shard_bound: "num_workers d \<noteq> 0 \<Longrightarrow> shard_for hash d p < num_workers d"
  by (simp add: shard_for_def nat_less_iff)

lemma route_simps [simp]:
  "num_workers (route hash d p) = num_workers d" "max_queue_size (route hash d p) = max_queue_size d"
  by (simp_all add: route_def num_workers_def Let_def)

lemma shard_route [simp]: "shard_for hash (route hash d p) = shard_for hash d"
  by (simp add: shard_for_def fun_eq_iff)

text \<open>What the queues hold after packets were routed into an empty dispatcher and none was taken.\<close>

definition holds_oldest :: "(mac \<Rightarrow> int) \<Rightarrow> captured_packet list \<Rightarrow> dispatcher \<Rightarrow> bool" where
  "holds_oldest hash ps d \<longleftrightarrow>
     (\<forall>i < num_workers d. shard_queues d ! i = take (max_queue_size d) (filter (\<lambda>p. shard_for hash d p = i) ps)) \<and>
     dropped_count d + sum_list (map length (shard_queues d)) = length ps"

lemma sum_list_update_nat:
  "i < length ns \<Longrightarrow> sum_list (ns[i := n]) + ns ! i = sum_list ns + (n :: nat)"
  by (induction ns arbitrary: i) (auto split: nat.splits)

lemma route_holds:
  assumes h: "holds_oldest hash ps d" and n: "num_workers d \<noteq> 0" "max_queue_size d \<noteq> 0"
  shows "holds_oldest hash (ps @ [p]) (route hash d p)"
proof -
  let ?i = "shard_for hash d p"
  let ?q = "shard_queues d ! ?i"
  have i: "?i < length (shard_queues d)" using shard_bound [OF n(1)] by (simp add: num_workers_def)
  then have q: "?q = take (max_queue_size d) (filter (\<lambda>x. shard_for hash d x = ?i) ps)"
    using h by (simp add: holds_oldest_def num_workers_def)
  have len: "length ?q = min (max_queue_size d) (length (filter (\<lambda>x. shard_for hash d x = ?i) ps))"
    using arg_cong [OF q, of length] by simp
  show ?thesis
  proof (cases "length ?q < max_queue_size d")
    case True
    then have r: "route hash d p = d\<lparr>shard_queues := (shard_queues d)[?i := ?q @ [p]]\<rparr>"
      by (simp add: route_def Let_def)
    have "length (filter (\<lambda>x. shard_for hash d x = ?i) ps) < max_queue_size d"
      using True len by linarith
    then have "(shard_queues d)[?i := ?q @ [p]] ! j =
        take (max_queue_size d) (filter (\<lambda>x. shard_for hash d x = j) (ps @ [p]))" if "j < num_workers d" for j
      using that h i q by (cases "j = ?i") (auto simp: holds_oldest_def num_workers_def)
    moreover have "sum_list (map length ((shard_queues d)[?i := ?q @ [p]])) = Suc (sum_list (map length (shard_queues d)))"
      using sum_list_update_nat [of ?i "map length (shard_queues d)" "Suc (length ?q)"] i by (simp add: map_update)
    ultimately show ?thesis
      using h shard_route [of hash d p] unfolding r by (simp add: holds_oldest_def num_workers_def)
  next
    case False
    then have r: "route hash d p = d\<lparr>dropped_count := Suc (dropped_count d)\<rparr>"
      using n(2) by (simp add: route_def Let_def)
    have "max_queue_size d \<le> length (filter (\<lambda>x. shard_for hash d x = ?i) ps)"
      using False len by linarith
    then have "take (max_queue_size d) (filter (\<lambda>x. shard_for hash d x = j) (ps @ [p])) =
        take (max_queue_size d) (filter (\<lambda>x. shard_for hash d x = j) ps)" for j
      by (cases "j = ?i") auto
    then show ?thesis
      using h shard_route [of hash d p] unfolding r by (simp add: holds_oldest_def num_workers_def)
  qed
qed

text \<open>packets keep their order per device.  Routed into a new dispatcher, every packet of one hardware address goes
  to the same queue; each queue holds the oldest of the packets hashed to it, in their order, up to its bound; and
  the packets that are in no queue are exactly those counted as dropped.\<close>

theorem routed_in_order:
  assumes "0 < shards" "0 < bound" and d: "d = foldl (route hash) (new_dispatcher shards bound) ps"
  shows "(\<forall>i < shards. shard_queues d ! i = take bound (filter (\<lambda>p. nat (hash (hw_addr p) mod int shards) = i) ps)) \<and>
    dropped_count d + sum_list (map length (shard_queues d)) = length ps"
proof -
  have "holds_oldest hash ps (foldl (route hash) (new_dispatcher shards bound) ps) \<and>
      num_workers (foldl (route hash) (new_dispatcher shards bound) ps) = shards \<and>
      max_queue_size (foldl (route hash) (new_dispatcher shards bound) ps) = bound"
  proof (induction ps rule: rev_induct)
    case Nil
    show ?case by (simp add: holds_oldest_def new_dispatcher_def num_workers_def sum_list_replicate)
  next
    case (snoc p ps)
    then show ?case using route_holds [of hash ps _ p] assms(1,2) by simp
  qed
  then show ?thesis
    by (simp add: d holds_oldest_def shard_for_def)
qed

definition SAMPLE_FRAME :: "mac \<Rightarrow> captured_packet" where
  "SAMPLE_FRAME m = captured ''arp'' m [] None []"

theorem routed_in_order_witness:
  "\<exists>d. d = foldl (route (\<lambda>m. int (length m))) (new_dispatcher 2 1) [SAMPLE_FRAME ''a'', SAMPLE_FRAME ''bb'', SAMPLE_FRAME ''a''] \<and>
     shard_queues d ! 1 = [SAMPLE_FRAME ''a''] \<and> dropped_count d + sum_list (map length (shard_queues d)) = 3"
  using routed_in_order [of 2 1 _ "\<lambda>m. int (length m)" "[SAMPLE_FRAME ''a'', SAMPLE_FRAME ''bb'', SAMPLE_FRAME ''a'']", OF _ _ refl]
  by (simp add: SAMPLE_FRAME_def captured_def)

section \<open>Batches\<close>

lemma execute_append:
  "execute_ops (xs @ ys) db = (case execute_ops xs db of (db', ok) \<Rightarrow> if ok then execute_ops ys db' else (db', False))"
  by (induction xs arbitrary: db) (auto split: prod.splits)

lemma execute_prefix:
  assumes "snd (execute_ops (xs @ ys) db)"
  shows "snd (execute_ops xs db)" "execute_ops (xs @ ys) db = execute_ops ys (fst (execute_ops xs db))"
  using assms by (auto simp: execute_append split: prod.splits if_splits)

lemma commit_ok: "snd (execute_ops xs db) \<Longrightarrow> commit_batch xs db = fst (execute_ops xs db)"
  by (simp add: commit_batch_def split_beta)

text \<open>What is committed and what is still pending, together.\<close>

definition outcome_of :: "committer \<Rightarrow> batch_db \<times> bool" where
  "outcome_of c = execute_ops (pending c) (committed c)"

lemma run_once_outcome:
  assumes "snd (outcome_of c)" shows "outcome_of (run_once n c) = outcome_of c"
proof -
  let ?k = "min n (batch_cap c)"
  have p: "pending c = take ?k (pending c) @ drop ?k (pending c)" by simp
  have "snd (execute_ops (take ?k (pending c) @ drop ?k (pending c)) (committed c))"
    using assms by (simp only: outcome_of_def append_take_drop_id)
  note e = execute_prefix [OF this]
  show ?thesis
  proof (cases "take ?k (pending c) = []")
    case True
    then have "drop ?k (pending c) = pending c" using p by (metis append_Nil)
    then show ?thesis using True by (simp add: run_once_def collect_batch_def outcome_of_def Let_def)
  next
    case False
    then have r: "run_once n c = c\<lparr>pending := drop ?k (pending c),
        committed := fst (execute_ops (take ?k (pending c)) (committed c))\<rparr>"
      by (simp add: run_once_def collect_batch_def Let_def commit_ok [OF e(1)])
    have "outcome_of (run_once n c) = execute_ops (drop ?k (pending c)) (fst (execute_ops (take ?k (pending c)) (committed c)))"
      unfolding r outcome_of_def by simp
    also have "\<dots> = execute_ops (take ?k (pending c) @ drop ?k (pending c)) (committed c)" by (rule e(2) [symmetric])
    also have "\<dots> = outcome_of c" unfolding outcome_of_def append_take_drop_id ..
    finally show ?thesis .
  qed
qed

lemma run_outcome: "snd (outcome_of c) \<Longrightarrow> outcome_of (foldl (\<lambda>c n. run_once n c) c ns) = outcome_of c"
  by (induction ns arbitrary: c) (simp_all add: run_once_outcome)

text \<open>batches are invisible.  When no operation fails, the database after any division of the operations into
  batches and the final flush is the one the operations leave when they are executed one by one.\<close>

theorem batches_equal_single_writes:
  assumes "snd (execute_ops xs db)"
  shows "committed (flush (foldl (\<lambda>c n. run_once n c) (enqueue_ops xs (new_committer db)) ns)) = fst (execute_ops xs db)"
proof -
  let ?c = "enqueue_ops xs (new_committer db)"
  let ?d = "foldl (\<lambda>c n. run_once n c) ?c ns"
  have c: "outcome_of ?c = execute_ops xs db"
    by (simp add: outcome_of_def enqueue_ops_def new_committer_def)
  then have d: "outcome_of ?d = execute_ops xs db"
    using run_outcome [of ?c ns] assms by simp
  then have ok: "snd (execute_ops (pending ?d) (committed ?d))"
    using assms by (simp add: outcome_of_def)
  have "committed (flush ?d) = fst (outcome_of ?d)"
    using commit_ok [OF ok] by (simp add: flush_def outcome_of_def)
  then show ?thesis by (simp add: d)
qed

text \<open>A failing operation takes the other operations of its batch with it: the tables are as before, but an address
  that was written for the first time stays known in memory.\<close>

lemma failed_batch_lost:
  assumes "\<not> snd (execute_ops xs db)"
  shows "bd_tables (commit_batch xs db) = bd_tables db" "bd_observations (commit_batch xs db) = bd_observations db"
    "s_devices (bd_store (commit_batch xs db)) = s_devices (bd_store db)"
    "s_known (bd_store (commit_batch xs db)) = s_known (bd_store (fst (execute_ops xs db)))"
  using assms by (simp_all add: commit_batch_def roll_back_def split_beta)

definition SAMPLE_OPS :: "timed_op list" where
  "SAMPLE_OPS = [(1, UpdateHost (new_device ''aa'' 1 1)), (2, RecordFinding (new_alert 2 ''aa'' NEW_DEVICE INFO [] None))]"

lemma sample_ops_succeed: "snd (execute_ops SAMPLE_OPS \<lparr>bd_store = empty_store, bd_tables = empty_tables, bd_observations = []\<rparr>)"
  by (simp add: SAMPLE_OPS_def execute_op_def upsert_device_def write_device_def note_device_write_def new_device_def
      valid_criticality_def empty_store_def Let_def split_beta split: sum.split)

theorem batches_equal_single_writes_witness:
  "committed (flush (foldl (\<lambda>c n. run_once n c) (enqueue_ops SAMPLE_OPS (new_committer
      \<lparr>bd_store = empty_store, bd_tables = empty_tables, bd_observations = []\<rparr>)) [1])) =
    fst (execute_ops SAMPLE_OPS \<lparr>bd_store = empty_store, bd_tables = empty_tables, bd_observations = []\<rparr>)"
  by (rule batches_equal_single_writes [OF sample_ops_succeed])

end
