(* ===== verification/ProbeScan.thy ===== *)
theory ProbeScan
  imports Pipeline Tables
begin

text \<open>
  Active probing: the scanner of \<open>probe/engine.py\<close> and the scheduler of \<open>probe/scheduler.py\<close>.
  What a socket does is an argument: \<open>open_socket\<close> gives a connection or None, \<open>recv\<close> the
  bytes read or None when reading fails.  A plugin is the class the registry holds; \<open>pl_probe\<close> is its
  method \<open>probe\<close>, None when the class has none: the plugins of \<open>probe/plugins\<close> derive from
  \<open>ServiceProbe\<close> of \<open>probe/base.py\<close>, whose method is called \<open>identify\<close>.
\<close>

section \<open>Results and plugins\<close>

record probe_result =
  pr_service :: ustr
  pr_version :: "ustr option"
  pr_banner :: "ustr option"
  pr_confidence :: int
  pr_metadata :: dict
  pr_tls :: bool

record 'c plugin =
  pl_name :: string
  pl_protocol :: string
  pl_ports :: "nat list"
  pl_probe :: "('c \<Rightarrow> string \<Rightarrow> nat \<Rightarrow> py_error + probe_result option) option"
  pl_identify :: "('c \<Rightarrow> py_error + probe_result option) option"

record 'c network =
  open_socket :: "string \<Rightarrow> nat \<Rightarrow> string \<Rightarrow> 'c option"
  recv :: "'c \<Rightarrow> nat \<Rightarrow> bytes option"

section \<open>The scanner\<close>

text \<open>\<open>_rank_plugins_by_port\<close>: the plugins of the port first, each group in order of
  registration.\<close>

definition rank_plugins :: "nat \<Rightarrow> 'c plugin list \<Rightarrow> 'c plugin list" where
  "rank_plugins port registry = filter (\<lambda>h. port \<in> set (pl_ports h)) registry @ filter (\<lambda>h. port \<notin> set (pl_ports h)) registry"

definition execute_plugin :: "'c network \<Rightarrow> 'c plugin \<Rightarrow> string \<Rightarrow> nat \<Rightarrow> string \<Rightarrow> py_error + probe_result option" where
  "execute_plugin net h host port proto = (case open_socket net host port proto of
     None \<Rightarrow> Inr None
   | Some c \<Rightarrow> (case pl_probe h of None \<Rightarrow> Inl AttributeError | Some f \<Rightarrow> f c host port))"

text \<open>\<open>_grab_raw_banner\<close>.\<close>

definition grab_raw_banner :: "'c network \<Rightarrow> string \<Rightarrow> nat \<Rightarrow> string \<Rightarrow> probe_result option" where
  "grab_raw_banner net host port proto = (case open_socket net host port proto of
     None \<Rightarrow> None
   | Some c \<Rightarrow> (case recv net c 1024 of
       None \<Rightarrow> None
     | Some raw \<Rightarrow> (let t = strip (utf8_replace raw)
         in if raw = [] \<or> t = [] then None
            else Some \<lparr>pr_service = lit ''unknown'', pr_version = None, pr_banner = Some t, pr_confidence = 20,
                   pr_metadata = [(''method'', pstr ''raw_banner'')], pr_tls = False\<rparr>)))"

text \<open>The loop over the candidates: an exception of a plugin is passed over.\<close>

fun first_hit :: "'c network \<Rightarrow> 'c plugin list \<Rightarrow> string \<Rightarrow> nat \<Rightarrow> string \<Rightarrow> probe_result option" where
  "first_hit net [] host port proto = None"
| "first_hit net (h # hs) host port proto = (case execute_plugin net h host port proto of
     Inr (Some r) \<Rightarrow> Some r | _ \<Rightarrow> first_hit net hs host port proto)"

definition scan_service :: "'c network \<Rightarrow> 'c plugin list \<Rightarrow> string \<Rightarrow> nat \<Rightarrow> nat option \<Rightarrow> string \<Rightarrow> probe_result option" where
  "scan_service net registry host port port_hint proto =
     (let effective = (case port_hint of None \<Rightarrow> port | Some q \<Rightarrow> q);
          candidates = filter (\<lambda>h. pl_protocol h = proto) (rank_plugins effective registry)
      in case first_hit net candidates host port proto of
           Some r \<Rightarrow> Some r | None \<Rightarrow> grab_raw_banner net host port proto)"

text \<open>A plugin as the package defines them: with \<open>identify\<close> and without \<open>probe\<close>.\<close>

definition bundled :: "'c plugin \<Rightarrow> bool" where
  "bundled h \<longleftrightarrow> pl_probe h = None \<and> pl_identify h \<noteq> None"

section \<open>The scheduler\<close>

text \<open>\<open>schedule\<close>: the tables, and whether a probe is started.  The stored time has whole seconds.\<close>

definition within_cooldown :: "int \<Rightarrow> int \<Rightarrow> mac \<Rightarrow> nat \<Rightarrow> string \<Rightarrow> tables \<Rightarrow> bool" where
  "within_cooldown now cooldown m port proto t = (case dict_get (t_probes t) (m, port, proto) of
     None \<Rightarrow> False
   | Some r \<Rightarrow> (case pt_last_probed r of None \<Rightarrow> False | Some lp \<Rightarrow> now - lp < cooldown * 1000000))"

definition schedule :: "int \<Rightarrow> int \<Rightarrow> mac \<Rightarrow> string \<Rightarrow> nat \<Rightarrow> string \<Rightarrow> tables \<Rightarrow> tables \<times> bool" where
  "schedule now cooldown m ip port proto t =
     (if within_cooldown now cooldown m port proto t then (t, False)
      else (upsert_probe_target m ip port proto t, ip \<noteq> []))"

text \<open>\<open>probe_target\<close>; \<open>to_json\<close> renders the result for its column.\<close>

definition probe_target_run ::
    "(probe_result \<Rightarrow> ustr) \<Rightarrow> int \<Rightarrow> 'c network \<Rightarrow> 'c plugin list \<Rightarrow> mac \<Rightarrow> string \<Rightarrow> nat \<Rightarrow> string \<Rightarrow> tables \<Rightarrow>
       tables \<times> probe_result option" where
  "probe_target_run to_json now net registry m ip port proto t =
     (let t = update_probe_result now m port proto ''probing'' None t;
          r = scan_service net registry ip port None proto
      in (case r of
            Some x \<Rightarrow> update_probe_result now m port proto ''completed'' (Some (to_json x)) t
          | None \<Rightarrow> update_probe_result now m port proto ''failed'' None t, r))"

definition text_value :: "pyval \<Rightarrow> ustr option" where
  "text_value v = (case v of PStr t \<Rightarrow> Some t | _ \<Rightarrow> None)"

definition opt_pyval :: "ustr option \<Rightarrow> pyval" where
  "opt_pyval v = (case v of None \<Rightarrow> PNone | Some t \<Rightarrow> PStr t)"

text \<open>\<open>result_to_match\<close> on metadata whose values are texts.\<close>

definition result_to_match :: "probe_result \<Rightarrow> fp_match" where
  "result_to_match r =
     (let m = (\<lambda>k. text_value (get_or (pr_metadata r) k PNone))
      in \<lparr>fm_source = ''active_probe'', fm_match_type = ''exact'', fm_confidence = of_int (pr_confidence r) / 100,
          fm_device_type = m ''device_type'', fm_category = None, fm_manufacturer = or_else (m ''vendor'') (m ''manufacturer''),
          fm_model = None, fm_os_family = or_else (m ''os_hint'') (m ''os_family''), fm_os_version = pr_version r,
          fm_vendor = None,
          fm_raw = [(''service'', PStr (pr_service r)), (''version'', opt_pyval (pr_version r)),
                    (''banner'', opt_pyval (pr_banner r)), (''tls'', PBool (pr_tls r)), (''metadata'', PDict (pr_metadata r))]\<rparr>)"

end
