(* ===== verification/ProbeProps.thy ===== *)
theory ProbeProps
  imports ProbeScan
begin

text \<open>Properties of active probing: the order of the plugins, what the bundled plugins find, and the cooldown.\<close>

lemma first_hit_bundled:
  "\<forall>h \<in> set hs. pl_probe h = None \<Longrightarrow> first_hit net hs host port proto = None"
  by (induction hs) (auto simp: execute_plugin_def split: option.split)

text \<open>C34: the bundled plugins identify nothing.  The scanner calls a method no plugin of the package has, takes the
  exception for a plugin that declines, and ends with the raw banner for every target: a service that does not speak
  first is never found, and no result has a version, a vendor or a confidence other than 20.\<close>

theorem bundled_plugins_identify_nothing:
  assumes "\<forall>h \<in> set registry. bundled h"
  shows "scan_service net registry host port hint proto = grab_raw_banner net host port proto \<and>
    (\<forall>r. scan_service net registry host port hint proto = Some r \<longrightarrow>
       pr_service r = lit ''unknown'' \<and> pr_version r = None \<and> pr_confidence r = 20)"
proof -
  have "first_hit net (filter (\<lambda>h. pl_protocol h = proto) (rank_plugins q registry)) host port proto = None" for q
    using assms by (intro first_hit_bundled) (auto simp: rank_plugins_def bundled_def)
  then have "scan_service net registry host port hint proto = grab_raw_banner net host port proto"
    by (simp add: scan_service_def Let_def)
  then show ?thesis
    by (auto simp: grab_raw_banner_def Let_def split: option.splits if_splits)
qed

text \<open>The Redis plugin against a server that answers a ping: the class could tell the service.\<close>

definition REDIS :: "unit plugin" where
  "REDIS = \<lparr>pl_name = ''redis'', pl_protocol = ''tcp'', pl_ports = [6379], pl_probe = None,
     pl_identify = Some (\<lambda>c. Inr (Some \<lparr>pr_service = lit ''redis'', pr_version = None, pr_banner = None,
       pr_confidence = 95, pr_metadata = [(''auth_required'', PBool False)], pr_tls = False\<rparr>))\<rparr>"

definition SILENT_SERVER :: "unit network" where
  "SILENT_SERVER = \<lparr>open_socket = \<lambda>_ _ _. Some (), recv = \<lambda>_ _. None\<rparr>"

theorem bundled_plugins_identify_nothing_witness:
  "scan_service SILENT_SERVER [REDIS] ''10.0.0.5'' 6379 None ''tcp'' = None"
  using bundled_plugins_identify_nothing [of "[REDIS]" SILENT_SERVER "''10.0.0.5''" 6379 None "''tcp''"]
  by (simp add: bundled_def REDIS_def grab_raw_banner_def SILENT_SERVER_def)

text \<open>With a method \<open>probe\<close> a plugin that answers gives a result, so the raw banner is not read.\<close>

lemma answering_plugin_found:
  assumes "h \<in> set registry" "execute_plugin net h host port (pl_protocol h) = Inr (Some r)"
  shows "\<exists>r. scan_service net registry host port None (pl_protocol h) = Some r"
proof -
  have hit: "h \<in> set hs \<Longrightarrow> \<exists>r. first_hit net hs host port (pl_protocol h) = Some r" for hs
    by (induction hs) (use assms(2) in \<open>auto split: sum.splits option.splits\<close>)
  have "h \<in> set (filter (\<lambda>x. pl_protocol x = pl_protocol h) (rank_plugins port registry))"
    using assms(1) by (auto simp: rank_plugins_def)
  from hit [OF this] show ?thesis by (auto simp: scan_service_def Let_def)
qed

text \<open>After a probe the same target is not scheduled again within the cooldown, less the second the stored time
  may lose.\<close>

lemma get_update_row: "dict_get d k = Some v \<Longrightarrow> dict_get (update_row d k f) k = Some (f v)"
  by (induction d) (auto simp: update_row_def dict_get_def split: if_splits)

lemma probed_cooldown:
  assumes "dict_get (t_probes t) (m, port, proto) = Some r" "now \<le> later" "later - now + 1000000 \<le> cooldown * 1000000"
  shows "schedule later cooldown m ip' port proto (fst (probe_target_run to_json now net registry m ip port proto t)) =
    (fst (probe_target_run to_json now net registry m ip port proto t), False)"
proof -
  let ?t = "fst (probe_target_run to_json now net registry m ip port proto t)"
  have "\<exists>r'. dict_get (t_probes ?t) (m, port, proto) = Some r' \<and> pt_last_probed r' = Some (now - now mod 1000000)"
    using assms(1) by (auto simp: probe_target_run_def update_probe_result_def Let_def get_update_row split: option.split)
  moreover have "now mod 1000000 < (1000000 :: int)" by simp
  ultimately have "within_cooldown later cooldown m port proto ?t"
    using assms(2,3) by (auto simp: within_cooldown_def)
  then show ?thesis by (simp add: schedule_def)
qed

end
