(* ===== verification/Leases.thy ===== *)
theory Leases
  imports Regex WsDiscovery
begin

text \<open>
  The lease files of \<open>inventory/importers/dhcp_leases.py\<close>: detection of the format and the parsers of
  the formats of dnsmasq and of the ISC server.  Digits are those of ASCII.
\<close>

section \<open>Lines and expressions\<close>

definition is_newline :: "nat \<Rightarrow> bool" where
  "is_newline c \<longleftrightarrow> (10 \<le> c \<and> c \<le> 13) \<or> (28 \<le> c \<and> c \<le> 30) \<or> c = 0x85 \<or> c = 0x2028 \<or> c = 0x2029"

text \<open>\<open>str.splitlines\<close>; a carriage return and a line feed are one end of line.\<close>

fun lines_from :: "ustr \<Rightarrow> ustr \<Rightarrow> ustr list" where
  "lines_from acc [] = (if acc = [] then [] else [acc])"
| "lines_from acc (c # cs) =
     (if \<not> is_newline c then lines_from (acc @ [c]) cs
      else if c = 13 \<and> cs \<noteq> [] \<and> hd cs = 10 then acc # lines_from [] (List.tl cs)
      else acc # lines_from [] cs)"

definition splitlines :: "ustr \<Rightarrow> ustr list" where
  "splitlines t = lines_from [] t"

text \<open>A character under IGNORECASE; some letters of ASCII also match letters outside it.\<close>

definition same_letter :: "nat \<Rightarrow> nat \<Rightarrow> bool" where
  "same_letter k c \<longleftrightarrow> lower [c] = lower [k] \<or> k = 115 \<and> c = 0x17F \<or> k = 105 \<and> c \<in> {0x130, 0x131} \<or> k = 107 \<and> c = 0x212A"

definition re_icase :: "string \<Rightarrow> re" where
  "re_icase t = re_seq (map (\<lambda>c. Cls (same_letter c)) (lit t))"

definition RE_SPACES :: re where
  "RE_SPACES = re_plus (Cls is_space)"

definition RE_WORD :: re where
  "RE_WORD = re_plus (Cls (\<lambda>c. \<not> is_space c))"

definition RE_TO_SEMICOLON :: re where
  "RE_TO_SEMICOLON = Seq (Grp 1 (re_plus (Cls (\<lambda>c. c \<noteq> 59)))) (Cls (chr_is 59))"

definition LEASE_MAC_RE :: re where
  "LEASE_MAC_RE = re_seq [Bol, Rep 2 (Some 2) True (Cls is_hex),
     Rep 5 (Some 5) True (Seq (Cls (chr_is 58)) (Rep 2 (Some 2) True (Cls is_hex))), Eol]"

definition ISC_LEASE_START :: re where
  "ISC_LEASE_START = re_seq [Bol, re_icase ''lease'', RE_SPACES, Grp 1 RE_WORD, re_star (Cls is_space), Cls (chr_is 123)]"

definition ISC_HW_ETH :: re where
  "ISC_HW_ETH = re_seq [re_icase ''hardware'', RE_SPACES, re_icase ''ethernet'', RE_SPACES, RE_TO_SEMICOLON]"

definition ISC_HOSTNAME :: re where
  "ISC_HOSTNAME = re_seq [re_icase ''client-hostname'', RE_SPACES, Cls (chr_is 34),
     Grp 1 (re_star (Cls (\<lambda>c. c \<noteq> 34))), Cls (chr_is 34)]"

definition ISC_ENDS :: re where
  "ISC_ENDS = re_seq [re_icase ''ends'', RE_SPACES, RE_WORD, RE_SPACES, RE_TO_SEMICOLON]"

definition norm_lease_mac :: "ustr option \<Rightarrow> ustr option" where
  "norm_lease_mac m = (case m of None \<Rightarrow> None
     | Some t \<Rightarrow> (let t' = lower (strip t) in if t \<noteq> [] \<and> re_match LEASE_MAC_RE t' \<noteq> None then Some t' else None))"

section \<open>Devices\<close>

record imported_device =
  im_mac :: ustr
  im_ip :: ustr
  im_hostname :: "ustr option"
  im_source :: string
  im_certainty :: rat
  im_flavor :: string
  im_expiry :: "ustr option"

definition leased :: "string \<Rightarrow> ustr \<Rightarrow> ustr \<Rightarrow> ustr option \<Rightarrow> ustr option \<Rightarrow> imported_device" where
  "leased flavor m ip name expiry = \<lparr>im_mac = m, im_ip = ip, im_hostname = name, im_source = ''dhcp_leases'',
     im_certainty = 3 / 4, im_flavor = flavor, im_expiry = expiry\<rparr>"

section \<open>The two formats\<close>

text \<open>A line of \<open>parse_dnsmasq\<close>: \<open>expiry mac ip hostname clientid\<close>.\<close>

definition dnsmasq_line :: "ustr \<Rightarrow> imported_device list" where
  "dnsmasq_line raw =
     (let line = strip raw
      in if line = [] \<or> hd line = 35 then []
         else case py_split line of
           expiry # m # ip # name # _ \<Rightarrow> (case norm_lease_mac (Some m) of
               None \<Rightarrow> []
             | Some m' \<Rightarrow> [leased ''dnsmasq'' m' ip (if name = [42] then None else Some name) (Some expiry)])
         | _ \<Rightarrow> [])"

definition parse_dnsmasq :: "ustr \<Rightarrow> imported_device list" where
  "parse_dnsmasq t = concat (map dnsmasq_line (splitlines t))"

text \<open>A line of \<open>parse_isc\<close>: the address and lines of the open block, and the devices so far.\<close>

type_synonym isc_state = "(ustr \<times> ustr list) option \<times> imported_device list"

definition found_group :: "re \<Rightarrow> ustr \<Rightarrow> ustr option" where
  "found_group r t = (case re_search r t of None \<Rightarrow> None | Some (i, x) \<Rightarrow> group_of t x 1)"

definition close_block :: "ustr \<Rightarrow> ustr list \<Rightarrow> imported_device list" where
  "close_block ip block =
     (let t = join [32] block
      in case norm_lease_mac (found_group ISC_HW_ETH t) of
           None \<Rightarrow> []
         | Some m \<Rightarrow> [leased ''isc'' m ip (found_group ISC_HOSTNAME t) (map_option strip (found_group ISC_ENDS t))])"

definition isc_line :: "isc_state \<Rightarrow> ustr \<Rightarrow> isc_state" where
  "isc_line st raw =
     (let line = strip raw
      in case st of
           (None, ds) \<Rightarrow> (case re_match ISC_LEASE_START line of
               None \<Rightarrow> (None, ds)
             | Some x \<Rightarrow> (Some (case group_of line x 1 of None \<Rightarrow> [] | Some ip \<Rightarrow> ip, []), ds))
         | (Some (ip, block), ds) \<Rightarrow>
             if line \<noteq> [] \<and> hd line = 125 then (None, ds @ close_block ip block)
             else (Some (ip, block @ [line]), ds))"

definition parse_isc :: "ustr \<Rightarrow> imported_device list" where
  "parse_isc t = snd (foldl isc_line (None, []) (splitlines t))"

section \<open>Detection\<close>

fun first_flavor :: "ustr list \<Rightarrow> string" where
  "first_flavor [] = ''dnsmasq''"
| "first_flavor (raw # ls) =
     (let line = strip raw
      in if line = [] \<or> hd line = 35 then first_flavor ls
         else if re_match ISC_LEASE_START line \<noteq> None then ''isc''
         else if takeWhile (\<lambda>c. c \<noteq> 32) line \<noteq> [] \<and> list_all is_digit (takeWhile (\<lambda>c. c \<noteq> 32) line) then ''dnsmasq''
         else ''isc'')"

definition detect_flavor :: "ustr \<Rightarrow> string" where
  "detect_flavor t = first_flavor (splitlines t)"

definition parse_lease_file :: "ustr \<Rightarrow> imported_device list" where
  "parse_lease_file t = (if detect_flavor t = ''dnsmasq'' then parse_dnsmasq t else parse_isc t)"

text \<open>\<open>sync\<close> on the configured flavor and the content of the file.\<close>

definition sync_leases :: "string \<Rightarrow> ustr option \<Rightarrow> imported_device list" where
  "sync_leases flavor content = (case content of None \<Rightarrow> []
     | Some t \<Rightarrow> if flavor = ''isc'' then parse_isc t else if flavor = ''dnsmasq'' then parse_dnsmasq t
                 else parse_lease_file t)"

end
