(* ===== verification/DeviceRoutes.thy ===== *)
theory DeviceRoutes
  imports Spoofing Leases
begin

text \<open>
  The routes of the web interface that change the store: \<open>ui/web/routers/devices.py\<close>,
  \<open>authorization_bulk.py\<close>, \<open>inventory.py\<close>, \<open>alerts.py\<close> and the query, browse and
  reset routes of \<open>settings.py\<close>.  A route is a function from its validated body and the state to a
  reply and the state.  Hardware addresses and IP addresses are texts of characters below 256.
\<close>

section \<open>Replies\<close>

text \<open>A result, a refusal with its status, or an exception that leaves the route.\<close>

datatype 'a reply = Reply 'a | Refuse nat | ServerError

definition unlit :: "ustr \<Rightarrow> string" where
  "unlit t = map char_of t"

lemma unlit_lit [simp]: "unlit (lit s) = s"
  by (induction s) (simp_all add: unlit_def lit_def)

text \<open>\<open>_actor_from_request\<close> and \<open>_actor\<close> on the token ids of the scope and of the state.\<close>

definition actor_of :: "string \<Rightarrow> nat option \<Rightarrow> nat option \<Rightarrow> string" where
  "actor_of anonymous scope_id state_id = (case coalesce scope_id state_id of
     None \<Rightarrow> anonymous | Some i \<Rightarrow> if i = 0 then anonymous else unlit (str_nat i))"

text \<open>The address in a path, normalised by \<open>_validate_mac\<close>.\<close>

definition path_mac :: "mac \<Rightarrow> mac option" where
  "path_mac raw = map_option unlit (validate_mac (lit raw))"

section \<open>Device rows\<close>

text \<open>\<open>_ensure_device_row\<close>: a host without a device row is given one.  The new row has no
  criticality, the only column whose check could refuse it.\<close>

definition host_device :: "mac \<Rightarrow> host \<Rightarrow> device" where
  "host_device m h = (new_device m (h_discovered_at h) (h_last_active h))
     \<lparr>d_ip_v4 := h_ip_addr h, d_ip_v6 := h_ip_v6 h, d_is_randomized_mac := h_mac_randomized h,
      d_correlated_mac := h_real_hw_addr h, d_identity_id := h_identity_id h\<rparr>"

definition ensure_device_row :: "int \<Rightarrow> mac \<Rightarrow> store \<Rightarrow> bool \<times> store" where
  "ensure_device_row now m s = (case get_device m s of
     Some d \<Rightarrow> (True, s)
   | None \<Rightarrow> (case find_host m s of
       None \<Rightarrow> (False, s)
     | Some h \<Rightarrow> (True, fst (upsert_device now (host_device m h) s))))"

text \<open>\<open>DevicePatch\<close>: the fields that were set.\<close>

datatype patch_item =
  PatchOwner "ustr option" | PatchLocation "ustr option" | PatchCriticality "string option"
| PatchTags "ustr list option" | PatchNotes "ustr option" | PatchThreshold "int option"

definition short :: "nat \<Rightarrow> 'a list option \<Rightarrow> bool" where
  "short n v = (case v of None \<Rightarrow> True | Some t \<Rightarrow> length t \<le> n)"

fun valid_item :: "patch_item \<Rightarrow> bool" where
  "valid_item (PatchOwner v) = short 200 v"
| "valid_item (PatchLocation v) = short 200 v"
| "valid_item (PatchCriticality v) = valid_criticality v"
| "valid_item (PatchTags v) = (case v of None \<Rightarrow> True | Some ts \<Rightarrow> length ts \<le> 20 \<and> list_all (\<lambda>t. strip t \<noteq> []) ts)"
| "valid_item (PatchNotes v) = short 2000 v"
| "valid_item (PatchThreshold v) = (case v of None \<Rightarrow> True | Some i \<Rightarrow> 30 \<le> i \<and> i \<le> 86400)"

text \<open>The value for the column; None is a NULL the column does not take.\<close>

fun bound_item :: "patch_item \<Rightarrow> prop_update option" where
  "bound_item (PatchOwner v) = Some (Owner v)"
| "bound_item (PatchLocation v) = Some (Location v)"
| "bound_item (PatchCriticality v) = Some (Criticality v)"
| "bound_item (PatchTags v) = Some (Tags (case v of None \<Rightarrow> [] | Some ts \<Rightarrow> map strip ts))"
| "bound_item (PatchNotes v) = Some (Notes v)"
| "bound_item (PatchThreshold v) = map_option PresenceThreshold v"

definition patch_device :: "int \<Rightarrow> mac \<Rightarrow> patch_item list \<Rightarrow> store \<Rightarrow> device reply \<times> store" where
  "patch_device now m items s =
     (if \<not> list_all valid_item items then (Refuse 422, s)
      else case ensure_device_row now m s of
        (False, s) \<Rightarrow> (Refuse 404, s)
      | (True, s) \<Rightarrow>
          if PatchThreshold None \<in> set items then (ServerError, s)
          else (case update_device_props m (List.map_filter bound_item items) s of
              Inl e \<Rightarrow> (ServerError, s)
            | Inr (None, s) \<Rightarrow> (ServerError, s)
            | Inr (Some d, s) \<Rightarrow> (Reply d, s)))"

section \<open>Authorisation\<close>

datatype auth_action = Approving | Rejecting | Revoking

fun mutator :: "auth_action \<Rightarrow> int \<Rightarrow> mac \<Rightarrow> string \<Rightarrow> string option \<Rightarrow> store \<Rightarrow> store_error + (device option \<times> store)" where
  "mutator Approving = approve_device"
| "mutator Rejecting = reject_device"
| "mutator Revoking = revoke_device"

text \<open>The three endpoints of one device; a reason of more than 500 characters is refused with the body.\<close>

definition authorize_endpoint ::
    "auth_action \<Rightarrow> int \<Rightarrow> mac \<Rightarrow> string \<Rightarrow> string option \<Rightarrow> store \<Rightarrow> device reply \<times> store" where
  "authorize_endpoint action now m actor reason s =
     (if \<not> short 500 reason then (Refuse 422, s)
      else case ensure_device_row now m s of
        (False, s) \<Rightarrow> (Refuse 404, s)
      | (True, s) \<Rightarrow> (case mutator action now m actor reason s of
          Inl e \<Rightarrow> (ServerError, s)
        | Inr (Some d, s) \<Rightarrow> (Reply d, s)
        | Inr (None, s) \<Rightarrow> (case get_device m s of None \<Rightarrow> (ServerError, s) | Some d \<Rightarrow> (Reply d, s))))"

definition history_endpoint :: "int \<Rightarrow> mac \<Rightarrow> int \<Rightarrow> store \<Rightarrow> auth_row list reply \<times> store" where
  "history_endpoint now m limit s =
     (let rows = get_authorization_history m limit s
      in if rows \<noteq> [] then (Reply rows, s)
         else case ensure_device_row now m s of (ok, s) \<Rightarrow> (if ok then Reply [] else Refuse 404, s))"

text \<open>The loop of \<open>bulk_authorization\<close>: the number of updates and the missing addresses.\<close>

definition bulk_one ::
    "auth_action \<Rightarrow> int \<Rightarrow> string \<Rightarrow> string option \<Rightarrow> (nat \<times> mac list) \<times> store \<Rightarrow> mac \<Rightarrow> (nat \<times> mac list) \<times> store" where
  "bulk_one action now actor reason = (\<lambda>((n, missing), s) m. case ensure_device_row now m s of
     (False, s) \<Rightarrow> ((n, missing @ [m]), s)
   | (True, s) \<Rightarrow> (case mutator action now m actor reason s of
       Inl e \<Rightarrow> ((n, missing), s)
     | Inr (None, s) \<Rightarrow> ((n, missing @ [m]), s)
     | Inr (Some d, s) \<Rightarrow> ((Suc n, missing), s)))"

definition bulk_authorization ::
    "auth_action \<Rightarrow> mac list \<Rightarrow> string option \<Rightarrow> int \<Rightarrow> string \<Rightarrow> store \<Rightarrow> (nat \<times> mac list) reply \<times> store" where
  "bulk_authorization action ms reason now actor s =
     (if ms = [] \<or> length ms > 500 \<or> \<not> short 500 reason then (Refuse 422, s)
      else case foldl (bulk_one action now actor reason) ((0, []), s) ms of (r, s) \<Rightarrow> (Reply r, s))"

section \<open>The learning window\<close>

definition baseline_reset_endpoint :: "string option \<Rightarrow> int \<Rightarrow> store \<Rightarrow> nat reply \<times> store" where
  "baseline_reset_endpoint reason now s =
     (if \<not> short 500 reason then (Refuse 422, s)
      else case baseline_reset now ''baseline-reset'' s of (s, n) \<Rightarrow> (Reply n, s))"

record window_status =
  ws_counts :: "nat \<times> nat \<times> nat"
  ws_last_baseline :: "int option"
  ws_learning :: bool
  ws_first_capture :: int
  ws_closed_at :: "int option"
  ws_devices_found :: nat
  ws_quiet_for :: int
  ws_learning_mode :: string

text \<open>\<open>baseline_status_endpoint\<close>; \<open>int\<close> cuts towards zero.\<close>

definition whole_seconds :: "int \<Rightarrow> int" where
  "whole_seconds d = (if 0 \<le> d then d div 1000000 else - ((- d) div 1000000))"

definition baseline_status_endpoint :: "string \<Rightarrow> int \<Rightarrow> store \<Rightarrow> window_status \<times> store" where
  "baseline_status_endpoint mode now s =
     (let (counts, stamp) = baseline_status s; (st, s') = get_sensor_state now s
      in (\<lparr>ws_counts = counts, ws_last_baseline = stamp, ws_learning = window_closed_at st = None,
           ws_first_capture = first_capture_at st, ws_closed_at = window_closed_at st,
           ws_devices_found = length (s_devices s'), ws_quiet_for = whole_seconds (now - last_discovery_at st),
           ws_learning_mode = mode\<rparr>, s'))"

definition baseline_finish_endpoint :: "int \<Rightarrow> store \<Rightarrow> int option \<times> store" where
  "baseline_finish_endpoint now s =
     (case get_sensor_state now (close_learning_window now s) of (st, s) \<Rightarrow> (window_closed_at st, s))"

definition baseline_restart_endpoint :: "int \<Rightarrow> store \<Rightarrow> store" where
  "baseline_restart_endpoint = reopen_learning_window"

definition clear_attestations_endpoint :: "int \<Rightarrow> store \<Rightarrow> nat \<times> store" where
  "clear_attestations_endpoint now s = (case clear_baseline_attestations now ''baseline-cleanup'' s of (s, n) \<Rightarrow> (n, s))"

section \<open>Dispositions and overrides\<close>

definition set_disposition :: "string \<Rightarrow> nat \<times> store \<Rightarrow> mac \<Rightarrow> nat \<times> store" where
  "set_disposition status = (\<lambda>(n, s) m. case find_host m s of
     None \<Rightarrow> (n, s) | Some h \<Rightarrow> (Suc n, hosts_upsert (h\<lparr>h_disposition := status\<rparr>) s))"

definition bulk_device_action :: "mac list \<Rightarrow> string \<Rightarrow> store \<Rightarrow> nat reply \<times> store" where
  "bulk_device_action ms action s =
     (if action \<notin> {''mark_known'', ''mark_suspicious''} then (Refuse 400, s)
      else case foldl (set_disposition (if action = ''mark_known'' then ''known'' else ''suspicious'')) (0, s) ms of
        (n, s) \<Rightarrow> (Reply n, s))"

text \<open>The body is an object whose values are texts or null.\<close>

definition set_device_override ::
    "mac \<Rightarrow> (string \<times> ustr option) list \<Rightarrow> store \<times> tables \<Rightarrow> (string \<times> ustr) list option reply \<times> store \<times> tables" where
  "set_device_override raw values = (\<lambda>(s, t). case path_mac raw of
     None \<Rightarrow> (Refuse 400, s, t)
   | Some m \<Rightarrow>
       if find_verdict m s = None \<and> find_host m s = None then (Refuse 404, s, t)
       else let given = filter (\<lambda>(k, v). k \<in> set OVERRIDE_FIELDS) values
            in if given = [] then (Refuse 400, s, t)
               else let t = override_upsert m given t;
                        s = (case (find_host m s, dict_get given ''disposition'') of
                               (Some h, Some (Some d)) \<Rightarrow>
                                 if d = [] then s else hosts_upsert (h\<lparr>h_disposition := unlit d\<rparr>) s
                             | _ \<Rightarrow> s)
                    in (Reply (override_find m t), s, t))"

definition delete_device_override :: "mac \<Rightarrow> store \<times> tables \<Rightarrow> unit reply \<times> store \<times> tables" where
  "delete_device_override raw = (\<lambda>(s, t). case path_mac raw of
     None \<Rightarrow> (Refuse 400, s, t)
   | Some m \<Rightarrow>
       let given = (case override_find m t of None \<Rightarrow> None | Some row \<Rightarrow> dict_get row ''disposition'');
           s = (case (truthy given, find_host m s) of
                  (True, Some h) \<Rightarrow> if h_disposition h \<noteq> ''self'' then hosts_upsert (h\<lparr>h_disposition := ''new''\<rparr>) s else s
                | _ \<Rightarrow> s)
       in (Reply (), s, override_delete m t))"

section \<open>Lease files\<close>

definition import_lease :: "int \<Rightarrow> store \<Rightarrow> imported_device \<Rightarrow> store" where
  "import_lease ts s d =
     (let m = unlit (im_mac d); ip = unlit (im_ip d);
          s = fst (upsert_device ts ((new_device m ts ts)\<lparr>d_ip_v4 := Some ip, d_hostname := im_hostname d,
                d_passively_observed := False\<rparr>) s)
      in hosts_upsert \<lparr>h_hw_addr = m, h_ip_addr = Some ip, h_ip_v6 = None, h_discovered_at = ts, h_last_active = ts,
           h_mac_randomized = False, h_real_hw_addr = None, h_disposition = ''new'', h_identity_id = None\<rparr> s)"

text \<open>\<open>upload_dhcp_leases\<close>: the number of devices and the format of the first.  The size is that of
  the upload, when it is known.\<close>

definition upload_dhcp_leases ::
    "int \<Rightarrow> nat option \<Rightarrow> bytes \<Rightarrow> store \<Rightarrow> (nat \<times> string option) reply \<times> store" where
  "upload_dhcp_leases ts given_size raw s =
     (if (case given_size of None \<Rightarrow> False | Some n \<Rightarrow> n > 5 * 1024 * 1024) then (Refuse 413, s)
      else case parse_lease_file (utf8_replace raw) of
        [] \<Rightarrow> (Reply (0, None), s)
      | d # ds \<Rightarrow> (Reply (length (d # ds), Some (im_flavor d)), foldl (import_lease ts) s (d # ds)))"

section \<open>Findings\<close>

record alert_page =
  pg_alerts :: "finding list"
  pg_total :: nat
  pg_page :: int
  pg_per_page :: nat
  pg_pages :: nat

text \<open>\<open>api_alerts\<close>; the database takes a negative offset for none.\<close>

definition clamp_per_page :: "int \<Rightarrow> nat" where
  "clamp_per_page n = nat (min (max n 1) 500)"

definition api_alerts :: "int \<Rightarrow> int \<Rightarrow> int \<Rightarrow> store \<Rightarrow> alert_page" where
  "api_alerts now page per_page s =
     (let k = clamp_per_page per_page; total = count_active now s
      in \<lparr>pg_alerts = list_active now k (nat ((page - 1) * int k)) s, pg_total = total, pg_page = page,
          pg_per_page = k, pg_pages = (total + k - 1) div k\<rparr>)"

definition bulk_alert_action :: "nat list \<Rightarrow> string \<Rightarrow> store \<Rightarrow> nat reply \<times> store" where
  "bulk_alert_action ids action s =
     (if action \<in> {''acknowledge'', ''delete''} then (case resolve_many ids s of (s, n) \<Rightarrow> (Reply n, s)) else (Refuse 400, s))"

definition acknowledge_alert_route :: "nat \<Rightarrow> store \<Rightarrow> store" where
  "acknowledge_alert_route = resolve_finding"

definition delete_resolved_alerts_route :: "store \<Rightarrow> nat \<times> store" where
  "delete_resolved_alerts_route s =
     (length (filter f_resolved (s_findings s)), s\<lparr>s_findings := filter (\<lambda>f. \<not> f_resolved f) (s_findings s)\<rparr>)"

definition delete_all_alerts_route :: "bool \<Rightarrow> store \<Rightarrow> nat reply \<times> store" where
  "delete_all_alerts_route confirm s =
     (if confirm then (Reply (length (s_findings s)), s\<lparr>s_findings := []\<rparr>) else (Refuse 400, s))"

section \<open>Queries, files and the reset\<close>

text \<open>\<open>str.upper\<close>, \<open>str.lower\<close> and the word characters of \<open>re\<close>.\<close>

record query_env =
  q_upper :: "ustr \<Rightarrow> ustr"
  q_lower :: "ustr \<Rightarrow> ustr"
  q_word :: "nat \<Rightarrow> bool"

definition FORBIDDEN_KEYWORDS :: "string list" where
  "FORBIDDEN_KEYWORDS = [''INSERT'', ''UPDATE'', ''DELETE'', ''DROP'', ''ALTER'', ''CREATE'', ''TRUNCATE'', ''REPLACE'',
     ''ATTACH'', ''DETACH'', ''PRAGMA'', ''LOAD_EXTENSION'', ''WRITEFILE'', ''READFILE'', ''FTS3_TOKENIZER'']"

definition keyword_re :: "(nat \<Rightarrow> bool) \<Rightarrow> string \<Rightarrow> re" where
  "keyword_re w kw = re_seq [Wb w, re_str (lit kw), Wb w]"

text \<open>The validation of \<open>run_query\<close>: the statement that is executed.\<close>

definition guard_query :: "query_env \<Rightarrow> ustr \<Rightarrow> ustr reply" where
  "guard_query env raw =
     (let sql = strip raw
      in if sql = [] \<or> 59 \<in> set sql \<or> \<not> starts_with (lit ''SELECT'') (dropWhile is_space (q_upper env sql)) then Refuse 400
         else if list_ex (\<lambda>kw. re_search (keyword_re (q_word env) kw) (q_upper env sql) \<noteq> None) FORBIDDEN_KEYWORDS
         then Refuse 400
         else Reply (if contains_sub (lit ''limit'') (q_lower env sql) then sql else sql @ lit '' LIMIT 10000''))"

text \<open>The directories \<open>browse_filesystem\<close> lists, on the resolved path.\<close>

definition browse_allowed :: "ustr \<Rightarrow> ustr \<Rightarrow> bool" where
  "browse_allowed home resolved \<longleftrightarrow> list_ex (\<lambda>r. starts_with r resolved) [home, lit ''/etc/leetha'', lit ''/var/lib/leetha'']"

text \<open>\<open>clear_database\<close>, less the table of identities.\<close>

definition clear_database :: "store \<times> tables \<Rightarrow> store \<times> tables" where
  "clear_database = (\<lambda>(s, t).
     ((clear_all_devices s)\<lparr>s_verdicts := [], s_hosts := [], s_findings := []\<rparr>, t\<lparr>t_sightings := [], t_snapshots := []\<rparr>))"

end
