(* ===== verification/LeasesProps.thy ===== *)
theory LeasesProps
  imports Leases
begin

text \<open>A file of leases in the format of dnsmasq is read back as it was written.\<close>

definition word :: "ustr \<Rightarrow> bool" where
  "word w \<longleftrightarrow> w \<noteq> [] \<and> (\<forall>c \<in> set w. \<not> is_space c)"

lemma newline_space: "is_newline c \<Longrightarrow> is_space c"
  by (auto simp: is_newline_def is_space_def)

lemma lines_from_line:
  "\<forall>c \<in> set w. \<not> is_newline c \<Longrightarrow> lines_from acc (w @ 10 # rest) = (acc @ w) # lines_from [] rest"
  by (induction w arbitrary: acc) (simp_all add: is_newline_def)

lemma split_words_from:
  "\<forall>c \<in> set w. \<not> is_space c \<Longrightarrow> py_split_from cur (w @ cs) = py_split_from (cur @ w) cs"
  by (induction w arbitrary: cur) simp_all

lemma split_words: "\<forall>w \<in> set ws. word w \<Longrightarrow> py_split (join [32] ws) = ws"
proof (induction ws rule: induct_list012)
  case (3 v w ws)
  have s: "is_space 32" by (simp add: is_space_def)
  have "py_split (join [32] (v # w # ws)) = py_split_from [] (v @ 32 # join [32] (w # ws))"
    by (simp add: py_split_def)
  also have "\<dots> = v # py_split (join [32] (w # ws))"
    using "3.prems" split_words_from [of v "[]" "32 # join [32] (w # ws)"] s by (simp add: py_split_def word_def)
  finally show ?case using "3.IH"(2) "3.prems" by simp
qed (use split_words_from [where cs = "[]" and cur = "[]"] in \<open>auto simp: py_split_def word_def\<close>)

lemma strip_ends:
  assumes "t \<noteq> []" "\<not> is_space (hd t)" "\<not> is_space (List.last t)" shows "strip t = t"
proof -
  have "dropWhile is_space t = t" using assms(1,2) by (cases t) simp_all
  moreover have "dropWhile is_space (rev t) = rev t"
    using assms(1,3) by (cases t rule: rev_cases) simp_all
  ultimately show ?thesis by (simp add: strip_def strip_by_def rstrip_by_def)
qed

lemma word_ends: "word w \<Longrightarrow> w \<noteq> [] \<and> \<not> is_space (hd w) \<and> \<not> is_space (List.last w)"
  by (auto simp: word_def)

lemma strip_words: "\<forall>w \<in> set (v # ws). word w \<Longrightarrow> strip (join [32] (v # ws)) = join [32] (v # ws)"
proof (rule strip_ends)
  assume w: "\<forall>w \<in> set (v # ws). word w"
  then show "join [32] (v # ws) \<noteq> []" "\<not> is_space (hd (join [32] (v # ws)))"
    using word_ends [of v] by (cases ws; simp)+
  show "\<not> is_space (List.last (join [32] (v # ws)))"
    using w
  proof (induction ws arbitrary: v)
    case (Cons x ws)
    have "join [32] (x # ws) \<noteq> []" using word_ends [of x] Cons.prems by (cases ws) auto
    then show ?case using Cons.IH [of x] Cons.prems by simp
  qed (simp add: word_ends)
qed

section \<open>Leases\<close>

type_synonym lease = "ustr \<times> ustr \<times> ustr \<times> ustr \<times> ustr"

text \<open>Expiry, address, IP address, host name and client identifier of a line.\<close>

definition lease_ok :: "lease \<Rightarrow> bool" where
  "lease_ok l = (case l of (expiry, m, ip, name, cid) \<Rightarrow>
     word expiry \<and> list_all is_digit expiry \<and> word m \<and> norm_lease_mac (Some m) = Some m \<and> word ip \<and> word name \<and> word cid)"

definition lease_line :: "lease \<Rightarrow> ustr" where
  "lease_line l = (case l of (expiry, m, ip, name, cid) \<Rightarrow> join [32] [expiry, m, ip, name, cid])"

definition lease_file :: "lease list \<Rightarrow> ustr" where
  "lease_file ls = concat (map (\<lambda>l. lease_line l @ [10]) ls)"

definition lease_device :: "lease \<Rightarrow> imported_device" where
  "lease_device l = (case l of (expiry, m, ip, name, cid) \<Rightarrow>
     leased ''dnsmasq'' m ip (if name = [42] then None else Some name) (Some expiry))"

lemma join_chars: "c \<in> set (join sep ws) \<Longrightarrow> c \<in> set sep \<or> (\<exists>w \<in> set ws. c \<in> set w)"
  by (induction sep ws rule: join.induct) auto

lemma line_chars: "lease_ok l \<Longrightarrow> c \<in> set (lease_line l) \<Longrightarrow> c = 32 \<or> \<not> is_space c"
  by (auto simp: lease_ok_def lease_line_def word_def dest!: join_chars split: prod.splits simp del: join.simps)

lemma line_plain: "lease_ok l \<Longrightarrow> \<forall>c \<in> set (lease_line l). \<not> is_newline c"
proof (rule ballI)
  fix c assume "lease_ok l" "c \<in> set (lease_line l)"
  then have "c = 32 \<or> \<not> is_space c" by (rule line_chars)
  then show "\<not> is_newline c" using newline_space [of c] by (auto simp: is_newline_def)
qed

lemma file_lines: "\<forall>l \<in> set ls. lease_ok l \<Longrightarrow> splitlines (lease_file ls) = map lease_line ls"
  by (induction ls) (simp_all add: splitlines_def lease_file_def lines_from_line [OF line_plain])

lemma line_starts: "lease_ok l \<Longrightarrow> \<exists>c cs. lease_line l = c # cs \<and> is_digit c"
  by (auto simp: lease_ok_def lease_line_def word_def neq_Nil_conv split: prod.splits)

lemma line_stripped: "lease_ok l \<Longrightarrow> strip (lease_line l) = lease_line l"
  using strip_words by (auto simp: lease_ok_def lease_line_def split: prod.splits simp del: join.simps)

lemma line_parsed: "lease_ok l \<Longrightarrow> dnsmasq_line (lease_line l) = [lease_device l]"
proof -
  assume l: "lease_ok l"
  obtain expiry m ip name cid where x: "l = (expiry, m, ip, name, cid)" by (cases l)
  have "py_split (lease_line l) = [expiry, m, ip, name, cid]"
    using l split_words [of "[expiry, m, ip, name, cid]"] by (simp add: x lease_ok_def lease_line_def del: join.simps)
  then show ?thesis
    using l line_starts [OF l] line_stripped [OF l] by (auto simp: dnsmasq_line_def Let_def lease_device_def x lease_ok_def is_digit_def)
qed

text \<open>A line that starts with a digit starts no block, and its first word is a number.\<close>

lemma digit_no_letter: "is_digit c \<Longrightarrow> \<not> same_letter 108 c"
  by (auto simp: same_letter_def lower_def lower_char_def is_digit_def)

lemma digit_no_block: "is_digit c \<Longrightarrow> re_match ISC_LEASE_START (c # cs) = None"
proof -
  assume d: "is_digit c"
  have "re_icase ''lease'' = Seq (Cls (same_letter 108)) (re_seq (map (\<lambda>c. Cls (same_letter c)) (lit ''ease'')))"
    by (simp add: re_icase_def lit_def)
  then have "rx (re_icase ''lease'') (c # cs) (0, []) = []"
    using digit_no_letter [OF d] by simp
  then show ?thesis by (simp add: re_match_def re_match_at_def ISC_LEASE_START_def)
qed

lemma is_space_32: "is_space 32"
  by (simp add: is_space_def)

lemma digits_dnsmasq:
  assumes "strip raw = c # cs" "is_digit c" "list_all is_digit (takeWhile (\<lambda>c. c \<noteq> 32) (c # cs))"
  shows "first_flavor (raw # ls) = ''dnsmasq''"
proof -
  have c: "c \<noteq> 35" "c \<noteq> 32" using assms(2) by (simp_all add: is_digit_def)
  have "takeWhile (\<lambda>c. c \<noteq> 32) (c # cs) \<noteq> []" using c(2) by (simp only: takeWhile.simps) simp
  then show ?thesis
    by (simp only: first_flavor.simps(2) Let_def assms(1,3) digit_no_block [OF assms(2)] list.sel(1) c(1)
        list.distinct(1,2) not_True_eq_False not_False_eq_True simp_thms if_True if_False)
qed

lemma word_no_space: "word w \<Longrightarrow> c \<in> set w \<Longrightarrow> c \<noteq> 32"
  unfolding word_def by (metis is_space_32)

lemma line_dnsmasq: "lease_ok l \<Longrightarrow> first_flavor (lease_line l # ls) = ''dnsmasq''"
proof -
  assume l: "lease_ok l"
  obtain expiry m ip name cid where x: "l = (expiry, m, ip, name, cid)" by (cases l)
  have "word expiry" and d: "list_all is_digit expiry" using l by (simp_all add: x lease_ok_def)
  then have e: "\<forall>c \<in> set expiry. c \<noteq> 32" using word_no_space by blast
  have "takeWhile (\<lambda>c. c \<noteq> 32) (lease_line l) = expiry"
    using e by (simp add: x lease_line_def takeWhile_tail)
  moreover obtain c cs where c: "lease_line l = c # cs" "is_digit c" using line_starts [OF l] by blast
  ultimately have "list_all is_digit (takeWhile (\<lambda>c. c \<noteq> 32) (c # cs))" using d by (simp only: c(1))
  then show ?thesis by (intro digits_dnsmasq [where c = c and cs = cs]) (simp_all add: line_stripped [OF l] c(2) flip: c(1))
qed

text \<open>a file of dnsmasq leases is read back.  Whatever leases are written, one line each, the importer recognises the
  format and returns one device per lease, in order, with its address, IP address, expiry and host name; a star stands
  for no name.\<close>

theorem leases_read_back:
  assumes "\<forall>l \<in> set ls. lease_ok l"
  shows "parse_lease_file (lease_file ls) = map lease_device ls"
proof -
  have "detect_flavor (lease_file ls) = ''dnsmasq''"
    using assms by (cases ls) (simp_all add: detect_flavor_def file_lines line_dnsmasq del: first_flavor.simps(2))
  moreover have "concat (map dnsmasq_line (map lease_line ls)) = map lease_device ls"
    using assms by (induction ls) (simp_all add: line_parsed)
  ultimately show ?thesis
    using assms by (simp add: parse_lease_file_def parse_dnsmasq_def file_lines)
qed

definition SAMPLE_LEASE :: lease where
  "SAMPLE_LEASE = (lit ''1700000000'', lit ''aa:bb:cc:dd:ee:ff'', lit ''10.0.0.7'', lit ''printer'', lit ''*'')"

lemma sample_mac: "re_match LEASE_MAC_RE (lit ''aa:bb:cc:dd:ee:ff'') \<noteq> None"
  by code_simp

lemma sample_lease: "lease_ok SAMPLE_LEASE"
proof -
  have w: "word (lit ''1700000000'')" "word (lit ''aa:bb:cc:dd:ee:ff'')" "word (lit ''10.0.0.7'')" "word (lit ''printer'')" "word (lit ''*'')"
    by (simp_all add: word_def lit_def is_space_def)
  have "strip (lit ''aa:bb:cc:dd:ee:ff'') = lit ''aa:bb:cc:dd:ee:ff''"
    using w(2) by (intro strip_ends) (auto simp: word_def)
  moreover have "lower (lit ''aa:bb:cc:dd:ee:ff'') = lit ''aa:bb:cc:dd:ee:ff''" "lit ''aa:bb:cc:dd:ee:ff'' \<noteq> []"
    by (simp_all add: lit_def lower_def lower_char_def)
  ultimately have "norm_lease_mac (Some (lit ''aa:bb:cc:dd:ee:ff'')) = Some (lit ''aa:bb:cc:dd:ee:ff'')"
    using sample_mac by (simp add: norm_lease_mac_def Let_def)
  moreover have "list_all is_digit (lit ''1700000000'')" by (simp add: lit_def is_digit_def)
  ultimately show ?thesis using w by (simp add: lease_ok_def SAMPLE_LEASE_def)
qed

theorem leases_read_back_witness:
  "parse_lease_file (lease_file [SAMPLE_LEASE]) = [lease_device SAMPLE_LEASE]"
  using leases_read_back [of "[SAMPLE_LEASE]"] sample_lease by simp

end
