(* ===== verification/RouteProps.thy ===== *)
theory RouteProps
  imports DeviceRoutes StoreProps LeasesProps DnsMatching
begin

text \<open>
  Properties of the routes: what a bulk authorisation does and reports, what an operator cannot change,
  what clearing the database forgets and what it does not, imported leases, the pages of findings and the
  statements that pass the query guard.
\<close>

section \<open>Bulk authorisation\<close>

definition known :: "mac \<Rightarrow> store \<Rightarrow> bool" where
  "known m s \<longleftrightarrow> get_device m s \<noteq> None \<or> find_host m s \<noteq> None"

fun granted :: "auth_action \<Rightarrow> string" where
  "granted Approving = ''approved''"
| "granted Rejecting = ''rejected''"
| "granted Revoking = ''unapproved''"

definition grant_of :: "mac \<Rightarrow> store \<Rightarrow> string option" where
  "grant_of m s = map_option d_authorization (get_device m s)"

lemma known_grant: "known m s \<longleftrightarrow> grant_of m s \<noteq> None \<or> find_host m s \<noteq> None"
  by (simp add: known_def grant_of_def)

lemma upsert_other: "m \<noteq> d_mac d \<Longrightarrow> get_device m (fst (upsert_device now d s)) = get_device m s"
  by (simp add: get_device_def upsert_devices)

lemma upsert_present: "valid_criticality (d_criticality d) \<Longrightarrow> get_device (d_mac d) (fst (upsert_device now d s)) \<noteq> None"
  by (simp add: get_device_def upsert_devices)

lemma upsert_fresh:
  "get_device (d_mac d) s = None \<Longrightarrow> valid_criticality (d_criticality d) \<Longrightarrow>
   grant_of (d_mac d) (fst (upsert_device now d s)) = Some ''unapproved''"
  by (simp add: grant_of_def get_device_def upsert_devices marshal_device_def bind_device_def)

lemma host_device_simps [simp]: "d_mac (host_device m h) = m" "valid_criticality (d_criticality (host_device m h))"
  by (simp_all add: host_device_def new_device_def valid_criticality_def)

lemma ensure_row:
  assumes "ensure_device_row now m s = (ok, s')"
  shows "ok = known m s" "ok \<Longrightarrow> get_device m s' \<noteq> None" "\<And>n. n \<noteq> m \<Longrightarrow> grant_of n s' = grant_of n s"
    "\<And>n. find_host n s' = find_host n s" "s_history s' = s_history s" "grant_of m s = Some a \<Longrightarrow> s' = s"
    "ok \<Longrightarrow> grant_of m s = None \<Longrightarrow> grant_of m s' = Some ''unapproved''"
  using assms upsert_present [of "host_device m h" for h] upsert_fresh [of "host_device m h" for h]
  by (auto simp: ensure_device_row_def known_def grant_of_def find_host_def upsert_other split: option.splits)

lemma set_authorization_get:
  "get_device n (set_authorization m a by s) =
     (if n = m then map_option (\<lambda>d. marshal_device (d\<lparr>d_authorization := a, d_authorized_at := map_option fst by,
        d_authorized_by := map_option snd by\<rparr>)) (dict_get (s_devices s) m) else get_device n s)"
  by (simp add: get_device_def set_authorization_def option.map_comp comp_def)

definition change_row :: "mac \<Rightarrow> string \<Rightarrow> auth_action \<Rightarrow> string \<Rightarrow> string option \<Rightarrow> int \<Rightarrow> auth_row" where
  "change_row m previous action actor reason now = \<lparr>a_mac = m, a_previous = previous, a_new = granted action,
     a_actor = actor, a_reason = reason, a_timestamp = now\<rparr>"

lemma transition_granted:
  assumes "get_device m s = Some d"
  shows "\<exists>d' s'. transition_authorization now m (granted action) actor reason s = Inr (Some d', s') \<and>
    grant_of m s' = Some (granted action) \<and> (\<forall>n. n \<noteq> m \<longrightarrow> grant_of n s' = grant_of n s) \<and> s_hosts s' = s_hosts s \<and>
    s_history s' = s_history s @ (if d_authorization d = granted action then []
      else [change_row m (d_authorization d) action actor reason now])"
proof -
  have g: "granted action \<in> set AUTH_STATES" "granted action \<noteq> []" by (cases action; simp add: AUTH_STATES_def)+
  obtain r where r: "dict_get (s_devices s) m = Some r" using assms by (auto simp: get_device_def)
  show ?thesis
    using assms g r
    by (auto simp: transition_authorization_def Let_def grant_of_def insert_history_def change_row_def get_device_def
        set_authorization_def marshal_device_def)
qed

lemma mutator_granted:
  assumes "get_device m s = Some d"
  shows "\<exists>d' s'. mutator action now m actor reason s = Inr (Some d', s') \<and>
    grant_of m s' = Some (granted action) \<and> (\<forall>n. n \<noteq> m \<longrightarrow> grant_of n s' = grant_of n s) \<and>
    (\<forall>n. find_host n s' = find_host n s) \<and>
    s_history s' = s_history s @ (if d_authorization d = granted action then []
      else [change_row m (d_authorization d) action actor reason now])"
  using transition_granted [OF assms, of now action actor reason]
  by (cases action) (auto simp: approve_device_def reject_device_def revoke_device_def grant_of_def get_device_def
      find_host_def resolve_rule_def)

text \<open>The rows of an audit: one for each address that had another state.  A host without a device row counts
  as unapproved.\<close>

definition previous_of :: "mac \<Rightarrow> store \<Rightarrow> string" where
  "previous_of m s = (case grant_of m s of None \<Rightarrow> ''unapproved'' | Some a \<Rightarrow> a)"

definition audits :: "auth_action \<Rightarrow> string \<Rightarrow> string option \<Rightarrow> store \<Rightarrow> mac list \<Rightarrow> auth_row list \<Rightarrow> bool" where
  "audits action actor reason s ms rows \<longleftrightarrow> distinct (map a_mac rows) \<and>
     a_mac ` set rows = {m \<in> set ms. known m s \<and> previous_of m s \<noteq> granted action} \<and>
     (\<forall>r \<in> set rows. a_previous r = previous_of (a_mac r) s \<and> a_new r = granted action \<and>
        a_actor r = actor \<and> a_reason r = reason)"

lemma audits_snoc_new:
  assumes "audits action actor reason s ms rows" "m \<notin> set ms" "known m s"
  shows "audits action actor reason s (ms @ [m]) (rows @ (if previous_of m s = granted action then []
    else [change_row m (previous_of m s) action actor reason now]))"
  using assms by (auto simp: audits_def change_row_def)

lemma audits_snoc_old:
  "audits action actor reason s ms rows \<Longrightarrow> m \<in> set ms \<or> \<not> known m s \<Longrightarrow> audits action actor reason s (ms @ [m]) rows"
  by (auto simp: audits_def)

text \<open>The loop after a part of the addresses: who is missing, who is settled, and the rows it wrote.\<close>

definition bulk_ok ::
    "auth_action \<Rightarrow> string \<Rightarrow> string option \<Rightarrow> store \<Rightarrow> mac list \<Rightarrow> (nat \<times> mac list) \<times> store \<Rightarrow> bool" where
  "bulk_ok action actor reason s0 ms r \<longleftrightarrow> (case r of ((n, missing), s) \<Rightarrow>
     missing = filter (\<lambda>m. \<not> known m s0) ms \<and> n + length missing = length ms \<and> (\<forall>m. known m s = known m s0) \<and>
     (\<forall>m. m \<in> set ms \<and> known m s0 \<longrightarrow> grant_of m s = Some (granted action)) \<and>
     (\<forall>m. m \<notin> set ms \<longrightarrow> grant_of m s = grant_of m s0) \<and>
     (\<exists>rows. s_history s = s_history s0 @ rows \<and> audits action actor reason s0 ms rows))"

lemma bulk_ok_missing:
  assumes "bulk_ok action actor reason s0 ms ((n, missing), s)" "\<not> known m s0"
  shows "bulk_ok action actor reason s0 (ms @ [m]) ((n, missing @ [m]), s)"
  using assms audits_snoc_old [of action actor reason s0 ms _ m] unfolding bulk_ok_def split_conv by fastforce

lemma bulk_ok_update:
  assumes ok: "bulk_ok action actor reason s0 ms ((n, missing), s)" and m: "known m s0"
    and k: "\<forall>m'. known m' s' = known m' s" and g: "grant_of m s' = Some (granted action)"
    and o: "\<forall>m'. m' \<noteq> m \<longrightarrow> grant_of m' s' = grant_of m' s"
    and h: "s_history s' = s_history s @ (if previous_of m s = granted action then []
      else [change_row m (previous_of m s) action actor reason now])"
  shows "bulk_ok action actor reason s0 (ms @ [m]) ((Suc n, missing), s')"
proof -
  obtain rows where r: "s_history s = s_history s0 @ rows" "audits action actor reason s0 ms rows"
    using ok unfolding bulk_ok_def split_conv by blast
  have s: "\<forall>m. m \<in> set ms \<and> known m s0 \<longrightarrow> grant_of m s = Some (granted action)"
    and u: "\<forall>m. m \<notin> set ms \<longrightarrow> grant_of m s = grant_of m s0"
    using ok by (simp_all add: bulk_ok_def)
  have "\<exists>rows. s_history s' = s_history s0 @ rows \<and> audits action actor reason s0 (ms @ [m]) rows"
  proof (cases "m \<in> set ms")
    case True
    then have "previous_of m s = granted action" using s m by (simp add: previous_of_def)
    then show ?thesis using h r audits_snoc_old [OF r(2), of m] True by simp
  next
    case False
    then have "previous_of m s = previous_of m s0" using u by (simp add: previous_of_def)
    then show ?thesis using h r(1) audits_snoc_new [OF r(2) False m, of now] by (simp only: append_assoc) blast
  qed
  moreover have "\<forall>x. x \<in> set (ms @ [m]) \<and> known x s0 \<longrightarrow> grant_of x s' = Some (granted action)"
    using s o g by (auto split: if_splits)
  moreover have "\<forall>x. x \<notin> set (ms @ [m]) \<longrightarrow> grant_of x s' = grant_of x s0" using u o by simp
  moreover have "missing = filter (\<lambda>m. \<not> known m s0) ms" "n + length missing = length ms" "\<forall>m. known m s = known m s0"
    using ok unfolding bulk_ok_def split_conv by blast+
  ultimately show ?thesis
    using m k by (simp add: bulk_ok_def)
qed

lemma bulk_one_ok:
  assumes ok: "bulk_ok action actor reason s0 ms ((n, missing), s)"
  shows "bulk_ok action actor reason s0 (ms @ [m]) (bulk_one action now actor reason ((n, missing), s) m)"
proof -
  obtain e s1 where e: "ensure_device_row now m s = (e, s1)" by (cases "ensure_device_row now m s")
  note row = ensure_row [OF e]
  have k0: "known m s = known m s0" using ok by (simp add: bulk_ok_def)
  show ?thesis
  proof (cases e)
    case False
    then have "grant_of m s = None" "find_host m s = None" using row(1) by (simp_all add: known_grant)
    then have "s1 = s" using e False by (auto simp: ensure_device_row_def grant_of_def split: option.splits)
    then show ?thesis
      using bulk_ok_missing [OF ok, of m] False row(1) k0 by (simp add: bulk_one_def e)
  next
    case True
    then obtain d where d: "get_device m s1 = Some d" using row(2) by auto
    obtain d' s2 where s2: "mutator action now m actor reason s1 = Inr (Some d', s2)"
      "grant_of m s2 = Some (granted action)" "\<forall>n. n \<noteq> m \<longrightarrow> grant_of n s2 = grant_of n s1"
      "\<forall>n. find_host n s2 = find_host n s1"
      "s_history s2 = s_history s1 @ (if d_authorization d = granted action then []
         else [change_row m (d_authorization d) action actor reason now])"
      using mutator_granted [OF d] by blast
    have b: "bulk_one action now actor reason ((n, missing), s) m = ((Suc n, missing), s2)"
      by (simp add: bulk_one_def e True s2(1))
    have "known x s2 = known x s" for x
      using s2(2,3,4) row(1,3,4) True d by (cases "x = m") (auto simp: known_grant)
    moreover have "\<forall>x. x \<noteq> m \<longrightarrow> grant_of x s2 = grant_of x s" using s2(3) row(3) by simp
    moreover have "d_authorization d = previous_of m s"
      using row(6,7) d True by (cases "grant_of m s") (auto simp: grant_of_def previous_of_def)
    then have "s_history s2 = s_history s @ (if previous_of m s = granted action then []
        else [change_row m (previous_of m s) action actor reason now])" using s2(5) row(5) by simp
    moreover have "known m s0" using k0 row(1) True by simp
    ultimately show ?thesis
      unfolding b using bulk_ok_update [OF ok, of m s2 now] s2(2) by blast
  qed
qed

lemma bulk_loop_ok: "bulk_ok action actor reason s ms (foldl (bulk_one action now actor reason) ((0, []), s) ms)"
proof (induction ms rule: rev_induct)
  case (snoc m ms)
  obtain n missing s' where "foldl (bulk_one action now actor reason) ((0, []), s) ms = ((n, missing), s')"
    by (metis prod.exhaust)
  then show ?case using snoc.IH bulk_one_ok by simp
qed (simp add: bulk_ok_def audits_def)

text \<open>C40: what a bulk authorisation does and reports.  The addresses reported missing are those with neither a device nor
  a host, all others are counted; each of them has the granted state afterwards; and the audit trail gains exactly
  one row for each address that had another state, with the state it had, however often it was listed.\<close>

theorem bulk_authorization_accounts:
  assumes "bulk_authorization action ms reason now actor s = (Reply (n, missing), s')"
  shows "missing = filter (\<lambda>m. \<not> known m s) ms \<and> n + length missing = length ms \<and>
    (\<forall>m \<in> set ms. known m s \<longrightarrow> grant_of m s' = Some (granted action)) \<and>
    (\<exists>rows. s_history s' = s_history s @ rows \<and> distinct (map a_mac rows) \<and>
      a_mac ` set rows = {m \<in> set ms. known m s \<and> previous_of m s \<noteq> granted action} \<and>
      (\<forall>r \<in> set rows. a_previous r = previous_of (a_mac r) s \<and> a_new r = granted action \<and>
        a_actor r = actor \<and> a_reason r = reason))"
proof -
  have "foldl (bulk_one action now actor reason) ((0, []), s) ms = ((n, missing), s')"
    using assms by (auto simp: bulk_authorization_def split: if_splits prod.splits)
  then have "bulk_ok action actor reason s ms ((n, missing), s')" using bulk_loop_ok [of action actor reason s ms now] by simp
  then show ?thesis unfolding bulk_ok_def audits_def split_conv by blast
qed

definition BARE_HOST :: host where
  "BARE_HOST = \<lparr>h_hw_addr = ''aa'', h_ip_addr = None, h_ip_v6 = None, h_discovered_at = 0, h_last_active = 0,
     h_mac_randomized = False, h_real_hw_addr = None, h_disposition = ''known'', h_identity_id = None\<rparr>"

definition ONE_HOST :: store where
  "ONE_HOST = empty_store\<lparr>s_hosts := [(''aa'', BARE_HOST)]\<rparr>"

lemma one_host: "find_host ''aa'' ONE_HOST = Some BARE_HOST" "get_device m ONE_HOST = None" "find_host ''bb'' ONE_HOST = None"
  by (simp_all add: ONE_HOST_def find_host_def get_device_def empty_store_def)

lemma bulk_replies:
  "ms \<noteq> [] \<Longrightarrow> length ms \<le> 500 \<Longrightarrow> short 500 reason \<Longrightarrow>
   \<exists>n missing s'. bulk_authorization action ms reason now actor s = (Reply (n, missing), s')"
  by (cases "foldl (bulk_one action now actor reason) ((0, []), s) ms") (auto simp: bulk_authorization_def)

lemma singleton_list: "distinct xs \<Longrightarrow> set xs = {x} \<Longrightarrow> xs = [x]"
  by (cases xs; cases "List.tl xs") auto

theorem bulk_authorization_accounts_witness:
  "\<exists>s'. bulk_authorization Approving [''aa'', ''bb'', ''aa''] None 7 ''3'' ONE_HOST = (Reply (2, [''bb'']), s') \<and>
     grant_of ''aa'' s' = Some ''approved'' \<and> map a_mac (s_history s') = [''aa'']"
proof -
  obtain n missing s' where r: "bulk_authorization Approving [''aa'', ''bb'', ''aa''] None 7 ''3'' ONE_HOST = (Reply (n, missing), s')"
    using bulk_replies [of "[''aa'', ''bb'', ''aa'']" None Approving 7 "''3''" ONE_HOST] by (auto simp: short_def)
  note a = bulk_authorization_accounts [OF r]
  have k: "known ''aa'' ONE_HOST" "\<not> known ''bb'' ONE_HOST" by (simp_all add: known_def one_host)
  have m: "missing = [''bb'']" using conjunct1 [OF a] k by simp
  have n: "n = 2" using conjunct1 [OF conjunct2 [OF a]] by (simp add: m)
  have g: "grant_of ''aa'' s' = Some ''approved''"
    using conjunct1 [OF conjunct2 [OF conjunct2 [OF a]]] k(1) by simp
  have e: "{m \<in> set [''aa'', ''bb'', ''aa'']. known m ONE_HOST \<and> previous_of m ONE_HOST \<noteq> granted Approving} = {''aa''}"
    using k by (auto simp: previous_of_def grant_of_def one_host)
  have "\<exists>rows. s_history s' = s_history ONE_HOST @ rows \<and> distinct (map a_mac rows) \<and> a_mac ` set rows = {''aa''}"
    using conjunct2 [OF conjunct2 [OF conjunct2 [OF a]]] unfolding e by (elim exE conjE, intro exI conjI)
  then obtain rows where rows: "s_history s' = s_history ONE_HOST @ rows \<and> distinct (map a_mac rows) \<and> a_mac ` set rows = {''aa''}" ..
  have "map a_mac rows = [''aa'']" using rows by (intro singleton_list) simp_all
  moreover have "s_history ONE_HOST = []" by (simp add: ONE_HOST_def empty_store_def)
  ultimately show ?thesis using r g rows by (intro exI [of _ s']) (simp add: m n)
qed

section \<open>What an operator cannot change\<close>

lemma settled_upsert: "settled m x s \<Longrightarrow> settled m x (hosts_upsert h s)"
  using settled_kept [of m x s "UpsertHost h"] by simp

lemma settled_bulk: "settled m x s \<Longrightarrow> settled m x (snd (foldl (set_disposition status) (n, s) ms))"
  by (induction ms arbitrary: n s) (auto simp: set_disposition_def settled_upsert split: option.split)

lemma settled_bulk_action: "settled m x s \<Longrightarrow> settled m x (snd (bulk_device_action ms action s))"
  using settled_bulk [of m x s _ 0 ms] by (simp add: bulk_device_action_def split_beta)

lemma settled_override: "settled m x s \<Longrightarrow> settled m x (fst (snd (set_device_override raw vals (s, t))))"
  by (auto simp: set_device_override_def Let_def settled_upsert split: option.split)

lemma settled_delete: "settled m x s \<Longrightarrow> settled m x (fst (snd (delete_device_override raw (s, t))))"
  by (auto simp: delete_device_override_def Let_def settled_upsert split: option.split bool.split)

text \<open>C14: a known host cannot be marked suspicious.  The bulk action counts the host as updated, and an override of its
  disposition is stored and its deletion accepted, but the host keeps the disposition known through each of them.\<close>

theorem known_host_never_unmarked:
  assumes "find_host m s = Some h" "h_disposition h = ''known''"
  shows "(\<exists>s'. bulk_device_action [m] ''mark_suspicious'' s = (Reply 1, s') \<and>
      (\<exists>h'. find_host m s' = Some h' \<and> h_disposition h' = ''known'')) \<and>
    (\<exists>h'. find_host m (snd (bulk_device_action ms action s)) = Some h' \<and> h_disposition h' = ''known'') \<and>
    (\<exists>h'. find_host m (fst (snd (set_device_override raw vals (s, t)))) = Some h' \<and> h_disposition h' = ''known'') \<and>
    (\<exists>h'. find_host m (fst (snd (delete_device_override raw (s, t)))) = Some h' \<and> h_disposition h' = ''known'')"
proof -
  have s: "settled m ''known'' s" using assms by (simp add: settled_def)
  have "bulk_device_action [m] ''mark_suspicious'' s = (Reply 1, snd (bulk_device_action [m] ''mark_suspicious'' s))"
    using assms(1) by (simp add: bulk_device_action_def set_disposition_def split_beta)
  moreover note settled_bulk_action [OF s, of "[m]" "''mark_suspicious''"]
  moreover note settled_bulk_action [OF s, of ms action]
  moreover note settled_override [OF s, of raw vals t]
  moreover note settled_delete [OF s, of raw t]
  ultimately show ?thesis unfolding settled_def by blast
qed

theorem known_host_never_unmarked_witness:
  "\<exists>s'. bulk_device_action [''aa''] ''mark_suspicious'' ONE_HOST = (Reply 1, s') \<and>
     (\<exists>h'. find_host ''aa'' s' = Some h' \<and> h_disposition h' = ''known'')"
  using known_host_never_unmarked [OF one_host(1)] by (simp add: BARE_HOST_def)

section \<open>Clearing the database\<close>

text \<open>C28: devices found again after the database was cleared are not noticed.  An address written since the start stays
  in the set of known addresses, which clearing the tables leaves as it is: although the learning window is closed,
  the device is recorded as one of the learning phase, not as one that joined the monitored network, and the time of
  the last discovery does not move.\<close>

theorem cleared_device_unnoticed:
  assumes "upsert_device before d0 s0 = (s, Inr ())" "s_sensor s = Some st" "window_closed_at st = Some since"
    and d: "d_mac d = d_mac d0" "d_discovery_context d = None" "valid_criticality (d_criticality d)"
    and s': "s' = fst (upsert_device now d (fst (clear_database (s, t))))"
  shows "(\<exists>d'. get_device (d_mac d) s' = Some d' \<and> d_discovery_context d' = Some ''learning'') \<and> s_sensor s' = Some st"
proof -
  obtain k where k: "s_known s = Some k" "d_mac d \<in> set k"
    using assms(1) d(1) by (auto simp: upsert_device_def note_device_write_def write_device_def get_sensor_state_def Let_def
        split: option.splits if_splits sum.splits prod.splits)
  let ?c = "fst (clear_database (s, t))"
  have c: "s_known ?c = Some k" "s_sensor ?c = Some st" "s_devices ?c = []"
    using k(1) assms(2) by (simp_all add: clear_database_def clear_all_devices_def)
  have n: "note_device_write now d ?c = (False, d, ?c)"
    using c(1) k(2) by (simp add: note_device_write_def Let_def)
  have "s' = ?c\<lparr>s_devices := [(d_mac d, bind_device d)]\<rparr>"
    using d(3) c(3) by (simp add: s' upsert_device_def n write_device_def upsert_row_def)
  then show ?thesis
    using c(2) d(2) by (simp add: get_device_def marshal_device_def bind_device_def)
qed

definition CLOSED_WINDOW :: store where
  "CLOSED_WINDOW = empty_store\<lparr>s_sensor := Some \<lparr>first_capture_at = 0, last_discovery_at = 0, window_closed_at = Some 1,
     last_heartbeat_at = None\<rparr>\<rparr>"

theorem cleared_device_unnoticed_witness:
  "\<exists>d'. get_device ''aa'' (fst (upsert_device 9 (new_device ''aa'' 9 9) (fst (clear_database
      (fst (upsert_device 5 (new_device ''aa'' 5 5) CLOSED_WINDOW), empty_tables))))) = Some d' \<and>
    d_discovery_context d' = Some ''learning''"
proof -
  let ?s = "fst (upsert_device 5 (new_device ''aa'' 5 5) CLOSED_WINDOW)"
  have c: "valid_criticality (d_criticality (new_device ''aa'' 5 5))" "valid_criticality (d_criticality (new_device ''aa'' 9 9))"
    by (simp_all add: new_device_def valid_criticality_def)
  have u: "upsert_device 5 (new_device ''aa'' 5 5) CLOSED_WINDOW = (?s, Inr ())"
    by (simp add: upsert_device_def write_device_def note_device_write_def new_device_def valid_criticality_def
        CLOSED_WINDOW_def empty_store_def get_sensor_state_def)
  have w: "s_sensor ?s = Some \<lparr>first_capture_at = 0, last_discovery_at = 5, window_closed_at = Some 1, last_heartbeat_at = None\<rparr>"
    by (simp add: upsert_device_def write_device_def note_device_write_def new_device_def valid_criticality_def
        CLOSED_WINDOW_def empty_store_def get_sensor_state_def)
  show ?thesis
    using cleared_device_unnoticed [OF u w _ _ _ c(2) refl, where since = 1] by (simp add: new_device_def)
qed

section \<open>Paths and columns\<close>

text \<open>The roots are compared as texts: a directory whose name continues that of a root is listed too.\<close>

lemma browse_sibling: "browse_allowed home (home @ continued)"
  by (simp add: browse_allowed_def)

text \<open>A null for the threshold passes the validation of the body, but not the column.\<close>

lemma patch_null_threshold:
  assumes "known m s" shows "fst (patch_device now m [PatchThreshold None] s) = ServerError"
proof -
  obtain s' where "ensure_device_row now m s = (True, s')"
    using ensure_row(1) [of now m s] assms by (cases "ensure_device_row now m s") auto
  then show ?thesis by (simp add: patch_device_def)
qed

section \<open>Pages of findings\<close>

lemma concat_pages: "concat (map (\<lambda>i. take k (drop (i * k) xs)) [0..<n]) = take (n * k) xs"
  by (induction n) (simp_all add: take_add add.commute [of k])

lemma pages_enough: "0 < k \<Longrightarrow> (n :: nat) \<le> (n + k - 1) div k * k"
  using div_mult_mod_eq [of "n + k - 1" k] mod_less_divisor [of k "n + k - 1"] by linarith

lemma clamp_positive: "0 < clamp_per_page n"
  by (simp add: clamp_per_page_def)

text \<open>the pages of findings lose and repeat nothing.  Whatever page size is asked for, the pages the reply announces,
  read one after the other, are all active findings, newest first, and no page has more than 500.\<close>

theorem alert_pages_partition:
  "concat (map (\<lambda>p. pg_alerts (api_alerts now (int p) per_page s)) [1..<Suc (pg_pages (api_alerts now 1 per_page s))]) =
     newest_first (filter (active_finding now) (s_findings s)) \<and>
   (\<forall>p. length (pg_alerts (api_alerts now p per_page s)) \<le> min (pg_per_page (api_alerts now p per_page s)) 500)"
proof -
  let ?k = "clamp_per_page per_page"
  let ?xs = "newest_first (filter (active_finding now) (s_findings s))"
  let ?n = "pg_pages (api_alerts now 1 per_page s)"
  have page: "pg_alerts (api_alerts now (int (Suc i)) per_page s) = take ?k (drop (i * ?k) ?xs)" for i
    by (simp add: api_alerts_def list_active_def Let_def nat_mult_distrib)
  have "[1..<Suc ?n] = map Suc [0..<?n]" by (simp add: map_Suc_upt)
  then have "concat (map (\<lambda>p. pg_alerts (api_alerts now (int p) per_page s)) [1..<Suc ?n]) =
      concat (map (\<lambda>i. take ?k (drop (i * ?k) ?xs)) [0..<?n])"
    by (simp only: map_map comp_def page)
  also have "\<dots> = take (?n * ?k) ?xs" by (rule concat_pages)
  also have "\<dots> = ?xs"
    using pages_enough [OF clamp_positive, of "count_active now s" per_page]
    by (simp add: api_alerts_def count_active_def newest_first_def Let_def)
  finally show ?thesis by (simp add: api_alerts_def list_active_def Let_def clamp_per_page_def)
qed

section \<open>The query guard\<close>

text \<open>A word of the text: an occurrence with no word character next to it.\<close>

definition whole_word :: "(nat \<Rightarrow> bool) \<Rightarrow> ustr \<Rightarrow> ustr \<Rightarrow> bool" where
  "whole_word w k t \<longleftrightarrow> (\<exists>a b. t = a @ k @ b \<and> (a \<noteq> [] \<longrightarrow> \<not> w (List.last a)) \<and> (b \<noteq> [] \<longrightarrow> \<not> w (hd b)))"

lemma lang_str: "lang (re_str k) (a @ k @ b) (length a) (length a + length k)"
proof (induction k arbitrary: a)
  case (Cons c k)
  have "lang (re_str k) (a @ (c # k) @ b) (Suc (length a)) (length a + length (c # k))"
    using Cons.IH [of "a @ [c]"] by simp
  then show ?case by (auto simp: chr_is_def nth_append)
qed simp

lemma search_lang:
  assumes "wf_re r" "i \<le> length s" "lang r s i j" shows "re_search r s \<noteq> None"
proof -
  have "re_match_at r s i \<noteq> None"
    using rx_lang [OF assms(1,2), of j "[]"] assms(3) by (auto simp: re_match_at_def split: list.splits)
  moreover have "i \<in> set is \<Longrightarrow> re_match_at r s i \<noteq> None \<Longrightarrow> search_from r s is \<noteq> None" for "is"
    by (induction "is") (auto split: option.splits)
  moreover have "i \<in> set [0..<length s + 1]" using assms(2) by (auto simp: le_less)
  ultimately show ?thesis unfolding re_search_def by blast
qed

lemma word_search:
  assumes "whole_word w k t" "k \<noteq> []" "\<forall>c \<in> set k. w c"
  shows "re_search (re_seq [Wb w, re_str k, Wb w]) t \<noteq> None"
proof -
  obtain a b where t: "t = a @ k @ b" "a \<noteq> [] \<Longrightarrow> \<not> w (List.last a)" "b \<noteq> [] \<Longrightarrow> \<not> w (hd b)"
    using assms(1) unfolding whole_word_def by blast
  let ?r = "re_seq [Wb w, re_str k, Wb w]"
  have "word_edge w t (length a)"
    using t(1,2) assms(2,3) by (cases a rule: rev_cases) (auto simp: word_edge_def nth_append hd_conv_nth [symmetric])
  moreover have "word_edge w t (length a + length k)"
  proof -
    have "w (t ! (length a + length k - 1))"
      using t(1) assms(2,3) by (cases k rule: rev_cases) (auto simp: nth_append)
    moreover have "\<not> (length a + length k < length t \<and> w (t ! (length a + length k)))"
      using t(1,3) by (cases b) (auto simp: nth_append)
    ultimately show ?thesis using assms(2) by (simp add: word_edge_def)
  qed
  ultimately have "lang ?r t (length a) (length a + length k)"
    using lang_str [of k a b] by (auto simp: t(1))
  moreover have "wf_re (re_str k)" by (induction k) auto
  then have "wf_re ?r" by simp
  moreover have "length a \<le> length t" by (simp add: t(1))
  ultimately show ?thesis by (intro search_lang)
qed

text \<open>C4: what passes the query guard.  The statement that is executed is the one given, without its outer blanks and
  perhaps with a limit at its end; it begins with SELECT, has no semicolon, and holds none of the forbidden keywords as
  a word, in whatever case.\<close>

theorem accepted_query_selects:
  assumes "guard_query env raw = Reply q" and word: "\<forall>c. is_word_char c \<longrightarrow> q_word env c"
  shows "(\<exists>rest \<in> {[], lit '' LIMIT 10000''}. q = strip raw @ rest) \<and> 59 \<notin> set q \<and>
    starts_with (lit ''SELECT'') (dropWhile is_space (q_upper env (strip raw))) \<and>
    (\<forall>kw \<in> set FORBIDDEN_KEYWORDS. \<not> whole_word (q_word env) (lit kw) (q_upper env (strip raw)))"
proof -
  have chars: "lit kw \<noteq> [] \<and> (\<forall>c \<in> set (lit kw). is_word_char c)" if "kw \<in> set FORBIDDEN_KEYWORDS" for kw
  proof -
    have "list_all (\<lambda>kw. lit kw \<noteq> [] \<and> list_all is_word_char (lit kw)) FORBIDDEN_KEYWORDS" by code_simp
    then show ?thesis using that by (auto simp: list_all_iff)
  qed
  have g: "59 \<notin> set (strip raw)" "starts_with (lit ''SELECT'') (dropWhile is_space (q_upper env (strip raw)))"
    "\<not> list_ex (\<lambda>kw. re_search (keyword_re (q_word env) kw) (q_upper env (strip raw)) \<noteq> None) FORBIDDEN_KEYWORDS"
    "q = (if contains_sub (lit ''limit'') (q_lower env (strip raw)) then strip raw else strip raw @ lit '' LIMIT 10000'')"
    using assms(1) by (auto simp: guard_query_def Let_def split: if_splits)
  have "\<not> whole_word (q_word env) (lit kw) (q_upper env (strip raw))" if "kw \<in> set FORBIDDEN_KEYWORDS" for kw
  proof
    assume "whole_word (q_word env) (lit kw) (q_upper env (strip raw))"
    then have "re_search (keyword_re (q_word env) kw) (q_upper env (strip raw)) \<noteq> None"
      unfolding keyword_re_def using chars [OF that] word by (intro word_search) auto
    then show False using g(3) that by (auto simp: list_ex_iff)
  qed
  moreover have "59 \<notin> set (lit '' LIMIT 10000'')" by code_simp
  ultimately show ?thesis using g(1,2,4) by auto
qed

lemma search_none: "search_from r s is = None \<longleftrightarrow> list_all (\<lambda>i. re_match_at r s i = None) is"
  by (induction "is") (auto split: option.splits)

lemma sample_query_free:
  "list_all (\<lambda>kw. re_search (keyword_re is_word_char kw) (lit ''SELECT MAC'') = None) FORBIDDEN_KEYWORDS"
  by (simp add: FORBIDDEN_KEYWORDS_def re_search_def search_none upt_rec keyword_re_def re_match_at_def chr_is_def lit_def)

lemma sample_query:
  "guard_query \<lparr>q_upper = upper, q_lower = lower, q_word = is_word_char\<rparr> (lit ''select mac'') =
     Reply (lit ''select mac LIMIT 10000'')"
proof -
  have "strip (lit ''select mac'') = lit ''select mac''"
    by (rule strip_ends) (simp_all add: lit_def is_space_def)
  moreover have "upper (lit ''select mac'') = lit ''SELECT MAC''" "lower (lit ''select mac'') = lit ''select mac''"
    by (simp_all add: lit_def upper_def upper_char_def lower_def lower_char_def)
  moreover have "\<not> contains_sub (lit ''limit'') (lit ''select mac'')" by (simp add: lit_def)
  moreover have "starts_with (lit ''SELECT'') (dropWhile is_space (lit ''SELECT MAC''))" "59 \<notin> set (lit ''select mac'')"
    by (simp_all add: lit_def is_space_def)
  moreover have "\<not> list_ex (\<lambda>kw. re_search (keyword_re is_word_char kw) (lit ''SELECT MAC'') \<noteq> None) FORBIDDEN_KEYWORDS"
    using sample_query_free by (auto simp: list_all_iff list_ex_iff)
  moreover have "lit ''select mac'' @ lit '' LIMIT 10000'' = lit ''select mac LIMIT 10000''" "lit ''select mac'' \<noteq> []"
    by (simp_all add: lit_def)
  ultimately show ?thesis by (simp add: guard_query_def Let_def)
qed

theorem accepted_query_selects_witness:
  "\<not> whole_word is_word_char (lit ''DELETE'') (upper (strip (lit ''select mac''))) \<and> 59 \<notin> set (lit ''select mac LIMIT 10000'')"
  using accepted_query_selects [OF sample_query] by (simp add: FORBIDDEN_KEYWORDS_def)

section \<open>Uploaded leases\<close>

text \<open>An address with its host and its device, both at one IP address.\<close>

definition imported :: "mac \<Rightarrow> string \<Rightarrow> store \<Rightarrow> bool" where
  "imported m ip s \<longleftrightarrow> (\<exists>h. find_host m s = Some h \<and> h_ip_addr h = Some ip) \<and>
     (\<exists>d. get_device m s = Some d \<and> d_ip_v4 d = Some ip)"

lemma note_ip [simp]: "d_ip_v4 (fst (snd (note_device_write now d s))) = d_ip_v4 d"
  by (simp add: note_device_write_def Let_def split_beta)

lemma import_own: "imported (unlit (im_mac d)) (unlit (im_ip d)) (import_lease ts s d)"
  by (auto simp: imported_def import_lease_def Let_def find_host_def hosts_upsert_def merge_host_def get_device_def
      upsert_devices new_device_def valid_criticality_def marshal_device_def bind_device_def merge_device_def coalesce_def
      split: option.split)

lemma import_other:
  "imported m ip s \<Longrightarrow> m \<noteq> unlit (im_mac d) \<Longrightarrow> imported m ip (import_lease ts s d)"
  by (simp add: imported_def import_lease_def Let_def find_host_def hosts_upsert_def get_device_def
      upsert_devices new_device_def)

lemma distinct_snoc_map: "distinct (map f (xs @ [x])) \<Longrightarrow> y \<in> set xs \<Longrightarrow> f y \<noteq> f x"
  by simp (metis imageI)

lemma import_all:
  "distinct (map (unlit \<circ> im_mac) ds) \<Longrightarrow> d \<in> set ds \<Longrightarrow>
   imported (unlit (im_mac d)) (unlit (im_ip d)) (foldl (import_lease ts) s ds)"
proof (induction ds rule: rev_induct)
  case (snoc x ds)
  show ?case
  proof (cases "d = x")
    case False
    then have d: "d \<in> set ds" using snoc.prems(2) by simp
    have "unlit (im_mac d) \<noteq> unlit (im_mac x)" using distinct_snoc_map [OF snoc.prems(1) d] by simp
    with d show ?thesis using snoc import_other by simp
  qed (simp add: import_own)
qed simp

definition lease_mac :: "lease \<Rightarrow> ustr" where "lease_mac l = fst (snd l)"
definition lease_ip :: "lease \<Rightarrow> ustr" where "lease_ip l = fst (snd (snd l))"

lemma lease_device_simps [simp]:
  "im_mac (lease_device l) = lease_mac l" "im_ip (lease_device l) = lease_ip l" "im_flavor (lease_device l) = ''dnsmasq''"
  by (cases l; simp add: lease_device_def leased_def lease_mac_def lease_ip_def)+


lemma ascii_bytes_read: "list_all (\<lambda>c. c < 128) cs \<Longrightarrow> utf8_replace (map word_of_nat cs) = cs"
proof -
  assume a: "list_all (\<lambda>c. c < 128) cs"
  then have "\<forall>b \<in> set (map word_of_nat cs :: bytes). b < 0x80"
    by (auto simp: list_all_iff word_less_nat_alt unat_word_of_nat_byte)
  moreover have "map unat (map word_of_nat cs :: bytes) = cs"
    using a by (auto simp: list_all_iff unat_word_of_nat_byte intro!: map_idI)
  ultimately show ?thesis by (simp add: utf8_replace_def utf8_decode_ascii)
qed


end
