(* ===== verification/Spec2Isabelle.thy ===== *)
theory Spec2Isabelle
  imports SensorWire Tls IotScadaProps Caches EvidenceProps StoreProps BaselineProps PresenceProps RulesProps
    PipelineProps SpoofingProps AuthProps DnsMatchingProps MatchingProps ProcessorsProps
    CaptureProps BannersProps DiscoveryProps LookupProps CertaintyProps TopologyProps AttackProps AppProps
    ReportProps DispatchProps ProbeProps RouteProps
begin

text \<open>
  Leetha is a passive network monitor.  Packets captured on interfaces, or received from remote sensors,
  are parsed by protocol parsers into normalised packets; the pipeline turns each of them into evidence,
  fuses the evidence of an address into a verdict, runs the finding rules and writes hosts, verdicts,
  findings and identities to the store.  Timers advance the learning window and the presence of devices.
  All paths below are relative to \<open>src/src/leetha\<close>.

  \<^bold>\<open>Theories.\<close>

  \<^item> \<open>Prelude\<close>: Python values (\<open>pyval\<close>), exceptions (\<open>py_error\<close>, results are
    \<open>py_error + 'a\<close>), bytes and slices, big and little endian numbers, texts as code points
    (\<open>ustr\<close>), insertion-ordered dictionaries, and their lemmas.
  \<^item> \<open>StreamDecoder\<close>: the contract of an incremental decoder, a locale.  \<open>SensorWire\<close>:
    \<open>capture/remote/protocol.py\<close>, \<open>server.py\<close>, \<open>config.py\<close> (frames, sessions, the
    manager), which interprets it.
  \<^item> \<open>Packets\<close>: \<open>capture/packets.py\<close>.  Parsers: \<open>Tls\<close> (\<open>capture/tls_parser.py\<close>,
    \<open>patterns/tls.py\<close>, \<open>capture/protocols/tls.py\<close>), \<open>IotScada\<close> and
    \<open>IotScadaProps\<close> (\<open>capture/protocols/iot_scada.py\<close>), \<open>Dhcp\<close>
    (\<open>capture/protocols/dhcp.py\<close>).
  \<^item> \<open>Frames\<close>: what the parsers read of a captured frame.  \<open>LinkParsers\<close>,
    \<open>NetParsers\<close>, \<open>DnsParsers\<close>, \<open>WsDiscovery\<close>, \<open>Banners\<close>: the parsers of
    \<open>capture/parsers/\<close>, \<open>capture/protocols/\<close> and \<open>capture/banner/\<close>.  \<open>Capture\<close>:
    the parser chain and the ingestion of frames, \<open>capture/engine.py\<close>.  Their properties:
    \<open>CaptureProps\<close>, \<open>BannersProps\<close>, \<open>DiscoveryProps\<close>.
  \<^item> \<open>Caches\<close>: \<open>capture/dedup.py\<close> and \<open>capture/banner/connections.py\<close>, two
    interpretations of one locale of bounded tables with eviction in order of age.
  \<^item> \<open>Regex\<close>: a backtracking matcher for the regular expressions of the program, with the order of
    alternatives of the \<open>re\<close> module.  \<open>Hostname\<close>: \<open>evidence/hostname.py\<close> run on it.
  \<^item> \<open>Evidence\<close>, \<open>EvidenceProps\<close>: the verdict engine, \<open>evidence/engine.py\<close>,
    \<open>models.py\<close>, \<open>weights.py\<close> and the tables it reads of \<open>fingerprint/evidence.py\<close>.
  \<^item> \<open>Store\<close>, \<open>StoreProps\<close>: the tables and operations of \<open>store/database.py\<close>,
    \<open>hosts.py\<close>, \<open>findings.py\<close>, \<open>verdicts.py\<close>; a table is an association list in
    order of insertion, an SQL statement a function on it.
  \<^item> \<open>Baseline\<close>, \<open>BaselineProps\<close>: the learning window, \<open>baseline.py\<close>.
    \<open>Presence\<close>, \<open>PresenceProps\<close>: \<open>presence/sweeper.py\<close>, \<open>rules/presence.py\<close>.
  \<^item> \<open>Behavior\<close>: \<open>processors/behavioral.py\<close>.  \<open>Rules\<close>, \<open>RulesProps\<close>:
    the rules of \<open>rules/\<close> with their module-level cooldown tables.
  \<^item> \<open>Identity\<close>: \<open>fingerprint/mac_intel.py\<close>, \<open>store/identities.py\<close> and the
    correlation of the pipeline.
  \<^item> \<open>Pipeline\<close>, \<open>PipelineProps\<close>: \<open>core/pipeline.py\<close>, composed from all of the above.
  \<^item> \<open>DnsMatching\<close>, \<open>Matching\<close> with their properties: \<open>patterns/matching.py\<close>, the cascade
    of rules for DNS names and the matching of banners, services, DHCP options and host names against the
    pattern files, which are an argument.
  \<^item> \<open>Observers\<close>, \<open>ObserversInfra\<close>, \<open>ObserversNames\<close>: the processors of \<open>processors/\<close>,
    functions from a packet to evidence; \<open>Processors\<close>, \<open>ProcessorsProps\<close>: their registry and
    how the pipeline runs them.
  \<^item> \<open>Signatures\<close>, \<open>DhcpSignatures\<close>, \<open>Lookup\<close>: \<open>fingerprint/lookup.py\<close>, the
    methods that match a packet against the downloaded signature databases, which are a record of data, and
    the lookups of the pipeline.  Properties: \<open>LookupProps\<close>, and \<open>CertaintyProps\<close>, where the
    processors, the lookups and the cross-validation come together.
  \<^item> \<open>Tables\<close>: the remaining tables of \<open>store/\<close> (alerts, bindings, ARP history, suppression
    rules, tokens, snapshots, sightings, probe targets, overrides).  \<open>Spoofing\<close>,
    \<open>SpoofingProps\<close>: the address verifier \<open>analysis/spoofing.py\<close> with the trust and
    suppression routes of \<open>ui/web/app.py\<close>.  \<open>Auth\<close>, \<open>AuthProps\<close>: \<open>auth/\<close>,
    the token routes, the middlewares and the rate limiter of the web interface.

  \<^item> \<open>DeviceTypes\<close>: \<open>connection_type.py\<close> and the tables of \<open>topology.py\<close> with the
    functions that type a device by them.  \<open>Topology\<close>: \<open>build_topology_graph\<close>;
    \<open>TopologyLinks\<close> describes the edges it draws by an inductive relation for the clients and one
    for the origin of an edge, \<open>TopologyProps\<close> holds the properties.

  \<^item> \<open>AttackSurface\<close>, \<open>AttackChains\<close>, \<open>AttackProps\<close>:
    \<open>analysis/attack_surface.py\<close>.  A rule is a function that may raise; the analysis keeps the findings
    of the rules that do not, and builds chains from them.  The texts for people are left out.

  \<^item> \<open>Application\<close>, \<open>AppProps\<close>: \<open>app.py\<close> with \<open>auth/tokens.py\<close>, which put the parts
    together: the packet thread runs the pipeline and then the address verifier on one store and turns the
    alerts into findings; subscribers receive the events; timers look for silent infrastructure.

  \<^item> \<open>DhcpCheck\<close>: \<open>analysis/dhcp_anomaly.py\<close>.  \<open>Reports\<close>:
    \<open>analysis/validator.py\<close>, \<open>timeline.py\<close>, \<open>alerts/engine.py\<close>.  Their properties are
    in \<open>ReportProps\<close>.  \<open>Dispatch\<close>, \<open>DispatchProps\<close>: \<open>pipeline.py\<close>, the
    packet dispatcher and the batch committer.  \<open>ProbeScan\<close>, \<open>ProbeProps\<close>:
    \<open>probe/engine.py\<close> and \<open>probe/scheduler.py\<close>.  \<open>Leases\<close>, \<open>LeasesProps\<close>:
    \<open>inventory/importers/dhcp_leases.py\<close>, with the matcher of \<open>Regex\<close>.

  \<^item> \<open>DeviceRoutes\<close>, \<open>RouteProps\<close>: the routes of \<open>ui/web/routers/\<close> that change the
    store (devices, authorisation, learning window, overrides, lease upload, findings, clearing the database)
    and the guards of the query and browse routes.

  \<^bold>\<open>What is shown.\<close>  Codecs: frames round-trip and any chunking of a stream gives the same
  frames; TLS, CoAP, MQTT, GOOSE and PROFINET encodings, TXT records and NetBIOS names are decoded exactly;
  truncated hellos raise.  Capture: every IP frame is classified, repeated observations are dropped, the
  ring keeps the latest frames, Telnet negotiation is removed and nothing else, and the order of the chain
  takes mDNS and DNS responses away from the parsers meant for them.
  Caches: bounds, soundness and completeness of suppression.  Verdicts: values come from evidence, host
  names are valid, certainty is a percentage, strong evidence wins; all evidence a packet gives is rated
  between 0 and 1.  Lookups: the longest prefix decides, directions of a handshake are kept apart, and one
  failing lookup silences a device.  Store: reachable stores are well
  formed, the audit trail is a chain, discovery contexts and host dispositions are final where the
  code means them to be.  Timers: the window closes exactly when learned and does close; a presence pass
  implements the presence of each address and is idempotent.  Rules: rate limits, quiet inventory,
  sustained drift.  Pipeline: a discovery is reported at most once, every packet without an exception
  leaves its host, a DHCP client without a client identifier raises and is lost, forwarded
  evidence on infrastructure is checked.  Address verifier: a consistent network is silent; a replaced
  gateway and a manual pin are lost in the stated situations.  Access control: admin-only routes need an
  unrevoked admin token, revocation is final, and the rate limiter fails open when crowded.  Topology:
  with a core switch the drawn network hangs together, without one access points are cut off; edges end in
  nodes; a manual parent is the only parent.  Analysis: a chain rests on an actionable finding, exclusions
  change no chain, tunnels hide layer 2, and two chains can never be built.  Application: subscribers keep
  the newest events, a gateway learned from DHCP is guarded while a binding trusted at run time is not,
  silent infrastructure is reported once, and when a start restores an admin token.  Reports: the anomaly log
  keeps the end of what was written, the timeline shows the newest events, batches of store operations equal
  single ones, packets keep their order per device, the bundled probe plugins identify nothing.  Routes:
  what a bulk authorisation reports and logs, what an operator cannot change, what clearing the database does
  not forget, an uploaded lease file is imported, the pages of findings are complete, and what passes the
  query guard.

  \<^bold>\<open>Locales.\<close>  \<open>StreamDecoder\<close> holds the decoder contract, \<open>Caches\<close> the bounded
  table, \<open>StoreProps\<close> \<open>audited\<close> and \<open>sticky\<close>, \<open>BaselineProps\<close>
  \<open>deadline\<close>, \<open>RulesProps\<close> \<open>cooldown\<close>; each is interpreted on the definitions of
  the model.

  \<^bold>\<open>Conventions and bounds.\<close>  Wire bytes are \<open>8 word\<close>; Python integers are \<open>int\<close> or
  \<open>nat\<close>; Python floats are exact rationals, noted where rounding could matter.  Times are
  microseconds (store) or rationals (monotonic clock) and arguments of the operations.  Loops are
  recursions on the remaining input with termination proofs, the Telnet loop a \<open>while_option\<close> that is
  shown to return; no fuel is used.  Hash functions, the
  fingerprint databases, and the tests of local and private addresses are parameters.

  \<^bold>\<open>Not modelled.\<close>  Sockets, threads and asynchronous interleavings inside one handler, the packet
  library, SQL beyond the statements used, the listings and exports of the web interface, terminal output, the probe plugins, downloads, data files, command
  lines, certificates and compilation of sensors; the manifest lists every part with its reason.
\<close>

end
